(* ===== verification/Prelude.thy ===== *)
theory Prelude
  imports Main "HOL-Library.Word" "HOL-Library.List_Lexorder" "HOL-Library.Char_ord"
    "HOL-Library.Product_Lexorder" "HOL-Library.Multiset" "HOL-Library.Sublist"
begin

text \<open>
  What every component of the development shares: Rust results and the \<open>?\<close> operator, the
  validation loops of the contracts, UTF-8 strings with the parts of \<open>str\<close> the code calls,
  \<open>windows(2)\<close> orderings and the order of derived \<open>Ord\<close> instances.

  A Rust \<open>String\<close> is its UTF-8 byte sequence: a HOL \<open>string\<close> whose characters are bytes. So
  \<open>len()\<close> is \<open>length\<close>, the derived order of strings is the bytewise lexicographic order of
  \<open>List_Lexorder\<close>, and \<open>chars().count()\<close>, \<open>trim()\<close> and \<open>char::is_control\<close> decode the bytes
  as Rust does on well-formed UTF-8.
\<close>

named_theorems ok_iff \<open>when a validation returns \<open>Ok\<close>\<close>

section \<open>Results\<close>

abbreviation Ok :: "'a \<Rightarrow> 'e + 'a" where
  "Ok \<equiv> Inr"

abbreviation Err :: "'e \<Rightarrow> 'e + 'a" where
  "Err \<equiv> Inl"

text \<open>\<open>and_then r f\<close> is \<open>let x = r?; f(x)\<close>; \<open>map_err\<close> is the \<open>From\<close> conversion of \<open>?\<close>.\<close>

definition and_then :: "'e + 'a \<Rightarrow> ('a \<Rightarrow> 'e + 'b) \<Rightarrow> 'e + 'b" where
  "and_then r f = (case r of Inl e \<Rightarrow> Inl e | Inr x \<Rightarrow> f x)"

definition map_err :: "('e \<Rightarrow> 'd) \<Rightarrow> 'e + 'a \<Rightarrow> 'd + 'a" where
  "map_err f r = (case r of Inl e \<Rightarrow> Inl (f e) | Inr x \<Rightarrow> Inr x)"

definition ok_or :: "'a option \<Rightarrow> 'e \<Rightarrow> 'e + 'a" where
  "ok_or x e = (case x of None \<Rightarrow> Inl e | Some v \<Rightarrow> Inr v)"

definition is_ok :: "'e + 'a \<Rightarrow> bool" where
  "is_ok r = (case r of Inl _ \<Rightarrow> False | Inr _ \<Rightarrow> True)"

lemma and_then_simps [simp]:
  "and_then (Inl e) f = Inl e"
  "and_then (Inr x) f = f x"
  by (simp_all add: and_then_def)

lemma and_then_Inr_iff [ok_iff]: "and_then r f = Inr y \<longleftrightarrow> (\<exists>x. r = Inr x \<and> f x = Inr y)"
  by (cases r) auto

lemma and_then_cong [fundef_cong]:
  "r = r' \<Longrightarrow> (\<And>x. r' = Inr x \<Longrightarrow> f x = g x) \<Longrightarrow> and_then r f = and_then r' g"
  by (cases r') auto

lemma map_err_simps [simp]:
  "map_err f (Inl e) = Inl (f e)"
  "map_err f (Inr x) = Inr x"
  by (simp_all add: map_err_def)

lemma map_err_Inr_iff [ok_iff]: "map_err f r = Inr y \<longleftrightarrow> r = Inr y"
  by (cases r) auto

lemma ok_or_simps [simp]:
  "ok_or None e = Inl e"
  "ok_or (Some x) e = Inr x"
  by (simp_all add: ok_or_def)

lemma ok_or_Inr_iff [ok_iff]: "ok_or x e = Inr y \<longleftrightarrow> x = Some y"
  by (cases x) auto

lemma is_ok_iff: "is_ok r \<longleftrightarrow> (\<exists>x. r = Inr x)"
  by (cases r) (auto simp: is_ok_def)

section \<open>Validation sequences\<close>

text \<open>
  A validation method of the code is a sequence of early returns. \<open>fail_if c e\<close> is
  \<open>if c { return Err(e); }\<close>, \<open>checks\<close> runs such statements in order and returns the first
  error, \<open>check_opt\<close> is \<open>if let Some(v) = x { f(v)?; }\<close>, \<open>each\<close> is
  \<open>for x in xs { f(x)?; }\<close>, and \<open>each_unique\<close> is the loop that also inserts a key into a
  \<open>BTreeSet\<close> and returns an error when it was there: \<open>pre\<close> are the statements before the
  insertion and \<open>post\<close> those after it.
\<close>

definition fail_if :: "bool \<Rightarrow> 'e \<Rightarrow> 'e + unit" where
  "fail_if c e = (if c then Inl e else Inr ())"

fun checks :: "('e + unit) list \<Rightarrow> 'e + unit" where
  "checks [] = Inr ()"
| "checks (r # rs) = (case r of Inl e \<Rightarrow> Inl e | Inr _ \<Rightarrow> checks rs)"

definition check_opt :: "('a \<Rightarrow> 'e + unit) \<Rightarrow> 'a option \<Rightarrow> 'e + unit" where
  "check_opt f x = (case x of None \<Rightarrow> Inr () | Some v \<Rightarrow> f v)"

fun each :: "('a \<Rightarrow> 'e + unit) \<Rightarrow> 'a list \<Rightarrow> 'e + unit" where
  "each f [] = Inr ()"
| "each f (x # xs) = (case f x of Inl e \<Rightarrow> Inl e | Inr _ \<Rightarrow> each f xs)"

fun each_unique :: "('a \<Rightarrow> 'e + unit) \<Rightarrow> ('a \<Rightarrow> 'k) \<Rightarrow> 'e \<Rightarrow> ('a \<Rightarrow> 'e + unit) \<Rightarrow> 'k set \<Rightarrow> 'a list
    \<Rightarrow> 'e + unit" where
  "each_unique pre key dup post seen [] = Inr ()"
| "each_unique pre key dup post seen (x # xs) =
     (case pre x of
        Inl e \<Rightarrow> Inl e
      | Inr _ \<Rightarrow>
          if key x \<in> seen then Inl dup
          else (case post x of
                  Inl e \<Rightarrow> Inl e
                | Inr _ \<Rightarrow> each_unique pre key dup post (insert (key x) seen) xs))"

lemma fail_if_Inr_iff [ok_iff]: "fail_if c e = Inr u \<longleftrightarrow> \<not> c"
  by (simp add: fail_if_def)

lemma fail_if_simps [simp]:
  "fail_if True e = Inl e"
  "fail_if False e = Inr ()"
  by (simp_all add: fail_if_def)

lemma checks_Nil_iff [ok_iff]: "checks [] = Inr u \<longleftrightarrow> True"
  by simp

lemma checks_Cons_iff [ok_iff]: "checks (r # rs) = Inr u \<longleftrightarrow> r = Inr () \<and> checks rs = Inr ()"
  by (auto split: sum.splits)

lemma checks_run [simp]:
  "checks (Inr u # rs) = checks rs"
  "checks (Inl e # rs) = Inl e"
  by simp_all

text \<open>The error of a sequence is the error of its first failing statement.\<close>

lemma checks_first_error:
  "checks rs = Inl e \<longleftrightarrow> (\<exists>us vs. rs = us @ Inl e # vs \<and> checks us = Inr ())"
proof (induction rs)
  case Nil
  then show ?case by simp
next
  case (Cons r rs)
  show ?case
  proof (cases r)
    case (Inl d)
    then show ?thesis by (auto simp: Cons_eq_append_conv checks.simps)
  next
    case (Inr u)
    then show ?thesis using Cons.IH by (force simp: Cons_eq_append_conv checks.simps)
  qed
qed

lemma check_opt_simps [simp]:
  "check_opt f None = Inr ()"
  "check_opt f (Some v) = f v"
  by (simp_all add: check_opt_def)

lemma check_opt_iff [ok_iff]: "check_opt f x = Inr u \<longleftrightarrow> (\<forall>v. x = Some v \<longrightarrow> f v = Inr ())"
  by (cases x) auto

lemma each_iff [ok_iff]: "each f xs = Inr u \<longleftrightarrow> (\<forall>x \<in> set xs. f x = Inr ())"
  by (induction xs) (auto split: sum.splits)

lemma each_unique_iff [ok_iff]:
  "each_unique pre key dup post seen xs = Inr u \<longleftrightarrow>
     (\<forall>x \<in> set xs. pre x = Inr () \<and> post x = Inr () \<and> key x \<notin> seen) \<and> distinct (map key xs)"
  by (induction xs arbitrary: seen) (auto split: sum.splits intro: rev_image_eqI)

text \<open>
  The loops stay folded in proofs, where \<open>ok_iff\<close> says when they succeed; a concrete run
  unfolds them with \<open>run_simps\<close>.
\<close>

lemmas run_simps = checks.simps each.simps each_unique.simps

declare checks.simps(2) [simp del] each.simps(2) [simp del] each_unique.simps(2) [simp del]

text \<open>
  The contract of a validation method: what it accepts. The clients of a record that has such
  a method validate an optional one, a list of them, or a list with unique keys; what these
  accept follows once and for all.
\<close>

locale contract =
  fixes validate :: "'a \<Rightarrow> 'e + unit" and wf :: "'a \<Rightarrow> bool"
  assumes validate_iff: "validate x = Inr u \<longleftrightarrow> wf x"
begin

lemma optional_iff: "check_opt validate x = Inr u \<longleftrightarrow> (\<forall>v. x = Some v \<longrightarrow> wf v)"
  by (cases x) (auto simp: validate_iff)

lemma all_iff: "each validate xs = Inr u \<longleftrightarrow> (\<forall>x \<in> set xs. wf x)"
  by (simp add: each_iff validate_iff)

lemma unique_iff:
  "each_unique validate key dup (\<lambda>_. Inr ()) {} xs = Inr u \<longleftrightarrow>
     (\<forall>x \<in> set xs. wf x) \<and> distinct (map key xs)"
  by (simp add: each_unique_iff validate_iff)

lemma rejects: "\<not> wf x \<Longrightarrow> \<exists>e. validate x = Inl e"
  using validate_iff [of x] by (cases "validate x") auto

end

section \<open>Bytes and UTF-8 strings\<close>

type_synonym u8 = "8 word"
type_synonym u16 = "16 word"
type_synonym u32 = "32 word"
type_synonym u64 = "64 word"

lemma unat_of_nat_u64: "k < 2 ^ 64 \<Longrightarrow> unat (of_nat k :: u64) = k"
  by (simp add: unat_of_nat)

lemma of_nat_u64_le: "j \<le> k \<Longrightarrow> k < 2 ^ 64 \<Longrightarrow> (of_nat j :: u64) \<le> of_nat k"
  by (simp add: word_le_nat_alt unat_of_nat_u64)

definition byte :: "char \<Rightarrow> nat" where
  "byte c = of_char c"

definition is_digit :: "char \<Rightarrow> bool" where
  "is_digit c \<longleftrightarrow> 48 \<le> byte c \<and> byte c \<le> 57"

definition is_lower :: "char \<Rightarrow> bool" where
  "is_lower c \<longleftrightarrow> 97 \<le> byte c \<and> byte c \<le> 122"

definition is_upper :: "char \<Rightarrow> bool" where
  "is_upper c \<longleftrightarrow> 65 \<le> byte c \<and> byte c \<le> 90"

definition is_alnum :: "char \<Rightarrow> bool" where
  "is_alnum c \<longleftrightarrow> is_digit c \<or> is_lower c \<or> is_upper c"

definition is_lower_hex :: "char \<Rightarrow> bool" where
  "is_lower_hex c \<longleftrightarrow> is_digit c \<or> (97 \<le> byte c \<and> byte c \<le> 102)"

lemmas byte_class_defs =
  byte_def is_digit_def is_lower_def is_upper_def is_alnum_def is_lower_hex_def

definition to_ascii_lowercase :: "string \<Rightarrow> string" where
  "to_ascii_lowercase s = map (\<lambda>c. if is_upper c then char_of (byte c + 32) else c) s"

lemma is_lower_hex_alnum: "is_lower_hex c \<Longrightarrow> is_alnum c"
  by (auto simp: byte_class_defs)

lemma list_all_replicate [simp]: "list_all P (replicate n x) \<longleftrightarrow> n = 0 \<or> P x"
  by (induction n) auto

text \<open>\<open>chars().count()\<close>: every byte that is not a UTF-8 continuation byte starts a character.\<close>

definition chars_count :: "string \<Rightarrow> nat" where
  "chars_count s = length (filter (\<lambda>c. \<not> (128 \<le> byte c \<and> byte c < 192)) s)"

lemma chars_count_le: "chars_count s \<le> length s"
  by (simp add: chars_count_def)

lemma chars_count_ascii: "\<forall>c \<in> set s. byte c < 128 \<Longrightarrow> chars_count s = length s"
  by (induction s) (auto simp: chars_count_def)

text \<open>
  \<open>trim().is_empty()\<close>: only characters of Unicode's \<open>White_Space\<close>, in their encodings of one
  byte (U+0009 to U+000D, U+0020), two (U+0085, U+00A0) and three bytes (U+1680, U+2000 to
  U+200A, U+2028, U+2029, U+202F, U+205F, U+3000).
\<close>

definition white1 :: "char \<Rightarrow> bool" where
  "white1 a \<longleftrightarrow> (9 \<le> byte a \<and> byte a \<le> 13) \<or> byte a = 32"

definition white2 :: "char \<Rightarrow> char \<Rightarrow> bool" where
  "white2 a b \<longleftrightarrow> byte a = 194 \<and> (byte b = 133 \<or> byte b = 160)"

definition white3 :: "char \<Rightarrow> char \<Rightarrow> char \<Rightarrow> bool" where
  "white3 a b c \<longleftrightarrow>
     (byte a = 225 \<and> byte b = 154 \<and> byte c = 128)
   \<or> (byte a = 226 \<and> byte b = 128 \<and>
        ((128 \<le> byte c \<and> byte c \<le> 138) \<or> byte c = 168 \<or> byte c = 169 \<or> byte c = 175))
   \<or> (byte a = 226 \<and> byte b = 129 \<and> byte c = 159)
   \<or> (byte a = 227 \<and> byte b = 128 \<and> byte c = 128)"

fun trim_is_empty :: "string \<Rightarrow> bool" where
  "trim_is_empty [] = True"
| "trim_is_empty [a] = white1 a"
| "trim_is_empty [a, b] =
     (if white1 a then trim_is_empty [b] else white2 a b)"
| "trim_is_empty (a # b # c # s) =
     (if white1 a then trim_is_empty (b # c # s)
      else if white2 a b then trim_is_empty (c # s)
      else white3 a b c \<and> trim_is_empty s)"

lemma trim_is_empty_visible:
  "trim_is_empty (a # s) \<Longrightarrow> white1 a \<or> byte a = 194 \<or> 225 \<le> byte a"
  by (cases "a # s" rule: trim_is_empty.cases)
     (auto simp: white1_def white2_def white3_def split: if_splits)

lemma visible_start:
  "\<not> white1 a \<Longrightarrow> byte a < 194 \<Longrightarrow> \<not> trim_is_empty (a # s)"
  using trim_is_empty_visible [of a s] by auto

text \<open>
  \<open>trim()\<close> drops the leading white space characters, then the longest suffix of them: no white
  space encoding starts with a continuation byte, so the suffix starts at a character.
\<close>

fun trim_start :: "string \<Rightarrow> string" where
  "trim_start [] = []"
| "trim_start [a] = (if white1 a then [] else [a])"
| "trim_start [a, b] =
     (if white1 a then trim_start [b] else if white2 a b then [] else [a, b])"
| "trim_start (a # b # c # s) =
     (if white1 a then trim_start (b # c # s)
      else if white2 a b then trim_start (c # s)
      else if white3 a b c then trim_start s
      else a # b # c # s)"

fun trim_end :: "string \<Rightarrow> string" where
  "trim_end [] = []"
| "trim_end (a # s) = (if trim_is_empty (a # s) then [] else a # trim_end s)"

definition trim :: "string \<Rightarrow> string" where
  "trim s = trim_end (trim_start s)"

lemma trim_is_empty_append:
  "trim_is_empty s \<Longrightarrow> trim_is_empty t \<Longrightarrow> trim_is_empty (s @ t)"
proof (induction s rule: trim_is_empty.induct)
  case (2 a)
  then show ?case by (cases t rule: trim_is_empty.cases) auto
next
  case (3 a b)
  then show ?case by (cases t rule: trim_is_empty.cases) (auto split: if_splits)
qed (auto split: if_splits)

lemma trim_end_split: "\<exists>w. s = trim_end s @ w \<and> trim_is_empty w"
proof (induction s)
  case Nil
  then show ?case by (auto intro: exI [of _ "[]"])
next
  case (Cons a s)
  then obtain w where "s = trim_end s @ w" and "trim_is_empty w" by blast
  then show ?case by auto
qed

lemma trim_end_visible: "trim_end s \<noteq> [] \<Longrightarrow> \<not> trim_is_empty (trim_end s)"
proof
  assume ne: "trim_end s \<noteq> []" and white: "trim_is_empty (trim_end s)"
  obtain w where s: "s = trim_end s @ w" and w: "trim_is_empty w"
    using trim_end_split by blast
  have "trim_is_empty s" using s trim_is_empty_append [OF white w] by simp
  then have "trim_end s = []" by (cases s) auto
  with ne show False by simp
qed

lemma trim_visible: "trim s \<noteq> [] \<Longrightarrow> \<not> trim_is_empty (trim s)"
  unfolding trim_def by (rule trim_end_visible)

text \<open>\<open>chars().any(char::is_control)\<close>: U+0000 to U+001F, U+007F, and U+0080 to U+009F.\<close>

definition control1 :: "char \<Rightarrow> bool" where
  "control1 a \<longleftrightarrow> byte a < 32 \<or> byte a = 127"

fun has_control :: "string \<Rightarrow> bool" where
  "has_control [] = False"
| "has_control [a] = control1 a"
| "has_control (a # b # s) =
     (control1 a \<or> (byte a = 194 \<and> 128 \<le> byte b \<and> byte b < 160) \<or> has_control (b # s))"

text \<open>Prefixes, suffixes, substrings and \<open>split\<close> at one character.\<close>

definition starts_with :: "string \<Rightarrow> string \<Rightarrow> bool" where
  "starts_with p s \<longleftrightarrow> take (length p) s = p"

definition ends_with :: "string \<Rightarrow> string \<Rightarrow> bool" where
  "ends_with p s \<longleftrightarrow> starts_with (rev p) (rev s)"

definition strip_prefix :: "string \<Rightarrow> string \<Rightarrow> string option" where
  "strip_prefix p s = (if starts_with p s then Some (drop (length p) s) else None)"

fun contains_str :: "string \<Rightarrow> string \<Rightarrow> bool" where
  "contains_str p [] \<longleftrightarrow> p = []"
| "contains_str p (c # s) \<longleftrightarrow> starts_with p (c # s) \<or> contains_str p s"

fun split_by :: "(char \<Rightarrow> bool) \<Rightarrow> string \<Rightarrow> string list" where
  "split_by p [] = [[]]"
| "split_by p (c # s) =
     (if p c then [] # split_by p s
      else (case split_by p s of [] \<Rightarrow> [[c]] | w # ws \<Rightarrow> (c # w) # ws))"

lemma split_by_not_Nil [simp]: "split_by p s \<noteq> []"
  by (induction s) (auto split: list.splits)

lemma starts_with_iff: "starts_with p s \<longleftrightarrow> (\<exists>t. s = p @ t)"
  by (metis append_eq_conv_conj starts_with_def append_take_drop_id)

lemma starts_with_append [simp]: "starts_with p (p @ t)"
  by (simp add: starts_with_def)

lemma strip_prefix_Some_iff: "strip_prefix p s = Some t \<longleftrightarrow> s = p @ t"
  by (auto simp: strip_prefix_def starts_with_def) (metis append_take_drop_id)

lemma strip_prefix_append [simp]: "strip_prefix p (p @ t) = Some t"
  by (simp add: strip_prefix_Some_iff)

text \<open>\<open>Display\<close> of an unsigned integer: its decimal digits, without leading zeros.\<close>

definition digit_char :: "nat \<Rightarrow> char" where
  "digit_char d = char_of (48 + d)"

fun show_nat :: "nat \<Rightarrow> string" where
  "show_nat n = (if n < 10 then [digit_char n] else show_nat (n div 10) @ [digit_char (n mod 10)])"

declare show_nat.simps [simp del]

definition show_word :: "'a::len word \<Rightarrow> string" where
  "show_word w = show_nat (unat w)"

definition digits_value :: "string \<Rightarrow> nat" where
  "digits_value s = foldl (\<lambda>n c. 10 * n + (byte c - 48)) 0 s"

lemma byte_digit_char: "d < 10 \<Longrightarrow> byte (digit_char d) = 48 + d"
  by (simp add: byte_def digit_char_def)

lemma is_digit_digit_char: "d < 10 \<Longrightarrow> is_digit (digit_char d)"
  by (simp add: is_digit_def byte_digit_char)

lemma show_nat_digits: "list_all is_digit (show_nat n)"
proof (induction n rule: show_nat.induct)
  case (1 n)
  then show ?case by (subst show_nat.simps) (auto simp: is_digit_digit_char)
qed

lemma digits_value_show_nat: "digits_value (show_nat n) = n"
proof (induction n rule: show_nat.induct)
  case (1 n)
  then show ?case by (subst show_nat.simps) (auto simp: digits_value_def byte_digit_char)
qed

lemma show_nat_inj: "show_nat m = show_nat n \<longleftrightarrow> m = n"
  by (metis digits_value_show_nat)

lemma show_word_inj: "show_word v = show_word w \<longleftrightarrow> v = w"
  by (simp add: show_word_def show_nat_inj word_unat_eq_iff)

lemma show_word_digits: "list_all is_digit (show_word w)"
  by (simp add: show_word_def show_nat_digits)

text \<open>
  A path of \<open>std::path\<close> on Unix: it is absolute when it starts with a slash, and its
  \<open>ParentDir\<close> components are the segments between slashes that are exactly two dots.
\<close>

definition is_absolute :: "string \<Rightarrow> bool" where
  "is_absolute p \<longleftrightarrow> starts_with ''/'' p"

definition has_parent_dir :: "string \<Rightarrow> bool" where
  "has_parent_dir p \<longleftrightarrow> ''..'' \<in> set (split_by (\<lambda>c. c = CHR ''/'') p)"

section \<open>Digests and hexadecimal identifiers\<close>

text \<open>
  SHA-256 belongs to the crate \<open>sha2\<close>: it is a parameter \<open>sha\<close> of every definition that hashes,
  a function from bytes to bytes whose documented contract is that a digest has 32 bytes. The
  hexadecimal encodings of a digest are code of the repository, one per crate; what the
  identifiers built from them rely on is that an encoding is made of lower-case hexadecimal
  digits, two for each byte, and can be read back.
\<close>

type_synonym digest_fun = "string \<Rightarrow> string"

definition digest_length :: "digest_fun \<Rightarrow> bool" where
  "digest_length sha \<longleftrightarrow> (\<forall>x. length (sha x) = 32)"

text \<open>\<open>write!("{byte:02x}")\<close> and \<open>format!("{byte:02x}")\<close>.\<close>

definition hex_digit :: "nat \<Rightarrow> char" where
  "hex_digit n = (if n < 10 then char_of (48 + n) else char_of (87 + n))"

definition hex_byte :: "char \<Rightarrow> string" where
  "hex_byte b = [hex_digit (byte b div 16), hex_digit (byte b mod 16)]"

definition encode_hex :: "string \<Rightarrow> string" where
  "encode_hex bytes = concat (map hex_byte bytes)"

lemma byte_less [simp]: "byte c < 256"
  by (simp add: byte_def)

lemma byte_inj: "byte c = byte d \<longleftrightarrow> c = d"
  by (simp add: byte_def)

lemma byte_hex_digit: "n < 16 \<Longrightarrow> byte (hex_digit n) = (if n < 10 then 48 + n else 87 + n)"
  by (simp add: byte_def hex_digit_def)

lemma hex_digit_lower_hex: "n < 16 \<Longrightarrow> is_lower_hex (hex_digit n)"
  by (simp add: is_lower_hex_def is_digit_def byte_hex_digit)

lemma hex_digit_inj: "m < 16 \<Longrightarrow> n < 16 \<Longrightarrow> hex_digit m = hex_digit n \<longleftrightarrow> m = n"
proof
  assume less: "m < 16" "n < 16" and "hex_digit m = hex_digit n"
  then have "byte (hex_digit m) = byte (hex_digit n)" by simp
  then show "m = n" using less by (simp add: byte_hex_digit split: if_splits)
qed simp

lemma hex_byte_inj: "hex_byte b = hex_byte c \<longleftrightarrow> b = c"
proof
  assume eq: "hex_byte b = hex_byte c"
  have "byte b div 16 < 16" and "byte c div 16 < 16"
    using byte_less [of b] byte_less [of c] by linarith+
  with eq have "byte b div 16 = byte c div 16" and "byte b mod 16 = byte c mod 16"
    by (simp_all add: hex_byte_def hex_digit_inj)
  then have "byte b = byte c" by (metis div_mult_mod_eq)
  then show "b = c" by (simp add: byte_inj)
qed simp

locale hex_encoder =
  fixes enc :: "string \<Rightarrow> string"
  assumes enc_len: "length (enc bs) = 2 * length bs"
    and enc_hex: "list_all is_lower_hex (enc bs)"
    and enc_inj: "enc bs = enc cs \<Longrightarrow> bs = cs"
begin

text \<open>The identifier of a digest is the prefix and 64 digits, and two identifiers that agree have the same digest.\<close>

lemma digest_id:
  "digest_length sha \<Longrightarrow> length (enc (sha x)) = 64 \<and> list_all is_lower_hex (enc (sha x))"
  by (simp add: digest_length_def enc_len enc_hex)

lemma id_inj: "p @ enc (sha x) = p @ enc (sha y) \<Longrightarrow> sha x = sha y"
  by (simp add: enc_inj)

end

lemma encode_hex_Cons: "encode_hex (b # bs) = hex_byte b @ encode_hex bs"
  by (simp add: encode_hex_def)

lemma encode_hex_inj: "encode_hex bs = encode_hex cs \<Longrightarrow> bs = cs"
proof (induction bs arbitrary: cs)
  case Nil
  then show ?case by (cases cs) (auto simp: encode_hex_def hex_byte_def)
next
  case (Cons b bs)
  then obtain c cs' where cs: "cs = c # cs'"
    by (cases cs) (auto simp: encode_hex_def hex_byte_def)
  with Cons.prems have "hex_byte b = hex_byte c" and "encode_hex bs = encode_hex cs'"
    by (auto simp: encode_hex_Cons hex_byte_def)
  with Cons.IH cs show ?case by (simp add: hex_byte_inj)
qed

interpretation hex: hex_encoder encode_hex
proof
  show "length (encode_hex bs) = 2 * length bs" for bs
    by (induction bs) (simp_all add: encode_hex_def hex_byte_def)
  show "list_all is_lower_hex (encode_hex bs)" for bs
    by (induction bs)
       (simp_all add: encode_hex_def hex_byte_def hex_digit_lower_hex less_mult_imp_div_less)
  show "encode_hex bs = encode_hex cs \<Longrightarrow> bs = cs" for bs cs
    by (rule encode_hex_inj)
qed

section \<open>Joined strings\<close>

text \<open>
  Identifiers of the code are hashes or keys of fields joined by a separator. Where the
  separator does not occur in the first part, or not in the second, the parts can be read back.
\<close>

lemma join_left_inj:
  "x \<notin> set a \<Longrightarrow> x \<notin> set c \<Longrightarrow> a @ x # b = c @ x # d \<longleftrightarrow> a = c \<and> b = d"
proof (induction a arbitrary: c)
  case Nil
  then show ?case by (cases c) auto
next
  case (Cons u a)
  then show ?case by (cases c) auto
qed

lemma join_right_inj:
  "x \<notin> set b \<Longrightarrow> x \<notin> set d \<Longrightarrow> a @ x # b = c @ x # d \<longleftrightarrow> a = c \<and> b = d"
proof -
  assume "x \<notin> set b" and "x \<notin> set d"
  then have "rev b @ x # rev a = rev d @ x # rev c \<longleftrightarrow> rev b = rev d \<and> rev a = rev c"
    by (simp add: join_left_inj)
  moreover have "a @ x # b = c @ x # d \<longleftrightarrow> rev (a @ x # b) = rev (c @ x # d)"
    by (simp only: rev_is_rev_conv)
  ultimately show ?thesis by auto
qed

section \<open>Orders and windows\<close>

text \<open>\<open>windows(2).all(|pair| pair[0] < pair[1])\<close>: strictly increasing neighbours.\<close>

definition strictly_increasing :: "'a::linorder list \<Rightarrow> bool" where
  "strictly_increasing xs = successively (<) xs"

lemma strictly_increasing_iff: "strictly_increasing xs \<longleftrightarrow> sorted xs \<and> distinct xs"
  by (simp add: strictly_increasing_def successively_conv_sorted_wrt strict_sorted_iff)

lemma strictly_increasing_simps [simp]:
  "strictly_increasing []"
  "strictly_increasing [x]"
  "strictly_increasing (x # y # xs) \<longleftrightarrow> x < y \<and> strictly_increasing (y # xs)"
  by (simp_all add: strictly_increasing_def)

text \<open>\<open>windows(2).all(|pair| pair[0] != pair[1])\<close> on a sorted list: no duplicates.\<close>

lemma adjacent_distinct_sorted:
  "sorted xs \<Longrightarrow> successively (\<noteq>) xs \<longleftrightarrow> distinct (xs :: 'a::linorder list)"
  by (induction xs rule: induct_list012) (auto simp: order.order_iff_strict)

text \<open>A strictly increasing list is determined by its elements.\<close>

lemma strictly_increasing_unique:
  "strictly_increasing xs \<Longrightarrow> strictly_increasing ys \<Longrightarrow> set xs = set ys \<Longrightarrow> xs = ys"
  by (simp add: strictly_increasing_iff sorted_distinct_set_unique)

text \<open>
  Sorting by a key that no two elements share gives the same list for every arrangement of
  the input: the result of \<open>sort_by\<close> is canonical.
\<close>

lemma sort_key_canonical:
  assumes "mset xs = mset ys" and "inj_on f (set xs)"
  shows "sort_key f xs = sort_key f ys"
proof (rule properties_for_sort_key)
  show "mset (sort_key f ys) = mset xs" using assms(1) by simp
  show "sorted (map f (sort_key f ys))" by simp
  fix k assume "k \<in> set (sort_key f ys)"
  then have k: "k \<in> set xs" using assms(1) by (metis mset_eq_setD set_sort)
  have "filter (\<lambda>x. f k = f x) zs = replicate (count (mset zs) k) k" if "set zs \<subseteq> set xs" for zs
    using that
  proof (induction zs)
    case Nil
    then show ?case by simp
  next
    case (Cons z zs)
    then show ?case using k assms(2) by (auto simp: inj_on_def)
  qed
  moreover have "set (sort_key f ys) = set xs" using assms(1) by (metis mset_eq_setD set_sort)
  ultimately show "filter (\<lambda>x. f k = f x) (sort_key f ys) = filter (\<lambda>x. f k = f x) xs"
    using assms(1) by simp
qed

lemma sort_canonical: "mset xs = mset ys \<Longrightarrow> sort xs = sort (ys :: 'a::linorder list)"
  by (rule sort_key_canonical) auto

text \<open>Counting a class of elements of a list, as \<open>filter(..).count()\<close> does.\<close>

definition count_if :: "('a \<Rightarrow> bool) \<Rightarrow> 'a list \<Rightarrow> nat" where
  "count_if p xs = length (filter p xs)"

lemma count_if_le: "count_if p xs \<le> length xs"
  by (simp add: count_if_def)

lemma count_if_simps [simp]:
  "count_if p [] = 0"
  "count_if p (x # xs) = (if p x then Suc (count_if p xs) else count_if p xs)"
  by (simp_all add: count_if_def)

lemma count_if_0_iff: "count_if p xs = 0 \<longleftrightarrow> (\<forall>x \<in> set xs. \<not> p x)"
  by (auto simp: count_if_def filter_empty_conv)

lemma count_if_all_iff: "length xs \<le> count_if p xs \<longleftrightarrow> (\<forall>x \<in> set xs. p x)"
proof (induction xs)
  case Nil
  then show ?case by simp
next
  case (Cons x xs)
  then show ?case using count_if_le [of p xs] by auto
qed

lemma count_if_less_iff: "count_if p xs < length xs \<longleftrightarrow> (\<exists>x \<in> set xs. \<not> p x)"
  using count_if_all_iff [of xs p] by (auto simp: not_le [symmetric])

lemma count_if_not: "count_if (\<lambda>x. \<not> p x) xs + count_if p xs = length xs"
  by (induction xs) auto

lemma count_if_update:
  "i < length xs \<Longrightarrow> p y = p (xs ! i) \<Longrightarrow> count_if p (xs[i := y]) = count_if p xs"
proof (induction xs arbitrary: i)
  case Nil
  then show ?case by simp
next
  case (Cons x xs)
  then show ?case by (cases i) auto
qed

section \<open>First matches\<close>

text \<open>
  \<open>iter().position(p)\<close>, and with an update of the element found \<open>iter_mut().find(p)\<close>; the
  element itself is \<open>List.find p xs\<close>.
\<close>

fun position :: "('a \<Rightarrow> bool) \<Rightarrow> 'a list \<Rightarrow> nat option" where
  "position p [] = None"
| "position p (x # xs) = (if p x then Some 0 else map_option Suc (position p xs))"

lemma position_Some:
  "position p xs = Some i \<Longrightarrow> i < length xs \<and> p (xs ! i) \<and> (\<forall>j < i. \<not> p (xs ! j))"
proof (induction xs arbitrary: i)
  case Nil
  then show ?case by simp
next
  case (Cons x xs)
  then show ?case by (auto simp: less_Suc_eq_0_disj nth_Cons' split: if_splits)
qed

lemma position_None_iff: "position p xs = None \<longleftrightarrow> (\<forall>x \<in> set xs. \<not> p x)"
  by (induction xs) auto

text \<open>With distinct keys, the first match of a key is the only one.\<close>

lemma position_key_unique:
  assumes "distinct (map key xs)" and "position (\<lambda>x. key x = k) xs = Some i"
    and "j < length xs" and "key (xs ! j) = k"
  shows "j = i"
  using assms position_Some [OF assms(2)] nth_eq_iff_index_eq [OF assms(1), of j i] by simp

lemma map_key_update: "i < length xs \<Longrightarrow> key y = key (xs ! i) \<Longrightarrow> map key (xs[i := y]) = map key xs"
  by (simp add: map_update list_update_same_conv)

text \<open>The association of keys with values that a list of keyed entries stands for.\<close>

definition entries :: "('a \<Rightarrow> 'k) \<Rightarrow> ('a \<Rightarrow> 'd option) \<Rightarrow> 'a list \<Rightarrow> 'k \<Rightarrow> 'd option" where
  "entries key val xs k = Option.bind (List.find (\<lambda>x. key x = k) xs) val"

lemma entries_Nil [simp]: "entries key val [] k = None"
  by (simp add: entries_def)

lemma entries_Cons [simp]:
  "entries key val (x # xs) k = (if key x = k then val x else entries key val xs k)"
  by (simp add: entries_def)

lemma entries_append:
  "entries key val (xs @ ys) k
     = (if k \<in> key ` set xs then entries key val xs k else entries key val ys k)"
  by (induction xs) auto

lemma key_nth: "i < length xs \<Longrightarrow> key (xs ! i) \<in> key ` set xs"
  by simp

lemma entries_nth:
  "distinct (map key xs) \<Longrightarrow> i < length xs \<Longrightarrow> entries key val xs (key (xs ! i)) = val (xs ! i)"
proof (induction xs arbitrary: i)
  case Nil
  then show ?case by simp
next
  case (Cons x xs)
  then show ?case by (cases i) (auto simp: key_nth)
qed

lemma entries_update:
  assumes "distinct (map key xs)" and "i < length xs" and "key y = key (xs ! i)"
  shows "entries key val (xs[i := y]) = (entries key val xs)(key (xs ! i) := val y)"
proof
  fix k
  show "entries key val (xs[i := y]) k = ((entries key val xs)(key (xs ! i) := val y)) k"
    using assms
  proof (induction xs arbitrary: i)
    case Nil
    then show ?case by simp
  next
    case (Cons x xs)
    then show ?case by (cases i) (auto simp: key_nth)
  qed
qed

section \<open>Machines that record human decisions\<close>

text \<open>
  Every artifact of the program that carries human decisions (the run manifest, the security
  case, the web assessment) is changed by commands that read it, derive a new one and write it,
  or fail and write nothing. \<open>run_ops\<close> is a sequence of such commands.
\<close>

fun run_ops :: "('op \<Rightarrow> 's \<Rightarrow> 'e + 's) \<Rightarrow> 'op list \<Rightarrow> 's \<Rightarrow> 's" where
  "run_ops step [] s = s"
| "run_ops step (op # ops) s =
     run_ops step ops (case step op s of Inl _ \<Rightarrow> s | Inr t \<Rightarrow> t)"

text \<open>
  The contract that makes such an artifact trustworthy: the commands keep its validation, and a
  decision, once recorded, is neither changed nor removed.
\<close>

locale decision_machine =
  fixes step :: "'op \<Rightarrow> 's \<Rightarrow> 'e + 's"
    and inv :: "'s \<Rightarrow> bool"
    and decided :: "'s \<Rightarrow> 'k \<Rightarrow> 'd option"
  assumes step_inv: "inv s \<Longrightarrow> step op s = Inr t \<Longrightarrow> inv t"
    and step_keeps: "inv s \<Longrightarrow> step op s = Inr t \<Longrightarrow> decided s \<subseteq>\<^sub>m decided t"
begin

lemma run_inv: "inv s \<Longrightarrow> inv (run_ops step ops s)"
  by (induction ops arbitrary: s) (auto split: sum.splits intro: step_inv)

lemma run_keeps: "inv s \<Longrightarrow> decided s \<subseteq>\<^sub>m decided (run_ops step ops s)"
proof (induction ops arbitrary: s)
  case Nil
  then show ?case by simp
next
  case (Cons op ops)
  show ?case
  proof (cases "step op s")
    case (Inl e)
    with Cons show ?thesis by simp
  next
    case (Inr t)
    with Cons.prems have "inv t" and "decided s \<subseteq>\<^sub>m decided t"
      by (auto intro: step_inv step_keeps)
    with Cons.IH [of t] Inr show ?thesis by (auto intro: map_le_trans)
  qed
qed

lemma run_decision_final:
  "inv s \<Longrightarrow> decided s k = Some d \<Longrightarrow> decided (run_ops step ops s) k = Some d"
  using run_keeps by (metis domI map_le_def)

end

text \<open>
  Where only some of the commands record decisions, every decision comes from one of them:
  \<open>made op k d\<close> says that the command \<open>op\<close> is a human's, and decides \<open>d\<close> about \<open>k\<close>.
\<close>

locale human_authority = decision_machine +
  fixes made :: "'a \<Rightarrow> 'd \<Rightarrow> 'e \<Rightarrow> bool"
  assumes step_origin:
    "inv s \<Longrightarrow> step op s = Inr t \<Longrightarrow> decided t k = Some d \<Longrightarrow> decided s k = Some d \<or> made op k d"
begin

lemma run_origin:
  "inv s \<Longrightarrow> decided (run_ops step ops s) k = Some d \<Longrightarrow>
     decided s k = Some d \<or> (\<exists>op \<in> set ops. made op k d)"
proof (induction ops arbitrary: s)
  case Nil
  then show ?case by simp
next
  case (Cons op ops)
  show ?case
  proof (cases "step op s")
    case (Inl e)
    with Cons show ?thesis by auto
  next
    case (Inr t)
    with Cons.prems have "decided t k = Some d \<or> (\<exists>op \<in> set ops. made op k d)"
      by (intro Cons.IH) (auto intro: step_inv)
    then show ?thesis using step_origin [OF Cons.prems(1) Inr] by auto
  qed
qed

lemma run_without_human:
  assumes "inv s" and "\<forall>op \<in> set ops. \<forall>k d. \<not> made op k d"
  shows "decided (run_ops step ops s) = decided s"
proof
  fix k
  show "decided (run_ops step ops s) k = decided s k"
  proof (cases "decided (run_ops step ops s) k")
    case None
    then show ?thesis
      using run_decision_final [OF assms(1), of k] by (cases "decided s k") auto
  next
    case (Some d)
    then show ?thesis using run_origin [OF assms(1) Some] assms(2) by auto
  qed
qed

end

section \<open>Refinement of an abstract machine\<close>

text \<open>
  Where commands change a detailed artifact exactly as an abstract specification changes its
  abstraction, and fail together with it, whole sequences of commands do.
\<close>

locale machine_refinement =
  fixes step :: "'op \<Rightarrow> 's \<Rightarrow> 'e + 's"
    and inv :: "'s \<Rightarrow> bool"
    and spec :: "'op \<Rightarrow> 'a \<Rightarrow> 'f + 'a"
    and abs_of :: "'s \<Rightarrow> 'a"
  assumes sim_ok: "inv s \<Longrightarrow> step op s = Inr t \<Longrightarrow> inv t \<and> spec op (abs_of s) = Inr (abs_of t)"
    and sim_err: "inv s \<Longrightarrow> step op s = Inl e \<Longrightarrow> \<exists>e'. spec op (abs_of s) = Inl e'"
begin

lemma step_refines: "inv s \<Longrightarrow> is_ok (step op s) \<longleftrightarrow> is_ok (spec op (abs_of s))"
  using sim_ok [of s op] sim_err [of s op] by (cases "step op s") (auto simp: is_ok_iff)

lemma run_refines: "inv s \<Longrightarrow> abs_of (run_ops step ops s) = run_ops spec ops (abs_of s)"
proof (induction ops arbitrary: s)
  case Nil
  then show ?case by simp
next
  case (Cons op ops)
  then show ?case
    using sim_ok [of s op] sim_err [of s op] by (cases "step op s") auto
qed

end

end
