(* ===== verification/RunModel.thy ===== *)
theory RunModel
  imports Prelude
begin

text \<open>
  The data model and the contract validation of \<open>crates/secureflow-model/src/lib.rs\<close>: the run
  manifest, its parts, and \<open>RunManifest::validate\<close> with the \<open>validate\<close> method of every part.
  Each Rust struct is a record whose fields carry a short prefix, each enum a datatype, and
  each \<open>validate\<close> a \<open>validate_*\<close> definition with the statements in the order of the code.

  RFC3339 parsing belongs to the crate \<open>time\<close>, outside the repository: it is the parameter
  \<open>ts\<close>, which returns the parsed instant as an integer (only its order matters here), or
  \<open>None\<close> for a string that does not parse.
\<close>

type_synonym ts_parser = "string \<Rightarrow> int option"

section \<open>Data\<close>

definition CONTRACT_VERSION :: string where
  "CONTRACT_VERSION = ''secureflow-run-v2''"

definition LEGACY_CONTRACT_VERSION :: string where
  "LEGACY_CONTRACT_VERSION = ''secureflow-run-v1''"

definition ENGINE_REPORT_SCHEMA :: string where
  "ENGINE_REPORT_SCHEMA = ''secure-json-v1''"

definition ENGINE_EVIDENCE_STATE_TAXONOMY :: string where
  "ENGINE_EVIDENCE_STATE_TAXONOMY = ''secure-evidence-state-v1''"

definition ENGINE_CALIBRATION_TAXONOMY :: string where
  "ENGINE_CALIBRATION_TAXONOMY = ''secure-evidence-calibration-v1''"

datatype run_status =
  RunCreated | RunRunning | RunCompleted | RunPartial | RunFailed | RunCancelled

fun is_terminal :: "run_status \<Rightarrow> bool" where
  "is_terminal RunCompleted = True"
| "is_terminal RunPartial = True"
| "is_terminal RunFailed = True"
| "is_terminal RunCancelled = True"
| "is_terminal _ = False"

datatype revision_kind = RevGit | RevSnapshot | RevWorkingTree | RevUnknown

record revision =
  rev_kind :: revision_kind
  rev_value :: string

datatype authorization_status = Authorized

datatype authorization_basis =
  RepositoryOwner | WrittenConsent | OrganizationPolicy | LocalProject | OtherDocumented

record authorization =
  au_status :: authorization_status
  au_basis :: authorization_basis
  au_reviewer :: string
  au_reference :: "string option"
  au_expires_at :: "string option"

record target =
  tg_label :: string
  tg_root_sha256 :: string
  tg_revision :: "revision option"
  tg_authorization :: authorization

datatype engine_graph_scope = GraphFull | GraphFindingEvidence

record engine_graph_summary =
  gr_scope :: engine_graph_scope
  gr_nodes :: u64
  gr_edges :: u64
  gr_total_nodes :: u64
  gr_total_edges :: u64

record engine_provenance =
  en_name :: string
  en_version :: string
  en_binary_sha256 :: string
  en_report_schema :: string
  en_report_sha256 :: string
  en_report_fingerprint :: "string option"
  en_graph :: "engine_graph_summary option"
  en_sandbox_name :: "string option"
  en_sandbox_binary_sha256 :: "string option"

datatype phase_status =
  PhasePending | PhaseRunning | PhaseCompleted | PhasePartial | PhaseFailed | PhaseSkipped

record phases =
  ph_deterministic :: phase_status
  ph_prioritization :: phase_status
  ph_validation :: phase_status
  ph_evaluation :: phase_status

datatype artifact_kind = RawReport | AdaptedReport | RedactedPayload | LogArtifact | OtherArtifact

record artifact =
  ar_kind :: artifact_kind
  ar_relative_path :: string
  ar_sha256 :: string
  ar_bytes :: u64

datatype engine_evidence_disposition = SecurityPath | BoundedHardening | ExplicitAbstention

datatype engine_evidence_resolution = Proven | Unresolved | EquivalentCapability | NotApplicable

datatype engine_filesystem_identity =
  FsNotApplicable | FsLexicalPath | FsCanonicalTarget | FsOpenedObject | FsRevalidatedObject
| FsUnresolved

datatype engine_security_control_kind =
  ControlNone | LexicalContainment | CanonicalContainment | OpenedObjectIdentity
| IdentityRevalidation | ControlAuthorization | DestinationPolicy | WorkspaceTrust | ControlUnknown

record engine_security_control_evidence =
  sc_kind :: engine_security_control_kind
  sc_scope_binding :: engine_evidence_resolution
  sc_value_binding :: engine_evidence_resolution
  sc_time_binding :: engine_evidence_resolution

record engine_evidence_calibration =
  ca_taxonomy_version :: string
  ca_disposition :: engine_evidence_disposition
  ca_reachability :: engine_evidence_resolution
  ca_attacker_control :: engine_evidence_resolution
  ca_actor_identity :: engine_evidence_resolution
  ca_trust_boundary :: engine_evidence_resolution
  ca_security_control :: engine_security_control_evidence
  ca_filesystem_identity :: engine_filesystem_identity
  ca_observable_impact :: engine_evidence_resolution
  ca_reason :: "string option"

datatype engine_evidence_state_kind =
  SyntacticLead | SemanticPath | GuardAwareLead | ManuallyValidated

fun as_str :: "engine_evidence_state_kind \<Rightarrow> string" where
  "as_str SyntacticLead = ''syntactic-lead''"
| "as_str SemanticPath = ''semantic-path''"
| "as_str GuardAwareLead = ''guard-aware-lead''"
| "as_str ManuallyValidated = ''manually-validated''"

record engine_evidence_state =
  ev_taxonomy_version :: string
  ev_state :: engine_evidence_state_kind

record taxonomy_coordinates =
  tx_version :: string
  tx_category_id :: string
  tx_invariant_id :: string

datatype severity = SevCritical | SevHigh | SevMedium | SevLow | SevUnknown

datatype confidence = ConfHigh | ConfMedium | ConfLow | ConfUnknown

record location =
  loc_path :: string
  loc_start_byte :: "u64 option"
  loc_end_byte :: "u64 option"
  loc_start_line :: u32
  loc_start_column :: u32
  loc_end_line :: "u32 option"
  loc_end_column :: "u32 option"

datatype evidence_kind =
  EvSource | EvReceiver | EvTransform | EvGuard | EvSanitizer | EvAuthorization | EvSink
| EvBarrier | EvUnknown

record evidence_step =
  es_kind :: evidence_kind
  es_location :: location
  es_description :: string

record engine_analysis_abstention =
  ab_abstention_id :: string
  ab_rule_id :: string
  ab_reason :: string
  ab_source_location :: location
  ab_sink_location :: location
  ab_evidence_path :: "evidence_step list"
  ab_calibration :: engine_evidence_calibration
  ab_limitations :: "string list"
  ab_fingerprint :: string

datatype human_decision =
  DecisionPending | DecisionValidated | DecisionRejected | DecisionAbstained

record human_review =
  hr_decision :: human_decision
  hr_reviewer :: "string option"
  hr_reviewed_at :: "string option"
  hr_rationale :: "string option"
  hr_evidence_reference :: "string option"

datatype ai_validation_status = AiNotRequested | AiQueued | AiCompleted | AiFailed | AiSkipped

datatype ai_assessment = Supports | Insufficient | Contradicts | Uncertain

record ai_validation =
  ai_status :: ai_validation_status
  ai_request_id :: "string option"
  ai_provider :: "string option"
  ai_model :: "string option"
  ai_prompt_version :: "string option"
  ai_redacted_payload_sha256 :: "string option"
  ai_response_sha256 :: "string option"
  ai_input_tokens :: "u64 option"
  ai_output_tokens :: "u64 option"
  ai_assessment_of :: "ai_assessment option"

record finding =
  fd_finding_id :: string
  fd_engine_fingerprint :: "string option"
  fd_engine_finding_id :: "string option"
  fd_engine_verification_state :: "string option"
  fd_engine_evidence_state :: "engine_evidence_state option"
  fd_engine_calibration :: "engine_evidence_calibration option"
  fd_title :: string
  fd_rule_id :: string
  fd_taxonomy :: "taxonomy_coordinates option"
  fd_severity :: "severity option"
  fd_confidence :: confidence
  fd_source_location :: location
  fd_sink_location :: location
  fd_invariant :: string
  fd_evidence_path :: "evidence_step list"
  fd_limitations :: "string list"
  fd_human_review :: human_review
  fd_ai_validation :: ai_validation

record summary =
  su_candidate_count :: u64
  su_duplicate_count :: u64
  su_validated_count :: u64
  su_rejected_count :: u64
  su_abstained_count :: u64
  su_ai_calls :: u64
  su_ai_input_tokens :: u64
  su_ai_output_tokens :: u64

datatype evaluation_harness = SecureBench | LocalFixture | OtherHarness

datatype evaluation_status = EvalNotRun | EvalCompleted | EvalPartial | EvalFailed

record evaluation_reference =
  er_harness :: evaluation_harness
  er_harness_version :: "string option"
  er_manifest_sha256 :: "string option"
  er_result_sha256 :: "string option"
  er_status :: evaluation_status

record run_manifest =
  rm_contract_version :: string
  rm_run_id :: string
  rm_status :: run_status
  rm_created_at :: string
  rm_completed_at :: "string option"
  rm_target :: target
  rm_engine :: engine_provenance
  rm_configuration_sha256 :: "string option"
  rm_phases :: phases
  rm_artifacts :: "artifact list"
  rm_findings :: "finding list"
  rm_engine_abstentions :: "engine_analysis_abstention list"
  rm_summary :: "summary option"
  rm_evaluation :: "evaluation_reference option"

datatype model_error =
  UnsupportedContract string
| UnsupportedReportSchema string
| InvalidIdentifier string
| DuplicateIdentifier string
| InvalidSha256 string
| InvalidRelativePath string
| EmptyField string
| FieldTooLong string
| InvalidTimestamp string
| InvalidRevision
| InconsistentState string
| SummaryMismatch
| AuthorizationRequired
| InvalidLocation
| EmptyEvidencePath
| LegacyContractViolation string

end
