(* ===== verification/RunValidate.thy ===== *)
theory RunValidate
  imports RunModel
begin

text \<open>
  The \<open>validate\<close> methods of \<open>crates/secureflow-model/src/lib.rs\<close>, from the string helpers at
  the end of the file to \<open>RunManifest::validate\<close>, each with the declarative contract it
  decides (\<open>*_wf\<close>) and the lemma that it does: the method returns \<open>Ok\<close> exactly on the
  well-formed values.
\<close>

section \<open>String helpers\<close>

definition valid_identifier :: "string \<Rightarrow> string \<Rightarrow> nat \<Rightarrow> nat \<Rightarrow> bool" where
  "valid_identifier value pfx min_suffix max_suffix =
     (case strip_prefix pfx value of
        None \<Rightarrow> False
      | Some sfx \<Rightarrow>
          min_suffix \<le> length sfx \<and> length sfx \<le> max_suffix
          \<and> list_all (\<lambda>c. is_alnum c \<or> c = CHR ''_'' \<or> c = CHR ''-'') sfx)"

definition is_lower_hex_of_length :: "string \<Rightarrow> nat \<Rightarrow> bool" where
  "is_lower_hex_of_length value len \<longleftrightarrow> length value = len \<and> list_all is_lower_hex value"

definition validate_sha256 :: "string \<Rightarrow> string \<Rightarrow> model_error + unit" where
  "validate_sha256 value field =
     (if length value = 64 \<and> list_all is_lower_hex value then Ok () else Err (InvalidSha256 field))"

definition validate_bounded_string :: "string \<Rightarrow> string \<Rightarrow> nat \<Rightarrow> model_error + unit" where
  "validate_bounded_string value field max_chars =
     checks [fail_if (trim_is_empty value) (EmptyField field),
             fail_if (max_chars < chars_count value) (FieldTooLong field)]"

definition validate_optional_string :: "string option \<Rightarrow> string \<Rightarrow> nat \<Rightarrow> model_error + unit" where
  "validate_optional_string value field max_chars =
     check_opt (\<lambda>v. validate_bounded_string v field max_chars) value"

definition validate_timestamp :: "ts_parser \<Rightarrow> string \<Rightarrow> string \<Rightarrow> model_error + int" where
  "validate_timestamp ts value field = ok_or (ts value) (InvalidTimestamp field)"

definition validate_relative_path :: "string \<Rightarrow> string \<Rightarrow> model_error + unit" where
  "validate_relative_path value field =
     (if value = [] \<or> is_absolute value \<or> CHR 0x5C \<in> set value \<or> has_control value
         \<or> has_parent_dir value
      then Err (InvalidRelativePath field) else Ok ())"

text \<open>The contracts of the helpers.\<close>

definition text_wf :: "nat \<Rightarrow> string \<Rightarrow> bool" where
  "text_wf n s \<longleftrightarrow> \<not> trim_is_empty s \<and> chars_count s \<le> n"

definition sha256_wf :: "string \<Rightarrow> bool" where
  "sha256_wf s \<longleftrightarrow> is_lower_hex_of_length s 64"

definition relative_path_wf :: "string \<Rightarrow> bool" where
  "relative_path_wf p \<longleftrightarrow>
     p \<noteq> [] \<and> \<not> is_absolute p \<and> \<not> has_parent_dir p \<and> CHR 0x5C \<notin> set p \<and> \<not> has_control p"

lemma validate_sha256_iff [ok_iff]: "validate_sha256 v f = Inr u \<longleftrightarrow> sha256_wf v"
  by (simp add: validate_sha256_def sha256_wf_def is_lower_hex_of_length_def)

lemma validate_bounded_string_iff [ok_iff]:
  "validate_bounded_string v f n = Inr u \<longleftrightarrow> text_wf n v"
  by (auto simp: validate_bounded_string_def text_wf_def ok_iff)

lemma validate_optional_string_iff [ok_iff]:
  "validate_optional_string v f n = Inr u \<longleftrightarrow> (\<forall>s. v = Some s \<longrightarrow> text_wf n s)"
  by (simp add: validate_optional_string_def ok_iff)

lemma validate_timestamp_iff [ok_iff]: "validate_timestamp ts v f = Inr t \<longleftrightarrow> ts v = Some t"
  by (simp add: validate_timestamp_def ok_iff)

lemma validate_relative_path_iff [ok_iff]:
  "validate_relative_path v f = Inr u \<longleftrightarrow> relative_path_wf v"
  by (auto simp: validate_relative_path_def relative_path_wf_def)

lemma valid_identifier_iff:
  "valid_identifier v p a b \<longleftrightarrow>
     (\<exists>s. v = p @ s \<and> a \<le> length s \<and> length s \<le> b
        \<and> list_all (\<lambda>c. is_alnum c \<or> c = CHR ''_'' \<or> c = CHR ''-'') s)"
  by (auto simp: valid_identifier_def strip_prefix_Some_iff split: option.splits)

section \<open>Locations, evidence and reviews\<close>

definition validate_location :: "location \<Rightarrow> model_error + unit" where
  "validate_location l = checks [
     validate_relative_path (loc_path l) ''location.path'',
     fail_if ((loc_start_byte l \<noteq> None) \<noteq> (loc_end_byte l \<noteq> None)) InvalidLocation,
     fail_if (case (loc_start_byte l, loc_end_byte l) of
                (Some start, Some end_) \<Rightarrow> end_ < start | _ \<Rightarrow> False) InvalidLocation,
     fail_if (loc_start_line l = 0 \<or> loc_start_column l = 0) InvalidLocation,
     fail_if (loc_end_line l = Some 0 \<or> loc_end_column l = Some 0) InvalidLocation,
     fail_if (case loc_end_line l of
                None \<Rightarrow> False
              | Some end_line \<Rightarrow>
                  end_line < loc_start_line l
                  \<or> (end_line = loc_start_line l
                     \<and> (case loc_end_column l of
                          None \<Rightarrow> False | Some column \<Rightarrow> column < loc_start_column l)))
             InvalidLocation]"

definition location_wf :: "location \<Rightarrow> bool" where
  "location_wf l \<longleftrightarrow>
     relative_path_wf (loc_path l)
   \<and> (loc_start_byte l = None \<longleftrightarrow> loc_end_byte l = None)
   \<and> (\<forall>s e. loc_start_byte l = Some s \<longrightarrow> loc_end_byte l = Some e \<longrightarrow> s \<le> e)
   \<and> 0 < loc_start_line l \<and> 0 < loc_start_column l
   \<and> loc_end_line l \<noteq> Some 0 \<and> loc_end_column l \<noteq> Some 0
   \<and> (\<forall>el. loc_end_line l = Some el \<longrightarrow> loc_start_line l \<le> el)
   \<and> (\<forall>ec. loc_end_line l = Some (loc_start_line l) \<longrightarrow> loc_end_column l = Some ec \<longrightarrow>
        loc_start_column l \<le> ec)"

lemma validate_location_iff [ok_iff]: "validate_location l = Inr u \<longleftrightarrow> location_wf l"
  by (cases "loc_start_byte l"; cases "loc_end_byte l"; cases "loc_end_line l";
      cases "loc_end_column l")
     (auto simp: validate_location_def location_wf_def ok_iff word_gt_0 not_less)

interpretation location: contract validate_location location_wf
  by unfold_locales (rule validate_location_iff)

definition validate_step :: "string \<Rightarrow> evidence_step \<Rightarrow> model_error + unit" where
  "validate_step field s = checks [
     validate_location (es_location s),
     validate_bounded_string (es_description s) field 1000]"

definition step_wf :: "evidence_step \<Rightarrow> bool" where
  "step_wf s \<longleftrightarrow> location_wf (es_location s) \<and> text_wf 1000 (es_description s)"

lemma validate_step_iff [ok_iff]: "validate_step f s = Inr u \<longleftrightarrow> step_wf s"
  by (simp add: validate_step_def step_wf_def ok_iff)

interpretation evidence_step: contract "validate_step field" step_wf for field
  by unfold_locales (rule validate_step_iff)

definition validate_human_review :: "ts_parser \<Rightarrow> human_review \<Rightarrow> model_error + unit" where
  "validate_human_review ts r =
     and_then (checks [
       validate_optional_string (hr_reviewer r) ''human_review.reviewer'' 200,
       validate_optional_string (hr_rationale r) ''human_review.rationale'' 3000,
       validate_optional_string (hr_evidence_reference r) ''human_review.evidence_reference'' 300,
       check_opt (\<lambda>v. and_then (validate_timestamp ts v ''human_review.reviewed_at'') (\<lambda>_. Ok ()))
         (hr_reviewed_at r)])
     (\<lambda>_. let has_review_metadata =
              hr_reviewer r \<noteq> None \<or> hr_reviewed_at r \<noteq> None \<or> hr_rationale r \<noteq> None
              \<or> hr_evidence_reference r \<noteq> None
          in checks [
       fail_if (hr_decision r = DecisionPending \<and> has_review_metadata)
         (InconsistentState ''pending human review cannot contain review metadata''),
       fail_if (hr_decision r \<noteq> DecisionPending
                \<and> (hr_reviewer r = None \<or> hr_reviewed_at r = None \<or> hr_rationale r = None))
         (InconsistentState ''human decisions require reviewer, reviewed_at and rationale'')])"

text \<open>
  A review is well-formed when its texts are in bounds, its time parses, and it is either
  pending and empty, or decided with a named reviewer, a time and a rationale.
\<close>

definition human_review_wf :: "ts_parser \<Rightarrow> human_review \<Rightarrow> bool" where
  "human_review_wf ts r \<longleftrightarrow>
     (\<forall>s. hr_reviewer r = Some s \<longrightarrow> text_wf 200 s)
   \<and> (\<forall>s. hr_rationale r = Some s \<longrightarrow> text_wf 3000 s)
   \<and> (\<forall>s. hr_evidence_reference r = Some s \<longrightarrow> text_wf 300 s)
   \<and> (\<forall>s. hr_reviewed_at r = Some s \<longrightarrow> ts s \<noteq> None)
   \<and> (if hr_decision r = DecisionPending
      then hr_reviewer r = None \<and> hr_reviewed_at r = None \<and> hr_rationale r = None
           \<and> hr_evidence_reference r = None
      else hr_reviewer r \<noteq> None \<and> hr_reviewed_at r \<noteq> None \<and> hr_rationale r \<noteq> None)"

lemma validate_human_review_iff [ok_iff]:
  "validate_human_review ts r = Inr u \<longleftrightarrow> human_review_wf ts r"
  by (auto simp: validate_human_review_def human_review_wf_def ok_iff Let_def)

interpretation human_review: contract "validate_human_review ts" "human_review_wf ts" for ts
  by unfold_locales (rule validate_human_review_iff)

definition request_metadata_complete :: "ai_validation \<Rightarrow> bool" where
  "request_metadata_complete a \<longleftrightarrow>
     ai_request_id a \<noteq> None \<and> ai_provider a \<noteq> None \<and> ai_model a \<noteq> None
     \<and> ai_prompt_version a \<noteq> None \<and> ai_redacted_payload_sha256 a \<noteq> None"

definition has_any_metadata :: "ai_validation \<Rightarrow> bool" where
  "has_any_metadata a \<longleftrightarrow>
     ai_request_id a \<noteq> None \<or> ai_provider a \<noteq> None \<or> ai_model a \<noteq> None
     \<or> ai_prompt_version a \<noteq> None \<or> ai_redacted_payload_sha256 a \<noteq> None
     \<or> ai_response_sha256 a \<noteq> None \<or> ai_input_tokens a \<noteq> None \<or> ai_output_tokens a \<noteq> None
     \<or> ai_assessment_of a \<noteq> None"

fun ai_status_check :: "ai_validation \<Rightarrow> ai_validation_status \<Rightarrow> model_error + unit" where
  "ai_status_check a AiNotRequested = fail_if (has_any_metadata a) (InconsistentState
     ''inactive AI validation cannot contain request or response metadata'')"
| "ai_status_check a AiSkipped = fail_if (has_any_metadata a) (InconsistentState
     ''inactive AI validation cannot contain request or response metadata'')"
| "ai_status_check a AiQueued =
     fail_if (\<not> request_metadata_complete a \<or> ai_response_sha256 a \<noteq> None
              \<or> ai_input_tokens a \<noteq> None \<or> ai_output_tokens a \<noteq> None \<or> ai_assessment_of a \<noteq> None)
       (InconsistentState ''queued AI validation requires request metadata only'')"
| "ai_status_check a AiCompleted =
     fail_if (\<not> request_metadata_complete a \<or> ai_response_sha256 a = None
              \<or> ai_input_tokens a = None \<or> ai_output_tokens a = None \<or> ai_assessment_of a = None)
       (InconsistentState
          ''completed AI validation requires request, response, token and assessment metadata'')"
| "ai_status_check a AiFailed =
     fail_if (\<not> request_metadata_complete a \<or> ai_assessment_of a \<noteq> None)
       (InconsistentState ''failed AI validation requires request metadata and cannot assess'')"

definition exceeds :: "u64 option \<Rightarrow> bool" where
  "exceeds x = (case x of None \<Rightarrow> False | Some value \<Rightarrow> 10000000 < value)"

definition validate_ai_validation :: "ai_validation \<Rightarrow> model_error + unit" where
  "validate_ai_validation a = checks [
     check_opt (\<lambda>v. fail_if (\<not> valid_identifier v ''sf_ai_request_'' 64 64)
                            (InvalidIdentifier ''ai_validation.request_id'')) (ai_request_id a),
     validate_optional_string (ai_provider a) ''ai_validation.provider'' 100,
     validate_optional_string (ai_model a) ''ai_validation.model'' 100,
     validate_optional_string (ai_prompt_version a) ''ai_validation.prompt_version'' 100,
     check_opt (\<lambda>v. validate_sha256 v ''ai_validation.redacted_payload_sha256'')
       (ai_redacted_payload_sha256 a),
     check_opt (\<lambda>v. validate_sha256 v ''ai_validation.response_sha256'') (ai_response_sha256 a),
     fail_if (exceeds (ai_input_tokens a) \<or> exceeds (ai_output_tokens a))
       (InconsistentState ''AI token counts exceed the contract limit''),
     ai_status_check a (ai_status a)]"

text \<open>The metadata that each status of an AI validation demands and forbids.\<close>

definition ai_status_wf :: "ai_validation \<Rightarrow> bool" where
  "ai_status_wf a \<longleftrightarrow>
     (ai_status a \<in> {AiNotRequested, AiSkipped} \<longrightarrow> \<not> has_any_metadata a)
   \<and> (ai_status a \<in> {AiQueued, AiCompleted, AiFailed} \<longrightarrow> request_metadata_complete a)
   \<and> (ai_status a = AiQueued \<longrightarrow> ai_response_sha256 a = None \<and> ai_input_tokens a = None
        \<and> ai_output_tokens a = None)
   \<and> (ai_status a = AiCompleted \<longrightarrow> ai_response_sha256 a \<noteq> None \<and> ai_input_tokens a \<noteq> None
        \<and> ai_output_tokens a \<noteq> None)
   \<and> (ai_assessment_of a \<noteq> None \<longleftrightarrow> ai_status a = AiCompleted)"

definition ai_validation_wf :: "ai_validation \<Rightarrow> bool" where
  "ai_validation_wf a \<longleftrightarrow>
     (\<forall>s. ai_request_id a = Some s \<longrightarrow> valid_identifier s ''sf_ai_request_'' 64 64)
   \<and> (\<forall>s. ai_provider a = Some s \<longrightarrow> text_wf 100 s)
   \<and> (\<forall>s. ai_model a = Some s \<longrightarrow> text_wf 100 s)
   \<and> (\<forall>s. ai_prompt_version a = Some s \<longrightarrow> text_wf 100 s)
   \<and> (\<forall>s. ai_redacted_payload_sha256 a = Some s \<longrightarrow> sha256_wf s)
   \<and> (\<forall>s. ai_response_sha256 a = Some s \<longrightarrow> sha256_wf s)
   \<and> (\<forall>n. ai_input_tokens a = Some n \<longrightarrow> n \<le> 10000000)
   \<and> (\<forall>n. ai_output_tokens a = Some n \<longrightarrow> n \<le> 10000000)
   \<and> ai_status_wf a"

lemma ai_status_check_iff [ok_iff]:
  "ai_status_check a (ai_status a) = Inr u \<longleftrightarrow> ai_status_wf a"
  by (cases "ai_status a")
     (auto simp: ai_status_wf_def ok_iff has_any_metadata_def)

lemma exceeds_iff: "exceeds x \<longleftrightarrow> \<not> (\<forall>n. x = Some n \<longrightarrow> n \<le> 10000000)"
  by (cases x) (auto simp: exceeds_def not_le)

lemma validate_ai_validation_iff [ok_iff]:
  "validate_ai_validation a = Inr u \<longleftrightarrow> ai_validation_wf a"
  by (auto simp: validate_ai_validation_def ai_validation_wf_def ok_iff exceeds_iff)

interpretation ai_validation: contract validate_ai_validation ai_validation_wf
  by unfold_locales (rule validate_ai_validation_iff)

section \<open>Target and engine\<close>

definition validate_revision :: "revision \<Rightarrow> model_error + unit" where
  "validate_revision r = checks [
     validate_bounded_string (rev_value r) ''target.revision.value'' 200,
     fail_if (rev_kind r = RevGit \<and> \<not> is_lower_hex_of_length (rev_value r) 40
              \<and> \<not> is_lower_hex_of_length (rev_value r) 64) InvalidRevision]"

definition revision_wf :: "revision \<Rightarrow> bool" where
  "revision_wf r \<longleftrightarrow>
     text_wf 200 (rev_value r)
   \<and> (rev_kind r = RevGit \<longrightarrow>
        is_lower_hex_of_length (rev_value r) 40 \<or> is_lower_hex_of_length (rev_value r) 64)"

lemma validate_revision_iff [ok_iff]: "validate_revision r = Inr u \<longleftrightarrow> revision_wf r"
  by (auto simp: validate_revision_def revision_wf_def ok_iff)

definition validate_authorization :: "ts_parser \<Rightarrow> authorization \<Rightarrow> model_error + unit" where
  "validate_authorization ts a = checks [
     fail_if (au_status a \<noteq> Authorized) AuthorizationRequired,
     validate_bounded_string (au_reviewer a) ''target.authorization.reviewer'' 200,
     validate_optional_string (au_reference a) ''target.authorization.reference'' 300,
     check_opt (\<lambda>v. and_then (validate_timestamp ts v ''target.authorization.expires_at'')
                       (\<lambda>_. Ok ())) (au_expires_at a)]"

definition authorization_wf :: "ts_parser \<Rightarrow> authorization \<Rightarrow> bool" where
  "authorization_wf ts a \<longleftrightarrow>
     au_status a = Authorized \<and> text_wf 200 (au_reviewer a)
   \<and> (\<forall>s. au_reference a = Some s \<longrightarrow> text_wf 300 s)
   \<and> (\<forall>s. au_expires_at a = Some s \<longrightarrow> ts s \<noteq> None)"

lemma validate_authorization_iff [ok_iff]:
  "validate_authorization ts a = Inr u \<longleftrightarrow> authorization_wf ts a"
  by (auto simp: validate_authorization_def authorization_wf_def ok_iff)

definition validate_target :: "ts_parser \<Rightarrow> target \<Rightarrow> model_error + unit" where
  "validate_target ts t = checks [
     validate_sha256 (tg_root_sha256 t) ''target.root_sha256'',
     validate_bounded_string (tg_label t) ''target.label'' 200,
     check_opt validate_revision (tg_revision t),
     validate_authorization ts (tg_authorization t)]"

definition target_wf :: "ts_parser \<Rightarrow> target \<Rightarrow> bool" where
  "target_wf ts t \<longleftrightarrow>
     sha256_wf (tg_root_sha256 t) \<and> text_wf 200 (tg_label t)
   \<and> (\<forall>r. tg_revision t = Some r \<longrightarrow> revision_wf r) \<and> authorization_wf ts (tg_authorization t)"

lemma validate_target_iff [ok_iff]: "validate_target ts t = Inr u \<longleftrightarrow> target_wf ts t"
  by (simp add: validate_target_def target_wf_def ok_iff)

definition validate_graph :: "engine_graph_summary \<Rightarrow> model_error + unit" where
  "validate_graph g = checks [
     fail_if (gr_total_nodes g < gr_nodes g \<or> gr_total_edges g < gr_edges g)
       (InconsistentState ''engine graph totals cannot be smaller than serialized counts''),
     fail_if (gr_scope g = GraphFull
              \<and> (gr_total_nodes g \<noteq> gr_nodes g \<or> gr_total_edges g \<noteq> gr_edges g))
       (InconsistentState ''a full engine graph must serialize all reported nodes and edges'')]"

definition graph_wf :: "engine_graph_summary \<Rightarrow> bool" where
  "graph_wf g \<longleftrightarrow>
     gr_nodes g \<le> gr_total_nodes g \<and> gr_edges g \<le> gr_total_edges g
   \<and> (gr_scope g = GraphFull \<longrightarrow>
        gr_nodes g = gr_total_nodes g \<and> gr_edges g = gr_total_edges g)"

lemma validate_graph_iff [ok_iff]: "validate_graph g = Inr u \<longleftrightarrow> graph_wf g"
  by (auto simp: validate_graph_def graph_wf_def ok_iff not_less)

definition validate_engine :: "engine_provenance \<Rightarrow> model_error + unit" where
  "validate_engine e = checks [
     validate_bounded_string (en_name e) ''engine.name'' 100,
     validate_bounded_string (en_version e) ''engine.version'' 100,
     fail_if (en_report_schema e \<noteq> ENGINE_REPORT_SCHEMA)
       (UnsupportedReportSchema (en_report_schema e)),
     validate_sha256 (en_binary_sha256 e) ''engine.binary_sha256'',
     validate_sha256 (en_report_sha256 e) ''engine.report_sha256'',
     check_opt (\<lambda>v. validate_sha256 v ''engine.report_fingerprint'') (en_report_fingerprint e),
     check_opt validate_graph (en_graph e),
     validate_optional_string (en_sandbox_name e) ''engine.sandbox_name'' 100,
     check_opt (\<lambda>v. validate_sha256 v ''engine.sandbox_binary_sha256'')
       (en_sandbox_binary_sha256 e),
     fail_if ((en_sandbox_name e \<noteq> None) \<noteq> (en_sandbox_binary_sha256 e \<noteq> None))
       (InconsistentState ''engine sandbox name and binary hash must appear together'')]"

definition engine_wf :: "engine_provenance \<Rightarrow> bool" where
  "engine_wf e \<longleftrightarrow>
     text_wf 100 (en_name e) \<and> text_wf 100 (en_version e)
   \<and> en_report_schema e = ENGINE_REPORT_SCHEMA
   \<and> sha256_wf (en_binary_sha256 e) \<and> sha256_wf (en_report_sha256 e)
   \<and> (\<forall>s. en_report_fingerprint e = Some s \<longrightarrow> sha256_wf s)
   \<and> (\<forall>g. en_graph e = Some g \<longrightarrow> graph_wf g)
   \<and> (\<forall>s. en_sandbox_name e = Some s \<longrightarrow> text_wf 100 s)
   \<and> (\<forall>s. en_sandbox_binary_sha256 e = Some s \<longrightarrow> sha256_wf s)
   \<and> (en_sandbox_name e = None \<longleftrightarrow> en_sandbox_binary_sha256 e = None)"

lemma validate_engine_iff [ok_iff]: "validate_engine e = Inr u \<longleftrightarrow> engine_wf e"
  by (auto simp: validate_engine_def engine_wf_def ok_iff)

definition validate_artifact :: "artifact \<Rightarrow> model_error + unit" where
  "validate_artifact a = checks [
     validate_relative_path (ar_relative_path a) ''artifact.relative_path'',
     validate_sha256 (ar_sha256 a) ''artifact.sha256'']"

definition artifact_wf :: "artifact \<Rightarrow> bool" where
  "artifact_wf a \<longleftrightarrow> relative_path_wf (ar_relative_path a) \<and> sha256_wf (ar_sha256 a)"

lemma validate_artifact_iff [ok_iff]: "validate_artifact a = Inr u \<longleftrightarrow> artifact_wf a"
  by (simp add: validate_artifact_def artifact_wf_def ok_iff)

interpretation artifact: contract validate_artifact artifact_wf
  by unfold_locales (rule validate_artifact_iff)

section \<open>Findings and engine abstentions\<close>

definition validate_calibration :: "engine_evidence_calibration \<Rightarrow> model_error + unit" where
  "validate_calibration c = checks [
     fail_if (ca_taxonomy_version c \<noteq> ENGINE_CALIBRATION_TAXONOMY)
       (InconsistentState ''unsupported engine calibration taxonomy''),
     validate_optional_string (ca_reason c) ''engine_calibration.reason'' 200,
     fail_if (ca_disposition c \<noteq> SecurityPath \<and> ca_reason c = None)
       (InconsistentState ''non-security-path engine calibration requires a reason'')]"

definition calibration_wf :: "engine_evidence_calibration \<Rightarrow> bool" where
  "calibration_wf c \<longleftrightarrow>
     ca_taxonomy_version c = ENGINE_CALIBRATION_TAXONOMY
   \<and> (\<forall>s. ca_reason c = Some s \<longrightarrow> text_wf 200 s)
   \<and> (ca_reason c = None \<longrightarrow> ca_disposition c = SecurityPath)"

lemma validate_calibration_iff [ok_iff]: "validate_calibration c = Inr u \<longleftrightarrow> calibration_wf c"
  by (auto simp: validate_calibration_def calibration_wf_def ok_iff)

definition validate_evidence_state :: "engine_evidence_state \<Rightarrow> model_error + unit" where
  "validate_evidence_state s =
     fail_if (ev_taxonomy_version s \<noteq> ENGINE_EVIDENCE_STATE_TAXONOMY)
       (InconsistentState ''unsupported engine evidence-state taxonomy'')"

definition validate_taxonomy :: "taxonomy_coordinates \<Rightarrow> model_error + unit" where
  "validate_taxonomy t = checks [
     validate_bounded_string (tx_version t) ''finding.taxonomy.version'' 50,
     validate_bounded_string (tx_category_id t) ''finding.taxonomy.category_id'' 100,
     validate_bounded_string (tx_invariant_id t) ''finding.taxonomy.invariant_id'' 100]"

definition taxonomy_wf :: "taxonomy_coordinates \<Rightarrow> bool" where
  "taxonomy_wf t \<longleftrightarrow>
     text_wf 50 (tx_version t) \<and> text_wf 100 (tx_category_id t) \<and> text_wf 100 (tx_invariant_id t)"

lemma validate_taxonomy_iff [ok_iff]: "validate_taxonomy t = Inr u \<longleftrightarrow> taxonomy_wf t"
  by (simp add: validate_taxonomy_def taxonomy_wf_def ok_iff)

definition validate_abstention :: "engine_analysis_abstention \<Rightarrow> model_error + unit" where
  "validate_abstention a = checks [
     fail_if (\<not> (case strip_prefix ''ab_'' (ab_abstention_id a) of
                    None \<Rightarrow> False | Some sfx \<Rightarrow> is_lower_hex_of_length sfx 24))
       (InvalidIdentifier ''engine_abstention_id''),
     validate_bounded_string (ab_rule_id a) ''engine_abstention.rule_id'' 100,
     validate_bounded_string (ab_reason a) ''engine_abstention.reason'' 200,
     validate_location (ab_source_location a),
     validate_location (ab_sink_location a),
     fail_if (ab_evidence_path a = []) EmptyEvidencePath,
     each (validate_step ''engine_abstention.evidence.description'') (ab_evidence_path a),
     validate_calibration (ab_calibration a),
     fail_if (ca_disposition (ab_calibration a) \<noteq> ExplicitAbstention)
       (InconsistentState ''engine abstention requires explicit-abstention calibration''),
     each (\<lambda>l. validate_bounded_string l ''engine_abstention.limitations'' 500)
       (ab_limitations a),
     validate_sha256 (ab_fingerprint a) ''engine_abstention.fingerprint'']"

definition abstention_wf :: "engine_analysis_abstention \<Rightarrow> bool" where
  "abstention_wf a \<longleftrightarrow>
     (\<exists>s. ab_abstention_id a = ''ab_'' @ s \<and> is_lower_hex_of_length s 24)
   \<and> text_wf 100 (ab_rule_id a) \<and> text_wf 200 (ab_reason a)
   \<and> location_wf (ab_source_location a) \<and> location_wf (ab_sink_location a)
   \<and> ab_evidence_path a \<noteq> [] \<and> (\<forall>s \<in> set (ab_evidence_path a). step_wf s)
   \<and> calibration_wf (ab_calibration a)
   \<and> ca_disposition (ab_calibration a) = ExplicitAbstention
   \<and> (\<forall>l \<in> set (ab_limitations a). text_wf 500 l) \<and> sha256_wf (ab_fingerprint a)"

lemma validate_abstention_iff [ok_iff]: "validate_abstention a = Inr u \<longleftrightarrow> abstention_wf a"
proof -
  have "(case strip_prefix ''ab_'' (ab_abstention_id a) of
           None \<Rightarrow> False | Some s \<Rightarrow> is_lower_hex_of_length s 24)
        \<longleftrightarrow> (\<exists>s. ab_abstention_id a = ''ab_'' @ s \<and> is_lower_hex_of_length s 24)"
    by (auto simp: strip_prefix_Some_iff simp del: append_Cons split: option.splits)
  then show ?thesis
    unfolding validate_abstention_def abstention_wf_def by (simp add: ok_iff)
qed

interpretation abstention: contract validate_abstention abstention_wf
  by unfold_locales (rule validate_abstention_iff)

definition validate_finding :: "ts_parser \<Rightarrow> finding \<Rightarrow> model_error + unit" where
  "validate_finding ts f = checks [
     fail_if (\<not> valid_identifier (fd_finding_id f) ''sf_finding_'' 16 100)
       (InvalidIdentifier ''finding_id''),
     validate_optional_string (fd_engine_fingerprint f) ''finding.engine_fingerprint'' 200,
     validate_optional_string (fd_engine_finding_id f) ''finding.engine_finding_id'' 100,
     validate_optional_string (fd_engine_verification_state f)
       ''finding.engine_verification_state'' 100,
     check_opt (\<lambda>state. checks [
         validate_evidence_state state,
         fail_if (fd_engine_verification_state f \<noteq> Some (as_str (ev_state state)))
           (InconsistentState ''engine verification and evidence states must agree'')])
       (fd_engine_evidence_state f),
     check_opt (\<lambda>c. checks [
         validate_calibration c,
         fail_if (ca_disposition c = ExplicitAbstention)
           (InconsistentState ''explicit Engine abstentions cannot be represented as findings'')])
       (fd_engine_calibration f),
     validate_bounded_string (fd_title f) ''finding.title'' 300,
     validate_bounded_string (fd_rule_id f) ''finding.rule_id'' 100,
     validate_bounded_string (fd_invariant f) ''finding.invariant'' 1000,
     check_opt validate_taxonomy (fd_taxonomy f),
     validate_location (fd_source_location f),
     validate_location (fd_sink_location f),
     fail_if (fd_evidence_path f = []) EmptyEvidencePath,
     each (validate_step ''finding.evidence.description'') (fd_evidence_path f),
     each (\<lambda>l. validate_bounded_string l ''finding.limitations'' 500) (fd_limitations f),
     validate_human_review ts (fd_human_review f),
     validate_ai_validation (fd_ai_validation f)]"

text \<open>
  The contract of a finding, in two parts: the engine's candidate, and the two reviews that
  the later phases attach to it.
\<close>

definition candidate_wf :: "finding \<Rightarrow> bool" where
  "candidate_wf f \<longleftrightarrow>
     valid_identifier (fd_finding_id f) ''sf_finding_'' 16 100
   \<and> (\<forall>s. fd_engine_fingerprint f = Some s \<longrightarrow> text_wf 200 s)
   \<and> (\<forall>s. fd_engine_finding_id f = Some s \<longrightarrow> text_wf 100 s)
   \<and> (\<forall>s. fd_engine_verification_state f = Some s \<longrightarrow> text_wf 100 s)
   \<and> (\<forall>e. fd_engine_evidence_state f = Some e \<longrightarrow>
        ev_taxonomy_version e = ENGINE_EVIDENCE_STATE_TAXONOMY
        \<and> fd_engine_verification_state f = Some (as_str (ev_state e)))
   \<and> (\<forall>c. fd_engine_calibration f = Some c \<longrightarrow>
        calibration_wf c \<and> ca_disposition c \<noteq> ExplicitAbstention)
   \<and> text_wf 300 (fd_title f) \<and> text_wf 100 (fd_rule_id f) \<and> text_wf 1000 (fd_invariant f)
   \<and> (\<forall>t. fd_taxonomy f = Some t \<longrightarrow> taxonomy_wf t)
   \<and> location_wf (fd_source_location f) \<and> location_wf (fd_sink_location f)
   \<and> fd_evidence_path f \<noteq> [] \<and> (\<forall>s \<in> set (fd_evidence_path f). step_wf s)
   \<and> (\<forall>l \<in> set (fd_limitations f). text_wf 500 l)"

definition finding_wf :: "ts_parser \<Rightarrow> finding \<Rightarrow> bool" where
  "finding_wf ts f \<longleftrightarrow>
     candidate_wf f \<and> human_review_wf ts (fd_human_review f)
   \<and> ai_validation_wf (fd_ai_validation f)"

lemma validate_finding_iff [ok_iff]: "validate_finding ts f = Inr u \<longleftrightarrow> finding_wf ts f"
  unfolding validate_finding_def finding_wf_def candidate_wf_def validate_evidence_state_def
  by (auto simp: ok_iff)

interpretation finding: contract "validate_finding ts" "finding_wf ts" for ts
  by unfold_locales (rule validate_finding_iff)

section \<open>Phases, summary and evaluation\<close>

definition is_pending :: "finding \<Rightarrow> bool" where
  "is_pending f \<longleftrightarrow> hr_decision (fd_human_review f) = DecisionPending"

definition has_decision :: "human_decision \<Rightarrow> finding \<Rightarrow> bool" where
  "has_decision d f \<longleftrightarrow> hr_decision (fd_human_review f) = d"

definition validate_phases :: "phases \<Rightarrow> finding list \<Rightarrow> model_error + unit" where
  "validate_phases p findings =
     (let pending = count_if is_pending findings;
          reviewed = length findings - pending
      in case ph_validation p of
           PhaseCompleted \<Rightarrow> fail_if (pending \<noteq> 0)
             (InconsistentState ''completed validation cannot contain pending findings'')
         | PhasePartial \<Rightarrow> fail_if (pending = 0 \<or> reviewed = 0)
             (InconsistentState ''partial validation requires reviewed and pending findings'')
         | PhaseSkipped \<Rightarrow> fail_if (reviewed \<noteq> 0)
             (InconsistentState ''skipped validation cannot contain reviewed findings'')
         | _ \<Rightarrow> Ok ())"

definition phases_wf :: "phases \<Rightarrow> finding list \<Rightarrow> bool" where
  "phases_wf p findings \<longleftrightarrow>
     (ph_validation p = PhaseCompleted \<longrightarrow> (\<forall>f \<in> set findings. \<not> is_pending f))
   \<and> (ph_validation p = PhasePartial \<longrightarrow>
        (\<exists>f \<in> set findings. is_pending f) \<and> (\<exists>f \<in> set findings. \<not> is_pending f))
   \<and> (ph_validation p = PhaseSkipped \<longrightarrow> (\<forall>f \<in> set findings. is_pending f))"

lemma validate_phases_iff [ok_iff]: "validate_phases p fs = Inr u \<longleftrightarrow> phases_wf p fs"
  by (cases "ph_validation p")
     (auto simp: validate_phases_def phases_wf_def Let_def ok_iff count_if_0_iff count_if_all_iff
        count_if_less_iff)

text \<open>
  The counters of a summary. Rust's \<open>count() as u64\<close> is \<open>of_nat\<close> into \<open>64 word\<close>, and
  \<open>sum::<u64>()\<close> is the sum of words: the release profile wraps around, which
  \<open>token_sum_exact\<close> of theory \<open>RunReview\<close> excludes for any number of findings that fits in memory.
\<close>

definition ai_called :: "finding \<Rightarrow> bool" where
  "ai_called f \<longleftrightarrow> ai_status (fd_ai_validation f) \<in> {AiCompleted, AiFailed}"

definition sum_u64 :: "(finding \<Rightarrow> u64 option) \<Rightarrow> finding list \<Rightarrow> u64" where
  "sum_u64 g findings = sum_list (List.map_filter g findings)"

definition validate_summary :: "summary \<Rightarrow> finding list \<Rightarrow> model_error + unit" where
  "validate_summary s findings =
     (let validated = of_nat (count_if (has_decision DecisionValidated) findings);
          rejected = of_nat (count_if (has_decision DecisionRejected) findings);
          abstained = of_nat (count_if (has_decision DecisionAbstained) findings);
          ai_calls = of_nat (count_if ai_called findings);
          ai_inputs = sum_u64 (\<lambda>f. ai_input_tokens (fd_ai_validation f)) findings;
          ai_outputs = sum_u64 (\<lambda>f. ai_output_tokens (fd_ai_validation f)) findings
      in fail_if (su_candidate_count s \<noteq> of_nat (length findings)
                  \<or> su_validated_count s \<noteq> validated
                  \<or> su_rejected_count s \<noteq> rejected
                  \<or> su_abstained_count s \<noteq> abstained
                  \<or> su_ai_calls s \<noteq> ai_calls
                  \<or> su_ai_input_tokens s \<noteq> ai_inputs
                  \<or> su_ai_output_tokens s \<noteq> ai_outputs) SummaryMismatch)"

definition validate_evaluation :: "evaluation_reference \<Rightarrow> model_error + unit" where
  "validate_evaluation e = checks [
     validate_optional_string (er_harness_version e) ''evaluation.harness_version'' 100,
     check_opt (\<lambda>v. validate_sha256 v ''evaluation.manifest_sha256'') (er_manifest_sha256 e),
     check_opt (\<lambda>v. validate_sha256 v ''evaluation.result_sha256'') (er_result_sha256 e),
     fail_if (er_status e = EvalCompleted
              \<and> (er_manifest_sha256 e = None \<or> er_result_sha256 e = None))
       (InconsistentState ''completed evaluation requires manifest and result hashes'')]"

definition evaluation_wf :: "evaluation_reference \<Rightarrow> bool" where
  "evaluation_wf e \<longleftrightarrow>
     (\<forall>s. er_harness_version e = Some s \<longrightarrow> text_wf 100 s)
   \<and> (\<forall>s. er_manifest_sha256 e = Some s \<longrightarrow> sha256_wf s)
   \<and> (\<forall>s. er_result_sha256 e = Some s \<longrightarrow> sha256_wf s)
   \<and> (er_status e = EvalCompleted \<longrightarrow> er_manifest_sha256 e \<noteq> None \<and> er_result_sha256 e \<noteq> None)"

lemma validate_evaluation_iff [ok_iff]: "validate_evaluation e = Inr u \<longleftrightarrow> evaluation_wf e"
  by (auto simp: validate_evaluation_def evaluation_wf_def ok_iff)

section \<open>The frozen v1 contract and the manifest\<close>

definition finding_locations :: "finding \<Rightarrow> location list" where
  "finding_locations f =
     fd_source_location f # fd_sink_location f # map es_location (fd_evidence_path f)"

definition validate_v1_finding :: "finding \<Rightarrow> model_error + unit" where
  "validate_v1_finding f = checks [
     fail_if (fd_engine_finding_id f \<noteq> None \<or> fd_engine_verification_state f \<noteq> None
              \<or> fd_engine_evidence_state f \<noteq> None \<or> fd_engine_calibration f \<noteq> None)
       (LegacyContractViolation ''engine finding metadata requires secureflow-run-v2''),
     each (\<lambda>l. fail_if (loc_start_byte l \<noteq> None \<or> loc_end_byte l \<noteq> None)
                (LegacyContractViolation ''byte locations require secureflow-run-v2''))
       (finding_locations f),
     fail_if (\<exists>s \<in> set (fd_evidence_path f). es_kind s = EvReceiver)
       (LegacyContractViolation ''receiver evidence requires secureflow-run-v2'')]"

definition validate_v1_shape :: "run_manifest \<Rightarrow> model_error + unit" where
  "validate_v1_shape m = checks [
     fail_if (rm_engine_abstentions m \<noteq> [])
       (LegacyContractViolation ''engine abstentions require secureflow-run-v2''),
     fail_if (en_report_fingerprint (rm_engine m) \<noteq> None \<or> en_graph (rm_engine m) \<noteq> None)
       (LegacyContractViolation
          ''engine report fingerprint and graph summary require secureflow-run-v2''),
     each validate_v1_finding (rm_findings m)]"

definition v1_finding_wf :: "finding \<Rightarrow> bool" where
  "v1_finding_wf f \<longleftrightarrow>
     fd_engine_finding_id f = None \<and> fd_engine_verification_state f = None
   \<and> fd_engine_evidence_state f = None \<and> fd_engine_calibration f = None
   \<and> (\<forall>l \<in> set (finding_locations f). loc_start_byte l = None \<and> loc_end_byte l = None)
   \<and> (\<forall>s \<in> set (fd_evidence_path f). es_kind s \<noteq> EvReceiver)"

definition v1_shape_wf :: "run_manifest \<Rightarrow> bool" where
  "v1_shape_wf m \<longleftrightarrow>
     rm_engine_abstentions m = []
   \<and> en_report_fingerprint (rm_engine m) = None \<and> en_graph (rm_engine m) = None
   \<and> (\<forall>f \<in> set (rm_findings m). v1_finding_wf f)"

lemma validate_v1_finding_iff [ok_iff]: "validate_v1_finding f = Inr u \<longleftrightarrow> v1_finding_wf f"
  by (auto simp: validate_v1_finding_def v1_finding_wf_def ok_iff)

lemma validate_v1_shape_iff [ok_iff]: "validate_v1_shape m = Inr u \<longleftrightarrow> v1_shape_wf m"
  by (auto simp: validate_v1_shape_def v1_shape_wf_def ok_iff)

definition validate_lifecycle :: "ts_parser \<Rightarrow> run_manifest \<Rightarrow> int \<Rightarrow> model_error + unit" where
  "validate_lifecycle ts m created_at = checks [
     fail_if (is_terminal (rm_status m) \<and> rm_completed_at m = None)
       (InconsistentState ''terminal runs require completed_at''),
     fail_if (\<not> is_terminal (rm_status m) \<and> rm_completed_at m \<noteq> None)
       (InconsistentState ''non-terminal runs cannot have completed_at''),
     check_opt (\<lambda>v. and_then (validate_timestamp ts v ''completed_at'')
        (\<lambda>completed_at. fail_if (completed_at < created_at)
           (InconsistentState ''completed_at cannot precede created_at''))) (rm_completed_at m)]"

definition validate_manifest :: "ts_parser \<Rightarrow> run_manifest \<Rightarrow> model_error + unit" where
  "validate_manifest ts m =
     and_then (checks [
       fail_if (rm_contract_version m \<noteq> CONTRACT_VERSION
                \<and> rm_contract_version m \<noteq> LEGACY_CONTRACT_VERSION)
         (UnsupportedContract (rm_contract_version m)),
       (if rm_contract_version m = LEGACY_CONTRACT_VERSION then validate_v1_shape m else Ok ()),
       fail_if (\<not> valid_identifier (rm_run_id m) ''sf_run_'' 16 80)
         (InvalidIdentifier ''run_id'')])
     (\<lambda>_. and_then (validate_timestamp ts (rm_created_at m) ''created_at'')
     (\<lambda>created_at. checks [
       validate_lifecycle ts m created_at,
       check_opt (\<lambda>v. validate_sha256 v ''configuration_sha256'') (rm_configuration_sha256 m),
       validate_target ts (rm_target m),
       validate_engine (rm_engine m),
       each_unique validate_artifact ar_relative_path
         (DuplicateIdentifier ''artifact.relative_path'') (\<lambda>_. Ok ()) {} (rm_artifacts m),
       each_unique (validate_finding ts) fd_finding_id
         (DuplicateIdentifier ''finding_id'') (\<lambda>_. Ok ()) {} (rm_findings m),
       each_unique validate_abstention ab_abstention_id
         (DuplicateIdentifier ''engine_abstention_id'') (\<lambda>_. Ok ()) {} (rm_engine_abstentions m),
       validate_phases (rm_phases m) (rm_findings m),
       check_opt (\<lambda>s. validate_summary s (rm_findings m)) (rm_summary m),
       check_opt validate_evaluation (rm_evaluation m)]))"

text \<open>
  The contract of a manifest. \<open>manifest_frame_wf\<close> is the part that does not depend on the
  reviews of the findings, so it survives every phase that only attaches reviews.
\<close>

definition lifecycle_wf :: "ts_parser \<Rightarrow> run_manifest \<Rightarrow> bool" where
  "lifecycle_wf ts m \<longleftrightarrow>
     (is_terminal (rm_status m) \<longleftrightarrow> rm_completed_at m \<noteq> None)
   \<and> (\<exists>created. ts (rm_created_at m) = Some created
        \<and> (\<forall>s. rm_completed_at m = Some s \<longrightarrow> (\<exists>done. ts s = Some done \<and> created \<le> done)))"

definition manifest_frame_wf :: "ts_parser \<Rightarrow> run_manifest \<Rightarrow> bool" where
  "manifest_frame_wf ts m \<longleftrightarrow>
     rm_contract_version m \<in> {CONTRACT_VERSION, LEGACY_CONTRACT_VERSION}
   \<and> (rm_contract_version m = LEGACY_CONTRACT_VERSION \<longrightarrow> v1_shape_wf m)
   \<and> valid_identifier (rm_run_id m) ''sf_run_'' 16 80 \<and> lifecycle_wf ts m
   \<and> (\<forall>s. rm_configuration_sha256 m = Some s \<longrightarrow> sha256_wf s)
   \<and> target_wf ts (rm_target m) \<and> engine_wf (rm_engine m)
   \<and> (\<forall>a \<in> set (rm_artifacts m). artifact_wf a)
   \<and> distinct (map ar_relative_path (rm_artifacts m))
   \<and> (\<forall>a \<in> set (rm_engine_abstentions m). abstention_wf a)
   \<and> distinct (map ab_abstention_id (rm_engine_abstentions m))
   \<and> (\<forall>e. rm_evaluation m = Some e \<longrightarrow> evaluation_wf e)"

definition manifest_wf :: "ts_parser \<Rightarrow> run_manifest \<Rightarrow> bool" where
  "manifest_wf ts m \<longleftrightarrow>
     manifest_frame_wf ts m
   \<and> (\<forall>f \<in> set (rm_findings m). finding_wf ts f)
   \<and> distinct (map fd_finding_id (rm_findings m))
   \<and> phases_wf (rm_phases m) (rm_findings m)
   \<and> (\<forall>s. rm_summary m = Some s \<longrightarrow> validate_summary s (rm_findings m) = Inr ())"

lemma validate_lifecycle_iff:
  "(\<exists>t. ts (rm_created_at m) = Some t \<and> validate_lifecycle ts m t = Inr ()) \<longleftrightarrow> lifecycle_wf ts m"
  by (cases "rm_completed_at m")
     (auto simp: validate_lifecycle_def lifecycle_wf_def ok_iff not_less)

lemma validate_manifest_wf [ok_iff]: "validate_manifest ts m = Inr u \<longleftrightarrow> manifest_wf ts m"
  unfolding validate_manifest_def manifest_wf_def manifest_frame_wf_def
    validate_lifecycle_iff [symmetric]
  by (auto simp: ok_iff artifact.unique_iff finding.unique_iff abstention.unique_iff)

interpretation manifest: contract "validate_manifest ts" "manifest_wf ts" for ts
  by unfold_locales (rule validate_manifest_wf)

end
