(* ===== verification/Samples.thy ===== *)
theory Samples
  imports RunValidate
begin

text \<open>
  Concrete inputs at which the properties are applied: a location, a pending candidate, a
  timestamp parser that knows two instants, and a completed manifest over given findings.
\<close>

definition sample_location :: location where
  "sample_location = \<lparr>loc_path = ''a.js'', loc_start_byte = None, loc_end_byte = None,
     loc_start_line = 1, loc_start_column = 1, loc_end_line = None, loc_end_column = None\<rparr>"

definition pending_review :: human_review where
  "pending_review = \<lparr>hr_decision = DecisionPending, hr_reviewer = None, hr_reviewed_at = None,
     hr_rationale = None, hr_evidence_reference = None\<rparr>"

definition no_ai :: ai_validation where
  "no_ai = \<lparr>ai_status = AiNotRequested, ai_request_id = None, ai_provider = None,
     ai_model = None, ai_prompt_version = None, ai_redacted_payload_sha256 = None,
     ai_response_sha256 = None, ai_input_tokens = None, ai_output_tokens = None,
     ai_assessment_of = None\<rparr>"

definition sample_finding :: "char \<Rightarrow> string \<Rightarrow> string \<Rightarrow> severity option \<Rightarrow> finding" where
  "sample_finding c fp rule sev = \<lparr>
     fd_finding_id = ''sf_finding_'' @ replicate 16 c,
     fd_engine_fingerprint = Some fp, fd_engine_finding_id = None,
     fd_engine_verification_state = None, fd_engine_evidence_state = None,
     fd_engine_calibration = None, fd_title = ''t'', fd_rule_id = rule, fd_taxonomy = None,
     fd_severity = sev, fd_confidence = ConfHigh, fd_source_location = sample_location,
     fd_sink_location = sample_location, fd_invariant = ''i'',
     fd_evidence_path = [\<lparr>es_kind = EvSource, es_location = sample_location,
                          es_description = ''d''\<rparr>],
     fd_limitations = [], fd_human_review = pending_review, fd_ai_validation = no_ai\<rparr>"

lemmas sample_finding_defs =
  sample_finding_def sample_location_def pending_review_def no_ai_def

lemmas string_simps =
  text_wf_def chars_count_def white1_def white2_def white3_def byte_class_defs starts_with_def
  strip_prefix_def control1_def

lemma sample_location_wf [simp]: "location_wf sample_location"
  by (simp add: sample_location_def location_wf_def relative_path_wf_def is_absolute_def
      has_parent_dir_def string_simps)

lemma sample_candidate_wf:
  "is_alnum c \<Longrightarrow> text_wf 200 fp \<Longrightarrow> text_wf 100 rule \<Longrightarrow> candidate_wf (sample_finding c fp rule sev)"
  by (simp add: candidate_wf_def sample_finding_def step_wf_def valid_identifier_def
      text_wf_def chars_count_def white1_def byte_def strip_prefix_def starts_with_def)

lemma pending_review_wf [simp]: "human_review_wf ts pending_review"
  by (simp add: pending_review_def human_review_wf_def)

lemma no_ai_wf [simp]: "ai_validation_wf no_ai"
  by (simp add: no_ai_def ai_validation_wf_def ai_status_wf_def has_any_metadata_def)

lemma sample_finding_wf:
  "is_alnum c \<Longrightarrow> text_wf 200 fp \<Longrightarrow> text_wf 100 rule \<Longrightarrow> finding_wf ts (sample_finding c fp rule sev)"
  by (simp add: finding_wf_def sample_candidate_wf) (simp add: sample_finding_def)

definition T0 :: string where
  "T0 = ''2026-09-12T12:00:00Z''"

definition T1 :: string where
  "T1 = ''2026-09-13T12:00:00Z''"

definition sample_ts :: ts_parser where
  "sample_ts s = (if s = T0 then Some 0 else if s = T1 then Some 86400 else None)"

lemma sample_ts_simps [simp]: "sample_ts T0 = Some 0" "sample_ts T1 = Some 86400"
  by (simp_all add: sample_ts_def T0_def T1_def)

text \<open>A constant digest, and one that tells documents of different lengths apart.\<close>

definition zero_sha :: digest_fun where
  "zero_sha x = replicate 32 (CHR 0x00)"

lemma zero_sha_length [simp]: "digest_length zero_sha"
  by (simp add: digest_length_def zero_sha_def)

definition length_sha :: digest_fun where
  "length_sha x = char_of (length x) # replicate 31 (CHR 0x00)"

lemma length_sha_length [simp]: "digest_length length_sha"
  by (simp add: digest_length_def length_sha_def)

lemma length_sha_inj:
  "length x < 256 \<Longrightarrow> length y < 256 \<Longrightarrow> length_sha x = length_sha y \<Longrightarrow> length x = length y"
  by (simp add: length_sha_def char_of_eq_iff take_bit_nat_eq_self)

definition zero_hash :: string where
  "zero_hash = replicate 64 CHR ''0''"

lemma zero_hash_wf [simp]: "sha256_wf zero_hash"
  by (simp add: sha256_wf_def is_lower_hex_of_length_def zero_hash_def byte_class_defs)

definition sample_target :: target where
  "sample_target = \<lparr>tg_label = ''app'', tg_root_sha256 = zero_hash, tg_revision = None,
     tg_authorization = \<lparr>au_status = Authorized, au_basis = LocalProject, au_reviewer = ''Ann'',
       au_reference = None, au_expires_at = None\<rparr>\<rparr>"

definition sample_engine :: engine_provenance where
  "sample_engine = \<lparr>en_name = ''engine'', en_version = ''1'', en_binary_sha256 = zero_hash,
     en_report_schema = ENGINE_REPORT_SCHEMA, en_report_sha256 = zero_hash,
     en_report_fingerprint = None, en_graph = None, en_sandbox_name = None,
     en_sandbox_binary_sha256 = None\<rparr>"

definition sample_manifest :: "finding list \<Rightarrow> run_manifest" where
  "sample_manifest fs = \<lparr>
     rm_contract_version = CONTRACT_VERSION, rm_run_id = ''sf_run_'' @ replicate 16 CHR ''0'',
     rm_status = RunCompleted, rm_created_at = T0, rm_completed_at = Some T0,
     rm_target = sample_target, rm_engine = sample_engine, rm_configuration_sha256 = None,
     rm_phases = \<lparr>ph_deterministic = PhaseCompleted, ph_prioritization = PhaseCompleted,
                  ph_validation = PhasePending, ph_evaluation = PhasePending\<rparr>,
     rm_artifacts = [], rm_findings = fs, rm_engine_abstentions = [], rm_summary = None,
     rm_evaluation = None\<rparr>"

lemma sample_target_wf [simp]: "target_wf ts sample_target"
  by (simp add: sample_target_def target_wf_def authorization_wf_def string_simps)

lemma sample_engine_wf [simp]: "engine_wf sample_engine"
  by (simp add: sample_engine_def engine_wf_def string_simps)

lemma sample_manifest_findings [simp]: "rm_findings (sample_manifest fs) = fs"
  by (simp add: sample_manifest_def)

lemma sample_manifest_wf:
  "\<forall>f \<in> set fs. finding_wf sample_ts f \<Longrightarrow> distinct (map fd_finding_id fs) \<Longrightarrow>
     manifest_wf sample_ts (sample_manifest fs)"
  by (simp add: manifest_wf_def manifest_frame_wf_def sample_manifest_def lifecycle_wf_def
      phases_wf_def valid_identifier_def strip_prefix_def starts_with_def byte_class_defs
      CONTRACT_VERSION_def LEGACY_CONTRACT_VERSION_def)

text \<open>The manifest with one pending candidate.\<close>

definition one_finding :: finding where
  "one_finding = sample_finding CHR ''0'' ''a'' ''r'' None"

definition one_manifest :: run_manifest where
  "one_manifest = sample_manifest [one_finding]"

lemma one_finding_wf [simp]: "finding_wf ts one_finding"
  unfolding one_finding_def by (rule sample_finding_wf) (simp_all add: string_simps)

lemma one_manifest_wf [simp]: "manifest_wf sample_ts one_manifest"
  unfolding one_manifest_def by (rule sample_manifest_wf) simp_all

lemma one_manifest_findings [simp]: "rm_findings one_manifest = [one_finding]"
  by (simp add: one_manifest_def)

lemma one_finding_fields [simp]:
  "fd_human_review one_finding = pending_review"
  "fd_ai_validation one_finding = no_ai"
  "is_pending one_finding"
  by (simp_all add: one_finding_def sample_finding_def is_pending_def pending_review_def)

end
