(* ===== verification/FindingOrder.thy ===== *)
theory FindingOrder
  imports Samples
begin

text \<open>
  The deterministic phase after the engine (\<open>crates/secureflow-model/src/lib.rs\<close>):
  \<open>prioritize_findings\<close>, a stable sort by severity, confidence and position, and
  \<open>deduplicate_findings\<close>, which keeps the first finding of each textual key. The lemmas show
  that the order is canonical, that the deduplication keeps exactly the findings that duplicate no
  earlier one when their texts are free of the separator, and what the key conflates otherwise.
\<close>

section \<open>Prioritization\<close>

fun severity_rank :: "severity option \<Rightarrow> nat" where
  "severity_rank (Some SevCritical) = 5"
| "severity_rank (Some SevHigh) = 4"
| "severity_rank (Some SevMedium) = 3"
| "severity_rank (Some SevLow) = 2"
| "severity_rank (Some SevUnknown) = 1"
| "severity_rank None = 1"

fun confidence_rank :: "confidence \<Rightarrow> nat" where
  "confidence_rank ConfHigh = 4"
| "confidence_rank ConfMedium = 3"
| "confidence_rank ConfLow = 2"
| "confidence_rank ConfUnknown = 1"

text \<open>
  The comparator of \<open>sort_by\<close> compares the ranks in descending order and the rest in ascending
  order: the lexicographic order of this key. \<open>sort_by\<close> is stable, as \<open>sort_key\<close> is.
\<close>

definition priority_key ::
    "finding \<Rightarrow> int \<times> int \<times> string \<times> string \<times> u32 \<times> string \<times> string" where
  "priority_key f =
     (- int (severity_rank (fd_severity f)),
      - int (confidence_rank (fd_confidence f)),
      fd_rule_id f,
      loc_path (fd_source_location f),
      loc_start_line (fd_source_location f),
      loc_path (fd_sink_location f),
      fd_finding_id f)"

definition prioritize_findings :: "finding list \<Rightarrow> finding list" where
  "prioritize_findings findings = sort_key priority_key findings"

lemma priority_key_le_severity:
  "priority_key f \<le> priority_key g \<Longrightarrow>
     severity_rank (fd_severity g) \<le> severity_rank (fd_severity f)"
  by (auto simp: priority_key_def less_eq_prod_def)

lemma severity_rank_order:
  "severity_rank b \<le> severity_rank a \<Longrightarrow>
     (b = Some SevCritical \<longrightarrow> a = Some SevCritical)
   \<and> (b = Some SevHigh \<longrightarrow> a \<in> {Some SevCritical, Some SevHigh})
   \<and> (a = Some SevLow \<longrightarrow> b \<in> {Some SevLow, Some SevUnknown, None})
   \<and> (a \<in> {Some SevUnknown, None} \<longrightarrow> b \<in> {Some SevUnknown, None})"
  by (cases a rule: severity_rank.cases; cases b rule: severity_rank.cases) simp_all

lemma prioritize_mset [simp]: "mset (prioritize_findings fs) = mset fs"
  by (simp add: prioritize_findings_def)

lemma prioritize_set [simp]: "set (prioritize_findings fs) = set fs"
  by (simp add: prioritize_findings_def)

lemma prioritize_sorted: "sorted (map priority_key (prioritize_findings fs))"
  by (simp add: prioritize_findings_def)

lemma distinct_ids_inj_key: "distinct (map fd_finding_id fs) \<Longrightarrow> inj_on priority_key (set fs)"
  by (auto simp: distinct_map inj_on_def priority_key_def)

section \<open>Deduplication\<close>

definition location_key :: "location \<Rightarrow> string" where
  "location_key l =
     loc_path l @ '':''
     @ show_word (case loc_start_byte l of None \<Rightarrow> 0 | Some n \<Rightarrow> n) @ '':''
     @ show_word (case loc_end_byte l of None \<Rightarrow> 0 | Some n \<Rightarrow> n) @ '':''
     @ show_word (loc_start_line l) @ '':''
     @ show_word (loc_start_column l) @ '':''
     @ show_word (case loc_end_line l of None \<Rightarrow> 0 | Some n \<Rightarrow> n) @ '':''
     @ show_word (case loc_end_column l of None \<Rightarrow> 0 | Some n \<Rightarrow> n)"

definition fingerprint_or_id :: "finding \<Rightarrow> string" where
  "fingerprint_or_id f =
     (case fd_engine_fingerprint f of None \<Rightarrow> fd_finding_id f | Some fp \<Rightarrow> fp)"

definition dedup_key :: "finding \<Rightarrow> string" where
  "dedup_key f =
     fingerprint_or_id f @ ''|'' @ fd_rule_id f @ ''|''
     @ location_key (fd_source_location f) @ ''|'' @ location_key (fd_sink_location f)"

text \<open>\<open>retain(|f| seen.insert(key(f)))\<close>.\<close>

fun retain_unseen :: "('a \<Rightarrow> 'k) \<Rightarrow> 'k set \<Rightarrow> 'a list \<Rightarrow> 'a list" where
  "retain_unseen key seen [] = []"
| "retain_unseen key seen (x # xs) =
     (if key x \<in> seen then retain_unseen key seen xs
      else x # retain_unseen key (insert (key x) seen) xs)"

text \<open>The findings retained, and the number of findings removed.\<close>

definition deduplicate_findings :: "finding list \<Rightarrow> finding list \<times> nat" where
  "deduplicate_findings findings =
     (let retained = retain_unseen dedup_key {} findings
      in (retained, length findings - length retained))"

section \<open>What the key distinguishes\<close>

definition unwrap_or_zero :: "'a::len word option \<Rightarrow> 'a word" where
  "unwrap_or_zero x = (case x of None \<Rightarrow> 0 | Some n \<Rightarrow> n)"

definition location_coords ::
    "location \<Rightarrow> string \<times> u64 \<times> u64 \<times> u32 \<times> u32 \<times> u32 \<times> u32" where
  "location_coords l =
     (loc_path l, unwrap_or_zero (loc_start_byte l), unwrap_or_zero (loc_end_byte l),
      loc_start_line l, loc_start_column l,
      unwrap_or_zero (loc_end_line l), unwrap_or_zero (loc_end_column l))"

lemma digit_not_separator: "\<not> is_digit CHR '':''" "\<not> is_digit CHR ''|''"
  by (simp_all add: is_digit_def byte_def)

lemma show_word_no_separator [simp]:
  "CHR '':'' \<notin> set (show_word w)" "CHR ''|'' \<notin> set (show_word w)"
  using show_word_digits [of w] digit_not_separator by (auto simp: list_all_iff)

text \<open>
  A path may contain colons, but the six numbers behind it do not, so the key of a location can
  be read back from its right end.
\<close>

lemma location_key_inj: "location_key l = location_key k \<longleftrightarrow> location_coords l = location_coords k"
proof -
  have nested: "location_key x =
      (((((loc_path x @ CHR '':'' # show_word (unwrap_or_zero (loc_start_byte x)))
          @ CHR '':'' # show_word (unwrap_or_zero (loc_end_byte x)))
         @ CHR '':'' # show_word (loc_start_line x))
        @ CHR '':'' # show_word (loc_start_column x))
       @ CHR '':'' # show_word (unwrap_or_zero (loc_end_line x)))
      @ CHR '':'' # show_word (unwrap_or_zero (loc_end_column x))" for x
    by (simp add: location_key_def unwrap_or_zero_def)
  show ?thesis
    unfolding nested location_coords_def by (auto simp: join_right_inj show_word_inj simp del: append_assoc)
qed

definition bar_free :: "finding \<Rightarrow> bool" where
  "bar_free f \<longleftrightarrow>
     CHR ''|'' \<notin> set (fingerprint_or_id f) \<and> CHR ''|'' \<notin> set (fd_rule_id f)
   \<and> CHR ''|'' \<notin> set (loc_path (fd_source_location f))
   \<and> CHR ''|'' \<notin> set (loc_path (fd_sink_location f))"

lemma location_key_bar_free: "CHR ''|'' \<notin> set (loc_path l) \<Longrightarrow> CHR ''|'' \<notin> set (location_key l)"
  by (auto simp: location_key_def)

lemma dedup_key_inj:
  assumes "bar_free f" and "bar_free g"
  shows "dedup_key f = dedup_key g \<longleftrightarrow>
     fingerprint_or_id f = fingerprint_or_id g \<and> fd_rule_id f = fd_rule_id g
     \<and> location_coords (fd_source_location f) = location_coords (fd_source_location g)
     \<and> location_coords (fd_sink_location f) = location_coords (fd_sink_location g)"
  using assms
  by (simp add: dedup_key_def bar_free_def join_left_inj location_key_bar_free location_key_inj)

text \<open>What a duplicate is, without the text of a key.\<close>

definition duplicates :: "finding \<Rightarrow> finding \<Rightarrow> bool" where
  "duplicates f g \<longleftrightarrow>
     (case fd_engine_fingerprint f of None \<Rightarrow> fd_finding_id f | Some fp \<Rightarrow> fp) =
       (case fd_engine_fingerprint g of None \<Rightarrow> fd_finding_id g | Some fp \<Rightarrow> fp)
   \<and> fd_rule_id f = fd_rule_id g
   \<and> location_coords (fd_source_location f) = location_coords (fd_source_location g)
   \<and> location_coords (fd_sink_location f) = location_coords (fd_sink_location g)"

lemma dedup_key_duplicates:
  "bar_free f \<Longrightarrow> bar_free g \<Longrightarrow> dedup_key f = dedup_key g \<longleftrightarrow> duplicates f g"
  by (simp add: dedup_key_inj duplicates_def fingerprint_or_id_def)

text \<open>The positions that \<open>retain_unseen\<close> keeps.\<close>

lemma retain_unseen_positions:
  "retain_unseen key seen xs = map (nth xs)
     (filter (\<lambda>i. key (xs ! i) \<notin> seen \<and> (\<forall>j < i. key (xs ! j) \<noteq> key (xs ! i))) [0..<length xs])"
proof (induction xs arbitrary: seen)
  case (Cons x xs)
  have shift: "[0..<length (x # xs)] = 0 # map Suc [0..<length xs]" by (simp add: map_Suc_upt upt_conv_Cons del: upt_Suc)
  show ?case
    unfolding shift
    by (auto simp: Cons.IH filter_map comp_def All_less_Suc2 intro!: arg_cong [of _ _ "map _"] filter_cong)
qed simp

lemma retain_unseen_nth:
  "retain_unseen key {} xs = map (nth xs)
     (filter (\<lambda>i. \<forall>j < i. key (xs ! j) \<noteq> key (xs ! i)) [0..<length xs])"
  by (simp add: retain_unseen_positions)

section \<open>Properties\<close>

text \<open>
  Prioritization permutes the findings, puts them in the order of the priority key, and so
  never puts a finding of lower severity before one of higher severity; findings with the same
  key keep their relative order.
\<close>

theorem prioritize_findings_correct:
  "mset (prioritize_findings fs) = mset fs
   \<and> sorted (map priority_key (prioritize_findings fs))
   \<and> sorted_wrt (\<lambda>f g.
         (fd_severity g = Some SevCritical \<longrightarrow> fd_severity f = Some SevCritical)
       \<and> (fd_severity g = Some SevHigh \<longrightarrow> fd_severity f \<in> {Some SevCritical, Some SevHigh})
       \<and> (fd_severity f = Some SevLow \<longrightarrow> fd_severity g \<in> {Some SevLow, Some SevUnknown, None})
       \<and> (fd_severity f \<in> {Some SevUnknown, None} \<longrightarrow> fd_severity g \<in> {Some SevUnknown, None}))
       (prioritize_findings fs)
   \<and> filter (\<lambda>f. priority_key f = k) (prioritize_findings fs)
      = filter (\<lambda>f. priority_key f = k) fs"
proof -
  have "sorted_wrt (\<lambda>f g. priority_key f \<le> priority_key g) (prioritize_findings fs)"
    using prioritize_sorted [of fs] by (simp add: sorted_wrt_map)
  then have "sorted_wrt (\<lambda>f g.
         (fd_severity g = Some SevCritical \<longrightarrow> fd_severity f = Some SevCritical)
       \<and> (fd_severity g = Some SevHigh \<longrightarrow> fd_severity f \<in> {Some SevCritical, Some SevHigh})
       \<and> (fd_severity f = Some SevLow \<longrightarrow> fd_severity g \<in> {Some SevLow, Some SevUnknown, None})
       \<and> (fd_severity f \<in> {Some SevUnknown, None} \<longrightarrow> fd_severity g \<in> {Some SevUnknown, None}))
      (prioritize_findings fs)"
    by (rule sorted_wrt_mono_rel [rotated])
       (drule priority_key_le_severity, rule severity_rank_order)
  then show ?thesis
    using prioritize_sorted [of fs] sort_key_stable [of priority_key k fs]
    by (simp add: prioritize_findings_def)
qed

theorem prioritize_findings_correct_witness:
  "fd_severity (hd (prioritize_findings
     [sample_finding CHR ''0'' ''a'' ''r'' (Some SevLow),
      sample_finding CHR ''1'' ''a'' ''r'' (Some SevCritical)])) = Some SevCritical"
proof -
  let ?l = "sample_finding CHR ''0'' ''a'' ''r'' (Some SevLow)"
  let ?c = "sample_finding CHR ''1'' ''a'' ''r'' (Some SevCritical)"
  note correct = prioritize_findings_correct [of "[?l, ?c]"]
  have m: "mset (prioritize_findings [?l, ?c]) = {#?l, ?c#}"
    using correct [THEN conjunct1] by simp
  then have "length (prioritize_findings [?l, ?c]) = 2"
    by (metis size_mset size_add_mset size_empty numeral_2_eq_2)
  then obtain x y where xs: "prioritize_findings [?l, ?c] = [x, y]"
    by (auto simp: numeral_2_eq_2 length_Suc_conv)
  have "fd_severity y = Some SevCritical \<longrightarrow> fd_severity x = Some SevCritical"
    using correct [THEN conjunct2, THEN conjunct2, THEN conjunct1] by (simp add: xs)
  moreover have "x = ?c \<or> y = ?c" using m by (auto simp: xs add_eq_conv_ex)
  moreover have "fd_severity ?c = Some SevCritical" by (simp add: sample_finding_def)
  ultimately show ?thesis by (auto simp: xs)
qed

text \<open>
  Prioritization is reproducible: when the finding identifiers are distinct, as in every
  validated manifest, the result does not depend on the order in which the engine reported them.
\<close>

theorem prioritize_findings_canonical:
  assumes "distinct (map fd_finding_id fs)" and "mset fs = mset gs"
  shows "prioritize_findings fs = prioritize_findings gs"
  unfolding prioritize_findings_def
  by (rule sort_key_canonical [OF assms(2) distinct_ids_inj_key [OF assms(1)]])

theorem prioritize_findings_canonical_witness:
  "prioritize_findings [sample_finding CHR ''0'' ''a'' ''r'' (Some SevLow),
                        sample_finding CHR ''1'' ''a'' ''r'' (Some SevHigh)]
   = prioritize_findings [sample_finding CHR ''1'' ''a'' ''r'' (Some SevHigh),
                          sample_finding CHR ''0'' ''a'' ''r'' (Some SevLow)]"
  by (rule prioritize_findings_canonical) (simp_all add: sample_finding_def numeral_eq_Suc)

text \<open>
  C38. Deduplication is exact on texts without the separator of its key. Two findings are
  duplicates when they agree in fingerprint (or, without one, identifier), rule, and source and
  sink: the path, the bytes, the lines and the columns, a missing number read as zero. The retained
  findings are exactly those that no earlier finding duplicates, in their order, and the returned
  count is the number of the others.
\<close>

theorem deduplicate_findings_correct:
  assumes "\<forall>f \<in> set fs. bar_free f"
  shows "deduplicate_findings fs =
    (map (nth fs) (filter (\<lambda>i. \<forall>j < i. \<not> duplicates (fs ! j) (fs ! i)) [0..<length fs]),
     length (filter (\<lambda>i. \<exists>j < i. duplicates (fs ! j) (fs ! i)) [0..<length fs]))"
proof -
  have key: "dedup_key (fs ! j) = dedup_key (fs ! i) \<longleftrightarrow> duplicates (fs ! j) (fs ! i)"
    if "j < i" "i < length fs" for i j
    using that assms by (intro dedup_key_duplicates) auto
  let ?first = "\<lambda>i. \<forall>j < i. \<not> duplicates (fs ! j) (fs ! i)"
  have "retain_unseen dedup_key {} fs = map (nth fs) (filter ?first [0..<length fs])"
    unfolding retain_unseen_nth by (intro arg_cong [of _ _ "map _"] filter_cong) (auto simp: key)
  moreover have "length fs - length (filter ?first [0..<length fs]) = length (filter (\<lambda>i. \<not> ?first i) [0..<length fs])"
    using sum_length_filter_compl [of ?first "[0..<length fs]"] by simp
  ultimately show ?thesis by (simp add: deduplicate_findings_def Let_def)
qed

theorem deduplicate_findings_correct_witness:
  "deduplicate_findings [sample_finding CHR ''0'' ''a'' ''r'' None, sample_finding CHR ''0'' ''a'' ''r'' (Some SevLow)]
     = ([sample_finding CHR ''0'' ''a'' ''r'' None], 1)"
proof -
  let ?f = "sample_finding CHR ''0'' ''a'' ''r'' None" and ?g = "sample_finding CHR ''0'' ''a'' ''r'' (Some SevLow)"
  have "\<forall>f \<in> set [?f, ?g]. bar_free f"
    by (simp add: bar_free_def fingerprint_or_id_def sample_finding_defs)
  note exact = deduplicate_findings_correct [OF this]
  have "duplicates ?f ?g" by (simp add: duplicates_def sample_finding_def)
  with exact show ?thesis by (simp add: less_Suc_eq upt_conv_Cons)
qed

text \<open>
  Where no fingerprint, rule or path contains the separator of the key, deduplication is
  exact: two findings share a key only when they agree on fingerprint, rule and both locations.
\<close>

theorem dedup_key_exact:
  assumes "bar_free f" and "bar_free g" and "dedup_key f = dedup_key g"
  shows "fingerprint_or_id f = fingerprint_or_id g \<and> fd_rule_id f = fd_rule_id g
     \<and> location_coords (fd_source_location f) = location_coords (fd_source_location g)
     \<and> location_coords (fd_sink_location f) = location_coords (fd_sink_location g)"
  using dedup_key_inj [OF assms(1,2)] assms(3) by simp

theorem dedup_key_exact_witness:
  "fd_rule_id (sample_finding CHR ''0'' ''a'' ''r'' None) = fd_rule_id (sample_finding CHR ''0'' ''a'' ''r'' (Some SevLow))"
proof -
  let ?f = "sample_finding CHR ''0'' ''a'' ''r'' None" and ?g = "sample_finding CHR ''0'' ''a'' ''r'' (Some SevLow)"
  have "bar_free ?f" and "bar_free ?g" and "dedup_key ?f = dedup_key ?g"
    by (simp_all add: bar_free_def dedup_key_def fingerprint_or_id_def sample_finding_defs)
  from dedup_key_exact [OF this] show ?thesis by simp
qed

text \<open>
  The separator is not escaped, and a fingerprint or a rule may contain it: two well-formed
  candidates of different rules can have the same key, and deduplication then drops the second
  one although it is no duplicate.
\<close>

theorem deduplicate_conflates_rules:
  "\<exists>f g. candidate_wf f \<and> candidate_wf g \<and> fd_rule_id f \<noteq> fd_rule_id g
     \<and> deduplicate_findings [f, g] = ([f], 1)"
proof (intro exI conjI)
  let ?f = "sample_finding CHR ''0'' ''a|b'' ''c'' None" and ?g = "sample_finding CHR ''0'' ''a'' ''b|c'' None"
  show "candidate_wf ?f" by (rule sample_candidate_wf) (simp_all add: string_simps)
  show "candidate_wf ?g" by (rule sample_candidate_wf) (simp_all add: string_simps)
  show "fd_rule_id ?f \<noteq> fd_rule_id ?g" by (simp add: sample_finding_def)
  show "deduplicate_findings [?f, ?g] = ([?f], 1)"
    by (simp add: deduplicate_findings_def dedup_key_def fingerprint_or_id_def sample_finding_def)
qed

end
