(* ===== verification/RunReview.thy ===== *)
theory RunReview
  imports FindingOrder
begin

text \<open>
  The review phase of a run: \<open>RunManifest::refresh_summary\<close> and \<open>validated_findings\<close> of
  \<open>crates/secureflow-model/src/lib.rs\<close>, and the command \<open>review-run\<close> of
  \<open>crates/secureflow-cli/src/main.rs\<close>, which records one human decision in a manifest. The
  lemmas show that the refreshed summary always agrees with the findings, that a decision is
  recorded once, by a named reviewer, on one pending finding, and that nothing else changes.
\<close>

section \<open>Summaries\<close>

text \<open>\<open>fold((0, 0, 0), ...)\<close> over the findings: validated, rejected, abstained.\<close>

fun count_decision :: "u64 \<times> u64 \<times> u64 \<Rightarrow> finding \<Rightarrow> u64 \<times> u64 \<times> u64" where
  "count_decision (validated, rejected, abstained) f =
     (case hr_decision (fd_human_review f) of
        DecisionValidated \<Rightarrow> (validated + 1, rejected, abstained)
      | DecisionRejected \<Rightarrow> (validated, rejected + 1, abstained)
      | DecisionAbstained \<Rightarrow> (validated, rejected, abstained + 1)
      | DecisionPending \<Rightarrow> (validated, rejected, abstained))"

definition empty_summary :: summary where
  "empty_summary = \<lparr>su_candidate_count = 0, su_duplicate_count = 0, su_validated_count = 0,
     su_rejected_count = 0, su_abstained_count = 0, su_ai_calls = 0, su_ai_input_tokens = 0,
     su_ai_output_tokens = 0\<rparr>"

definition refresh_summary :: "run_manifest \<Rightarrow> run_manifest" where
  "refresh_summary m =
     (let findings = rm_findings m;
          (validated, rejected, abstained) = foldl count_decision (0, 0, 0) findings;
          previous = (case rm_summary m of None \<Rightarrow> empty_summary | Some s \<Rightarrow> s)
      in m\<lparr>rm_summary := Some \<lparr>
           su_candidate_count = of_nat (length findings),
           su_duplicate_count = su_duplicate_count previous,
           su_validated_count = validated,
           su_rejected_count = rejected,
           su_abstained_count = abstained,
           su_ai_calls = of_nat (count_if ai_called findings),
           su_ai_input_tokens = sum_u64 (\<lambda>f. ai_input_tokens (fd_ai_validation f)) findings,
           su_ai_output_tokens = sum_u64 (\<lambda>f. ai_output_tokens (fd_ai_validation f)) findings\<rparr>\<rparr>)"

definition validated_findings :: "run_manifest \<Rightarrow> finding list" where
  "validated_findings m = filter (has_decision DecisionValidated) (rm_findings m)"

lemma fold_count_decision:
  "foldl count_decision (v, r, a) fs =
     (v + of_nat (count_if (has_decision DecisionValidated) fs),
      r + of_nat (count_if (has_decision DecisionRejected) fs),
      a + of_nat (count_if (has_decision DecisionAbstained) fs))"
proof (induction fs arbitrary: v r a)
  case Nil
  then show ?case by simp
next
  case (Cons f fs)
  then show ?case by (cases "hr_decision (fd_human_review f)") (auto simp: has_decision_def)
qed

lemma refresh_summary_agrees:
  "rm_summary (refresh_summary m) = Some s \<Longrightarrow> validate_summary s (rm_findings m) = Inr ()"
  by (auto simp: refresh_summary_def Let_def fold_count_decision validate_summary_def)

lemma refresh_summary_frame [simp]:
  "rm_findings (refresh_summary m) = rm_findings m"
  "rm_phases (refresh_summary m) = rm_phases m"
  "rm_contract_version (refresh_summary m) = rm_contract_version m"
  "rm_run_id (refresh_summary m) = rm_run_id m"
  "rm_target (refresh_summary m) = rm_target m"
  "rm_summary (refresh_summary m) \<noteq> None"
  by (simp_all add: refresh_summary_def Let_def fold_count_decision)

lemma summary_frame_wf [simp]:
  "manifest_frame_wf ts (m\<lparr>rm_summary := s\<rparr>) = manifest_frame_wf ts m"
  by (simp add: manifest_frame_wf_def lifecycle_wf_def v1_shape_wf_def)

lemma refresh_summary_frame_wf [simp]:
  "manifest_frame_wf ts (refresh_summary m) = manifest_frame_wf ts m"
  by (simp add: refresh_summary_def Let_def fold_count_decision)

lemma refresh_summary_wf:
  "manifest_wf ts (refresh_summary m) \<longleftrightarrow>
     manifest_frame_wf ts m \<and> (\<forall>f \<in> set (rm_findings m). finding_wf ts f)
   \<and> distinct (map fd_finding_id (rm_findings m)) \<and> phases_wf (rm_phases m) (rm_findings m)"
  using refresh_summary_agrees [of m] by (auto simp: manifest_wf_def)

lemma refresh_summary_again: "refresh_summary (refresh_summary m) = refresh_summary m"
  by (cases m) (simp add: refresh_summary_def Let_def fold_count_decision)

text \<open>
  The wrapping sum of the token counts is the exact sum: a validated count is at most ten
  million, so the sum of fewer than a trillion findings stays below \<open>2 ^ 64\<close>.
\<close>

lemma sum_u64_bound:
  assumes "\<forall>f \<in> set fs. \<forall>n. g f = Some n \<longrightarrow> n \<le> 10000000" and "length fs \<le> 1000000000000"
  shows "unat (sum_u64 g fs) = sum_list (map unat (List.map_filter g fs))
       \<and> sum_list (map unat (List.map_filter g fs)) \<le> 10000000 * length fs"
  using assms
proof (induction fs)
  case Nil
  then show ?case by (simp add: sum_u64_def List.map_filter_def)
next
  case (Cons f fs)
  then have IH: "unat (sum_u64 g fs) = sum_list (map unat (List.map_filter g fs))"
      "sum_list (map unat (List.map_filter g fs)) \<le> 10000000 * length fs"
    by auto
  show ?case
  proof (cases "g f")
    case None
    with IH show ?thesis by (simp add: sum_u64_def List.map_filter_def)
  next
    case (Some n)
    with Cons.prems have "n \<le> 10000000" by simp
    then have n: "unat n \<le> 10000000" by (simp add: word_le_nat_alt)
    with IH(2) Cons.prems(2) have "unat n + unat (sum_u64 g fs) < 2 ^ 64"
      by (simp add: IH(1))
    then have "unat (n + sum_u64 g fs) = unat n + unat (sum_u64 g fs)"
      by (simp add: unat_word_ariths)
    with Some IH n show ?thesis by (simp add: sum_u64_def List.map_filter_def)
  qed
qed

section \<open>Replacing one finding\<close>

text \<open>
  Every later phase replaces one finding by a copy with another review. What the contract asks
  of the engine's part is not touched.
\<close>

definition same_candidate :: "finding \<Rightarrow> finding \<Rightarrow> bool" where
  "same_candidate f g \<longleftrightarrow>
     g = f\<lparr>fd_human_review := fd_human_review g, fd_ai_validation := fd_ai_validation g\<rparr>"

lemma same_candidate_refl [simp]: "same_candidate f f"
  by (simp add: same_candidate_def)

lemma same_candidate_human [simp]: "same_candidate f (f\<lparr>fd_human_review := r\<rparr>)"
  by (simp add: same_candidate_def)

lemma same_candidate_ai [simp]: "same_candidate f (f\<lparr>fd_ai_validation := a\<rparr>)"
  by (simp add: same_candidate_def)

lemma same_candidate_fields:
  assumes "same_candidate f g"
  shows "fd_finding_id g = fd_finding_id f" "candidate_wf g = candidate_wf f"
    "v1_finding_wf g = v1_finding_wf f"
proof -
  obtain r a where g: "g = f\<lparr>fd_human_review := r, fd_ai_validation := a\<rparr>"
    using assms unfolding same_candidate_def by blast
  show "fd_finding_id g = fd_finding_id f" "candidate_wf g = candidate_wf f"
    "v1_finding_wf g = v1_finding_wf f"
    unfolding g by (simp_all add: candidate_wf_def v1_finding_wf_def finding_locations_def)
qed

definition replace_finding :: "nat \<Rightarrow> finding \<Rightarrow> run_manifest \<Rightarrow> run_manifest" where
  "replace_finding i g m = m\<lparr>rm_findings := (rm_findings m)[i := g]\<rparr>"

lemma replace_finding_frame_wf:
  assumes "manifest_frame_wf ts m" and "i < length (rm_findings m)"
    and "same_candidate (rm_findings m ! i) g"
  shows "manifest_frame_wf ts (replace_finding i g m)"
proof -
  have "v1_shape_wf (replace_finding i g m)" if "v1_shape_wf m"
    using that assms(2) same_candidate_fields(3) [OF assms(3)]
      set_update_subset_insert [of "rm_findings m" i g]
    by (auto simp: v1_shape_wf_def replace_finding_def)
  with assms(1) show ?thesis
    by (auto simp: manifest_frame_wf_def replace_finding_def lifecycle_wf_def)
qed

lemma replace_finding_wf:
  assumes "manifest_wf ts m" and "i < length (rm_findings m)"
    and "same_candidate (rm_findings m ! i) g" and "finding_wf ts g"
  shows "manifest_frame_wf ts (replace_finding i g m)"
    and "\<forall>f \<in> set (rm_findings (replace_finding i g m)). finding_wf ts f"
    and "distinct (map fd_finding_id (rm_findings (replace_finding i g m)))"
proof -
  show "manifest_frame_wf ts (replace_finding i g m)"
    using assms(1-3) by (simp add: manifest_wf_def replace_finding_frame_wf)
  show "\<forall>f \<in> set (rm_findings (replace_finding i g m)). finding_wf ts f"
    using assms(1,4) set_update_subset_insert [of "rm_findings m" i g]
    by (auto simp: manifest_wf_def replace_finding_def)
  show "distinct (map fd_finding_id (rm_findings (replace_finding i g m)))"
    using assms(1,2) same_candidate_fields(1) [OF assms(3)]
    by (simp add: manifest_wf_def replace_finding_def map_key_update)
qed

section \<open>The decisions of a manifest\<close>

text \<open>The final decision, with its review, of each finding that has one.\<close>

definition decision_of :: "finding \<Rightarrow> human_review option" where
  "decision_of f = (if is_pending f then None else Some (fd_human_review f))"

definition decisions :: "run_manifest \<Rightarrow> string \<Rightarrow> human_review option" where
  "decisions m = entries fd_finding_id decision_of (rm_findings m)"

lemma decisions_refresh [simp]: "decisions (refresh_summary m) = decisions m"
  by (simp add: decisions_def)

lemma decisions_replace:
  assumes "manifest_wf ts m" and "i < length (rm_findings m)"
    and "same_candidate (rm_findings m ! i) g"
  shows "decisions (replace_finding i g m)
           = (decisions m)(fd_finding_id (rm_findings m ! i) := decision_of g)"
  unfolding decisions_def replace_finding_def
  using assms same_candidate_fields(1) [OF assms(3)]
  by (simp add: manifest_wf_def entries_update)

lemma decisions_nth:
  "manifest_wf ts m \<Longrightarrow> i < length (rm_findings m) \<Longrightarrow>
     decisions m (fd_finding_id (rm_findings m ! i)) = decision_of (rm_findings m ! i)"
  by (simp add: decisions_def manifest_wf_def entries_nth)

section \<open>The command review-run\<close>

datatype review_decision = ReviewValidated | ReviewRejected | ReviewAbstained

fun to_human_decision :: "review_decision \<Rightarrow> human_decision" where
  "to_human_decision ReviewValidated = DecisionValidated"
| "to_human_decision ReviewRejected = DecisionRejected"
| "to_human_decision ReviewAbstained = DecisionAbstained"

datatype review_error =
  EmptyReviewField string
| ReviewFieldTooLong string nat
| ReviewFindingNotFound string
| FindingAlreadyReviewed string
| ReviewModel model_error

definition checked_review_field :: "string \<Rightarrow> string \<Rightarrow> nat \<Rightarrow> review_error + string" where
  "checked_review_field value field max_chars =
     (if value = [] then Err (EmptyReviewField field)
      else if max_chars < chars_count value then Err (ReviewFieldTooLong field max_chars)
      else Ok value)"

text \<open>\<open>as_deref().map(str::trim).filter(non-empty).map(checked_review_field).transpose()\<close>.\<close>

definition checked_optional_field ::
    "string option \<Rightarrow> string \<Rightarrow> nat \<Rightarrow> review_error + string option" where
  "checked_optional_field value field max_chars =
     (case value of
        None \<Rightarrow> Ok None
      | Some v \<Rightarrow>
          if trim v = [] then Ok None
          else and_then (checked_review_field (trim v) field max_chars) (\<lambda>x. Ok (Some x)))"

record review_args =
  ra_finding_id :: string
  ra_decision :: review_decision
  ra_reviewer :: string
  ra_rationale :: string
  ra_evidence_reference :: "string option"

definition reviewed_phase :: "run_manifest \<Rightarrow> run_manifest" where
  "reviewed_phase m =
     m\<lparr>rm_phases := (rm_phases m)\<lparr>ph_validation :=
        (if \<exists>f \<in> set (rm_findings m). is_pending f then PhasePartial else PhaseCompleted)\<rparr>\<rparr>"

text \<open>\<open>now\<close> is \<open>OffsetDateTime::now_utc().format(&Rfc3339)\<close> at the time of the command.\<close>

definition review_run ::
    "ts_parser \<Rightarrow> string \<Rightarrow> review_args \<Rightarrow> run_manifest \<Rightarrow> review_error + run_manifest" where
  "review_run ts now args m =
     and_then (map_err ReviewModel (validate_manifest ts m)) (\<lambda>_.
     and_then (checked_review_field (trim (ra_reviewer args)) ''reviewer'' 200) (\<lambda>reviewer.
     and_then (checked_review_field (trim (ra_rationale args)) ''rationale'' 3000) (\<lambda>rationale.
     and_then (checked_optional_field (ra_evidence_reference args) ''evidence_reference'' 300)
       (\<lambda>evidence_reference.
     case position (\<lambda>f. fd_finding_id f = ra_finding_id args) (rm_findings m) of
       None \<Rightarrow> Err (ReviewFindingNotFound (ra_finding_id args))
     | Some i \<Rightarrow>
         let f = rm_findings m ! i in
         if hr_decision (fd_human_review f) \<noteq> DecisionPending
         then Err (FindingAlreadyReviewed (ra_finding_id args))
         else
           let review = \<lparr>hr_decision = to_human_decision (ra_decision args),
                         hr_reviewer = Some reviewer, hr_reviewed_at = Some now,
                         hr_rationale = Some rationale,
                         hr_evidence_reference = evidence_reference\<rparr>;
               m1 = refresh_summary (replace_finding i (f\<lparr>fd_human_review := review\<rparr>) m);
               m2 = reviewed_phase m1
           in and_then (map_err ReviewModel (validate_manifest ts m2)) (\<lambda>_. Ok m2)))))"

section \<open>What review-run does\<close>

lemma reviewed_phase_frame [simp]:
  "rm_findings (reviewed_phase m) = rm_findings m"
  "rm_summary (reviewed_phase m) = rm_summary m"
  "manifest_frame_wf ts (reviewed_phase m) = manifest_frame_wf ts m"
  "decisions (reviewed_phase m) = decisions m"
  by (simp_all add: reviewed_phase_def manifest_frame_wf_def lifecycle_wf_def v1_shape_wf_def
      decisions_def)

lemma reviewed_phase_phases_wf:
  "(\<exists>f \<in> set (rm_findings m). \<not> is_pending f) \<Longrightarrow>
     phases_wf (rm_phases (reviewed_phase m)) (rm_findings m)"
  by (auto simp: reviewed_phase_def phases_wf_def)

text \<open>The manifest that a review produces, and that it satisfies the contract.\<close>

definition record_review :: "nat \<Rightarrow> human_review \<Rightarrow> run_manifest \<Rightarrow> run_manifest" where
  "record_review i r m =
     reviewed_phase (refresh_summary (replace_finding i
       ((rm_findings m ! i)\<lparr>fd_human_review := r\<rparr>) m))"

lemma record_review_wf:
  assumes m: "manifest_wf ts m" and i: "i < length (rm_findings m)"
    and r: "human_review_wf ts r" and decided: "hr_decision r \<noteq> DecisionPending"
  shows "manifest_wf ts (record_review i r m)"
proof -
  let ?g = "(rm_findings m ! i)\<lparr>fd_human_review := r\<rparr>"
  let ?m1 = "replace_finding i ?g m"
  have "finding_wf ts (rm_findings m ! i)" using m i by (simp add: manifest_wf_def)
  then have g: "finding_wf ts ?g"
    using r same_candidate_fields(2) [of "rm_findings m ! i" ?g] by (simp add: finding_wf_def)
  note parts = replace_finding_wf [OF m i same_candidate_human g]
  have "?g \<in> set (rm_findings ?m1)"
    using i by (simp add: replace_finding_def set_update_memI)
  then have "\<exists>f \<in> set (rm_findings (refresh_summary ?m1)). \<not> is_pending f"
    using decided by (auto simp: is_pending_def intro!: bexI [of _ ?g])
  then have "phases_wf (rm_phases (reviewed_phase (refresh_summary ?m1))) (rm_findings ?m1)"
    using reviewed_phase_phases_wf by fastforce
  with parts refresh_summary_agrees [of ?m1] show ?thesis
    by (auto simp: manifest_wf_def record_review_def)
qed

lemma record_review_findings:
  "rm_findings (record_review i r m)
     = (rm_findings m)[i := (rm_findings m ! i)\<lparr>fd_human_review := r\<rparr>]"
  by (simp add: record_review_def replace_finding_def)

lemma record_review_decisions:
  assumes "manifest_wf ts m" and "i < length (rm_findings m)"
    and "hr_decision r \<noteq> DecisionPending"
  shows "decisions (record_review i r m)
           = (decisions m)(fd_finding_id (rm_findings m ! i) \<mapsto> r)"
  using decisions_replace [OF assms(1,2) same_candidate_human [of _ r]] assms(3)
  by (simp add: record_review_def decision_of_def is_pending_def)

text \<open>The texts the command accepts, and the review it records.\<close>

lemma checked_review_field_iff:
  "checked_review_field v f n = Inr x \<longleftrightarrow> x = v \<and> v \<noteq> [] \<and> chars_count v \<le> n"
  by (auto simp: checked_review_field_def)

lemma trimmed_field_text_wf: "trim v \<noteq> [] \<Longrightarrow> chars_count (trim v) \<le> n \<Longrightarrow> text_wf n (trim v)"
  by (simp add: text_wf_def trim_visible)

definition optional_field_ok :: "string option \<Rightarrow> nat \<Rightarrow> bool" where
  "optional_field_ok value n \<longleftrightarrow>
     (\<forall>v. value = Some v \<longrightarrow> trim v \<noteq> [] \<longrightarrow> chars_count (trim v) \<le> n)"

definition optional_field :: "string option \<Rightarrow> string option" where
  "optional_field value =
     (case value of None \<Rightarrow> None | Some v \<Rightarrow> if trim v = [] then None else Some (trim v))"

lemma checked_optional_field_iff:
  "checked_optional_field v f n = Inr x \<longleftrightarrow> x = optional_field v \<and> optional_field_ok v n"
  by (cases v) (auto simp: checked_optional_field_def optional_field_def optional_field_ok_def
      and_then_Inr_iff checked_review_field_iff)

definition review_args_ok :: "review_args \<Rightarrow> bool" where
  "review_args_ok a \<longleftrightarrow>
     trim (ra_reviewer a) \<noteq> [] \<and> chars_count (trim (ra_reviewer a)) \<le> 200
   \<and> trim (ra_rationale a) \<noteq> [] \<and> chars_count (trim (ra_rationale a)) \<le> 3000
   \<and> optional_field_ok (ra_evidence_reference a) 300"

lemma review_args_checked:
  assumes "review_args_ok a"
  shows "checked_review_field (trim (ra_reviewer a)) f 200 = Inr (trim (ra_reviewer a))"
    and "checked_review_field (trim (ra_rationale a)) g 3000 = Inr (trim (ra_rationale a))"
    and "checked_optional_field (ra_evidence_reference a) h 300
           = Inr (optional_field (ra_evidence_reference a))"
  using assms
  by (simp_all add: review_args_ok_def checked_review_field_iff checked_optional_field_iff)

definition review_of_args :: "string \<Rightarrow> review_args \<Rightarrow> human_review" where
  "review_of_args now a =
     \<lparr>hr_decision = to_human_decision (ra_decision a), hr_reviewer = Some (trim (ra_reviewer a)),
      hr_reviewed_at = Some now, hr_rationale = Some (trim (ra_rationale a)),
      hr_evidence_reference = optional_field (ra_evidence_reference a)\<rparr>"

lemma to_human_decision_final [simp]: "to_human_decision d \<noteq> DecisionPending"
  by (cases d) auto

lemma review_of_args_wf:
  "review_args_ok a \<Longrightarrow> ts now \<noteq> None \<Longrightarrow> human_review_wf ts (review_of_args now a)"
  by (auto simp: review_args_ok_def review_of_args_def human_review_wf_def trimmed_field_text_wf
      optional_field_def optional_field_ok_def split: option.splits if_splits)

text \<open>
  The command in one line: it succeeds exactly when its arguments are in bounds and the finding
  is pending, and then the manifest is the recorded review. The validation at its end never
  fails, because the timestamp it formats also parses.
\<close>

lemma review_run_iff:
  assumes now: "ts now \<noteq> None"
  shows "review_run ts now a m = Inr m' \<longleftrightarrow>
     manifest_wf ts m \<and> review_args_ok a
   \<and> (\<exists>i. position (\<lambda>f. fd_finding_id f = ra_finding_id a) (rm_findings m) = Some i
        \<and> is_pending (rm_findings m ! i) \<and> m' = record_review i (review_of_args now a) m)"
proof -
  have final: "manifest_wf ts (record_review i (review_of_args now a) m)"
    if "manifest_wf ts m" and "review_args_ok a"
      and "position (\<lambda>f. fd_finding_id f = ra_finding_id a) (rm_findings m) = Some i" for i
    using that position_Some [OF that(3)] review_of_args_wf [of a ts now] now
    by (intro record_review_wf) (simp_all add: review_of_args_def)
  have result: "reviewed_phase (refresh_summary (replace_finding i
      ((rm_findings m ! i)\<lparr>fd_human_review := review_of_args now a\<rparr>) m))
      = record_review i (review_of_args now a) m" for i
    by (simp add: record_review_def)
  show ?thesis
    using final
    by (auto simp: review_run_def and_then_Inr_iff map_err_Inr_iff validate_manifest_wf
        checked_review_field_iff checked_optional_field_iff review_args_ok_def Let_def
        review_of_args_def [symmetric] result is_pending_def split: option.splits if_splits)
qed

section \<open>Properties\<close>

text \<open>
  Human authority: every finding that a validated manifest counts as validated carries a
  visible reviewer name, a parseable review time and a visible rationale; no pending finding
  carries any review metadata.
\<close>

theorem validated_findings_reviewed:
  assumes "validate_manifest ts m = Ok ()" and "f \<in> set (rm_findings m)"
  shows "if f \<in> set (validated_findings m)
         then (\<exists>reviewer time rationale. hr_reviewer (fd_human_review f) = Some reviewer
                \<and> text_wf 200 reviewer \<and> hr_reviewed_at (fd_human_review f) = Some time
                \<and> ts time \<noteq> None \<and> hr_rationale (fd_human_review f) = Some rationale
                \<and> text_wf 3000 rationale)
         else is_pending f \<longrightarrow> fd_human_review f = pending_review"
proof -
  have "human_review_wf ts (fd_human_review f)"
    using assms by (simp add: validate_manifest_wf manifest_wf_def finding_wf_def)
  then show ?thesis
    using assms(2)
    by (cases "fd_human_review f")
       (auto simp: human_review_wf_def validated_findings_def has_decision_def is_pending_def
          pending_review_def)
qed

theorem validated_findings_reviewed_witness:
  "if one_finding \<in> set (validated_findings one_manifest)
   then (\<exists>reviewer time rationale. hr_reviewer (fd_human_review one_finding) = Some reviewer
          \<and> text_wf 200 reviewer \<and> hr_reviewed_at (fd_human_review one_finding) = Some time
          \<and> sample_ts time \<noteq> None \<and> hr_rationale (fd_human_review one_finding) = Some rationale
          \<and> text_wf 3000 rationale)
   else is_pending one_finding \<longrightarrow> fd_human_review one_finding = pending_review"
  by (rule validated_findings_reviewed [of sample_ts one_manifest one_finding])
     (simp_all add: validate_manifest_wf)

text \<open>
  Refreshing the summary repairs it: whatever summary a manifest carried, if the manifest is
  otherwise valid, the refreshed one is valid; the recorded number of duplicates, the findings
  and the decisions stay, and a second refresh changes nothing.
\<close>

theorem refresh_summary_valid:
  assumes "validate_manifest ts (m\<lparr>rm_summary := None\<rparr>) = Ok ()"
  shows "validate_manifest ts (refresh_summary m) = Ok ()
    \<and> rm_findings (refresh_summary m) = rm_findings m
    \<and> map_option su_duplicate_count (rm_summary (refresh_summary m))
        = Some (case rm_summary m of None \<Rightarrow> 0 | Some s \<Rightarrow> su_duplicate_count s)
    \<and> refresh_summary (refresh_summary m) = refresh_summary m"
proof -
  have "manifest_wf ts (m\<lparr>rm_summary := None\<rparr>)" using assms by (simp add: validate_manifest_wf)
  then have "manifest_wf ts (refresh_summary m)"
    by (simp add: refresh_summary_wf) (simp add: manifest_wf_def)
  moreover have "map_option su_duplicate_count (rm_summary (refresh_summary m))
      = Some (case rm_summary m of None \<Rightarrow> 0 | Some s \<Rightarrow> su_duplicate_count s)"
    by (cases "rm_summary m")
       (simp_all add: refresh_summary_def Let_def fold_count_decision empty_summary_def)
  ultimately show ?thesis
    by (simp add: validate_manifest_wf refresh_summary_again)
qed

theorem refresh_summary_valid_witness:
  "validate_manifest sample_ts (refresh_summary (one_manifest\<lparr>rm_summary := Some empty_summary\<rparr>))
     = Ok ()"
proof -
  have "one_manifest\<lparr>rm_summary := Some empty_summary, rm_summary := None\<rparr> = one_manifest"
    by (simp add: one_manifest_def sample_manifest_def)
  then have "validate_manifest sample_ts
      (one_manifest\<lparr>rm_summary := Some empty_summary, rm_summary := None\<rparr>) = Ok ()"
    by (simp only: validate_manifest_wf one_manifest_wf)
  from refresh_summary_valid [OF this] show ?thesis by simp
qed

text \<open>
  The token totals of a validated manifest are exact: for up to a trillion findings the
  64-bit sums of the summary do not wrap, and equal the sums over the integers.
\<close>

theorem summary_tokens_exact:
  assumes "validate_manifest ts m = Ok ()" and "rm_summary m = Some s"
    and "length (rm_findings m) \<le> 1000000000000"
  shows "unat (su_ai_input_tokens s)
           = sum_list (map unat (List.map_filter (\<lambda>f. ai_input_tokens (fd_ai_validation f))
               (rm_findings m)))
       \<and> unat (su_ai_output_tokens s)
           = sum_list (map unat (List.map_filter (\<lambda>f. ai_output_tokens (fd_ai_validation f))
               (rm_findings m)))"
proof -
  have wf: "manifest_wf ts m" using assms(1) by (simp add: validate_manifest_wf)
  then have "validate_summary s (rm_findings m) = Inr ()"
    using assms(2) by (simp add: manifest_wf_def)
  then have "su_ai_input_tokens s = sum_u64 (\<lambda>f. ai_input_tokens (fd_ai_validation f)) (rm_findings m)"
      and "su_ai_output_tokens s = sum_u64 (\<lambda>f. ai_output_tokens (fd_ai_validation f)) (rm_findings m)"
    by (simp_all add: validate_summary_def fail_if_Inr_iff)
  moreover have "\<forall>f \<in> set (rm_findings m).
      (\<forall>n. ai_input_tokens (fd_ai_validation f) = Some n \<longrightarrow> n \<le> 10000000)
    \<and> (\<forall>n. ai_output_tokens (fd_ai_validation f) = Some n \<longrightarrow> n \<le> 10000000)"
    using wf by (simp add: manifest_wf_def finding_wf_def ai_validation_wf_def)
  ultimately show ?thesis
    using sum_u64_bound [OF _ assms(3)] by simp
qed

theorem summary_tokens_exact_witness:
  "\<exists>s. rm_summary (refresh_summary one_manifest) = Some s \<and> unat (su_ai_input_tokens s) = 0"
proof -
  obtain s where s: "rm_summary (refresh_summary one_manifest) = Some s"
    using refresh_summary_frame(6) [of one_manifest] by blast
  have "validate_manifest sample_ts (refresh_summary one_manifest) = Ok ()"
    using one_manifest_wf [unfolded manifest_wf_def]
    by (simp add: validate_manifest_wf refresh_summary_wf)
  from summary_tokens_exact [OF this s] s show ?thesis
    by (simp add: List.map_filter_def no_ai_def)
qed

text \<open>
  C35. A review succeeds exactly when it should: the manifest is valid, the reviewer and the
  rationale are visible and in bounds, and the finding exists and is pending. The validation at
  the end of the command never rejects such a review.
\<close>

theorem review_run_succeeds_iff:
  assumes "ts now \<noteq> None"
  shows "is_ok (review_run ts now a m) \<longleftrightarrow>
     validate_manifest ts m = Ok () \<and> review_args_ok a
   \<and> (\<exists>f \<in> set (rm_findings m). fd_finding_id f = ra_finding_id a \<and> is_pending f)"
proof -
  let ?p = "\<lambda>f. fd_finding_id f = ra_finding_id a"
  have "(\<exists>i. position ?p (rm_findings m) = Some i \<and> is_pending (rm_findings m ! i))
      \<longleftrightarrow> (\<exists>f \<in> set (rm_findings m). ?p f \<and> is_pending f)" if "manifest_wf ts m"
  proof
    assume "\<exists>i. position ?p (rm_findings m) = Some i \<and> is_pending (rm_findings m ! i)"
    then show "\<exists>f \<in> set (rm_findings m). ?p f \<and> is_pending f"
      using position_Some [of ?p] by (metis nth_mem)
  next
    assume "\<exists>f \<in> set (rm_findings m). ?p f \<and> is_pending f"
    then obtain j where j: "j < length (rm_findings m)" "?p (rm_findings m ! j)"
        "is_pending (rm_findings m ! j)"
      by (auto simp: in_set_conv_nth)
    then obtain i where i: "position ?p (rm_findings m) = Some i"
      using position_None_iff [of ?p "rm_findings m"] by (cases "position ?p (rm_findings m)") auto
    have "j = i"
      using that position_key_unique [OF _ i j(1,2)] by (simp add: manifest_wf_def)
    with i j(3) show "\<exists>i. position ?p (rm_findings m) = Some i \<and> is_pending (rm_findings m ! i)"
      by blast
  qed
  then show ?thesis
    by (auto simp: is_ok_iff review_run_iff [where ts = ts and now = now, OF assms] validate_manifest_wf)
qed

definition sample_review :: review_args where
  "sample_review = \<lparr>ra_finding_id = fd_finding_id one_finding, ra_decision = ReviewValidated,
     ra_reviewer = '' Ann '', ra_rationale = ''ok'', ra_evidence_reference = None\<rparr>"

lemma sample_review_ok [simp]: "review_args_ok sample_review"
  by (simp add: sample_review_def review_args_ok_def trim_def optional_field_ok_def white1_def
      white2_def white3_def chars_count_def byte_def)

theorem review_run_succeeds_iff_witness:
  "is_ok (review_run sample_ts T1 sample_review one_manifest)"
  using review_run_succeeds_iff [of sample_ts T1 sample_review one_manifest]
  by (simp add: validate_manifest_wf) (simp add: sample_review_def)

text \<open>
  What a review changes: the new manifest is valid, the findings keep their number and
  order, exactly the named finding gets the decision, with the trimmed texts and the time of the
  command, its engine part and AI advice stay, every other finding is identical, and a second
  review of that finding is refused as already reviewed.
\<close>

theorem review_run_effect:
  assumes now: "ts now \<noteq> None" and ok: "review_run ts now a m = Ok m'"
  shows "validate_manifest ts m' = Ok ()
    \<and> (\<exists>i < length (rm_findings m).
          fd_finding_id (rm_findings m ! i) = ra_finding_id a \<and> is_pending (rm_findings m ! i)
        \<and> rm_findings m' = (rm_findings m)[i :=
             (rm_findings m ! i)\<lparr>fd_human_review := review_of_args now a\<rparr>])
    \<and> decisions m' = (decisions m)(ra_finding_id a \<mapsto> review_of_args now a)
    \<and> review_run ts now a m' = Err (FindingAlreadyReviewed (ra_finding_id a))"
proof -
  let ?p = "\<lambda>f. fd_finding_id f = ra_finding_id a"
  obtain i where wf: "manifest_wf ts m" and args: "review_args_ok a"
      and i: "position ?p (rm_findings m) = Some i" and pending: "is_pending (rm_findings m ! i)"
      and m': "m' = record_review i (review_of_args now a) m"
    using ok by (auto simp: review_run_iff [where ts = ts and now = now, OF now])
  from position_Some [OF i] have len: "i < length (rm_findings m)"
      and id: "fd_finding_id (rm_findings m ! i) = ra_finding_id a" by simp_all
  have final: "hr_decision (review_of_args now a) \<noteq> DecisionPending"
    by (simp add: review_of_args_def)
  have wf': "manifest_wf ts m'"
    unfolding m' using wf len review_of_args_wf [of a ts now] args now final
    by (intro record_review_wf) simp_all
  have findings: "rm_findings m' = (rm_findings m)[i :=
      (rm_findings m ! i)\<lparr>fd_human_review := review_of_args now a\<rparr>]"
    unfolding m' by (rule record_review_findings)
  have dec: "decisions m' = (decisions m)(ra_finding_id a \<mapsto> review_of_args now a)"
    using record_review_decisions [OF wf len final] id by (simp add: m')
  have "position ?p (rm_findings m') = Some i"
  proof (cases "position ?p (rm_findings m')")
    case None
    then show ?thesis
      using len id by (auto simp: position_None_iff findings set_conv_nth)
  next
    case (Some j)
    have "distinct (map fd_finding_id (rm_findings m'))" using wf' by (simp add: manifest_wf_def)
    from position_key_unique [OF this Some, of i] len id Some show ?thesis
      by (simp add: findings)
  qed
  then have "review_run ts now a m' = Err (FindingAlreadyReviewed (ra_finding_id a))"
    using validate_manifest_wf [THEN iffD2, OF wf', of "()"] args final len
    by (simp add: review_run_def review_args_checked Let_def findings)
  with wf' len id pending findings dec show ?thesis by (auto simp: validate_manifest_wf)
qed

theorem review_run_effect_witness:
  "\<exists>m'. review_run sample_ts T1 sample_review one_manifest = Ok m'
      \<and> decisions m' (fd_finding_id one_finding) = Some (review_of_args T1 sample_review)"
proof -
  have "\<exists>m'. review_run sample_ts T1 sample_review one_manifest = Ok m'"
    by (simp add: review_run_iff) (simp add: sample_review_def)
  then obtain m' where m': "review_run sample_ts T1 sample_review one_manifest = Ok m'" by blast
  have "sample_ts T1 \<noteq> None" by simp
  from review_run_effect [OF this m'] m' show ?thesis by (simp add: sample_review_def)
qed

end
