(* ===== verification/Orchestrator.thy ===== *)
theory Orchestrator
  imports RunReview
begin

text \<open>
  The planner of \<open>crates/secureflow-orchestrator/src/lib.rs\<close>: \<open>derive_plan\<close> turns a validated
  run and the retained evidence into a plan of seven phases with one next action, and
  \<open>OrchestrationEnvelope::validate\<close> checks such a plan, on its own, when it is read back.

  Outside the repository: the RFC3339 parser (\<open>ts\<close>), the digest (\<open>sha\<close>), the JSON encoding of
  the identity of a plan (\<open>ser\<close>) and of a stored plan (\<open>from_json\<close>), and the clock, whose
  formatted reading is \<open>now\<close> (\<open>None\<close> when formatting fails).
\<close>

section \<open>Data\<close>

definition ORCHESTRATION_VERSION :: string where
  "ORCHESTRATION_VERSION = ''secureflow-orchestration-v1''"

definition MAX_ORCHESTRATION_BYTES :: nat where
  "MAX_ORCHESTRATION_BYTES = 4 * 1024 * 1024"

definition MAX_EVIDENCE_ARTIFACTS :: nat where
  "MAX_EVIDENCE_ARTIFACTS = 10000"

record orchestration_policy =
  op_authorization_required :: bool
  op_deterministic_first :: bool
  op_ai_optional :: bool
  op_ai_validation_authority :: string
  op_benchmark_evaluation_only :: bool
  op_no_evidence_action :: string
  op_network_execution :: string

datatype plan_evidence_kind =
  ContextualReview | AdvisoryCorrelation | WebInventoryEvidence | WebInferenceEvidence
| WebAssessmentEvidence | BenchmarkResult | WebLabResult | WebCorpusResult

datatype evidence_artifact = EvidenceArtifact (ea_kind: plan_evidence_kind) (ea_sha256: string)

text \<open>The derived \<open>Ord\<close>: kinds in the order of their declaration, artifacts field by field.\<close>

fun plan_evidence_rank :: "plan_evidence_kind \<Rightarrow> nat" where
  "plan_evidence_rank ContextualReview = 0"
| "plan_evidence_rank AdvisoryCorrelation = 1"
| "plan_evidence_rank WebInventoryEvidence = 2"
| "plan_evidence_rank WebInferenceEvidence = 3"
| "plan_evidence_rank WebAssessmentEvidence = 4"
| "plan_evidence_rank BenchmarkResult = 5"
| "plan_evidence_rank WebLabResult = 6"
| "plan_evidence_rank WebCorpusResult = 7"

definition artifact_key :: "evidence_artifact \<Rightarrow> nat \<times> string" where
  "artifact_key a = (plan_evidence_rank (ea_kind a), ea_sha256 a)"

lemma plan_evidence_rank_inj: "plan_evidence_rank a = plan_evidence_rank b \<longleftrightarrow> a = b"
  by (cases a; cases b) simp_all

lemma artifact_key_inj: "artifact_key a = artifact_key b \<longleftrightarrow> a = b"
  by (cases a; cases b) (simp add: artifact_key_def plan_evidence_rank_inj)

instantiation evidence_artifact :: linorder
begin

definition less_eq_evidence_artifact :: "evidence_artifact \<Rightarrow> evidence_artifact \<Rightarrow> bool" where
  "less_eq_evidence_artifact a b \<longleftrightarrow> artifact_key a \<le> artifact_key b"

definition less_evidence_artifact :: "evidence_artifact \<Rightarrow> evidence_artifact \<Rightarrow> bool" where
  "less_evidence_artifact a b \<longleftrightarrow> artifact_key a < artifact_key b"

instance
  by standard
     (auto simp: less_eq_evidence_artifact_def less_evidence_artifact_def
        artifact_key_inj [symmetric])

end

record run_state =
  rs_candidate_count :: u64
  rs_pending_human_reviews :: u64
  rs_terminal_human_reviews :: u64
  rs_ai_completed :: u64
  rs_ai_failed_or_queued :: u64

datatype phase_name =
  PnAuthorization | PnDeterministicAnalysis | PnDeterministicPrioritization
| PnContextEnrichment | PnOptionalAiAdvisory | PnHumanValidation | PnReproducibleEvaluation

datatype orchestrated_status =
  StBlocked | StReady | StPartial | StCompleted | StOptionalNotRequested | StEvaluationOnly
| StFailed

record orchestrated_phase =
  op_name :: phase_name
  op_status :: orchestrated_status
  op_reason :: string

datatype next_action =
  CompleteDeterministicAnalysis | CompleteDeterministicPrioritization | HumanReviewOrAbstain
| RunProspectiveEvaluation | PreserveAuditableEvidence

datatype claim_status =
  CandidatesRequireHumanReview | HumanDecisionsAvailable | NoCandidatesIsNotProofOfSafety

record orchestration_envelope =
  oe_contract_version :: string
  oe_plan_id :: string
  oe_created_at :: string
  oe_linked_run_id :: string
  oe_manifest_sha256 :: string
  oe_target_sha256 :: string
  oe_policy :: orchestration_policy
  oe_evidence :: "evidence_artifact list"
  oe_state :: run_state
  oe_phases :: "orchestrated_phase list"
  oe_next_action :: next_action
  oe_claim_status :: claim_status

datatype orchestrator_error =
  OrchInvalidField string
| TooManyArtifacts nat nat
| OrchRun model_error
| OrchTimestamp
| OrchJson

section \<open>Identifiers\<close>

definition orch_valid_sha256 :: "string \<Rightarrow> bool" where
  "orch_valid_sha256 value \<longleftrightarrow> length value = 64 \<and> list_all is_lower_hex value"

definition orch_valid_prefixed_hash :: "string \<Rightarrow> string \<Rightarrow> bool" where
  "orch_valid_prefixed_hash value pfx =
     (case strip_prefix pfx value of None \<Rightarrow> False | Some s \<Rightarrow> orch_valid_sha256 s)"

definition valid_run_id :: "string \<Rightarrow> bool" where
  "valid_run_id value =
     (case strip_prefix ''sf_run_'' value of
        None \<Rightarrow> False
      | Some s \<Rightarrow> 16 \<le> length s \<and> length s \<le> 80
          \<and> list_all (\<lambda>c. is_alnum c \<or> c = CHR ''_'' \<or> c = CHR ''-'') s)"

lemma valid_run_id_model: "valid_run_id v = valid_identifier v ''sf_run_'' 16 80"
  by (simp add: valid_run_id_def valid_identifier_def split: option.splits)

lemma orch_valid_sha256_model: "orch_valid_sha256 v = sha256_wf v"
  by (simp add: orch_valid_sha256_def sha256_wf_def is_lower_hex_of_length_def)

text \<open>The fields that a plan identifier commits to: all but the version, the time and itself.\<close>

record plan_identity =
  pi_linked_run_id :: string
  pi_manifest_sha256 :: string
  pi_target_sha256 :: string
  pi_policy :: orchestration_policy
  pi_evidence :: "evidence_artifact list"
  pi_state :: run_state
  pi_phases :: "orchestrated_phase list"
  pi_next_action :: next_action
  pi_claim_status :: claim_status

definition identity_of :: "orchestration_envelope \<Rightarrow> plan_identity" where
  "identity_of e = \<lparr>pi_linked_run_id = oe_linked_run_id e,
     pi_manifest_sha256 = oe_manifest_sha256 e, pi_target_sha256 = oe_target_sha256 e,
     pi_policy = oe_policy e, pi_evidence = oe_evidence e, pi_state = oe_state e,
     pi_phases = oe_phases e, pi_next_action = oe_next_action e,
     pi_claim_status = oe_claim_status e\<rparr>"

definition expected_plan_id ::
    "digest_fun \<Rightarrow> (plan_identity \<Rightarrow> string) \<Rightarrow> orchestration_envelope \<Rightarrow> string" where
  "expected_plan_id sha ser e = ''sf_plan_'' @ encode_hex (sha (ser (identity_of e)))"

lemma expected_plan_id_valid:
  "digest_length sha \<Longrightarrow> orch_valid_prefixed_hash (expected_plan_id sha ser e) ''sf_plan_''"
  unfolding expected_plan_id_def orch_valid_prefixed_hash_def strip_prefix_append
  using hex.digest_id by (simp add: orch_valid_sha256_def)

section \<open>Deriving the phases\<close>

definition is_context_kind :: "plan_evidence_kind \<Rightarrow> bool" where
  "is_context_kind k \<longleftrightarrow> k \<in> {ContextualReview, AdvisoryCorrelation, WebInventoryEvidence,
     WebInferenceEvidence, WebAssessmentEvidence}"

definition is_benchmark_kind :: "plan_evidence_kind \<Rightarrow> bool" where
  "is_benchmark_kind k \<longleftrightarrow> k \<in> {BenchmarkResult, WebLabResult, WebCorpusResult}"

definition has_context :: "evidence_artifact list \<Rightarrow> bool" where
  "has_context ev \<longleftrightarrow> (\<exists>a \<in> set ev. is_context_kind (ea_kind a))"

definition has_benchmark :: "evidence_artifact list \<Rightarrow> bool" where
  "has_benchmark ev \<longleftrightarrow> (\<exists>a \<in> set ev. is_benchmark_kind (ea_kind a))"

definition phase :: "phase_name \<Rightarrow> orchestrated_status \<Rightarrow> string \<Rightarrow> orchestrated_phase" where
  "phase name status reason = \<lparr>op_name = name, op_status = status, op_reason = reason\<rparr>"

fun map_status :: "phase_status \<Rightarrow> orchestrated_status" where
  "map_status PhaseCompleted = StCompleted"
| "map_status PhasePartial = StPartial"
| "map_status PhaseRunning = StPartial"
| "map_status PhaseFailed = StFailed"
| "map_status PhasePending = StReady"
| "map_status PhaseSkipped = StReady"

definition map_named_phase :: "phase_name \<Rightarrow> phase_status \<Rightarrow> string \<Rightarrow> orchestrated_phase" where
  "map_named_phase name status reason = phase name (map_status status) reason"

definition map_required_phase :: "phase_status \<Rightarrow> string \<Rightarrow> orchestrated_phase" where
  "map_required_phase status reason = map_named_phase PnDeterministicAnalysis status reason"

definition derive_phases ::
    "run_manifest \<Rightarrow> run_state \<Rightarrow> bool \<Rightarrow> bool \<Rightarrow> orchestrated_phase list" where
  "derive_phases m state has_ctx has_bench =
     (let deterministic = map_required_phase (ph_deterministic (rm_phases m))
            ''deterministic scanner state retained in run manifest'';
          prioritization =
            (if ph_deterministic (rm_phases m) \<noteq> PhaseCompleted
             then phase PnDeterministicPrioritization StBlocked
                    ''blocked until deterministic analysis completes''
             else map_named_phase PnDeterministicPrioritization (ph_prioritization (rm_phases m))
                    ''deterministic ordering and exact dedup state retained in run manifest'');
          context =
            (if ph_prioritization (rm_phases m) \<noteq> PhaseCompleted
             then phase PnContextEnrichment StBlocked
                    ''blocked until deterministic prioritization completes''
             else if has_ctx
             then phase PnContextEnrichment StCompleted
                    ''validated contextual artifact retained; it does not validate a finding''
             else phase PnContextEnrichment StOptionalNotRequested
                    ''no contextual artifact supplied; human review may continue'');
          ai =
            (if 0 < rs_ai_completed state
             then phase PnOptionalAiAdvisory StCompleted
                    ''measured AI advisory responses retained; human decisions remain unchanged''
             else if 0 < rs_ai_failed_or_queued state
             then phase PnOptionalAiAdvisory StPartial
                    ''AI advisory work is queued or failed and cannot validate findings''
             else phase PnOptionalAiAdvisory StOptionalNotRequested
                    ''AI is optional and was not completed'');
          validation =
            (if ph_prioritization (rm_phases m) \<noteq> PhaseCompleted
             then phase PnHumanValidation StBlocked
                    ''blocked until deterministic prioritization completes''
             else if rs_pending_human_reviews state = 0
             then phase PnHumanValidation StCompleted
                    ''all candidates have terminal human decisions''
             else if 0 < rs_terminal_human_reviews state
             then phase PnHumanValidation StPartial
                    ''some candidates still require human review or abstention''
             else phase PnHumanValidation StReady
                    ''candidates require human review or abstention'');
          evaluation =
            (if 0 < rs_pending_human_reviews state
                \<or> ph_prioritization (rm_phases m) \<noteq> PhaseCompleted
             then phase PnReproducibleEvaluation StBlocked
                    ''benchmarking follows deterministic processing and human adjudication''
             else if has_bench
             then phase PnReproducibleEvaluation StEvaluationOnly
                    ''benchmark evidence is retained outside the production decision path''
             else phase PnReproducibleEvaluation StReady
                    ''eligible for a preregistered prospective evaluation'')
      in [phase PnAuthorization StCompleted
            ''linked run contains validated explicit authorization'',
          deterministic, prioritization, context, ai, validation, evaluation])"

section \<open>Validating a plan\<close>

definition expected_names :: "phase_name list" where
  "expected_names =
     [PnAuthorization, PnDeterministicAnalysis, PnDeterministicPrioritization,
      PnContextEnrichment, PnOptionalAiAdvisory, PnHumanValidation, PnReproducibleEvaluation]"

definition status_of :: "orchestration_envelope \<Rightarrow> nat \<Rightarrow> orchestrated_status" where
  "status_of e i = op_status (oe_phases e ! i)"

definition validate_derived_state :: "orchestration_envelope \<Rightarrow> orchestrator_error + unit" where
  "validate_derived_state e =
     (let deterministic = status_of e 1;
          prioritization = status_of e 2;
          s = oe_state e;
          expected_context =
            (if prioritization \<noteq> StCompleted then StBlocked
             else if has_context (oe_evidence e) then StCompleted
             else StOptionalNotRequested);
          expected_ai =
            (if 0 < rs_ai_completed s then StCompleted
             else if 0 < rs_ai_failed_or_queued s then StPartial
             else StOptionalNotRequested);
          expected_validation =
            (if prioritization \<noteq> StCompleted then StBlocked
             else if rs_pending_human_reviews s = 0 then StCompleted
             else if 0 < rs_terminal_human_reviews s then StPartial
             else StReady);
          expected_evaluation =
            (if 0 < rs_pending_human_reviews s \<or> prioritization \<noteq> StCompleted then StBlocked
             else if has_benchmark (oe_evidence e) then StEvaluationOnly
             else StReady);
          expected_next =
            (if deterministic \<noteq> StCompleted then CompleteDeterministicAnalysis
             else if prioritization \<noteq> StCompleted then CompleteDeterministicPrioritization
             else if 0 < rs_pending_human_reviews s then HumanReviewOrAbstain
             else if \<not> has_benchmark (oe_evidence e) then RunProspectiveEvaluation
             else PreserveAuditableEvidence);
          expected_claim =
            (if rs_candidate_count s = 0 then NoCandidatesIsNotProofOfSafety
             else if 0 < rs_pending_human_reviews s then CandidatesRequireHumanReview
             else HumanDecisionsAvailable)
      in checks [
        fail_if (status_of e 0 \<noteq> StCompleted
                 \<or> deterministic \<in> {StOptionalNotRequested, StEvaluationOnly}
                 \<or> (deterministic \<noteq> StCompleted \<and> prioritization \<noteq> StBlocked)
                 \<or> prioritization \<in> {StOptionalNotRequested, StEvaluationOnly})
          (OrchInvalidField ''required phase ordering''),
        fail_if (status_of e 3 \<noteq> expected_context
                 \<or> status_of e 4 \<noteq> expected_ai
                 \<or> status_of e 5 \<noteq> expected_validation
                 \<or> status_of e 6 \<noteq> expected_evaluation
                 \<or> oe_next_action e \<noteq> expected_next
                 \<or> oe_claim_status e \<noteq> expected_claim)
          (OrchInvalidField ''derived phase state'')])"

text \<open>
  The additions of the state counts are on \<open>u64\<close> and unchecked: in the release profile they wrap
  around, as word addition does.
\<close>

definition validate_plan ::
    "ts_parser \<Rightarrow> digest_fun \<Rightarrow> (plan_identity \<Rightarrow> string) \<Rightarrow> orchestration_envelope
     \<Rightarrow> orchestrator_error + unit" where
  "validate_plan ts sha ser e = checks [
     fail_if (oe_contract_version e \<noteq> ORCHESTRATION_VERSION
              \<or> \<not> orch_valid_prefixed_hash (oe_plan_id e) ''sf_plan_''
              \<or> ts (oe_created_at e) = None
              \<or> \<not> valid_run_id (oe_linked_run_id e)
              \<or> \<not> orch_valid_sha256 (oe_manifest_sha256 e)
              \<or> \<not> orch_valid_sha256 (oe_target_sha256 e))
       (OrchInvalidField ''identity''),
     fail_if (\<not> op_authorization_required (oe_policy e)
              \<or> \<not> op_deterministic_first (oe_policy e)
              \<or> \<not> op_ai_optional (oe_policy e)
              \<or> op_ai_validation_authority (oe_policy e) \<noteq> ''human-only''
              \<or> \<not> op_benchmark_evaluation_only (oe_policy e)
              \<or> op_no_evidence_action (oe_policy e) \<noteq> ''abstain''
              \<or> op_network_execution (oe_policy e) \<noteq> ''not-implemented'')
       (OrchInvalidField ''policy''),
     fail_if (MAX_EVIDENCE_ARTIFACTS < length (oe_evidence e)
              \<or> (\<exists>a \<in> set (oe_evidence e). \<not> orch_valid_sha256 (ea_sha256 a))
              \<or> \<not> strictly_increasing (oe_evidence e))
       (OrchInvalidField ''evidence''),
     fail_if (length (oe_phases e) \<noteq> length expected_names
              \<or> \<not> list_all (\<lambda>(p, expected). op_name p = expected \<and> \<not> trim_is_empty (op_reason p))
                   (zip (oe_phases e) expected_names))
       (OrchInvalidField ''phases''),
     fail_if (rs_pending_human_reviews (oe_state e) + rs_terminal_human_reviews (oe_state e)
                \<noteq> rs_candidate_count (oe_state e)
              \<or> rs_candidate_count (oe_state e)
                < rs_ai_completed (oe_state e) + rs_ai_failed_or_queued (oe_state e))
       (OrchInvalidField ''state counts''),
     validate_derived_state e,
     fail_if (oe_plan_id e \<noteq> expected_plan_id sha ser e) (OrchInvalidField ''plan_id'')]"

section \<open>Deriving and parsing a plan\<close>

definition derive_state :: "finding list \<Rightarrow> run_state" where
  "derive_state fs =
     (let pending = of_nat (count_if is_pending fs)
      in \<lparr>rs_candidate_count = of_nat (length fs),
          rs_pending_human_reviews = pending,
          rs_terminal_human_reviews = of_nat (length fs) - pending,
          rs_ai_completed =
            of_nat (count_if (\<lambda>f. ai_status (fd_ai_validation f) = AiCompleted) fs),
          rs_ai_failed_or_queued =
            of_nat (count_if (\<lambda>f. ai_status (fd_ai_validation f) \<in> {AiFailed, AiQueued}) fs)\<rparr>)"

definition fixed_policy :: orchestration_policy where
  "fixed_policy = \<lparr>op_authorization_required = True, op_deterministic_first = True,
     op_ai_optional = True, op_ai_validation_authority = ''human-only'',
     op_benchmark_evaluation_only = True, op_no_evidence_action = ''abstain'',
     op_network_execution = ''not-implemented''\<rparr>"

definition derive_plan ::
    "ts_parser \<Rightarrow> digest_fun \<Rightarrow> (plan_identity \<Rightarrow> string) \<Rightarrow> string option
     \<Rightarrow> run_manifest \<Rightarrow> string \<Rightarrow> evidence_artifact list
     \<Rightarrow> orchestrator_error + orchestration_envelope" where
  "derive_plan ts sha ser now m manifest_sha256 evidence0 =
     and_then (map_err OrchRun (validate_manifest ts m)) (\<lambda>_.
     if MAX_EVIDENCE_ARTIFACTS < length evidence0
     then Err (TooManyArtifacts (length evidence0) MAX_EVIDENCE_ARTIFACTS)
     else let evidence = sort evidence0 in
     and_then (checks [
       fail_if (\<not> successively (\<noteq>) evidence) (OrchInvalidField ''duplicate evidence artifact''),
       fail_if (\<exists>a \<in> set evidence. \<not> orch_valid_sha256 (ea_sha256 a))
         (OrchInvalidField ''evidence.sha256'')]) (\<lambda>_.
     let state = derive_state (rm_findings m);
         pending = rs_pending_human_reviews state;
         phs = derive_phases m state (has_context evidence) (has_benchmark evidence);
         next =
           (if ph_deterministic (rm_phases m) \<noteq> PhaseCompleted
            then CompleteDeterministicAnalysis
            else if ph_prioritization (rm_phases m) \<noteq> PhaseCompleted
            then CompleteDeterministicPrioritization
            else if 0 < pending then HumanReviewOrAbstain
            else if \<not> has_benchmark evidence then RunProspectiveEvaluation
            else PreserveAuditableEvidence);
         claim =
           (if rm_findings m = [] then NoCandidatesIsNotProofOfSafety
            else if 0 < pending then CandidatesRequireHumanReview
            else HumanDecisionsAvailable)
     in and_then (ok_or now OrchTimestamp) (\<lambda>created_at.
        let draft = \<lparr>oe_contract_version = ORCHESTRATION_VERSION, oe_plan_id = [],
              oe_created_at = created_at, oe_linked_run_id = rm_run_id m,
              oe_manifest_sha256 = manifest_sha256,
              oe_target_sha256 = tg_root_sha256 (rm_target m), oe_policy = fixed_policy,
              oe_evidence = evidence, oe_state = state, oe_phases = phs,
              oe_next_action = next, oe_claim_status = claim\<rparr>;
            envelope = draft\<lparr>oe_plan_id := expected_plan_id sha ser draft\<rparr>
        in and_then (validate_plan ts sha ser envelope) (\<lambda>_. Ok envelope))))"

definition parse_plan ::
    "ts_parser \<Rightarrow> digest_fun \<Rightarrow> (plan_identity \<Rightarrow> string)
     \<Rightarrow> (string \<Rightarrow> orchestration_envelope option) \<Rightarrow> string
     \<Rightarrow> orchestrator_error + orchestration_envelope" where
  "parse_plan ts sha ser from_json bytes =
     and_then (fail_if (bytes = [] \<or> MAX_ORCHESTRATION_BYTES < length bytes)
                 (OrchInvalidField ''document size'')) (\<lambda>_.
     and_then (ok_or (from_json bytes) OrchJson) (\<lambda>envelope.
     and_then (validate_plan ts sha ser envelope) (\<lambda>_. Ok envelope)))"


section \<open>When a plan is derived\<close>

lemma map_status_completed [simp]: "map_status s = StCompleted \<longleftrightarrow> s = PhaseCompleted"
  by (cases s) simp_all

lemma map_status_range [simp]:
  "map_status s \<noteq> StOptionalNotRequested" "map_status s \<noteq> StEvaluationOnly" "map_status s \<noteq> StBlocked"
  by (cases s; simp)+

lemma phase_fields [simp]:
  "op_name (phase n s r) = n" "op_status (phase n s r) = s" "op_reason (phase n s r) = r"
  by (simp_all add: phase_def)

lemmas phase_defs = map_required_phase_def map_named_phase_def

lemma derive_phases_names:
  "map op_name (derive_phases m st c b) = expected_names"
  by (simp add: derive_phases_def expected_names_def phase_defs Let_def)

lemma derive_phases_length [simp]: "length (derive_phases m st c b) = 7"
  by (simp add: derive_phases_def Let_def)

lemma derive_phases_reasons:
  "list_all (\<lambda>p. \<not> trim_is_empty (op_reason p)) (derive_phases m st c b)"
  unfolding derive_phases_def phase_defs Let_def list.pred_inject
  by (intro conjI; simp add: visible_start white1_def byte_def del: trim_is_empty.simps)

text \<open>The statuses that the derivation gives, in the terms of the validation.\<close>

lemma derive_phases_status:
  "op_status (derive_phases m st c b ! 0) = StCompleted"
  "op_status (derive_phases m st c b ! 1) = map_status (ph_deterministic (rm_phases m))"
  "op_status (derive_phases m st c b ! 2) =
     (if ph_deterministic (rm_phases m) \<noteq> PhaseCompleted then StBlocked
      else map_status (ph_prioritization (rm_phases m)))"
  "op_status (derive_phases m st c b ! 3) =
     (if ph_prioritization (rm_phases m) \<noteq> PhaseCompleted then StBlocked
      else if c then StCompleted else StOptionalNotRequested)"
  "op_status (derive_phases m st c b ! 4) =
     (if 0 < rs_ai_completed st then StCompleted
      else if 0 < rs_ai_failed_or_queued st then StPartial else StOptionalNotRequested)"
  "op_status (derive_phases m st c b ! 5) =
     (if ph_prioritization (rm_phases m) \<noteq> PhaseCompleted then StBlocked
      else if rs_pending_human_reviews st = 0 then StCompleted
      else if 0 < rs_terminal_human_reviews st then StPartial else StReady)"
  "op_status (derive_phases m st c b ! 6) =
     (if 0 < rs_pending_human_reviews st \<or> ph_prioritization (rm_phases m) \<noteq> PhaseCompleted
      then StBlocked else if b then StEvaluationOnly else StReady)"
  by (simp_all add: derive_phases_def phase_defs Let_def nth_Cons')

text \<open>A run whose prioritization claims to be complete before its deterministic analysis is.\<close>

definition phases_coherent :: "run_manifest \<Rightarrow> bool" where
  "phases_coherent m \<longleftrightarrow>
     (ph_prioritization (rm_phases m) = PhaseCompleted \<longrightarrow>
        ph_deterministic (rm_phases m) = PhaseCompleted)"

text \<open>The envelope of the derivation, before its identifier is set.\<close>

definition derived_next :: "run_manifest \<Rightarrow> evidence_artifact list \<Rightarrow> next_action" where
  "derived_next m ev =
     (if ph_deterministic (rm_phases m) \<noteq> PhaseCompleted then CompleteDeterministicAnalysis
      else if ph_prioritization (rm_phases m) \<noteq> PhaseCompleted
      then CompleteDeterministicPrioritization
      else if 0 < rs_pending_human_reviews (derive_state (rm_findings m)) then HumanReviewOrAbstain
      else if \<not> has_benchmark ev then RunProspectiveEvaluation
      else PreserveAuditableEvidence)"

definition derived_draft ::
    "string \<Rightarrow> run_manifest \<Rightarrow> string \<Rightarrow> evidence_artifact list \<Rightarrow> orchestration_envelope" where
  "derived_draft now m h ev = (let state = derive_state (rm_findings m) in
     \<lparr>oe_contract_version = ORCHESTRATION_VERSION, oe_plan_id = [], oe_created_at = now,
      oe_linked_run_id = rm_run_id m, oe_manifest_sha256 = h,
      oe_target_sha256 = tg_root_sha256 (rm_target m), oe_policy = fixed_policy,
      oe_evidence = ev, oe_state = state,
      oe_phases = derive_phases m state (has_context ev) (has_benchmark ev),
      oe_next_action = derived_next m ev,
      oe_claim_status =
        (if rm_findings m = [] then NoCandidatesIsNotProofOfSafety
         else if 0 < rs_pending_human_reviews state then CandidatesRequireHumanReview
         else HumanDecisionsAvailable)\<rparr>)"

definition derived_plan ::
    "digest_fun \<Rightarrow> (plan_identity \<Rightarrow> string) \<Rightarrow> string \<Rightarrow> run_manifest \<Rightarrow> string
     \<Rightarrow> evidence_artifact list \<Rightarrow> orchestration_envelope" where
  "derived_plan sha ser now m h ev =
     (derived_draft now m h ev)\<lparr>oe_plan_id := expected_plan_id sha ser (derived_draft now m h ev)\<rparr>"

lemma expected_plan_id_frame [simp]:
  "expected_plan_id sha ser (e\<lparr>oe_plan_id := i\<rparr>) = expected_plan_id sha ser e"
  "expected_plan_id sha ser (e\<lparr>oe_created_at := t\<rparr>) = expected_plan_id sha ser e"
  by (simp_all add: expected_plan_id_def identity_of_def)

lemma derived_plan_id [simp]:
  "oe_plan_id (derived_plan sha ser now m h ev)
     = expected_plan_id sha ser (derived_plan sha ser now m h ev)"
  by (simp add: derived_plan_def)

lemma derived_plan_fields [simp]:
  "oe_contract_version (derived_plan sha ser now m h ev) = ORCHESTRATION_VERSION"
  "oe_created_at (derived_plan sha ser now m h ev) = now"
  "oe_linked_run_id (derived_plan sha ser now m h ev) = rm_run_id m"
  "oe_manifest_sha256 (derived_plan sha ser now m h ev) = h"
  "oe_target_sha256 (derived_plan sha ser now m h ev) = tg_root_sha256 (rm_target m)"
  "oe_policy (derived_plan sha ser now m h ev) = fixed_policy"
  "oe_evidence (derived_plan sha ser now m h ev) = ev"
  "oe_state (derived_plan sha ser now m h ev) = derive_state (rm_findings m)"
  "oe_phases (derived_plan sha ser now m h ev) =
     derive_phases m (derive_state (rm_findings m)) (has_context ev) (has_benchmark ev)"
  "oe_next_action (derived_plan sha ser now m h ev) = derived_next m ev"
  by (simp_all add: derived_plan_def derived_draft_def Let_def)

lemma derived_plan_claim:
  "oe_claim_status (derived_plan sha ser now m h ev) =
     (if rm_findings m = [] then NoCandidatesIsNotProofOfSafety
      else if 0 < rs_pending_human_reviews (derive_state (rm_findings m))
      then CandidatesRequireHumanReview else HumanDecisionsAvailable)"
  by (simp add: derived_plan_def derived_draft_def Let_def)


lemma derive_state_counts:
  "rs_pending_human_reviews (derive_state fs) + rs_terminal_human_reviews (derive_state fs)
     = rs_candidate_count (derive_state fs)"
  by (simp add: derive_state_def Let_def)

lemma count_if_disjoint:
  "(\<And>x. \<not> (p x \<and> q x)) \<Longrightarrow> count_if p xs + count_if q xs \<le> length xs"
  by (induction xs) auto

lemma derive_state_ai_bound:
  assumes "length fs < 2 ^ 64"
  shows "rs_ai_completed (derive_state fs) + rs_ai_failed_or_queued (derive_state fs)
           \<le> rs_candidate_count (derive_state fs)"
proof -
  have "count_if (\<lambda>f. ai_status (fd_ai_validation f) = AiCompleted) fs
      + count_if (\<lambda>f. ai_status (fd_ai_validation f) \<in> {AiFailed, AiQueued}) fs \<le> length fs"
    by (rule count_if_disjoint) auto
  from of_nat_u64_le [OF this assms] show ?thesis
    by (simp add: derive_state_def Let_def)
qed

lemma derive_state_pending_0:
  "length fs < 2 ^ 64 \<Longrightarrow>
     rs_pending_human_reviews (derive_state fs) = 0 \<longleftrightarrow> (\<forall>f \<in> set fs. \<not> is_pending f)"
  using count_if_le [of is_pending fs]
  by (simp add: derive_state_def Let_def word_unat_eq_iff unat_of_nat_u64 count_if_0_iff)

lemma derive_state_count_0:
  "length fs < 2 ^ 64 \<Longrightarrow> rs_candidate_count (derive_state fs) = 0 \<longleftrightarrow> fs = []"
  by (simp add: derive_state_def Let_def word_unat_eq_iff unat_of_nat_u64)

lemma validate_derived_state_iff:
  assumes "length (rm_findings m) < 2 ^ 64"
  shows "validate_derived_state (derived_plan sha ser now m h ev) = Inr u \<longleftrightarrow> phases_coherent m"
proof -
  let ?e = "derived_plan sha ser now m h ev"
  have status: "status_of ?e i = op_status (derive_phases m (derive_state (rm_findings m))
      (has_context ev) (has_benchmark ev) ! i)" for i
    by (simp add: status_of_def)
  show ?thesis
    using derive_state_count_0 [OF assms]
    unfolding validate_derived_state_def Let_def status derive_phases_status derived_plan_fields
      derived_plan_claim derived_next_def checks_Cons_iff fail_if_Inr_iff phases_coherent_def
    by auto
qed


text \<open>What the derivation asks of the evidence and of the hash of the manifest document.\<close>

definition plan_inputs_ok :: "string \<Rightarrow> evidence_artifact list \<Rightarrow> bool" where
  "plan_inputs_ok h ev \<longleftrightarrow>
     length ev \<le> MAX_EVIDENCE_ARTIFACTS \<and> distinct ev
   \<and> (\<forall>a \<in> set ev. sha256_wf (ea_sha256 a)) \<and> sha256_wf h"

lemma expected_names_length [simp]: "length expected_names = 7"
  by (simp add: expected_names_def)

lemma phases_check_derived:
  "list_all (\<lambda>(p, expected). op_name p = expected \<and> \<not> trim_is_empty (op_reason p))
     (zip (derive_phases m st c b) expected_names)"
proof -
  have "list_all (\<lambda>(p, expected). op_name p = expected \<and> \<not> trim_is_empty (op_reason p))
      (zip ps (map op_name ps))" if "list_all (\<lambda>p. \<not> trim_is_empty (op_reason p)) ps" for ps
    using that by (induction ps) auto
  from this [OF derive_phases_reasons] show ?thesis
    unfolding derive_phases_names .
qed

lemma fixed_policy_simps [simp]:
  "op_authorization_required fixed_policy" "op_deterministic_first fixed_policy"
  "op_ai_optional fixed_policy" "op_ai_validation_authority fixed_policy = ''human-only''"
  "op_benchmark_evaluation_only fixed_policy" "op_no_evidence_action fixed_policy = ''abstain''"
  "op_network_execution fixed_policy = ''not-implemented''"
  by (simp_all add: fixed_policy_def)

lemma manifest_wf_plan_ids:
  "manifest_wf ts m \<Longrightarrow> valid_run_id (rm_run_id m) \<and> sha256_wf (tg_root_sha256 (rm_target m))"
  by (simp add: manifest_wf_def manifest_frame_wf_def valid_run_id_model target_wf_def)

text \<open>On accepted inputs only the consistency of the phases is left to check.\<close>

lemma validate_derived_plan_state:
  assumes "digest_length sha" and "ts now \<noteq> None" and "manifest_wf ts m"
    and "length (rm_findings m) < 2 ^ 64" and "sorted ev" and "plan_inputs_ok h ev"
  shows "validate_plan ts sha ser (derived_plan sha ser now m h ev)
           = validate_derived_state (derived_plan sha ser now m h ev)"
proof -
  obtain t where t: "ts now = Some t" using assms(2) by blast
  note ids = manifest_wf_plan_ids [OF assms(3)]
  note ai = derive_state_ai_bound [OF assms(4)]
  have last: "checks [r, Inr ()] = r" for r :: "orchestrator_error + unit"
    by (simp add: checks.simps split: sum.splits)
  show ?thesis
    using assms(5,6) t ids ai
    by (simp add: validate_plan_def orch_valid_sha256_model plan_inputs_ok_def
        strictly_increasing_iff expected_plan_id_valid [OF assms(1)] phases_check_derived
        derive_state_counts not_less [symmetric] last)
qed

lemma validate_derived_plan:
  assumes "digest_length sha" and "ts now \<noteq> None" and "manifest_wf ts m"
    and "length (rm_findings m) < 2 ^ 64" and "sorted ev"
  shows "validate_plan ts sha ser (derived_plan sha ser now m h ev) = Inr u \<longleftrightarrow>
           plan_inputs_ok h ev \<and> phases_coherent m"
proof -
  have "plan_inputs_ok h ev"
    if "validate_plan ts sha ser (derived_plan sha ser now m h ev) = Inr u"
    using that
    by (simp add: validate_plan_def checks_Cons_iff fail_if_Inr_iff orch_valid_sha256_model
        plan_inputs_ok_def strictly_increasing_iff)
  then show ?thesis
    using validate_derived_plan_state [OF assms, of h ser]
      validate_derived_state_iff [OF assms(4), of sha ser now h ev u]
    by auto
qed

lemma derive_plan_unfold:
  "derive_plan ts sha ser (Some now) m h ev =
     and_then (map_err OrchRun (validate_manifest ts m)) (\<lambda>_.
     if MAX_EVIDENCE_ARTIFACTS < length ev
     then Err (TooManyArtifacts (length ev) MAX_EVIDENCE_ARTIFACTS)
     else and_then (checks [
       fail_if (\<not> successively (\<noteq>) (sort ev)) (OrchInvalidField ''duplicate evidence artifact''),
       fail_if (\<exists>a \<in> set (sort ev). \<not> orch_valid_sha256 (ea_sha256 a))
         (OrchInvalidField ''evidence.sha256'')]) (\<lambda>_.
       and_then (validate_plan ts sha ser (derived_plan sha ser now m h (sort ev)))
         (\<lambda>_. Ok (derived_plan sha ser now m h (sort ev)))))"
  unfolding derive_plan_def derived_plan_def derived_draft_def derived_next_def Let_def
    ok_or_simps and_then_simps ..

lemma derive_plan_Inr:
  assumes "digest_length sha" and "ts now \<noteq> None" and "length (rm_findings m) < 2 ^ 64"
  shows "derive_plan ts sha ser (Some now) m h ev = Inr e \<longleftrightarrow>
     manifest_wf ts m \<and> plan_inputs_ok h ev \<and> phases_coherent m
   \<and> e = derived_plan sha ser now m h (sort ev)"
proof -
  have inputs: "plan_inputs_ok h (sort ev) = plan_inputs_ok h ev"
    by (simp add: plan_inputs_ok_def)
  show ?thesis
  proof (cases "manifest_wf ts m")
    case True
    have v: "validate_plan ts sha ser (derived_plan sha ser now m h (sort ev)) = Inr u \<longleftrightarrow>
        plan_inputs_ok h ev \<and> phases_coherent m" for u
      using validate_derived_plan [OF assms(1,2) True assms(3), of "sort ev" ser h u]
      by (simp add: inputs)
    show ?thesis
      using True
      by (auto simp: derive_plan_unfold v and_then_Inr_iff map_err_Inr_iff validate_manifest_wf
          checks_Cons_iff fail_if_Inr_iff adjacent_distinct_sorted orch_valid_sha256_model
          plan_inputs_ok_def)
  next
    case False
    then show ?thesis
      by (auto simp: derive_plan_unfold and_then_Inr_iff map_err_Inr_iff validate_manifest_wf)
  qed
qed


section \<open>Properties\<close>

text \<open>An encoding for the concrete plans.\<close>

definition no_ser :: "plan_identity \<Rightarrow> string" where
  "no_ser p = []"

definition bench_artifact :: evidence_artifact where
  "bench_artifact = EvidenceArtifact BenchmarkResult zero_hash"

definition web_artifact :: evidence_artifact where
  "web_artifact = EvidenceArtifact WebAssessmentEvidence zero_hash"

lemma sample_plan_ok:
  "manifest_wf sample_ts (sample_manifest [])" "phases_coherent (sample_manifest fs)"
  "phases_coherent one_manifest" "plan_inputs_ok zero_hash [bench_artifact, web_artifact]"
  "plan_inputs_ok zero_hash [web_artifact, bench_artifact]" "plan_inputs_ok zero_hash [bench_artifact]"
  by (simp_all add: sample_manifest_wf one_manifest_def)
     (simp_all add: phases_coherent_def sample_manifest_def plan_inputs_ok_def bench_artifact_def
        web_artifact_def MAX_EVIDENCE_ARTIFACTS_def)

text \<open>
  C27. A plan is derived exactly when the manifest is valid, the evidence is at most 10000
  distinct artifacts with valid hashes, the hash of the manifest is valid, and the run does not
  claim prioritization without the deterministic analysis before it. The validation that the
  derivation runs on its own result rejects nothing else.
\<close>

theorem derive_plan_succeeds_iff:
  assumes "digest_length sha" and "ts now \<noteq> None" and "length (rm_findings m) < 2 ^ 64"
  shows "is_ok (derive_plan ts sha ser (Some now) m h ev) \<longleftrightarrow>
     validate_manifest ts m = Ok ()
   \<and> length ev \<le> 10000 \<and> distinct ev \<and> (\<forall>a \<in> set ev. sha256_wf (ea_sha256 a)) \<and> sha256_wf h
   \<and> (ph_prioritization (rm_phases m) = PhaseCompleted \<longrightarrow>
        ph_deterministic (rm_phases m) = PhaseCompleted)"
  using derive_plan_Inr [where ts = ts and now = now and ser = ser and h = h and ev = ev, OF assms]
  by (auto simp: is_ok_iff validate_manifest_wf plan_inputs_ok_def phases_coherent_def
      MAX_EVIDENCE_ARTIFACTS_def)

theorem derive_plan_succeeds_iff_witness:
  "is_ok (derive_plan sample_ts zero_sha no_ser (Some T0) one_manifest zero_hash [bench_artifact])"
  using derive_plan_succeeds_iff [of zero_sha sample_ts T0 one_manifest no_ser zero_hash
      "[bench_artifact]"]
  by (simp add: validate_manifest_wf bench_artifact_def)
     (simp add: one_manifest_def sample_manifest_def)

text \<open>
  C26. A plan that validates is fail-closed: it advances to evaluation or preservation only when
  authorization, deterministic analysis and prioritization are complete and no candidate is
  pending, it preserves evidence only when a benchmark result is retained, and it never claims
  that human decisions are available while one is pending. No plan runs the network.
\<close>

theorem plan_fail_closed:
  assumes "validate_plan ts sha ser e = Ok ()"
  shows "(oe_next_action e \<in> {RunProspectiveEvaluation, PreserveAuditableEvidence} \<longrightarrow>
            status_of e 0 = StCompleted \<and> status_of e 1 = StCompleted
          \<and> status_of e 2 = StCompleted \<and> status_of e 5 = StCompleted
          \<and> rs_pending_human_reviews (oe_state e) = 0)
       \<and> (oe_next_action e = PreserveAuditableEvidence \<longrightarrow> has_benchmark (oe_evidence e))
       \<and> (oe_claim_status e = HumanDecisionsAvailable \<longrightarrow>
            rs_pending_human_reviews (oe_state e) = 0 \<and> rs_candidate_count (oe_state e) \<noteq> 0)
       \<and> (status_of e 1 \<noteq> StCompleted \<longrightarrow> status_of e 2 = StBlocked \<and> status_of e 3 = StBlocked
          \<and> status_of e 5 = StBlocked \<and> status_of e 6 = StBlocked)
       \<and> op_network_execution (oe_policy e) = ''not-implemented''"
proof -
  have v: "validate_derived_state e = Inr ()"
      and net: "op_network_execution (oe_policy e) = ''not-implemented''"
    using assms by (simp_all add: validate_plan_def checks_Cons_iff fail_if_Inr_iff)
  have "status_of e 0 = StCompleted"
    and "status_of e 1 \<noteq> StCompleted \<longrightarrow> status_of e 2 = StBlocked"
    and "status_of e 3 = (if status_of e 2 \<noteq> StCompleted then StBlocked
           else if has_context (oe_evidence e) then StCompleted else StOptionalNotRequested)"
    and "status_of e 5 = (if status_of e 2 \<noteq> StCompleted then StBlocked
           else if rs_pending_human_reviews (oe_state e) = 0 then StCompleted
           else if 0 < rs_terminal_human_reviews (oe_state e) then StPartial else StReady)"
    and "status_of e 6 = (if 0 < rs_pending_human_reviews (oe_state e)
             \<or> status_of e 2 \<noteq> StCompleted then StBlocked
           else if has_benchmark (oe_evidence e) then StEvaluationOnly else StReady)"
    and "oe_next_action e = (if status_of e 1 \<noteq> StCompleted then CompleteDeterministicAnalysis
           else if status_of e 2 \<noteq> StCompleted then CompleteDeterministicPrioritization
           else if 0 < rs_pending_human_reviews (oe_state e) then HumanReviewOrAbstain
           else if \<not> has_benchmark (oe_evidence e) then RunProspectiveEvaluation
           else PreserveAuditableEvidence)"
    and "oe_claim_status e = (if rs_candidate_count (oe_state e) = 0
             then NoCandidatesIsNotProofOfSafety
           else if 0 < rs_pending_human_reviews (oe_state e) then CandidatesRequireHumanReview
           else HumanDecisionsAvailable)"
    using v unfolding validate_derived_state_def Let_def checks_Cons_iff fail_if_Inr_iff by blast+
  with net show ?thesis by (simp add: word_gt_0 split: if_splits)
qed

theorem plan_fail_closed_witness:
  "\<exists>e. derive_plan sample_ts zero_sha no_ser (Some T0) (sample_manifest []) zero_hash
         [bench_artifact] = Ok e
     \<and> oe_next_action e = PreserveAuditableEvidence \<and> status_of e 5 = StCompleted"
proof -
  let ?m = "sample_manifest []" and ?ev = "[bench_artifact]"
  let ?e = "derived_plan zero_sha no_ser T0 ?m zero_hash ?ev"
  have ok: "validate_plan sample_ts zero_sha no_ser ?e = Ok ()"
    by (subst validate_derived_plan) (simp_all add: sample_plan_ok)
  have pick: "oe_next_action ?e = PreserveAuditableEvidence"
    by (simp add: derived_next_def derive_state_def has_benchmark_def bench_artifact_def
        is_benchmark_kind_def) (simp add: sample_manifest_def)
  have "status_of ?e 5 = StCompleted" using plan_fail_closed [OF ok] pick by simp
  moreover have "derive_plan sample_ts zero_sha no_ser (Some T0) ?m zero_hash ?ev = Ok ?e"
    by (subst derive_plan_Inr) (simp_all add: sample_plan_ok)
  ultimately show ?thesis using pick by blast
qed

text \<open>
  Plans are deterministic: the order in which evidence files are named does not change the
  plan, and neither its identifier nor any field but the creation time depends on the clock.
\<close>

theorem derive_plan_deterministic:
  assumes "mset ev = mset ev'"
  shows "derive_plan ts sha ser now m h ev = derive_plan ts sha ser now m h ev'
    \<and> (derive_plan ts sha ser (Some t) m h ev = Ok e
        \<longrightarrow> derive_plan ts sha ser (Some t') m h ev' = Ok e'
        \<longrightarrow> e' = e\<lparr>oe_created_at := t'\<rparr> \<and> oe_plan_id e' = oe_plan_id e)"
proof -
  have eq: "sort ev = sort ev'" "length ev = length ev'"
    using assms by (auto intro: sort_canonical dest: mset_eq_length)
  then have "derive_plan ts sha ser now m h ev = derive_plan ts sha ser now m h ev'" for now
    by (simp add: derive_plan_def)
  moreover have "derived_plan sha ser t' m h (sort ev)
      = (derived_plan sha ser t m h (sort ev))\<lparr>oe_created_at := t'\<rparr>"
    by (simp add: derived_plan_def derived_draft_def Let_def expected_plan_id_def identity_of_def)
  ultimately show ?thesis
    by (auto simp: derive_plan_unfold and_then_Inr_iff eq split: if_splits)
qed

theorem derive_plan_deterministic_witness:
  "derive_plan sample_ts zero_sha no_ser (Some T0) one_manifest zero_hash
       [bench_artifact, web_artifact]
     = derive_plan sample_ts zero_sha no_ser (Some T0) one_manifest zero_hash
       [web_artifact, bench_artifact]"
proof -
  have "mset [bench_artifact, web_artifact] = mset [web_artifact, bench_artifact]" by simp
  from derive_plan_deterministic [OF this] show ?thesis by blast
qed

text \<open>
  A plan identifier commits to the plan: two validated plans with the same identifier are
  the same plan up to the time of their creation, as long as the digest does not collide on
  their two identities and the encoding tells these apart.
\<close>

theorem plan_id_commits:
  assumes "validate_plan ts sha ser e = Ok ()" and "validate_plan ts sha ser e' = Ok ()"
    and "oe_plan_id e = oe_plan_id e'"
    and "inj_on ser {identity_of e, identity_of e'}"
    and "inj_on sha {ser (identity_of e), ser (identity_of e')}"
  shows "e' = e\<lparr>oe_created_at := oe_created_at e'\<rparr>"
proof -
  have "oe_plan_id e = expected_plan_id sha ser e" "oe_plan_id e' = expected_plan_id sha ser e'"
    using assms(1,2) by (simp_all add: validate_plan_def checks_Cons_iff fail_if_Inr_iff)
  with assms(3) have "sha (ser (identity_of e)) = sha (ser (identity_of e'))"
    unfolding expected_plan_id_def using hex.id_inj by metis
  from inj_onD [OF assms(5) this] have "ser (identity_of e) = ser (identity_of e')" by simp
  from inj_onD [OF assms(4) this] have "identity_of e = identity_of e'" by simp
  moreover have "oe_contract_version e = oe_contract_version e'"
    using assms(1,2) by (simp add: validate_plan_def checks_Cons_iff fail_if_Inr_iff)
  ultimately show ?thesis using assms(3) by (cases e; cases e') (simp add: identity_of_def)
qed

theorem plan_id_commits_witness:
  "derived_plan zero_sha no_ser T1 one_manifest zero_hash [bench_artifact]
     = (derived_plan zero_sha no_ser T0 one_manifest zero_hash [bench_artifact])\<lparr>oe_created_at := T1\<rparr>"
proof -
  let ?p = "\<lambda>t. derived_plan zero_sha no_ser t one_manifest zero_hash [bench_artifact]"
  have ok: "validate_plan sample_ts zero_sha no_ser (?p T0) = Ok ()"
      "validate_plan sample_ts zero_sha no_ser (?p T1) = Ok ()"
    by (subst validate_derived_plan; simp add: sample_plan_ok)+
  have ids: "identity_of (?p T0) = identity_of (?p T1)"
    by (simp add: derived_plan_def derived_draft_def Let_def identity_of_def)
  then have "oe_plan_id (?p T0) = oe_plan_id (?p T1)" by (simp add: expected_plan_id_def)
  from plan_id_commits [OF ok this] ids show ?thesis by simp
qed

text \<open>A valid manifest whose prioritization is complete over a pending analysis.\<close>

definition skipping_manifest :: run_manifest where
  "skipping_manifest = (sample_manifest [])\<lparr>rm_phases :=
     \<lparr>ph_deterministic = PhasePending, ph_prioritization = PhaseCompleted,
      ph_validation = PhasePending, ph_evaluation = PhasePending\<rparr>\<rparr>"

lemma skipping_manifest_wf: "manifest_wf sample_ts skipping_manifest"
  using sample_manifest_wf [of "[]"]
  by (simp add: manifest_wf_def manifest_frame_wf_def skipping_manifest_def lifecycle_wf_def
      v1_shape_wf_def phases_wf_def)

text \<open>
  The order of the phases of a run is not part of the manifest's contract: a manifest may be
  valid with its prioritization completed and its deterministic analysis not. The planner
  derives the phases of such a run and then refuses them itself, whatever evidence it is given,
  with the error of its consistency check, so no plan skips the deterministic analysis.
\<close>

theorem skipped_analysis_refused:
  assumes "digest_length sha" and "ts now \<noteq> None" and "length (rm_findings m) < 2 ^ 64"
    and "validate_manifest ts m = Ok ()" and "plan_inputs_ok h ev"
    and "ph_prioritization (rm_phases m) = PhaseCompleted"
    and "ph_deterministic (rm_phases m) \<noteq> PhaseCompleted"
  shows "derive_plan ts sha ser (Some now) m h ev = Err (OrchInvalidField ''derived phase state'')"
proof -
  let ?e = "derived_plan sha ser now m h (sort ev)"
  have wf: "manifest_wf ts m" using assms(4) by (simp add: validate_manifest_wf)
  have status: "status_of ?e i = op_status (derive_phases m (derive_state (rm_findings m))
      (has_context (sort ev)) (has_benchmark (sort ev)) ! i)" for i
    by (simp add: status_of_def)
  have state: "validate_derived_state ?e = Inl (OrchInvalidField ''derived phase state'')"
    using assms(6,7)
    unfolding validate_derived_state_def Let_def status derive_phases_status by simp
  have "validate_plan ts sha ser ?e = Inl (OrchInvalidField ''derived phase state'')"
    using validate_derived_plan_state [OF assms(1,2) wf assms(3), of "sort ev" h ser] assms(5) state
    by (simp add: plan_inputs_ok_def)
  with assms(4,5) show ?thesis
    by (simp add: derive_plan_unfold plan_inputs_ok_def
        adjacent_distinct_sorted orch_valid_sha256_model)
qed


theorem skipped_analysis_refused_witness:
  "validate_manifest sample_ts skipping_manifest = Ok ()
   \<and> derive_plan sample_ts zero_sha no_ser (Some T0) skipping_manifest zero_hash [bench_artifact]
       = Err (OrchInvalidField ''derived phase state'')"
proof -
  have ok: "validate_manifest sample_ts skipping_manifest = Ok ()"
    by (simp add: validate_manifest_wf skipping_manifest_wf)
  have "length (rm_findings skipping_manifest) < 2 ^ 64" by (simp add: skipping_manifest_def)
  from skipped_analysis_refused [OF zero_sha_length _ this ok sample_plan_ok(6), of T0] ok
  show ?thesis by (simp add: skipping_manifest_def)
qed

text \<open>A plan over one candidate whose counts wrap around.\<close>

definition wrapped_state :: run_state where
  "wrapped_state = \<lparr>rs_candidate_count = 1, rs_pending_human_reviews = 2,
     rs_terminal_human_reviews = - 1, rs_ai_completed = 0, rs_ai_failed_or_queued = 0\<rparr>"

definition wrapped_plan :: orchestration_envelope where
  "wrapped_plan =
     (let p = (derived_draft T0 one_manifest zero_hash [])\<lparr>
            oe_state := wrapped_state,
            oe_phases := derive_phases one_manifest wrapped_state False False,
            oe_next_action := HumanReviewOrAbstain,
            oe_claim_status := CandidatesRequireHumanReview\<rparr>
      in p\<lparr>oe_plan_id := expected_plan_id zero_sha no_ser p\<rparr>)"

text \<open>
  The counts of a plan that is read back are only checked modulo \<open>2 ^ 64\<close>: the additions of
  the check are unchecked, so in the release profile a plan over one candidate is accepted
  with two pending reviews and \<open>2 ^ 64 - 1\<close> terminal ones.
\<close>

theorem plan_counts_wrap:
  "validate_plan sample_ts zero_sha no_ser wrapped_plan = Ok ()
   \<and> unat (rs_pending_human_reviews (oe_state wrapped_plan)) = 2
   \<and> unat (rs_candidate_count (oe_state wrapped_plan)) = 1"
proof -
  have id: "oe_plan_id wrapped_plan = expected_plan_id zero_sha no_ser wrapped_plan"
    by (simp add: wrapped_plan_def Let_def)
  have fields: "oe_contract_version wrapped_plan = ORCHESTRATION_VERSION"
      "oe_created_at wrapped_plan = T0" "oe_linked_run_id wrapped_plan = rm_run_id one_manifest"
      "oe_manifest_sha256 wrapped_plan = zero_hash" "oe_evidence wrapped_plan = []"
      "oe_target_sha256 wrapped_plan = tg_root_sha256 (rm_target one_manifest)"
      "oe_policy wrapped_plan = fixed_policy" "oe_state wrapped_plan = wrapped_state"
      "oe_phases wrapped_plan = derive_phases one_manifest wrapped_state False False"
      "oe_next_action wrapped_plan = HumanReviewOrAbstain"
      "oe_claim_status wrapped_plan = CandidatesRequireHumanReview"
    by (simp_all add: wrapped_plan_def derived_draft_def Let_def)
  have counts: "rs_candidate_count wrapped_state = 1" "rs_pending_human_reviews wrapped_state = 2"
      "rs_terminal_human_reviews wrapped_state = - 1" "rs_ai_completed wrapped_state = 0"
      "rs_ai_failed_or_queued wrapped_state = 0"
    by (simp_all add: wrapped_state_def)
  have phs: "ph_deterministic (rm_phases one_manifest) = PhaseCompleted"
      "ph_prioritization (rm_phases one_manifest) = PhaseCompleted"
    by (simp_all add: one_manifest_def sample_manifest_def)
  have status: "status_of wrapped_plan i
      = op_status (derive_phases one_manifest wrapped_state False False ! i)" for i
    by (simp add: status_of_def fields)
  have derived: "validate_derived_state wrapped_plan = Inr ()"
    unfolding validate_derived_state_def Let_def status derive_phases_status fields counts phs
    by (simp add: has_context_def)
  have ids: "valid_run_id (rm_run_id one_manifest) \<and> sha256_wf (tg_root_sha256 (rm_target one_manifest))"
    by (rule manifest_wf_plan_ids [of sample_ts]) simp
  show ?thesis
    unfolding validate_plan_def derived
    using ids
    by (simp add: id fields counts orch_valid_sha256_model phases_check_derived MAX_EVIDENCE_ARTIFACTS_def
        expected_plan_id_valid)
qed

end
