(* ===== verification/Json.thy ===== *)
theory Json
  imports Prelude
begin

text \<open>
  JSON documents as the code reads them when it does not deserialize into a contract type:
  \<open>serde_json::Value\<close> with \<open>get\<close>, \<open>as_str\<close>, \<open>as_array\<close> and \<open>pointer\<close> along object keys. An
  object has unique keys; a number is kept as its text, which no code here reads.
\<close>

datatype json =
  JNull
| JBool bool
| JNumber string
| JString string
| JArray "json list"
| JObject "(string \<times> json) list"

fun json_get :: "string \<Rightarrow> json \<Rightarrow> json option" where
  "json_get key (JObject fields) = map_of fields key"
| "json_get key _ = None"

fun json_str :: "json \<Rightarrow> string option" where
  "json_str (JString s) = Some s"
| "json_str _ = None"

fun json_array :: "json \<Rightarrow> json list option" where
  "json_array (JArray xs) = Some xs"
| "json_array _ = None"

text \<open>\<open>get(key).and_then(Value::as_str)\<close>, and \<open>get(key).and_then(Value::as_array)\<close> flattened.\<close>

definition json_get_str :: "string \<Rightarrow> json \<Rightarrow> string option" where
  "json_get_str key v = Option.bind (json_get key v) json_str"

definition json_get_items :: "string \<Rightarrow> json \<Rightarrow> json list" where
  "json_get_items key v =
     (case Option.bind (json_get key v) json_array of None \<Rightarrow> [] | Some xs \<Rightarrow> xs)"

end
