(* ===== verification/SecureReview.thy ===== *)
theory SecureReview
  imports Json RunReview
begin

text \<open>
  The import boundary of \<open>crates/secureflow-secure-adapter/src/lib.rs\<close>: the review contract 1.1
  of the Secure Skill, its validation, and \<open>import_review\<close>, which wraps a reviewed payload in an
  envelope that stays contextual. Reading and fingerprinting the files of the skill
  (\<open>load_source_provenance\<close>) is file system and Git access and is not modelled.

  Parameters: the timestamp parser \<open>ts\<close>, the digest \<open>sha\<close>, and the JSON readers of a review and
  of an envelope (\<open>from_json\<close>).
\<close>

unbundle bit_operations_syntax

section \<open>Data\<close>

definition ENVELOPE_VERSION :: string where
  "ENVELOPE_VERSION = ''secureflow-secure-review-v1''"

definition UPSTREAM_SCHEMA_VERSION :: string where
  "UPSTREAM_SCHEMA_VERSION = ''1.1''"

definition MAX_REVIEW_BYTES :: nat where
  "MAX_REVIEW_BYTES = 16 * 1024 * 1024"

definition MAX_ITEMS :: nat where
  "MAX_ITEMS = 10000"

record secure_skill_provenance =
  sp_name :: string
  sp_version :: string
  sp_revision :: string
  sp_skill_sha256 :: string
  sp_review_contract_schema :: string
  sp_review_contract_sha256 :: string
  sp_license_spdx :: string
  sp_license_sha256 :: string

datatype imported_finding_class = ContextualCandidates

datatype validation_authority = HumanOnly

record assessment_semantics =
  as_imported_findings_are :: imported_finding_class
  as_validation_authority :: validation_authority
  as_no_findings_mean_safe :: bool

datatype review_mode =
  ModeReview | ModeDiffReview | ModeAudit | ModeThreatModel | ModeFix | ModeVerify

datatype review_authorization = ReadOnly | Explicit

record review_scope =
  sco_paths :: "string list"
  sco_basis :: string
  sco_exclusions :: "string list"

datatype review_severity = RsCritical | RsHigh | RsMedium | RsLow

datatype review_confidence = RcHigh | RcMedium | RcLow

record review_location =
  rl_file :: string
  rl_line :: "u64 option"
  rl_symbol :: "string option"

record attacker_path =
  ap_actor :: string
  ap_required_access :: "string list"
  ap_controlled_input :: string
  ap_victim_action :: string
  ap_steps :: "string list"
  ap_achieved_result :: string
  ap_limitations :: "string list"

datatype verification_status = Verified | Unverified | Fixed | RetestFailed | VsNotApplicable

record review_finding =
  rf_id :: string
  rf_severity :: review_severity
  rf_confidence :: review_confidence
  rf_title :: string
  rf_location :: review_location
  rf_evidence :: string
  rf_invariant :: string
  rf_source_to_sink :: string
  rf_attacker_path :: attacker_path
  rf_impact :: string
  rf_prerequisites :: "string list"
  rf_recommendation :: string
  rf_verification_status :: verification_status
  rf_residual_risk :: string

datatype non_finding_classification =
  UnverifiedLead | Hardening | Correctness | CompatibilityQuestion

record non_finding =
  nf_classification :: non_finding_classification
  nf_title :: string
  nf_evidence :: string
  nf_missing_gate :: string
  nf_next_step :: string

datatype verification_check_status = CheckPassed | CheckFailed | CheckNotRun | CheckBlocked

record verification_check =
  vc_check :: string
  vc_status :: verification_check_status
  vc_summary :: string

record coverage =
  cv_reviewed :: "string list"
  cv_not_reviewed :: "string list"

record secure_review =
  sr_schema_version :: string
  sr_mode :: review_mode
  sr_authorization :: "review_authorization option"
  sr_scope :: review_scope
  sr_findings :: "review_finding list"
  sr_non_findings :: "non_finding list"
  sr_verification :: "verification_check list"
  sr_coverage :: coverage
  sr_residual_risk :: "string list"
  sr_threat_model :: "json option"
  sr_remediation :: "json option"

record secure_review_envelope =
  se_contract_version :: string
  se_import_id :: string
  se_imported_at :: string
  se_linked_run_id :: string
  se_target_sha256 :: string
  se_payload_sha256 :: string
  se_payload_bytes :: u64
  se_source :: secure_skill_provenance
  se_semantics :: assessment_semantics
  se_review :: secure_review

record import_context =
  ic_imported_at :: string
  ic_linked_run_id :: string
  ic_target_sha256 :: string

datatype adapter_error =
  ReviewSize u64
| AdapterJson
| UnsupportedEnvelope string
| UnsupportedReviewSchema string
| UnsupportedSource string
| InvalidModeContract string
| DuplicateFindingId string
| InvalidSemantics
| AdapterInvalidField string
| AdapterFieldTooLong string
| TooManyItems string
| AdapterInvalidPath string

section \<open>Field checks\<close>

definition validate_run_id :: "string \<Rightarrow> adapter_error + unit" where
  "validate_run_id value =
     (let sfx = (case strip_prefix ''sf_run_'' value of None \<Rightarrow> [] | Some s \<Rightarrow> s)
      in fail_if (\<not> (16 \<le> length sfx \<and> length sfx \<le> 80)
                  \<or> \<not> list_all (\<lambda>c. is_alnum c \<or> c = CHR ''_'' \<or> c = CHR ''-'') sfx)
           (AdapterInvalidField ''linked_run_id''))"

definition adapter_lower_hex_of_length :: "string \<Rightarrow> nat \<Rightarrow> bool" where
  "adapter_lower_hex_of_length value len \<longleftrightarrow> length value = len \<and> list_all is_lower_hex value"

definition adapter_prefixed_hash :: "string \<Rightarrow> string \<Rightarrow> bool" where
  "adapter_prefixed_hash value pfx =
     (case strip_prefix pfx value of None \<Rightarrow> False | Some s \<Rightarrow> adapter_lower_hex_of_length s 64)"

definition valid_secure_finding_id :: "string \<Rightarrow> bool" where
  "valid_secure_finding_id value =
     (case strip_prefix ''SEC-'' value of
        None \<Rightarrow> False
      | Some s \<Rightarrow> 3 \<le> length s \<and> length s \<le> 20 \<and> list_all is_digit s)"

definition adapter_sha256 :: "string \<Rightarrow> string \<Rightarrow> adapter_error + unit" where
  "adapter_sha256 value field =
     fail_if (\<not> adapter_lower_hex_of_length value 64) (AdapterInvalidField field)"

definition parse_timestamp :: "ts_parser \<Rightarrow> string \<Rightarrow> string \<Rightarrow> adapter_error + int" where
  "parse_timestamp ts value field = ok_or (ts value) (AdapterInvalidField field)"

definition validate_count :: "nat \<Rightarrow> string \<Rightarrow> adapter_error + unit" where
  "validate_count n field = fail_if (MAX_ITEMS < n) (TooManyItems field)"

text \<open>Control characters other than newline, carriage return and tab.\<close>

definition layout :: "char \<Rightarrow> bool" where
  "layout c \<longleftrightarrow> byte c = 10 \<or> byte c = 13 \<or> byte c = 9"

definition adapter_text :: "string \<Rightarrow> string \<Rightarrow> nat \<Rightarrow> adapter_error + unit" where
  "adapter_text value field maximum = checks [
     fail_if (trim_is_empty value \<or> has_control (filter (\<lambda>c. \<not> layout c) value))
       (AdapterInvalidField field),
     fail_if (maximum < chars_count value) (AdapterFieldTooLong field)]"

definition adapter_optional_text :: "string option \<Rightarrow> string \<Rightarrow> nat \<Rightarrow> adapter_error + unit" where
  "adapter_optional_text value field maximum = check_opt (\<lambda>v. adapter_text v field maximum) value"

definition validate_string_list ::
    "string list \<Rightarrow> string \<Rightarrow> nat \<Rightarrow> bool \<Rightarrow> adapter_error + unit" where
  "validate_string_list values field maximum require_one = checks [
     validate_count (length values) field,
     fail_if (require_one \<and> values = []) (AdapterInvalidField field),
     each (\<lambda>v. adapter_text v field maximum) values]"

definition adapter_relative_path :: "string \<Rightarrow> string \<Rightarrow> adapter_error + unit" where
  "adapter_relative_path value field =
     fail_if (trim_is_empty value \<or> 2000 < chars_count value \<or> CHR 0x5C \<in> set value
              \<or> has_control value \<or> is_absolute value \<or> has_parent_dir value)
       (AdapterInvalidPath field)"

definition validate_path_list :: "string list \<Rightarrow> string \<Rightarrow> adapter_error + unit" where
  "validate_path_list values field = checks [
     validate_count (length values) field,
     each (\<lambda>v. adapter_relative_path v field) values]"

section \<open>Validation of an envelope\<close>

definition validate_provenance :: "secure_skill_provenance \<Rightarrow> adapter_error + unit" where
  "validate_provenance s = checks [
     fail_if (sp_name s \<noteq> ''secure-skill'') (UnsupportedSource (sp_name s)),
     adapter_text (sp_version s) ''source.version'' 100,
     fail_if (\<not> adapter_lower_hex_of_length (sp_revision s) 40
              \<and> \<not> adapter_lower_hex_of_length (sp_revision s) 64)
       (AdapterInvalidField ''source.revision''),
     adapter_sha256 (sp_skill_sha256 s) ''source.skill_sha256'',
     fail_if (sp_review_contract_schema s \<noteq> UPSTREAM_SCHEMA_VERSION)
       (UnsupportedReviewSchema (sp_review_contract_schema s)),
     adapter_sha256 (sp_review_contract_sha256 s) ''source.review_contract_sha256'',
     adapter_text (sp_license_spdx s) ''source.license_spdx'' 100,
     adapter_sha256 (sp_license_sha256 s) ''source.license_sha256'']"

definition contextual_only :: assessment_semantics where
  "contextual_only = \<lparr>as_imported_findings_are = ContextualCandidates,
     as_validation_authority = HumanOnly, as_no_findings_mean_safe = False\<rparr>"

definition validate_semantics :: "assessment_semantics \<Rightarrow> adapter_error + unit" where
  "validate_semantics s =
     fail_if (as_imported_findings_are s \<noteq> ContextualCandidates
              \<or> as_validation_authority s \<noteq> HumanOnly \<or> as_no_findings_mean_safe s)
       InvalidSemantics"

definition validate_scope :: "review_scope \<Rightarrow> adapter_error + unit" where
  "validate_scope s = checks [
     validate_path_list (sco_paths s) ''scope.paths'',
     adapter_text (sco_basis s) ''scope.basis'' 2000,
     validate_path_list (sco_exclusions s) ''scope.exclusions'']"

definition validate_review_location :: "review_location \<Rightarrow> adapter_error + unit" where
  "validate_review_location l = checks [
     adapter_relative_path (rl_file l) ''finding.location.file'',
     fail_if (rl_line l = Some 0) (AdapterInvalidField ''finding.location.line''),
     adapter_optional_text (rl_symbol l) ''finding.location.symbol'' 500]"

definition validate_attacker_path :: "attacker_path \<Rightarrow> adapter_error + unit" where
  "validate_attacker_path p = checks [
     adapter_text (ap_actor p) ''finding.attacker_path.actor'' 2000,
     validate_string_list (ap_required_access p) ''finding.attacker_path.required_access'' 4000 True,
     adapter_text (ap_controlled_input p) ''finding.attacker_path.controlled_input'' 4000,
     adapter_text (ap_victim_action p) ''finding.attacker_path.victim_action'' 4000,
     validate_string_list (ap_steps p) ''finding.attacker_path.steps'' 4000 True,
     adapter_text (ap_achieved_result p) ''finding.attacker_path.achieved_result'' 4000,
     validate_string_list (ap_limitations p) ''finding.attacker_path.limitations'' 4000 False]"

definition validate_review_finding :: "review_finding \<Rightarrow> adapter_error + unit" where
  "validate_review_finding f = checks [
     fail_if (\<not> valid_secure_finding_id (rf_id f)) (AdapterInvalidField ''finding.id''),
     adapter_text (rf_title f) ''finding.title'' 500,
     validate_review_location (rf_location f),
     adapter_text (rf_evidence f) ''finding.evidence'' 20000,
     adapter_text (rf_invariant f) ''finding.invariant'' 4000,
     adapter_text (rf_source_to_sink f) ''finding.source_to_sink'' 10000,
     validate_attacker_path (rf_attacker_path f),
     adapter_text (rf_impact f) ''finding.impact'' 10000,
     validate_string_list (rf_prerequisites f) ''finding.prerequisites'' 4000 False,
     adapter_text (rf_recommendation f) ''finding.recommendation'' 10000,
     adapter_text (rf_residual_risk f) ''finding.residual_risk'' 10000]"

definition validate_non_finding :: "non_finding \<Rightarrow> adapter_error + unit" where
  "validate_non_finding n = checks [
     adapter_text (nf_title n) ''non_finding.title'' 500,
     adapter_text (nf_evidence n) ''non_finding.evidence'' 10000,
     adapter_text (nf_missing_gate n) ''non_finding.missing_gate'' 4000,
     adapter_text (nf_next_step n) ''non_finding.next_step'' 4000]"

definition validate_check :: "verification_check \<Rightarrow> adapter_error + unit" where
  "validate_check c = checks [
     adapter_text (vc_check c) ''verification.check'' 1000,
     adapter_text (vc_summary c) ''verification.summary'' 4000]"

definition validate_coverage :: "coverage \<Rightarrow> adapter_error + unit" where
  "validate_coverage c = checks [
     validate_string_list (cv_reviewed c) ''coverage.reviewed'' 2000 False,
     validate_string_list (cv_not_reviewed c) ''coverage.not_reviewed'' 2000 False]"

text \<open>The loop over the findings: \<open>validate\<close>, then insertion of the identifier.\<close>

fun validate_review_findings :: "string set \<Rightarrow> review_finding list \<Rightarrow> adapter_error + unit" where
  "validate_review_findings seen [] = Ok ()"
| "validate_review_findings seen (f # fs) =
     and_then (validate_review_finding f) (\<lambda>_.
       if rf_id f \<in> seen then Err (DuplicateFindingId (rf_id f))
       else validate_review_findings (insert (rf_id f) seen) fs)"

definition validate_review :: "secure_review \<Rightarrow> adapter_error + unit" where
  "validate_review r = checks [
     fail_if (sr_schema_version r \<noteq> UPSTREAM_SCHEMA_VERSION)
       (UnsupportedReviewSchema (sr_schema_version r)),
     fail_if (sr_mode r = ModeFix
              \<and> (sr_authorization r \<noteq> Some Explicit \<or> sr_remediation r = None))
       (InvalidModeContract ''fix requires explicit authorization and remediation''),
     fail_if (sr_mode r = ModeThreatModel \<and> sr_threat_model r = None)
       (InvalidModeContract ''threat-model requires threat_model''),
     validate_scope (sr_scope r),
     validate_count (length (sr_findings r)) ''findings'',
     validate_review_findings {} (sr_findings r),
     validate_count (length (sr_non_findings r)) ''non_findings'',
     each validate_non_finding (sr_non_findings r),
     validate_count (length (sr_verification r)) ''verification'',
     each validate_check (sr_verification r),
     validate_coverage (sr_coverage r),
     validate_string_list (sr_residual_risk r) ''residual_risk'' 4000 False]"

definition validate_envelope :: "ts_parser \<Rightarrow> secure_review_envelope \<Rightarrow> adapter_error + unit" where
  "validate_envelope ts e = checks [
     fail_if (se_contract_version e \<noteq> ENVELOPE_VERSION)
       (UnsupportedEnvelope (se_contract_version e)),
     fail_if (\<not> adapter_prefixed_hash (se_import_id e) ''sf_secure_review_'')
       (AdapterInvalidField ''import_id''),
     and_then (parse_timestamp ts (se_imported_at e) ''imported_at'') (\<lambda>_. Ok ()),
     validate_run_id (se_linked_run_id e),
     adapter_sha256 (se_target_sha256 e) ''target_sha256'',
     adapter_sha256 (se_payload_sha256 e) ''payload_sha256'',
     fail_if (se_payload_bytes e = 0 \<or> MAX_REVIEW_BYTES < unat (se_payload_bytes e))
       (AdapterInvalidField ''payload_bytes''),
     validate_provenance (se_source e),
     validate_semantics (se_semantics e),
     validate_review (se_review e)]"

section \<open>Importing a review\<close>

definition HEX :: "char list" where
  "HEX = ''0123456789abcdef''"

text \<open>Each byte is looked up in the table by its high and its low four bits.\<close>

definition hex_table_byte :: "u8 \<Rightarrow> string" where
  "hex_table_byte b = [HEX ! unat (drop_bit 4 b), HEX ! unat (b AND 0x0f)]"

definition hex_table :: "string \<Rightarrow> string" where
  "hex_table bytes = concat (map (\<lambda>c. hex_table_byte (of_nat (byte c))) bytes)"

definition sha256_hex :: "digest_fun \<Rightarrow> string \<Rightarrow> string" where
  "sha256_hex sha bytes = hex_table (sha bytes)"

definition parse_review ::
    "(string \<Rightarrow> secure_review option) \<Rightarrow> string \<Rightarrow> adapter_error + secure_review" where
  "parse_review from_json bytes =
     and_then (fail_if (bytes = [] \<or> MAX_REVIEW_BYTES < length bytes)
                 (ReviewSize (of_nat (length bytes)))) (\<lambda>_.
     and_then (ok_or (from_json bytes) AdapterJson) (\<lambda>review.
     and_then (validate_review review) (\<lambda>_. Ok review)))"

definition parse_envelope ::
    "ts_parser \<Rightarrow> (string \<Rightarrow> secure_review_envelope option) \<Rightarrow> string
     \<Rightarrow> adapter_error + secure_review_envelope" where
  "parse_envelope ts from_json bytes =
     and_then (fail_if (bytes = [] \<or> MAX_REVIEW_BYTES < length bytes)
                 (ReviewSize (of_nat (length bytes)))) (\<lambda>_.
     and_then (ok_or (from_json bytes) AdapterJson) (\<lambda>envelope.
     and_then (validate_envelope ts envelope) (\<lambda>_. Ok envelope)))"

definition import_key :: "digest_fun \<Rightarrow> string \<Rightarrow> import_context \<Rightarrow> secure_skill_provenance \<Rightarrow> string" where
  "import_key sha payload ctx source =
     ic_linked_run_id ctx @ CHR 0x00 # ic_target_sha256 ctx @ CHR 0x00 # sha256_hex sha payload
       @ CHR 0x00 # sp_revision source"

definition import_review ::
    "ts_parser \<Rightarrow> digest_fun \<Rightarrow> (string \<Rightarrow> secure_review option) \<Rightarrow> string
     \<Rightarrow> import_context \<Rightarrow> secure_skill_provenance \<Rightarrow> adapter_error + secure_review_envelope" where
  "import_review ts sha from_json payload ctx source =
     and_then (parse_review from_json payload) (\<lambda>review.
     and_then (parse_timestamp ts (ic_imported_at ctx) ''imported_at'') (\<lambda>_.
     and_then (checks [
       validate_run_id (ic_linked_run_id ctx),
       adapter_sha256 (ic_target_sha256 ctx) ''target_sha256'',
       validate_provenance source]) (\<lambda>_.
     let envelope = \<lparr>se_contract_version = ENVELOPE_VERSION,
           se_import_id = ''sf_secure_review_'' @ sha256_hex sha (import_key sha payload ctx source),
           se_imported_at = ic_imported_at ctx, se_linked_run_id = ic_linked_run_id ctx,
           se_target_sha256 = ic_target_sha256 ctx, se_payload_sha256 = sha256_hex sha payload,
           se_payload_bytes = of_nat (length payload), se_source = source,
           se_semantics = contextual_only, se_review = review\<rparr>
     in and_then (validate_envelope ts envelope) (\<lambda>_. Ok envelope))))"


section \<open>The table encoding\<close>

lemma HEX_nth: "n < 16 \<Longrightarrow> HEX ! n = hex_digit n"
proof -
  assume "n < 16"
  then have "n \<in> set [0..<16]" by simp
  moreover have "list_all (\<lambda>n. HEX ! n = hex_digit n) [0..<16]"
    by code_simp
  ultimately show ?thesis by (simp only: list_all_iff)
qed

lemma hex_table_byte: "hex_table_byte (of_nat (byte c)) = hex_byte c"
proof -
  let ?w = "of_nat (byte c) :: u8"
  have "unat ?w = byte c" using byte_less [of c] by (simp add: unat_of_nat)
  then have high: "unat (drop_bit 4 ?w) = byte c div 16"
    by (subst unat_drop_bit_eq) (simp add: drop_bit_eq_div)
  have "?w AND 0x0f = take_bit 4 ?w" by (simp add: take_bit_eq_mask mask_eq_exp_minus_1)
  then have "unat (?w AND 0x0f) = unat (take_bit 4 ?w)" by (simp only:)
  also have "\<dots> = take_bit 4 (unat ?w)" by (rule unsigned_take_bit_eq)
  also have "\<dots> = byte c mod 16" unfolding \<open>unat ?w = byte c\<close> by (simp add: take_bit_eq_mod)
  finally have low: "unat (?w AND 0x0f) = byte c mod 16" .
  have "byte c div 16 < 16" using byte_less [of c] by linarith
  then show ?thesis
    unfolding hex_table_byte_def hex_byte_def high low by (simp add: HEX_nth)
qed

lemma hex_table_encode: "hex_table bytes = encode_hex bytes"
  by (simp add: hex_table_def encode_hex_def hex_table_byte)

interpretation hext: hex_encoder hex_table
  unfolding hex_table_encode [abs_def] by (rule hex.hex_encoder_axioms)

section \<open>What an import yields\<close>

lemma validate_review_findings_iff [ok_iff]:
  "validate_review_findings seen fs = Inr u \<longleftrightarrow>
     (\<forall>f \<in> set fs. validate_review_finding f = Inr () \<and> rf_id f \<notin> seen)
   \<and> distinct (map rf_id fs)"
  by (induction fs arbitrary: seen)
     (auto simp: and_then_Inr_iff intro: rev_image_eqI split: if_splits)

lemma contextual_only_valid [simp]: "validate_semantics contextual_only = Inr ()"
  by (simp add: validate_semantics_def contextual_only_def)

lemma sha256_hex_id:
  "digest_length sha \<Longrightarrow> adapter_lower_hex_of_length (sha256_hex sha x) 64"
  using hext.digest_id by (simp add: sha256_hex_def adapter_lower_hex_of_length_def)

definition imported_envelope ::
    "digest_fun \<Rightarrow> string \<Rightarrow> import_context \<Rightarrow> secure_skill_provenance \<Rightarrow> secure_review
     \<Rightarrow> secure_review_envelope" where
  "imported_envelope sha payload ctx source review =
     \<lparr>se_contract_version = ENVELOPE_VERSION,
      se_import_id = ''sf_secure_review_'' @ sha256_hex sha (import_key sha payload ctx source),
      se_imported_at = ic_imported_at ctx, se_linked_run_id = ic_linked_run_id ctx,
      se_target_sha256 = ic_target_sha256 ctx, se_payload_sha256 = sha256_hex sha payload,
      se_payload_bytes = of_nat (length payload), se_source = source,
      se_semantics = contextual_only, se_review = review\<rparr>"

definition import_args_ok :: "ts_parser \<Rightarrow> import_context \<Rightarrow> secure_skill_provenance \<Rightarrow> bool" where
  "import_args_ok ts ctx source \<longleftrightarrow>
     ts (ic_imported_at ctx) \<noteq> None \<and> valid_identifier (ic_linked_run_id ctx) ''sf_run_'' 16 80
   \<and> sha256_wf (ic_target_sha256 ctx) \<and> validate_provenance source = Ok ()"

lemma validate_run_id_iff [ok_iff]:
  "validate_run_id v = Inr u \<longleftrightarrow> valid_identifier v ''sf_run_'' 16 80"
  by (cases "strip_prefix ''sf_run_'' v")
     (simp_all add: validate_run_id_def valid_identifier_def Let_def fail_if_Inr_iff)

lemma adapter_sha256_iff [ok_iff]: "adapter_sha256 v f = Inr u \<longleftrightarrow> sha256_wf v"
  by (simp add: adapter_sha256_def sha256_wf_def adapter_lower_hex_of_length_def
      is_lower_hex_of_length_def fail_if_Inr_iff)

lemma parse_timestamp_iff [ok_iff]: "parse_timestamp ts v f = Inr t \<longleftrightarrow> ts v = Some t"
  by (simp add: parse_timestamp_def ok_or_Inr_iff)

lemma parse_review_iff:
  "parse_review from_json bytes = Inr r \<longleftrightarrow>
     bytes \<noteq> [] \<and> length bytes \<le> MAX_REVIEW_BYTES \<and> from_json bytes = Some r
   \<and> validate_review r = Ok ()"
  by (auto simp: parse_review_def ok_iff not_less)

lemma imported_envelope_valid:
  assumes "digest_length sha" and "import_args_ok ts ctx source"
    and "payload \<noteq> []" and "length payload \<le> MAX_REVIEW_BYTES" and "validate_review r = Ok ()"
  shows "validate_envelope ts (imported_envelope sha payload ctx source r) = Ok ()"
proof -
  have "length payload < 2 ^ 64" using assms(4) by (simp add: MAX_REVIEW_BYTES_def)
  then have size: "unat (of_nat (length payload) :: u64) = length payload"
    by (rule unat_of_nat_u64)
  then have "(of_nat (length payload) :: u64) \<noteq> 0" using assms(3)
    by (metis length_0_conv unat_0)
  moreover have "adapter_prefixed_hash
      (''sf_secure_review_'' @ sha256_hex sha (import_key sha payload ctx source)) ''sf_secure_review_''"
    unfolding adapter_prefixed_hash_def strip_prefix_append by (simp add: sha256_hex_id assms(1))
  moreover have "sha256_wf (sha256_hex sha payload)"
    using sha256_hex_id [OF assms(1)]
    by (simp add: sha256_wf_def adapter_lower_hex_of_length_def is_lower_hex_of_length_def)
  ultimately show ?thesis
    using assms size unfolding validate_envelope_def imported_envelope_def
    by (auto simp: ok_iff import_args_ok_def)
qed

lemma import_review_unfold:
  "import_review ts sha from_json payload ctx source =
     and_then (parse_review from_json payload) (\<lambda>review.
     and_then (parse_timestamp ts (ic_imported_at ctx) ''imported_at'') (\<lambda>_.
     and_then (checks [
       validate_run_id (ic_linked_run_id ctx),
       adapter_sha256 (ic_target_sha256 ctx) ''target_sha256'',
       validate_provenance source]) (\<lambda>_.
     and_then (validate_envelope ts (imported_envelope sha payload ctx source review))
       (\<lambda>_. Ok (imported_envelope sha payload ctx source review)))))"
  unfolding import_review_def imported_envelope_def Let_def ..

lemma import_review_Inr:
  assumes "digest_length sha"
  shows "import_review ts sha from_json payload ctx source = Inr e \<longleftrightarrow>
     import_args_ok ts ctx source
   \<and> (\<exists>r. parse_review from_json payload = Ok r
        \<and> e = imported_envelope sha payload ctx source r)"
  using imported_envelope_valid [OF assms, of ts ctx source payload]
  by (auto simp: import_review_unfold ok_iff parse_review_iff import_args_ok_def)


section \<open>Properties\<close>

text \<open>
  C39. A review is imported exactly when its payload is non-empty, at most 16 MiB, parses to a
  valid review, and its context and the provenance of the skill are valid; the validation of
  the finished envelope rejects nothing else. Whatever the payload says, the envelope is only
  contextual: humans alone validate, and no findings do not mean safety.
\<close>

theorem import_review_succeeds_iff:
  assumes "digest_length sha"
  shows "import_review ts sha from_json payload ctx source = Ok e \<longleftrightarrow>
     payload \<noteq> [] \<and> length payload \<le> 16777216
   \<and> from_json payload = Some (se_review e) \<and> validate_review (se_review e) = Ok ()
   \<and> ts (ic_imported_at ctx) \<noteq> None \<and> valid_identifier (ic_linked_run_id ctx) ''sf_run_'' 16 80
   \<and> sha256_wf (ic_target_sha256 ctx) \<and> validate_provenance source = Ok ()
   \<and> se_semantics e = \<lparr>as_imported_findings_are = ContextualCandidates,
        as_validation_authority = HumanOnly, as_no_findings_mean_safe = False\<rparr>
   \<and> e = imported_envelope sha payload ctx source (se_review e)"
proof -
  have "se_review (imported_envelope sha payload ctx source r) = r"
      "se_semantics (imported_envelope sha payload ctx source r) = contextual_only" for r
    by (simp_all add: imported_envelope_def)
  then show ?thesis
    by (auto simp: import_review_Inr [OF assms] parse_review_iff import_args_ok_def
        MAX_REVIEW_BYTES_def contextual_only_def)
qed

text \<open>A small review for the concrete imports.\<close>

definition sample_secure_review :: secure_review where
  "sample_secure_review = \<lparr>sr_schema_version = UPSTREAM_SCHEMA_VERSION, sr_mode = ModeReview,
     sr_authorization = None,
     sr_scope = \<lparr>sco_paths = [''a.js''], sco_basis = ''b'', sco_exclusions = []\<rparr>,
     sr_findings = [], sr_non_findings = [], sr_verification = [],
     sr_coverage = \<lparr>cv_reviewed = [], cv_not_reviewed = []\<rparr>, sr_residual_risk = [],
     sr_threat_model = None, sr_remediation = None\<rparr>"

definition sample_provenance :: secure_skill_provenance where
  "sample_provenance = \<lparr>sp_name = ''secure-skill'', sp_version = ''2'',
     sp_revision = replicate 40 CHR ''0'', sp_skill_sha256 = zero_hash,
     sp_review_contract_schema = UPSTREAM_SCHEMA_VERSION, sp_review_contract_sha256 = zero_hash,
     sp_license_spdx = ''MIT'', sp_license_sha256 = zero_hash\<rparr>"

definition sample_context :: "string \<Rightarrow> import_context" where
  "sample_context t = \<lparr>ic_imported_at = t, ic_linked_run_id = ''sf_run_'' @ replicate 16 CHR ''0'',
     ic_target_sha256 = zero_hash\<rparr>"

lemma sample_secure_review_ok: "validate_review sample_secure_review = Ok ()"
  by (simp add: validate_review_def sample_secure_review_def checks_Cons_iff validate_scope_def
      validate_path_list_def validate_count_def MAX_ITEMS_def adapter_text_def layout_def
      adapter_relative_path_def is_absolute_def has_parent_dir_def string_simps each_iff
      validate_coverage_def validate_string_list_def)

lemma sample_provenance_ok: "validate_provenance sample_provenance = Ok ()"
  using zero_hash_wf
  by (simp add: validate_provenance_def sample_provenance_def checks_Cons_iff adapter_text_def
      layout_def string_simps adapter_lower_hex_of_length_def adapter_sha256_iff)

lemma sample_context_ok:
  "sample_ts t \<noteq> None \<Longrightarrow> import_args_ok sample_ts (sample_context t) sample_provenance"
  by (simp add: import_args_ok_def sample_context_def sample_provenance_ok valid_identifier_def
      strip_prefix_def starts_with_def byte_class_defs)

theorem import_review_succeeds_iff_witness:
  "import_review sample_ts zero_sha (\<lambda>_. Some sample_secure_review) ''{}'' (sample_context T0)
     sample_provenance
     = Ok (imported_envelope zero_sha ''{}'' (sample_context T0) sample_provenance
             sample_secure_review)"
proof -
  have "se_review (imported_envelope zero_sha ''{}'' (sample_context T0) sample_provenance
      sample_secure_review) = sample_secure_review"
    by (simp add: imported_envelope_def)
  then show ?thesis
    using sample_context_ok [of T0] sample_secure_review_ok
    by (subst import_review_succeeds_iff [OF zero_sha_length])
       (simp_all add: import_args_ok_def, simp add: imported_envelope_def contextual_only_def)
qed

lemma no_nul_alnum: "list_all is_alnum s \<Longrightarrow> CHR 0x00 \<notin> set s"
  by (auto simp: list_all_iff byte_class_defs)

lemma no_nul_hex: "list_all is_lower_hex s \<Longrightarrow> CHR 0x00 \<notin> set s"
  by (auto simp: list_all_iff byte_class_defs)

lemma no_nul_run_id: "valid_identifier v ''sf_run_'' a b \<Longrightarrow> CHR 0x00 \<notin> set v"
proof -
  have "\<not> (is_alnum (CHR 0x00) \<or> CHR 0x00 = CHR ''_'' \<or> CHR 0x00 = CHR ''-'')"
    by (simp add: byte_class_defs)
  then show "valid_identifier v ''sf_run_'' a b \<Longrightarrow> CHR 0x00 \<notin> set v"
    by (auto simp: valid_identifier_iff list_all_iff)
qed

text \<open>
  The identifier of an import commits to what was imported: two successful imports with the
  same identifier are of the same payload, for the same run and target, from the same revision
  of the skill, as long as the digest does not collide on the hashed documents. The zero bytes
  that separate the hashed fields cannot occur in them.
\<close>

theorem import_id_commits:
  assumes "digest_length sha"
    and "import_review ts sha fj p ctx src = Ok e" and "import_review ts sha fj p' ctx' src' = Ok e'"
    and "se_import_id e = se_import_id e'"
    and "inj_on sha {import_key sha p ctx src, import_key sha p' ctx' src', p, p'}"
  shows "p' = p \<and> se_linked_run_id e' = se_linked_run_id e
       \<and> se_target_sha256 e' = se_target_sha256 e \<and> sp_revision (se_source e') = sp_revision (se_source e)
       \<and> se_review e' = se_review e"
proof -
  obtain r r' where r: "fj p = Some r" "fj p' = Some r'"
      and e: "e = imported_envelope sha p ctx src r" "e' = imported_envelope sha p' ctx' src' r'"
      and ok: "import_args_ok ts ctx src" "import_args_ok ts ctx' src'"
    using assms(2,3) by (auto simp: import_review_Inr [OF assms(1)] parse_review_iff)
  have "hex_table (sha (import_key sha p ctx src)) = hex_table (sha (import_key sha p' ctx' src'))"
    using assms(4) by (simp add: e imported_envelope_def sha256_hex_def)
  from inj_onD [OF assms(5) hext.enc_inj [OF this]]
  have key: "import_key sha p ctx src = import_key sha p' ctx' src'" by simp
  have hex: "CHR 0x00 \<notin> set (sha256_hex sha x)" for x
    using sha256_hex_id [OF assms(1)] by (simp add: adapter_lower_hex_of_length_def no_nul_hex)
  have ids: "CHR 0x00 \<notin> set (ic_linked_run_id c) \<and> CHR 0x00 \<notin> set (ic_target_sha256 c)"
    if "import_args_ok ts c s" for c s
    using that no_nul_run_id
    by (auto simp: import_args_ok_def sha256_wf_def is_lower_hex_of_length_def dest: no_nul_hex)
  have "ic_linked_run_id ctx = ic_linked_run_id ctx'" "ic_target_sha256 ctx = ic_target_sha256 ctx'"
      "sha256_hex sha p = sha256_hex sha p'" "sp_revision src = sp_revision src'"
    using key ids [OF ok(1)] ids [OF ok(2)] hex by (simp_all add: import_key_def join_left_inj)
  moreover have "p = p'"
  proof -
    have "sha p = sha p'"
      using calculation(3) unfolding sha256_hex_def by (rule hext.enc_inj)
    from inj_onD [OF assms(5) this] show ?thesis by simp
  qed
  ultimately show ?thesis using r by (simp add: e imported_envelope_def)
qed

theorem import_id_commits_witness:
  "\<exists>e e'. import_review sample_ts length_sha (\<lambda>_. Some sample_secure_review) ''{}''
           (sample_context T0) sample_provenance = Ok e
     \<and> import_review sample_ts length_sha (\<lambda>_. Some sample_secure_review) ''{}''
           (sample_context T1) sample_provenance = Ok e'
     \<and> se_imported_at e \<noteq> se_imported_at e' \<and> se_review e' = se_review e"
proof -
  let ?e = "\<lambda>t. imported_envelope length_sha ''{}'' (sample_context t) sample_provenance
      sample_secure_review"
  let ?k = "\<lambda>t. import_key length_sha ''{}'' (sample_context t) sample_provenance"
  have ok: "import_review sample_ts length_sha (\<lambda>_. Some sample_secure_review) ''{}''
      (sample_context t) sample_provenance = Ok (?e t)" if "sample_ts t \<noteq> None" for t
    using sample_context_ok [OF that] sample_secure_review_ok
    by (simp add: import_review_Inr parse_review_iff MAX_REVIEW_BYTES_def)
  have key: "?k T1 = ?k T0" by (simp add: import_key_def sample_context_def)
  have "length (sha256_hex length_sha ''{}'') = 64"
    using sha256_hex_id [OF length_sha_length] by (simp add: adapter_lower_hex_of_length_def)
  then have len: "length (?k T0) = 194"
    by (simp add: import_key_def sample_context_def sample_provenance_def zero_hash_def)
  have inj: "inj_on length_sha {?k T0, ?k T1, ''{}'', ''{}''}"
    using length_sha_inj [of "?k T0" "''{}''"] length_sha_inj [of "''{}''" "?k T0"] len
    by (auto simp: key inj_on_def)
  have t: "sample_ts T0 \<noteq> None" "sample_ts T1 \<noteq> None" by simp_all
  have "se_import_id (?e T0) = se_import_id (?e T1)" by (simp add: imported_envelope_def key)
  from import_id_commits [OF length_sha_length ok [OF t(1)] ok [OF t(2)] this inj]
  have "se_review (?e T1) = se_review (?e T0)" by blast
  moreover have "se_imported_at (?e T0) \<noteq> se_imported_at (?e T1)"
    by (simp add: imported_envelope_def sample_context_def T0_def T1_def)
  ultimately show ?thesis using ok [OF t(1)] ok [OF t(2)] by blast
qed

end
