(* ===== verification/SecurityCase.thy ===== *)
theory SecurityCase
  imports SecureReview
begin

text \<open>
  The security case of \<open>crates/secureflow-case/src/lib.rs\<close> (validation, human decisions, SARIF
  import and export) and the commands of \<open>crates/secureflow-cli/src/main.rs\<close> that change a case:
  \<open>case_from_run\<close>, the import of a Secure Skill review, \<open>case-decide\<close>, and the tool calls of the
  case server. The lemmas show that every command keeps a case valid and its decisions, and that
  only \<open>case-decide\<close> adds one.

  Parameters: the timestamp parser \<open>ts\<close>, the digest \<open>sha\<close>, the JSON reader \<open>from_json\<close>, the
  encoding \<open>ser\<close> of a review envelope, the clock \<open>now\<close>, and whether the staged output could be
  written (\<open>written\<close>).
\<close>

section \<open>Data\<close>

definition CASE_CONTRACT_VERSION :: string where
  "CASE_CONTRACT_VERSION = ''secureflow-security-case-v1''"

definition SARIF_VERSION :: string where
  "SARIF_VERSION = ''2.1.0''"

record case_revision =
  cr_kind :: string
  cr_value :: string

record case_authorization =
  cz_status :: string
  cz_basis :: string
  cz_reviewer :: string
  cz_reference :: "string option"
  cz_expires_at :: "string option"

record case_target =
  ct_label :: string
  ct_root_sha256 :: string
  ct_revision :: "case_revision option"
  ct_authorization :: case_authorization

datatype source_kind = SecureEngine | SecureSkillContextual | ExternalSarif | AgentSource

record case_source =
  so_source_id :: string
  so_kind :: source_kind
  so_name :: string
  so_version :: string
  so_artifact_sha256 :: string
  so_methodology :: "string option"

record case_evidence =
  ce_evidence_id :: string
  ce_source_id :: string
  ce_sha256 :: string
  ce_description :: string
  ce_relative_path :: "string option"

datatype candidate_class = EngineCandidate | ContextualCandidate | ExternalToolCandidate

record candidate =
  cd_candidate_id :: string
  cd_source_id :: string
  cd_class :: candidate_class
  cd_title :: string
  cd_severity :: "string option"
  cd_confidence :: string
  cd_evidence_ids :: "string list"
  cd_limitations :: "string list"

record staged_recommendation =
  st_stage_id :: string
  st_candidate_id :: string
  st_agent_name :: string
  st_recommendation :: string
  st_rationale :: string
  st_created_at :: string

datatype decision = Validated | Rejected | Abstained

record case_decision =
  dc_decision_id :: string
  dc_candidate_id :: string
  dc_decision :: decision
  dc_reviewer :: string
  dc_rationale :: string
  dc_decided_at :: string
  dc_evidence_reference :: "string option"

record security_case =
  cs_contract_version :: string
  cs_case_id :: string
  cs_created_at :: string
  cs_target :: case_target
  cs_sources :: "case_source list"
  cs_evidence :: "case_evidence list"
  cs_candidates :: "candidate list"
  cs_staged_recommendations :: "staged_recommendation list"
  cs_decisions :: "case_decision list"

datatype case_error =
  UnsupportedCase string
| CaseInvalidField string
| CaseDuplicate string
| MissingReference string
| CaseInvalidState string
| CaseJson

section \<open>Validation\<close>

definition case_sha :: "string \<Rightarrow> string \<Rightarrow> case_error + unit" where
  "case_sha value field =
     (if length value = 64 \<and> list_all is_lower_hex value then Ok ()
      else Err (CaseInvalidField field))"

definition case_id_char :: "char \<Rightarrow> bool" where
  "case_id_char c \<longleftrightarrow> is_lower c \<or> is_digit c \<or> c = CHR ''_''"

definition case_id :: "string \<Rightarrow> string \<Rightarrow> string \<Rightarrow> case_error + unit" where
  "case_id value pfx field =
     (if starts_with pfx value \<and> length pfx + 16 \<le> length value \<and> length value \<le> 100
         \<and> list_all case_id_char value
      then Ok () else Err (CaseInvalidField field))"

text \<open>The bound of a text is on its bytes.\<close>

definition case_text :: "string \<Rightarrow> string \<Rightarrow> nat \<Rightarrow> case_error + unit" where
  "case_text value field max_bytes =
     (if trim_is_empty value \<or> max_bytes < length value then Err (CaseInvalidField field)
      else Ok ())"

definition path_text :: "string \<Rightarrow> string \<Rightarrow> case_error + unit" where
  "path_text value field =
     (if value = [] \<or> starts_with ''/'' value
         \<or> (\<exists>part \<in> set (split_by (\<lambda>c. c = CHR ''/'') value). part = ''..'' \<or> part = [])
      then Err (CaseInvalidField field) else Ok ())"

definition case_timestamp :: "ts_parser \<Rightarrow> string \<Rightarrow> string \<Rightarrow> case_error + unit" where
  "case_timestamp ts value field = fail_if (ts value = None) (CaseInvalidField field)"

definition validate_case_target :: "ts_parser \<Rightarrow> case_target \<Rightarrow> case_error + unit" where
  "validate_case_target ts t = (let auth = ct_authorization t in checks [
     case_text (ct_label t) ''target.label'' 200,
     case_sha (ct_root_sha256 t) ''target.root_sha256'',
     fail_if (cz_status auth \<noteq> ''authorized'') (CaseInvalidState ''target authorization is required''),
     case_text (cz_basis auth) ''target.authorization.basis'' 100,
     case_text (cz_reviewer auth) ''target.authorization.reviewer'' 200,
     check_opt (\<lambda>v. case_text v ''target.authorization.reference'' 300) (cz_reference auth),
     check_opt (\<lambda>v. case_timestamp ts v ''target.authorization.expires_at'') (cz_expires_at auth),
     check_opt (\<lambda>r. checks [
         case_text (cr_kind r) ''target.revision.kind'' 40,
         case_text (cr_value r) ''target.revision.value'' 200]) (ct_revision t)])"

definition source_kinds :: "case_source list \<Rightarrow> string \<Rightarrow> source_kind option" where
  "source_kinds sources = map_of (map (\<lambda>s. (so_source_id s, so_kind s)) sources)"

definition validate_sources :: "case_source list \<Rightarrow> case_error + unit" where
  "validate_sources sources =
     each_unique (\<lambda>s. case_id (so_source_id s) ''sf_source_'' ''source.source_id'') so_source_id
       (CaseDuplicate ''source_id'')
       (\<lambda>s. checks [
         case_text (so_name s) ''source.name'' 200,
         case_text (so_version s) ''source.version'' 200,
         case_sha (so_artifact_sha256 s) ''source.artifact_sha256'',
         check_opt (\<lambda>m. case_text m ''source.methodology'' 2000) (so_methodology s)]) {} sources"

definition validate_case_evidence ::
    "(string \<Rightarrow> source_kind option) \<Rightarrow> case_evidence list \<Rightarrow> case_error + unit" where
  "validate_case_evidence kinds evidence =
     each_unique (\<lambda>e. case_id (ce_evidence_id e) ''sf_evidence_'' ''evidence.evidence_id'')
       ce_evidence_id (CaseDuplicate ''evidence_id'')
       (\<lambda>e. checks [
         fail_if (kinds (ce_source_id e) = None) (MissingReference ''evidence.source_id''),
         case_sha (ce_sha256 e) ''evidence.sha256'',
         case_text (ce_description e) ''evidence.description'' 4000,
         check_opt (\<lambda>p. path_text p ''evidence.relative_path'') (ce_relative_path e)]) {} evidence"

fun class_matches :: "source_kind \<Rightarrow> candidate_class \<Rightarrow> bool" where
  "class_matches SecureEngine EngineCandidate = True"
| "class_matches SecureSkillContextual ContextualCandidate = True"
| "class_matches ExternalSarif ExternalToolCandidate = True"
| "class_matches _ _ = False"

definition validate_candidates ::
    "(string \<Rightarrow> source_kind option) \<Rightarrow> string set \<Rightarrow> candidate list \<Rightarrow> case_error + unit" where
  "validate_candidates kinds evidence_ids candidates =
     each_unique (\<lambda>c. case_id (cd_candidate_id c) ''sf_candidate_'' ''candidate.candidate_id'')
       cd_candidate_id (CaseDuplicate ''candidate_id'')
       (\<lambda>c. and_then (ok_or (kinds (cd_source_id c)) (MissingReference ''candidate.source_id''))
         (\<lambda>kind. checks [
           fail_if (\<not> class_matches kind (cd_class c))
             (CaseInvalidState ''candidate class does not match source kind''),
           case_text (cd_title c) ''candidate.title'' 500,
           case_text (cd_confidence c) ''candidate.confidence'' 40,
           check_opt (\<lambda>s. case_text s ''candidate.severity'' 40) (cd_severity c),
           each (\<lambda>e. fail_if (e \<notin> evidence_ids) (MissingReference ''candidate.evidence_id''))
             (cd_evidence_ids c),
           each (\<lambda>l. case_text l ''candidate.limitation'' 4000) (cd_limitations c)])) {} candidates"

definition validate_stages ::
    "ts_parser \<Rightarrow> string set \<Rightarrow> staged_recommendation list \<Rightarrow> case_error + unit" where
  "validate_stages ts candidate_ids stages =
     each_unique (\<lambda>s. case_id (st_stage_id s) ''sf_stage_'' ''stage.stage_id'') st_stage_id
       (CaseDuplicate ''stage_id'')
       (\<lambda>s. checks [
         fail_if (st_candidate_id s \<notin> candidate_ids) (MissingReference ''stage.candidate_id''),
         case_text (st_agent_name s) ''stage.agent_name'' 200,
         case_text (st_recommendation s) ''stage.recommendation'' 40,
         case_text (st_rationale s) ''stage.rationale'' 3000,
         case_timestamp ts (st_created_at s) ''stage.created_at'']) {} stages"

text \<open>The loop over the decisions inserts into two sets, identifiers and decided candidates.\<close>

fun validate_decisions ::
    "ts_parser \<Rightarrow> string set \<Rightarrow> string set \<Rightarrow> string set \<Rightarrow> case_decision list \<Rightarrow> case_error + unit" where
  "validate_decisions ts candidate_ids ids decided [] = Ok ()"
| "validate_decisions ts candidate_ids ids decided (d # ds) =
     and_then (checks [
       case_id (dc_decision_id d) ''sf_decision_'' ''decision.decision_id'',
       fail_if (dc_decision_id d \<in> ids) (CaseDuplicate ''decision_id''),
       fail_if (dc_candidate_id d \<in> decided) (CaseDuplicate ''decision.candidate_id''),
       fail_if (dc_candidate_id d \<notin> candidate_ids) (MissingReference ''decision.candidate_id''),
       case_text (dc_reviewer d) ''decision.reviewer'' 200,
       case_text (dc_rationale d) ''decision.rationale'' 3000,
       case_timestamp ts (dc_decided_at d) ''decision.decided_at'',
       check_opt (\<lambda>r. case_text r ''decision.evidence_reference'' 300) (dc_evidence_reference d)])
     (\<lambda>_. validate_decisions ts candidate_ids (insert (dc_decision_id d) ids)
            (insert (dc_candidate_id d) decided) ds)"

definition validate_case :: "ts_parser \<Rightarrow> security_case \<Rightarrow> case_error + unit" where
  "validate_case ts c =
     (let kinds = source_kinds (cs_sources c);
          evidence_ids = ce_evidence_id ` set (cs_evidence c);
          candidate_ids = cd_candidate_id ` set (cs_candidates c)
      in checks [
        fail_if (cs_contract_version c \<noteq> CASE_CONTRACT_VERSION)
          (UnsupportedCase (cs_contract_version c)),
        case_id (cs_case_id c) ''sf_case_'' ''case_id'',
        case_timestamp ts (cs_created_at c) ''created_at'',
        validate_case_target ts (cs_target c),
        validate_sources (cs_sources c),
        validate_case_evidence kinds (cs_evidence c),
        validate_candidates kinds evidence_ids (cs_candidates c),
        validate_stages ts candidate_ids (cs_staged_recommendations c),
        validate_decisions ts candidate_ids {} {} (cs_decisions c)])"

section \<open>Operations of the crate\<close>

definition case_digest :: "digest_fun \<Rightarrow> string \<Rightarrow> string" where
  "case_digest sha bytes = concat (map hex_byte (sha bytes))"

definition derived_id :: "digest_fun \<Rightarrow> string \<Rightarrow> string \<Rightarrow> string" where
  "derived_id sha pfx bytes = pfx @ take 32 (case_digest sha bytes)"

definition case_id_for :: "digest_fun \<Rightarrow> string \<Rightarrow> string" where
  "case_id_for sha target_sha256 = ''sf_case_'' @ take 32 (case_digest sha target_sha256)"

definition parse_case ::
    "ts_parser \<Rightarrow> (string \<Rightarrow> security_case option) \<Rightarrow> string \<Rightarrow> case_error + security_case" where
  "parse_case ts from_json bytes =
     and_then (ok_or (from_json bytes) CaseJson) (\<lambda>c.
     and_then (validate_case ts c) (\<lambda>_. Ok c))"

text \<open>
  \<open>add_human_decision\<close> takes \<open>&mut self\<close>: it returns the case as it leaves it, also on an error.
\<close>

definition add_human_decision ::
    "ts_parser \<Rightarrow> digest_fun \<Rightarrow> string \<Rightarrow> decision \<Rightarrow> string \<Rightarrow> string \<Rightarrow> string option \<Rightarrow> string
     \<Rightarrow> security_case \<Rightarrow> security_case \<times> (case_error + unit)" where
  "add_human_decision ts sha candidate_id d reviewer rationale evidence_reference decided_at c =
     (if \<exists>entry \<in> set (cs_decisions c). dc_candidate_id entry = candidate_id
      then (c, Err (CaseInvalidState ''candidate already has a final human decision''))
      else
        let entry = \<lparr>dc_decision_id = derived_id sha ''sf_decision_''
                       (candidate_id @ CHR ''|'' # reviewer @ CHR ''|'' # decided_at),
                     dc_candidate_id = candidate_id, dc_decision = d, dc_reviewer = reviewer,
                     dc_rationale = rationale, dc_decided_at = decided_at,
                     dc_evidence_reference = evidence_reference\<rparr>;
            c' = c\<lparr>cs_decisions := cs_decisions c @ [entry]\<rparr>
        in (c', validate_case ts c'))"

definition sarif_results :: "json \<Rightarrow> json list" where
  "sarif_results document =
     concat (map (json_get_items ''results'') (json_get_items ''runs'' document))"

definition sarif_candidate :: "digest_fun \<Rightarrow> string \<Rightarrow> string \<Rightarrow> nat \<Rightarrow> json \<Rightarrow> candidate" where
  "sarif_candidate sha source_id evidence_id n result =
     (let title = (case Option.bind (json_get ''message'' result) (json_get_str ''text'') of
                     None \<Rightarrow> ''external SARIF result'' | Some t \<Rightarrow> t)
      in \<lparr>cd_candidate_id = derived_id sha ''sf_candidate_''
            (source_id @ CHR ''|'' # show_nat n @ CHR ''|'' # title),
          cd_source_id = source_id, cd_class = ExternalToolCandidate, cd_title = title,
          cd_severity = json_get_str ''level'' result, cd_confidence = ''unknown'',
          cd_evidence_ids = [evidence_id],
          cd_limitations =
            [''Imported tool result is unvalidated and does not establish a vulnerability.'']\<rparr>)"

definition sarif_source :: "digest_fun \<Rightarrow> string \<Rightarrow> string \<Rightarrow> string \<Rightarrow> case_source" where
  "sarif_source sha bytes source_name source_version =
     \<lparr>so_source_id = derived_id sha ''sf_source_'' bytes, so_kind = ExternalSarif,
      so_name = source_name, so_version = source_version,
      so_artifact_sha256 = case_digest sha bytes,
      so_methodology = Some ''SARIF 2.1.0 import; results remain external-tool candidates''\<rparr>"

definition sarif_evidence :: "digest_fun \<Rightarrow> string \<Rightarrow> case_evidence" where
  "sarif_evidence sha bytes =
     \<lparr>ce_evidence_id = derived_id sha ''sf_evidence_'' bytes,
      ce_source_id = derived_id sha ''sf_source_'' bytes, ce_sha256 = case_digest sha bytes,
      ce_description = ''retained imported SARIF document'', ce_relative_path = None\<rparr>"

definition sarif_candidates :: "digest_fun \<Rightarrow> string \<Rightarrow> json \<Rightarrow> candidate list" where
  "sarif_candidates sha bytes document =
     map (\<lambda>(n, result). sarif_candidate sha (derived_id sha ''sf_source_'' bytes)
           (derived_id sha ''sf_evidence_'' bytes) n result)
       (enumerate 0 (sarif_results document))"

text \<open>The case as \<open>import_sarif\<close> leaves it, with the number of results or the error.\<close>

definition import_sarif ::
    "ts_parser \<Rightarrow> digest_fun \<Rightarrow> (string \<Rightarrow> json option) \<Rightarrow> string \<Rightarrow> string \<Rightarrow> string
     \<Rightarrow> security_case \<Rightarrow> security_case \<times> (case_error + nat)" where
  "import_sarif ts sha from_json bytes source_name source_version c =
     (case from_json bytes of
        None \<Rightarrow> (c, Err CaseJson)
      | Some document \<Rightarrow>
          if json_get_str ''version'' document \<noteq> Some SARIF_VERSION
          then (c, Err (CaseInvalidField ''sarif.version''))
          else
            let c' = c\<lparr>
                  cs_sources := cs_sources c @ [sarif_source sha bytes source_name source_version],
                  cs_evidence := cs_evidence c @ [sarif_evidence sha bytes],
                  cs_candidates := cs_candidates c @ sarif_candidates sha bytes document\<rparr>
            in (c', and_then (validate_case ts c') (\<lambda>_. Ok (length (sarif_results document)))))"

fun class_debug :: "candidate_class \<Rightarrow> string" where
  "class_debug EngineCandidate = ''EngineCandidate''"
| "class_debug ContextualCandidate = ''ContextualCandidate''"
| "class_debug ExternalToolCandidate = ''ExternalToolCandidate''"

fun decision_debug :: "decision \<Rightarrow> string" where
  "decision_debug Validated = ''Validated''"
| "decision_debug Rejected = ''Rejected''"
| "decision_debug Abstained = ''Abstained''"

definition decision_label :: "security_case \<Rightarrow> string \<Rightarrow> string" where
  "decision_label c candidate_id =
     (case List.find (\<lambda>d. dc_candidate_id d = candidate_id) (cs_decisions c) of
        None \<Rightarrow> ''pending''
      | Some d \<Rightarrow> decision_debug (dc_decision d))"

definition exported_result :: "security_case \<Rightarrow> candidate \<Rightarrow> json" where
  "exported_result c d = JObject [
     (''ruleId'', JString (cd_source_id d)),
     (''level'', JString (case cd_severity d of None \<Rightarrow> ''note'' | Some s \<Rightarrow> s)),
     (''message'', JObject [(''text'', JString (cd_title d))]),
     (''properties'', JObject [
        (''secureflow_candidate_id'', JString (cd_candidate_id d)),
        (''candidate_class'', JString (class_debug (cd_class d))),
        (''human_decision'', JString (decision_label c (cd_candidate_id d))),
        (''not_a_vulnerability_verdict'', JBool True)])]"

definition export_sarif :: "ts_parser \<Rightarrow> security_case \<Rightarrow> case_error + json" where
  "export_sarif ts c = and_then (validate_case ts c) (\<lambda>_. Ok (JObject [
     (''version'', JString SARIF_VERSION),
     (''$schema'', JString ''https://json.schemastore.org/sarif-2.1.0.json''),
     (''runs'', JArray [JObject [
        (''tool'', JObject [(''driver'', JObject [
           (''name'', JString ''SecureFlow''),
           (''informationUri'', JString ''https://github.com/danielcadev/secureflow'')])]),
        (''results'', JArray (map (exported_result c) (cs_candidates c)))]])]))"

section \<open>Commands\<close>

datatype case_cli_error =
  CliFindingNotFound string
| CliReviewField review_error
| CliCase case_error
| CliArtifactLinkMismatch string
| CliTimestamp

text \<open>\<open>enum_text\<close>: the serialized name of a unit variant.\<close>

fun revision_kind_text :: "revision_kind \<Rightarrow> string" where
  "revision_kind_text RevGit = ''git''"
| "revision_kind_text RevSnapshot = ''snapshot''"
| "revision_kind_text RevWorkingTree = ''working-tree''"
| "revision_kind_text RevUnknown = ''unknown''"

fun basis_text :: "authorization_basis \<Rightarrow> string" where
  "basis_text RepositoryOwner = ''repository-owner''"
| "basis_text WrittenConsent = ''written-consent''"
| "basis_text OrganizationPolicy = ''organization-policy''"
| "basis_text LocalProject = ''local-project''"
| "basis_text OtherDocumented = ''other-documented''"

fun severity_text :: "severity \<Rightarrow> string" where
  "severity_text SevCritical = ''critical''"
| "severity_text SevHigh = ''high''"
| "severity_text SevMedium = ''medium''"
| "severity_text SevLow = ''low''"
| "severity_text SevUnknown = ''unknown''"

fun confidence_text :: "confidence \<Rightarrow> string" where
  "confidence_text ConfHigh = ''high''"
| "confidence_text ConfMedium = ''medium''"
| "confidence_text ConfLow = ''low''"
| "confidence_text ConfUnknown = ''unknown''"

fun review_severity_label :: "review_severity \<Rightarrow> string" where
  "review_severity_label RsCritical = ''critical''"
| "review_severity_label RsHigh = ''high''"
| "review_severity_label RsMedium = ''medium''"
| "review_severity_label RsLow = ''low''"

fun review_confidence_label :: "review_confidence \<Rightarrow> string" where
  "review_confidence_label RcHigh = ''high''"
| "review_confidence_label RcMedium = ''medium''"
| "review_confidence_label RcLow = ''low''"

definition case_target_of :: "target \<Rightarrow> case_target" where
  "case_target_of t = \<lparr>ct_label = tg_label t, ct_root_sha256 = tg_root_sha256 t,
     ct_revision = map_option (\<lambda>r. \<lparr>cr_kind = revision_kind_text (rev_kind r), cr_value = rev_value r\<rparr>)
       (tg_revision t),
     ct_authorization = \<lparr>cz_status = ''authorized'', cz_basis = basis_text (au_basis (tg_authorization t)),
       cz_reviewer = au_reviewer (tg_authorization t),
       cz_reference = au_reference (tg_authorization t),
       cz_expires_at = au_expires_at (tg_authorization t)\<rparr>\<rparr>"

definition run_candidate :: "digest_fun \<Rightarrow> string \<Rightarrow> string \<Rightarrow> finding \<Rightarrow> candidate" where
  "run_candidate sha source_id evidence_id f =
     \<lparr>cd_candidate_id = derived_id sha ''sf_candidate_'' (source_id @ CHR ''|'' # fd_finding_id f),
      cd_source_id = source_id, cd_class = EngineCandidate, cd_title = fd_title f,
      cd_severity = map_option severity_text (fd_severity f),
      cd_confidence = confidence_text (fd_confidence f), cd_evidence_ids = [evidence_id],
      cd_limitations = fd_limitations f\<rparr>"

definition case_from_run ::
    "ts_parser \<Rightarrow> digest_fun \<Rightarrow> run_manifest \<Rightarrow> string \<Rightarrow> case_cli_error + security_case" where
  "case_from_run ts sha run run_bytes =
     (let source_id = derived_id sha ''sf_source_'' (en_report_sha256 (rm_engine run));
          evidence_id = derived_id sha ''sf_evidence_'' run_bytes;
          c = \<lparr>cs_contract_version = CASE_CONTRACT_VERSION,
               cs_case_id = case_id_for sha (tg_root_sha256 (rm_target run)),
               cs_created_at = rm_created_at run, cs_target = case_target_of (rm_target run),
               cs_sources = [\<lparr>so_source_id = source_id, so_kind = SecureEngine,
                 so_name = en_name (rm_engine run), so_version = en_version (rm_engine run),
                 so_artifact_sha256 = en_report_sha256 (rm_engine run),
                 so_methodology = Some ''existing validated secureflow run manifest''\<rparr>],
               cs_evidence = [\<lparr>ce_evidence_id = evidence_id, ce_source_id = source_id,
                 ce_sha256 = case_digest sha run_bytes,
                 ce_description = ''validated retained SecureFlow run manifest'',
                 ce_relative_path = None\<rparr>],
               cs_candidates = map (run_candidate sha source_id evidence_id) (rm_findings run),
               cs_staged_recommendations = [], cs_decisions = []\<rparr>
      in and_then (map_err CliCase (validate_case ts c)) (\<lambda>_. Ok c))"

definition contextual_candidate ::
    "digest_fun \<Rightarrow> string \<Rightarrow> string \<Rightarrow> review_finding \<Rightarrow> candidate" where
  "contextual_candidate sha source_id evidence_id f =
     \<lparr>cd_candidate_id = derived_id sha ''sf_candidate_'' (source_id @ CHR ''|'' # rf_id f),
      cd_source_id = source_id, cd_class = ContextualCandidate, cd_title = rf_title f,
      cd_severity = Some (review_severity_label (rf_severity f)),
      cd_confidence = review_confidence_label (rf_confidence f), cd_evidence_ids = [evidence_id],
      cd_limitations = [''Contextual Secure Skill signal; it is not a Secure Engine rule or a '' @
        ''validated finding.'']\<rparr>"

definition import_secure_review_into_case ::
    "ts_parser \<Rightarrow> digest_fun \<Rightarrow> (secure_review_envelope \<Rightarrow> string) \<Rightarrow> secure_review_envelope
     \<Rightarrow> security_case \<Rightarrow> security_case \<times> (case_cli_error + unit)" where
  "import_secure_review_into_case ts sha ser envelope c =
     (if se_target_sha256 envelope \<noteq> ct_root_sha256 (cs_target c)
      then (c, Err (CliArtifactLinkMismatch ''Secure Skill review target''))
      else
        let bytes = ser envelope;
            source_id = derived_id sha ''sf_source_'' (se_import_id envelope);
            evidence_id = derived_id sha ''sf_evidence_'' bytes;
            source = \<lparr>so_source_id = source_id, so_kind = SecureSkillContextual,
              so_name = sp_name (se_source envelope), so_version = sp_version (se_source envelope),
              so_artifact_sha256 = se_payload_sha256 envelope,
              so_methodology = Some (''Secure Skill review contract '' @
                sp_review_contract_schema (se_source envelope) @ ''; contextual only'')\<rparr>;
            evidence = \<lparr>ce_evidence_id = evidence_id, ce_source_id = source_id,
              ce_sha256 = case_digest sha bytes,
              ce_description = ''validated Secure Skill contextual-review envelope'',
              ce_relative_path = None\<rparr>;
            c' = c\<lparr>cs_sources := cs_sources c @ [source],
                   cs_evidence := cs_evidence c @ [evidence],
                   cs_candidates := cs_candidates c @
                     map (contextual_candidate sha source_id evidence_id)
                       (sr_findings (se_review envelope))\<rparr>
        in (c', map_err CliCase (validate_case ts c')))"

record decide_args =
  da_candidate_id :: string
  da_decision :: review_decision
  da_reviewer :: string
  da_rationale :: string
  da_evidence_reference :: "string option"

fun to_case_decision :: "review_decision \<Rightarrow> decision" where
  "to_case_decision ReviewValidated = Validated"
| "to_case_decision ReviewRejected = Rejected"
| "to_case_decision ReviewAbstained = Abstained"

text \<open>
  The commands read a case, apply one operation and write the result, or stop at an error and
  write nothing; reading is \<open>parse_case\<close>, so they start from a valid case.
\<close>

definition case_decide ::
    "ts_parser \<Rightarrow> digest_fun \<Rightarrow> string option \<Rightarrow> decide_args \<Rightarrow> security_case
     \<Rightarrow> case_cli_error + security_case" where
  "case_decide ts sha now a c =
     (if \<not> (\<exists>d \<in> set (cs_candidates c). cd_candidate_id d = da_candidate_id a)
      then Err (CliFindingNotFound (da_candidate_id a))
      else
        and_then (map_err CliReviewField (checked_review_field (trim (da_reviewer a)) ''reviewer'' 200))
          (\<lambda>reviewer.
        and_then (map_err CliReviewField (checked_review_field (trim (da_rationale a)) ''rationale'' 3000))
          (\<lambda>rationale.
        and_then (map_err CliReviewField
            (checked_optional_field (da_evidence_reference a) ''evidence_reference'' 300))
          (\<lambda>evidence_reference.
        and_then (ok_or now CliTimestamp) (\<lambda>decided_at.
        let (c', result) = add_human_decision ts sha (da_candidate_id a)
              (to_case_decision (da_decision a)) reviewer rationale evidence_reference decided_at c
        in and_then (map_err CliCase result) (\<lambda>_. Ok c'))))))"

definition case_import_sarif ::
    "ts_parser \<Rightarrow> digest_fun \<Rightarrow> (string \<Rightarrow> json option) \<Rightarrow> string \<Rightarrow> string \<Rightarrow> string
     \<Rightarrow> security_case \<Rightarrow> case_cli_error + security_case" where
  "case_import_sarif ts sha from_json bytes source_name source_version c =
     and_then (map_err CliReviewField (checked_review_field (trim source_name) ''source_name'' 200))
       (\<lambda>name.
     and_then (map_err CliReviewField
         (checked_review_field (trim source_version) ''source_version'' 200)) (\<lambda>version.
     let (c', result) = import_sarif ts sha from_json bytes name version c
     in and_then (map_err CliCase result) (\<lambda>_. Ok c')))"

definition case_import_secure_review ::
    "ts_parser \<Rightarrow> digest_fun \<Rightarrow> (secure_review_envelope \<Rightarrow> string) \<Rightarrow> secure_review_envelope
     \<Rightarrow> security_case \<Rightarrow> case_cli_error + security_case" where
  "case_import_secure_review ts sha ser envelope c =
     (let (c', result) = import_secure_review_into_case ts sha ser envelope c
      in and_then result (\<lambda>_. Ok c'))"

section \<open>The tools of the case server\<close>

datatype mcp_error =
  McpMessage string
| McpCase case_error
| McpWrite

datatype mcp_reply =
  ReadCase security_case
| Investigated candidate
| StagedReply string

definition nonblank_arg :: "string \<Rightarrow> json \<Rightarrow> string option" where
  "nonblank_arg key arguments =
     (case json_get_str key arguments of
        None \<Rightarrow> None
      | Some v \<Rightarrow> if trim_is_empty v then None else Some v)"

definition stage_case_recommendation ::
    "ts_parser \<Rightarrow> digest_fun \<Rightarrow> string option \<Rightarrow> bool \<Rightarrow> json \<Rightarrow> security_case
     \<Rightarrow> security_case \<times> (mcp_error + mcp_reply)" where
  "stage_case_recommendation ts sha now written arguments c =
     (case (
       and_then (ok_or (json_get_str ''candidate_id'' arguments) (McpMessage ''missing candidate_id''))
         (\<lambda>candidate_id.
       and_then (fail_if (\<not> (\<exists>d \<in> set (cs_candidates c). cd_candidate_id d = candidate_id))
         (McpMessage ''candidate not found'')) (\<lambda>_.
       and_then (ok_or (nonblank_arg ''agent_name'' arguments) (McpMessage ''missing agent_name''))
         (\<lambda>agent_name.
       and_then (ok_or
           (case json_get_str ''recommendation'' arguments of
              None \<Rightarrow> None
            | Some v \<Rightarrow> if v \<in> {''validated'', ''rejected'', ''abstained''} then Some v else None)
           (McpMessage ''recommendation must be validated, rejected, or abstained''))
         (\<lambda>recommendation.
       and_then (ok_or (nonblank_arg ''rationale'' arguments) (McpMessage ''missing rationale''))
         (\<lambda>rationale.
       and_then (ok_or now (McpMessage ''timestamp failed'')) (\<lambda>created_at.
       let stage_id = derived_id sha ''sf_stage_''
             (candidate_id @ CHR ''|'' # agent_name @ CHR ''|'' # created_at);
           staged = \<lparr>st_stage_id = stage_id, st_candidate_id = candidate_id,
             st_agent_name = agent_name, st_recommendation = recommendation,
             st_rationale = rationale, st_created_at = created_at\<rparr>;
           staged_case = c\<lparr>cs_staged_recommendations := cs_staged_recommendations c @ [staged]\<rparr>
       in and_then (map_err McpCase (validate_case ts staged_case)) (\<lambda>_.
          and_then (fail_if (\<not> written) McpWrite) (\<lambda>_. Ok (staged_case, stage_id)))))))))) of
       Inl e \<Rightarrow> (c, Inl e)
     | Inr (staged_case, stage_id) \<Rightarrow> (staged_case, Inr (StagedReply stage_id)))"

definition mcp_tool_call ::
    "ts_parser \<Rightarrow> digest_fun \<Rightarrow> string option \<Rightarrow> bool \<Rightarrow> json \<Rightarrow> security_case
     \<Rightarrow> security_case \<times> (mcp_error + mcp_reply)" where
  "mcp_tool_call ts sha now written params c =
     (let arguments = (case json_get ''arguments'' params of None \<Rightarrow> JObject [] | Some a \<Rightarrow> a)
      in case json_get_str ''name'' params of
           None \<Rightarrow> (c, Inl (McpMessage ''missing tool name''))
         | Some name \<Rightarrow>
             if name = ''read_case'' then (c, Inr (ReadCase c))
             else if name = ''investigate_candidate'' then
               (c, and_then (ok_or (json_get_str ''candidate_id'' arguments)
                       (McpMessage ''missing candidate_id'')) (\<lambda>candidate_id.
                   and_then (ok_or (List.find (\<lambda>d. cd_candidate_id d = candidate_id) (cs_candidates c))
                       (McpMessage ''candidate not found'')) (\<lambda>d. Ok (Investigated d))))
             else if name = ''stage_recommendation''
             then stage_case_recommendation ts sha now written arguments c
             else (c, Inl (McpMessage ''unknown tool'')))"


section \<open>The decisions of a case\<close>

definition case_decisions :: "security_case \<Rightarrow> string \<Rightarrow> case_decision option" where
  "case_decisions c = entries dc_candidate_id Some (cs_decisions c)"

definition decision_wf :: "ts_parser \<Rightarrow> string set \<Rightarrow> case_decision \<Rightarrow> bool" where
  "decision_wf ts candidate_ids d \<longleftrightarrow>
     case_id (dc_decision_id d) ''sf_decision_'' ''decision.decision_id'' = Ok ()
   \<and> dc_candidate_id d \<in> candidate_ids
   \<and> case_text (dc_reviewer d) ''decision.reviewer'' 200 = Ok ()
   \<and> case_text (dc_rationale d) ''decision.rationale'' 3000 = Ok ()
   \<and> ts (dc_decided_at d) \<noteq> None
   \<and> (\<forall>r. dc_evidence_reference d = Some r \<longrightarrow>
        case_text r ''decision.evidence_reference'' 300 = Ok ())"

lemma case_timestamp_iff [ok_iff]: "case_timestamp ts v f = Inr u \<longleftrightarrow> ts v \<noteq> None"
  by (simp add: case_timestamp_def fail_if_Inr_iff)

lemma case_text_iff [ok_iff]: "case_text v f n = Inr u \<longleftrightarrow> \<not> trim_is_empty v \<and> length v \<le> n"
  by (simp add: case_text_def not_less)

lemma validate_decisions_iff [ok_iff]:
  "validate_decisions ts cands ids decided ds = Inr u \<longleftrightarrow>
     (\<forall>d \<in> set ds. decision_wf ts cands d \<and> dc_decision_id d \<notin> ids \<and> dc_candidate_id d \<notin> decided)
   \<and> distinct (map dc_decision_id ds) \<and> distinct (map dc_candidate_id ds)"
proof (induction ds arbitrary: ids decided)
  case Nil
  then show ?case by simp
next
  case (Cons d ds)
  have "validate_decisions ts cands ids decided (d # ds) = Inr u \<longleftrightarrow>
      decision_wf ts cands d \<and> dc_decision_id d \<notin> ids \<and> dc_candidate_id d \<notin> decided
    \<and> validate_decisions ts cands (insert (dc_decision_id d) ids) (insert (dc_candidate_id d) decided)
        ds = Inr u"
    by (auto simp: ok_iff decision_wf_def)
  with Cons.IH show ?case by (auto intro: rev_image_eqI)
qed

text \<open>The part of the validation that new decisions, recommendations or candidates do not touch.\<close>

definition case_frame_wf :: "ts_parser \<Rightarrow> security_case \<Rightarrow> bool" where
  "case_frame_wf ts c \<longleftrightarrow>
     cs_contract_version c = CASE_CONTRACT_VERSION
   \<and> case_id (cs_case_id c) ''sf_case_'' ''case_id'' = Ok () \<and> ts (cs_created_at c) \<noteq> None
   \<and> validate_case_target ts (cs_target c) = Ok () \<and> validate_sources (cs_sources c) = Ok ()
   \<and> validate_case_evidence (source_kinds (cs_sources c)) (cs_evidence c) = Ok ()
   \<and> validate_candidates (source_kinds (cs_sources c)) (ce_evidence_id ` set (cs_evidence c))
       (cs_candidates c) = Ok ()"

definition candidate_ids :: "security_case \<Rightarrow> string set" where
  "candidate_ids c = cd_candidate_id ` set (cs_candidates c)"

definition case_decisions_wf :: "ts_parser \<Rightarrow> security_case \<Rightarrow> bool" where
  "case_decisions_wf ts c \<longleftrightarrow>
     (\<forall>d \<in> set (cs_decisions c). decision_wf ts (candidate_ids c) d)
   \<and> distinct (map dc_decision_id (cs_decisions c)) \<and> distinct (map dc_candidate_id (cs_decisions c))"

lemma validate_case_iff:
  "validate_case ts c = Inr u \<longleftrightarrow>
     case_frame_wf ts c
   \<and> validate_stages ts (candidate_ids c) (cs_staged_recommendations c) = Ok ()
   \<and> case_decisions_wf ts c"
  by (auto simp: validate_case_def Let_def case_frame_wf_def case_decisions_wf_def candidate_ids_def
      ok_iff)

lemma case_frame_wf_update [simp]:
  "case_frame_wf ts (c\<lparr>cs_decisions := ds\<rparr>) = case_frame_wf ts c"
  "case_frame_wf ts (c\<lparr>cs_staged_recommendations := ss\<rparr>) = case_frame_wf ts c"
  "candidate_ids (c\<lparr>cs_decisions := ds\<rparr>) = candidate_ids c"
  "candidate_ids (c\<lparr>cs_staged_recommendations := ss\<rparr>) = candidate_ids c"
  by (simp_all add: case_frame_wf_def candidate_ids_def)

lemma entries_None: "entries dc_candidate_id Some ds k = None \<longleftrightarrow> k \<notin> dc_candidate_id ` set ds"
  by (induction ds) auto

lemma case_decisions_dom: "case_decisions c k \<noteq> None \<longleftrightarrow> k \<in> dc_candidate_id ` set (cs_decisions c)"
  by (simp add: case_decisions_def entries_None)

lemma case_decisions_push:
  "k \<notin> dc_candidate_id ` set (cs_decisions c) \<Longrightarrow> dc_candidate_id d = k \<Longrightarrow>
     case_decisions (c\<lparr>cs_decisions := cs_decisions c @ [d]\<rparr>) = (case_decisions c)(k \<mapsto> d)"
  by (auto simp: case_decisions_def entries_append entries_None [THEN iffD2] fun_eq_iff)

section \<open>The case as a machine\<close>

datatype case_op =
  OpDecide "string option" decide_args
| OpImportSarif string string string
| OpImportReview secure_review_envelope
| OpTool "string option" bool json

datatype case_op_error =
  CommandFailed case_cli_error
| ToolFailed mcp_error

definition case_step ::
    "ts_parser \<Rightarrow> digest_fun \<Rightarrow> (string \<Rightarrow> json option) \<Rightarrow> (secure_review_envelope \<Rightarrow> string)
     \<Rightarrow> case_op \<Rightarrow> security_case \<Rightarrow> case_op_error + security_case" where
  "case_step ts sha from_json ser op c =
     (case op of
        OpDecide now a \<Rightarrow> map_err CommandFailed (case_decide ts sha now a c)
      | OpImportSarif bytes name version \<Rightarrow>
          map_err CommandFailed (case_import_sarif ts sha from_json bytes name version c)
      | OpImportReview envelope \<Rightarrow>
          map_err CommandFailed (case_import_secure_review ts sha ser envelope c)
      | OpTool now written params \<Rightarrow>
          (let (c', result) = mcp_tool_call ts sha now written params c
           in and_then (map_err ToolFailed result) (\<lambda>_. Ok c')))"

text \<open>The decision that \<open>case-decide\<close> records.\<close>

definition decision_of_args ::
    "digest_fun \<Rightarrow> string \<Rightarrow> decide_args \<Rightarrow> case_decision" where
  "decision_of_args sha now a =
     \<lparr>dc_decision_id = derived_id sha ''sf_decision_''
        (da_candidate_id a @ CHR ''|'' # trim (da_reviewer a) @ CHR ''|'' # now),
      dc_candidate_id = da_candidate_id a, dc_decision = to_case_decision (da_decision a),
      dc_reviewer = trim (da_reviewer a), dc_rationale = trim (da_rationale a),
      dc_decided_at = now, dc_evidence_reference = optional_field (da_evidence_reference a)\<rparr>"

definition decide_args_ok :: "decide_args \<Rightarrow> bool" where
  "decide_args_ok a \<longleftrightarrow>
     trim (da_reviewer a) \<noteq> [] \<and> chars_count (trim (da_reviewer a)) \<le> 200
   \<and> trim (da_rationale a) \<noteq> [] \<and> chars_count (trim (da_rationale a)) \<le> 3000
   \<and> optional_field_ok (da_evidence_reference a) 300"

lemma ex_key: "(\<exists>x \<in> A. f x = k) \<longleftrightarrow> k \<in> f ` A"
  by auto

lemma case_decide_Inr:
  "case_decide ts sha now a c = Inr c' \<longleftrightarrow>
     da_candidate_id a \<in> candidate_ids c \<and> decide_args_ok a
   \<and> da_candidate_id a \<notin> dc_candidate_id ` set (cs_decisions c)
   \<and> (\<exists>t. now = Some t
        \<and> c' = c\<lparr>cs_decisions := cs_decisions c @ [decision_of_args sha t a]\<rparr>
        \<and> validate_case ts c' = Ok ())"
  unfolding case_decide_def add_human_decision_def candidate_ids_def ex_key
  by (auto simp: and_then_Inr_iff map_err_Inr_iff ok_or_Inr_iff checked_review_field_iff checked_optional_field_iff
      decide_args_ok_def decision_of_args_def Let_def split: if_splits)

lemma case_import_sarif_Inr:
  "case_import_sarif ts sha from_json bytes name version c = Inr c' \<Longrightarrow>
     validate_case ts c' = Ok () \<and> cs_decisions c' = cs_decisions c"
  by (auto simp: case_import_sarif_def import_sarif_def and_then_Inr_iff map_err_Inr_iff Let_def
      split: option.splits if_splits prod.splits)

lemma case_import_secure_review_Inr:
  "case_import_secure_review ts sha ser envelope c = Inr c' \<Longrightarrow>
     validate_case ts c' = Ok () \<and> cs_decisions c' = cs_decisions c"
  by (auto simp: case_import_secure_review_def import_secure_review_into_case_def and_then_Inr_iff
      map_err_Inr_iff Let_def split: if_splits prod.splits)

lemma stage_case_recommendation_effect:
  assumes "stage_case_recommendation ts sha now written arguments c = (c', r)"
  shows "(case r of
            Inl _ \<Rightarrow> c' = c
          | Inr _ \<Rightarrow> validate_case ts c' = Ok () \<and> written
              \<and> (\<exists>s. c' = c\<lparr>cs_staged_recommendations := cs_staged_recommendations c @ [s]\<rparr>))"
  using assms
  by (auto simp: stage_case_recommendation_def and_then_Inr_iff map_err_Inr_iff ok_or_Inr_iff
      fail_if_Inr_iff Let_def split: sum.splits prod.splits)

lemma mcp_tool_call_effect:
  assumes "mcp_tool_call ts sha now written params c = (c', r)"
  shows "c' = c \<or> (validate_case ts c' = Ok () \<and> is_ok r \<and> written
           \<and> (\<exists>s. c' = c\<lparr>cs_staged_recommendations := cs_staged_recommendations c @ [s]\<rparr>))"
proof -
  have "c' = c \<or> (\<exists>arguments. stage_case_recommendation ts sha now written arguments c = (c', r))"
    using assms by (auto simp: mcp_tool_call_def Let_def split: option.splits if_splits)
  then show ?thesis
    using stage_case_recommendation_effect [of ts sha now written _ c c' r]
    by (cases r) (auto simp: is_ok_def)
qed

text \<open>Only \<open>case-decide\<close> makes decisions, about the candidate it names.\<close>

definition made_by :: "digest_fun \<Rightarrow> case_op \<Rightarrow> string \<Rightarrow> case_decision \<Rightarrow> bool" where
  "made_by sha op k d \<longleftrightarrow>
     (\<exists>t a. op = OpDecide (Some t) a \<and> da_candidate_id a = k \<and> decide_args_ok a
        \<and> d = decision_of_args sha t a)"

lemma case_step_effect:
  assumes "case_step ts sha from_json ser op c = Inr t" and "validate_case ts c = Ok ()"
  shows "validate_case ts t = Ok () \<and>
     (case_decisions t = case_decisions c
      \<or> (\<exists>k d. made_by sha op k d \<and> case_decisions c k = None
           \<and> case_decisions t = (case_decisions c)(k \<mapsto> d)))"
proof (cases op)
  case (OpDecide now a)
  with assms(1) have "case_decide ts sha now a c = Inr t"
    by (simp add: case_step_def map_err_Inr_iff)
  then obtain now' where fresh: "da_candidate_id a \<notin> dc_candidate_id ` set (cs_decisions c)"
      and t: "t = c\<lparr>cs_decisions := cs_decisions c @ [decision_of_args sha now' a]\<rparr>"
      and now: "now = Some now'" and args: "decide_args_ok a" and valid: "validate_case ts t = Ok ()"
    by (auto simp: case_decide_Inr)
  have "case_decisions t = (case_decisions c)(da_candidate_id a \<mapsto> decision_of_args sha now' a)"
    unfolding t by (rule case_decisions_push [OF fresh]) (simp add: decision_of_args_def)
  moreover have "case_decisions c (da_candidate_id a) = None"
    using fresh case_decisions_dom [of c "da_candidate_id a"] by blast
  ultimately show ?thesis using valid OpDecide now args by (auto simp: made_by_def)
qed (use assms in \<open>auto simp: case_step_def map_err_Inr_iff and_then_Inr_iff Let_def
    case_decisions_def split: prod.splits dest: case_import_sarif_Inr case_import_secure_review_Inr
    mcp_tool_call_effect\<close>)

interpretation case_machine: human_authority "case_step ts sha from_json ser"
  "\<lambda>c. validate_case ts c = Ok ()" case_decisions "made_by sha" for ts sha from_json ser
proof
  fix c op t
  assume inv: "validate_case ts c = Ok ()" and step: "case_step ts sha from_json ser op c = Inr t"
  note effect = case_step_effect [OF step inv]
  show "validate_case ts t = Ok ()" using effect by blast
  show "case_decisions c \<subseteq>\<^sub>m case_decisions t"
    using effect by (auto simp: map_le_def)
  show "case_decisions c k = Some d \<or> made_by sha op k d" if "case_decisions t k = Some d" for k d
    using effect that by (auto split: if_splits)
qed

section \<open>Derived identifiers\<close>

lemma case_digest_encode: "case_digest sha bytes = encode_hex (sha bytes)"
  by (simp add: case_digest_def encode_hex_def)

lemma encode_hex_take: "take (2 * n) (encode_hex bs) = encode_hex (take n bs)"
proof (induction bs arbitrary: n)
  case Nil
  then show ?case by (simp add: encode_hex_def)
next
  case (Cons b bs)
  then show ?case by (cases n) (simp_all add: encode_hex_Cons hex_byte_def, simp add: encode_hex_def)
qed

text \<open>An identifier keeps the first half of a digest.\<close>

lemma derived_id_half: "derived_id sha pfx x = pfx @ encode_hex (take 16 (sha x))"
  using encode_hex_take [of 16 "sha x"] by (simp add: derived_id_def case_digest_encode)

lemma derived_id_inj:
  "inj_on (\<lambda>x. take 16 (sha x)) A \<Longrightarrow> inj_on (derived_id sha pfx) A"
  by (auto simp: inj_on_def derived_id_half dest: hex.enc_inj)

lemma is_lower_hex_id_char: "is_lower_hex c \<Longrightarrow> case_id_char c"
  by (auto simp: case_id_char_def byte_class_defs)

lemma derived_id_valid:
  assumes "digest_length sha" and "list_all case_id_char pfx" and "length pfx \<le> 68"
  shows "case_id (derived_id sha pfx x) pfx field = Ok ()"
proof -
  have "length (encode_hex (take 16 (sha x))) = 32"
    using assms(1) by (simp add: hex.enc_len digest_length_def)
  moreover have "list_all case_id_char (encode_hex (take 16 (sha x)))"
    using hex.enc_hex by (auto simp: list_all_iff dest: is_lower_hex_id_char)
  ultimately show ?thesis
    using assms(2,3) by (simp add: case_id_def derived_id_half)
qed

lemma derived_ids_valid:
  assumes "digest_length sha"
  shows "case_id (derived_id sha ''sf_case_'' x) ''sf_case_'' f = Ok ()"
    and "case_id (derived_id sha ''sf_source_'' x) ''sf_source_'' f = Ok ()"
    and "case_id (derived_id sha ''sf_evidence_'' x) ''sf_evidence_'' f = Ok ()"
    and "case_id (derived_id sha ''sf_candidate_'' x) ''sf_candidate_'' f = Ok ()"
    and "case_id (derived_id sha ''sf_stage_'' x) ''sf_stage_'' f = Ok ()"
    and "case_id (derived_id sha ''sf_decision_'' x) ''sf_decision_'' f = Ok ()"
  by (rule derived_id_valid [OF assms]; simp add: case_id_char_def byte_class_defs)+

lemma case_id_for_derived: "case_id_for sha x = derived_id sha ''sf_case_'' x"
  by (simp add: case_id_for_def derived_id_def)

lemma case_digest_valid: "digest_length sha \<Longrightarrow> case_sha (case_digest sha x) f = Ok ()"
  using hex.digest_id by (simp add: case_sha_def case_digest_encode)

lemma case_sha_iff [ok_iff]: "case_sha v f = Inr u \<longleftrightarrow> sha256_wf v"
  by (simp add: case_sha_def sha256_wf_def is_lower_hex_of_length_def)

section \<open>Cases from runs\<close>

definition run_case_fits :: "run_manifest \<Rightarrow> bool" where
  "run_case_fits m \<longleftrightarrow>
     length (tg_label (rm_target m)) \<le> 200
   \<and> length (au_reviewer (tg_authorization (rm_target m))) \<le> 200
   \<and> (\<forall>r. au_reference (tg_authorization (rm_target m)) = Some r \<longrightarrow> length r \<le> 300)
   \<and> (\<forall>r. tg_revision (rm_target m) = Some r \<longrightarrow> length (rev_value r) \<le> 200)
   \<and> length (en_name (rm_engine m)) \<le> 200 \<and> length (en_version (rm_engine m)) \<le> 200
   \<and> (\<forall>f \<in> set (rm_findings m). length (fd_title f) \<le> 500
        \<and> (\<forall>l \<in> set (fd_limitations f). length l \<le> 4000))"

definition run_case :: "digest_fun \<Rightarrow> run_manifest \<Rightarrow> string \<Rightarrow> security_case" where
  "run_case sha run run_bytes =
     (let source_id = derived_id sha ''sf_source_'' (en_report_sha256 (rm_engine run));
          evidence_id = derived_id sha ''sf_evidence_'' run_bytes
      in \<lparr>cs_contract_version = CASE_CONTRACT_VERSION,
          cs_case_id = case_id_for sha (tg_root_sha256 (rm_target run)),
          cs_created_at = rm_created_at run, cs_target = case_target_of (rm_target run),
          cs_sources = [\<lparr>so_source_id = source_id, so_kind = SecureEngine,
            so_name = en_name (rm_engine run), so_version = en_version (rm_engine run),
            so_artifact_sha256 = en_report_sha256 (rm_engine run),
            so_methodology = Some ''existing validated secureflow run manifest''\<rparr>],
          cs_evidence = [\<lparr>ce_evidence_id = evidence_id, ce_source_id = source_id,
            ce_sha256 = case_digest sha run_bytes,
            ce_description = ''validated retained SecureFlow run manifest'',
            ce_relative_path = None\<rparr>],
          cs_candidates = map (run_candidate sha source_id evidence_id) (rm_findings run),
          cs_staged_recommendations = [], cs_decisions = []\<rparr>)"

lemma case_from_run_unfold:
  "case_from_run ts sha run run_bytes =
     and_then (map_err CliCase (validate_case ts (run_case sha run run_bytes)))
       (\<lambda>_. Ok (run_case sha run run_bytes))"
  unfolding case_from_run_def run_case_def Let_def ..

lemma basis_text_ok: "case_text (basis_text b) f 100 = Ok ()"
  by (cases b) (simp_all add: case_text_def visible_start white1_def byte_def del: trim_is_empty.simps)

lemma revision_kind_text_ok: "case_text (revision_kind_text k) f 40 = Ok ()"
  by (cases k) (simp_all add: case_text_def visible_start white1_def byte_def del: trim_is_empty.simps)

lemma severity_text_ok: "case_text (severity_text k) f 40 = Ok ()"
  by (cases k) (simp_all add: case_text_def visible_start white1_def byte_def del: trim_is_empty.simps)

lemma confidence_text_ok: "case_text (confidence_text k) f 40 = Ok ()"
  by (cases k) (simp_all add: case_text_def visible_start white1_def byte_def del: trim_is_empty.simps)

lemma case_target_of_valid:
  assumes "target_wf ts t"
  shows "validate_case_target ts (case_target_of t) = Ok () \<longleftrightarrow>
     length (tg_label t) \<le> 200 \<and> length (au_reviewer (tg_authorization t)) \<le> 200
   \<and> (\<forall>r. au_reference (tg_authorization t) = Some r \<longrightarrow> length r \<le> 300)
   \<and> (\<forall>r. tg_revision t = Some r \<longrightarrow> length (rev_value r) \<le> 200)"
  using assms revision_kind_text_ok basis_text_ok
  by (auto simp: validate_case_target_def case_target_of_def Let_def target_wf_def
      authorization_wf_def revision_wf_def text_wf_def ok_iff simp del: trim_is_empty.simps)


lemma run_case_sources:
  assumes "digest_length sha" and "engine_wf (rm_engine m)"
  shows "validate_sources (cs_sources (run_case sha m b)) = Ok () \<longleftrightarrow>
     length (en_name (rm_engine m)) \<le> 200 \<and> length (en_version (rm_engine m)) \<le> 200"
proof -
  have "case_text ''existing validated secureflow run manifest'' f 2000 = Ok ()" for f
    by (simp add: case_text_def visible_start white1_def byte_def del: trim_is_empty.simps)
  then show ?thesis
    using assms(2)
    by (auto simp: validate_sources_def run_case_def Let_def ok_iff engine_wf_def text_wf_def
        derived_ids_valid [OF assms(1)] simp del: trim_is_empty.simps)
qed

lemma run_case_evidence:
  assumes "digest_length sha"
  shows "validate_case_evidence (source_kinds (cs_sources (run_case sha m b)))
           (cs_evidence (run_case sha m b)) = Ok ()"
proof -
  have "case_text ''validated retained SecureFlow run manifest'' f 4000 = Ok ()" for f
    by (simp add: case_text_def visible_start white1_def byte_def del: trim_is_empty.simps)
  then show ?thesis
    by (simp add: validate_case_evidence_def run_case_def Let_def each_unique_iff checks_Cons_iff
        fail_if_Inr_iff source_kinds_def derived_ids_valid [OF assms] case_digest_valid [OF assms])
qed

lemma run_candidates_distinct:
  assumes "distinct (map fd_finding_id fs)"
    and "inj_on (\<lambda>x. take 16 (sha x)) ((\<lambda>f. sid @ CHR ''|'' # fd_finding_id f) ` set fs)"
  shows "distinct (map cd_candidate_id (map (run_candidate sha sid eid) fs))"
proof -
  let ?key = "\<lambda>f. sid @ CHR ''|'' # fd_finding_id f"
  have "inj_on fd_finding_id (set fs)" and "distinct fs"
    using assms(1) by (simp_all add: distinct_map)
  then have "inj_on ?key (set fs)" by (auto simp: inj_on_def)
  moreover note derived_id_inj [OF assms(2), of "''sf_candidate_''"]
  ultimately have "inj_on (derived_id sha ''sf_candidate_'' \<circ> ?key) (set fs)"
    by (rule comp_inj_on)
  moreover have "cd_candidate_id (run_candidate sha sid eid f)
      = (derived_id sha ''sf_candidate_'' \<circ> ?key) f" for f
    by (simp add: run_candidate_def)
  ultimately show ?thesis
    using \<open>distinct fs\<close> by (simp add: distinct_map inj_on_def)
qed

lemma run_case_candidates:
  assumes "digest_length sha" and "\<forall>f \<in> set (rm_findings m). candidate_wf f"
    and "distinct (map fd_finding_id (rm_findings m))"
    and "inj_on (\<lambda>x. take 16 (sha x))
           ((\<lambda>f. derived_id sha ''sf_source_'' (en_report_sha256 (rm_engine m))
                  @ CHR ''|'' # fd_finding_id f) ` set (rm_findings m))"
  shows "validate_candidates (source_kinds (cs_sources (run_case sha m b)))
           (ce_evidence_id ` set (cs_evidence (run_case sha m b)))
           (cs_candidates (run_case sha m b)) = Ok () \<longleftrightarrow>
     (\<forall>f \<in> set (rm_findings m). length (fd_title f) \<le> 500
        \<and> (\<forall>l \<in> set (fd_limitations f). length l \<le> 4000))"
proof -
  let ?sid = "derived_id sha ''sf_source_'' (en_report_sha256 (rm_engine m))"
  let ?eid = "derived_id sha ''sf_evidence_'' b"
  have candidates: "cs_candidates (run_case sha m b) = map (run_candidate sha ?sid ?eid) (rm_findings m)"
    and kinds: "source_kinds (cs_sources (run_case sha m b)) ?sid = Some SecureEngine"
    and evidence: "ce_evidence_id ` set (cs_evidence (run_case sha m b)) = {?eid}"
    by (simp_all add: run_case_def Let_def source_kinds_def)
  have fields: "cd_source_id (run_candidate sha ?sid ?eid f) = ?sid"
      "cd_class (run_candidate sha ?sid ?eid f) = EngineCandidate"
      "cd_title (run_candidate sha ?sid ?eid f) = fd_title f"
      "cd_evidence_ids (run_candidate sha ?sid ?eid f) = [?eid]"
      "cd_limitations (run_candidate sha ?sid ?eid f) = fd_limitations f"
      "cd_confidence (run_candidate sha ?sid ?eid f) = confidence_text (fd_confidence f)"
      "cd_severity (run_candidate sha ?sid ?eid f) = map_option severity_text (fd_severity f)"
      "case_id (cd_candidate_id (run_candidate sha ?sid ?eid f)) ''sf_candidate_'' g = Ok ()" for f g
    by (simp_all add: run_candidate_def derived_ids_valid [OF assms(1)])
  have texts: "\<not> trim_is_empty (fd_title f) \<and> (\<forall>l \<in> set (fd_limitations f). \<not> trim_is_empty l)"
    if "f \<in> set (rm_findings m)" for f
    using assms(2) that by (simp add: candidate_wf_def text_wf_def)
  have severity: "check_opt (\<lambda>s. case_text s g 40) (map_option severity_text s) = Ok ()" for g s
    by (cases s) (simp_all add: severity_text_ok)
  have "distinct (map cd_candidate_id (map (run_candidate sha ?sid ?eid) (rm_findings m)))"
    by (rule run_candidates_distinct [OF assms(3,4)])
  then show ?thesis
    unfolding validate_candidates_def candidates evidence each_unique_iff
    using texts
    by (auto simp: fields kinds severity confidence_text_ok checks_Cons_iff fail_if_Inr_iff
        each_iff case_text_iff)
qed

lemma validate_run_case:
  assumes "digest_length sha" and "manifest_wf ts m"
    and "inj_on (\<lambda>x. take 16 (sha x))
           ((\<lambda>f. derived_id sha ''sf_source_'' (en_report_sha256 (rm_engine m))
                  @ CHR ''|'' # fd_finding_id f) ` set (rm_findings m))"
  shows "validate_case ts (run_case sha m b) = Inr u \<longleftrightarrow> run_case_fits m"
proof -
  have wf: "engine_wf (rm_engine m)" "target_wf ts (rm_target m)" "ts (rm_created_at m) \<noteq> None"
      "\<forall>f \<in> set (rm_findings m). candidate_wf f" "distinct (map fd_finding_id (rm_findings m))"
    using assms(2) by (auto simp: manifest_wf_def manifest_frame_wf_def lifecycle_wf_def finding_wf_def)
  have fields: "cs_contract_version (run_case sha m b) = CASE_CONTRACT_VERSION"
      "cs_created_at (run_case sha m b) = rm_created_at m"
      "cs_target (run_case sha m b) = case_target_of (rm_target m)"
      "cs_staged_recommendations (run_case sha m b) = []" "cs_decisions (run_case sha m b) = []"
      "case_id (cs_case_id (run_case sha m b)) ''sf_case_'' f = Ok ()" for f
    by (simp_all add: run_case_def Let_def case_id_for_derived derived_ids_valid [OF assms(1)])
  show ?thesis
    unfolding validate_case_iff case_frame_wf_def case_decisions_wf_def fields
      run_case_sources [OF assms(1) wf(1)] case_target_of_valid [OF wf(2)]
      run_case_candidates [OF assms(1) wf(4,5) assms(3)] run_case_evidence [OF assms(1)]
    using wf(3) by (auto simp: run_case_fits_def validate_stages_def)
qed


section \<open>Properties\<close>

text \<open>A case over one pending candidate.\<close>

definition one_case :: security_case where
  "one_case = run_case zero_sha one_manifest ''{}''"

lemma one_manifest_fits: "run_case_fits one_manifest"
  by (simp add: run_case_fits_def one_manifest_def one_finding_def sample_manifest_def
      sample_target_def sample_engine_def sample_finding_def)

lemma one_case_valid: "validate_case sample_ts one_case = Ok ()"
  unfolding one_case_def
  by (subst validate_run_case) (simp_all add: one_manifest_fits)

definition one_candidate_id :: string where
  "one_candidate_id = derived_id zero_sha ''sf_candidate_''
     (derived_id zero_sha ''sf_source_'' zero_hash @ CHR ''|'' # fd_finding_id one_finding)"

lemma one_case_candidates: "candidate_ids one_case = {one_candidate_id}"
  by (simp add: candidate_ids_def one_case_def run_case_def Let_def run_candidate_def
      one_candidate_id_def) (simp add: one_manifest_def sample_manifest_def sample_engine_def)

definition sample_decide :: decide_args where
  "sample_decide = \<lparr>da_candidate_id = one_candidate_id, da_decision = ReviewRejected,
     da_reviewer = '' Ann '', da_rationale = ''ok'', da_evidence_reference = None\<rparr>"

text \<open>
  C2. Decisions are final and human: from a valid case, whatever commands and tool calls follow,
  in any order and with any failures between, the case stays valid, a decision once recorded
  is there unchanged at the end, and every decision that was not there at the start was recorded
  by a \<open>case-decide\<close> command with a visible reviewer and rationale about that candidate.
\<close>

theorem case_decisions_final:
  assumes "validate_case ts c = Ok ()"
  shows "validate_case ts (run_ops (case_step ts sha fj ser) ops c) = Ok ()
    \<and> case_decisions c \<subseteq>\<^sub>m case_decisions (run_ops (case_step ts sha fj ser) ops c)
    \<and> (case_decisions (run_ops (case_step ts sha fj ser) ops c) k = Some d \<longrightarrow>
         case_decisions c k = Some d
       \<or> (\<exists>t a. OpDecide (Some t) a \<in> set ops \<and> da_candidate_id a = k
            \<and> trim (da_reviewer a) \<noteq> [] \<and> trim (da_rationale a) \<noteq> []
            \<and> d = decision_of_args sha t a))"
  using case_machine.run_inv [where ts = ts and sha = sha and from_json = fj and ser = ser, OF assms, of ops]
    case_machine.run_keeps [where ts = ts and sha = sha and from_json = fj and ser = ser, OF assms, of ops]
    case_machine.run_origin [where ts = ts and sha = sha and from_json = fj and ser = ser, OF assms, of ops k d]
  by (auto simp: made_by_def decide_args_ok_def)

theorem case_decisions_final_witness:
  "validate_case sample_ts (run_ops (case_step sample_ts zero_sha (\<lambda>_. None) (\<lambda>_. []))
     [OpTool None True JNull, OpDecide (Some T1) sample_decide, OpDecide None sample_decide] one_case)
     = Ok ()"
  using case_decisions_final [OF one_case_valid] by blast

text \<open>
  C36. When a decision is recorded: exactly when the case is valid, the candidate exists and is
  undecided, the reviewer, rationale and reference are visible and within both bounds, the one
  of the command on characters and the one of the case on bytes, the time parses, and the
  derived identifier is new. The decision is then appended and nothing else changes.
\<close>

theorem case_decide_succeeds_iff:
  assumes "digest_length sha" and "validate_case ts c = Ok ()"
  shows "case_decide ts sha (Some t) a c = Ok c' \<longleftrightarrow>
     da_candidate_id a \<in> candidate_ids c \<and> case_decisions c (da_candidate_id a) = None
   \<and> decide_args_ok a
   \<and> length (trim (da_reviewer a)) \<le> 200 \<and> length (trim (da_rationale a)) \<le> 3000
   \<and> (\<forall>r. optional_field (da_evidence_reference a) = Some r \<longrightarrow> length r \<le> 300)
   \<and> ts t \<noteq> None
   \<and> dc_decision_id (decision_of_args sha t a) \<notin> dc_decision_id ` set (cs_decisions c)
   \<and> c' = c\<lparr>cs_decisions := cs_decisions c @ [decision_of_args sha t a]\<rparr>"
proof -
  let ?d = "decision_of_args sha t a"
  have case_wf: "case_frame_wf ts c" "case_decisions_wf ts c"
      "validate_stages ts (candidate_ids c) (cs_staged_recommendations c) = Ok ()"
    using assms(2) by (simp_all add: validate_case_iff)
  have reference: "\<not> trim_is_empty r" if "optional_field (da_evidence_reference a) = Some r" for r
    using that trim_visible by (auto simp: optional_field_def split: option.splits if_splits)
  have "decision_wf ts (candidate_ids c) ?d \<longleftrightarrow>
      da_candidate_id a \<in> candidate_ids c \<and> length (trim (da_reviewer a)) \<le> 200
    \<and> length (trim (da_rationale a)) \<le> 3000 \<and> ts t \<noteq> None
    \<and> (\<forall>r. optional_field (da_evidence_reference a) = Some r \<longrightarrow> length r \<le> 300)"
    if "decide_args_ok a"
    using that reference trim_visible [of "da_reviewer a"] trim_visible [of "da_rationale a"]
    by (auto simp: decision_wf_def decision_of_args_def case_text_iff decide_args_ok_def
        derived_ids_valid [OF assms(1)] simp del: trim_is_empty.simps)
  moreover have "dc_candidate_id ?d = da_candidate_id a" by (simp add: decision_of_args_def)
  ultimately show ?thesis
    using case_wf case_decisions_dom [of c "da_candidate_id a"]
    by (auto simp: case_decide_Inr validate_case_iff case_decisions_wf_def)
qed

theorem case_decide_succeeds_iff_witness:
  "case_decide sample_ts zero_sha (Some T1) sample_decide one_case
     = Ok (one_case\<lparr>cs_decisions := [decision_of_args zero_sha T1 sample_decide]\<rparr>)"
proof -
  have none: "cs_decisions one_case = []" by (simp add: one_case_def run_case_def Let_def)
  have "decide_args_ok sample_decide"
    by (simp add: sample_decide_def decide_args_ok_def trim_def white1_def white2_def white3_def
        chars_count_def byte_def optional_field_ok_def)
  moreover have "length (trim (da_reviewer sample_decide)) \<le> 200"
      "length (trim (da_rationale sample_decide)) \<le> 3000"
      "optional_field (da_evidence_reference sample_decide) = None"
      "da_candidate_id sample_decide = one_candidate_id"
    by (simp_all add: sample_decide_def trim_def white1_def white2_def white3_def byte_def
        optional_field_def)
  ultimately show ?thesis
    using case_decide_succeeds_iff [OF zero_sha_length one_case_valid, of T1 sample_decide]
    by (simp add: one_case_candidates none case_decisions_def)
qed


text \<open>
  A tool call of an agent never touches the authority of the case: whatever its parameters,
  it leaves the target, the sources, the evidence, the candidates and the decisions as they
  are; when it fails the case is unchanged, and when it stages a recommendation the case is
  valid and was written first.
\<close>

theorem tool_call_is_advisory:
  assumes "mcp_tool_call ts sha now written params c = (c', r)"
  shows "c' = c\<lparr>cs_staged_recommendations := cs_staged_recommendations c'\<rparr>
    \<and> (is_ok r \<or> c' = c)
    \<and> (c' \<noteq> c \<longrightarrow> written \<and> validate_case ts c' = Ok ()
         \<and> length (cs_staged_recommendations c') = Suc (length (cs_staged_recommendations c)))"
  using mcp_tool_call_effect [OF assms] by auto

theorem tool_call_is_advisory_witness:
  "\<exists>c' r. mcp_tool_call sample_ts zero_sha (Some T0) False
       (JObject [(''name'', JString ''stage_recommendation'')]) one_case = (c', r)
     \<and> cs_decisions c' = cs_decisions one_case"
proof -
  obtain c' r where "mcp_tool_call sample_ts zero_sha (Some T0) False
      (JObject [(''name'', JString ''stage_recommendation'')]) one_case = (c', r)"
    by (cases "mcp_tool_call sample_ts zero_sha (Some T0) False
      (JObject [(''name'', JString ''stage_recommendation'')]) one_case")
  moreover from tool_call_is_advisory [OF this]
  have "c' = one_case\<lparr>cs_staged_recommendations := cs_staged_recommendations c'\<rparr>" by blast
  from arg_cong [OF this, of cs_decisions] have "cs_decisions c' = cs_decisions one_case" by simp
  ultimately show ?thesis by blast
qed

text \<open>
  \<open>add_human_decision\<close> is not transactional: when the validation rejects a first decision
  about a candidate (a blank reviewer, say), the caller's case keeps it, is not valid any more,
  and refuses every further decision about that candidate as already final.
\<close>

theorem rejected_decision_sticks:
  assumes "add_human_decision ts sha k d reviewer rationale reference t c = (c', Err e)"
    and "case_decisions c k = None"
  shows "validate_case ts c' = Err e
    \<and> add_human_decision ts sha k d' reviewer' rationale' reference' t' c'
        = (c', Err (CaseInvalidState ''candidate already has a final human decision''))"
proof -
  have "k \<notin> dc_candidate_id ` set (cs_decisions c)"
    using assms(2) case_decisions_dom [of c k] by blast
  then have fresh: "\<not> (\<exists>entry \<in> set (cs_decisions c). dc_candidate_id entry = k)" by blast
  then have "validate_case ts c' = Err e \<and> (\<exists>entry \<in> set (cs_decisions c'). dc_candidate_id entry = k)"
    using assms(1) by (auto simp: add_human_decision_def Let_def)
  then show ?thesis unfolding add_human_decision_def by simp
qed

lemma blank_reviewer_refused:
  "\<exists>c' e. add_human_decision sample_ts zero_sha one_candidate_id Validated [] ''r'' None T1 one_case
      = (c', Err e)"
proof -
  obtain c' r where step: "add_human_decision sample_ts zero_sha one_candidate_id Validated [] ''r''
      None T1 one_case = (c', r)"
    by (cases "add_human_decision sample_ts zero_sha one_candidate_id Validated [] ''r'' None T1 one_case")
  then have "r \<noteq> Ok ()"
    by (auto simp: add_human_decision_def Let_def validate_case_iff case_decisions_wf_def
        decision_wf_def case_text_iff one_case_def run_case_def)
  with step show ?thesis by (cases r) auto
qed

theorem rejected_decision_sticks_witness:
  "\<exists>c' e. validate_case sample_ts c' = Err e
     \<and> add_human_decision sample_ts zero_sha one_candidate_id Rejected ''Ann'' ''ok'' None T1 c'
        = (c', Err (CaseInvalidState ''candidate already has a final human decision''))"
proof -
  obtain c' e where step: "add_human_decision sample_ts zero_sha one_candidate_id Validated [] ''r''
      None T1 one_case = (c', Err e)"
    using blank_reviewer_refused by blast
  have "case_decisions one_case one_candidate_id = None"
    by (simp add: case_decisions_def one_case_def run_case_def Let_def)
  from rejected_decision_sticks [OF step this] show ?thesis by blast
qed

text \<open>
  From a valid run a case is made exactly when its texts fit the byte bounds of the case:
  the contract of the run bounds characters, so a run may be valid and still not convert. The
  case has one engine candidate per finding, in order, and no decision.
\<close>

theorem case_from_run_succeeds_iff:
  assumes "digest_length sha" and "validate_manifest ts m = Ok ()"
    and "inj_on (\<lambda>x. take 16 (sha x))
           ((\<lambda>f. derived_id sha ''sf_source_'' (en_report_sha256 (rm_engine m))
                  @ CHR ''|'' # fd_finding_id f) ` set (rm_findings m))"
  shows "is_ok (case_from_run ts sha m bytes) = run_case_fits m
    \<and> (case_from_run ts sha m bytes = Ok c \<longrightarrow>
         cs_decisions c = [] \<and> map cd_title (cs_candidates c) = map fd_title (rm_findings m)
       \<and> (\<forall>d \<in> set (cs_candidates c). cd_class d = EngineCandidate))"
proof -
  have wf: "manifest_wf ts m" using assms(2) by (simp add: validate_manifest_wf)
  have "cs_decisions (run_case sha m bytes) = []"
      "map cd_title (cs_candidates (run_case sha m bytes)) = map fd_title (rm_findings m)"
      "\<forall>d \<in> set (cs_candidates (run_case sha m bytes)). cd_class d = EngineCandidate"
    by (simp_all add: run_case_def Let_def run_candidate_def)
  then show ?thesis
    using validate_run_case [OF assms(1) wf assms(3), of bytes]
    by (auto simp: case_from_run_unfold is_ok_iff and_then_Inr_iff map_err_Inr_iff)
qed

text \<open>A valid run whose label has 150 characters in 300 bytes.\<close>

definition accented_manifest :: run_manifest where
  "accented_manifest = one_manifest\<lparr>rm_target := sample_target\<lparr>tg_label :=
     concat (replicate 150 [CHR 0xC3, CHR 0xA9])\<rparr>\<rparr>"

lemma accented_label:
  "length (concat (replicate n [CHR 0xC3, CHR 0xA9])) = 2 * n"
  "chars_count (concat (replicate n [CHR 0xC3, CHR 0xA9])) = n"
  by (induction n) (simp_all add: chars_count_def byte_def)

lemma accented_manifest_wf: "manifest_wf sample_ts accented_manifest"
proof -
  let ?l = "concat (replicate 150 [CHR 0xC3, CHR 0xA9])"
  have "?l = CHR 0xC3 # CHR 0xA9 # concat (replicate 149 [CHR 0xC3, CHR 0xA9])"
    by (simp add: numeral_eq_Suc)
  then have "\<not> trim_is_empty ?l"
    using trim_is_empty_visible [of "CHR 0xC3"] by (auto simp: white1_def byte_def)
  then have "text_wf 200 ?l" by (simp add: text_wf_def accented_label)
  moreover have "target_wf sample_ts sample_target" by simp
  ultimately have "target_wf sample_ts (rm_target accented_manifest)"
    by (simp add: accented_manifest_def target_wf_def)
  with one_manifest_wf show ?thesis
    by (simp add: accented_manifest_def manifest_wf_def manifest_frame_wf_def lifecycle_wf_def
        v1_shape_wf_def)
qed

theorem case_from_run_succeeds_iff_witness:
  "is_ok (case_from_run sample_ts zero_sha one_manifest ''{}'')
   \<and> validate_manifest sample_ts accented_manifest = Ok ()
   \<and> \<not> is_ok (case_from_run sample_ts zero_sha accented_manifest ''{}'')"
proof -
  have valid: "validate_manifest sample_ts one_manifest = Ok ()"
      "validate_manifest sample_ts accented_manifest = Ok ()"
    by (simp_all add: validate_manifest_wf accented_manifest_wf)
  have "is_ok (case_from_run sample_ts zero_sha one_manifest ''{}'') = run_case_fits one_manifest"
    using case_from_run_succeeds_iff [OF zero_sha_length valid(1)] by simp
  moreover have "is_ok (case_from_run sample_ts zero_sha accented_manifest ''{}'')
      = run_case_fits accented_manifest"
    using case_from_run_succeeds_iff [OF zero_sha_length valid(2)] by (simp add: accented_manifest_def)
  moreover have "\<not> run_case_fits accented_manifest"
    by (simp add: run_case_fits_def accented_manifest_def accented_label)
  ultimately show ?thesis using valid one_manifest_fits by blast
qed


text \<open>
  Provenance: in a valid case identifiers are unique, every candidate comes from a source of
  the case whose kind fits its class, so agents are never the source of one, every evidence it
  names exists and has a source, and every recommendation and decision is about a candidate.
\<close>

theorem case_provenance:
  assumes "validate_case ts c = Ok ()"
  shows "distinct (map so_source_id (cs_sources c)) \<and> distinct (map ce_evidence_id (cs_evidence c))
    \<and> distinct (map cd_candidate_id (cs_candidates c))
    \<and> (\<forall>d \<in> set (cs_candidates c).
         (\<exists>s \<in> set (cs_sources c). so_source_id s = cd_source_id d \<and> so_kind s \<noteq> AgentSource
            \<and> class_matches (so_kind s) (cd_class d))
       \<and> (\<forall>i \<in> set (cd_evidence_ids d). \<exists>e \<in> set (cs_evidence c). ce_evidence_id e = i
            \<and> (\<exists>s \<in> set (cs_sources c). so_source_id s = ce_source_id e)))
    \<and> st_candidate_id ` set (cs_staged_recommendations c) \<subseteq> candidate_ids c
    \<and> dc_candidate_id ` set (cs_decisions c) \<subseteq> candidate_ids c"
proof -
  have frame: "case_frame_wf ts c" and stages: "validate_stages ts (candidate_ids c)
      (cs_staged_recommendations c) = Ok ()" and decisions: "case_decisions_wf ts c"
    using assms by (simp_all add: validate_case_iff)
  have kinds: "\<exists>s \<in> set (cs_sources c). so_source_id s = i \<and> so_kind s = k"
    if "source_kinds (cs_sources c) i = Some k" for i k
    using that by (auto simp: source_kinds_def dest!: map_of_SomeD)
  have ids: "distinct (map so_source_id (cs_sources c))" "distinct (map ce_evidence_id (cs_evidence c))"
      "distinct (map cd_candidate_id (cs_candidates c))"
    using frame by (simp_all add: case_frame_wf_def validate_sources_def validate_case_evidence_def
        validate_candidates_def each_unique_iff)
  have evidence: "\<exists>s \<in> set (cs_sources c). so_source_id s = ce_source_id e" if "e \<in> set (cs_evidence c)" for e
  proof -
    have "source_kinds (cs_sources c) (ce_source_id e) \<noteq> None"
      using frame that by (simp add: case_frame_wf_def validate_case_evidence_def each_unique_iff
          checks_Cons_iff fail_if_Inr_iff)
    then show ?thesis using kinds by blast
  qed
  have candidates: "\<exists>k. source_kinds (cs_sources c) (cd_source_id d) = Some k
      \<and> class_matches k (cd_class d) \<and> set (cd_evidence_ids d) \<subseteq> ce_evidence_id ` set (cs_evidence c)"
    if "d \<in> set (cs_candidates c)" for d
  proof -
    have "\<forall>x \<in> set (cs_candidates c). \<exists>k. source_kinds (cs_sources c) (cd_source_id x) = Some k
        \<and> class_matches k (cd_class x)
        \<and> (\<forall>i \<in> set (cd_evidence_ids x). i \<in> ce_evidence_id ` set (cs_evidence c))"
      using frame unfolding case_frame_wf_def validate_candidates_def each_unique_iff
        and_then_Inr_iff ok_or_Inr_iff checks_Cons_iff fail_if_Inr_iff each_iff by blast
    with that show ?thesis by blast
  qed
  have agent: "k \<noteq> AgentSource" if "class_matches k cl" for k cl
    using that by (cases k; cases cl) auto
  have "(\<exists>s \<in> set (cs_sources c). so_source_id s = cd_source_id d \<and> so_kind s \<noteq> AgentSource
            \<and> class_matches (so_kind s) (cd_class d))
       \<and> (\<forall>i \<in> set (cd_evidence_ids d). \<exists>e \<in> set (cs_evidence c). ce_evidence_id e = i
            \<and> (\<exists>s \<in> set (cs_sources c). so_source_id s = ce_source_id e))"
    if d: "d \<in> set (cs_candidates c)" for d
    using candidates [OF d] kinds agent evidence by (fastforce simp: image_iff)
  then show ?thesis
    using ids stages decisions
    by (auto simp: validate_stages_def each_unique_iff checks_Cons_iff fail_if_Inr_iff
        case_decisions_wf_def decision_wf_def)
qed

theorem case_provenance_witness:
  "\<exists>d s. d \<in> set (cs_candidates one_case) \<and> s \<in> set (cs_sources one_case)
     \<and> so_source_id s = cd_source_id d \<and> class_matches (so_kind s) (cd_class d)"
proof -
  obtain d where d: "d \<in> set (cs_candidates one_case)"
    using one_case_candidates by (auto simp: candidate_ids_def)
  note case_provenance [OF one_case_valid, THEN conjunct2, THEN conjunct2, THEN conjunct2, THEN conjunct1]
  from bspec [OF this d, THEN conjunct1] d show ?thesis by blast
qed

lemma each_unique_duplicate:
  assumes "each_unique pre key dup post seen xs = Inr ()" and "pre x = Inr ()"
    and "key x \<in> seen \<union> key ` set xs"
  shows "each_unique pre key dup post seen (xs @ [x]) = Inl dup"
  using assms
proof (induction xs arbitrary: seen)
  case Nil
  then show ?case by (simp add: run_simps)
next
  case (Cons y ys)
  then show ?case by (auto simp: run_simps split: sum.splits if_splits)
qed

lemma import_sarif_Inr:
  assumes "import_sarif ts sha fj bytes name version c = (c', Ok n)"
  shows "\<exists>doc. fj bytes = Some doc \<and> json_get_str ''version'' doc = Some SARIF_VERSION
     \<and> n = length (sarif_results doc) \<and> validate_case ts c' = Ok ()
     \<and> c' = c\<lparr>cs_sources := cs_sources c @ [sarif_source sha bytes name version],
              cs_evidence := cs_evidence c @ [sarif_evidence sha bytes],
              cs_candidates := cs_candidates c @ sarif_candidates sha bytes doc\<rparr>"
  using assms
  by (auto simp: import_sarif_def Let_def and_then_Inr_iff split: option.splits if_splits)

text \<open>
  Importing SARIF only adds external candidates, one for each result of the document, and
  keeps all that was there; importing the same bytes again is refused, and the error names the
  source that is already in the case.
\<close>

theorem import_sarif_once:
  assumes "digest_length sha"
    and "import_sarif ts sha fj bytes name version c = (c', Ok n)"
  shows "\<exists>new. cs_candidates c' = cs_candidates c @ new \<and> length new = n
       \<and> (\<forall>d \<in> set new. cd_class d = ExternalToolCandidate \<and> cd_confidence d = ''unknown'')
       \<and> cs_decisions c' = cs_decisions c
       \<and> snd (import_sarif ts sha fj bytes name' version' c') = Err (CaseDuplicate ''source_id'')"
proof -
  obtain doc where doc: "fj bytes = Some doc" "json_get_str ''version'' doc = Some SARIF_VERSION"
    and n: "n = length (sarif_results doc)" and valid: "validate_case ts c' = Ok ()"
    and c': "c' = c\<lparr>cs_sources := cs_sources c @ [sarif_source sha bytes name version],
              cs_evidence := cs_evidence c @ [sarif_evidence sha bytes],
              cs_candidates := cs_candidates c @ sarif_candidates sha bytes doc\<rparr>"
    using import_sarif_Inr [OF assms(2)] by blast
  have source: "so_source_id (sarif_source sha bytes nm v) = derived_id sha ''sf_source_'' bytes" for nm v
    by (simp add: sarif_source_def)
  obtain t where t: "ts (cs_created_at c') = Some t"
    using valid by (auto simp: validate_case_iff case_frame_wf_def)
  have frame: "case_frame_wf ts c'" using valid by (simp add: validate_case_iff)
  have again: "validate_case ts (c'\<lparr>cs_sources := cs_sources c' @ [s], cs_evidence := ev,
      cs_candidates := cands\<rparr>) = Err (CaseDuplicate ''source_id'')"
    if "so_source_id s = derived_id sha ''sf_source_'' bytes" for s ev cands
  proof -
    have "validate_sources (cs_sources c') = Ok ()" using frame by (simp add: case_frame_wf_def)
    moreover have "so_source_id s \<in> so_source_id ` set (cs_sources c')"
      using that source by (simp add: c')
    ultimately have "validate_sources (cs_sources c' @ [s]) = Err (CaseDuplicate ''source_id'')"
      unfolding validate_sources_def
      by (intro each_unique_duplicate) (simp_all add: that derived_ids_valid [OF assms(1)])
    then show ?thesis
      using frame t by (simp add: validate_case_def Let_def case_frame_wf_def case_timestamp_def)
  qed
  have "snd (import_sarif ts sha fj bytes name' version' c') = Err (CaseDuplicate ''source_id'')"
    by (simp add: import_sarif_def doc Let_def again source)
  then show ?thesis
    by (auto simp: c' n sarif_candidates_def sarif_candidate_def Let_def)
qed

definition sample_sarif :: json where
  "sample_sarif = JObject [(''version'', JString SARIF_VERSION), (''runs'', JArray [])]"

theorem import_sarif_once_witness:
  "\<exists>c'. import_sarif sample_ts zero_sha (\<lambda>_. Some sample_sarif) ''{}'' ''tool'' ''1''
          (one_case\<lparr>cs_sources := [], cs_evidence := [], cs_candidates := []\<rparr>) = (c', Ok 0)
     \<and> snd (import_sarif sample_ts zero_sha (\<lambda>_. Some sample_sarif) ''{}'' ''tool'' ''1'' c')
         = Err (CaseDuplicate ''source_id'')"
proof -
  let ?c = "one_case\<lparr>cs_sources := [], cs_evidence := [], cs_candidates := []\<rparr>"
  obtain c' r where step: "import_sarif sample_ts zero_sha (\<lambda>_. Some sample_sarif) ''{}'' ''tool'' ''1'' ?c
      = (c', r)" by fastforce
  have doc: "json_get_str ''version'' sample_sarif = Some SARIF_VERSION" "sarif_results sample_sarif = []"
    by (simp_all add: sample_sarif_def json_get_str_def sarif_results_def json_get_items_def)
  have fields: "cs_decisions one_case = []" "cs_staged_recommendations one_case = []"
    by (simp_all add: one_case_def run_case_def Let_def)
  have frame: "case_frame_wf sample_ts one_case" using one_case_valid by (simp add: validate_case_iff)
  have texts: "case_text ''tool'' f 200 = Ok ()" "case_text ''1'' f 200 = Ok ()"
      "case_text ''SARIF 2.1.0 import; results remain external-tool candidates'' f 2000 = Ok ()"
      "case_text ''retained imported SARIF document'' f 4000 = Ok ()" for f
    by (simp_all add: case_text_def visible_start white1_def byte_def del: trim_is_empty.simps(4))
  let ?t = "one_case\<lparr>cs_sources := [sarif_source zero_sha ''{}'' ''tool'' ''1''],
      cs_evidence := [sarif_evidence zero_sha ''{}''], cs_candidates := []\<rparr>"
  have "validate_sources [sarif_source zero_sha ''{}'' ''tool'' ''1''] = Ok ()"
    by (simp add: validate_sources_def each_unique_iff checks_Cons_iff sarif_source_def texts
        derived_ids_valid case_digest_valid)
  moreover have "validate_case_evidence (source_kinds [sarif_source zero_sha ''{}'' ''tool'' ''1''])
      [sarif_evidence zero_sha ''{}''] = Ok ()"
    by (simp add: validate_case_evidence_def each_unique_iff checks_Cons_iff sarif_source_def texts
        sarif_evidence_def source_kinds_def derived_ids_valid case_digest_valid)
  ultimately have "validate_case sample_ts ?t = Ok ()"
    using frame
    by (simp add: validate_case_iff case_frame_wf_def fields case_decisions_wf_def
        validate_stages_def validate_candidates_def)
  then have "r = Ok 0"
    using step by (simp add: import_sarif_def doc Let_def sarif_candidates_def)
  with step import_sarif_once [OF zero_sha_length] show ?thesis by blast
qed

end
