(* ===== verification/MachineInts.thy ===== *)
theory MachineInts
  imports Prelude
begin

text \<open>
  Arithmetic of \<open>u64\<close> that several components use: additions that stop at the maximum, and the
  eight bytes of \<open>to_be_bytes\<close>, the most significant first, with which hashed fields are framed.
\<close>

section \<open>Saturating addition\<close>

definition saturating_add :: "u64 \<Rightarrow> u64 \<Rightarrow> u64" where
  "saturating_add a b = (if unat a + unat b < 2 ^ 64 then a + b else - 1)"

lemma saturating_add_unat: "unat (saturating_add a b) = min (unat a + unat b) (2 ^ 64 - 1)"
proof (cases "unat a + unat b < 2 ^ 64")
  case True
  then have "unat (a + b) = unat a + unat b" by (simp add: unat_word_ariths)
  with True show ?thesis by (simp add: saturating_add_def)
next
  case False
  then show ?thesis by (simp add: saturating_add_def unsigned_minus_1_eq_mask mask_eq_exp_minus_1)
qed

section \<open>Framed fields\<close>

fun be_bytes :: "nat \<Rightarrow> nat \<Rightarrow> string" where
  "be_bytes 0 n = []"
| "be_bytes (Suc k) n = be_bytes k (n div 256) @ [char_of n]"

definition to_be_bytes :: "u64 \<Rightarrow> string" where
  "to_be_bytes w = be_bytes 8 (unat w)"

definition be_value :: "string \<Rightarrow> nat" where
  "be_value s = foldl (\<lambda>n c. 256 * n + byte c) 0 s"

lemma be_bytes_length [simp]: "length (be_bytes k n) = k"
  by (induction k arbitrary: n) auto

lemma be_value_bytes: "n < 256 ^ k \<Longrightarrow> be_value (be_bytes k n) = n"
proof (induction k arbitrary: n)
  case 0
  then show ?case by (simp add: be_value_def)
next
  case (Suc k)
  then have "be_value (be_bytes k (n div 256)) = n div 256"
    by (intro Suc.IH) (simp add: less_mult_imp_div_less mult.commute)
  then show ?case by (simp add: be_value_def byte_def)
qed

lemma to_be_bytes_inj:
  assumes "length a < 2 ^ 64" and "length b < 2 ^ 64"
    and "to_be_bytes (of_nat (length a)) = to_be_bytes (of_nat (length b))"
  shows "length a = length b"
proof -
  have "be_value (to_be_bytes (of_nat n)) = n" if "n < 2 ^ 64" for n
    using be_value_bytes [of n 8] that unfolding to_be_bytes_def unat_of_nat_u64 [OF that] by simp
  with assms show ?thesis by metis
qed

definition field_bytes :: "string \<Rightarrow> string" where
  "field_bytes v = to_be_bytes (of_nat (length v)) @ v"

definition hashed_fields :: "string list \<Rightarrow> string" where
  "hashed_fields vs = concat (map field_bytes vs)"

lemma to_be_bytes_length [simp]: "length (to_be_bytes w) = 8"
  by (simp add: to_be_bytes_def)

lemma hashed_fields_inj:
  "\<forall>v \<in> set vs \<union> set ws. length v < 2 ^ 64 \<Longrightarrow> hashed_fields vs = hashed_fields ws \<Longrightarrow> vs = ws"
proof (induction vs arbitrary: ws)
  case Nil
  then show ?case by (cases ws) (auto simp: hashed_fields_def field_bytes_def dest: arg_cong [of _ _ length])
next
  case (Cons v vs)
  then obtain w us where ws: "ws = w # us"
    by (cases ws) (auto simp: hashed_fields_def field_bytes_def dest: arg_cong [of _ _ length])
  with Cons.prems(2) have "to_be_bytes (of_nat (length v)) @ v @ hashed_fields vs
      = to_be_bytes (of_nat (length w)) @ w @ hashed_fields us"
    by (simp add: hashed_fields_def field_bytes_def)
  then have len: "to_be_bytes (of_nat (length v)) = to_be_bytes (of_nat (length w))"
    and rest: "v @ hashed_fields vs = w @ hashed_fields us"
    by (auto simp: append_eq_append_conv)
  have "length v = length w" using Cons.prems(1) ws len by (intro to_be_bytes_inj) auto
  with rest have "v = w" and "hashed_fields vs = hashed_fields us"
    by (auto simp: append_eq_append_conv)
  moreover have "\<forall>v \<in> set vs \<union> set us. length v < 2 ^ 64" using Cons.prems(1) ws by simp
  ultimately show ?case using Cons.IH [of us] ws by blast
qed

end
