(* ===== verification/AiAdvisory.thy ===== *)
theory AiAdvisory
  imports SecureReview MachineInts
begin

text \<open>
  The optional AI assistance of \<open>crates/secureflow-ai/src/lib.rs\<close>: redaction of one finding into
  a request, the contracts of requests and responses, and \<open>apply_response\<close>, which attaches an
  advisory answer to a run. There is no network client in the code.

  Parameters: the timestamp parser \<open>ts\<close>, the digest \<open>sha\<close>, the JSON encoding of a redacted
  payload (\<open>ser\<close>) and the readers of requests and responses (\<open>from_json\<close>).
\<close>

section \<open>Data\<close>

definition REQUEST_VERSION :: string where
  "REQUEST_VERSION = ''secureflow-ai-request-v1''"

definition RESPONSE_VERSION :: string where
  "RESPONSE_VERSION = ''secureflow-ai-response-v1''"

definition REDACTION_VERSION :: string where
  "REDACTION_VERSION = ''secureflow-redaction-v1''"

definition PROMPT_VERSION :: string where
  "PROMPT_VERSION = ''secureflow-ai-triage-v1''"

definition MAX_DOCUMENT_BYTES :: nat where
  "MAX_DOCUMENT_BYTES = 1024 * 1024"

definition RESERVED_PROMPT_TOKENS :: u64 where
  "RESERVED_PROMPT_TOKENS = 700"

datatype ai_purpose = AmbiguityAnalysis | CandidatePrioritization

datatype model_family = Luna

record ai_budget =
  bu_max_calls :: u64
  bu_max_input_tokens :: u64
  bu_max_output_tokens :: u64
  bu_max_payload_bytes :: u64
  bu_reserved_prompt_tokens :: u64
  bu_payload_token_upper_bound :: u64
  bu_token_bound_method :: string

record data_policy =
  dp_local_preparation_only :: bool
  dp_source_code_included :: bool
  dp_evidence_descriptions_included :: bool
  dp_secret_redaction_enabled :: bool
  dp_external_transmission_consented :: bool
  dp_redaction_version :: string
  dp_redaction_events :: u64

datatype escalation_kind = OnlyIfAmbiguous

record escalation_policy =
  ep_policy :: escalation_kind
  ep_automatic :: bool
  ep_max_escalations :: u64
  ep_requires_human_approval :: bool

datatype assessment_role = AdvisoryOnly

datatype ai_validation_authority = AiHumanOnly

record advisory_authority =
  aa_assessment_role :: assessment_role
  aa_validation_authority :: ai_validation_authority
  aa_can_change_human_decision :: bool

record redacted_taxonomy =
  rt_version :: string
  rt_category_id :: string
  rt_invariant_id :: string

record redacted_location =
  rlo_path :: string
  rlo_line :: u32
  rlo_column :: u32

record redacted_evidence_step =
  rst_kind :: evidence_kind
  rst_location :: redacted_location

record redacted_finding =
  rfi_title :: string
  rfi_rule_id :: string
  rfi_taxonomy :: "redacted_taxonomy option"
  rfi_severity :: "severity option"
  rfi_confidence :: confidence
  rfi_source :: redacted_location
  rfi_sink :: redacted_location
  rfi_invariant :: string
  rfi_evidence_path :: "redacted_evidence_step list"
  rfi_limitations :: "string list"
  rfi_excluded_fields :: "string list"

record ai_request_envelope =
  aq_contract_version :: string
  aq_request_id :: string
  aq_created_at :: string
  aq_linked_run_id :: string
  aq_target_sha256 :: string
  aq_finding_id :: string
  aq_purpose :: ai_purpose
  aq_provider :: string
  aq_model_family :: model_family
  aq_prompt_version :: string
  aq_budget :: ai_budget
  aq_data_policy :: data_policy
  aq_escalation :: escalation_policy
  aq_authority :: advisory_authority
  aq_payload_sha256 :: string
  aq_payload_bytes :: u64
  aq_payload :: redacted_finding

datatype response_limitation =
  EvidenceInsufficient | RequiresRuntimeValidation | RequiresHumanContext | PossibleFalsePositive

record ai_response_envelope =
  an_contract_version :: string
  an_request_id :: string
  an_responded_at :: string
  an_provider :: string
  an_model_family :: model_family
  an_prompt_version :: string
  an_request_payload_sha256 :: string
  an_assessment :: ai_assessment
  an_analysis_summary :: string
  an_input_tokens :: u64
  an_output_tokens :: u64
  an_limitations :: "response_limitation list"
  an_validation_authority :: ai_validation_authority

record prepare_options =
  po_enable_ai :: bool
  po_consent_redacted_export :: bool
  po_purpose :: ai_purpose
  po_max_input_tokens :: u64
  po_max_output_tokens :: u64
  po_max_payload_bytes :: u64
  po_created_at :: string

datatype ai_error =
  AiDisabled
| ConsentRequired
| AiFindingNotFound string
| AiAlreadyRequested string
| UnsupportedRequest string
| UnsupportedResponse string
| AiInvalidField string
| InvalidRouting
| InvalidBudget
| BudgetExceeded string
| InvalidDataPolicy
| InvalidEscalation
| InvalidAuthority
| PayloadFingerprintMismatch
| RequestFingerprintMismatch
| ResponseLinkMismatch
| HumanDecisionChanged
| InvalidDocumentSize nat
| AiJson
| AiModel model_error

section \<open>Field checks\<close>

definition validate_document_size :: "string \<Rightarrow> ai_error + unit" where
  "validate_document_size bytes =
     fail_if (bytes = [] \<or> MAX_DOCUMENT_BYTES < length bytes) (InvalidDocumentSize (length bytes))"

definition ai_timestamp :: "ts_parser \<Rightarrow> string \<Rightarrow> string \<Rightarrow> ai_error + unit" where
  "ai_timestamp ts value field = fail_if (ts value = None) (AiInvalidField field)"

definition validate_prefixed_identifier :: "string \<Rightarrow> string \<Rightarrow> string \<Rightarrow> ai_error + unit" where
  "validate_prefixed_identifier value pfx field =
     (let sfx = (case strip_prefix pfx value of None \<Rightarrow> [] | Some s \<Rightarrow> s)
      in fail_if (\<not> (16 \<le> length sfx \<and> length sfx \<le> 100)
                  \<or> \<not> list_all (\<lambda>c. is_alnum c \<or> c = CHR ''_'' \<or> c = CHR ''-'') sfx)
           (AiInvalidField field))"

definition ai_prefixed_hash :: "string \<Rightarrow> string \<Rightarrow> bool" where
  "ai_prefixed_hash value pfx =
     (case strip_prefix pfx value of
        None \<Rightarrow> False
      | Some s \<Rightarrow> length s = 64 \<and> list_all is_lower_hex s)"

definition ai_sha256 :: "string \<Rightarrow> string \<Rightarrow> ai_error + unit" where
  "ai_sha256 value field =
     fail_if (length value \<noteq> 64 \<or> \<not> list_all is_lower_hex value) (AiInvalidField field)"

definition ai_text :: "string \<Rightarrow> string \<Rightarrow> nat \<Rightarrow> ai_error + unit" where
  "ai_text value field maximum =
     fail_if (trim_is_empty value \<or> maximum < chars_count value
              \<or> has_control (filter (\<lambda>c. \<not> layout c) value)) (AiInvalidField field)"

definition PLACEHOLDER :: string where
  "PLACEHOLDER = ''[REDACTED_POTENTIAL_SECRET]''"

definition ai_relative_path :: "string \<Rightarrow> string \<Rightarrow> ai_error + unit" where
  "ai_relative_path value field =
     (if value = PLACEHOLDER then Ok ()
      else fail_if (trim_is_empty value \<or> CHR 0x5C \<in> set value \<or> 2000 < chars_count value
                    \<or> has_control value \<or> is_absolute value \<or> has_parent_dir value)
             (AiInvalidField field))"

definition ai_sha256_hex :: "digest_fun \<Rightarrow> string \<Rightarrow> string" where
  "ai_sha256_hex sha bytes = hex_table (sha bytes)"

section \<open>Redaction\<close>

text \<open>\<open>split\<close> at white space characters and at the ASCII characters of \<open>p\<close>.\<close>

fun split_tokens :: "(char \<Rightarrow> bool) \<Rightarrow> string \<Rightarrow> string list" where
  "split_tokens p [] = [[]]"
| "split_tokens p [a] = (if white1 a \<or> p a then [[], []] else [[a]])"
| "split_tokens p [a, b] =
     (if white1 a \<or> p a then [] # split_tokens p [b]
      else if white2 a b then [[], []]
      else (case split_tokens p [b] of [] \<Rightarrow> [[a]] | w # ws \<Rightarrow> (a # w) # ws))"
| "split_tokens p (a # b # c # s) =
     (if white1 a \<or> p a then [] # split_tokens p (b # c # s)
      else if white2 a b then [] # split_tokens p (c # s)
      else if white3 a b c then [] # split_tokens p s
      else (case split_tokens p (b # c # s) of [] \<Rightarrow> [[a]] | w # ws \<Rightarrow> (a # w) # ws))"

definition sensitive_markers :: "string list" where
  "sensitive_markers = [''bearer '', ''authorization:'', ''api_key='', ''api-key='', ''apikey='',
     ''password='', ''secret='', ''token='', ''http://'', ''https://'']"

definition token_separator :: "char \<Rightarrow> bool" where
  "token_separator c \<longleftrightarrow> c \<in> {CHR 0x22, CHR 0x27, CHR 0x60, CHR '','', CHR '';'', CHR ''('', CHR '')'',
     CHR ''['', CHR '']'', CHR ''{'', CHR ''}''}"

definition token_char :: "char \<Rightarrow> bool" where
  "token_char c \<longleftrightarrow> is_alnum c
     \<or> c \<in> {CHR ''_'', CHR ''-'', CHR ''/'', CHR ''+'', CHR ''=''}"

definition has_sensitive_marker :: "string \<Rightarrow> bool" where
  "has_sensitive_marker value \<longleftrightarrow>
     (\<exists>marker \<in> set sensitive_markers. contains_str marker (to_ascii_lowercase value))"

definition has_high_entropy_token :: "string \<Rightarrow> bool" where
  "has_high_entropy_token value \<longleftrightarrow>
     (\<exists>token \<in> set (split_tokens token_separator value).
        40 \<le> length token \<and> list_all token_char token)"

definition is_email_like :: "string \<Rightarrow> bool" where
  "is_email_like value \<longleftrightarrow>
     (\<exists>token \<in> set (split_tokens (\<lambda>_. False) value).
        CHR 0x40 \<in> set token \<and> CHR ''.'' \<in> set token)"

definition redact_text :: "string \<Rightarrow> string \<times> bool" where
  "redact_text value =
     (if has_sensitive_marker value \<or> has_high_entropy_token value \<or> is_email_like value
      then (PLACEHOLDER, True) else (value, False))"

text \<open>The closure \<open>redact\<close> of \<open>prepare_request\<close>, with its counter, on one text and on a list.\<close>

definition redact :: "string \<Rightarrow> u64 \<Rightarrow> string \<times> u64" where
  "redact value n =
     (let (v, redacted) = redact_text value
      in (v, if redacted then saturating_add n 1 else n))"

fun redact_all :: "string list \<Rightarrow> u64 \<Rightarrow> string list \<times> u64" where
  "redact_all [] n = ([], n)"
| "redact_all (x # xs) n =
     (let (v, n1) = redact x n; (vs, n2) = redact_all xs n1 in (v # vs, n2))"

definition redact_location :: "location \<Rightarrow> u64 \<Rightarrow> redacted_location \<times> u64" where
  "redact_location l n =
     (let (p, n1) = redact (loc_path l) n
      in (\<lparr>rlo_path = p, rlo_line = loc_start_line l, rlo_column = loc_start_column l\<rparr>, n1))"

fun redact_steps :: "evidence_step list \<Rightarrow> u64 \<Rightarrow> redacted_evidence_step list \<times> u64" where
  "redact_steps [] n = ([], n)"
| "redact_steps (s # ss) n =
     (let (l, n1) = redact_location (es_location s) n; (rs, n2) = redact_steps ss n1
      in (\<lparr>rst_kind = es_kind s, rst_location = l\<rparr> # rs, n2))"

definition redact_taxonomy ::
    "taxonomy_coordinates option \<Rightarrow> u64 \<Rightarrow> redacted_taxonomy option \<times> u64" where
  "redact_taxonomy t n =
     (case t of
        None \<Rightarrow> (None, n)
      | Some x \<Rightarrow>
          let (v, n1) = redact (tx_version x) n;
              (c, n2) = redact (tx_category_id x) n1;
              (i, n3) = redact (tx_invariant_id x) n2
          in (Some \<lparr>rt_version = v, rt_category_id = c, rt_invariant_id = i\<rparr>, n3))"

definition excluded_fields :: "string list" where
  "excluded_fields =
     [''source-code'', ''evidence-descriptions'', ''human-review-metadata'', ''absolute-paths'']"

definition redact_finding :: "finding \<Rightarrow> redacted_finding \<times> u64" where
  "redact_finding f =
     (let (source, n1) = redact_location (fd_source_location f) 0;
          (sink, n2) = redact_location (fd_sink_location f) n1;
          (evidence_path, n3) = redact_steps (fd_evidence_path f) n2;
          (taxonomy, n4) = redact_taxonomy (fd_taxonomy f) n3;
          (title, n5) = redact (fd_title f) n4;
          (rule_id, n6) = redact (fd_rule_id f) n5;
          (invariant, n7) = redact (fd_invariant f) n6;
          (limitations, n8) = redact_all (fd_limitations f) n7
      in (\<lparr>rfi_title = title, rfi_rule_id = rule_id, rfi_taxonomy = taxonomy,
           rfi_severity = fd_severity f, rfi_confidence = fd_confidence f, rfi_source = source,
           rfi_sink = sink, rfi_invariant = invariant, rfi_evidence_path = evidence_path,
           rfi_limitations = limitations, rfi_excluded_fields = excluded_fields\<rparr>, n8))"

section \<open>Contracts\<close>

definition validate_budget :: "ai_budget \<Rightarrow> ai_error + unit" where
  "validate_budget b =
     fail_if (bu_max_calls b \<noteq> 1
              \<or> \<not> (1000 \<le> bu_max_input_tokens b \<and> bu_max_input_tokens b \<le> 200000)
              \<or> \<not> (1 \<le> bu_max_output_tokens b \<and> bu_max_output_tokens b \<le> 20000)
              \<or> \<not> (256 \<le> bu_max_payload_bytes b \<and> bu_max_payload_bytes b \<le> 262144)
              \<or> bu_reserved_prompt_tokens b \<noteq> RESERVED_PROMPT_TOKENS
              \<or> bu_token_bound_method b \<noteq> ''utf8-bytes-conservative-upper-bound'') InvalidBudget"

definition validate_data_policy :: "data_policy \<Rightarrow> ai_error + unit" where
  "validate_data_policy d =
     fail_if (\<not> dp_local_preparation_only d \<or> dp_source_code_included d
              \<or> dp_evidence_descriptions_included d \<or> \<not> dp_secret_redaction_enabled d
              \<or> \<not> dp_external_transmission_consented d
              \<or> dp_redaction_version d \<noteq> REDACTION_VERSION) InvalidDataPolicy"

definition restricted :: escalation_policy where
  "restricted = \<lparr>ep_policy = OnlyIfAmbiguous, ep_automatic = False, ep_max_escalations = 1,
     ep_requires_human_approval = True\<rparr>"

definition validate_escalation :: "escalation_policy \<Rightarrow> ai_error + unit" where
  "validate_escalation e =
     fail_if (ep_policy e \<noteq> OnlyIfAmbiguous \<or> ep_automatic e \<or> ep_max_escalations e \<noteq> 1
              \<or> \<not> ep_requires_human_approval e) InvalidEscalation"

definition advisory_only :: advisory_authority where
  "advisory_only = \<lparr>aa_assessment_role = AdvisoryOnly, aa_validation_authority = AiHumanOnly,
     aa_can_change_human_decision = False\<rparr>"

definition validate_authority :: "advisory_authority \<Rightarrow> ai_error + unit" where
  "validate_authority a =
     fail_if (aa_assessment_role a \<noteq> AdvisoryOnly \<or> aa_validation_authority a \<noteq> AiHumanOnly
              \<or> aa_can_change_human_decision a) InvalidAuthority"

definition validate_redacted_taxonomy :: "redacted_taxonomy \<Rightarrow> ai_error + unit" where
  "validate_redacted_taxonomy t = checks [
     ai_text (rt_version t) ''payload.taxonomy.version'' 50,
     ai_text (rt_category_id t) ''payload.taxonomy.category_id'' 100,
     ai_text (rt_invariant_id t) ''payload.taxonomy.invariant_id'' 100]"

definition validate_redacted_location :: "redacted_location \<Rightarrow> ai_error + unit" where
  "validate_redacted_location l = checks [
     ai_relative_path (rlo_path l) ''payload.location.path'',
     fail_if (rlo_line l = 0 \<or> rlo_column l = 0) (AiInvalidField ''payload.location'')]"

definition validate_payload :: "redacted_finding \<Rightarrow> ai_error + unit" where
  "validate_payload p = checks [
     ai_text (rfi_title p) ''payload.title'' 300,
     ai_text (rfi_rule_id p) ''payload.rule_id'' 100,
     check_opt validate_redacted_taxonomy (rfi_taxonomy p),
     validate_redacted_location (rfi_source p),
     validate_redacted_location (rfi_sink p),
     ai_text (rfi_invariant p) ''payload.invariant'' 1000,
     fail_if (rfi_evidence_path p = [] \<or> 1000 < length (rfi_evidence_path p))
       (AiInvalidField ''payload.evidence_path''),
     each (\<lambda>s. validate_redacted_location (rst_location s)) (rfi_evidence_path p),
     fail_if (1000 < length (rfi_limitations p)) (AiInvalidField ''payload.limitations''),
     each (\<lambda>l. ai_text l ''payload.limitations'' 500) (rfi_limitations p),
     fail_if (rfi_excluded_fields p \<noteq> excluded_fields) (AiInvalidField ''payload.excluded_fields'')]"

fun purpose_label :: "ai_purpose \<Rightarrow> string" where
  "purpose_label AmbiguityAnalysis = ''ambiguity-analysis''"
| "purpose_label CandidatePrioritization = ''candidate-prioritization''"

definition request_material ::
    "string \<Rightarrow> string \<Rightarrow> string \<Rightarrow> string \<Rightarrow> string \<Rightarrow> ai_purpose \<Rightarrow> u64 \<Rightarrow> ai_budget \<Rightarrow> string" where
  "request_material run_id target_sha256 finding_id payload_sha256 created_at purpose events b =
     run_id @ CHR 0x00 # target_sha256 @ CHR 0x00 # finding_id @ CHR 0x00 # payload_sha256
       @ CHR 0x00 # created_at @ CHR 0x00 # purpose_label purpose @ CHR 0x00 # show_word events
       @ CHR 0x00 # show_word (bu_max_calls b) @ CHR 0x00 # show_word (bu_max_input_tokens b)
       @ CHR 0x00 # show_word (bu_max_output_tokens b)
       @ CHR 0x00 # show_word (bu_max_payload_bytes b) @ CHR 0x00 # PROMPT_VERSION"

definition request_id ::
    "digest_fun \<Rightarrow> string \<Rightarrow> string \<Rightarrow> string \<Rightarrow> string \<Rightarrow> string \<Rightarrow> ai_purpose \<Rightarrow> u64 \<Rightarrow> ai_budget
     \<Rightarrow> string" where
  "request_id sha run_id target_sha256 finding_id payload_sha256 created_at purpose events b =
     ''sf_ai_request_'' @ ai_sha256_hex sha
       (request_material run_id target_sha256 finding_id payload_sha256 created_at purpose events b)"

definition validate_request ::
    "ts_parser \<Rightarrow> digest_fun \<Rightarrow> (redacted_finding \<Rightarrow> string) \<Rightarrow> ai_request_envelope
     \<Rightarrow> ai_error + unit" where
  "validate_request ts sha ser q = (let bytes = ser (aq_payload q); b = aq_budget q in checks [
     fail_if (aq_contract_version q \<noteq> REQUEST_VERSION) (UnsupportedRequest (aq_contract_version q)),
     fail_if (\<not> ai_prefixed_hash (aq_request_id q) ''sf_ai_request_'') (AiInvalidField ''request_id''),
     ai_timestamp ts (aq_created_at q) ''created_at'',
     validate_prefixed_identifier (aq_linked_run_id q) ''sf_run_'' ''linked_run_id'',
     ai_sha256 (aq_target_sha256 q) ''target_sha256'',
     validate_prefixed_identifier (aq_finding_id q) ''sf_finding_'' ''finding_id'',
     fail_if (aq_provider q \<noteq> ''openai'') (AiInvalidField ''provider''),
     fail_if (aq_model_family q \<noteq> Luna \<or> aq_prompt_version q \<noteq> PROMPT_VERSION) InvalidRouting,
     validate_budget b,
     validate_data_policy (aq_data_policy q),
     validate_escalation (aq_escalation q),
     validate_authority (aq_authority q),
     validate_payload (aq_payload q),
     fail_if (aq_payload_bytes q \<noteq> of_nat (length bytes)
              \<or> aq_payload_sha256 q \<noteq> ai_sha256_hex sha bytes) PayloadFingerprintMismatch,
     fail_if (bu_max_payload_bytes b < aq_payload_bytes q
              \<or> bu_payload_token_upper_bound b \<noteq> aq_payload_bytes q
              \<or> bu_max_input_tokens b
                 < saturating_add (bu_payload_token_upper_bound b) (bu_reserved_prompt_tokens b))
       (BudgetExceeded ''prepared payload''),
     fail_if (aq_request_id q \<noteq> request_id sha (aq_linked_run_id q) (aq_target_sha256 q)
                (aq_finding_id q) (aq_payload_sha256 q) (aq_created_at q) (aq_purpose q)
                (dp_redaction_events (aq_data_policy q)) b) RequestFingerprintMismatch])"

definition validate_response :: "ts_parser \<Rightarrow> ai_response_envelope \<Rightarrow> ai_error + unit" where
  "validate_response ts r = checks [
     fail_if (an_contract_version r \<noteq> RESPONSE_VERSION) (UnsupportedResponse (an_contract_version r)),
     fail_if (\<not> ai_prefixed_hash (an_request_id r) ''sf_ai_request_'')
       (AiInvalidField ''response.request_id''),
     ai_timestamp ts (an_responded_at r) ''response.responded_at'',
     fail_if (an_provider r \<noteq> ''openai'' \<or> an_model_family r \<noteq> Luna
              \<or> an_prompt_version r \<noteq> PROMPT_VERSION \<or> an_validation_authority r \<noteq> AiHumanOnly)
       InvalidRouting,
     ai_sha256 (an_request_payload_sha256 r) ''response.request_payload_sha256'',
     fail_if (10000000 < an_input_tokens r \<or> 10000000 < an_output_tokens r)
       (AiInvalidField ''response.tokens''),
     ai_text (an_analysis_summary r) ''response.analysis_summary'' 8000,
     fail_if (100 < length (an_limitations r)) (AiInvalidField ''response.limitations'')]"

definition parse_request ::
    "ts_parser \<Rightarrow> digest_fun \<Rightarrow> (redacted_finding \<Rightarrow> string)
     \<Rightarrow> (string \<Rightarrow> ai_request_envelope option) \<Rightarrow> string \<Rightarrow> ai_error + ai_request_envelope" where
  "parse_request ts sha ser from_json bytes =
     and_then (validate_document_size bytes) (\<lambda>_.
     and_then (ok_or (from_json bytes) AiJson) (\<lambda>request.
     and_then (validate_request ts sha ser request) (\<lambda>_. Ok request)))"

definition parse_response ::
    "ts_parser \<Rightarrow> (string \<Rightarrow> ai_response_envelope option) \<Rightarrow> string
     \<Rightarrow> ai_error + ai_response_envelope" where
  "parse_response ts from_json bytes =
     and_then (validate_document_size bytes) (\<lambda>_.
     and_then (ok_or (from_json bytes) AiJson) (\<lambda>response.
     and_then (validate_response ts response) (\<lambda>_. Ok response)))"

section \<open>Preparing a request and applying a response\<close>

definition prepare_request ::
    "ts_parser \<Rightarrow> digest_fun \<Rightarrow> (redacted_finding \<Rightarrow> string) \<Rightarrow> run_manifest \<Rightarrow> string
     \<Rightarrow> prepare_options \<Rightarrow> ai_error + ai_request_envelope" where
  "prepare_request ts sha ser m finding_id options =
     and_then (map_err AiModel (validate_manifest ts m)) (\<lambda>_.
     and_then (checks [
       fail_if (\<not> po_enable_ai options) AiDisabled,
       fail_if (\<not> po_consent_redacted_export options) ConsentRequired,
       ai_timestamp ts (po_created_at options) ''created_at'']) (\<lambda>_.
     and_then (ok_or (List.find (\<lambda>f. fd_finding_id f = finding_id) (rm_findings m))
       (AiFindingNotFound finding_id)) (\<lambda>finding.
     and_then (fail_if (ai_status (fd_ai_validation finding) \<noteq> AiNotRequested)
       (AiAlreadyRequested finding_id)) (\<lambda>_.
     let (payload, redaction_events) = redact_finding finding
     in and_then (validate_payload payload) (\<lambda>_.
        let payload_bytes = ser payload;
            payload_sha256 = ai_sha256_hex sha payload_bytes;
            budget = \<lparr>bu_max_calls = 1, bu_max_input_tokens = po_max_input_tokens options,
              bu_max_output_tokens = po_max_output_tokens options,
              bu_max_payload_bytes = po_max_payload_bytes options,
              bu_reserved_prompt_tokens = RESERVED_PROMPT_TOKENS,
              bu_payload_token_upper_bound = of_nat (length payload_bytes),
              bu_token_bound_method = ''utf8-bytes-conservative-upper-bound''\<rparr>
        in and_then (validate_budget budget) (\<lambda>_.
           let policy = \<lparr>dp_local_preparation_only = True, dp_source_code_included = False,
                 dp_evidence_descriptions_included = False, dp_secret_redaction_enabled = True,
                 dp_external_transmission_consented = True,
                 dp_redaction_version = REDACTION_VERSION,
                 dp_redaction_events = redaction_events\<rparr>;
               request = \<lparr>aq_contract_version = REQUEST_VERSION,
                 aq_request_id = request_id sha (rm_run_id m) (tg_root_sha256 (rm_target m))
                   finding_id payload_sha256 (po_created_at options) (po_purpose options)
                   (dp_redaction_events policy) budget,
                 aq_created_at = po_created_at options, aq_linked_run_id = rm_run_id m,
                 aq_target_sha256 = tg_root_sha256 (rm_target m), aq_finding_id = finding_id,
                 aq_purpose = po_purpose options, aq_provider = ''openai'',
                 aq_model_family = Luna, aq_prompt_version = PROMPT_VERSION,
                 aq_budget = budget, aq_data_policy = policy, aq_escalation = restricted,
                 aq_authority = advisory_only, aq_payload_sha256 = payload_sha256,
                 aq_payload_bytes = of_nat (length payload_bytes), aq_payload = payload\<rparr>
           in and_then (validate_request ts sha ser request) (\<lambda>_. Ok request)))))))"

fun model_label :: "model_family \<Rightarrow> string" where
  "model_label Luna = ''luna''"

definition completed_advice ::
    "digest_fun \<Rightarrow> ai_request_envelope \<Rightarrow> ai_response_envelope \<Rightarrow> string \<Rightarrow> ai_validation
     \<Rightarrow> ai_validation" where
  "completed_advice sha request response response_bytes a = a\<lparr>
     ai_status := AiCompleted, ai_request_id := Some (aq_request_id request),
     ai_provider := Some (aq_provider request),
     ai_model := Some (model_label (aq_model_family request)),
     ai_prompt_version := Some (aq_prompt_version request),
     ai_redacted_payload_sha256 := Some (aq_payload_sha256 request),
     ai_response_sha256 := Some (ai_sha256_hex sha response_bytes),
     ai_input_tokens := Some (an_input_tokens response),
     ai_output_tokens := Some (an_output_tokens response),
     ai_assessment_of := Some (an_assessment response)\<rparr>"

text \<open>
  The code changes a clone and assigns it at the end, so an error leaves the manifest as it was:
  the result is the new manifest or the error.
\<close>

definition apply_response ::
    "ts_parser \<Rightarrow> digest_fun \<Rightarrow> (redacted_finding \<Rightarrow> string) \<Rightarrow> ai_request_envelope
     \<Rightarrow> ai_response_envelope \<Rightarrow> string \<Rightarrow> run_manifest \<Rightarrow> ai_error + run_manifest" where
  "apply_response ts sha ser request response response_bytes m =
     and_then (map_err AiModel (validate_manifest ts m)) (\<lambda>_.
     and_then (checks [
       validate_request ts sha ser request,
       validate_response ts response,
       validate_document_size response_bytes,
       fail_if (aq_linked_run_id request \<noteq> rm_run_id m
                \<or> aq_target_sha256 request \<noteq> tg_root_sha256 (rm_target m)
                \<or> an_request_id response \<noteq> aq_request_id request
                \<or> an_request_payload_sha256 response \<noteq> aq_payload_sha256 request
                \<or> an_provider response \<noteq> aq_provider request
                \<or> an_model_family response \<noteq> aq_model_family request
                \<or> an_prompt_version response \<noteq> aq_prompt_version request) ResponseLinkMismatch,
       fail_if (bu_max_input_tokens (aq_budget request) < an_input_tokens response
                \<or> bu_max_output_tokens (aq_budget request) < an_output_tokens response)
         (BudgetExceeded ''provider token usage'')]) (\<lambda>_.
     case position (\<lambda>f. fd_finding_id f = aq_finding_id request) (rm_findings m) of
       None \<Rightarrow> Err (AiFindingNotFound (aq_finding_id request))
     | Some i \<Rightarrow>
         let finding = rm_findings m ! i in
         if ai_status (fd_ai_validation finding) \<noteq> AiNotRequested
         then Err (AiAlreadyRequested (aq_finding_id request))
         else
           let finding' = finding\<lparr>fd_ai_validation :=
                 completed_advice sha request response response_bytes (fd_ai_validation finding)\<rparr>
           in if hr_decision (fd_human_review finding') \<noteq> hr_decision (fd_human_review finding)
              then Err HumanDecisionChanged
              else
                let derived = refresh_summary (replace_finding i finding' m)
                in and_then (map_err AiModel (validate_manifest ts derived)) (\<lambda>_. Ok derived)))"


section \<open>What redaction guarantees\<close>

definition suspicious :: "string \<Rightarrow> bool" where
  "suspicious v \<longleftrightarrow> has_sensitive_marker v \<or> has_high_entropy_token v \<or> is_email_like v"

text \<open>Every text of a payload, and the texts of a finding that they are made from.\<close>

definition payload_texts :: "redacted_finding \<Rightarrow> string list" where
  "payload_texts p =
     rlo_path (rfi_source p) # rlo_path (rfi_sink p)
     # map (\<lambda>s. rlo_path (rst_location s)) (rfi_evidence_path p)
     @ (case rfi_taxonomy p of
          None \<Rightarrow> [] | Some t \<Rightarrow> [rt_version t, rt_category_id t, rt_invariant_id t])
     @ rfi_title p # rfi_rule_id p # rfi_invariant p # rfi_limitations p"

definition exported_texts :: "finding \<Rightarrow> string list" where
  "exported_texts f =
     loc_path (fd_source_location f) # loc_path (fd_sink_location f)
     # map (\<lambda>s. loc_path (es_location s)) (fd_evidence_path f)
     @ (case fd_taxonomy f of
          None \<Rightarrow> [] | Some t \<Rightarrow> [tx_version t, tx_category_id t, tx_invariant_id t])
     @ fd_title f # fd_rule_id f # fd_invariant f # fd_limitations f"

lemma placeholder_clean: "\<not> suspicious PLACEHOLDER"
proof -
  have "\<not> has_sensitive_marker PLACEHOLDER" by code_simp
  moreover have "\<not> has_high_entropy_token PLACEHOLDER" by code_simp
  moreover have "\<not> is_email_like PLACEHOLDER" by code_simp
  ultimately show ?thesis by (simp add: suspicious_def)
qed

definition redacted :: "string \<Rightarrow> string" where
  "redacted v = (if suspicious v then PLACEHOLDER else v)"

lemma redact_text_suspicious: "redact_text v = (redacted v, suspicious v)"
  by (simp add: redact_text_def redacted_def suspicious_def)

lemma redacted_clean: "\<not> suspicious (redacted v)"
  by (simp add: redacted_def placeholder_clean)

text \<open>
  A redaction step that takes texts and the counter: the texts it returns are the redacted ones,
  and the counter grows by the number of suspicious ones, up to its maximum.
\<close>

definition counted :: "string list \<Rightarrow> u64 \<Rightarrow> u64 \<Rightarrow> bool" where
  "counted texts n n' \<longleftrightarrow> unat n' = min (unat n + count_if suspicious texts) (2 ^ 64 - 1)"

lemma unat_u64_max: "min (unat (n :: u64)) 18446744073709551615 = unat n"
  using unsigned_less [where w = n and 'a = nat] by simp

lemma counted_Nil: "counted [] n n"
  by (simp add: counted_def unat_u64_max)

lemma counted_append: "counted xs n n1 \<Longrightarrow> counted ys n1 n2 \<Longrightarrow> counted (xs @ ys) n n2"
  by (simp add: counted_def count_if_def)

lemma counted_Cons: "counted [x] n n1 \<Longrightarrow> counted ys n1 n2 \<Longrightarrow> counted (x # ys) n n2"
  using counted_append [of "[x]" n n1 ys n2] by simp

lemma redact_counted: "redact v n = (w, n') \<Longrightarrow> w = redacted v \<and> counted [v] n n'"
  by (auto simp: redact_def redact_text_suspicious counted_def saturating_add_unat unat_u64_max
      split: if_splits)

lemma redact_all_counted:
  "redact_all vs n = (ws, n') \<Longrightarrow> ws = map redacted vs \<and> counted vs n n'"
proof (induction vs arbitrary: n ws n')
  case Nil
  then show ?case by (simp add: counted_Nil)
next
  case (Cons v vs)
  then show ?case
    by (auto split: prod.splits dest!: redact_counted intro: counted_Cons)
qed

lemma redact_location_counted:
  "redact_location l n = (r, n') \<Longrightarrow>
     r = \<lparr>rlo_path = redacted (loc_path l), rlo_line = loc_start_line l,
          rlo_column = loc_start_column l\<rparr> \<and> counted [loc_path l] n n'"
  by (auto simp: redact_location_def split: prod.splits dest!: redact_counted)

lemma redact_steps_counted:
  "redact_steps ss n = (rs, n') \<Longrightarrow>
     map (\<lambda>s. rlo_path (rst_location s)) rs = map (\<lambda>s. redacted (loc_path (es_location s))) ss
   \<and> length rs = length ss \<and> counted (map (\<lambda>s. loc_path (es_location s)) ss) n n'"
proof (induction ss arbitrary: n rs n')
  case Nil
  then show ?case by (simp add: counted_Nil)
next
  case (Cons s ss)
  then show ?case
    by (fastforce split: prod.splits dest!: redact_location_counted intro: counted_Cons)
qed

lemma redact_taxonomy_counted:
  assumes "redact_taxonomy t n = (r, n')"
  shows "(case r of None \<Rightarrow> [] | Some x \<Rightarrow> [rt_version x, rt_category_id x, rt_invariant_id x])
       = map redacted (case t of
           None \<Rightarrow> [] | Some x \<Rightarrow> [tx_version x, tx_category_id x, tx_invariant_id x])
    \<and> counted (case t of
           None \<Rightarrow> [] | Some x \<Rightarrow> [tx_version x, tx_category_id x, tx_invariant_id x]) n n'"
  using assms
  by (auto simp: redact_taxonomy_def counted_Nil split: option.splits prod.splits
      dest!: redact_counted intro: counted_Cons)

lemma redact_finding_texts:
  assumes "redact_finding f = (p, n)"
  shows "payload_texts p = map redacted (exported_texts f)" and "counted (exported_texts f) 0 n"
proof -
  obtain src n1 snk n2 ev n3 tx n4 ti n5 ru n6 iv n7 li
    where l1: "redact_location (fd_source_location f) 0 = (src, n1)"
      and l2: "redact_location (fd_sink_location f) n1 = (snk, n2)"
      and l3: "redact_steps (fd_evidence_path f) n2 = (ev, n3)"
      and l4: "redact_taxonomy (fd_taxonomy f) n3 = (tx, n4)"
      and l5: "redact (fd_title f) n4 = (ti, n5)" and l6: "redact (fd_rule_id f) n5 = (ru, n6)"
      and l7: "redact (fd_invariant f) n6 = (iv, n7)"
      and l8: "redact_all (fd_limitations f) n7 = (li, n)"
      and p: "p = \<lparr>rfi_title = ti, rfi_rule_id = ru, rfi_taxonomy = tx,
           rfi_severity = fd_severity f, rfi_confidence = fd_confidence f, rfi_source = src,
           rfi_sink = snk, rfi_invariant = iv, rfi_evidence_path = ev,
           rfi_limitations = li, rfi_excluded_fields = excluded_fields\<rparr>"
    using assms unfolding redact_finding_def Let_def by (auto split: prod.splits)
  note steps = redact_location_counted [OF l1] redact_location_counted [OF l2]
    redact_steps_counted [OF l3] redact_taxonomy_counted [OF l4] redact_counted [OF l5]
    redact_counted [OF l6] redact_counted [OF l7] redact_all_counted [OF l8]
  show "payload_texts p = map redacted (exported_texts f)"
    unfolding payload_texts_def exported_texts_def using steps by (simp add: p)
  show "counted (exported_texts f) 0 n"
    unfolding exported_texts_def using steps by (blast intro: counted_Cons counted_append)
qed

end
