(* ===== verification/RunAuthority.thy ===== *)
theory RunAuthority
  imports AiAdvisory
begin

text \<open>
  The life of a run after its analysis: people review findings (\<open>review-run\<close>) and advisory
  answers are attached to them (\<open>apply_response\<close> of the crate secureflow-ai). This theory states
  when an answer is accepted and what it changes, and that a run keeps its human decisions.
\<close>

section \<open>Accepting an answer\<close>

lemma ai_sha256_iff [ok_iff]: "ai_sha256 v f = Inr u \<longleftrightarrow> sha256_wf v"
  by (auto simp: ai_sha256_def ok_iff sha256_wf_def is_lower_hex_of_length_def)

lemma ai_timestamp_iff [ok_iff]: "ai_timestamp ts v f = Inr u \<longleftrightarrow> ts v \<noteq> None"
  by (simp add: ai_timestamp_def ok_iff)

lemma validate_document_size_iff [ok_iff]:
  "validate_document_size b = Inr u \<longleftrightarrow> b \<noteq> [] \<and> length b \<le> MAX_DOCUMENT_BYTES"
  by (auto simp: validate_document_size_def ok_iff)

lemma ai_prefixed_hash_identifier:
  "ai_prefixed_hash v p \<Longrightarrow> valid_identifier v p 64 64"
  by (auto simp: ai_prefixed_hash_def valid_identifier_def list_all_iff is_lower_hex_alnum
      split: option.splits)

text \<open>The guards of \<open>apply_response\<close> that do not depend on the findings of the run.\<close>

definition response_links ::
    "ai_request_envelope \<Rightarrow> ai_response_envelope \<Rightarrow> run_manifest \<Rightarrow> bool" where
  "response_links q r m \<longleftrightarrow>
     aq_linked_run_id q = rm_run_id m \<and> aq_target_sha256 q = tg_root_sha256 (rm_target m)
   \<and> an_request_id r = aq_request_id q \<and> an_request_payload_sha256 r = aq_payload_sha256 q
   \<and> an_provider r = aq_provider q \<and> an_model_family r = aq_model_family q
   \<and> an_prompt_version r = aq_prompt_version q"

definition response_in_budget :: "ai_request_envelope \<Rightarrow> ai_response_envelope \<Rightarrow> bool" where
  "response_in_budget q r \<longleftrightarrow>
     an_input_tokens r \<le> bu_max_input_tokens (aq_budget q)
   \<and> an_output_tokens r \<le> bu_max_output_tokens (aq_budget q)"

definition answer_accepted ::
    "ts_parser \<Rightarrow> digest_fun \<Rightarrow> (redacted_finding \<Rightarrow> string) \<Rightarrow> ai_request_envelope
     \<Rightarrow> ai_response_envelope \<Rightarrow> string \<Rightarrow> run_manifest \<Rightarrow> bool" where
  "answer_accepted ts sha ser q r bytes m \<longleftrightarrow>
     validate_request ts sha ser q = Ok () \<and> validate_response ts r = Ok ()
   \<and> bytes \<noteq> [] \<and> length bytes \<le> MAX_DOCUMENT_BYTES
   \<and> response_links q r m \<and> response_in_budget q r"

text \<open>What a valid request has fixed, and that the advice made from it is well formed.\<close>

lemma validate_request_fields:
  assumes "validate_request ts sha ser q = Ok ()"
  shows "valid_identifier (aq_request_id q) ''sf_ai_request_'' 64 64"
    and "aq_provider q = ''openai''" and "aq_model_family q = Luna"
    and "aq_prompt_version q = PROMPT_VERSION"
    and "aq_payload_sha256 q = ai_sha256_hex sha (ser (aq_payload q))"
    and "bu_max_input_tokens (aq_budget q) \<le> 200000"
    and "bu_max_output_tokens (aq_budget q) \<le> 20000"
    and "validate_payload (aq_payload q) = Ok ()"
    and "dp_external_transmission_consented (aq_data_policy q)"
    and "\<not> dp_source_code_included (aq_data_policy q)"
    and "ep_requires_human_approval (aq_escalation q)" and "\<not> ep_automatic (aq_escalation q)"
    and "\<not> aa_can_change_human_decision (aq_authority q)"
    and "ai_prefixed_hash (aq_request_id q) ''sf_ai_request_''"
  using assms
  by (auto simp: validate_request_def Let_def ok_iff validate_budget_def validate_data_policy_def
      validate_escalation_def validate_authority_def intro: ai_prefixed_hash_identifier)

lemma ai_digest_wf: "digest_length sha \<Longrightarrow> sha256_wf (ai_sha256_hex sha x)"
  using hext.digest_id [of sha x]
  by (simp add: ai_sha256_hex_def sha256_wf_def is_lower_hex_of_length_def)

lemma validate_response_tokens:
  "validate_response ts r = Ok () \<Longrightarrow>
     an_input_tokens r \<le> 10000000 \<and> an_output_tokens r \<le> 10000000"
  by (simp add: validate_response_def ok_iff not_less)

lemma routing_texts_wf:
  "text_wf 100 ''openai''" "text_wf 100 (model_label Luna)" "text_wf 100 PROMPT_VERSION"
  by (simp_all add: PROMPT_VERSION_def string_simps)

lemma completed_advice_wf:
  assumes sha: "digest_length sha" and q: "validate_request ts sha ser q = Ok ()"
    and r: "validate_response ts r = Ok ()"
  shows "ai_validation_wf (completed_advice sha q r bytes a)"
  using validate_request_fields [OF q] validate_response_tokens [OF r] ai_digest_wf [OF sha]
    routing_texts_wf
  by (simp add: ai_validation_wf_def ai_status_wf_def completed_advice_def
      request_metadata_complete_def)

section \<open>The manifest with the advice\<close>

definition record_advice :: "nat \<Rightarrow> ai_validation \<Rightarrow> run_manifest \<Rightarrow> run_manifest" where
  "record_advice i a m =
     refresh_summary (replace_finding i ((rm_findings m ! i)\<lparr>fd_ai_validation := a\<rparr>) m)"

lemma record_advice_findings [simp]:
  "rm_findings (record_advice i a m)
     = (rm_findings m)[i := (rm_findings m ! i)\<lparr>fd_ai_validation := a\<rparr>]"
  by (simp add: record_advice_def replace_finding_def)

text \<open>The phases only depend on which findings are pending.\<close>

lemma pending_ex: "(\<exists>f \<in> set fs. P (is_pending f)) \<longleftrightarrow> (\<exists>b \<in> set (map is_pending fs). P b)"
  by auto

lemma phases_wf_pending:
  "map is_pending fs = map is_pending gs \<Longrightarrow> phases_wf p fs = phases_wf p gs"
proof -
  assume eq: "map is_pending fs = map is_pending gs"
  have "(\<exists>f \<in> set fs. P (is_pending f)) = (\<exists>f \<in> set gs. P (is_pending f))" for P
    by (simp only: pending_ex eq)
  from this [of "\<lambda>x. x"] this [of Not] show ?thesis by (auto simp: phases_wf_def)
qed

lemma record_advice_wf:
  assumes m: "manifest_wf ts m" and i: "i < length (rm_findings m)" and a: "ai_validation_wf a"
  shows "manifest_wf ts (record_advice i a m)"
proof -
  let ?g = "(rm_findings m ! i)\<lparr>fd_ai_validation := a\<rparr>"
  have "finding_wf ts (rm_findings m ! i)" using m i by (simp add: manifest_wf_def)
  then have g: "finding_wf ts ?g"
    using a same_candidate_fields(2) [of "rm_findings m ! i" ?g] by (simp add: finding_wf_def)
  have "map is_pending ((rm_findings m)[i := ?g]) = map is_pending (rm_findings m)"
    using i by (simp add: map_key_update is_pending_def)
  from phases_wf_pending [OF this, of "rm_phases m"]
  have "phases_wf (rm_phases (replace_finding i ?g m)) (rm_findings (replace_finding i ?g m))"
    using m by (simp add: replace_finding_def manifest_wf_def)
  with replace_finding_wf [OF m i same_candidate_ai g] show ?thesis
    by (simp add: record_advice_def refresh_summary_wf)
qed

lemma record_advice_decisions:
  assumes "manifest_wf ts m" and "i < length (rm_findings m)"
  shows "decisions (record_advice i a m) = decisions m"
proof -
  have "decision_of ((rm_findings m ! i)\<lparr>fd_ai_validation := a\<rparr>) = decision_of (rm_findings m ! i)"
    by (simp add: decision_of_def is_pending_def)
  with decisions_replace [OF assms same_candidate_ai] decisions_nth [OF assms] show ?thesis
    by (simp add: record_advice_def fun_upd_idem_iff)
qed

lemma apply_response_steps:
  "apply_response ts sha ser q r bytes m = Inr m' \<longleftrightarrow>
     manifest_wf ts m \<and> answer_accepted ts sha ser q r bytes m
   \<and> (\<exists>i. position (\<lambda>f. fd_finding_id f = aq_finding_id q) (rm_findings m) = Some i
        \<and> ai_status (fd_ai_validation (rm_findings m ! i)) = AiNotRequested
        \<and> m' = record_advice i
            (completed_advice sha q r bytes (fd_ai_validation (rm_findings m ! i))) m
        \<and> manifest_wf ts m')"
  by (auto simp: apply_response_def ok_iff answer_accepted_def response_links_def
      response_in_budget_def Let_def record_advice_def [symmetric] not_less
      split: option.splits if_splits)

lemma apply_response_iff:
  assumes sha: "digest_length sha"
  shows "apply_response ts sha ser q r bytes m = Inr m' \<longleftrightarrow>
     manifest_wf ts m \<and> answer_accepted ts sha ser q r bytes m
   \<and> (\<exists>i. position (\<lambda>f. fd_finding_id f = aq_finding_id q) (rm_findings m) = Some i
        \<and> ai_status (fd_ai_validation (rm_findings m ! i)) = AiNotRequested
        \<and> m' = record_advice i
            (completed_advice sha q r bytes (fd_ai_validation (rm_findings m ! i))) m)"
proof -
  have "manifest_wf ts (record_advice i
      (completed_advice sha q r bytes (fd_ai_validation (rm_findings m ! i))) m)"
    if "manifest_wf ts m" and "answer_accepted ts sha ser q r bytes m"
      and "position (\<lambda>f. fd_finding_id f = aq_finding_id q) (rm_findings m) = Some i" for i
    using that position_Some [OF that(3)] completed_advice_wf [OF sha]
    by (intro record_advice_wf) (auto simp: answer_accepted_def)
  then show ?thesis unfolding apply_response_steps by blast
qed

section \<open>Preparing a request\<close>

text \<open>The options and the finding for which a request is made.\<close>

definition prepare_options_ok :: "ts_parser \<Rightarrow> prepare_options \<Rightarrow> nat \<Rightarrow> bool" where
  "prepare_options_ok ts opts payload_length \<longleftrightarrow>
     po_enable_ai opts \<and> po_consent_redacted_export opts \<and> ts (po_created_at opts) \<noteq> None
   \<and> unat (po_max_input_tokens opts) \<in> {1000..200000}
   \<and> unat (po_max_output_tokens opts) \<in> {1..20000}
   \<and> unat (po_max_payload_bytes opts) \<in> {256..262144}
   \<and> payload_length \<le> unat (po_max_payload_bytes opts)
   \<and> payload_length + 700 \<le> unat (po_max_input_tokens opts)"

lemma valid_identifier_prefixed:
  "valid_identifier v p 16 n \<Longrightarrow> n \<le> 100 \<Longrightarrow> validate_prefixed_identifier v p f = Inr ()"
  by (auto simp: valid_identifier_def validate_prefixed_identifier_def Let_def ok_iff
      split: option.splits)

lemma ai_digest_prefixed: "digest_length sha \<Longrightarrow> ai_prefixed_hash (p @ ai_sha256_hex sha x) p"
  using hext.digest_id [of sha x] by (simp add: ai_prefixed_hash_def ai_sha256_hex_def)

lemma valid_manifest_ids:
  assumes "manifest_wf ts m"
  shows "validate_prefixed_identifier (rm_run_id m) ''sf_run_'' f = Inr ()"
    and "sha256_wf (tg_root_sha256 (rm_target m))"
    and "x \<in> set (rm_findings m) \<Longrightarrow>
           validate_prefixed_identifier (fd_finding_id x) ''sf_finding_'' f = Inr ()"
  using assms
  by (auto simp: manifest_wf_def manifest_frame_wf_def target_wf_def finding_wf_def candidate_wf_def
      intro: valid_identifier_prefixed)

definition prepared_budget :: "prepare_options \<Rightarrow> nat \<Rightarrow> ai_budget" where
  "prepared_budget opts n = \<lparr>bu_max_calls = 1, bu_max_input_tokens = po_max_input_tokens opts,
     bu_max_output_tokens = po_max_output_tokens opts,
     bu_max_payload_bytes = po_max_payload_bytes opts,
     bu_reserved_prompt_tokens = RESERVED_PROMPT_TOKENS, bu_payload_token_upper_bound = of_nat n,
     bu_token_bound_method = ''utf8-bytes-conservative-upper-bound''\<rparr>"

definition prepared_request ::
    "digest_fun \<Rightarrow> (redacted_finding \<Rightarrow> string) \<Rightarrow> run_manifest \<Rightarrow> finding \<Rightarrow> prepare_options
     \<Rightarrow> ai_request_envelope" where
  "prepared_request sha ser m f opts =
     (let (payload, events) = redact_finding f; bytes = ser payload;
          budget = prepared_budget opts (length bytes)
      in \<lparr>aq_contract_version = REQUEST_VERSION,
          aq_request_id = request_id sha (rm_run_id m) (tg_root_sha256 (rm_target m))
            (fd_finding_id f) (ai_sha256_hex sha bytes) (po_created_at opts) (po_purpose opts)
            events budget,
          aq_created_at = po_created_at opts, aq_linked_run_id = rm_run_id m,
          aq_target_sha256 = tg_root_sha256 (rm_target m), aq_finding_id = fd_finding_id f,
          aq_purpose = po_purpose opts, aq_provider = ''openai'', aq_model_family = Luna,
          aq_prompt_version = PROMPT_VERSION, aq_budget = budget,
          aq_data_policy = \<lparr>dp_local_preparation_only = True, dp_source_code_included = False,
            dp_evidence_descriptions_included = False, dp_secret_redaction_enabled = True,
            dp_external_transmission_consented = True, dp_redaction_version = REDACTION_VERSION,
            dp_redaction_events = events\<rparr>,
          aq_escalation = restricted, aq_authority = advisory_only,
          aq_payload_sha256 = ai_sha256_hex sha bytes, aq_payload_bytes = of_nat (length bytes),
          aq_payload = payload\<rparr>)"

lemma prepared_request_fields [simp]:
  "aq_finding_id (prepared_request sha ser m f opts) = fd_finding_id f"
  "aq_linked_run_id (prepared_request sha ser m f opts) = rm_run_id m"
  "aq_target_sha256 (prepared_request sha ser m f opts) = tg_root_sha256 (rm_target m)"
  "aq_payload (prepared_request sha ser m f opts) = fst (redact_finding f)"
  "dp_redaction_events (aq_data_policy (prepared_request sha ser m f opts)) = snd (redact_finding f)"
  "aq_budget (prepared_request sha ser m f opts)
     = prepared_budget opts (length (ser (fst (redact_finding f))))"
  by (simp_all add: prepared_request_def Let_def split: prod.split)

lemma prepared_budget_valid:
  assumes "n < 2 ^ 64"
  shows "validate_budget (prepared_budget opts n) = Inr ()
       \<and> \<not> (po_max_payload_bytes opts < (of_nat n :: u64)
            \<or> po_max_input_tokens opts < saturating_add (of_nat n) RESERVED_PROMPT_TOKENS)
     \<longleftrightarrow> unat (po_max_input_tokens opts) \<in> {1000..200000}
       \<and> unat (po_max_output_tokens opts) \<in> {1..20000}
       \<and> unat (po_max_payload_bytes opts) \<in> {256..262144}
       \<and> n \<le> unat (po_max_payload_bytes opts) \<and> n + 700 \<le> unat (po_max_input_tokens opts)"
proof -
  have len: "unat (of_nat n :: u64) = n" using assms by (rule unat_of_nat_u64)
  have "unat RESERVED_PROMPT_TOKENS = 700" by (simp add: RESERVED_PROMPT_TOKENS_def)
  then show ?thesis
    by (auto simp: validate_budget_def prepared_budget_def ok_iff not_less word_le_nat_alt
        saturating_add_unat len min_def)
qed

lemma prepared_request_valid:
  assumes sha: "digest_length sha" and m: "manifest_wf ts m" and f: "f \<in> set (rm_findings m)"
    and len: "length (ser (fst (redact_finding f))) < 2 ^ 64"
  shows "validate_request ts sha ser (prepared_request sha ser m f opts) = Inr ()
     \<longleftrightarrow> ts (po_created_at opts) \<noteq> None \<and> validate_payload (fst (redact_finding f)) = Inr ()
       \<and> validate_budget (prepared_budget opts (length (ser (fst (redact_finding f))))) = Inr ()
       \<and> \<not> (po_max_payload_bytes opts < (of_nat (length (ser (fst (redact_finding f)))) :: u64)
            \<or> po_max_input_tokens opts
               < saturating_add (of_nat (length (ser (fst (redact_finding f)))))
                   RESERVED_PROMPT_TOKENS)"
proof -
  have policy: "validate_escalation restricted = Inr ()" "validate_authority advisory_only = Inr ()"
    by (simp_all add: validate_escalation_def restricted_def validate_authority_def
        advisory_only_def ok_iff)
  show ?thesis
    using valid_manifest_ids [OF m] f policy
      ai_digest_prefixed [OF sha, of "''sf_ai_request_''", simplified]
    by (auto simp: validate_request_def prepared_request_def ok_iff Let_def prepared_budget_def
        validate_data_policy_def request_id_def split: prod.splits)
qed

lemma find_by_key:
  "distinct (map key xs) \<Longrightarrow> x \<in> set xs \<Longrightarrow> List.find (\<lambda>y. key y = key x) xs = Some x"
  by (induction xs) (auto simp: image_iff)

lemma prepare_request_iff:
  assumes sha: "digest_length sha" and ser: "\<And>p. length (ser p) < 2 ^ 64"
  shows "prepare_request ts sha ser m k opts = Inr q \<longleftrightarrow>
     manifest_wf ts m
   \<and> (\<exists>f \<in> set (rm_findings m). fd_finding_id f = k
        \<and> ai_status (fd_ai_validation f) = AiNotRequested
        \<and> validate_payload (fst (redact_finding f)) = Inr ()
        \<and> prepare_options_ok ts opts (length (ser (fst (redact_finding f))))
        \<and> q = prepared_request sha ser m f opts)" (is "_ = ?r")
proof -
  let ?p = "\<lambda>f. fst (redact_finding f)"
  let ?n = "\<lambda>f. length (ser (?p f))"
  let ?fits = "\<lambda>f. \<not> (po_max_payload_bytes opts < (of_nat (?n f) :: u64)
      \<or> po_max_input_tokens opts < saturating_add (of_nat (?n f)) RESERVED_PROMPT_TOKENS)"
  have find: "List.find (\<lambda>f. fd_finding_id f = k) (rm_findings m) = Some f
      \<longleftrightarrow> f \<in> set (rm_findings m) \<and> fd_finding_id f = k" if "manifest_wf ts m" for f
    using that find_by_key [of fd_finding_id "rm_findings m" f]
    by (auto simp: manifest_wf_def find_Some_iff)
  have result: "\<lparr>aq_contract_version = REQUEST_VERSION,
      aq_request_id = request_id sha (rm_run_id m) (tg_root_sha256 (rm_target m)) k
        (ai_sha256_hex sha (ser (?p f))) (po_created_at opts) (po_purpose opts) (snd (redact_finding f))
        (prepared_budget opts (length (ser (?p f)))),
      aq_created_at = po_created_at opts, aq_linked_run_id = rm_run_id m,
      aq_target_sha256 = tg_root_sha256 (rm_target m), aq_finding_id = k,
      aq_purpose = po_purpose opts, aq_provider = ''openai'', aq_model_family = Luna,
      aq_prompt_version = PROMPT_VERSION, aq_budget = prepared_budget opts (length (ser (?p f))),
      aq_data_policy = \<lparr>dp_local_preparation_only = True, dp_source_code_included = False,
        dp_evidence_descriptions_included = False, dp_secret_redaction_enabled = True,
        dp_external_transmission_consented = True, dp_redaction_version = REDACTION_VERSION,
        dp_redaction_events = snd (redact_finding f)\<rparr>,
      aq_escalation = restricted, aq_authority = advisory_only,
      aq_payload_sha256 = ai_sha256_hex sha (ser (?p f)), aq_payload_bytes = of_nat (length (ser (?p f))),
      aq_payload = ?p f\<rparr> = prepared_request sha ser m f opts" if "fd_finding_id f = k" for f
    using that by (simp add: prepared_request_def Let_def case_prod_unfold)
  have "prepare_request ts sha ser m k opts = Inr q \<longleftrightarrow>
     manifest_wf ts m \<and> po_enable_ai opts \<and> po_consent_redacted_export opts
   \<and> ts (po_created_at opts) \<noteq> None
   \<and> (\<exists>f. f \<in> set (rm_findings m) \<and> fd_finding_id f = k
        \<and> ai_status (fd_ai_validation f) = AiNotRequested
        \<and> validate_payload (?p f) = Inr () \<and> validate_budget (prepared_budget opts (?n f)) = Inr ()
        \<and> validate_request ts sha ser (prepared_request sha ser m f opts) = Inr ()
        \<and> q = prepared_request sha ser m f opts)"
    unfolding prepare_request_def Let_def
    by (simp add: ok_iff find prepared_budget_def [symmetric] result case_prod_unfold cong: conj_cong)
       blast
  also have "\<dots> \<longleftrightarrow> ?r"
    using prepared_request_valid [where opts = opts and ts = ts and m = m and ser = ser, OF sha _ _ ser]
      prepared_budget_valid [OF ser, of opts]
    by (simp add: prepare_options_ok_def) blast
  finally show ?thesis .
qed

section \<open>What the identifier of a request fixes\<close>

lemma no_nul_prefixed:
  assumes "validate_prefixed_identifier v p f = Inr u" and "CHR 0x00 \<notin> set p"
  shows "CHR 0x00 \<notin> set v"
proof -
  have nul: "\<not> (is_alnum (CHR 0x00) \<or> CHR 0x00 = CHR ''_'' \<or> CHR 0x00 = CHR ''-'')"
    by (simp add: byte_class_defs)
  obtain s where s: "strip_prefix p v = Some s"
    using assms(1) by (cases "strip_prefix p v") (auto simp: validate_prefixed_identifier_def ok_iff)
  then have "\<forall>c \<in> set s. is_alnum c \<or> c = CHR ''_'' \<or> c = CHR ''-''"
    using assms(1) by (simp add: validate_prefixed_identifier_def ok_iff list_all_iff)
  with nul have "CHR 0x00 \<notin> set s" by blast
  with s assms(2) show ?thesis by (auto simp: strip_prefix_Some_iff)
qed

lemma no_nul_sha256: "sha256_wf v \<Longrightarrow> CHR 0x00 \<notin> set v"
  by (simp add: sha256_wf_def is_lower_hex_of_length_def no_nul_hex)

lemma no_nul_show_word: "CHR 0x00 \<notin> set (show_word w)"
  using show_word_digits [of w] by (auto simp: list_all_iff byte_class_defs)

lemma purpose_label_inj: "purpose_label a = purpose_label b \<longleftrightarrow> a = b"
  by (cases a; cases b) simp_all

lemma no_nul_purpose: "CHR 0x00 \<notin> set (purpose_label a)"
  by (cases a) simp_all

definition material_of :: "ai_request_envelope \<Rightarrow> string" where
  "material_of q = request_material (aq_linked_run_id q) (aq_target_sha256 q) (aq_finding_id q)
     (aq_payload_sha256 q) (aq_created_at q) (aq_purpose q)
     (dp_redaction_events (aq_data_policy q)) (aq_budget q)"

lemma valid_request_parts:
  assumes "validate_request ts sha ser q = Ok ()"
  shows "aq_request_id q = ''sf_ai_request_'' @ ai_sha256_hex sha (material_of q)"
    and "aq_contract_version q = REQUEST_VERSION" and "ts (aq_created_at q) \<noteq> None"
    and "CHR 0x00 \<notin> set (aq_linked_run_id q)" and "CHR 0x00 \<notin> set (aq_target_sha256 q)"
    and "CHR 0x00 \<notin> set (aq_finding_id q)"
    and "aq_payload_bytes q = of_nat (length (ser (aq_payload q)))"
    and "aq_budget q = (prepared_budget undefined (length (ser (aq_payload q))))
           \<lparr>bu_max_input_tokens := bu_max_input_tokens (aq_budget q),
            bu_max_output_tokens := bu_max_output_tokens (aq_budget q),
            bu_max_payload_bytes := bu_max_payload_bytes (aq_budget q)\<rparr>"
    and "aq_data_policy q = \<lparr>dp_local_preparation_only = True, dp_source_code_included = False,
           dp_evidence_descriptions_included = False, dp_secret_redaction_enabled = True,
           dp_external_transmission_consented = True, dp_redaction_version = REDACTION_VERSION,
           dp_redaction_events = dp_redaction_events (aq_data_policy q)\<rparr>"
    and "aq_escalation q = restricted" and "aq_authority q = advisory_only"
proof -
  note ok = assms [unfolded validate_request_def Let_def, simplified ok_iff]
  from ok show "aq_request_id q = ''sf_ai_request_'' @ ai_sha256_hex sha (material_of q)"
      and "aq_contract_version q = REQUEST_VERSION" and "ts (aq_created_at q) \<noteq> None"
      and "CHR 0x00 \<notin> set (aq_target_sha256 q)"
      and "aq_payload_bytes q = of_nat (length (ser (aq_payload q)))"
    by (simp_all add: request_id_def material_of_def no_nul_sha256 del: append.simps append_Cons)
  from ok have ids:
      "validate_prefixed_identifier (aq_linked_run_id q) ''sf_run_'' ''linked_run_id'' = Inr ()"
      "validate_prefixed_identifier (aq_finding_id q) ''sf_finding_'' ''finding_id'' = Inr ()"
    by simp_all
  show "CHR 0x00 \<notin> set (aq_linked_run_id q)" and "CHR 0x00 \<notin> set (aq_finding_id q)"
    using no_nul_prefixed [OF ids(1)] no_nul_prefixed [OF ids(2)] by simp_all
  from ok show "aq_budget q = (prepared_budget undefined (length (ser (aq_payload q))))
           \<lparr>bu_max_input_tokens := bu_max_input_tokens (aq_budget q),
            bu_max_output_tokens := bu_max_output_tokens (aq_budget q),
            bu_max_payload_bytes := bu_max_payload_bytes (aq_budget q)\<rparr>"
    by (cases "aq_budget q") (simp add: validate_budget_def ok_iff prepared_budget_def)
  from ok show "aq_data_policy q = \<lparr>dp_local_preparation_only = True,
      dp_source_code_included = False,
           dp_evidence_descriptions_included = False, dp_secret_redaction_enabled = True,
           dp_external_transmission_consented = True, dp_redaction_version = REDACTION_VERSION,
           dp_redaction_events = dp_redaction_events (aq_data_policy q)\<rparr>"
    by (cases "aq_data_policy q") (simp add: validate_data_policy_def ok_iff)
  from ok show "aq_escalation q = restricted"
    by (cases "aq_escalation q"; cases "ep_policy (aq_escalation q)")
       (simp add: validate_escalation_def ok_iff restricted_def)
  from ok show "aq_authority q = advisory_only"
    by (cases "aq_authority q") (simp add: validate_authority_def ok_iff advisory_only_def)
qed

lemma material_inj:
  assumes q: "validate_request ts sha ser q = Ok ()" "validate_request ts sha ser q' = Ok ()"
    and sha: "digest_length sha" and nul: "\<And>t. ts t \<noteq> None \<Longrightarrow> CHR 0x00 \<notin> set t"
    and eq: "material_of q = material_of q'"
  shows "aq_linked_run_id q' = aq_linked_run_id q" and "aq_target_sha256 q' = aq_target_sha256 q"
    and "aq_finding_id q' = aq_finding_id q" and "aq_payload_sha256 q' = aq_payload_sha256 q"
    and "aq_created_at q' = aq_created_at q" and "aq_purpose q' = aq_purpose q"
    and "dp_redaction_events (aq_data_policy q') = dp_redaction_events (aq_data_policy q)"
    and "bu_max_input_tokens (aq_budget q') = bu_max_input_tokens (aq_budget q)"
    and "bu_max_output_tokens (aq_budget q') = bu_max_output_tokens (aq_budget q)"
    and "bu_max_payload_bytes (aq_budget q') = bu_max_payload_bytes (aq_budget q)"
proof -
  have parts: "CHR 0x00 \<notin> set (aq_linked_run_id x) \<and> CHR 0x00 \<notin> set (aq_target_sha256 x)
      \<and> CHR 0x00 \<notin> set (aq_finding_id x) \<and> CHR 0x00 \<notin> set (aq_payload_sha256 x)
      \<and> CHR 0x00 \<notin> set (aq_created_at x)" if "validate_request ts sha ser x = Ok ()" for x
    using valid_request_parts(3-6) [OF that] validate_request_fields(5) [OF that] nul
      ai_digest_wf [OF sha] by (simp add: no_nul_sha256)
  show "aq_linked_run_id q' = aq_linked_run_id q" and "aq_target_sha256 q' = aq_target_sha256 q"
    and "aq_finding_id q' = aq_finding_id q" and "aq_payload_sha256 q' = aq_payload_sha256 q"
    and "aq_created_at q' = aq_created_at q" and "aq_purpose q' = aq_purpose q"
    and "dp_redaction_events (aq_data_policy q') = dp_redaction_events (aq_data_policy q)"
    and "bu_max_input_tokens (aq_budget q') = bu_max_input_tokens (aq_budget q)"
    and "bu_max_output_tokens (aq_budget q') = bu_max_output_tokens (aq_budget q)"
    and "bu_max_payload_bytes (aq_budget q') = bu_max_payload_bytes (aq_budget q)"
    using eq parts [OF q(1)] parts [OF q(2)]
    by (simp_all add: material_of_def request_material_def join_left_inj no_nul_purpose
        no_nul_show_word purpose_label_inj show_word_inj)
qed

section \<open>The life of a run\<close>

datatype run_op =
  OpReview string review_args
| OpAdvice ai_request_envelope ai_response_envelope string

datatype run_op_error = ReviewFailed review_error | AdviceFailed ai_error

definition run_step ::
    "ts_parser \<Rightarrow> digest_fun \<Rightarrow> (redacted_finding \<Rightarrow> string) \<Rightarrow> run_op \<Rightarrow> run_manifest
     \<Rightarrow> run_op_error + run_manifest" where
  "run_step ts sha ser op m =
     (case op of
        OpReview now a \<Rightarrow> map_err ReviewFailed (review_run ts now a m)
      | OpAdvice q r bytes \<Rightarrow> map_err AdviceFailed (apply_response ts sha ser q r bytes m))"

text \<open>A review at a time that does not parse is refused by the validation at its end.\<close>

lemma review_run_time: "review_run ts now a m = Inr m' \<Longrightarrow> ts now \<noteq> None"
proof -
  assume ok: "review_run ts now a m = Inr m'"
  then obtain i r where i: "position (\<lambda>f. fd_finding_id f = ra_finding_id a) (rm_findings m) = Some i"
      and m': "m' = record_review i r m" and r: "hr_reviewed_at r = Some now"
      and wf: "manifest_wf ts m'"
    by (auto simp: review_run_def ok_iff Let_def record_review_def [symmetric]
        split: option.splits if_splits)
  have "i < length (rm_findings m)" using position_Some [OF i] by simp
  then have "(rm_findings m ! i)\<lparr>fd_human_review := r\<rparr> \<in> set (rm_findings m')"
    by (simp add: m' record_review_findings set_update_memI)
  with wf have "human_review_wf ts r" by (auto simp: manifest_wf_def finding_wf_def)
  with r show "ts now \<noteq> None" by (simp add: human_review_wf_def)
qed

text \<open>The abstract life of a run: who decided what, and which findings have been advised on.\<close>

record review_board =
  bd_run_id :: string
  bd_target :: string
  bd_ids :: "string set"
  bd_decided :: "string \<rightharpoonup> human_review"
  bd_advised :: "string \<rightharpoonup> ai_validation"

definition advice_of :: "finding \<Rightarrow> ai_validation option" where
  "advice_of f = (if ai_status (fd_ai_validation f) = AiNotRequested then None
     else Some (fd_ai_validation f))"

definition advice :: "run_manifest \<Rightarrow> string \<Rightarrow> ai_validation option" where
  "advice m = entries fd_finding_id advice_of (rm_findings m)"

definition board_of :: "run_manifest \<Rightarrow> review_board" where
  "board_of m = \<lparr>bd_run_id = rm_run_id m, bd_target = tg_root_sha256 (rm_target m),
     bd_ids = fd_finding_id ` set (rm_findings m), bd_decided = decisions m,
     bd_advised = advice m\<rparr>"

text \<open>An answer is accepted for the run and the target it was asked about, within its budget.\<close>

definition answer_fits ::
    "ts_parser \<Rightarrow> digest_fun \<Rightarrow> (redacted_finding \<Rightarrow> string) \<Rightarrow> ai_request_envelope
     \<Rightarrow> ai_response_envelope \<Rightarrow> string \<Rightarrow> review_board \<Rightarrow> bool" where
  "answer_fits ts sha ser q r bytes b \<longleftrightarrow>
     validate_request ts sha ser q = Ok () \<and> validate_response ts r = Ok ()
   \<and> bytes \<noteq> [] \<and> length bytes \<le> MAX_DOCUMENT_BYTES
   \<and> aq_linked_run_id q = bd_run_id b \<and> aq_target_sha256 q = bd_target b
   \<and> an_request_id r = aq_request_id q \<and> an_request_payload_sha256 r = aq_payload_sha256 q
   \<and> an_provider r = aq_provider q \<and> an_model_family r = aq_model_family q
   \<and> an_prompt_version r = aq_prompt_version q \<and> response_in_budget q r"

text \<open>What a board keeps of an answer: nothing of the finding's earlier state.\<close>

definition recorded_answer ::
    "digest_fun \<Rightarrow> ai_request_envelope \<Rightarrow> ai_response_envelope \<Rightarrow> string \<Rightarrow> ai_validation" where
  "recorded_answer sha q r bytes =
     \<lparr>ai_status = AiCompleted, ai_request_id = Some (aq_request_id q),
      ai_provider = Some (aq_provider q), ai_model = Some (model_label (aq_model_family q)),
      ai_prompt_version = Some (aq_prompt_version q),
      ai_redacted_payload_sha256 = Some (aq_payload_sha256 q),
      ai_response_sha256 = Some (ai_sha256_hex sha bytes),
      ai_input_tokens = Some (an_input_tokens r), ai_output_tokens = Some (an_output_tokens r),
      ai_assessment_of = Some (an_assessment r)\<rparr>"

definition board_step ::
    "ts_parser \<Rightarrow> digest_fun \<Rightarrow> (redacted_finding \<Rightarrow> string) \<Rightarrow> run_op \<Rightarrow> review_board
     \<Rightarrow> unit + review_board" where
  "board_step ts sha ser op b =
     (case op of
        OpReview now a \<Rightarrow>
          if review_args_ok a \<and> ts now \<noteq> None \<and> ra_finding_id a \<in> bd_ids b
             \<and> bd_decided b (ra_finding_id a) = None
          then Ok (b\<lparr>bd_decided := (bd_decided b)(ra_finding_id a \<mapsto> review_of_args now a)\<rparr>)
          else Err ()
      | OpAdvice q r bytes \<Rightarrow>
          if answer_fits ts sha ser q r bytes b \<and> aq_finding_id q \<in> bd_ids b
             \<and> bd_advised b (aq_finding_id q) = None
          then Ok (b\<lparr>bd_advised := (bd_advised b)(aq_finding_id q \<mapsto>
                 recorded_answer sha q r bytes)\<rparr>)
          else Err ())"

lemma completed_advice_fresh:
  "completed_advice sha q r bytes (fd_ai_validation f) = recorded_answer sha q r bytes"
  by (cases "fd_ai_validation f") (simp add: completed_advice_def recorded_answer_def)

lemma advice_replace:
  assumes "manifest_wf ts m" and "i < length (rm_findings m)"
    and "same_candidate (rm_findings m ! i) g"
  shows "advice (replace_finding i g m) = (advice m)(fd_finding_id (rm_findings m ! i) := advice_of g)"
  unfolding advice_def replace_finding_def
  using assms same_candidate_fields(1) [OF assms(3)] by (simp add: manifest_wf_def entries_update)

lemma advice_nth:
  "manifest_wf ts m \<Longrightarrow> i < length (rm_findings m) \<Longrightarrow>
     advice m (fd_finding_id (rm_findings m ! i)) = advice_of (rm_findings m ! i)"
  by (simp add: advice_def manifest_wf_def entries_nth)

lemma advice_frame [simp]:
  "advice (refresh_summary m) = advice m" "advice (reviewed_phase m) = advice m"
  by (simp_all add: advice_def)

lemma find_position:
  assumes "manifest_wf ts m"
  shows "(\<exists>i. position (\<lambda>f. fd_finding_id f = k) (rm_findings m) = Some i \<and> P i)
     \<longleftrightarrow> (\<exists>i < length (rm_findings m). fd_finding_id (rm_findings m ! i) = k \<and> P i)"
proof
  show "\<exists>i < length (rm_findings m). fd_finding_id (rm_findings m ! i) = k \<and> P i"
    if "\<exists>i. position (\<lambda>f. fd_finding_id f = k) (rm_findings m) = Some i \<and> P i"
    using that position_Some [of "\<lambda>f. fd_finding_id f = k"] by fastforce
next
  assume "\<exists>i < length (rm_findings m). fd_finding_id (rm_findings m ! i) = k \<and> P i"
  then obtain j where j: "j < length (rm_findings m)" "fd_finding_id (rm_findings m ! j) = k" "P j"
    by blast
  then obtain i where i: "position (\<lambda>f. fd_finding_id f = k) (rm_findings m) = Some i"
    using position_None_iff [of "\<lambda>f. fd_finding_id f = k" "rm_findings m"]
    by (cases "position (\<lambda>f. fd_finding_id f = k) (rm_findings m)") auto
  have "j = i" using assms position_key_unique [OF _ i j(1,2)] by (simp add: manifest_wf_def)
  with i j(3) show "\<exists>i. position (\<lambda>f. fd_finding_id f = k) (rm_findings m) = Some i \<and> P i"
    by blast
qed

lemma review_run_board:
  "review_run ts now a m = Inr m' \<longleftrightarrow>
     ts now \<noteq> None \<and> manifest_wf ts m \<and> review_args_ok a
   \<and> (\<exists>i < length (rm_findings m). fd_finding_id (rm_findings m ! i) = ra_finding_id a
        \<and> is_pending (rm_findings m ! i) \<and> m' = record_review i (review_of_args now a) m)"
proof (cases "ts now = None")
  case True
  then show ?thesis using review_run_time by fastforce
next
  case False
  then show ?thesis by (simp add: review_run_iff [where ts = ts and now = now, OF False] find_position cong: conj_cong)
qed

lemma apply_response_kept:
  assumes "apply_response ts sha ser q r bytes m = Inr m'"
  shows "manifest_wf ts m \<and> manifest_wf ts m' \<and> answer_accepted ts sha ser q r bytes m
   \<and> (\<exists>i < length (rm_findings m). fd_finding_id (rm_findings m ! i) = aq_finding_id q
        \<and> ai_status (fd_ai_validation (rm_findings m ! i)) = AiNotRequested
        \<and> m' = record_advice i (recorded_answer sha q r bytes) m)"
proof -
  obtain i where i: "position (\<lambda>f. fd_finding_id f = aq_finding_id q) (rm_findings m) = Some i"
      and rest: "manifest_wf ts m" "manifest_wf ts m'" "answer_accepted ts sha ser q r bytes m"
        "ai_status (fd_ai_validation (rm_findings m ! i)) = AiNotRequested"
        "m' = record_advice i
          (completed_advice sha q r bytes (fd_ai_validation (rm_findings m ! i))) m"
    using assms [unfolded apply_response_steps] by blast
  then show ?thesis
    using position_Some [OF i] unfolding completed_advice_fresh by blast
qed

lemma apply_response_board:
  assumes "digest_length sha"
  shows "apply_response ts sha ser q r bytes m = Inr m' \<longleftrightarrow>
     manifest_wf ts m \<and> answer_accepted ts sha ser q r bytes m
   \<and> (\<exists>i < length (rm_findings m). fd_finding_id (rm_findings m ! i) = aq_finding_id q
        \<and> ai_status (fd_ai_validation (rm_findings m ! i)) = AiNotRequested
        \<and> m' = record_advice i (recorded_answer sha q r bytes) m)"
  by (simp add: apply_response_iff [OF assms] find_position completed_advice_fresh cong: conj_cong)

text \<open>How the two commands change the decisions, the advice and the identity of the run.\<close>

lemma record_review_frame [simp]:
  "rm_run_id (record_review i r m) = rm_run_id m" "rm_target (record_review i r m) = rm_target m"
  by (simp_all add: record_review_def reviewed_phase_def replace_finding_def)

lemma record_advice_frame [simp]:
  "rm_run_id (record_advice i a m) = rm_run_id m" "rm_target (record_advice i a m) = rm_target m"
  by (simp_all add: record_advice_def replace_finding_def)

lemma ids_update:
  "i < length fs \<Longrightarrow> fd_finding_id g = fd_finding_id (fs ! i) \<Longrightarrow>
     fd_finding_id ` set (fs[i := g]) = fd_finding_id ` set fs"
  by (metis list.set_map map_key_update)

lemma board_review:
  assumes "manifest_wf ts m" and "i < length (rm_findings m)" and "hr_decision r \<noteq> DecisionPending"
  shows "board_of (record_review i r m) = (board_of m)
     \<lparr>bd_decided := (decisions m)(fd_finding_id (rm_findings m ! i) \<mapsto> r)\<rparr>"
proof -
  have "advice (record_review i r m) = advice m"
    using advice_replace [OF assms(1,2) same_candidate_human [of _ r]] advice_nth [OF assms(1,2)]
    by (simp add: record_review_def advice_of_def fun_upd_idem_iff)
  with record_review_decisions [OF assms] assms(2) show ?thesis
    by (simp add: board_of_def record_review_findings ids_update)
qed

lemma board_advice:
  assumes "manifest_wf ts m" and "i < length (rm_findings m)" and "ai_status a \<noteq> AiNotRequested"
  shows "board_of (record_advice i a m) = (board_of m)
     \<lparr>bd_advised := (advice m)(fd_finding_id (rm_findings m ! i) \<mapsto> a)\<rparr>"
proof -
  have "advice (record_advice i a m) = (advice m)(fd_finding_id (rm_findings m ! i) \<mapsto> a)"
    using advice_replace [OF assms(1,2) same_candidate_ai [of _ a]] assms(3)
    by (simp add: record_advice_def advice_of_def)
  with record_advice_decisions [OF assms(1,2)] assms(2) show ?thesis
    by (simp add: board_of_def ids_update)
qed

lemma entries_open:
  assumes "distinct (map key xs)"
  shows "k \<in> key ` set xs \<and> entries key val xs k = None
     \<longleftrightarrow> (\<exists>i < length xs. key (xs ! i) = k \<and> val (xs ! i) = None)"
proof -
  have "k \<in> key ` set xs \<longleftrightarrow> (\<exists>i < length xs. key (xs ! i) = k)"
    by (auto simp: set_conv_nth)
  then show ?thesis using entries_nth [OF assms, of _ val] by metis
qed

lemma open_iff [simp]:
  "decision_of f = None \<longleftrightarrow> is_pending f"
  "advice_of f = None \<longleftrightarrow> ai_status (fd_ai_validation f) = AiNotRequested"
  by (simp_all add: decision_of_def advice_of_def)

lemma board_pending:
  "manifest_wf ts m \<Longrightarrow> k \<in> bd_ids (board_of m) \<and> bd_decided (board_of m) k = None
     \<longleftrightarrow> (\<exists>i < length (rm_findings m). fd_finding_id (rm_findings m ! i) = k
           \<and> is_pending (rm_findings m ! i))"
  using entries_open [of fd_finding_id "rm_findings m" k decision_of]
  by (simp add: board_of_def decisions_def manifest_wf_def)

lemma board_unadvised:
  "manifest_wf ts m \<Longrightarrow> k \<in> bd_ids (board_of m) \<and> bd_advised (board_of m) k = None
     \<longleftrightarrow> (\<exists>i < length (rm_findings m). fd_finding_id (rm_findings m ! i) = k
           \<and> ai_status (fd_ai_validation (rm_findings m ! i)) = AiNotRequested)"
  using entries_open [of fd_finding_id "rm_findings m" k advice_of]
  by (simp add: board_of_def advice_def manifest_wf_def)

lemma answer_fits_accepted:
  "answer_fits ts sha ser q r bytes (board_of m) = answer_accepted ts sha ser q r bytes m"
  by (auto simp: answer_fits_def answer_accepted_def response_links_def board_of_def)

lemma run_step_kept:
  assumes "run_step ts sha ser op m = Inr m'"
  shows "manifest_wf ts m \<and> manifest_wf ts m' \<and> board_step ts sha ser op (board_of m) = Inr (board_of m')
    \<and> list_all2 same_candidate (rm_findings m) (rm_findings m')"
proof (cases op)
  case (OpReview now a)
  with assms obtain i where now: "ts now \<noteq> None" and wf: "manifest_wf ts m" and ok: "review_args_ok a"
      and i: "i < length (rm_findings m)" "fd_finding_id (rm_findings m ! i) = ra_finding_id a"
        "is_pending (rm_findings m ! i)" and m': "m' = record_review i (review_of_args now a) m"
    by (auto simp: run_step_def ok_iff review_run_board)
  have final: "hr_decision (review_of_args now a) \<noteq> DecisionPending" by (simp add: review_of_args_def)
  have "manifest_wf ts m'"
    unfolding m' using wf i(1) review_of_args_wf [of a ts now] ok now final
    by (intro record_review_wf) simp_all
  moreover have "board_of m' = (board_of m)
      \<lparr>bd_decided := (decisions m)(ra_finding_id a \<mapsto> review_of_args now a)\<rparr>"
    unfolding m' using board_review [OF wf i(1) final] i(2) by simp
  moreover have "ra_finding_id a \<in> bd_ids (board_of m) \<and> bd_decided (board_of m) (ra_finding_id a) = None"
    using board_pending [OF wf] i by blast
  ultimately show ?thesis
    using now ok wf i(1)
    by (simp add: OpReview board_step_def board_of_def m' record_review_findings
        list_all2_conv_all_nth nth_list_update)
next
  case (OpAdvice q r bytes)
  with assms obtain i where wf: "manifest_wf ts m" "manifest_wf ts m'"
      and ok: "answer_accepted ts sha ser q r bytes m"
      and i: "i < length (rm_findings m)" "fd_finding_id (rm_findings m ! i) = aq_finding_id q"
        "ai_status (fd_ai_validation (rm_findings m ! i)) = AiNotRequested"
      and m': "m' = record_advice i (recorded_answer sha q r bytes) m"
    using apply_response_kept by (force simp: run_step_def ok_iff)
  have "board_of m' = (board_of m)
      \<lparr>bd_advised := (advice m)(aq_finding_id q \<mapsto> recorded_answer sha q r bytes)\<rparr>"
    unfolding m' using board_advice [OF wf(1) i(1)] i(2) by (simp add: recorded_answer_def)
  moreover have "aq_finding_id q \<in> bd_ids (board_of m) \<and> bd_advised (board_of m) (aq_finding_id q) = None"
    using board_unadvised [OF wf(1)] i by blast
  moreover have "list_all2 same_candidate (rm_findings m) (rm_findings m')"
    using i(1) by (simp add: m' list_all2_conv_all_nth nth_list_update)
  moreover have "bd_advised (board_of m) = advice m" by (simp add: board_of_def)
  ultimately show ?thesis
    using ok wf by (simp add: OpAdvice board_step_def answer_fits_accepted)
qed

lemma run_step_refused:
  assumes "digest_length sha" and wf: "manifest_wf ts m" and "run_step ts sha ser op m = Inl e"
  shows "board_step ts sha ser op (board_of m) = Inl ()"
proof (cases op)
  case (OpReview now a)
  with assms(3) have "\<nexists>m'. review_run ts now a m = Inr m'"
    by (cases "review_run ts now a m") (auto simp: run_step_def)
  then have "\<not> (ts now \<noteq> None \<and> review_args_ok a
      \<and> (\<exists>i < length (rm_findings m). fd_finding_id (rm_findings m ! i) = ra_finding_id a
           \<and> is_pending (rm_findings m ! i)))"
    using wf unfolding review_run_board by blast
  then show ?thesis
    unfolding board_pending [OF wf, symmetric] by (simp add: OpReview board_step_def)
next
  case (OpAdvice q r bytes)
  with assms(3) have "\<nexists>m'. apply_response ts sha ser q r bytes m = Inr m'"
    by (cases "apply_response ts sha ser q r bytes m") (auto simp: run_step_def)
  then have "\<not> (answer_accepted ts sha ser q r bytes m
      \<and> (\<exists>i < length (rm_findings m). fd_finding_id (rm_findings m ! i) = aq_finding_id q
           \<and> ai_status (fd_ai_validation (rm_findings m ! i)) = AiNotRequested))"
    using wf unfolding apply_response_board [OF assms(1)] by blast
  then show ?thesis
    unfolding board_unadvised [OF wf, symmetric]
    by (simp add: OpAdvice board_step_def answer_fits_accepted)
qed

text \<open>The review that a command records, when it is a human's.\<close>

definition reviewed_by :: "ts_parser \<Rightarrow> run_op \<Rightarrow> string \<Rightarrow> human_review \<Rightarrow> bool" where
  "reviewed_by ts op k r \<longleftrightarrow>
     (\<exists>now a. op = OpReview now a \<and> ts now \<noteq> None \<and> review_args_ok a \<and> ra_finding_id a = k
        \<and> r = review_of_args now a)"

lemma board_step_decided:
  assumes "board_step ts sha ser op b = Inr b'"
  shows "bd_decided b' = bd_decided b
     \<or> (\<exists>k r. reviewed_by ts op k r \<and> bd_decided b k = None
          \<and> bd_decided b' = (bd_decided b)(k \<mapsto> r))"
  using assms by (auto simp: board_step_def reviewed_by_def split: run_op.splits if_splits)

lemma same_candidate_trans: "same_candidate f g \<Longrightarrow> same_candidate g h \<Longrightarrow> same_candidate f h"
  by (cases f; cases g; cases h) (simp add: same_candidate_def)

interpretation run_machine: human_authority "run_step ts sha ser" "manifest_wf ts" decisions
  "reviewed_by ts" for ts sha ser
proof
  fix m op m'
  assume "manifest_wf ts m" and step: "run_step ts sha ser op m = Inr m'"
  have dec: "bd_decided (board_of x) = decisions x" for x by (simp add: board_of_def)
  note kept = run_step_kept [OF step]
  with board_step_decided [of ts sha ser op "board_of m" "board_of m'"]
  have effect: "decisions m' = decisions m
     \<or> (\<exists>k r. reviewed_by ts op k r \<and> decisions m k = None \<and> decisions m' = (decisions m)(k \<mapsto> r))"
    unfolding dec by blast
  show "manifest_wf ts m'" using kept by blast
  show "decisions m \<subseteq>\<^sub>m decisions m'" using effect by (auto simp: map_le_def)
  show "decisions m k = Some d \<or> reviewed_by ts op k d" if "decisions m' k = Some d" for k d
    using effect that by (auto split: if_splits)
qed

text \<open>The same machine, with what the engine reported held fixed.\<close>

lemma same_candidates_trans:
  "list_all2 same_candidate fs gs \<Longrightarrow> list_all2 same_candidate gs hs \<Longrightarrow> list_all2 same_candidate fs hs"
  by (rule list_all2_trans [OF same_candidate_trans])

interpretation run_candidates: decision_machine "run_step ts sha ser"
  "\<lambda>m. manifest_wf ts m \<and> list_all2 same_candidate fs (rm_findings m)" decisions for ts sha ser fs
proof
  fix m op m'
  assume inv: "manifest_wf ts m \<and> list_all2 same_candidate fs (rm_findings m)"
    and step: "run_step ts sha ser op m = Inr m'"
  show "manifest_wf ts m' \<and> list_all2 same_candidate fs (rm_findings m')"
    using run_step_kept [OF step] inv same_candidates_trans by blast
  show "decisions m \<subseteq>\<^sub>m decisions m'"
    using inv step by (blast intro: run_machine.step_keeps)
qed

interpretation run_board: machine_refinement "run_step ts sha ser"
  "\<lambda>m. digest_length sha \<and> manifest_wf ts m" "board_step ts sha ser" board_of for ts sha ser
  using run_step_kept run_step_refused by unfold_locales blast+

section \<open>Samples\<close>

definition sample_options :: prepare_options where
  "sample_options = \<lparr>po_enable_ai = True, po_consent_redacted_export = True,
     po_purpose = AmbiguityAnalysis, po_max_input_tokens = 6000, po_max_output_tokens = 1000,
     po_max_payload_bytes = 16384, po_created_at = T1\<rparr>"

definition empty_json :: "redacted_finding \<Rightarrow> string" where
  "empty_json p = ''{}''"

definition sample_request :: ai_request_envelope where
  "sample_request = prepared_request zero_sha empty_json one_manifest one_finding sample_options"

definition sample_response :: ai_response_envelope where
  "sample_response = \<lparr>an_contract_version = RESPONSE_VERSION,
     an_request_id = aq_request_id sample_request, an_responded_at = T1,
     an_provider = ''openai'', an_model_family = Luna, an_prompt_version = PROMPT_VERSION,
     an_request_payload_sha256 = aq_payload_sha256 sample_request, an_assessment = Uncertain,
     an_analysis_summary = ''s'', an_input_tokens = 10, an_output_tokens = 5,
     an_limitations = [], an_validation_authority = AiHumanOnly\<rparr>"

lemma sample_payload_valid: "validate_payload (fst (redact_finding one_finding)) = Inr ()"
  by code_simp

lemma sample_options_ok: "prepare_options_ok sample_ts sample_options (length (empty_json p))"
  by (simp add: prepare_options_ok_def sample_options_def empty_json_def)

lemma prepare_sample:
  "prepare_request sample_ts zero_sha empty_json one_manifest (fd_finding_id one_finding)
     sample_options = Ok sample_request"
proof -
  have len: "\<And>p. length (empty_json p) < 2 ^ 64" by (simp add: empty_json_def)
  show ?thesis
    using sample_payload_valid sample_options_ok [of "fst (redact_finding one_finding)"]
    by (simp add: prepare_request_iff [OF zero_sha_length len] sample_request_def no_ai_def)
qed

lemma sample_request_valid:
  "validate_request sample_ts zero_sha empty_json sample_request = Ok ()"
  using prepare_sample unfolding prepare_request_def
  by (auto simp: ok_iff Let_def case_prod_unfold)

lemma sample_response_valid: "validate_response sample_ts sample_response = Ok ()"
proof -
  have "ai_prefixed_hash (aq_request_id sample_request) ''sf_ai_request_''"
      and "sha256_wf (aq_payload_sha256 sample_request)"
    using validate_request_fields(5,14) [OF sample_request_valid] ai_digest_wf [OF zero_sha_length]
    by simp_all
  then show ?thesis
    by (simp add: validate_response_def sample_response_def ok_iff ai_text_def string_simps)
qed

lemma sample_answer:
  "rm_run_id m = rm_run_id one_manifest \<Longrightarrow> rm_target m = rm_target one_manifest \<Longrightarrow>
     answer_accepted sample_ts zero_sha empty_json sample_request sample_response ''{}'' m"
  using sample_request_valid sample_response_valid
  by (simp add: answer_accepted_def response_links_def response_in_budget_def MAX_DOCUMENT_BYTES_def)
    (simp add: sample_response_def sample_request_def prepared_request_def Let_def case_prod_unfold
      prepared_budget_def sample_options_def)

section \<open>Properties\<close>

text \<open>
  C1. Human authority over a run: whatever sequence of reviews and AI answers is applied to a
  valid run, it stays valid, no recorded human decision is ever changed or removed, and every
  new decision was made by a \<open>review-run\<close> command with a visible reviewer and rationale in
  bounds. No answer of a model can decide.
\<close>

theorem run_decisions_final:
  assumes "validate_manifest ts m = Ok ()"
  shows "validate_manifest ts (run_ops (run_step ts sha ser) ops m) = Ok ()
    \<and> decisions m \<subseteq>\<^sub>m decisions (run_ops (run_step ts sha ser) ops m)
    \<and> (\<forall>k r. decisions (run_ops (run_step ts sha ser) ops m) k = Some r \<longrightarrow>
          decisions m k = Some r
        \<or> (\<exists>now a. OpReview now a \<in> set ops \<and> review_args_ok a \<and> ra_finding_id a = k
              \<and> r = review_of_args now a))
    \<and> list_all2 same_candidate (rm_findings m) (rm_findings (run_ops (run_step ts sha ser) ops m))"
proof -
  have wf: "manifest_wf ts m" using assms by (simp add: validate_manifest_wf)
  have "decisions m k = Some r
      \<or> (\<exists>now a. OpReview now a \<in> set ops \<and> review_args_ok a \<and> ra_finding_id a = k
            \<and> r = review_of_args now a)"
    if "decisions (run_ops (run_step ts sha ser) ops m) k = Some r" for k r
    using run_machine.run_origin [OF wf that] by (auto simp: reviewed_by_def)
  moreover have "list_all2 same_candidate (rm_findings m) (rm_findings m)"
    by (simp add: list_all2_refl)
  ultimately show ?thesis
    using run_machine.run_inv [OF wf] run_machine.run_keeps [OF wf]
      run_candidates.run_inv [of ts m "rm_findings m" sha ser ops] wf
    by (simp add: validate_manifest_wf)
qed

theorem run_decisions_final_witness:
  "validate_manifest sample_ts (run_ops (run_step sample_ts zero_sha empty_json)
     [OpReview T1 sample_review, OpAdvice sample_request sample_response ''{}''] one_manifest) = Ok ()"
proof -
  have "validate_manifest sample_ts one_manifest = Ok ()" by (simp add: validate_manifest_wf)
  from run_decisions_final [OF this] show ?thesis by blast
qed

text \<open>
  C11. Refinement: on valid runs the commands are exactly the steps of the abstract review board,
  which only knows the run, its finding identifiers, who decided what, and which findings were
  advised on. A command succeeds exactly when the board's step does, and a sequence of commands
  changes the board of the run as the same sequence of abstract steps.
\<close>

theorem run_refines_board:
  assumes "digest_length sha" and "validate_manifest ts m = Ok ()"
  shows "is_ok (run_step ts sha ser op m) = is_ok (board_step ts sha ser op (board_of m))
    \<and> board_of (run_ops (run_step ts sha ser) ops m)
        = run_ops (board_step ts sha ser) ops (board_of m)"
  using assms run_board.step_refines [of sha ts m ser op] run_board.run_refines [of sha ts m ser ops]
  by (simp add: validate_manifest_wf)

theorem run_refines_board_witness:
  "board_of (run_ops (run_step sample_ts zero_sha empty_json) [OpReview T1 sample_review] one_manifest)
     = run_ops (board_step sample_ts zero_sha empty_json) [OpReview T1 sample_review]
         (board_of one_manifest)"
proof -
  have "validate_manifest sample_ts one_manifest = Ok ()" by (simp add: validate_manifest_wf)
  from run_refines_board [OF zero_sha_length this] show ?thesis by blast
qed

text \<open>
  An answer is attached exactly when it should be: the run, the request and the response are
  valid, they belong together, the usage is within the budget, and the finding exists and has not
  been advised on. The validation at the end never rejects such an answer.
\<close>

theorem apply_response_succeeds_iff:
  assumes "digest_length sha"
  shows "is_ok (apply_response ts sha ser q r bytes m) \<longleftrightarrow>
     validate_manifest ts m = Ok () \<and> answer_accepted ts sha ser q r bytes m
   \<and> (\<exists>f \<in> set (rm_findings m). fd_finding_id f = aq_finding_id q
        \<and> ai_status (fd_ai_validation f) = AiNotRequested)"
  by (simp add: is_ok_iff apply_response_board [OF assms] validate_manifest_wf)
     (metis in_set_conv_nth)

theorem apply_response_succeeds_iff_witness:
  "is_ok (apply_response sample_ts zero_sha empty_json sample_request sample_response ''{}''
     one_manifest)"
  using apply_response_succeeds_iff [OF zero_sha_length, of sample_ts empty_json sample_request
      sample_response "''{}''" one_manifest] sample_answer [of one_manifest]
  by (simp add: validate_manifest_wf no_ai_def) (simp add: sample_request_def)

text \<open>
  What an answer changes: the new manifest is valid, exactly the AI validation of the asked
  finding is replaced, by the identifiers, the hash of the answer, the usage and the assessment,
  the human decisions are the same, and the same answer cannot be applied twice.
\<close>

theorem apply_response_effect:
  assumes ok: "apply_response ts sha ser q r bytes m = Ok m'"
  shows "validate_manifest ts m' = Ok () \<and> decisions m' = decisions m
    \<and> (\<exists>i < length (rm_findings m). fd_finding_id (rm_findings m ! i) = aq_finding_id q
        \<and> rm_findings m' = (rm_findings m)[i := (rm_findings m ! i)\<lparr>fd_ai_validation :=
             recorded_answer sha q r bytes\<rparr>])
    \<and> apply_response ts sha ser q r bytes m' = Err (AiAlreadyRequested (aq_finding_id q))"
proof -
  obtain i where wf: "manifest_wf ts m" "manifest_wf ts m'"
      and acc: "answer_accepted ts sha ser q r bytes m" and i: "i < length (rm_findings m)"
        "fd_finding_id (rm_findings m ! i) = aq_finding_id q"
      and m': "m' = record_advice i (recorded_answer sha q r bytes) m"
    using apply_response_kept [OF ok] by blast
  let ?p = "\<lambda>f. fd_finding_id f = aq_finding_id q"
  have at: "i < length (rm_findings m') \<and> ?p (rm_findings m' ! i)
      \<and> ai_status (fd_ai_validation (rm_findings m' ! i)) = AiCompleted"
    using i by (simp add: m' recorded_answer_def)
  with find_position [OF wf(2), of "aq_finding_id q" "\<lambda>j. j = i"]
  have pos: "position ?p (rm_findings m') = Some i" by blast
  have "answer_accepted ts sha ser q r bytes m'"
    using acc by (simp add: answer_accepted_def response_links_def m')
  then have "apply_response ts sha ser q r bytes m' = Err (AiAlreadyRequested (aq_finding_id q))"
    using validate_manifest_wf [THEN iffD2, OF wf(2), of "()"] pos at
    by (auto simp: apply_response_def answer_accepted_def response_links_def response_in_budget_def
        validate_document_size_def Let_def linorder_not_less [symmetric])
  then show ?thesis
    using wf(2) record_advice_decisions [OF wf(1) i(1)] i
    by (auto simp: validate_manifest_wf m')
qed

theorem apply_response_effect_witness:
  "\<exists>m'. apply_response sample_ts zero_sha empty_json sample_request sample_response ''{}'' one_manifest
        = Ok m' \<and> decisions m' = decisions one_manifest"
proof -
  have "answer_accepted sample_ts zero_sha empty_json sample_request sample_response ''{}'' one_manifest"
    by (rule sample_answer) simp_all
  then obtain m' where m': "apply_response sample_ts zero_sha empty_json sample_request
      sample_response ''{}'' one_manifest = Ok m'"
    by (simp add: apply_response_board no_ai_def) (simp add: sample_request_def)
  from apply_response_effect [OF m'] m' show ?thesis by blast
qed

text \<open>
  C22. A request is prepared exactly when AI is enabled, the export is consented, the run is valid,
  the finding exists and has not been advised on, its redacted payload fits the contract, and
  the budget holds the payload with the reserve for the prompt. No overflow of the 64-bit
  additions can let a larger payload through.
\<close>

theorem prepare_request_succeeds_iff:
  assumes "digest_length sha" and "\<forall>p. length (ser p) < 2 ^ 64"
  shows "is_ok (prepare_request ts sha ser m k opts) \<longleftrightarrow>
     validate_manifest ts m = Ok ()
   \<and> (\<exists>f \<in> set (rm_findings m). fd_finding_id f = k
        \<and> ai_status (fd_ai_validation f) = AiNotRequested
        \<and> validate_payload (fst (redact_finding f)) = Ok ()
        \<and> prepare_options_ok ts opts (length (ser (fst (redact_finding f)))))"
proof -
  have "\<And>p. length (ser p) < 2 ^ 64" using assms(2) by blast
  from prepare_request_iff [where ts = ts and m = m and k = k and opts = opts, OF assms(1) this] show ?thesis
    by (auto simp: is_ok_iff validate_manifest_wf)
qed

theorem prepare_request_succeeds_iff_witness:
  "is_ok (prepare_request sample_ts zero_sha empty_json one_manifest (fd_finding_id one_finding)
     sample_options)"
proof -
  have len: "\<forall>p. length (empty_json p) < 2 ^ 64" by (simp add: empty_json_def)
  show ?thesis
    using prepare_request_succeeds_iff [OF zero_sha_length len, of sample_ts one_manifest
        "fd_finding_id one_finding" sample_options]
      sample_payload_valid sample_options_ok [of "fst (redact_finding one_finding)"]
    by (simp add: validate_manifest_wf no_ai_def)
qed

text \<open>
  C23. What leaves the machine: every text of a prepared payload is either the finding's own or the
  placeholder, in the order of the finding, no text that the filter suspects remains, the
  recorded number of redactions is the number of suspected texts, and the request records that
  there is no source code and that only a human can decide.
\<close>

theorem prepared_payload_redacted:
  assumes "digest_length sha" and "\<forall>p. length (ser p) < 2 ^ 64"
    and "prepare_request ts sha ser m k opts = Ok q"
  shows "\<exists>f \<in> set (rm_findings m). fd_finding_id f = k \<and> aq_finding_id q = k
     \<and> payload_texts (aq_payload q) = map redacted (exported_texts f)
     \<and> list_all (\<lambda>t. \<not> suspicious t) (payload_texts (aq_payload q))
     \<and> unat (dp_redaction_events (aq_data_policy q))
         = min (count_if suspicious (exported_texts f)) (2 ^ 64 - 1)
     \<and> aq_payload_sha256 q = ai_sha256_hex sha (ser (aq_payload q))
     \<and> \<not> dp_source_code_included (aq_data_policy q)
     \<and> \<not> aa_can_change_human_decision (aq_authority q)"
proof -
  have len: "\<And>p. length (ser p) < 2 ^ 64" using assms(2) by blast
  from assms(3) obtain f where f: "f \<in> set (rm_findings m)" "fd_finding_id f = k"
      and q: "q = prepared_request sha ser m f opts"
    unfolding prepare_request_iff [OF assms(1) len] by blast
  have valid: "validate_request ts sha ser q = Ok ()"
    using assms(3) by (auto simp: prepare_request_def ok_iff Let_def case_prod_unfold)
  have "redact_finding f = (aq_payload q, dp_redaction_events (aq_data_policy q))"
    by (simp add: q)
  from redact_finding_texts [OF this] f validate_request_fields [OF valid] show ?thesis
    by (intro bexI [of _ f]) (simp_all add: q list_all_iff redacted_clean counted_def)
qed

theorem prepared_payload_redacted_witness:
  "list_all (\<lambda>t. \<not> suspicious t) (payload_texts (aq_payload sample_request))"
proof -
  have "\<forall>p. length (empty_json p) < 2 ^ 64" by (simp add: empty_json_def)
  from prepared_payload_redacted [OF zero_sha_length this prepare_sample] show ?thesis by blast
qed

text \<open>
  The identifier of a request commits to all of it: two valid requests with the same
  identifier are the same request, field by field, payload included, as long as the digest does
  not collide on what was hashed, the encoding of payloads is injective, and time stamps have no
  zero bytes.
\<close>

theorem request_id_commits:
  assumes "digest_length sha" and "inj_on ser {aq_payload q, aq_payload q'}"
    and "\<forall>t. ts t \<noteq> None \<longrightarrow> CHR 0x00 \<notin> set t"
    and q: "validate_request ts sha ser q = Ok ()" "validate_request ts sha ser q' = Ok ()"
    and "inj_on sha {material_of q, material_of q', ser (aq_payload q), ser (aq_payload q')}"
    and id: "aq_request_id q' = aq_request_id q"
  shows "q' = q"
proof -
  note parts = valid_request_parts [OF q(1)] valid_request_parts [OF q(2)]
  note fields = validate_request_fields [OF q(1)] validate_request_fields [OF q(2)]
  have "ai_sha256_hex sha (material_of q) = ai_sha256_hex sha (material_of q')"
    using id parts(1,12) by simp
  then have "sha (material_of q) = sha (material_of q')"
    unfolding ai_sha256_hex_def by (rule hext.enc_inj)
  from inj_onD [OF assms(6) this] have "material_of q = material_of q'" by simp
  note same = material_inj [OF q assms(1) _ this] assms(3)
  have "ai_sha256_hex sha (ser (aq_payload q)) = ai_sha256_hex sha (ser (aq_payload q'))"
    using same fields(5,19) by simp
  then have "sha (ser (aq_payload q)) = sha (ser (aq_payload q'))"
    unfolding ai_sha256_hex_def by (rule hext.enc_inj)
  from inj_onD [OF assms(6) this] assms(2) have payload: "aq_payload q' = aq_payload q"
    by (auto dest: inj_onD)
  have "aq_budget q' = aq_budget q"
    using same parts(8,19) by (simp add: payload)
  moreover have "aq_data_policy q' = aq_data_policy q"
    using same parts(9,20) by simp
  ultimately show ?thesis
    using same id parts fields payload by simp
qed

definition tag_sha :: digest_fun where
  "tag_sha x = replicate 32 (if x = ''{}'' then CHR ''a'' else CHR ''b'')"

theorem request_id_commits_witness:
  "\<exists>q. validate_request sample_ts tag_sha empty_json q = Ok ()
     \<and> (\<forall>q'. validate_request sample_ts tag_sha empty_json q' = Ok () \<and> material_of q' = material_of q
          \<and> aq_payload q' = aq_payload q \<longrightarrow> q' = q)"
proof -
  let ?q = "prepared_request tag_sha empty_json one_manifest one_finding sample_options"
  have sha: "digest_length tag_sha" by (simp add: digest_length_def tag_sha_def)
  have len: "\<And>p. length (empty_json p) < 2 ^ 64" by (simp add: empty_json_def)
  have "prepare_request sample_ts tag_sha empty_json one_manifest (fd_finding_id one_finding)
      sample_options = Ok ?q"
    using sample_payload_valid sample_options_ok [of "fst (redact_finding one_finding)"]
    by (simp add: prepare_request_iff [OF sha len] no_ai_def)
  then have q: "validate_request sample_ts tag_sha empty_json ?q = Ok ()"
    by (auto simp: prepare_request_def ok_iff Let_def case_prod_unfold)
  have ts: "\<forall>t. sample_ts t \<noteq> None \<longrightarrow> CHR 0x00 \<notin> set t"
    by (simp add: sample_ts_def T0_def T1_def)
  have "q' = ?q" if q': "validate_request sample_ts tag_sha empty_json q' = Ok ()"
      and m: "material_of q' = material_of ?q" and p: "aq_payload q' = aq_payload ?q" for q'
  proof (rule request_id_commits [OF sha _ ts q q'])
    show "inj_on empty_json {aq_payload ?q, aq_payload q'}" using p by simp
    have "material_of ?q \<noteq> ''{}''"
      by (simp add: material_of_def request_material_def one_manifest_def sample_manifest_def)
    then show "inj_on tag_sha {material_of ?q, material_of q', empty_json (aq_payload ?q),
        empty_json (aq_payload q')}"
      unfolding m by (auto simp: inj_on_def empty_json_def tag_sha_def)
    show "aq_request_id q' = aq_request_id ?q"
      using valid_request_parts(1) [OF q] valid_request_parts(1) [OF q'] m by simp
  qed
  with q show ?thesis by blast
qed

lemma reviews_keep_board:
  "list_all (\<lambda>op. \<exists>now a. op = OpReview now a) ops \<Longrightarrow>
     run_ops (board_step ts sha ser) ops b = b\<lparr>bd_decided := bd_decided (run_ops (board_step ts sha ser) ops b)\<rparr>"
proof (induction ops arbitrary: b)
  case Nil
  then show ?case by simp
next
  case (Cons op ops)
  then obtain now a where op: "op = OpReview now a" by auto
  let ?c = "case board_step ts sha ser op b of Inl _ \<Rightarrow> b | Inr t \<Rightarrow> t"
  have c: "?c = b\<lparr>bd_decided := bd_decided ?c\<rparr>"
    by (simp add: op board_step_def)
  have "run_ops (board_step ts sha ser) ops ?c
      = ?c\<lparr>bd_decided := bd_decided (run_ops (board_step ts sha ser) ops ?c)\<rparr>"
    using Cons by simp
  then show ?case by (subst (asm) (2) c) simp
qed

text \<open>
  A prepared request stays answerable: while people go on reviewing the run, any well formed
  response that echoes the request within its budget is accepted.
\<close>

theorem prepared_request_answerable:
  assumes "digest_length sha" and "\<forall>p. length (ser p) < 2 ^ 64"
    and prepared: "prepare_request ts sha ser m k opts = Ok q"
    and reviews: "list_all (\<lambda>op. \<exists>now a. op = OpReview now a) ops"
    and answer: "validate_response ts r = Ok ()" "bytes \<noteq> []" "length bytes \<le> MAX_DOCUMENT_BYTES"
      "an_request_id r = aq_request_id q" "an_request_payload_sha256 r = aq_payload_sha256 q"
      "response_in_budget q r"
  shows "is_ok (apply_response ts sha ser q r bytes (run_ops (run_step ts sha ser) ops m))"
proof -
  let ?m = "run_ops (run_step ts sha ser) ops m"
  have len: "\<And>p. length (ser p) < 2 ^ 64" using assms(2) by blast
  obtain f where wf: "manifest_wf ts m" and f: "f \<in> set (rm_findings m)" "fd_finding_id f = k"
      "ai_status (fd_ai_validation f) = AiNotRequested"
      and q: "q = prepared_request sha ser m f opts"
    using prepared unfolding prepare_request_iff [OF assms(1) len] by blast
  have valid: "validate_request ts sha ser q = Ok ()"
    using prepared by (auto simp: prepare_request_def ok_iff Let_def case_prod_unfold)
  have board: "board_of ?m = (board_of m)\<lparr>bd_decided := bd_decided (board_of ?m)\<rparr>"
    using run_board.run_refines [of sha ts m ser ops] reviews_keep_board [OF reviews] wf assms(1)
    by metis
  have "response_links q r m"
    using answer valid [THEN validate_request_fields(2)] valid [THEN validate_request_fields(3)]
      valid [THEN validate_request_fields(4)]
    by (simp add: response_links_def q validate_response_def ok_iff)
  then have "answer_accepted ts sha ser q r bytes m"
    using answer valid by (simp add: answer_accepted_def)
  then have "answer_fits ts sha ser q r bytes (board_of m)" by (simp add: answer_fits_accepted)
  then have fits: "answer_fits ts sha ser q r bytes (board_of ?m)"
    by (subst board) (simp add: answer_fits_def)
  have "k \<in> bd_ids (board_of m) \<and> bd_advised (board_of m) k = None"
    using f unfolding board_unadvised [OF wf] by (metis in_set_conv_nth)
  then have "k \<in> bd_ids (board_of ?m) \<and> bd_advised (board_of ?m) k = None"
    by (subst board, subst (2) board) simp
  with fits have "is_ok (board_step ts sha ser (OpAdvice q r bytes) (board_of ?m))"
    using f(2) by (simp add: board_step_def q is_ok_iff)
  moreover have "manifest_wf ts ?m" by (rule run_machine.run_inv [OF wf])
  ultimately have "is_ok (run_step ts sha ser (OpAdvice q r bytes) ?m)"
    using run_board.step_refines [of sha ts ?m ser "OpAdvice q r bytes"] assms(1) by simp
  then show ?thesis by (auto simp: run_step_def is_ok_iff ok_iff)
qed

theorem prepared_request_answerable_witness:
  "is_ok (apply_response sample_ts zero_sha empty_json sample_request sample_response ''{}''
     (run_ops (run_step sample_ts zero_sha empty_json) [OpReview T1 sample_review] one_manifest))"
proof (rule prepared_request_answerable [OF zero_sha_length _ prepare_sample _ sample_response_valid])
  have "answer_accepted sample_ts zero_sha empty_json sample_request sample_response ''{}'' one_manifest"
    by (rule sample_answer) simp_all
  then show "response_in_budget sample_request sample_response" by (simp add: answer_accepted_def)
qed (simp_all add: empty_json_def MAX_DOCUMENT_BYTES_def sample_response_def)

text \<open>
  A limit of the filter: a token is only suspected for its length when it consists of letters,
  digits and five further characters, so a long token with a dot, the shape of a signed web
  token, is exported as it is, although the same characters without the dot are redacted.
\<close>

theorem dotted_token_exported:
  "let half = replicate 20 (CHR ''a'') in
     redact_text (half @ half) = (PLACEHOLDER, True)
   \<and> redact_text (half @ ''.'' @ half) = (half @ ''.'' @ half, False)"
  by code_simp

end
