(* ===== verification/NetAddress.thy ===== *)
theory NetAddress
  imports Prelude
begin

text \<open>
  What the program uses of \<open>std::net\<close> and of \<open>char\<close>: reading an \<open>IpAddr\<close> from text and the
  classes of addresses it asks for. The reader is the one of the standard library: an IPv4
  address of four decimal numbers without leading zeros, or an IPv6 address of groups of at most
  four hexadecimal digits, with at most one double colon and an optional IPv4 address at the end.
\<close>


datatype ip_addr = V4 nat nat nat nat | V6 "nat list"

definition to_digit :: "nat \<Rightarrow> char \<Rightarrow> nat option" where
  "to_digit radix c =
     (let d = (if is_digit c then Some (byte c - 48)
               else if is_lower c then Some (byte c - 87)
               else if is_upper c then Some (byte c - 55) else None)
      in case d of None \<Rightarrow> None | Some n \<Rightarrow> if n < radix then Some n else None)"

text \<open>\<open>read_number\<close>: digits up to \<open>max_digits\<close> (one more is an error), with their number.\<close>

fun read_digits :: "nat \<Rightarrow> nat \<Rightarrow> nat \<Rightarrow> nat \<Rightarrow> string \<Rightarrow> (nat \<times> nat \<times> string) option" where
  "read_digits radix max_digits seen acc [] = Some (acc, seen, [])"
| "read_digits radix max_digits seen acc (c # s) =
     (case to_digit radix c of
        None \<Rightarrow> Some (acc, seen, c # s)
      | Some d \<Rightarrow>
          if max_digits < seen + 1 then None
          else read_digits radix max_digits (seen + 1) (acc * radix + d) s)"

definition read_number :: "nat \<Rightarrow> nat \<Rightarrow> bool \<Rightarrow> nat \<Rightarrow> string \<Rightarrow> (nat \<times> string) option" where
  "read_number radix max_digits allow_zero_prefix bound s =
     (case read_digits radix max_digits 0 0 s of
        None \<Rightarrow> None
      | Some (n, seen, rest) \<Rightarrow>
          if seen = 0 \<or> (\<not> allow_zero_prefix \<and> starts_with ''0'' s \<and> 1 < seen) \<or> bound \<le> n
          then None else Some (n, rest))"

definition read_separator ::
    "char \<Rightarrow> nat \<Rightarrow> (string \<Rightarrow> ('a \<times> string) option) \<Rightarrow> string \<Rightarrow> ('a \<times> string) option" where
  "read_separator sep index inner s =
     (if index = 0 then inner s
      else case s of [] \<Rightarrow> None | c # t \<Rightarrow> if c = sep then inner t else None)"

definition read_octet :: "nat \<Rightarrow> string \<Rightarrow> (nat \<times> string) option" where
  "read_octet index = read_separator (CHR ''.'') index (read_number 10 3 False 256)"

definition read_ipv4 :: "string \<Rightarrow> ((nat \<times> nat \<times> nat \<times> nat) \<times> string) option" where
  "read_ipv4 s0 =
     Option.bind (read_octet 0 s0) (\<lambda>(a, s1).
     Option.bind (read_octet 1 s1) (\<lambda>(b, s2).
     Option.bind (read_octet 2 s2) (\<lambda>(c, s3).
     Option.bind (read_octet 3 s3) (\<lambda>(d, s4). Some ((a, b, c, d), s4)))))"

text \<open>
  \<open>read_groups\<close> with \<open>i\<close> groups read and room for \<open>n\<close> more: the groups, whether they ended in
  an IPv4 address, and the rest.
\<close>

fun read_groups :: "nat \<Rightarrow> nat \<Rightarrow> string \<Rightarrow> nat list \<times> bool \<times> string" where
  "read_groups i 0 s = ([], False, s)"
| "read_groups i (Suc n) s =
     (case (if 0 < n then read_separator (CHR '':'') i read_ipv4 s else None) of
        Some ((a, b, c, d), t) \<Rightarrow> ([a * 256 + b, c * 256 + d], True, t)
      | None \<Rightarrow>
          (case read_separator (CHR '':'') i (read_number 16 4 True 65536) s of
             None \<Rightarrow> ([], False, s)
           | Some (g, t) \<Rightarrow>
               let (gs, v4, u) = read_groups (Suc i) n t in (g # gs, v4, u)))"

definition read_ipv6 :: "string \<Rightarrow> (nat list \<times> string) option" where
  "read_ipv6 s =
     (let (head, head_ipv4, t) = read_groups 0 8 s
      in if length head = 8 then Some (head, t)
         else if head_ipv4 then None
         else if starts_with ''::'' t then
           (let (tail, _, u) = read_groups 0 (8 - (length head + 1)) (drop 2 t)
            in Some (head @ replicate (8 - length tail - length head) 0 @ tail, u))
         else None)"

definition parse_ip :: "string \<Rightarrow> ip_addr option" where
  "parse_ip s =
     (case read_ipv4 s of
        Some ((a, b, c, d), t) \<Rightarrow> if t = [] then Some (V4 a b c d) else None
      | None \<Rightarrow>
          (case read_ipv6 s of
             Some (gs, t) \<Rightarrow> if t = [] then Some (V6 gs) else None
           | None \<Rightarrow> None))"

lemma read_number_less: "read_number r k z b s = Some (n, t) \<Longrightarrow> n < b"
  by (auto simp: read_number_def split: option.splits if_splits)

lemma read_separator_less:
  "(\<And>t n u. p t = Some (n, u) \<Longrightarrow> n < b) \<Longrightarrow> read_separator c i p s = Some (n, u) \<Longrightarrow> n < (b::nat)"
  by (auto simp: read_separator_def split: if_splits list.splits)

lemma read_octet_less: "read_octet i s = Some (n, t) \<Longrightarrow> n < 256"
  unfolding read_octet_def by (rule read_separator_less [OF read_number_less])

lemma read_ipv4_octets:
  "read_ipv4 s = Some ((a, b, c, d), t) \<Longrightarrow> a < 256 \<and> b < 256 \<and> c < 256 \<and> d < 256"
  by (auto simp: read_ipv4_def bind_eq_Some_conv dest: read_octet_less)

lemma read_ipv4_octets_separated:
  "read_separator x i read_ipv4 s = Some ((a, b, c, d), t) \<Longrightarrow> a < 256 \<and> b < 256 \<and> c < 256 \<and> d < 256"
  by (auto simp: read_separator_def split: if_splits list.splits dest: read_ipv4_octets)

lemma read_groups_bounds:
  "read_groups i n s = (gs, v4, t) \<Longrightarrow> length gs \<le> n \<and> (\<forall>g \<in> set gs. g < 65536)"
proof (induction i n s arbitrary: gs v4 t rule: read_groups.induct)
  case (1 i s)
  then show ?case by simp
next
  case (2 i n s)
  show ?case
  proof (cases "if 0 < n then read_separator (CHR '':'') i read_ipv4 s else None")
    case None
    show ?thesis
    proof (cases "read_separator (CHR '':'') i (read_number 16 4 True 65536) s")
      case no_group: None
      with None 2(2) show ?thesis by simp
    next
      case (Some w)
      then obtain g u where g: "read_separator (CHR '':'') i (read_number 16 4 True 65536) s = Some (g, u)"
        by (cases w) auto
      obtain hs v' x where hs: "read_groups (Suc i) n u = (hs, v', x)"
        by (cases "read_groups (Suc i) n u") auto
      have "length hs \<le> n \<and> (\<forall>h \<in> set hs. h < 65536)"
        by (rule 2(1) [OF None g refl hs])
      moreover have "g < 65536" by (rule read_separator_less [OF read_number_less g])
      ultimately show ?thesis using None g hs 2(2) by auto
    qed
  next
    case (Some v)
    then obtain a b c d u where v: "v = ((a, b, c, d), u)" by (cases v) auto
    with Some have "0 < n" and "a < 256 \<and> b < 256 \<and> c < 256 \<and> d < 256"
      by (auto split: if_splits dest: read_ipv4_octets_separated)
    with 2 Some v show ?thesis by auto
  qed
qed

text \<open>A parsed address is four octets or eight groups of sixteen bits.\<close>

lemma parse_ip_shape:
  assumes "parse_ip s = Some ip"
  shows "case ip of V4 a b c d \<Rightarrow> a < 256 \<and> b < 256 \<and> c < 256 \<and> d < 256
       | V6 gs \<Rightarrow> length gs = 8 \<and> (\<forall>g \<in> set gs. g < 65536)"
proof (cases "read_ipv4 s")
  case None
  with assms obtain gs where ip: "ip = V6 gs" and gs: "read_ipv6 s = Some (gs, [])"
    by (auto simp: parse_ip_def split: option.splits if_splits)
  obtain hd v t where h: "read_groups 0 8 s = (hd, v, t)" by (cases "read_groups 0 8 s") auto
  obtain tl v' u where tl: "read_groups 0 (8 - (length hd + 1)) (drop 2 t) = (tl, v', u)"
    by (cases "read_groups 0 (8 - (length hd + 1)) (drop 2 t)") auto
  show ?thesis
    using gs read_groups_bounds [OF h] read_groups_bounds [OF tl]
    by (auto simp: ip read_ipv6_def h tl [simplified] split: if_splits)
next
  case (Some v)
  with assms show ?thesis
    by (auto simp: parse_ip_def split: prod.splits if_splits dest: read_ipv4_octets)
qed

section \<open>Classes of addresses\<close>

definition v4_is_private :: "nat \<Rightarrow> nat \<Rightarrow> bool" where
  "v4_is_private a b \<longleftrightarrow> a = 10 \<or> (a = 172 \<and> 16 \<le> b \<and> b \<le> 31) \<or> (a = 192 \<and> b = 168)"

text \<open>\<open>to_ipv4_mapped\<close>: the addresses \<open>::ffff:a.b.c.d\<close>.\<close>

definition to_ipv4_mapped :: "nat list \<Rightarrow> (nat \<times> nat \<times> nat \<times> nat) option" where
  "to_ipv4_mapped gs =
     (if take 6 gs = [0, 0, 0, 0, 0, 65535] \<and> length gs = 8
      then Some (gs ! 6 div 256, gs ! 6 mod 256, gs ! 7 div 256, gs ! 7 mod 256) else None)"

end
