(* ===== verification/WebScope.thy ===== *)
theory WebScope
  imports Samples NetAddress
begin

text \<open>
  The authorization of web work, \<open>crates/secureflow-web/src/scope.rs\<close>: a scope names the
  authorized repositories and assets, allows passive work only and fixes every network limit to
  zero. \<open>seal_scope\<close> makes one from a draft, \<open>parse_scope\<close> reads it back before it expires. The
  methods of \<open>inventory.rs\<close> that the other web theories share are here too.

  Parameters: the timestamp parser \<open>ts\<close>, the digest \<open>sha\<close>, the JSON encoding \<open>ser\<close> of a scope
  and the readers of drafts and scopes, and the formatted clock \<open>now\<close>.
\<close>

section \<open>Data\<close>

definition SCOPE_VERSION :: string where
  "SCOPE_VERSION = ''secureflow-web-scope-v1''"

definition MAX_SCOPE_BYTES :: nat where
  "MAX_SCOPE_BYTES = 1024 * 1024"

datatype http_method = Get | Head | Post | Put | Patch | Delete | Options

datatype scope_authorization_status = ScopeAuthorized

record scope_authorization =
  sa_status :: scope_authorization_status
  sa_reference :: string
  sa_reviewer :: string
  sa_expires_at :: string

record authorized_repository =
  rp_label :: string
  rp_root_sha256 :: string

datatype target_kind = DnsName | IpAddress

datatype web_scheme = Http | Https

record authorized_asset =
  as_kind :: target_kind
  as_value :: string
  as_include_subdomains :: bool
  as_schemes :: "web_scheme list"
  as_ports :: "u16 list"

datatype network_execution = NetworkDisabled

record scope_policy =
  sp_passive_only :: bool
  sp_network_execution :: network_execution
  sp_follow_redirects :: bool
  sp_third_party_scanning :: bool

record scope_limits =
  sl_max_files :: u64
  sl_max_file_bytes :: u64
  sl_max_total_bytes :: u64
  sl_max_routes :: u64
  sl_max_sources :: u64
  sl_max_requests :: u64
  sl_requests_per_minute :: u64
  sl_max_concurrency :: u64

record web_scope_draft =
  wd_authorization :: scope_authorization
  wd_repositories :: "authorized_repository list"
  wd_assets :: "authorized_asset list"
  wd_policy :: scope_policy
  wd_limits :: scope_limits

record web_scope =
  ws_contract_version :: string
  ws_scope_id :: string
  ws_created_at :: string
  ws_draft :: web_scope_draft

datatype scope_error =
  ScopeInvalidField string
| AuthorizationExpired string
| ScopeJson
| ScopeTimestamp

text \<open>The derived orders of the code compare the fields, and the variants by their position.\<close>

fun method_rank :: "http_method \<Rightarrow> nat" where
  "method_rank Get = 0" | "method_rank Head = 1" | "method_rank Post = 2" | "method_rank Put = 3"
| "method_rank Patch = 4" | "method_rank Delete = 5" | "method_rank Options = 6"

lemma method_rank_inj: "method_rank a = method_rank b \<longleftrightarrow> a = b"
  by (cases a; cases b) simp_all

instantiation http_method :: linorder
begin

definition less_eq_http_method :: "http_method \<Rightarrow> http_method \<Rightarrow> bool" where
  "less_eq_http_method a b \<longleftrightarrow> method_rank a \<le> method_rank b"

definition less_http_method :: "http_method \<Rightarrow> http_method \<Rightarrow> bool" where
  "less_http_method a b \<longleftrightarrow> method_rank a < method_rank b"

instance
  by standard
     (auto simp: less_eq_http_method_def less_http_method_def method_rank_inj [symmetric])

end

fun kind_rank :: "target_kind \<Rightarrow> nat" where
  "kind_rank DnsName = 0" | "kind_rank IpAddress = 1"

fun scheme_rank :: "web_scheme \<Rightarrow> nat" where
  "scheme_rank Http = 0" | "scheme_rank Https = 1"

definition repository_key :: "authorized_repository \<Rightarrow> string \<times> string" where
  "repository_key r = (rp_label r, rp_root_sha256 r)"

definition asset_key :: "authorized_asset \<Rightarrow> nat \<times> string \<times> bool \<times> nat list \<times> u16 list" where
  "asset_key a = (kind_rank (as_kind a), as_value a, as_include_subdomains a,
     map scheme_rank (as_schemes a), as_ports a)"

section \<open>Validation\<close>

definition web_valid_text :: "string \<Rightarrow> nat \<Rightarrow> bool" where
  "web_valid_text value maximum \<longleftrightarrow>
     \<not> trim_is_empty value \<and> length value \<le> maximum \<and> CHR 0x00 \<notin> set value"

definition web_valid_sha256 :: "string \<Rightarrow> bool" where
  "web_valid_sha256 value \<longleftrightarrow> length value = 64 \<and> list_all is_lower_hex value"

definition web_prefixed_hash :: "string \<Rightarrow> string \<Rightarrow> bool" where
  "web_prefixed_hash value pfx =
     (case strip_prefix pfx value of None \<Rightarrow> False | Some s \<Rightarrow> web_valid_sha256 s)"

definition web_sha256_hex :: "digest_fun \<Rightarrow> string \<Rightarrow> string" where
  "web_sha256_hex sha bytes = encode_hex (sha bytes)"

definition valid_label :: "string \<Rightarrow> bool" where
  "valid_label label \<longleftrightarrow>
     label \<noteq> [] \<and> length label \<le> 63 \<and> \<not> starts_with ''-'' label \<and> \<not> ends_with ''-'' label
   \<and> list_all (\<lambda>c. is_lower c \<or> is_digit c \<or> c = CHR ''-'') label"

definition valid_dns_name :: "string \<Rightarrow> bool" where
  "valid_dns_name value \<longleftrightarrow>
     \<not> (value = [] \<or> 253 < length value \<or> ends_with ''.'' value \<or> list_ex is_upper value)
   \<and> list_all valid_label (split_by (\<lambda>c. c = CHR ''.'') value)"

fun validate_repositories_from ::
    "authorized_repository option \<Rightarrow> authorized_repository list \<Rightarrow> scope_error + unit" where
  "validate_repositories_from prev [] = Ok ()"
| "validate_repositories_from prev (r # rs) =
     (if \<not> web_valid_text (rp_label r) 200 \<or> \<not> web_valid_sha256 (rp_root_sha256 r)
      then Err (ScopeInvalidField ''repositories'')
      else if (case prev of None \<Rightarrow> False | Some item \<Rightarrow> repository_key r \<le> repository_key item)
      then Err (ScopeInvalidField ''repositories order'')
      else validate_repositories_from (Some r) rs)"

definition validate_repositories :: "authorized_repository list \<Rightarrow> scope_error + unit" where
  "validate_repositories rs =
     (if rs = [] \<or> 1000 < length rs then Err (ScopeInvalidField ''repositories'')
      else validate_repositories_from None rs)"

definition valid_target :: "authorized_asset \<Rightarrow> bool" where
  "valid_target a =
     (case as_kind a of
        DnsName \<Rightarrow> valid_dns_name (as_value a)
      | IpAddress \<Rightarrow> \<not> as_include_subdomains a \<and> parse_ip (as_value a) \<noteq> None)"

fun validate_assets_from ::
    "authorized_asset option \<Rightarrow> authorized_asset list \<Rightarrow> scope_error + unit" where
  "validate_assets_from prev [] = Ok ()"
| "validate_assets_from prev (a # as) =
     (if \<not> valid_target a \<or> as_schemes a = [] \<or> 2 < length (as_schemes a)
         \<or> \<not> strictly_increasing (map scheme_rank (as_schemes a))
         \<or> as_ports a = [] \<or> 100 < length (as_ports a) \<or> 0 \<in> set (as_ports a)
         \<or> \<not> strictly_increasing (as_ports a)
         \<or> (case prev of None \<Rightarrow> False | Some item \<Rightarrow> asset_key a \<le> asset_key item)
      then Err (ScopeInvalidField ''assets'')
      else validate_assets_from (Some a) as)"

definition validate_assets :: "authorized_asset list \<Rightarrow> scope_error + unit" where
  "validate_assets as =
     (if 100000 < length as then Err (ScopeInvalidField ''assets'')
      else validate_assets_from None as)"

definition expected_scope_id :: "digest_fun \<Rightarrow> (web_scope \<Rightarrow> string) \<Rightarrow> web_scope \<Rightarrow> string" where
  "expected_scope_id sha ser scope =
     ''sf_web_scope_'' @ web_sha256_hex sha (ser (scope\<lparr>ws_scope_id := []\<rparr>))"

definition validate_structure ::
    "ts_parser \<Rightarrow> digest_fun \<Rightarrow> (web_scope \<Rightarrow> string) \<Rightarrow> web_scope \<Rightarrow> scope_error + unit" where
  "validate_structure ts sha ser s =
     (let auth = wd_authorization (ws_draft s); policy = wd_policy (ws_draft s);
          limits = wd_limits (ws_draft s)
      in and_then (fail_if (ws_contract_version s \<noteq> SCOPE_VERSION
              \<or> \<not> web_prefixed_hash (ws_scope_id s) ''sf_web_scope_''
              \<or> ts (ws_created_at s) = None \<or> ws_scope_id s \<noteq> expected_scope_id sha ser s)
            (ScopeInvalidField ''identity'')) (\<lambda>_.
         and_then (ok_or (ts (ws_created_at s)) (ScopeInvalidField ''created_at'')) (\<lambda>created_at.
         and_then (ok_or (ts (sa_expires_at auth)) (ScopeInvalidField ''authorization.expires_at''))
           (\<lambda>expires_at.
         checks [
           fail_if (sa_status auth \<noteq> ScopeAuthorized \<or> \<not> web_valid_text (sa_reference auth) 300
               \<or> \<not> web_valid_text (sa_reviewer auth) 200 \<or> expires_at \<le> created_at)
             (ScopeInvalidField ''authorization''),
           validate_repositories (wd_repositories (ws_draft s)),
           validate_assets (wd_assets (ws_draft s)),
           fail_if (\<not> sp_passive_only policy \<or> sp_network_execution policy \<noteq> NetworkDisabled
               \<or> sp_follow_redirects policy \<or> sp_third_party_scanning policy)
             (ScopeInvalidField ''policy''),
           fail_if (\<not> (1 \<le> sl_max_files limits \<and> sl_max_files limits \<le> 1000000)
               \<or> \<not> (1 \<le> sl_max_file_bytes limits \<and> sl_max_file_bytes limits \<le> 64 * 1024 * 1024)
               \<or> sl_max_total_bytes limits < sl_max_file_bytes limits
               \<or> 16 * 1024 * 1024 * 1024 < sl_max_total_bytes limits
               \<or> \<not> (1 \<le> sl_max_routes limits \<and> sl_max_routes limits \<le> 2000000)
               \<or> \<not> (1 \<le> sl_max_sources limits \<and> sl_max_sources limits \<le> 100000)
               \<or> sl_max_requests limits \<noteq> 0 \<or> sl_requests_per_minute limits \<noteq> 0
               \<or> sl_max_concurrency limits \<noteq> 0)
             (ScopeInvalidField ''limits'')]))))"

definition validate_at ::
    "ts_parser \<Rightarrow> digest_fun \<Rightarrow> (web_scope \<Rightarrow> string) \<Rightarrow> int \<Rightarrow> web_scope \<Rightarrow> scope_error + unit" where
  "validate_at ts sha ser now s =
     (let expires_at = sa_expires_at (wd_authorization (ws_draft s))
      in and_then (validate_structure ts sha ser s) (\<lambda>_.
         and_then (ok_or (ts expires_at) (ScopeInvalidField ''authorization.expires_at'')) (\<lambda>expiry.
         fail_if (expiry \<le> now) (AuthorizationExpired expires_at))))"

text \<open>
  The argument of \<open>unwrap_or\<close> is evaluated first, so the clock is read and formatted even when a
  creation time is given.
\<close>

definition seal_scope ::
    "ts_parser \<Rightarrow> digest_fun \<Rightarrow> (web_scope \<Rightarrow> string) \<Rightarrow> (string \<Rightarrow> web_scope_draft option)
     \<Rightarrow> string option \<Rightarrow> string \<Rightarrow> string option \<Rightarrow> scope_error + web_scope" where
  "seal_scope ts sha ser from_json now bytes created_at =
     and_then (fail_if (bytes = [] \<or> MAX_SCOPE_BYTES < length bytes)
       (ScopeInvalidField ''document size'')) (\<lambda>_.
     and_then (ok_or (from_json bytes) ScopeJson) (\<lambda>draft.
     and_then (ok_or now ScopeTimestamp) (\<lambda>formatted.
     let created = (case created_at of None \<Rightarrow> formatted | Some t \<Rightarrow> t);
         scope = \<lparr>ws_contract_version = SCOPE_VERSION, ws_scope_id = [], ws_created_at = created,
                  ws_draft = draft\<rparr>;
         scope' = scope\<lparr>ws_scope_id := expected_scope_id sha ser scope\<rparr>
     in and_then (validate_structure ts sha ser scope') (\<lambda>_. Ok scope'))))"

definition parse_scope ::
    "ts_parser \<Rightarrow> digest_fun \<Rightarrow> (web_scope \<Rightarrow> string) \<Rightarrow> (string \<Rightarrow> web_scope option) \<Rightarrow> string
     \<Rightarrow> int \<Rightarrow> scope_error + web_scope" where
  "parse_scope ts sha ser from_json bytes now =
     and_then (fail_if (bytes = [] \<or> MAX_SCOPE_BYTES < length bytes)
       (ScopeInvalidField ''document size'')) (\<lambda>_.
     and_then (ok_or (from_json bytes) ScopeJson) (\<lambda>scope.
     and_then (validate_at ts sha ser now scope) (\<lambda>_. Ok scope)))"

definition authorizes_repository :: "web_scope \<Rightarrow> string \<Rightarrow> bool" where
  "authorizes_repository s root_sha256 \<longleftrightarrow>
     list_ex (\<lambda>r. rp_root_sha256 r = root_sha256) (wd_repositories (ws_draft s))"

section \<open>What a valid scope is\<close>

lemma web_digest_prefixed: "digest_length sha \<Longrightarrow> web_prefixed_hash (p @ web_sha256_hex sha x) p"
  using hex.digest_id [of sha x]
  by (simp add: web_prefixed_hash_def web_valid_sha256_def web_sha256_hex_def)

text \<open>The loops with a previous element accept exactly the strictly increasing lists of valid elements.\<close>

definition repository_wf :: "authorized_repository \<Rightarrow> bool" where
  "repository_wf r \<longleftrightarrow> web_valid_text (rp_label r) 200 \<and> web_valid_sha256 (rp_root_sha256 r)"

lemma validate_repositories_from_Cons:
  "validate_repositories_from prev (r # rs) = Inr u \<longleftrightarrow>
     repository_wf r \<and> (\<forall>p. prev = Some p \<longrightarrow> repository_key p < repository_key r)
   \<and> validate_repositories_from (Some r) rs = Inr u"
  by (cases prev) (auto simp: repository_wf_def not_le)

lemma validate_repositories_from_iff:
  "validate_repositories_from prev rs = Inr u \<longleftrightarrow>
     (\<forall>r \<in> set rs. repository_wf r)
   \<and> strictly_increasing (map repository_key (case prev of None \<Rightarrow> rs | Some p \<Rightarrow> p # rs))"
proof (induction rs arbitrary: prev)
  case Nil
  then show ?case by (simp split: option.split)
next
  case (Cons r rs)
  show ?case
    unfolding validate_repositories_from_Cons Cons.IH by (cases prev) auto
qed

definition asset_wf :: "authorized_asset \<Rightarrow> bool" where
  "asset_wf a \<longleftrightarrow>
     valid_target a \<and> as_schemes a \<noteq> [] \<and> length (as_schemes a) \<le> 2
   \<and> strictly_increasing (map scheme_rank (as_schemes a))
   \<and> as_ports a \<noteq> [] \<and> length (as_ports a) \<le> 100 \<and> 0 \<notin> set (as_ports a)
   \<and> strictly_increasing (as_ports a)"

lemma validate_assets_from_Cons:
  "validate_assets_from prev (a # as) = Inr u \<longleftrightarrow>
     asset_wf a \<and> (\<forall>p. prev = Some p \<longrightarrow> asset_key p < asset_key a)
   \<and> validate_assets_from (Some a) as = Inr u"
  by (cases prev) (auto simp: asset_wf_def not_le)

lemma validate_assets_from_iff:
  "validate_assets_from prev as = Inr u \<longleftrightarrow>
     (\<forall>a \<in> set as. asset_wf a)
   \<and> strictly_increasing (map asset_key (case prev of None \<Rightarrow> as | Some p \<Rightarrow> p # as))"
proof (induction as arbitrary: prev)
  case Nil
  then show ?case by (simp split: option.split)
next
  case (Cons a as)
  show ?case unfolding validate_assets_from_Cons Cons.IH by (cases prev) auto
qed

lemma validate_repositories_iff [ok_iff]:
  "validate_repositories rs = Inr u \<longleftrightarrow>
     rs \<noteq> [] \<and> length rs \<le> 1000 \<and> (\<forall>r \<in> set rs. repository_wf r)
   \<and> strictly_increasing (map repository_key rs)"
  by (auto simp: validate_repositories_def validate_repositories_from_iff)

lemma validate_assets_iff [ok_iff]:
  "validate_assets as = Inr u \<longleftrightarrow>
     length as \<le> 100000 \<and> (\<forall>a \<in> set as. asset_wf a) \<and> strictly_increasing (map asset_key as)"
  by (auto simp: validate_assets_def validate_assets_from_iff)

section \<open>Properties\<close>

text \<open>
  A scope that is read back authorizes passive work only: it has not expired, it forbids
  redirects and third-party scanning, all its network limits are zero, the repositories it
  authorizes are listed once, in order, by full digests, and every asset is a DNS name or a
  literal address without subdomains, with at least one port and never port zero.
\<close>

theorem parsed_scope_passive:
  assumes "parse_scope ts sha ser from_json bytes now = Ok s"
  shows "(\<exists>expiry. ts (sa_expires_at (wd_authorization (ws_draft s))) = Some expiry \<and> now < expiry)
    \<and> sp_passive_only (wd_policy (ws_draft s)) \<and> \<not> sp_follow_redirects (wd_policy (ws_draft s))
    \<and> \<not> sp_third_party_scanning (wd_policy (ws_draft s))
    \<and> sl_max_requests (wd_limits (ws_draft s)) = 0
    \<and> sl_requests_per_minute (wd_limits (ws_draft s)) = 0
    \<and> sl_max_concurrency (wd_limits (ws_draft s)) = 0
    \<and> sorted (map repository_key (wd_repositories (ws_draft s)))
    \<and> distinct (map repository_key (wd_repositories (ws_draft s)))
    \<and> (\<forall>root. authorizes_repository s root \<longrightarrow> web_valid_sha256 root)
    \<and> list_all (\<lambda>a. valid_target a \<and> as_ports a \<noteq> [] \<and> 0 \<notin> set (as_ports a))
        (wd_assets (ws_draft s))"
proof -
  have struct: "validate_structure ts sha ser s = Inr ()"
      and window: "\<exists>expiry. ts (sa_expires_at (wd_authorization (ws_draft s))) = Some expiry \<and> now < expiry"
    using assms by (auto simp: parse_scope_def validate_at_def ok_iff Let_def not_le)
  have "\<forall>a \<in> set (wd_assets (ws_draft s)). asset_wf a"
      and "\<forall>r \<in> set (wd_repositories (ws_draft s)). repository_wf r"
      and "strictly_increasing (map repository_key (wd_repositories (ws_draft s)))"
    using struct by (auto simp: validate_structure_def ok_iff Let_def)
  with window struct show ?thesis
    by (auto simp: validate_structure_def ok_iff Let_def strictly_increasing_iff
        authorizes_repository_def list_ex_iff list_all_iff asset_wf_def repository_wf_def)
qed

text \<open>
  C40. Sealing and parsing: a scope that was sealed and written to a document that reads back as
  itself is parsed, unchanged, at every time before it expires, and refused as expired from then
  on.
\<close>

theorem seal_parse_roundtrip:
  assumes "seal_scope ts sha ser draft_json now draft_bytes created_at = Ok s"
    and "scope_json bytes = Some s" and "bytes \<noteq> []" and "length bytes \<le> MAX_SCOPE_BYTES"
  shows "\<exists>expiry. ts (sa_expires_at (wd_authorization (ws_draft s))) = Some expiry
    \<and> draft_json draft_bytes = Some (ws_draft s)
    \<and> parse_scope ts sha ser scope_json bytes t
        = (if t < expiry then Ok s
           else Err (AuthorizationExpired (sa_expires_at (wd_authorization (ws_draft s)))))"
proof -
  have struct: "validate_structure ts sha ser s = Inr ()"
      and "draft_json draft_bytes = Some (ws_draft s)"
    using assms(1) by (auto simp: seal_scope_def ok_iff Let_def)
  moreover obtain expiry where "ts (sa_expires_at (wd_authorization (ws_draft s))) = Some expiry"
    using struct by (auto simp: validate_structure_def ok_iff Let_def)
  ultimately show ?thesis
    using assms(2-4) by (auto simp: parse_scope_def validate_at_def Let_def fail_if_def)
qed

definition sample_scope_draft :: web_scope_draft where
  "sample_scope_draft = \<lparr>
     wd_authorization = \<lparr>sa_status = ScopeAuthorized, sa_reference = ''r'', sa_reviewer = ''Ann'',
       sa_expires_at = T1\<rparr>,
     wd_repositories = [\<lparr>rp_label = ''app'', rp_root_sha256 = zero_hash\<rparr>],
     wd_assets = [\<lparr>as_kind = DnsName, as_value = ''a.io'', as_include_subdomains = True,
       as_schemes = [Https], as_ports = [443]\<rparr>],
     wd_policy = \<lparr>sp_passive_only = True, sp_network_execution = NetworkDisabled,
       sp_follow_redirects = False, sp_third_party_scanning = False\<rparr>,
     wd_limits = \<lparr>sl_max_files = 1, sl_max_file_bytes = 1, sl_max_total_bytes = 1,
       sl_max_routes = 1, sl_max_sources = 1, sl_max_requests = 0, sl_requests_per_minute = 0,
       sl_max_concurrency = 0\<rparr>\<rparr>"

definition empty_scope_json :: "web_scope \<Rightarrow> string" where
  "empty_scope_json s = ''{}''"

definition sample_scope :: web_scope where
  "sample_scope = \<lparr>ws_contract_version = SCOPE_VERSION,
     ws_scope_id = ''sf_web_scope_'' @ web_sha256_hex zero_sha ''{}'', ws_created_at = T0,
     ws_draft = sample_scope_draft\<rparr>"

lemma zero_hash_web [simp]: "web_valid_sha256 zero_hash"
  using zero_hash_wf by (simp add: web_valid_sha256_def sha256_wf_def is_lower_hex_of_length_def)

lemma sample_scope_structure:
  "validate_structure sample_ts zero_sha empty_scope_json sample_scope = Inr ()"
proof -
  have "valid_dns_name ''a.io''" by code_simp
  moreover have "web_valid_text ''r'' 300" "web_valid_text ''Ann'' 200" "web_valid_text ''app'' 200"
    by (simp_all add: web_valid_text_def string_simps)
  moreover have "web_prefixed_hash (''sf_web_scope_'' @ web_sha256_hex zero_sha ''{}'') ''sf_web_scope_''"
    by (rule web_digest_prefixed) simp
  ultimately show ?thesis
    by (simp add: validate_structure_def ok_iff Let_def sample_scope_def sample_scope_draft_def
        expected_scope_id_def empty_scope_json_def repository_wf_def asset_wf_def valid_target_def
        del: append.simps append_Cons)
qed

lemma sample_seal:
  "seal_scope sample_ts zero_sha empty_scope_json (\<lambda>_. Some sample_scope_draft) (Some T1) ''{}''
     (Some T0) = Ok sample_scope"
proof -
  have "\<lparr>ws_contract_version = SCOPE_VERSION, ws_scope_id = expected_scope_id zero_sha empty_scope_json
      \<lparr>ws_contract_version = SCOPE_VERSION, ws_scope_id = [], ws_created_at = T0,
       ws_draft = sample_scope_draft\<rparr>, ws_created_at = T0, ws_draft = sample_scope_draft\<rparr> = sample_scope"
    by (simp add: sample_scope_def expected_scope_id_def empty_scope_json_def)
  then show ?thesis
    using sample_scope_structure by (simp add: seal_scope_def MAX_SCOPE_BYTES_def Let_def)
qed

theorem seal_parse_roundtrip_witness:
  "parse_scope sample_ts zero_sha empty_scope_json (\<lambda>_. Some sample_scope) ''{}'' 5 = Ok sample_scope
 \<and> \<not> is_ok (parse_scope sample_ts zero_sha empty_scope_json (\<lambda>_. Some sample_scope) ''{}'' 86400)"
proof -
  have exp: "sa_expires_at (wd_authorization (ws_draft sample_scope)) = T1"
    by (simp add: sample_scope_def sample_scope_draft_def)
  have "(\<lambda>_. Some sample_scope) ''{}'' = Some sample_scope" "''{}'' \<noteq> []"
      "length ''{}'' \<le> MAX_SCOPE_BYTES" by (simp_all add: MAX_SCOPE_BYTES_def)
  note trip = seal_parse_roundtrip [OF sample_seal this, unfolded exp]
  from trip [of 5] trip [of 86400] show ?thesis by (simp add: is_ok_def)
qed

theorem parsed_scope_passive_witness:
  "\<exists>s. parse_scope sample_ts zero_sha empty_scope_json (\<lambda>_. Some sample_scope) ''{}'' 5 = Ok s
     \<and> sl_max_requests (wd_limits (ws_draft s)) = 0"
proof -
  have exp: "sa_expires_at (wd_authorization (ws_draft sample_scope)) = T1"
    by (simp add: sample_scope_def sample_scope_draft_def)
  have ok: "parse_scope sample_ts zero_sha empty_scope_json (\<lambda>_. Some sample_scope) ''{}'' 5
      = Ok sample_scope"
    using sample_scope_structure
    by (simp add: parse_scope_def validate_at_def MAX_SCOPE_BYTES_def Let_def exp fail_if_def)
  from parsed_scope_passive [OF ok] ok show ?thesis by blast
qed

end
