(* ===== verification/WebAssessment.thy ===== *)
theory WebAssessment
  imports WebScope
begin

text \<open>
  The assessment of routes, \<open>crates/secureflow-web/src/assessment.rs\<close>: \<open>assess_routes\<close> turns the
  coverage of routes into observations by ten fixed rules, \<open>record_human_validation\<close> derives the
  assessment in which a person has confirmed one candidate, and \<open>WebAssessment::validate\<close> checks
  an assessment when it is read back.

  Parameters: the timestamp parser \<open>ts\<close>, the digest \<open>sha\<close>, the JSON encodings \<open>ser_obs\<close> and
  \<open>ser\<close> of an observation and of an assessment, and the formatted clock \<open>now\<close>.
\<close>

section \<open>Data\<close>

definition ASSESSMENT_VERSION :: string where
  "ASSESSMENT_VERSION = ''secureflow-web-assessment-v1''"

definition MAX_ASSESSMENT_BYTES :: nat where
  "MAX_ASSESSMENT_BYTES = 128 * 1024 * 1024"

datatype access_intent = AccessPublic | AccessAuthenticated | AccessPrivileged | AccessUnknown

record control_expectation =
  ce_authentication_required :: bool
  ce_authorization_required :: bool
  ce_owner_scope_required :: bool
  ce_tenant_scope_required :: bool
  ce_restricted_cors_required :: bool
  ce_private_cache_required :: bool
  ce_sanitized_errors_required :: bool

datatype control_state =
  CtlPresent | CtlMissing | CtlInconsistent | CtlUnknown | CtlNotApplicable

datatype evidence_state =
  EvPresent | EvMissing | EvInconsistent | EvUnknown | EvNotApplicable

fun control_of_evidence :: "evidence_state \<Rightarrow> control_state" where
  "control_of_evidence EvPresent = CtlPresent"
| "control_of_evidence EvMissing = CtlMissing"
| "control_of_evidence EvInconsistent = CtlInconsistent"
| "control_of_evidence EvUnknown = CtlUnknown"
| "control_of_evidence EvNotApplicable = CtlNotApplicable"

record observed_controls =
  oc_authentication :: control_state
  oc_authorization :: control_state
  oc_owner_scope :: control_state
  oc_tenant_scope :: control_state
  oc_restricted_cors :: control_state
  oc_private_cache :: control_state
  oc_sanitized_errors :: control_state

datatype assessment_evidence_kind =
  AekCode | AekBuild | AekDocumentation | AekAuthorizedTraffic | AekControlFlow | AekResponse
| AekHumanReproduction

datatype evidence_reference =
  EvidenceReference (evr_kind: assessment_evidence_kind) (evr_reference: string)
    (evr_sha256: string) (evr_description: string)

record coverage_route =
  cv_route_key :: string
  cv_method :: http_method
  cv_route :: string
  cv_implemented :: bool
  cv_documented :: bool
  cv_observed :: bool
  cv_access_intent :: access_intent
  cv_expected :: control_expectation
  cv_observed_controls :: observed_controls
  cv_allowed_response_fields :: "string list"
  cv_response_allowlist_declared :: bool
  cv_observed_response_fields :: "string list"
  cv_evidence :: "evidence_reference list"

datatype observation_class = ClassCandidate | ClassHardening | ClassHumanValidated

record human_validation =
  hv_reviewer :: string
  hv_reviewed_at :: string
  hv_rationale :: string
  hv_evidence_reference :: string

record observation =
  ob_observation_id :: string
  ob_rule_id :: string
  ob_class :: observation_class
  ob_route_key :: string
  ob_method :: http_method
  ob_route :: string
  ob_title :: string
  ob_invariant :: string
  ob_evidence :: "evidence_reference list"
  ob_limitations :: "string list"
  ob_human_validation :: "human_validation option"

record assessment_summary =
  sm_candidates :: u64
  sm_hardening :: u64
  sm_human_validated_vulnerabilities :: u64
  sm_abstentions :: u64

record web_assessment_semantics =
  se_automated_validation_authority :: bool
  se_validation_authority :: string
  se_obscurity_is_a_control :: bool
  se_no_observations_mean_safe :: bool
  se_network_used :: bool

record web_assessment =
  wa_contract_version :: string
  wa_assessment_id :: string
  wa_parent_assessment_id :: "string option"
  wa_created_at :: string
  wa_scope_id :: string
  wa_inventory_ids :: "string list"
  wa_observations :: "observation list"
  wa_summary :: assessment_summary
  wa_semantics :: web_assessment_semantics

datatype assessment_error =
  AssessInvalidField string
| AssessJson
| AssessTimestamp
| ObservationNotFound string
| ObservationNotCandidate string

text \<open>The derived order of evidence references.\<close>

fun aek_rank :: "assessment_evidence_kind \<Rightarrow> nat" where
  "aek_rank AekCode = 0" | "aek_rank AekBuild = 1" | "aek_rank AekDocumentation = 2"
| "aek_rank AekAuthorizedTraffic = 3" | "aek_rank AekControlFlow = 4"
| "aek_rank AekResponse = 5" | "aek_rank AekHumanReproduction = 6"

lemma aek_rank_inj: "aek_rank a = aek_rank b \<longleftrightarrow> a = b"
  by (cases a; cases b) simp_all

definition evr_key :: "evidence_reference \<Rightarrow> nat \<times> string \<times> string \<times> string" where
  "evr_key e = (aek_rank (evr_kind e), evr_reference e, evr_sha256 e, evr_description e)"

lemma evr_key_inj: "evr_key a = evr_key b \<longleftrightarrow> a = b"
  by (cases a; cases b) (simp add: evr_key_def aek_rank_inj)

instantiation evidence_reference :: linorder
begin

definition less_eq_evidence_reference :: "evidence_reference \<Rightarrow> evidence_reference \<Rightarrow> bool" where
  "less_eq_evidence_reference a b \<longleftrightarrow> evr_key a \<le> evr_key b"

definition less_evidence_reference :: "evidence_reference \<Rightarrow> evidence_reference \<Rightarrow> bool" where
  "less_evidence_reference a b \<longleftrightarrow> evr_key a < evr_key b"

instance
  by standard
     (auto simp: less_eq_evidence_reference_def less_evidence_reference_def evr_key_inj [symmetric])

end

section \<open>Contracts\<close>

definition web_valid_identifier :: "string \<Rightarrow> string \<Rightarrow> bool" where
  "web_valid_identifier value pfx = web_prefixed_hash value pfx"

definition valid_route_path :: "string \<Rightarrow> bool" where
  "valid_route_path value \<longleftrightarrow>
     starts_with ''/'' value \<and> length value \<le> 2000 \<and> \<not> contains_str ''..'' value
   \<and> CHR 0x00 \<notin> set value"

definition unique_sorted_text :: "string list \<Rightarrow> bool" where
  "unique_sorted_text values \<longleftrightarrow>
     length values \<le> 10000 \<and> list_all (\<lambda>v. web_valid_text v 300) values
   \<and> strictly_increasing values"

fun method_label :: "http_method \<Rightarrow> string" where
  "method_label Get = ''GET''"
| "method_label Head = ''HEAD''"
| "method_label Post = ''POST''"
| "method_label Put = ''PUT''"
| "method_label Patch = ''PATCH''"
| "method_label Delete = ''DELETE''"
| "method_label Options = ''OPTIONS''"

definition validate_evidence_item :: "evidence_reference \<Rightarrow> assessment_error + unit" where
  "validate_evidence_item e =
     fail_if (\<not> web_valid_text (evr_reference e) 500 \<or> \<not> web_valid_sha256 (evr_sha256 e)
              \<or> \<not> web_valid_text (evr_description e) 1000) (AssessInvalidField ''evidence'')"

definition validate_evidence :: "evidence_reference list \<Rightarrow> assessment_error + unit" where
  "validate_evidence es = checks [
     fail_if (100 < length es \<or> \<not> strictly_increasing es) (AssessInvalidField ''evidence order''),
     each validate_evidence_item es]"

definition validate_coverage_route :: "coverage_route \<Rightarrow> assessment_error + unit" where
  "validate_coverage_route r = (let e = cv_expected r in checks [
     fail_if (\<not> web_valid_text (cv_route_key r) 200
              \<or> cv_route_key r \<noteq> method_label (cv_method r) @ '' '' @ cv_route r
              \<or> \<not> valid_route_path (cv_route r)
              \<or> cv_evidence r = [] \<or> 100 < length (cv_evidence r)
              \<or> \<not> unique_sorted_text (cv_allowed_response_fields r)
              \<or> \<not> unique_sorted_text (cv_observed_response_fields r)
              \<or> (\<not> cv_observed r \<and> cv_observed_response_fields r \<noteq> [])
              \<or> (cv_access_intent r = AccessPublic
                 \<and> (ce_authentication_required e \<or> ce_authorization_required e))
              \<or> (cv_access_intent r \<in> {AccessAuthenticated, AccessPrivileged}
                 \<and> \<not> ce_authentication_required e)
              \<or> (cv_access_intent r = AccessPrivileged \<and> \<not> ce_authorization_required e)
              \<or> ((ce_owner_scope_required e \<or> ce_tenant_scope_required e)
                 \<and> (\<not> ce_authentication_required e \<or> \<not> ce_authorization_required e)))
       (AssessInvalidField ''coverage route''),
     validate_evidence (cv_evidence r)])"

definition expected_observation_id ::
    "digest_fun \<Rightarrow> (observation \<Rightarrow> string) \<Rightarrow> observation \<Rightarrow> string" where
  "expected_observation_id sha ser_obs ob =
     ''sf_web_observation_'' @ web_sha256_hex sha (ser_obs (ob\<lparr>ob_observation_id := []\<rparr>))"

definition expected_assessment_id ::
    "digest_fun \<Rightarrow> (web_assessment \<Rightarrow> string) \<Rightarrow> web_assessment \<Rightarrow> string" where
  "expected_assessment_id sha ser a =
     ''sf_web_assessment_''
       @ web_sha256_hex sha (ser (a\<lparr>wa_assessment_id := [], wa_created_at := []\<rparr>))"

definition validate_human_class ::
    "ts_parser \<Rightarrow> observation \<Rightarrow> assessment_error + unit" where
  "validate_human_class ts ob =
     (case (ob_class ob, ob_human_validation ob) of
        (ClassHumanValidated, Some v) \<Rightarrow>
          fail_if (\<not> web_valid_text (hv_reviewer v) 200 \<or> ts (hv_reviewed_at v) = None
                   \<or> \<not> web_valid_text (hv_rationale v) 3000
                   \<or> \<not> web_valid_text (hv_evidence_reference v) 300
                   \<or> \<not> list_ex (\<lambda>e. evr_kind e = AekHumanReproduction) (ob_evidence ob)
                   \<or> \<not> list_ex (\<lambda>e. evr_reference e = hv_evidence_reference v) (ob_evidence ob))
            (AssessInvalidField ''human validation'')
      | (ClassHumanValidated, None) \<Rightarrow> Err (AssessInvalidField ''human validation'')
      | (_, Some _) \<Rightarrow> Err (AssessInvalidField ''human validation class'')
      | (_, None) \<Rightarrow> Ok ())"

definition validate_observation ::
    "ts_parser \<Rightarrow> digest_fun \<Rightarrow> (observation \<Rightarrow> string) \<Rightarrow> observation \<Rightarrow> assessment_error + unit"
  where
  "validate_observation ts sha ser_obs ob = checks [
     fail_if (\<not> web_valid_identifier (ob_observation_id ob) ''sf_web_observation_''
              \<or> ob_observation_id ob \<noteq> expected_observation_id sha ser_obs ob
              \<or> \<not> web_valid_text (ob_rule_id ob) 100 \<or> \<not> web_valid_text (ob_route_key ob) 200
              \<or> \<not> valid_route_path (ob_route ob) \<or> \<not> web_valid_text (ob_title ob) 300
              \<or> \<not> web_valid_text (ob_invariant ob) 1000 \<or> ob_evidence ob = []
              \<or> 100 < length (ob_limitations ob) \<or> \<not> strictly_increasing (ob_limitations ob))
       (AssessInvalidField ''observation''),
     validate_evidence (ob_evidence ob),
     fail_if (list_ex (\<lambda>l. \<not> web_valid_text l 500) (ob_limitations ob))
       (AssessInvalidField ''observation limitation''),
     validate_human_class ts ob]"

definition summarize :: "observation list \<Rightarrow> u64 \<Rightarrow> assessment_summary" where
  "summarize obs abstentions = \<lparr>
     sm_candidates = of_nat (count_if (\<lambda>ob. ob_class ob = ClassCandidate) obs),
     sm_hardening = of_nat (count_if (\<lambda>ob. ob_class ob = ClassHardening) obs),
     sm_human_validated_vulnerabilities =
       of_nat (count_if (\<lambda>ob. ob_class ob = ClassHumanValidated) obs),
     sm_abstentions = abstentions\<rparr>"

definition route_order :: "coverage_route \<Rightarrow> string \<times> http_method \<times> string" where
  "route_order r = (cv_route r, cv_method r, cv_route_key r)"

definition observation_order :: "observation \<Rightarrow> string \<times> http_method \<times> string \<times> string" where
  "observation_order ob = (ob_route ob, ob_method ob, ob_rule_id ob, ob_route_key ob)"

definition human_validations :: "observation list \<Rightarrow> human_validation list" where
  "human_validations obs = List.map_filter ob_human_validation obs"

definition validate_assessment ::
    "ts_parser \<Rightarrow> digest_fun \<Rightarrow> (observation \<Rightarrow> string) \<Rightarrow> (web_assessment \<Rightarrow> string)
     \<Rightarrow> web_assessment \<Rightarrow> assessment_error + unit" where
  "validate_assessment ts sha ser_obs ser a =
     (let sem = wa_semantics a; obs = wa_observations a
      in and_then (checks [
           fail_if (wa_contract_version a \<noteq> ASSESSMENT_VERSION
               \<or> \<not> web_valid_identifier (wa_assessment_id a) ''sf_web_assessment_''
               \<or> wa_assessment_id a \<noteq> expected_assessment_id sha ser a
               \<or> (case wa_parent_assessment_id a of
                    None \<Rightarrow> False
                  | Some parent \<Rightarrow> \<not> web_valid_identifier parent ''sf_web_assessment_''
                                \<or> parent = wa_assessment_id a)
               \<or> ts (wa_created_at a) = None
               \<or> \<not> web_valid_identifier (wa_scope_id a) ''sf_web_scope_''
               \<or> wa_inventory_ids a = [] \<or> 100000 < length (wa_inventory_ids a)
               \<or> \<not> list_all (\<lambda>i. web_valid_identifier i ''sf_web_inventory_'') (wa_inventory_ids a)
               \<or> \<not> strictly_increasing (wa_inventory_ids a)
               \<or> se_automated_validation_authority sem
               \<or> se_validation_authority sem \<noteq> ''human-only''
               \<or> se_obscurity_is_a_control sem \<or> se_no_observations_mean_safe sem
               \<or> se_network_used sem \<or> 2000000 < length obs)
             (AssessInvalidField ''identity or semantics''),
           each (validate_observation ts sha ser_obs) obs,
           fail_if (\<not> strictly_increasing (map observation_order obs))
             (AssessInvalidField ''observation order''),
           fail_if (wa_summary a \<noteq> summarize obs (sm_abstentions (wa_summary a)))
             (AssessInvalidField ''summary'')]) (\<lambda>_.
         and_then (ok_or (ts (wa_created_at a)) (AssessInvalidField ''created_at'')) (\<lambda>created_at.
         fail_if ((wa_parent_assessment_id a = None) \<noteq> (human_validations obs = [])
                  \<or> list_ex (\<lambda>v. case ts (hv_reviewed_at v) of
                       None \<Rightarrow> True | Some reviewed_at \<Rightarrow> created_at < reviewed_at)
                     (human_validations obs))
           (AssessInvalidField ''assessment lineage''))))"

definition parse_assessment ::
    "ts_parser \<Rightarrow> digest_fun \<Rightarrow> (observation \<Rightarrow> string) \<Rightarrow> (web_assessment \<Rightarrow> string)
     \<Rightarrow> (string \<Rightarrow> web_assessment option) \<Rightarrow> string \<Rightarrow> assessment_error + web_assessment" where
  "parse_assessment ts sha ser_obs ser from_json bytes =
     and_then (fail_if (bytes = [] \<or> MAX_ASSESSMENT_BYTES < length bytes)
       (AssessInvalidField ''document size'')) (\<lambda>_.
     and_then (ok_or (from_json bytes) AssessJson) (\<lambda>a.
     and_then (validate_assessment ts sha ser_obs ser a) (\<lambda>_. Ok a)))"

section \<open>Assessing routes\<close>

record required_control_rule =
  rc_rule_id :: string
  rc_title :: string
  rc_invariant :: string

definition observation_for ::
    "coverage_route \<Rightarrow> string \<Rightarrow> observation_class \<Rightarrow> string \<Rightarrow> string \<Rightarrow> string list
     \<Rightarrow> observation" where
  "observation_for r rule_id class title invariant limitations = \<lparr>
     ob_observation_id = [], ob_rule_id = rule_id, ob_class = class,
     ob_route_key = cv_route_key r, ob_method = cv_method r, ob_route = cv_route r,
     ob_title = title, ob_invariant = invariant, ob_evidence = cv_evidence r,
     ob_limitations = limitations, ob_human_validation = None\<rparr>"

text \<open>The observations made so far, in order, and the abstentions.\<close>

type_synonym findings_so_far = "observation list \<times> u64"

definition apply_required_control ::
    "coverage_route \<Rightarrow> bool \<Rightarrow> control_state \<Rightarrow> required_control_rule \<Rightarrow> findings_so_far
     \<Rightarrow> findings_so_far" where
  "apply_required_control r required state rule acc =
     (let (obs, abstentions) = acc in
      if \<not> required then (obs, abstentions)
      else case state of
          CtlMissing \<Rightarrow> (obs @ [observation_for r (rc_rule_id rule) ClassCandidate (rc_title rule)
             (rc_invariant rule)
             [''Automated evidence does not by itself establish reproducible impact'']], abstentions)
        | CtlInconsistent \<Rightarrow> (obs @ [observation_for r (rc_rule_id rule) ClassCandidate (rc_title rule)
             (rc_invariant rule)
             [''Automated evidence does not by itself establish reproducible impact'']], abstentions)
        | CtlUnknown \<Rightarrow> (obs, abstentions + 1)
        | CtlPresent \<Rightarrow> (obs, abstentions)
        | CtlNotApplicable \<Rightarrow> (obs, abstentions + 1))"

text \<open>\<open>join(", ")\<close>.\<close>

fun join_comma :: "string list \<Rightarrow> string" where
  "join_comma [] = []"
| "join_comma [x] = x"
| "join_comma (x # y # xs) = x @ '', '' @ join_comma (y # xs)"

definition excessive_fields :: "coverage_route \<Rightarrow> string list" where
  "excessive_fields r =
     filter (\<lambda>f. f \<notin> set (cv_allowed_response_fields r)) (cv_observed_response_fields r)"

definition rule_web003 :: required_control_rule where
  "rule_web003 = \<lparr>rc_rule_id = ''SFWEB003'',
     rc_title = ''Required authentication does not dominate the route'',
     rc_invariant = ''Every path to an authenticated endpoint must pass through trusted authentication before the handler or sensitive error response.''\<rparr>"

definition rule_web004 :: required_control_rule where
  "rule_web004 = \<lparr>rc_rule_id = ''SFWEB004'',
     rc_title = ''Required authorization does not dominate the route'',
     rc_invariant = ''Every path to a privileged operation must pass through role and object authorization before the sensitive sink.''\<rparr>"

definition rule_web005 :: required_control_rule where
  "rule_web005 = \<lparr>rc_rule_id = ''SFWEB005'',
     rc_title = ''Required owner scope is absent or inconsistent'',
     rc_invariant = ''Object reads and mutations must constrain owner scope at the query or mutation boundary.''\<rparr>"

definition rule_web006 :: required_control_rule where
  "rule_web006 = \<lparr>rc_rule_id = ''SFWEB006'',
     rc_title = ''Required tenant scope is absent or inconsistent'',
     rc_invariant = ''Object reads and mutations must constrain tenant scope at the query or mutation boundary.''\<rparr>"

definition rule_web007 :: required_control_rule where
  "rule_web007 = \<lparr>rc_rule_id = ''SFWEB007'',
     rc_title = ''Required CORS restriction is absent or inconsistent'',
     rc_invariant = ''Browser-readable authenticated APIs must restrict origins and credential behavior to the authorized policy.''\<rparr>"

definition rule_web008 :: required_control_rule where
  "rule_web008 = \<lparr>rc_rule_id = ''SFWEB008'',
     rc_title = ''Private response cache policy is absent or inconsistent'',
     rc_invariant = ''Responses containing non-public data must not be reusable by shared caches.''\<rparr>"

definition rule_web009 :: required_control_rule where
  "rule_web009 = \<lparr>rc_rule_id = ''SFWEB009'',
     rc_title = ''Error sanitization is absent or inconsistent'',
     rc_invariant = ''Client responses must not expose stack traces, internal paths, queries or secret-bearing provider errors.''\<rparr>"

text \<open>The body of the loop over the routes, after the validation of the route.\<close>

definition web001 :: "coverage_route \<Rightarrow> findings_so_far \<Rightarrow> findings_so_far" where
  "web001 r acc =
     (if cv_implemented r \<and> \<not> cv_documented r
      then (fst acc @ [observation_for r ''SFWEB001'' ClassHardening
              ''Implemented API is absent from declared documentation''
              ''Every implemented API should have an explicit documentation disposition; obscurity is not an access control.''
              [''Undocumented status alone does not prove exposure or impact'']], snd acc)
      else acc)"

definition web002 :: "coverage_route \<Rightarrow> findings_so_far \<Rightarrow> findings_so_far" where
  "web002 r acc =
     (if cv_observed r \<and> \<not> cv_implemented r
      then (fst acc @ [observation_for r ''SFWEB002'' ClassCandidate
              ''Authorized traffic contains an API absent from the implementation inventory''
              ''Every observed API should map to a current implementation or an explicitly retained external component.''
              [''The traffic may refer to an older deployment or upstream proxy'']], snd acc)
      else acc)"

definition web010 :: "coverage_route \<Rightarrow> findings_so_far \<Rightarrow> findings_so_far" where
  "web010 r acc =
     (if cv_response_allowlist_declared r \<and> excessive_fields r \<noteq> []
      then (fst acc @ [observation_for r ''SFWEB010'' ClassCandidate
              ''Response contains fields outside the declared allowlist''
              ''API responses should expose only fields required by their declared consumer contract.''
              [''Fields requiring human sensitivity review: '' @ join_comma (excessive_fields r)]],
            snd acc)
      else acc)"

definition assess_route :: "coverage_route \<Rightarrow> findings_so_far \<Rightarrow> findings_so_far" where
  "assess_route r acc0 =
     (let e = cv_expected r; c = cv_observed_controls r;
          acc1 = web001 r acc0;
          acc2 = web002 r acc1;
          acc3 = apply_required_control r (ce_authentication_required e) (oc_authentication c)
                   rule_web003 acc2;
          acc4 = apply_required_control r (ce_authorization_required e) (oc_authorization c)
                   rule_web004 acc3;
          acc5 = apply_required_control r (ce_owner_scope_required e) (oc_owner_scope c)
                   rule_web005 acc4;
          acc6 = apply_required_control r (ce_tenant_scope_required e) (oc_tenant_scope c)
                   rule_web006 acc5;
          acc7 = apply_required_control r (ce_restricted_cors_required e) (oc_restricted_cors c)
                   rule_web007 acc6;
          acc8 = apply_required_control r (ce_private_cache_required e) (oc_private_cache c)
                   rule_web008 acc7;
          acc9 = apply_required_control r (ce_sanitized_errors_required e) (oc_sanitized_errors c)
                   rule_web009 acc8
      in web010 r acc9)"

fun assess_all :: "coverage_route list \<Rightarrow> findings_so_far \<Rightarrow> assessment_error + findings_so_far" where
  "assess_all [] acc = Ok acc"
| "assess_all (r # rs) acc =
     and_then (validate_coverage_route r) (\<lambda>_. assess_all rs (assess_route r acc))"

definition human_only_semantics :: web_assessment_semantics where
  "human_only_semantics = \<lparr>se_automated_validation_authority = False,
     se_validation_authority = ''human-only'', se_obscurity_is_a_control = False,
     se_no_observations_mean_safe = False, se_network_used = False\<rparr>"

definition assess_routes ::
    "ts_parser \<Rightarrow> digest_fun \<Rightarrow> (observation \<Rightarrow> string) \<Rightarrow> (web_assessment \<Rightarrow> string)
     \<Rightarrow> string option \<Rightarrow> string \<Rightarrow> string list \<Rightarrow> coverage_route list \<Rightarrow> string option
     \<Rightarrow> assessment_error + web_assessment" where
  "assess_routes ts sha ser_obs ser now scope_id inventory_ids0 routes0 created_at =
     and_then (fail_if (\<not> web_valid_identifier scope_id ''sf_web_scope_'')
       (AssessInvalidField ''scope_id'')) (\<lambda>_.
     let inventory_ids = sort inventory_ids0
     in and_then (fail_if (inventory_ids = [] \<or> 100000 < length inventory_ids
            \<or> \<not> list_all (\<lambda>i. web_valid_identifier i ''sf_web_inventory_'') inventory_ids
            \<or> \<not> strictly_increasing inventory_ids) (AssessInvalidField ''inventory_ids'')) (\<lambda>_.
        let routes = sort_key route_order routes0
        in and_then (checks [
             fail_if (2000000 < length routes) (AssessInvalidField ''routes''),
             fail_if (\<not> strictly_increasing (map route_order routes))
               (AssessInvalidField ''duplicate routes'')]) (\<lambda>_.
           and_then (assess_all routes ([], 0)) (\<lambda>(obs, abstentions).
           let observations = map (\<lambda>ob. ob\<lparr>ob_observation_id := expected_observation_id sha ser_obs ob\<rparr>)
                 (sort_key observation_order obs)
           in and_then (ok_or now AssessTimestamp) (\<lambda>formatted.
              let a = \<lparr>wa_contract_version = ASSESSMENT_VERSION, wa_assessment_id = [],
                    wa_parent_assessment_id = None,
                    wa_created_at = (case created_at of None \<Rightarrow> formatted | Some t \<Rightarrow> t),
                    wa_scope_id = scope_id, wa_inventory_ids = inventory_ids,
                    wa_observations = observations, wa_summary = summarize observations abstentions,
                    wa_semantics = human_only_semantics\<rparr>;
                  a' = a\<lparr>wa_assessment_id := expected_assessment_id sha ser a\<rparr>
              in and_then (validate_assessment ts sha ser_obs ser a') (\<lambda>_. Ok a'))))))"

section \<open>Recording a human validation\<close>

definition confirm_observation ::
    "digest_fun \<Rightarrow> (observation \<Rightarrow> string) \<Rightarrow> human_validation \<Rightarrow> evidence_reference \<Rightarrow> observation
     \<Rightarrow> observation" where
  "confirm_observation sha ser_obs v reproduction ob =
     (let ob1 = ob\<lparr>ob_evidence := remdups_adj (sort (ob_evidence ob @ [reproduction])),
                   ob_class := ClassHumanValidated, ob_human_validation := Some v\<rparr>
      in ob1\<lparr>ob_observation_id := expected_observation_id sha ser_obs ob1\<rparr>)"

definition record_human_validation ::
    "ts_parser \<Rightarrow> digest_fun \<Rightarrow> (observation \<Rightarrow> string) \<Rightarrow> (web_assessment \<Rightarrow> string)
     \<Rightarrow> string \<Rightarrow> human_validation \<Rightarrow> evidence_reference \<Rightarrow> string \<Rightarrow> web_assessment
     \<Rightarrow> assessment_error + web_assessment" where
  "record_human_validation ts sha ser_obs ser observation_id v reproduction recorded_at a =
     and_then (validate_assessment ts sha ser_obs ser a) (\<lambda>_.
     and_then (ok_or (ts recorded_at) (AssessInvalidField ''recorded_at'')) (\<lambda>recorded.
     and_then (ok_or (ts (hv_reviewed_at v)) (AssessInvalidField ''human_validation.reviewed_at''))
       (\<lambda>reviewed.
     and_then (ok_or (ts (wa_created_at a)) (AssessInvalidField ''created_at'')) (\<lambda>previous.
     and_then (fail_if (evr_kind reproduction \<noteq> AekHumanReproduction
                 \<or> evr_reference reproduction \<noteq> hv_evidence_reference v
                 \<or> recorded < reviewed \<or> recorded < previous)
       (AssessInvalidField ''human validation evidence'')) (\<lambda>_.
     case position (\<lambda>ob. ob_observation_id ob = observation_id) (wa_observations a) of
       None \<Rightarrow> Err (ObservationNotFound observation_id)
     | Some i \<Rightarrow>
         let ob = wa_observations a ! i in
         if ob_class ob \<noteq> ClassCandidate \<or> ob_human_validation ob \<noteq> None
         then Err (ObservationNotCandidate observation_id)
         else
           let obs = (wa_observations a)[i := confirm_observation sha ser_obs v reproduction ob];
               a1 = a\<lparr>wa_observations := obs, wa_parent_assessment_id := Some (wa_assessment_id a),
                      wa_created_at := recorded_at,
                      wa_summary := summarize obs (sm_abstentions (wa_summary a))\<rparr>;
               a2 = a1\<lparr>wa_assessment_id := expected_assessment_id sha ser a1\<rparr>
           in and_then (validate_assessment ts sha ser_obs ser a2) (\<lambda>_. Ok a2))))))"

end
