(* ===== verification/WebFindings.thy ===== *)
theory WebFindings
  imports WebAssessment
begin

text \<open>
  What the assessment of routes guarantees: the observations are exactly those of the ten rules,
  the abstentions are counted exactly, an assessment succeeds exactly when its inputs are in
  bounds, and only a person can make a vulnerability of a candidate.
\<close>

section \<open>The rules, one route at a time\<close>

text \<open>The controls of a route with what is required, what was observed and the rule.\<close>

definition required_controls ::
    "coverage_route \<Rightarrow> (bool \<times> control_state \<times> required_control_rule) list" where
  "required_controls r = (let e = cv_expected r; c = cv_observed_controls r in
     [(ce_authentication_required e, oc_authentication c, rule_web003),
      (ce_authorization_required e, oc_authorization c, rule_web004),
      (ce_owner_scope_required e, oc_owner_scope c, rule_web005),
      (ce_tenant_scope_required e, oc_tenant_scope c, rule_web006),
      (ce_restricted_cors_required e, oc_restricted_cors c, rule_web007),
      (ce_private_cache_required e, oc_private_cache c, rule_web008),
      (ce_sanitized_errors_required e, oc_sanitized_errors c, rule_web009)])"

definition control_finding ::
    "coverage_route \<Rightarrow> bool \<times> control_state \<times> required_control_rule \<Rightarrow> observation list" where
  "control_finding r = (\<lambda>(required, state, rule).
     if required \<and> state \<in> {CtlMissing, CtlInconsistent}
     then [observation_for r (rc_rule_id rule) ClassCandidate (rc_title rule) (rc_invariant rule)
            [''Automated evidence does not by itself establish reproducible impact'']]
     else [])"

definition control_abstains :: "bool \<times> control_state \<times> required_control_rule \<Rightarrow> bool" where
  "control_abstains = (\<lambda>(required, state, rule). required \<and> state \<in> {CtlUnknown, CtlNotApplicable})"

definition route_findings :: "coverage_route \<Rightarrow> observation list" where
  "route_findings r =
     fst (web001 r ([], 0)) @ fst (web002 r ([], 0))
     @ concat (map (control_finding r) (required_controls r)) @ fst (web010 r ([], 0))"

definition route_abstentions :: "coverage_route \<Rightarrow> nat" where
  "route_abstentions r = count_if control_abstains (required_controls r)"

lemma web_rule_append:
  "web001 r (obs, n) = (obs @ fst (web001 r ([], 0)), n)"
  "web002 r (obs, n) = (obs @ fst (web002 r ([], 0)), n)"
  "web010 r (obs, n) = (obs @ fst (web010 r ([], 0)), n)"
  by (simp_all add: web001_def web002_def web010_def)

lemma apply_required_control_append:
  "apply_required_control r required state rule (obs, n)
     = (obs @ control_finding r (required, state, rule),
        n + of_nat (count_if control_abstains [(required, state, rule)]))"
  by (cases state) (simp_all add: apply_required_control_def control_finding_def control_abstains_def)

lemma assess_route_effect:
  "assess_route r (obs, n) = (obs @ route_findings r, n + of_nat (route_abstentions r))"
  unfolding assess_route_def Let_def web_rule_append(1) [of r obs] web_rule_append(2) [of r "_ @ _"]
    apply_required_control_append web_rule_append(3) [of r "_ @ _"]
  by (simp add: route_findings_def route_abstentions_def required_controls_def Let_def
      count_if_def)

lemma assess_all_effect:
  "assess_all rs (obs, n) = Inr acc \<longleftrightarrow>
     (\<forall>r \<in> set rs. validate_coverage_route r = Inr ())
   \<and> acc = (obs @ concat (map route_findings rs), n + of_nat (sum_list (map route_abstentions rs)))"
proof (induction rs arbitrary: obs n)
  case Nil
  then show ?case by auto
next
  case (Cons r rs)
  then show ?case by (auto simp: ok_iff assess_route_effect add.assoc)
qed

lemma route_abstentions_le: "route_abstentions r \<le> 7"
  using count_if_le [of control_abstains "required_controls r"]
  by (simp add: route_abstentions_def required_controls_def Let_def)

lemma abstentions_bound: "sum_list (map route_abstentions rs) \<le> 7 * length rs"
proof (induction rs)
  case Nil
  then show ?case by simp
next
  case (Cons r rs)
  then show ?case using route_abstentions_le [of r] by simp
qed

text \<open>What every observation of a route has in common.\<close>

lemma observation_for_fields [simp]:
  "ob_route (observation_for r i c t v l) = cv_route r"
  "ob_method (observation_for r i c t v l) = cv_method r"
  "ob_route_key (observation_for r i c t v l) = cv_route_key r"
  "ob_rule_id (observation_for r i c t v l) = i"
  "ob_class (observation_for r i c t v l) = c"
  "ob_title (observation_for r i c t v l) = t"
  "ob_invariant (observation_for r i c t v l) = v"
  "ob_limitations (observation_for r i c t v l) = l"
  "ob_evidence (observation_for r i c t v l) = cv_evidence r"
  "ob_human_validation (observation_for r i c t v l) = None"
  "ob_observation_id (observation_for r i c t v l) = []"
  by (simp_all add: observation_for_def)

lemmas rule_defs = rule_web003_def rule_web004_def rule_web005_def rule_web006_def rule_web007_def
  rule_web008_def rule_web009_def

lemma control_finding_fields:
  "ob \<in> set (control_finding r c) \<Longrightarrow>
     ob_route ob = cv_route r \<and> ob_method ob = cv_method r \<and> ob_route_key ob = cv_route_key r
   \<and> ob_evidence ob = cv_evidence r \<and> ob_human_validation ob = None \<and> ob_observation_id ob = []
   \<and> ob_class ob = ClassCandidate
   \<and> ob_limitations ob = [''Automated evidence does not by itself establish reproducible impact'']
   \<and> ob_rule_id ob = rc_rule_id (snd (snd c)) \<and> ob_title ob = rc_title (snd (snd c))
   \<and> ob_invariant ob = rc_invariant (snd (snd c))"
  by (auto simp: control_finding_def split: prod.splits if_splits)

lemma route_findings_fields:
  "ob \<in> set (route_findings r) \<Longrightarrow>
     ob_route ob = cv_route r \<and> ob_method ob = cv_method r \<and> ob_route_key ob = cv_route_key r
   \<and> ob_evidence ob = cv_evidence r \<and> ob_human_validation ob = None \<and> ob_observation_id ob = []
   \<and> ob_class ob \<noteq> ClassHumanValidated"
  by (auto simp: route_findings_def web001_def web002_def web010_def dest: control_finding_fields
      split: if_splits)

text \<open>The identifiers of the rules that can fire for a route are different.\<close>

lemma control_finding_rules:
  "map ob_rule_id (control_finding r c) = [] \<or> map ob_rule_id (control_finding r c) = [rc_rule_id (snd (snd c))]"
  by (auto simp: control_finding_def split: prod.splits)

lemma concat_options_subseq:
  "list_all2 (\<lambda>xs y. xs = [] \<or> xs = [y]) xss ys \<Longrightarrow> subseq (concat xss) ys"
  by (induction rule: list_all2_induct) auto

lemma route_findings_rules:
  "subseq (map ob_rule_id (route_findings r))
     [''SFWEB001'', ''SFWEB002'', ''SFWEB003'', ''SFWEB004'', ''SFWEB005'', ''SFWEB006'',
      ''SFWEB007'', ''SFWEB008'', ''SFWEB009'', ''SFWEB010'']" (is "subseq ?ids ?all")
proof -
  let ?control = "\<lambda>c. map ob_rule_id (control_finding r c)"
  have single: "map ob_rule_id (fst (web001 r ([], 0))) = []
        \<or> map ob_rule_id (fst (web001 r ([], 0))) = [''SFWEB001'']"
      "map ob_rule_id (fst (web002 r ([], 0))) = []
        \<or> map ob_rule_id (fst (web002 r ([], 0))) = [''SFWEB002'']"
      "map ob_rule_id (fst (web010 r ([], 0))) = []
        \<or> map ob_rule_id (fst (web010 r ([], 0))) = [''SFWEB010'']"
    by (simp_all add: web001_def web002_def web010_def)
  have rules: "map (\<lambda>c. rc_rule_id (snd (snd c))) (required_controls r)
      = [''SFWEB003'', ''SFWEB004'', ''SFWEB005'', ''SFWEB006'', ''SFWEB007'', ''SFWEB008'', ''SFWEB009'']"
    by (simp add: required_controls_def Let_def rule_defs)
  have "list_all2 (\<lambda>xs y. xs = [] \<or> xs = [y]) (map ?control cs)
      (map (\<lambda>c. rc_rule_id (snd (snd c))) cs)" for cs
    using control_finding_rules [of r] by (induction cs) simp_all
  from this [of "required_controls r"]
  have "list_all2 (\<lambda>xs y. xs = [] \<or> xs = [y]) (map ?control (required_controls r))
      [''SFWEB003'', ''SFWEB004'', ''SFWEB005'', ''SFWEB006'', ''SFWEB007'', ''SFWEB008'', ''SFWEB009'']"
    by (simp only: rules)
  then have controls: "subseq (concat (map ?control (required_controls r)))
      [''SFWEB003'', ''SFWEB004'', ''SFWEB005'', ''SFWEB006'', ''SFWEB007'', ''SFWEB008'', ''SFWEB009'']"
    by (rule concat_options_subseq)
  have ends: "subseq (map ob_rule_id (fst (web001 r ([], 0))) @ map ob_rule_id (fst (web002 r ([], 0))))
        [''SFWEB001'', ''SFWEB002'']"
      "subseq (map ob_rule_id (fst (web010 r ([], 0)))) [''SFWEB010'']"
    using single by auto
  have "?ids = (map ob_rule_id (fst (web001 r ([], 0))) @ map ob_rule_id (fst (web002 r ([], 0))))
      @ concat (map ?control (required_controls r)) @ map ob_rule_id (fst (web010 r ([], 0)))"
    by (simp add: route_findings_def map_concat comp_def)
  with list_emb_append_mono [OF ends(1) list_emb_append_mono [OF controls ends(2)]]
  show ?thesis by simp
qed

lemma route_findings_distinct: "distinct (map ob_rule_id (route_findings r))"
proof -
  obtain N where "map ob_rule_id (route_findings r) = nths [''SFWEB001'', ''SFWEB002'', ''SFWEB003'',
      ''SFWEB004'', ''SFWEB005'', ''SFWEB006'', ''SFWEB007'', ''SFWEB008'', ''SFWEB009'', ''SFWEB010''] N"
    using route_findings_rules [of r] unfolding subseq_conv_nths by blast
  then show ?thesis by (simp only:) (rule distinct_nthsI, simp)
qed

lemma findings_keys_distinct:
  assumes "distinct (map route_order rs)"
  shows "distinct (map observation_order (concat (map route_findings rs)))"
  using assms
proof (induction rs)
  case Nil
  then show ?case by simp
next
  case (Cons r rs)
  have "distinct (map (\<lambda>ob. (cv_route r, cv_method r, ob_rule_id ob, cv_route_key r)) (route_findings r))"
    using route_findings_distinct [of r] by (simp add: distinct_map inj_on_def)
  moreover have "map observation_order (route_findings r)
      = map (\<lambda>ob. (cv_route r, cv_method r, ob_rule_id ob, cv_route_key r)) (route_findings r)"
    by (rule map_cong [OF refl]) (auto simp: observation_order_def dest: route_findings_fields)
  ultimately have "distinct (map observation_order (route_findings r))" by (simp only:)
  moreover have "observation_order ob \<noteq> observation_order ob'"
    if "ob \<in> set (route_findings r)" and "r' \<in> set rs" and "ob' \<in> set (route_findings r')" for ob r' ob'
  proof -
    have "route_order r \<noteq> route_order r'" using Cons.prems that(2) by auto
    then show ?thesis
      using route_findings_fields [OF that(1)] route_findings_fields [OF that(3)]
      by (auto simp: observation_order_def route_order_def)
  qed
  ultimately show ?case using Cons by fastforce
qed

section \<open>When the observations are valid\<close>

definition excess_text :: "coverage_route \<Rightarrow> string" where
  "excess_text r = ''Fields requiring human sensitivity review: '' @ join_comma (excessive_fields r)"

text \<open>The limitation that rule SFWEB010 writes fits the contract of observations.\<close>

definition excess_fits :: "coverage_route \<Rightarrow> bool" where
  "excess_fits r \<longleftrightarrow>
     (cv_response_allowlist_declared r \<and> excessive_fields r \<noteq> [] \<longrightarrow> length (excess_text r) \<le> 500)"

definition fixed_texts_ok :: "observation \<Rightarrow> bool" where
  "fixed_texts_ok ob \<longleftrightarrow>
     web_valid_text (ob_rule_id ob) 100 \<and> web_valid_text (ob_title ob) 300
   \<and> web_valid_text (ob_invariant ob) 1000"

lemma rule_texts:
  "c \<in> set (required_controls r) \<Longrightarrow>
     web_valid_text (rc_rule_id (snd (snd c))) 100 \<and> web_valid_text (rc_title (snd (snd c))) 300
   \<and> web_valid_text (rc_invariant (snd (snd c))) 1000"
  by (auto simp: required_controls_def Let_def rule_defs web_valid_text_def string_simps)

lemma join_comma_no_nul: "\<forall>x \<in> set xs. CHR 0x00 \<notin> set x \<Longrightarrow> CHR 0x00 \<notin> set (join_comma xs)"
  by (induction xs rule: join_comma.induct) auto

lemma excess_text_no_nul:
  assumes "validate_coverage_route r = Inr ()"
  shows "CHR 0x00 \<notin> set (excess_text r)" and "\<not> trim_is_empty (excess_text r)"
proof -
  have "\<forall>x \<in> set (excessive_fields r). CHR 0x00 \<notin> set x"
    using assms
    by (auto simp: validate_coverage_route_def ok_iff Let_def unique_sorted_text_def list_all_iff
        web_valid_text_def excessive_fields_def)
  from join_comma_no_nul [OF this] show "CHR 0x00 \<notin> set (excess_text r)"
    by (simp add: excess_text_def)
  show "\<not> trim_is_empty (excess_text r)"
    by (simp add: excess_text_def visible_start white1_def white2_def white3_def byte_def)
qed

lemma route_findings_texts:
  assumes "ob \<in> set (route_findings r)" and "validate_coverage_route r = Inr ()"
  shows "fixed_texts_ok ob"
    and "(\<exists>l. ob_limitations ob = [l] \<and> web_valid_text l 500) \<or> ob_limitations ob = [excess_text r]"
proof -
  consider "ob \<in> set (fst (web001 r ([], 0)))" | "ob \<in> set (fst (web002 r ([], 0)))"
    | c where "c \<in> set (required_controls r)" "ob \<in> set (control_finding r c)"
    | "ob \<in> set (fst (web010 r ([], 0)))"
    using assms(1) by (auto simp: route_findings_def)
  note cases = this
  show "fixed_texts_ok ob"
    using cases
  proof cases
    case 3
    then show ?thesis
      using rule_texts [of c r] control_finding_fields [of ob r c] by (simp add: fixed_texts_ok_def)
  qed (simp_all add: web001_def web002_def web010_def fixed_texts_ok_def web_valid_text_def
      string_simps split: if_splits)
  show "(\<exists>l. ob_limitations ob = [l] \<and> web_valid_text l 500) \<or> ob_limitations ob = [excess_text r]"
    using cases
  proof cases
    case 3
    then show ?thesis
      using control_finding_fields [of ob r c] by (simp add: web_valid_text_def string_simps)
  qed (simp_all add: web001_def web002_def web010_def web_valid_text_def excess_text_def
      string_simps split: if_splits)
qed

lemma expected_observation_id_again [simp]:
  "expected_observation_id sha ser_obs (ob\<lparr>ob_observation_id := x\<rparr>)
     = expected_observation_id sha ser_obs ob"
  by (simp add: expected_observation_id_def)

definition identified :: "digest_fun \<Rightarrow> (observation \<Rightarrow> string) \<Rightarrow> observation \<Rightarrow> observation" where
  "identified sha ser_obs ob = ob\<lparr>ob_observation_id := expected_observation_id sha ser_obs ob\<rparr>"

lemma observation_id_valid:
  "digest_length sha \<Longrightarrow> web_valid_identifier (expected_observation_id sha ser_obs ob) ''sf_web_observation_''"
  unfolding web_valid_identifier_def expected_observation_id_def by (rule web_digest_prefixed)

lemma finding_valid_iff:
  assumes sha: "digest_length sha" and ob: "ob \<in> set (route_findings r)"
    and r: "validate_coverage_route r = Inr ()"
  shows "validate_observation ts sha ser_obs (identified sha ser_obs ob) = Inr () \<longleftrightarrow>
     (\<forall>l \<in> set (ob_limitations ob). web_valid_text l 500)"
proof -
  have "web_valid_text (cv_route_key r) 200" "valid_route_path (cv_route r)" "cv_evidence r \<noteq> []"
      "validate_evidence (cv_evidence r) = Inr ()"
    using r by (simp_all add: validate_coverage_route_def ok_iff Let_def)
  moreover have "validate_human_class ts (identified sha ser_obs ob) = Inr ()"
    using route_findings_fields [OF ob]
    by (cases "ob_class ob") (simp_all add: validate_human_class_def identified_def)
  moreover have "length (ob_limitations ob) \<le> 100 \<and> strictly_increasing (ob_limitations ob)"
    using route_findings_texts(2) [OF ob r] by auto
  ultimately show ?thesis
    using route_findings_fields [OF ob] route_findings_texts(1) [OF ob r] observation_id_valid [OF sha]
    by (auto simp: validate_observation_def ok_iff identified_def fixed_texts_ok_def list_ex_iff)
qed

lemma route_findings_valid_iff:
  assumes sha: "digest_length sha" and r: "validate_coverage_route r = Inr ()"
  shows "(\<forall>ob \<in> set (route_findings r).
            validate_observation ts sha ser_obs (identified sha ser_obs ob) = Inr ()) \<longleftrightarrow> excess_fits r"
proof
  assume all: "\<forall>ob \<in> set (route_findings r).
      validate_observation ts sha ser_obs (identified sha ser_obs ob) = Inr ()"
  show "excess_fits r"
    unfolding excess_fits_def
  proof
    assume fires: "cv_response_allowlist_declared r \<and> excessive_fields r \<noteq> []"
    then have "fst (web010 r ([], 0)) \<noteq> []" by (simp add: web010_def)
    then obtain ob where ob: "ob \<in> set (fst (web010 r ([], 0)))" by (cases "fst (web010 r ([], 0))") auto
    then have "ob \<in> set (route_findings r)" by (simp add: route_findings_def)
    then have "\<forall>l \<in> set (ob_limitations ob). web_valid_text l 500"
      using all finding_valid_iff [OF sha _ r] by blast
    moreover have "ob_limitations ob = [excess_text r]"
      using ob fires by (simp add: web010_def excess_text_def)
    ultimately show "length (excess_text r) \<le> 500" by (simp add: web_valid_text_def)
  qed
next
  assume fits: "excess_fits r"
  show "\<forall>ob \<in> set (route_findings r).
      validate_observation ts sha ser_obs (identified sha ser_obs ob) = Inr ()"
  proof
    fix ob assume ob: "ob \<in> set (route_findings r)"
    have "web_valid_text l 500" if l: "l \<in> set (ob_limitations ob)" for l
    proof (cases "\<exists>l. ob_limitations ob = [l] \<and> web_valid_text l 500")
      case True
      with l show ?thesis by auto
    next
      case False
      with route_findings_texts(2) [OF ob r] l have "l = excess_text r" by auto
      moreover have "cv_response_allowlist_declared r \<and> excessive_fields r \<noteq> []"
      proof (rule ccontr)
        assume "\<not> ?thesis"
        then have "fst (web010 r ([], 0)) = []" by (auto simp: web010_def)
        with ob False show False
          by (auto simp: route_findings_def web001_def web002_def web_valid_text_def string_simps
              dest: control_finding_fields split: if_splits)
      qed
      ultimately show ?thesis
        using fits excess_text_no_nul [OF r] by (simp add: excess_fits_def web_valid_text_def)
    qed
    then show "validate_observation ts sha ser_obs (identified sha ser_obs ob) = Inr ()"
      using finding_valid_iff [OF sha ob r] by blast
  qed
qed

section \<open>The whole assessment\<close>

definition all_findings :: "coverage_route list \<Rightarrow> observation list" where
  "all_findings routes = concat (map route_findings (sort_key route_order routes))"

definition assessed ::
    "digest_fun \<Rightarrow> (observation \<Rightarrow> string) \<Rightarrow> (web_assessment \<Rightarrow> string) \<Rightarrow> string \<Rightarrow> string list
     \<Rightarrow> coverage_route list \<Rightarrow> string \<Rightarrow> web_assessment" where
  "assessed sha ser_obs ser scope_id ids routes created =
     (let obs = map (identified sha ser_obs) (sort_key observation_order (all_findings routes));
          a = \<lparr>wa_contract_version = ASSESSMENT_VERSION, wa_assessment_id = [],
               wa_parent_assessment_id = None, wa_created_at = created, wa_scope_id = scope_id,
               wa_inventory_ids = sort ids, wa_observations = obs,
               wa_summary = summarize obs (of_nat (sum_list (map route_abstentions routes))),
               wa_semantics = human_only_semantics\<rparr>
      in a\<lparr>wa_assessment_id := expected_assessment_id sha ser a\<rparr>)"

definition assess_inputs_ok ::
    "string \<Rightarrow> string list \<Rightarrow> coverage_route list \<Rightarrow> bool" where
  "assess_inputs_ok scope_id ids routes \<longleftrightarrow>
     web_valid_identifier scope_id ''sf_web_scope_'' \<and> ids \<noteq> [] \<and> length ids \<le> 100000
   \<and> list_all (\<lambda>i. web_valid_identifier i ''sf_web_inventory_'') ids \<and> distinct ids
   \<and> length routes \<le> 2000000 \<and> distinct (map route_order routes)
   \<and> list_all (\<lambda>r. validate_coverage_route r = Ok ()) routes"

lemma expected_assessment_id_again [simp]:
  "expected_assessment_id sha ser (a\<lparr>wa_assessment_id := x\<rparr>) = expected_assessment_id sha ser a"
  by (simp add: expected_assessment_id_def)

lemma assessment_id_valid:
  "digest_length sha \<Longrightarrow> web_valid_identifier (expected_assessment_id sha ser a) ''sf_web_assessment_''"
  unfolding web_valid_identifier_def expected_assessment_id_def by (rule web_digest_prefixed)

lemma observation_order_identified [simp]:
  "observation_order (identified sha ser_obs ob) = observation_order ob"
  by (simp add: observation_order_def identified_def)

lemma list_all_sort_key [simp]: "list_all P (sort_key f xs) = list_all P xs"
  by (simp add: list_all_iff)

lemma strictly_increasing_sort: "strictly_increasing (map f (sort_key f xs)) \<longleftrightarrow> distinct (map f xs)"
proof -
  have "mset (map f (sort_key f xs)) = mset (map f xs)" by (simp add: mset_map)
  then have "distinct (map f (sort_key f xs)) = distinct (map f xs)"
    by (metis mset_eq_imp_distinct_iff)
  then show ?thesis by (simp add: strictly_increasing_iff)
qed

lemma strictly_increasing_sorted: "strictly_increasing (sort xs) \<longleftrightarrow> distinct xs"
  by (simp add: strictly_increasing_iff)

lemma sort_key_Nil_iff: "sort_key f xs = [] \<longleftrightarrow> xs = []"
  by (metis length_0_conv length_sort)

lemma sum_list_sort_key: "sum_list (map g (sort_key f xs)) = (sum_list (map g xs) :: nat)"
  by (metis mset_map mset_sort sum_mset_sum_list)

lemma assessed_observations:
  "wa_observations (assessed sha ser_obs ser scope_id ids routes created)
     = map (identified sha ser_obs) (sort_key observation_order (all_findings routes))"
  by (simp add: assessed_def Let_def)

lemma all_findings_set:
  "set (all_findings routes) = (\<Union>r \<in> set routes. set (route_findings r))"
  by (simp add: all_findings_def)

lemma assessed_human:
  "human_validations (map (identified sha ser_obs) (sort_key observation_order (all_findings routes))) = []"
proof -
  have "ob_human_validation ob = None" if "ob \<in> set (all_findings routes)" for ob
    using that route_findings_fields by (auto simp: all_findings_set)
  then show ?thesis
    by (auto simp: human_validations_def List.map_filter_def filter_empty_conv identified_def)
qed

lemma assessed_valid_iff:
  assumes sha: "digest_length sha" and ok: "assess_inputs_ok scope_id ids routes"
  shows "validate_assessment ts sha ser_obs ser (assessed sha ser_obs ser scope_id ids routes created)
           = Inr () \<longleftrightarrow>
     ts created \<noteq> None \<and> length (all_findings routes) \<le> 2000000 \<and> list_all excess_fits routes"
proof -
  let ?a = "assessed sha ser_obs ser scope_id ids routes created"
  let ?obs = "map (identified sha ser_obs) (sort_key observation_order (all_findings routes))"
  have valid: "(\<forall>ob \<in> set ?obs. validate_observation ts sha ser_obs ob = Inr ())
      \<longleftrightarrow> list_all excess_fits routes"
    using route_findings_valid_iff [OF sha, of _ ts ser_obs] ok
    by (auto simp: all_findings_set list_all_iff assess_inputs_ok_def)
  have order: "strictly_increasing (map observation_order ?obs)"
  proof -
    have "distinct (map route_order (sort_key route_order routes))"
      using ok strictly_increasing_sort [of route_order routes]
      by (simp add: assess_inputs_ok_def strictly_increasing_iff)
    then have "distinct (map observation_order (all_findings routes))"
      unfolding all_findings_def by (rule findings_keys_distinct)
    then have "strictly_increasing (map observation_order (sort_key observation_order (all_findings routes)))"
      by (simp add: strictly_increasing_sort)
    then show ?thesis by (simp add: comp_def)
  qed
  have ids: "strictly_increasing (sort ids)"
    using ok by (simp add: assess_inputs_ok_def strictly_increasing_iff)
  have fields: "wa_contract_version ?a = ASSESSMENT_VERSION" "wa_parent_assessment_id ?a = None"
      "wa_created_at ?a = created" "wa_scope_id ?a = scope_id" "wa_inventory_ids ?a = sort ids"
      "wa_observations ?a = ?obs" "wa_semantics ?a = human_only_semantics"
      "wa_summary ?a = summarize ?obs (sm_abstentions (wa_summary ?a))"
      "wa_assessment_id ?a = expected_assessment_id sha ser ?a"
    by (simp_all add: assessed_def Let_def summarize_def expected_assessment_id_def)
  show ?thesis
    unfolding validate_assessment_def Let_def fields(1-7) assessed_human
    using valid order ids assessment_id_valid [OF sha, of ser ?a] ok fields(8,9)
    by (auto simp: ok_iff human_only_semantics_def assess_inputs_ok_def list_all_iff
        sort_key_Nil_iff)
qed

lemma assess_routes_iff:
  assumes sha: "digest_length sha"
  shows "assess_routes ts sha ser_obs ser now scope_id ids routes created_at = Inr a \<longleftrightarrow>
     assess_inputs_ok scope_id ids routes
   \<and> (\<exists>formatted. now = Some formatted
        \<and> ts (case created_at of None \<Rightarrow> formatted | Some t \<Rightarrow> t) \<noteq> None
        \<and> length (all_findings routes) \<le> 2000000 \<and> list_all excess_fits routes
        \<and> a = assessed sha ser_obs ser scope_id ids routes
               (case created_at of None \<Rightarrow> formatted | Some t \<Rightarrow> t))"
proof -
  have all: "assess_all (sort_key route_order routes) ([], 0) = Inr acc \<longleftrightarrow>
      list_all (\<lambda>r. validate_coverage_route r = Inr ()) routes
    \<and> acc = (all_findings routes, of_nat (sum_list (map route_abstentions routes)))" for acc
    by (auto simp: assess_all_effect list_all_iff all_findings_def sum_list_sort_key)
  have step: "assess_routes ts sha ser_obs ser now scope_id ids routes created_at = Inr a \<longleftrightarrow>
      assess_inputs_ok scope_id ids routes
    \<and> (\<exists>formatted. now = Some formatted
        \<and> (let x = assessed sha ser_obs ser scope_id ids routes
                 (case created_at of None \<Rightarrow> formatted | Some t \<Rightarrow> t)
            in validate_assessment ts sha ser_obs ser x = Inr () \<and> a = x))"
    unfolding assess_routes_def Let_def identified_def [symmetric]
    by (auto simp: ok_iff all assess_inputs_ok_def strictly_increasing_sort assessed_def Let_def
        identified_def [symmetric] strictly_increasing_sorted sort_key_Nil_iff split: prod.splits)
  show ?thesis
    unfolding step Let_def by (auto simp: assessed_valid_iff [OF sha])
qed

section \<open>The table of rules\<close>

text \<open>
  The rules as data, written down again without the code's functions: for each its identifier, the
  class of its observations and when it fires for a route; and how many required controls of a
  route the inventory leaves open.
\<close>

definition rule_table :: "coverage_route \<Rightarrow> (string \<times> observation_class \<times> bool) list" where
  "rule_table r =
     (let e = cv_expected r; c = cv_observed_controls r; broken = (\<lambda>s. s = CtlMissing \<or> s = CtlInconsistent) in
      [(''SFWEB001'', ClassHardening, cv_implemented r \<and> \<not> cv_documented r),
       (''SFWEB002'', ClassCandidate, cv_observed r \<and> \<not> cv_implemented r),
       (''SFWEB003'', ClassCandidate, ce_authentication_required e \<and> broken (oc_authentication c)),
       (''SFWEB004'', ClassCandidate, ce_authorization_required e \<and> broken (oc_authorization c)),
       (''SFWEB005'', ClassCandidate, ce_owner_scope_required e \<and> broken (oc_owner_scope c)),
       (''SFWEB006'', ClassCandidate, ce_tenant_scope_required e \<and> broken (oc_tenant_scope c)),
       (''SFWEB007'', ClassCandidate, ce_restricted_cors_required e \<and> broken (oc_restricted_cors c)),
       (''SFWEB008'', ClassCandidate, ce_private_cache_required e \<and> broken (oc_private_cache c)),
       (''SFWEB009'', ClassCandidate, ce_sanitized_errors_required e \<and> broken (oc_sanitized_errors c)),
       (''SFWEB010'', ClassCandidate, cv_response_allowlist_declared r \<and>
          \<not> set (cv_observed_response_fields r) \<subseteq> set (cv_allowed_response_fields r))])"

definition open_controls :: "coverage_route \<Rightarrow> nat" where
  "open_controls r =
     (let e = cv_expected r; c = cv_observed_controls r in
      length (filter (\<lambda>(required, state). required \<and> (state = CtlUnknown \<or> state = CtlNotApplicable))
        [(ce_authentication_required e, oc_authentication c), (ce_authorization_required e, oc_authorization c),
         (ce_owner_scope_required e, oc_owner_scope c), (ce_tenant_scope_required e, oc_tenant_scope c),
         (ce_restricted_cors_required e, oc_restricted_cors c), (ce_private_cache_required e, oc_private_cache c),
         (ce_sanitized_errors_required e, oc_sanitized_errors c)]))"

lemma excessive_fields_Nil:
  "excessive_fields r = [] \<longleftrightarrow> set (cv_observed_response_fields r) \<subseteq> set (cv_allowed_response_fields r)"
  by (auto simp: excessive_fields_def filter_empty_conv)

lemma fired_Cons:
  "{(rule, cls). (rule, cls, True) \<in> set ((i, c, p) # xs)} =
     (if p then {(i, c)} else {}) \<union> {(rule, cls). (rule, cls, True) \<in> set xs}"
  by auto

lemma fired_Nil: "{(rule, cls). (rule, cls, True) \<in> {}} = {}"
  by simp

lemma route_findings_table:
  "(rule, cls, True) \<in> set (rule_table r) \<longleftrightarrow>
     (\<exists>ob \<in> set (route_findings r). ob_rule_id ob = rule \<and> ob_class ob = cls)"
proof -
  let ?f = "\<lambda>ob. (ob_rule_id ob, ob_class ob)"
  have first: "?f ` set (fst (web001 r ([], 0))) =
      (if cv_implemented r \<and> \<not> cv_documented r then {(''SFWEB001'', ClassHardening)} else {})"
    "?f ` set (fst (web002 r ([], 0))) =
      (if cv_observed r \<and> \<not> cv_implemented r then {(''SFWEB002'', ClassCandidate)} else {})"
    "?f ` set (fst (web010 r ([], 0))) =
      (if cv_response_allowlist_declared r \<and>
          \<not> set (cv_observed_response_fields r) \<subseteq> set (cv_allowed_response_fields r)
       then {(''SFWEB010'', ClassCandidate)} else {})"
    by (simp_all add: web001_def web002_def web010_def excessive_fields_Nil)
  have control: "?f ` set (control_finding r (required, state, rule)) =
      (if required \<and> (state = CtlMissing \<or> state = CtlInconsistent) then {(rc_rule_id rule, ClassCandidate)} else {})"
    for required state rule by (simp add: control_finding_def)
  have ids: "rc_rule_id rule_web003 = ''SFWEB003''" "rc_rule_id rule_web004 = ''SFWEB004''"
    "rc_rule_id rule_web005 = ''SFWEB005''" "rc_rule_id rule_web006 = ''SFWEB006''"
    "rc_rule_id rule_web007 = ''SFWEB007''" "rc_rule_id rule_web008 = ''SFWEB008''"
    "rc_rule_id rule_web009 = ''SFWEB009''" by (simp_all add: rule_defs)
  have "?f ` set (route_findings r) = {(rule, cls). (rule, cls, True) \<in> set (rule_table r)}"
    unfolding route_findings_def required_controls_def rule_table_def Let_def
    by (simp only: set_append image_Un image_empty set_empty list.map concat.simps first control ids
        fired_Cons fired_Nil list.set(1) Un_assoc Un_empty_right)
  then have "(rule, cls) \<in> ?f ` set (route_findings r) \<longleftrightarrow> (rule, cls, True) \<in> set (rule_table r)" by simp
  moreover have "(rule, cls) \<in> ?f ` set (route_findings r) \<longleftrightarrow>
      (\<exists>ob \<in> set (route_findings r). ob_rule_id ob = rule \<and> ob_class ob = cls)"
    unfolding image_iff by auto
  ultimately show ?thesis by blast
qed

lemma route_abstentions_open: "route_abstentions r = open_controls r"
proof -
  have "open_controls r = length (filter (\<lambda>(required, state). required \<and> (state = CtlUnknown \<or> state = CtlNotApplicable))
      (map (\<lambda>(required, state, rule). (required, state)) (required_controls r)))"
    by (simp only: open_controls_def required_controls_def Let_def list.map prod.case)
  then show ?thesis
    by (simp add: route_abstentions_def count_if_def filter_map comp_def control_abstains_def case_prod_unfold)
qed

section \<open>Human validations\<close>

text \<open>What a person has confirmed, by the route, the method and the rule.\<close>

definition confirmed ::
    "web_assessment \<Rightarrow> string \<times> http_method \<times> string \<times> string \<Rightarrow> human_validation option" where
  "confirmed a = entries observation_order ob_human_validation (wa_observations a)"

datatype assessment_op = OpConfirm string human_validation evidence_reference string

definition assessment_step ::
    "ts_parser \<Rightarrow> digest_fun \<Rightarrow> (observation \<Rightarrow> string) \<Rightarrow> (web_assessment \<Rightarrow> string)
     \<Rightarrow> assessment_op \<Rightarrow> web_assessment \<Rightarrow> assessment_error + web_assessment" where
  "assessment_step ts sha ser_obs ser op a =
     (case op of OpConfirm observation_id v reproduction recorded_at \<Rightarrow>
        record_human_validation ts sha ser_obs ser observation_id v reproduction recorded_at a)"

lemma validate_assessment_parts:
  assumes "validate_assessment ts sha ser_obs ser a = Inr ()"
  shows "\<forall>ob \<in> set (wa_observations a). validate_observation ts sha ser_obs ob = Inr ()"
    and "strictly_increasing (map observation_order (wa_observations a))"
    and "distinct (map observation_order (wa_observations a))"
    and "wa_summary a = summarize (wa_observations a) (sm_abstentions (wa_summary a))"
    and "(wa_parent_assessment_id a = None) = (human_validations (wa_observations a) = [])"
  using assms by (auto simp: validate_assessment_def ok_iff Let_def strictly_increasing_iff)

definition confirmation_wf :: "ts_parser \<Rightarrow> human_validation \<Rightarrow> evidence_reference \<Rightarrow> bool" where
  "confirmation_wf ts v e \<longleftrightarrow>
     web_valid_text (hv_reviewer v) 200 \<and> web_valid_text (hv_rationale v) 3000
   \<and> ts (hv_reviewed_at v) \<noteq> None
   \<and> evr_kind e = AekHumanReproduction \<and> evr_reference e = hv_evidence_reference v"

lemma confirm_observation_order [simp]:
  "observation_order (confirm_observation sha ser_obs v e ob) = observation_order ob"
  by (simp add: confirm_observation_def Let_def observation_order_def)

lemma confirm_observation_fields [simp]:
  "ob_human_validation (confirm_observation sha ser_obs v e ob) = Some v"
  "ob_class (confirm_observation sha ser_obs v e ob) = ClassHumanValidated"
  by (simp_all add: confirm_observation_def Let_def)

lemma record_human_validation_effect:
  assumes "record_human_validation ts sha ser_obs ser k v e recorded_at a = Inr a'"
  shows "validate_assessment ts sha ser_obs ser a = Inr ()
    \<and> validate_assessment ts sha ser_obs ser a' = Inr () \<and> confirmation_wf ts v e
    \<and> wa_parent_assessment_id a' = Some (wa_assessment_id a)
    \<and> (\<exists>i < length (wa_observations a). ob_observation_id (wa_observations a ! i) = k
        \<and> ob_class (wa_observations a ! i) = ClassCandidate
        \<and> ob_human_validation (wa_observations a ! i) = None
        \<and> wa_observations a' = (wa_observations a)
            [i := confirm_observation sha ser_obs v e (wa_observations a ! i)])"
proof -
  let ?p = "\<lambda>ob. ob_observation_id ob = k"
  obtain i where i: "position ?p (wa_observations a) = Some i"
      and cand: "ob_class (wa_observations a ! i) = ClassCandidate"
        "ob_human_validation (wa_observations a ! i) = None"
      and a: "validate_assessment ts sha ser_obs ser a = Inr ()"
      and a': "validate_assessment ts sha ser_obs ser a' = Inr ()"
      and e: "evr_kind e = AekHumanReproduction" "evr_reference e = hv_evidence_reference v"
        "ts (hv_reviewed_at v) \<noteq> None"
      and obs: "wa_observations a' = (wa_observations a)
        [i := confirm_observation sha ser_obs v e (wa_observations a ! i)]"
      and parent: "wa_parent_assessment_id a' = Some (wa_assessment_id a)"
    using assms by (auto simp: record_human_validation_def ok_iff Let_def split: option.splits if_splits)
  from position_Some [OF i] have len: "i < length (wa_observations a)" "?p (wa_observations a ! i)"
    by simp_all
  have "confirm_observation sha ser_obs v e (wa_observations a ! i) \<in> set (wa_observations a')"
    using len(1) by (simp add: obs set_update_memI)
  with validate_assessment_parts(1) [OF a']
  have "validate_observation ts sha ser_obs (confirm_observation sha ser_obs v e (wa_observations a ! i))
      = Inr ()" by blast
  then have "validate_human_class ts (confirm_observation sha ser_obs v e (wa_observations a ! i)) = Inr ()"
    by (simp add: validate_observation_def ok_iff)
  then have "confirmation_wf ts v e"
    using e by (simp add: validate_human_class_def confirmation_wf_def ok_iff)
  with a a' parent len cand obs show ?thesis by blast
qed

definition confirmed_by ::
    "ts_parser \<Rightarrow> assessment_op \<Rightarrow> string \<times> http_method \<times> string \<times> string \<Rightarrow> human_validation
     \<Rightarrow> bool" where
  "confirmed_by ts op key v \<longleftrightarrow>
     (\<exists>k e t. op = OpConfirm k v e t \<and> confirmation_wf ts v e)"

interpretation assessment_machine: human_authority "assessment_step ts sha ser_obs ser"
  "\<lambda>a. validate_assessment ts sha ser_obs ser a = Ok ()" confirmed "confirmed_by ts"
  for ts sha ser_obs ser
proof
  fix a op a'
  assume inv: "validate_assessment ts sha ser_obs ser a = Ok ()"
    and step: "assessment_step ts sha ser_obs ser op a = Inr a'"
  obtain k v e t where op: "op = OpConfirm k v e t" by (cases op)
  with step have rec: "record_human_validation ts sha ser_obs ser k v e t a = Inr a'"
    by (simp add: assessment_step_def)
  note effect = record_human_validation_effect [OF rec]
  then obtain i where i: "i < length (wa_observations a)"
      "ob_human_validation (wa_observations a ! i) = None"
      "wa_observations a' = (wa_observations a)
         [i := confirm_observation sha ser_obs v e (wa_observations a ! i)]" by blast
  have distinct: "distinct (map observation_order (wa_observations a))"
    using inv by (rule validate_assessment_parts)
  have new: "confirmed a' = (confirmed a)(observation_order (wa_observations a ! i) \<mapsto> v)"
    unfolding confirmed_def i(3) using distinct i(1) by (simp add: entries_update)
  have "confirmed a (observation_order (wa_observations a ! i)) = None"
    using entries_nth [OF distinct i(1), of ob_human_validation] i(2) by (simp add: confirmed_def)
  then show "confirmed a \<subseteq>\<^sub>m confirmed a'" by (auto simp: new map_le_def)
  show "validate_assessment ts sha ser_obs ser a' = Ok ()" using effect by blast
  show "confirmed a key = Some d \<or> confirmed_by ts op key d" if "confirmed a' key = Some d" for key d
    using that effect by (auto simp: new op confirmed_by_def split: if_splits)
qed

section \<open>Samples\<close>

definition sample_evidence :: "nat \<Rightarrow> evidence_reference" where
  "sample_evidence n = EvidenceReference AekCode (replicate (Suc n) CHR ''r'') zero_hash ''d''"

definition sample_route :: "nat \<Rightarrow> coverage_route" where
  "sample_route n = \<lparr>cv_route_key = ''GET /a'', cv_method = Get, cv_route = ''/a'',
     cv_implemented = True, cv_documented = True, cv_observed = False,
     cv_access_intent = AccessAuthenticated,
     cv_expected = \<lparr>ce_authentication_required = True, ce_authorization_required = False,
       ce_owner_scope_required = False, ce_tenant_scope_required = False,
       ce_restricted_cors_required = False, ce_private_cache_required = True,
       ce_sanitized_errors_required = False\<rparr>,
     cv_observed_controls = \<lparr>oc_authentication = CtlMissing, oc_authorization = CtlUnknown,
       oc_owner_scope = CtlUnknown, oc_tenant_scope = CtlUnknown, oc_restricted_cors = CtlUnknown,
       oc_private_cache = CtlUnknown, oc_sanitized_errors = CtlUnknown\<rparr>,
     cv_allowed_response_fields = [], cv_response_allowlist_declared = False,
     cv_observed_response_fields = [], cv_evidence = map sample_evidence [0..<n]\<rparr>"

lemma replicate_less: "i < j \<Longrightarrow> replicate i (c :: char) < replicate j c"
proof (induction i arbitrary: j)
  case 0
  then show ?case by (cases j) simp_all
next
  case (Suc i)
  then show ?case by (cases j) simp_all
qed

lemma sample_evidence_increasing: "strictly_increasing (map sample_evidence [0..<n])"
proof -
  have "sample_evidence i < sample_evidence j" if "i < j" for i j
    using replicate_less [of "Suc i" "Suc j"] that
    by (simp add: less_evidence_reference_def evr_key_def sample_evidence_def)
  then have "sorted_wrt (\<lambda>i j. sample_evidence i < sample_evidence j) [0..<n]"
    by (auto simp: sorted_wrt_iff_nth_less)
  then show ?thesis
    by (simp add: strictly_increasing_def successively_conv_sorted_wrt sorted_wrt_map)
qed

lemma sample_route_valid:
  assumes "0 < n" and "n \<le> 100"
  shows "validate_coverage_route (sample_route n) = Inr ()"
proof -
  have "\<not> contains_str ''..'' ''/a''" by code_simp
  then have path: "valid_route_path ''/a''" by (simp add: valid_route_path_def starts_with_def)
  have item: "validate_evidence_item (sample_evidence i) = Inr ()" if "i < 100" for i
    using that
    by (simp add: validate_evidence_item_def ok_iff web_valid_text_def sample_evidence_def
        visible_start white1_def byte_def white2_def white3_def)
  have "validate_evidence (map sample_evidence [0..<n]) = Inr ()"
    using assms item sample_evidence_increasing by (auto simp: validate_evidence_def ok_iff)
  moreover have "web_valid_text ''GET /a'' 200" by (simp add: web_valid_text_def string_simps)
  ultimately show ?thesis
    using assms path
    by (simp add: validate_coverage_route_def sample_route_def Let_def ok_iff unique_sorted_text_def)
qed

definition sample_scope_id :: string where
  "sample_scope_id = ''sf_web_scope_'' @ zero_hash"

definition sample_inventory_id :: string where
  "sample_inventory_id = ''sf_web_inventory_'' @ zero_hash"

lemma sample_inputs_ok:
  "0 < n \<Longrightarrow> n \<le> 100 \<Longrightarrow> assess_inputs_ok sample_scope_id [sample_inventory_id] [sample_route n]"
  by (simp add: assess_inputs_ok_def sample_route_valid web_valid_identifier_def web_prefixed_hash_def
      sample_scope_id_def sample_inventory_id_def del: append.simps append_Cons)

definition sample_observation :: "nat \<Rightarrow> observation" where
  "sample_observation n = observation_for (sample_route n) (rc_rule_id rule_web003) ClassCandidate
     (rc_title rule_web003) (rc_invariant rule_web003)
     [''Automated evidence does not by itself establish reproducible impact'']"

lemma sample_findings: "all_findings [sample_route n] = [sample_observation n]"
  by (simp add: all_findings_def route_findings_def required_controls_def Let_def web001_def web002_def
      web010_def control_finding_def sample_route_def sample_observation_def)

definition no_observation_json :: "observation \<Rightarrow> string" where
  "no_observation_json ob = ''{}''"

definition no_assessment_json :: "web_assessment \<Rightarrow> string" where
  "no_assessment_json a =
     (case wa_parent_assessment_id a of None \<Rightarrow> ''{}'' | Some p \<Rightarrow> ''{p}'')"

definition sample_assessment :: "nat \<Rightarrow> web_assessment" where
  "sample_assessment n = assessed length_sha no_observation_json no_assessment_json sample_scope_id
     [sample_inventory_id] [sample_route n] T0"

lemma sample_assess:
  "0 < n \<Longrightarrow> n \<le> 100 \<Longrightarrow>
     assess_routes sample_ts length_sha no_observation_json no_assessment_json (Some T0) sample_scope_id
       [sample_inventory_id] [sample_route n] None = Inr (sample_assessment n)"
  by (simp add: assess_routes_iff sample_inputs_ok sample_findings sample_assessment_def excess_fits_def)
     (simp add: sample_route_def)

lemma sample_assessment_valid:
  "0 < n \<Longrightarrow> n \<le> 100 \<Longrightarrow>
     validate_assessment sample_ts length_sha no_observation_json no_assessment_json (sample_assessment n)
       = Ok ()"
  unfolding sample_assessment_def
  by (simp add: assessed_valid_iff sample_inputs_ok sample_findings excess_fits_def)
     (simp add: sample_route_def)

lemma sample_observations:
  "wa_observations (sample_assessment n)
     = [identified length_sha no_observation_json (sample_observation n)]"
  by (simp add: sample_assessment_def assessed_observations sample_findings)

section \<open>Properties\<close>

text \<open>
  Routes are assessed exactly when the inputs are in bounds and distinct, every route is
  valid, the clock and the creation time can be formatted and parsed, and the fields outside an
  allowlist, joined into one limitation, fit 500 bytes: a single route with many unlisted
  response fields makes the whole assessment fail.
\<close>

theorem assess_routes_succeeds_iff:
  assumes "digest_length sha"
  shows "is_ok (assess_routes ts sha ser_obs ser now scope_id ids routes created_at) \<longleftrightarrow>
     assess_inputs_ok scope_id ids routes
   \<and> (\<exists>formatted. now = Some formatted
        \<and> ts (case created_at of None \<Rightarrow> formatted | Some t \<Rightarrow> t) \<noteq> None)
   \<and> length (all_findings routes) \<le> 2000000 \<and> list_all excess_fits routes"
  by (auto simp: is_ok_iff assess_routes_iff [OF assms])

theorem assess_routes_succeeds_iff_witness:
  "is_ok (assess_routes sample_ts length_sha no_observation_json no_assessment_json (Some T0)
     sample_scope_id [sample_inventory_id] [sample_route 1] None)"
  using assess_routes_succeeds_iff [OF length_sha_length, of sample_ts no_observation_json
      no_assessment_json "Some T0" sample_scope_id "[sample_inventory_id]" "[sample_route 1]" None]
    sample_inputs_ok [of 1] sample_findings [of 1]
  by (simp add: excess_fits_def) (simp add: sample_route_def)

text \<open>
  C16. An assessment is exactly what the table of rules says: its observations are in the strict
  order of routes, methods and rules, each carries the place and the evidence of its route, and
  they are one for every rule of the table that fires for a route, with the class of the rule and
  the identifier of its content. The abstentions are the required controls that are unknown or
  not applicable, counted without wrap-around, and nothing is validated by the program itself.
\<close>

theorem assess_routes_exact:
  assumes "digest_length sha"
    and "assess_routes ts sha ser_obs ser now scope_id ids routes created_at = Ok a"
  shows "sorted_wrt (<) (map (\<lambda>ob. (ob_route ob, ob_method ob, ob_rule_id ob, ob_route_key ob)) (wa_observations a))
    \<and> (\<lambda>ob. (ob_route ob, ob_method ob, ob_route_key ob, ob_evidence ob, ob_rule_id ob, ob_class ob))
          ` set (wa_observations a) =
        {(cv_route r, cv_method r, cv_route_key r, cv_evidence r, rule, cls) | r rule cls.
           r \<in> set routes \<and> (rule, cls, True) \<in> set (rule_table r)}
    \<and> unat (sm_abstentions (wa_summary a)) = sum_list (map open_controls routes)
    \<and> list_all (\<lambda>ob. ob_class ob \<noteq> ClassHumanValidated \<and> ob_human_validation ob = None
          \<and> ob_observation_id ob = expected_observation_id sha ser_obs ob) (wa_observations a)
    \<and> wa_parent_assessment_id a = None"
proof -
  obtain created where ok: "assess_inputs_ok scope_id ids routes"
      and a: "a = assessed sha ser_obs ser scope_id ids routes created"
      and valid: "validate_assessment ts sha ser_obs ser a = Inr ()"
    using assms(2) unfolding assess_routes_iff [OF assms(1)] by (auto simp: assessed_valid_iff [OF assms(1)])
  let ?pos = "\<lambda>ob. (ob_route ob, ob_method ob, ob_route_key ob, ob_evidence ob, ob_rule_id ob, ob_class ob)"
  have "sorted_wrt (<) (map observation_order (wa_observations a))"
    using validate_assessment_parts(2) [OF valid]
    by (simp add: strictly_increasing_def successively_conv_sorted_wrt)
  then have order: "sorted_wrt (<) (map (\<lambda>ob. (ob_route ob, ob_method ob, ob_rule_id ob, ob_route_key ob))
      (wa_observations a))" by (simp add: observation_order_def [abs_def])
  have less: "sum_list (map route_abstentions routes) < 2 ^ 64"
    using abstentions_bound [of routes] ok by (simp add: assess_inputs_ok_def)
  have "route_abstentions = open_controls" by (rule ext) (rule route_abstentions_open)
  with less have count: "unat (sm_abstentions (wa_summary a)) = sum_list (map open_controls routes)"
    by (simp add: a assessed_def Let_def summarize_def unat_of_nat_u64)
  have place: "?pos ` set (route_findings r) =
      {(cv_route r, cv_method r, cv_route_key r, cv_evidence r, rule, cls) | rule cls.
         (rule, cls, True) \<in> set (rule_table r)}" for r
    unfolding route_findings_table using route_findings_fields [of _ r] by (auto simp: image_iff)
  have "?pos ` set (wa_observations a) = (\<Union>r \<in> set routes. ?pos ` set (route_findings r))"
    by (simp add: a assessed_observations all_findings_set image_image identified_def image_UN)
  then have findings: "?pos ` set (wa_observations a) =
      {(cv_route r, cv_method r, cv_route_key r, cv_evidence r, rule, cls) | r rule cls.
         r \<in> set routes \<and> (rule, cls, True) \<in> set (rule_table r)}" unfolding place by blast
  have "list_all (\<lambda>ob. ob_class ob \<noteq> ClassHumanValidated \<and> ob_human_validation ob = None
      \<and> ob_observation_id ob = expected_observation_id sha ser_obs ob) (wa_observations a)"
    using route_findings_fields
    by (auto simp: a assessed_observations list_all_iff all_findings_set identified_def)
  moreover have "wa_parent_assessment_id a = None" by (simp add: a assessed_def Let_def)
  ultimately show ?thesis using order findings count by (intro conjI)
qed

theorem assess_routes_exact_witness:
  "map ob_rule_id (wa_observations (sample_assessment 1)) = [''SFWEB003'']
 \<and> (''SFWEB003'', ClassCandidate, True) \<in> set (rule_table (sample_route 1))
 \<and> unat (sm_abstentions (wa_summary (sample_assessment 1))) = 1"
proof -
  have "assess_routes sample_ts length_sha no_observation_json no_assessment_json (Some T0)
      sample_scope_id [sample_inventory_id] [sample_route 1] None = Ok (sample_assessment 1)"
    by (rule sample_assess) simp_all
  note exact = assess_routes_exact [OF length_sha_length this]
  have "open_controls (sample_route 1) = 1"
    by (simp add: open_controls_def Let_def sample_route_def)
  with exact have "unat (sm_abstentions (wa_summary (sample_assessment 1))) = 1" by simp
  moreover have "(''SFWEB003'', ClassCandidate, True) \<in> set (rule_table (sample_route 1))"
    by (simp add: rule_table_def Let_def sample_route_def)
  ultimately show ?thesis
    by (simp add: sample_observations identified_def sample_observation_def rule_web003_def)
qed

text \<open>
  C7. Human authority over web assessments: whatever confirmations are attempted on a valid
  assessment, it stays valid, a recorded confirmation is never changed or removed, and every new
  one came with a visible reviewer and rationale, a review time, and evidence of a human
  reproduction.
\<close>

theorem web_confirmations_final:
  assumes "validate_assessment ts sha ser_obs ser a = Ok ()"
  shows "validate_assessment ts sha ser_obs ser (run_ops (assessment_step ts sha ser_obs ser) ops a) = Ok ()
    \<and> confirmed a \<subseteq>\<^sub>m confirmed (run_ops (assessment_step ts sha ser_obs ser) ops a)
    \<and> (\<forall>key v. confirmed (run_ops (assessment_step ts sha ser_obs ser) ops a) key = Some v \<longrightarrow>
          confirmed a key = Some v
        \<or> (\<exists>k e t. OpConfirm k v e t \<in> set ops \<and> confirmation_wf ts v e))"
proof -
  have "confirmed a key = Some v \<or> (\<exists>k e t. OpConfirm k v e t \<in> set ops \<and> confirmation_wf ts v e)"
    if "confirmed (run_ops (assessment_step ts sha ser_obs ser) ops a) key = Some v" for key v
    using assessment_machine.run_origin [OF assms that] by (auto simp: confirmed_by_def)
  with assessment_machine.run_inv [OF assms] assessment_machine.run_keeps [OF assms] show ?thesis
    by blast
qed

definition sample_confirmation :: human_validation where
  "sample_confirmation = \<lparr>hv_reviewer = ''Ann'', hv_reviewed_at = T1, hv_rationale = ''ok'',
     hv_evidence_reference = ''p''\<rparr>"

definition sample_reproduction :: evidence_reference where
  "sample_reproduction = EvidenceReference AekHumanReproduction ''p'' zero_hash ''d''"

theorem web_confirmations_final_witness:
  "validate_assessment sample_ts length_sha no_observation_json no_assessment_json
     (run_ops (assessment_step sample_ts length_sha no_observation_json no_assessment_json)
       [OpConfirm (ob_observation_id (identified length_sha no_observation_json (sample_observation 1)))
          sample_confirmation sample_reproduction T1] (sample_assessment 1)) = Ok ()"
proof -
  have "validate_assessment sample_ts length_sha no_observation_json no_assessment_json
      (sample_assessment 1) = Ok ()" by (rule sample_assessment_valid) simp_all
  from web_confirmations_final [OF this] show ?thesis by blast
qed

text \<open>
  A candidate with a full list of evidence cannot be confirmed: the contract allows a hundred
  references, a route may carry all of them, and a confirmation adds one.
\<close>

theorem full_evidence_blocks_confirmation:
  assumes "validate_assessment ts sha ser_obs ser a = Ok ()"
    and "ob \<in> set (wa_observations a)" and "length (ob_evidence ob) = 100"
    and "e \<notin> set (ob_evidence ob)"
    and "distinct (map ob_observation_id (wa_observations a))"
  shows "\<not> is_ok (record_human_validation ts sha ser_obs ser (ob_observation_id ob) v e recorded_at a)"
proof
  assume "is_ok (record_human_validation ts sha ser_obs ser (ob_observation_id ob) v e recorded_at a)"
  then obtain a' where ok: "record_human_validation ts sha ser_obs ser (ob_observation_id ob) v e
      recorded_at a = Inr a'" by (auto simp: is_ok_iff)
  then obtain i where i: "i < length (wa_observations a)"
      "ob_observation_id (wa_observations a ! i) = ob_observation_id ob"
      and a': "validate_assessment ts sha ser_obs ser a' = Inr ()"
      and obs: "wa_observations a' = (wa_observations a)
         [i := confirm_observation sha ser_obs v e (wa_observations a ! i)]"
    using record_human_validation_effect [OF ok] by blast
  have ob: "wa_observations a ! i = ob"
    using i assms(2,5) by (metis distinct_map inj_on_eq_iff nth_mem)
  have "validate_observation ts sha ser_obs ob = Inr ()"
    using validate_assessment_parts(1) [OF assms(1)] assms(2) by blast
  then have "distinct (ob_evidence ob)"
    by (simp add: validate_observation_def ok_iff validate_evidence_def strictly_increasing_iff)
  then have "length (remdups_adj (sort (ob_evidence ob @ [e]))) = 101"
    using assms(3,4) by (simp add: remdups_adj_distinct)
  moreover have "validate_observation ts sha ser_obs (confirm_observation sha ser_obs v e ob) = Inr ()"
    using validate_assessment_parts(1) [OF a'] i(1) ob by (simp add: obs set_update_memI)
  then have "length (ob_evidence (confirm_observation sha ser_obs v e ob)) \<le> 100"
    by (simp add: validate_observation_def ok_iff validate_evidence_def)
  ultimately show False by (simp add: confirm_observation_def Let_def)
qed

theorem full_evidence_blocks_confirmation_witness:
  "\<not> is_ok (record_human_validation sample_ts length_sha no_observation_json no_assessment_json
      (ob_observation_id (identified length_sha no_observation_json (sample_observation 100)))
      sample_confirmation sample_reproduction T1 (sample_assessment 100))"
proof (rule full_evidence_blocks_confirmation)
  show "validate_assessment sample_ts length_sha no_observation_json no_assessment_json
      (sample_assessment 100) = Ok ()" by (rule sample_assessment_valid) simp_all
  show "sample_reproduction
      \<notin> set (ob_evidence (identified length_sha no_observation_json (sample_observation 100)))"
    by (auto simp: identified_def sample_observation_def sample_route_def sample_evidence_def
        sample_reproduction_def)
qed (simp_all add: sample_observations identified_def sample_observation_def sample_route_def)

text \<open>The assessment that a confirmation of the observation at \<open>i\<close> derives.\<close>

definition confirmed_assessment ::
    "digest_fun \<Rightarrow> (observation \<Rightarrow> string) \<Rightarrow> (web_assessment \<Rightarrow> string) \<Rightarrow> human_validation
     \<Rightarrow> evidence_reference \<Rightarrow> string \<Rightarrow> nat \<Rightarrow> web_assessment \<Rightarrow> web_assessment" where
  "confirmed_assessment sha ser_obs ser v e recorded_at i a =
     (let obs = (wa_observations a)
            [i := confirm_observation sha ser_obs v e (wa_observations a ! i)];
          a1 = a\<lparr>wa_observations := obs, wa_parent_assessment_id := Some (wa_assessment_id a),
                 wa_created_at := recorded_at,
                 wa_summary := summarize obs (sm_abstentions (wa_summary a))\<rparr>
      in a1\<lparr>wa_assessment_id := expected_assessment_id sha ser a1\<rparr>)"

lemma strictly_increasing_remdups_adj: "strictly_increasing (remdups_adj (sort xs))"
  using distinct_adj_remdups_adj [of "sort xs"]
  by (simp add: strictly_increasing_iff distinct_adj_def adjacent_distinct_sorted)

lemma confirmed_observation_valid:
  assumes sha: "digest_length sha" and ob: "validate_observation ts sha ser_obs ob = Inr ()"
    and v: "confirmation_wf ts v e" and ref: "web_valid_text (hv_evidence_reference v) 300"
    and e: "validate_evidence_item e = Inr ()" and room: "length (ob_evidence ob) < 100"
  shows "validate_observation ts sha ser_obs (confirm_observation sha ser_obs v e ob) = Inr ()"
proof -
  let ?es = "remdups_adj (sort (ob_evidence ob @ [e]))"
  have "strictly_increasing ?es" by (rule strictly_increasing_remdups_adj)
  moreover have "length ?es \<le> 100"
    using room remdups_adj_length [of "sort (ob_evidence ob @ [e])"] by simp
  moreover have "\<forall>x \<in> set ?es. validate_evidence_item x = Inr ()"
    using ob e by (auto simp: validate_observation_def ok_iff validate_evidence_def)
  ultimately have evidence: "validate_evidence ?es = Inr ()" by (simp add: validate_evidence_def ok_iff)
  have mem: "e \<in> set ?es" by simp
  then have ne: "?es \<noteq> []" by (metis empty_iff empty_set)
  have human: "list_ex (\<lambda>x. evr_kind x = AekHumanReproduction) ?es"
      "list_ex (\<lambda>x. evr_reference x = hv_evidence_reference v) ?es"
    using v mem unfolding list_ex_iff confirmation_wf_def by blast+
  show ?thesis
    using ob v ref evidence ne human observation_id_valid [OF sha]
    by (simp add: validate_observation_def ok_iff confirm_observation_def Let_def
        validate_human_class_def confirmation_wf_def list_ex_iff del: remdups_adj_set set_sort)
qed

lemma human_validations_set: "v \<in> set (human_validations obs) \<longleftrightarrow> (\<exists>ob \<in> set obs. ob_human_validation ob = Some v)"
  by (force simp: human_validations_def List.map_filter_def)

lemma confirmed_assessment_valid:
  assumes sha: "digest_length sha" and a: "validate_assessment ts sha ser_obs ser a = Inr ()"
    and i: "i < length (wa_observations a)"
    and v: "confirmation_wf ts v e" and ref: "web_valid_text (hv_evidence_reference v) 300"
    and e: "validate_evidence_item e = Inr ()"
    and room: "length (ob_evidence (wa_observations a ! i)) < 100"
    and times: "ts recorded_at = Some r" "ts (hv_reviewed_at v) = Some q" "q \<le> r"
      "ts (wa_created_at a) = Some p" "p \<le> r"
    and fresh: "wa_assessment_id (confirmed_assessment sha ser_obs ser v e recorded_at i a)
                  \<noteq> wa_assessment_id a"
  shows "validate_assessment ts sha ser_obs ser
           (confirmed_assessment sha ser_obs ser v e recorded_at i a) = Inr ()"
proof -
  let ?a = "confirmed_assessment sha ser_obs ser v e recorded_at i a"
  let ?c = "confirm_observation sha ser_obs v e (wa_observations a ! i)"
  let ?obs = "(wa_observations a)[i := ?c]"
  have fields: "wa_contract_version ?a = wa_contract_version a"
      "wa_parent_assessment_id ?a = Some (wa_assessment_id a)" "wa_created_at ?a = recorded_at"
      "wa_scope_id ?a = wa_scope_id a" "wa_inventory_ids ?a = wa_inventory_ids a"
      "wa_observations ?a = ?obs" "wa_semantics ?a = wa_semantics a"
      "wa_summary ?a = summarize ?obs (sm_abstentions (wa_summary ?a))"
      "wa_assessment_id ?a = expected_assessment_id sha ser ?a"
    by (simp_all add: confirmed_assessment_def Let_def summarize_def expected_assessment_id_def)
  have obs: "\<forall>ob \<in> set (wa_observations a). validate_observation ts sha ser_obs ob = Inr ()"
    by (rule validate_assessment_parts(1) [OF a])
  then have "validate_observation ts sha ser_obs ?c = Inr ()"
    using confirmed_observation_valid [OF sha _ v ref e room] i by simp
  with obs have valid: "\<forall>ob \<in> set ?obs. validate_observation ts sha ser_obs ob = Inr ()"
    using set_update_subset_insert [of "wa_observations a" i ?c] by blast
  have order: "strictly_increasing (map observation_order ?obs)"
    using validate_assessment_parts(2) [OF a] i by (simp add: map_key_update)
  have old: "\<forall>x \<in> set (human_validations (wa_observations a)). \<exists>t. ts (hv_reviewed_at x) = Some t \<and> t \<le> p"
    using a times(4) by (fastforce simp: validate_assessment_def ok_iff Let_def list_ex_iff
        split: option.splits)
  have new: "\<exists>t. ts (hv_reviewed_at x) = Some t \<and> t \<le> r" if "x \<in> set (human_validations ?obs)" for x
  proof -
    from that obtain ob where "ob \<in> set ?obs" "ob_human_validation ob = Some x"
      by (auto simp: human_validations_set)
    then consider "ob = ?c" | "ob \<in> set (wa_observations a)"
      using set_update_subset_insert [of "wa_observations a" i ?c] by blast
    then show ?thesis
    proof cases
      case 1
      with \<open>ob_human_validation ob = Some x\<close> have "x = v" by simp
      with times show ?thesis by simp
    next
      case 2
      with \<open>ob_human_validation ob = Some x\<close> old have "\<exists>t. ts (hv_reviewed_at x) = Some t \<and> t \<le> p"
        by (auto simp: human_validations_set)
      with times(5) show ?thesis by fastforce
    qed
  qed
  have "v \<in> set (human_validations ?obs)"
    using i by (auto simp: human_validations_set intro!: bexI [of _ ?c] set_update_memI)
  then have some: "human_validations ?obs \<noteq> []" by auto
  have late: "\<not> list_ex (\<lambda>x. case ts (hv_reviewed_at x) of None \<Rightarrow> True | Some t \<Rightarrow> r < t)
      (human_validations ?obs)"
    using new by (fastforce simp: list_ex_iff split: option.splits)
  have len: "length ?obs = length (wa_observations a)" by simp
  show ?thesis
    unfolding validate_assessment_def Let_def fields(1-7) len
    using a valid order some late fresh fields(8,9) times(1) assessment_id_valid [OF sha, of ser ?a]
    by (simp add: ok_iff validate_assessment_def Let_def)
qed

text \<open>
  A candidate can be confirmed: with a reviewer, a rationale, a review that is not later than
  the recording, a reproduction as evidence and room for it, the confirmation succeeds, unless
  the identifier of the new assessment collides with the old one.
\<close>

theorem confirmation_succeeds:
  assumes "digest_length sha" and "validate_assessment ts sha ser_obs ser a = Ok ()"
    and i: "position (\<lambda>ob. ob_observation_id ob = k) (wa_observations a) = Some i"
    and "ob_class (wa_observations a ! i) = ClassCandidate"
    and "confirmation_wf ts v e" and "web_valid_text (hv_evidence_reference v) 300"
    and "validate_evidence_item e = Ok ()"
    and "length (ob_evidence (wa_observations a ! i)) < 100"
    and "ts recorded_at = Some r" and "ts (hv_reviewed_at v) = Some q" and "q \<le> r"
    and "ts (wa_created_at a) = Some p" and "p \<le> r"
    and "wa_assessment_id (confirmed_assessment sha ser_obs ser v e recorded_at i a)
           \<noteq> wa_assessment_id a"
  shows "record_human_validation ts sha ser_obs ser k v e recorded_at a
       = Ok (confirmed_assessment sha ser_obs ser v e recorded_at i a)"
proof -
  have len: "i < length (wa_observations a)" using position_Some [OF i] by simp
  then have "validate_observation ts sha ser_obs (wa_observations a ! i) = Inr ()"
    using validate_assessment_parts(1) [OF assms(2)] by simp
  then have "ob_human_validation (wa_observations a ! i) = None"
    using assms(4) by (cases "ob_human_validation (wa_observations a ! i)")
      (auto simp: validate_observation_def ok_iff validate_human_class_def)
  moreover have "validate_assessment ts sha ser_obs ser
      (confirmed_assessment sha ser_obs ser v e recorded_at i a) = Inr ()"
    using confirmed_assessment_valid [OF assms(1,2) len assms(5-14)] .
  ultimately show ?thesis
    using assms
    by (simp add: record_human_validation_def fail_if_def confirmation_wf_def Let_def
        confirmed_assessment_def)
qed

theorem confirmation_succeeds_witness:
  "record_human_validation sample_ts length_sha no_observation_json no_assessment_json
     (ob_observation_id (identified length_sha no_observation_json (sample_observation 1)))
     sample_confirmation sample_reproduction T1 (sample_assessment 1)
   = Ok (confirmed_assessment length_sha no_observation_json no_assessment_json sample_confirmation
       sample_reproduction T1 0 (sample_assessment 1))"
proof (rule confirmation_succeeds [where r = 86400 and q = 86400 and p = 0])
  show "validate_assessment sample_ts length_sha no_observation_json no_assessment_json
      (sample_assessment 1) = Ok ()" by (rule sample_assessment_valid) simp_all
  show "confirmation_wf sample_ts sample_confirmation sample_reproduction"
    by (simp add: confirmation_wf_def sample_confirmation_def sample_reproduction_def
        web_valid_text_def string_simps)
  show "validate_evidence_item sample_reproduction = Ok ()"
    by (simp add: validate_evidence_item_def sample_reproduction_def web_valid_text_def string_simps)
  show "web_valid_text (hv_evidence_reference sample_confirmation) 300"
    by (simp add: sample_confirmation_def web_valid_text_def string_simps)
  have "length_sha ''{}'' \<noteq> length_sha ''{p}''" by (auto dest: length_sha_inj [rotated 2])
  then have "web_sha256_hex length_sha ''{}'' \<noteq> web_sha256_hex length_sha ''{p}''"
    unfolding web_sha256_hex_def using hex.enc_inj by blast
  then show "wa_assessment_id (confirmed_assessment length_sha no_observation_json no_assessment_json
        sample_confirmation sample_reproduction T1 0 (sample_assessment 1))
      \<noteq> wa_assessment_id (sample_assessment 1)"
    by (simp add: confirmed_assessment_def Let_def sample_assessment_def assessed_def
        expected_assessment_id_def no_assessment_json_def)
qed (simp_all add: sample_observations, simp_all add: identified_def sample_observation_def
    sample_route_def sample_confirmation_def sample_assessment_def assessed_def Let_def)

end
