(* ===== verification/WebPilot.thy ===== *)
theory WebPilot
  imports WebScope
begin

text \<open>
  The observation pilot, \<open>crates/secureflow-web/src/pilot.rs\<close>: the sealed contract under which a
  few read-only requests to one host could be made, the guard that each request of a session
  passes, the accounting of responses and what is kept of them. No transport is compiled in.

  Parameters: the timestamp parser \<open>ts\<close>, \<open>OffsetDateTime::from_unix_timestamp\<close> (\<open>unix\<close>), the
  digest \<open>sha\<close>, the JSON encoding \<open>ser\<close> of a pilot, the readers, and the formatted clock \<open>now\<close>.
  A 64-bit signed timestamp is an \<open>int\<close>, with the saturation of its subtraction written out.
\<close>

section \<open>Data\<close>

definition OBSERVATION_PILOT_VERSION :: string where
  "OBSERVATION_PILOT_VERSION = ''secureflow-web-observation-pilot-v1''"

definition MAX_OBSERVATION_PILOT_BYTES :: nat where
  "MAX_OBSERVATION_PILOT_BYTES = 1024 * 1024"

definition BOUNDED_TRANSPORT_COMPILED :: bool where
  "BOUNDED_TRANSPORT_COMPILED = False"

datatype authorization_evidence_kind = OwnerAssertion | VerifiedOwnershipArtifact

record observation_authorization =
  oa_reference :: string
  oa_owner_assertion :: string
  oa_assertion_sha256 :: string
  oa_evidence_kind :: authorization_evidence_kind
  oa_ownership_evidence_sha256 :: "string option"
  oa_reviewer :: string
  oa_issued_at :: string
  oa_expires_at :: string

datatype redirect_policy = SameHostOnly

record pilot_target =
  pt_apex_host :: string
  pt_include_subdomains :: bool
  pt_scheme :: web_scheme
  pt_port :: u16
  pt_redirect_policy :: redirect_policy

record observation_policy =
  opo_allowed_methods :: "http_method list"
  opo_allowed_paths :: "string list"
  opo_max_requests :: u16
  opo_requests_per_minute :: u16
  opo_max_concurrency :: u8
  opo_max_redirects :: u8
  opo_timeout_milliseconds :: u32
  opo_max_response_bytes :: u64
  opo_max_total_response_bytes :: u64
  opo_stop_after_consecutive_5xx :: u8
  opo_dns_revalidate_before_every_request :: bool
  opo_redirect_revalidate_before_every_hop :: bool
  opo_retain_response_body :: bool
  opo_send_credentials :: bool
  opo_use_proxy :: bool
  opo_authentication_comparisons_enabled :: bool
  opo_allowed_response_headers :: "string list"

record pilot_prerequisites =
  pp_authorization_record_bound :: bool
  pp_ownership_evidence_verified :: bool
  pp_bounded_transport_implemented :: bool
  pp_dns_revalidation_tested :: bool
  pp_redirect_revalidation_tested :: bool
  pp_redaction_tested :: bool
  pp_staging_completed :: bool
  pp_dedicated_test_accounts_available :: bool

record pilot_draft =
  pd_authorization :: observation_authorization
  pd_target :: pilot_target
  pd_policy :: observation_policy
  pd_prerequisites :: pilot_prerequisites

datatype pilot_readiness = PilotStateBlocked | PilotStateReady

datatype pilot_blocker =
  AuthorizationRecordMissing | OwnershipEvidenceUnverified | BoundedTransportMissing
| DnsRevalidationUntested | RedirectRevalidationUntested | RedactionUntested
| StagingNotCompleted | DedicatedTestAccountsMissing

record pilot_claims =
  pc_authorization_acknowledged :: bool
  pc_network_executed :: bool
  pc_production_execution_allowed :: bool
  pc_vulnerability_validation_allowed :: bool
  pc_production_safety_claim_allowed :: bool

record web_observation_pilot =
  wp_contract_version :: string
  wp_pilot_id :: string
  wp_created_at :: string
  wp_authorization :: observation_authorization
  wp_target :: pilot_target
  wp_policy :: observation_policy
  wp_prerequisites :: pilot_prerequisites
  wp_readiness :: pilot_readiness
  wp_blockers :: "pilot_blocker list"
  wp_claims :: pilot_claims

record guarded_observation_request =
  gr_method :: http_method
  gr_scheme :: web_scheme
  gr_host :: string
  gr_port :: u16
  gr_path :: string
  gr_redirect_hop :: u8
  gr_resolved_addresses :: "string list"

datatype pilot_stop_reason =
  RateLimited | RepeatedServerErrors | StopScopeDrift | UnexpectedBehavior
| ResponseLimitExceeded | StopBudgetExhausted

record observation_session =
  os_pilot_id :: string
  os_requests_started :: u16
  os_requests_completed :: u16
  os_total_response_bytes :: u64
  os_consecutive_5xx :: u8
  os_request_timestamps_unix :: "int list"
  os_stopped :: "pilot_stop_reason option"

record observation_header =
  oh_name :: string
  oh_value :: string

record observation_evidence =
  oe_status :: u16
  oe_headers :: "observation_header list"
  oe_body_sha256 :: string
  oe_body_bytes :: u64
  oe_body_retained :: bool
  oe_secrets_retained :: bool
  oe_pii_retained :: bool

datatype pilot_error =
  PilotInvalidField string
| PilotBlocked
| SessionStopped pilot_stop_reason
| MethodNotAllowed
| ErrScopeDrift
| DnsRevalidationFailed
| RequestBudgetExhausted
| PilotJson
| PilotTimestamp

fun blocker_rank :: "pilot_blocker \<Rightarrow> nat" where
  "blocker_rank AuthorizationRecordMissing = 0"
| "blocker_rank OwnershipEvidenceUnverified = 1"
| "blocker_rank BoundedTransportMissing = 2"
| "blocker_rank DnsRevalidationUntested = 3"
| "blocker_rank RedirectRevalidationUntested = 4"
| "blocker_rank RedactionUntested = 5"
| "blocker_rank StagingNotCompleted = 6"
| "blocker_rank DedicatedTestAccountsMissing = 7"

section \<open>Addresses, hosts, paths and headers\<close>

definition is_public_v4 :: "nat \<Rightarrow> nat \<Rightarrow> nat \<Rightarrow> nat \<Rightarrow> bool" where
  "is_public_v4 a b c d \<longleftrightarrow>
     \<not> (v4_is_private a b
        \<or> a = 127
        \<or> (a = 169 \<and> b = 254)
        \<or> (224 \<le> a \<and> a \<le> 239)
        \<or> (a = 0 \<and> b = 0 \<and> c = 0 \<and> d = 0)
        \<or> a = 0
        \<or> 224 \<le> a
        \<or> (a = 100 \<and> 64 \<le> b \<and> b \<le> 127)
        \<or> (a = 192 \<and> b = 0)
        \<or> (a = 192 \<and> b = 88 \<and> c = 99)
        \<or> (a = 198 \<and> 18 \<le> b \<and> b \<le> 19)
        \<or> (a = 198 \<and> b = 51 \<and> c = 100)
        \<or> (a = 203 \<and> b = 0 \<and> c = 113))"

definition masked :: "nat \<Rightarrow> u16 \<Rightarrow> u16" where
  "masked g m = and (of_nat g) m"

definition is_public_v6 :: "nat list \<Rightarrow> bool" where
  "is_public_v6 gs =
     (case to_ipv4_mapped gs of
        Some (a, b, c, d) \<Rightarrow> is_public_v4 a b c d
      | None \<Rightarrow>
          masked (gs ! 0) 0xe000 = 0x2000
          \<and> \<not> (gs = [0, 0, 0, 0, 0, 0, 0, 1]
               \<or> gs = [0, 0, 0, 0, 0, 0, 0, 0]
               \<or> masked (gs ! 0) 0xff00 = 0xff00
               \<or> masked (gs ! 0) 0xfe00 = 0xfc00
               \<or> masked (gs ! 0) 0xffc0 = 0xfe80
               \<or> (gs ! 0 = 0x2001 \<and> gs ! 1 = 0x0db8)))"

definition is_public_address :: "string \<Rightarrow> bool" where
  "is_public_address value =
     (case parse_ip value of
        Some (V4 a b c d) \<Rightarrow> is_public_v4 a b c d
      | Some (V6 gs) \<Rightarrow> is_public_v6 gs
      | None \<Rightarrow> False)"

definition valid_host :: "string \<Rightarrow> bool" where
  "valid_host host \<longleftrightarrow>
     host \<noteq> [] \<and> length host \<le> 253 \<and> host = to_ascii_lowercase host
   \<and> \<not> starts_with ''.'' host \<and> \<not> ends_with ''.'' host
   \<and> list_all valid_label (split_by (\<lambda>c. c = CHR ''.'') host)"

definition valid_observation_path :: "string \<Rightarrow> bool" where
  "valid_observation_path path \<longleftrightarrow>
     starts_with ''/'' path \<and> \<not> starts_with ''//'' path \<and> length path \<le> 2000
   \<and> \<not> list_ex (\<lambda>c. c \<in> {CHR ''?'', CHR ''#'', CHR 0x5C, CHR 0x00}) path
   \<and> \<not> list_ex (\<lambda>segment. segment = ''.'' \<or> segment = ''..'') (split_by (\<lambda>c. c = CHR ''/'') path)"

definition valid_header_name :: "string \<Rightarrow> bool" where
  "valid_header_name name \<longleftrightarrow>
     name \<noteq> [] \<and> length name \<le> 100 \<and> list_all (\<lambda>c. is_lower c \<or> c = CHR ''-'') name"

section \<open>The contract of a pilot\<close>

definition pilot_prefixed_hash :: "string \<Rightarrow> string \<Rightarrow> bool" where
  "pilot_prefixed_hash value pfx =
     (case strip_prefix pfx value of None \<Rightarrow> False | Some s \<Rightarrow> web_valid_sha256 s)"

definition validate_pilot_policy :: "observation_policy \<Rightarrow> pilot_error + unit" where
  "validate_pilot_policy p =
     fail_if (opo_allowed_methods p \<noteq> [Get, Head, Options]
        \<or> opo_allowed_paths p = [] \<or> 100 < length (opo_allowed_paths p)
        \<or> \<not> strictly_increasing (opo_allowed_paths p)
        \<or> list_ex (\<lambda>path. \<not> valid_observation_path path) (opo_allowed_paths p)
        \<or> opo_max_requests p = 0 \<or> 20 < opo_max_requests p
        \<or> opo_requests_per_minute p = 0 \<or> 5 < opo_requests_per_minute p
        \<or> opo_max_concurrency p \<noteq> 1 \<or> 3 < opo_max_redirects p
        \<or> \<not> (1000 \<le> opo_timeout_milliseconds p \<and> opo_timeout_milliseconds p \<le> 10000)
        \<or> opo_max_response_bytes p = 0 \<or> 2 * 1024 * 1024 < opo_max_response_bytes p
        \<or> opo_max_total_response_bytes p < opo_max_response_bytes p
        \<or> 8 * 1024 * 1024 < opo_max_total_response_bytes p
        \<or> \<not> (1 \<le> opo_stop_after_consecutive_5xx p \<and> opo_stop_after_consecutive_5xx p \<le> 3)
        \<or> \<not> opo_dns_revalidate_before_every_request p
        \<or> \<not> opo_redirect_revalidate_before_every_hop p
        \<or> opo_retain_response_body p \<or> opo_send_credentials p \<or> opo_use_proxy p
        \<or> 20 < length (opo_allowed_response_headers p)
        \<or> \<not> strictly_increasing (opo_allowed_response_headers p)
        \<or> list_ex (\<lambda>name. \<not> valid_header_name name
            \<or> name \<in> {''set-cookie'', ''authorization'', ''proxy-authenticate''})
            (opo_allowed_response_headers p))
       (PilotInvalidField ''observation policy'')"

definition ownership_consistent :: "pilot_draft \<Rightarrow> bool" where
  "ownership_consistent d =
     (let auth = pd_authorization d; pre = pd_prerequisites d
      in case oa_evidence_kind auth of
           OwnerAssertion \<Rightarrow>
             oa_ownership_evidence_sha256 auth = None \<and> \<not> pp_ownership_evidence_verified pre
         | VerifiedOwnershipArtifact \<Rightarrow>
             (case oa_ownership_evidence_sha256 auth of None \<Rightarrow> False | Some v \<Rightarrow> web_valid_sha256 v)
             \<and> pp_ownership_evidence_verified pre
             \<and> oa_reviewer auth \<noteq> ''pending-independent-ownership-review'')"

definition validate_draft ::
    "ts_parser \<Rightarrow> digest_fun \<Rightarrow> pilot_draft \<Rightarrow> pilot_error + unit" where
  "validate_draft ts sha d =
     (let auth = pd_authorization d; target = pd_target d
      in and_then (ok_or (ts (oa_issued_at auth)) (PilotInvalidField ''authorization issued_at'')) (\<lambda>issued_at.
         and_then (ok_or (ts (oa_expires_at auth)) (PilotInvalidField ''authorization expires_at'')) (\<lambda>expires_at.
         checks [
           fail_if (\<not> web_valid_text (oa_reference auth) 500
              \<or> \<not> web_valid_text (oa_owner_assertion auth) 1000
              \<or> oa_assertion_sha256 auth \<noteq> web_sha256_hex sha (oa_owner_assertion auth)
              \<or> (case oa_ownership_evidence_sha256 auth of
                   None \<Rightarrow> False | Some v \<Rightarrow> \<not> web_valid_sha256 v)
              \<or> \<not> web_valid_text (oa_reviewer auth) 300
              \<or> \<not> ownership_consistent d
              \<or> expires_at \<le> issued_at
              \<or> pp_bounded_transport_implemented (pd_prerequisites d) \<noteq> BOUNDED_TRANSPORT_COMPILED
              \<or> \<not> valid_host (pt_apex_host target) \<or> pt_include_subdomains target
              \<or> pt_scheme target \<noteq> Https \<or> pt_port target \<noteq> 443)
             (PilotInvalidField ''authorization or target''),
           validate_pilot_policy (pd_policy d)])))"

definition validate_authorization_window ::
    "ts_parser \<Rightarrow> observation_authorization \<Rightarrow> int \<Rightarrow> pilot_error + unit" where
  "validate_authorization_window ts auth now =
     and_then (ok_or (ts (oa_issued_at auth)) (PilotInvalidField ''authorization issued_at'')) (\<lambda>issued_at.
     and_then (ok_or (ts (oa_expires_at auth)) (PilotInvalidField ''authorization expires_at'')) (\<lambda>expires_at.
     checks [
       fail_if (now < issued_at) (PilotInvalidField ''authorization not yet valid''),
       fail_if (expires_at \<le> now) (PilotInvalidField ''expired authorization'')]))"

definition blockers_for :: "pilot_prerequisites \<Rightarrow> observation_policy \<Rightarrow> pilot_blocker list" where
  "blockers_for p policy = sort_key blocker_rank (
     (if \<not> pp_authorization_record_bound p then [AuthorizationRecordMissing] else [])
   @ (if \<not> pp_ownership_evidence_verified p then [OwnershipEvidenceUnverified] else [])
   @ (if \<not> pp_bounded_transport_implemented p \<or> \<not> BOUNDED_TRANSPORT_COMPILED
      then [BoundedTransportMissing] else [])
   @ (if \<not> pp_dns_revalidation_tested p then [DnsRevalidationUntested] else [])
   @ (if \<not> pp_redirect_revalidation_tested p then [RedirectRevalidationUntested] else [])
   @ (if \<not> pp_redaction_tested p then [RedactionUntested] else [])
   @ (if \<not> pp_staging_completed p then [StagingNotCompleted] else [])
   @ (if opo_authentication_comparisons_enabled policy
         \<and> \<not> pp_dedicated_test_accounts_available p
      then [DedicatedTestAccountsMissing] else []))"

definition expected_pilot_id ::
    "digest_fun \<Rightarrow> (web_observation_pilot \<Rightarrow> string) \<Rightarrow> web_observation_pilot \<Rightarrow> string" where
  "expected_pilot_id sha ser p =
     ''sf_web_pilot_'' @ web_sha256_hex sha (ser (p\<lparr>wp_pilot_id := []\<rparr>))"

definition draft_of :: "web_observation_pilot \<Rightarrow> pilot_draft" where
  "draft_of p = \<lparr>pd_authorization = wp_authorization p, pd_target = wp_target p,
     pd_policy = wp_policy p, pd_prerequisites = wp_prerequisites p\<rparr>"

definition validate_pilot ::
    "ts_parser \<Rightarrow> digest_fun \<Rightarrow> (web_observation_pilot \<Rightarrow> string) \<Rightarrow> web_observation_pilot
     \<Rightarrow> pilot_error + unit" where
  "validate_pilot ts sha ser p =
     and_then (validate_draft ts sha (draft_of p)) (\<lambda>_.
     and_then (ok_or (ts (wp_created_at p)) (PilotInvalidField ''pilot creation time'')) (\<lambda>created_at.
     and_then (validate_authorization_window ts (wp_authorization p) created_at) (\<lambda>_.
     let blockers = blockers_for (wp_prerequisites p) (wp_policy p);
         readiness = (if blockers = [] then PilotStateReady else PilotStateBlocked);
         claims = wp_claims p
     in fail_if (wp_contract_version p \<noteq> OBSERVATION_PILOT_VERSION
          \<or> \<not> pilot_prefixed_hash (wp_pilot_id p) ''sf_web_pilot_''
          \<or> wp_pilot_id p \<noteq> expected_pilot_id sha ser p
          \<or> wp_blockers p \<noteq> blockers \<or> wp_readiness p \<noteq> readiness
          \<or> \<not> pc_authorization_acknowledged claims \<or> pc_network_executed claims
          \<or> pc_production_execution_allowed claims \<noteq> (readiness = PilotStateReady)
          \<or> pc_vulnerability_validation_allowed claims
          \<or> pc_production_safety_claim_allowed claims)
        (PilotInvalidField ''pilot''))))"

definition seal_observation_pilot ::
    "ts_parser \<Rightarrow> digest_fun \<Rightarrow> (web_observation_pilot \<Rightarrow> string) \<Rightarrow> (string \<Rightarrow> pilot_draft option)
     \<Rightarrow> string option \<Rightarrow> string \<Rightarrow> string option \<Rightarrow> pilot_error + web_observation_pilot" where
  "seal_observation_pilot ts sha ser from_json now bytes created_at =
     and_then (fail_if (bytes = [] \<or> MAX_OBSERVATION_PILOT_BYTES < length bytes)
       (PilotInvalidField ''draft document size'')) (\<lambda>_.
     and_then (ok_or (from_json bytes) PilotJson) (\<lambda>draft.
     and_then (validate_draft ts sha draft) (\<lambda>_.
     let blockers = blockers_for (pd_prerequisites draft) (pd_policy draft);
         readiness = (if blockers = [] then PilotStateReady else PilotStateBlocked)
     in and_then (ok_or now PilotTimestamp) (\<lambda>formatted.
        let pilot = \<lparr>wp_contract_version = OBSERVATION_PILOT_VERSION, wp_pilot_id = [],
              wp_created_at = (case created_at of None \<Rightarrow> formatted | Some t \<Rightarrow> t),
              wp_authorization = pd_authorization draft, wp_target = pd_target draft,
              wp_policy = pd_policy draft, wp_prerequisites = pd_prerequisites draft,
              wp_readiness = readiness, wp_blockers = blockers,
              wp_claims = \<lparr>pc_authorization_acknowledged = True, pc_network_executed = False,
                pc_production_execution_allowed = (readiness = PilotStateReady),
                pc_vulnerability_validation_allowed = False,
                pc_production_safety_claim_allowed = False\<rparr>\<rparr>;
            pilot' = pilot\<lparr>wp_pilot_id := expected_pilot_id sha ser pilot\<rparr>
        in and_then (validate_pilot ts sha ser pilot') (\<lambda>_. Ok pilot')))))"

definition parse_observation_pilot ::
    "ts_parser \<Rightarrow> digest_fun \<Rightarrow> (web_observation_pilot \<Rightarrow> string)
     \<Rightarrow> (string \<Rightarrow> web_observation_pilot option) \<Rightarrow> string \<Rightarrow> int
     \<Rightarrow> pilot_error + web_observation_pilot" where
  "parse_observation_pilot ts sha ser from_json bytes now =
     and_then (fail_if (bytes = [] \<or> MAX_OBSERVATION_PILOT_BYTES < length bytes)
       (PilotInvalidField ''document size'')) (\<lambda>_.
     and_then (ok_or (from_json bytes) PilotJson) (\<lambda>pilot.
     and_then (validate_pilot ts sha ser pilot) (\<lambda>_.
     and_then (validate_authorization_window ts (wp_authorization pilot) now) (\<lambda>_. Ok pilot))))"

text \<open>The draft for the one target the pilot was written for.\<close>

definition mitiquete_pilot_draft ::
    "ts_parser \<Rightarrow> digest_fun \<Rightarrow> string \<Rightarrow> string \<Rightarrow> string \<Rightarrow> pilot_error + pilot_draft" where
  "mitiquete_pilot_draft ts sha authorization_reference issued_at expires_at =
     (let owner_assertion = ''The requesting user states that they own and authorize bounded security observation of https://mitiqueteonline.com for the SecureFlow Web pilot.'';
          draft = \<lparr>
            pd_authorization = \<lparr>oa_reference = authorization_reference,
              oa_owner_assertion = owner_assertion,
              oa_assertion_sha256 = web_sha256_hex sha owner_assertion,
              oa_evidence_kind = OwnerAssertion, oa_ownership_evidence_sha256 = None,
              oa_reviewer = ''pending-independent-ownership-review'', oa_issued_at = issued_at,
              oa_expires_at = expires_at\<rparr>,
            pd_target = \<lparr>pt_apex_host = ''mitiqueteonline.com'', pt_include_subdomains = False,
              pt_scheme = Https, pt_port = 443, pt_redirect_policy = SameHostOnly\<rparr>,
            pd_policy = \<lparr>opo_allowed_methods = [Get, Head, Options],
              opo_allowed_paths = [''/'', ''/.well-known/security.txt'', ''/robots.txt'', ''/sitemap.xml''],
              opo_max_requests = 12, opo_requests_per_minute = 3, opo_max_concurrency = 1,
              opo_max_redirects = 2, opo_timeout_milliseconds = 5000,
              opo_max_response_bytes = 1024 * 1024,
              opo_max_total_response_bytes = 4 * 1024 * 1024,
              opo_stop_after_consecutive_5xx = 2,
              opo_dns_revalidate_before_every_request = True,
              opo_redirect_revalidate_before_every_hop = True,
              opo_retain_response_body = False, opo_send_credentials = False,
              opo_use_proxy = False, opo_authentication_comparisons_enabled = False,
              opo_allowed_response_headers = [''access-control-allow-origin'', ''cache-control'',
                ''content-length'', ''content-type'', ''location'', ''vary'']\<rparr>,
            pd_prerequisites = \<lparr>pp_authorization_record_bound = True,
              pp_ownership_evidence_verified = False, pp_bounded_transport_implemented = False,
              pp_dns_revalidation_tested = True, pp_redirect_revalidation_tested = True,
              pp_redaction_tested = True, pp_staging_completed = False,
              pp_dedicated_test_accounts_available = False\<rparr>\<rparr>
      in and_then (validate_draft ts sha draft) (\<lambda>_. Ok draft))"

section \<open>Sessions\<close>

definition new_session ::
    "ts_parser \<Rightarrow> digest_fun \<Rightarrow> (web_observation_pilot \<Rightarrow> string) \<Rightarrow> web_observation_pilot
     \<Rightarrow> pilot_error + observation_session" where
  "new_session ts sha ser p =
     and_then (validate_pilot ts sha ser p) (\<lambda>_. Ok
       \<lparr>os_pilot_id = wp_pilot_id p, os_requests_started = 0, os_requests_completed = 0,
        os_total_response_bytes = 0, os_consecutive_5xx = 0, os_request_timestamps_unix = [],
        os_stopped = None\<rparr>)"

definition validate_session_identity ::
    "web_observation_pilot \<Rightarrow> observation_session \<Rightarrow> pilot_error + unit" where
  "validate_session_identity p s =
     fail_if (os_pilot_id s \<noteq> wp_pilot_id p
              \<or> os_requests_started s < os_requests_completed s
              \<or> unat (os_requests_started s) \<noteq> length (os_request_timestamps_unix s))
       (PilotInvalidField ''observation session'')"

definition saturating_sub_i64 :: "int \<Rightarrow> int \<Rightarrow> int" where
  "saturating_sub_i64 a b = max (- (2 ^ 63)) (min (2 ^ 63 - 1) (a - b))"

definition saturating_add_word :: "'a::len word \<Rightarrow> 'a word \<Rightarrow> 'a word" where
  "saturating_add_word a b = (if unat a + unat b < 2 ^ LENGTH('a) then a + b else - 1)"

definition saturating_sub_word :: "'a::len word \<Rightarrow> 'a word \<Rightarrow> 'a word" where
  "saturating_sub_word a b = (if b \<le> a then a - b else 0)"

text \<open>
  The guard of a request. The session is changed in place, also where the guard refuses: the
  result is the new session and the answer.
\<close>

definition validate_request_constraints ::
    "web_observation_pilot \<Rightarrow> guarded_observation_request \<Rightarrow> int \<Rightarrow> observation_session
     \<Rightarrow> observation_session \<times> (pilot_error + unit)" where
  "validate_request_constraints p r now s =
     (let policy = wp_policy p; target = wp_target p in
      case os_stopped s of
        Some reason \<Rightarrow> (s, Err (SessionStopped reason))
      | None \<Rightarrow>
          if gr_method r \<notin> set (opo_allowed_methods policy)
          then (s\<lparr>os_stopped := Some StopScopeDrift\<rparr>, Err MethodNotAllowed)
          else if gr_host r \<noteq> pt_apex_host target \<or> gr_scheme r \<noteq> pt_scheme target
             \<or> gr_port r \<noteq> pt_port target \<or> opo_max_redirects policy < gr_redirect_hop r
             \<or> gr_path r \<notin> set (opo_allowed_paths policy)
             \<or> \<not> valid_observation_path (gr_path r)
          then (s\<lparr>os_stopped := Some StopScopeDrift\<rparr>, Err ErrScopeDrift)
          else if gr_resolved_addresses r = []
             \<or> list_ex (\<lambda>a. parse_ip a = None \<or> \<not> is_public_address a) (gr_resolved_addresses r)
          then (s\<lparr>os_stopped := Some StopScopeDrift\<rparr>, Err DnsRevalidationFailed)
          else
            let in_last_minute = length (filter (\<lambda>t. saturating_sub_i64 now t < 60)
                  (os_request_timestamps_unix s))
            in if opo_max_requests policy \<le> os_requests_started s
                  \<or> unat (opo_requests_per_minute policy) \<le> in_last_minute
                  \<or> (ucast (opo_max_concurrency policy) :: u16)
                      \<le> saturating_sub_word (os_requests_started s) (os_requests_completed s)
               then (if opo_max_requests policy \<le> os_requests_started s
                     then s\<lparr>os_stopped := Some StopBudgetExhausted\<rparr> else s,
                     Err RequestBudgetExhausted)
               else if (case rev (os_request_timestamps_unix s) of [] \<Rightarrow> False | latest # _ \<Rightarrow> now < latest)
               then (s, Err (PilotInvalidField ''non-monotonic request time''))
               else (s\<lparr>os_requests_started := saturating_add_word (os_requests_started s) 1,
                       os_request_timestamps_unix := os_request_timestamps_unix s @ [now]\<rparr>, Ok ()))"

definition authorize_observation_request ::
    "ts_parser \<Rightarrow> (int \<Rightarrow> int option) \<Rightarrow> digest_fun \<Rightarrow> (web_observation_pilot \<Rightarrow> string)
     \<Rightarrow> web_observation_pilot \<Rightarrow> guarded_observation_request \<Rightarrow> int \<Rightarrow> observation_session
     \<Rightarrow> observation_session \<times> (pilot_error + unit)" where
  "authorize_observation_request ts unix sha ser p r now_unix s =
     (case and_then (validate_pilot ts sha ser p) (\<lambda>_.
           and_then (validate_session_identity p s) (\<lambda>_.
           and_then (ok_or (unix now_unix) (PilotInvalidField ''request timestamp'')) (\<lambda>now.
           and_then (validate_authorization_window ts (wp_authorization p) now) (\<lambda>_.
           fail_if (wp_readiness p \<noteq> PilotStateReady
                    \<or> \<not> pc_production_execution_allowed (wp_claims p)) PilotBlocked)))) of
        Inl e \<Rightarrow> (s, Err e)
      | Inr _ \<Rightarrow> validate_request_constraints p r now_unix s)"

definition record_observation_result ::
    "ts_parser \<Rightarrow> digest_fun \<Rightarrow> (web_observation_pilot \<Rightarrow> string) \<Rightarrow> web_observation_pilot
     \<Rightarrow> u16 \<Rightarrow> u64 \<Rightarrow> bool \<Rightarrow> observation_session
     \<Rightarrow> observation_session \<times> (pilot_error + unit)" where
  "record_observation_result ts sha ser p status response_bytes unexpected s =
     (case and_then (validate_pilot ts sha ser p) (\<lambda>_.
           and_then (validate_session_identity p s) (\<lambda>_.
           fail_if (os_requests_started s \<le> os_requests_completed s
                    \<or> \<not> (100 \<le> status \<and> status \<le> 599)) (PilotInvalidField ''observation result''))) of
        Inl e \<Rightarrow> (s, Err e)
      | Inr _ \<Rightarrow>
          let policy = wp_policy p;
              s1 = s\<lparr>os_requests_completed := saturating_add_word (os_requests_completed s) 1\<rparr>
          in if 2 ^ 64 \<le> unat (os_total_response_bytes s1) + unat response_bytes
             then (s1, Err (PilotInvalidField ''response byte count''))
             else
               let s2 = s1\<lparr>os_total_response_bytes := os_total_response_bytes s1 + response_bytes\<rparr>
               in (if opo_max_response_bytes policy < response_bytes
                      \<or> opo_max_total_response_bytes policy < os_total_response_bytes s2
                   then s2\<lparr>os_stopped := Some ResponseLimitExceeded\<rparr>
                   else if status = 429 then s2\<lparr>os_stopped := Some RateLimited\<rparr>
                   else if unexpected then s2\<lparr>os_stopped := Some UnexpectedBehavior\<rparr>
                   else if 500 \<le> status \<and> status \<le> 599
                   then let s3 = s2\<lparr>os_consecutive_5xx := saturating_add_word (os_consecutive_5xx s2) 1\<rparr>
                        in if opo_stop_after_consecutive_5xx policy \<le> os_consecutive_5xx s3
                           then s3\<lparr>os_stopped := Some RepeatedServerErrors\<rparr> else s3
                   else s2\<lparr>os_consecutive_5xx := 0\<rparr>, Ok ()))"

section \<open>What is kept of a response\<close>

definition sanitize_header_value :: "string \<Rightarrow> string" where
  "sanitize_header_value value0 =
     (let value = trim value0; lower = to_ascii_lowercase value
      in if value = [] \<or> 500 < length value
            \<or> list_ex (\<lambda>c. c \<in> {CHR 0x0D, CHR 0x0A, CHR 0x00, CHR 0x40}) value
            \<or> list_ex (\<lambda>keyword. contains_str keyword lower)
                [''token'', ''secret'', ''password'', ''session'', ''bearer'', ''cookie'']
         then ''<redacted>'' else value)"

definition sanitize_location :: "digest_fun \<Rightarrow> string \<Rightarrow> string" where
  "sanitize_location sha value0 =
     (let value = trim value0
      in if value = [] \<or> 2000 < length value
            \<or> list_ex (\<lambda>c. c \<in> {CHR 0x0D, CHR 0x0A, CHR 0x00}) value
         then ''<redacted-location>''
         else ''sha256:'' @ web_sha256_hex sha value)"

fun retained_headers ::
    "digest_fun \<Rightarrow> string set \<Rightarrow> (string \<times> string) list \<Rightarrow> observation_header list" where
  "retained_headers sha allowed [] = []"
| "retained_headers sha allowed ((name0, value) # hs) =
     (let name = to_ascii_lowercase name0
      in if name \<notin> allowed \<or> name \<in> {''set-cookie'', ''authorization''}
         then retained_headers sha allowed hs
         else \<lparr>oh_name = name,
               oh_value = (if name = ''location'' then sanitize_location sha value
                           else sanitize_header_value value)\<rparr>
              # retained_headers sha allowed hs)"

definition sanitize_response_metadata ::
    "digest_fun \<Rightarrow> u16 \<Rightarrow> (string \<times> string) list \<Rightarrow> string \<Rightarrow> string list
     \<Rightarrow> pilot_error + observation_evidence" where
  "sanitize_response_metadata sha status headers body allowed_headers =
     and_then (fail_if (\<not> (100 \<le> status \<and> status \<le> 599)
         \<or> 16 * 1024 * 1024 < length body) (PilotInvalidField ''response metadata'')) (\<lambda>_.
     let allowed = set (map to_ascii_lowercase allowed_headers);
         retained = sort_key (\<lambda>h. (oh_name h, oh_value h)) (retained_headers sha allowed headers)
     in Ok \<lparr>oe_status = status, oe_headers = remdups_adj retained,
            oe_body_sha256 = web_sha256_hex sha body, oe_body_bytes = of_nat (length body),
            oe_body_retained = False, oe_secrets_retained = False, oe_pii_retained = False\<rparr>)"

section \<open>Reserved addresses\<close>

text \<open>
  The blocks an admitted request never goes to, as the registries write them: a first address and
  the length of the prefix, over the address as one number. Of IPv6 only the global unicast block
  is left, without the documentation block; a mapped address is judged by its IPv4 address. The
  block \<open>2002::/16\<close> is part of the global unicast one, whatever IPv4 address it embeds.
\<close>

definition be_number :: "nat \<Rightarrow> nat list \<Rightarrow> nat" where
  "be_number b ds = foldl (\<lambda>n d. n * b + d) 0 ds"

definition in_block :: "nat \<Rightarrow> nat \<Rightarrow> nat \<Rightarrow> nat \<Rightarrow> bool" where
  "in_block width len start n \<longleftrightarrow> n div 2 ^ (width - len) = start div 2 ^ (width - len)"

definition reserved_v4 :: "(nat list \<times> nat) list" where
  "reserved_v4 = [([0, 0, 0, 0], 8), ([10, 0, 0, 0], 8), ([100, 64, 0, 0], 10), ([127, 0, 0, 0], 8),
     ([169, 254, 0, 0], 16), ([172, 16, 0, 0], 12), ([192, 0, 0, 0], 16), ([192, 88, 99, 0], 24),
     ([192, 168, 0, 0], 16), ([198, 18, 0, 0], 15), ([198, 51, 100, 0], 24), ([203, 0, 113, 0], 24),
     ([224, 0, 0, 0], 3)]"

definition global_v4 :: "nat \<Rightarrow> bool" where
  "global_v4 n = list_all (\<lambda>(start, len). \<not> in_block 32 len (be_number 256 start) n) reserved_v4"

definition global_v6 :: "nat \<Rightarrow> bool" where
  "global_v6 n =
     (if in_block 128 96 (be_number 65536 [0, 0, 0, 0, 0, 0xffff, 0, 0]) n then global_v4 (n mod 2 ^ 32)
      else in_block 128 3 (be_number 65536 [0x2000, 0, 0, 0, 0, 0, 0, 0]) n
         \<and> \<not> in_block 128 32 (be_number 65536 [0x2001, 0x0db8, 0, 0, 0, 0, 0, 0]) n)"

definition global_address :: "string \<Rightarrow> bool" where
  "global_address a =
     (case parse_ip a of
        Some (V4 a b c d) \<Rightarrow> global_v4 (be_number 256 [a, b, c, d])
      | Some (V6 gs) \<Rightarrow> global_v6 (be_number 65536 gs)
      | None \<Rightarrow> False)"

lemma div_eq_range: "0 < k \<Longrightarrow> (x :: nat) div k = q \<longleftrightarrow> q * k \<le> x \<and> x < (q + 1) * k"
  by (metis Suc_eq_plus1 div_less_iff_less_mult leD less_Suc_eq less_eq_div_iff_mult_less_eq not_less_eq order_refl)

lemma digits_eq:
  assumes "b < k" and "q < (k :: nat)"
  shows "a * k + b = p * k + q \<longleftrightarrow> a = p \<and> b = q"
proof
  assume eq: "a * k + b = p * k + q"
  then have "(a * k + b) div k = (p * k + q) div k" "(a * k + b) mod k = (p * k + q) mod k" by simp_all
  with assms show "a = p \<and> b = q" by simp
qed simp

lemma be_number_4_div:
  assumes "b < 256" and "c < 256" and "d < (256 :: nat)"
  shows "be_number 256 [a, b, c, d] div 256 = (a * 256 + b) * 256 + c"
    and "be_number 256 [a, b, c, d] div 65536 = a * 256 + b"
    and "be_number 256 [a, b, c, d] div 16777216 = a"
proof -
  show 1: "be_number 256 [a, b, c, d] div 256 = (a * 256 + b) * 256 + c"
    using assms by (simp add: be_number_def)
  have "be_number 256 [a, b, c, d] div 65536 = be_number 256 [a, b, c, d] div 256 div 256"
    by (simp add: div_mult2_eq [symmetric])
  then show 2: "be_number 256 [a, b, c, d] div 65536 = a * 256 + b" using assms by (simp add: 1)
  have "be_number 256 [a, b, c, d] div 16777216 = be_number 256 [a, b, c, d] div 65536 div 256"
    by (simp add: div_mult2_eq [symmetric])
  then show "be_number 256 [a, b, c, d] div 16777216 = a" using assms by (simp add: 2)
qed

lemma public_v4_global:
  assumes "a < 256" and "b < 256" and "c < 256" and "d < 256"
  shows "is_public_v4 a b c d \<longleftrightarrow> global_v4 (be_number 256 [a, b, c, d])"
proof -
  let ?n = "be_number 256 [a, b, c, d]"
  note n = be_number_4_div [OF assms(2-4), of a]
  have split: "?n div 4194304 = (a * 256 + b) div 64" "?n div 1048576 = (a * 256 + b) div 16"
    "?n div 131072 = (a * 256 + b) div 2" "?n div 536870912 = a div 32"
    using div_mult2_eq [of ?n 65536 64] div_mult2_eq [of ?n 65536 16] div_mult2_eq [of ?n 65536 2]
      div_mult2_eq [of ?n 16777216 32] by (simp_all add: n)
  have part: "(a * (k * j) + b) div k = a * j + b div k" if "0 < k" for k j
    using that div_mult_self3 [of k "a * j" b] by (simp add: ac_simps)
  have bits: "b div 64 < 4" "b div 16 < 16" "b div 2 < 128" using assms(2) by simp_all
  have blocks: "(a * 256 + b) div 64 = 401 \<longleftrightarrow> a = 100 \<and> b div 64 = 1"
    using part [of 64 4] digits_eq [OF bits(1), of 1 a 100] by simp
  moreover have "(a * 256 + b) div 16 = 2753 \<longleftrightarrow> a = 172 \<and> b div 16 = 1"
    using part [of 16 16] digits_eq [OF bits(2), of 1 a 172] by simp
  moreover have "(a * 256 + b) div 2 = 25353 \<longleftrightarrow> a = 198 \<and> b div 2 = 9"
    using part [of 2 128] digits_eq [OF bits(3), of 9 a 198] by simp
  ultimately have blocks: "(a * 256 + b) div 64 = 401 \<longleftrightarrow> a = 100 \<and> b div 64 = 1"
    "(a * 256 + b) div 16 = 2753 \<longleftrightarrow> a = 172 \<and> b div 16 = 1"
    "(a * 256 + b) div 2 = 25353 \<longleftrightarrow> a = 198 \<and> b div 2 = 9" .
  have ranges: "b div 64 = 1 \<longleftrightarrow> 64 \<le> b \<and> b \<le> 127" "b div 16 = 1 \<longleftrightarrow> 16 \<le> b \<and> b \<le> 31"
    "b div 2 = 9 \<longleftrightarrow> 18 \<le> b \<and> b \<le> 19" "a div 32 = 7 \<longleftrightarrow> 224 \<le> a"
    using assms(1) by (auto simp: div_eq_range)
  have pairs: "a * 256 + b = 43518 \<longleftrightarrow> a = 169 \<and> b = 254" "a * 256 + b = 49152 \<longleftrightarrow> a = 192 \<and> b = 0"
    "a * 256 + b = 49320 \<longleftrightarrow> a = 192 \<and> b = 168" "a * 256 + b = 49240 \<longleftrightarrow> a = 192 \<and> b = 88"
    "a * 256 + b = 50739 \<longleftrightarrow> a = 198 \<and> b = 51" "a * 256 + b = 51968 \<longleftrightarrow> a = 203 \<and> b = 0"
    using digits_eq [OF assms(2), of 254 a 169] digits_eq [OF assms(2), of 0 a 192]
      digits_eq [OF assms(2), of 168 a 192] digits_eq [OF assms(2), of 88 a 192]
      digits_eq [OF assms(2), of 51 a 198] digits_eq [OF assms(2), of 0 a 203] by simp_all
  have triples: "(a * 256 + b) * 256 + c = 12605539 \<longleftrightarrow> a * 256 + b = 49240 \<and> c = 99"
    "(a * 256 + b) * 256 + c = 12989284 \<longleftrightarrow> a * 256 + b = 50739 \<and> c = 100"
    "(a * 256 + b) * 256 + c = 13303921 \<longleftrightarrow> a * 256 + b = 51968 \<and> c = 113"
    using digits_eq [OF assms(3), of 99 "a * 256 + b" 49240] digits_eq [OF assms(3), of 100 "a * 256 + b" 50739]
      digits_eq [OF assms(3), of 113 "a * 256 + b" 51968] by simp_all
  have "global_v4 ?n \<longleftrightarrow> \<not> (a = 0 \<or> a = 10 \<or> (a * 256 + b) div 64 = 401 \<or> a = 127 \<or> a * 256 + b = 43518
      \<or> (a * 256 + b) div 16 = 2753 \<or> a * 256 + b = 49152 \<or> (a * 256 + b) * 256 + c = 12605539
      \<or> a * 256 + b = 49320 \<or> (a * 256 + b) div 2 = 25353 \<or> (a * 256 + b) * 256 + c = 12989284
      \<or> (a * 256 + b) * 256 + c = 13303921 \<or> a div 32 = 7)"
    unfolding global_v4_def reserved_v4_def in_block_def
    by (simp add: n split) (simp add: be_number_def)
  also have "\<dots> \<longleftrightarrow> \<not> \<not> is_public_v4 a b c d"
    unfolding triples pairs blocks ranges is_public_v4_def v4_is_private_def by blast
  finally show ?thesis by simp
qed

lemma masked_top:
  assumes "g < 65536" and "masked g 0xe000 = 0x2000"
  shows "g div 8192 = 1"
proof -
  have "unat (and (word_of_nat g) 0xe000 :: u16) = 0x2000"
    using assms(2) by (simp add: masked_def)
  then have "and g 0xe000 = (0x2000 :: nat)"
    using assms(1) by (simp add: unsigned_and_eq unat_of_nat)
  then have "drop_bit 13 (and g 0xe000) = (1 :: nat)" by simp
  then have "take_bit 3 (drop_bit 13 g) = 1"
    by (simp add: drop_bit_and take_bit_eq_mask mask_eq_exp_minus_1)
  then have "g div 8192 mod 8 = 1" by (simp add: take_bit_eq_mod drop_bit_eq_div)
  with assms(1) show ?thesis by simp
qed

lemma public_v6_global:
  assumes "length gs = 8" and "\<forall>g \<in> set gs. g < 65536" and "is_public_v6 gs"
  shows "global_v6 (be_number 65536 gs)"
proof -
  from assms(1) obtain g0 g1 g2 g3 g4 g5 g6 g7 where gs: "gs = [g0, g1, g2, g3, g4, g5, g6, g7]"
    by (auto simp: numeral_eq_Suc length_Suc_conv)
  from assms(2) have less: "g0 < 65536" "g1 < 65536" "g2 < 65536" "g3 < 65536" "g4 < 65536" "g5 < 65536"
    "g6 < 65536" "g7 < 65536" by (simp_all add: gs)
  define n0 where "n0 = g0 * 65536 + g1"
  define n where "n = (((n0 * 65536 + g2) * 65536 + g3) * 65536 + g4) * 65536 + g5"
  have num: "be_number 65536 gs = n * 2 ^ 32 + (g6 * 65536 + g7)"
    by (simp add: be_number_def gs n_def n0_def)
  have low: "g6 * 65536 + g7 < 2 ^ 32" using less by simp
  have high: "be_number 65536 gs div 2 ^ 32 = n" using low by (simp add: num)
  have low': "be_number 65536 gs mod 2 ^ 32 = g6 * 65536 + g7" using low by (simp add: num)
  have "n div 65536 div 65536 div 65536 div 65536 = n0" using less by (simp add: n_def)
  then have "n div 2 ^ 64 = n0" by (simp add: div_mult2_eq [symmetric])
  then have top: "be_number 65536 gs div 2 ^ 96 = n0"
    using high div_mult2_eq [of "be_number 65536 gs" "2 ^ 32" "2 ^ 64"] by simp
  have "n0 div 65536 div 8192 = g0 div 8192" using less by (simp add: n0_def)
  then have "n0 div 2 ^ 29 = g0 div 8192" by (simp add: div_mult2_eq [symmetric])
  then have tip: "be_number 65536 gs div 2 ^ 125 = g0 div 8192"
    using top div_mult2_eq [of "be_number 65536 gs" "2 ^ 96" "2 ^ 29"] by simp
  have blocks: "in_block 128 96 (be_number 65536 [0, 0, 0, 0, 0, 0xffff, 0, 0]) (be_number 65536 gs) \<longleftrightarrow> n = 65535"
    "in_block 128 3 (be_number 65536 [0x2000, 0, 0, 0, 0, 0, 0, 0]) (be_number 65536 gs) \<longleftrightarrow> g0 div 8192 = 1"
    "in_block 128 32 (be_number 65536 [0x2001, 0x0db8, 0, 0, 0, 0, 0, 0]) (be_number 65536 gs) \<longleftrightarrow>
       g0 * 65536 + g1 = 0x2001 * 65536 + 0x0db8"
    using high top tip unfolding in_block_def by (simp_all add: be_number_def n0_def)
  show ?thesis
  proof (cases "n = 65535")
    case True
    then have "((n0 * 65536 + g2) * 65536 + g3) * 65536 + g4 = 0" "g5 = 65535"
      using digits_eq [OF less(6), of 65535 "((n0 * 65536 + g2) * 65536 + g3) * 65536 + g4" 0] by (simp_all add: n_def)
    then have mapped: "take 6 gs = [0, 0, 0, 0, 0, 65535]" by (simp add: gs n0_def)
    have "global_v4 (be_number 256 [g6 div 256, g6 mod 256, g7 div 256, g7 mod 256])"
      using assms(1,3) less public_v4_global [of "g6 div 256" "g6 mod 256" "g7 div 256" "g7 mod 256"]
      by (simp add: is_public_v6_def to_ipv4_mapped_def mapped) (simp add: gs)
    moreover have "be_number 256 [g6 div 256, g6 mod 256, g7 div 256, g7 mod 256] = g6 * 65536 + g7"
      by (simp add: be_number_def)
    ultimately show ?thesis unfolding global_v6_def blocks low' using True by simp
  next
    case False
    then have "to_ipv4_mapped gs = None"
      by (auto simp: to_ipv4_mapped_def gs n_def n0_def)
    with assms(3) have "masked g0 0xe000 = 0x2000" "\<not> (g0 = 0x2001 \<and> g1 = 0x0db8)"
      by (simp_all add: is_public_v6_def gs)
    then show ?thesis
      unfolding global_v6_def blocks using False masked_top [OF less(1)] digits_eq [OF less(2), of 3512 g0 8193]
      by simp
  qed
qed

lemma public_address_global: "is_public_address a \<Longrightarrow> global_address a"
  using parse_ip_shape [of a]
  by (auto simp: is_public_address_def global_address_def public_v4_global intro: public_v6_global
      split: option.splits ip_addr.splits)

section \<open>Names of hosts\<close>

lemma split_by_parts:
  "c \<in> set s \<Longrightarrow> p c \<or> (\<exists>w \<in> set (split_by p s). c \<in> set w)"
proof (induction s)
  case Nil
  then show ?case by simp
next
  case (Cons d s)
  then show ?case by (cases "split_by p s") auto
qed

lemma lower_not_upper: "is_lower c \<or> is_digit c \<or> c = CHR ''-'' \<or> c = CHR ''.'' \<Longrightarrow> \<not> is_upper c"
  by (auto simp: byte_class_defs)

lemma labels_no_upper:
  assumes "list_all valid_label (split_by (\<lambda>c. c = CHR ''.'') s)"
  shows "\<not> list_ex is_upper s"
proof -
  have "\<not> is_upper c" if "c \<in> set s" for c
    using split_by_parts [OF that, of "\<lambda>c. c = CHR ''.''"] assms lower_not_upper [of c]
    by (auto simp: list_all_iff valid_label_def)
  then show ?thesis by (auto simp: list_ex_iff)
qed

lemma to_ascii_lowercase_id: "\<not> list_ex is_upper s \<Longrightarrow> to_ascii_lowercase s = s"
  by (induction s) (simp_all add: to_ascii_lowercase_def)

lemma leading_dot_label:
  assumes "list_all valid_label (split_by (\<lambda>c. c = CHR ''.'') s)"
  shows "\<not> starts_with ''.'' s"
proof
  assume "starts_with ''.'' s"
  then obtain t where "s = CHR ''.'' # t" by (auto simp: starts_with_iff)
  with assms show False by (simp add: valid_label_def)
qed

section \<open>A pilot is blocked\<close>

lemma blockers_for_not_Nil:
  "\<not> pp_bounded_transport_implemented p \<Longrightarrow> blockers_for p policy \<noteq> []"
proof -
  assume "\<not> pp_bounded_transport_implemented p"
  then have "BoundedTransportMissing \<in> set (blockers_for p policy)" by (simp add: blockers_for_def)
  then show ?thesis by (metis empty_iff empty_set)
qed

lemma valid_pilot_blocked:
  assumes "validate_pilot ts sha ser p = Inr ()"
  shows "wp_readiness p = PilotStateBlocked" and "\<not> pc_production_execution_allowed (wp_claims p)"
proof -
  have "\<not> pp_bounded_transport_implemented (wp_prerequisites p)"
    using assms
    by (auto simp: validate_pilot_def validate_draft_def ok_iff Let_def draft_of_def
        BOUNDED_TRANSPORT_COMPILED_def)
  from blockers_for_not_Nil [OF this, of "wp_policy p"]
  show "wp_readiness p = PilotStateBlocked" and "\<not> pc_production_execution_allowed (wp_claims p)"
    using assms by (auto simp: validate_pilot_def ok_iff Let_def)
qed

section \<open>Sessions as a transition system\<close>

text \<open>
  The steps of a session, from the guard of a request and from the accounting of a response,
  successful or not. The guard is the one that requests pass when the pilot is ready.
\<close>

inductive session_step ::
    "ts_parser \<Rightarrow> digest_fun \<Rightarrow> (web_observation_pilot \<Rightarrow> string) \<Rightarrow> web_observation_pilot
     \<Rightarrow> observation_session \<Rightarrow> observation_session \<Rightarrow> bool"
  for ts sha ser p
where
  guard: "validate_request_constraints p r now s = (s', answer) \<Longrightarrow> session_step ts sha ser p s s'"
| account: "record_observation_result ts sha ser p status bytes unexpected s = (s', answer) \<Longrightarrow>
    session_step ts sha ser p s s'"

inductive_cases session_stepE: "session_step ts sha ser p s s'"

text \<open>The requests of a session in the sixty seconds from \<open>t\<close> on.\<close>

definition window :: "int \<Rightarrow> int list \<Rightarrow> int list" where
  "window t xs = filter (\<lambda>x. t \<le> x \<and> x < t + 60) xs"

definition session_inv :: "web_observation_pilot \<Rightarrow> observation_session \<Rightarrow> bool" where
  "session_inv p s \<longleftrightarrow>
     os_pilot_id s = wp_pilot_id p
   \<and> os_requests_started s \<le> opo_max_requests (wp_policy p)
   \<and> os_requests_completed s \<le> os_requests_started s
   \<and> unat (os_requests_started s) \<le> unat (os_requests_completed s) + 1
   \<and> length (os_request_timestamps_unix s) = unat (os_requests_started s)
   \<and> sorted (os_request_timestamps_unix s)
   \<and> (\<forall>t. length (window t (os_request_timestamps_unix s))
           \<le> unat (opo_requests_per_minute (wp_policy p)))"

lemma saturating_sub_window: "saturating_sub_i64 a b < 60 \<longleftrightarrow> a - b < 60"
  by (auto simp: saturating_sub_i64_def)

lemma window_snoc:
  assumes "sorted (xs @ [now])" and "length (filter (\<lambda>t. now - t < 60) xs) < n"
    and "\<forall>t. length (window t xs) \<le> n"
  shows "length (window t (xs @ [now])) \<le> n"
proof (cases "t \<le> now \<and> now < t + 60")
  case True
  have sub: "length (filter P xs) \<le> length (filter Q xs)" if "\<And>x. P x \<Longrightarrow> Q x" for P Q :: "int \<Rightarrow> bool"
    using that by (induction xs) auto
  have "length (window t xs) \<le> length (filter (\<lambda>x. now - x < 60) xs)"
    unfolding window_def using True by (intro sub) auto
  with True assms(2) show ?thesis by (simp add: window_def)
next
  case False
  with assms(3) show ?thesis by (auto simp: window_def)
qed

lemma sorted_snoc_last:
  "sorted xs \<Longrightarrow> \<not> (case rev xs of [] \<Rightarrow> False | latest # _ \<Rightarrow> now < latest) \<Longrightarrow> sorted (xs @ [now :: int])"
  by (cases xs rule: rev_cases) (auto simp: sorted_append not_less)

lemma saturating_add_word_1:
  "unat (a :: 'a::len word) + unat b < 2 ^ LENGTH('a) \<Longrightarrow>
     unat (saturating_add_word a b) = unat a + unat b"
  by (simp add: saturating_add_word_def unat_word_ariths)

text \<open>A guarded request is admitted, or the session at most stops.\<close>

definition admitted ::
    "web_observation_pilot \<Rightarrow> guarded_observation_request \<Rightarrow> int \<Rightarrow> observation_session \<Rightarrow> bool" where
  "admitted p r now s \<longleftrightarrow>
     os_stopped s = None \<and> gr_method r \<in> set (opo_allowed_methods (wp_policy p))
   \<and> gr_host r = pt_apex_host (wp_target p) \<and> gr_scheme r = pt_scheme (wp_target p)
   \<and> gr_port r = pt_port (wp_target p) \<and> gr_redirect_hop r \<le> opo_max_redirects (wp_policy p)
   \<and> gr_path r \<in> set (opo_allowed_paths (wp_policy p)) \<and> valid_observation_path (gr_path r)
   \<and> gr_resolved_addresses r \<noteq> [] \<and> list_all is_public_address (gr_resolved_addresses r)
   \<and> os_requests_started s < opo_max_requests (wp_policy p)
   \<and> length (filter (\<lambda>t. now - t < 60) (os_request_timestamps_unix s))
       < unat (opo_requests_per_minute (wp_policy p))
   \<and> saturating_sub_word (os_requests_started s) (os_requests_completed s)
       < ucast (opo_max_concurrency (wp_policy p))
   \<and> \<not> (case rev (os_request_timestamps_unix s) of [] \<Rightarrow> False | latest # _ \<Rightarrow> now < latest)"

lemma public_address_parses: "is_public_address a \<Longrightarrow> parse_ip a \<noteq> None"
  by (auto simp: is_public_address_def split: option.splits)

lemma guard_outcome:
  assumes "validate_request_constraints p r now s = (s', answer)"
  shows "(answer = Inr () \<and> admitted p r now s
          \<and> s' = s\<lparr>os_requests_started := saturating_add_word (os_requests_started s) 1,
                   os_request_timestamps_unix := os_request_timestamps_unix s @ [now]\<rparr>)
       \<or> (answer \<noteq> Inr () \<and> \<not> admitted p r now s \<and> (s' = s \<or> (\<exists>x. s' = s\<lparr>os_stopped := Some x\<rparr>)))"
proof (cases "os_stopped s")
  case (Some x)
  with assms show ?thesis by (auto simp: validate_request_constraints_def admitted_def)
next
  case None
  have addr: "list_ex (\<lambda>a. parse_ip a = None \<or> \<not> is_public_address a) as \<longleftrightarrow> \<not> list_all is_public_address as"
    for as using public_address_parses by (fastforce simp: list_ex_iff list_all_iff)
  show ?thesis
    using assms None
    unfolding validate_request_constraints_def Let_def addr saturating_sub_window
    by (auto simp: admitted_def not_le not_less split: if_splits)
qed

lemma valid_pilot_policy:
  assumes "validate_pilot ts sha ser p = Inr ()"
  shows "opo_max_concurrency (wp_policy p) = 1" and "opo_max_requests (wp_policy p) \<le> 20"
    and "opo_requests_per_minute (wp_policy p) \<le> 5"
    and "opo_allowed_methods (wp_policy p) = [Get, Head, Options]"
    and "pt_scheme (wp_target p) = Https" and "pt_port (wp_target p) = 443"
proof -
  have "validate_draft ts sha (draft_of p) = Inr ()" using assms by (simp add: validate_pilot_def ok_iff)
  then have "validate_pilot_policy (wp_policy p) = Inr ()" and
      "pt_scheme (wp_target p) = Https" "pt_port (wp_target p) = 443"
    by (auto simp: validate_draft_def ok_iff Let_def draft_of_def)
  then show "opo_max_concurrency (wp_policy p) = 1" and "opo_max_requests (wp_policy p) \<le> 20"
    and "opo_requests_per_minute (wp_policy p) \<le> 5"
    and "opo_allowed_methods (wp_policy p) = [Get, Head, Options]"
    and "pt_scheme (wp_target p) = Https" and "pt_port (wp_target p) = 443"
    by (simp_all add: validate_pilot_policy_def ok_iff not_less)
qed

lemma guard_inv:
  assumes p: "validate_pilot ts sha ser p = Inr ()" and inv: "session_inv p s"
    and step: "validate_request_constraints p r now s = (s', answer)"
  shows "session_inv p s'"
  using guard_outcome [OF step]
proof (elim disjE conjE exE)
  assume ok: "admitted p r now s"
    and s': "s' = s\<lparr>os_requests_started := saturating_add_word (os_requests_started s) 1,
                   os_request_timestamps_unix := os_request_timestamps_unix s @ [now]\<rparr>"
  have "os_requests_started s < opo_max_requests (wp_policy p)" using ok by (simp add: admitted_def)
  then have less: "unat (os_requests_started s) < unat (opo_max_requests (wp_policy p))"
    by (simp add: word_less_nat_alt)
  have "opo_max_requests (wp_policy p) \<le> 20" by (rule valid_pilot_policy [OF p])
  then have "unat (opo_max_requests (wp_policy p)) \<le> 20" by (simp add: word_le_nat_alt)
  with less have started: "unat (saturating_add_word (os_requests_started s) 1) = unat (os_requests_started s) + 1"
    by (subst saturating_add_word_1) simp_all
  have "saturating_sub_word (os_requests_started s) (os_requests_completed s) < 1"
    using ok valid_pilot_policy(1) [OF p] by (simp add: admitted_def)
  moreover have "os_requests_completed s \<le> os_requests_started s" using inv by (simp add: session_inv_def)
  ultimately have same: "os_requests_completed s = os_requests_started s"
    by (simp add: saturating_sub_word_def)
  have sorted: "sorted (os_request_timestamps_unix s @ [now])"
    using inv ok by (intro sorted_snoc_last) (simp_all add: session_inv_def admitted_def)
  have "length (window t (os_request_timestamps_unix s @ [now])) \<le> unat (opo_requests_per_minute (wp_policy p))"
    for t
    using ok inv by (intro window_snoc [OF sorted]) (simp_all add: admitted_def session_inv_def)
  then show ?thesis
    using inv sorted started less same
    by (simp add: session_inv_def s' word_le_nat_alt)
qed (use inv in \<open>simp_all add: session_inv_def\<close>)

lemma account_inv:
  assumes inv: "session_inv p s"
    and step: "record_observation_result ts sha ser p status bytes unexpected s = (s', answer)"
  shows "session_inv p s'"
proof (cases "os_requests_started s \<le> os_requests_completed s")
  case True
  then have "s' = s"
    using step
    by (auto simp: record_observation_result_def fail_if_def and_then_def split: sum.splits if_splits)
  with inv show ?thesis by simp
next
  case False
  let ?c = "saturating_add_word (os_requests_completed s) 1"
  have less: "unat (os_requests_completed s) < unat (os_requests_started s)"
    using False by (simp add: word_le_nat_alt)
  moreover have "unat (os_requests_started s) < 2 ^ 16"
    using unsigned_less [of "os_requests_started s", where 'a = nat] by simp
  ultimately have c: "unat ?c = unat (os_requests_completed s) + 1"
    by (subst saturating_add_word_1) simp_all
  have "session_inv p (s\<lparr>os_requests_completed := ?c\<rparr>)"
    using inv less c by (auto simp: session_inv_def word_le_nat_alt)
  moreover have "os_pilot_id s' = os_pilot_id s" "os_requests_started s' = os_requests_started s"
      "os_request_timestamps_unix s' = os_request_timestamps_unix s"
      "os_requests_completed s' = ?c \<or> s' = s"
    using step
    by (auto simp: record_observation_result_def Let_def split: sum.splits if_splits)
  ultimately show ?thesis using inv by (auto simp: session_inv_def)
qed

lemma session_step_inv:
  "validate_pilot ts sha ser p = Inr () \<Longrightarrow> session_inv p s \<Longrightarrow> session_step ts sha ser p s s' \<Longrightarrow>
     session_inv p s'"
  by (auto elim!: session_stepE intro: guard_inv account_inv)

text \<open>A session that has stopped stays stopped, and no request is admitted any more.\<close>

lemma account_stopped:
  "record_observation_result ts sha ser p status bytes unexpected s = (s', answer) \<Longrightarrow>
     os_stopped s \<noteq> None \<Longrightarrow> os_stopped s' \<noteq> None
   \<and> os_request_timestamps_unix s' = os_request_timestamps_unix s"
  by (auto simp: record_observation_result_def Let_def split: sum.splits if_splits)

lemma session_step_stopped:
  assumes "session_step ts sha ser p s s'" and "os_stopped s \<noteq> None"
  shows "os_stopped s' \<noteq> None
       \<and> os_request_timestamps_unix s' = os_request_timestamps_unix s"
  using assms(1)
proof cases
  case (guard r now answer)
  with assms(2) show ?thesis by (auto simp: validate_request_constraints_def)
next
  case (account status bytes unexpected answer)
  from account_stopped [OF this assms(2)] show ?thesis .
qed

lemma session_reachable_inv:
  assumes "validate_pilot ts sha ser p = Inr ()"
    and "(session_step ts sha ser p)\<^sup>*\<^sup>* s s'" and "session_inv p s"
  shows "session_inv p s'"
  using assms(2,3) by (induction rule: rtranclp_induct) (blast intro: session_step_inv [OF assms(1)])+

lemma session_reachable_stopped:
  assumes "(session_step ts sha ser p)\<^sup>*\<^sup>* s s'" and "os_stopped s \<noteq> None"
  shows "os_stopped s' \<noteq> None \<and> os_request_timestamps_unix s' = os_request_timestamps_unix s"
  using assms by (induction rule: rtranclp_induct) (auto dest: session_step_stopped)

lemma new_session_inv:
  "new_session ts sha ser p = Inr s \<Longrightarrow> session_inv p s \<and> validate_pilot ts sha ser p = Inr ()"
  by (auto simp: new_session_def ok_iff session_inv_def window_def)

section \<open>The shipped pilot\<close>

definition mitiquete_assertion :: string where
  "mitiquete_assertion = ''The requesting user states that they own and authorize bounded security observation of https://mitiqueteonline.com for the SecureFlow Web pilot.''"

definition mitiquete_policy :: observation_policy where
  "mitiquete_policy = \<lparr>opo_allowed_methods = [Get, Head, Options],
     opo_allowed_paths = [''/'', ''/.well-known/security.txt'', ''/robots.txt'', ''/sitemap.xml''],
     opo_max_requests = 12, opo_requests_per_minute = 3, opo_max_concurrency = 1,
     opo_max_redirects = 2, opo_timeout_milliseconds = 5000,
     opo_max_response_bytes = 1024 * 1024, opo_max_total_response_bytes = 4 * 1024 * 1024,
     opo_stop_after_consecutive_5xx = 2, opo_dns_revalidate_before_every_request = True,
     opo_redirect_revalidate_before_every_hop = True, opo_retain_response_body = False,
     opo_send_credentials = False, opo_use_proxy = False,
     opo_authentication_comparisons_enabled = False,
     opo_allowed_response_headers = [''access-control-allow-origin'', ''cache-control'',
       ''content-length'', ''content-type'', ''location'', ''vary'']\<rparr>"

definition mitiquete_draft :: "digest_fun \<Rightarrow> string \<Rightarrow> string \<Rightarrow> string \<Rightarrow> pilot_draft" where
  "mitiquete_draft sha reference issued_at expires_at = \<lparr>
     pd_authorization = \<lparr>oa_reference = reference, oa_owner_assertion = mitiquete_assertion,
       oa_assertion_sha256 = web_sha256_hex sha mitiquete_assertion,
       oa_evidence_kind = OwnerAssertion, oa_ownership_evidence_sha256 = None,
       oa_reviewer = ''pending-independent-ownership-review'', oa_issued_at = issued_at,
       oa_expires_at = expires_at\<rparr>,
     pd_target = \<lparr>pt_apex_host = ''mitiqueteonline.com'', pt_include_subdomains = False,
       pt_scheme = Https, pt_port = 443, pt_redirect_policy = SameHostOnly\<rparr>,
     pd_policy = mitiquete_policy,
     pd_prerequisites = \<lparr>pp_authorization_record_bound = True,
       pp_ownership_evidence_verified = False, pp_bounded_transport_implemented = False,
       pp_dns_revalidation_tested = True, pp_redirect_revalidation_tested = True,
       pp_redaction_tested = True, pp_staging_completed = False,
       pp_dedicated_test_accounts_available = False\<rparr>\<rparr>"

lemma mitiquete_policy_valid: "validate_pilot_policy mitiquete_policy = Inr ()"
proof -
  have paths: "list_all valid_observation_path
      [''/'', ''/.well-known/security.txt'', ''/robots.txt'', ''/sitemap.xml'']" by code_simp
  have headers: "list_all valid_header_name [''access-control-allow-origin'', ''cache-control'',
      ''content-length'', ''content-type'', ''location'', ''vary'']" by code_simp
  show ?thesis
    using paths headers by (simp add: validate_pilot_policy_def mitiquete_policy_def ok_iff)
qed

lemma mitiquete_host: "valid_host ''mitiqueteonline.com''"
  by code_simp

lemma mitiquete_assertion_text: "web_valid_text mitiquete_assertion 1000"
  by (simp add: web_valid_text_def mitiquete_assertion_def string_simps)

lemma mitiquete_draft_valid:
  "validate_draft ts sha (mitiquete_draft sha reference issued_at expires_at) = Inr u \<longleftrightarrow>
     web_valid_text reference 500
   \<and> (\<exists>i e. ts issued_at = Some i \<and> ts expires_at = Some e \<and> i < e)"
proof -
  have "web_valid_text ''pending-independent-ownership-review'' 300"
    by (simp add: web_valid_text_def string_simps)
  then show ?thesis
    using mitiquete_policy_valid mitiquete_host mitiquete_assertion_text
    by (auto simp: validate_draft_def mitiquete_draft_def ok_iff Let_def ownership_consistent_def
        BOUNDED_TRANSPORT_COMPILED_def)
qed

lemma mitiquete_pilot_draft_iff:
  "mitiquete_pilot_draft ts sha reference issued_at expires_at = Inr d \<longleftrightarrow>
     d = mitiquete_draft sha reference issued_at expires_at \<and> web_valid_text reference 500
   \<and> (\<exists>i e. ts issued_at = Some i \<and> ts expires_at = Some e \<and> i < e)"
proof -
  have "mitiquete_pilot_draft ts sha reference issued_at expires_at
      = and_then (validate_draft ts sha (mitiquete_draft sha reference issued_at expires_at))
          (\<lambda>_. Ok (mitiquete_draft sha reference issued_at expires_at))"
    by (simp add: mitiquete_pilot_draft_def mitiquete_draft_def mitiquete_assertion_def
        mitiquete_policy_def Let_def)
  then show ?thesis by (auto simp: ok_iff mitiquete_draft_valid)
qed

definition mitiquete_pilot ::
    "digest_fun \<Rightarrow> (web_observation_pilot \<Rightarrow> string) \<Rightarrow> string \<Rightarrow> string \<Rightarrow> string \<Rightarrow> string
     \<Rightarrow> web_observation_pilot" where
  "mitiquete_pilot sha ser reference issued_at expires_at created =
     (let d = mitiquete_draft sha reference issued_at expires_at;
          p = \<lparr>wp_contract_version = OBSERVATION_PILOT_VERSION, wp_pilot_id = [],
               wp_created_at = created, wp_authorization = pd_authorization d,
               wp_target = pd_target d, wp_policy = pd_policy d,
               wp_prerequisites = pd_prerequisites d, wp_readiness = PilotStateBlocked,
               wp_blockers = [OwnershipEvidenceUnverified, BoundedTransportMissing, StagingNotCompleted],
               wp_claims = \<lparr>pc_authorization_acknowledged = True, pc_network_executed = False,
                 pc_production_execution_allowed = False,
                 pc_vulnerability_validation_allowed = False,
                 pc_production_safety_claim_allowed = False\<rparr>\<rparr>
      in p\<lparr>wp_pilot_id := expected_pilot_id sha ser p\<rparr>)"

lemma mitiquete_blockers:
  "blockers_for (pd_prerequisites (mitiquete_draft sha reference i e))
     (pd_policy (mitiquete_draft sha reference i e))
   = [OwnershipEvidenceUnverified, BoundedTransportMissing, StagingNotCompleted]"
  by (simp add: blockers_for_def mitiquete_draft_def mitiquete_policy_def BOUNDED_TRANSPORT_COMPILED_def)

lemma expected_pilot_id_again [simp]:
  "expected_pilot_id sha ser (p\<lparr>wp_pilot_id := x\<rparr>) = expected_pilot_id sha ser p"
  by (simp add: expected_pilot_id_def)

lemma mitiquete_pilot_valid:
  assumes sha: "digest_length sha" and "web_valid_text reference 500"
    and "ts issued_at = Some i" "ts expires_at = Some e" "ts created = Some c" "i \<le> c" "c < e"
  shows "validate_pilot ts sha ser (mitiquete_pilot sha ser reference issued_at expires_at created) = Inr ()"
proof -
  let ?d = "mitiquete_draft sha reference issued_at expires_at"
  let ?p = "mitiquete_pilot sha ser reference issued_at expires_at created"
  have fields: "wp_authorization ?p = pd_authorization ?d" "wp_target ?p = pd_target ?d"
      "wp_policy ?p = pd_policy ?d" "wp_prerequisites ?p = pd_prerequisites ?d"
      "wp_created_at ?p = created" "wp_readiness ?p = PilotStateBlocked"
      "wp_blockers ?p = [OwnershipEvidenceUnverified, BoundedTransportMissing, StagingNotCompleted]"
      "wp_contract_version ?p = OBSERVATION_PILOT_VERSION"
      "wp_claims ?p = \<lparr>pc_authorization_acknowledged = True, pc_network_executed = False,
                 pc_production_execution_allowed = False,
                 pc_vulnerability_validation_allowed = False,
                 pc_production_safety_claim_allowed = False\<rparr>"
    by (simp_all add: mitiquete_pilot_def Let_def)
  have id: "wp_pilot_id ?p = expected_pilot_id sha ser ?p"
    by (simp add: mitiquete_pilot_def Let_def expected_pilot_id_def)
  have hash: "pilot_prefixed_hash (expected_pilot_id sha ser ?p) ''sf_web_pilot_''"
    using web_digest_prefixed [OF sha, of "''sf_web_pilot_''"]
    by (simp only: pilot_prefixed_hash_def expected_pilot_id_def web_prefixed_hash_def)
  have "draft_of ?p = ?d" by (simp add: draft_of_def fields)
  moreover have "validate_draft ts sha ?d = Inr ()"
    using assms by (auto simp: mitiquete_draft_valid)
  moreover have "validate_authorization_window ts (pd_authorization ?d) c = Inr ()"
    using assms by (simp add: validate_authorization_window_def mitiquete_draft_def ok_iff not_less)
  ultimately show ?thesis
    using assms(5) hash id
    by (simp add: validate_pilot_def fields mitiquete_blockers Let_def fail_if_def)
qed

section \<open>Properties\<close>

text \<open>
  No request is ever authorized: as no transport is compiled in, a valid pilot is blocked,
  and whatever pilot, session, request and time are given, the authorization is refused and
  leaves the session as it was.
\<close>

theorem pilot_never_authorizes:
  "\<exists>e. authorize_observation_request ts unix sha ser p r now s = (s, Err e)"
proof -
  have "\<not> (validate_pilot ts sha ser p = Inr () \<and> wp_readiness p = PilotStateReady)"
    using valid_pilot_blocked(1) by auto
  then show ?thesis
    by (auto simp: authorize_observation_request_def and_then_def ok_or_def fail_if_def
        split: sum.splits option.splits)
qed

text \<open>
  C25. The guard, for the day a transport exists: in every session of a valid pilot, after any
  requests and responses, failing ones included, the requests that were started are at most as many
  as the policy allows and never more than twenty, at most one of them is open, their times are in
  order, and no window of sixty seconds holds more than the rate of the policy, never over five.
\<close>

theorem session_bounds:
  assumes "new_session ts sha ser p = Ok s0" and "(session_step ts sha ser p)\<^sup>*\<^sup>* s0 s"
  shows "os_requests_started s \<le> opo_max_requests (wp_policy p) \<and> opo_max_requests (wp_policy p) \<le> 20
    \<and> unat (os_requests_started s) \<le> unat (os_requests_completed s) + 1
    \<and> length (os_request_timestamps_unix s) = unat (os_requests_started s)
    \<and> sorted (os_request_timestamps_unix s)
    \<and> (\<forall>t. length (window t (os_request_timestamps_unix s)) \<le> unat (opo_requests_per_minute (wp_policy p)))
    \<and> opo_requests_per_minute (wp_policy p) \<le> 5"
proof -
  have p: "validate_pilot ts sha ser p = Inr ()" and s0: "session_inv p s0"
    using new_session_inv [OF assms(1)] by simp_all
  have inv: "session_inv p s" by (rule session_reachable_inv [OF p assms(2) s0])
  with valid_pilot_policy(2,3) [OF p] show ?thesis by (simp add: session_inv_def)
qed

text \<open>
  C24. What the guard admits: only read-only methods over HTTPS to the one host, on an allowed
  path, while the session has not stopped, and only when the name resolved to addresses that all
  read as addresses outside the reserved blocks listed in \<open>reserved_v4\<close> and \<open>global_v6\<close> (which
  count \<open>2002::/16\<close> as global, whatever it embeds); and once a session has stopped, it never
  admits a request again.
\<close>

theorem admitted_requests_scoped:
  assumes "validate_pilot ts sha ser p = Ok ()"
  shows "(snd (validate_request_constraints p r now s) = Ok () \<longrightarrow>
            os_stopped s = None \<and> gr_method r \<in> {Get, Head, Options} \<and> gr_scheme r = Https
          \<and> gr_port r = 443 \<and> gr_host r = pt_apex_host (wp_target p)
          \<and> gr_path r \<in> set (opo_allowed_paths (wp_policy p))
          \<and> gr_resolved_addresses r \<noteq> [] \<and> list_all global_address (gr_resolved_addresses r))
    \<and> (os_stopped s \<noteq> None \<longrightarrow> (session_step ts sha ser p)\<^sup>*\<^sup>* s s' \<longrightarrow>
          snd (validate_request_constraints p r now s') \<noteq> Ok ()
        \<and> os_request_timestamps_unix s' = os_request_timestamps_unix s)"
proof (rule conjI; intro impI)
  assume "snd (validate_request_constraints p r now s) = Ok ()"
  then have "admitted p r now s"
    using guard_outcome [of p r now s] by (cases "validate_request_constraints p r now s") auto
  then show "os_stopped s = None \<and> gr_method r \<in> {Get, Head, Options} \<and> gr_scheme r = Https
          \<and> gr_port r = 443 \<and> gr_host r = pt_apex_host (wp_target p)
          \<and> gr_path r \<in> set (opo_allowed_paths (wp_policy p))
          \<and> gr_resolved_addresses r \<noteq> [] \<and> list_all global_address (gr_resolved_addresses r)"
    using valid_pilot_policy [OF assms] public_address_global by (auto simp: admitted_def list_all_iff)
next
  assume "os_stopped s \<noteq> None" and "(session_step ts sha ser p)\<^sup>*\<^sup>* s s'"
  note kept = session_reachable_stopped [OF this(2,1)]
  then show "snd (validate_request_constraints p r now s') \<noteq> Ok ()
      \<and> os_request_timestamps_unix s' = os_request_timestamps_unix s"
    by (auto simp: validate_request_constraints_def)
qed

definition empty_pilot_json :: "web_observation_pilot \<Rightarrow> string" where
  "empty_pilot_json p = ''{}''"

definition sample_pilot :: web_observation_pilot where
  "sample_pilot = mitiquete_pilot zero_sha empty_pilot_json ''r'' T0 T1 T0"

lemma sample_pilot_valid: "validate_pilot sample_ts zero_sha empty_pilot_json sample_pilot = Ok ()"
  unfolding sample_pilot_def
  by (rule mitiquete_pilot_valid [where i = 0 and e = 86400 and c = 0])
     (simp_all add: web_valid_text_def string_simps)

definition sample_session :: observation_session where
  "sample_session = \<lparr>os_pilot_id = wp_pilot_id sample_pilot, os_requests_started = 0,
     os_requests_completed = 0, os_total_response_bytes = 0, os_consecutive_5xx = 0,
     os_request_timestamps_unix = [], os_stopped = None\<rparr>"

definition sample_guarded :: guarded_observation_request where
  "sample_guarded = \<lparr>gr_method = Get, gr_scheme = Https, gr_host = ''mitiqueteonline.com'',
     gr_port = 443, gr_path = ''/'', gr_redirect_hop = 0, gr_resolved_addresses = [''8.8.8.8'']\<rparr>"

lemma sample_guarded_admitted:
  "validate_request_constraints sample_pilot sample_guarded 7 sample_session
     = (sample_session\<lparr>os_requests_started := 1, os_request_timestamps_unix := [7]\<rparr>, Ok ())"
proof -
  have "parse_ip ''8.8.8.8'' \<noteq> None" "is_public_address ''8.8.8.8''" "valid_observation_path ''/''"
    by code_simp+
  then show ?thesis
    by (simp add: validate_request_constraints_def Let_def sample_guarded_def sample_session_def
        sample_pilot_def mitiquete_pilot_def mitiquete_draft_def mitiquete_policy_def
        saturating_sub_word_def saturating_add_word_def)
qed

theorem session_bounds_witness:
  "\<exists>s. (session_step sample_ts zero_sha empty_pilot_json sample_pilot)\<^sup>*\<^sup>* sample_session s
     \<and> unat (os_requests_started s) = 1
     \<and> length (window 0 (os_request_timestamps_unix s)) \<le> unat (opo_requests_per_minute (wp_policy sample_pilot))"
proof -
  let ?s = "sample_session\<lparr>os_requests_started := 1, os_request_timestamps_unix := [7]\<rparr>"
  have new: "new_session sample_ts zero_sha empty_pilot_json sample_pilot = Ok sample_session"
    using sample_pilot_valid by (simp add: new_session_def sample_session_def)
  have step: "(session_step sample_ts zero_sha empty_pilot_json sample_pilot)\<^sup>*\<^sup>* sample_session ?s"
    by (rule r_into_rtranclp) (rule session_step.guard [OF sample_guarded_admitted])
  from session_bounds [OF new step] step show ?thesis by (intro exI [of _ ?s]) simp
qed

theorem admitted_requests_scoped_witness:
  "gr_port sample_guarded = 443 \<and> list_all global_address (gr_resolved_addresses sample_guarded)"
  using admitted_requests_scoped [OF sample_pilot_valid, of sample_guarded 7 sample_session]
  by (simp add: sample_guarded_admitted)

text \<open>
  The host check of the pilot and the DNS name check of the scope, written differently in
  two files, accept the same names.
\<close>

theorem host_checks_agree: "valid_host v = valid_dns_name v"
proof -
  have "to_ascii_lowercase v = v" "\<not> list_ex is_upper v" "\<not> starts_with ''.'' v"
    if "list_all valid_label (split_by (\<lambda>c. c = CHR ''.'') v)"
    using labels_no_upper [OF that] to_ascii_lowercase_id leading_dot_label [OF that] by auto
  then show ?thesis by (auto simp: valid_host_def valid_dns_name_def)
qed

text \<open>
  What is kept of a response: every retained header has an allowed lower-case name, never a
  cookie or credentials, its value has no line break, the address of a redirect is only kept as a
  digest, and the body only as its digest and length.
\<close>

theorem retained_metadata_sanitized:
  assumes "sanitize_response_metadata sha status headers body allowed_headers = Ok e"
  shows "(\<forall>h \<in> set (oe_headers e).
            oh_name h \<in> set (map to_ascii_lowercase allowed_headers)
          \<and> oh_name h \<noteq> ''set-cookie'' \<and> oh_name h \<noteq> ''authorization''
          \<and> (if oh_name h = ''location''
             then oh_value h = ''<redacted-location>''
                \<or> (\<exists>v. oh_value h = ''sha256:'' @ web_sha256_hex sha v)
             else oh_value h = ''<redacted>''
                \<or> (CHR 0x0A \<notin> set (oh_value h) \<and> CHR 0x0D \<notin> set (oh_value h)
                   \<and> CHR 0x40 \<notin> set (oh_value h) \<and> length (oh_value h) \<le> 500
                   \<and> \<not> contains_str ''token'' (to_ascii_lowercase (oh_value h)))))
    \<and> oe_body_sha256 e = web_sha256_hex sha body \<and> \<not> oe_body_retained e"
proof -
  let ?allowed = "set (map to_ascii_lowercase allowed_headers)"
  have header_value: "sanitize_header_value v = ''<redacted>''
      \<or> (CHR 0x0A \<notin> set (sanitize_header_value v) \<and> CHR 0x0D \<notin> set (sanitize_header_value v)
         \<and> CHR 0x40 \<notin> set (sanitize_header_value v) \<and> length (sanitize_header_value v) \<le> 500
         \<and> \<not> contains_str ''token'' (to_ascii_lowercase (sanitize_header_value v)))" for v
    by (auto simp: sanitize_header_value_def Let_def list_ex_iff)
  have location_value: "sanitize_location sha v = ''<redacted-location>''
      \<or> (\<exists>w. sanitize_location sha v = ''sha256:'' @ web_sha256_hex sha w)" for v
    by (auto simp: sanitize_location_def Let_def)
  have kept: "oh_name h \<in> ?allowed \<and> oh_name h \<noteq> ''set-cookie'' \<and> oh_name h \<noteq> ''authorization''
      \<and> (\<exists>v. oh_value h = (if oh_name h = ''location'' then sanitize_location sha v
                          else sanitize_header_value v))"
    if "h \<in> set (retained_headers sha ?allowed hs)" for h hs
    using that
    by (induction hs rule: retained_headers.induct [where ?a0.0 = sha and ?a1.0 = ?allowed, case_names Nil Cons])
       (auto simp: Let_def split: if_splits)
  have "set (oe_headers e) = set (retained_headers sha ?allowed headers)"
      and "oe_body_sha256 e = web_sha256_hex sha body \<and> \<not> oe_body_retained e"
    using assms by (auto simp: sanitize_response_metadata_def ok_iff Let_def)
  note result = this
  have "oh_name h \<in> ?allowed \<and> oh_name h \<noteq> ''set-cookie'' \<and> oh_name h \<noteq> ''authorization''
          \<and> (if oh_name h = ''location''
             then oh_value h = ''<redacted-location>''
                \<or> (\<exists>v. oh_value h = ''sha256:'' @ web_sha256_hex sha v)
             else oh_value h = ''<redacted>''
                \<or> (CHR 0x0A \<notin> set (oh_value h) \<and> CHR 0x0D \<notin> set (oh_value h)
                   \<and> CHR 0x40 \<notin> set (oh_value h) \<and> length (oh_value h) \<le> 500
                   \<and> \<not> contains_str ''token'' (to_ascii_lowercase (oh_value h))))"
    if h: "h \<in> set (oe_headers e)" for h
  proof -
    have h': "h \<in> set (retained_headers sha ?allowed headers)" using h result by simp
    obtain v where v: "oh_value h = (if oh_name h = ''location'' then sanitize_location sha v
        else sanitize_header_value v)" using kept [OF h'] by blast
    show ?thesis
    proof (cases "oh_name h = ''location''")
      case True
      with v have "oh_value h = sanitize_location sha v" by simp
      with kept [OF h'] location_value [of v] True show ?thesis by simp
    next
      case False
      with v have "oh_value h = sanitize_header_value v" by simp
      with kept [OF h'] header_value [of v] False show ?thesis by simp
    qed
  qed
  with result show ?thesis by blast
qed

theorem retained_metadata_sanitized_witness:
  "\<exists>e. sanitize_response_metadata zero_sha 200 [(''Vary'', ''x'')] [] [''vary''] = Ok e
     \<and> oe_headers e = [\<lparr>oh_name = ''vary'', oh_value = ''x''\<rparr>] \<and> \<not> oe_body_retained e"
proof -
  have "retained_headers zero_sha {''vary''} [(''Vary'', ''x'')] = [\<lparr>oh_name = ''vary'', oh_value = ''x''\<rparr>]"
    by code_simp
  moreover have "to_ascii_lowercase ''vary'' = ''vary''" by code_simp
  ultimately obtain e where e: "sanitize_response_metadata zero_sha 200 [(''Vary'', ''x'')] [] [''vary''] = Ok e"
      and "oe_headers e = [\<lparr>oh_name = ''vary'', oh_value = ''x''\<rparr>]"
    by (simp add: sanitize_response_metadata_def fail_if_def Let_def)
  with retained_metadata_sanitized [OF e] show ?thesis by blast
qed

text \<open>
  An address whose first group is \<open>2002\<close> carries an IPv4 address: here the loopback one, which
  is not public when it is written as an IPv4 or a mapped address.
\<close>

lemma embedded_loopback_public:
  "is_public_v6 [8194, 32512, 1, 0, 0, 0, 0, 0] \<and> \<not> is_public_v4 127 0 0 1
 \<and> \<not> is_public_v6 [0, 0, 0, 0, 0, 65535, 32512, 1]"
  by (simp add: is_public_v6_def is_public_v4_def to_ipv4_mapped_def masked_def)

end
