(* ===== verification/KnowledgeLedger.thy ===== *)
theory KnowledgeLedger
  imports Samples Json MachineInts
begin

text \<open>
  \<open>crates/secureflow-knowledge/src/lib.rs\<close>: the append-only ledger of human-reviewed findings.
  A ledger is a JSON Lines file. The fields that both record versions share, in the order of
  \<open>validate_common_record\<close> and with severity and confidence, are one record that the two
  versions extend. Reading and writing of JSON is a parameter (a \<open>ledger_codec\<close>), and so are the
  outcomes of the file system calls (a \<open>ledger_io\<close>); the ledger file and the temporary files
  next to it are the state.
\<close>

section \<open>Data\<close>

definition RECORD_VERSION_V1 :: string where
  "RECORD_VERSION_V1 = ''secureflow-knowledge-record-v1''"

definition RECORD_VERSION :: string where
  "RECORD_VERSION = ''secureflow-knowledge-record-v2''"

definition MAX_LEDGER_BYTES :: nat where
  "MAX_LEDGER_BYTES = 128 * 1024 * 1024"

datatype source_license_status = SpdxDeclared | PrivateOrUndisclosed | LicenseUnknown

record source_license =
  sl_status :: source_license_status
  sl_spdx_expression :: "string option"
  sl_evidence_sha256 :: "string option"
  sl_assertion :: string

record knowledge_fields =
  kr_record_id :: string
  kr_manifest_sha256 :: string
  kr_manifest_created_at :: string
  kr_target_sha256 :: string
  kr_engine_name :: string
  kr_engine_version :: string
  kr_engine_binary_sha256 :: string
  kr_finding_id :: string
  kr_engine_fingerprint :: "string option"
  kr_title :: string
  kr_rule_id :: string
  kr_taxonomy :: "taxonomy_coordinates option"
  kr_severity :: "severity option"
  kr_confidence :: confidence
  kr_source_location :: location
  kr_sink_location :: location
  kr_invariant :: string
  kr_evidence_path :: "evidence_step list"
  kr_decision :: human_decision
  kr_reviewer :: string
  kr_reviewed_at :: string
  kr_rationale_sha256 :: string
  kr_evidence_reference_sha256 :: "string option"

record knowledge_record_v1 = knowledge_fields +
  k1_record_version :: string

record knowledge_record_v2 = knowledge_fields +
  k2_record_version :: string
  k2_observation_fingerprint :: string
  k2_duplicate_of_record_id :: "string option"
  k2_target_revision :: "revision option"
  k2_source_license :: source_license

datatype knowledge_record = RecordV1 knowledge_record_v1 | RecordV2 knowledge_record_v2

fun record_version :: "knowledge_record \<Rightarrow> string" where
  "record_version (RecordV1 r) = k1_record_version r"
| "record_version (RecordV2 r) = k2_record_version r"

fun kb_record_id :: "knowledge_record \<Rightarrow> string" where
  "kb_record_id (RecordV1 r) = kr_record_id r"
| "kb_record_id (RecordV2 r) = kr_record_id r"

fun kb_decision :: "knowledge_record \<Rightarrow> human_decision" where
  "kb_decision (RecordV1 r) = kr_decision r"
| "kb_decision (RecordV2 r) = kr_decision r"

fun kb_rule_id :: "knowledge_record \<Rightarrow> string" where
  "kb_rule_id (RecordV1 r) = kr_rule_id r"
| "kb_rule_id (RecordV2 r) = kr_rule_id r"

fun kb_severity :: "knowledge_record \<Rightarrow> severity option" where
  "kb_severity (RecordV1 r) = kr_severity r"
| "kb_severity (RecordV2 r) = kr_severity r"

fun kb_confidence :: "knowledge_record \<Rightarrow> confidence" where
  "kb_confidence (RecordV1 r) = kr_confidence r"
| "kb_confidence (RecordV2 r) = kr_confidence r"

fun kb_source_location :: "knowledge_record \<Rightarrow> location" where
  "kb_source_location (RecordV1 r) = kr_source_location r"
| "kb_source_location (RecordV2 r) = kr_source_location r"

fun kb_finding_id :: "knowledge_record \<Rightarrow> string" where
  "kb_finding_id (RecordV1 r) = kr_finding_id r"
| "kb_finding_id (RecordV2 r) = kr_finding_id r"

fun kb_title :: "knowledge_record \<Rightarrow> string" where
  "kb_title (RecordV1 r) = kr_title r"
| "kb_title (RecordV2 r) = kr_title r"

fun kb_duplicate_of :: "knowledge_record \<Rightarrow> string option" where
  "kb_duplicate_of (RecordV1 r) = None"
| "kb_duplicate_of (RecordV2 r) = k2_duplicate_of_record_id r"

record import_result =
  im_manifest_sha256 :: string
  im_records_added :: nat
  im_records_skipped :: nat
  im_duplicates_linked :: nat

datatype knowledge_error =
  KbRead
| KbWrite
| InvalidRecord nat
| UnsupportedVersion string
| InvalidRecordField string
| PendingFinding string
| NoReviewedFindings
| DuplicateRecordId string
| InvalidDuplicateLink string
| LedgerTooLarge nat nat
| KbSerialize
| KbManifest model_error

section \<open>Field checks\<close>

definition valid_prefixed_id :: "string \<Rightarrow> string \<Rightarrow> bool" where
  "valid_prefixed_id value pfx =
     (case strip_prefix pfx value of
        None \<Rightarrow> False
      | Some sfx \<Rightarrow> length sfx = 64 \<and> list_all is_lower_hex sfx)"

definition kb_valid_identifier :: "string \<Rightarrow> string \<Rightarrow> nat \<Rightarrow> nat \<Rightarrow> bool" where
  "kb_valid_identifier value pfx min_suffix max_suffix =
     (case strip_prefix pfx value of
        None \<Rightarrow> False
      | Some sfx \<Rightarrow>
          min_suffix \<le> length sfx \<and> length sfx \<le> max_suffix
          \<and> list_all (\<lambda>c. is_alnum c \<or> c \<in> {CHR ''_'', CHR ''-''}) sfx)"

definition kb_valid_sha256 :: "string \<Rightarrow> bool" where
  "kb_valid_sha256 value \<longleftrightarrow> length value = 64 \<and> list_all is_lower_hex value"

definition kb_validate_timestamp :: "ts_parser \<Rightarrow> string \<Rightarrow> string \<Rightarrow> knowledge_error + unit" where
  "kb_validate_timestamp ts value field = fail_if (ts value = None) (InvalidRecordField field)"

definition validate_bounded :: "string \<Rightarrow> string \<Rightarrow> nat \<Rightarrow> knowledge_error + unit" where
  "validate_bounded value field max_chars =
     fail_if (trim_is_empty value \<or> max_chars < chars_count value) (InvalidRecordField field)"

definition validate_optional_bounded ::
    "string option \<Rightarrow> string \<Rightarrow> nat \<Rightarrow> knowledge_error + unit" where
  "validate_optional_bounded value field max_chars =
     check_opt (\<lambda>v. validate_bounded v field max_chars) value"

definition kb_validate_location :: "location \<Rightarrow> string \<Rightarrow> knowledge_error + unit" where
  "kb_validate_location l field = checks [
     fail_if (loc_path l = [] \<or> is_absolute (loc_path l) \<or> CHR 0x5C \<in> set (loc_path l)
              \<or> has_control (loc_path l) \<or> has_parent_dir (loc_path l)
              \<or> loc_start_line l = 0 \<or> loc_start_column l = 0
              \<or> loc_end_line l = Some 0 \<or> loc_end_column l = Some 0) (InvalidRecordField field),
     fail_if (case loc_end_line l of
                None \<Rightarrow> False
              | Some end_line \<Rightarrow>
                  end_line < loc_start_line l
                  \<or> (end_line = loc_start_line l
                     \<and> (case loc_end_column l of
                          None \<Rightarrow> False | Some column \<Rightarrow> column < loc_start_column l)))
             (InvalidRecordField field)]"

definition validate_source_license :: "source_license \<Rightarrow> knowledge_error + unit" where
  "validate_source_license v = checks [
     fail_if (sl_assertion v \<noteq> ''operator-declared'')
       (InvalidRecordField ''source_license.assertion''),
     check_opt (\<lambda>s. fail_if (\<not> kb_valid_sha256 s)
       (InvalidRecordField ''source_license.evidence_sha256'')) (sl_evidence_sha256 v),
     (case sl_status v of
        SpdxDeclared \<Rightarrow>
          and_then (ok_or (sl_spdx_expression v)
            (InvalidRecordField ''source_license.spdx_expression'')) (\<lambda>expression. checks [
              validate_bounded expression ''source_license.spdx_expression'' 200,
              fail_if (sl_evidence_sha256 v = None)
                (InvalidRecordField ''source_license.evidence_sha256'')])
      | _ \<Rightarrow> fail_if (sl_spdx_expression v \<noteq> None)
               (InvalidRecordField ''source_license.spdx_expression''))]"

definition operator_declared ::
    "source_license_status \<Rightarrow> string option \<Rightarrow> string option \<Rightarrow> knowledge_error + source_license" where
  "operator_declared status spdx_expression evidence_sha256 =
     (let v = \<lparr>sl_status = status, sl_spdx_expression = spdx_expression,
               sl_evidence_sha256 = evidence_sha256, sl_assertion = ''operator-declared''\<rparr>
      in and_then (validate_source_license v) (\<lambda>_. Ok v))"

section \<open>Validation of records\<close>

definition validate_kb_sha :: "string \<times> string \<Rightarrow> knowledge_error + unit" where
  "validate_kb_sha p = fail_if (\<not> kb_valid_sha256 (fst p)) (InvalidRecordField (snd p))"

definition validate_kb_taxonomy :: "taxonomy_coordinates \<Rightarrow> knowledge_error + unit" where
  "validate_kb_taxonomy t = checks [
     validate_bounded (tx_version t) ''taxonomy.version'' 50,
     validate_bounded (tx_category_id t) ''taxonomy.category_id'' 100,
     validate_bounded (tx_invariant_id t) ''taxonomy.invariant_id'' 100]"

definition validate_kb_step :: "evidence_step \<Rightarrow> knowledge_error + unit" where
  "validate_kb_step s = checks [
     kb_validate_location (es_location s) ''evidence_path.location'',
     validate_bounded (es_description s) ''evidence_path.description'' 1000]"

definition validate_common_record ::
    "ts_parser \<Rightarrow> 'a knowledge_fields_scheme \<Rightarrow> knowledge_error + unit" where
  "validate_common_record ts r = checks [
     fail_if (\<not> valid_prefixed_id (kr_record_id r) ''sf_kb_'') (InvalidRecordField ''record_id''),
     fail_if (\<not> kb_valid_identifier (kr_finding_id r) ''sf_finding_'' 16 100)
       (InvalidRecordField ''finding_id''),
     each validate_kb_sha [
       (kr_manifest_sha256 r, ''manifest_sha256''), (kr_target_sha256 r, ''target_sha256''),
       (kr_engine_binary_sha256 r, ''engine_binary_sha256''),
       (kr_rationale_sha256 r, ''rationale_sha256'')],
     check_opt (\<lambda>s. fail_if (\<not> kb_valid_sha256 s) (InvalidRecordField ''evidence_reference_sha256''))
       (kr_evidence_reference_sha256 r),
     fail_if (kr_decision r = DecisionPending) (InvalidRecordField ''decision''),
     kb_validate_timestamp ts (kr_manifest_created_at r) ''manifest_created_at'',
     kb_validate_timestamp ts (kr_reviewed_at r) ''reviewed_at'',
     validate_bounded (kr_engine_name r) ''engine_name'' 100,
     validate_bounded (kr_engine_version r) ''engine_version'' 100,
     validate_optional_bounded (kr_engine_fingerprint r) ''engine_fingerprint'' 200,
     validate_bounded (kr_title r) ''title'' 300,
     validate_bounded (kr_rule_id r) ''rule_id'' 100,
     validate_bounded (kr_invariant r) ''invariant'' 1000,
     validate_bounded (kr_reviewer r) ''reviewer'' 200,
     check_opt validate_kb_taxonomy (kr_taxonomy r),
     kb_validate_location (kr_source_location r) ''source_location'',
     kb_validate_location (kr_sink_location r) ''sink_location'',
     fail_if (kr_evidence_path r = []) (InvalidRecordField ''evidence_path''),
     each validate_kb_step (kr_evidence_path r)]"

definition validate_record_v1 :: "ts_parser \<Rightarrow> knowledge_record_v1 \<Rightarrow> knowledge_error + unit" where
  "validate_record_v1 ts r = checks [
     fail_if (k1_record_version r \<noteq> RECORD_VERSION_V1) (UnsupportedVersion (k1_record_version r)),
     validate_common_record ts r]"

definition validate_record_v2 :: "ts_parser \<Rightarrow> knowledge_record_v2 \<Rightarrow> knowledge_error + unit" where
  "validate_record_v2 ts r = checks [
     fail_if (k2_record_version r \<noteq> RECORD_VERSION) (UnsupportedVersion (k2_record_version r)),
     fail_if (\<not> valid_prefixed_id (k2_observation_fingerprint r) ''sf_obs_'')
       (InvalidRecordField ''observation_fingerprint''),
     check_opt (\<lambda>link. fail_if (\<not> valid_prefixed_id link ''sf_kb_'' \<or> link = kr_record_id r)
       (InvalidRecordField ''duplicate_of_record_id'')) (k2_duplicate_of_record_id r),
     check_opt (\<lambda>v. validate_bounded (rev_value v) ''target_revision.value'' 200)
       (k2_target_revision r),
     validate_source_license (k2_source_license r),
     validate_common_record ts r]"

fun validate_record :: "ts_parser \<Rightarrow> knowledge_record \<Rightarrow> knowledge_error + unit" where
  "validate_record ts (RecordV1 r) = validate_record_v1 ts r"
| "validate_record ts (RecordV2 r) = validate_record_v2 ts r"

section \<open>Identifiers and fingerprints\<close>

text \<open>\<open>hex_digest\<close>, with \<open>format!("{byte:02x}")\<close> for every byte.\<close>

definition hex_digest :: "string \<Rightarrow> string" where
  "hex_digest digest = encode_hex digest"

definition sha256_bytes :: "digest_fun \<Rightarrow> string \<Rightarrow> string" where
  "sha256_bytes sha bytes = hex_digest (sha bytes)"

fun kb_decision_label :: "human_decision \<Rightarrow> string" where
  "kb_decision_label DecisionPending = ''pending''"
| "kb_decision_label DecisionValidated = ''validated''"
| "kb_decision_label DecisionRejected = ''rejected''"
| "kb_decision_label DecisionAbstained = ''abstained''"

fun evidence_kind_label :: "evidence_kind \<Rightarrow> string" where
  "evidence_kind_label EvSource = ''source''"
| "evidence_kind_label EvReceiver = ''receiver''"
| "evidence_kind_label EvTransform = ''transform''"
| "evidence_kind_label EvGuard = ''guard''"
| "evidence_kind_label EvSanitizer = ''sanitizer''"
| "evidence_kind_label EvAuthorization = ''authorization''"
| "evidence_kind_label EvSink = ''sink''"
| "evidence_kind_label EvBarrier = ''barrier''"
| "evidence_kind_label EvUnknown = ''unknown''"

definition record_id :: "digest_fun \<Rightarrow> string \<Rightarrow> string \<Rightarrow> human_decision \<Rightarrow> string" where
  "record_id sha manifest_sha256 finding_id decision =
     ''sf_kb_'' @ sha256_bytes sha
       (manifest_sha256 @ ''|'' @ finding_id @ ''|'' @ kb_decision_label decision)"

text \<open>
  A hasher is the bytes that were passed to \<open>update\<close>.
\<close>

definition hash_field :: "string \<Rightarrow> string \<Rightarrow> string" where
  "hash_field hasher value = (hasher @ to_be_bytes (of_nat (length value))) @ value"

definition hash_location :: "string \<Rightarrow> location \<Rightarrow> string" where
  "hash_location hasher0 l =
     (let hasher1 = hash_field hasher0 (loc_path l);
          hasher2 = hash_field hasher1 (show_word (loc_start_line l));
          hasher3 = hash_field hasher2 (show_word (loc_start_column l));
          hasher4 = hash_field hasher3 (show_word (case loc_end_line l of None \<Rightarrow> 0 | Some v \<Rightarrow> v))
      in hash_field hasher4 (show_word (case loc_end_column l of None \<Rightarrow> 0 | Some v \<Rightarrow> v)))"

definition hash_step :: "string \<Rightarrow> evidence_step \<Rightarrow> string" where
  "hash_step hasher step =
     hash_field (hash_location (hash_field hasher (evidence_kind_label (es_kind step)))
       (es_location step)) (es_description step)"

definition observation_fingerprint :: "digest_fun \<Rightarrow> run_manifest \<Rightarrow> finding \<Rightarrow> string" where
  "observation_fingerprint sha m f =
     (let h0 = hash_field [] ''secureflow-observation-v1'';
          h1 = hash_field h0 (tg_root_sha256 (rm_target m));
          h2 = hash_field h1 (en_name (rm_engine m));
          h3 = hash_field h2 (fd_rule_id f);
          h4 = hash_field h3 (case fd_engine_fingerprint f of None \<Rightarrow> fd_finding_id f | Some v \<Rightarrow> v);
          h5 = hash_location h4 (fd_source_location f);
          h6 = hash_location h5 (fd_sink_location f);
          h7 = hash_field h6 (fd_invariant f);
          h8 = foldl hash_step h7 (fd_evidence_path f)
      in ''sf_obs_'' @ hex_digest (sha h8))"

section \<open>Records of findings\<close>

text \<open>\<open>as_deref().filter(|value| !value.trim().is_empty())\<close>\<close>

definition visible_text :: "string option \<Rightarrow> string option" where
  "visible_text x = Option.bind x (\<lambda>v. if trim_is_empty v then None else Some v)"

definition record_from_finding ::
    "digest_fun \<Rightarrow> run_manifest \<Rightarrow> string \<Rightarrow> finding \<Rightarrow> source_license
     \<Rightarrow> knowledge_error + knowledge_record_v2" where
  "record_from_finding sha m manifest_sha256 f license =
     (let decision = hr_decision (fd_human_review f)
      in and_then (fail_if (decision = DecisionPending) (PendingFinding (fd_finding_id f))) (\<lambda>_.
         and_then (ok_or (visible_text (hr_reviewer (fd_human_review f)))
           (InvalidRecordField ''reviewer'')) (\<lambda>reviewer.
         and_then (ok_or (visible_text (hr_reviewed_at (fd_human_review f)))
           (InvalidRecordField ''reviewed_at'')) (\<lambda>reviewed_at.
         and_then (ok_or (visible_text (hr_rationale (fd_human_review f)))
           (InvalidRecordField ''rationale'')) (\<lambda>rationale.
         Ok \<lparr>
           kr_record_id = record_id sha manifest_sha256 (fd_finding_id f) decision,
           kr_manifest_sha256 = manifest_sha256,
           kr_manifest_created_at = rm_created_at m,
           kr_target_sha256 = tg_root_sha256 (rm_target m),
           kr_engine_name = en_name (rm_engine m),
           kr_engine_version = en_version (rm_engine m),
           kr_engine_binary_sha256 = en_binary_sha256 (rm_engine m),
           kr_finding_id = fd_finding_id f,
           kr_engine_fingerprint = fd_engine_fingerprint f,
           kr_title = fd_title f,
           kr_rule_id = fd_rule_id f,
           kr_taxonomy = fd_taxonomy f,
           kr_severity = fd_severity f,
           kr_confidence = fd_confidence f,
           kr_source_location = fd_source_location f,
           kr_sink_location = fd_sink_location f,
           kr_invariant = fd_invariant f,
           kr_evidence_path = fd_evidence_path f,
           kr_decision = decision,
           kr_reviewer = reviewer,
           kr_reviewed_at = reviewed_at,
           kr_rationale_sha256 = sha256_bytes sha rationale,
           kr_evidence_reference_sha256 =
             map_option (sha256_bytes sha) (visible_text (hr_evidence_reference (fd_human_review f))),
           k2_record_version = RECORD_VERSION,
           k2_observation_fingerprint = observation_fingerprint sha m f,
           k2_duplicate_of_record_id = None,
           k2_target_revision = tg_revision (rm_target m),
           k2_source_license = license\<rparr>)))))"

section \<open>Reading a ledger\<close>

text \<open>
  What \<open>serde_json\<close> does: a line as a document, as a record of either version, and the line
  that a record is written as.
\<close>

record ledger_codec =
  lc_value :: "string \<Rightarrow> json option"
  lc_v1 :: "string \<Rightarrow> knowledge_record_v1 option"
  lc_v2 :: "string \<Rightarrow> knowledge_record_v2 option"
  lc_line :: "knowledge_record_v2 \<Rightarrow> string option"

definition parse_line :: "ledger_codec \<Rightarrow> nat \<Rightarrow> string \<Rightarrow> knowledge_error + knowledge_record" where
  "parse_line codec index line =
     and_then (ok_or (lc_value codec line) (InvalidRecord (index + 1))) (\<lambda>v.
     let version = (case json_get_str ''record_version'' v of None \<Rightarrow> [] | Some s \<Rightarrow> s)
     in if version = RECORD_VERSION_V1
        then and_then (ok_or (lc_v1 codec line) (InvalidRecord (index + 1))) (\<lambda>r. Ok (RecordV1 r))
        else if version = RECORD_VERSION
        then and_then (ok_or (lc_v2 codec line) (InvalidRecord (index + 1))) (\<lambda>r. Ok (RecordV2 r))
        else Err (UnsupportedVersion version))"

text \<open>The links of duplicates: the map from fingerprints to their canonical record.\<close>

fun link_record ::
    "(string \<Rightarrow> string option) \<Rightarrow> knowledge_record \<Rightarrow> knowledge_error + (string \<Rightarrow> string option)" where
  "link_record canonical (RecordV1 r) = Ok canonical"
| "link_record canonical (RecordV2 r) =
     (case (k2_duplicate_of_record_id r, canonical (k2_observation_fingerprint r)) of
        (None, None) \<Rightarrow> Ok (canonical(k2_observation_fingerprint r \<mapsto> kr_record_id r))
      | (Some link, Some c) \<Rightarrow>
          if link = c then Ok canonical else Err (InvalidDuplicateLink (kr_record_id r))
      | _ \<Rightarrow> Err (InvalidDuplicateLink (kr_record_id r)))"

fun parse_lines ::
    "ts_parser \<Rightarrow> ledger_codec \<Rightarrow> nat \<Rightarrow> string set \<Rightarrow> (string \<Rightarrow> string option) \<Rightarrow> string list
     \<Rightarrow> knowledge_error + knowledge_record list" where
  "parse_lines ts codec index ids canonical [] = Ok []"
| "parse_lines ts codec index ids canonical (line # rest) =
     (if line = [] then parse_lines ts codec (index + 1) ids canonical rest
      else and_then (parse_line codec index line) (\<lambda>r.
           and_then (validate_record ts r) (\<lambda>_.
           and_then (fail_if (kb_record_id r \<in> ids) (DuplicateRecordId (kb_record_id r))) (\<lambda>_.
           and_then (link_record canonical r) (\<lambda>canonical'.
           and_then (parse_lines ts codec (index + 1) (insert (kb_record_id r) ids) canonical' rest)
             (\<lambda>rs. Ok (r # rs)))))))"

definition parse_existing_records ::
    "ts_parser \<Rightarrow> ledger_codec \<Rightarrow> string \<Rightarrow> knowledge_error + knowledge_record list" where
  "parse_existing_records ts codec bytes =
     parse_lines ts codec 0 {} Map.empty (split_by (\<lambda>c. c = CHR 0x0A) bytes)"

section \<open>The ledger file\<close>

text \<open>
  The outcome of every file system call that the code makes: for a ledger that exists, whether
  its metadata can be read, it is a regular file and its content can be read; whether the
  directory and a temporary file can be created (which fails anyway when one of that name
  exists), written, renamed and, on an error, removed. \<open>io_write\<close> is \<open>None\<close> when all bytes are written
  and synchronized, otherwise the number of bytes that are in the file when one of the two fails.
\<close>

record ledger_io =
  io_metadata :: bool
  io_is_file :: bool
  io_read :: bool
  io_create_dir :: bool
  io_create :: "nat \<Rightarrow> bool"
  io_write :: "nat option"
  io_rename :: bool
  io_remove :: bool

record ledger_dir =
  ld_ledger :: "string option"
  ld_temporaries :: "nat \<Rightarrow> string option"

definition read_with_metadata :: "ledger_io \<Rightarrow> string \<Rightarrow> knowledge_error + string" where
  "read_with_metadata io bytes =
     and_then (checks [
       fail_if (\<not> io_is_file io) KbRead,
       fail_if (MAX_LEDGER_BYTES < length bytes) (LedgerTooLarge (length bytes) MAX_LEDGER_BYTES),
       fail_if (\<not> io_read io) KbRead,
       fail_if (MAX_LEDGER_BYTES < length bytes) (LedgerTooLarge (length bytes) MAX_LEDGER_BYTES)])
     (\<lambda>_. Ok bytes)"

definition read_optional_bounded :: "ledger_io \<Rightarrow> string option \<Rightarrow> knowledge_error + string" where
  "read_optional_bounded io file =
     (if \<not> io_metadata io then Err KbRead
      else case file of None \<Rightarrow> Ok [] | Some bytes \<Rightarrow> read_with_metadata io bytes)"

definition read_required_bounded :: "ledger_io \<Rightarrow> string option \<Rightarrow> knowledge_error + string" where
  "read_required_bounded io file =
     (case file of
        None \<Rightarrow> Err KbRead
      | Some bytes \<Rightarrow> if \<not> io_metadata io then Err KbRead else read_with_metadata io bytes)"

definition read_ledger ::
    "ts_parser \<Rightarrow> ledger_codec \<Rightarrow> ledger_io \<Rightarrow> string option
     \<Rightarrow> knowledge_error + knowledge_record list" where
  "read_ledger ts codec io file =
     and_then (read_required_bounded io file) (parse_existing_records ts codec)"

text \<open>\<open>let _ = fs::remove_file(\<dots>)\<close>: when the removal fails the file stays and nobody is told.\<close>

definition remove_temporary :: "ledger_io \<Rightarrow> nat \<Rightarrow> ledger_dir \<Rightarrow> ledger_dir" where
  "remove_temporary io counter dir =
     (if io_remove io then dir\<lparr>ld_temporaries := (ld_temporaries dir)(counter := None)\<rparr> else dir)"

text \<open>
  The loop over the counters of \<open>write_atomic\<close>: the first name that is free is created and
  written; a file that cannot be written is removed again, if it can be. The result is the state
  with the temporary file and its counter, \<open>None\<close> when every name is taken.
\<close>

fun write_temporary ::
    "ledger_io \<Rightarrow> string \<Rightarrow> ledger_dir \<Rightarrow> nat list \<Rightarrow> (knowledge_error + nat option) \<times> ledger_dir" where
  "write_temporary io bytes dir [] = (Ok None, dir)"
| "write_temporary io bytes dir (counter # rest) =
     (if ld_temporaries dir counter \<noteq> None then write_temporary io bytes dir rest
      else if \<not> io_create io counter then (Err KbWrite, dir)
      else case io_write io of
        None \<Rightarrow>
          (Ok (Some counter), dir\<lparr>ld_temporaries := (ld_temporaries dir)(counter \<mapsto> bytes)\<rparr>)
      | Some n \<Rightarrow>
          (Err KbWrite, remove_temporary io counter
             (dir\<lparr>ld_temporaries := (ld_temporaries dir)(counter \<mapsto> take n bytes)\<rparr>)))"

definition write_atomic ::
    "ledger_io \<Rightarrow> string \<Rightarrow> ledger_dir \<Rightarrow> (knowledge_error + unit) \<times> ledger_dir" where
  "write_atomic io bytes dir =
     (if MAX_LEDGER_BYTES < length bytes
      then (Err (LedgerTooLarge (length bytes) MAX_LEDGER_BYTES), dir)
      else if \<not> io_create_dir io then (Err KbWrite, dir)
      else case write_temporary io bytes dir [0..<1024] of
        (Inl e, dir') \<Rightarrow> (Err e, dir')
      | (Inr None, dir') \<Rightarrow> (Err KbWrite, dir')
      | (Inr (Some counter), dir') \<Rightarrow>
          if io_rename io
          then (Ok (), dir'\<lparr>ld_ledger := Some bytes,
                           ld_temporaries := (ld_temporaries dir')(counter := None)\<rparr>)
          else (Err KbWrite, remove_temporary io counter dir'))"

section \<open>Importing a manifest\<close>

fun collect_results :: "('a \<Rightarrow> 'e + 'b) \<Rightarrow> 'a list \<Rightarrow> 'e + 'b list" where
  "collect_results f [] = Ok []"
| "collect_results f (x # xs) =
     and_then (f x) (\<lambda>y. and_then (collect_results f xs) (\<lambda>ys. Ok (y # ys)))"

definition reviewed_findings :: "run_manifest \<Rightarrow> finding list" where
  "reviewed_findings m =
     filter (\<lambda>f. hr_decision (fd_human_review f) \<noteq> DecisionPending) (rm_findings m)"

text \<open>The canonical records of a ledger that was read; on a repeated key the last entry stays.\<close>

fun canonical_entry :: "knowledge_record \<Rightarrow> (string \<times> string) option" where
  "canonical_entry (RecordV1 r) = None"
| "canonical_entry (RecordV2 r) =
     (if k2_duplicate_of_record_id r = None
      then Some (k2_observation_fingerprint r, kr_record_id r) else None)"

definition canonical_by_observation :: "knowledge_record list \<Rightarrow> string \<Rightarrow> string option" where
  "canonical_by_observation rs = map_of (rev (List.map_filter canonical_entry rs))"

text \<open>The loop that skips known records and links duplicates: the lines, the skipped and the linked.\<close>

fun append_records ::
    "ledger_codec \<Rightarrow> string set \<Rightarrow> (string \<Rightarrow> string option) \<Rightarrow> knowledge_record_v2 list
     \<Rightarrow> string \<times> nat \<times> nat \<Rightarrow> knowledge_error + string \<times> nat \<times> nat" where
  "append_records codec existing canonical [] acc = Ok acc"
| "append_records codec existing canonical (r # rs) (appended, skipped, linked) =
     (if kr_record_id r \<in> existing
      then append_records codec existing canonical rs (appended, skipped + 1, linked)
      else
        let (r', canonical', linked') =
              (case canonical (k2_observation_fingerprint r) of
                 Some canonical_id \<Rightarrow>
                   (r\<lparr>k2_duplicate_of_record_id := Some canonical_id\<rparr>, canonical, linked + 1)
               | None \<Rightarrow>
                   (r, canonical(k2_observation_fingerprint r \<mapsto> kr_record_id r), linked))
        in and_then (ok_or (lc_line codec r') KbSerialize) (\<lambda>line.
           append_records codec existing canonical' rs
             (appended @ line @ [CHR 0x0A], skipped, linked')))"

text \<open>Everything up to the write: the existing bytes, the lines to append and the counts.\<close>

definition prepare_import ::
    "ts_parser \<Rightarrow> digest_fun \<Rightarrow> ledger_codec \<Rightarrow> ledger_io \<Rightarrow> string \<Rightarrow> run_manifest \<Rightarrow> source_license
     \<Rightarrow> string option \<Rightarrow> knowledge_error + (string \<times> string \<times> nat \<times> nat)" where
  "prepare_import ts sha codec io manifest_sha256 m license file =
     and_then (map_err KbManifest (validate_manifest ts m)) (\<lambda>_.
     and_then (validate_source_license license) (\<lambda>_.
     and_then (collect_results
       (\<lambda>f. record_from_finding sha m manifest_sha256 f license) (reviewed_findings m)) (\<lambda>records.
     and_then (fail_if (records = []) NoReviewedFindings) (\<lambda>_.
     and_then (read_optional_bounded io file) (\<lambda>existing.
     and_then (parse_existing_records ts codec existing) (\<lambda>existing_records.
     and_then (append_records codec (kb_record_id ` set existing_records)
         (canonical_by_observation existing_records) records ([], 0, 0)) (\<lambda>result.
     Ok (existing, result))))))))"

definition import_manifest_to_ledger ::
    "ts_parser \<Rightarrow> digest_fun \<Rightarrow> ledger_codec \<Rightarrow> ledger_io \<Rightarrow> string \<Rightarrow> run_manifest \<Rightarrow> source_license
     \<Rightarrow> ledger_dir \<Rightarrow> (knowledge_error + import_result) \<times> ledger_dir" where
  "import_manifest_to_ledger ts sha codec io manifest_bytes m license dir =
     (let manifest_sha256 = sha256_bytes sha manifest_bytes
      in case prepare_import ts sha codec io manifest_sha256 m license (ld_ledger dir) of
           Inl e \<Rightarrow> (Err e, dir)
         | Inr (existing, appended, skipped, linked) \<Rightarrow>
             if appended = []
             then (Ok \<lparr>im_manifest_sha256 = manifest_sha256, im_records_added = 0,
                       im_records_skipped = skipped, im_duplicates_linked = linked\<rparr>, dir)
             else
               let output = (if existing \<noteq> [] \<and> \<not> ends_with [CHR 0x0A] existing
                             then existing @ [CHR 0x0A] else existing) @ appended
               in case write_atomic io output dir of
                    (Inl e, dir') \<Rightarrow> (Err e, dir')
                  | (Inr _, dir') \<Rightarrow>
                      (Ok \<lparr>im_manifest_sha256 = manifest_sha256,
                           im_records_added = count_if (\<lambda>c. c = CHR 0x0A) appended,
                           im_records_skipped = skipped, im_duplicates_linked = linked\<rparr>, dir'))"

end
