(* ===== verification/LedgerFacts.thy ===== *)
theory LedgerFacts
  imports KnowledgeLedger
begin

text \<open>
  What the ledger promises: exactly which files are ledgers, that an import only appends, that
  what it appends reads back, and that fingerprints are equal exactly for the same observation.
\<close>

section \<open>Field checks\<close>

lemma kb_valid_sha256_iff [simp]: "kb_valid_sha256 s \<longleftrightarrow> sha256_wf s"
  by (simp add: kb_valid_sha256_def sha256_wf_def is_lower_hex_of_length_def)

lemma kb_valid_identifier_eq [simp]: "kb_valid_identifier v p a b = valid_identifier v p a b"
  by (simp add: kb_valid_identifier_def valid_identifier_def split: option.splits)

lemma valid_prefixed_id_iff: "valid_prefixed_id v p \<longleftrightarrow> (\<exists>s. v = p @ s \<and> sha256_wf s)"
  by (auto simp: valid_prefixed_id_def strip_prefix_Some_iff sha256_wf_def
      is_lower_hex_of_length_def split: option.splits)

lemma validate_bounded_iff [ok_iff]: "validate_bounded v f n = Inr u \<longleftrightarrow> text_wf n v"
  by (auto simp: validate_bounded_def text_wf_def ok_iff)

lemma kb_validate_timestamp_iff [ok_iff]: "kb_validate_timestamp ts v f = Inr u \<longleftrightarrow> ts v \<noteq> None"
  by (simp add: kb_validate_timestamp_def ok_iff)

definition place_wf :: "location \<Rightarrow> bool" where
  "place_wf l \<longleftrightarrow>
     relative_path_wf (loc_path l) \<and> loc_start_line l \<noteq> 0 \<and> loc_start_column l \<noteq> 0
   \<and> loc_end_line l \<noteq> Some 0 \<and> loc_end_column l \<noteq> Some 0
   \<and> (\<forall>el. loc_end_line l = Some el \<longrightarrow> loc_start_line l \<le> el)
   \<and> (\<forall>ec. loc_end_line l = Some (loc_start_line l) \<longrightarrow> loc_end_column l = Some ec \<longrightarrow>
        loc_start_column l \<le> ec)"

lemma kb_validate_location_iff [ok_iff]: "kb_validate_location l f = Inr u \<longleftrightarrow> place_wf l"
  by (cases "loc_end_line l"; cases "loc_end_column l")
     (auto simp: kb_validate_location_def place_wf_def relative_path_wf_def ok_iff not_less)

lemma place_of_location: "location_wf l \<Longrightarrow> place_wf l"
  by (auto simp: location_wf_def place_wf_def)

definition license_wf :: "source_license \<Rightarrow> bool" where
  "license_wf v \<longleftrightarrow>
     sl_assertion v = ''operator-declared''
   \<and> (\<forall>s. sl_evidence_sha256 v = Some s \<longrightarrow> sha256_wf s)
   \<and> (if sl_status v = SpdxDeclared
      then (\<exists>e. sl_spdx_expression v = Some e \<and> text_wf 200 e) \<and> sl_evidence_sha256 v \<noteq> None
      else sl_spdx_expression v = None)"

lemma validate_source_license_iff [ok_iff]: "validate_source_license v = Inr u \<longleftrightarrow> license_wf v"
  by (cases "sl_status v") (auto simp: validate_source_license_def license_wf_def ok_iff)

interpretation license: contract validate_source_license license_wf
  by unfold_locales (rule validate_source_license_iff)

definition fields_wf :: "ts_parser \<Rightarrow> 'a knowledge_fields_scheme \<Rightarrow> bool" where
  "fields_wf ts r \<longleftrightarrow>
     valid_prefixed_id (kr_record_id r) ''sf_kb_''
   \<and> valid_identifier (kr_finding_id r) ''sf_finding_'' 16 100
   \<and> sha256_wf (kr_manifest_sha256 r) \<and> sha256_wf (kr_target_sha256 r)
   \<and> sha256_wf (kr_engine_binary_sha256 r) \<and> sha256_wf (kr_rationale_sha256 r)
   \<and> (\<forall>s. kr_evidence_reference_sha256 r = Some s \<longrightarrow> sha256_wf s)
   \<and> kr_decision r \<noteq> DecisionPending
   \<and> ts (kr_manifest_created_at r) \<noteq> None \<and> ts (kr_reviewed_at r) \<noteq> None
   \<and> text_wf 100 (kr_engine_name r) \<and> text_wf 100 (kr_engine_version r)
   \<and> (\<forall>s. kr_engine_fingerprint r = Some s \<longrightarrow> text_wf 200 s)
   \<and> text_wf 300 (kr_title r) \<and> text_wf 100 (kr_rule_id r) \<and> text_wf 1000 (kr_invariant r)
   \<and> text_wf 200 (kr_reviewer r) \<and> (\<forall>t. kr_taxonomy r = Some t \<longrightarrow> taxonomy_wf t)
   \<and> place_wf (kr_source_location r) \<and> place_wf (kr_sink_location r)
   \<and> kr_evidence_path r \<noteq> []
   \<and> (\<forall>s \<in> set (kr_evidence_path r). place_wf (es_location s) \<and> text_wf 1000 (es_description s))"

lemma validate_common_record_iff [ok_iff]: "validate_common_record ts r = Inr u \<longleftrightarrow> fields_wf ts r"
  unfolding validate_common_record_def fields_wf_def validate_kb_sha_def validate_kb_taxonomy_def
    validate_kb_step_def validate_optional_bounded_def taxonomy_wf_def
  by (simp add: ok_iff)

interpretation fields: contract "validate_common_record ts" "fields_wf ts" for ts
  by unfold_locales (rule validate_common_record_iff)

definition record_v2_wf :: "ts_parser \<Rightarrow> knowledge_record_v2 \<Rightarrow> bool" where
  "record_v2_wf ts r \<longleftrightarrow>
     k2_record_version r = RECORD_VERSION
   \<and> valid_prefixed_id (k2_observation_fingerprint r) ''sf_obs_''
   \<and> (\<forall>k. k2_duplicate_of_record_id r = Some k \<longrightarrow>
        valid_prefixed_id k ''sf_kb_'' \<and> k \<noteq> kr_record_id r)
   \<and> (\<forall>v. k2_target_revision r = Some v \<longrightarrow> text_wf 200 (rev_value v))
   \<and> license_wf (k2_source_license r) \<and> fields_wf ts r"

lemma validate_record_v2_iff [ok_iff]: "validate_record_v2 ts r = Inr u \<longleftrightarrow> record_v2_wf ts r"
  unfolding validate_record_v2_def record_v2_wf_def by (simp add: ok_iff)

interpretation record_v2: contract "validate_record_v2 ts" "record_v2_wf ts" for ts
  by unfold_locales (rule validate_record_v2_iff)

lemma valid_record_id:
  "validate_record ts r = Inr u \<Longrightarrow> valid_prefixed_id (kb_record_id r) ''sf_kb_''"
  by (cases r) (auto simp: validate_record_v1_def ok_iff fields_wf_def record_v2_wf_def)

section \<open>Links of duplicates\<close>

text \<open>
  A record of the second version is linked when it is the first of its observation and has no
  link, or its link names the canonical record of its observation before it.
\<close>

fun linked :: "knowledge_record list \<Rightarrow> knowledge_record \<Rightarrow> bool" where
  "linked ps (RecordV1 r) \<longleftrightarrow> True"
| "linked ps (RecordV2 r) \<longleftrightarrow>
     (case k2_duplicate_of_record_id r of
        None \<Rightarrow> \<forall>q. RecordV2 q \<in> set ps \<longrightarrow>
                  k2_observation_fingerprint q \<noteq> k2_observation_fingerprint r
      | Some link \<Rightarrow> \<exists>q. RecordV2 q \<in> set ps \<and> k2_duplicate_of_record_id q = None
                  \<and> k2_observation_fingerprint q = k2_observation_fingerprint r
                  \<and> kr_record_id q = link)"

definition links_from :: "knowledge_record list \<Rightarrow> knowledge_record list \<Rightarrow> bool" where
  "links_from ps rs \<longleftrightarrow> (\<forall>i < length rs. linked (ps @ take i rs) (rs ! i))"

abbreviation links_ok :: "knowledge_record list \<Rightarrow> bool" where
  "links_ok \<equiv> links_from []"

lemma links_from_simps [simp]:
  "links_from ps []"
  "links_from ps (r # rs) \<longleftrightarrow> linked ps r \<and> links_from (ps @ [r]) rs"
  by (simp_all add: links_from_def All_less_Suc2)

lemma links_from_append:
  "links_from ps (as @ bs) \<longleftrightarrow> links_from ps as \<and> links_from (ps @ as) bs"
  by (induction as arbitrary: ps) auto

lemma canonical_Nil [simp]: "canonical_by_observation [] = Map.empty"
  by (simp add: canonical_by_observation_def List.map_filter_def)

lemma canonical_snoc:
  "canonical_by_observation (ps @ [r]) =
     (case canonical_entry r of
        None \<Rightarrow> canonical_by_observation ps
      | Some (fp, k) \<Rightarrow> (canonical_by_observation ps)(fp \<mapsto> k))"
  by (auto simp: canonical_by_observation_def List.map_filter_def split: option.splits)

lemma canonical_member:
  "canonical_by_observation ps fp = Some k \<Longrightarrow>
     \<exists>q. RecordV2 q \<in> set ps \<and> k2_duplicate_of_record_id q = None
       \<and> k2_observation_fingerprint q = fp \<and> kr_record_id q = k"
proof (induction ps rule: rev_induct)
  case Nil
  then show ?case by simp
next
  case (snoc r ps)
  show ?case
  proof (cases r)
    case (RecordV1 q)
    with snoc show ?thesis by (auto simp: canonical_snoc)
  next
    case (RecordV2 q)
    with snoc show ?thesis by (auto simp: canonical_snoc split: if_splits)
  qed
qed

lemma canonical_None:
  "links_ok ps \<Longrightarrow> canonical_by_observation ps fp = None \<Longrightarrow> RecordV2 q \<in> set ps \<Longrightarrow>
     k2_observation_fingerprint q \<noteq> fp"
proof (induction ps arbitrary: q rule: rev_induct)
  case Nil
  then show ?case by simp
next
  case (snoc r ps)
  then have ps: "links_ok ps" and r: "linked ps r" by (simp_all add: links_from_append)
  have none: "canonical_by_observation ps fp = None"
    using snoc.prems(2) by (cases r) (auto simp: canonical_snoc split: if_splits)
  show ?case
  proof (cases "r = RecordV2 q")
    case True
    then show ?thesis
      using snoc.prems(2) r snoc.IH [OF ps none]
      by (auto simp: canonical_snoc split: option.splits if_splits)
  next
    case False
    with snoc.prems(3) snoc.IH [OF ps none] show ?thesis by auto
  qed
qed

lemma canonical_unique:
  "links_ok ps \<Longrightarrow> RecordV2 q \<in> set ps \<Longrightarrow> k2_duplicate_of_record_id q = None \<Longrightarrow>
     canonical_by_observation ps (k2_observation_fingerprint q) = Some (kr_record_id q)"
proof (induction ps rule: rev_induct)
  case Nil
  then show ?case by simp
next
  case (snoc r ps)
  then have ps: "links_ok ps" and r: "linked ps r" by (simp_all add: links_from_append)
  show ?case
  proof (cases "r = RecordV2 q")
    case True
    with snoc.prems show ?thesis by (simp add: canonical_snoc)
  next
    case False
    with snoc.prems have q: "RecordV2 q \<in> set ps" by simp
    with snoc.IH [OF ps q snoc.prems(3)] r show ?thesis
      by (cases r) (auto simp: canonical_snoc)
  qed
qed

text \<open>On a well-linked ledger, being linked is what the map of canonical records says.\<close>

lemma linked_canonical:
  assumes "links_ok ps"
  shows "linked ps (RecordV2 r) \<longleftrightarrow>
    canonical_by_observation ps (k2_observation_fingerprint r) = k2_duplicate_of_record_id r"
proof (cases "k2_duplicate_of_record_id r")
  case None
  have "canonical_by_observation ps (k2_observation_fingerprint r) = None"
    if "\<forall>q. RecordV2 q \<in> set ps \<longrightarrow> k2_observation_fingerprint q \<noteq> k2_observation_fingerprint r"
    using that canonical_member [of ps "k2_observation_fingerprint r"] by (metis not_Some_eq)
  with None canonical_None [OF assms] show ?thesis by auto
next
  case (Some link)
  have "canonical_by_observation ps (k2_observation_fingerprint r) = Some link"
    if "RecordV2 q \<in> set ps" "k2_duplicate_of_record_id q = None"
      "k2_observation_fingerprint q = k2_observation_fingerprint r" "kr_record_id q = link" for q
    using canonical_unique [OF assms that(1,2)] that(3,4) by simp
  with Some canonical_member [of ps "k2_observation_fingerprint r" link] show ?thesis by auto
qed

lemma link_record_iff:
  assumes "links_ok ps"
  shows "link_record (canonical_by_observation ps) r = Inr c \<longleftrightarrow>
    linked ps r \<and> c = canonical_by_observation (ps @ [r])"
proof (cases r)
  case (RecordV1 q)
  then show ?thesis by (auto simp: canonical_snoc)
next
  case (RecordV2 q)
  show ?thesis
    unfolding RecordV2 linked_canonical [OF assms] canonical_snoc
    by (cases "canonical_by_observation ps (k2_observation_fingerprint q)";
        cases "k2_duplicate_of_record_id q") auto
qed

section \<open>Which files are ledgers\<close>

definition ledger_lines :: "string \<Rightarrow> string list" where
  "ledger_lines bytes = filter (\<lambda>l. l \<noteq> []) (split_by (\<lambda>c. c = CHR 0x0A) bytes)"

definition line_record :: "ledger_codec \<Rightarrow> string \<Rightarrow> knowledge_record option" where
  "line_record codec line = (case parse_line codec 0 line of Inl _ \<Rightarrow> None | Inr r \<Rightarrow> Some r)"

lemma parse_line_iff: "parse_line codec i line = Inr r \<longleftrightarrow> line_record codec line = Some r"
proof (cases "lc_value codec line")
  case None
  then show ?thesis by (simp add: parse_line_def line_record_def)
next
  case (Some v)
  then show ?thesis
    by (cases "lc_v1 codec line"; cases "lc_v2 codec line")
       (simp_all add: parse_line_def line_record_def Let_def)
qed

definition ledger_wf :: "ts_parser \<Rightarrow> knowledge_record list \<Rightarrow> bool" where
  "ledger_wf ts rs \<longleftrightarrow>
     (\<forall>r \<in> set rs. validate_record ts r = Ok ()) \<and> distinct (map kb_record_id rs) \<and> links_ok rs"

lemma parse_lines_iff:
  "links_ok ps \<Longrightarrow> distinct (map kb_record_id ps) \<Longrightarrow>
   parse_lines ts codec i (kb_record_id ` set ps) (canonical_by_observation ps) ls = Inr rs \<longleftrightarrow>
     map (line_record codec) (filter (\<lambda>l. l \<noteq> []) ls) = map Some rs
   \<and> (\<forall>r \<in> set rs. validate_record ts r = Ok ()) \<and> distinct (map kb_record_id (ps @ rs))
   \<and> links_from ps rs"
proof (induction ls arbitrary: i ps rs)
  case Nil
  then show ?case by auto
next
  case (Cons l ls)
  show ?case
  proof (cases "l = []")
    case True
    with Cons show ?thesis by simp
  next
    case False
    let ?parse = "\<lambda>r. parse_lines ts codec (i + 1) (insert (kb_record_id r) (kb_record_id ` set ps))
        (canonical_by_observation (ps @ [r])) ls"
    let ?good = "\<lambda>r qs. map (line_record codec) (filter (\<lambda>l. l \<noteq> []) ls) = map Some qs
        \<and> (\<forall>r \<in> set qs. validate_record ts r = Ok ())
        \<and> distinct (map kb_record_id ((ps @ [r]) @ qs)) \<and> links_from (ps @ [r]) qs"
    have IH: "?parse r = Inr qs \<longleftrightarrow> ?good r qs"
      if "linked ps r" and "kb_record_id r \<notin> kb_record_id ` set ps" for r qs
      using Cons.IH [of "ps @ [r]" "i + 1" qs] Cons.prems that by (simp add: links_from_append)
    have "parse_lines ts codec i (kb_record_id ` set ps) (canonical_by_observation ps) (l # ls) = Inr rs
        \<longleftrightarrow> (\<exists>r qs. rs = r # qs \<and> line_record codec l = Some r \<and> validate_record ts r = Ok ()
          \<and> kb_record_id r \<notin> kb_record_id ` set ps \<and> linked ps r \<and> ?parse r = Inr qs)"
      using False by (auto simp: ok_iff parse_line_iff link_record_iff [OF Cons.prems(1)])
    also have "\<dots> \<longleftrightarrow> (\<exists>r qs. rs = r # qs \<and> line_record codec l = Some r
          \<and> validate_record ts r = Ok () \<and> kb_record_id r \<notin> kb_record_id ` set ps
          \<and> linked ps r \<and> ?good r qs)"
      using IH by blast
    also have "\<dots> \<longleftrightarrow> map (line_record codec) (filter (\<lambda>l. l \<noteq> []) (l # ls)) = map Some rs
        \<and> (\<forall>r \<in> set rs. validate_record ts r = Ok ()) \<and> distinct (map kb_record_id (ps @ rs))
        \<and> links_from ps rs"
      using False Cons.prems by (cases rs) auto
    finally show ?thesis .
  qed
qed

lemma parse_existing_iff:
  "parse_existing_records ts codec bytes = Inr rs \<longleftrightarrow>
     map (line_record codec) (ledger_lines bytes) = map Some rs \<and> ledger_wf ts rs"
  using parse_lines_iff [of "[]" ts codec 0 "split_by (\<lambda>c. c = CHR 0x0A) bytes" rs]
  by (simp add: parse_existing_records_def ledger_lines_def ledger_wf_def)

section \<open>What an import appends\<close>

fun linked_records ::
    "knowledge_record list \<Rightarrow> string set \<Rightarrow> knowledge_record_v2 list \<Rightarrow> knowledge_record_v2 list" where
  "linked_records ps existing [] = []"
| "linked_records ps existing (r # rs) =
     (if kr_record_id r \<in> existing then linked_records ps existing rs
      else let r' = r\<lparr>k2_duplicate_of_record_id :=
                        canonical_by_observation ps (k2_observation_fingerprint r)\<rparr>
           in r' # linked_records (ps @ [RecordV2 r']) existing rs)"

definition lines_of :: "ledger_codec \<Rightarrow> knowledge_record_v2 list \<Rightarrow> string" where
  "lines_of codec rs = concat (map (\<lambda>r. the (lc_line codec r) @ [CHR 0x0A]) rs)"

lemma linked_records_length: "length (linked_records ps existing rs) \<le> length rs"
  by (induction rs arbitrary: ps) (auto simp: Let_def le_SucI)

lemma append_records_iff:
  "\<forall>r \<in> set rs. k2_duplicate_of_record_id r = None \<Longrightarrow>
   append_records codec existing (canonical_by_observation ps) rs (appended, skipped, dups) = Inr res
   \<longleftrightarrow> (\<forall>r \<in> set (linked_records ps existing rs). lc_line codec r \<noteq> None)
     \<and> res = (appended @ lines_of codec (linked_records ps existing rs),
              skipped + (length rs - length (linked_records ps existing rs)),
              dups + count_if (\<lambda>r. k2_duplicate_of_record_id r \<noteq> None)
                       (linked_records ps existing rs))"
proof (induction rs arbitrary: ps appended skipped dups)
  case Nil
  then show ?case by (auto simp: lines_of_def)
next
  case (Cons r rs)
  define r' where "r' = r\<lparr>k2_duplicate_of_record_id :=
    canonical_by_observation ps (k2_observation_fingerprint r)\<rparr>"
  have none: "r\<lparr>k2_duplicate_of_record_id := None\<rparr> = r"
    using Cons.prems by (cases r) simp
  have step: "append_records codec existing (canonical_by_observation ps) (r # rs) (appended, skipped, dups)
      = and_then (ok_or (lc_line codec r') KbSerialize) (\<lambda>line.
          append_records codec existing (canonical_by_observation (ps @ [RecordV2 r'])) rs
            (appended @ line @ [CHR 0x0A], skipped,
             dups + count_if (\<lambda>r. k2_duplicate_of_record_id r \<noteq> None) [r']))"
    if "kr_record_id r \<notin> existing"
    using that Cons.prems
    by (cases "canonical_by_observation ps (k2_observation_fingerprint r)")
       (simp_all add: r'_def canonical_snoc none)
  have le: "length (linked_records qs existing rs) \<le> length rs" for qs
    using linked_records_length .
  show ?case
  proof (cases "kr_record_id r \<in> existing")
    case True
    with Cons.prems Cons.IH [of ps] le [of ps] show ?thesis by (simp add: Suc_diff_le)
  next
    case False
    note split = step [OF False]
    have new: "linked_records ps existing (r # rs) = r' # linked_records (ps @ [RecordV2 r']) existing rs"
      using False by (simp add: Let_def r'_def)
    show ?thesis
    proof (cases "lc_line codec r'")
      case None
      then show ?thesis unfolding split new by simp
    next
      case (Some line)
      have tail: "\<forall>r \<in> set rs. k2_duplicate_of_record_id r = None" using Cons.prems by simp
      show ?thesis
        unfolding split new Some ok_or_simps and_then_simps Cons.IH [OF tail]
        using Some by (simp add: lines_of_def add.assoc)
    qed
  qed
qed

text \<open>The fields that an appended record has in common with the record of its finding.\<close>

lemma linked_records_origin:
  "q \<in> set (linked_records ps existing rs) \<Longrightarrow>
     \<exists>r \<in> set rs. \<exists>k. q = r\<lparr>k2_duplicate_of_record_id := k\<rparr> \<and> kr_record_id r \<notin> existing"
proof (induction rs arbitrary: ps)
  case Nil
  then show ?case by simp
next
  case (Cons r rs)
  then show ?case by (cases "kr_record_id r \<in> existing") (fastforce simp: Let_def)+
qed

lemma linked_records_links:
  "links_ok ps \<Longrightarrow> links_from ps (map RecordV2 (linked_records ps existing rs))"
proof (induction rs arbitrary: ps)
  case Nil
  then show ?case by simp
next
  case (Cons r rs)
  define r' where "r' = r\<lparr>k2_duplicate_of_record_id :=
    canonical_by_observation ps (k2_observation_fingerprint r)\<rparr>"
  have "linked ps (RecordV2 r')"
    unfolding linked_canonical [OF Cons.prems] by (simp add: r'_def)
  moreover from this Cons.prems have "links_ok (ps @ [RecordV2 r'])"
    by (simp add: links_from_append)
  ultimately show ?case
    using Cons.IH [OF Cons.prems] Cons.IH by (simp add: Let_def r'_def)
qed

lemma linked_records_ids:
  "map kr_record_id (linked_records ps existing rs) =
     filter (\<lambda>k. k \<notin> existing) (map kr_record_id rs)"
  by (induction rs arbitrary: ps) (auto simp: Let_def)

lemma linked_records_match:
  "list_all2 (\<lambda>r q. \<exists>k. q = r\<lparr>k2_duplicate_of_record_id := k\<rparr>)
     (filter (\<lambda>r. kr_record_id r \<notin> existing) rs) (linked_records ps existing rs)"
  by (induction rs arbitrary: ps) (auto simp: Let_def)

lemma linked_records_known:
  "linked_records ps existing rs = [] \<longleftrightarrow> kr_record_id ` set rs \<subseteq> existing"
  by (induction rs) (auto simp: Let_def)

text \<open>A link names a record of the ledger or one that was appended before.\<close>

lemma linked_records_valid:
  assumes "\<forall>p \<in> set ps. validate_record ts p = Ok ()"
    and "\<forall>r \<in> set rs. record_v2_wf ts r"
    and "distinct (map kr_record_id rs)"
    and "\<forall>p \<in> set ps. kb_record_id p \<in> existing \<or> kb_record_id p \<notin> kr_record_id ` set rs"
  shows "\<forall>q \<in> set (linked_records ps existing rs). record_v2_wf ts q"
  using assms
proof (induction rs arbitrary: ps)
  case Nil
  then show ?case by simp
next
  case (Cons r rs)
  define r' where "r' = r\<lparr>k2_duplicate_of_record_id :=
    canonical_by_observation ps (k2_observation_fingerprint r)\<rparr>"
  show ?case
  proof (cases "kr_record_id r \<in> existing")
    case True
    with Cons.prems Cons.IH [of ps] show ?thesis by auto
  next
    case False
    have "valid_prefixed_id k ''sf_kb_'' \<and> k \<noteq> kr_record_id r"
      if k: "canonical_by_observation ps (k2_observation_fingerprint r) = Some k" for k
    proof -
      from canonical_member [OF k] obtain q where "RecordV2 q \<in> set ps" "kr_record_id q = k"
        by blast
      with Cons.prems(1,4) False valid_record_id show ?thesis by fastforce
    qed
    with Cons.prems(2) have r': "record_v2_wf ts r'"
      by (auto simp: r'_def record_v2_wf_def fields_wf_def)
    moreover have "\<forall>q \<in> set (linked_records (ps @ [RecordV2 r']) existing rs). record_v2_wf ts q"
      using Cons.prems r' by (intro Cons.IH) (auto simp: validate_record_v2_iff r'_def)
    ultimately show ?thesis using False by (simp add: Let_def r'_def)
  qed
qed

section \<open>Lines\<close>

lemma split_by_sep: "p c \<Longrightarrow> split_by p (a @ c # b) = split_by p a @ split_by p b"
  by (induction a) (auto split: list.splits)

lemma split_by_none: "\<forall>c \<in> set a. \<not> p c \<Longrightarrow> split_by p a = [a]"
  by (induction a) auto

lemma ledger_lines_Nil [simp]: "ledger_lines [] = []"
  by (simp add: ledger_lines_def)

lemma ledger_lines_sep: "ledger_lines (a @ CHR 0x0A # b) = ledger_lines a @ ledger_lines b"
  by (simp add: ledger_lines_def split_by_sep)

lemma ledger_lines_line:
  "CHR 0x0A \<notin> set l \<Longrightarrow> l \<noteq> [] \<Longrightarrow> ledger_lines (l @ CHR 0x0A # b) = l # ledger_lines b"
proof -
  assume "CHR 0x0A \<notin> set l" and "l \<noteq> []"
  then have "split_by (\<lambda>c. c = CHR 0x0A) l = [l]" by (intro split_by_none) auto
  with \<open>l \<noteq> []\<close> show ?thesis unfolding ledger_lines_sep by (simp add: ledger_lines_def)
qed

text \<open>
  What the ledger relies on of the JSON library: a record is written on one line, which reads
  back as the record.
\<close>

definition codec_faithful :: "ledger_codec \<Rightarrow> bool" where
  "codec_faithful codec \<longleftrightarrow>
     (\<forall>r line. lc_line codec r = Some line \<longrightarrow> k2_record_version r = RECORD_VERSION \<longrightarrow>
        line \<noteq> [] \<and> CHR 0x0A \<notin> set line \<and> line_record codec line = Some (RecordV2 r))"

lemma ledger_lines_of:
  assumes "codec_faithful codec"
    and "\<forall>r \<in> set rs. lc_line codec r \<noteq> None \<and> k2_record_version r = RECORD_VERSION"
  shows "map (line_record codec) (ledger_lines (lines_of codec rs)) = map Some (map RecordV2 rs)"
  using assms(2)
proof (induction rs)
  case Nil
  then show ?case by (simp add: lines_of_def)
next
  case (Cons r rs)
  then obtain line where l: "lc_line codec r = Some line" and "k2_record_version r = RECORD_VERSION"
    by auto
  with assms(1) have "line \<noteq> []" "CHR 0x0A \<notin> set line" "line_record codec line = Some (RecordV2 r)"
    by (auto simp: codec_faithful_def)
  with Cons l show ?case by (simp add: lines_of_def ledger_lines_line)
qed

text \<open>The number of lines that the result reports is the number of appended records.\<close>

lemma count_lines_of:
  assumes "codec_faithful codec"
    and "\<forall>r \<in> set rs. lc_line codec r \<noteq> None \<and> k2_record_version r = RECORD_VERSION"
  shows "count_if (\<lambda>c. c = CHR 0x0A) (lines_of codec rs) = length rs"
  using assms(2)
proof (induction rs)
  case Nil
  then show ?case by (simp add: lines_of_def)
next
  case (Cons r rs)
  then obtain line where l: "lc_line codec r = Some line" and "k2_record_version r = RECORD_VERSION"
    by auto
  with assms(1) have "CHR 0x0A \<notin> set line" by (auto simp: codec_faithful_def)
  then have "filter (\<lambda>c. c = CHR 0x0A) line = []" by (auto simp: filter_empty_conv)
  with Cons l show ?case by (simp add: lines_of_def count_if_def)
qed

definition line_terminated :: "string \<Rightarrow> string" where
  "line_terminated bytes =
     (if bytes \<noteq> [] \<and> \<not> ends_with [CHR 0x0A] bytes then bytes @ [CHR 0x0A] else bytes)"

lemma line_terminated_cases:
  obtains "bytes = []" "line_terminated bytes = []"
    | a where "line_terminated bytes = a @ [CHR 0x0A]" "ledger_lines bytes = ledger_lines a"
proof (cases "bytes = [] \<or> ends_with [CHR 0x0A] bytes")
  case True
  then show ?thesis
  proof
    assume "bytes = []"
    then show ?thesis using that(1) by (simp add: line_terminated_def)
  next
    assume e: "ends_with [CHR 0x0A] bytes"
    then obtain b where "rev bytes = CHR 0x0A # b" by (auto simp: ends_with_def starts_with_iff)
    then have "bytes = rev b @ [CHR 0x0A]" by (metis rev.simps(2) rev_rev_ident)
    with e that(2) [of "rev b"] show ?thesis
      using ledger_lines_sep [of "rev b" "[]"] by (simp add: line_terminated_def)
  qed
next
  case False
  with that(2) [of bytes] show ?thesis by (simp add: line_terminated_def)
qed

lemma line_terminated_prefix: "\<exists>x. line_terminated bytes = bytes @ x"
  by (simp add: line_terminated_def)

lemma ledger_lines_terminated:
  "ledger_lines (line_terminated bytes @ b) = ledger_lines bytes @ ledger_lines b"
  by (rule line_terminated_cases [of bytes]) (simp_all add: ledger_lines_sep)

section \<open>Records of findings\<close>

lemma collect_results_iff:
  "collect_results f xs = Inr ys \<longleftrightarrow> list_all2 (\<lambda>x y. f x = Inr y) xs ys"
proof (induction xs arbitrary: ys)
  case Nil
  then show ?case by auto
next
  case (Cons x xs)
  then show ?case by (cases ys) (auto simp: ok_iff)
qed

lemma sha256_bytes_wf: "digest_length sha \<Longrightarrow> sha256_wf (sha256_bytes sha x)"
  using hex.digest_id [of sha x]
  by (simp add: sha256_bytes_def hex_digest_def sha256_wf_def is_lower_hex_of_length_def)

lemma visible_text_Some_iff: "visible_text x = Some v \<longleftrightarrow> x = Some v \<and> \<not> trim_is_empty v"
  by (cases x) (auto simp: visible_text_def)

lemma record_fields:
  assumes "record_from_finding sha m h f lic = Inr r"
  shows "kr_record_id r = record_id sha h (fd_finding_id f) (hr_decision (fd_human_review f))"
    "kr_finding_id r = fd_finding_id f" "kr_decision r = hr_decision (fd_human_review f)"
    "kr_manifest_sha256 r = h" "k2_record_version r = RECORD_VERSION"
    "k2_duplicate_of_record_id r = None" "k2_source_license r = lic"
    "hr_reviewer (fd_human_review f) = Some (kr_reviewer r)" "\<not> trim_is_empty (kr_reviewer r)"
    "hr_decision (fd_human_review f) \<noteq> DecisionPending"
  using assms by (auto simp: record_from_finding_def Let_def ok_iff visible_text_Some_iff)

lemma record_contents:
  assumes "record_from_finding sha m h f lic = Inr r"
  shows "kr_manifest_created_at r = rm_created_at m" "kr_target_sha256 r = tg_root_sha256 (rm_target m)"
    "kr_engine_name r = en_name (rm_engine m)" "kr_engine_version r = en_version (rm_engine m)"
    "kr_engine_binary_sha256 r = en_binary_sha256 (rm_engine m)"
    "kr_engine_fingerprint r = fd_engine_fingerprint f"
    "kr_title r = fd_title f" "kr_rule_id r = fd_rule_id f" "kr_invariant r = fd_invariant f"
    "kr_taxonomy r = fd_taxonomy f" "kr_source_location r = fd_source_location f"
    "kr_sink_location r = fd_sink_location f" "kr_evidence_path r = fd_evidence_path f"
    "hr_reviewed_at (fd_human_review f) = Some (kr_reviewed_at r)"
    "\<exists>v. kr_rationale_sha256 r = sha256_bytes sha v"
    "kr_evidence_reference_sha256 r =
       map_option (sha256_bytes sha) (visible_text (hr_evidence_reference (fd_human_review f)))"
    "k2_observation_fingerprint r = observation_fingerprint sha m f"
    "k2_target_revision r = tg_revision (rm_target m)"
  using assms by (auto simp: record_from_finding_def Let_def ok_iff visible_text_Some_iff)

lemma record_wf:
  assumes r: "record_from_finding sha m h f lic = Inr r"
    and m: "manifest_wf ts m" and f: "f \<in> set (rm_findings m)"
    and lic: "license_wf lic" and sha: "digest_length sha" and h: "sha256_wf h"
  shows "record_v2_wf ts r"
proof -
  have fw: "candidate_wf f" "human_review_wf ts (fd_human_review f)"
    and frame: "target_wf ts (rm_target m)" "engine_wf (rm_engine m)" "lifecycle_wf ts m"
    using m f by (auto simp: manifest_wf_def manifest_frame_wf_def finding_wf_def)
  have id: "valid_prefixed_id (p @ sha256_bytes sha x) p" for p x
    using sha256_bytes_wf [OF sha] by (auto simp: valid_prefixed_id_iff)
  have rid: "valid_prefixed_id (record_id sha a b d) ''sf_kb_''" for a b d
    unfolding record_id_def by (rule id)
  have fp: "valid_prefixed_id (observation_fingerprint sha m f) ''sf_obs_''"
    unfolding observation_fingerprint_def Let_def sha256_bytes_def [symmetric] by (rule id)
  have review: "text_wf 200 (kr_reviewer r)" "ts (kr_reviewed_at r) \<noteq> None"
    using fw(2) record_contents(14) [OF r] record_fields(8) [OF r]
    by (auto simp: human_review_wf_def)
  have place: "place_wf (fd_source_location f)" "place_wf (fd_sink_location f)"
    "\<forall>s \<in> set (fd_evidence_path f). place_wf (es_location s) \<and> text_wf 1000 (es_description s)"
    using fw(1) by (auto simp: candidate_wf_def step_wf_def place_of_location)
  have decision: "hr_decision (fd_human_review f) \<noteq> DecisionPending"
    by (rule record_fields(10) [OF r])
  have rationale: "sha256_wf (kr_rationale_sha256 r)"
    using sha256_bytes_wf [OF sha] record_contents(15) [OF r] by auto
  have evidence: "\<forall>s. kr_evidence_reference_sha256 r = Some s \<longrightarrow> sha256_wf s"
    using sha256_bytes_wf [OF sha] record_contents(16) [OF r] by auto
  have fields: "fields_wf ts r"
    using fw(1) frame h sha256_bytes_wf [OF sha] review place decision rationale evidence
    unfolding fields_wf_def record_fields(1-4) [OF r] record_contents(1-13) [OF r]
    by (auto simp: rid candidate_wf_def target_wf_def engine_wf_def lifecycle_wf_def)
  show ?thesis
    using lic frame(1) fields
    unfolding record_v2_wf_def record_fields(5-7) [OF r] record_contents(17,18) [OF r]
    by (simp add: fp target_wf_def revision_wf_def)
qed

definition record_text :: "digest_fun \<Rightarrow> string \<Rightarrow> finding \<Rightarrow> string" where
  "record_text sha manifest_bytes f =
     sha256_bytes sha manifest_bytes @ ''|'' @ fd_finding_id f @ ''|''
       @ kb_decision_label (hr_decision (fd_human_review f))"

text \<open>The texts whose digests become record identifiers differ for different findings.\<close>

lemma record_text_inj:
  assumes "valid_identifier (fd_finding_id f) ''sf_finding_'' 16 100"
    and "valid_identifier (fd_finding_id g) ''sf_finding_'' 16 100"
    and "record_text sha b f = record_text sha b g"
  shows "fd_finding_id f = fd_finding_id g"
proof -
  have bar: "\<not> is_alnum (CHR ''|'')" by (simp add: byte_class_defs byte_def)
  have "CHR ''|'' \<notin> set (fd_finding_id x)"
    if "valid_identifier (fd_finding_id x) ''sf_finding_'' 16 100" for x
    using that bar by (auto simp: valid_identifier_iff list_all_iff)
  with assms(1,2) have "CHR ''|'' \<notin> set (fd_finding_id f)" "CHR ''|'' \<notin> set (fd_finding_id g)"
    by blast+
  with assms(3) show ?thesis by (simp add: record_text_def join_left_inj)
qed

lemma imported_records:
  assumes c: "collect_results (\<lambda>f. record_from_finding sha m (sha256_bytes sha b) f lic)
      (reviewed_findings m) = Inr rs"
    and m: "manifest_wf ts m" and lic: "license_wf lic" and sha: "digest_length sha"
    and inj: "inj_on sha (record_text sha b ` set (reviewed_findings m))"
  shows "\<forall>r \<in> set rs. record_v2_wf ts r" "distinct (map kr_record_id rs)"
    "\<forall>r \<in> set rs. k2_duplicate_of_record_id r = None" "length rs = length (reviewed_findings m)"
    "\<forall>r \<in> set rs. \<exists>f \<in> set (reviewed_findings m).
        record_from_finding sha m (sha256_bytes sha b) f lic = Inr r"
proof -
  from c have all: "list_all2 (\<lambda>f r. record_from_finding sha m (sha256_bytes sha b) f lic = Inr r)
      (reviewed_findings m) rs"
    by (simp add: collect_results_iff)
  then show len: "length rs = length (reviewed_findings m)" by (simp add: list_all2_lengthD)
  show from_finding: "\<forall>r \<in> set rs. \<exists>f \<in> set (reviewed_findings m).
        record_from_finding sha m (sha256_bytes sha b) f lic = Inr r"
  proof
    fix r
    assume "r \<in> set rs"
    then obtain i where "i < length rs" "r = rs ! i" by (auto simp: in_set_conv_nth)
    with all len have "record_from_finding sha m (sha256_bytes sha b) (reviewed_findings m ! i) lic
        = Inr r" and "reviewed_findings m ! i \<in> set (reviewed_findings m)"
      by (auto simp: list_all2_conv_all_nth)
    then show "\<exists>f \<in> set (reviewed_findings m).
        record_from_finding sha m (sha256_bytes sha b) f lic = Inr r" by blast
  qed
  show "\<forall>r \<in> set rs. record_v2_wf ts r"
  proof
    fix r
    assume "r \<in> set rs"
    with from_finding obtain f where "f \<in> set (rm_findings m)"
      and "record_from_finding sha m (sha256_bytes sha b) f lic = Inr r"
      by (auto simp: reviewed_findings_def)
    then show "record_v2_wf ts r" by (intro record_wf [OF _ m _ lic sha sha256_bytes_wf [OF sha]])
  qed
  show "\<forall>r \<in> set rs. k2_duplicate_of_record_id r = None"
    using from_finding record_fields(6) by blast
  have "map kr_record_id rs = map (\<lambda>f. ''sf_kb_'' @ hex_digest (sha (record_text sha b f)))
      (reviewed_findings m)"
    using all len record_fields(1)
    by (intro nth_equalityI)
       (auto simp: list_all2_conv_all_nth record_id_def record_text_def sha256_bytes_def)
  moreover have "inj_on (\<lambda>f. ''sf_kb_'' @ hex_digest (sha (record_text sha b f)))
      (set (reviewed_findings m))"
  proof (rule inj_onI)
    fix f g
    assume fg: "f \<in> set (reviewed_findings m)" "g \<in> set (reviewed_findings m)"
      and eq: "''sf_kb_'' @ hex_digest (sha (record_text sha b f))
         = ''sf_kb_'' @ hex_digest (sha (record_text sha b g))"
    from eq have "sha (record_text sha b f) = sha (record_text sha b g)"
      unfolding hex_digest_def by (rule hex.id_inj)
    with fg have "record_text sha b f = record_text sha b g"
      using inj_onD [OF inj] by blast
    moreover have "valid_identifier (fd_finding_id x) ''sf_finding_'' 16 100"
      if "x \<in> set (reviewed_findings m)" for x
      using that m unfolding reviewed_findings_def manifest_wf_def finding_wf_def candidate_wf_def
      by simp
    ultimately have "fd_finding_id f = fd_finding_id g"
      using fg record_text_inj by blast
    moreover have "inj_on fd_finding_id (set (rm_findings m))"
      using m unfolding manifest_wf_def distinct_map by blast
    ultimately show "f = g"
      using fg unfolding reviewed_findings_def by (auto dest: inj_onD)
  qed
  moreover have "distinct (reviewed_findings m)"
    using m unfolding reviewed_findings_def manifest_wf_def distinct_map by simp
  ultimately show "distinct (map kr_record_id rs)" by (simp add: distinct_map)
qed

section \<open>Atomic writes\<close>

text \<open>
  A write leaves the temporary files that were there, and adds at most one: only when it fails
  and the removal fails too.
\<close>

definition left_behind :: "ledger_io \<Rightarrow> string \<Rightarrow> ledger_dir \<Rightarrow> ledger_dir \<Rightarrow> bool" where
  "left_behind io bytes dir dir' \<longleftrightarrow>
     dir' = dir \<or> (\<not> io_remove io \<and> (\<exists>c n. c < 1024 \<and> ld_temporaries dir c = None
       \<and> dir' = dir\<lparr>ld_temporaries := (ld_temporaries dir)(c \<mapsto> take n bytes)\<rparr>))"

lemma left_behind_refl [simp]: "left_behind io bytes dir dir"
  by (simp add: left_behind_def)

lemma left_behind_removed:
  assumes "c < 1024" and "ld_temporaries dir c = None"
  shows "left_behind io bytes dir
    (remove_temporary io c (dir\<lparr>ld_temporaries := (ld_temporaries dir)(c \<mapsto> take n bytes)\<rparr>))"
  unfolding left_behind_def remove_temporary_def using assms by (simp add: fun_upd_idem) blast

lemma left_behind_whole:
  "c < 1024 \<Longrightarrow> ld_temporaries dir c = None \<Longrightarrow> left_behind io bytes dir
    (remove_temporary io c (dir\<lparr>ld_temporaries := (ld_temporaries dir)(c \<mapsto> bytes)\<rparr>))"
  using left_behind_removed [of c dir io bytes "length bytes"] by simp

lemma write_temporary_result:
  "write_temporary io bytes dir cs = (res, dir') \<Longrightarrow> set cs \<subseteq> {..<1024} \<Longrightarrow>
     (case res of
        Inr (Some c) \<Rightarrow> c < 1024 \<and> ld_temporaries dir c = None
          \<and> dir' = dir\<lparr>ld_temporaries := (ld_temporaries dir)(c \<mapsto> bytes)\<rparr>
      | _ \<Rightarrow> left_behind io bytes dir dir')"
  by (induction cs) (auto simp: left_behind_removed split: if_splits option.splits)

lemma write_atomic_effect:
  assumes "write_atomic io bytes dir = (res, dir')"
  shows "(case res of Inl e \<Rightarrow> left_behind io bytes dir dir' | Inr u \<Rightarrow> dir' = dir\<lparr>ld_ledger := Some bytes\<rparr>)
    \<and> (is_ok res \<longrightarrow> length bytes \<le> MAX_LEDGER_BYTES)"
proof -
  obtain r d where w: "write_temporary io bytes dir [0..<1024] = (r, d)" by fastforce
  have "set [0..<1024] \<subseteq> {..<1024 :: nat}" by auto
  note r = write_temporary_result [OF w this]
  show ?thesis
  proof (cases "\<exists>c. r = Inr (Some c)")
    case True
    then obtain c where c: "r = Inr (Some c)" by blast
    with r have "c < 1024" "ld_temporaries dir c = None"
      "d = dir\<lparr>ld_temporaries := (ld_temporaries dir)(c \<mapsto> bytes)\<rparr>" by simp_all
    with assms w c show ?thesis
      by (auto simp: write_atomic_def is_ok_def left_behind_whole fun_upd_idem split: if_splits)
  next
    case False
    with r have "left_behind io bytes dir d" by (auto split: sum.splits option.splits)
    then show ?thesis
      using assms w False
      by (auto simp: write_atomic_def is_ok_def split: if_splits sum.splits option.splits)
  qed
qed

section \<open>An import step by step\<close>

definition ledger_bytes :: "ledger_dir \<Rightarrow> string" where
  "ledger_bytes dir = (case ld_ledger dir of None \<Rightarrow> [] | Some bytes \<Rightarrow> bytes)"

lemma read_optional_bytes:
  "read_optional_bounded io (ld_ledger dir) = Inr bytes \<Longrightarrow>
     bytes = ledger_bytes dir \<and> length bytes \<le> MAX_LEDGER_BYTES"
  by (auto simp: read_optional_bounded_def read_with_metadata_def ledger_bytes_def ok_iff
      split: if_splits option.splits)

lemma line_terminated_if:
  "(if bytes \<noteq> [] \<and> \<not> ends_with [CHR 0x0A] bytes then bytes @ [CHR 0x0A] else bytes)
     = line_terminated bytes"
  by (simp add: line_terminated_def)

lemma import_step:
  assumes "import_manifest_to_ledger ts sha codec io b m lic dir = (Ok result, dir')"
  obtains rs old new where
    "manifest_wf ts m" "license_wf lic"
    "collect_results (\<lambda>f. record_from_finding sha m (sha256_bytes sha b) f lic)
       (reviewed_findings m) = Inr rs"
    "rs \<noteq> []" "length (ledger_bytes dir) \<le> MAX_LEDGER_BYTES"
    "parse_existing_records ts codec (ledger_bytes dir) = Inr old"
    "new = linked_records old (kb_record_id ` set old) rs"
    "\<forall>r \<in> set new. lc_line codec r \<noteq> None"
    "im_manifest_sha256 result = sha256_bytes sha b"
    "im_records_added result = count_if (\<lambda>c. c = CHR 0x0A) (lines_of codec new)"
    "im_records_skipped result = length rs - length new"
    "if new = [] then dir' = dir
     else dir' = dir\<lparr>ld_ledger := Some (line_terminated (ledger_bytes dir) @ lines_of codec new)\<rparr>
       \<and> length (line_terminated (ledger_bytes dir) @ lines_of codec new) \<le> MAX_LEDGER_BYTES"
proof -
  obtain existing appended skipped dups where
    p: "prepare_import ts sha codec io (sha256_bytes sha b) m lic (ld_ledger dir)
      = Inr (existing, appended, skipped, dups)"
    using assms
    by (cases "prepare_import ts sha codec io (sha256_bytes sha b) m lic (ld_ledger dir)")
       (auto simp: import_manifest_to_ledger_def)
  then obtain rs old where
    m: "manifest_wf ts m" and lic: "license_wf lic" and
    rs: "collect_results (\<lambda>f. record_from_finding sha m (sha256_bytes sha b) f lic)
       (reviewed_findings m) = Inr rs" "rs \<noteq> []" and
    e: "read_optional_bounded io (ld_ledger dir) = Inr existing" and
    old: "parse_existing_records ts codec existing = Inr old" and
    app: "append_records codec (kb_record_id ` set old) (canonical_by_observation old) rs ([], 0, 0)
      = Inr (appended, skipped, dups)"
    by (auto simp: prepare_import_def ok_iff)
  have rest: "(if appended = [] then (Ok \<lparr>im_manifest_sha256 = sha256_bytes sha b,
        im_records_added = 0, im_records_skipped = skipped, im_duplicates_linked = dups\<rparr>, dir)
      else case write_atomic io (line_terminated existing @ appended) dir of
             (Inl e, dir') \<Rightarrow> (Err e, dir')
           | (Inr _, dir') \<Rightarrow> (Ok \<lparr>im_manifest_sha256 = sha256_bytes sha b,
               im_records_added = count_if (\<lambda>c. c = CHR 0x0A) appended,
               im_records_skipped = skipped, im_duplicates_linked = dups\<rparr>, dir'))
      = (Ok result, dir')"
    using assms [unfolded import_manifest_to_ledger_def Let_def line_terminated_if p sum.case prod.case] .
  have none: "\<forall>r \<in> set rs. k2_duplicate_of_record_id r = None"
    using rs(1) record_fields(6)
    by (fastforce simp: collect_results_iff list_all2_conv_all_nth in_set_conv_nth)
  define new where "new = linked_records old (kb_record_id ` set old) rs"
  note app' = app [unfolded append_records_iff [OF none], folded new_def]
  from read_optional_bytes [OF e] have e': "existing = ledger_bytes dir"
    and len: "length (ledger_bytes dir) \<le> MAX_LEDGER_BYTES" by auto
  have empty: "lines_of codec new = [] \<longleftrightarrow> new = []" by (cases new) (auto simp: lines_of_def)
  show thesis
  proof (rule that [OF m lic rs len old [unfolded e'] new_def])
    show "\<forall>r \<in> set new. lc_line codec r \<noteq> None" using app' by simp
    show "im_manifest_sha256 result = sha256_bytes sha b"
      "im_records_added result = count_if (\<lambda>c. c = CHR 0x0A) (lines_of codec new)"
      "im_records_skipped result = length rs - length new"
      using app' rest by (auto split: if_splits prod.splits sum.splits)
    show "if new = [] then dir' = dir
     else dir' = dir\<lparr>ld_ledger := Some (line_terminated (ledger_bytes dir) @ lines_of codec new)\<rparr>
       \<and> length (line_terminated (ledger_bytes dir) @ lines_of codec new) \<le> MAX_LEDGER_BYTES"
    proof (cases "new = []")
      case True
      with app' rest empty show ?thesis by auto
    next
      case False
      obtain w d where wa: "write_atomic io (line_terminated existing @ lines_of codec new) dir = (w, d)"
        by fastforce
      from app' rest empty False wa have "w = Inr ()" "d = dir'"
        by (auto split: sum.splits)
      with write_atomic_effect [OF wa] False e' show ?thesis by (simp add: is_ok_def)
    qed
  qed
qed

text \<open>An import that fails leaves the ledger as it was.\<close>

lemma import_error_left:
  assumes "import_manifest_to_ledger ts sha codec io b m lic dir = (Err e, dir')"
  shows "\<exists>bytes. left_behind io bytes dir dir'"
proof (cases "prepare_import ts sha codec io (sha256_bytes sha b) m lic (ld_ledger dir)")
  case (Inl e')
  with assms show ?thesis by (simp add: import_manifest_to_ledger_def left_behind_def)
next
  case (Inr p)
  obtain existing appended skipped dups where p: "p = (existing, appended, skipped, dups)"
    by (cases p)
  obtain w d where wa: "write_atomic io (line_terminated existing @ appended) dir = (w, d)"
    by fastforce
  have "(if appended = [] then (Ok \<lparr>im_manifest_sha256 = sha256_bytes sha b,
        im_records_added = 0, im_records_skipped = skipped, im_duplicates_linked = dups\<rparr>, dir)
      else case write_atomic io (line_terminated existing @ appended) dir of
             (Inl e, dir') \<Rightarrow> (Err e, dir')
           | (Inr _, dir') \<Rightarrow> (Ok \<lparr>im_manifest_sha256 = sha256_bytes sha b,
               im_records_added = count_if (\<lambda>c. c = CHR 0x0A) appended,
               im_records_skipped = skipped, im_duplicates_linked = dups\<rparr>, dir'))
      = (Err e, dir')"
    using assms [unfolded import_manifest_to_ledger_def Let_def line_terminated_if Inr p sum.case
        prod.case] .
  with write_atomic_effect [OF wa] show ?thesis
    by (cases w) (auto simp: wa split: if_splits)
qed

end
