(* ===== verification/LedgerHistory.thy ===== *)
theory LedgerHistory
  imports LedgerFacts
begin

text \<open>
  The ledger over time: every file system outcome and every sequence of imports. The bytes of a
  ledger are never rewritten, what an import appends reads back, and an import that is repeated
  adds nothing. Fingerprints are compared with the observations they stand for.
\<close>

section \<open>Sequences of imports\<close>

datatype ledger_op = OpImport ledger_io string run_manifest source_license

text \<open>
  A failed import is a step too: it keeps the ledger but may leave its temporary file, so a step
  is the directory after the import whatever its result.
\<close>

fun ledger_step ::
    "ts_parser \<Rightarrow> digest_fun \<Rightarrow> ledger_codec \<Rightarrow> ledger_op \<Rightarrow> ledger_dir \<Rightarrow> knowledge_error + ledger_dir" where
  "ledger_step ts sha codec (OpImport io b m lic) dir =
     Ok (snd (import_manifest_to_ledger ts sha codec io b m lic dir))"

text \<open>The directory after a sequence of imports, failed ones included.\<close>

fun ledger_run ::
    "ts_parser \<Rightarrow> digest_fun \<Rightarrow> ledger_codec \<Rightarrow> ledger_op list \<Rightarrow> ledger_dir \<Rightarrow> ledger_dir" where
  "ledger_run ts sha codec [] dir = dir"
| "ledger_run ts sha codec (OpImport io b m lic # ops) dir =
     ledger_run ts sha codec ops (snd (import_manifest_to_ledger ts sha codec io b m lic dir))"

lemma ledger_run_ops: "ledger_run ts sha codec ops dir = run_ops (ledger_step ts sha codec) ops dir"
proof (induction ops arbitrary: dir)
  case Nil
  then show ?case by simp
next
  case (Cons op ops)
  then show ?case by (cases op) simp
qed

lemma import_bytes:
  assumes "import_manifest_to_ledger ts sha codec io b m lic dir = (res, dir')"
  shows "(\<exists>x. ledger_bytes dir' = ledger_bytes dir @ x) \<and>
    (ld_temporaries dir' = ld_temporaries dir \<or>
       \<not> io_remove io \<and> (\<exists>c t. c < 1024 \<and> ld_temporaries dir c = None
         \<and> ld_temporaries dir' = (ld_temporaries dir)(c \<mapsto> t)))"
proof (cases res)
  case (Inl e)
  with import_error_left assms obtain bytes where "left_behind io bytes dir dir'" by blast
  then consider "dir' = dir" | c n where "\<not> io_remove io" "c < 1024" "ld_temporaries dir c = None"
      "dir' = dir\<lparr>ld_temporaries := (ld_temporaries dir)(c \<mapsto> take n bytes)\<rparr>"
    unfolding left_behind_def by blast
  then show ?thesis
  proof cases
    case 2
    then have "ledger_bytes dir' = ledger_bytes dir"
      "ld_temporaries dir' = (ld_temporaries dir)(c \<mapsto> take n bytes)" by (simp_all add: ledger_bytes_def)
    moreover have "\<exists>x. ledger_bytes dir = ledger_bytes dir @ x" by simp
    ultimately show ?thesis using 2(1-3) by metis
  qed simp
next
  case (Inr result)
  with assms obtain new where "if new = [] then dir' = dir
     else dir' = dir\<lparr>ld_ledger := Some (line_terminated (ledger_bytes dir) @ lines_of codec new)\<rparr>
       \<and> length (line_terminated (ledger_bytes dir) @ lines_of codec new) \<le> MAX_LEDGER_BYTES"
    using import_step by metis
  with line_terminated_prefix [of "ledger_bytes dir"] show ?thesis
    by (cases "new = []") (auto simp: ledger_bytes_def)
qed

text \<open>A ledger as the positions that are written: the imports keep every one of them.\<close>

definition written_byte :: "ledger_dir \<Rightarrow> nat \<Rightarrow> char option" where
  "written_byte dir i =
     (if i < length (ledger_bytes dir) then Some (ledger_bytes dir ! i) else None)"

interpretation ledger_machine: decision_machine "ledger_step ts sha codec"
    "\<lambda>dir. temps \<subseteq>\<^sub>m ld_temporaries dir" written_byte
  for ts sha codec temps
proof unfold_locales
  fix dir op dir'
  assume t: "temps \<subseteq>\<^sub>m ld_temporaries dir" and s: "ledger_step ts sha codec op dir = Inr dir'"
  obtain io b m lic where op: "op = OpImport io b m lic" by (cases op)
  with s obtain res where i: "import_manifest_to_ledger ts sha codec io b m lic dir = (res, dir')"
    by (cases "import_manifest_to_ledger ts sha codec io b m lic dir") simp
  note e = import_bytes [OF i]
  have "ld_temporaries dir \<subseteq>\<^sub>m ld_temporaries dir'" using e by (auto simp: map_le_def)
  with t show "temps \<subseteq>\<^sub>m ld_temporaries dir'" by (rule map_le_trans)
  from e show "written_byte dir \<subseteq>\<^sub>m written_byte dir'"
    by (auto simp: map_le_def written_byte_def nth_append split: if_splits)
qed

text \<open>The imports whose clean-up the file system refuses, and the names they can leave.\<close>

fun clean_up_fails :: "ledger_op \<Rightarrow> bool" where
  "clean_up_fails (OpImport io b m lic) = (\<not> io_remove io)"

definition new_temporaries :: "ledger_dir \<Rightarrow> ledger_dir \<Rightarrow> nat set" where
  "new_temporaries dir dir' = dom (ld_temporaries dir') - dom (ld_temporaries dir)"

lemma run_temporaries:
  "new_temporaries dir (ledger_run ts sha codec ops dir) \<subseteq> {..<1024}
 \<and> card (new_temporaries dir (ledger_run ts sha codec ops dir)) \<le> length (filter clean_up_fails ops)"
proof (induction ops arbitrary: dir)
  case Nil
  then show ?case by (simp add: new_temporaries_def)
next
  case (Cons op ops)
  obtain io b m lic where op: "op = OpImport io b m lic" by (cases op)
  obtain res d where i: "import_manifest_to_ledger ts sha codec io b m lic dir = (res, d)" by fastforce
  let ?after = "ledger_run ts sha codec ops d"
  have run: "ledger_run ts sha codec (op # ops) dir = ?after" by (simp add: op i)
  have fin: "finite (new_temporaries d ?after)"
    using Cons.IH [of d] finite_subset [OF _ finite_lessThan] by blast
  from import_bytes [OF i] consider "ld_temporaries d = ld_temporaries dir"
    | c t where "\<not> io_remove io" "c < 1024" "ld_temporaries d = (ld_temporaries dir)(c \<mapsto> t)" by blast
  then show ?case
  proof cases
    case 1
    then have "new_temporaries dir ?after = new_temporaries d ?after" by (simp add: new_temporaries_def)
    with Cons.IH [of d] show ?thesis unfolding run by (simp add: le_SucI)
  next
    case 2
    then have sub: "new_temporaries dir ?after \<subseteq> insert c (new_temporaries d ?after)"
      by (auto simp: new_temporaries_def)
    have "card (new_temporaries dir ?after) \<le> card (insert c (new_temporaries d ?after))"
      by (rule card_mono [OF _ sub]) (simp add: fin)
    also have "\<dots> \<le> Suc (card (new_temporaries d ?after))" by (simp add: card_insert_if fin)
    finally have "card (new_temporaries dir ?after) \<le> length (filter clean_up_fails (op # ops))"
      using Cons.IH [of d] 2 by (simp add: op)
    with Cons.IH [of d] 2 sub show ?thesis unfolding run by auto
  qed
qed

lemma written_prefix:
  assumes "written_byte dir \<subseteq>\<^sub>m written_byte dir'"
  shows "\<exists>x. ledger_bytes dir' = ledger_bytes dir @ x"
proof -
  have same: "i < length (ledger_bytes dir') \<and> ledger_bytes dir' ! i = ledger_bytes dir ! i"
    if "i < length (ledger_bytes dir)" for i
    using assms that by (auto simp: map_le_def written_byte_def dom_def split: if_splits)
  then have "length (ledger_bytes dir) \<le> length (ledger_bytes dir')"
    using not_less by blast
  with same have "take (length (ledger_bytes dir)) (ledger_bytes dir') = ledger_bytes dir"
    by (intro nth_equalityI) auto
  then show ?thesis by (metis append_take_drop_id)
qed

text \<open>
  C6. The ledger is append-only: whatever imports are attempted, and whatever file system call
  fails on the way, the bytes of the ledger stay and new ones follow them. Temporary files that
  were there are not touched, and the imports leave at most as many behind as there are imports
  whose clean-up the file system refuses, so none when it refuses none.
\<close>

theorem ledger_append_only:
  "(\<exists>x. ledger_bytes (ledger_run ts sha codec ops dir) = ledger_bytes dir @ x)
 \<and> ld_temporaries dir \<subseteq>\<^sub>m ld_temporaries (ledger_run ts sha codec ops dir)
 \<and> new_temporaries dir (ledger_run ts sha codec ops dir) \<subseteq> {..<1024}
 \<and> card (new_temporaries dir (ledger_run ts sha codec ops dir)) \<le> length (filter clean_up_fails ops)"
proof -
  have "\<exists>x. ledger_bytes (ledger_run ts sha codec ops dir) = ledger_bytes dir @ x"
    unfolding ledger_run_ops by (rule written_prefix) (rule ledger_machine.run_keeps [OF map_le_refl])
  moreover have "ld_temporaries dir \<subseteq>\<^sub>m ld_temporaries (ledger_run ts sha codec ops dir)"
    unfolding ledger_run_ops by (rule ledger_machine.run_inv [OF map_le_refl])
  ultimately show ?thesis using run_temporaries by simp
qed

text \<open>
  C34. Exactly which files are ledgers: every non-empty line reads as a record, every record is
  valid, no identifier repeats, and in the order of the file the first record of an observation
  carries no link while every later one links to it.
\<close>

theorem ledger_parses_iff:
  "parse_existing_records ts codec bytes = Ok rs \<longleftrightarrow>
     map (line_record codec) (ledger_lines bytes) = map Some rs
   \<and> (\<forall>r \<in> set rs. validate_record ts r = Ok ())
   \<and> distinct (map kb_record_id rs)
   \<and> (\<forall>i < length rs. linked (take i rs) (rs ! i))"
  by (simp add: parse_existing_iff ledger_wf_def links_from_def)

section \<open>Reading back\<close>

text \<open>
  What the ledger has to gain: the findings that a person decided and whose identifier, the
  digest of manifest, finding and decision, no record of it has; and what the record of one says.
\<close>

definition finding_record_id :: "digest_fun \<Rightarrow> string \<Rightarrow> finding \<Rightarrow> string" where
  "finding_record_id sha b f = ''sf_kb_'' @ encode_hex (sha (record_text sha b f))"

definition unknown_findings ::
    "digest_fun \<Rightarrow> string \<Rightarrow> run_manifest \<Rightarrow> knowledge_record list \<Rightarrow> finding list" where
  "unknown_findings sha b m old =
     filter (\<lambda>f. hr_decision (fd_human_review f) \<noteq> DecisionPending
       \<and> finding_record_id sha b f \<notin> kb_record_id ` set old) (rm_findings m)"

definition record_of :: "digest_fun \<Rightarrow> string \<Rightarrow> source_license \<Rightarrow> finding \<Rightarrow> knowledge_record_v2 \<Rightarrow> bool" where
  "record_of sha b lic f q \<longleftrightarrow>
     kr_record_id q = finding_record_id sha b f \<and> kr_finding_id q = fd_finding_id f
   \<and> kr_decision q = hr_decision (fd_human_review f)
   \<and> kr_manifest_sha256 q = sha256_bytes sha b \<and> k2_source_license q = lic"

lemma record_id_text:
  "record_id sha (sha256_bytes sha b) (fd_finding_id f) (hr_decision (fd_human_review f)) =
     finding_record_id sha b f"
  by (simp add: record_id_def finding_record_id_def record_text_def hex_digest_def sha256_bytes_def)

lemma list_all2_filters:
  assumes "list_all2 P xs ys" and "\<And>x y. P x y \<Longrightarrow> f x \<longleftrightarrow> g y"
  shows "list_all2 P (filter f xs) (filter g ys)"
  using assms(1) by (induction rule: list_all2_induct) (auto simp: assms(2))

lemma import_reading:
  assumes imp: "import_manifest_to_ledger ts sha codec io b m lic dir = (Ok result, dir')"
    and codec: "codec_faithful codec" and sha: "digest_length sha"
    and inj: "inj_on sha (record_text sha b ` set (reviewed_findings m))"
  obtains rs old new where
    "collect_results (\<lambda>f. record_from_finding sha m (sha256_bytes sha b) f lic)
       (reviewed_findings m) = Inr rs"
    "new = linked_records old (kb_record_id ` set old) rs"
    "parse_existing_records ts codec (ledger_bytes dir) = Inr old"
    "parse_existing_records ts codec (ledger_bytes dir') = Inr (old @ map RecordV2 new)"
    "im_records_added result = length new" "im_records_skipped result + length new = length rs"
    "length rs = length (reviewed_findings m)" "ld_ledger dir' \<noteq> None"
    "length (ledger_bytes dir') \<le> MAX_LEDGER_BYTES"
    "list_all2 (record_of sha b lic) (unknown_findings sha b m old) new"
proof -
  from import_step [OF imp] obtain rs old new where
    m: "manifest_wf ts m" "license_wf lic" and
    rs: "collect_results (\<lambda>f. record_from_finding sha m (sha256_bytes sha b) f lic)
       (reviewed_findings m) = Inr rs" and
    ne: "rs \<noteq> []" and len: "length (ledger_bytes dir) \<le> MAX_LEDGER_BYTES" and
    old: "parse_existing_records ts codec (ledger_bytes dir) = Inr old" and
    new: "new = linked_records old (kb_record_id ` set old) rs" and
    lines: "\<forall>r \<in> set new. lc_line codec r \<noteq> None" and
    added: "im_records_added result = count_if (\<lambda>c. c = CHR 0x0A) (lines_of codec new)" and
    skipped: "im_records_skipped result = length rs - length new" and
    dir': "if new = [] then dir' = dir
      else dir' = dir\<lparr>ld_ledger := Some (line_terminated (ledger_bytes dir) @ lines_of codec new)\<rparr>
       \<and> length (line_terminated (ledger_bytes dir) @ lines_of codec new) \<le> MAX_LEDGER_BYTES"
    by metis
  note recs = imported_records [OF rs m sha inj]
  have wf: "ledger_wf ts old" and reads: "map (line_record codec) (ledger_lines (ledger_bytes dir)) = map Some old"
    using old by (simp_all add: parse_existing_iff)
  then have links: "links_ok old" and valid: "\<forall>r \<in> set old. validate_record ts r = Ok ()"
    and ids: "distinct (map kb_record_id old)"
    by (simp_all add: ledger_wf_def)
  have new_valid: "\<forall>q \<in> set new. record_v2_wf ts q"
    unfolding new by (rule linked_records_valid [OF valid recs(1,2)]) simp
  have version: "\<forall>q \<in> set new. lc_line codec q \<noteq> None \<and> k2_record_version q = RECORD_VERSION"
    using lines new_valid by (simp add: record_v2_wf_def)
  have "map kr_record_id new = filter (\<lambda>k. k \<notin> kb_record_id ` set old) (map kr_record_id rs)"
    unfolding new by (rule linked_records_ids)
  with recs(2) ids have dist: "distinct (map kb_record_id (old @ map RecordV2 new))"
    by (auto simp: comp_def)
  have "ledger_wf ts (old @ map RecordV2 new)"
    using valid new_valid dist links linked_records_links [OF links]
    by (auto simp: ledger_wf_def links_from_append new validate_record_v2_iff)
  moreover have "map (line_record codec) (ledger_lines (ledger_bytes dir')) = map Some (old @ map RecordV2 new)"
    using dir' reads ledger_lines_of [OF codec version]
    by (cases "new = []") (auto simp: ledger_bytes_def ledger_lines_terminated)
  ultimately have new_parse: "parse_existing_records ts codec (ledger_bytes dir') = Inr (old @ map RecordV2 new)"
    by (simp add: parse_existing_iff)
  have some: "ld_ledger dir' \<noteq> None"
  proof (cases "new = []")
    case True
    with ne linked_records_known [of old "kb_record_id ` set old" rs] new have "old \<noteq> []" by auto
    with True reads dir' show ?thesis by (auto simp: ledger_bytes_def split: option.splits)
  next
    case False
    with dir' show ?thesis by simp
  qed
  have origin: "list_all2 (record_of sha b lic) (unknown_findings sha b m old) new"
  proof -
    let ?E = "kb_record_id ` set old"
    from rs have from_findings: "list_all2 (\<lambda>f r. record_from_finding sha m (sha256_bytes sha b) f lic = Inr r)
        (reviewed_findings m) rs" by (simp add: collect_results_iff)
    then have "list_all2 (\<lambda>f r. record_from_finding sha m (sha256_bytes sha b) f lic = Inr r)
        (filter (\<lambda>f. finding_record_id sha b f \<notin> ?E) (reviewed_findings m))
        (filter (\<lambda>r. kr_record_id r \<notin> ?E) rs)"
      by (rule list_all2_filters) (simp add: record_fields(1) record_id_text)
    then have "list_all2 (\<lambda>f q. \<exists>r k. record_from_finding sha m (sha256_bytes sha b) f lic = Inr r
          \<and> q = r\<lparr>k2_duplicate_of_record_id := k\<rparr>)
        (filter (\<lambda>f. finding_record_id sha b f \<notin> ?E) (reviewed_findings m)) new"
      unfolding new by (rule list_all2_trans [OF _ _ linked_records_match, rotated]) blast
    then show ?thesis
      by (auto simp: unknown_findings_def reviewed_findings_def filter_filter record_of_def
          record_fields(1-4,7) record_id_text conj_commute elim!: list_all2_mono)
  qed
  show thesis
  proof (rule that [OF rs new old new_parse _ _ recs(4) some _ origin])
    show "im_records_added result = length new" using added count_lines_of [OF codec version] by simp
    show "im_records_skipped result + length new = length rs"
      using skipped linked_records_length [of old "kb_record_id ` set old" rs] new by simp
    show "length (ledger_bytes dir') \<le> MAX_LEDGER_BYTES"
      using dir' len by (cases "new = []") (simp_all add: ledger_bytes_def)
  qed
qed

text \<open>
  C17. What an import appends reads back, and it appends exactly what is missing: without digest
  collisions among the record identifiers, and when the JSON library reads what it writes, the new
  ledger parses to the old records followed by one record for each decided finding that the
  ledger has no record of, in the order of the manifest, with the finding's identifier and
  decision; the result counts them, and the other decided findings as skipped.
\<close>

theorem import_reads_back:
  assumes "import_manifest_to_ledger ts sha codec io b m lic dir = (Ok result, dir')"
    and "codec_faithful codec" and "digest_length sha"
    and "inj_on sha (record_text sha b ` set (reviewed_findings m))"
  shows "\<exists>old new. parse_existing_records ts codec (ledger_bytes dir) = Ok old
    \<and> parse_existing_records ts codec (ledger_bytes dir') = Ok (old @ map RecordV2 new)
    \<and> list_all2 (record_of sha b lic) (unknown_findings sha b m old) new
    \<and> im_records_added result = length (unknown_findings sha b m old)
    \<and> im_records_skipped result + length (unknown_findings sha b m old) = length (reviewed_findings m)"
proof -
  from import_reading [OF assms] obtain old new where
    "parse_existing_records ts codec (ledger_bytes dir) = Inr old"
    "parse_existing_records ts codec (ledger_bytes dir') = Inr (old @ map RecordV2 new)"
    "im_records_added result = length new"
    "im_records_skipped result + length new = length (reviewed_findings m)"
    and new: "list_all2 (record_of sha b lic) (unknown_findings sha b m old) new" by metis
  with list_all2_lengthD [OF new] show ?thesis by metis
qed

text \<open>
  Imports are idempotent: when the same manifest is imported again from a readable ledger,
  nothing is written, and the result reports every reviewed finding as skipped.
\<close>

theorem reimport_adds_nothing:
  assumes "import_manifest_to_ledger ts sha codec io b m lic dir = (Ok result, dir')"
    and "codec_faithful codec" and "digest_length sha"
    and "inj_on sha (record_text sha b ` set (reviewed_findings m))"
    and "io_metadata io' \<and> io_is_file io' \<and> io_read io'"
  shows "import_manifest_to_ledger ts sha codec io' b m lic dir' =
    (Ok \<lparr>im_manifest_sha256 = sha256_bytes sha b, im_records_added = 0,
         im_records_skipped = length (reviewed_findings m), im_duplicates_linked = 0\<rparr>, dir')"
proof -
  from import_reading [OF assms(1-4)] obtain rs old new where
    rs: "collect_results (\<lambda>f. record_from_finding sha m (sha256_bytes sha b) f lic)
       (reviewed_findings m) = Inr rs" and
    new: "new = linked_records old (kb_record_id ` set old) rs" and
    parse: "parse_existing_records ts codec (ledger_bytes dir') = Inr (old @ map RecordV2 new)" and
    len: "length rs = length (reviewed_findings m)" and some: "ld_ledger dir' \<noteq> None" and
    small: "length (ledger_bytes dir') \<le> MAX_LEDGER_BYTES"
    by metis
  from import_step [OF assms(1)] rs have m: "manifest_wf ts m" "license_wf lic" and ne: "rs \<noteq> []"
    by (metis Inr_inject)+
  have none: "\<forall>r \<in> set rs. k2_duplicate_of_record_id r = None"
    by (rule imported_records(3) [OF rs m assms(3,4)])
  let ?all = "old @ map RecordV2 new"
  have "kr_record_id ` set rs \<subseteq> kb_record_id ` set ?all"
  proof -
    have "set (map kr_record_id new) = set (filter (\<lambda>k. k \<notin> kb_record_id ` set old) (map kr_record_id rs))"
      unfolding new linked_records_ids ..
    then show ?thesis by (auto simp: image_Un image_image)
  qed
  then have known: "linked_records ?all (kb_record_id ` set ?all) rs = []"
    by (simp only: linked_records_known)
  have app: "append_records codec (kb_record_id ` set ?all) (canonical_by_observation ?all) rs ([], 0, 0)
      = Inr ([], length rs, 0)"
    unfolding append_records_iff [OF none] known by (simp add: lines_of_def)
  have read: "read_optional_bounded io' (ld_ledger dir') = Inr (ledger_bytes dir')"
    using some small assms(5)
    by (auto simp: read_optional_bounded_def read_with_metadata_def ledger_bytes_def)
  have "prepare_import ts sha codec io' (sha256_bytes sha b) m lic (ld_ledger dir')
      = Inr (ledger_bytes dir', [], length rs, 0)"
    unfolding prepare_import_def using m ne rs read parse app by (simp add: ok_iff)
  then show ?thesis by (simp add: import_manifest_to_ledger_def len)
qed

section \<open>A first import\<close>

definition decided_review :: human_review where
  "decided_review = \<lparr>hr_decision = DecisionValidated, hr_reviewer = Some ''Ann'',
     hr_reviewed_at = Some T1, hr_rationale = Some ''ok'', hr_evidence_reference = None\<rparr>"

definition decided_manifest :: run_manifest where
  "decided_manifest = sample_manifest [one_finding\<lparr>fd_human_review := decided_review\<rparr>]"

definition open_license :: source_license where
  "open_license = \<lparr>sl_status = LicenseUnknown, sl_spdx_expression = None,
     sl_evidence_sha256 = None, sl_assertion = ''operator-declared''\<rparr>"

definition first_record :: knowledge_record_v2 where
  "first_record =
     projr (record_from_finding zero_sha decided_manifest (sha256_bytes zero_sha [])
       (one_finding\<lparr>fd_human_review := decided_review\<rparr>) open_license)"

definition one_line_codec :: ledger_codec where
  "one_line_codec = \<lparr>
     lc_value = (\<lambda>_. Some (JObject [(''record_version'', JString RECORD_VERSION)])),
     lc_v1 = (\<lambda>_. None), lc_v2 = (\<lambda>_. Some first_record),
     lc_line = (\<lambda>r. if r = first_record then Some ''x'' else None)\<rparr>"

definition working_io :: ledger_io where
  "working_io = \<lparr>io_metadata = True, io_is_file = True, io_read = True, io_create_dir = True,
     io_create = (\<lambda>_. True), io_write = None, io_rename = True, io_remove = True\<rparr>"

definition no_ledger :: ledger_dir where
  "no_ledger = \<lparr>ld_ledger = None, ld_temporaries = (\<lambda>_. None)\<rparr>"

lemma decided_manifest_wf: "manifest_wf sample_ts decided_manifest"
proof -
  have c: "candidate_wf one_finding" "ai_validation_wf (fd_ai_validation one_finding)"
    using one_finding_wf [of sample_ts] unfolding finding_wf_def by blast+
  have "candidate_wf (one_finding\<lparr>fd_human_review := decided_review\<rparr>)"
    using c(1) unfolding candidate_wf_def by simp
  moreover have "human_review_wf sample_ts decided_review"
    by (simp add: human_review_wf_def decided_review_def string_simps byte_def)
  ultimately show ?thesis
    unfolding decided_manifest_def using c(2)
    by (intro sample_manifest_wf) (simp_all add: finding_wf_def)
qed

lemma open_license_wf: "license_wf open_license"
  by (simp add: license_wf_def open_license_def)

lemma decided_findings:
  "reviewed_findings decided_manifest = [one_finding\<lparr>fd_human_review := decided_review\<rparr>]"
  by (simp add: reviewed_findings_def decided_manifest_def decided_review_def)

lemma first_record_from:
  "record_from_finding zero_sha decided_manifest (sha256_bytes zero_sha [])
     (one_finding\<lparr>fd_human_review := decided_review\<rparr>) open_license = Ok first_record"
proof -
  have "visible_text (Some ''Ann'') = Some ''Ann''" "visible_text (Some T1) = Some T1"
    "visible_text (Some ''ok'') = Some ''ok''"
    by (simp_all add: visible_text_def T1_def string_simps byte_def)
  then have "\<exists>r. record_from_finding zero_sha decided_manifest (sha256_bytes zero_sha [])
     (one_finding\<lparr>fd_human_review := decided_review\<rparr>) open_license = Ok r"
    by (simp add: record_from_finding_def Let_def decided_review_def)
  then show ?thesis by (auto simp: first_record_def)
qed

lemma first_record_wf: "record_v2_wf sample_ts first_record"
  by (rule record_wf [OF first_record_from decided_manifest_wf _ open_license_wf])
     (simp_all add: decided_manifest_def sha256_bytes_wf)

lemma one_line_faithful: "codec_faithful one_line_codec"
  by (auto simp: codec_faithful_def one_line_codec_def line_record_def parse_line_def Let_def
      json_get_str_def RECORD_VERSION_def RECORD_VERSION_V1_def split: if_splits)

lemma first_import:
  "import_manifest_to_ledger sample_ts zero_sha one_line_codec working_io [] decided_manifest
     open_license no_ledger
   = (Ok \<lparr>im_manifest_sha256 = sha256_bytes zero_sha [], im_records_added = 1,
          im_records_skipped = 0, im_duplicates_linked = 0\<rparr>,
      no_ledger\<lparr>ld_ledger := Some (''x'' @ [CHR 0x0A])\<rparr>)"
proof -
  have parse: "parse_existing_records sample_ts one_line_codec [] = Inr []"
    by (simp add: parse_existing_records_def)
  have line: "lc_line one_line_codec first_record = Some ''x''" by (simp add: one_line_codec_def)
  have valid: "validate_manifest sample_ts decided_manifest = Inr ()"
    "validate_source_license open_license = Inr ()"
    using decided_manifest_wf open_license_wf by (simp_all add: validate_manifest_wf validate_source_license_iff)
  have "prepare_import sample_ts zero_sha one_line_codec working_io (sha256_bytes zero_sha [])
      decided_manifest open_license (ld_ledger no_ledger) = Inr ([], ''x'' @ [CHR 0x0A], 0, 0)"
    unfolding prepare_import_def valid
    by (simp add: decided_findings first_record_from parse line read_optional_bounded_def
        working_io_def no_ledger_def)
  moreover have "write_atomic working_io (''x'' @ [CHR 0x0A]) no_ledger
      = (Ok (), no_ledger\<lparr>ld_ledger := Some (''x'' @ [CHR 0x0A])\<rparr>)"
    by (simp add: write_atomic_def MAX_LEDGER_BYTES_def working_io_def no_ledger_def
        upt_conv_Cons [of 0 1024] Let_def fun_upd_idem)
  ultimately show ?thesis
    by (simp add: import_manifest_to_ledger_def Let_def count_if_def)
qed

lemma zero_sha_one_text:
  "inj_on zero_sha (record_text zero_sha [] ` set (reviewed_findings decided_manifest))"
  by (simp add: decided_findings)

theorem ledger_parses_iff_witness:
  "parse_existing_records sample_ts one_line_codec ''x'' = Ok [RecordV2 first_record]"
proof -
  have "line_record one_line_codec ''x'' = Some (RecordV2 first_record)"
    using one_line_faithful record_fields(5) [OF first_record_from]
    by (auto simp: codec_faithful_def one_line_codec_def split: if_splits)
  then show ?thesis
    using first_record_wf record_fields(6) [OF first_record_from]
    by (simp add: ledger_parses_iff ledger_lines_def validate_record_v2_iff)
qed

theorem import_reads_back_witness:
  "\<exists>r. parse_existing_records sample_ts one_line_codec (''x'' @ [CHR 0x0A]) = Ok [RecordV2 r]
     \<and> kr_finding_id r = fd_finding_id one_finding \<and> kr_decision r = DecisionValidated"
proof -
  have none: "parse_existing_records sample_ts one_line_codec (ledger_bytes no_ledger) = Ok []"
    by (simp add: ledger_bytes_def no_ledger_def parse_existing_records_def)
  have "unknown_findings zero_sha [] decided_manifest [] = reviewed_findings decided_manifest"
    by (simp add: unknown_findings_def reviewed_findings_def)
  then have "unknown_findings zero_sha [] decided_manifest [] = [one_finding\<lparr>fd_human_review := decided_review\<rparr>]"
    by (simp add: decided_findings)
  with import_reads_back [OF first_import one_line_faithful zero_sha_length zero_sha_one_text] none show ?thesis
    by (auto simp: ledger_bytes_def list_all2_Cons1 record_of_def decided_review_def)
qed

theorem reimport_adds_nothing_witness:
  "import_manifest_to_ledger sample_ts zero_sha one_line_codec working_io [] decided_manifest
     open_license (no_ledger\<lparr>ld_ledger := Some (''x'' @ [CHR 0x0A])\<rparr>)
   = (Ok \<lparr>im_manifest_sha256 = sha256_bytes zero_sha [], im_records_added = 0,
          im_records_skipped = 1, im_duplicates_linked = 0\<rparr>,
      no_ledger\<lparr>ld_ledger := Some (''x'' @ [CHR 0x0A])\<rparr>)"
proof -
  have "io_metadata working_io \<and> io_is_file working_io \<and> io_read working_io"
    by (simp add: working_io_def)
  from reimport_adds_nothing [OF first_import one_line_faithful zero_sha_length zero_sha_one_text this]
  show ?thesis by (simp add: decided_findings)
qed

section \<open>Fingerprints of observations\<close>

text \<open>
  A fingerprint hashes a list of fields, each with its length before it. So the list can be read
  back from the hashed bytes, whatever the fields contain.
\<close>

definition location_fields :: "location \<Rightarrow> string list" where
  "location_fields l = [loc_path l, show_word (loc_start_line l), show_word (loc_start_column l),
     show_word (case loc_end_line l of None \<Rightarrow> 0 | Some v \<Rightarrow> v),
     show_word (case loc_end_column l of None \<Rightarrow> 0 | Some v \<Rightarrow> v)]"

definition step_fields :: "evidence_step \<Rightarrow> string list" where
  "step_fields s = evidence_kind_label (es_kind s) # location_fields (es_location s) @ [es_description s]"

definition observation_fields :: "run_manifest \<Rightarrow> finding \<Rightarrow> string list" where
  "observation_fields m f =
     [''secureflow-observation-v1'', tg_root_sha256 (rm_target m), en_name (rm_engine m), fd_rule_id f,
      case fd_engine_fingerprint f of None \<Rightarrow> fd_finding_id f | Some v \<Rightarrow> v]
     @ location_fields (fd_source_location f) @ location_fields (fd_sink_location f)
     @ [fd_invariant f] @ concat (map step_fields (fd_evidence_path f))"

lemma hash_field_fields: "hash_field (hashed_fields vs) v = hashed_fields (vs @ [v])"
  by (simp add: hash_field_def hashed_fields_def field_bytes_def)

lemma hash_location_fields:
  "hash_location (hashed_fields vs) l = hashed_fields (vs @ location_fields l)"
  by (simp add: hash_location_def hash_field_fields location_fields_def)

lemma hash_step_fields: "hash_step (hashed_fields vs) s = hashed_fields (vs @ step_fields s)"
  by (simp add: hash_step_def hash_field_fields hash_location_fields step_fields_def)

lemma hash_steps_fields:
  "foldl hash_step (hashed_fields vs) ss = hashed_fields (vs @ concat (map step_fields ss))"
  by (induction ss arbitrary: vs) (simp_all add: hash_step_fields)

lemma fingerprint_fields:
  "observation_fingerprint sha m f = ''sf_obs_'' @ hex_digest (sha (hashed_fields (observation_fields m f)))"
  unfolding observation_fingerprint_def Let_def
  by (simp add: hash_field_fields [of "[]", unfolded hashed_fields_def [of "[]"], simplified]
      hash_field_fields hash_location_fields hash_steps_fields observation_fields_def)

text \<open>What a fingerprint stands for.\<close>

definition place_of :: "location \<Rightarrow> string \<times> u32 \<times> u32 \<times> u32 option \<times> u32 option" where
  "place_of l = (loc_path l, loc_start_line l, loc_start_column l, loc_end_line l, loc_end_column l)"

definition observation_of ::
    "run_manifest \<Rightarrow> finding \<Rightarrow> string list
     \<times> (string \<times> u32 \<times> u32 \<times> u32 option \<times> u32 option) list
     \<times> (evidence_kind \<times> (string \<times> u32 \<times> u32 \<times> u32 option \<times> u32 option) \<times> string) list" where
  "observation_of m f =
     ([tg_root_sha256 (rm_target m), en_name (rm_engine m), fd_rule_id f,
       case fd_engine_fingerprint f of None \<Rightarrow> fd_finding_id f | Some v \<Rightarrow> v, fd_invariant f],
      [place_of (fd_source_location f), place_of (fd_sink_location f)],
      map (\<lambda>s. (es_kind s, place_of (es_location s), es_description s)) (fd_evidence_path f))"

lemma evidence_kind_label_inj: "evidence_kind_label a = evidence_kind_label b \<longleftrightarrow> a = b"
  by (cases a; cases b) simp_all

lemma or_default_inj:
  "x \<noteq> Some (0 :: u32) \<Longrightarrow> y \<noteq> Some 0 \<Longrightarrow>
     (case x of None \<Rightarrow> 0 | Some v \<Rightarrow> v) = (case y of None \<Rightarrow> 0 | Some v \<Rightarrow> v) \<longleftrightarrow> x = y"
  by (cases x; cases y) auto

lemma location_fields_inj:
  "place_wf a \<Longrightarrow> place_wf b \<Longrightarrow> location_fields a = location_fields b \<longleftrightarrow> place_of a = place_of b"
  by (auto simp: location_fields_def place_of_def show_word_inj place_wf_def or_default_inj)

lemma step_fields_length [simp]: "length (step_fields s) = 7"
  by (simp add: step_fields_def location_fields_def)

lemma location_fields_length [simp]: "length (location_fields l) = 5"
  by (simp add: location_fields_def)

lemma step_fields_inj:
  "place_wf (es_location s) \<Longrightarrow> place_wf (es_location t) \<Longrightarrow>
     step_fields s = step_fields t \<longleftrightarrow>
       (es_kind s, place_of (es_location s), es_description s)
     = (es_kind t, place_of (es_location t), es_description t)"
  by (auto simp: step_fields_def evidence_kind_label_inj location_fields_inj)

lemma steps_fields_inj:
  "\<forall>s \<in> set ss \<union> set us. place_wf (es_location s) \<Longrightarrow>
     concat (map step_fields ss) = concat (map step_fields us) \<longleftrightarrow>
       map (\<lambda>s. (es_kind s, place_of (es_location s), es_description s)) ss
     = map (\<lambda>s. (es_kind s, place_of (es_location s), es_description s)) us"
proof (induction ss arbitrary: us)
  case Nil
  then show ?case by (cases us) (auto dest: arg_cong [of _ _ length])
next
  case (Cons s ss)
  show ?case
  proof (cases us)
    case Nil
    then show ?thesis by (auto dest: arg_cong [of _ _ length])
  next
    case (Cons u us')
    with Cons.prems Cons.IH [of us'] step_fields_inj [of s u] show ?thesis
      by (simp add: append_eq_append_conv)
  qed
qed

lemma candidate_places:
  assumes "candidate_wf f"
  shows "place_wf (fd_source_location f)" "place_wf (fd_sink_location f)"
    "\<forall>s \<in> set (fd_evidence_path f). place_wf (es_location s)"
  using assms by (auto simp: candidate_wf_def step_wf_def place_of_location)

lemma observation_fields_inj:
  assumes "candidate_wf f" and "candidate_wf g"
  shows "observation_fields m f = observation_fields n g \<longleftrightarrow> observation_of m f = observation_of n g"
proof -
  have "\<forall>s \<in> set (fd_evidence_path f) \<union> set (fd_evidence_path g). place_wf (es_location s)"
    using candidate_places(3) [OF assms(1)] candidate_places(3) [OF assms(2)] by blast
  note steps = steps_fields_inj [OF this]
  show ?thesis
    using candidate_places(1,2) [OF assms(1)] candidate_places(1,2) [OF assms(2)]
    by (simp add: observation_fields_def observation_of_def location_fields_inj steps
        append_eq_append_conv) blast
qed

text \<open>
  C37. Fingerprints are exact: without a collision of the digest, two valid findings have the same
  observation fingerprint exactly when they agree in target, engine, rule, engine fingerprint (or
  identifier), invariant, lines and columns of source and sink, and every step of the evidence;
  byte offsets, titles and severities do not matter. The lengths are those of real strings.
\<close>

theorem fingerprint_exact:
  assumes "candidate_wf f" and "candidate_wf g"
    and "\<forall>v \<in> set (observation_fields m f) \<union> set (observation_fields n g). length v < 2 ^ 64"
    and "inj_on sha {hashed_fields (observation_fields m f), hashed_fields (observation_fields n g)}"
  shows "observation_fingerprint sha m f = observation_fingerprint sha n g \<longleftrightarrow>
    observation_of m f = observation_of n g"
proof -
  let ?b = "\<lambda>m f. hashed_fields (observation_fields m f)"
  have "observation_fingerprint sha m f = observation_fingerprint sha n g \<longleftrightarrow> sha (?b m f) = sha (?b n g)"
    unfolding fingerprint_fields hex_digest_def using hex.id_inj [of "''sf_obs_''" sha] by metis
  also have "\<dots> \<longleftrightarrow> observation_fields m f = observation_fields n g"
    using inj_onD [OF assms(4), of "?b m f" "?b n g"] hashed_fields_inj [OF assms(3)] by auto
  also have "\<dots> \<longleftrightarrow> observation_of m f = observation_of n g"
    by (rule observation_fields_inj [OF assms(1,2)])
  finally show ?thesis .
qed

theorem fingerprint_exact_witness:
  "observation_fingerprint (\<lambda>x. x) one_manifest one_finding
     = observation_fingerprint (\<lambda>x. x) one_manifest (one_finding\<lparr>fd_severity := Some SevHigh\<rparr>)
 \<and> observation_fingerprint (\<lambda>x. x) one_manifest one_finding
     \<noteq> observation_fingerprint (\<lambda>x. x) one_manifest (one_finding\<lparr>fd_rule_id := ''s''\<rparr>)"
proof -
  have c: "candidate_wf one_finding"
    using one_finding_wf [of sample_ts] unfolding finding_wf_def by blast
  then have high: "candidate_wf (one_finding\<lparr>fd_severity := Some SevHigh\<rparr>)"
    unfolding candidate_wf_def by simp
  have "text_wf 100 ''s''" by (simp add: string_simps)
  with c have rule: "candidate_wf (one_finding\<lparr>fd_rule_id := ''s''\<rparr>)"
    unfolding candidate_wf_def by simp
  have "list_all (\<lambda>v. length v < 2 ^ 64) (location_fields sample_location)"
    by (simp add: location_fields_def sample_location_def show_word_def show_nat.simps [of 0]
        show_nat.simps [of "Suc 0"])
  then have "list_all (\<lambda>v. length v < 2 ^ 64) (observation_fields one_manifest f)"
    if "f = sample_finding CHR ''0'' ''a'' r sev" "length r < 10" for f r sev
    using that
    by (simp add: observation_fields_def step_fields_def one_manifest_def sample_manifest_def
        sample_target_def sample_engine_def zero_hash_def sample_finding_def)
  then have short: "\<forall>v \<in> set (observation_fields one_manifest f). length v < 2 ^ 64"
    if "f = sample_finding CHR ''0'' ''a'' r sev" "length r < 10" for f r sev
    using that by (simp add: list_all_iff)
  have shapes: "one_finding = sample_finding CHR ''0'' ''a'' ''r'' None"
    "one_finding\<lparr>fd_severity := Some SevHigh\<rparr> = sample_finding CHR ''0'' ''a'' ''r'' (Some SevHigh)"
    "one_finding\<lparr>fd_rule_id := ''s''\<rparr> = sample_finding CHR ''0'' ''a'' ''s'' None"
    by (simp_all add: one_finding_def sample_finding_def)
  have fields: "\<forall>v \<in> set (observation_fields one_manifest one_finding)
        \<union> set (observation_fields one_manifest (one_finding\<lparr>fd_severity := Some SevHigh\<rparr>)). length v < 2 ^ 64"
    "\<forall>v \<in> set (observation_fields one_manifest one_finding)
        \<union> set (observation_fields one_manifest (one_finding\<lparr>fd_rule_id := ''s''\<rparr>)). length v < 2 ^ 64"
    using short [OF shapes(1)] short [OF shapes(2)] short [OF shapes(3)] by auto
  have inj: "inj_on (\<lambda>x :: string. x) A" for A by simp
  have "observation_of one_manifest one_finding
      = observation_of one_manifest (one_finding\<lparr>fd_severity := Some SevHigh\<rparr>)"
    "observation_of one_manifest one_finding
      \<noteq> observation_of one_manifest (one_finding\<lparr>fd_rule_id := ''s''\<rparr>)"
    by (simp_all add: observation_of_def one_finding_def sample_finding_def)
  then show ?thesis
    using fingerprint_exact [OF c high fields(1) inj] fingerprint_exact [OF c rule fields(2) inj]
    by simp
qed

end
