(* ===== verification/SortedMap.thy ===== *)
theory SortedMap
  imports Prelude
begin

text \<open>
  \<open>BTreeMap\<close>: the entries in the order of their keys, each key once. It is the map type of the
  catalog trust state and, without the feature \<open>preserve_order\<close>, of the objects of \<open>serde_json\<close>.
  \<open>get\<close> is \<open>map_of\<close>, \<open>len\<close> is \<open>length\<close>, and iteration goes through the list.
\<close>

type_synonym ('k, 'v) btree_map = "('k \<times> 'v) list"

fun bt_insert :: "'k::linorder \<Rightarrow> 'v \<Rightarrow> ('k, 'v) btree_map \<Rightarrow> ('k, 'v) btree_map" where
  "bt_insert k v [] = [(k, v)]"
| "bt_insert k v ((k', v') # m) =
     (if k < k' then (k, v) # (k', v') # m
      else if k = k' then (k, v) # m
      else (k', v') # bt_insert k v m)"

definition bt_contains :: "'k \<Rightarrow> ('k, 'v) btree_map \<Rightarrow> bool" where
  "bt_contains k m = (map_of m k \<noteq> None)"

definition bt_wf :: "('k::linorder, 'v) btree_map \<Rightarrow> bool" where
  "bt_wf m = strictly_increasing (map fst m)"

text \<open>\<open>collect()\<close> into a map: the entries are inserted one after the other.\<close>

definition bt_collect :: "('k::linorder \<times> 'v) list \<Rightarrow> ('k, 'v) btree_map" where
  "bt_collect es = foldl (\<lambda>m (k, v). bt_insert k v m) [] es"

lemma map_of_bt_insert [simp]: "map_of (bt_insert k v m) = (map_of m)(k \<mapsto> v)"
  by (induction m) (auto simp: fun_eq_iff)

lemma fst_bt_insert: "fst ` set (bt_insert k v m) = insert k (fst ` set m)"
  by (simp add: dom_map_of_conv_image_fst [symmetric])

lemma set_bt_insert: "set (bt_insert k v m) \<subseteq> insert (k, v) (set m)"
  by (induction m) (auto split: if_splits)

lemma bt_wf_Nil [simp]: "bt_wf []"
  by (simp add: bt_wf_def strictly_increasing_iff)

lemma bt_wf_Cons: "bt_wf ((k, v) # m) \<longleftrightarrow> bt_wf m \<and> (\<forall>e \<in> set m. k < fst e)"
  by (auto simp: bt_wf_def strictly_increasing_iff less_le)

lemma bt_wf_insert [simp]: "bt_wf m \<Longrightarrow> bt_wf (bt_insert k v m)"
proof (induction m)
  case (Cons e m)
  obtain k' v' where e: "e = (k', v')" by (cases e)
  have "\<forall>e \<in> set m. k' < fst e" and "bt_wf m" using Cons.prems e by (simp_all add: bt_wf_Cons)
  moreover have "\<forall>e \<in> set (bt_insert k v m). fst e = k \<or> fst e \<in> fst ` set m"
    using fst_bt_insert [of k v m] by auto
  ultimately show ?case using Cons.IH e by (fastforce simp: bt_wf_Cons not_less le_less)
qed (simp add: bt_wf_Cons)

lemma bt_wf_distinct: "bt_wf m \<Longrightarrow> distinct (map fst m)"
  by (simp add: bt_wf_def strictly_increasing_iff)

lemma bt_get_iff: "bt_wf m \<Longrightarrow> map_of m k = Some v \<longleftrightarrow> (k, v) \<in> set m"
  using bt_wf_distinct map_of_eq_Some_iff by fastforce

lemma bt_contains_iff: "bt_contains k m \<longleftrightarrow> k \<in> fst ` set m"
  by (auto simp: bt_contains_def map_of_eq_None_iff)

text \<open>Two maps with the same entries are the same list.\<close>

lemma bt_entries: "bt_wf m \<Longrightarrow> m = map (\<lambda>k. (k, the (map_of m k))) (map fst m)"
proof -
  assume wf: "bt_wf m"
  have "(\<lambda>k. (k, the (map_of m k))) (fst e) = e" if "e \<in> set m" for e
    using bt_get_iff [OF wf, of "fst e" "snd e"] that by simp
  then show ?thesis by (simp add: map_idI)
qed

lemma bt_map_of_inj:
  assumes "bt_wf m" and "bt_wf n" and "map_of m = map_of n"
  shows "m = n"
proof -
  have "set (map fst m) = set (map fst n)"
    using assms(3) by (metis dom_map_of_conv_image_fst set_map)
  then have "map fst m = map fst n"
    using assms(1,2) strictly_increasing_unique unfolding bt_wf_def by blast
  then show ?thesis using bt_entries [OF assms(1)] bt_entries [OF assms(2)] assms(3) by metis
qed

lemma bt_wf_collect: "bt_wf (bt_collect es)"
proof -
  have "bt_wf m \<Longrightarrow> bt_wf (foldl (\<lambda>m (k, v). bt_insert k v m) m es)" for m
    by (induction es arbitrary: m) auto
  then show ?thesis by (simp add: bt_collect_def)
qed

lemma set_bt_collect: "set (bt_collect es) \<subseteq> set es"
proof -
  have "set (foldl (\<lambda>m (k, v). bt_insert k v m) m es) \<subseteq> set m \<union> set es" for m :: "('a, 'b) btree_map"
  proof (induction es arbitrary: m)
    case (Cons e es)
    obtain k v where e: "e = (k, v)" by (cases e)
    show ?case using Cons.IH [of "bt_insert k v m"] set_bt_insert [of k v m] e by auto
  qed simp
  then show ?thesis unfolding bt_collect_def by fastforce
qed

end
