(* ===== verification/TrustWire.thy ===== *)
theory TrustWire
  imports SortedMap
begin

text \<open>
  \<open>crates/secureflow-knowledge/src/catalog_trust/wire.rs\<close> with \<open>require\<close> and \<open>parse_time\<close> of
  \<open>mod.rs\<close>: the strict JSON profile of the trust metadata, the envelope of a signed role, the
  local profile of a root and the strict count of signers.

  Errors are the codes of \<open>TrustError\<close>; their message texts are left out. The tokens of a JSON
  text (\<open>serde_json\<close>), SHA-256, the canonical form (\<open>Pouf1\<close> of the crate \<open>tuf\<close>), Ed25519
  (\<open>ed25519_dalek\<close>) and RFC 3339 (\<open>chrono\<close>) are the parameters of \<open>wire_env\<close>.
\<close>

section \<open>Errors and parameters\<close>

datatype trust_code =
  TRUST_FORMAT
| TRUST_SIGNATURE
| TRUST_SCOPE
| TRUST_CLOCK
| TRUST_BOOTSTRAP
| TRUST_EXPIRY
| TRUST_ROLLBACK
| TRUST_EQUIVOCATION
| TRUST_INTEGRITY
| TRUST_STATE
| TRUST_FILESYSTEM

definition require :: "bool \<Rightarrow> trust_code \<Rightarrow> trust_code + unit" where
  "require good code = fail_if (\<not> good) code"

lemma require_Inr_iff [ok_iff]: "require good code = Inr u \<longleftrightarrow> good"
  by (simp add: require_def ok_iff)

lemma require_simps [simp]:
  "require True code = Inr ()"
  "require False code = Inl code"
  by (simp_all add: require_def)

text \<open>What the deserializer reports of a JSON text: unsigned and negative integers, floats and the rest.\<close>

datatype raw_json =
  RNull
| RBool bool
| RU64 u64
| RI64 u64
| RFloat
| RString string
| RArray "raw_json list"
| RObject "(string \<times> raw_json) list"

datatype jvalue =
  VNull
| VBool bool
| VNum int
| VStr string
| VArr "jvalue list"
| VObj "(string, jvalue) btree_map"

record wire_env =
  we_json :: "string \<Rightarrow> raw_json option"
  we_sha :: digest_fun
  we_canonical :: "jvalue \<Rightarrow> string option"
  we_key_ok :: "string \<Rightarrow> bool"
  we_key_weak :: "string \<Rightarrow> bool"
  we_key_compress :: "string \<Rightarrow> string"
  we_verify_strict :: "string \<Rightarrow> string \<Rightarrow> string \<Rightarrow> bool"
  we_rfc3339 :: "string \<Rightarrow> (int \<times> nat \<times> int) option"

definition MAX_SEQUENCE :: nat where
  "MAX_SEQUENCE = 9007199254740991"

definition U32_MAX :: nat where
  "U32_MAX = 4294967295"

definition ROLES :: "string list" where
  "ROLES = [''root'', ''targets'', ''snapshot'', ''timestamp'']"

definition LIMITS :: "nat list" where
  "LIMITS = [65536, 2097152, 262144, 16384]"

definition wire_digest :: "('z) wire_env_scheme \<Rightarrow> string \<Rightarrow> string" where
  "wire_digest env bytes = encode_hex (we_sha env bytes)"

definition wire_canonical :: "('z) wire_env_scheme \<Rightarrow> jvalue \<Rightarrow> trust_code + string" where
  "wire_canonical env v = ok_or (we_canonical env v) TRUST_FORMAT"

text \<open>\<open>parse_time\<close> returns the seconds since the epoch; \<open>chrono\<close> gives seconds, nanoseconds and offset.\<close>

definition parse_time :: "('z) wire_env_scheme \<Rightarrow> string \<Rightarrow> trust_code + int" where
  "parse_time env s =
     and_then (require (length s = 20 \<and> s ! 10 = CHR ''T'' \<and> ends_with ''Z'' s) TRUST_CLOCK) (\<lambda>_.
     and_then (ok_or (we_rfc3339 env s) TRUST_CLOCK) (\<lambda>(seconds, nanos, off).
     and_then (require (nanos = 0 \<and> off = 0) TRUST_CLOCK) (\<lambda>_. Ok seconds)))"

section \<open>Values\<close>

fun vget :: "string \<Rightarrow> jvalue \<Rightarrow> jvalue option" where
  "vget k (VObj m) = map_of m k"
| "vget k _ = None"

definition vindex :: "jvalue \<Rightarrow> string \<Rightarrow> jvalue" where
  "vindex v k = (case vget k v of None \<Rightarrow> VNull | Some w \<Rightarrow> w)"

text \<open>\<open>v["a"]["b"]\<close> is \<open>vpath v [''a'', ''b'']\<close>: a missing member reads as null.\<close>

definition vpath :: "jvalue \<Rightarrow> string list \<Rightarrow> jvalue" where
  "vpath v ks = foldl vindex v ks"

fun value_str :: "jvalue \<Rightarrow> string option" where
  "value_str (VStr s) = Some s"
| "value_str _ = None"

fun value_u64 :: "jvalue \<Rightarrow> nat option" where
  "value_u64 (VNum n) = (if 0 \<le> n then Some (nat n) else None)"
| "value_u64 _ = None"

fun value_array :: "jvalue \<Rightarrow> jvalue list option" where
  "value_array (VArr vs) = Some vs"
| "value_array _ = None"

fun value_object :: "jvalue \<Rightarrow> (string, jvalue) btree_map option" where
  "value_object (VObj m) = Some m"
| "value_object _ = None"

definition wire_string :: "jvalue \<Rightarrow> string \<Rightarrow> trust_code + string" where
  "wire_string v k = ok_or (Option.bind (vget k v) value_str) TRUST_FORMAT"

definition wire_number :: "jvalue \<Rightarrow> string \<Rightarrow> nat \<Rightarrow> trust_code + nat" where
  "wire_number v k limit =
     and_then (ok_or (Option.bind (vget k v) value_u64) TRUST_FORMAT) (\<lambda>n.
     and_then (require (0 < n \<and> n \<le> limit) TRUST_FORMAT) (\<lambda>_. Ok n))"

definition wire_identifier :: "string \<Rightarrow> bool" where
  "wire_identifier s =
     (s \<noteq> [] \<and> length s \<le> 64 \<and> is_alnum (s ! 0) \<and>
      list_all (\<lambda>b. is_lower b \<or> is_digit b \<or> b = CHR ''-'') s)"

definition closed :: "jvalue \<Rightarrow> string list \<Rightarrow> trust_code + unit" where
  "closed v names =
     and_then (ok_or (value_object v) TRUST_FORMAT) (\<lambda>m.
       require (length m = length names \<and> list_all (\<lambda>k. bt_contains k m) names) TRUST_FORMAT)"

text \<open>\<open>hex::<N>\<close>: the bytes that \<open>2 N\<close> lower-case hexadecimal digits stand for.\<close>

definition hex_value :: "char \<Rightarrow> nat" where
  "hex_value c = (if is_digit c then byte c - 48 else byte c - 87)"

fun hex_bytes :: "string \<Rightarrow> string" where
  "hex_bytes (a # b # s) = char_of (16 * hex_value a + hex_value b) # hex_bytes s"
| "hex_bytes _ = []"

definition wire_hex :: "nat \<Rightarrow> string \<Rightarrow> trust_code + string" where
  "wire_hex n s =
     and_then (require (length s = n * 2 \<and> list_all is_lower_hex s) TRUST_FORMAT)
       (\<lambda>_. Ok (hex_bytes s))"

text \<open>\<open>hex::<N>(string(v, k)?)\<close> and \<open>parse_time(string(v, "expires")?)\<close>.\<close>

definition wire_hex_at :: "nat \<Rightarrow> jvalue \<Rightarrow> string \<Rightarrow> trust_code + string" where
  "wire_hex_at n v k = and_then (wire_string v k) (wire_hex n)"

definition expires_at :: "('z) wire_env_scheme \<Rightarrow> jvalue \<Rightarrow> trust_code + int" where
  "expires_at env v = and_then (wire_string v ''expires'') (parse_time env)"

section \<open>The strict profile\<close>

text \<open>
  \<open>Strict(depth)\<close>: the seed refuses a depth beyond 32; the visitor refuses floats, integers that
  a double does not hold exactly, and a member name that the object already has.
\<close>

definition visit_i64 :: "u64 \<Rightarrow> trust_code + jvalue" where
  "visit_i64 n = (if MAX_SEQUENCE < nat \<bar>sint n\<bar> then Err TRUST_FORMAT else Ok (VNum (sint n)))"

definition visit_u64 :: "u64 \<Rightarrow> trust_code + jvalue" where
  "visit_u64 n = (if MAX_SEQUENCE < unat n then Err TRUST_FORMAT else Ok (VNum (uint n)))"

fun strict :: "nat \<Rightarrow> raw_json \<Rightarrow> trust_code + jvalue"
and strict_seq :: "nat \<Rightarrow> raw_json list \<Rightarrow> trust_code + jvalue list"
and strict_map ::
  "nat \<Rightarrow> (string, jvalue) btree_map \<Rightarrow> (string \<times> raw_json) list \<Rightarrow>
     trust_code + (string, jvalue) btree_map" where
  "strict depth v =
     (if 32 < depth then Err TRUST_FORMAT
      else (case v of
              RNull \<Rightarrow> Ok VNull
            | RBool b \<Rightarrow> Ok (VBool b)
            | RU64 n \<Rightarrow> visit_u64 n
            | RI64 n \<Rightarrow> visit_i64 n
            | RFloat \<Rightarrow> Err TRUST_FORMAT
            | RString s \<Rightarrow> Ok (VStr s)
            | RArray vs \<Rightarrow> and_then (strict_seq depth vs) (\<lambda>out. Ok (VArr out))
            | RObject es \<Rightarrow> and_then (strict_map depth [] es) (\<lambda>out. Ok (VObj out))))"
| "strict_seq depth [] = Ok []"
| "strict_seq depth (v # vs) =
     and_then (strict (depth + 1) v) (\<lambda>w. and_then (strict_seq depth vs) (\<lambda>ws. Ok (w # ws)))"
| "strict_map depth out [] = Ok out"
| "strict_map depth out ((k, v) # es) =
     (if bt_contains k out then Err TRUST_FORMAT
      else and_then (strict (depth + 1) v) (\<lambda>w. strict_map depth (bt_insert k w out) es))"

definition wire_parse :: "('z) wire_env_scheme \<Rightarrow> string \<Rightarrow> nat \<Rightarrow> trust_code + jvalue" where
  "wire_parse env bytes limit =
     and_then (require (length bytes \<le> limit) TRUST_FORMAT) (\<lambda>_.
     and_then (ok_or (we_json env bytes) TRUST_FORMAT) (strict 0))"

section \<open>Signed roles\<close>

definition has_c0 :: "string \<Rightarrow> bool" where
  "has_c0 s = list_ex (\<lambda>c. byte c < 32) s"

fun metadata_strings :: "jvalue \<Rightarrow> trust_code + unit"
and metadata_items :: "jvalue list \<Rightarrow> trust_code + unit"
and metadata_members :: "(string \<times> jvalue) list \<Rightarrow> trust_code + unit" where
  "metadata_strings v =
     (case v of
        VStr s \<Rightarrow> require (\<not> has_c0 s) TRUST_FORMAT
      | VArr vs \<Rightarrow> metadata_items vs
      | VObj m \<Rightarrow> metadata_members m
      | _ \<Rightarrow> Ok ())"
| "metadata_items [] = Ok ()"
| "metadata_items (v # vs) = and_then (metadata_strings v) (\<lambda>_. metadata_items vs)"
| "metadata_members [] = Ok ()"
| "metadata_members ((k, v) # es) =
     and_then (require (\<not> has_c0 k) TRUST_FORMAT) (\<lambda>_.
     and_then (metadata_strings v) (\<lambda>_. metadata_members es))"

text \<open>The loop over the signatures of an envelope, with the key identifiers already seen.\<close>

fun envelope_signatures :: "string list \<Rightarrow> jvalue list \<Rightarrow> trust_code + unit" where
  "envelope_signatures seen [] = Ok ()"
| "envelope_signatures seen (s # ss) =
     and_then (closed s [''keyid'', ''sig'']) (\<lambda>_.
     and_then (wire_string s ''keyid'') (\<lambda>key.
     and_then (wire_hex 32 key) (\<lambda>_.
     and_then (wire_hex_at 64 s ''sig'') (\<lambda>_.
     and_then (require (key \<notin> set seen) TRUST_SIGNATURE) (\<lambda>_.
       envelope_signatures (key # seen) ss)))))"

definition envelope_header :: "('z) wire_env_scheme \<Rightarrow> string \<Rightarrow> jvalue \<Rightarrow> trust_code + unit" where
  "envelope_header env role s =
     and_then (wire_string s ''_type'') (\<lambda>kind.
     and_then (if kind = role then and_then (wire_string s ''spec_version'') (\<lambda>spec. Ok (spec = ''1.0.0''))
               else Ok False) (\<lambda>good.
     and_then (require good TRUST_FORMAT) (\<lambda>_.
     and_then (wire_number s ''version'' U32_MAX) (\<lambda>_.
     and_then (expires_at env s) (\<lambda>_.
       require (vget ''critical'' s = None \<and> vget ''delegations'' s = None) TRUST_FORMAT)))))"

definition envelope :: "('z) wire_env_scheme \<Rightarrow> string \<Rightarrow> string \<Rightarrow> trust_code + jvalue" where
  "envelope env bytes role =
     and_then (ok_or (position (\<lambda>r. r = role) ROLES) TRUST_FORMAT) (\<lambda>i.
     and_then (wire_parse env bytes (LIMITS ! i)) (\<lambda>v.
     and_then (closed v [''signed'', ''signatures'']) (\<lambda>_.
     and_then (metadata_strings v) (\<lambda>_.
     and_then (envelope_header env role (vindex v ''signed'')) (\<lambda>_.
     and_then (ok_or (value_array (vindex v ''signatures'')) TRUST_FORMAT) (\<lambda>sigs.
     and_then (require (length sigs \<le> 32) TRUST_FORMAT) (\<lambda>_.
     and_then (envelope_signatures [] sigs) (\<lambda>_. Ok v))))))))"

text \<open>
  \<open>root_profile\<close>: only strong Ed25519 keys under their own digest, each public key once; four
  roles with the local quorum, each key in exactly one role.
\<close>

fun root_keys :: "('z) wire_env_scheme \<Rightarrow> string list \<Rightarrow> (string \<times> jvalue) list \<Rightarrow> trust_code + unit" where
  "root_keys env publics [] = Ok ()"
| "root_keys env publics ((key_id, k) # keys) =
     and_then (closed k [''keytype'', ''scheme'', ''keyval'']) (\<lambda>_.
     and_then (closed (vindex k ''keyval'') [''public'']) (\<lambda>_.
     and_then (require (vindex k ''keytype'' = VStr ''ed25519'' \<and> vindex k ''scheme'' = VStr ''ed25519'')
                 TRUST_SIGNATURE) (\<lambda>_.
     and_then (wire_hex_at 32 (vindex k ''keyval'') ''public'') (\<lambda>public.
     and_then (require (we_key_ok env public) TRUST_SIGNATURE) (\<lambda>_.
     and_then (require (\<not> we_key_weak env public \<and> we_key_compress env public = public \<and>
                        public \<notin> set publics) TRUST_SIGNATURE) (\<lambda>_.
     and_then (wire_canonical env k) (\<lambda>form.
     and_then (require (wire_digest env form = key_id) TRUST_SIGNATURE) (\<lambda>_.
       root_keys env (public # publics) keys))))))))"

fun root_role_ids ::
  "(string, jvalue) btree_map \<Rightarrow> string list \<Rightarrow> jvalue list \<Rightarrow> trust_code + string list" where
  "root_role_ids keys assigned [] = Ok assigned"
| "root_role_ids keys assigned (v # vs) =
     and_then (ok_or (value_str v) TRUST_FORMAT) (\<lambda>key_id.
     and_then (require (bt_contains key_id keys \<and> key_id \<notin> set assigned) TRUST_SIGNATURE) (\<lambda>_.
       root_role_ids keys (key_id # assigned) vs))"

definition quorum_floor :: "nat \<Rightarrow> nat" where
  "quorum_floor i = (if i < 2 then 2 else 1)"

definition custody_floor :: "nat \<Rightarrow> nat" where
  "custody_floor i = (if i < 2 then 3 else 2)"

fun root_roles ::
  "(string, jvalue) btree_map \<Rightarrow> jvalue \<Rightarrow> string list \<Rightarrow> (nat \<times> string) list \<Rightarrow>
     trust_code + string list" where
  "root_roles keys roles assigned [] = Ok assigned"
| "root_roles keys roles assigned ((i, role) # rs) =
     (let r = vindex roles role in
      and_then (closed r [''threshold'', ''keyids'']) (\<lambda>_.
      and_then (wire_number r ''threshold'' 32) (\<lambda>threshold.
      and_then (ok_or (value_array (vindex r ''keyids'')) TRUST_FORMAT) (\<lambda>ids.
      and_then (require (quorum_floor i \<le> threshold \<and> threshold \<le> length ids \<and>
                         custody_floor i \<le> length ids) TRUST_SIGNATURE) (\<lambda>_.
      and_then (root_role_ids keys assigned ids) (\<lambda>assigned'.
        root_roles keys roles assigned' rs))))))"

definition root_profile :: "('z) wire_env_scheme \<Rightarrow> jvalue \<Rightarrow> trust_code + unit" where
  "root_profile env root =
     (let s = vindex root ''signed'' in
      and_then (require (vindex s ''consistent_snapshot'' = VBool True) TRUST_FORMAT) (\<lambda>_.
      and_then (ok_or (value_object (vindex s ''keys'')) TRUST_FORMAT) (\<lambda>keys.
      and_then (require (length keys \<le> 32) TRUST_FORMAT) (\<lambda>_.
      and_then (closed (vindex s ''roles'') ROLES) (\<lambda>_.
      and_then (root_keys env [] keys) (\<lambda>_.
      and_then (root_roles keys (vindex s ''roles'') [] (enumerate 0 ROLES)) (\<lambda>assigned.
        require (length assigned = length keys) TRUST_SIGNATURE)))))))"

text \<open>The loop of \<open>strict_signers\<close>: the listed keys whose signature verifies, in the order of the file.\<close>

fun valid_signers ::
  "('z) wire_env_scheme \<Rightarrow> jvalue \<Rightarrow> jvalue list \<Rightarrow> string \<Rightarrow> jvalue list \<Rightarrow> trust_code + string list" where
  "valid_signers env keys ids preimage [] = Ok []"
| "valid_signers env keys ids preimage (s # ss) =
     and_then (wire_string s ''keyid'') (\<lambda>key_id.
       if VStr key_id \<notin> set ids then valid_signers env keys ids preimage ss
       else
         and_then (wire_hex_at 32 (vpath keys [key_id, ''keyval'']) ''public'') (\<lambda>public.
         and_then (require (we_key_ok env public) TRUST_SIGNATURE) (\<lambda>_.
         and_then (wire_hex_at 64 s ''sig'') (\<lambda>sig.
         and_then (valid_signers env keys ids preimage ss) (\<lambda>accepted.
           Ok (if we_verify_strict env public preimage sig then key_id # accepted else accepted))))))"

definition strict_signers ::
  "('z) wire_env_scheme \<Rightarrow> jvalue \<Rightarrow> jvalue \<Rightarrow> string \<Rightarrow> trust_code + string list" where
  "strict_signers env root metadata role =
     and_then (ok_or (value_array (vpath root [''signed'', ''roles'', role, ''keyids''])) TRUST_SIGNATURE) (\<lambda>ids.
     and_then (wire_number (vpath root [''signed'', ''roles'', role]) ''threshold'' 32) (\<lambda>threshold.
     and_then (wire_canonical env (vindex metadata ''signed'')) (\<lambda>preimage.
     and_then (ok_or (value_array (vindex metadata ''signatures'')) TRUST_FORMAT) (\<lambda>sigs.
     and_then (valid_signers env (vpath root [''signed'', ''keys'']) ids preimage sigs) (\<lambda>accepted.
     and_then (require (threshold \<le> length accepted) TRUST_SIGNATURE) (\<lambda>_.
       Ok (sort accepted)))))))"

end
