(* ===== verification/CatalogBundle.thy ===== *)
theory CatalogBundle
  imports MachineInts Json
begin

text \<open>
  Catalog distribution bundles: the manifest of
  \<open>crates/secureflow-knowledge/src/catalog_bundle.rs\<close> with the descriptors of \<open>catalog.rs\<close> it
  contains, its validation, the verification policy, decompression, and the publication of a
  verified database. SQLite, Zstandard, JSON and the file system are parameters: what they
  answer is given by \<open>bundle_env\<close>, \<open>opened_bundle\<close>, \<open>database_view\<close> and \<open>publish_io\<close>.
\<close>

section \<open>Data\<close>

definition BUNDLE_VERSION :: string where
  "BUNDLE_VERSION = ''secureflow-catalog-bundle-v1''"

definition CATALOG_PROFILE_POLICY_VERSION :: string where
  "CATALOG_PROFILE_POLICY_VERSION = ''secureflow-catalog-profile-policy-v2''"

definition CATALOG_APPLICATION_ID :: u32 where
  "CATALOG_APPLICATION_ID = 0x53464b42"

definition CATALOG_SCHEMA_VERSION :: u32 where
  "CATALOG_SCHEMA_VERSION = 3"

definition MAX_BUNDLE_MANIFEST_BYTES :: nat where
  "MAX_BUNDLE_MANIFEST_BYTES = 2 * 1024 * 1024"

definition MAX_BUNDLE_COMPRESSED_BYTES :: u64 where
  "MAX_BUNDLE_COMPRESSED_BYTES = 8 * 1024 * 1024 * 1024"

definition MAX_BUNDLE_DATABASE_BYTES :: u64 where
  "MAX_BUNDLE_DATABASE_BYTES = 16 * 1024 * 1024 * 1024"

definition MAX_BUNDLE_COMPRESSION_RATIO :: u64 where
  "MAX_BUNDLE_COMPRESSION_RATIO = 1000"

definition COMPRESSION_RATIO_SLACK :: u64 where
  "COMPRESSION_RATIO_SLACK = 16 * 1024 * 1024"

definition ZSTD_LEVEL :: int where
  "ZSTD_LEVEL = 3"

definition VALIDATION_AUTHORITY :: string where
  "VALIDATION_AUTHORITY = ''external-records-require-human-validation''"

definition AUTHENTICITY :: string where
  "AUTHENTICITY = ''unsigned-manifest-requires-external-sha256''"

datatype catalog_profile = ProfileCore | ProfileMalicious | ProfileFull

fun profile_name :: "catalog_profile \<Rightarrow> string" where
  "profile_name ProfileCore = ''core''"
| "profile_name ProfileMalicious = ''malicious''"
| "profile_name ProfileFull = ''full''"

datatype catalog_bundle_derivation = ByteExactOnlineBackup | CurrentRecordProjectionV1

record catalog_stats =
  cs_schema_version :: u32
  cs_sources :: u64
  cs_canonical_vulnerabilities :: u64
  cs_active_canonical_vulnerabilities :: u64
  cs_source_records :: u64
  cs_active_source_records :: u64
  cs_inactive_source_records :: u64
  cs_source_record_revisions :: u64
  cs_snapshots :: u64
  cs_deltas :: u64
  cs_complete_deltas :: u64
  cs_identifiers :: u64
  cs_relationships :: u64
  cs_affected_packages :: u64
  cs_references :: u64
  cs_raw_revision_bytes :: u64
  cs_database_bytes :: u64
  cs_search_index_status :: string

record catalog_integrity =
  ci_quick_check :: string
  ci_foreign_key_violations :: u64
  ci_search_index_status :: string

record catalog_provenance =
  cp_schema_version :: u32
  cp_complete_snapshot_ids :: "string list"
  cp_complete_delta_ids :: "string list"
  cp_canonicalization :: string
  cp_last_canonical_rebuild_id :: "string option"

record catalog_composition_source =
  so_name :: string
  so_license_expression :: string
  so_license_evidence_sha256 :: string
  so_locator :: string
  so_active_advisory_records :: u64
  so_active_malicious_package_records :: u64
  so_active_unclassified_records :: u64

record catalog_composition =
  cc_policy_version :: string
  cc_active_advisory_records :: u64
  cc_active_malicious_package_records :: u64
  cc_active_unclassified_records :: u64
  cc_inactive_records :: u64
  cc_sources :: "catalog_composition_source list"

record catalog_database_descriptor =
  cd_database_sha256 :: string
  cd_database_bytes :: u64
  cd_application_id :: u32
  cd_schema_version :: u32
  cd_stats :: catalog_stats
  cd_integrity :: catalog_integrity
  cd_provenance :: catalog_provenance
  cd_composition :: catalog_composition

record catalog_bundle_compression =
  bz_algorithm :: string
  bz_level :: int
  bz_checksum :: bool
  bz_content_size :: bool
  bz_single_frame :: bool

record catalog_bundle_manifest =
  bm_contract_version :: string
  bm_bundle_id :: string
  bm_created_at :: string
  bm_profile :: catalog_profile
  bm_profile_policy_version :: string
  bm_derivation :: catalog_bundle_derivation
  bm_compression :: catalog_bundle_compression
  bm_compressed_sha256 :: string
  bm_compressed_bytes :: u64
  bm_payload :: catalog_database_descriptor
  bm_origin :: catalog_database_descriptor
  bm_validation_authority :: string
  bm_authenticity :: string

record parsed_catalog_bundle_manifest =
  pm_manifest :: catalog_bundle_manifest
  pm_manifest_sha256 :: string

record catalog_bundle_verification_policy =
  vp_required_profile :: "catalog_profile option"
  vp_expected_manifest_sha256 :: "string option"
  vp_allow_unverified_manifest :: bool
  vp_max_compressed_bytes :: u64
  vp_max_database_bytes :: u64

definition default_policy :: catalog_bundle_verification_policy where
  "default_policy =
     \<lparr>vp_required_profile = None, vp_expected_manifest_sha256 = None,
      vp_allow_unverified_manifest = False, vp_max_compressed_bytes = MAX_BUNDLE_COMPRESSED_BYTES,
      vp_max_database_bytes = MAX_BUNDLE_DATABASE_BYTES\<rparr>"

datatype catalog_bundle_authenticity = BundleUnverified | ManifestSha256Pinned

record catalog_bundle_verification =
  bv_bundle_id :: string
  bv_profile :: catalog_profile
  bv_compressed_bytes :: u64
  bv_database_bytes :: u64
  bv_manifest_sha256 :: string
  bv_integrity :: string
  bv_authenticity :: catalog_bundle_authenticity

datatype bundle_error =
  BundleInvalidField string
| BundleFilesystem
| CompressedSizeMismatch
| CompressedHashMismatch
| DatabaseSizeMismatch
| DatabaseHashMismatch
| ManifestHashMismatch
| ManifestAuthenticityRequired
| ProfileMismatch
| TrailingData
| BundleCatalog
| BundleJson

record bundle_env =
  bn_sha :: digest_fun
  bn_rfc3339 :: "string \<Rightarrow> bool"
  bn_json :: "string \<Rightarrow> json option"
  bn_manifest_of :: "json \<Rightarrow> catalog_bundle_manifest option"
  bn_to_vec :: "catalog_bundle_manifest \<Rightarrow> string option"

section \<open>Sources and their declared profile\<close>

datatype recognized_source_kind =
  GithubAdvisoryDatabase
| RustsecAdvisoryDatabase
| OpenssfMaliciousPackages
| PypaAdvisoryDatabase
| GoVulnerabilityDatabase

fun kind_profile :: "recognized_source_kind \<Rightarrow> catalog_profile" where
  "kind_profile OpenssfMaliciousPackages = ProfileMalicious"
| "kind_profile _ = ProfileCore"

definition declares ::
  "catalog_composition_source \<Rightarrow> string \<Rightarrow> string \<Rightarrow> string \<Rightarrow> bool" where
  "declares s pfx licence locator =
     (starts_with pfx (so_name s) \<and> length pfx < length (so_name s) \<and>
      so_license_expression s = licence \<and> so_locator s = locator)"

definition recognized_source_profile ::
  "catalog_composition_source \<Rightarrow> recognized_source_kind option" where
  "recognized_source_profile s =
     (let github = declares s ''github-advisory-database@'' ''CC-BY-4.0''
                     ''https://github.com/github/advisory-database'';
          rustsec_cc0 = declares s ''rustsec-advisory-db-cc0@'' ''CC0-1.0''
                     ''https://github.com/RustSec/advisory-db'';
          rustsec_cc_by = declares s ''rustsec-advisory-db-cc-by@'' ''CC-BY-4.0''
                     ''https://github.com/RustSec/advisory-db'';
          malicious = declares s ''openssf-malicious-packages@'' ''Apache-2.0''
                     ''https://github.com/ossf/malicious-packages'';
          pypa = declares s ''pypa-advisory-database@'' ''CC-BY-4.0''
                     ''https://github.com/pypa/advisory-database'';
          go = declares s ''go-vulnerability-database@'' ''CC-BY-4.0''
                     ''https://github.com/golang/vulndb''
      in if github \<or> rustsec_cc0 \<or> rustsec_cc_by \<or> pypa \<or> go
         then (if github then Some GithubAdvisoryDatabase
               else if pypa then Some PypaAdvisoryDatabase
               else if go then Some GoVulnerabilityDatabase
               else Some RustsecAdvisoryDatabase)
         else if malicious then Some OpenssfMaliciousPackages
         else None)"

definition declared_profile :: "catalog_composition_source \<Rightarrow> catalog_profile option" where
  "declared_profile s = map_option kind_profile (recognized_source_profile s)"

definition active_records :: "catalog_composition \<Rightarrow> u64" where
  "active_records c =
     saturating_add (saturating_add (cc_active_advisory_records c)
       (cc_active_malicious_package_records c)) (cc_active_unclassified_records c)"

section \<open>Validation of a manifest\<close>

definition bd_valid_sha256 :: "string \<Rightarrow> bool" where
  "bd_valid_sha256 value \<longleftrightarrow> length value = 64 \<and> list_all is_lower_hex value"

definition bd_sha256_bytes :: "digest_fun \<Rightarrow> string \<Rightarrow> string" where
  "bd_sha256_bytes sha bytes = encode_hex (sha bytes)"

definition calculate_bundle_id ::
  "digest_fun \<Rightarrow> catalog_profile \<Rightarrow> string \<Rightarrow> string \<Rightarrow> string \<Rightarrow> string" where
  "calculate_bundle_id sha profile compressed_sha256 database_sha256 origin_sha256 =
     ''sf_catalog_bundle_'' @ encode_hex (sha (hashed_fields
       [''secureflow-catalog-bundle-id-v1'', profile_name profile, compressed_sha256,
        database_sha256, origin_sha256]))"

text \<open>The condition under which \<open>validate_composition\<close> refuses one source, and its loop with the running sums.\<close>

definition source_refused :: "string option \<Rightarrow> catalog_composition_source \<Rightarrow> bool" where
  "source_refused previous s =
     (trim_is_empty (so_name s) \<or> 500 < chars_count (so_name s) \<or>
      trim_is_empty (so_license_expression s) \<or> 500 < chars_count (so_license_expression s) \<or>
      trim_is_empty (so_locator s) \<or> 4096 < chars_count (so_locator s) \<or>
      \<not> bd_valid_sha256 (so_license_evidence_sha256 s) \<or>
      has_control (so_name s) \<or> has_control (so_license_expression s) \<or> has_control (so_locator s) \<or>
      saturating_add (saturating_add (so_active_advisory_records s)
        (so_active_malicious_package_records s)) (so_active_unclassified_records s) = 0 \<or>
      (case previous of None \<Rightarrow> False | Some p \<Rightarrow> so_name s \<le> p))"

fun validate_sources ::
  "string option \<Rightarrow> string list \<Rightarrow> u64 \<times> u64 \<times> u64 \<Rightarrow> catalog_composition_source list \<Rightarrow>
     bundle_error + u64 \<times> u64 \<times> u64" where
  "validate_sources previous names totals [] = Ok totals"
| "validate_sources previous names (advisory, malicious, unclassified) (s # ss) =
     (if source_refused previous s \<or> so_name s \<in> set names
      then Err (BundleInvalidField ''composition source'')
      else validate_sources (Some (so_name s)) (so_name s # names)
             (saturating_add advisory (so_active_advisory_records s),
              saturating_add malicious (so_active_malicious_package_records s),
              saturating_add unclassified (so_active_unclassified_records s)) ss)"

definition validate_composition :: "catalog_composition \<Rightarrow> bundle_error + unit" where
  "validate_composition c =
     and_then (fail_if (10000 < length (cc_sources c)) (BundleInvalidField ''composition sources'')) (\<lambda>_.
     and_then (validate_sources None [] (0, 0, 0) (cc_sources c)) (\<lambda>(advisory, malicious, unclassified).
       fail_if (advisory \<noteq> cc_active_advisory_records c \<or>
                malicious \<noteq> cc_active_malicious_package_records c \<or>
                unclassified \<noteq> cc_active_unclassified_records c)
         (BundleInvalidField ''composition accounting'')))"

definition validate_database_descriptor ::
  "catalog_database_descriptor \<Rightarrow> u64 \<Rightarrow> bundle_error + unit" where
  "validate_database_descriptor d maximum_bytes =
     checks
       [fail_if (\<not> bd_valid_sha256 (cd_database_sha256 d)) (BundleInvalidField ''database SHA-256''),
        fail_if (cd_database_bytes d = 0 \<or> maximum_bytes < cd_database_bytes d)
          (BundleInvalidField ''database byte size''),
        fail_if (cd_application_id d \<noteq> CATALOG_APPLICATION_ID)
          (BundleInvalidField ''database application ID''),
        fail_if (cd_schema_version d < 2 \<or> CATALOG_SCHEMA_VERSION < cd_schema_version d \<or>
                 cs_schema_version (cd_stats d) \<noteq> cd_schema_version d \<or>
                 cp_schema_version (cd_provenance d) \<noteq> cd_schema_version d)
          (BundleInvalidField ''database schema version''),
        fail_if (cs_database_bytes (cd_stats d) \<noteq> cd_database_bytes d)
          (BundleInvalidField ''database statistics byte size''),
        fail_if (ci_quick_check (cd_integrity d) \<noteq> ''ok'' \<or>
                 ci_foreign_key_violations (cd_integrity d) \<noteq> 0 \<or>
                 ci_search_index_status (cd_integrity d) \<noteq> ''ready'' \<or>
                 cs_search_index_status (cd_stats d) \<noteq> ''ready'')
          (BundleInvalidField ''database integrity''),
        fail_if (cc_policy_version (cd_composition d) \<noteq> CATALOG_PROFILE_POLICY_VERSION)
          (BundleInvalidField ''composition policy''),
        fail_if (active_records (cd_composition d) \<noteq> cs_active_source_records (cd_stats d) \<or>
                 cc_inactive_records (cd_composition d) \<noteq> cs_inactive_source_records (cd_stats d) \<or>
                 saturating_add (active_records (cd_composition d))
                   (cc_inactive_records (cd_composition d)) \<noteq> cs_source_records (cd_stats d))
          (BundleInvalidField ''composition record accounting''),
        validate_composition (cd_composition d)]"

text \<open>\<open>projection_matches_origin\<close>: the payload holds exactly the origin's sources of the profile.\<close>

definition source_is_consistent :: "catalog_composition_source \<Rightarrow> bool" where
  "source_is_consistent s =
     (case declared_profile s of
        Some ProfileCore \<Rightarrow>
          so_active_advisory_records s \<noteq> 0 \<and> so_active_malicious_package_records s = 0 \<and>
          so_active_unclassified_records s = 0
      | Some ProfileMalicious \<Rightarrow>
          so_active_advisory_records s = 0 \<and> so_active_malicious_package_records s \<noteq> 0 \<and>
          so_active_unclassified_records s = 0
      | _ \<Rightarrow> False)"

definition projected_source ::
  "catalog_profile \<Rightarrow> catalog_composition_source \<Rightarrow> catalog_composition_source" where
  "projected_source profile s =
     \<lparr>so_name = so_name s, so_license_expression = so_license_expression s,
      so_license_evidence_sha256 = so_license_evidence_sha256 s, so_locator = so_locator s,
      so_active_advisory_records = (if profile = ProfileCore then so_active_advisory_records s else 0),
      so_active_malicious_package_records =
        (if profile = ProfileMalicious then so_active_malicious_package_records s else 0),
      so_active_unclassified_records = 0\<rparr>"

fun expected_sources ::
  "catalog_profile \<Rightarrow> catalog_composition_source list \<Rightarrow> catalog_composition_source list option" where
  "expected_sources profile [] = Some []"
| "expected_sources profile (s # ss) =
     (if \<not> source_is_consistent s then None
      else if declared_profile s = Some profile
      then map_option ((#) (projected_source profile s)) (expected_sources profile ss)
      else expected_sources profile ss)"

definition projection_matches_origin ::
  "catalog_profile \<Rightarrow> catalog_composition \<Rightarrow> catalog_composition \<Rightarrow> bool" where
  "projection_matches_origin profile payload origin =
     (case profile of
        ProfileFull \<Rightarrow> False
      | _ \<Rightarrow>
          active_records payload
            = (if profile = ProfileCore then cc_active_advisory_records origin
               else cc_active_malicious_package_records origin) \<and>
          expected_sources profile (cc_sources origin) = Some (cc_sources payload))"

definition validate_profile ::
  "catalog_profile \<Rightarrow> catalog_bundle_derivation \<Rightarrow> catalog_database_descriptor \<Rightarrow>
     catalog_database_descriptor \<Rightarrow> bundle_error + unit" where
  "validate_profile profile derivation payload origin =
     (case profile of
        ProfileFull \<Rightarrow>
          fail_if (derivation \<noteq> ByteExactOnlineBackup \<or> payload \<noteq> origin)
            (BundleInvalidField ''full profile'')
      | _ \<Rightarrow>
          (let c = cd_composition payload;
               expected =
                 (if profile = ProfileCore
                  then cc_active_advisory_records c \<noteq> 0 \<and> cc_active_malicious_package_records c = 0
                  else cc_active_advisory_records c = 0 \<and> cc_active_malicious_package_records c \<noteq> 0)
           in fail_if
                (derivation \<noteq> CurrentRecordProjectionV1 \<or> \<not> expected \<or>
                 cc_active_unclassified_records c \<noteq> 0 \<or> cc_inactive_records c \<noteq> 0 \<or>
                 cs_source_records (cd_stats payload) \<noteq> cs_source_record_revisions (cd_stats payload) \<or>
                 cs_snapshots (cd_stats payload) \<noteq> 0 \<or> cs_deltas (cd_stats payload) \<noteq> 0 \<or>
                 cs_complete_deltas (cd_stats payload) \<noteq> 0 \<or>
                 cp_complete_snapshot_ids (cd_provenance payload) \<noteq> [] \<or>
                 cp_complete_delta_ids (cd_provenance payload) \<noteq> [] \<or>
                 cc_active_unclassified_records (cd_composition origin) \<noteq> 0 \<or>
                 \<not> projection_matches_origin profile c (cd_composition origin))
                (BundleInvalidField ''projected profile'')))"

definition saturating_mul :: "u64 \<Rightarrow> u64 \<Rightarrow> u64" where
  "saturating_mul a b = (if unat a * unat b < 2 ^ 64 then a * b else - 1)"

definition manifest_refused :: "bundle_env \<Rightarrow> catalog_bundle_manifest \<Rightarrow> bool" where
  "manifest_refused env m =
     (bm_contract_version m \<noteq> BUNDLE_VERSION \<or>
      bm_profile_policy_version m \<noteq> CATALOG_PROFILE_POLICY_VERSION \<or>
      bz_algorithm (bm_compression m) \<noteq> ''zstd'' \<or> bz_level (bm_compression m) \<noteq> ZSTD_LEVEL \<or>
      \<not> bz_checksum (bm_compression m) \<or> \<not> bz_content_size (bm_compression m) \<or>
      \<not> bz_single_frame (bm_compression m) \<or> \<not> bd_valid_sha256 (bm_compressed_sha256 m) \<or>
      bm_compressed_bytes m = 0 \<or> MAX_BUNDLE_COMPRESSED_BYTES < bm_compressed_bytes m \<or>
      saturating_add (saturating_mul (bm_compressed_bytes m) MAX_BUNDLE_COMPRESSION_RATIO)
        COMPRESSION_RATIO_SLACK < cd_database_bytes (bm_payload m) \<or>
      \<not> bn_rfc3339 env (bm_created_at m) \<or>
      bm_validation_authority m \<noteq> VALIDATION_AUTHORITY \<or> bm_authenticity m \<noteq> AUTHENTICITY)"

definition validate_bundle_manifest :: "bundle_env \<Rightarrow> catalog_bundle_manifest \<Rightarrow> bundle_error + unit" where
  "validate_bundle_manifest env m =
     checks
       [fail_if (manifest_refused env m) (BundleInvalidField ''manifest''),
        validate_database_descriptor (bm_payload m) MAX_BUNDLE_DATABASE_BYTES,
        validate_database_descriptor (bm_origin m) MAX_BUNDLE_DATABASE_BYTES,
        validate_profile (bm_profile m) (bm_derivation m) (bm_payload m) (bm_origin m),
        fail_if (bm_bundle_id m \<noteq> calculate_bundle_id (bn_sha env) (bm_profile m) (bm_compressed_sha256 m)
                   (cd_database_sha256 (bm_payload m)) (cd_database_sha256 (bm_origin m)))
          (BundleInvalidField ''bundle_id''),
        and_then (ok_or (bn_to_vec env m) BundleJson) (\<lambda>bytes.
          fail_if (MAX_BUNDLE_MANIFEST_BYTES < length bytes) (BundleInvalidField ''manifest size''))]"

fun json_has_key :: "string \<Rightarrow> json \<Rightarrow> bool" where
  "json_has_key key (JObject members) = (map_of members key \<noteq> None)"
| "json_has_key key _ = False"

definition stats_named :: "json \<Rightarrow> string \<Rightarrow> bundle_error + unit" where
  "stats_named value descriptor_name =
     (case Option.bind (json_get descriptor_name value) (json_get ''stats'') of
        Some (JObject members) \<Rightarrow>
          fail_if (\<not> json_has_key ''deltas'' (JObject members) \<or>
                   \<not> json_has_key ''complete_deltas'' (JObject members))
            (BundleInvalidField ''manifest database statistics fields'')
      | _ \<Rightarrow> Err (BundleInvalidField ''manifest database statistics''))"

definition parse_manifest :: "bundle_env \<Rightarrow> string \<Rightarrow> bundle_error + parsed_catalog_bundle_manifest" where
  "parse_manifest env bytes =
     and_then (fail_if (bytes = [] \<or> MAX_BUNDLE_MANIFEST_BYTES < length bytes)
                 (BundleInvalidField ''manifest size'')) (\<lambda>_.
     and_then (ok_or (bn_json env bytes) BundleJson) (\<lambda>value.
     and_then (each (stats_named value) [''payload'', ''origin'']) (\<lambda>_.
     and_then (ok_or (bn_manifest_of env value) BundleJson) (\<lambda>manifest.
     and_then (validate_bundle_manifest env manifest) (\<lambda>_.
       Ok \<lparr>pm_manifest = manifest, pm_manifest_sha256 = bd_sha256_bytes (bn_sha env) bytes\<rparr>)))))"

definition validate_policy ::
  "bundle_env \<Rightarrow> parsed_catalog_bundle_manifest \<Rightarrow> catalog_bundle_verification_policy \<Rightarrow>
     bundle_error + catalog_bundle_authenticity" where
  "validate_policy env parsed policy =
     and_then (validate_bundle_manifest env (pm_manifest parsed)) (\<lambda>_.
     and_then (fail_if
       (vp_max_compressed_bytes policy = 0 \<or>
        MAX_BUNDLE_COMPRESSED_BYTES < vp_max_compressed_bytes policy \<or>
        vp_max_database_bytes policy = 0 \<or>
        MAX_BUNDLE_DATABASE_BYTES < vp_max_database_bytes policy \<or>
        vp_max_compressed_bytes policy < bm_compressed_bytes (pm_manifest parsed) \<or>
        vp_max_database_bytes policy < cd_database_bytes (bm_payload (pm_manifest parsed)))
       (BundleInvalidField ''verification policy'')) (\<lambda>_.
     and_then (fail_if
       (case vp_required_profile policy of
          None \<Rightarrow> False | Some r \<Rightarrow> r \<noteq> bm_profile (pm_manifest parsed)) ProfileMismatch) (\<lambda>_.
       (case vp_expected_manifest_sha256 policy of
          None \<Rightarrow> Ok BundleUnverified
        | Some expected \<Rightarrow>
            and_then (fail_if (\<not> bd_valid_sha256 expected)
                        (BundleInvalidField ''expected manifest SHA-256'')) (\<lambda>_.
            and_then (fail_if (expected \<noteq> pm_manifest_sha256 parsed) ManifestHashMismatch) (\<lambda>_.
              Ok ManifestSha256Pinned))))))"

end
