(* ===== verification/TrustTypes.thy ===== *)
theory TrustTypes
  imports TrustWire CatalogBundle
begin

text \<open>
  \<open>crates/secureflow-knowledge/src/catalog_trust/types.rs\<close>: scopes, signed targets, clocks, the
  enrollment policy, the evidence of a role, receipts and the state of a trust store. The JSON
  schemas are checked by the crate \<open>jsonschema\<close>: a parameter.
\<close>

record trust_env = wire_env +
  te_schema :: "string \<Rightarrow> jvalue \<Rightarrow> bool"

definition validate_schema :: "('z) trust_env_scheme \<Rightarrow> string \<Rightarrow> jvalue \<Rightarrow> trust_code + unit" where
  "validate_schema env kind v =
     and_then (require (kind \<in> set [''target'', ''policy'', ''state'', ''receipt'']) TRUST_FORMAT) (\<lambda>_.
       require (te_schema env kind v) TRUST_FORMAT)"

section \<open>Scopes and targets\<close>

record trust_scope =
  ts_publisher_id :: string
  ts_catalog_id :: string
  ts_channel :: string
  ts_profile :: string

definition validate_trust_scope :: "trust_scope \<Rightarrow> trust_code + unit" where
  "validate_trust_scope s =
     require (list_all wire_identifier [ts_publisher_id s, ts_catalog_id s, ts_channel s] \<and>
              ts_profile s \<in> set [''core'', ''malicious'', ''full'']) TRUST_SCOPE"

definition scope_target :: "trust_scope \<Rightarrow> string" where
  "scope_target s =
     ''catalogs/'' @ ts_catalog_id s @ ''/'' @ ts_channel s @ ''/'' @ ts_profile s @ ''.manifest.json''"

record trust_target =
  tt_contract_version :: string
  tt_publisher_id :: string
  tt_catalog_id :: string
  tt_channel :: string
  tt_profile :: string
  tt_profile_policy_version :: string
  tt_bundle_id :: string
  tt_release_sequence :: nat
  tt_manifest_contract_version :: string
  tt_validation_authority :: string

definition target_scope :: "trust_target \<Rightarrow> trust_scope" where
  "target_scope t =
     \<lparr>ts_publisher_id = tt_publisher_id t, ts_catalog_id = tt_catalog_id t,
      ts_channel = tt_channel t, ts_profile = tt_profile t\<rparr>"

definition target_value :: "trust_target \<Rightarrow> jvalue" where
  "target_value t = VObj (bt_collect
     [(''contract_version'', VStr (tt_contract_version t)),
      (''publisher_id'', VStr (tt_publisher_id t)),
      (''catalog_id'', VStr (tt_catalog_id t)),
      (''channel'', VStr (tt_channel t)),
      (''profile'', VStr (tt_profile t)),
      (''profile_policy_version'', VStr (tt_profile_policy_version t)),
      (''bundle_id'', VStr (tt_bundle_id t)),
      (''release_sequence'', VNum (int (tt_release_sequence t))),
      (''manifest_contract_version'', VStr (tt_manifest_contract_version t)),
      (''validation_authority'', VStr (tt_validation_authority t))])"

text \<open>
  The derived \<open>Deserialize\<close> of a target: all members, no other ones; or, as \<open>serde\<close> reads a
  struct, an array of the fields in the order of the declaration.
\<close>

definition target_of_fields :: "jvalue list \<Rightarrow> trust_target option" where
  "target_of_fields fs =
     (case fs of
        [VStr a, VStr b, VStr c, VStr d, VStr e, VStr f, VStr g, VNum n, VStr h, VStr i] \<Rightarrow>
          if 0 \<le> n
          then Some \<lparr>tt_contract_version = a, tt_publisher_id = b, tt_catalog_id = c, tt_channel = d,
                    tt_profile = e, tt_profile_policy_version = f, tt_bundle_id = g,
                    tt_release_sequence = nat n, tt_manifest_contract_version = h,
                    tt_validation_authority = i\<rparr>
          else None
      | _ \<Rightarrow> None)"

definition TARGET_FIELDS :: "string list" where
  "TARGET_FIELDS =
     [''contract_version'', ''publisher_id'', ''catalog_id'', ''channel'', ''profile'',
      ''profile_policy_version'', ''bundle_id'', ''release_sequence'',
      ''manifest_contract_version'', ''validation_authority'']"

fun target_from_value :: "jvalue \<Rightarrow> trust_target option" where
  "target_from_value (VArr vs) = target_of_fields vs"
| "target_from_value (VObj m) =
     (if closed (VObj m) TARGET_FIELDS = Ok ()
      then target_of_fields (map (vindex (VObj m)) TARGET_FIELDS) else None)"
| "target_from_value _ = None"

definition validate_target :: "('z) trust_env_scheme \<Rightarrow> trust_target \<Rightarrow> trust_code + unit" where
  "validate_target env t =
     and_then (validate_schema env ''target'' (target_value t)) (\<lambda>_.
     and_then (validate_trust_scope (target_scope t)) (\<lambda>_.
     and_then (require
       (tt_contract_version t = ''secureflow-catalog-target-v1'' \<and>
        tt_profile_policy_version t = ''secureflow-catalog-profile-policy-v2'' \<and>
        tt_manifest_contract_version t = ''secureflow-catalog-bundle-v1'' \<and>
        tt_validation_authority t = ''external-records-require-human-validation'' \<and>
        0 < tt_release_sequence t \<and> tt_release_sequence t \<le> MAX_SEQUENCE \<and>
        starts_with ''sf_catalog_bundle_'' (tt_bundle_id t) \<and> length (tt_bundle_id t) = 82)
       TRUST_SCOPE) (\<lambda>_.
     and_then (wire_hex 32 (drop 18 (tt_bundle_id t))) (\<lambda>_. Ok ()))))"

section \<open>Clocks\<close>

record trust_clock =
  tc_verification_time :: string
  tc_time_source :: string
  tc_time_reference :: string

definition validate_clock :: "('z) wire_env_scheme \<Rightarrow> trust_clock \<Rightarrow> trust_code + unit" where
  "validate_clock env c =
     and_then (parse_time env (tc_verification_time c)) (\<lambda>_.
       require (tc_time_source c \<in> set [''operator-attested'', ''operator-trusted-system-clock''] \<and>
                \<not> trim_is_empty (tc_time_reference c) \<and> length (tc_time_reference c) \<le> 1024) TRUST_CLOCK)"

text \<open>\<open>Clock::capture\<close>; \<open>now\<close> is the current time of the system, formatted to the second.\<close>

definition capture_clock ::
  "('z) wire_env_scheme \<Rightarrow> string option \<Rightarrow> string option \<Rightarrow> string option \<Rightarrow> trust_code + trust_clock" where
  "capture_clock env now time reference =
     (case (time, reference) of
        (Some t, Some r) \<Rightarrow>
          and_then (parse_time env t) (\<lambda>_.
          and_then (require (\<not> trim_is_empty r \<and> length r \<le> 1024) TRUST_CLOCK) (\<lambda>_.
            Ok \<lparr>tc_verification_time = t, tc_time_source = ''operator-attested'',
                tc_time_reference = r\<rparr>))
      | (None, None) \<Rightarrow>
          and_then (ok_or now TRUST_CLOCK) (\<lambda>t.
            Ok \<lparr>tc_verification_time = t, tc_time_source = ''operator-trusted-system-clock'',
                tc_time_reference = ''local operating system clock''\<rparr>)
      | _ \<Rightarrow> Err TRUST_CLOCK)"

section \<open>Policies\<close>

record trust_policy =
  tp_contract_version :: string
  tp_publisher_id :: string
  tp_publisher_label :: string
  tp_catalog_id :: string
  tp_channel :: string
  tp_profiles :: "string list"
  tp_initial_root_sha256 :: string
  tp_minimum_root_version :: nat
  tp_minimum_sequence :: nat
  tp_bootstrap_manifest_sha256 :: "string option"
  tp_minimum_thresholds :: "(string, nat) btree_map"
  tp_maximum_horizon_days :: "(string, nat) btree_map"
  tp_operator :: string
  tp_authorization_reference :: string
  tp_enrolled_at :: trust_clock

definition trust_thresholds :: "(string, nat) btree_map" where
  "trust_thresholds = bt_collect [(''root'', 2), (''targets'', 2), (''snapshot'', 1), (''timestamp'', 1)]"

definition trust_horizons :: "(string, nat) btree_map" where
  "trust_horizons = bt_collect [(''root'', 366), (''targets'', 30), (''snapshot'', 30), (''timestamp'', 7)]"

definition clock_value :: "trust_clock \<Rightarrow> jvalue" where
  "clock_value c = VObj (bt_collect
     [(''verification_time'', VStr (tc_verification_time c)),
      (''time_source'', VStr (tc_time_source c)),
      (''time_reference'', VStr (tc_time_reference c))])"

definition counts_value :: "(string, nat) btree_map \<Rightarrow> jvalue" where
  "counts_value m = VObj (map (\<lambda>(k, n). (k, VNum (int n))) m)"

definition policy_value :: "trust_policy \<Rightarrow> jvalue" where
  "policy_value p = VObj (bt_collect
     [(''contract_version'', VStr (tp_contract_version p)),
      (''publisher_id'', VStr (tp_publisher_id p)),
      (''publisher_label'', VStr (tp_publisher_label p)),
      (''catalog_id'', VStr (tp_catalog_id p)),
      (''channel'', VStr (tp_channel p)),
      (''profiles'', VArr (map VStr (tp_profiles p))),
      (''initial_root_sha256'', VStr (tp_initial_root_sha256 p)),
      (''minimum_root_version'', VNum (int (tp_minimum_root_version p))),
      (''minimum_sequence'', VNum (int (tp_minimum_sequence p))),
      (''bootstrap_manifest_sha256'',
        case tp_bootstrap_manifest_sha256 p of None \<Rightarrow> VNull | Some s \<Rightarrow> VStr s),
      (''minimum_thresholds'', counts_value (tp_minimum_thresholds p)),
      (''maximum_horizon_days'', counts_value (tp_maximum_horizon_days p)),
      (''operator'', VStr (tp_operator p)),
      (''authorization_reference'', VStr (tp_authorization_reference p)),
      (''enrolled_at'', clock_value (tp_enrolled_at p))])"

definition policy_scope :: "trust_policy \<Rightarrow> string \<Rightarrow> trust_scope" where
  "policy_scope p profile =
     \<lparr>ts_publisher_id = tp_publisher_id p, ts_catalog_id = tp_catalog_id p,
      ts_channel = tp_channel p, ts_profile = profile\<rparr>"

definition validate_pin :: "trust_policy \<Rightarrow> string \<Rightarrow> trust_code + unit" where
  "validate_pin p pin =
     and_then (wire_hex 32 pin) (\<lambda>_. require (length (tp_profiles p) = 1) TRUST_BOOTSTRAP)"

definition validate_policy_text :: "trust_policy \<Rightarrow> trust_code + unit" where
  "validate_policy_text p =
     require
       (tp_contract_version p = ''secureflow-catalog-trust-policy-v1'' \<and>
        \<not> trim_is_empty (tp_operator p) \<and> length (tp_operator p) \<le> 256 \<and>
        \<not> trim_is_empty (tp_authorization_reference p) \<and> length (tp_authorization_reference p) \<le> 1024 \<and>
        \<not> trim_is_empty (tp_publisher_label p) \<and> length (tp_publisher_label p) \<le> 256 \<and>
        tp_minimum_sequence p \<le> MAX_SEQUENCE \<and>
        0 < tp_minimum_root_version p \<and> tp_minimum_root_version p \<le> U32_MAX) TRUST_BOOTSTRAP"

definition validate_trust_policy :: "('z) trust_env_scheme \<Rightarrow> trust_policy \<Rightarrow> trust_code + unit" where
  "validate_trust_policy env p =
     checks
       [validate_schema env ''policy'' (policy_value p),
        validate_policy_text p,
        and_then (wire_hex 32 (tp_initial_root_sha256 p)) (\<lambda>_. Ok ()),
        check_opt (validate_pin p) (tp_bootstrap_manifest_sha256 p),
        validate_clock env (tp_enrolled_at p),
        require (tp_profiles p \<noteq> [] \<and> length (tp_profiles p) \<le> 3) TRUST_SCOPE,
        require (card (set (tp_profiles p)) = length (tp_profiles p)) TRUST_SCOPE,
        each (\<lambda>profile. validate_trust_scope (policy_scope p profile)) (tp_profiles p),
        require (tp_minimum_thresholds p = trust_thresholds \<and>
                 tp_maximum_horizon_days p = trust_horizons) TRUST_BOOTSTRAP]"

definition policy_allows :: "trust_policy \<Rightarrow> trust_scope \<Rightarrow> trust_code + unit" where
  "policy_allows p scope =
     and_then (validate_trust_scope scope) (\<lambda>_.
       require (ts_profile scope \<in> set (tp_profiles p) \<and> policy_scope p (ts_profile scope) = scope)
         TRUST_SCOPE)"

section \<open>Evidence, receipts and state\<close>

record role_evidence =
  re_version :: nat
  re_raw_sha256 :: string
  re_signed_sha256 :: string
  re_expires :: string
  re_accepted_signer_ids :: "string list"
  re_threshold :: nat

record trust_receipt =
  rc_contract_version :: string
  rc_operation :: string
  rc_installation :: string
  rc_transaction_id :: "string option"
  rc_output :: "string option"
  rc_integrity :: string
  rc_publisher_authenticity :: string
  rc_freshness :: string
  rc_rollback :: string
  rc_scope :: trust_scope
  rc_release_sequence :: nat
  rc_initial_root_sha256 :: string
  rc_current_root_sha256 :: string
  rc_metadata :: "(string, role_evidence) btree_map"
  rc_manifest_sha256 :: string
  rc_manifest_bytes :: nat
  rc_database_sha256 :: string
  rc_database_bytes :: u64
  rc_policy_sha256 :: string
  rc_clock :: trust_clock
  rc_earliest_expiry :: string
  rc_state_generation :: nat
  rc_reserves_acceptance :: bool
  rc_validation_authority :: string
  rc_limitations :: "string list"

record trust_floor =
  fl_sequence :: nat
  fl_manifest_sha256 :: "string option"

record role_record =
  rr_raw :: string
  rr_evidence :: role_evidence

record pending_install =
  pn_receipt :: trust_receipt
  pn_descriptor :: catalog_database_descriptor

record trust_state =
  st_contract_version :: string
  st_policy :: trust_policy
  st_policy_sha256 :: string
  st_roots :: "string list"
  st_roles :: "(string, role_record) btree_map"
  st_floors :: "(string, trust_floor) btree_map"
  st_maximum_verification_time :: string
  st_generation :: nat
  st_pending :: "pending_install option"
  st_completed :: "(string, trust_receipt) btree_map"

end
