(* ===== verification/BundleInstall.thy ===== *)
theory BundleInstall
  imports CatalogBundle
begin

text \<open>
  Reading, checking, decompressing and publishing a bundle:
  \<open>crates/secureflow-knowledge/src/catalog_bundle.rs\<close> from \<open>decompress_opened\<close> on, and the
  two-phase installation that the catalog trust uses. An opened bundle is what the system
  answers when it is read; the published files are a map from paths to contents.
\<close>

section \<open>Reading with a bound\<close>

text \<open>
  The answers of successive reads: \<open>None\<close> is an I/O error, an empty read the end of the file.
\<close>

fun bounded_reads :: "nat \<Rightarrow> string \<Rightarrow> string option list \<Rightarrow> bundle_error + string" where
  "bounded_reads maximum bytes [] = Ok bytes"
| "bounded_reads maximum bytes (None # rs) = Err BundleFilesystem"
| "bounded_reads maximum bytes (Some chunk # rs) =
     (if chunk = [] then Ok bytes
      else if maximum < length (bytes @ chunk)
      then Err (BundleInvalidField ''actual file bytes exceed bound'')
      else bounded_reads maximum (bytes @ chunk) rs)"

definition hash_open_file_bounded ::
  "digest_fun \<Rightarrow> nat \<Rightarrow> string option list \<Rightarrow> bool \<Rightarrow> bundle_error + string \<times> nat" where
  "hash_open_file_bounded sha maximum reads rewound =
     and_then (bounded_reads maximum [] reads) (\<lambda>bytes.
     and_then (fail_if (\<not> rewound) BundleFilesystem) (\<lambda>_.
       Ok (bd_sha256_bytes sha bytes, length bytes)))"

text \<open>The loop over the decoder: every chunk read, and whether the write of it succeeded.\<close>

fun decompress_loop ::
  "nat \<Rightarrow> nat \<Rightarrow> string \<Rightarrow> (string option \<times> bool) list \<Rightarrow> bundle_error + string" where
  "decompress_loop expected maximum bytes [] = Ok bytes"
| "decompress_loop expected maximum bytes ((None, written) # rs) = Err BundleFilesystem"
| "decompress_loop expected maximum bytes ((Some chunk, written) # rs) =
     (if chunk = [] then Ok bytes
      else if expected < length (bytes @ chunk) \<or> maximum < length (bytes @ chunk)
      then Err DatabaseSizeMismatch
      else if \<not> written then Err BundleFilesystem
      else decompress_loop expected maximum (bytes @ chunk) rs)"

section \<open>Descriptors of databases\<close>

text \<open>What opening the decompressed database as a catalog answers.\<close>

record database_view =
  dv_length :: "nat option"
  dv_opened :: bool
  dv_stats :: "catalog_stats option"
  dv_integrity :: "catalog_integrity option"
  dv_provenance :: "catalog_provenance option"
  dv_composition :: "catalog_composition option"

definition describe_database_with_digest ::
  "database_view \<Rightarrow> string \<Rightarrow> u64 \<Rightarrow> bundle_error + catalog_database_descriptor" where
  "describe_database_with_digest dv database_sha256 database_bytes =
     and_then (fail_if (database_bytes = 0 \<or> MAX_BUNDLE_DATABASE_BYTES < database_bytes)
                 (BundleInvalidField ''database size'')) (\<lambda>_.
     and_then (fail_if (\<not> bd_valid_sha256 database_sha256)
                 (BundleInvalidField ''database SHA-256'')) (\<lambda>_.
     and_then (ok_or (dv_length dv) BundleFilesystem) (\<lambda>observed_bytes.
     and_then (fail_if (observed_bytes \<noteq> unat database_bytes) DatabaseSizeMismatch) (\<lambda>_.
     and_then (fail_if (\<not> dv_opened dv) BundleCatalog) (\<lambda>_.
     and_then (ok_or (dv_stats dv) BundleCatalog) (\<lambda>stats0.
     and_then (ok_or (dv_integrity dv) BundleCatalog) (\<lambda>integrity.
     and_then (ok_or (dv_provenance dv) BundleCatalog) (\<lambda>provenance.
     and_then (ok_or (dv_composition dv) BundleCatalog) (\<lambda>composition.
     (let stats = stats0\<lparr>cs_database_bytes := database_bytes\<rparr>;
          descriptor =
            \<lparr>cd_database_sha256 = database_sha256, cd_database_bytes = database_bytes,
             cd_application_id = CATALOG_APPLICATION_ID, cd_schema_version = cs_schema_version stats,
             cd_stats = stats, cd_integrity = integrity, cd_provenance = provenance,
             cd_composition = composition\<rparr>
      in and_then (validate_database_descriptor descriptor MAX_BUNDLE_DATABASE_BYTES)
           (\<lambda>_. Ok descriptor)))))))))))"

section \<open>Decompression\<close>

record opened_bundle =
  ob_metadata_len :: "nat option"
  ob_reads :: "string option list"
  ob_rewound :: bool
  ob_prefix :: "string option"
  ob_frame_size :: "string \<Rightarrow> nat option option"
  ob_created :: bool
  ob_decoder :: bool
  ob_chunks :: "(string option \<times> bool) list"
  ob_trailing :: "string option"
  ob_synced :: bool
  ob_database :: database_view

definition ZSTD_MAGIC :: string where
  "ZSTD_MAGIC = map char_of [0x28 :: nat, 0xb5, 0x2f, 0xfd]"

definition verify_zstd_header :: "opened_bundle \<Rightarrow> nat \<Rightarrow> bundle_error + unit" where
  "verify_zstd_header ob expected_bytes =
     and_then (ok_or (ob_prefix ob) BundleFilesystem) (\<lambda>bytes.
     (let prefix = take 18 bytes in
      and_then (fail_if (length prefix < 5 \<or> take 4 prefix \<noteq> ZSTD_MAGIC)
                  (BundleInvalidField ''Zstandard frame header'')) (\<lambda>_.
      and_then (fail_if (byte (prefix ! 4) div 4 mod 2 = 0)
                  (BundleInvalidField ''Zstandard frame checksum'')) (\<lambda>_.
      and_then (ok_or (ob_frame_size ob prefix) (BundleInvalidField ''Zstandard frame header'')) (\<lambda>size.
        fail_if (size \<noteq> Some expected_bytes) (BundleInvalidField ''Zstandard frame content size''))))))"

definition decompress_opened ::
  "bundle_env \<Rightarrow> opened_bundle \<Rightarrow> parsed_catalog_bundle_manifest \<Rightarrow>
     catalog_bundle_verification_policy \<Rightarrow> bundle_error + catalog_bundle_verification \<times> string" where
  "decompress_opened env ob parsed policy =
     (let manifest = pm_manifest parsed;
          compressed = unat (bm_compressed_bytes manifest);
          database = unat (cd_database_bytes (bm_payload manifest)) in
      and_then (validate_policy env parsed policy) (\<lambda>authenticity.
      and_then (ok_or (ob_metadata_len ob) BundleFilesystem) (\<lambda>observed_size.
      and_then (fail_if (observed_size \<noteq> compressed) CompressedSizeMismatch) (\<lambda>_.
      and_then (hash_open_file_bounded (bn_sha env) compressed (ob_reads ob) (ob_rewound ob))
        (\<lambda>(compressed_hash, compressed_bytes).
      and_then (fail_if (compressed_bytes \<noteq> compressed) CompressedSizeMismatch) (\<lambda>_.
      and_then (fail_if (compressed_hash \<noteq> bm_compressed_sha256 manifest) CompressedHashMismatch) (\<lambda>_.
      and_then (verify_zstd_header ob database) (\<lambda>_.
      and_then (fail_if (\<not> ob_created ob \<or> \<not> ob_decoder ob) BundleFilesystem) (\<lambda>_.
      and_then (decompress_loop database (unat (vp_max_database_bytes policy)) [] (ob_chunks ob)) (\<lambda>bytes.
      and_then (ok_or (ob_trailing ob) BundleFilesystem) (\<lambda>trailing.
      and_then (fail_if (trailing \<noteq> []) TrailingData) (\<lambda>_.
      and_then (fail_if (length bytes \<noteq> database) DatabaseSizeMismatch) (\<lambda>_.
      and_then (fail_if (bd_sha256_bytes (bn_sha env) bytes \<noteq> cd_database_sha256 (bm_payload manifest))
                  DatabaseHashMismatch) (\<lambda>_.
      and_then (fail_if (\<not> ob_synced ob) BundleFilesystem) (\<lambda>_.
      and_then (describe_database_with_digest (ob_database ob) (bd_sha256_bytes (bn_sha env) bytes)
                  (of_nat (length bytes))) (\<lambda>observed.
      and_then (fail_if (observed \<noteq> bm_payload manifest)
                  (BundleInvalidField ''decompressed catalog state differs from manifest'')) (\<lambda>_.
        Ok (\<lparr>bv_bundle_id = bm_bundle_id manifest, bv_profile = bm_profile manifest,
             bv_compressed_bytes = bm_compressed_bytes manifest,
             bv_database_bytes = cd_database_bytes (bm_payload manifest),
             bv_manifest_sha256 = pm_manifest_sha256 parsed, bv_integrity = ''verified'',
             bv_authenticity = authenticity\<rparr>, bytes))))))))))))))))))"

text \<open>\<open>verify_trusted_bundle\<close>: decompression into a private directory, which may not be available.\<close>

definition verify_trusted_bundle ::
  "bundle_env \<Rightarrow> bool \<Rightarrow> opened_bundle \<Rightarrow> parsed_catalog_bundle_manifest \<Rightarrow>
     catalog_bundle_verification_policy \<Rightarrow> bundle_error + unit" where
  "verify_trusted_bundle env directory ob parsed policy =
     and_then (fail_if (\<not> directory) BundleFilesystem) (\<lambda>_.
     and_then (decompress_opened env ob parsed policy) (\<lambda>_. Ok ()))"

section \<open>Publication\<close>

type_synonym file_map = "string \<rightharpoonup> string"

text \<open>
  \<open>symlink_metadata\<close> of a path, over the files that exist; a path of the file system may also
  refuse to be probed.
\<close>

datatype probe = ProbeFound | ProbeMissing | ProbeFailed

record publish_io =
  pb_unprobed :: "string \<Rightarrow> bool"
  pb_linked :: bool
  pb_synced :: bool
  pb_parent_synced :: bool
  pb_readable :: bool
  pb_parent_resynced :: bool

definition symlink_metadata :: "publish_io \<Rightarrow> file_map \<Rightarrow> string \<Rightarrow> probe" where
  "symlink_metadata io files path =
     (if pb_unprobed io path then ProbeFailed
      else if files path = None then ProbeMissing else ProbeFound)"

text \<open>\<open>Path::file_name\<close> is there when the last component is a name: not empty, not the root, not \<open>..\<close>.\<close>

definition path_components :: "string \<Rightarrow> string list" where
  "path_components p = filter (\<lambda>c. c \<noteq> [] \<and> c \<noteq> ''.'') (split_by (\<lambda>c. c = CHR ''/'') p)"

definition has_file_name :: "string \<Rightarrow> bool" where
  "has_file_name p = (path_components p \<noteq> [] \<and> last (path_components p) \<noteq> ''..'')"

definition ensure_new_output :: "publish_io \<Rightarrow> file_map \<Rightarrow> string \<Rightarrow> bundle_error + unit" where
  "ensure_new_output io files path =
     and_then (fail_if (path = [] \<or> \<not> has_file_name path)
                 (BundleInvalidField ''output must name a file'')) (\<lambda>_.
       (case symlink_metadata io files path of
          ProbeFound \<Rightarrow> Err (BundleInvalidField ''output already exists'')
        | ProbeMissing \<Rightarrow> Ok ()
        | ProbeFailed \<Rightarrow> Err BundleFilesystem))"

definition sqlite_sidecar_paths :: "string \<Rightarrow> string list" where
  "sqlite_sidecar_paths path = map (\<lambda>suffix. path @ suffix) [''-wal'', ''-shm'', ''-journal'']"

definition sidecar_missing :: "publish_io \<Rightarrow> file_map \<Rightarrow> string \<Rightarrow> bundle_error + unit" where
  "sidecar_missing io files sidecar =
     (case symlink_metadata io files sidecar of
        ProbeFound \<Rightarrow> Err (BundleInvalidField ''catalog output sidecar already exists'')
      | ProbeMissing \<Rightarrow> Ok ()
      | ProbeFailed \<Rightarrow> Err BundleFilesystem)"

definition ensure_new_catalog_output :: "publish_io \<Rightarrow> file_map \<Rightarrow> string \<Rightarrow> bundle_error + unit" where
  "ensure_new_catalog_output io files path =
     and_then (ensure_new_output io files path) (\<lambda>_.
       each (sidecar_missing io files) (sqlite_sidecar_paths path))"

definition verify_installed_descriptor ::
  "digest_fun \<Rightarrow> publish_io \<Rightarrow> file_map \<Rightarrow> string \<Rightarrow> catalog_database_descriptor \<Rightarrow> bundle_error + unit" where
  "verify_installed_descriptor sha io files path expected =
     and_then (each (ensure_new_output io files) (sqlite_sidecar_paths path)) (\<lambda>_.
     and_then (ok_or (files path) BundleFilesystem) (\<lambda>content.
     and_then (hash_open_file_bounded sha (unat (cd_database_bytes expected)) [Some content, Some []]
                 (pb_readable io)) (\<lambda>(hash, len).
       fail_if (hash \<noteq> cd_database_sha256 expected \<or> len \<noteq> unat (cd_database_bytes expected))
         (BundleInvalidField ''pending output conflicts with verified descriptor''))))"

record prepared_bundle_install =
  pr_content :: string
  pr_descriptor :: catalog_database_descriptor

definition prepare_trusted_install ::
  "bundle_env \<Rightarrow> publish_io \<Rightarrow> file_map \<Rightarrow> bool \<Rightarrow> opened_bundle \<Rightarrow> parsed_catalog_bundle_manifest \<Rightarrow>
     string \<Rightarrow> catalog_bundle_verification_policy \<Rightarrow> bundle_error + prepared_bundle_install" where
  "prepare_trusted_install env io files directory ob parsed output policy =
     and_then (ensure_new_catalog_output io files output) (\<lambda>_.
     and_then (validate_policy env parsed policy) (\<lambda>authenticity.
     and_then (fail_if (authenticity \<noteq> ManifestSha256Pinned) ManifestAuthenticityRequired) (\<lambda>_.
     and_then (fail_if (\<not> directory) BundleFilesystem) (\<lambda>_.
     and_then (decompress_opened env ob parsed policy) (\<lambda>(verification, bytes).
       Ok \<lparr>pr_content = bytes, pr_descriptor = bm_payload (pm_manifest parsed)\<rparr>)))))"

text \<open>The files after the publication and its result: an error leaves what was linked.\<close>

definition publish ::
  "digest_fun \<Rightarrow> publish_io \<Rightarrow> file_map \<Rightarrow> prepared_bundle_install \<Rightarrow> string \<Rightarrow>
     file_map \<times> (bundle_error + unit)" where
  "publish sha io files prepared output =
     (case ensure_new_catalog_output io files output of
        Inl e \<Rightarrow> (files, Err e)
      | Inr _ \<Rightarrow>
          if \<not> pb_linked io then (files, Err BundleFilesystem)
          else (let linked = files(output \<mapsto> pr_content prepared) in
            (linked,
             and_then (fail_if (\<not> pb_synced io \<or> \<not> pb_parent_synced io) BundleFilesystem) (\<lambda>_.
             and_then (verify_installed_descriptor sha io linked output (pr_descriptor prepared)) (\<lambda>_.
               fail_if (\<not> pb_parent_resynced io) BundleFilesystem)))))"

end
