(* ===== verification/TrustStorage.thy ===== *)
theory TrustStorage
  imports TrustWire BundleInstall
begin

text \<open>
  \<open>crates/secureflow-knowledge/src/catalog_trust/storage.rs\<close>: checked paths, bounded reads,
  private directories, files that are never overwritten, the lock of a trust store and the
  durable replacement of its state. The code is that for Linux, the only system it supports.

  The contents of all files are a \<open>file_map\<close>; every other answer of the system (canonical paths,
  owners, modes, identities, whether a call succeeds) is in a \<open>trust_system\<close>. An answer that is
  missing is an error of the call.
\<close>

section \<open>Answers of the system\<close>

record file_view =
  fv_canonical :: "string option"
  fv_opened :: bool
  fv_meta :: "(bool \<times> nat) option"
  fv_len :: "nat option"
  fv_read :: bool

record dir_view =
  dr_canonical :: "string option"
  dr_meta :: "(bool \<times> nat \<times> nat) option"
  dr_euid :: nat
  dr_opened :: bool
  dr_statfs :: "nat option"

record identity_view =
  iv_dir_now :: "(nat \<times> nat) option"
  iv_dir_held :: "(nat \<times> nat) option"
  iv_lock_now :: "(nat \<times> nat) option"
  iv_lock_held :: "(nat \<times> nat) option"

record trust_system =
  sy_file :: "string \<Rightarrow> file_view"
  sy_dir :: "string \<Rightarrow> dir_view"
  sy_dir_created :: "string \<Rightarrow> bool"
  sy_parent_synced :: "string \<Rightarrow> bool"
  sy_temporary :: "string \<Rightarrow> bool"
  sy_written :: "string \<Rightarrow> bool"
  sy_renamed :: "string \<Rightarrow> bool"
  sy_store_opened :: bool
  sy_lock_opened :: bool
  sy_lock_meta :: "(bool \<times> nat \<times> nat) option"
  sy_locked :: bool
  sy_identity :: "nat \<Rightarrow> identity_view"
  sy_store_synced :: bool

section \<open>Paths and reads\<close>

definition path_join :: "string \<Rightarrow> string \<Rightarrow> string" where
  "path_join dir name = (if ends_with ''/'' dir then dir @ name else dir @ ''/'' @ name)"

text \<open>
  \<open>Path::parent\<close> on Unix: the path without its last component; separators and \<open>.\<close> components
  at the end do not count. The root and the empty path have no parent.
\<close>

fun trim_tail :: "string \<Rightarrow> string" where
  "trim_tail [] = []"
| "trim_tail (c # s) =
     (if c = CHR ''/'' then trim_tail s
      else if c = CHR ''.'' \<and> starts_with ''/'' s then trim_tail s
      else c # s)"

definition path_parent :: "string \<Rightarrow> string option" where
  "path_parent p =
     (let r = trim_tail (rev p) in
      if r = [] then None
      else (let front = rev (trim_tail (dropWhile (\<lambda>c. c \<noteq> CHR ''/'') r))
            in Some (if front = [] \<and> is_absolute p then ''/'' else front)))"

definition checked_canonical :: "string \<Rightarrow> string option \<Rightarrow> trust_code + unit" where
  "checked_canonical path canonical =
     and_then (require (is_absolute path) TRUST_FILESYSTEM) (\<lambda>_.
     and_then (ok_or canonical TRUST_FILESYSTEM) (\<lambda>c. require (c = path) TRUST_FILESYSTEM))"

definition checked_path :: "trust_system \<Rightarrow> string \<Rightarrow> trust_code + unit" where
  "checked_path sys path = checked_canonical path (fv_canonical (sy_file sys path))"

definition open_regular :: "trust_system \<Rightarrow> string \<Rightarrow> trust_code + unit" where
  "open_regular sys path =
     and_then (checked_path sys path) (\<lambda>_.
     and_then (require (fv_opened (sy_file sys path)) TRUST_FILESYSTEM) (\<lambda>_.
     and_then (ok_or (fv_meta (sy_file sys path)) TRUST_FILESYSTEM) (\<lambda>(is_file, nlink).
     and_then (require is_file TRUST_FILESYSTEM) (\<lambda>_.
       require (nlink = 1) TRUST_FILESYSTEM))))"

text \<open>A file that is not in the map cannot be opened; at most \<open>limit + 1\<close> bytes are read.\<close>

definition storage_read :: "trust_system \<Rightarrow> file_map \<Rightarrow> string \<Rightarrow> nat \<Rightarrow> trust_code + string" where
  "storage_read sys files path limit =
     and_then (open_regular sys path) (\<lambda>_.
     and_then (ok_or (files path) TRUST_FILESYSTEM) (\<lambda>content.
     and_then (ok_or (fv_len (sy_file sys path)) TRUST_FILESYSTEM) (\<lambda>len.
     and_then (require (len \<le> limit) TRUST_FORMAT) (\<lambda>_.
     and_then (require (fv_read (sy_file sys path)) TRUST_FILESYSTEM) (\<lambda>_.
     (let bytes = take (limit + 1) content in
      and_then (require (length bytes \<le> limit) TRUST_FORMAT) (\<lambda>_. Ok bytes)))))))"

section \<open>Directories\<close>

definition LOCAL_FILESYSTEMS :: "nat list" where
  "LOCAL_FILESYSTEMS = [0xef53, 0x58465342, 0x9123683e, 0x01021994, 0x794c7630]"

definition private_dir :: "trust_system \<Rightarrow> string \<Rightarrow> trust_code + unit" where
  "private_dir sys path =
     (let d = sy_dir sys path in
      and_then (checked_canonical path (dr_canonical d)) (\<lambda>_.
      and_then (ok_or (dr_meta d) TRUST_FILESYSTEM) (\<lambda>(is_dir, uid, mode).
      and_then (require (is_dir \<and> uid = dr_euid d \<and> mode mod 64 = 0) TRUST_FILESYSTEM) (\<lambda>_.
      and_then (require (dr_opened d) TRUST_FILESYSTEM) (\<lambda>_.
      and_then (ok_or (dr_statfs d) TRUST_FILESYSTEM) (\<lambda>kind.
        require (kind \<in> set LOCAL_FILESYSTEMS) TRUST_FILESYSTEM))))))"

definition sync_parent :: "trust_system \<Rightarrow> string \<Rightarrow> trust_code + unit" where
  "sync_parent sys path =
     and_then (ok_or (path_parent path) TRUST_FILESYSTEM) (\<lambda>parent.
       require (sy_parent_synced sys parent) TRUST_FILESYSTEM)"

definition create_dir :: "trust_system \<Rightarrow> string \<Rightarrow> trust_code + unit" where
  "create_dir sys path =
     and_then (ok_or (path_parent path) TRUST_FILESYSTEM) (\<lambda>parent.
     and_then (private_dir sys parent) (\<lambda>_.
     and_then (require (sy_dir_created sys path) TRUST_FILESYSTEM) (\<lambda>_.
       sync_parent sys path)))"

text \<open>
  \<open>write_new\<close> returns the files after the call: \<open>RENAME_NOREPLACE\<close> fails when the path exists,
  and an error of the last synchronization leaves the new file.
\<close>

definition write_new ::
  "trust_system \<Rightarrow> file_map \<Rightarrow> string \<Rightarrow> string \<Rightarrow> file_map \<times> (trust_code + unit)" where
  "write_new sys files path bytes =
     (case and_then (ok_or (path_parent path) TRUST_FILESYSTEM) (\<lambda>parent.
           and_then (private_dir sys parent) (\<lambda>_.
             require (sy_temporary sys parent \<and> sy_written sys path) TRUST_FILESYSTEM)) of
        Inl e \<Rightarrow> (files, Err e)
      | Inr _ \<Rightarrow>
          if files path \<noteq> None \<or> \<not> sy_renamed sys path then (files, Err TRUST_FILESYSTEM)
          else (files(path \<mapsto> bytes), sync_parent sys path))"

section \<open>The lock of a store\<close>

definition state_path :: "string \<Rightarrow> string" where
  "state_path store = path_join store ''state.json''"

definition check_identity :: "trust_system \<Rightarrow> nat \<Rightarrow> string \<Rightarrow> trust_code + unit" where
  "check_identity sys turn store =
     (let iv = sy_identity sys turn in
      and_then (private_dir sys store) (\<lambda>_.
      and_then (ok_or (iv_dir_now iv) TRUST_STATE) (\<lambda>now.
      and_then (ok_or (iv_dir_held iv) TRUST_STATE) (\<lambda>held.
      and_then (require (now = held) TRUST_STATE) (\<lambda>_.
      and_then (checked_path sys (path_join store ''lock'')) (\<lambda>_.
      and_then (ok_or (iv_lock_now iv) TRUST_STATE) (\<lambda>lock_now.
      and_then (ok_or (iv_lock_held iv) TRUST_STATE) (\<lambda>lock_held.
        require (lock_now = lock_held) TRUST_STATE))))))))"

definition open_store_lock :: "trust_system \<Rightarrow> string \<Rightarrow> trust_code + unit" where
  "open_store_lock sys store =
     and_then (private_dir sys store) (\<lambda>_.
     and_then (require (sy_store_opened sys) TRUST_STATE) (\<lambda>_.
     and_then (checked_path sys (path_join store ''lock'')) (\<lambda>_.
     and_then (require (sy_lock_opened sys) TRUST_STATE) (\<lambda>_.
     and_then (ok_or (sy_lock_meta sys) TRUST_STATE) (\<lambda>(is_file, nlink, mode).
     and_then (require is_file TRUST_STATE) (\<lambda>_.
     and_then (require (nlink = 1 \<and> mode mod 64 = 0) TRUST_STATE) (\<lambda>_.
     and_then (require (sy_locked sys) TRUST_STATE) (\<lambda>_.
       check_identity sys 0 store))))))))"

text \<open>
  \<open>replace_state\<close>: the new state is written beside the old one and renamed over it. Before the
  rename an error leaves the old state, after it the new one.
\<close>

definition replace_state ::
  "trust_system \<Rightarrow> file_map \<Rightarrow> string \<Rightarrow> string \<Rightarrow> file_map \<times> (trust_code + unit)" where
  "replace_state sys files store bytes =
     (case and_then (check_identity sys 1 store) (\<lambda>_.
           and_then (require (sy_temporary sys store) TRUST_STATE) (\<lambda>_.
           and_then (require (sy_written sys (state_path store)) TRUST_STATE) (\<lambda>_.
           and_then (check_identity sys 2 store) (\<lambda>_.
             require (sy_renamed sys (state_path store)) TRUST_STATE)))) of
        Inl e \<Rightarrow> (files, Err e)
      | Inr _ \<Rightarrow>
          (files(state_path store \<mapsto> bytes), require (sy_store_synced sys) TRUST_STATE))"

lemma replace_state_files:
  "fst (replace_state sys files store bytes) \<in> {files, files(state_path store \<mapsto> bytes)}"
  by (simp add: replace_state_def split: sum.split)

lemma replace_state_Ok:
  "snd (replace_state sys files store bytes) = Inr u \<Longrightarrow>
     fst (replace_state sys files store bytes) = files(state_path store \<mapsto> bytes)"
  by (simp add: replace_state_def split: sum.split_asm sum.split)

lemma write_new_keeps: "write_new sys files path bytes = (files', r) \<Longrightarrow> files \<subseteq>\<^sub>m files'"
  by (auto simp: write_new_def map_le_def split: sum.splits if_splits)

end
