(* ===== verification/FallibleOps.thy ===== *)
theory FallibleOps
  imports Prelude
begin

text \<open>
  Methods with \<open>&mut self\<close> that return a \<open>Result\<close>: they return the object as they leave it
  together with the result, because an error does not undo what was assigned before it.
  \<open>op_bind\<close> is the \<open>?\<close> operator followed by the rest of the method.
\<close>

type_synonym ('s, 'e, 'a) fallible = "'s \<Rightarrow> 's \<times> ('e + 'a)"

definition op_bind ::
  "('s, 'e, 'a) fallible \<Rightarrow> ('a \<Rightarrow> ('s, 'e, 'b) fallible) \<Rightarrow> ('s, 'e, 'b) fallible" where
  "op_bind m f s = (case m s of (t, Inl e) \<Rightarrow> (t, Inl e) | (t, Inr x) \<Rightarrow> f x t)"

text \<open>\<open>op_of g\<close> only reads the object; \<open>op_modify f\<close> assigns; \<open>op_return x\<close> is \<open>Ok(x)\<close>.\<close>

definition op_of :: "('s \<Rightarrow> 'e + 'a) \<Rightarrow> ('s, 'e, 'a) fallible" where
  "op_of g s = (s, g s)"

definition op_return :: "'a \<Rightarrow> ('s, 'e, 'a) fallible" where
  "op_return x s = (s, Inr x)"

definition op_modify :: "('s \<Rightarrow> 's) \<Rightarrow> ('s, 'e, unit) fallible" where
  "op_modify f s = (f s, Inr ())"

lemma op_of_simps [simp]:
  "op_of g s = (s, g s)"
  "op_return x s = (s, Inr x)"
  "op_modify f s = (f s, Inr ())"
  by (simp_all add: op_of_def op_return_def op_modify_def)

lemma op_bind_Inr_iff:
  "op_bind m f s = (t, Inr y) \<longleftrightarrow> (\<exists>u x. m s = (u, Inr x) \<and> f x u = (t, Inr y))"
  by (auto simp: op_bind_def split: prod.splits sum.splits)

lemma op_bind_Inl_iff:
  "op_bind m f s = (t, Inl e) \<longleftrightarrow>
     m s = (t, Inl e) \<or> (\<exists>u x. m s = (u, Inr x) \<and> f x u = (t, Inl e))"
  by (auto simp: op_bind_def split: prod.splits sum.splits)

lemma op_bind_cong [fundef_cong]:
  "s = s' \<Longrightarrow> m s' = m' s' \<Longrightarrow> (\<And>x t. m' s' = (t, Inr x) \<Longrightarrow> f x t = g x t) \<Longrightarrow>
     op_bind m f s = op_bind m' g s'"
  by (auto simp: op_bind_def split: prod.splits sum.splits)

text \<open>
  A relation that every object has to itself, and that follows one step after the other, holds
  between the object before and after a method when it holds for the parts of the method.
\<close>

definition op_keeps :: "('s \<Rightarrow> 's \<Rightarrow> bool) \<Rightarrow> ('s, 'e, 'a) fallible \<Rightarrow> bool" where
  "op_keeps R m \<longleftrightarrow> (\<forall>s. R s (fst (m s)))"

locale step_preorder =
  fixes R :: "'s \<Rightarrow> 's \<Rightarrow> bool"
  assumes R_refl: "R s s"
    and R_trans: "R s t \<Longrightarrow> R t u \<Longrightarrow> R s u"
begin

lemma keeps_bind:
  assumes "op_keeps R m" and "\<And>x. op_keeps R (f x)"
  shows "op_keeps R (op_bind m f)"
  unfolding op_keeps_def
proof
  fix s
  obtain t r where m: "m s = (t, r)" by (cases "m s")
  then have "R s t" using assms(1) unfolding op_keeps_def by (metis fst_conv)
  then show "R s (fst (op_bind m f s))"
    using m assms(2) R_trans unfolding op_keeps_def by (cases r) (auto simp: op_bind_def)
qed

lemma keeps_read [simp]: "op_keeps R (op_of g)" "op_keeps R (op_return x)"
  by (simp_all add: op_keeps_def R_refl)

lemma keeps_modify: "(\<And>s. R s (f s)) \<Longrightarrow> op_keeps R (op_modify f)"
  by (simp add: op_keeps_def)

end

end
