(* ===== verification/TrustConsumer.thy ===== *)
theory TrustConsumer
  imports TrustTypes TrustStorage FallibleOps
begin

text \<open>
  \<open>crates/secureflow-knowledge/src/catalog_trust/consumer.rs\<close>: reading and writing the state of
  a trust store, the lineage of roots, and the import of signed metadata in the order root,
  timestamp, snapshot, targets. The TUF client (\<open>tuf::Database\<close>) is a parameter of the type
  \<open>'db\<close> with its update operations; so are the serialization of the state and the listing of a
  directory. \<open>se_system\<close> gives the answers of the system, which may change at every \<open>turn\<close>: a
  turn ends with an attempt to replace the state.
\<close>

section \<open>Parameters and sessions\<close>

datatype dir_entry = EntryError | EntryOpaque | EntryName string

record 'db session_env = trust_env +
  se_tuf_root :: "string \<Rightarrow> 'db option"
  se_tuf_update_root :: "'db \<Rightarrow> string \<Rightarrow> 'db option"
  se_tuf_timestamp :: "int \<Rightarrow> 'db \<Rightarrow> string \<Rightarrow> 'db option"
  se_tuf_snapshot :: "int \<Rightarrow> 'db \<Rightarrow> string \<Rightarrow> 'db option"
  se_tuf_targets :: "int \<Rightarrow> 'db \<Rightarrow> string \<Rightarrow> 'db option"
  se_tuf_verify :: "'db \<Rightarrow> string \<Rightarrow> string \<Rightarrow> nat \<Rightarrow> bool"
  se_state_value :: "trust_state \<Rightarrow> jvalue option"
  se_state_bytes :: "trust_state \<Rightarrow> string option"
  se_state_of :: "jvalue \<Rightarrow> trust_state option"
  se_receipt_bytes :: "trust_receipt \<Rightarrow> string option"
  se_receipt_of :: "jvalue \<Rightarrow> trust_receipt option"
  se_read_dir :: "nat \<Rightarrow> string \<Rightarrow> dir_entry list option"
  se_system :: "nat \<Rightarrow> trust_system"
  se_bundle :: bundle_env
  se_opened :: "nat \<Rightarrow> string \<Rightarrow> opened_bundle"
  se_private_temp :: "nat \<Rightarrow> bool"
  se_publish_io :: "nat \<Rightarrow> publish_io"

record session =
  sn_store :: string
  sn_state :: trust_state
  sn_clock :: trust_clock
  sn_mutating :: bool
  sn_total :: nat
  sn_turn :: nat
  sn_files :: file_map

type_synonym 'a session_op = "(session, trust_code, 'a) fallible"

definition MAX_STATE_BYTES :: nat where
  "MAX_STATE_BYTES = 64 * 1024 * 1024"

definition METADATA_BUDGET :: nat where
  "METADATA_BUDGET = 12 * 1024 * 1024"

section \<open>The state file\<close>

definition encode_state :: "('db, 'z) session_env_scheme \<Rightarrow> trust_state \<Rightarrow> trust_code + string" where
  "encode_state env st =
     and_then (ok_or (se_state_value env st) TRUST_STATE) (\<lambda>v.
     and_then (validate_schema env ''state'' v) (\<lambda>_.
     and_then (ok_or (se_state_bytes env st) TRUST_STATE) (\<lambda>bytes.
     and_then (require (length bytes \<le> MAX_STATE_BYTES) TRUST_STATE) (\<lambda>_. Ok bytes))))"

definition evidence ::
  "('z) wire_env_scheme \<Rightarrow> jvalue \<Rightarrow> jvalue \<Rightarrow> string \<Rightarrow> string \<Rightarrow> trust_code + role_evidence" where
  "evidence env root v raw role =
     and_then (wire_number (vindex v ''signed'') ''version'' U32_MAX) (\<lambda>version.
     and_then (wire_canonical env (vindex v ''signed'')) (\<lambda>signed.
     and_then (wire_string (vindex v ''signed'') ''expires'') (\<lambda>expires.
     and_then (strict_signers env root v role) (\<lambda>signers.
     and_then (wire_number (vpath root [''signed'', ''roles'', role]) ''threshold'' 32) (\<lambda>threshold.
       Ok \<lparr>re_version = version, re_raw_sha256 = wire_digest env raw,
           re_signed_sha256 = wire_digest env signed, re_expires = expires,
           re_accepted_signer_ids = signers, re_threshold = threshold\<rparr>)))))"

text \<open>The loop of \<open>current_root\<close>: every root is signed by the quorum of the one before it and by its own.\<close>

fun root_chain ::
  "('db, 'z) session_env_scheme \<Rightarrow> jvalue \<Rightarrow> 'db \<Rightarrow> string list \<Rightarrow> trust_code + jvalue \<times> 'db" where
  "root_chain env root db [] = Ok (root, db)"
| "root_chain env root db (bytes # rest) =
     and_then (envelope env bytes ''root'') (\<lambda>next.
     and_then (root_profile env next) (\<lambda>_.
     and_then (strict_signers env root next ''root'') (\<lambda>_.
     and_then (strict_signers env next next ''root'') (\<lambda>_.
     and_then (ok_or (se_tuf_update_root env db bytes) TRUST_SIGNATURE) (\<lambda>db'.
       root_chain env next db' rest)))))"

definition initial_root ::
  "('db, 'z) session_env_scheme \<Rightarrow> trust_policy \<Rightarrow> string \<Rightarrow> trust_code + jvalue \<times> 'db" where
  "initial_root env policy initial =
     and_then (require (wire_digest env initial = tp_initial_root_sha256 policy) TRUST_STATE) (\<lambda>_.
     and_then (envelope env initial ''root'') (\<lambda>root.
     and_then (root_profile env root) (\<lambda>_.
     and_then (strict_signers env root root ''root'') (\<lambda>_.
     and_then (wire_number (vindex root ''signed'') ''version'' U32_MAX) (\<lambda>version.
     and_then (require (version = tp_minimum_root_version policy) TRUST_STATE) (\<lambda>_.
     and_then (ok_or (se_tuf_root env initial) TRUST_SIGNATURE) (\<lambda>db. Ok (root, db))))))))"

definition current_root ::
  "('db, 'z) session_env_scheme \<Rightarrow> trust_state \<Rightarrow> trust_code + jvalue \<times> 'db" where
  "current_root env st =
     (case st_roots st of
        [] \<Rightarrow> Err TRUST_STATE
      | initial # rest \<Rightarrow>
          and_then (initial_root env (st_policy st) initial) (\<lambda>(root, db).
            root_chain env root db rest))"

definition check_floor :: "trust_state \<Rightarrow> string \<Rightarrow> trust_code + unit" where
  "check_floor st profile =
     and_then (ok_or (map_of (st_floors st) profile) TRUST_STATE) (\<lambda>floor.
     and_then (require (tp_minimum_sequence (st_policy st) \<le> fl_sequence floor \<and>
                        fl_sequence floor \<le> MAX_SEQUENCE) TRUST_STATE) (\<lambda>_.
       check_opt (\<lambda>hash. and_then (wire_hex 32 hash) (\<lambda>_. Ok ())) (fl_manifest_sha256 floor)))"

definition check_role_record ::
  "('z) wire_env_scheme \<Rightarrow> string \<times> role_record \<Rightarrow> trust_code + unit" where
  "check_role_record env entry =
     (case entry of (role, rec) \<Rightarrow>
        and_then (require (role \<in> set [''targets'', ''snapshot'', ''timestamp'']) TRUST_STATE) (\<lambda>_.
        and_then (envelope env (rr_raw rec) role) (\<lambda>v.
        and_then (if re_raw_sha256 (rr_evidence rec) = wire_digest env (rr_raw rec)
                  then and_then (wire_canonical env (vindex v ''signed'')) (\<lambda>signed.
                    if re_signed_sha256 (rr_evidence rec) = wire_digest env signed
                    then and_then (wire_number (vindex v ''signed'') ''version'' U32_MAX) (\<lambda>version.
                      Ok (re_version (rr_evidence rec) = version))
                    else Ok False)
                  else Ok False) (\<lambda>good.
          require good TRUST_STATE))))"

definition check_state :: "('db, 'z) session_env_scheme \<Rightarrow> trust_state \<Rightarrow> trust_code + unit" where
  "check_state env st =
     checks
       [validate_trust_policy env (st_policy st),
        and_then (if st_contract_version st = ''secureflow-catalog-trust-state-v1''
                  then and_then (wire_canonical env (policy_value (st_policy st))) (\<lambda>policy.
                    Ok (st_policy_sha256 st = wire_digest env policy \<and>
                        0 < st_generation st \<and> st_generation st \<le> MAX_SEQUENCE))
                  else Ok False) (\<lambda>good. require good TRUST_STATE),
        and_then (parse_time env (st_maximum_verification_time st)) (\<lambda>_. Ok ()),
        require (length (st_floors st) = length (tp_profiles (st_policy st))) TRUST_STATE,
        each (check_floor st) (tp_profiles (st_policy st)),
        each (check_role_record env) (st_roles st),
        and_then (current_root env st) (\<lambda>_. Ok ())]"

definition read_state :: "('db, 'z) session_env_scheme \<Rightarrow> string \<Rightarrow> trust_code + trust_state" where
  "read_state env raw =
     and_then (wire_parse env raw MAX_STATE_BYTES) (\<lambda>v.
     and_then (validate_schema env ''state'' v) (\<lambda>_.
     and_then (ok_or (se_state_of env v) TRUST_STATE) (\<lambda>st.
     and_then (check_state env st) (\<lambda>_. Ok st))))"

definition load_state ::
  "('db, 'z) session_env_scheme \<Rightarrow> nat \<Rightarrow> file_map \<Rightarrow> string \<Rightarrow> trust_code + trust_state" where
  "load_state env turn files store =
     and_then (map_err (\<lambda>_. TRUST_STATE)
                (storage_read (se_system env turn) files (state_path store) MAX_STATE_BYTES))
       (read_state env)"

text \<open>\<open>historical_snapshot\<close>, and \<open>open\<close> up to the recovery of an interrupted installation.\<close>

definition historical_snapshot ::
  "('db, 'z) session_env_scheme \<Rightarrow> nat \<Rightarrow> file_map \<Rightarrow> string \<Rightarrow> trust_clock \<Rightarrow> trust_code + session" where
  "historical_snapshot env turn files store clock =
     and_then (validate_clock env clock) (\<lambda>_.
     and_then (open_store_lock (se_system env turn) store) (\<lambda>_.
     and_then (load_state env turn files store) (\<lambda>st.
       Ok \<lparr>sn_store = store, sn_state = st, sn_clock = clock, sn_mutating = False, sn_total = 0,
           sn_turn = turn, sn_files = files\<rparr>)))"

definition open_snapshot ::
  "('db, 'z) session_env_scheme \<Rightarrow> nat \<Rightarrow> file_map \<Rightarrow> string \<Rightarrow> trust_clock \<Rightarrow> bool \<Rightarrow>
     trust_code + session" where
  "open_snapshot env turn files store clock mutating =
     and_then (validate_clock env clock) (\<lambda>_.
     and_then (open_store_lock (se_system env turn) store) (\<lambda>_.
     and_then (load_state env turn files store) (\<lambda>st.
     and_then (parse_time env (tc_verification_time clock)) (\<lambda>now.
     and_then (parse_time env (st_maximum_verification_time st)) (\<lambda>retained.
     and_then (require (retained \<le> now) TRUST_CLOCK) (\<lambda>_.
       Ok \<lparr>sn_store = store, sn_state = st, sn_clock = clock, sn_mutating = mutating, sn_total = 0,
           sn_turn = turn, sn_files = files\<rparr>))))))"

section \<open>Steps of a session\<close>

definition put_state :: "(trust_state \<Rightarrow> trust_state) \<Rightarrow> unit session_op" where
  "put_state f = op_modify (\<lambda>s. s\<lparr>sn_state := f (sn_state s)\<rparr>)"

definition next_generation :: "nat \<Rightarrow> nat option" where
  "next_generation g = (if g + 1 < 2 ^ 64 \<and> g + 1 \<le> MAX_SEQUENCE then Some (g + 1) else None)"

definition replace_file :: "('db, 'z) session_env_scheme \<Rightarrow> string \<Rightarrow> unit session_op" where
  "replace_file env bytes s =
     (case replace_state (se_system env (sn_turn s)) (sn_files s) (sn_store s) bytes of
        (files, r) \<Rightarrow> (s\<lparr>sn_files := files, sn_turn := sn_turn s + 1\<rparr>, r))"

definition session_save :: "('db, 'z) session_env_scheme \<Rightarrow> unit session_op" where
  "session_save env s =
     (if \<not> sn_mutating s then (s, Ok ())
      else
        op_bind (op_of (\<lambda>s. ok_or (next_generation (st_generation (sn_state s))) TRUST_STATE)) (\<lambda>g.
        op_bind (put_state (\<lambda>st. st\<lparr>st_generation := g\<rparr>)) (\<lambda>_.
        op_bind (put_state (\<lambda>st. st\<lparr>st_maximum_verification_time :=
                   tc_verification_time (sn_clock s)\<rparr>)) (\<lambda>_.
        op_bind (op_of (\<lambda>s. encode_state env (sn_state s))) (replace_file env)))) s)"

definition read_metadata ::
  "('db, 'z) session_env_scheme \<Rightarrow> string \<Rightarrow> nat \<Rightarrow> string session_op" where
  "read_metadata env path limit =
     op_bind (op_of (\<lambda>s. storage_read (se_system env (sn_turn s)) (sn_files s) path limit)) (\<lambda>bytes.
     op_bind (op_modify (\<lambda>s. s\<lparr>sn_total := sn_total s + length bytes\<rparr>)) (\<lambda>_.
     op_bind (op_of (\<lambda>s. require (sn_total s \<le> METADATA_BUDGET) TRUST_FORMAT)) (\<lambda>_.
       op_return bytes)))"

definition expiry ::
  "('z) wire_env_scheme \<Rightarrow> trust_policy \<Rightarrow> trust_clock \<Rightarrow> jvalue \<Rightarrow> string \<Rightarrow> trust_code + unit" where
  "expiry env policy clock v role =
     and_then (parse_time env (tc_verification_time clock)) (\<lambda>now.
     and_then (expires_at env (vindex v ''signed'')) (\<lambda>expires.
     and_then (require (now < expires) TRUST_EXPIRY) (\<lambda>_.
     and_then (ok_or (map_of (tp_maximum_horizon_days policy) role) TRUST_STATE) (\<lambda>days.
       require (expires - now \<le> int days * 86400) TRUST_EXPIRY))))"

definition session_expiry ::
  "('db, 'z) session_env_scheme \<Rightarrow> jvalue \<Rightarrow> string \<Rightarrow> session \<Rightarrow> trust_code + unit" where
  "session_expiry env v role s = expiry env (st_policy (sn_state s)) (sn_clock s) v role"

definition child_floor ::
  "('z) wire_env_scheme \<Rightarrow> string \<Rightarrow> jvalue \<Rightarrow> role_record \<Rightarrow> trust_code + unit" where
  "child_floor env role v old =
     and_then (envelope env (rr_raw old) role) (\<lambda>old_value.
     (let child = (if role = ''timestamp'' then ''snapshot.json'' else ''targets.json'') in
      and_then (wire_number (vpath old_value [''signed'', ''meta'', child]) ''version'' U32_MAX) (\<lambda>ov.
      and_then (wire_number (vpath v [''signed'', ''meta'', child]) ''version'' U32_MAX) (\<lambda>nv.
        require (ov \<le> nv) TRUST_ROLLBACK))))"

definition role_floor ::
  "('z) wire_env_scheme \<Rightarrow> trust_state \<Rightarrow> string \<Rightarrow> jvalue \<Rightarrow> trust_code + unit" where
  "role_floor env st role v =
     (case map_of (st_roles st) role of
        None \<Rightarrow> Ok ()
      | Some old \<Rightarrow>
          and_then (wire_number (vindex v ''signed'') ''version'' U32_MAX) (\<lambda>version.
          and_then (require (re_version (rr_evidence old) \<le> version) TRUST_ROLLBACK) (\<lambda>_.
          and_then (if version = re_version (rr_evidence old)
                    then and_then (wire_canonical env (vindex v ''signed'')) (\<lambda>signed.
                      require (wire_digest env signed = re_signed_sha256 (rr_evidence old))
                        TRUST_EQUIVOCATION)
                    else Ok ()) (\<lambda>_.
            if role = ''timestamp'' \<or> role = ''snapshot'' then child_floor env role v old else Ok ()))))"

text \<open>\<open>String::from_utf8\<close> of bytes that \<open>envelope\<close> accepted: a JSON text is well-formed UTF-8.\<close>

definition retain_role ::
  "('db, 'z) session_env_scheme \<Rightarrow> jvalue \<Rightarrow> jvalue \<Rightarrow> string \<Rightarrow> string \<Rightarrow> unit session_op" where
  "retain_role env root v bytes role =
     op_bind (op_of (\<lambda>_. evidence env root v bytes role)) (\<lambda>ev.
     op_bind (put_state (\<lambda>st. st\<lparr>st_roles :=
                bt_insert role \<lparr>rr_raw = bytes, rr_evidence = ev\<rparr> (st_roles st)\<rparr>)) (\<lambda>_.
       session_save env))"

section \<open>Roots\<close>

definition strip_suffix :: "string \<Rightarrow> string \<Rightarrow> string option" where
  "strip_suffix sfx s = (if ends_with sfx s then Some (take (length s - length sfx) s) else None)"

definition parse_u64 :: "string \<Rightarrow> nat option" where
  "parse_u64 s =
     (let digits = (if starts_with ''+'' s then tl s else s) in
      if digits \<noteq> [] \<and> list_all is_digit digits \<and> digits_value digits < 2 ^ 64
      then Some (digits_value digits) else None)"

text \<open>The scan of the directory: the root versions to import, in the order of the listing.\<close>

fun scan_roots ::
  "('db, 'z) session_env_scheme \<Rightarrow> string \<Rightarrow> jvalue \<Rightarrow> nat \<Rightarrow> nat \<Rightarrow> nat list \<Rightarrow> dir_entry list \<Rightarrow>
     nat list session_op" where
  "scan_roots env dir root current k versions [] = op_return versions"
| "scan_roots env dir root current k versions (e # es) =
     op_bind (op_of (\<lambda>_. require (k + 1 \<le> 512) TRUST_FORMAT)) (\<lambda>_.
     (case e of
        EntryError \<Rightarrow> op_of (\<lambda>_. Err TRUST_FILESYSTEM)
      | EntryOpaque \<Rightarrow> op_of (\<lambda>_. Err TRUST_FORMAT)
      | EntryName name \<Rightarrow>
          (case strip_suffix ''.root.json'' name of
             None \<Rightarrow> scan_roots env dir root current (k + 1) versions es
           | Some stem \<Rightarrow>
               op_bind (op_of (\<lambda>_. ok_or (parse_u64 stem) TRUST_FORMAT)) (\<lambda>version.
               op_bind (op_of (\<lambda>_. require (0 < version \<and> version \<le> U32_MAX \<and>
                                          stem = show_nat version) TRUST_FORMAT)) (\<lambda>_.
               if current < version
               then scan_roots env dir root current (k + 1) (versions @ [version]) es
               else if version = current
               then
                 op_bind (read_metadata env (path_join dir name) (LIMITS ! 0)) (\<lambda>bytes.
                 op_bind (op_of (\<lambda>_. envelope env bytes ''root'')) (\<lambda>seen.
                 op_bind (op_of (\<lambda>_. wire_canonical env (vindex seen ''signed''))) (\<lambda>a.
                 op_bind (op_of (\<lambda>_. wire_canonical env (vindex root ''signed''))) (\<lambda>b.
                 op_bind (op_of (\<lambda>_. require (a = b) TRUST_EQUIVOCATION)) (\<lambda>_.
                   scan_roots env dir root current (k + 1) versions es)))))
               else scan_roots env dir root current (k + 1) versions es)))))"

text \<open>The transitions, in the order of their versions; every accepted root is saved at once.\<close>

definition root_transition ::
  "('db, 'z) session_env_scheme \<Rightarrow> string \<Rightarrow> jvalue \<Rightarrow> 'db \<Rightarrow> nat \<Rightarrow> nat \<Rightarrow> (jvalue \<times> 'db) session_op" where
  "root_transition env dir root db current version =
     op_bind (op_of (\<lambda>_. require (current + 1 = version) TRUST_ROLLBACK)) (\<lambda>_.
     op_bind (read_metadata env (path_join dir (show_nat version @ ''.root.json'')) (LIMITS ! 0)) (\<lambda>bytes.
     op_bind (op_of (\<lambda>_. envelope env bytes ''root'')) (\<lambda>next.
     op_bind (op_of (\<lambda>_. root_profile env next)) (\<lambda>_.
     op_bind (op_of (\<lambda>_. wire_number (vindex next ''signed'') ''version'' U32_MAX)) (\<lambda>v.
     op_bind (op_of (\<lambda>_. require (v = version) TRUST_ROLLBACK)) (\<lambda>_.
     op_bind (op_of (\<lambda>_. strict_signers env root next ''root'')) (\<lambda>_.
     op_bind (op_of (\<lambda>_. strict_signers env next next ''root'')) (\<lambda>_.
     op_bind (op_of (\<lambda>_. ok_or (se_tuf_update_root env db bytes) TRUST_SIGNATURE)) (\<lambda>db'.
     op_bind (put_state (\<lambda>st. st\<lparr>st_roots := st_roots st @ [bytes]\<rparr>)) (\<lambda>_.
     op_bind (session_save env) (\<lambda>_.
       op_return (next, db'))))))))))))"

fun root_transitions ::
  "('db, 'z) session_env_scheme \<Rightarrow> string \<Rightarrow> jvalue \<Rightarrow> 'db \<Rightarrow> nat \<Rightarrow> nat list \<Rightarrow> jvalue session_op" where
  "root_transitions env dir root db current [] = op_return root"
| "root_transitions env dir root db current (version # vs) =
     op_bind (root_transition env dir root db current version) (\<lambda>(next, db').
       root_transitions env dir next db' version vs)"

definition import_roots :: "('db, 'z) session_env_scheme \<Rightarrow> string \<Rightarrow> jvalue session_op" where
  "import_roots env dir =
     op_bind (op_of (\<lambda>s. checked_path (se_system env (sn_turn s)) dir)) (\<lambda>_.
     op_bind (op_of (\<lambda>s. current_root env (sn_state s))) (\<lambda>(root, db).
     op_bind (op_of (\<lambda>_. wire_number (vindex root ''signed'') ''version'' U32_MAX)) (\<lambda>current.
     op_bind (op_of (\<lambda>s. ok_or (se_read_dir env (sn_turn s) dir) TRUST_FILESYSTEM)) (\<lambda>listing.
     op_bind (scan_roots env dir root current 0 [] listing) (\<lambda>versions.
     op_bind (op_of (\<lambda>_. require (length versions \<le> 128) TRUST_FORMAT)) (\<lambda>_.
     op_bind (root_transitions env dir root db current (sort versions)) (\<lambda>last_root.
     op_bind (op_of (session_expiry env last_root ''root'')) (\<lambda>_.
       op_return last_root))))))))"

section \<open>Links between roles\<close>

definition target_link :: "jvalue \<Rightarrow> trust_code + unit" where
  "target_link v =
     and_then (wire_number v ''length'' 2097152) (\<lambda>_.
     and_then (closed (vindex v ''hashes'') [''sha256'']) (\<lambda>_.
     and_then (wire_hex_at 32 (vindex v ''hashes'') ''sha256'') (\<lambda>_. Ok ())))"

definition metadata_link :: "jvalue \<Rightarrow> string \<Rightarrow> trust_code + jvalue" where
  "metadata_link v name =
     and_then (closed (vpath v [''signed'', ''meta'']) [name]) (\<lambda>_.
     (let link = vpath v [''signed'', ''meta'', name] in
      and_then (wire_number link ''version'' U32_MAX) (\<lambda>_.
      and_then (target_link link) (\<lambda>_. Ok link))))"

definition check_link :: "('z) wire_env_scheme \<Rightarrow> jvalue \<Rightarrow> string \<Rightarrow> trust_code + unit" where
  "check_link env v bytes =
     and_then (target_link v) (\<lambda>_.
     and_then (if vget ''version'' v \<noteq> None
               then and_then (wire_parse env bytes 2097152) (\<lambda>child.
                    and_then (wire_number v ''version'' U32_MAX) (\<lambda>a.
                    and_then (wire_number (vindex child ''signed'') ''version'' U32_MAX) (\<lambda>b.
                      require (a = b) TRUST_ROLLBACK)))
               else Ok ()) (\<lambda>_.
     and_then (wire_number v ''length'' 2097152) (\<lambda>len.
     and_then (if len = length bytes
               then and_then (wire_string (vindex v ''hashes'') ''sha256'') (\<lambda>hash.
                 Ok (hash = wire_digest env bytes))
               else Ok False) (\<lambda>good.
       require good TRUST_INTEGRITY))))"

section \<open>Targets and application floors\<close>

definition accept_target ::
  "('z) trust_env_scheme \<Rightarrow> trust_state \<Rightarrow> string \<Rightarrow> jvalue \<Rightarrow> trust_code + trust_target" where
  "accept_target env st name entry =
     and_then (target_link entry) (\<lambda>_.
     and_then (closed (vindex entry ''custom'') [''secureflow'']) (\<lambda>_.
     and_then (ok_or (target_from_value (vpath entry [''custom'', ''secureflow''])) TRUST_SCOPE) (\<lambda>target.
     and_then (validate_target env target) (\<lambda>_.
     and_then (policy_allows (st_policy st) (target_scope target)) (\<lambda>_.
     and_then (require (name = scope_target (target_scope target)) TRUST_SCOPE) (\<lambda>_.
     and_then (wire_string (vindex entry ''hashes'') ''sha256'') (\<lambda>hash.
     and_then (ok_or (map_of (st_floors st) (tt_profile target)) TRUST_STATE) (\<lambda>floor.
     and_then (require (fl_sequence floor \<le> tt_release_sequence target) TRUST_ROLLBACK) (\<lambda>_.
     and_then (case (fl_manifest_sha256 floor, tp_bootstrap_manifest_sha256 (st_policy st)) of
                 (None, Some pin) \<Rightarrow> require (hash = pin) TRUST_BOOTSTRAP
               | _ \<Rightarrow> Ok ()) (\<lambda>_.
     and_then (case fl_manifest_sha256 floor of
                 Some previous \<Rightarrow>
                   if tt_release_sequence target = fl_sequence floor
                   then require (hash = previous) TRUST_EQUIVOCATION else Ok ()
               | None \<Rightarrow> Ok ()) (\<lambda>_. Ok target)))))))))))"

fun accept_targets ::
  "('z) trust_env_scheme \<Rightarrow> trust_state \<Rightarrow> (string, trust_target) btree_map \<Rightarrow> (string \<times> jvalue) list \<Rightarrow>
     trust_code + (string, trust_target) btree_map" where
  "accept_targets env st accepted [] = Ok accepted"
| "accept_targets env st accepted ((name, entry) # es) =
     and_then (accept_target env st name entry) (\<lambda>target.
       accept_targets env st (bt_insert (tt_profile target) target accepted) es)"

fun advance_floors :: "jvalue \<Rightarrow> trust_target list \<Rightarrow> unit session_op" where
  "advance_floors items [] = op_return ()"
| "advance_floors items (target # ts) =
     op_bind (op_of (\<lambda>_. wire_string
       (vpath items [scope_target (target_scope target), ''hashes'']) ''sha256'')) (\<lambda>hash.
     op_bind (put_state (\<lambda>st. st\<lparr>st_floors := bt_insert (tt_profile target)
       \<lparr>fl_sequence = tt_release_sequence target, fl_manifest_sha256 = Some hash\<rparr> (st_floors st)\<rparr>)) (\<lambda>_.
       advance_floors items ts))"

section \<open>Metadata\<close>

text \<open>One role of \<open>import_metadata\<close>, from its checked bytes to the retained record.\<close>

definition import_timestamp ::
  "('db, 'z) session_env_scheme \<Rightarrow> string \<Rightarrow> jvalue \<Rightarrow> int \<Rightarrow> 'db \<Rightarrow> (jvalue \<times> 'db) session_op" where
  "import_timestamp env dir root now db =
     op_bind (read_metadata env (path_join dir ''timestamp.json'') (LIMITS ! 3)) (\<lambda>bytes.
     op_bind (op_of (\<lambda>_. envelope env bytes ''timestamp'')) (\<lambda>timestamp.
     op_bind (op_of (session_expiry env timestamp ''timestamp'')) (\<lambda>_.
     op_bind (op_of (\<lambda>s. role_floor env (sn_state s) ''timestamp'' timestamp)) (\<lambda>_.
     op_bind (op_of (\<lambda>_. metadata_link timestamp ''snapshot.json'')) (\<lambda>link.
     op_bind (op_of (\<lambda>_. strict_signers env root timestamp ''timestamp'')) (\<lambda>_.
     op_bind (op_of (\<lambda>_. ok_or (se_tuf_timestamp env now db bytes) TRUST_SIGNATURE)) (\<lambda>db'.
     op_bind (retain_role env root timestamp bytes ''timestamp'') (\<lambda>_.
       op_return (link, db')))))))))"

definition import_snapshot ::
  "('db, 'z) session_env_scheme \<Rightarrow> string \<Rightarrow> jvalue \<Rightarrow> int \<Rightarrow> jvalue \<Rightarrow> 'db \<Rightarrow> (jvalue \<times> 'db) session_op" where
  "import_snapshot env dir root now snapshot_link db =
     op_bind (op_of (\<lambda>_. wire_number snapshot_link ''version'' U32_MAX)) (\<lambda>sv.
     op_bind (read_metadata env (path_join dir (show_nat sv @ ''.snapshot.json'')) (LIMITS ! 2)) (\<lambda>bytes.
     op_bind (op_of (\<lambda>_. check_link env snapshot_link bytes)) (\<lambda>_.
     op_bind (op_of (\<lambda>_. envelope env bytes ''snapshot'')) (\<lambda>snapshot.
     op_bind (op_of (session_expiry env snapshot ''snapshot'')) (\<lambda>_.
     op_bind (op_of (\<lambda>s. role_floor env (sn_state s) ''snapshot'' snapshot)) (\<lambda>_.
     op_bind (op_of (\<lambda>_. metadata_link snapshot ''targets.json'')) (\<lambda>link.
     op_bind (op_of (\<lambda>_. strict_signers env root snapshot ''snapshot'')) (\<lambda>_.
     op_bind (op_of (\<lambda>_. ok_or (se_tuf_snapshot env now db bytes) TRUST_SIGNATURE)) (\<lambda>db'.
     op_bind (retain_role env root snapshot bytes ''snapshot'') (\<lambda>_.
       op_return (link, db')))))))))))"

definition import_targets ::
  "('db, 'z) session_env_scheme \<Rightarrow> string \<Rightarrow> jvalue \<Rightarrow> int \<Rightarrow> jvalue \<Rightarrow> 'db \<Rightarrow>
     (string, trust_target) btree_map session_op" where
  "import_targets env dir root now targets_link db =
     op_bind (op_of (\<lambda>_. wire_number targets_link ''version'' U32_MAX)) (\<lambda>tv.
     op_bind (read_metadata env (path_join dir (show_nat tv @ ''.targets.json'')) (LIMITS ! 1)) (\<lambda>bytes.
     op_bind (op_of (\<lambda>_. check_link env targets_link bytes)) (\<lambda>_.
     op_bind (op_of (\<lambda>_. envelope env bytes ''targets'')) (\<lambda>targets.
     op_bind (op_of (session_expiry env targets ''targets'')) (\<lambda>_.
     op_bind (op_of (\<lambda>s. role_floor env (sn_state s) ''targets'' targets)) (\<lambda>_.
     op_bind (op_of (\<lambda>_. strict_signers env root targets ''targets'')) (\<lambda>_.
     op_bind (op_of (\<lambda>_. ok_or (se_tuf_targets env now db bytes) TRUST_SIGNATURE)) (\<lambda>_.
     op_bind (op_of (\<lambda>_. ok_or (value_object (vpath targets [''signed'', ''targets''])) TRUST_FORMAT)) (\<lambda>entries.
     op_bind (op_of (\<lambda>_. require (entries \<noteq> [] \<and> length entries \<le> 256) TRUST_FORMAT)) (\<lambda>_.
     op_bind (op_of (\<lambda>s. accept_targets env (sn_state s) [] entries)) (\<lambda>accepted.
     op_bind (advance_floors (VObj entries) (map snd accepted)) (\<lambda>_.
     op_bind (retain_role env root targets bytes ''targets'') (\<lambda>_.
       op_return accepted)))))))))))))"

definition import_metadata ::
  "('db, 'z) session_env_scheme \<Rightarrow> string \<Rightarrow> bool \<Rightarrow> (string, trust_target) btree_map session_op" where
  "import_metadata env dir root_only =
     op_bind (op_of (\<lambda>s. parse_time env (tc_verification_time (sn_clock s)))) (\<lambda>now.
     op_bind (op_of (\<lambda>s. parse_time env (st_maximum_verification_time (sn_state s)))) (\<lambda>retained.
     op_bind (op_of (\<lambda>_. require (retained \<le> now) TRUST_CLOCK)) (\<lambda>_.
     op_bind (import_roots env dir) (\<lambda>root.
       if root_only then op_return []
       else
         op_bind (op_of (\<lambda>s. current_root env (sn_state s))) (\<lambda>(_, db).
         op_bind (import_timestamp env dir root now db) (\<lambda>(snapshot_link, db).
         op_bind (import_snapshot env dir root now snapshot_link db) (\<lambda>(targets_link, db).
           import_targets env dir root now targets_link db)))))))"

end
