(* ===== verification/TrustInstall.thy ===== *)
theory TrustInstall
  imports TrustConsumer
begin

text \<open>
  \<open>crates/secureflow-knowledge/src/catalog_trust/install.rs\<close>: opening a session with the
  recovery of an interrupted installation, the authentication of a manifest against the signed
  targets, receipts, the check of a bundle and its installation. An installation is journaled:
  its receipt is pending in the durable state before the database is published, and completed
  after it.
\<close>

definition MAX_RECEIPT_BYTES :: nat where
  "MAX_RECEIPT_BYTES = 262144"

definition bundle_result :: "bundle_error + 'a \<Rightarrow> trust_code + 'a" where
  "bundle_result r = map_err (\<lambda>_. TRUST_INTEGRITY) r"

section \<open>Recovery\<close>

definition receipt_path :: "string \<Rightarrow> string \<Rightarrow> string" where
  "receipt_path store key = path_join (path_join store ''receipts'') (key @ ''.json'')"

definition export_receipt ::
  "('db, 'z) session_env_scheme \<Rightarrow> string \<times> trust_receipt \<Rightarrow> unit session_op" where
  "export_receipt env entry s =
     (case entry of (key, receipt) \<Rightarrow>
        op_bind (op_of (\<lambda>_. wire_hex 32 key)) (\<lambda>_.
        op_bind (op_of (\<lambda>_. ok_or (se_receipt_bytes env receipt) TRUST_STATE)) (\<lambda>bytes s.
          (let path = receipt_path (sn_store s) key;
               sys = se_system env (sn_turn s) in
           case symlink_metadata (se_publish_io env (sn_turn s)) (sn_files s) path of
             ProbeFound \<Rightarrow>
               (s, and_then (storage_read sys (sn_files s) path MAX_RECEIPT_BYTES) (\<lambda>old.
                     require (old = bytes) TRUST_STATE))
           | ProbeMissing \<Rightarrow>
               (case write_new sys (sn_files s) path bytes of
                  (files, r) \<Rightarrow> (s\<lparr>sn_files := files\<rparr>, r))
           | ProbeFailed \<Rightarrow> (s, Err TRUST_STATE)))) s)"

fun export_each ::
  "('db, 'z) session_env_scheme \<Rightarrow> (string \<times> trust_receipt) list \<Rightarrow> unit session_op" where
  "export_each env [] = op_return ()"
| "export_each env (e # es) = op_bind (export_receipt env e) (\<lambda>_. export_each env es)"

definition export_receipts :: "('db, 'z) session_env_scheme \<Rightarrow> unit session_op" where
  "export_receipts env s =
     op_bind (op_of (\<lambda>s. private_dir (se_system env (sn_turn s)) (path_join (sn_store s) ''receipts''))) (\<lambda>_.
       export_each env (st_completed (sn_state s))) s"

text \<open>What \<open>recover\<close> decides about a pending installation: \<open>None\<close> drops it, \<open>Some\<close> completes its receipt.\<close>

definition recover_pending ::
  "('db, 'z) session_env_scheme \<Rightarrow> session \<Rightarrow> pending_install \<Rightarrow>
     trust_code + (string \<times> trust_receipt) option" where
  "recover_pending env s pending =
     (let receipt = pn_receipt pending; descriptor = pn_descriptor pending;
          sys = se_system env (sn_turn s); io = se_publish_io env (sn_turn s) in
      and_then (require (rc_database_sha256 receipt = cd_database_sha256 descriptor \<and>
                         rc_database_bytes receipt = cd_database_bytes descriptor \<and>
                         rc_installation receipt = ''pending'') TRUST_STATE) (\<lambda>_.
      and_then (ok_or (rc_output receipt) TRUST_STATE) (\<lambda>output.
      and_then (ok_or (path_parent output) TRUST_STATE) (\<lambda>parent.
      and_then (private_dir sys parent) (\<lambda>_.
        (case symlink_metadata io (sn_files s) output of
           ProbeFound \<Rightarrow>
             and_then (checked_path sys output) (\<lambda>_.
             and_then (map_err (\<lambda>_. TRUST_STATE)
               (verify_installed_descriptor (bn_sha (se_bundle env)) io (sn_files s) output descriptor)) (\<lambda>_.
             and_then (require (pb_synced io) TRUST_FILESYSTEM) (\<lambda>_.
             and_then (sync_parent sys output) (\<lambda>_.
             and_then (ok_or (rc_transaction_id receipt) TRUST_STATE) (\<lambda>key.
               Ok (Some (key, receipt\<lparr>rc_installation := ''complete''\<rparr>)))))))
         | ProbeMissing \<Rightarrow> Ok None
         | ProbeFailed \<Rightarrow> Err TRUST_STATE))))))"

definition finish_pending :: "(string \<times> trust_receipt) option \<Rightarrow> trust_state \<Rightarrow> trust_state" where
  "finish_pending done st =
     (case done of
        None \<Rightarrow> st
      | Some (key, receipt) \<Rightarrow> st\<lparr>st_completed := bt_insert key receipt (st_completed st)\<rparr>)
     \<lparr>st_pending := None\<rparr>"

definition session_recover :: "('db, 'z) session_env_scheme \<Rightarrow> unit session_op" where
  "session_recover env s =
     op_bind
       (case st_pending (sn_state s) of
          None \<Rightarrow> op_return ()
        | Some pending \<Rightarrow>
            op_bind (op_of (\<lambda>s. recover_pending env s pending)) (\<lambda>done.
            op_bind (put_state (finish_pending done)) (\<lambda>_.
              session_save env)))
       (\<lambda>_. export_receipts env) s"

text \<open>\<open>Session::open\<close>: the files as it leaves them, and the session or the error.\<close>

definition session_open ::
  "('db, 'z) session_env_scheme \<Rightarrow> nat \<Rightarrow> file_map \<Rightarrow> string \<Rightarrow> trust_clock \<Rightarrow> bool \<Rightarrow>
     file_map \<times> (trust_code + session)" where
  "session_open env turn files store clock mutating =
     (case open_snapshot env turn files store clock mutating of
        Inl e \<Rightarrow> (files, Err e)
      | Inr s \<Rightarrow>
          if mutating
          then (case session_recover env s of
                  (s', Inl e) \<Rightarrow> (sn_files s', Err e)
                | (s', Inr _) \<Rightarrow> (sn_files s', Ok s'))
          else (files, Ok s))"

section \<open>Authentication and receipts\<close>

definition authenticate ::
  "('db, 'z) session_env_scheme \<Rightarrow> trust_scope \<Rightarrow> string \<Rightarrow> (string, trust_target) btree_map \<Rightarrow> session \<Rightarrow>
     trust_code + parsed_catalog_bundle_manifest \<times> trust_target \<times> catalog_bundle_verification_policy" where
  "authenticate env scope manifest targets s =
     and_then (policy_allows (st_policy (sn_state s)) scope) (\<lambda>_.
     and_then (ok_or (map_of targets (ts_profile scope)) TRUST_SCOPE) (\<lambda>target.
     and_then (require (target_scope target = scope) TRUST_SCOPE) (\<lambda>_.
     and_then (storage_read (se_system env (sn_turn s)) (sn_files s) manifest MAX_BUNDLE_MANIFEST_BYTES) (\<lambda>raw.
     and_then (wire_parse env raw MAX_BUNDLE_MANIFEST_BYTES) (\<lambda>_.
     and_then (ok_or (map_of (st_roles (sn_state s)) ''targets'') TRUST_STATE) (\<lambda>role.
     and_then (envelope env (rr_raw role) ''targets'') (\<lambda>v.
     and_then (check_link env (vpath v [''signed'', ''targets'', scope_target scope]) raw) (\<lambda>_.
     and_then (bundle_result (parse_manifest (se_bundle env) raw)) (\<lambda>parsed.
     and_then (require
       (bm_bundle_id (pm_manifest parsed) = tt_bundle_id target \<and>
        profile_name (bm_profile (pm_manifest parsed)) = tt_profile target \<and>
        bm_profile_policy_version (pm_manifest parsed) = tt_profile_policy_version target \<and>
        bm_contract_version (pm_manifest parsed) = tt_manifest_contract_version target \<and>
        bm_validation_authority (pm_manifest parsed) = tt_validation_authority target) TRUST_SCOPE) (\<lambda>_.
       Ok (parsed, target,
           default_policy\<lparr>vp_required_profile := Some (bm_profile (pm_manifest parsed)),
                          vp_expected_manifest_sha256 := Some (pm_manifest_sha256 parsed)\<rparr>)))))))))))"

definition LIMITATIONS :: "string list" where
  "LIMITATIONS =
     [''Offline acceptance cannot establish globally latest metadata or withheld revocations.'',
      ''Signatures authenticate distributor authorization of bytes, not advisory truth, upstream identity, license rights, vulnerability validity or safe remediation.'',
      ''Local state and clock are operator-trusted; full-machine rollback is outside this assurance.'',
      ''Installed catalog queries do not enforce freshness; this receipt is an as-of statement.'']"

definition root_evidence ::
  "('db, 'z) session_env_scheme \<Rightarrow> jvalue \<Rightarrow> string \<Rightarrow> trust_code + role_evidence" where
  "root_evidence env root raw = evidence env root root raw ''root''"

definition minimum :: "string list \<Rightarrow> string option" where
  "minimum xs = (case xs of [] \<Rightarrow> None | x # ys \<Rightarrow> Some (foldl min x ys))"

definition make_receipt ::
  "('db, 'z) session_env_scheme \<Rightarrow> trust_target \<Rightarrow> parsed_catalog_bundle_manifest \<Rightarrow> session \<Rightarrow>
     trust_code + trust_receipt" where
  "make_receipt env target parsed s =
     (let st = sn_state s; payload = bm_payload (pm_manifest parsed) in
      and_then (ok_or (map_of (st_roles st) ''targets'') TRUST_STATE) (\<lambda>targets_record.
      and_then (envelope env (rr_raw targets_record) ''targets'') (\<lambda>targets.
      and_then (wire_number (vpath targets [''signed'', ''targets'', scope_target (target_scope target)])
                  ''length'' MAX_BUNDLE_MANIFEST_BYTES) (\<lambda>manifest_bytes.
      and_then (current_root env st) (\<lambda>(root, _).
      and_then (ok_or (if st_roots st = [] then None else Some (last (st_roots st))) TRUST_STATE) (\<lambda>raw.
      and_then (root_evidence env root raw) (\<lambda>ev.
      (let roles = bt_insert ''root'' ev (map (\<lambda>(k, v). (k, rr_evidence v)) (st_roles st)) in
       and_then (ok_or (minimum (map (\<lambda>(k, r). re_expires r) roles)) TRUST_STATE) (\<lambda>first_expiry.
         Ok \<lparr>rc_contract_version = ''secureflow-catalog-trust-receipt-v1'', rc_operation = ''verify'',
             rc_installation = ''not-requested'', rc_transaction_id = None, rc_output = None,
             rc_integrity = ''verified'', rc_publisher_authenticity = ''tuf-root-authorized'',
             rc_freshness = ''within-local-policy-as-of'',
             rc_rollback = ''accepted-against-local-state'', rc_scope = target_scope target,
             rc_release_sequence = tt_release_sequence target,
             rc_initial_root_sha256 = tp_initial_root_sha256 (st_policy st),
             rc_current_root_sha256 = wire_digest env raw, rc_metadata = roles,
             rc_manifest_sha256 = pm_manifest_sha256 parsed, rc_manifest_bytes = manifest_bytes,
             rc_database_sha256 = cd_database_sha256 payload,
             rc_database_bytes = cd_database_bytes payload, rc_policy_sha256 = st_policy_sha256 st,
             rc_clock = sn_clock s, rc_earliest_expiry = first_expiry,
             rc_state_generation = st_generation st, rc_reserves_acceptance = False,
             rc_validation_authority = ''human-only'', rc_limitations = LIMITATIONS\<rparr>)))))))))"

definition session_verify ::
  "('db, 'z) session_env_scheme \<Rightarrow> string \<Rightarrow> trust_scope \<Rightarrow> string \<Rightarrow> string \<Rightarrow> trust_receipt session_op" where
  "session_verify env dir scope manifest payload =
     op_bind (op_of (\<lambda>s. require (\<not> sn_mutating s) TRUST_STATE)) (\<lambda>_.
     op_bind (op_of (\<lambda>s. policy_allows (st_policy (sn_state s)) scope)) (\<lambda>_.
     op_bind (import_metadata env dir False) (\<lambda>targets.
     op_bind (op_of (authenticate env scope manifest targets)) (\<lambda>(parsed, target, policy).
     op_bind (op_of (\<lambda>s. checked_path (se_system env (sn_turn s)) payload)) (\<lambda>_.
     op_bind (op_of (\<lambda>s. open_regular (se_system env (sn_turn s)) payload)) (\<lambda>_.
     op_bind (op_of (\<lambda>s. bundle_result (verify_trusted_bundle (se_bundle env)
        (se_private_temp env (sn_turn s)) (se_opened env (sn_turn s) payload) parsed policy))) (\<lambda>_.
       op_of (make_receipt env target parsed))))))))"

section \<open>Installation\<close>

definition inside_store :: "string \<Rightarrow> string \<Rightarrow> bool" where
  "inside_store store output = prefix (path_components store) (path_components output)"

definition check_output ::
  "('db, 'z) session_env_scheme \<Rightarrow> string \<Rightarrow> session \<Rightarrow> trust_code + unit" where
  "check_output env output s =
     and_then (ok_or (path_parent output) TRUST_FILESYSTEM) (\<lambda>parent.
     and_then (private_dir (se_system env (sn_turn s)) parent) (\<lambda>_.
       require (has_file_name output \<and> is_absolute output \<and> \<not> inside_store (sn_store s) output)
         TRUST_FILESYSTEM))"

text \<open>The receipt to journal, with the digest of its own text as the transaction.\<close>

definition pending_receipt ::
  "('db, 'z) session_env_scheme \<Rightarrow> trust_target \<Rightarrow> parsed_catalog_bundle_manifest \<Rightarrow> string \<Rightarrow> session \<Rightarrow>
     trust_code + trust_receipt" where
  "pending_receipt env target parsed output s =
     and_then (make_receipt env target parsed s) (\<lambda>receipt0.
     and_then (ok_or (next_generation (st_generation (sn_state s))) TRUST_STATE) (\<lambda>generation.
     (let receipt = receipt0\<lparr>rc_operation := ''install'', rc_installation := ''pending'',
                             rc_output := Some output, rc_reserves_acceptance := True,
                             rc_state_generation := generation\<rparr> in
      and_then (ok_or (se_receipt_bytes env receipt) TRUST_STATE) (\<lambda>bytes.
        Ok (receipt\<lparr>rc_transaction_id := Some (wire_digest env bytes)\<rparr>)))))"

text \<open>The check, before the journal, that the completed state will fit.\<close>

definition reserve_completion ::
  "('db, 'z) session_env_scheme \<Rightarrow> trust_receipt \<Rightarrow> session \<Rightarrow> trust_code + string" where
  "reserve_completion env receipt s =
     and_then (ok_or (rc_transaction_id receipt) TRUST_STATE) (\<lambda>key.
     and_then (ok_or (next_generation (rc_state_generation receipt)) TRUST_STATE) (\<lambda>generation.
     and_then (encode_state env ((sn_state s)
       \<lparr>st_completed := bt_insert key (receipt\<lparr>rc_installation := ''complete''\<rparr>) (st_completed (sn_state s)),
        st_pending := None, st_generation := generation,
        st_maximum_verification_time := tc_verification_time (sn_clock s)\<rparr>)) (\<lambda>_.
       Ok key)))"

definition publish_file ::
  "('db, 'z) session_env_scheme \<Rightarrow> prepared_bundle_install \<Rightarrow> string \<Rightarrow> unit session_op" where
  "publish_file env prepared output s =
     (case publish (bn_sha (se_bundle env)) (se_publish_io env (sn_turn s)) (sn_files s) prepared output of
        (files, r) \<Rightarrow> (s\<lparr>sn_files := files\<rparr>, bundle_result r))"

text \<open>\<open>install_with_checkpoint\<close> from the journal on.\<close>

definition commit_install ::
  "('db, 'z) session_env_scheme \<Rightarrow> (string \<Rightarrow> trust_code + unit) \<Rightarrow> prepared_bundle_install \<Rightarrow>
     catalog_database_descriptor \<Rightarrow> string \<Rightarrow> trust_receipt \<Rightarrow> string \<Rightarrow> trust_receipt session_op" where
  "commit_install env checkpoint prepared descriptor output receipt key =
     op_bind (put_state (\<lambda>st. st\<lparr>st_pending :=
        Some \<lparr>pn_receipt = receipt, pn_descriptor = descriptor\<rparr>\<rparr>)) (\<lambda>_.
     op_bind (session_save env) (\<lambda>_.
     op_bind (op_of (\<lambda>_. checkpoint ''pending-durable'')) (\<lambda>_.
     op_bind (op_of (\<lambda>s. check_identity (se_system env (sn_turn s)) 3 (sn_store s))) (\<lambda>_.
     op_bind (publish_file env prepared output) (\<lambda>_.
     op_bind (op_of (\<lambda>_. checkpoint ''published'')) (\<lambda>_.
     op_bind (put_state (finish_pending
        (Some (key, receipt\<lparr>rc_installation := ''complete''\<rparr>)))) (\<lambda>_.
     op_bind (session_save env) (\<lambda>_.
     op_bind (op_of (\<lambda>_. checkpoint ''receipt-durable'')) (\<lambda>_.
     op_bind (export_receipts env) (\<lambda>_.
       op_return (receipt\<lparr>rc_installation := ''complete''\<rparr>)))))))))))"

definition session_install ::
  "('db, 'z) session_env_scheme \<Rightarrow> (string \<Rightarrow> trust_code + unit) \<Rightarrow> string \<Rightarrow> trust_scope \<Rightarrow> string \<Rightarrow>
     string \<Rightarrow> string \<Rightarrow> trust_receipt session_op" where
  "session_install env checkpoint dir scope manifest payload output =
     op_bind (op_of (\<lambda>s. require (sn_mutating s) TRUST_STATE)) (\<lambda>_.
     op_bind (op_of (\<lambda>s. policy_allows (st_policy (sn_state s)) scope)) (\<lambda>_.
     op_bind (op_of (check_output env output)) (\<lambda>_.
     op_bind (import_metadata env dir False) (\<lambda>targets.
     op_bind (op_of (authenticate env scope manifest targets)) (\<lambda>(parsed, target, policy).
     op_bind (op_of (\<lambda>s. checked_path (se_system env (sn_turn s)) payload)) (\<lambda>_.
     op_bind (op_of (\<lambda>s. open_regular (se_system env (sn_turn s)) payload)) (\<lambda>_.
     op_bind (op_of (\<lambda>s. bundle_result (prepare_trusted_install (se_bundle env)
        (se_publish_io env (sn_turn s)) (sn_files s) (se_private_temp env (sn_turn s))
        (se_opened env (sn_turn s) payload) parsed output policy))) (\<lambda>prepared.
     op_bind (op_of (\<lambda>_. checkpoint ''verified'')) (\<lambda>_.
     op_bind (op_of (pending_receipt env target parsed output)) (\<lambda>receipt.
     op_bind (op_of (reserve_completion env receipt)) (\<lambda>key.
       commit_install env checkpoint prepared (bm_payload (pm_manifest parsed)) output receipt key)))))))))))"

end
