(* ===== verification/TrustCommands.thy ===== *)
theory TrustCommands
  imports TrustInstall
begin

text \<open>
  The operations of \<open>crates/secureflow-knowledge/src/catalog_trust/mod.rs\<close>: enrollment of a
  publisher's root, the import command, the status of an installation receipt and the
  historical inspection. Reports are records with the members that carry data; constant
  members of the printed JSON are left out.
\<close>

section \<open>Enrollment\<close>

definition initial_state ::
  "('db, 'z) session_env_scheme \<Rightarrow> string \<Rightarrow> trust_policy \<Rightarrow> trust_code + trust_state" where
  "initial_state env bytes policy =
     and_then (require (wire_digest env bytes = tp_initial_root_sha256 policy) TRUST_BOOTSTRAP) (\<lambda>_.
     and_then (envelope env bytes ''root'') (\<lambda>root.
     and_then (root_profile env root) (\<lambda>_.
     and_then (strict_signers env root root ''root'') (\<lambda>_.
     and_then (wire_number (vindex root ''signed'') ''version'' U32_MAX) (\<lambda>version.
     and_then (require (version = tp_minimum_root_version policy) TRUST_BOOTSTRAP) (\<lambda>_.
     and_then (parse_time env (tc_verification_time (tp_enrolled_at policy))) (\<lambda>now.
     and_then (expires_at env (vindex root ''signed'')) (\<lambda>expires.
     and_then (require (now < expires \<and> expires - now \<le> 366 * 86400) TRUST_EXPIRY) (\<lambda>_.
     and_then (wire_canonical env (policy_value policy)) (\<lambda>form.
     (let st = \<lparr>st_contract_version = ''secureflow-catalog-trust-state-v1'', st_policy = policy,
                st_policy_sha256 = wire_digest env form, st_roots = [bytes], st_roles = [],
                st_floors = bt_collect (map (\<lambda>p. (p, \<lparr>fl_sequence = tp_minimum_sequence policy,
                                                     fl_manifest_sha256 = None\<rparr>)) (tp_profiles policy)),
                st_maximum_verification_time = tc_verification_time (tp_enrolled_at policy),
                st_generation = 1, st_pending = None, st_completed = []\<rparr>
      in and_then (current_root env st) (\<lambda>_. Ok st))))))))))))"

text \<open>The files and the result of \<open>initialize\<close>; a failure half-way leaves the files written so far.\<close>

definition write_store ::
  "trust_system \<Rightarrow> file_map \<Rightarrow> string \<Rightarrow> string option \<Rightarrow> file_map \<times> (trust_code + unit)" where
  "write_store sys files store bytes =
     (case create_dir sys store of
        Inl e \<Rightarrow> (files, Err e)
      | Inr _ \<Rightarrow>
          (case write_new sys files (path_join store ''lock'') [] of
             (files1, Inl e) \<Rightarrow> (files1, Err e)
           | (files1, Inr _) \<Rightarrow>
               (case create_dir sys (path_join store ''receipts'') of
                  Inl e \<Rightarrow> (files1, Err e)
                | Inr _ \<Rightarrow>
                    (case bytes of
                       None \<Rightarrow> (files1, Err TRUST_STATE)
                     | Some b \<Rightarrow> write_new sys files1 (state_path store) b))))"

definition trust_initialize ::
  "('db, 'z) session_env_scheme \<Rightarrow> trust_system \<Rightarrow> file_map \<Rightarrow> string \<Rightarrow> string \<Rightarrow> trust_policy \<Rightarrow>
     file_map \<times> (trust_code + trust_state)" where
  "trust_initialize env sys files store root_path policy =
     (case and_then (validate_trust_policy env policy) (\<lambda>_.
           and_then (storage_read sys files root_path (LIMITS ! 0)) (\<lambda>bytes.
             initial_state env bytes policy)) of
        Inl e \<Rightarrow> (files, Err e)
      | Inr st \<Rightarrow>
          (case write_store sys files store (se_state_bytes env st) of
             (files', r) \<Rightarrow> (files', and_then r (\<lambda>_. Ok st))))"

record enrollment =
  en_publisher :: string
  en_catalog :: string
  en_channel :: string
  en_profiles :: "string list"
  en_minimum_sequence :: nat
  en_bootstrap_manifest_sha256 :: "string option"
  en_operator :: string
  en_authorization_reference :: string
  en_expected_root_sha256 :: string
  en_clock :: trust_clock

definition enrollment_policy :: "enrollment \<Rightarrow> nat \<Rightarrow> trust_policy" where
  "enrollment_policy args version =
     \<lparr>tp_contract_version = ''secureflow-catalog-trust-policy-v1'',
      tp_publisher_id = en_publisher args, tp_publisher_label = en_publisher args,
      tp_catalog_id = en_catalog args, tp_channel = en_channel args,
      tp_profiles = en_profiles args, tp_initial_root_sha256 = en_expected_root_sha256 args,
      tp_minimum_root_version = version, tp_minimum_sequence = en_minimum_sequence args,
      tp_bootstrap_manifest_sha256 = en_bootstrap_manifest_sha256 args,
      tp_minimum_thresholds = trust_thresholds, tp_maximum_horizon_days = trust_horizons,
      tp_operator = en_operator args,
      tp_authorization_reference = en_authorization_reference args,
      tp_enrolled_at = en_clock args\<rparr>"

definition trust_enroll ::
  "('db, 'z) session_env_scheme \<Rightarrow> trust_system \<Rightarrow> file_map \<Rightarrow> string \<Rightarrow> string \<Rightarrow> enrollment \<Rightarrow>
     file_map \<times> (trust_code + trust_state)" where
  "trust_enroll env sys files store root_path args =
     (case and_then (storage_read sys files root_path (LIMITS ! 0)) (\<lambda>bytes.
           and_then (require (wire_digest env bytes = en_expected_root_sha256 args) TRUST_BOOTSTRAP) (\<lambda>_.
           and_then (envelope env bytes ''root'') (\<lambda>parsed.
           and_then (wire_number (vindex parsed ''signed'') ''version'' U32_MAX) (\<lambda>version.
             Ok (enrollment_policy args version))))) of
        Inl e \<Rightarrow> (files, Err e)
      | Inr policy \<Rightarrow> trust_initialize env sys files store root_path policy)"

section \<open>Import\<close>

record import_report =
  ir_previous_root_sha256 :: string
  ir_current_root_sha256 :: string
  ir_previous_root :: jvalue
  ir_current_root :: jvalue
  ir_targets :: "(string, trust_target) btree_map"
  ir_floors :: "(string, trust_floor) btree_map"
  ir_generation :: nat

definition session_import ::
  "('db, 'z) session_env_scheme \<Rightarrow> string \<Rightarrow> string \<Rightarrow> bool \<Rightarrow> import_report session_op" where
  "session_import env dir publisher root_only =
     op_bind (op_of (\<lambda>s. require (sn_mutating s) TRUST_STATE)) (\<lambda>_.
     op_bind (op_of (\<lambda>s. require (tp_publisher_id (st_policy (sn_state s)) = publisher) TRUST_SCOPE)) (\<lambda>_.
     op_bind (op_of (\<lambda>s. current_root env (sn_state s))) (\<lambda>(before, _).
     op_bind (op_of (\<lambda>s. ok_or (if st_roots (sn_state s) = [] then None
                                else Some (last (st_roots (sn_state s)))) TRUST_STATE)) (\<lambda>old_raw.
     op_bind (import_metadata env dir root_only) (\<lambda>targets.
     op_bind (session_save env) (\<lambda>_.
     op_bind (op_of (\<lambda>s. current_root env (sn_state s))) (\<lambda>(after, _).
       op_of (\<lambda>s. Ok
         \<lparr>ir_previous_root_sha256 = wire_digest env old_raw,
          ir_current_root_sha256 = wire_digest env (last (st_roots (sn_state s))),
          ir_previous_root = vindex before ''signed'', ir_current_root = vindex after ''signed'',
          ir_targets = targets, ir_floors = st_floors (sn_state s),
          ir_generation = st_generation (sn_state s)\<rparr>))))))))"

section \<open>Status\<close>

text \<open>Failures are the codes of the collected errors, in their order.\<close>

definition code_of :: "trust_code + 'a \<Rightarrow> trust_code list" where
  "code_of r = (case r of Inl e \<Rightarrow> [e] | Inr _ \<Rightarrow> [])"

definition update_role ::
  "('db, 'z) session_env_scheme \<Rightarrow> string \<Rightarrow> int \<Rightarrow> 'db \<Rightarrow> string \<Rightarrow> 'db option" where
  "update_role env role now db raw =
     (if role = ''timestamp'' then se_tuf_timestamp env now db raw
      else if role = ''snapshot'' then se_tuf_snapshot env now db raw
      else se_tuf_targets env now db raw)"

definition receipt_target_matches ::
  "('z) trust_env_scheme \<Rightarrow> trust_receipt \<Rightarrow> jvalue \<Rightarrow> bool" where
  "receipt_target_matches env receipt v =
     (let entry = vpath v [''signed'', ''targets'', scope_target (rc_scope receipt)] in
      (case target_from_value (vpath entry [''custom'', ''secureflow'']) of
         None \<Rightarrow> False
       | Some t \<Rightarrow> is_ok (validate_target env t) \<and> target_scope t = rc_scope receipt \<and>
                   tt_release_sequence t = rc_release_sequence receipt) \<and>
      vpath entry [''hashes'', ''sha256''] = VStr (rc_manifest_sha256 receipt) \<and>
      vindex entry ''length'' = VNum (int (rc_manifest_bytes receipt)))"

fun status_roles ::
  "('db, 'z) session_env_scheme \<Rightarrow> session \<Rightarrow> trust_receipt \<Rightarrow> jvalue \<Rightarrow> int \<Rightarrow> 'db \<Rightarrow> string list \<Rightarrow>
     trust_code + trust_code list" where
  "status_roles env s receipt root now db [] = Ok []"
| "status_roles env s receipt root now db (role # rest) =
     (case map_of (st_roles (sn_state s)) role of
        None \<Rightarrow>
          and_then (status_roles env s receipt root now db rest) (\<lambda>fs. Ok (TRUST_STATE # fs))
      | Some rec \<Rightarrow>
          and_then (envelope env (rr_raw rec) role) (\<lambda>v.
          (let updated = update_role env role now db (rr_raw rec);
               db' = (case updated of None \<Rightarrow> db | Some d \<Rightarrow> d) in
           and_then (status_roles env s receipt root now db' rest) (\<lambda>fs.
             Ok ((if updated = None then [TRUST_SIGNATURE] else []) @
                 (if role = ''targets'' \<and> \<not> receipt_target_matches env receipt v
                  then [TRUST_SCOPE] else []) @
                 code_of (strict_signers env root v role) @
                 code_of (session_expiry env v role s) @ fs)))))"

definition status_links ::
  "('db, 'z) session_env_scheme \<Rightarrow> trust_state \<Rightarrow> trust_code + trust_code list" where
  "status_links env st =
     (case (map_of (st_roles st) ''timestamp'', map_of (st_roles st) ''snapshot'',
            map_of (st_roles st) ''targets'') of
        (Some ts, Some sn, Some tg) \<Rightarrow>
          and_then (envelope env (rr_raw ts) ''timestamp'') (\<lambda>t.
          and_then (envelope env (rr_raw sn) ''snapshot'') (\<lambda>n.
            Ok (code_of (check_link env (vpath t [''signed'', ''meta'', ''snapshot.json'']) (rr_raw sn)) @
                code_of (check_link env (vpath n [''signed'', ''meta'', ''targets.json'']) (rr_raw tg)))))
      | _ \<Rightarrow> Ok [])"

definition session_status ::
  "('db, 'z) session_env_scheme \<Rightarrow> string \<Rightarrow> session \<Rightarrow> trust_code + trust_code list \<times> trust_receipt" where
  "session_status env receipt_file s =
     (let st = sn_state s in
      and_then (storage_read (se_system env (sn_turn s)) (sn_files s) receipt_file MAX_RECEIPT_BYTES) (\<lambda>bytes.
      and_then (wire_parse env bytes MAX_RECEIPT_BYTES) (\<lambda>v.
      and_then (ok_or (se_receipt_of env v) TRUST_STATE) (\<lambda>receipt.
      and_then (ok_or (rc_transaction_id receipt) TRUST_STATE) (\<lambda>key.
      and_then (require (map_of (st_completed st) key = Some receipt) TRUST_STATE) (\<lambda>_.
      and_then (current_root env st) (\<lambda>(root, db).
      and_then (parse_time env (tc_verification_time (sn_clock s))) (\<lambda>now.
      and_then (status_roles env s receipt root now db [''timestamp'', ''snapshot'', ''targets'']) (\<lambda>roles.
      and_then (ok_or (map_of (st_floors st) (ts_profile (rc_scope receipt))) TRUST_STATE) (\<lambda>floor.
      and_then (status_links env st) (\<lambda>links.
        Ok (code_of (session_expiry env root ''root'' s) @
            (if st_pending st \<noteq> None then [TRUST_STATE] else []) @ roles @
            (if fl_sequence floor \<noteq> rc_release_sequence receipt \<or>
                fl_manifest_sha256 floor \<noteq> Some (rc_manifest_sha256 receipt)
             then [TRUST_ROLLBACK] else []) @ links, receipt))))))))))))"

text \<open>\<open>current_policy_acceptance\<close> of the printed status.\<close>

definition status_accepts :: "trust_code list \<times> trust_receipt \<Rightarrow> bool" where
  "status_accepts r = (fst r = [])"

section \<open>Inspection\<close>

record role_inspection =
  ri_role :: string
  ri_raw_sha256 :: string
  ri_version :: nat
  ri_signature_result :: "trust_code + string list"

text \<open>One round of the loop over the roles of the requested metadata.\<close>

definition inspect_role ::
  "('db, 'z) session_env_scheme \<Rightarrow> jvalue \<Rightarrow> 'db \<Rightarrow> string \<times> string \<Rightarrow> trust_code + role_inspection" where
  "inspect_role env root db entry =
     (case entry of (role, raw) \<Rightarrow>
        and_then (envelope env raw role) (\<lambda>v.
        and_then (wire_number (vpath root [''signed'', ''roles'', role]) ''threshold'' 32) (\<lambda>threshold.
        and_then (wire_number (vindex v ''signed'') ''version'' U32_MAX) (\<lambda>version.
          Ok \<lparr>ri_role = role, ri_raw_sha256 = wire_digest env raw, ri_version = version,
              ri_signature_result =
                and_then (require (se_tuf_verify env db role raw threshold) TRUST_SIGNATURE)
                  (\<lambda>_. strict_signers env root v role)\<rparr>))))"

fun inspect_roles ::
  "('db, 'z) session_env_scheme \<Rightarrow> jvalue \<Rightarrow> 'db \<Rightarrow> (string \<times> string) list \<Rightarrow>
     role_inspection list \<times> (trust_code + unit)" where
  "inspect_roles env root db [] = ([], Ok ())"
| "inspect_roles env root db (e # es) =
     (case inspect_role env root db e of
        Inl code \<Rightarrow> ([], Err code)
      | Inr i \<Rightarrow> (case inspect_roles env root db es of (is, r) \<Rightarrow> (i # is, r)))"

definition inspect_chain ::
  "('db, 'z) session_env_scheme \<Rightarrow> string \<Rightarrow> (jvalue \<times> jvalue \<times> (string \<times> string) list) session_op" where
  "inspect_chain env dir =
     op_bind (read_metadata env (path_join dir ''timestamp.json'') (LIMITS ! 3)) (\<lambda>timestamp.
     op_bind (op_of (\<lambda>_. envelope env timestamp ''timestamp'')) (\<lambda>ts.
     op_bind (op_of (\<lambda>_. wire_number (vpath ts [''signed'', ''meta'', ''snapshot.json'']) ''version'' U32_MAX)) (\<lambda>sv.
     op_bind (read_metadata env (path_join dir (show_nat sv @ ''.snapshot.json'')) (LIMITS ! 2)) (\<lambda>snapshot.
     op_bind (op_of (\<lambda>_. envelope env snapshot ''snapshot'')) (\<lambda>sn.
     op_bind (op_of (\<lambda>_. wire_number (vpath sn [''signed'', ''meta'', ''targets.json'']) ''version'' U32_MAX)) (\<lambda>tv.
     op_bind (read_metadata env (path_join dir (show_nat tv @ ''.targets.json'')) (LIMITS ! 1)) (\<lambda>targets.
       op_return (ts, sn, [(''timestamp'', timestamp), (''snapshot'', snapshot), (''targets'', targets)]))))))))"

record inspection =
  in_evidence :: "role_inspection list"
  in_metadata_chain_errors :: "trust_code list"
  in_policy_check_passed :: bool
  in_policy_failures :: "trust_code list"

text \<open>The evidence collected before the first error of the chain, and that error.\<close>

definition inspect_evidence ::
  "('db, 'z) session_env_scheme \<Rightarrow> jvalue \<Rightarrow> 'db \<Rightarrow>
     trust_code + jvalue \<times> jvalue \<times> (string \<times> string) list \<Rightarrow>
     role_inspection list \<times> (trust_code + unit)" where
  "inspect_evidence env root db chain =
     (case chain of
        Inl e \<Rightarrow> ([], Err e)
      | Inr (ts, sn, raws) \<Rightarrow>
          (case inspect_roles env root db raws of
             (is, r) \<Rightarrow> (is, and_then r (\<lambda>_.
               and_then (check_link env (vpath ts [''signed'', ''meta'', ''snapshot.json''])
                           (snd (raws ! 1))) (\<lambda>_.
                 check_link env (vpath sn [''signed'', ''meta'', ''targets.json'']) (snd (raws ! 2)))))))"

definition inspection_of ::
  "('db, 'z) session_env_scheme \<Rightarrow> jvalue \<Rightarrow> 'db \<Rightarrow>
     trust_code + jvalue \<times> jvalue \<times> (string \<times> string) list \<Rightarrow> trust_code + trust_receipt \<Rightarrow> inspection" where
  "inspection_of env root db chain policy_result =
     \<lparr>in_evidence = fst (inspect_evidence env root db chain),
      in_metadata_chain_errors = code_of (snd (inspect_evidence env root db chain)),
      in_policy_check_passed = is_ok policy_result, in_policy_failures = code_of policy_result\<rparr>"

definition session_inspect ::
  "('db, 'z) session_env_scheme \<Rightarrow> string \<Rightarrow> trust_scope \<Rightarrow> string \<Rightarrow> string \<Rightarrow> inspection session_op" where
  "session_inspect env dir scope manifest payload =
     op_bind (op_of (\<lambda>s. require (\<not> sn_mutating s) TRUST_STATE)) (\<lambda>_ s.
       (case session_verify env dir scope manifest payload s of
          (s1, policy_result) \<Rightarrow>
            op_bind (op_of (\<lambda>s. current_root env (sn_state s))) (\<lambda>(root, db) t.
              (case inspect_chain env dir t of
                 (s2, chain) \<Rightarrow> (s2, Ok (inspection_of env root db chain policy_result)))) s1))"

end
