(* ===== verification/WireFacts.thy ===== *)
theory WireFacts
  imports TrustWire
begin

text \<open>
  What the strict profile, the envelope, the root profile and the count of signers guarantee of
  \<open>crates/secureflow-knowledge/src/catalog_trust/wire.rs\<close>.
\<close>

section \<open>Results of the strict profile\<close>

text \<open>
  The type of a value that \<open>Strict(depth)\<close> may build: nesting of at most 32, integers a double
  holds exactly, objects with each member once and in order, no floats at all.
\<close>

fun strict_value :: "nat \<Rightarrow> jvalue \<Rightarrow> bool" where
  "strict_value depth (VNum n) = (depth \<le> 32 \<and> \<bar>n\<bar> \<le> int MAX_SEQUENCE)"
| "strict_value depth (VArr vs) = (depth \<le> 32 \<and> (\<forall>v \<in> set vs. strict_value (depth + 1) v))"
| "strict_value depth (VObj m) =
     (depth \<le> 32 \<and> bt_wf m \<and> (\<forall>e \<in> set m. strict_value (depth + 1) (snd e)))"
| "strict_value depth v = (depth \<le> 32)"

text \<open>What the profile accepts, and the value it reads, without the visitor.\<close>

fun raw_profile :: "nat \<Rightarrow> raw_json \<Rightarrow> bool" where
  "raw_profile depth RFloat = False"
| "raw_profile depth (RU64 n) = (depth \<le> 32 \<and> unat n \<le> MAX_SEQUENCE)"
| "raw_profile depth (RI64 n) = (depth \<le> 32 \<and> nat \<bar>sint n\<bar> \<le> MAX_SEQUENCE)"
| "raw_profile depth (RArray vs) = (depth \<le> 32 \<and> (\<forall>v \<in> set vs. raw_profile (depth + 1) v))"
| "raw_profile depth (RObject es) =
     (depth \<le> 32 \<and> distinct (map fst es) \<and> (\<forall>e \<in> set es. raw_profile (depth + 1) (snd e)))"
| "raw_profile depth v = (depth \<le> 32)"

fun plain_value :: "raw_json \<Rightarrow> jvalue" where
  "plain_value RNull = VNull"
| "plain_value (RBool b) = VBool b"
| "plain_value (RU64 n) = VNum (uint n)"
| "plain_value (RI64 n) = VNum (sint n)"
| "plain_value RFloat = VNull"
| "plain_value (RString s) = VStr s"
| "plain_value (RArray vs) = VArr (map plain_value vs)"
| "plain_value (RObject es) = VObj (bt_collect (map (\<lambda>e. (fst e, plain_value (snd e))) es))"

declare strict.simps [simp del]

lemma strict_cases:
  "strict depth v =
     (if 32 < depth then Err TRUST_FORMAT
      else (case v of
              RNull \<Rightarrow> Ok VNull
            | RBool b \<Rightarrow> Ok (VBool b)
            | RU64 n \<Rightarrow> visit_u64 n
            | RI64 n \<Rightarrow> visit_i64 n
            | RFloat \<Rightarrow> Err TRUST_FORMAT
            | RString s \<Rightarrow> Ok (VStr s)
            | RArray vs \<Rightarrow> and_then (strict_seq depth vs) (\<lambda>out. Ok (VArr out))
            | RObject es \<Rightarrow> and_then (strict_map depth [] es) (\<lambda>out. Ok (VObj out))))"
  by (rule strict.simps)

lemma visit_iff:
  "visit_u64 n = Inr w \<longleftrightarrow> unat n \<le> MAX_SEQUENCE \<and> w = VNum (uint n)"
  "visit_i64 n = Inr w \<longleftrightarrow> nat \<bar>sint n\<bar> \<le> MAX_SEQUENCE \<and> w = VNum (sint n)"
  by (auto simp: visit_u64_def visit_i64_def)

text \<open>The visitor decides the profile and reads the plain value.\<close>

lemma strict_result:
  "strict depth v = Inr w \<longleftrightarrow> raw_profile depth v \<and> w = plain_value v"
  "strict_seq depth vs = Inr ws \<longleftrightarrow>
     (\<forall>v \<in> set vs. raw_profile (depth + 1) v) \<and> ws = map plain_value vs"
  "strict_map depth out es = Inr m \<longleftrightarrow>
     distinct (map fst es) \<and> fst ` set es \<inter> fst ` set out = {} \<and>
     (\<forall>e \<in> set es. raw_profile (depth + 1) (snd e)) \<and>
     m = foldl (\<lambda>m (k, v). bt_insert k v m) out (map (\<lambda>e. (fst e, plain_value (snd e))) es)"
proof (induction depth v and depth vs and depth out es arbitrary: w and ws and m
    rule: strict_strict_seq_strict_map.induct)
  case (1 depth v)
  show ?case
  proof (cases "32 < depth")
    case True
    then show ?thesis by (cases v) (auto simp: strict_cases)
  next
    case False
    then show ?thesis
      using 1 by (cases v) (auto simp: strict_cases visit_iff ok_iff bt_collect_def)
  qed
next
  case (2 depth)
  then show ?case by auto
next
  case (3 depth v vs)
  then show ?case by (auto simp: ok_iff)
next
  case (4 depth out)
  then show ?case by auto
next
  case (5 depth out k v es)
  show ?case
  proof (cases "bt_contains k out")
    case True
    then show ?thesis by (auto simp: bt_contains_iff)
  next
    case False
    then have "strict_map depth out ((k, v) # es) = Inr m \<longleftrightarrow>
        raw_profile (depth + 1) v \<and> strict_map depth (bt_insert k (plain_value v) out) es = Inr m"
      using 5(1) by (auto simp: ok_iff)
    moreover have "k \<notin> fst ` set out" using False by (simp add: bt_contains_iff)
    moreover have "raw_profile (Suc depth) v \<Longrightarrow> strict (Suc depth) v = Inr (plain_value v)"
      using 5(1) [OF False, of "plain_value v"] by simp
    moreover note 5(2) [OF False, of "plain_value v" m]
    ultimately show ?thesis by (simp add: fst_bt_insert del: strict_map.simps) blast
  qed
qed

lemma plain_value_strict: "raw_profile depth v \<Longrightarrow> strict_value depth (plain_value v)"
proof (induction v arbitrary: depth rule: plain_value.induct)
  case (3 n)
  then show ?case by (simp add: nat_le_iff flip: uint_nat) (metis of_nat_le_iff uint_nat)
next
  case (8 es)
  have "set (bt_collect (map (\<lambda>e. (fst e, plain_value (snd e))) es))
      \<subseteq> (\<lambda>e. (fst e, plain_value (snd e))) ` set es"
    using set_bt_collect [of "map (\<lambda>e. (fst e, plain_value (snd e))) es"] by simp
  with 8 show ?case by (fastforce simp: bt_wf_collect)
qed auto

lemma wire_parse_typed: "wire_parse env bytes limit = Inr v \<Longrightarrow> strict_value 0 v"
  using plain_value_strict [of 0] by (auto simp: wire_parse_def ok_iff strict_result)

text \<open>
  A text is accepted exactly when it is within its byte limit, is JSON, and stays in the strict
  profile; the value read is the plain one, and it has the type of strict values: at most 32
  levels deep, without floats, every integer within 2^53 - 1, every member name once.
\<close>

theorem accepted_json_typed:
  "wire_parse env bytes limit = Ok v \<longleftrightarrow>
     length bytes \<le> limit \<and>
     (\<exists>r. we_json env bytes = Some r \<and> raw_profile 0 r \<and> v = plain_value r \<and> strict_value 0 v)"
  using wire_parse_typed [of env bytes limit v]
  by (auto simp: wire_parse_def ok_iff strict_result)

section \<open>Numbers, strings and hexadecimal\<close>

lemma wire_number_iff:
  "wire_number v k limit = Inr n \<longleftrightarrow> vget k v = Some (VNum (int n)) \<and> 0 < n \<and> n \<le> limit"
proof -
  have "value_u64 w = Some n \<longleftrightarrow> w = VNum (int n)" for w
    by (cases w) auto
  then show ?thesis by (auto simp: wire_number_def ok_iff bind_eq_Some_conv)
qed

lemma wire_string_iff: "wire_string v k = Inr s \<longleftrightarrow> vget k v = Some (VStr s)"
proof -
  have "value_str w = Some s \<longleftrightarrow> w = VStr s" for w by (cases w) auto
  then show ?thesis by (auto simp: wire_string_def ok_iff bind_eq_Some_conv)
qed

lemma wire_hex_iff:
  "wire_hex n s = Inr b \<longleftrightarrow> length s = n * 2 \<and> list_all is_lower_hex s \<and> b = hex_bytes s"
  by (auto simp: wire_hex_def ok_iff)

lemma value_array_iff: "value_array v = Some vs \<longleftrightarrow> v = VArr vs"
  by (cases v) auto

lemma value_object_iff: "value_object v = Some m \<longleftrightarrow> v = VObj m"
  by (cases v) auto

lemma value_str_iff: "value_str v = Some s \<longleftrightarrow> v = VStr s"
  by (cases v) auto

text \<open>\<open>hex::<N>\<close> undoes the hexadecimal encoding.\<close>

lemma hex_value_hex_digit: "n < 16 \<Longrightarrow> hex_value (hex_digit n) = n"
  by (simp add: hex_value_def is_digit_def byte_hex_digit)

lemma hex_bytes_encode: "hex_bytes (encode_hex b) = b"
proof (induction b)
  case (Cons c b)
  have "byte c div 16 < 16" and "byte c mod 16 < 16"
    using byte_less [of c] by linarith+
  then have "16 * hex_value (hex_digit (byte c div 16)) + hex_value (hex_digit (byte c mod 16)) = byte c"
    by (simp add: hex_value_hex_digit)
  then show ?case
    using Cons.IH by (simp add: encode_hex_Cons hex_byte_def byte_def)
qed (simp add: encode_hex_def)

lemma wire_hex_encode: "length b = n \<Longrightarrow> wire_hex n (encode_hex b) = Ok b"
  using hex.enc_len [of b] hex.enc_hex [of b] by (simp add: wire_hex_iff hex_bytes_encode)

section \<open>Signers\<close>

definition role_key_ids :: "jvalue \<Rightarrow> string \<Rightarrow> jvalue list" where
  "role_key_ids root role =
     (case value_array (vpath root [''signed'', ''roles'', role, ''keyids'']) of
        Some ids \<Rightarrow> ids | None \<Rightarrow> [])"

definition signature_list :: "jvalue \<Rightarrow> jvalue list" where
  "signature_list v = (case value_array (vindex v ''signatures'') of Some ss \<Rightarrow> ss | None \<Rightarrow> [])"

definition signature_ids :: "jvalue list \<Rightarrow> string list" where
  "signature_ids ss = List.map_filter (\<lambda>s. Option.bind (vget ''keyid'' s) value_str) ss"

text \<open>
  \<open>key_id\<close> has a signature in the metadata that verifies, under its public key in the root, over
  the canonical form of the signed part.
\<close>

definition verified_by :: "('z) wire_env_scheme \<Rightarrow> jvalue \<Rightarrow> jvalue \<Rightarrow> string \<Rightarrow> bool" where
  "verified_by env root metadata key_id \<longleftrightarrow>
     (\<exists>form public sig s.
        wire_canonical env (vindex metadata ''signed'') = Ok form \<and>
        s \<in> set (signature_list metadata) \<and>
        wire_string s ''keyid'' = Ok key_id \<and>
        wire_hex_at 64 s ''sig'' = Ok sig \<and>
        wire_hex_at 32 (vpath root [''signed'', ''keys'', key_id, ''keyval'']) ''public''
          = Ok public \<and>
        we_key_ok env public \<and> we_verify_strict env public form sig)"

text \<open>A quorum: distinct keys of the role, as many as its threshold, each with a valid signature.\<close>

definition quorum :: "('z) wire_env_scheme \<Rightarrow> jvalue \<Rightarrow> jvalue \<Rightarrow> string \<Rightarrow> string list \<Rightarrow> bool" where
  "quorum env root metadata role ids \<longleftrightarrow>
     distinct ids \<and>
     (\<exists>threshold. wire_number (vpath root [''signed'', ''roles'', role]) ''threshold'' 32 = Ok threshold \<and>
        threshold \<le> length ids) \<and>
     (\<forall>k \<in> set ids. VStr k \<in> set (role_key_ids root role) \<and> verified_by env root metadata k)"

lemma signature_ids_Cons:
  "wire_string s ''keyid'' = Inr k \<Longrightarrow> signature_ids (s # ss) = k # signature_ids ss"
  by (simp add: signature_ids_def wire_string_iff map_filter_simps)

lemma envelope_signatures_distinct:
  "envelope_signatures seen ss = Inr u \<Longrightarrow>
     distinct (signature_ids ss) \<and> set (signature_ids ss) \<inter> set seen = {}"
proof (induction ss arbitrary: seen)
  case Nil
  then show ?case by (simp add: signature_ids_def map_filter_simps)
next
  case (Cons s ss)
  then obtain k where k: "wire_string s ''keyid'' = Inr k" and new: "k \<notin> set seen"
    and rest: "envelope_signatures (k # seen) ss = Inr u"
    by (auto simp: ok_iff)
  from Cons.IH [OF rest] k new show ?case by (auto simp: signature_ids_Cons)
qed

lemma valid_signers_sound:
  "valid_signers env keys ids preimage ss = Inr accepted \<Longrightarrow>
     subseq accepted (signature_ids ss) \<and>
     (\<forall>k \<in> set accepted. VStr k \<in> set ids \<and>
        (\<exists>public sig s. s \<in> set ss \<and> wire_string s ''keyid'' = Ok k \<and>
           wire_hex_at 64 s ''sig'' = Ok sig \<and>
           wire_hex_at 32 (vpath keys [k, ''keyval'']) ''public'' = Ok public \<and>
           we_key_ok env public \<and> we_verify_strict env public preimage sig))"
proof (induction ss arbitrary: accepted)
  case Nil
  then show ?case by simp
next
  case (Cons s ss)
  from Cons.prems obtain k where k: "wire_string s ''keyid'' = Inr k" by (auto simp: ok_iff)
  show ?case
  proof (cases "VStr k \<in> set ids")
    case False
    with Cons.prems k have "valid_signers env keys ids preimage ss = Inr accepted" by simp
    from Cons.IH [OF this] k show ?thesis
      unfolding signature_ids_Cons [OF k] by (meson list.set_intros(2) list_emb_Cons)
  next
    case True
    with Cons.prems k obtain public sig rest
      where public: "wire_hex_at 32 (vpath keys [k, ''keyval'']) ''public'' = Inr public"
        and sig: "wire_hex_at 64 s ''sig'' = Inr sig"
        and ok: "we_key_ok env public"
        and rest: "valid_signers env keys ids preimage ss = Inr rest"
        and acc: "accepted = (if we_verify_strict env public preimage sig then k # rest else rest)"
      by (auto simp: ok_iff)
    note IH = Cons.IH [OF rest]
    then have sub: "subseq accepted (signature_ids (s # ss))"
      unfolding signature_ids_Cons [OF k] acc by auto
    have "\<exists>public sig t. t \<in> set (s # ss) \<and> wire_string t ''keyid'' = Ok x \<and>
           wire_hex_at 64 t ''sig'' = Ok sig \<and>
           wire_hex_at 32 (vpath keys [x, ''keyval'']) ''public'' = Ok public \<and>
           we_key_ok env public \<and> we_verify_strict env public preimage sig"
      if x: "x \<in> set accepted" for x
    proof (cases "x \<in> set rest")
      case True
      with IH show ?thesis by (meson list.set_intros(2))
    next
      case False
      with x acc have "x = k" and "we_verify_strict env public preimage sig"
        by (auto split: if_splits)
      with k public sig ok show ?thesis by (meson list.set_intros(1))
    qed
    moreover have "VStr x \<in> set ids" if "x \<in> set accepted" for x
      using that acc IH True by (auto split: if_splits)
    ultimately show ?thesis using sub by blast
  qed
qed

lemma strict_signers_quorum:
  assumes signers: "strict_signers env root metadata role = Inr accepted"
    and distinct: "distinct (signature_ids (signature_list metadata))"
  shows "quorum env root metadata role accepted" and "sorted accepted"
proof -
  from signers obtain ids threshold preimage sigs found
    where ids: "vpath root [''signed'', ''roles'', role, ''keyids''] = VArr ids"
      and threshold: "wire_number (vpath root [''signed'', ''roles'', role]) ''threshold'' 32 = Inr threshold"
      and preimage: "wire_canonical env (vindex metadata ''signed'') = Inr preimage"
      and sigs: "vindex metadata ''signatures'' = VArr sigs"
      and found: "valid_signers env (vpath root [''signed'', ''keys'']) ids preimage sigs = Inr found"
      and enough: "threshold \<le> length found" and acc: "accepted = sort found"
    unfolding strict_signers_def by (auto simp: ok_iff value_array_iff)
  note sound = valid_signers_sound [OF found]
  have list: "signature_list metadata = sigs" using sigs by (simp add: signature_list_def)
  have "distinct accepted"
    using sound distinct list acc by (auto simp: subseq_conv_nths)
  moreover have "VStr k \<in> set (role_key_ids root role) \<and> verified_by env root metadata k"
    if "k \<in> set accepted" for k
  proof -
    have k: "k \<in> set found" using that acc by simp
    have path: "vpath (vpath root [''signed'', ''keys'']) [k, ''keyval'']
        = vpath root [''signed'', ''keys'', k, ''keyval'']"
      by (simp add: vpath_def)
    from sound [THEN conjunct2, rule_format, OF k] obtain public sig s where
      "VStr k \<in> set ids" "s \<in> set sigs" "wire_string s ''keyid'' = Ok k"
      "wire_hex_at 64 s ''sig'' = Ok sig"
      "wire_hex_at 32 (vpath root [''signed'', ''keys'', k, ''keyval'']) ''public''
        = Ok public"
      "we_key_ok env public" "we_verify_strict env public preimage sig"
      unfolding path by blast
    with preimage list ids show ?thesis
      unfolding verified_by_def role_key_ids_def by auto
  qed
  ultimately show "quorum env root metadata role accepted"
    using threshold enough acc unfolding quorum_def by auto
  show "sorted accepted" using acc by simp
qed

section \<open>Envelopes and roots\<close>

lemma envelope_facts:
  assumes "envelope env bytes role = Inr v"
  shows "role \<in> set ROLES"
    and "wire_parse env bytes 2097152 = Inr v"
    and "distinct (signature_ids (signature_list v))"
    and "wire_string (vindex v ''signed'') ''_type'' = Inr role"
    and "\<exists>n. wire_number (vindex v ''signed'') ''version'' U32_MAX = Inr n"
    and "\<exists>t. expires_at env (vindex v ''signed'') = Inr t"
proof -
  from assms obtain i sigs where i: "position (\<lambda>r. r = role) ROLES = Some i"
    and parse: "wire_parse env bytes (LIMITS ! i) = Inr v"
    and header: "envelope_header env role (vindex v ''signed'') = Inr ()"
    and sigs: "vindex v ''signatures'' = VArr sigs"
    and signed: "envelope_signatures [] sigs = Inr ()"
    unfolding envelope_def by (auto simp: ok_iff value_array_iff)
  from i have role: "i < length ROLES" "ROLES ! i = role" by (auto dest: position_Some)
  then show "role \<in> set ROLES" by (metis nth_mem)
  have "i \<in> {0, 1, 2, 3}" using role(1) by (auto simp: ROLES_def)
  then have "LIMITS ! i \<le> 2097152" by (auto simp: LIMITS_def)
  then show "wire_parse env bytes 2097152 = Inr v"
    using parse by (auto simp: wire_parse_def ok_iff)
  show "distinct (signature_ids (signature_list v))"
    using envelope_signatures_distinct [OF signed] sigs by (simp add: signature_list_def)
  show "wire_string (vindex v ''signed'') ''_type'' = Inr role"
    and "\<exists>n. wire_number (vindex v ''signed'') ''version'' U32_MAX = Inr n"
    and "\<exists>t. expires_at env (vindex v ''signed'') = Inr t"
    using header unfolding envelope_header_def by (auto simp: ok_iff split: if_splits)
qed

lemma envelope_quorum:
  "envelope env bytes role' = Inr v \<Longrightarrow> strict_signers env root v role = Inr ids \<Longrightarrow>
     quorum env root v role ids"
  using envelope_facts(3) strict_signers_quorum(1) by blast

lemma root_role_ids_result:
  "root_role_ids keys assigned vs = Inr out \<Longrightarrow>
     \<exists>ks. vs = map VStr ks \<and> out = rev ks @ assigned \<and> distinct ks \<and>
          set ks \<inter> set assigned = {} \<and> (\<forall>k \<in> set ks. bt_contains k keys)"
proof (induction vs arbitrary: assigned)
  case Nil
  then show ?case by simp
next
  case (Cons v vs)
  then obtain k where v: "v = VStr k" and k: "bt_contains k keys" "k \<notin> set assigned"
    and rest: "root_role_ids keys (k # assigned) vs = Inr out"
    by (auto simp: ok_iff value_str_iff)
  from Cons.IH [OF rest] obtain ks where "vs = map VStr ks" "out = rev ks @ k # assigned"
    "distinct ks" "set ks \<inter> set (k # assigned) = {}" "\<forall>k \<in> set ks. bt_contains k keys"
    by blast
  with v k show ?case by (intro exI [of _ "k # ks"]) auto
qed

text \<open>The assignment of one role: its key identifiers, with the floors of threshold and custody.\<close>

definition role_assigned :: "jvalue \<Rightarrow> nat \<times> string \<Rightarrow> string list \<Rightarrow> bool" where
  "role_assigned roles r ks \<longleftrightarrow>
     vindex (vindex roles (snd r)) ''keyids'' = VArr (map VStr ks) \<and>
     (\<exists>threshold. wire_number (vindex roles (snd r)) ''threshold'' 32 = Ok threshold \<and>
        quorum_floor (fst r) \<le> threshold \<and> threshold \<le> length ks) \<and>
     custody_floor (fst r) \<le> length ks"

lemma root_roles_result:
  "root_roles keys roles assigned rs = Inr out \<Longrightarrow> distinct assigned \<Longrightarrow>
     \<exists>kss. list_all2 (role_assigned roles) rs kss \<and> distinct (concat kss) \<and>
           set (concat kss) \<inter> set assigned = {} \<and> set out = set (concat kss) \<union> set assigned \<and>
           length out = length (concat kss) + length assigned \<and>
           (\<forall>k \<in> set (concat kss). bt_contains k keys)"
proof (induction rs arbitrary: assigned)
  case Nil
  then show ?case by auto
next
  case (Cons r rs)
  obtain i role where r: "r = (i, role)" by (cases r)
  from Cons.prems(1) obtain threshold vs mid
    where threshold: "wire_number (vindex roles role) ''threshold'' 32 = Inr threshold"
      and vs: "vindex (vindex roles role) ''keyids'' = VArr vs"
      and floors: "quorum_floor i \<le> threshold" "threshold \<le> length vs" "custody_floor i \<le> length vs"
      and ids: "root_role_ids keys assigned vs = Inr mid"
      and rest: "root_roles keys roles mid rs = Inr out"
    unfolding r by (auto simp: ok_iff value_array_iff Let_def)
  from root_role_ids_result [OF ids] obtain ks
    where ks: "vs = map VStr ks" "mid = rev ks @ assigned" "distinct ks"
      "set ks \<inter> set assigned = {}" "\<forall>k \<in> set ks. bt_contains k keys" by blast
  have "distinct mid" using ks Cons.prems(2) by auto
  from Cons.IH [OF rest this] obtain kss where kss: "list_all2 (role_assigned roles) rs kss"
    "distinct (concat kss)" "set (concat kss) \<inter> set mid = {}"
    "set out = set (concat kss) \<union> set mid" "length out = length (concat kss) + length mid"
    "\<forall>k \<in> set (concat kss). bt_contains k keys" by blast
  have "role_assigned roles r ks"
    using threshold vs floors ks(1) by (simp add: role_assigned_def r)
  with kss ks show ?case by (intro exI [of _ "ks # kss"]) auto
qed

text \<open>
  A root that passes the local profile separates the roles: the keys of the four roles are
  pairwise different, each role has at least the local threshold (two for root and targets) among
  at least the local number of custodians, and every key of the root belongs to a role.
\<close>

theorem root_profile_separates_roles:
  assumes "root_profile env root = Ok ()"
  shows "\<exists>kss keys.
     list_all2 (role_assigned (vpath root [''signed'', ''roles''])) (enumerate 0 ROLES) kss \<and>
     distinct (concat kss) \<and>
     vpath root [''signed'', ''keys''] = VObj keys \<and> set (concat kss) \<subseteq> fst ` set keys \<and>
     length (concat kss) = length keys \<and> length keys \<le> 32"
proof -
  from assms obtain keys assigned where keys: "vpath root [''signed'', ''keys''] = VObj keys"
    and few: "length keys \<le> 32"
    and roles: "root_roles keys (vpath root [''signed'', ''roles'']) [] (enumerate 0 ROLES) = Inr assigned"
    and all: "length assigned = length keys"
    unfolding root_profile_def by (auto simp: ok_iff value_object_iff vpath_def Let_def)
  from root_roles_result [OF roles] keys few all show ?thesis
    by (auto simp: bt_contains_iff)
qed

end
