(* ===== verification/TrustOrder.thy ===== *)
theory TrustOrder
  imports TrustCommands WireFacts
begin

text \<open>
  The order in which the state of a trust store may change. \<open>state_moves\<close> says that the later
  state has the same policy, a longer lineage of roots, roles and floors that did not go back, a
  generation that is not smaller, and the completed receipts of the earlier one.
  \<open>session_goes\<close> lifts it to sessions: the state in memory moved, and the state file is the old
  one or holds a state between the two. Every operation of a session goes only that way, whether
  it succeeds or fails.
\<close>

section \<open>The order of states\<close>

definition child_file :: "string \<Rightarrow> string" where
  "child_file role = (if role = ''timestamp'' then ''snapshot.json'' else ''targets.json'')"

text \<open>The version of the child that a retained parent names.\<close>

definition link_version :: "('z) wire_env_scheme \<Rightarrow> string \<Rightarrow> string \<Rightarrow> nat" where
  "link_version env role raw =
     (case and_then (envelope env raw role) (\<lambda>v.
             wire_number (vpath v [''signed'', ''meta'', child_file role]) ''version'' U32_MAX) of
        Inl _ \<Rightarrow> 0 | Inr n \<Rightarrow> n)"

definition role_moves :: "('z) wire_env_scheme \<Rightarrow> string \<Rightarrow> role_record \<Rightarrow> role_record \<Rightarrow> bool" where
  "role_moves env role r r' \<longleftrightarrow>
     re_version (rr_evidence r) \<le> re_version (rr_evidence r') \<and>
     (re_version (rr_evidence r) = re_version (rr_evidence r') \<longrightarrow>
        re_signed_sha256 (rr_evidence r) = re_signed_sha256 (rr_evidence r')) \<and>
     (role \<in> {''timestamp'', ''snapshot''} \<longrightarrow>
        link_version env role (rr_raw r) \<le> link_version env role (rr_raw r'))"

definition floor_moves :: "trust_floor \<Rightarrow> trust_floor \<Rightarrow> bool" where
  "floor_moves f f' \<longleftrightarrow>
     fl_sequence f \<le> fl_sequence f' \<and>
     (\<forall>h. fl_manifest_sha256 f = Some h \<longrightarrow>
        fl_manifest_sha256 f' \<noteq> None \<and>
        (fl_sequence f = fl_sequence f' \<longrightarrow> fl_manifest_sha256 f' = Some h))"

text \<open>Every entry of the first map has a later entry in the second one.\<close>

definition entries_move ::
  "('k \<Rightarrow> 'v \<Rightarrow> 'v \<Rightarrow> bool) \<Rightarrow> ('k \<times> 'v) list \<Rightarrow> ('k \<times> 'v) list \<Rightarrow> bool" where
  "entries_move R m n \<longleftrightarrow>
     (\<forall>k v. map_of m k = Some v \<longrightarrow> (\<exists>w. map_of n k = Some w \<and> R k v w))"

text \<open>
  A receipt is kept under the digest of its own text, as it was journaled. \<open>receipts_distinguished\<close>
  states what the code relies on there: a digest of a receipt's text identifies the receipt.
\<close>

definition journaled :: "trust_receipt \<Rightarrow> trust_receipt" where
  "journaled r = r\<lparr>rc_installation := ''pending'', rc_transaction_id := None\<rparr>"

definition receipt_keyed :: "('db, 'z) session_env_scheme \<Rightarrow> string \<Rightarrow> trust_receipt \<Rightarrow> bool" where
  "receipt_keyed env key r \<longleftrightarrow>
     rc_transaction_id r = Some key \<and>
     (\<exists>bytes. se_receipt_bytes env (journaled r) = Some bytes \<and> key = wire_digest env bytes)"

definition receipts_distinguished :: "('db, 'z) session_env_scheme \<Rightarrow> bool" where
  "receipts_distinguished env \<longleftrightarrow>
     (\<forall>r r' b b'. se_receipt_bytes env r = Some b \<longrightarrow> se_receipt_bytes env r' = Some b' \<longrightarrow>
        we_sha env b = we_sha env b' \<longrightarrow> r = r')"

definition all_keyed :: "('db, 'z) session_env_scheme \<Rightarrow> trust_state \<Rightarrow> bool" where
  "all_keyed env st \<longleftrightarrow>
     (\<forall>k r. map_of (st_completed st) k = Some r \<longrightarrow>
        receipt_keyed env k r \<and> rc_installation r = ''complete'') \<and>
     (\<forall>p k. st_pending st = Some p \<longrightarrow> rc_transaction_id (pn_receipt p) = Some k \<longrightarrow>
        receipt_keyed env k (pn_receipt p))"

definition receipts_move :: "('db, 'z) session_env_scheme \<Rightarrow> trust_state \<Rightarrow> trust_state \<Rightarrow> bool" where
  "receipts_move env s t \<longleftrightarrow>
     (receipts_distinguished env \<longrightarrow> all_keyed env s \<longrightarrow>
        all_keyed env t \<and> map_of (st_completed s) \<subseteq>\<^sub>m map_of (st_completed t))"

text \<open>A lineage whose root versions follow each other without a gap.\<close>

definition root_version :: "('z) wire_env_scheme \<Rightarrow> string \<Rightarrow> nat option" where
  "root_version env raw =
     (case and_then (envelope env raw ''root'') (\<lambda>v.
             wire_number (vindex v ''signed'') ''version'' U32_MAX) of
        Inl _ \<Rightarrow> None | Inr n \<Rightarrow> Some n)"

definition consecutive :: "('z) wire_env_scheme \<Rightarrow> string list \<Rightarrow> bool" where
  "consecutive env roots \<longleftrightarrow>
     roots \<noteq> [] \<and>
     (\<exists>first. \<forall>i < length roots. root_version env (roots ! i) = Some (first + i))"

definition lineage_moves :: "('z) wire_env_scheme \<Rightarrow> trust_state \<Rightarrow> trust_state \<Rightarrow> bool" where
  "lineage_moves env s t \<longleftrightarrow>
     prefix (st_roots s) (st_roots t) \<and>
     (consecutive env (st_roots s) \<longrightarrow> consecutive env (st_roots t))"

definition same_policy :: "trust_state \<Rightarrow> trust_state \<Rightarrow> bool" where
  "same_policy s t \<longleftrightarrow>
     st_contract_version s = st_contract_version t \<and> st_policy s = st_policy t \<and>
     st_policy_sha256 s = st_policy_sha256 t"

text \<open>\<open>clock\<close> is the verification time of the session: the retained maximum changes to it only.\<close>

definition state_moves ::
  "('db, 'z) session_env_scheme \<Rightarrow> string \<Rightarrow> trust_state \<Rightarrow> trust_state \<Rightarrow> bool" where
  "state_moves env clock s t \<longleftrightarrow>
     same_policy s t \<and> lineage_moves env s t \<and>
     entries_move (role_moves env) (st_roles s) (st_roles t) \<and>
     entries_move (\<lambda>_. floor_moves) (st_floors s) (st_floors t) \<and>
     st_generation s \<le> st_generation t \<and>
     st_maximum_verification_time t \<in> {st_maximum_verification_time s, clock} \<and>
     receipts_move env s t"

lemma role_moves_refl: "role_moves env role r r"
  by (simp add: role_moves_def)

lemma role_moves_trans:
  "role_moves env role r r' \<Longrightarrow> role_moves env role r' r'' \<Longrightarrow> role_moves env role r r''"
  unfolding role_moves_def by (elim conjE, intro conjI impI) (simp_all, elim disjE, simp_all)

lemma floor_moves_refl: "floor_moves f f"
  by (simp add: floor_moves_def)

lemma floor_moves_trans: "floor_moves f f' \<Longrightarrow> floor_moves f' f'' \<Longrightarrow> floor_moves f f''"
proof -
  assume f: "floor_moves f f'" and g: "floor_moves f' f''"
  have "fl_manifest_sha256 f'' \<noteq> None \<and> (fl_sequence f = fl_sequence f'' \<longrightarrow> fl_manifest_sha256 f'' = Some h)"
    if h: "fl_manifest_sha256 f = Some h" for h
  proof -
    from f h obtain h' where h': "fl_manifest_sha256 f' = Some h'"
      and eq: "fl_sequence f = fl_sequence f' \<longrightarrow> h' = h"
      unfolding floor_moves_def by auto
    moreover have "fl_sequence f \<le> fl_sequence f'" "fl_sequence f' \<le> fl_sequence f''"
      using f g by (simp_all add: floor_moves_def)
    ultimately show ?thesis using g unfolding floor_moves_def by fastforce
  qed
  with f g show ?thesis unfolding floor_moves_def by simp
qed

lemma entries_move_refl: "(\<And>k v. R k v v) \<Longrightarrow> entries_move R m m"
  by (simp add: entries_move_def)

lemma entries_move_trans:
  "(\<And>k u v w. R k u v \<Longrightarrow> R k v w \<Longrightarrow> R k u w) \<Longrightarrow> entries_move R m n \<Longrightarrow> entries_move R n q \<Longrightarrow>
     entries_move R m q"
  unfolding entries_move_def by meson

lemma entries_move_insert:
  "(\<And>k v. R k v v) \<Longrightarrow> (\<And>v. map_of m k = Some v \<Longrightarrow> R k v w) \<Longrightarrow> entries_move R m (bt_insert k w m)"
  by (auto simp: entries_move_def)

lemma lineage_moves_same [simp]: "st_roots t = st_roots s \<Longrightarrow> lineage_moves env s t"
  by (simp add: lineage_moves_def)

lemma lineage_moves_trans: "lineage_moves env s t \<Longrightarrow> lineage_moves env t u \<Longrightarrow> lineage_moves env s u"
  by (auto simp: lineage_moves_def dest: prefix_order.trans)

lemma receipts_move_refl: "receipts_move env s s"
  by (simp add: receipts_move_def)

lemma receipts_move_trans:
  "receipts_move env s t \<Longrightarrow> receipts_move env t u \<Longrightarrow> receipts_move env s u"
  unfolding receipts_move_def by (blast intro: map_le_trans)

lemma receipts_move_same:
  "st_completed t = st_completed s \<Longrightarrow> st_pending t = st_pending s \<Longrightarrow> receipts_move env s t"
  by (simp add: receipts_move_def all_keyed_def)

lemma state_moves_refl: "state_moves env clock s s"
  by (simp add: state_moves_def same_policy_def entries_move_refl role_moves_refl floor_moves_refl
      receipts_move_refl)

lemma state_moves_trans:
  assumes "state_moves env clock s t" and "state_moves env clock t u"
  shows "state_moves env clock s u"
proof -
  have "entries_move (role_moves env) (st_roles s) (st_roles u)"
    using assms unfolding state_moves_def by (blast intro: entries_move_trans role_moves_trans)
  moreover have "entries_move (\<lambda>_. floor_moves) (st_floors s) (st_floors u)"
    using assms unfolding state_moves_def
    by (blast intro: entries_move_trans [of "\<lambda>_. floor_moves"] floor_moves_trans)
  moreover have "receipts_move env s u"
    using assms unfolding state_moves_def by (blast intro: receipts_move_trans)
  moreover have "lineage_moves env s u"
    using assms unfolding state_moves_def by (blast intro: lineage_moves_trans)
  ultimately show ?thesis using assms unfolding state_moves_def same_policy_def by auto
qed

section \<open>The order of sessions\<close>

definition session_time :: "session \<Rightarrow> string" where
  "session_time s = tc_verification_time (sn_clock s)"

text \<open>The state file holds a state that lies strictly after one state and not after another one.\<close>

definition file_between ::
  "('db, 'z) session_env_scheme \<Rightarrow> string \<Rightarrow> trust_state \<Rightarrow> trust_state \<Rightarrow> string option \<Rightarrow> bool" where
  "file_between env clock s t content \<longleftrightarrow>
     (\<exists>u bytes. content = Some bytes \<and> encode_state env u = Ok bytes \<and>
        state_moves env clock s u \<and> state_moves env clock u t \<and>
        st_generation s < st_generation u \<and> st_maximum_verification_time u = clock)"

definition session_goes :: "('db, 'z) session_env_scheme \<Rightarrow> session \<Rightarrow> session \<Rightarrow> bool" where
  "session_goes env s t \<longleftrightarrow>
     sn_store t = sn_store s \<and> sn_clock t = sn_clock s \<and> sn_mutating t = sn_mutating s \<and>
     state_moves env (session_time s) (sn_state s) (sn_state t) \<and>
     (sn_files t (state_path (sn_store s)) = sn_files s (state_path (sn_store s)) \<or>
      sn_mutating s \<and>
      file_between env (session_time s) (sn_state s) (sn_state t) (sn_files t (state_path (sn_store s))))"

lemma file_between_mono:
  "state_moves env clock r s \<Longrightarrow> state_moves env clock t u \<Longrightarrow> file_between env clock s t c \<Longrightarrow>
     file_between env clock r u c"
proof -
  assume rs: "state_moves env clock r s" and tu: "state_moves env clock t u"
    and "file_between env clock s t c"
  then obtain v bytes where v: "c = Some bytes" "encode_state env v = Ok bytes"
    "state_moves env clock s v" "state_moves env clock v t" "st_generation s < st_generation v"
    "st_maximum_verification_time v = clock"
    unfolding file_between_def by blast
  have "st_generation r \<le> st_generation s" using rs by (simp add: state_moves_def)
  with v(5) have "st_generation r < st_generation v" by simp
  with v state_moves_trans [OF rs v(3)] state_moves_trans [OF v(4) tu] show ?thesis
    unfolding file_between_def by blast
qed

lemma session_goes_refl: "session_goes env s s"
  by (simp add: session_goes_def state_moves_refl)

lemma session_goes_trans:
  assumes st: "session_goes env s t" and tu: "session_goes env t u"
  shows "session_goes env s u"
proof -
  have same: "sn_store t = sn_store s" "session_time t = session_time s" "sn_mutating t = sn_mutating s"
    using st by (simp_all add: session_goes_def session_time_def)
  have a: "state_moves env (session_time s) (sn_state s) (sn_state t)"
    and b: "state_moves env (session_time s) (sn_state t) (sn_state u)"
    using st tu same unfolding session_goes_def by simp_all
  have "sn_files u (state_path (sn_store s)) = sn_files s (state_path (sn_store s)) \<or>
      sn_mutating s \<and>
      file_between env (session_time s) (sn_state s) (sn_state u) (sn_files u (state_path (sn_store s)))"
    using st tu same file_between_mono [OF a state_moves_refl] file_between_mono [OF state_moves_refl b]
    unfolding session_goes_def by metis
  with st tu a b same state_moves_trans [OF a b] show ?thesis
    unfolding session_goes_def by simp
qed

interpretation goes: step_preorder "session_goes env"
  by unfold_locales (fact session_goes_refl, fact session_goes_trans)

text \<open>One step of a method at one session: reading, or a part followed by the rest.\<close>

lemma goes_bind:
  assumes "session_goes env s (fst (m s))"
    and "\<And>t x. m s = (t, Inr x) \<Longrightarrow> session_goes env t (fst (f x t))"
  shows "session_goes env s (fst (op_bind m f s))"
proof -
  obtain t r where m: "m s = (t, r)" by (cases "m s")
  with assms show ?thesis
    by (cases r) (auto simp: op_bind_def intro: session_goes_trans)
qed

lemma goes_read:
  assumes "\<And>x. g s = Inr x \<Longrightarrow> session_goes env s (fst (f x s))"
  shows "session_goes env s (fst (op_bind (op_of g) f s))"
  using assms by (intro goes_bind) (auto simp: session_goes_refl)

lemma goes_return: "session_goes env s (fst (op_return x s))" "session_goes env s (fst (op_of g s))"
  by (simp_all add: session_goes_refl)

lemma goes_put:
  assumes "state_moves env (session_time s) (sn_state s) (f (sn_state s))"
  shows "session_goes env s (fst (put_state f s))"
  using assms by (simp add: put_state_def session_goes_def)

lemma keeps_at: "op_keeps (session_goes env) m \<Longrightarrow> session_goes env s (fst (m s))"
  by (simp add: op_keeps_def)

end
