(* ===== verification/TrustMoves.thy ===== *)
theory TrustMoves
  imports TrustOrder
begin

text \<open>
  Every operation of a session goes forward in the order of \<open>TrustOrder\<close>: saving, reading
  metadata, importing roots and roles, recovery, verification, installation and import.
\<close>

section \<open>Saving and reading\<close>

lemma state_moves_stamp:
  "st_generation st \<le> g \<Longrightarrow>
     state_moves env clock st (st\<lparr>st_generation := g, st_maximum_verification_time := clock\<rparr>)"
  by (simp add: state_moves_def same_policy_def entries_move_refl role_moves_refl floor_moves_refl
      receipts_move_same)

lemma session_save_result:
  assumes "sn_mutating s" and "next_generation (st_generation (sn_state s)) = Some g"
  defines "st \<equiv> (sn_state s)\<lparr>st_generation := g, st_maximum_verification_time := session_time s\<rparr>"
  shows "session_save env s =
    (case encode_state env st of
       Inl e \<Rightarrow> (s\<lparr>sn_state := st\<rparr>, Err e)
     | Inr bytes \<Rightarrow> replace_file env bytes (s\<lparr>sn_state := st\<rparr>))"
  using assms
  by (simp add: session_save_def op_bind_def put_state_def session_time_def split: sum.split)

lemma next_generation_Some: "next_generation g = Some h \<Longrightarrow> h = g + 1"
  by (simp add: next_generation_def split: if_splits)

lemma session_save_goes: "session_goes env s (fst (session_save env s))"
proof (cases "sn_mutating s \<and> next_generation (st_generation (sn_state s)) \<noteq> None")
  case False
  then show ?thesis
    by (auto simp: session_save_def op_bind_def session_goes_refl)
next
  case True
  then obtain g where g: "next_generation (st_generation (sn_state s)) = Some g" by auto
  define st where
    "st = (sn_state s)\<lparr>st_generation := g, st_maximum_verification_time := session_time s\<rparr>"
  have moves: "state_moves env (session_time s) (sn_state s) st"
    unfolding st_def using next_generation_Some [OF g] by (intro state_moves_stamp) simp
  note save = session_save_result [OF conjunct1 [OF True] g, of env, folded st_def]
  show ?thesis
  proof (cases "encode_state env st")
    case (Inl e)
    with save moves show ?thesis by (simp add: session_goes_def)
  next
    case (Inr bytes)
    obtain files r where rep: "replace_state (se_system env (sn_turn s)) (sn_files s) (sn_store s) bytes
        = (files, r)" by fastforce
    then have files: "files \<in> {sn_files s, (sn_files s)(state_path (sn_store s) \<mapsto> bytes)}"
      by (metis fst_conv replace_state_files)
    have "file_between env (session_time s) (sn_state s) st (Some bytes)"
      unfolding file_between_def using moves Inr next_generation_Some [OF g]
      by (intro exI [of _ st] exI [of _ bytes]) (simp add: state_moves_refl st_def)
    with save Inr rep files moves True show ?thesis
      by (auto simp: session_goes_def replace_file_def)
  qed
qed

lemma session_save_keeps: "op_keeps (session_goes env) (session_save env)"
  by (simp add: op_keeps_def session_save_goes)

lemma read_metadata_goes: "session_goes env s (fst (read_metadata env path limit s))"
  unfolding read_metadata_def
proof (rule goes_read)
  fix bytes
  show "session_goes env s (fst (op_bind (op_modify (\<lambda>s. s\<lparr>sn_total := sn_total s + length bytes\<rparr>))
      (\<lambda>_. op_bind (op_of (\<lambda>s. require (sn_total s \<le> METADATA_BUDGET) TRUST_FORMAT))
        (\<lambda>_. op_return bytes)) s))"
    by (rule goes_bind, simp add: session_goes_def state_moves_refl) (intro goes_read goes_return)
qed

text \<open>What is read leaves the state, the clock and the files as they were.\<close>

lemma read_metadata_result:
  assumes "read_metadata env path limit s = (t, Inr bytes)"
  shows "t = s\<lparr>sn_total := sn_total s + length bytes\<rparr>"
    and "storage_read (se_system env (sn_turn s)) (sn_files s) path limit = Inr bytes"
  using assms by (auto simp: read_metadata_def op_bind_Inr_iff ok_iff)

section \<open>Roles\<close>

lemma child_floor_moves:
  assumes "child_floor env role v old = Inr u" and "envelope env bytes role = Inr v"
  shows "link_version env role (rr_raw old) \<le> link_version env role bytes"
  using assms unfolding child_floor_def link_version_def child_file_def
  by (auto simp: ok_iff Let_def split: if_splits)

lemma role_floor_moves:
  assumes floor: "role_floor env st role v = Inr u" and v: "envelope env bytes role = Inr v"
    and ev: "evidence env root v bytes role = Inr ev"
  shows "entries_move (role_moves env) (st_roles st)
           (bt_insert role \<lparr>rr_raw = bytes, rr_evidence = ev\<rparr> (st_roles st))"
proof (rule entries_move_insert)
  show "role_moves env k r r" for k r by (rule role_moves_refl)
  fix old
  assume old: "map_of (st_roles st) role = Some old"
  from ev obtain version signed where ev': "re_version ev = version"
      "re_signed_sha256 ev = wire_digest env signed"
    and version: "wire_number (vindex v ''signed'') ''version'' U32_MAX = Inr version"
    and signed: "wire_canonical env (vindex v ''signed'') = Inr signed"
    unfolding evidence_def by (auto simp: ok_iff)
  from floor old version have le: "re_version (rr_evidence old) \<le> version"
    and eq: "version = re_version (rr_evidence old) \<longrightarrow>
      wire_digest env signed = re_signed_sha256 (rr_evidence old)"
    and child: "role = ''timestamp'' \<or> role = ''snapshot'' \<longrightarrow> child_floor env role v old = Inr u"
    unfolding role_floor_def using signed by (auto simp: ok_iff split: if_splits)
  show "role_moves env role old \<lparr>rr_raw = bytes, rr_evidence = ev\<rparr>"
    unfolding role_moves_def using le eq ev' child child_floor_moves [OF _ v] by auto
qed

lemma retain_role_goes:
  assumes "role_floor env (sn_state s) role v = Inr u" and "envelope env bytes role = Inr v"
  shows "session_goes env s (fst (retain_role env root v bytes role s))"
  unfolding retain_role_def
proof (rule goes_read)
  fix ev
  assume ev: "evidence env root v bytes role = Inr ev"
  have "state_moves env (session_time s) (sn_state s) ((sn_state s)\<lparr>st_roles :=
      bt_insert role \<lparr>rr_raw = bytes, rr_evidence = ev\<rparr> (st_roles (sn_state s))\<rparr>)"
    using role_floor_moves [OF assms ev]
    by (simp add: state_moves_def same_policy_def entries_move_refl floor_moves_refl receipts_move_same)
  then show "session_goes env s (fst (op_bind (put_state (\<lambda>st. st\<lparr>st_roles :=
      bt_insert role \<lparr>rr_raw = bytes, rr_evidence = ev\<rparr> (st_roles st)\<rparr>)) (\<lambda>_. session_save env) s))"
    by (intro goes_bind goes_put session_save_goes)
qed

lemmas goes_steps = goes_read goes_return read_metadata_goes session_save_goes

lemma import_timestamp_goes: "session_goes env s (fst (import_timestamp env dir root now db s))"
  unfolding import_timestamp_def
  by (rule goes_bind, rule read_metadata_goes)
     (intro goes_read goes_bind [where m = "retain_role _ _ _ _ _"] retain_role_goes goes_return; assumption)

lemma import_snapshot_goes: "session_goes env s (fst (import_snapshot env dir root now link db s))"
  unfolding import_snapshot_def
  by (rule goes_read, rule goes_bind, rule read_metadata_goes)
     (intro goes_read goes_bind [where m = "retain_role _ _ _ _ _"] retain_role_goes goes_return; assumption)

section \<open>Roots\<close>

lemma consecutive_append:
  assumes "consecutive env roots" and "root_version env (last roots) = Some v"
    and "root_version env bytes = Some (v + 1)"
  shows "consecutive env (roots @ [bytes])"
proof -
  from assms(1) obtain first where ne: "roots \<noteq> []"
    and roots: "\<forall>i < length roots. root_version env (roots ! i) = Some (first + i)"
    unfolding consecutive_def by blast
  then have "first + (length roots - 1) = v"
    using assms(2) by (simp add: last_conv_nth)
  then have "v + 1 = first + length roots" using ne by (cases roots) auto
  with roots assms(3) have "\<forall>i < length (roots @ [bytes]). root_version env ((roots @ [bytes]) ! i) = Some (first + i)"
    by (auto simp: nth_append less_Suc_eq)
  then show ?thesis unfolding consecutive_def by blast
qed

definition last_version :: "('z) wire_env_scheme \<Rightarrow> session \<Rightarrow> nat option" where
  "last_version env s = root_version env (last (st_roots (sn_state s)))"

lemma root_added_goes:
  assumes "last_version env s = Some v" and "root_version env bytes = Some (v + 1)"
  shows "session_goes env s (fst (put_state (\<lambda>st. st\<lparr>st_roots := st_roots st @ [bytes]\<rparr>) s))"
proof (rule goes_put)
  have "lineage_moves env (sn_state s) ((sn_state s)\<lparr>st_roots := st_roots (sn_state s) @ [bytes]\<rparr>)"
    using consecutive_append assms by (auto simp: lineage_moves_def last_version_def)
  then show "state_moves env (session_time s) (sn_state s)
      ((sn_state s)\<lparr>st_roots := st_roots (sn_state s) @ [bytes]\<rparr>)"
    by (simp add: state_moves_def same_policy_def entries_move_refl role_moves_refl
        floor_moves_refl receipts_move_same)
qed

lemma root_versionI:
  "envelope env bytes ''root'' = Inr v \<Longrightarrow>
     wire_number (vindex v ''signed'') ''version'' U32_MAX = Inr n \<Longrightarrow> root_version env bytes = Some n"
  by (simp add: root_version_def)

lemma session_save_roots:
  "session_save env s = (t, r) \<Longrightarrow> st_roots (sn_state t) = st_roots (sn_state s)"
  by (auto simp: session_save_def op_bind_def put_state_def replace_file_def
      split: if_splits sum.splits prod.splits)

text \<open>A transition adds one root with the next version, and hands the new root on.\<close>

lemma root_transition_goes:
  assumes "last_version env s = Some current"
  shows "session_goes env s (fst (root_transition env dir root db current version s))"
    and "root_transition env dir root db current version s = (t, Inr x) \<Longrightarrow>
           last_version env t = Some version"
proof -
  show "session_goes env s (fst (root_transition env dir root db current version s))"
    unfolding root_transition_def
  proof (rule goes_read, rule goes_bind, rule read_metadata_goes, intro goes_read)
    fix u t :: session and w x bytes v n db'
    assume "require (current + 1 = version) TRUST_ROLLBACK = Inr w"
      and read: "read_metadata env (path_join dir (show_nat version @ ''.root.json'')) (LIMITS ! 0) s
        = (t, Inr bytes)"
      and v: "envelope env bytes ''root'' = Inr v"
      and n: "wire_number (vindex v ''signed'') ''version'' U32_MAX = Inr n"
      and "require (n = version) TRUST_ROLLBACK = Inr x"
    then have "root_version env bytes = Some (current + 1)"
      using root_versionI [OF v n] by (simp add: require_Inr_iff)
    moreover have "last_version env t = Some current"
      using assms read_metadata_result(1) [OF read] by (simp add: last_version_def)
    ultimately show "session_goes env t (fst (op_bind (put_state (\<lambda>st. st\<lparr>st_roots := st_roots st @ [bytes]\<rparr>)) (\<lambda>_.
       op_bind (session_save env) (\<lambda>_. op_return (v, db'))) t))"
      by (intro goes_bind [OF root_added_goes] goes_bind [OF session_save_goes] goes_return)
  qed
  show "last_version env t = Some version"
    if run: "root_transition env dir root db current version s = (t, Inr x)"
  proof -
    from run obtain bytes v u where v: "envelope env bytes ''root'' = Inr v"
      and n: "wire_number (vindex v ''signed'') ''version'' U32_MAX = Inr version"
      and save: "session_save env (u\<lparr>sn_state := (sn_state u)
        \<lparr>st_roots := st_roots (sn_state u) @ [bytes]\<rparr>\<rparr>) = (t, Inr ())"
      by (auto simp: root_transition_def op_bind_Inr_iff put_state_def ok_iff)
    then show ?thesis
      using session_save_roots [OF save] root_versionI [OF v n] by (simp add: last_version_def)
  qed
qed

lemma root_transitions_goes:
  "last_version env s = Some current \<Longrightarrow>
     session_goes env s (fst (root_transitions env dir root db current vs s))"
proof (induction vs arbitrary: root db current s)
  case Nil
  then show ?case by (simp add: session_goes_refl)
next
  case (Cons v vs)
  show ?case
    unfolding root_transitions.simps
  proof (rule goes_bind, rule root_transition_goes(1) [OF Cons.prems])
    fix t x
    assume "root_transition env dir root db current v s = (t, Inr x)"
    from root_transition_goes(2) [OF Cons.prems this]
    show "session_goes env t (fst ((case x of (next, db') \<Rightarrow> root_transitions env dir next db' v vs) t))"
      by (auto intro: Cons.IH split: prod.split)
  qed
qed

lemma scan_roots_goes: "session_goes env s (fst (scan_roots env dir root current k versions es s))"
proof (induction es arbitrary: k versions s)
  case Nil
  then show ?case by (simp add: session_goes_refl)
next
  case (Cons e es)
  have reread: "session_goes env s (fst (op_bind (read_metadata env path limit) (\<lambda>bytes.
      op_bind (op_of (\<lambda>_. envelope env bytes ''root'')) (\<lambda>seen.
      op_bind (op_of (\<lambda>_. wire_canonical env (vindex seen ''signed''))) (\<lambda>a.
      op_bind (op_of (\<lambda>_. wire_canonical env (vindex root ''signed''))) (\<lambda>b.
      op_bind (op_of (\<lambda>_. require (a = b) TRUST_EQUIVOCATION)) (\<lambda>_.
        scan_roots env dir root current k' versions' es))))) s))" for path limit k' versions' s
    by (rule goes_bind [OF read_metadata_goes]) (intro goes_read Cons.IH)
  show ?case
    by (cases e) (auto simp del: op_of_simps split: option.split
        intro!: goes_read goes_return Cons.IH reread)
qed

lemma read_metadata_state:
  "read_metadata env path limit s = (t, r) \<Longrightarrow> sn_state t = sn_state s \<and> sn_files t = sn_files s"
  by (auto simp: read_metadata_def op_bind_def split: sum.splits)

lemma scan_roots_state:
  "scan_roots env dir root current k versions es s = (t, r) \<Longrightarrow> sn_state t = sn_state s"
proof (induction es arbitrary: k versions s)
  case Nil
  then show ?case by simp
next
  case (Cons e es)
  then show ?case
    by (cases e) (auto simp: op_bind_def dest!: Cons.IH read_metadata_state
        split: sum.splits option.splits prod.splits if_splits)
qed

text \<open>The root that \<open>current_root\<close> returns is the last one of the lineage.\<close>

lemma root_chain_last:
  "root_chain env root db rest = Inr (root', db') \<Longrightarrow> envelope env raw ''root'' = Inr root \<Longrightarrow>
     envelope env (last (raw # rest)) ''root'' = Inr root'"
proof (induction rest arbitrary: raw root db)
  case Nil
  then show ?case by simp
next
  case (Cons bytes rest)
  from Cons.prems(1) obtain v db1 where v: "envelope env bytes ''root'' = Inr v"
    and rest: "root_chain env v db1 rest = Inr (root', db')"
    by (auto simp: ok_iff)
  from Cons.IH [OF rest v] show ?case by simp
qed

lemma current_root_last:
  assumes "current_root env st = Inr (root, db)"
  shows "st_roots st \<noteq> []" and "envelope env (last (st_roots st)) ''root'' = Inr root"
proof -
  from assms obtain initial rest root0 db0 where roots: "st_roots st = initial # rest"
    and first: "initial_root env (st_policy st) initial = Inr (root0, db0)"
    and chain: "root_chain env root0 db0 rest = Inr (root, db)"
    unfolding current_root_def by (auto simp: ok_iff split: list.splits)
  from first have "envelope env initial ''root'' = Inr root0"
    unfolding initial_root_def by (auto simp: ok_iff)
  from root_chain_last [OF chain this] roots
  show "st_roots st \<noteq> []" and "envelope env (last (st_roots st)) ''root'' = Inr root" by simp_all
qed

lemma import_roots_goes: "session_goes env s (fst (import_roots env dir s))"
  unfolding import_roots_def
proof (rule goes_read, rule goes_read)
  fix u x
  assume root: "current_root env (sn_state s) = Inr x"
  obtain root db where x: "x = (root, db)" by (cases x)
  show "session_goes env s (fst ((case x of (root, db) \<Rightarrow>
     op_bind (op_of (\<lambda>_. wire_number (vindex root ''signed'') ''version'' U32_MAX)) (\<lambda>current.
     op_bind (op_of (\<lambda>s. ok_or (se_read_dir env (sn_turn s) dir) TRUST_FILESYSTEM)) (\<lambda>listing.
     op_bind (scan_roots env dir root current 0 [] listing) (\<lambda>versions.
     op_bind (op_of (\<lambda>_. require (length versions \<le> 128) TRUST_FORMAT)) (\<lambda>_.
     op_bind (root_transitions env dir root db current (sort versions)) (\<lambda>last_root.
     op_bind (op_of (session_expiry env last_root ''root'')) (\<lambda>_.
       op_return last_root))))))) s))"
    unfolding x prod.case
  proof (rule goes_read, rule goes_read, rule goes_bind [OF scan_roots_goes], rule goes_read)
    fix current listing versions and t :: session
    assume current: "wire_number (vindex root ''signed'') ''version'' U32_MAX = Inr current"
      and scan: "scan_roots env dir root current 0 [] listing s = (t, Inr versions)"
    have "last_version env t = Some current"
      using scan_roots_state [OF scan] root_versionI [OF current_root_last(2) [OF root [unfolded x]] current]
      by (simp add: last_version_def)
    then show "session_goes env t (fst (op_bind (root_transitions env dir root db current (sort versions))
      (\<lambda>last_root. op_bind (op_of (session_expiry env last_root ''root'')) (\<lambda>_. op_return last_root)) t))"
      by (intro goes_bind [OF root_transitions_goes] goes_read goes_return)
  qed
qed

section \<open>Targets and floors\<close>

text \<open>Objects at every level of an accepted document have each member once.\<close>

fun ordered_value :: "jvalue \<Rightarrow> bool" where
  "ordered_value (VArr vs) = (\<forall>v \<in> set vs. ordered_value v)"
| "ordered_value (VObj m) = (bt_wf m \<and> (\<forall>e \<in> set m. ordered_value (snd e)))"
| "ordered_value _ = True"

lemma strict_value_ordered: "strict_value depth v \<Longrightarrow> ordered_value v"
  by (induction v arbitrary: depth rule: ordered_value.induct) auto

lemma ordered_vindex: "ordered_value v \<Longrightarrow> ordered_value (vindex v k)"
  by (cases v) (force simp: vindex_def split: option.split dest: map_of_SomeD)+

lemma ordered_vpath: "ordered_value v \<Longrightarrow> ordered_value (vpath v ks)"
  by (induction ks arbitrary: v) (simp_all add: vpath_def ordered_vindex)

lemma envelope_ordered: "envelope env bytes role = Inr v \<Longrightarrow> ordered_value v"
  using envelope_facts(2) wire_parse_typed strict_value_ordered by metis

text \<open>What is accepted comes from an entry, under its own profile.\<close>

lemma accept_targets_result:
  "accept_targets env st acc es = Inr out \<Longrightarrow> bt_wf acc \<Longrightarrow>
     bt_wf out \<and>
     (\<forall>(k, t) \<in> set out. (k, t) \<in> set acc \<or>
        k = tt_profile t \<and> (\<exists>(name, entry) \<in> set es. accept_target env st name entry = Inr t))"
proof (induction es arbitrary: acc)
  case Nil
  then show ?case by auto
next
  case (Cons e es)
  obtain name entry where e: "e = (name, entry)" by (cases e)
  from Cons.prems(1) obtain t where t: "accept_target env st name entry = Inr t"
    and rest: "accept_targets env st (bt_insert (tt_profile t) t acc) es = Inr out"
    unfolding e by (auto simp: ok_iff)
  have "bt_wf (bt_insert (tt_profile t) t acc)" using Cons.prems(2) by simp
  with Cons.IH [OF rest] have IH: "bt_wf out"
    "\<forall>(k, t') \<in> set out. (k, t') \<in> set (bt_insert (tt_profile t) t acc) \<or>
        k = tt_profile t' \<and> (\<exists>(name, entry) \<in> set es. accept_target env st name entry = Inr t')"
    by blast+
  have "set (bt_insert (tt_profile t) t acc) \<subseteq> insert (tt_profile t, t) (set acc)"
    by (rule set_bt_insert)
  with IH t e show ?case by fastforce
qed

lemma accept_target_floor:
  assumes "accept_target env st name entry = Inr t"
  shows "name = scope_target (target_scope t)"
    and "\<exists>hash floor. wire_string (vindex entry ''hashes'') ''sha256'' = Ok hash \<and>
      map_of (st_floors st) (tt_profile t) = Some floor \<and>
      floor_moves floor \<lparr>fl_sequence = tt_release_sequence t, fl_manifest_sha256 = Some hash\<rparr>"
proof -
  from assms obtain hash floor
    where name: "name = scope_target (target_scope t)"
      and hash: "wire_string (vindex entry ''hashes'') ''sha256'' = Inr hash"
      and floor: "map_of (st_floors st) (tt_profile t) = Some floor"
      and seq: "fl_sequence floor \<le> tt_release_sequence t"
      and same: "(case fl_manifest_sha256 floor of
                    Some previous \<Rightarrow> if tt_release_sequence t = fl_sequence floor
                      then require (hash = previous) TRUST_EQUIVOCATION else Ok ()
                  | None \<Rightarrow> Ok ()) = Inr ()"
    unfolding accept_target_def by (auto simp: ok_iff)
  show "name = scope_target (target_scope t)" by (rule name)
  have "floor_moves floor \<lparr>fl_sequence = tt_release_sequence t, fl_manifest_sha256 = Some hash\<rparr>"
    unfolding floor_moves_def using seq same by (auto simp: ok_iff split: option.splits if_splits)
  with hash floor show "\<exists>hash floor. wire_string (vindex entry ''hashes'') ''sha256'' = Ok hash \<and>
      map_of (st_floors st) (tt_profile t) = Some floor \<and>
      floor_moves floor \<lparr>fl_sequence = tt_release_sequence t, fl_manifest_sha256 = Some hash\<rparr>"
    by blast
qed

definition floor_ready :: "jvalue \<Rightarrow> trust_state \<Rightarrow> trust_target \<Rightarrow> bool" where
  "floor_ready items st t \<longleftrightarrow>
     (\<forall>hash. wire_string (vpath items [scope_target (target_scope t), ''hashes'']) ''sha256'' = Ok hash \<longrightarrow>
        (\<exists>floor. map_of (st_floors st) (tt_profile t) = Some floor \<and>
           floor_moves floor \<lparr>fl_sequence = tt_release_sequence t, fl_manifest_sha256 = Some hash\<rparr>))"

lemma advance_floors_goes:
  "\<forall>t \<in> set ts. floor_ready items (sn_state s) t \<Longrightarrow> distinct (map tt_profile ts) \<Longrightarrow>
     session_goes env s (fst (advance_floors items ts s))"
proof (induction ts arbitrary: s)
  case Nil
  then show ?case by (simp add: session_goes_refl)
next
  case (Cons t ts)
  show ?case
    unfolding advance_floors.simps
  proof (rule goes_read)
    fix hash
    assume hash: "wire_string (vpath items [scope_target (target_scope t), ''hashes'']) ''sha256'' = Inr hash"
    let ?floor = "\<lparr>fl_sequence = tt_release_sequence t, fl_manifest_sha256 = Some hash\<rparr>"
    let ?put = "\<lambda>st. st\<lparr>st_floors := bt_insert (tt_profile t) ?floor (st_floors st)\<rparr>"
    from Cons.prems(1) hash obtain old where "map_of (st_floors (sn_state s)) (tt_profile t) = Some old"
      and "floor_moves old ?floor"
      unfolding floor_ready_def by auto
    then have floors: "entries_move (\<lambda>_. floor_moves) (st_floors (sn_state s))
        (bt_insert (tt_profile t) ?floor (st_floors (sn_state s)))"
      by (intro entries_move_insert) (auto simp: floor_moves_refl)
    have put: "session_goes env s (fst (put_state ?put s))"
      using floors by (intro goes_put)
        (simp add: state_moves_def same_policy_def entries_move_refl role_moves_refl receipts_move_same)
    have rest: "\<forall>u \<in> set ts. floor_ready items (?put (sn_state s)) u"
      using Cons.prems by (auto simp: floor_ready_def image_iff)
    show "session_goes env s (fst (op_bind (put_state ?put) (\<lambda>_. advance_floors items ts) s))"
    proof (rule goes_bind [where m = "put_state ?put", OF put])
      fix u x
      assume "put_state ?put s = (u, Inr x)"
      then have "sn_state u = ?put (sn_state s)" by (auto simp: put_state_def)
      then show "session_goes env u (fst (advance_floors items ts u))"
        using rest Cons.prems(2) by (intro Cons.IH) simp_all
    qed
  qed
qed

lemma advance_floors_keeps:
  "advance_floors items ts s = (t, r) \<Longrightarrow>
     st_roles (sn_state t) = st_roles (sn_state s) \<and> st_roots (sn_state t) = st_roots (sn_state s) \<and>
     st_policy (sn_state t) = st_policy (sn_state s)"
proof (induction ts arbitrary: s)
  case Nil
  then show ?case by simp
next
  case (Cons x ts)
  then show ?case
    by (auto simp: op_bind_def put_state_def split: sum.splits dest!: Cons.IH)
qed

lemma role_floor_roles: "st_roles st = st_roles st' \<Longrightarrow> role_floor env st role v = role_floor env st' role v"
  by (simp add: role_floor_def)

lemma accepted_ready:
  assumes accepted: "accept_targets env st [] items = Inr accepted" and wf: "bt_wf items"
    and t: "t \<in> set (map snd accepted)"
  shows "floor_ready (VObj items) st t"
  unfolding floor_ready_def
proof (intro allI impI)
  fix hash
  assume hash: "wire_string (vpath (VObj items) [scope_target (target_scope t), ''hashes'']) ''sha256'' = Ok hash"
  from t obtain k where "(k, t) \<in> set accepted" by auto
  with accept_targets_result [OF accepted] obtain name entry
    where entry: "(name, entry) \<in> set items" "accept_target env st name entry = Inr t"
    by fastforce
  note floor = accept_target_floor [OF entry(2)]
  have "map_of items (scope_target (target_scope t)) = Some entry"
    using entry(1) floor(1) bt_get_iff [OF wf] by simp
  then have "vpath (VObj items) [scope_target (target_scope t), ''hashes''] = vindex entry ''hashes''"
    by (simp add: vpath_def vindex_def [of "VObj items"])
  with hash floor(2) show "\<exists>floor. map_of (st_floors st) (tt_profile t) = Some floor \<and>
      floor_moves floor \<lparr>fl_sequence = tt_release_sequence t, fl_manifest_sha256 = Some hash\<rparr>"
    by auto
qed

lemma accepted_profiles_distinct:
  assumes "accept_targets env st [] items = Inr accepted"
  shows "distinct (map tt_profile (map snd accepted))"
proof -
  from accept_targets_result [OF assms] have "bt_wf accepted"
    and "\<forall>e \<in> set accepted. fst e = tt_profile (snd e)" by fastforce+
  then have "map tt_profile (map snd accepted) = map fst accepted" by simp
  then show ?thesis using bt_wf_distinct [OF \<open>bt_wf accepted\<close>] by (simp only:)
qed

lemma commit_targets_goes:
  assumes accepted: "accept_targets env (sn_state s) [] items = Inr accepted" and wf: "bt_wf items"
    and floor: "role_floor env (sn_state s) ''targets'' v = Inr u"
    and v: "envelope env bytes ''targets'' = Inr v"
  shows "session_goes env s (fst (op_bind (advance_floors (VObj items) (map snd accepted)) (\<lambda>_.
     op_bind (retain_role env root v bytes ''targets'') (\<lambda>_. op_return accepted)) s))"
proof (rule goes_bind)
  show "session_goes env s (fst (advance_floors (VObj items) (map snd accepted) s))"
    by (rule advance_floors_goes)
       (blast intro: accepted_ready [OF accepted wf], rule accepted_profiles_distinct [OF accepted])
  fix t x
  assume "advance_floors (VObj items) (map snd accepted) s = (t, Inr x)"
  from advance_floors_keeps [OF this] have "role_floor env (sn_state t) ''targets'' v = Inr u"
    using floor by (simp add: role_floor_def)
  then show "session_goes env t (fst (op_bind (retain_role env root v bytes ''targets'')
      (\<lambda>_. op_return accepted) t))"
    by (intro goes_bind retain_role_goes goes_return) (auto simp: v)
qed

lemma import_targets_goes: "session_goes env s (fst (import_targets env dir root now link db s))"
  unfolding import_targets_def
proof (rule goes_read, rule goes_bind, rule read_metadata_goes, intro goes_read)
  fix bytes v u items accepted and t :: session
  assume v: "envelope env bytes ''targets'' = Inr v"
    and floor: "role_floor env (sn_state t) ''targets'' v = Inr u"
    and items: "ok_or (value_object (vpath v [''signed'', ''targets''])) TRUST_FORMAT = Inr items"
    and accepted: "accept_targets env (sn_state t) [] items = Inr accepted"
  have "ordered_value (VObj items)"
    using ordered_vpath [OF envelope_ordered [OF v]] items by (metis ok_or_Inr_iff value_object_iff)
  then have "bt_wf items" by simp
  then show "session_goes env t (fst (op_bind (advance_floors (VObj items) (map snd accepted)) (\<lambda>_.
     op_bind (retain_role env root v bytes ''targets'') (\<lambda>_. op_return accepted)) t))"
    by (rule commit_targets_goes [OF accepted _ floor v])
qed

lemma import_metadata_goes: "session_goes env s (fst (import_metadata env dir root_only s))"
  unfolding import_metadata_def
proof (rule goes_read, rule goes_read, rule goes_read, rule goes_bind [OF import_roots_goes])
  fix now retained u t root
  show "session_goes env t (fst ((if root_only then op_return []
       else
         op_bind (op_of (\<lambda>s. current_root env (sn_state s))) (\<lambda>(_, db).
         op_bind (import_timestamp env dir root now db) (\<lambda>(snapshot_link, db).
         op_bind (import_snapshot env dir root now snapshot_link db) (\<lambda>(targets_link, db).
           import_targets env dir root now targets_link db)))) t))"
    by (auto intro!: goes_return goes_read goes_bind [OF import_timestamp_goes]
        goes_bind [OF import_snapshot_goes] import_targets_goes
        simp del: op_of_simps split: prod.split)
qed

section \<open>Paths of a store\<close>

lemma split_by_append:
  "p c \<Longrightarrow> split_by p (xs @ c # ys) = split_by p xs @ split_by p ys"
  by (induction xs) (auto split: list.split)

lemma path_components_slash: "path_components (a @ ''/'' @ b) = path_components a @ path_components b"
  by (simp add: path_components_def split_by_append)

lemma path_components_join: "path_components (path_join dir name) = path_components dir @ path_components name"
proof (cases "ends_with ''/'' dir")
  case True
  then obtain front where dir: "dir = front @ ''/''"
    by (auto simp: ends_with_def starts_with_iff)
  have "path_components (front @ ''/'' @ name) = path_components front @ path_components name"
    and "path_components (front @ ''/'' @ []) = path_components front @ path_components []"
    by (rule path_components_slash)+
  with True dir show ?thesis by (simp add: path_join_def path_components_def)
next
  case False
  then show ?thesis using path_components_slash [of dir name] by (simp add: path_join_def)
qed

lemma state_path_inside: "inside_store store (state_path store)"
  by (simp add: inside_store_def state_path_def path_components_join)

lemma output_not_state: "\<not> inside_store store output \<Longrightarrow> output \<noteq> state_path store"
  using state_path_inside by metis

lemma receipt_not_state: "receipt_path store key \<noteq> state_path store"
  by (auto simp: receipt_path_def state_path_def path_join_def ends_with_def starts_with_def)

section \<open>Receipts and recovery\<close>

lemma export_receipt_goes: "session_goes env s (fst (export_receipt env e s))"
proof -
  obtain key receipt where e: "e = (key, receipt)" by (cases e)
  have writes: "session_goes env u (u\<lparr>sn_files := files\<rparr>)"
    if w: "write_new sys (sn_files u) (receipt_path (sn_store u) key) bytes = (files, r)"
    for sys bytes files r and u :: session
  proof -
    from w have "files = sn_files u \<or> files = (sn_files u)(receipt_path (sn_store u) key \<mapsto> bytes)"
      by (auto simp: write_new_def split: sum.splits if_splits)
    with w show ?thesis
      using receipt_not_state [of "sn_store u" key]
      by (auto simp: session_goes_def state_moves_refl)
  qed
  show ?thesis
    unfolding export_receipt_def e prod.case
    using writes by (intro goes_read)
      (auto simp: Let_def session_goes_refl split: probe.split prod.split)
qed

lemma export_each_goes: "session_goes env s (fst (export_each env es s))"
proof (induction es arbitrary: s)
  case Nil
  then show ?case by (simp add: session_goes_refl)
next
  case (Cons e es)
  then show ?case by (simp add: goes_bind export_receipt_goes)
qed

lemma export_receipts_goes: "session_goes env s (fst (export_receipts env s))"
  unfolding export_receipts_def by (intro goes_read export_each_goes)

lemma receipt_keyed_complete:
  "receipt_keyed env key (r\<lparr>rc_installation := x\<rparr>) \<longleftrightarrow> receipt_keyed env key r"
  by (simp add: receipt_keyed_def journaled_def)

lemma receipt_keyed_unique:
  assumes "receipts_distinguished env" and "receipt_keyed env key r" and "receipt_keyed env key r'"
    and "rc_installation r = rc_installation r'"
  shows "r = r'"
proof -
  from assms(2,3) obtain b b' where b: "se_receipt_bytes env (journaled r) = Some b"
    "se_receipt_bytes env (journaled r') = Some b'"
    and key: "wire_digest env b = wire_digest env b'"
    and id: "rc_transaction_id r = rc_transaction_id r'"
    unfolding receipt_keyed_def by auto
  from key have "we_sha env b = we_sha env b'"
    unfolding wire_digest_def by (rule hex.enc_inj)
  with assms(1) b have "journaled r = journaled r'"
    unfolding receipts_distinguished_def by blast
  then show ?thesis using id assms(4) unfolding journaled_def by (cases r; cases r') simp
qed

lemma finish_pending_moves:
  assumes "\<And>key r. done = Some (key, r) \<Longrightarrow>
      rc_installation r = ''complete'' \<and> (all_keyed env st \<longrightarrow> receipt_keyed env key r)"
  shows "state_moves env clock st (finish_pending done st)"
proof -
  have "receipts_move env st (finish_pending done st)"
    unfolding receipts_move_def
  proof (intro impI)
    assume dist: "receipts_distinguished env" and keyed: "all_keyed env st"
    show "all_keyed env (finish_pending done st) \<and>
        map_of (st_completed st) \<subseteq>\<^sub>m map_of (st_completed (finish_pending done st))"
    proof (cases "done")
      case None
      with keyed show ?thesis by (simp add: finish_pending_def all_keyed_def)
    next
      case (Some e)
      then obtain key r where e: "done = Some (key, r)" by (cases e) simp
      with assms keyed have new: "rc_installation r = ''complete''" "receipt_keyed env key r"
        by blast+
      have "old = r" if "map_of (st_completed st) key = Some old" for old
      proof (rule receipt_keyed_unique [OF dist _ new(2)])
        show "receipt_keyed env key old" and "rc_installation old = rc_installation r"
          using keyed that new(1) unfolding all_keyed_def by auto
      qed
      with e new keyed show ?thesis
        by (auto simp: finish_pending_def all_keyed_def map_le_def)
    qed
  qed
  then show ?thesis
    by (cases "done") (auto simp: finish_pending_def state_moves_def same_policy_def
        entries_move_refl role_moves_refl floor_moves_refl)
qed

lemma recover_pending_result:
  assumes "recover_pending env s pending = Inr done"
  shows "done = None \<or> (\<exists>key. rc_transaction_id (pn_receipt pending) = Some key \<and>
           done = Some (key, (pn_receipt pending)\<lparr>rc_installation := ''complete''\<rparr>))"
proof -
  from assms obtain path where found: "(case symlink_metadata (se_publish_io env (sn_turn s)) (sn_files s) path of
           ProbeFound \<Rightarrow>
             and_then (checked_path (se_system env (sn_turn s)) path) (\<lambda>_.
             and_then (map_err (\<lambda>_. TRUST_STATE)
               (verify_installed_descriptor (bn_sha (se_bundle env)) (se_publish_io env (sn_turn s))
                  (sn_files s) path (pn_descriptor pending))) (\<lambda>_.
             and_then (require (pb_synced (se_publish_io env (sn_turn s))) TRUST_FILESYSTEM) (\<lambda>_.
             and_then (sync_parent (se_system env (sn_turn s)) path) (\<lambda>_.
             and_then (ok_or (rc_transaction_id (pn_receipt pending)) TRUST_STATE) (\<lambda>key.
               Ok (Some (key, (pn_receipt pending)\<lparr>rc_installation := ''complete''\<rparr>)))))))
         | ProbeMissing \<Rightarrow> Ok None
         | ProbeFailed \<Rightarrow> Err TRUST_STATE) = Inr done"
    unfolding recover_pending_def Let_def and_then_Inr_iff by blast
  then show ?thesis
    by (cases "symlink_metadata (se_publish_io env (sn_turn s)) (sn_files s) path") (auto simp: ok_iff)
qed

lemma session_recover_goes: "session_goes env s (fst (session_recover env s))"
  unfolding session_recover_def
proof (rule goes_bind)
  show "session_goes env s (fst ((case st_pending (sn_state s) of
          None \<Rightarrow> op_return ()
        | Some pending \<Rightarrow>
            op_bind (op_of (\<lambda>s. recover_pending env s pending)) (\<lambda>done.
            op_bind (put_state (finish_pending done)) (\<lambda>_.
              session_save env))) s))"
  proof (cases "st_pending (sn_state s)")
    case None
    then show ?thesis by (simp add: session_goes_refl)
  next
    case (Some pending)
    have "session_goes env s (fst (op_bind (op_of (\<lambda>s. recover_pending env s pending)) (\<lambda>done.
            op_bind (put_state (finish_pending done)) (\<lambda>_. session_save env)) s))"
    proof (rule goes_read, rule goes_bind, rule goes_put, rule finish_pending_moves)
      fix "done" key r
      assume rec: "recover_pending env s pending = Inr done" and "done = Some (key, r)"
      with recover_pending_result [OF rec]
      have r: "r = (pn_receipt pending)\<lparr>rc_installation := ''complete''\<rparr>"
        and key: "rc_transaction_id (pn_receipt pending) = Some key" by auto
      with Some show "rc_installation r = ''complete'' \<and>
          (all_keyed env (sn_state s) \<longrightarrow> receipt_keyed env key r)"
        by (simp add: receipt_keyed_complete all_keyed_def)
    qed (rule session_save_goes)
    with Some show ?thesis by simp
  qed
qed (rule export_receipts_goes)

section \<open>Commands\<close>

lemma session_verify_goes:
  "session_goes env s (fst (session_verify env dir scope manifest payload s))"
  unfolding session_verify_def
  by (rule goes_read, rule goes_read, rule goes_bind [OF import_metadata_goes])
     (auto intro!: goes_read goes_return simp del: op_of_simps split: prod.split)

lemma pending_receipt_keyed:
  assumes "pending_receipt env target parsed output s = Inr receipt"
  shows "rc_installation receipt = ''pending''"
    and "\<exists>key. rc_transaction_id receipt = Some key \<and> receipt_keyed env key receipt"
    and "rc_output receipt = Some output"
proof -
  from assms obtain r0 g bytes where r0: "make_receipt env target parsed s = Inr r0"
    and bytes: "se_receipt_bytes env (r0\<lparr>rc_operation := ''install'', rc_installation := ''pending'',
       rc_output := Some output, rc_reserves_acceptance := True, rc_state_generation := g\<rparr>) = Some bytes"
    and receipt: "receipt = r0\<lparr>rc_operation := ''install'', rc_installation := ''pending'',
       rc_output := Some output, rc_reserves_acceptance := True, rc_state_generation := g,
       rc_transaction_id := Some (wire_digest env bytes)\<rparr>"
    unfolding pending_receipt_def by (auto simp: ok_iff Let_def)
  have "rc_transaction_id r0 = None"
    using r0 unfolding make_receipt_def by (auto simp: ok_iff Let_def)
  then have "journaled receipt = r0\<lparr>rc_operation := ''install'', rc_installation := ''pending'',
       rc_output := Some output, rc_reserves_acceptance := True, rc_state_generation := g\<rparr>"
    unfolding receipt journaled_def by (cases r0) simp
  with bytes show "\<exists>key. rc_transaction_id receipt = Some key \<and> receipt_keyed env key receipt"
    by (simp add: receipt receipt_keyed_def)
  show "rc_installation receipt = ''pending''" "rc_output receipt = Some output"
    by (simp_all add: receipt)
qed

lemma publish_file_goes:
  "\<not> inside_store (sn_store s) output \<Longrightarrow> session_goes env s (fst (publish_file env prepared output s))"
proof -
  assume "\<not> inside_store (sn_store s) output"
  then have "output \<noteq> state_path (sn_store s)" by (rule output_not_state)
  then show ?thesis
    by (auto simp: publish_file_def publish_def session_goes_def state_moves_refl Let_def
        split: sum.split prod.split)
qed

lemma session_goes_store: "session_goes env s t \<Longrightarrow> sn_store t = sn_store s"
  by (simp add: session_goes_def)

lemma commit_install_goes:
  assumes keyed: "rc_transaction_id receipt = Some key" "receipt_keyed env key receipt"
    and outside: "\<not> inside_store (sn_store s) output"
  shows "session_goes env s
    (fst (commit_install env checkpoint prepared descriptor output receipt key s))"
proof -
  have put: "session_goes env t (fst (put_state (\<lambda>st. st\<lparr>st_pending :=
      Some \<lparr>pn_receipt = receipt, pn_descriptor = descriptor\<rparr>\<rparr>) t))" for t
    using keyed by (intro goes_put)
      (simp add: state_moves_def same_policy_def entries_move_refl role_moves_refl floor_moves_refl
        receipts_move_def all_keyed_def)
  have finish: "session_goes env t (fst (put_state (finish_pending
      (Some (key, receipt\<lparr>rc_installation := ''complete''\<rparr>))) t))" for t
    using keyed by (intro goes_put finish_pending_moves) (auto simp: receipt_keyed_complete)
  have tail: "session_goes env t (fst (op_bind (op_of (\<lambda>_. checkpoint ''published'')) (\<lambda>_.
     op_bind (put_state (finish_pending (Some (key, receipt\<lparr>rc_installation := ''complete''\<rparr>)))) (\<lambda>_.
     op_bind (session_save env) (\<lambda>_.
     op_bind (op_of (\<lambda>_. checkpoint ''receipt-durable'')) (\<lambda>_.
     op_bind (export_receipts env) (\<lambda>_.
       op_return (receipt\<lparr>rc_installation := ''complete''\<rparr>)))))) t))" for t
    by (intro goes_read goes_bind [OF finish] goes_bind [OF session_save_goes]
        goes_bind [OF export_receipts_goes] goes_return)
  show ?thesis
    unfolding commit_install_def
  proof (rule goes_bind [OF put])
    fix t x
    assume t: "put_state (\<lambda>st. st\<lparr>st_pending :=
      Some \<lparr>pn_receipt = receipt, pn_descriptor = descriptor\<rparr>\<rparr>) s = (t, Inr x)"
    then have store: "sn_store t = sn_store s" by (auto simp: put_state_def)
    show "session_goes env t (fst (op_bind (session_save env) (\<lambda>_.
       op_bind (op_of (\<lambda>_. checkpoint ''pending-durable'')) (\<lambda>_.
       op_bind (op_of (\<lambda>s. check_identity (se_system env (sn_turn s)) 3 (sn_store s))) (\<lambda>_.
       op_bind (publish_file env prepared output) (\<lambda>_.
       op_bind (op_of (\<lambda>_. checkpoint ''published'')) (\<lambda>_.
       op_bind (put_state (finish_pending (Some (key, receipt\<lparr>rc_installation := ''complete''\<rparr>)))) (\<lambda>_.
       op_bind (session_save env) (\<lambda>_.
       op_bind (op_of (\<lambda>_. checkpoint ''receipt-durable'')) (\<lambda>_.
       op_bind (export_receipts env) (\<lambda>_.
         op_return (receipt\<lparr>rc_installation := ''complete''\<rparr>)))))))))) t))"
    proof (rule goes_bind [OF session_save_goes], intro goes_read)
      fix u y
      assume "session_save env t = (u, Inr y)"
      with session_save_goes [of env t] have "sn_store u = sn_store s"
        using store session_goes_store by fastforce
      then show "session_goes env u (fst (op_bind (publish_file env prepared output) (\<lambda>_.
       op_bind (op_of (\<lambda>_. checkpoint ''published'')) (\<lambda>_.
       op_bind (put_state (finish_pending (Some (key, receipt\<lparr>rc_installation := ''complete''\<rparr>)))) (\<lambda>_.
       op_bind (session_save env) (\<lambda>_.
       op_bind (op_of (\<lambda>_. checkpoint ''receipt-durable'')) (\<lambda>_.
       op_bind (export_receipts env) (\<lambda>_.
         op_return (receipt\<lparr>rc_installation := ''complete''\<rparr>))))))) u))"
        using outside by (intro goes_bind tail publish_file_goes) simp_all
    qed
  qed
qed

lemma session_install_goes:
  "session_goes env s (fst (session_install env checkpoint dir scope manifest payload output s))"
  unfolding session_install_def
proof (rule goes_read, rule goes_read, rule goes_read)
  fix u
  assume "check_output env output s = Inr u"
  then have outside: "\<not> inside_store (sn_store s) output"
    by (auto simp: check_output_def ok_iff)
  show "session_goes env s (fst (op_bind (import_metadata env dir False) (\<lambda>targets.
     op_bind (op_of (authenticate env scope manifest targets)) (\<lambda>(parsed, target, policy).
     op_bind (op_of (\<lambda>s. checked_path (se_system env (sn_turn s)) payload)) (\<lambda>_.
     op_bind (op_of (\<lambda>s. open_regular (se_system env (sn_turn s)) payload)) (\<lambda>_.
     op_bind (op_of (\<lambda>s. bundle_result (prepare_trusted_install (se_bundle env)
        (se_publish_io env (sn_turn s)) (sn_files s) (se_private_temp env (sn_turn s))
        (se_opened env (sn_turn s) payload) parsed output policy))) (\<lambda>prepared.
     op_bind (op_of (\<lambda>_. checkpoint ''verified'')) (\<lambda>_.
     op_bind (op_of (pending_receipt env target parsed output)) (\<lambda>receipt.
     op_bind (op_of (reserve_completion env receipt)) (\<lambda>key.
       commit_install env checkpoint prepared (bm_payload (pm_manifest parsed)) output receipt key)))))))) s))"
  proof (rule goes_bind [OF import_metadata_goes], rule goes_read)
    fix t :: session and targets x
    assume "import_metadata env dir False s = (t, Inr targets)"
    then have "sn_store t = sn_store s"
      using import_metadata_goes [of env s dir False] session_goes_store by fastforce
    with outside have out: "\<not> inside_store (sn_store t) output" by simp
    show "session_goes env t (fst ((case x of (parsed, target, policy) \<Rightarrow>
     op_bind (op_of (\<lambda>s. checked_path (se_system env (sn_turn s)) payload)) (\<lambda>_.
     op_bind (op_of (\<lambda>s. open_regular (se_system env (sn_turn s)) payload)) (\<lambda>_.
     op_bind (op_of (\<lambda>s. bundle_result (prepare_trusted_install (se_bundle env)
        (se_publish_io env (sn_turn s)) (sn_files s) (se_private_temp env (sn_turn s))
        (se_opened env (sn_turn s) payload) parsed output policy))) (\<lambda>prepared.
     op_bind (op_of (\<lambda>_. checkpoint ''verified'')) (\<lambda>_.
     op_bind (op_of (pending_receipt env target parsed output)) (\<lambda>receipt.
     op_bind (op_of (reserve_completion env receipt)) (\<lambda>key.
       commit_install env checkpoint prepared (bm_payload (pm_manifest parsed)) output receipt key))))))) t))"
    proof (cases x)
      case (fields parsed target policy)
      show ?thesis
        unfolding fields prod.case
      proof (intro goes_read)
        fix prepared receipt key
        assume receipt: "pending_receipt env target parsed output t = Inr receipt"
          and "reserve_completion env receipt t = Inr key"
        then have "rc_transaction_id receipt = Some key"
          by (auto simp: reserve_completion_def ok_iff)
        with pending_receipt_keyed(2) [OF receipt] out
        show "session_goes env t (fst (commit_install env checkpoint prepared
            (bm_payload (pm_manifest parsed)) output receipt key t))"
          by (intro commit_install_goes) auto
      qed
    qed
  qed
qed

lemma session_import_goes: "session_goes env s (fst (session_import env dir publisher root_only s))"
proof -
  have tail: "session_goes env s (fst (op_bind (op_of (\<lambda>s. current_root env (sn_state s)))
      (\<lambda>(after, _). op_of (f after)) s))" for s and f :: "jvalue \<Rightarrow> session \<Rightarrow> trust_code + import_report"
    by (intro goes_read) (auto intro: goes_return simp del: op_of_simps split: prod.split)
  show ?thesis
    unfolding session_import_def
    by (intro goes_read) (auto intro!: goes_read goes_bind [OF import_metadata_goes]
        goes_bind [OF session_save_goes] tail simp del: op_of_simps split: prod.split)
qed

lemma inspect_chain_goes: "session_goes env s (fst (inspect_chain env dir s))"
  unfolding inspect_chain_def
  by (intro goes_read goes_bind [OF read_metadata_goes] goes_return)

lemma session_inspect_goes:
  "session_goes env s (fst (session_inspect env dir scope manifest payload s))"
proof -
  obtain s1 r where v: "session_verify env dir scope manifest payload s = (s1, r)" by fastforce
  then have s1: "session_goes env s s1"
    using session_verify_goes [of env s dir scope manifest payload] by simp
  obtain s2 chain where c: "inspect_chain env dir s1 = (s2, chain)" by fastforce
  then have s2: "session_goes env s1 s2" using inspect_chain_goes [of env s1 dir] by simp
  have "session_goes env s (fst (op_bind (op_of (\<lambda>s. current_root env (sn_state s))) (\<lambda>(root, db) t.
      (case inspect_chain env dir t of
         (s2, chain) \<Rightarrow> (s2, Ok (inspection_of env root db chain r)))) s1))"
    by (rule session_goes_trans [OF s1], rule goes_read) (simp add: c s2 split: prod.split)
  then show ?thesis
    unfolding session_inspect_def by (intro goes_read) (simp add: v)
qed

end
