(* ===== verification/TrustHistory.thy ===== *)
theory TrustHistory
  imports TrustMoves
begin

text \<open>
  The life of a trust store: any sequence of sessions, each with its own clock and any calls, that
  succeed, fail or stop at any point where the state is replaced or a file written, and of
  changes by others to every file outside the store. What its state file says only moves forward.
\<close>

section \<open>The machine\<close>

datatype session_call =
  CallImport string string bool
| CallInstall "string \<Rightarrow> trust_code + unit" string trust_scope string string string
| CallVerify string trust_scope string string
| CallInspect string trust_scope string string

fun run_call :: "('db, 'z) session_env_scheme \<Rightarrow> session_call \<Rightarrow> session \<Rightarrow> session" where
  "run_call env (CallImport dir publisher root_only) s = fst (session_import env dir publisher root_only s)"
| "run_call env (CallInstall checkpoint dir scope manifest payload output) s =
     fst (session_install env checkpoint dir scope manifest payload output s)"
| "run_call env (CallVerify dir scope manifest payload) s =
     fst (session_verify env dir scope manifest payload s)"
| "run_call env (CallInspect dir scope manifest payload) s =
     fst (session_inspect env dir scope manifest payload s)"

definition run_calls :: "('db, 'z) session_env_scheme \<Rightarrow> session_call list \<Rightarrow> session \<Rightarrow> session" where
  "run_calls env calls s = foldl (\<lambda>t c. run_call env c t) s calls"

text \<open>
  A session may go on after a call failed. \<open>OutsideChange\<close> is anything that happens to files that
  are not in the store.
\<close>

datatype store_command =
  SessionCommand nat trust_clock bool "session_call list"
| OutsideChange "string \<Rightarrow> string option"

fun run_command ::
  "('db, 'z) session_env_scheme \<Rightarrow> string \<Rightarrow> file_map \<Rightarrow> store_command \<Rightarrow> file_map" where
  "run_command env store files (SessionCommand turn clock mutating calls) =
     (case session_open env turn files store clock mutating of
        (files', Inl _) \<Rightarrow> files'
      | (files', Inr s) \<Rightarrow> sn_files (run_calls env calls s))"
| "run_command env store files (OutsideChange g) =
     (\<lambda>path. if inside_store store path then files path else g path)"

definition run_commands ::
  "('db, 'z) session_env_scheme \<Rightarrow> string \<Rightarrow> store_command list \<Rightarrow> file_map \<Rightarrow> file_map" where
  "run_commands env store cmds files = foldl (run_command env store) files cmds"

text \<open>The state that the state file holds, as a session would load it.\<close>

definition stored :: "('db, 'z) session_env_scheme \<Rightarrow> string \<Rightarrow> file_map \<Rightarrow> trust_state \<Rightarrow> bool" where
  "stored env store files st \<longleftrightarrow>
     (\<exists>raw. files (state_path store) = Some raw \<and> read_state env raw = Ok st)"

text \<open>
  What the code relies on of \<open>serde_json\<close>: a state that was written is the state that is read,
  if the text is accepted at all.
\<close>

definition state_codec :: "('db, 'z) session_env_scheme \<Rightarrow> bool" where
  "state_codec env \<longleftrightarrow>
     (\<forall>u b w. se_state_bytes env u = Some b \<longrightarrow> read_state env b = Ok w \<longrightarrow> w = u)"

section \<open>Runs go forward\<close>

text \<open>The order of states without the clock of a session: the retained time does not go back.\<close>

definition state_forward :: "('db, 'z) session_env_scheme \<Rightarrow> trust_state \<Rightarrow> trust_state \<Rightarrow> bool" where
  "state_forward env s t \<longleftrightarrow>
     same_policy s t \<and> lineage_moves env s t \<and>
     entries_move (role_moves env) (st_roles s) (st_roles t) \<and>
     entries_move (\<lambda>_. floor_moves) (st_floors s) (st_floors t) \<and>
     st_generation s \<le> st_generation t \<and>
     (\<forall>a. parse_time env (st_maximum_verification_time s) = Ok a \<longrightarrow>
        (\<exists>b. parse_time env (st_maximum_verification_time t) = Ok b \<and> a \<le> b)) \<and>
     receipts_move env s t"

lemma state_forward_refl: "state_forward env s s"
  by (simp add: state_forward_def same_policy_def entries_move_refl role_moves_refl floor_moves_refl
      receipts_move_refl)

lemma state_forward_trans:
  assumes "state_forward env s t" and "state_forward env t u"
  shows "state_forward env s u"
proof -
  have "entries_move (role_moves env) (st_roles s) (st_roles u)"
    using assms unfolding state_forward_def by (blast intro: entries_move_trans role_moves_trans)
  moreover have "entries_move (\<lambda>_. floor_moves) (st_floors s) (st_floors u)"
    using assms unfolding state_forward_def
    by (blast intro: entries_move_trans [of "\<lambda>_. floor_moves"] floor_moves_trans)
  moreover have "receipts_move env s u"
    using assms unfolding state_forward_def by (blast intro: receipts_move_trans)
  moreover have "lineage_moves env s u"
    using assms unfolding state_forward_def by (blast intro: lineage_moves_trans)
  moreover have "\<exists>b. parse_time env (st_maximum_verification_time u) = Ok b \<and> a \<le> b"
    if "parse_time env (st_maximum_verification_time s) = Ok a" for a
    using assms that unfolding state_forward_def by (meson le_trans order_trans)
  ultimately show ?thesis using assms unfolding state_forward_def same_policy_def by auto
qed

lemma run_call_goes: "session_goes env s (run_call env c s)"
  by (cases c) (simp_all add: session_import_goes session_install_goes session_verify_goes
      session_inspect_goes)

lemma run_calls_goes: "session_goes env s (run_calls env calls s)"
proof (induction calls arbitrary: s)
  case Nil
  then show ?case by (simp add: run_calls_def session_goes_refl)
next
  case (Cons c calls)
  from session_goes_trans [OF run_call_goes Cons.IH] show ?case by (simp add: run_calls_def)
qed

lemma storage_read_content:
  "storage_read sys files path limit = Inr bytes \<Longrightarrow> files path = Some bytes"
  unfolding storage_read_def by (auto simp: ok_iff Let_def min_def split: if_splits)

lemma open_snapshot_result:
  assumes "open_snapshot env turn files store clock mutating = Inr s"
  shows "stored env store files (sn_state s)" and "sn_files s = files" and "sn_store s = store"
    and "sn_clock s = clock" and "sn_mutating s = mutating"
    and "\<exists>now retained. parse_time env (session_time s) = Inr now \<and>
      parse_time env (st_maximum_verification_time (sn_state s)) = Inr retained \<and> retained \<le> now"
proof -
  from assms obtain st now retained where load: "load_state env turn files store = Inr st"
    and time: "parse_time env (tc_verification_time clock) = Inr now"
      "parse_time env (st_maximum_verification_time st) = Inr retained" "retained \<le> now"
    and s: "s = \<lparr>sn_store = store, sn_state = st, sn_clock = clock, sn_mutating = mutating,
      sn_total = 0, sn_turn = turn, sn_files = files\<rparr>"
    unfolding open_snapshot_def by (auto simp: ok_iff)
  from load have "stored env store files st"
    unfolding load_state_def stored_def by (auto simp: ok_iff dest: storage_read_content)
  with time s show "stored env store files (sn_state s)" and "sn_files s = files"
    and "sn_store s = store" and "sn_clock s = clock" and "sn_mutating s = mutating"
    and "\<exists>now retained. parse_time env (session_time s) = Inr now \<and>
      parse_time env (st_maximum_verification_time (sn_state s)) = Inr retained \<and> retained \<le> now"
    by (auto simp: session_time_def)
qed

text \<open>Whatever a session does, it ends in a session that its snapshot goes to.\<close>

lemma session_command_goes:
  assumes "open_snapshot env turn files store clock mutating = Inr s"
  shows "\<exists>t. session_goes env s t \<and>
     run_command env store files (SessionCommand turn clock mutating calls) = sn_files t"
proof (cases mutating)
  case False
  with assms show ?thesis by (auto simp: session_open_def intro: run_calls_goes)
next
  case True
  obtain t r where rec: "session_recover env s = (t, r)" by fastforce
  then have t: "session_goes env s t" using session_recover_goes [of env s] by simp
  show ?thesis
  proof (cases r)
    case (Inl e)
    with assms True rec t show ?thesis by (auto simp: session_open_def)
  next
    case (Inr u)
    with assms True rec session_goes_trans [OF t run_calls_goes] show ?thesis
      by (auto simp: session_open_def)
  qed
qed

text \<open>What the state file may hold when \<open>s\<close> was there at the start.\<close>

definition file_after ::
  "('db, 'z) session_env_scheme \<Rightarrow> string option \<Rightarrow> trust_state \<Rightarrow> string option \<Rightarrow> bool" where
  "file_after env start s content \<longleftrightarrow>
     content = start \<or>
     (\<exists>u bytes. content = Some bytes \<and> se_state_bytes env u = Some bytes \<and> state_forward env s u \<and>
        st_generation s < st_generation u)"

lemma file_between_after:
  assumes "file_between env clock s t content"
    and "parse_time env clock = Inr now" and "parse_time env (st_maximum_verification_time s) = Inr old"
    and "old \<le> now"
  shows "\<exists>u bytes. content = Some bytes \<and> se_state_bytes env u = Some bytes \<and> state_forward env s u \<and>
     st_generation s < st_generation u"
proof -
  from assms(1) obtain u bytes where u: "content = Some bytes" "encode_state env u = Inr bytes"
    "state_moves env clock s u" "st_generation s < st_generation u"
    "st_maximum_verification_time u = clock"
    unfolding file_between_def by blast
  from u(2) have "se_state_bytes env u = Some bytes"
    unfolding encode_state_def by (auto simp: ok_iff)
  moreover have "state_forward env s u"
    using u(3,5) assms(2-4) unfolding state_moves_def state_forward_def by auto
  ultimately show ?thesis using u by blast
qed

lemma run_command_after:
  assumes codec: "state_codec env" and read: "read_state env raw = Inr s"
    and after: "file_after env (Some raw) s (files (state_path store))"
  shows "file_after env (Some raw) s (run_command env store files cmd (state_path store))"
proof (cases cmd)
  case (OutsideChange g)
  with after state_path_inside show ?thesis by simp
next
  case (SessionCommand turn clock mutating calls)
  show ?thesis
  proof (cases "open_snapshot env turn files store clock mutating")
    case (Inl e)
    with SessionCommand after show ?thesis by (simp add: session_open_def)
  next
    case (Inr s0)
    note opened = open_snapshot_result [OF Inr]
    from session_command_goes [OF Inr, of calls] obtain t where t: "session_goes env s0 t"
      and run: "run_command env store files cmd = sn_files t" using SessionCommand by blast
    have forward: "state_forward env s (sn_state s0)"
    proof (cases "files (state_path store) = Some raw")
      case True
      with opened(1) read have "sn_state s0 = s" by (auto simp: stored_def)
      then show ?thesis by (simp add: state_forward_refl)
    next
      case False
      with after obtain u bytes where "files (state_path store) = Some bytes"
        "se_state_bytes env u = Some bytes" "state_forward env s u"
        unfolding file_after_def by blast
      moreover from this opened(1) codec have "sn_state s0 = u"
        unfolding stored_def state_codec_def by auto
      ultimately show ?thesis by simp
    qed
    from t opened(2,3) have "sn_files t (state_path store) = files (state_path store) \<or>
        file_between env (session_time s0) (sn_state s0) (sn_state t) (sn_files t (state_path store))"
      unfolding session_goes_def by auto
    then show ?thesis
    proof
      assume "sn_files t (state_path store) = files (state_path store)"
      with run after show ?thesis by simp
    next
      assume between: "file_between env (session_time s0) (sn_state s0) (sn_state t)
        (sn_files t (state_path store))"
      from opened(6) obtain now old where "parse_time env (session_time s0) = Inr now"
        "parse_time env (st_maximum_verification_time (sn_state s0)) = Inr old" "old \<le> now" by blast
      from file_between_after [OF between this] obtain u bytes
        where u: "sn_files t (state_path store) = Some bytes" "se_state_bytes env u = Some bytes"
          "state_forward env (sn_state s0) u" "st_generation (sn_state s0) < st_generation u" by blast
      from forward have "st_generation s \<le> st_generation (sn_state s0)" by (simp add: state_forward_def)
      with u state_forward_trans [OF forward u(3)] run show ?thesis
        unfolding file_after_def by fastforce
    qed
  qed
qed

lemma run_commands_after:
  assumes codec: "state_codec env" and start: "files (state_path store) = Some raw"
    and read: "read_state env raw = Inr s"
  shows "file_after env (Some raw) s (run_commands env store cmds files (state_path store))"
proof -
  have "file_after env (Some raw) s (g (state_path store)) \<Longrightarrow>
      file_after env (Some raw) s (run_commands env store cmds g (state_path store))" for g
  proof (induction cmds arbitrary: g)
    case Nil
    then show ?case by (simp add: run_commands_def)
  next
    case (Cons c cmds)
    from run_command_after [where files = g and store = store, OF codec read Cons.prems, of c]
    show ?case using Cons.IH by (simp add: run_commands_def)
  qed
  with start show ?thesis by (simp add: file_after_def)
qed

lemma stored_forward:
  assumes "state_codec env" and "stored env store files s"
    and "stored env store (run_commands env store cmds files) t"
  shows "state_forward env s t" and "t = s \<or> st_generation s < st_generation t"
proof -
  from assms(2) obtain raw where raw: "files (state_path store) = Some raw" "read_state env raw = Inr s"
    unfolding stored_def by blast
  from assms(3) obtain raw' where raw': "run_commands env store cmds files (state_path store) = Some raw'"
    "read_state env raw' = Inr t" unfolding stored_def by blast
  from run_commands_after [where files = files and store = store, OF assms(1) raw, of cmds] raw'
  have "raw' = raw \<or> (\<exists>u. se_state_bytes env u = Some raw' \<and> state_forward env s u \<and>
      st_generation s < st_generation u)"
    unfolding file_after_def by auto
  then have "state_forward env s t \<and> (t = s \<or> st_generation s < st_generation t)"
  proof
    assume "raw' = raw"
    with raw raw' show ?thesis by (simp add: state_forward_refl)
  next
    assume "\<exists>u. se_state_bytes env u = Some raw' \<and> state_forward env s u \<and> st_generation s < st_generation u"
    with raw'(2) assms(1) show ?thesis unfolding state_codec_def by blast
  qed
  then show "state_forward env s t" and "t = s \<or> st_generation s < st_generation t" by simp_all
qed

section \<open>Rollback and receipts\<close>

text \<open>
  C3. Whatever commands run on a trust store, with whatever failures, its stored state never goes
  back: the enrolled policy stays, the lineage of roots only grows, the generation and the
  retained time do not decrease, every role keeps a version that is not smaller (with the same
  signed content when it is equal, and naming a child that is not older), and every floor keeps a
  sequence that is not smaller (with the same manifest when it is equal). A state of the same
  generation is the same state.
\<close>

theorem trust_state_never_goes_back:
  assumes "state_codec env" and "stored env store files s"
    and "stored env store (run_commands env store cmds files) t"
  shows "st_policy t = st_policy s \<and> prefix (st_roots s) (st_roots t) \<and>
    st_generation s \<le> st_generation t \<and> (st_generation t = st_generation s \<longrightarrow> t = s) \<and>
    (\<forall>a. parse_time env (st_maximum_verification_time s) = Ok a \<longrightarrow>
       (\<exists>b. parse_time env (st_maximum_verification_time t) = Ok b \<and> a \<le> b)) \<and>
    (\<forall>role old. map_of (st_roles s) role = Some old \<longrightarrow>
       (\<exists>new. map_of (st_roles t) role = Some new \<and> role_moves env role old new)) \<and>
    (\<forall>profile old. map_of (st_floors s) profile = Some old \<longrightarrow>
       (\<exists>new. map_of (st_floors t) profile = Some new \<and> floor_moves old new))"
  using stored_forward [OF assms]
  unfolding state_forward_def same_policy_def lineage_moves_def entries_move_def by auto

text \<open>
  C13. The receipt of a completed installation is final: while digests of receipt texts identify
  receipts, and receipts are stored under their own digests, every later state of the store has
  every completed receipt of an earlier one, unchanged.
\<close>

theorem completed_receipts_final:
  assumes "state_codec env" and "receipts_distinguished env"
    and "stored env store files s" and "all_keyed env s"
    and "stored env store (run_commands env store cmds files) t"
    and "map_of (st_completed s) key = Some receipt"
  shows "map_of (st_completed t) key = Some receipt \<and> all_keyed env t"
  using stored_forward(1) [OF assms(1,3,5)] assms(2,4,6)
  unfolding state_forward_def receipts_move_def map_le_def by (metis domI)

section \<open>The lineage of roots\<close>

text \<open>A next root: it passes the local profile, and the quorums of its predecessor and of itself signed it.\<close>

definition root_step :: "('z) wire_env_scheme \<Rightarrow> string \<Rightarrow> string \<Rightarrow> bool" where
  "root_step env old new \<longleftrightarrow>
     (\<exists>a b ids ids'. envelope env old ''root'' = Ok a \<and> envelope env new ''root'' = Ok b \<and>
        root_profile env b = Ok () \<and> quorum env a b ''root'' ids \<and> quorum env b b ''root'' ids')"

lemma root_chain_steps:
  "root_chain env root db rest = Inr x \<Longrightarrow> envelope env raw ''root'' = Inr root \<Longrightarrow>
     \<forall>i. i + 1 < length (raw # rest) \<longrightarrow> root_step env ((raw # rest) ! i) ((raw # rest) ! (i + 1))"
proof (induction rest arbitrary: raw root db)
  case Nil
  then show ?case by simp
next
  case (Cons bytes rest)
  from Cons.prems(1) obtain v db1 ids ids' where v: "envelope env bytes ''root'' = Inr v"
    and "root_profile env v = Inr ()" "strict_signers env root v ''root'' = Inr ids"
      "strict_signers env v v ''root'' = Inr ids'"
    and rest: "root_chain env v db1 rest = Inr x"
    by (auto simp: ok_iff)
  then have "root_step env raw bytes"
    using Cons.prems(2) envelope_quorum [OF v] unfolding root_step_def by blast
  with Cons.IH [OF rest v] show ?case by (auto simp: nth_Cons split: nat.split)
qed

lemma checked_roots:
  assumes "read_state env raw = Inr st"
  shows "st_roots st \<noteq> []"
    and "wire_digest env (hd (st_roots st)) = tp_initial_root_sha256 (st_policy st)"
    and "root_version env (hd (st_roots st)) = Some (tp_minimum_root_version (st_policy st))"
    and "i + 1 < length (st_roots st) \<Longrightarrow> root_step env (st_roots st ! i) (st_roots st ! (i + 1))"
proof -
  from assms have "check_state env st = Inr ()"
    unfolding read_state_def by (auto simp: ok_iff)
  then obtain x where "current_root env st = Inr x"
    unfolding check_state_def by (auto simp: ok_iff)
  then obtain initial rest root db where roots: "st_roots st = initial # rest"
    and first: "initial_root env (st_policy st) initial = Inr (root, db)"
    and chain: "root_chain env root db rest = Inr x"
    unfolding current_root_def by (auto simp: ok_iff split: list.splits)
  from first have initial: "wire_digest env initial = tp_initial_root_sha256 (st_policy st)"
    "envelope env initial ''root'' = Inr root"
    "wire_number (vindex root ''signed'') ''version'' U32_MAX = Inr (tp_minimum_root_version (st_policy st))"
    unfolding initial_root_def by (auto simp: ok_iff)
  show "st_roots st \<noteq> []" and "wire_digest env (hd (st_roots st)) = tp_initial_root_sha256 (st_policy st)"
    using roots initial(1) by simp_all
  show "root_version env (hd (st_roots st)) = Some (tp_minimum_root_version (st_policy st))"
    using roots root_versionI [OF initial(2,3)] by simp
  show "i + 1 < length (st_roots st) \<Longrightarrow> root_step env (st_roots st ! i) (st_roots st ! (i + 1))"
    using root_chain_steps [OF chain initial(2)] roots by simp
qed

text \<open>What enrollment leaves in the state file.\<close>

lemma initialize_stores:
  assumes "trust_initialize env sys files store root_path policy = (files', Inr st)"
  shows "st_roots st \<noteq> [] \<and> length (st_roots st) = 1 \<and> st_policy st = policy"
    and "\<exists>bytes. files' (state_path store) = Some bytes \<and> se_state_bytes env st = Some bytes"
    and "st_completed st = [] \<and> st_pending st = None"
proof -
  from assms obtain raw where initial: "initial_state env raw policy = Inr st"
    and writes: "(case write_store sys files store (se_state_bytes env st) of
        (files', r) \<Rightarrow> (files', and_then r (\<lambda>_. Ok st))) = (files', Inr st)"
    unfolding trust_initialize_def
    by (auto simp: ok_iff split: sum.splits prod.splits)
  from initial show "st_roots st \<noteq> [] \<and> length (st_roots st) = 1 \<and> st_policy st = policy"
    and "st_completed st = [] \<and> st_pending st = None"
    unfolding initial_state_def by (auto simp: ok_iff Let_def)
  from writes have "write_store sys files store (se_state_bytes env st) = (files', Inr ())"
    by (auto simp: ok_iff split: prod.splits)
  then show "\<exists>bytes. files' (state_path store) = Some bytes \<and> se_state_bytes env st = Some bytes"
    unfolding write_store_def
    by (auto simp: write_new_def split: sum.splits prod.splits option.splits if_splits)
qed

lemma single_root_consecutive:
  assumes "read_state env raw = Inr st" and "length (st_roots st) = 1"
  shows "consecutive env (st_roots st)"
proof -
  from checked_roots(3) [OF assms(1)] assms(2)
  have "root_version env (st_roots st ! 0) = Some (tp_minimum_root_version (st_policy st))"
    by (cases "st_roots st") auto
  with assms(2) checked_roots(1) [OF assms(1)] show ?thesis unfolding consecutive_def by auto
qed

lemma consecutive_from_first:
  assumes "consecutive env roots" and "root_version env (hd roots) = Some first" and "i < length roots"
  shows "root_version env (roots ! i) = Some (first + i)"
proof -
  from assms(1) obtain k where "\<forall>i < length roots. root_version env (roots ! i) = Some (k + i)"
    and "roots \<noteq> []" unfolding consecutive_def by blast
  moreover from this assms(2) have "k = first" by (metis add_0_right hd_conv_nth length_greater_0_conv option.inject)
  ultimately show ?thesis using assms(3) by simp
qed

text \<open>No session opens on a state file that does not load, so nothing changes it any more.\<close>

lemma unreadable_stays:
  assumes "read_state env bytes = Inl e" and "files (state_path store) = Some bytes"
  shows "run_commands env store cmds files (state_path store) = Some bytes"
  using assms(2)
proof (induction cmds arbitrary: files)
  case Nil
  then show ?case by (simp add: run_commands_def)
next
  case (Cons c cmds)
  have "run_command env store files c (state_path store) = Some bytes"
  proof (cases c)
    case (OutsideChange h)
    with Cons.prems state_path_inside show ?thesis by simp
  next
    case (SessionCommand turn clock mutating calls)
    have "open_snapshot env turn files store clock mutating \<noteq> Inr s" for s
      using open_snapshot_result(1) [of env turn files store clock mutating s] Cons.prems assms(1)
      by (auto simp: stored_def)
    then obtain e where "open_snapshot env turn files store clock mutating = Inl e"
      by (cases "open_snapshot env turn files store clock mutating") auto
    with SessionCommand Cons.prems show ?thesis by (simp add: session_open_def)
  qed
  from Cons.IH [where files = "run_command env store files c", OF this] show ?case
    by (simp add: run_commands_def)
qed

text \<open>
  C12. After an enrollment, every state that the store ever holds has a lineage of roots that starts
  with the root of the enrolled digest at the enrolled version, whose versions follow each other
  without a gap, and in which every root was signed by a quorum of its predecessor's keys and by
  a quorum of its own.
\<close>

theorem root_lineage:
  assumes "state_codec env"
    and enrolled: "trust_initialize env sys files store root_path policy = (files', Ok st)"
    and stored: "stored env store (run_commands env store cmds files') t"
  shows "st_roots t \<noteq> [] \<and> wire_digest env (hd (st_roots t)) = tp_initial_root_sha256 policy \<and>
    (\<forall>i < length (st_roots t).
       root_version env (st_roots t ! i) = Some (tp_minimum_root_version policy + i)) \<and>
    (\<forall>i. i + 1 < length (st_roots t) \<longrightarrow> root_step env (st_roots t ! i) (st_roots t ! (i + 1)))"
proof -
  note first = initialize_stores [OF enrolled]
  from first(2) obtain bytes where bytes: "files' (state_path store) = Some bytes"
    "se_state_bytes env st = Some bytes" by blast
  from stored obtain raw where raw: "read_state env raw = Inr t" unfolding stored_def by blast
  show ?thesis
  proof (cases "read_state env bytes")
    case (Inr w)
    with bytes assms(1) have "w = st" unfolding state_codec_def by blast
    with Inr have read: "read_state env bytes = Inr st" by simp
    with bytes have "stored env store files' st" unfolding stored_def by blast
    from stored_forward(1) [OF assms(1) this stored] have "state_forward env st t" .
    then have policy: "st_policy t = policy" and "consecutive env (st_roots t)"
      using single_root_consecutive [OF read] first(1)
      unfolding state_forward_def same_policy_def lineage_moves_def by auto
    then show ?thesis
      using checked_roots [OF raw] consecutive_from_first by metis
  next
    case (Inl e)
    from stored unreadable_stays [where files = files', OF Inl bytes(1)] Inl show ?thesis by (auto simp: stored_def)
  qed
qed

end
