(* ===== verification/TrustAcceptance.thy ===== *)
theory TrustAcceptance
  imports TrustHistory
begin

text \<open>
  What an accepted import, a completed installation, a recovery and a session that does not
  mutate guarantee.
\<close>

section \<open>What the steps leave unchanged\<close>

lemma session_save_parts:
  assumes "session_save env s = (t, r)"
  shows "st_roles (sn_state t) = st_roles (sn_state s) \<and> st_roots (sn_state t) = st_roots (sn_state s) \<and>
    st_floors (sn_state t) = st_floors (sn_state s) \<and> st_policy (sn_state t) = st_policy (sn_state s) \<and>
    st_pending (sn_state t) = st_pending (sn_state s) \<and>
    st_completed (sn_state t) = st_completed (sn_state s) \<and>
    st_policy_sha256 (sn_state t) = st_policy_sha256 (sn_state s) \<and>
    sn_clock t = sn_clock s \<and> sn_store t = sn_store s \<and> sn_mutating t = sn_mutating s"
  using assms
  by (auto simp: session_save_def op_bind_def put_state_def replace_file_def
      split: if_splits sum.splits prod.splits)

lemma current_root_cong:
  "st_roots st = st_roots st' \<Longrightarrow> st_policy st = st_policy st' \<Longrightarrow> current_root env st = current_root env st'"
  unfolding current_root_def by (simp split: list.split)

lemma retain_role_result:
  assumes "retain_role env root v bytes role s = (t, Inr u)"
  shows "\<exists>ev. evidence env root v bytes role = Inr ev \<and>
    st_roles (sn_state t) = bt_insert role \<lparr>rr_raw = bytes, rr_evidence = ev\<rparr> (st_roles (sn_state s))"
    and "st_roots (sn_state t) = st_roots (sn_state s)" and "st_policy (sn_state t) = st_policy (sn_state s)"
    and "st_floors (sn_state t) = st_floors (sn_state s)" and "sn_clock t = sn_clock s"
    and "sn_mutating t = sn_mutating s" and "sn_store t = sn_store s"
proof -
  from assms obtain ev where ev: "evidence env root v bytes role = Inr ev"
    and save: "session_save env (s\<lparr>sn_state := (sn_state s)\<lparr>st_roles :=
      bt_insert role \<lparr>rr_raw = bytes, rr_evidence = ev\<rparr> (st_roles (sn_state s))\<rparr>\<rparr>) = (t, Inr u)"
    unfolding retain_role_def by (auto simp: op_bind_Inr_iff put_state_def)
  note parts = session_save_parts [OF save]
  from parts ev show "\<exists>ev. evidence env root v bytes role = Inr ev \<and>
    st_roles (sn_state t) = bt_insert role \<lparr>rr_raw = bytes, rr_evidence = ev\<rparr> (st_roles (sn_state s))"
    by auto
  from parts show "st_roots (sn_state t) = st_roots (sn_state s)" "st_policy (sn_state t) = st_policy (sn_state s)"
    "st_floors (sn_state t) = st_floors (sn_state s)" "sn_clock t = sn_clock s"
    "sn_mutating t = sn_mutating s" "sn_store t = sn_store s" by simp_all
qed

section \<open>Accepted roles\<close>

text \<open>
  A retained role that was accepted now: it parses, a quorum of the root signed it, and it has
  not expired and does not exceed the local horizon.
\<close>

definition accepted_role ::
  "('z) wire_env_scheme \<Rightarrow> jvalue \<Rightarrow> trust_policy \<Rightarrow> trust_clock \<Rightarrow> string \<Rightarrow> role_record \<Rightarrow> jvalue \<Rightarrow> bool" where
  "accepted_role env root policy clock role rec v \<longleftrightarrow>
     envelope env (rr_raw rec) role = Ok v \<and>
     quorum env root v role (re_accepted_signer_ids (rr_evidence rec)) \<and>
     wire_number (vindex v ''signed'') ''version'' U32_MAX = Ok (re_version (rr_evidence rec)) \<and>
     re_raw_sha256 (rr_evidence rec) = wire_digest env (rr_raw rec) \<and>
     expiry env policy clock v role = Ok ()"

definition role_accepted ::
  "('z) wire_env_scheme \<Rightarrow> jvalue \<Rightarrow> trust_policy \<Rightarrow> trust_clock \<Rightarrow> trust_state \<Rightarrow> string \<Rightarrow> jvalue \<Rightarrow> bool" where
  "role_accepted env root policy clock st role v \<longleftrightarrow>
     (\<exists>rec. map_of (st_roles st) role = Some rec \<and> accepted_role env root policy clock role rec v)"

lemma accepted_roleI:
  assumes v: "envelope env bytes role = Inr v" and ev: "evidence env root v bytes role = Inr ev"
    and "expiry env policy clock v role = Inr u"
  shows "accepted_role env root policy clock role \<lparr>rr_raw = bytes, rr_evidence = ev\<rparr> v"
proof -
  from ev obtain version signers where "re_version ev = version" "re_accepted_signer_ids ev = signers"
    "re_raw_sha256 ev = wire_digest env bytes"
    "wire_number (vindex v ''signed'') ''version'' U32_MAX = Inr version"
    "strict_signers env root v role = Inr signers"
    unfolding evidence_def by (auto simp: ok_iff)
  with assms envelope_quorum [OF v] show ?thesis by (auto simp: accepted_role_def)
qed

lemma metadata_link_path: "metadata_link v name = Inr link \<Longrightarrow> link = vpath v [''signed'', ''meta'', name]"
  by (auto simp: metadata_link_def ok_iff Let_def)

text \<open>What the import of one role does when it succeeds.\<close>

lemma import_timestamp_result:
  assumes "import_timestamp env dir root now db s = (t, Inr (link, db'))"
  shows "\<exists>v. role_accepted env root (st_policy (sn_state s)) (sn_clock s) (sn_state t) ''timestamp'' v \<and>
      link = vpath v [''signed'', ''meta'', ''snapshot.json'']"
    and "st_roots (sn_state t) = st_roots (sn_state s)" and "st_policy (sn_state t) = st_policy (sn_state s)"
    and "sn_clock t = sn_clock s" and "sn_mutating t = sn_mutating s" and "sn_store t = sn_store s"
proof -
  from assms obtain bytes v u where read: "read_metadata env (path_join dir ''timestamp.json'') (LIMITS ! 3) s = (u, Inr bytes)"
    and v: "envelope env bytes ''timestamp'' = Inr v"
    and fresh: "session_expiry env v ''timestamp'' u = Inr ()"
    and link: "metadata_link v ''snapshot.json'' = Inr link"
    and retain: "retain_role env root v bytes ''timestamp'' u = (t, Inr ())"
    unfolding import_timestamp_def by (auto simp: op_bind_Inr_iff)
  note u = read_metadata_result(1) [OF read] and t = retain_role_result [OF retain]
  from t(1) obtain ev where ev: "evidence env root v bytes ''timestamp'' = Inr ev"
    "st_roles (sn_state t) = bt_insert ''timestamp'' \<lparr>rr_raw = bytes, rr_evidence = ev\<rparr> (st_roles (sn_state u))"
    by blast
  from accepted_roleI [OF v ev(1) fresh [unfolded session_expiry_def]] ev(2) u metadata_link_path [OF link]
  show "\<exists>v. role_accepted env root (st_policy (sn_state s)) (sn_clock s) (sn_state t) ''timestamp'' v \<and>
      link = vpath v [''signed'', ''meta'', ''snapshot.json'']"
    unfolding role_accepted_def by auto
  from t(2-) u show "st_roots (sn_state t) = st_roots (sn_state s)"
    "st_policy (sn_state t) = st_policy (sn_state s)" "sn_clock t = sn_clock s"
    "sn_mutating t = sn_mutating s" "sn_store t = sn_store s" by simp_all
qed

lemma import_snapshot_result:
  assumes "import_snapshot env dir root now slink db s = (t, Inr (link, db'))"
  shows "\<exists>v rec. role_accepted env root (st_policy (sn_state s)) (sn_clock s) (sn_state t) ''snapshot'' v \<and>
      map_of (st_roles (sn_state t)) ''snapshot'' = Some rec \<and> check_link env slink (rr_raw rec) = Ok () \<and>
      link = vpath v [''signed'', ''meta'', ''targets.json'']"
    and "map_of (st_roles (sn_state t)) ''timestamp'' = map_of (st_roles (sn_state s)) ''timestamp''"
    and "st_roots (sn_state t) = st_roots (sn_state s)" and "st_policy (sn_state t) = st_policy (sn_state s)"
    and "sn_clock t = sn_clock s" and "sn_mutating t = sn_mutating s" and "sn_store t = sn_store s"
proof -
  from assms obtain sv bytes v u where
    read: "read_metadata env (path_join dir (show_nat sv @ ''.snapshot.json'')) (LIMITS ! 2) s = (u, Inr bytes)"
    and check: "check_link env slink bytes = Inr ()"
    and v: "envelope env bytes ''snapshot'' = Inr v"
    and fresh: "session_expiry env v ''snapshot'' u = Inr ()"
    and link: "metadata_link v ''targets.json'' = Inr link"
    and retain: "retain_role env root v bytes ''snapshot'' u = (t, Inr ())"
    unfolding import_snapshot_def by (auto simp: op_bind_Inr_iff)
  note u = read_metadata_result(1) [OF read] and t = retain_role_result [OF retain]
  from t(1) obtain ev where ev: "evidence env root v bytes ''snapshot'' = Inr ev"
    "st_roles (sn_state t) = bt_insert ''snapshot'' \<lparr>rr_raw = bytes, rr_evidence = ev\<rparr> (st_roles (sn_state u))"
    by blast
  from accepted_roleI [OF v ev(1) fresh [unfolded session_expiry_def]] ev(2) u metadata_link_path [OF link] check
  show "\<exists>v rec. role_accepted env root (st_policy (sn_state s)) (sn_clock s) (sn_state t) ''snapshot'' v \<and>
      map_of (st_roles (sn_state t)) ''snapshot'' = Some rec \<and> check_link env slink (rr_raw rec) = Ok () \<and>
      link = vpath v [''signed'', ''meta'', ''targets.json'']"
    unfolding role_accepted_def by auto
  from ev(2) u show "map_of (st_roles (sn_state t)) ''timestamp'' = map_of (st_roles (sn_state s)) ''timestamp''"
    by simp
  from t(2-) u show "st_roots (sn_state t) = st_roots (sn_state s)"
    "st_policy (sn_state t) = st_policy (sn_state s)" "sn_clock t = sn_clock s"
    "sn_mutating t = sn_mutating s" "sn_store t = sn_store s" by simp_all
qed

lemma advance_floors_same:
  "advance_floors items ts s = (t, r) \<Longrightarrow>
     sn_clock t = sn_clock s \<and> sn_mutating t = sn_mutating s \<and> sn_store t = sn_store s \<and> sn_files t = sn_files s"
proof (induction ts arbitrary: s)
  case Nil
  then show ?case by simp
next
  case (Cons x ts)
  then show ?case
    by (auto simp: op_bind_def put_state_def split: sum.splits dest!: Cons.IH)
qed

text \<open>The floors that the import of the targets sets: those of the accepted targets, with their manifests.\<close>

definition target_entry :: "jvalue \<Rightarrow> trust_target \<Rightarrow> jvalue" where
  "target_entry v t = vpath v [''signed'', ''targets'', scope_target (target_scope t)]"

lemma advance_floors_result:
  assumes "advance_floors items ts s = (t, Inr u)" and "distinct (map tt_profile ts)"
  shows "(\<forall>x \<in> set ts. \<exists>hash.
      wire_string (vpath items [scope_target (target_scope x), ''hashes'']) ''sha256'' = Ok hash \<and>
      map_of (st_floors (sn_state t)) (tt_profile x)
        = Some \<lparr>fl_sequence = tt_release_sequence x, fl_manifest_sha256 = Some hash\<rparr>) \<and>
    (\<forall>p. p \<notin> tt_profile ` set ts \<longrightarrow>
      map_of (st_floors (sn_state t)) p = map_of (st_floors (sn_state s)) p)"
  using assms
proof (induction ts arbitrary: s)
  case Nil
  then show ?case by simp
next
  case (Cons x ts)
  from Cons.prems(1) obtain hash where
    hash: "wire_string (vpath items [scope_target (target_scope x), ''hashes'']) ''sha256'' = Inr hash"
    and rest: "advance_floors items ts (s\<lparr>sn_state := (sn_state s)\<lparr>st_floors := bt_insert (tt_profile x)
       \<lparr>fl_sequence = tt_release_sequence x, fl_manifest_sha256 = Some hash\<rparr> (st_floors (sn_state s))\<rparr>\<rparr>)
       = (t, Inr u)"
    by (auto simp: op_bind_Inr_iff put_state_def)
  from Cons.IH [OF rest] Cons.prems(2) hash show ?case by auto
qed

lemma import_targets_result:
  assumes "import_targets env dir root now tlink db s = (t, Inr accepted)"
  shows "\<exists>v rec. role_accepted env root (st_policy (sn_state s)) (sn_clock s) (sn_state t) ''targets'' v \<and>
      map_of (st_roles (sn_state t)) ''targets'' = Some rec \<and> check_link env tlink (rr_raw rec) = Ok () \<and>
      (\<forall>profile target. map_of accepted profile = Some target \<longrightarrow>
         profile = tt_profile target \<and>
         (\<exists>hash. wire_string (vindex (target_entry v target) ''hashes'') ''sha256'' = Ok hash \<and>
            map_of (st_floors (sn_state t)) profile
              = Some \<lparr>fl_sequence = tt_release_sequence target, fl_manifest_sha256 = Some hash\<rparr>))"
    and "map_of (st_roles (sn_state t)) ''timestamp'' = map_of (st_roles (sn_state s)) ''timestamp''"
    and "map_of (st_roles (sn_state t)) ''snapshot'' = map_of (st_roles (sn_state s)) ''snapshot''"
    and "st_roots (sn_state t) = st_roots (sn_state s)" and "st_policy (sn_state t) = st_policy (sn_state s)"
    and "sn_clock t = sn_clock s" and "sn_mutating t = sn_mutating s" and "sn_store t = sn_store s"
proof -
  from assms obtain tv bytes v u items w where
    read: "read_metadata env (path_join dir (show_nat tv @ ''.targets.json'')) (LIMITS ! 1) s = (u, Inr bytes)"
    and check: "check_link env tlink bytes = Inr ()"
    and v: "envelope env bytes ''targets'' = Inr v"
    and fresh: "session_expiry env v ''targets'' u = Inr ()"
    and items: "vpath v [''signed'', ''targets''] = VObj items"
    and acc: "accept_targets env (sn_state u) [] items = Inr accepted"
    and adv: "advance_floors (VObj items) (map snd accepted) u = (w, Inr ())"
    and retain: "retain_role env root v bytes ''targets'' w = (t, Inr ())"
    unfolding import_targets_def by (auto simp: op_bind_Inr_iff ok_iff value_object_iff)
  note u = read_metadata_result(1) [OF read] and t = retain_role_result [OF retain]
    and w = advance_floors_keeps [OF adv] advance_floors_same [OF adv]
  from t(1) obtain ev where ev: "evidence env root v bytes ''targets'' = Inr ev"
    "st_roles (sn_state t) = bt_insert ''targets'' \<lparr>rr_raw = bytes, rr_evidence = ev\<rparr> (st_roles (sn_state w))"
    by blast
  have floors: "profile = tt_profile target \<and>
         (\<exists>hash. wire_string (vindex (target_entry v target) ''hashes'') ''sha256'' = Ok hash \<and>
            map_of (st_floors (sn_state t)) profile
              = Some \<lparr>fl_sequence = tt_release_sequence target, fl_manifest_sha256 = Some hash\<rparr>)"
    if target: "map_of accepted profile = Some target" for profile target
  proof -
    from target have mem: "(profile, target) \<in> set accepted" by (rule map_of_SomeD)
    with accept_targets_result [OF acc] have profile: "profile = tt_profile target" by fastforce
    from mem have "target \<in> set (map snd accepted)" by force
    with advance_floors_result [OF adv accepted_profiles_distinct [OF acc]] obtain hash
      where "wire_string (vpath (VObj items) [scope_target (target_scope target), ''hashes'']) ''sha256'' = Ok hash"
        "map_of (st_floors (sn_state w)) (tt_profile target)
          = Some \<lparr>fl_sequence = tt_release_sequence target, fl_manifest_sha256 = Some hash\<rparr>"
      by blast
    moreover have "vpath (VObj items) [scope_target (target_scope target), ''hashes'']
        = vindex (target_entry v target) ''hashes''"
      unfolding target_entry_def items [symmetric] by (simp add: vpath_def)
    ultimately show ?thesis using t(4) profile by simp
  qed
  have accepted: "accepted_role env root (st_policy (sn_state s)) (sn_clock s) ''targets''
      \<lparr>rr_raw = bytes, rr_evidence = ev\<rparr> v"
    using accepted_roleI [OF v ev(1) fresh [unfolded session_expiry_def]] u by simp
  show "\<exists>v rec. role_accepted env root (st_policy (sn_state s)) (sn_clock s) (sn_state t) ''targets'' v \<and>
      map_of (st_roles (sn_state t)) ''targets'' = Some rec \<and> check_link env tlink (rr_raw rec) = Ok () \<and>
      (\<forall>profile target. map_of accepted profile = Some target \<longrightarrow>
         profile = tt_profile target \<and>
         (\<exists>hash. wire_string (vindex (target_entry v target) ''hashes'') ''sha256'' = Ok hash \<and>
            map_of (st_floors (sn_state t)) profile
              = Some \<lparr>fl_sequence = tt_release_sequence target, fl_manifest_sha256 = Some hash\<rparr>))"
    using accepted ev(2) check floors unfolding role_accepted_def
    by (intro exI [of _ v] exI [of _ "\<lparr>rr_raw = bytes, rr_evidence = ev\<rparr>"]) simp
  from ev(2) w u show "map_of (st_roles (sn_state t)) ''timestamp'' = map_of (st_roles (sn_state s)) ''timestamp''"
    and "map_of (st_roles (sn_state t)) ''snapshot'' = map_of (st_roles (sn_state s)) ''snapshot''"
    by simp_all
  from t(2-) w u show "st_roots (sn_state t) = st_roots (sn_state s)"
    "st_policy (sn_state t) = st_policy (sn_state s)" "sn_clock t = sn_clock s"
    "sn_mutating t = sn_mutating s" "sn_store t = sn_store s" by simp_all
qed

section \<open>Roots\<close>

lemma read_metadata_parts:
  assumes "read_metadata env path limit s = (t, r)"
  shows "sn_state t = sn_state s \<and> sn_clock t = sn_clock s \<and> sn_mutating t = sn_mutating s \<and>
    sn_store t = sn_store s \<and> sn_files t = sn_files s"
  using assms by (auto simp: read_metadata_def op_bind_def split: sum.splits)

lemma scan_roots_parts:
  "scan_roots env dir root current k versions es s = (t, r) \<Longrightarrow>
     sn_state t = sn_state s \<and> sn_clock t = sn_clock s \<and> sn_mutating t = sn_mutating s \<and>
     sn_store t = sn_store s \<and> sn_files t = sn_files s"
proof (induction es arbitrary: k versions s)
  case Nil
  then show ?case by simp
next
  case (Cons e es)
  then show ?case
    by (cases e) (auto simp: op_bind_def dest!: Cons.IH read_metadata_parts
        split: sum.splits option.splits prod.splits if_splits)
qed

lemma root_transition_result:
  assumes "root_transition env dir root db current version s = (t, Inr (next, db'))"
  shows "\<exists>bytes. st_roots (sn_state t) = st_roots (sn_state s) @ [bytes] \<and>
      envelope env bytes ''root'' = Inr next"
    and "st_policy (sn_state t) = st_policy (sn_state s)" and "sn_clock t = sn_clock s"
    and "sn_mutating t = sn_mutating s" and "sn_store t = sn_store s"
proof -
  from assms obtain bytes u where
    read: "read_metadata env (path_join dir (show_nat version @ ''.root.json'')) (LIMITS ! 0) s = (u, Inr bytes)"
    and v: "envelope env bytes ''root'' = Inr next"
    and save: "session_save env (u\<lparr>sn_state := (sn_state u)\<lparr>st_roots := st_roots (sn_state u) @ [bytes]\<rparr>\<rparr>)
      = (t, Inr ())"
    unfolding root_transition_def by (auto simp: op_bind_Inr_iff put_state_def)
  note u = read_metadata_parts [OF read] and t = session_save_parts [OF save]
  from u t v show "\<exists>bytes. st_roots (sn_state t) = st_roots (sn_state s) @ [bytes] \<and>
      envelope env bytes ''root'' = Inr next" by auto
  from u t show "st_policy (sn_state t) = st_policy (sn_state s)" "sn_clock t = sn_clock s"
    "sn_mutating t = sn_mutating s" "sn_store t = sn_store s" by simp_all
qed

lemma root_transitions_result:
  "root_transitions env dir root db current vs s = (t, Inr final) \<Longrightarrow>
     st_roots (sn_state s) \<noteq> [] \<Longrightarrow> envelope env (last (st_roots (sn_state s))) ''root'' = Inr root \<Longrightarrow>
     envelope env (last (st_roots (sn_state t))) ''root'' = Inr final \<and>
     st_policy (sn_state t) = st_policy (sn_state s) \<and> sn_clock t = sn_clock s \<and>
     sn_mutating t = sn_mutating s \<and> sn_store t = sn_store s"
proof (induction vs arbitrary: root db current s)
  case Nil
  then show ?case by simp
next
  case (Cons v vs)
  from Cons.prems(1) obtain u "next" db' where
    step: "root_transition env dir root db current v s = (u, Inr (next, db'))"
    and rest: "root_transitions env dir next db' v vs u = (t, Inr final)"
    by (auto simp: op_bind_Inr_iff)
  note step = root_transition_result [OF step]
  from step(1) obtain bytes where "st_roots (sn_state u) = st_roots (sn_state s) @ [bytes]"
    "envelope env bytes ''root'' = Inr next" by blast
  with Cons.IH [OF rest] step(2-) show ?case by simp
qed

lemma import_roots_result:
  assumes "import_roots env dir s = (t, Inr root)"
  shows "envelope env (last (st_roots (sn_state t))) ''root'' = Inr root"
    and "expiry env (st_policy (sn_state s)) (sn_clock s) root ''root'' = Inr ()"
    and "st_policy (sn_state t) = st_policy (sn_state s)" and "sn_clock t = sn_clock s"
    and "sn_mutating t = sn_mutating s" and "sn_store t = sn_store s"
proof -
  from assms obtain root0 db current listing u versions where
    cur: "current_root env (sn_state s) = Inr (root0, db)"
    and scan: "scan_roots env dir root0 current 0 [] listing s = (u, Inr versions)"
    and steps: "root_transitions env dir root0 db current (sort versions) u = (t, Inr root)"
    and fresh: "session_expiry env root ''root'' t = Inr ()"
    unfolding import_roots_def by (auto simp: op_bind_Inr_iff)
  note u = scan_roots_parts [OF scan]
  from root_transitions_result [OF steps] current_root_last [OF cur] u
  have t: "envelope env (last (st_roots (sn_state t))) ''root'' = Inr root \<and>
     st_policy (sn_state t) = st_policy (sn_state s) \<and> sn_clock t = sn_clock s \<and>
     sn_mutating t = sn_mutating s \<and> sn_store t = sn_store s" by simp
  then show "envelope env (last (st_roots (sn_state t))) ''root'' = Inr root"
    "st_policy (sn_state t) = st_policy (sn_state s)" "sn_clock t = sn_clock s"
    "sn_mutating t = sn_mutating s" "sn_store t = sn_store s" by simp_all
  from t fresh show "expiry env (st_policy (sn_state s)) (sn_clock s) root ''root'' = Inr ()"
    by (simp add: session_expiry_def)
qed

section \<open>Accepted metadata\<close>

text \<open>
  Metadata accepted in full: the root is the last of a chain in which every root is authorized by
  the one before it, it has not expired, and the other roles have not either, carry the signatures
  of a quorum of that root, and each is the file that the role above it names with version,
  length and digest.
\<close>

definition metadata_accepted ::
  "('db, 'z) session_env_scheme \<Rightarrow> trust_clock \<Rightarrow> trust_state \<Rightarrow> bool" where
  "metadata_accepted env clock st \<longleftrightarrow>
     (\<exists>root db ts sn tg snrec tgrec.
        current_root env st = Ok (root, db) \<and>
        expiry env (st_policy st) clock root ''root'' = Ok () \<and>
        role_accepted env root (st_policy st) clock st ''timestamp'' ts \<and>
        role_accepted env root (st_policy st) clock st ''snapshot'' sn \<and>
        role_accepted env root (st_policy st) clock st ''targets'' tg \<and>
        map_of (st_roles st) ''snapshot'' = Some snrec \<and> map_of (st_roles st) ''targets'' = Some tgrec \<and>
        check_link env (vpath ts [''signed'', ''meta'', ''snapshot.json'']) (rr_raw snrec) = Ok () \<and>
        check_link env (vpath sn [''signed'', ''meta'', ''targets.json'']) (rr_raw tgrec) = Ok ())"

definition targets_floored ::
  "('z) wire_env_scheme \<Rightarrow> trust_state \<Rightarrow> (string, trust_target) btree_map \<Rightarrow> bool" where
  "targets_floored env st accepted \<longleftrightarrow>
     (\<exists>rec tg. map_of (st_roles st) ''targets'' = Some rec \<and> envelope env (rr_raw rec) ''targets'' = Ok tg \<and>
        (\<forall>profile target. map_of accepted profile = Some target \<longrightarrow>
           profile = tt_profile target \<and>
           (\<exists>hash. wire_string (vindex (target_entry tg target) ''hashes'') ''sha256'' = Ok hash \<and>
              map_of (st_floors st) profile
                = Some \<lparr>fl_sequence = tt_release_sequence target, fl_manifest_sha256 = Some hash\<rparr>)))"

lemma role_accepted_cong:
  "map_of (st_roles st) role = map_of (st_roles st') role \<Longrightarrow>
     role_accepted env root policy clock st role v = role_accepted env root policy clock st' role v"
  by (simp add: role_accepted_def)

lemma import_metadata_result:
  assumes "import_metadata env dir False s = (t, Inr accepted)"
  shows "metadata_accepted env (sn_clock s) (sn_state t)" and "targets_floored env (sn_state t) accepted"
    and "st_policy (sn_state t) = st_policy (sn_state s)" and "sn_clock t = sn_clock s"
    and "sn_mutating t = sn_mutating s" and "sn_store t = sn_store s"
proof -
  from assms obtain now root a root' db b link1 db1 c link2 db2 where
    roots: "import_roots env dir s = (a, Inr root)"
    and cur: "current_root env (sn_state a) = Inr (root', db)"
    and ts: "import_timestamp env dir root now db a = (b, Inr (link1, db1))"
    and sn: "import_snapshot env dir root now link1 db1 b = (c, Inr (link2, db2))"
    and tg: "import_targets env dir root now link2 db2 c = (t, Inr accepted)"
    unfolding import_metadata_def by (auto simp: op_bind_Inr_iff)
  note roots = import_roots_result [OF roots] and ts = import_timestamp_result [OF ts]
    and sn = import_snapshot_result [OF sn] and tg = import_targets_result [OF tg]
  have root: "root' = root" using current_root_last(2) [OF cur] roots(1) by simp
  have same: "st_roots (sn_state t) = st_roots (sn_state a)" "st_policy (sn_state t) = st_policy (sn_state a)"
    using ts sn tg by simp_all
  from current_root_cong [OF this, of env] cur root have cur': "current_root env (sn_state t) = Inr (root, db)" by simp
  show keep: "st_policy (sn_state t) = st_policy (sn_state s)" "sn_clock t = sn_clock s"
    "sn_mutating t = sn_mutating s" "sn_store t = sn_store s" using roots ts sn tg by simp_all
  from ts(1) obtain tsv where tsv:
    "role_accepted env root (st_policy (sn_state t)) (sn_clock s) (sn_state b) ''timestamp'' tsv"
    "link1 = vpath tsv [''signed'', ''meta'', ''snapshot.json'']" using keep roots by auto
  from sn(1) obtain snv snrec where snv:
    "role_accepted env root (st_policy (sn_state t)) (sn_clock s) (sn_state c) ''snapshot'' snv"
    "map_of (st_roles (sn_state c)) ''snapshot'' = Some snrec" "check_link env link1 (rr_raw snrec) = Ok ()"
    "link2 = vpath snv [''signed'', ''meta'', ''targets.json'']" using keep roots ts by auto
  from tg(1) obtain tgv tgrec where tgv:
    "role_accepted env root (st_policy (sn_state t)) (sn_clock s) (sn_state t) ''targets'' tgv"
    "map_of (st_roles (sn_state t)) ''targets'' = Some tgrec" "check_link env link2 (rr_raw tgrec) = Ok ()"
    and floors: "\<forall>profile target. map_of accepted profile = Some target \<longrightarrow>
         profile = tt_profile target \<and>
         (\<exists>hash. wire_string (vindex (target_entry tgv target) ''hashes'') ''sha256'' = Ok hash \<and>
            map_of (st_floors (sn_state t)) profile
              = Some \<lparr>fl_sequence = tt_release_sequence target, fl_manifest_sha256 = Some hash\<rparr>)"
    using keep roots ts sn by auto
  have "role_accepted env root (st_policy (sn_state t)) (sn_clock s) (sn_state t) ''timestamp'' tsv"
    using tsv(1) sn(2) tg(2) by (simp add: role_accepted_def)
  moreover have "role_accepted env root (st_policy (sn_state t)) (sn_clock s) (sn_state t) ''snapshot'' snv"
    using snv(1) tg(3) by (simp add: role_accepted_def)
  ultimately show "metadata_accepted env (sn_clock s) (sn_state t)"
    unfolding metadata_accepted_def using cur' roots(2) keep(1) snv tgv tsv(2) tg(3) by auto
  from tgv(1,2) have "envelope env (rr_raw tgrec) ''targets'' = Ok tgv"
    by (auto simp: role_accepted_def accepted_role_def)
  with tgv(2) floors show "targets_floored env (sn_state t) accepted"
    unfolding targets_floored_def by blast
qed

text \<open>
  C5. A full import that succeeds has accepted a chain of signatures from the enrolled root down
  to the targets: every role is current at the local clock, signed by a quorum of distinct keys of
  the accepted root, and is the very file named by the role above it; the floors of the accepted
  targets are their sequences and manifest digests.
\<close>

theorem accepted_metadata_has_quorum:
  assumes "import_metadata env dir False s = (t, Ok accepted)"
  shows "metadata_accepted env (sn_clock s) (sn_state t) \<and> targets_floored env (sn_state t) accepted \<and>
    st_policy (sn_state t) = st_policy (sn_state s)"
  using import_metadata_result [OF assms] by simp

end
