(* ===== verification/TrustOutcome.thy ===== *)
theory TrustOutcome
  imports TrustAcceptance
begin

text \<open>
  What sessions do to files, and what an installation and a recovery leave behind. A session that
  does not mutate writes nothing; one that does writes in its store and creates the outputs of
  its installations, and no file that exists outside the store is changed. An installation that
  succeeds has published the authorized content and made its receipt durable.
\<close>

section \<open>The files that a step spares\<close>

text \<open>
  \<open>P mutating store path\<close> selects the paths that stay as they are; files outside the store that
  exist stay in any case.
\<close>

definition spares :: "(bool \<Rightarrow> string \<Rightarrow> string \<Rightarrow> bool) \<Rightarrow> session \<Rightarrow> session \<Rightarrow> bool" where
  "spares P s t \<longleftrightarrow>
     sn_store t = sn_store s \<and> sn_mutating t = sn_mutating s \<and>
     (\<forall>path. P (sn_mutating s) (sn_store s) path \<or>
        (\<not> inside_store (sn_store s) path \<and> sn_files s path \<noteq> None) \<longrightarrow>
        sn_files t path = sn_files s path)"

definition sparing :: "(bool \<Rightarrow> string \<Rightarrow> string \<Rightarrow> bool) \<Rightarrow> bool" where
  "sparing P \<longleftrightarrow> (\<forall>store path. P True store path \<longrightarrow> \<not> inside_store store path)"

interpretation spared: step_preorder "spares P" for P
  by unfold_locales (auto simp: spares_def)

lemma spares_same:
  "sn_store t = sn_store s \<Longrightarrow> sn_mutating t = sn_mutating s \<Longrightarrow> sn_files t = sn_files s \<Longrightarrow> spares P s t"
  by (simp add: spares_def)

lemma spares_put [simp]: "op_keeps (spares P) (put_state f)"
  unfolding put_state_def by (rule spared.keeps_modify) (simp add: spares_def)

lemma spares_of [simp]: "op_keeps (spares P) (op_of g)" "op_keeps (spares P) (op_return x)"
  by (simp_all add: op_keeps_def spares_def)

lemma save_spares: "sparing P \<Longrightarrow> op_keeps (spares P) (session_save env)"
  unfolding op_keeps_def
proof
  fix s :: session
  assume P: "sparing P"
  obtain t r where save: "session_save env s = (t, r)" by fastforce
  have "sn_mutating s \<and> (\<exists>bytes. sn_files t = (sn_files s)(state_path (sn_store s) \<mapsto> bytes)) \<or>
      sn_files t = sn_files s"
    using save
    by (auto simp: session_save_def op_bind_def put_state_def replace_file_def replace_state_def
        split: if_splits sum.splits prod.splits)
  with P session_save_parts [OF save] state_path_inside [of "sn_store s"]
  show "spares P s (fst (session_save env s))"
    by (auto simp: save spares_def sparing_def)
qed

lemma read_metadata_spares: "op_keeps (spares P) (read_metadata env path limit)"
  unfolding op_keeps_def by (metis fst_conv prod.collapse read_metadata_parts spares_same)

lemmas spares_steps = spared.keeps_bind save_spares read_metadata_spares

section \<open>Imports\<close>

lemma retain_spares: "sparing P \<Longrightarrow> op_keeps (spares P) (retain_role env root v bytes role)"
  unfolding retain_role_def by (intro spares_steps spares_of spares_put)

lemma scan_spares: "op_keeps (spares P) (scan_roots env dir root current k versions es)"
  unfolding op_keeps_def by (metis fst_conv prod.collapse scan_roots_parts spares_same)

lemma transition_spares:
  "sparing P \<Longrightarrow> op_keeps (spares P) (root_transition env dir root db current version)"
  unfolding root_transition_def by (intro spares_steps spares_of spares_put)

lemma transitions_spares:
  "sparing P \<Longrightarrow> op_keeps (spares P) (root_transitions env dir root db current vs)"
proof (induction vs arbitrary: root db current)
  case Nil
  then show ?case by (simp add: op_keeps_def spares_def)
next
  case (Cons v vs)
  then show ?case
    by (auto intro!: spared.keeps_bind transition_spares split: prod.split)
qed

lemma import_roots_spares: "sparing P \<Longrightarrow> op_keeps (spares P) (import_roots env dir)"
  unfolding import_roots_def
  by (intro spared.keeps_bind spares_of scan_spares transitions_spares
      | simp only: split_paired_all prod.case)+

lemma advance_spares: "op_keeps (spares P) (advance_floors items ts)"
  unfolding op_keeps_def by (metis fst_conv prod.collapse advance_floors_same spares_same)

lemma import_timestamp_spares: "sparing P \<Longrightarrow> op_keeps (spares P) (import_timestamp env dir root now db)"
  unfolding import_timestamp_def by (intro spares_steps spares_of retain_spares)

lemma import_snapshot_spares:
  "sparing P \<Longrightarrow> op_keeps (spares P) (import_snapshot env dir root now link db)"
  unfolding import_snapshot_def by (intro spares_steps spares_of retain_spares)

lemma import_targets_spares:
  "sparing P \<Longrightarrow> op_keeps (spares P) (import_targets env dir root now link db)"
  unfolding import_targets_def by (intro spares_steps spares_of retain_spares advance_spares)

lemma import_metadata_spares: "sparing P \<Longrightarrow> op_keeps (spares P) (import_metadata env dir root_only)"
  unfolding import_metadata_def
  by (cases root_only)
    (auto intro!: spared.keeps_bind spares_of import_roots_spares import_timestamp_spares
      import_snapshot_spares import_targets_spares simp del: op_of_simps split: prod.split)

lemma import_spares: "sparing P \<Longrightarrow> op_keeps (spares P) (session_import env dir publisher root_only)"
  unfolding session_import_def
  by (auto intro!: spared.keeps_bind spares_of import_metadata_spares save_spares
      simp del: op_of_simps split: prod.split)

lemma verify_spares: "sparing P \<Longrightarrow> op_keeps (spares P) (session_verify env dir scope manifest payload)"
  unfolding session_verify_def
  by (auto intro!: spared.keeps_bind spares_of import_metadata_spares
      simp del: op_of_simps split: prod.split)

lemma keeps_at_state: "op_keeps R m \<Longrightarrow> m s = (t, r) \<Longrightarrow> R s t"
  unfolding op_keeps_def by (metis fst_conv)

lemma inspect_chain_spares: "op_keeps (spares P) (inspect_chain env dir)"
  unfolding inspect_chain_def by (intro spared.keeps_bind spares_of read_metadata_spares)

lemma inspect_spares: "sparing P \<Longrightarrow> op_keeps (spares P) (session_inspect env dir scope manifest payload)"
  unfolding session_inspect_def
proof (rule spared.keeps_bind, rule spares_of, unfold op_keeps_def, rule allI)
  fix s :: session
  assume P: "sparing P"
  obtain s1 policy where verify: "session_verify env dir scope manifest payload s = (s1, policy)" by fastforce
  from keeps_at_state [OF verify_spares [OF P] this] have first: "spares P s s1" .
  moreover have "spares P s1 (fst (op_bind (op_of (\<lambda>s. current_root env (sn_state s))) (\<lambda>(root, db) t.
      case inspect_chain env dir t of
        (s2, chain) \<Rightarrow> (s2, Ok (inspection_of env root db chain policy))) s1))"
  proof (cases "current_root env (sn_state s1)")
    case (Inl e)
    then show ?thesis by (simp add: op_bind_def spares_def)
  next
    case (Inr x)
    obtain s2 chain where "inspect_chain env dir s1 = (s2, chain)" by fastforce
    with Inr keeps_at_state [OF inspect_chain_spares this] show ?thesis
      by (cases x) (simp add: op_bind_def)
  qed
  ultimately show "spares P s (fst (case session_verify env dir scope manifest payload s of
          (s1, policy_result) \<Rightarrow>
            op_bind (op_of (\<lambda>s. current_root env (sn_state s))) (\<lambda>(root, db) t.
              (case inspect_chain env dir t of
                 (s2, chain) \<Rightarrow> (s2, Ok (inspection_of env root db chain policy_result)))) s1))"
    using verify spared.R_trans by simp
qed

section \<open>Receipts and installations\<close>

lemma receipt_path_inside: "inside_store store (receipt_path store key)"
  by (simp add: inside_store_def receipt_path_def path_components_join)

definition outside_only :: "(bool \<Rightarrow> string \<Rightarrow> string \<Rightarrow> bool) \<Rightarrow> bool" where
  "outside_only P \<longleftrightarrow> (\<forall>m store path. P m store path \<longrightarrow> \<not> inside_store store path)"

lemma outside_sparing: "outside_only P \<Longrightarrow> sparing P"
  by (simp add: outside_only_def sparing_def)

lemma export_receipt_spares:
  assumes "outside_only P"
  shows "op_keeps (spares P) (export_receipt env entry)"
  unfolding op_keeps_def
proof
  fix s :: session
  obtain key receipt where entry: "entry = (key, receipt)" by (cases entry)
  obtain t r where run: "export_receipt env entry s = (t, r)" by fastforce
  have "sn_store t = sn_store s \<and> sn_mutating t = sn_mutating s \<and>
      (sn_files t = sn_files s \<or>
       (\<exists>bytes. sn_files t = (sn_files s)(receipt_path (sn_store s) key \<mapsto> bytes)))"
    using run unfolding export_receipt_def entry prod.case
    by (auto simp: op_bind_def Let_def write_new_def split: sum.splits probe.splits prod.splits if_splits)
  with assms receipt_path_inside [of "sn_store s" key]
  show "spares P s (fst (export_receipt env entry s))"
    by (auto simp: run spares_def outside_only_def)
qed

lemma export_each_spares: "outside_only P \<Longrightarrow> op_keeps (spares P) (export_each env es)"
proof (induction es)
  case Nil
  then show ?case by (simp add: op_keeps_def spares_def)
next
  case (Cons e es)
  then show ?case by (auto intro!: spared.keeps_bind export_receipt_spares)
qed

lemma export_spares: "outside_only P \<Longrightarrow> op_keeps (spares P) (export_receipts env)"
  unfolding export_receipts_def op_keeps_def
  using export_each_spares [of P env]
  by (auto simp: op_bind_def op_keeps_def spares_def split: sum.split)

lemma recover_spares: "outside_only P \<Longrightarrow> op_keeps (spares P) (session_recover env)"
  unfolding op_keeps_def
proof
  fix s :: session
  assume P: "outside_only P"
  have step: "op_keeps (spares P) (op_bind (op_of (\<lambda>s. recover_pending env s pending))
      (\<lambda>done. op_bind (put_state (finish_pending done)) (\<lambda>_. session_save env)))" for pending
    using P by (intro spared.keeps_bind spares_of spares_put save_spares outside_sparing)
  have "op_keeps (spares P) (op_bind (case st_pending (sn_state s) of
          None \<Rightarrow> op_return ()
        | Some pending \<Rightarrow>
            op_bind (op_of (\<lambda>s. recover_pending env s pending)) (\<lambda>done.
            op_bind (put_state (finish_pending done)) (\<lambda>_. session_save env)))
       (\<lambda>_. export_receipts env))"
    using P by (intro spared.keeps_bind export_spares) (simp_all add: step split: option.split)
  then show "spares P s (fst (session_recover env s))"
    unfolding session_recover_def op_keeps_def by blast
qed

lemma ensure_new_output_Ok: "ensure_new_output io files output = Inr u \<Longrightarrow> files output = None"
  by (auto simp: ensure_new_output_def symlink_metadata_def ok_iff split: if_splits probe.splits)

lemma publish_files:
  assumes "publish sha io files prepared output = (files', r)"
  shows "files' = files \<or> files output = None \<and> files' = files(output \<mapsto> pr_content prepared)"
proof (cases "ensure_new_catalog_output io files output")
  case (Inl e)
  with assms show ?thesis by (simp add: publish_def)
next
  case (Inr u)
  then have "files output = None"
    by (auto simp: ensure_new_catalog_output_def ok_iff dest: ensure_new_output_Ok)
  with assms Inr show ?thesis by (auto simp: publish_def Let_def split: if_splits)
qed

lemma publish_file_spares:
  assumes "\<And>m store. \<not> P m store output"
  shows "op_keeps (spares P) (publish_file env prepared output)"
  unfolding op_keeps_def
proof
  fix s :: session
  obtain files r where run: "publish (bn_sha (se_bundle env)) (se_publish_io env (sn_turn s))
      (sn_files s) prepared output = (files, r)" by fastforce
  from publish_files [OF run] assms show "spares P s (fst (publish_file env prepared output s))"
    by (auto simp: publish_file_def run spares_def)
qed

lemma commit_spares:
  assumes "outside_only P" and "\<And>m store. \<not> P m store output"
  shows "op_keeps (spares P) (commit_install env checkpoint prepared descriptor output receipt key)"
  unfolding commit_install_def using assms
  by (intro spared.keeps_bind spares_of spares_put save_spares export_spares publish_file_spares
      outside_sparing)

lemma install_spares:
  assumes "outside_only P" and "\<And>m store. \<not> P m store output"
  shows "op_keeps (spares P) (session_install env checkpoint dir scope manifest payload output)"
  unfolding session_install_def using assms
  by (auto intro!: spared.keeps_bind spares_of import_metadata_spares commit_spares outside_sparing
      simp del: op_of_simps split: prod.split)

lemma install_needs_mutating:
  "\<not> sn_mutating s \<Longrightarrow>
     session_install env checkpoint dir scope manifest payload output s = (s, Err TRUST_STATE)"
  by (simp add: session_install_def op_bind_def)

section \<open>What commands do to files\<close>

fun call_outputs :: "session_call \<Rightarrow> string set" where
  "call_outputs (CallInstall checkpoint dir scope manifest payload output) = {output}"
| "call_outputs _ = {}"

fun command_outputs :: "store_command \<Rightarrow> string set" where
  "command_outputs (SessionCommand turn clock mutating calls) =
     (if mutating then \<Union>(call_outputs ` set calls) else {})"
| "command_outputs (OutsideChange g) = {}"

text \<open>All files when the session does not mutate; else those outside the store that are no outputs.\<close>

definition untouched :: "string set \<Rightarrow> bool \<Rightarrow> string \<Rightarrow> string \<Rightarrow> bool" where
  "untouched outputs mutating store path \<longleftrightarrow>
     \<not> mutating \<or> (\<not> inside_store store path \<and> path \<notin> outputs)"

lemma untouched_sparing: "sparing (untouched outputs)"
  by (simp add: sparing_def untouched_def)

lemma run_call_spares: "call_outputs c \<subseteq> outputs \<Longrightarrow> spares (untouched outputs) s (run_call env c s)"
proof (induction env c s rule: run_call.induct)
  case (1 env dir publisher root_only s)
  show ?case by (simp add: keeps_at_state [OF import_spares [OF untouched_sparing] surjective_pairing])
next
  case (2 env checkpoint dir scope manifest payload path s)
  define P where "P = (\<lambda>_ :: bool. \<lambda>store path. \<not> inside_store store path \<and> path \<notin> outputs)"
  have "spares P s (fst (session_install env checkpoint dir scope manifest payload path s))"
    using 2 install_spares [of P path env checkpoint dir scope manifest payload]
    by (simp add: op_keeps_def outside_only_def P_def)
  then show ?case
    by (cases "sn_mutating s") (simp_all add: install_needs_mutating spared.R_refl,
        simp add: spares_def P_def untouched_def)
next
  case (3 env dir scope manifest payload s)
  show ?case by (simp add: keeps_at_state [OF verify_spares [OF untouched_sparing] surjective_pairing])
next
  case (4 env dir scope manifest payload s)
  show ?case by (simp add: keeps_at_state [OF inspect_spares [OF untouched_sparing] surjective_pairing])
qed

lemma run_calls_spares:
  "\<Union>(call_outputs ` set calls) \<subseteq> outputs \<Longrightarrow> spares (untouched outputs) s (run_calls env calls s)"
proof (induction calls arbitrary: s)
  case Nil
  then show ?case by (simp add: run_calls_def spared.R_refl)
next
  case (Cons c calls)
  then have "spares (untouched outputs) (run_call env c s) (run_calls env calls (run_call env c s))" by simp
  moreover have "spares (untouched outputs) s (run_call env c s)"
    using Cons.prems by (intro run_call_spares) simp
  ultimately show ?case by (simp add: run_calls_def spared.R_trans)
qed

lemma session_open_spares:
  assumes "session_open env turn files store clock mutating = (files', r)"
  shows "\<not> mutating \<Longrightarrow> files' = files"
    and "\<not> inside_store store path \<Longrightarrow> files' path = files path"
    and "r = Inr s \<Longrightarrow> sn_files s = files' \<and> sn_store s = store \<and> sn_mutating s = mutating"
proof -
  define P where "P = (\<lambda>_ :: bool. \<lambda>store path. \<not> inside_store store path)"
  have P: "outside_only P" by (simp add: outside_only_def P_def)
  have open_parts: "sn_files s = files \<and> sn_store s = store \<and> sn_mutating s = mutating"
    if "open_snapshot env turn files store clock mutating = Inr s" for s
    using open_snapshot_result(2,3,5) [OF that] by simp
  have recover: "spares P s t" if "session_recover env s = (t, q)" for s t q
    using keeps_at_state [OF recover_spares [OF P] that] .
  show "\<not> mutating \<Longrightarrow> files' = files"
    using assms by (auto simp: session_open_def split: sum.splits)
  show "\<not> inside_store store path \<Longrightarrow> files' path = files path"
    using assms open_parts
    by (auto simp: session_open_def split: sum.splits if_splits prod.splits
        dest!: recover) (auto simp: spares_def P_def)
  show "r = Inr s \<Longrightarrow> sn_files s = files' \<and> sn_store s = store \<and> sn_mutating s = mutating"
    using assms open_parts
    by (auto simp: session_open_def split: sum.splits if_splits prod.splits
        dest!: recover) (auto simp: spares_def P_def)
qed

lemma run_command_outside:
  assumes "\<not> inside_store store path" and "files path \<noteq> None \<or> path \<notin> command_outputs cmd"
    and "\<And>g. cmd \<noteq> OutsideChange g"
  shows "run_command env store files cmd path = files path"
proof (cases cmd)
  case (OutsideChange g)
  with assms(3) show ?thesis by blast
next
  case (SessionCommand turn clock mutating calls)
  obtain files' r where opened: "session_open env turn files store clock mutating = (files', r)" by fastforce
  note parts = session_open_spares [OF opened]
  show ?thesis
  proof (cases r)
    case (Inl e)
    with SessionCommand opened parts(2) [OF assms(1)] show ?thesis by simp
  next
    case (Inr s)
    define outputs where "outputs = \<Union>(call_outputs ` set calls)"
    have "spares (untouched outputs) s (run_calls env calls s)"
      by (rule run_calls_spares) (simp add: outputs_def)
    with assms SessionCommand parts(2) [OF assms(1)] parts(3) [OF Inr]
    have "sn_files (run_calls env calls s) path = files path"
      by (auto simp: spares_def untouched_def outputs_def split: if_splits)
    with SessionCommand opened Inr show ?thesis by simp
  qed
qed

text \<open>
  A session that does not mutate, whatever it is asked to do, changes no file.
\<close>

theorem read_only_sessions:
  "run_command env store files (SessionCommand turn clock False calls) = files"
proof -
  obtain files' r where opened: "session_open env turn files store clock False = (files', r)" by fastforce
  note parts = session_open_spares [OF opened]
  show ?thesis
  proof (cases r)
    case (Inl e)
    with opened parts(1) show ?thesis by simp
  next
    case (Inr s)
    define outputs where "outputs = \<Union>(call_outputs ` set calls)"
    have "spares (untouched outputs) s (run_calls env calls s)"
      by (rule run_calls_spares) (simp add: outputs_def)
    with opened Inr parts(1) parts(3) [OF Inr] show ?thesis
      by (auto simp: spares_def untouched_def)
  qed
qed

text \<open>
  C21. Over any run of sessions on a store, a file outside the store is never changed or removed
  once it exists, and a new one appears only at an output that an installation was asked to write.
\<close>

theorem files_outside_kept:
  assumes "\<not> inside_store store path"
    and "\<forall>cmd \<in> set cmds. \<forall>g. cmd \<noteq> OutsideChange g"
    and "files path \<noteq> None \<or> path \<notin> \<Union>(command_outputs ` set cmds)"
  shows "run_commands env store cmds files path = files path"
  using assms(2,3)
proof (induction cmds arbitrary: files)
  case Nil
  then show ?case by (simp add: run_commands_def)
next
  case (Cons cmd cmds)
  have step: "run_command env store files cmd path = files path"
    using assms(1) Cons.prems by (intro run_command_outside) auto
  with Cons.IH [of "run_command env store files cmd"] Cons.prems show ?case
    by (auto simp: run_commands_def)
qed

end
