(* ===== verification/TrustInstallation.thy ===== *)
theory TrustInstallation
  imports TrustOutcome
begin

text \<open>
  What an installation that succeeds has done, and what the recovery of an interrupted one decides.
\<close>

section \<open>Durable states\<close>

text \<open>The state file holds the state of the session.\<close>

definition durable :: "('db, 'z) session_env_scheme \<Rightarrow> session \<Rightarrow> bool" where
  "durable env s \<longleftrightarrow>
     (\<exists>bytes. se_state_bytes env (sn_state s) = Some bytes \<and>
        sn_files s (state_path (sn_store s)) = Some bytes)"

lemma save_durable:
  assumes "session_save env s = (t, Inr u)" and "sn_mutating s"
  shows "durable env t"
    and "path \<noteq> state_path (sn_store s) \<Longrightarrow> sn_files t path = sn_files s path"
proof -
  from assms obtain g where g: "next_generation (st_generation (sn_state s)) = Some g"
    by (auto simp: session_save_def op_bind_Inr_iff ok_iff)
  define st where
    "st = (sn_state s)\<lparr>st_generation := g, st_maximum_verification_time := session_time s\<rparr>"
  note save = session_save_result [OF assms(2) g, of env, folded st_def]
  from save assms(1) obtain bytes where enc: "encode_state env st = Inr bytes"
    and rep: "replace_file env bytes (s\<lparr>sn_state := st\<rparr>) = (t, Inr u)"
    by (cases "encode_state env st") auto
  from rep obtain files where "replace_state (se_system env (sn_turn s)) (sn_files s) (sn_store s) bytes
      = (files, Inr u)" and t: "t = s\<lparr>sn_state := st, sn_files := files, sn_turn := sn_turn s + 1\<rparr>"
    by (auto simp: replace_file_def split: prod.splits)
  with replace_state_Ok [of "se_system env (sn_turn s)" "sn_files s" "sn_store s" bytes u]
  have files: "files = (sn_files s)(state_path (sn_store s) \<mapsto> bytes)" by simp
  have "se_state_bytes env st = Some bytes"
    using enc by (auto simp: encode_state_def ok_iff)
  with t files show "durable env t" and
    "path \<noteq> state_path (sn_store s) \<Longrightarrow> sn_files t path = sn_files s path"
    by (simp_all add: durable_def)
qed

lemma export_receipt_parts:
  assumes "export_receipt env entry s = (t, r)"
  shows "\<exists>files. t = s\<lparr>sn_files := files\<rparr> \<and>
    files (state_path (sn_store s)) = sn_files s (state_path (sn_store s))"
proof -
  obtain key receipt where entry: "entry = (key, receipt)" by (cases entry)
  have "t = s \<or> (\<exists>bytes. t = s\<lparr>sn_files := (sn_files s)(receipt_path (sn_store s) key \<mapsto> bytes)\<rparr>)"
    using assms unfolding export_receipt_def entry prod.case
    by (auto simp: op_bind_def Let_def write_new_def split: sum.splits probe.splits prod.splits if_splits)
  then show ?thesis
  proof
    assume "t = s"
    then show ?thesis by (intro exI [of _ "sn_files s"]) simp
  next
    assume "\<exists>bytes. t = s\<lparr>sn_files := (sn_files s)(receipt_path (sn_store s) key \<mapsto> bytes)\<rparr>"
    then show ?thesis using receipt_not_state [of "sn_store s" key] by auto
  qed
qed

lemma export_each_parts:
  "export_each env es s = (t, r) \<Longrightarrow>
     \<exists>files. t = s\<lparr>sn_files := files\<rparr> \<and>
       files (state_path (sn_store s)) = sn_files s (state_path (sn_store s))"
proof (induction es arbitrary: s)
  case Nil
  then show ?case by (intro exI [of _ "sn_files s"]) simp
next
  case (Cons e es)
  obtain u q where e: "export_receipt env e s = (u, q)" by fastforce
  from export_receipt_parts [OF e] obtain files where u: "u = s\<lparr>sn_files := files\<rparr>"
    "files (state_path (sn_store s)) = sn_files s (state_path (sn_store s))" by blast
  show ?case
  proof (cases q)
    case (Inl x)
    with Cons.prems e u show ?thesis by (auto simp: op_bind_def)
  next
    case (Inr x)
    with Cons.prems e have "export_each env es u = (t, r)" by (simp add: op_bind_def)
    from Cons.IH [OF this] u show ?thesis by auto
  qed
qed

lemma export_receipts_parts:
  assumes "export_receipts env s = (t, r)"
  shows "sn_state t = sn_state s" and "durable env s \<Longrightarrow> durable env t"
    and "sn_store t = sn_store s" and "\<not> inside_store (sn_store s) path \<Longrightarrow> sn_files t path = sn_files s path"
proof -
  have "t = s \<or> export_each env (st_completed (sn_state s)) s = (t, r)"
    using assms by (auto simp: export_receipts_def op_bind_def split: sum.splits)
  then obtain files where "t = s\<lparr>sn_files := files\<rparr>"
    "files (state_path (sn_store s)) = sn_files s (state_path (sn_store s))"
    by (auto dest!: export_each_parts) (metis session.surjective session.update_convs(7))
  then show "sn_state t = sn_state s" and "durable env s \<Longrightarrow> durable env t" and "sn_store t = sn_store s"
    by (simp_all add: durable_def)
  define P where "P = (\<lambda>_ :: bool. \<lambda>store path. \<not> inside_store store path)"
  have "spares P s t"
    using keeps_at_state [OF export_spares assms] by (simp add: outside_only_def P_def)
  then show "\<not> inside_store (sn_store s) path \<Longrightarrow> sn_files t path = sn_files s path"
    by (simp add: spares_def P_def)
qed

section \<open>Published content\<close>

text \<open>The content of an installed database has the digest and the length of its descriptor.\<close>

definition content_matches :: "digest_fun \<Rightarrow> string \<Rightarrow> string \<Rightarrow> nat \<Rightarrow> bool" where
  "content_matches sha content digest len \<longleftrightarrow>
     bd_sha256_bytes sha content = digest \<and> length content = len"

lemma verify_installed_content:
  assumes "verify_installed_descriptor sha io files path expected = Inr u"
  shows "\<exists>content. files path = Some content \<and>
    content_matches sha content (cd_database_sha256 expected) (unat (cd_database_bytes expected))"
proof -
  from assms obtain content hash len where content: "files path = Some content"
    and hash: "hash_open_file_bounded sha (unat (cd_database_bytes expected)) [Some content, Some []]
       (pb_readable io) = Inr (hash, len)"
    and eq: "hash = cd_database_sha256 expected" "len = unat (cd_database_bytes expected)"
    unfolding verify_installed_descriptor_def by (auto simp: ok_iff)
  from hash have "hash = bd_sha256_bytes sha content" "len = length content"
    by (auto simp: hash_open_file_bounded_def ok_iff split: if_splits)
  with content eq show ?thesis by (simp add: content_matches_def)
qed

lemma publish_result:
  assumes "publish sha io files prepared output = (files', Inr u)"
  shows "files output = None" and "files' = files(output \<mapsto> pr_content prepared)"
    and "content_matches sha (pr_content prepared) (cd_database_sha256 (pr_descriptor prepared))
      (unat (cd_database_bytes (pr_descriptor prepared)))"
proof -
  from assms have *: "files' = files(output \<mapsto> pr_content prepared)"
    "verify_installed_descriptor sha io files' output (pr_descriptor prepared) = Inr ()"
    "\<exists>x. ensure_new_catalog_output io files output = Inr x"
    by (auto simp: publish_def Let_def ok_iff split: sum.splits if_splits)
  then show "files' = files(output \<mapsto> pr_content prepared)" by simp
  from *(3) show "files output = None"
    by (auto simp: ensure_new_catalog_output_def ok_iff dest: ensure_new_output_Ok)
  from verify_installed_content [OF *(2)] *(1)
  show "content_matches sha (pr_content prepared) (cd_database_sha256 (pr_descriptor prepared))
      (unat (cd_database_bytes (pr_descriptor prepared)))" by simp
qed

section \<open>Installation\<close>

lemma commit_install_result:
  assumes "commit_install env checkpoint prepared descriptor path receipt key s = (t, Inr receipt')"
    and "sn_mutating s" and outside: "\<not> inside_store (sn_store s) path"
  shows "receipt' = receipt\<lparr>rc_installation := ''complete''\<rparr>"
    and "sn_files s path = None" and "sn_files t path = Some (pr_content prepared)"
    and "content_matches (bn_sha (se_bundle env)) (pr_content prepared)
      (cd_database_sha256 (pr_descriptor prepared)) (unat (cd_database_bytes (pr_descriptor prepared)))"
    and "map_of (st_completed (sn_state t)) key = Some receipt'" and "st_pending (sn_state t) = None"
    and "durable env t"
    and "st_roles (sn_state t) = st_roles (sn_state s)" and "st_roots (sn_state t) = st_roots (sn_state s)"
    and "st_floors (sn_state t) = st_floors (sn_state s)" and "st_policy (sn_state t) = st_policy (sn_state s)"
proof -
  let ?mark = "\<lambda>s :: session. s\<lparr>sn_state := (sn_state s)\<lparr>st_pending :=
        Some \<lparr>pn_receipt = receipt, pn_descriptor = descriptor\<rparr>\<rparr>\<rparr>"
  let ?finish = "\<lambda>s :: session. s\<lparr>sn_state := finish_pending
        (Some (key, receipt\<lparr>rc_installation := ''complete''\<rparr>)) (sn_state s)\<rparr>"
  from assms(1) obtain a b c where
    save1: "session_save env (?mark s) = (a, Inr ())"
    and pub: "publish_file env prepared path a = (b, Inr ())"
    and save2: "session_save env (?finish b) = (c, Inr ())"
    and export: "export_receipts env c = (t, Inr ())"
    and receipt': "receipt' = receipt\<lparr>rc_installation := ''complete''\<rparr>"
    unfolding commit_install_def by (auto simp: op_bind_Inr_iff put_state_def)
  note a = session_save_parts [OF save1] and c = session_save_parts [OF save2]
    and t = export_receipts_parts [OF export]
  from output_not_state [OF outside] have ns: "path \<noteq> state_path (sn_store s)" .
  from pub obtain files where publish: "publish (bn_sha (se_bundle env)) (se_publish_io env (sn_turn a))
      (sn_files a) prepared path = (files, Inr ())" and b: "b = a\<lparr>sn_files := files\<rparr>"
    by (auto simp: publish_file_def bundle_result_def map_err_def split: prod.splits sum.splits)
  note pub = publish_result [OF publish]
  have fa: "sn_files a path = sn_files s path"
    using save_durable(2) [OF save1, of path] assms(2) ns by simp
  have fc: "sn_files c path = sn_files b path" and dc: "durable env c"
    using save_durable [OF save2] a b assms(2) ns by simp_all
  show "receipt' = receipt\<lparr>rc_installation := ''complete''\<rparr>" by (rule receipt')
  show "sn_files s path = None" using pub(1) fa by simp
  have "sn_store c = sn_store s" using a b c by simp
  then show "sn_files t path = Some (pr_content prepared)"
    using t(4) outside fc b pub(2) by simp
  show "content_matches (bn_sha (se_bundle env)) (pr_content prepared)
      (cd_database_sha256 (pr_descriptor prepared)) (unat (cd_database_bytes (pr_descriptor prepared)))"
    by (rule pub(3))
  show "durable env t" by (rule t(2) [OF dc])
  show "map_of (st_completed (sn_state t)) key = Some receipt'" and "st_pending (sn_state t) = None"
    and "st_roles (sn_state t) = st_roles (sn_state s)" and "st_roots (sn_state t) = st_roots (sn_state s)"
    and "st_floors (sn_state t) = st_floors (sn_state s)" and "st_policy (sn_state t) = st_policy (sn_state s)"
    using a b c t(1) receipt' by (simp_all add: finish_pending_def)
qed

lemma check_link_digest:
  assumes "check_link env link bytes = Inr u"
  shows "wire_string (vindex link ''hashes'') ''sha256'' = Ok (wire_digest env bytes)"
    and "wire_number link ''length'' 2097152 = Ok (length bytes)"
  using assms by (auto simp: check_link_def ok_iff split: if_splits)

lemma make_receipt_result:
  assumes "make_receipt env target parsed s = Inr r"
  shows "rc_scope r = target_scope target \<and> rc_release_sequence r = tt_release_sequence target \<and>
    rc_manifest_sha256 r = pm_manifest_sha256 parsed \<and>
    rc_database_sha256 r = cd_database_sha256 (bm_payload (pm_manifest parsed)) \<and>
    rc_database_bytes r = cd_database_bytes (bm_payload (pm_manifest parsed)) \<and>
    rc_clock r = sn_clock s \<and> rc_validation_authority r = ''human-only''"
  using assms unfolding make_receipt_def by (auto simp: ok_iff Let_def)

lemma pending_receipt_result:
  assumes "pending_receipt env target parsed output s = Inr r"
  shows "\<exists>r0 generation key. make_receipt env target parsed s = Inr r0 \<and>
    r = r0\<lparr>rc_operation := ''install'', rc_installation := ''pending'', rc_output := Some output,
           rc_reserves_acceptance := True, rc_state_generation := generation,
           rc_transaction_id := Some key\<rparr>"
  using assms unfolding pending_receipt_def by (auto simp: ok_iff Let_def)

lemma bundle_result_Ok [simp]: "bundle_result r = Inr x \<longleftrightarrow> r = Inr x"
  by (cases r) (simp_all add: bundle_result_def map_err_def)

lemma authenticate_result:
  assumes "authenticate env scope manifest targets s = Inr (parsed, target, policy)"
  shows "map_of targets (ts_profile scope) = Some target" and "target_scope target = scope"
    and "\<exists>raw rec tg. map_of (st_roles (sn_state s)) ''targets'' = Some rec \<and>
      envelope env (rr_raw rec) ''targets'' = Inr tg \<and>
      check_link env (target_entry tg target) raw = Inr () \<and>
      parse_manifest (se_bundle env) raw = Inr parsed"
    and "policy_allows (st_policy (sn_state s)) scope = Inr ()"
    and "bm_bundle_id (pm_manifest parsed) = tt_bundle_id target"
  using assms unfolding authenticate_def target_entry_def by (auto simp: ok_iff)

lemma prepare_result:
  assumes "prepare_trusted_install env io files directory ob parsed output policy = Inr prepared"
  shows "pr_descriptor prepared = bm_payload (pm_manifest parsed)"
  using assms by (auto simp: prepare_trusted_install_def ok_iff)

text \<open>
  The receipt of a completed installation, with the content it speaks of and the signed metadata
  that allowed it.
\<close>

definition receipt_authorized ::
  "('db, 'z) session_env_scheme \<Rightarrow> trust_state \<Rightarrow> trust_receipt \<Rightarrow> bool" where
  "receipt_authorized env st receipt \<longleftrightarrow>
     (\<exists>rec tg target. map_of (st_roles st) ''targets'' = Some rec \<and> envelope env (rr_raw rec) ''targets'' = Ok tg \<and>
        target_scope target = rc_scope receipt \<and> tt_release_sequence target = rc_release_sequence receipt \<and>
        wire_string (vindex (target_entry tg target) ''hashes'') ''sha256'' = Ok (rc_manifest_sha256 receipt) \<and>
        map_of (st_floors st) (tt_profile target) =
          Some \<lparr>fl_sequence = rc_release_sequence receipt,
                fl_manifest_sha256 = Some (rc_manifest_sha256 receipt)\<rparr>) \<and>
     policy_allows (st_policy st) (rc_scope receipt) = Ok ()"

text \<open>
  C4. An installation that returns a receipt has written to a path that did not exist the content
  with the digest and the length of the receipt; the manifest it comes from is the one whose digest
  a quorum signed and the floor now holds; the receipt is complete, in the durable state, and
  nothing is pending.
\<close>

theorem install_authorized:
  assumes "session_install env checkpoint dir scope manifest payload path s = (t, Ok receipt)"
    and "bn_sha (se_bundle env) = we_sha env"
  shows "sn_files s path = None \<and>
    (\<exists>content. sn_files t path = Some content \<and>
       content_matches (we_sha env) content (rc_database_sha256 receipt) (unat (rc_database_bytes receipt))) \<and>
    metadata_accepted env (sn_clock s) (sn_state t) \<and> receipt_authorized env (sn_state t) receipt \<and>
    rc_scope receipt = scope \<and> rc_output receipt = Some path \<and> rc_installation receipt = ''complete'' \<and>
    (\<exists>key. rc_transaction_id receipt = Some key \<and> map_of (st_completed (sn_state t)) key = Some receipt) \<and>
    st_pending (sn_state t) = None \<and> durable env t"
proof -
  from assms(1) obtain targets a parsed target policy prepared r key where
    mut: "sn_mutating s" and check: "check_output env path s = Inr ()"
    and import: "import_metadata env dir False s = (a, Inr targets)"
    and auth: "authenticate env scope manifest targets a = Inr (parsed, target, policy)"
    and prep: "bundle_result (prepare_trusted_install (se_bundle env)
        (se_publish_io env (sn_turn a)) (sn_files a) (se_private_temp env (sn_turn a))
        (se_opened env (sn_turn a) payload) parsed path policy) = Inr prepared"
    and pend: "pending_receipt env target parsed path a = Inr r"
    and res: "reserve_completion env r a = Inr key"
    and commit: "commit_install env checkpoint prepared (bm_payload (pm_manifest parsed)) path r key a
        = (t, Inr receipt)"
    unfolding session_install_def by (auto simp: op_bind_Inr_iff ok_iff)
  have outside: "\<not> inside_store (sn_store s) path" using check by (auto simp: check_output_def ok_iff)
  note a = import_metadata_result [OF import]
  note auth = authenticate_result [OF auth]
  from pending_receipt_result [OF pend] obtain r0 g k where r0: "make_receipt env target parsed a = Inr r0"
    and r: "r = r0\<lparr>rc_operation := ''install'', rc_installation := ''pending'', rc_output := Some path,
           rc_reserves_acceptance := True, rc_state_generation := g, rc_transaction_id := Some k\<rparr>" by blast
  from res have key: "rc_transaction_id r = Some key" by (auto simp: reserve_completion_def ok_iff)
  have desc: "pr_descriptor prepared = bm_payload (pm_manifest parsed)"
    using prep by (auto dest!: prepare_result)
  have mut_a: "sn_mutating a" and out_a: "\<not> inside_store (sn_store a) path" using a mut outside by simp_all
  note c = commit_install_result [OF commit mut_a out_a]
  note m = make_receipt_result [OF r0]
  define P where "P = (\<lambda>_ :: bool. \<lambda>store path. \<not> inside_store store path)"
  have "spares P s a"
    using keeps_at_state [OF import_metadata_spares import] by (simp add: sparing_def P_def)
  then have none: "sn_files s path = None" using c(2) outside by (simp add: spares_def P_def)
  have content: "content_matches (we_sha env) (pr_content prepared) (rc_database_sha256 receipt)
      (unat (rc_database_bytes receipt))"
    using c(1,4) desc m r assms(2) by simp
  have same: "current_root env (sn_state t) = current_root env (sn_state a)"
    using c(9,11) by (rule current_root_cong)
  have accepted: "metadata_accepted env (sn_clock s) (sn_state t)"
    using a(1) same c(8,11) unfolding metadata_accepted_def role_accepted_def by simp
  from auth(3) obtain raw rec tg where rec: "map_of (st_roles (sn_state a)) ''targets'' = Some rec"
    and tg: "envelope env (rr_raw rec) ''targets'' = Inr tg"
    and link: "check_link env (target_entry tg target) raw = Inr ()"
    and parse: "parse_manifest (se_bundle env) raw = Inr parsed" by blast
  have digest: "pm_manifest_sha256 parsed = wire_digest env raw"
    using parse assms(2) by (auto simp: parse_manifest_def ok_iff bd_sha256_bytes_def wire_digest_def)
  from a(2) rec tg auth(1) have floor: "map_of (st_floors (sn_state a)) (tt_profile target)
      = Some \<lparr>fl_sequence = tt_release_sequence target, fl_manifest_sha256 = Some (wire_digest env raw)\<rparr>"
    using check_link_digest(1) [OF link] unfolding targets_floored_def by fastforce
  have authorized: "receipt_authorized env (sn_state t) receipt"
    unfolding receipt_authorized_def
    using rec tg floor check_link_digest(1) [OF link] auth(2,4) c(1,8,10,11) m r digest
    by (auto intro!: exI [of _ tg] exI [of _ target])
  show ?thesis
    using none c(3) content accepted authorized c(1,5,6,7) m r key auth(2) by auto
qed

section \<open>Recovery\<close>

lemma recover_pending_decides:
  assumes "recover_pending env s pending = Inr done"
  shows "\<exists>path. rc_output (pn_receipt pending) = Some path \<and>
    (case sn_files s path of
       None \<Rightarrow> done = None
     | Some content \<Rightarrow>
         content_matches (bn_sha (se_bundle env)) content (rc_database_sha256 (pn_receipt pending))
           (unat (rc_database_bytes (pn_receipt pending))) \<and>
         (\<exists>key. rc_transaction_id (pn_receipt pending) = Some key \<and>
            done = Some (key, (pn_receipt pending)\<lparr>rc_installation := ''complete''\<rparr>)))"
proof -
  let ?sys = "se_system env (sn_turn s)" and ?io = "se_publish_io env (sn_turn s)"
    and ?receipt = "pn_receipt pending" and ?descriptor = "pn_descriptor pending"
  from assms obtain path where same: "rc_database_sha256 ?receipt = cd_database_sha256 ?descriptor"
      "rc_database_bytes ?receipt = cd_database_bytes ?descriptor"
    and path: "rc_output ?receipt = Some path"
    and rest: "(case symlink_metadata ?io (sn_files s) path of
           ProbeFound \<Rightarrow>
             and_then (checked_path ?sys path) (\<lambda>_.
             and_then (map_err (\<lambda>_. TRUST_STATE)
               (verify_installed_descriptor (bn_sha (se_bundle env)) ?io (sn_files s) path ?descriptor)) (\<lambda>_.
             and_then (require (pb_synced ?io) TRUST_FILESYSTEM) (\<lambda>_.
             and_then (sync_parent ?sys path) (\<lambda>_.
             and_then (ok_or (rc_transaction_id ?receipt) TRUST_STATE) (\<lambda>key.
               Ok (Some (key, ?receipt\<lparr>rc_installation := ''complete''\<rparr>)))))))
         | ProbeMissing \<Rightarrow> Ok None
         | ProbeFailed \<Rightarrow> Err TRUST_STATE) = Inr done"
    unfolding recover_pending_def Let_def by (auto simp: ok_iff)
  show ?thesis
  proof (cases "symlink_metadata ?io (sn_files s) path")
    case ProbeFound
    with rest obtain key where verified: "verify_installed_descriptor (bn_sha (se_bundle env)) ?io
        (sn_files s) path ?descriptor = Inr ()"
      and key: "rc_transaction_id ?receipt = Some key"
        "done = Some (key, ?receipt\<lparr>rc_installation := ''complete''\<rparr>)"
      by (auto simp: ok_iff map_err_def split: sum.splits)
    from verify_installed_content [OF verified] key same path show ?thesis by auto
  next
    case ProbeMissing
    then have "sn_files s path = None" by (simp add: symlink_metadata_def split: if_splits)
    with ProbeMissing rest path show ?thesis by simp
  next
    case ProbeFailed
    with rest show ?thesis by simp
  qed
qed

lemma session_recover_result:
  assumes "session_recover env s = (t, Inr u)" and "sn_mutating s"
    and pending: "st_pending (sn_state s) = Some pending"
  shows "\<exists>done. recover_pending env s pending = Inr done \<and> st_pending (sn_state t) = None \<and>
    st_completed (sn_state t) = st_completed (finish_pending done (sn_state s)) \<and> durable env t \<and>
    st_roles (sn_state t) = st_roles (sn_state s) \<and> st_floors (sn_state t) = st_floors (sn_state s)"
proof -
  from assms obtain "done" a where rec: "recover_pending env s pending = Inr done"
    and save: "session_save env (s\<lparr>sn_state := finish_pending done (sn_state s)\<rparr>) = (a, Inr ())"
    and export: "export_receipts env a = (t, Inr u)"
    unfolding session_recover_def by (auto simp: op_bind_Inr_iff put_state_def)
  note a = session_save_parts [OF save] and t = export_receipts_parts [OF export]
  have "durable env t" using t(2) save_durable(1) [OF save] assms(2) by simp
  with rec a t(1) show ?thesis
    by (intro exI [of _ "done"]) (auto simp: finish_pending_def split: option.split)
qed

text \<open>
  C14. Opening a store for change settles the installation that was interrupted: when its output
  does not exist the journal entry is dropped; when it exists, it has exactly the verified content
  and the receipt is complete; in both cases nothing is pending any more in the durable state. A
  file with any other content makes the opening fail.
\<close>

theorem recovery_settles_pending:
  assumes "session_open env turn files store clock True = (files', Ok s)"
    and "load_state env turn files store = Ok st" and "st_pending st = Some pending"
  shows "st_pending (sn_state s) = None \<and> durable env s \<and>
    st_roles (sn_state s) = st_roles st \<and> st_floors (sn_state s) = st_floors st \<and>
    (\<exists>path. rc_output (pn_receipt pending) = Some path \<and>
       (case files path of
          None \<Rightarrow> st_completed (sn_state s) = st_completed st
        | Some content \<Rightarrow>
            content_matches (bn_sha (se_bundle env)) content (rc_database_sha256 (pn_receipt pending))
              (unat (rc_database_bytes (pn_receipt pending))) \<and>
            (\<exists>key. rc_transaction_id (pn_receipt pending) = Some key \<and>
               map_of (st_completed (sn_state s)) key =
                 Some ((pn_receipt pending)\<lparr>rc_installation := ''complete''\<rparr>))))"
proof -
  from assms(1) obtain s0 where opened: "open_snapshot env turn files store clock True = Inr s0"
    and rec: "session_recover env s0 = (s, Inr ())"
    unfolding session_open_def by (auto split: sum.splits prod.splits)
  from opened assms(2) have s0: "sn_state s0 = st" "sn_files s0 = files" "sn_mutating s0"
    unfolding open_snapshot_def by (auto simp: ok_iff)
  from session_recover_result [OF rec s0(3)] assms(3) s0(1) obtain "done" where
    decided: "recover_pending env s0 pending = Inr done" and
    result: "st_pending (sn_state s) = None" "st_completed (sn_state s) = st_completed (finish_pending done st)"
      "durable env s" "st_roles (sn_state s) = st_roles st" "st_floors (sn_state s) = st_floors st"
    by auto
  from recover_pending_decides [OF decided] s0(2) obtain path where
    path: "rc_output (pn_receipt pending) = Some path" and
    by_file: "case files path of None \<Rightarrow> done = None
      | Some content \<Rightarrow>
         content_matches (bn_sha (se_bundle env)) content (rc_database_sha256 (pn_receipt pending))
           (unat (rc_database_bytes (pn_receipt pending))) \<and>
         (\<exists>key. rc_transaction_id (pn_receipt pending) = Some key \<and>
            done = Some (key, (pn_receipt pending)\<lparr>rc_installation := ''complete''\<rparr>))" by auto
  show ?thesis
    using result path by_file
    by (cases "files path") (auto simp: finish_pending_def)
qed

section \<open>Status\<close>

text \<open>A role that is retained, parses, was signed by a quorum of the root and is current.\<close>

definition role_current ::
  "('z) wire_env_scheme \<Rightarrow> jvalue \<Rightarrow> session \<Rightarrow> string \<Rightarrow> bool" where
  "role_current env root s role \<longleftrightarrow>
     (\<exists>rec v ids. map_of (st_roles (sn_state s)) role = Some rec \<and> envelope env (rr_raw rec) role = Ok v \<and>
        quorum env root v role ids \<and> expiry env (st_policy (sn_state s)) (sn_clock s) v role = Ok ())"

lemma code_of_Nil: "code_of r = [] \<longleftrightarrow> (\<exists>x. r = Inr x)"
  by (cases r) (simp_all add: code_of_def)

lemma status_roles_accept:
  "status_roles env s receipt root now db roles = Inr [] \<Longrightarrow> role \<in> set roles \<Longrightarrow>
     role_current env root s role \<and>
     (role = ''targets'' \<longrightarrow> (\<exists>rec v. map_of (st_roles (sn_state s)) ''targets'' = Some rec \<and>
        envelope env (rr_raw rec) ''targets'' = Inr v \<and> receipt_target_matches env receipt v))"
proof (induction roles arbitrary: db)
  case Nil
  then show ?case by simp
next
  case (Cons r rest)
  from Cons.prems(1) obtain rec v db' where rec: "map_of (st_roles (sn_state s)) r = Some rec"
    and v: "envelope env (rr_raw rec) r = Inr v"
    and signers: "code_of (strict_signers env root v r) = []"
    and fresh: "code_of (session_expiry env v r s) = []"
    and target: "r = ''targets'' \<longrightarrow> receipt_target_matches env receipt v"
    and rest: "status_roles env s receipt root now db' rest = Inr []"
    by (auto simp: ok_iff Let_def split: option.splits if_splits)
  from signers obtain ids where "strict_signers env root v r = Inr ids" by (auto simp: code_of_Nil)
  with envelope_quorum [OF v] have "quorum env root v r ids" by blast
  moreover from fresh have "expiry env (st_policy (sn_state s)) (sn_clock s) v r = Inr ()"
    by (auto simp: code_of_Nil session_expiry_def)
  ultimately have "role_current env root s r" using rec v unfolding role_current_def by blast
  with Cons.IH [OF rest] Cons.prems(2) rec v target show ?case by auto
qed

lemma status_links_accept:
  assumes "status_links env st = Inr []"
    and "map_of (st_roles st) ''timestamp'' = Some ts" and "map_of (st_roles st) ''snapshot'' = Some sn"
    and "map_of (st_roles st) ''targets'' = Some tg"
  shows "\<exists>t n. envelope env (rr_raw ts) ''timestamp'' = Inr t \<and> envelope env (rr_raw sn) ''snapshot'' = Inr n \<and>
    check_link env (vpath t [''signed'', ''meta'', ''snapshot.json'']) (rr_raw sn) = Inr () \<and>
    check_link env (vpath n [''signed'', ''meta'', ''targets.json'']) (rr_raw tg) = Inr ()"
  using assms by (auto simp: status_links_def ok_iff code_of_Nil)

text \<open>
  C15. A status that reports no failure is about a receipt that is completed in the state, with no
  installation pending; every role is there, current and signed by a quorum of the current root,
  the roles link to each other, the signed target is the receipt's, and the floor of its profile
  is still the sequence and the manifest that were installed.
\<close>

theorem status_accepts_current:
  assumes "session_status env file s = Ok (failures, receipt)" and "status_accepts (failures, receipt)"
  shows "(\<exists>key. rc_transaction_id receipt = Some key \<and> map_of (st_completed (sn_state s)) key = Some receipt) \<and>
    st_pending (sn_state s) = None \<and>
    map_of (st_floors (sn_state s)) (ts_profile (rc_scope receipt)) =
      Some \<lparr>fl_sequence = rc_release_sequence receipt, fl_manifest_sha256 = Some (rc_manifest_sha256 receipt)\<rparr> \<and>
    (\<exists>root db. current_root env (sn_state s) = Ok (root, db) \<and>
       expiry env (st_policy (sn_state s)) (sn_clock s) root ''root'' = Ok () \<and>
       (\<forall>role \<in> set [''timestamp'', ''snapshot'', ''targets'']. role_current env root s role)) \<and>
    (\<exists>rec v. map_of (st_roles (sn_state s)) ''targets'' = Some rec \<and>
       envelope env (rr_raw rec) ''targets'' = Ok v \<and> receipt_target_matches env receipt v) \<and>
    (\<exists>ts sn tg t n. map_of (st_roles (sn_state s)) ''timestamp'' = Some ts \<and>
       map_of (st_roles (sn_state s)) ''snapshot'' = Some sn \<and> map_of (st_roles (sn_state s)) ''targets'' = Some tg \<and>
       envelope env (rr_raw ts) ''timestamp'' = Ok t \<and> envelope env (rr_raw sn) ''snapshot'' = Ok n \<and>
       check_link env (vpath t [''signed'', ''meta'', ''snapshot.json'']) (rr_raw sn) = Ok () \<and>
       check_link env (vpath n [''signed'', ''meta'', ''targets.json'']) (rr_raw tg) = Ok ())"
proof -
  from assms have none: "failures = []" by (simp add: status_accepts_def)
  from assms(1) [unfolded none] obtain key root db now floor where
    key: "rc_transaction_id receipt = Some key" "map_of (st_completed (sn_state s)) key = Some receipt"
    and root: "current_root env (sn_state s) = Inr (root, db)"
    and fresh: "code_of (session_expiry env root ''root'' s) = []"
    and roles: "status_roles env s receipt root now db [''timestamp'', ''snapshot'', ''targets''] = Inr []"
    and floor: "map_of (st_floors (sn_state s)) (ts_profile (rc_scope receipt)) = Some floor"
      "fl_sequence floor = rc_release_sequence receipt"
      "fl_manifest_sha256 floor = Some (rc_manifest_sha256 receipt)"
    and links: "status_links env (sn_state s) = Inr []"
    and pending: "st_pending (sn_state s) = None"
    unfolding session_status_def Let_def by (auto simp: ok_iff split: if_splits)
  have current: "role_current env root s role" if "role \<in> set [''timestamp'', ''snapshot'', ''targets'']" for role
    using status_roles_accept [OF roles that] by blast
  from current [of "''timestamp''"] current [of "''snapshot''"] current [of "''targets''"] obtain ts sn tg where
    recs: "map_of (st_roles (sn_state s)) ''timestamp'' = Some ts"
      "map_of (st_roles (sn_state s)) ''snapshot'' = Some sn" "map_of (st_roles (sn_state s)) ''targets'' = Some tg"
    by (auto simp: role_current_def)
  have target: "\<exists>rec v. map_of (st_roles (sn_state s)) ''targets'' = Some rec \<and>
       envelope env (rr_raw rec) ''targets'' = Ok v \<and> receipt_target_matches env receipt v"
    using status_roles_accept [OF roles, of "''targets''"] by auto
  from fresh have root_fresh: "expiry env (st_policy (sn_state s)) (sn_clock s) root ''root'' = Ok ()"
    by (auto simp: code_of_Nil session_expiry_def)
  have same: "floor = \<lparr>fl_sequence = rc_release_sequence receipt,
      fl_manifest_sha256 = Some (rc_manifest_sha256 receipt)\<rparr>"
    using floor(2,3) by (cases floor) simp
  show ?thesis
    using key pending floor(1) [unfolded same] root root_fresh current target recs
      status_links_accept [OF links recs] by blast
qed

end
