(* ===== verification/BundleFacts.thy ===== *)
theory BundleFacts
  imports BundleInstall
begin

text \<open>
  What a manifest that passes the validation guarantees, and what a decompressed bundle is: the
  bytes the manifest describes, within the bounds of the policy and of the compression ratio.
\<close>

section \<open>Bounded reading and decompression\<close>

lemma bounded_reads_bound:
  "bounded_reads maximum bytes rs = Inr result \<Longrightarrow> length bytes \<le> maximum \<Longrightarrow> length result \<le> maximum"
  by (induction maximum bytes rs rule: bounded_reads.induct) (auto split: if_splits)

lemma decompress_loop_bound:
  "decompress_loop expected maximum bytes rs = Inr result \<Longrightarrow> length bytes \<le> min expected maximum \<Longrightarrow>
     length result \<le> min expected maximum"
  by (induction expected maximum bytes rs rule: decompress_loop.induct) (auto split: if_splits)

text \<open>The largest database that the ratio allows for a compressed file.\<close>

definition ratio_bound :: "nat \<Rightarrow> nat" where
  "ratio_bound compressed =
     compressed * unat MAX_BUNDLE_COMPRESSION_RATIO + unat COMPRESSION_RATIO_SLACK"

lemma saturating_mul_le: "unat (saturating_mul a b) \<le> unat a * unat b"
proof (cases "unat a * unat b < 2 ^ 64")
  case True
  then show ?thesis by (simp add: saturating_mul_def unat_word_ariths)
next
  case False
  moreover have "unat (saturating_mul a b) < 2 ^ LENGTH(64)"
    by (rule unsigned_less)
  then have "unat (saturating_mul a b) < 2 ^ 64" by simp
  ultimately show ?thesis by linarith
qed

lemma valid_manifest_ratio:
  assumes "validate_bundle_manifest env m = Inr u"
  shows "unat (cd_database_bytes (bm_payload m)) \<le> ratio_bound (unat (bm_compressed_bytes m))"
proof -
  from assms have "cd_database_bytes (bm_payload m) \<le>
      saturating_add (saturating_mul (bm_compressed_bytes m) MAX_BUNDLE_COMPRESSION_RATIO)
        COMPRESSION_RATIO_SLACK"
    unfolding validate_bundle_manifest_def manifest_refused_def by (simp add: ok_iff not_less)
  then have "unat (cd_database_bytes (bm_payload m)) \<le>
      unat (saturating_mul (bm_compressed_bytes m) MAX_BUNDLE_COMPRESSION_RATIO)
        + unat COMPRESSION_RATIO_SLACK"
    by (simp add: word_le_nat_alt saturating_add_unat)
  with saturating_mul_le [of "bm_compressed_bytes m" MAX_BUNDLE_COMPRESSION_RATIO] show ?thesis
    unfolding ratio_bound_def by linarith
qed

text \<open>
  C28. A bundle that is decompressed is exactly what its manifest says: the compressed bytes and the
  database have the lengths and the digests it states, the database stays within the bound of the
  policy and within the ratio to the compressed size, and opening it as a catalog gave the
  descriptor of the manifest.
\<close>

theorem decompress_verified:
  assumes "decompress_opened env ob parsed policy = Ok (verification, bytes)"
  shows "bd_sha256_bytes (bn_sha env) bytes = cd_database_sha256 (bm_payload (pm_manifest parsed)) \<and>
    length bytes = unat (cd_database_bytes (bm_payload (pm_manifest parsed))) \<and>
    length bytes \<le> unat (vp_max_database_bytes policy) \<and>
    (\<exists>compressed. bounded_reads (unat (bm_compressed_bytes (pm_manifest parsed))) [] (ob_reads ob) = Ok compressed \<and>
       bd_sha256_bytes (bn_sha env) compressed = bm_compressed_sha256 (pm_manifest parsed) \<and>
       length compressed = unat (bm_compressed_bytes (pm_manifest parsed)) \<and>
       length bytes \<le> ratio_bound (length compressed)) \<and>
    describe_database_with_digest (ob_database ob) (bd_sha256_bytes (bn_sha env) bytes)
      (of_nat (length bytes)) = Ok (bm_payload (pm_manifest parsed))"
proof -
  let ?m = "pm_manifest parsed"
  from assms obtain authenticity hash len where
    policy: "validate_policy env parsed policy = Inr authenticity"
    and read: "hash_open_file_bounded (bn_sha env) (unat (bm_compressed_bytes ?m)) (ob_reads ob)
      (ob_rewound ob) = Inr (hash, len)"
    and len: "len = unat (bm_compressed_bytes ?m)" and hash: "hash = bm_compressed_sha256 ?m"
    and loop: "decompress_loop (unat (cd_database_bytes (bm_payload ?m)))
      (unat (vp_max_database_bytes policy)) [] (ob_chunks ob) = Inr bytes"
    and size: "length bytes = unat (cd_database_bytes (bm_payload ?m))"
    and digest: "bd_sha256_bytes (bn_sha env) bytes = cd_database_sha256 (bm_payload ?m)"
    and described: "describe_database_with_digest (ob_database ob) (bd_sha256_bytes (bn_sha env) bytes)
      (of_nat (length bytes)) = Inr (bm_payload ?m)"
    unfolding decompress_opened_def Let_def by (auto simp: ok_iff)
  from read obtain compressed where
    compressed: "bounded_reads (unat (bm_compressed_bytes ?m)) [] (ob_reads ob) = Inr compressed"
      "hash = bd_sha256_bytes (bn_sha env) compressed" "len = length compressed"
    unfolding hash_open_file_bounded_def by (auto simp: ok_iff)
  from policy have "validate_bundle_manifest env ?m = Inr ()"
    unfolding validate_policy_def by (auto simp: ok_iff)
  from valid_manifest_ratio [OF this] decompress_loop_bound [OF loop] compressed len hash size digest described
  show ?thesis by auto
qed

section \<open>Identity of bundles\<close>

text \<open>What the identifier of a bundle is the digest of.\<close>

definition id_material :: "catalog_bundle_manifest \<Rightarrow> string" where
  "id_material m = hashed_fields
     [''secureflow-catalog-bundle-id-v1'', profile_name (bm_profile m), bm_compressed_sha256 m,
      cd_database_sha256 (bm_payload m), cd_database_sha256 (bm_origin m)]"

lemma profile_name_inj: "profile_name p = profile_name q \<Longrightarrow> p = q"
  by (cases p; cases q) simp_all

lemma valid_manifest_parts:
  assumes "validate_bundle_manifest env m = Inr u"
  shows "bm_bundle_id m = ''sf_catalog_bundle_'' @ encode_hex (bn_sha env (id_material m))"
    and "length (bm_compressed_sha256 m) = 64" and "length (cd_database_sha256 (bm_payload m)) = 64"
    and "length (cd_database_sha256 (bm_origin m)) = 64"
  using assms
  unfolding validate_bundle_manifest_def manifest_refused_def validate_database_descriptor_def
    bd_valid_sha256_def calculate_bundle_id_def id_material_def
  by (simp_all add: ok_iff)

lemma bundle_id_material:
  assumes valid: "validate_bundle_manifest env m = Inr u" "validate_bundle_manifest env m' = Inr u'"
    and inj: "inj_on (bn_sha env) {id_material m, id_material m'}" and id: "bm_bundle_id m = bm_bundle_id m'"
  shows "id_material m = id_material m'"
proof -
  from valid_manifest_parts(1) [OF valid(1)] valid_manifest_parts(1) [OF valid(2)] id
  have "encode_hex (bn_sha env (id_material m)) = encode_hex (bn_sha env (id_material m'))" by simp
  then have "bn_sha env (id_material m) = bn_sha env (id_material m')" by (rule hex.enc_inj)
  from inj_onD [OF inj this] show ?thesis by simp
qed

text \<open>
  The identifier of a bundle commits to its profile and to the digests of the compressed file,
  of its database and of the catalog it was made from, when the digest does not collide on what
  was hashed.
\<close>

theorem bundle_id_commits:
  assumes "validate_bundle_manifest env m = Ok ()" and "validate_bundle_manifest env m' = Ok ()"
    and "inj_on (bn_sha env) {id_material m, id_material m'}" and "bm_bundle_id m = bm_bundle_id m'"
  shows "bm_profile m = bm_profile m' \<and> bm_compressed_sha256 m = bm_compressed_sha256 m' \<and>
    cd_database_sha256 (bm_payload m) = cd_database_sha256 (bm_payload m') \<and>
    cd_database_sha256 (bm_origin m) = cd_database_sha256 (bm_origin m')"
proof -
  have short: "length (profile_name p) \<le> 64" for p by (cases p) simp_all
  note parts = valid_manifest_parts [OF assms(1)] valid_manifest_parts [OF assms(2)]
  let ?id = "\<lambda>m. [''secureflow-catalog-bundle-id-v1'', profile_name (bm_profile m),
    bm_compressed_sha256 m, cd_database_sha256 (bm_payload m), cd_database_sha256 (bm_origin m)]"
  have "?id m = ?id m'"
  proof (rule hashed_fields_inj)
    show "\<forall>v \<in> set (?id m) \<union> set (?id m'). length v < 2 ^ 64"
    proof
      fix v
      assume "v \<in> set (?id m) \<union> set (?id m')"
      then have "length v \<le> 64"
        using parts(2,3,4,6,7,8) short [of "bm_profile m"] short [of "bm_profile m'"] by auto
      also have "(64 :: nat) < 2 ^ 64" by simp
      finally show "length v < 2 ^ 64" .
    qed
    show "hashed_fields (?id m) = hashed_fields (?id m')"
      using bundle_id_material [OF assms] unfolding id_material_def .
  qed
  then show ?thesis by (auto dest: profile_name_inj)
qed

section \<open>Projected profiles\<close>

lemma expected_sources_Some:
  "expected_sources profile ss = Some ts \<Longrightarrow>
     ts = map (projected_source profile) (filter (\<lambda>s. declared_profile s = Some profile) ss) \<and>
     (\<forall>s \<in> set ss. source_is_consistent s)"
  by (induction ss arbitrary: ts) (auto split: if_splits)

lemma validate_sources_sorted:
  "validate_sources previous names totals ss = Inr u \<Longrightarrow>
     sorted_wrt (<) (map so_name ss) \<and> (\<forall>p. previous = Some p \<longrightarrow> (\<forall>s \<in> set ss. p < so_name s))"
proof (induction previous names totals ss arbitrary: u rule: validate_sources.induct)
  case 1
  then show ?case by simp
next
  case (2 previous names advisory malicious unclassified s ss)
  from "2.prems" have ok: "\<not> source_refused previous s"
    and rest: "sorted_wrt (<) (map so_name ss)" "\<forall>t \<in> set ss. so_name s < so_name t"
    using "2.IH" by (auto split: if_splits)
  from ok have "\<forall>p. previous = Some p \<longrightarrow> p < so_name s"
    by (auto simp: source_refused_def not_le)
  with rest show ?case by (auto dest: less_trans)
qed

text \<open>The sources of a projection, and the records each may count.\<close>

definition profile_sources :: "catalog_profile \<Rightarrow> catalog_composition_source list \<Rightarrow> bool" where
  "profile_sources profile ss \<longleftrightarrow>
     sorted_wrt (<) (map so_name ss) \<and>
     (\<forall>s \<in> set ss. declared_profile s = Some profile \<and> so_active_unclassified_records s = 0 \<and>
        (profile = ProfileCore \<longrightarrow> so_active_advisory_records s \<noteq> 0 \<and> so_active_malicious_package_records s = 0) \<and>
        (profile = ProfileMalicious \<longrightarrow>
           so_active_advisory_records s = 0 \<and> so_active_malicious_package_records s \<noteq> 0))"

lemma declared_projected [simp]: "declared_profile (projected_source p s) = declared_profile s"
  by (simp add: declared_profile_def recognized_source_profile_def projected_source_def declares_def)

text \<open>
  A manifest of the profile core or malicious that passes the validation projects exactly the
  sources of its origin that declare the profile, in order: a core bundle counts no malicious
  package record and a malicious bundle no advisory, and no source of the origin mixes the two.
\<close>

theorem projected_bundle_profile:
  assumes "validate_bundle_manifest env m = Ok ()" and "bm_profile m \<noteq> ProfileFull"
  shows "cc_sources (cd_composition (bm_payload m)) =
      map (projected_source (bm_profile m))
        (filter (\<lambda>s. declared_profile s = Some (bm_profile m)) (cc_sources (cd_composition (bm_origin m)))) \<and>
    profile_sources (bm_profile m) (cc_sources (cd_composition (bm_payload m))) \<and>
    (\<forall>s \<in> set (cc_sources (cd_composition (bm_origin m))). source_is_consistent s)"
proof -
  let ?p = "bm_profile m" and ?payload = "cc_sources (cd_composition (bm_payload m))"
    and ?origin = "cc_sources (cd_composition (bm_origin m))"
  from assms have profile: "validate_profile ?p (bm_derivation m) (bm_payload m) (bm_origin m) = Inr ()"
    and payload: "validate_database_descriptor (bm_payload m) MAX_BUNDLE_DATABASE_BYTES = Inr ()"
    unfolding validate_bundle_manifest_def by (simp_all add: ok_iff)
  from profile assms(2) have "projection_matches_origin ?p (cd_composition (bm_payload m)) (cd_composition (bm_origin m))"
    by (cases ?p) (simp_all add: validate_profile_def ok_iff Let_def)
  with assms(2) have "expected_sources ?p ?origin = Some ?payload"
    by (cases ?p) (simp_all add: projection_matches_origin_def)
  note sources = expected_sources_Some [OF this]
  from payload obtain totals where "validate_sources None [] (0, 0, 0) ?payload = Inr totals"
    unfolding validate_database_descriptor_def validate_composition_def by (auto simp: ok_iff)
  from validate_sources_sorted [OF this] have sorted: "sorted_wrt (<) (map so_name ?payload)" by simp
  have "declared_profile s = Some ?p \<and> so_active_unclassified_records s = 0 \<and>
      (?p = ProfileCore \<longrightarrow> so_active_advisory_records s \<noteq> 0 \<and> so_active_malicious_package_records s = 0) \<and>
      (?p = ProfileMalicious \<longrightarrow> so_active_advisory_records s = 0 \<and> so_active_malicious_package_records s \<noteq> 0)"
    if "s \<in> set ?payload" for s
  proof -
    from that sources obtain o' where o': "s = projected_source ?p o'" "declared_profile o' = Some ?p"
      "source_is_consistent o'" by auto
    show ?thesis
      unfolding o'(1) declared_projected using o'(2,3) assms(2)
      by (cases ?p) (simp_all add: source_is_consistent_def projected_source_def)
  qed
  then have "profile_sources ?p ?payload" using sorted unfolding profile_sources_def by blast
  with sources show ?thesis by blast
qed

end
