(* ===== verification/TrustSamples.thy ===== *)
theory TrustSamples
  imports TrustInstallation BundleFacts WireFacts
begin

text \<open>
  A small publisher and a small store, on which the theorems about the catalog trust are applied:
  ten keys, one root, one timestamp, snapshot and targets file, a core bundle with one source, and
  a file system that works. Every signature verifies, and digests differ in the last character of
  what was hashed.
\<close>

section \<open>Texts of values\<close>

fun raw_of :: "jvalue \<Rightarrow> raw_json" where
  "raw_of VNull = RNull"
| "raw_of (VBool b) = RBool b"
| "raw_of (VNum n) = (if 0 \<le> n then RU64 (of_int n) else RI64 (of_int n))"
| "raw_of (VStr s) = RString s"
| "raw_of (VArr vs) = RArray (map raw_of vs)"
| "raw_of (VObj m) = RObject (map (\<lambda>e. (fst e, raw_of (snd e))) m)"

lemma bt_collect_wf: "bt_wf m \<Longrightarrow> bt_collect m = m"
proof -
  assume wf: "bt_wf m"
  have "map_of (foldl (\<lambda>m (k, v). bt_insert k v m) n es) = map_of n ++ map_of (rev es)"
    for n es :: "('a, 'b) btree_map"
    by (induction es arbitrary: n) (auto simp: map_add_def fun_eq_iff split: option.split)
  then have "map_of (bt_collect m) = map_of (rev m)" by (simp add: bt_collect_def)
  also have "\<dots> = map_of m"
    using bt_wf_distinct [OF wf] by (intro map_of_inject_set [THEN iffD2]) (simp_all add: rev_map flip: rev_map)
  finally show ?thesis by (intro bt_map_of_inj bt_wf_collect wf)
qed

lemma plain_raw_of:
  "strict_value depth v \<Longrightarrow> raw_profile depth (raw_of v) \<and> plain_value (raw_of v) = v"
proof (induction depth v rule: strict_value.induct)
  case (1 depth n)
  then have "\<bar>n\<bar> \<le> 9007199254740991" by (simp add: MAX_SEQUENCE_def)
  then have "uint (word_of_int n :: u64) = n" if "0 \<le> n"
    using that by (simp add: unsigned_of_int take_bit_int_eq_self)
  moreover have "sint (word_of_int n :: u64) = n"
    using \<open>\<bar>n\<bar> \<le> 9007199254740991\<close> by (simp add: signed_of_int signed_take_bit_int_eq_self)
  ultimately show ?case
    using 1 by (auto simp: MAX_SEQUENCE_def unat_eq_nat_uint)
next
  case (3 depth m)
  have "map (\<lambda>e. (fst e, plain_value (snd e))) (map (\<lambda>e. (fst e, raw_of (snd e))) m) = m"
    using 3 by (simp add: map_idI)
  then show ?case
    using 3 by (auto simp: bt_collect_wf bt_wf_distinct comp_def)
qed (auto simp: map_idI)

lemma strict_reads_back: "strict_value depth v \<Longrightarrow> strict depth (raw_of v) = Inr v"
  using plain_raw_of strict_result(1) by auto

section \<open>Digests, keys and times\<close>

definition toy_sha :: digest_fun where
  "toy_sha s = replicate 31 CHR ''a'' @ [if s = [] then CHR ''a'' else last s]"

definition toy_bytes :: "char \<Rightarrow> string" where
  "toy_bytes c = replicate 31 CHR ''a'' @ [c]"

definition toy_digest :: "char \<Rightarrow> string" where
  "toy_digest c = encode_hex (toy_bytes c)"

definition toy_signature :: string where
  "toy_signature = replicate 128 CHR ''a''"

definition NOW :: string where
  "NOW = ''2026-01-01T00:00:00Z''"

definition LATER :: string where
  "LATER = ''2026-01-02T00:00:00Z''"

lemma toy_digest_eq [simp]: "toy_digest c = toy_digest d \<longleftrightarrow> c = d"
  by (auto simp: toy_digest_def toy_bytes_def dest: hex.enc_inj)

lemma prefix_less: "(p @ xs :: string) < p @ ys \<longleftrightarrow> xs < ys"
  by (induction p) simp_all

lemma toy_digest_less [simp]: "toy_digest c < toy_digest d \<longleftrightarrow> hex_byte c < hex_byte d"
  by (simp add: toy_digest_def toy_bytes_def encode_hex_def prefix_less)

lemma toy_digest_hex [simp]:
  "length (toy_digest c) = 64" "list_all is_lower_hex (toy_digest c)" "toy_digest c \<noteq> []"
proof -
  show "length (toy_digest c) = 64" "list_all is_lower_hex (toy_digest c)"
    by (simp_all add: toy_digest_def toy_bytes_def hex.enc_len hex.enc_hex)
  then show "toy_digest c \<noteq> []" by (metis list.size(3) zero_neq_numeral)
qed

lemma toy_sha_digest: "encode_hex (toy_sha s) = (if s = [] then toy_digest CHR ''a'' else toy_digest (last s))"
  by (simp add: toy_sha_def toy_digest_def toy_bytes_def)

declare hex_bytes_encode [simp]

lemma toy_bytes_eq [simp]: "toy_bytes c = toy_bytes d \<longleftrightarrow> c = d"
  by (simp add: toy_bytes_def)

text \<open>The digest of the digest of a digit is the digest of the digit.\<close>

lemma toy_digest_last: "last (toy_digest c) = hex_digit (byte c mod 16)"
  by (simp add: toy_digest_def toy_bytes_def encode_hex_def hex_byte_def)

lemma toy_digest_digit [simp]: "is_digit c \<Longrightarrow> last (toy_digest c) = c"
proof -
  assume "is_digit c"
  then have bounds: "48 \<le> byte c" "byte c \<le> 57" by (auto simp: is_digit_def)
  have "(byte c - 48 + 3 * 16) mod 16 = (byte c - 48) mod 16" by (rule mod_mult_self1)
  with bounds have "byte c mod 16 = byte c - 48" by simp
  with bounds have "byte c mod 16 = byte c - 48" "48 \<le> byte c" "byte c - 48 < 10" by simp_all
  then show ?thesis by (simp add: toy_digest_last hex_digit_def) (simp add: byte_def)
qed

lemma toy_signature_hex [simp]: "length toy_signature = 128" "list_all is_lower_hex toy_signature"
  by (simp_all add: toy_signature_def list_all_iff is_lower_hex_def is_digit_def byte_def)

lemma lower_hex_clean: "list_all is_lower_hex s \<Longrightarrow> \<not> has_c0 s"
  by (auto simp: has_c0_def list_all_iff list_ex_iff is_lower_hex_def is_digit_def)

lemma toy_clean [simp]: "\<not> has_c0 (toy_digest c)" "\<not> has_c0 toy_signature"
  by (simp_all add: lower_hex_clean)

lemma toy_wire_hex [simp]:
  "wire_hex 32 (toy_digest c) = Ok (toy_bytes c)"
  "wire_hex 64 toy_signature = Ok (hex_bytes toy_signature)"
  by (simp_all add: wire_hex_def) (simp add: toy_digest_def)

section \<open>Metadata\<close>

definition toy_key :: "char \<Rightarrow> string \<times> jvalue" where
  "toy_key c = (toy_digest c, VObj
     [(''keytype'', VStr ''ed25519''), (''keyval'', VObj [(''public'', VStr (toy_digest c))]),
      (''scheme'', VStr ''ed25519'')])"

definition toy_role :: "string \<Rightarrow> int \<Rightarrow> jvalue" where
  "toy_role cs threshold = VObj
     [(''keyids'', VArr (map (\<lambda>c. VStr (toy_digest c)) cs)), (''threshold'', VNum threshold)]"

definition toy_signed :: "string \<Rightarrow> (string \<times> jvalue) list \<Rightarrow> string \<Rightarrow> jvalue" where
  "toy_signed role members signers = VObj
     [(''signatures'', VArr (map (\<lambda>c. VObj
         [(''keyid'', VStr (toy_digest c)), (''sig'', VStr toy_signature)]) signers)),
      (''signed'', VObj ((''_type'', VStr role) # members))]"

definition toy_link :: "char \<Rightarrow> (string \<times> jvalue) list" where
  "toy_link c =
     [(''hashes'', VObj [(''sha256'', VStr (toy_digest c))]), (''length'', VNum 1)]"

definition toy_keys :: "(string \<times> jvalue) list" where
  "toy_keys = map toy_key ''0123456789''"

definition toy_roles :: jvalue where
  "toy_roles = VObj
     [(''root'', toy_role ''012'' 2), (''snapshot'', toy_role ''67'' 1),
      (''targets'', toy_role ''345'' 2), (''timestamp'', toy_role ''89'' 1)]"

definition toy_root :: jvalue where
  "toy_root = toy_signed ''root''
     [(''consistent_snapshot'', VBool True), (''expires'', VStr LATER), (''keys'', VObj toy_keys),
      (''roles'', toy_roles), (''spec_version'', VStr ''1.0.0''), (''version'', VNum 1)] ''01''"

definition toy_meta :: "string \<Rightarrow> string \<Rightarrow> char \<Rightarrow> string \<Rightarrow> jvalue" where
  "toy_meta role name c signers = toy_signed role
     [(''expires'', VStr LATER), (''meta'', VObj [(name, VObj (toy_link c @ [(''version'', VNum 1)]))]),
      (''spec_version'', VStr ''1.0.0''), (''version'', VNum 1)] signers"

definition toy_timestamp :: jvalue where
  "toy_timestamp = toy_meta ''timestamp'' ''snapshot.json'' CHR ''s'' ''8''"

definition toy_snapshot :: jvalue where
  "toy_snapshot = toy_meta ''snapshot'' ''targets.json'' CHR ''g'' ''6''"

definition toy_bundle_id :: string where
  "toy_bundle_id = ''sf_catalog_bundle_'' @ toy_digest CHR ''4''"

definition toy_target :: trust_target where
  "toy_target =
     \<lparr>tt_contract_version = ''secureflow-catalog-target-v1'', tt_publisher_id = ''pub'',
      tt_catalog_id = ''cat'', tt_channel = ''stable'', tt_profile = ''core'',
      tt_profile_policy_version = ''secureflow-catalog-profile-policy-v2'', tt_bundle_id = toy_bundle_id,
      tt_release_sequence = 5, tt_manifest_contract_version = ''secureflow-catalog-bundle-v1'',
      tt_validation_authority = ''external-records-require-human-validation''\<rparr>"

definition toy_custom :: jvalue where
  "toy_custom = VObj
     [(''bundle_id'', VStr toy_bundle_id), (''catalog_id'', VStr ''cat''), (''channel'', VStr ''stable''),
      (''contract_version'', VStr ''secureflow-catalog-target-v1''),
      (''manifest_contract_version'', VStr ''secureflow-catalog-bundle-v1''),
      (''profile'', VStr ''core''), (''profile_policy_version'', VStr ''secureflow-catalog-profile-policy-v2''),
      (''publisher_id'', VStr ''pub''), (''release_sequence'', VNum 5),
      (''validation_authority'', VStr ''external-records-require-human-validation'')]"

definition toy_target_name :: string where
  "toy_target_name = ''catalogs/cat/stable/core.manifest.json''"

definition toy_entry :: jvalue where
  "toy_entry = VObj ((''custom'', VObj [(''secureflow'', toy_custom)]) # toy_link CHR ''m'')"

definition toy_targets :: jvalue where
  "toy_targets = toy_signed ''targets''
     [(''expires'', VStr LATER), (''spec_version'', VStr ''1.0.0''),
      (''targets'', VObj [(toy_target_name, toy_entry)]), (''version'', VNum 1)] ''34''"

definition toy_canonical :: "jvalue \<Rightarrow> string option" where
  "toy_canonical v =
     (case vpath v [''keyval'', ''public''] of
        VStr p \<Rightarrow> Some p
      | _ \<Rightarrow> (case vget ''_type'' v of Some (VStr t) \<Rightarrow> Some t | _ \<Rightarrow> Some ''p''))"

text \<open>Each document is in the strict profile, so its text is read back as it is.\<close>

lemmas toy_values = toy_root_def toy_keys_def toy_roles_def toy_meta_def toy_timestamp_def toy_snapshot_def
  toy_targets_def toy_entry_def toy_custom_def toy_signed_def toy_link_def toy_role_def toy_key_def

lemmas toy_reading = bt_wf_def hex_byte_def hex_digit_def byte_def MAX_SEQUENCE_def toy_target_name_def
  less_char_def

lemma toy_strict [simp]:
  "strict_value 0 toy_root" "strict_value 0 toy_timestamp" "strict_value 0 toy_snapshot"
  "strict_value 0 toy_targets"
  by (simp_all add: toy_values toy_reading)

lemma metadata_strings_cases:
  "metadata_strings (VStr s) = require (\<not> has_c0 s) TRUST_FORMAT"
  "metadata_strings (VArr vs) = metadata_items vs" "metadata_strings (VObj m) = metadata_members m"
  "metadata_strings (VNum n) = Ok ()" "metadata_strings (VBool b) = Ok ()" "metadata_strings VNull = Ok ()"
  by (simp_all add: metadata_strings.simps)

declare metadata_strings.simps [simp del]

lemma has_c0_simps [simp]: "\<not> has_c0 []" "has_c0 (c # s) \<longleftrightarrow> byte c < 32 \<or> has_c0 s"
  "has_c0 (s @ t) \<longleftrightarrow> has_c0 s \<or> has_c0 t"
  by (simp_all add: has_c0_def)

lemma toy_strings [simp]:
  "metadata_strings toy_root = Ok ()" "metadata_strings toy_timestamp = Ok ()"
  "metadata_strings toy_snapshot = Ok ()" "metadata_strings toy_targets = Ok ()"
  by (simp_all add: toy_values toy_reading metadata_strings_cases LATER_def toy_bundle_id_def
      is_lower_hex_def is_digit_def)

section \<open>The bundle\<close>

definition toy_source :: catalog_composition_source where
  "toy_source =
     \<lparr>so_name = ''github-advisory-database@1'', so_license_expression = ''CC-BY-4.0'',
      so_license_evidence_sha256 = toy_digest CHR ''l'',
      so_locator = ''https://github.com/github/advisory-database'', so_active_advisory_records = 1,
      so_active_malicious_package_records = 0, so_active_unclassified_records = 0\<rparr>"

definition toy_stats :: catalog_stats where
  "toy_stats =
     \<lparr>cs_schema_version = 3, cs_sources = 1, cs_canonical_vulnerabilities = 1,
      cs_active_canonical_vulnerabilities = 1, cs_source_records = 1, cs_active_source_records = 1,
      cs_inactive_source_records = 0, cs_source_record_revisions = 1, cs_snapshots = 0, cs_deltas = 0,
      cs_complete_deltas = 0, cs_identifiers = 1, cs_relationships = 0, cs_affected_packages = 0,
      cs_references = 0, cs_raw_revision_bytes = 1, cs_database_bytes = 1,
      cs_search_index_status = ''ready''\<rparr>"

definition toy_sources :: catalog_composition where
  "toy_sources =
     \<lparr>cc_policy_version = CATALOG_PROFILE_POLICY_VERSION, cc_active_advisory_records = 1,
      cc_active_malicious_package_records = 0, cc_active_unclassified_records = 0,
      cc_inactive_records = 0, cc_sources = [toy_source]\<rparr>"

definition toy_database :: catalog_database_descriptor where
  "toy_database =
     \<lparr>cd_database_sha256 = toy_digest CHR ''d'', cd_database_bytes = 1,
      cd_application_id = CATALOG_APPLICATION_ID, cd_schema_version = 3, cd_stats = toy_stats,
      cd_integrity = \<lparr>ci_quick_check = ''ok'', ci_foreign_key_violations = 0, ci_search_index_status = ''ready''\<rparr>,
      cd_provenance = \<lparr>cp_schema_version = 3, cp_complete_snapshot_ids = [], cp_complete_delta_ids = [],
        cp_canonicalization = ''v1'', cp_last_canonical_rebuild_id = None\<rparr>,
      cd_composition = toy_sources\<rparr>"

definition toy_manifest :: catalog_bundle_manifest where
  "toy_manifest =
     \<lparr>bm_contract_version = BUNDLE_VERSION, bm_bundle_id = toy_bundle_id, bm_created_at = NOW,
      bm_profile = ProfileCore, bm_profile_policy_version = CATALOG_PROFILE_POLICY_VERSION,
      bm_derivation = CurrentRecordProjectionV1,
      bm_compression = \<lparr>bz_algorithm = ''zstd'', bz_level = ZSTD_LEVEL, bz_checksum = True,
        bz_content_size = True, bz_single_frame = True\<rparr>,
      bm_compressed_sha256 = toy_digest CHR ''c'', bm_compressed_bytes = 1, bm_payload = toy_database,
      bm_origin = toy_database, bm_validation_authority = VALIDATION_AUTHORITY,
      bm_authenticity = AUTHENTICITY\<rparr>"

definition toy_descriptor_json :: json where
  "toy_descriptor_json = JObject [(''stats'', JObject [(''deltas'', JNumber ''0''), (''complete_deltas'', JNumber ''0'')])]"

definition toy_bundle :: bundle_env where
  "toy_bundle =
     \<lparr>bn_sha = toy_sha, bn_rfc3339 = (\<lambda>_. True),
      bn_json = (\<lambda>_. Some (JObject [(''payload'', toy_descriptor_json), (''origin'', toy_descriptor_json)])),
      bn_manifest_of = (\<lambda>_. Some toy_manifest), bn_to_vec = (\<lambda>_. Some ''m'')\<rparr>"

definition toy_opened :: opened_bundle where
  "toy_opened =
     \<lparr>ob_metadata_len = Some 1, ob_reads = [Some ''c'', Some []], ob_rewound = True,
      ob_prefix = Some (ZSTD_MAGIC @ [char_of (4 :: nat)]), ob_frame_size = (\<lambda>_. Some (Some 1)),
      ob_created = True, ob_decoder = True, ob_chunks = [(Some ''d'', True), (Some [], True)],
      ob_trailing = Some [], ob_synced = True,
      ob_database = \<lparr>dv_length = Some 1, dv_opened = True, dv_stats = Some toy_stats,
        dv_integrity = Some (cd_integrity toy_database), dv_provenance = Some (cd_provenance toy_database),
        dv_composition = Some (cd_composition toy_database)\<rparr>\<rparr>"

definition toy_parsed :: parsed_catalog_bundle_manifest where
  "toy_parsed = \<lparr>pm_manifest = toy_manifest, pm_manifest_sha256 = toy_digest CHR ''m''\<rparr>"

definition toy_bundle_policy :: catalog_bundle_verification_policy where
  "toy_bundle_policy = default_policy\<lparr>vp_required_profile := Some ProfileCore,
     vp_expected_manifest_sha256 := Some (toy_digest CHR ''m'')\<rparr>"

lemma toy_valid_sha256 [simp]: "bd_valid_sha256 (toy_digest c)"
  by (simp add: bd_valid_sha256_def)

lemma toy_bd_digest: "bd_sha256_bytes toy_sha s = (if s = [] then toy_digest CHR ''a'' else toy_digest (last s))"
  by (simp add: bd_sha256_bytes_def toy_sha_digest)

lemma toy_declared [simp]: "declared_profile toy_source = Some ProfileCore"
  by (simp add: declared_profile_def recognized_source_profile_def declares_def toy_source_def starts_with_def)

definition printable :: "string \<Rightarrow> bool" where
  "printable s = list_all (\<lambda>c. 32 < byte c \<and> byte c < 127) s"

lemma printable_text:
  assumes "printable (c # s)"
  shows "\<not> trim_is_empty (c # s)" and "\<not> has_control (c # s)"
proof -
  have "printable t \<Longrightarrow> \<not> has_control t" for t
    by (induction t rule: has_control.induct) (auto simp: printable_def control1_def)
  with assms show "\<not> has_control (c # s)" by blast
  show "\<not> trim_is_empty (c # s)"
    using assms by (intro visible_start) (auto simp: printable_def white1_def)
qed

lemma printable_short: "length s \<le> 500 \<Longrightarrow> \<not> 500 < chars_count s" "length s \<le> 500 \<Longrightarrow> \<not> 4096 < chars_count s"
  using chars_count_le [of s] by linarith+

lemma toy_composition [simp]: "validate_composition toy_sources = Ok ()"
proof -
  have "printable ''github-advisory-database@1''" "printable ''CC-BY-4.0''"
    "printable ''https://github.com/github/advisory-database''"
    by (simp_all add: printable_def byte_def)
  note clear = this [THEN printable_text(1)] this [THEN printable_text(2)]
  have "\<not> source_refused None toy_source"
    by (simp add: source_refused_def toy_source_def clear printable_short saturating_add_def
        del: trim_is_empty.simps has_control.simps)
  moreover have "so_active_advisory_records toy_source = 1" "so_active_malicious_package_records toy_source = 0"
    "so_active_unclassified_records toy_source = 0" by (simp_all add: toy_source_def)
  ultimately show ?thesis by (simp add: validate_composition_def toy_sources_def saturating_add_def)
qed

lemma toy_database_valid [simp]: "validate_database_descriptor toy_database MAX_BUNDLE_DATABASE_BYTES = Ok ()"
proof -
  have "cc_policy_version toy_sources = CATALOG_PROFILE_POLICY_VERSION"
    "active_records toy_sources = 1" "cc_inactive_records toy_sources = 0"
    by (simp_all add: toy_sources_def active_records_def saturating_add_def)
  then show ?thesis
    by (simp add: validate_database_descriptor_def toy_database_def toy_stats_def
        saturating_add_def MAX_BUNDLE_DATABASE_BYTES_def CATALOG_SCHEMA_VERSION_def)
qed

lemma toy_material: "encode_hex (toy_sha (id_material toy_manifest)) = toy_digest CHR ''4''"
proof -
  have four: "hex_digit (byte CHR ''d'' mod 16) = CHR ''4''"
    by (rule byte_inj [THEN iffD1]) (simp add: byte_hex_digit, simp add: byte_def)
  have "last (hashed_fields (xs @ [y])) = last y" and "hashed_fields (xs @ [y]) \<noteq> []" if "y \<noteq> []" for xs y
    using that by (simp_all add: hashed_fields_def field_bytes_def)
  note this [of "toy_digest CHR ''d''" "[''secureflow-catalog-bundle-id-v1'', ''core'', toy_digest CHR ''c'',
      toy_digest CHR ''d'']"]
  with four show ?thesis
    by (simp add: id_material_def toy_manifest_def toy_database_def toy_sha_digest toy_digest_last)
qed

lemma toy_manifest_valid [simp]: "validate_bundle_manifest toy_bundle toy_manifest = Ok ()"
proof -
  have "validate_profile ProfileCore CurrentRecordProjectionV1 toy_database toy_database = Ok ()"
    by (simp add: validate_profile_def toy_database_def toy_sources_def toy_stats_def
        projection_matches_origin_def active_records_def saturating_add_def source_is_consistent_def)
       (simp add: toy_source_def projected_source_def)
  moreover have "calculate_bundle_id toy_sha ProfileCore (toy_digest CHR ''c'') (toy_digest CHR ''d'')
      (toy_digest CHR ''d'') = toy_bundle_id"
    using toy_material
    by (simp add: calculate_bundle_id_def id_material_def toy_manifest_def toy_database_def toy_bundle_id_def)
  moreover have "\<not> manifest_refused toy_bundle toy_manifest"
    by (simp add: manifest_refused_def toy_manifest_def toy_bundle_def toy_database_def
        MAX_BUNDLE_COMPRESSED_BYTES_def MAX_BUNDLE_COMPRESSION_RATIO_def COMPRESSION_RATIO_SLACK_def
        saturating_add_def saturating_mul_def)
  moreover have "cd_database_sha256 toy_database = toy_digest CHR ''d''" by (simp add: toy_database_def)
  ultimately show ?thesis
    by (simp add: validate_bundle_manifest_def toy_bundle_def toy_manifest_def MAX_BUNDLE_MANIFEST_BYTES_def)
qed

section \<open>The policy and the states\<close>

definition toy_clock :: trust_clock where
  "toy_clock = \<lparr>tc_verification_time = NOW, tc_time_source = ''operator-attested'', tc_time_reference = ''r''\<rparr>"

definition toy_policy :: trust_policy where
  "toy_policy =
     \<lparr>tp_contract_version = ''secureflow-catalog-trust-policy-v1'', tp_publisher_id = ''pub'',
      tp_publisher_label = ''pub'', tp_catalog_id = ''cat'', tp_channel = ''stable'',
      tp_profiles = [''core''], tp_initial_root_sha256 = toy_digest CHR ''r'',
      tp_minimum_root_version = 1, tp_minimum_sequence = 1, tp_bootstrap_manifest_sha256 = None,
      tp_minimum_thresholds = trust_thresholds, tp_maximum_horizon_days = trust_horizons,
      tp_operator = ''op'', tp_authorization_reference = ''a'', tp_enrolled_at = toy_clock\<rparr>"

definition toy_state :: "nat \<Rightarrow> trust_state" where
  "toy_state generation =
     \<lparr>st_contract_version = ''secureflow-catalog-trust-state-v1'', st_policy = toy_policy,
      st_policy_sha256 = toy_digest CHR ''p'', st_roots = [''r''], st_roles = [],
      st_floors = [(''core'', \<lparr>fl_sequence = 1, fl_manifest_sha256 = None\<rparr>)],
      st_maximum_verification_time = NOW, st_generation = generation, st_pending = None,
      st_completed = []\<rparr>"

definition toy_receipt :: trust_receipt where
  "toy_receipt =
     \<lparr>rc_contract_version = ''secureflow-catalog-trust-receipt-v1'', rc_operation = ''install'',
      rc_installation = ''complete'', rc_transaction_id = Some (toy_digest CHR ''x''),
      rc_output = Some ''/out/db'', rc_integrity = ''verified'',
      rc_publisher_authenticity = ''tuf-root-authorized'', rc_freshness = ''within-local-policy-as-of'',
      rc_rollback = ''accepted-against-local-state'', rc_scope = target_scope toy_target,
      rc_release_sequence = 5, rc_initial_root_sha256 = toy_digest CHR ''r'',
      rc_current_root_sha256 = toy_digest CHR ''r'', rc_metadata = [],
      rc_manifest_sha256 = toy_digest CHR ''m'', rc_manifest_bytes = 1,
      rc_database_sha256 = toy_digest CHR ''d'', rc_database_bytes = 1,
      rc_policy_sha256 = toy_digest CHR ''p'', rc_clock = toy_clock, rc_earliest_expiry = LATER,
      rc_state_generation = 2, rc_reserves_acceptance = True, rc_validation_authority = ''human-only'',
      rc_limitations = LIMITATIONS\<rparr>"

section \<open>The environment\<close>

text \<open>
  The states that have a text of their own are given by a list; every other state is written as
  \<open>x\<close>, which is no state. The receipts that have a text are given by a function.
\<close>

type_synonym toy_table = "(string \<times> trust_state) list"

definition toy_json :: "string \<Rightarrow> raw_json option" where
  "toy_json b =
     (if b = ''r'' then Some (raw_of toy_root) else if b = ''t'' then Some (raw_of toy_timestamp)
      else if b = ''s'' then Some (raw_of toy_snapshot) else if b = ''g'' then Some (raw_of toy_targets)
      else Some (RString b))"

definition toy_text :: "toy_table \<Rightarrow> trust_state \<Rightarrow> string" where
  "toy_text table st = (case find (\<lambda>e. snd e = st) table of None \<Rightarrow> ''x'' | Some e \<Rightarrow> fst e)"

definition toy_system :: trust_system where
  "toy_system =
     \<lparr>sy_file = (\<lambda>p. \<lparr>fv_canonical = Some p, fv_opened = True, fv_meta = Some (True, 1), fv_len = Some 1,
        fv_read = True\<rparr>),
      sy_dir = (\<lambda>p. \<lparr>dr_canonical = Some p, dr_meta = Some (True, 0, 448), dr_euid = 0, dr_opened = True,
        dr_statfs = Some 0xef53\<rparr>),
      sy_dir_created = (\<lambda>_. True), sy_parent_synced = (\<lambda>_. True), sy_temporary = (\<lambda>_. True),
      sy_written = (\<lambda>_. True), sy_renamed = (\<lambda>_. True), sy_store_opened = True, sy_lock_opened = True,
      sy_lock_meta = Some (True, 1, 384), sy_locked = True,
      sy_identity = (\<lambda>_. \<lparr>iv_dir_now = Some (0, 0), iv_dir_held = Some (0, 0), iv_lock_now = Some (0, 0),
        iv_lock_held = Some (0, 0)\<rparr>),
      sy_store_synced = True\<rparr>"

definition toy_io :: publish_io where
  "toy_io = \<lparr>pb_unprobed = (\<lambda>_. False), pb_linked = True, pb_synced = True, pb_parent_synced = True,
     pb_readable = True, pb_parent_resynced = True\<rparr>"

definition toy_env :: "toy_table \<Rightarrow> (trust_receipt \<Rightarrow> string option) \<Rightarrow> unit session_env" where
  "toy_env table receipts =
     \<lparr>we_json = toy_json, we_sha = toy_sha, we_canonical = toy_canonical, we_key_ok = (\<lambda>_. True),
      we_key_weak = (\<lambda>_. False), we_key_compress = (\<lambda>p. p), we_verify_strict = (\<lambda>_ _ _. True),
      we_rfc3339 = (\<lambda>s. if s = NOW then Some (0, 0, 0) else if s = LATER then Some (86400, 0, 0) else None),
      te_schema = (\<lambda>_ _. True),
      se_tuf_root = (\<lambda>_. Some ()), se_tuf_update_root = (\<lambda>_ _. Some ()),
      se_tuf_timestamp = (\<lambda>_ _ _. Some ()), se_tuf_snapshot = (\<lambda>_ _ _. Some ()),
      se_tuf_targets = (\<lambda>_ _ _. Some ()), se_tuf_verify = (\<lambda>_ _ _ _. True),
      se_state_value = (\<lambda>_. Some VNull), se_state_bytes = (\<lambda>st. Some (toy_text table st)),
      se_state_of = (\<lambda>v. case v of VStr b \<Rightarrow> map_of table b | _ \<Rightarrow> None),
      se_receipt_bytes = receipts, se_receipt_of = (\<lambda>_. Some toy_receipt), se_read_dir = (\<lambda>_ _. Some []),
      se_system = (\<lambda>_. toy_system), se_bundle = toy_bundle, se_opened = (\<lambda>_ _. toy_opened),
      se_private_temp = (\<lambda>_. True), se_publish_io = (\<lambda>_. toy_io)\<rparr>"

lemma toy_env_simps [simp]:
  "we_json (toy_env table receipts) = toy_json" "we_sha (toy_env table receipts) = toy_sha"
  "we_canonical (toy_env table receipts) = toy_canonical" "we_key_ok (toy_env table receipts) p"
  "\<not> we_key_weak (toy_env table receipts) p" "we_key_compress (toy_env table receipts) p = p"
  "we_verify_strict (toy_env table receipts) p m sig" "te_schema (toy_env table receipts) kind v"
  "se_tuf_root (toy_env table receipts) b = Some ()" "se_tuf_update_root (toy_env table receipts) () b = Some ()"
  "se_tuf_timestamp (toy_env table receipts) now () b = Some ()"
  "se_tuf_snapshot (toy_env table receipts) now () b = Some ()"
  "se_tuf_targets (toy_env table receipts) now () b = Some ()"
  "se_state_value (toy_env table receipts) st = Some VNull"
  "se_state_bytes (toy_env table receipts) st = Some (toy_text table st)"
  "se_state_of (toy_env table receipts) v = (case v of VStr b \<Rightarrow> map_of table b | _ \<Rightarrow> None)"
  "se_receipt_bytes (toy_env table receipts) = receipts" "se_receipt_of (toy_env table receipts) v = Some toy_receipt"
  "se_read_dir (toy_env table receipts) k d = Some []"
  "se_system (toy_env table receipts) k = toy_system" "se_bundle (toy_env table receipts) = toy_bundle"
  "se_opened (toy_env table receipts) k p = toy_opened" "se_private_temp (toy_env table receipts) k"
  "se_publish_io (toy_env table receipts) k = toy_io"
  by (simp_all add: toy_env_def)

lemma toy_wire_digest [simp]: "wire_digest (toy_env table receipts) s = (if s = [] then toy_digest CHR ''a'' else toy_digest (last s))"
  by (simp add: wire_digest_def toy_sha_digest)

lemma toy_times [simp]:
  "parse_time (toy_env table receipts) NOW = Ok 0" "parse_time (toy_env table receipts) LATER = Ok 86400"
  by (simp_all add: parse_time_def toy_env_def NOW_def LATER_def ends_with_def starts_with_def)

section \<open>The root and the roles pass\<close>

declare strict.simps [simp del]

lemma toy_parse [simp]:
  "wire_parse (toy_env table receipts) ''r'' limit = (if 1 \<le> limit then Ok toy_root else Err TRUST_FORMAT)"
  "wire_parse (toy_env table receipts) ''t'' limit = (if 1 \<le> limit then Ok toy_timestamp else Err TRUST_FORMAT)"
  "wire_parse (toy_env table receipts) ''s'' limit = (if 1 \<le> limit then Ok toy_snapshot else Err TRUST_FORMAT)"
  "wire_parse (toy_env table receipts) ''g'' limit = (if 1 \<le> limit then Ok toy_targets else Err TRUST_FORMAT)"
  by (simp_all add: wire_parse_def toy_json_def strict_reads_back)

lemma toy_signatures:
  "distinct signers \<Longrightarrow> \<forall>c \<in> set signers. toy_digest c \<notin> set seen \<Longrightarrow>
     envelope_signatures seen (map (\<lambda>c. VObj
         [(''keyid'', VStr (toy_digest c)), (''sig'', VStr toy_signature)]) signers) = Ok ()"
proof (induction signers arbitrary: seen)
  case Nil
  then show ?case by simp
next
  case (Cons c signers)
  from Cons.prems Cons.IH [of "toy_digest c # seen"] show ?case
    by (auto simp: closed_def bt_contains_def wire_string_def wire_hex_at_def)
qed

lemma toy_envelope:
  assumes "wire_parse (toy_env table receipts) b (LIMITS ! i) = Ok (toy_signed role ms signers)"
    and "position (\<lambda>r. r = role) ROLES = Some i" and "metadata_strings (toy_signed role ms signers) = Ok ()"
    and "map_of ms ''spec_version'' = Some (VStr ''1.0.0'')" and "map_of ms ''version'' = Some (VNum 1)"
    and "map_of ms ''expires'' = Some (VStr LATER)" and "map_of ms ''critical'' = None"
    and "map_of ms ''delegations'' = None" and "distinct signers" and "length signers \<le> 32"
  shows "envelope (toy_env table receipts) b role = Ok (toy_signed role ms signers)"
proof -
  let ?v = "toy_signed role ms signers"
  have parts: "closed ?v [''signed'', ''signatures''] = Ok ()"
    "vindex ?v ''signed'' = VObj ((''_type'', VStr role) # ms)"
    "value_array (vindex ?v ''signatures'') = Some (map (\<lambda>c. VObj
         [(''keyid'', VStr (toy_digest c)), (''sig'', VStr toy_signature)]) signers)"
    by (simp_all add: toy_signed_def closed_def bt_contains_def vindex_def)
  have "envelope_header (toy_env table receipts) role (vindex ?v ''signed'') = Ok ()"
    using assms(4-8) unfolding parts(2)
    by (simp add: envelope_header_def wire_string_def wire_number_def U32_MAX_def expires_at_def)
  with assms parts show ?thesis
    by (simp add: envelope_def toy_signatures)
qed

lemma toy_envelopes [simp]:
  "envelope (toy_env table receipts) ''r'' ''root'' = Ok toy_root"
  "envelope (toy_env table receipts) ''t'' ''timestamp'' = Ok toy_timestamp"
  "envelope (toy_env table receipts) ''s'' ''snapshot'' = Ok toy_snapshot"
  "envelope (toy_env table receipts) ''g'' ''targets'' = Ok toy_targets"
proof -
  note texts = toy_strings [unfolded toy_root_def toy_timestamp_def toy_snapshot_def toy_targets_def toy_meta_def]
  have positions: "position (\<lambda>r. r = ''root'') ROLES = Some 0" "position (\<lambda>r. r = ''targets'') ROLES = Some 1"
    "position (\<lambda>r. r = ''snapshot'') ROLES = Some 2" "position (\<lambda>r. r = ''timestamp'') ROLES = Some 3"
    by (simp_all add: ROLES_def)
  show "envelope (toy_env table receipts) ''r'' ''root'' = Ok toy_root"
    unfolding toy_root_def
    by (rule toy_envelope [where i = 0]) (simp_all add: texts positions LIMITS_def toy_root_def)
  show "envelope (toy_env table receipts) ''t'' ''timestamp'' = Ok toy_timestamp"
    unfolding toy_timestamp_def toy_meta_def
    by (rule toy_envelope [where i = 3])
      (simp_all add: texts positions LIMITS_def toy_timestamp_def toy_meta_def)
  show "envelope (toy_env table receipts) ''s'' ''snapshot'' = Ok toy_snapshot"
    unfolding toy_snapshot_def toy_meta_def
    by (rule toy_envelope [where i = 2])
      (simp_all add: texts positions LIMITS_def toy_snapshot_def toy_meta_def)
  show "envelope (toy_env table receipts) ''g'' ''targets'' = Ok toy_targets"
    unfolding toy_targets_def
    by (rule toy_envelope [where i = 1]) (simp_all add: texts positions LIMITS_def toy_targets_def)
qed

text \<open>Members of the documents.\<close>

lemma toy_root_members [simp]:
  "vindex (vindex toy_root ''signed'') ''keys'' = VObj toy_keys"
  "vindex (vindex toy_root ''signed'') ''roles'' = toy_roles"
  "vindex (vindex toy_root ''signed'') ''consistent_snapshot'' = VBool True"
  by (simp_all add: toy_root_def toy_signed_def vindex_def)

lemma toy_canonical_signed:
  "map_of ms ''keyval'' = None \<Longrightarrow> toy_canonical (vindex (toy_signed role ms signers) ''signed'') = Some role"
  by (simp add: toy_canonical_def toy_signed_def vindex_def vpath_def)

lemma toy_canonical_key: "toy_canonical (snd (toy_key c)) = Some (toy_digest c)"
  by (simp add: toy_canonical_def toy_key_def vindex_def vpath_def)

lemma toy_root_keys:
  "distinct cs \<Longrightarrow> \<forall>c \<in> set cs. is_digit c \<and> toy_bytes c \<notin> set publics \<Longrightarrow>
     root_keys (toy_env table receipts) publics (map toy_key cs) = Ok ()"
proof (induction cs arbitrary: publics)
  case Nil
  then show ?case by simp
next
  case (Cons c cs)
  have "root_keys (toy_env table receipts) (toy_bytes c # publics) (map toy_key cs) = Ok ()"
    using Cons.prems by (intro Cons.IH) auto
  moreover have key: "toy_key c = (toy_digest c, VObj
     [(''keytype'', VStr ''ed25519''), (''keyval'', VObj [(''public'', VStr (toy_digest c))]),
      (''scheme'', VStr ''ed25519'')])" by (simp add: toy_key_def)
  ultimately show ?case
    using Cons.prems toy_canonical_key [of c]
    by (simp add: key closed_def bt_contains_def vindex_def wire_hex_at_def wire_string_def wire_canonical_def)
qed

lemma toy_root_profile [simp]: "root_profile (toy_env table receipts) toy_root = Ok ()"
proof -
  have keys: "root_keys (toy_env table receipts) [] toy_keys = Ok ()"
    unfolding toy_keys_def by (rule toy_root_keys) (simp_all add: is_digit_def byte_def)
  have "bt_contains (toy_digest c) toy_keys \<longleftrightarrow> c \<in> set ''0123456789''" for c
    by (simp add: bt_contains_def toy_keys_def toy_key_def)
  then have "root_roles toy_keys toy_roles [] (enumerate 0 ROLES) = Ok (map toy_digest ''9876543210'')"
    by (simp add: ROLES_def toy_roles_def toy_role_def vindex_def closed_def wire_number_def
        quorum_floor_def custody_floor_def bt_contains_def [of "''threshold''"] bt_contains_def [of "''keyids''"])
  moreover have "closed toy_roles ROLES = Ok ()"
    by (simp add: closed_def toy_roles_def ROLES_def bt_contains_def)
  moreover have "length toy_keys = 10" by (simp add: toy_keys_def)
  ultimately show ?thesis using keys by (simp add: root_profile_def Let_def)
qed

text \<open>The signatures of each document are those of the keys it lists.\<close>

lemma toy_key_public:
  "c \<in> set ''0123456789'' \<Longrightarrow>
     wire_hex_at 32 (vindex (vindex (VObj toy_keys) (toy_digest c)) ''keyval'') ''public'' = Ok (toy_bytes c)"
proof -
  assume c: "c \<in> set ''0123456789''"
  have "map_of (map toy_key cs) (toy_digest c) = Some (snd (toy_key c))" if "c \<in> set cs" for cs
    using that by (induction cs) (auto simp: toy_key_def)
  with c have "vindex (VObj toy_keys) (toy_digest c) = snd (toy_key c)"
    by (simp add: vindex_def toy_keys_def del: list.map)
  then show ?thesis
    by (simp add: toy_key_def vindex_def wire_hex_at_def wire_string_def)
qed

lemma toy_valid_signers:
  "set signers \<subseteq> set ''0123456789'' \<Longrightarrow> set signers \<subseteq> set cs \<Longrightarrow>
     valid_signers (toy_env table receipts) (VObj toy_keys) (map (\<lambda>c. VStr (toy_digest c)) cs) preimage
       (map (\<lambda>c. VObj [(''keyid'', VStr (toy_digest c)), (''sig'', VStr toy_signature)]) signers)
     = Ok (map toy_digest signers)"
proof (induction signers)
  case Nil
  then show ?case by simp
next
  case (Cons c signers)
  then have "c \<in> set ''0123456789''" and "c \<in> set cs" by auto
  moreover have "valid_signers (toy_env table receipts) (VObj toy_keys) (map (\<lambda>c. VStr (toy_digest c)) cs) preimage
       (map (\<lambda>c. VObj [(''keyid'', VStr (toy_digest c)), (''sig'', VStr toy_signature)]) signers)
     = Ok (map toy_digest signers)"
    using Cons by simp
  ultimately show ?case
    using toy_key_public [of c]
    by (auto simp: vpath_def wire_string_def wire_hex_at_def [of 64])
qed

lemma toy_strict_signers:
  assumes "map_of ms ''keyval'' = None" and "vindex toy_roles role = toy_role cs (int n)"
    and "set signers \<subseteq> set ''0123456789''" and "set signers \<subseteq> set cs"
    and "0 < n" and "n \<le> length signers" and "n \<le> 32"
  shows "strict_signers (toy_env table receipts) toy_root (toy_signed role ms signers) role
    = Ok (sort (map toy_digest signers))"
proof -
  have roles: "vpath toy_root [''signed'', ''roles'', role, ''keyids''] = VArr (map (\<lambda>c. VStr (toy_digest c)) cs)"
    "wire_number (vpath toy_root [''signed'', ''roles'', role]) ''threshold'' 32 = Ok n"
    "vpath toy_root [''signed'', ''keys''] = VObj toy_keys"
    using assms(2,5,7) by (simp_all add: vpath_def)
      (simp_all add: vindex_def toy_role_def wire_number_def)
  have sigs: "value_array (vindex (toy_signed role ms signers) ''signatures'') = Some (map (\<lambda>c. VObj
         [(''keyid'', VStr (toy_digest c)), (''sig'', VStr toy_signature)]) signers)"
    by (simp add: toy_signed_def vindex_def)
  show ?thesis
    using assms(6) toy_canonical_signed [OF assms(1)] toy_valid_signers [OF assms(3,4)]
    by (simp add: strict_signers_def roles sigs wire_canonical_def)
qed

lemma toy_signers [simp]:
  "strict_signers (toy_env table receipts) toy_root toy_root ''root'' = Ok [toy_digest CHR ''0'', toy_digest CHR ''1'']"
  "strict_signers (toy_env table receipts) toy_root toy_timestamp ''timestamp'' = Ok [toy_digest CHR ''8'']"
  "strict_signers (toy_env table receipts) toy_root toy_snapshot ''snapshot'' = Ok [toy_digest CHR ''6'']"
  "strict_signers (toy_env table receipts) toy_root toy_targets ''targets'' = Ok [toy_digest CHR ''3'', toy_digest CHR ''4'']"
proof -
  have roles: "vindex toy_roles ''root'' = toy_role ''012'' (int 2)" "vindex toy_roles ''snapshot'' = toy_role ''67'' (int 1)"
    "vindex toy_roles ''targets'' = toy_role ''345'' (int 2)" "vindex toy_roles ''timestamp'' = toy_role ''89'' (int 1)"
    by (simp_all add: toy_roles_def vindex_def)
  have sorted: "toy_digest CHR ''0'' \<le> toy_digest CHR ''1''" "toy_digest CHR ''3'' \<le> toy_digest CHR ''4''"
    by (simp_all add: le_less toy_reading)
  have "strict_signers (toy_env table receipts) toy_root toy_root ''root'' = Ok (sort (map toy_digest ''01''))"
    by (subst (2) toy_root_def) (rule toy_strict_signers [where n = 2], simp, rule roles, simp_all)
  with sorted show "strict_signers (toy_env table receipts) toy_root toy_root ''root''
      = Ok [toy_digest CHR ''0'', toy_digest CHR ''1'']" by simp
  have "strict_signers (toy_env table receipts) toy_root toy_targets ''targets'' = Ok (sort (map toy_digest ''34''))"
    unfolding toy_targets_def by (rule toy_strict_signers [where n = 2], simp, rule roles, simp_all)
  with sorted show "strict_signers (toy_env table receipts) toy_root toy_targets ''targets''
      = Ok [toy_digest CHR ''3'', toy_digest CHR ''4'']" by simp
  have "strict_signers (toy_env table receipts) toy_root toy_timestamp ''timestamp'' = Ok (sort (map toy_digest ''8''))"
    unfolding toy_timestamp_def toy_meta_def by (rule toy_strict_signers [where n = 1], simp, rule roles, simp_all)
  then show "strict_signers (toy_env table receipts) toy_root toy_timestamp ''timestamp'' = Ok [toy_digest CHR ''8'']" by simp
  have "strict_signers (toy_env table receipts) toy_root toy_snapshot ''snapshot'' = Ok (sort (map toy_digest ''6''))"
    unfolding toy_snapshot_def toy_meta_def by (rule toy_strict_signers [where n = 1], simp, rule roles, simp_all)
  then show "strict_signers (toy_env table receipts) toy_root toy_snapshot ''snapshot'' = Ok [toy_digest CHR ''6'']" by simp
qed

section \<open>The state passes its checks\<close>

text \<open>A state over the toy policy and root, with the roles, floors, journal and receipts given.\<close>

lemma toy_version [simp]: "wire_number (vindex toy_root ''signed'') ''version'' U32_MAX = Ok 1"
  by (simp add: toy_root_def toy_signed_def vindex_def wire_number_def U32_MAX_def)

lemma toy_current_root [simp]:
  "st_roots st = [''r''] \<Longrightarrow> st_policy st = toy_policy \<Longrightarrow>
     current_root (toy_env table receipts) st = Ok (toy_root, ())"
  by (simp add: current_root_def initial_root_def toy_policy_def)

lemma toy_validate_clock [simp]: "validate_clock (toy_env table receipts) toy_clock = Ok ()"
  by (simp add: validate_clock_def toy_clock_def white1_def byte_def)

lemma toy_policy_valid [simp]: "validate_trust_policy (toy_env table receipts) toy_policy = Ok ()"
proof -
  have "validate_trust_scope (policy_scope toy_policy ''core'') = Ok ()"
    by (simp add: validate_trust_scope_def policy_scope_def toy_policy_def wire_identifier_def
        is_alnum_def is_lower_def is_upper_def is_digit_def byte_def)
  then show ?thesis
    by (simp add: validate_trust_policy_def validate_schema_def)
      (simp add: toy_policy_def validate_policy_text_def white1_def white2_def white3_def byte_def MAX_SEQUENCE_def
        U32_MAX_def run_simps)
qed

lemma toy_policy_canonical: "toy_canonical (policy_value p) = Some ''p''"
  by (simp add: toy_canonical_def policy_value_def vpath_def vindex_def bt_collect_def)

end
