(* ===== verification/TrustWitnesses.thy ===== *)
theory TrustWitnesses
  imports TrustSamples
begin

text \<open>
  The sample store in operation: states are read back, an import of the sample metadata and an
  installation of the sample bundle succeed, and the theorems about the catalog trust are applied
  to these runs.
\<close>

section \<open>The system\<close>

lemma absolute_slash [simp]: "is_absolute (CHR ''/'' # p)"
  by (simp add: is_absolute_def starts_with_def)

lemma toy_system_simps [simp]:
  "sy_file toy_system p = \<lparr>fv_canonical = Some p, fv_opened = True, fv_meta = Some (True, 1), fv_len = Some 1,
     fv_read = True\<rparr>"
  "sy_dir toy_system p = \<lparr>dr_canonical = Some p, dr_meta = Some (True, 0, 448), dr_euid = 0, dr_opened = True,
     dr_statfs = Some 0xef53\<rparr>"
  "sy_dir_created toy_system p" "sy_parent_synced toy_system p" "sy_temporary toy_system p"
  "sy_written toy_system p" "sy_renamed toy_system p" "sy_store_opened toy_system" "sy_lock_opened toy_system"
  "sy_lock_meta toy_system = Some (True, 1, 384)" "sy_locked toy_system" "sy_store_synced toy_system"
  "sy_identity toy_system n = \<lparr>iv_dir_now = Some (0, 0), iv_dir_held = Some (0, 0),
     iv_lock_now = Some (0, 0), iv_lock_held = Some (0, 0)\<rparr>"
  by (simp_all add: toy_system_def)

lemma toy_paths [simp]:
  "is_absolute p \<Longrightarrow> checked_path toy_system p = Ok ()"
  "is_absolute p \<Longrightarrow> open_regular toy_system p = Ok ()"
  "is_absolute p \<Longrightarrow> private_dir toy_system p = Ok ()"
  by (simp_all add: checked_path_def checked_canonical_def open_regular_def private_dir_def
      LOCAL_FILESYSTEMS_def)

lemma toy_storage_read [simp]:
  "is_absolute p \<Longrightarrow> files p = Some bytes \<Longrightarrow> length bytes \<le> limit \<Longrightarrow> 0 < limit \<Longrightarrow>
     storage_read toy_system files p limit = Ok bytes"
  by (simp add: storage_read_def)

definition STORE :: string where "STORE = ''/s''"

lemma toy_store [simp]:
  "is_absolute STORE" "state_path STORE = ''/s/state.json''" "path_join STORE ''lock'' = ''/s/lock''"
  "path_join STORE ''receipts'' = ''/s/receipts''"
  by (simp_all add: STORE_def is_absolute_def state_path_def path_join_def ends_with_def starts_with_def)

lemma toy_identity [simp]: "check_identity toy_system n STORE = Ok ()"
  by (simp add: check_identity_def)

lemma toy_lock [simp]: "open_store_lock toy_system STORE = Ok ()"
  by (simp add: open_store_lock_def)

lemma toy_replace [simp]:
  "replace_state toy_system files STORE bytes = (files(''/s/state.json'' \<mapsto> bytes), Ok ())"
  by (simp add: replace_state_def)

section \<open>States\<close>

lemma toy_text_length: "\<forall>e \<in> set table. length (fst e) = 1 \<Longrightarrow> length (toy_text table st) = 1"
  by (auto simp: toy_text_def find_Some_iff split: option.split) (metis fst_conv nth_mem)

lemma toy_encode [simp]:
  "\<forall>e \<in> set table. length (fst e) = 1 \<Longrightarrow>
     encode_state (toy_env table receipts) st = Ok (toy_text table st)"
  by (simp add: encode_state_def validate_schema_def toy_text_length MAX_STATE_BYTES_def)

definition plain_table :: "toy_table \<Rightarrow> bool" where
  "plain_table table \<longleftrightarrow> distinct (map fst table) \<and>
     (\<forall>e \<in> set table. length (fst e) = 1 \<and> fst e \<notin> {''r'', ''t'', ''s'', ''g'', ''x''})"

lemma plain_lengths: "plain_table table \<Longrightarrow> \<forall>e \<in> set table. length (fst e) = 1"
  by (simp add: plain_table_def)

lemma toy_json_string:
  "toy_json b = Some r \<Longrightarrow> strict 0 r = Ok (VStr b') \<Longrightarrow> b' = b"
proof -
  assume "toy_json b = Some r" and read: "strict 0 r = Ok (VStr b')"
  then consider "r = raw_of toy_root" | "r = raw_of toy_timestamp" | "r = raw_of toy_snapshot"
    | "r = raw_of toy_targets" | "r = RString b"
    by (auto simp: toy_json_def split: if_splits)
  then show "b' = b"
    using read
    by cases (simp_all add: strict_reads_back, simp_all add: toy_root_def toy_timestamp_def toy_snapshot_def
      toy_targets_def toy_meta_def toy_signed_def strict_cases)
qed

lemma toy_codec: "plain_table table \<Longrightarrow> state_codec (toy_env table receipts)"
  unfolding state_codec_def
proof (intro allI impI)
  fix u b w
  assume plain: "plain_table table" and bytes: "se_state_bytes (toy_env table receipts) u = Some b"
    and read: "read_state (toy_env table receipts) b = Ok w"
  from read obtain v r where "toy_json b = Some r" "strict 0 r = Ok v" "se_state_of (toy_env table receipts) v = Some w"
    by (auto simp: read_state_def wire_parse_def ok_iff)
  with toy_json_string have table: "map_of table b = Some w" by (auto split: jvalue.splits)
  from bytes have b: "b = toy_text table u" by simp
  show "w = u"
  proof (cases "find (\<lambda>e. snd e = u) table")
    case None
    with b plain table show ?thesis
      by (auto simp: toy_text_def plain_table_def dest!: map_of_SomeD)
  next
    case (Some e)
    then have "e \<in> set table" "snd e = u" by (auto simp: find_Some_iff)
    then have "map_of table (fst e) = Some u"
      using plain by (cases e) (auto simp: plain_table_def)
    with Some b table show ?thesis by (simp add: toy_text_def)
  qed
qed

text \<open>A state of the sample publisher without roles, as it is checked when it is read.\<close>

definition toy_checked :: "trust_state \<Rightarrow> bool" where
  "toy_checked st \<longleftrightarrow>
     st_contract_version st = ''secureflow-catalog-trust-state-v1'' \<and> st_policy st = toy_policy \<and>
     st_policy_sha256 st = toy_digest CHR ''p'' \<and> st_roots st = [''r''] \<and> st_roles st = [] \<and>
     (\<exists>h. (h = None \<or> h = Some (toy_digest CHR ''m'')) \<and>
       st_floors st = [(''core'', \<lparr>fl_sequence = 1, fl_manifest_sha256 = h\<rparr>)]) \<and>
     st_maximum_verification_time st = NOW \<and> 0 < st_generation st \<and> st_generation st \<le> 9"

lemma toy_check_state: "toy_checked st \<Longrightarrow> check_state (toy_env table receipts) st = Ok ()"
proof -
  assume st: "toy_checked st"
  have policy: "tp_profiles toy_policy = [''core'']" "tp_minimum_sequence toy_policy = 1"
    by (simp_all add: toy_policy_def)
  have "check_floor st ''core'' = Ok ()"
    using st by (auto simp: toy_checked_def check_floor_def policy MAX_SEQUENCE_def wire_hex_iff)
  with st show ?thesis
    by (auto simp: check_state_def toy_checked_def policy run_simps wire_canonical_def toy_policy_canonical
        MAX_SEQUENCE_def)
qed

lemma toy_read_state:
  assumes "plain_table table" and "map_of table b = Some st" and "toy_checked st"
  shows "read_state (toy_env table receipts) b = Ok st"
proof -
  from assms(1,2) have "length b = 1" "b \<notin> {''r'', ''t'', ''s'', ''g''}"
    by (auto simp: plain_table_def dest!: map_of_SomeD)
  then have "wire_parse (toy_env table receipts) b MAX_STATE_BYTES = Ok (VStr b)"
    by (simp add: wire_parse_def toy_json_def MAX_STATE_BYTES_def strict_cases)
  with assms(2) show ?thesis
    by (simp add: read_state_def validate_schema_def toy_check_state [OF assms(3)])
qed

section \<open>An import of the root\<close>

definition toy_session :: "trust_state \<Rightarrow> file_map \<Rightarrow> session" where
  "toy_session st files =
     \<lparr>sn_store = STORE, sn_state = st, sn_clock = toy_clock, sn_mutating = True, sn_total = 0,
      sn_turn = 0, sn_files = files\<rparr>"

text \<open>A session at work: the sample store, policy and root, and a generation that can still grow.\<close>

definition toy_ready :: "session \<Rightarrow> bool" where
  "toy_ready s \<longleftrightarrow>
     sn_store s = STORE \<and> sn_clock s = toy_clock \<and> sn_mutating s \<and> st_generation (sn_state s) \<le> 9 \<and>
     st_policy (sn_state s) = toy_policy \<and> st_roots (sn_state s) = [''r''] \<and>
     st_maximum_verification_time (sn_state s) = NOW"

definition toy_saved :: "toy_table \<Rightarrow> session \<Rightarrow> session" where
  "toy_saved table s =
     (let st = (sn_state s)\<lparr>st_generation := st_generation (sn_state s) + 1,
                            st_maximum_verification_time := NOW\<rparr>
      in s\<lparr>sn_state := st, sn_files := (sn_files s)(''/s/state.json'' \<mapsto> toy_text table st),
          sn_turn := sn_turn s + 1\<rparr>)"

lemma toy_clock_time [simp]: "tc_verification_time toy_clock = NOW"
  by (simp add: toy_clock_def)

lemma toy_save:
  "plain_table table \<Longrightarrow> toy_ready s \<Longrightarrow> session_save (toy_env table receipts) s = (toy_saved table s, Ok ())"
  by (simp add: session_save_result next_generation_def MAX_SEQUENCE_def toy_ready_def plain_lengths
      replace_file_def toy_saved_def Let_def session_time_def)

lemma toy_expiry [simp]:
  "map_of ms ''expires'' = Some (VStr LATER) \<Longrightarrow> role \<in> set ROLES \<Longrightarrow>
     expiry (toy_env table receipts) toy_policy toy_clock (toy_signed kind ms signers) role = Ok ()"
proof -
  assume ms: "map_of ms ''expires'' = Some (VStr LATER)" and role: "role \<in> set ROLES"
  have "expires_at (toy_env table receipts) (vindex (toy_signed kind ms signers) ''signed'') = Ok 86400"
    using ms by (simp add: toy_signed_def vindex_def expires_at_def wire_string_def)
  moreover from role have "\<exists>days > 0. map_of (tp_maximum_horizon_days toy_policy) role = Some days"
    by (auto simp: ROLES_def toy_policy_def trust_horizons_def bt_collect_def)
  ultimately show ?thesis by (auto simp: expiry_def)
qed

lemma toy_root_expiry [simp]: "expiry (toy_env table receipts) toy_policy toy_clock toy_root ''root'' = Ok ()"
  unfolding toy_root_def by (rule toy_expiry) (simp_all add: ROLES_def)

lemma toy_import_roots:
  "toy_ready s \<Longrightarrow> import_roots (toy_env table receipts) ''/m'' s = (s, Ok toy_root)"
  by (simp add: import_roots_def op_bind_def toy_ready_def session_expiry_def)

lemma toy_import_root_only:
  "toy_ready s \<Longrightarrow> import_metadata (toy_env table receipts) ''/m'' True s = (s, Ok [])"
proof -
  assume "toy_ready s"
  with toy_import_roots [OF this, of table receipts] show ?thesis
    by (simp add: import_metadata_def op_bind_def toy_ready_def)
qed

lemma toy_publisher [simp]: "tp_publisher_id toy_policy = ''pub''"
  by (simp add: toy_policy_def)

lemma toy_import:
  assumes "plain_table table" and "toy_ready s"
  shows "fst (session_import (toy_env table receipts) ''/m'' ''pub'' True s) = toy_saved table s"
  using assms toy_import_root_only [OF assms(2), of table receipts] toy_save [OF assms, of receipts]
  by (simp add: session_import_def op_bind_def toy_ready_def toy_saved_def Let_def)

lemma toy_open:
  assumes "plain_table table" and "files ''/s/state.json'' = Some b" and "map_of table b = Some st"
    and "toy_checked st"
  shows "open_snapshot (toy_env table receipts) 0 files STORE toy_clock True = Ok (toy_session st files)"
proof -
  from assms(1,3) have "length b = 1" by (auto simp: plain_table_def dest!: map_of_SomeD)
  then have "load_state (toy_env table receipts) 0 files STORE = Ok st"
    using assms toy_read_state by (simp add: load_state_def map_err_def MAX_STATE_BYTES_def)
  moreover have "st_maximum_verification_time st = NOW" using assms(4) by (simp add: toy_checked_def)
  ultimately show ?thesis by (simp add: open_snapshot_def toy_session_def)
qed

lemma toy_recover_nothing:
  "st_pending (sn_state s) = None \<Longrightarrow> st_completed (sn_state s) = [] \<Longrightarrow> sn_store s = STORE \<Longrightarrow>
     session_recover (toy_env table receipts) s = (s, Ok ())"
  by (simp add: session_recover_def op_bind_def export_receipts_def)

section \<open>The history of the sample store\<close>

definition toy_states :: toy_table where
  "toy_states = [(''1'', toy_state 2), (''2'', toy_state 3)]"

definition toy_env1 :: "unit session_env" where
  "toy_env1 = toy_env toy_states (\<lambda>_. Some ''x'')"

definition toy_files :: file_map where
  "toy_files = [''/s/state.json'' \<mapsto> ''1'']"

definition toy_commands :: "store_command list" where
  "toy_commands = [SessionCommand 0 toy_clock True [CallImport ''/m'' ''pub'' True]]"

lemma toy_states_plain: "plain_table toy_states"
  by (simp add: plain_table_def toy_states_def)

lemma toy_states_checked: "toy_checked (toy_state 2)" "toy_checked (toy_state 3)"
  by (simp_all add: toy_checked_def toy_state_def)

lemma toy_run: "run_commands toy_env1 STORE toy_commands toy_files = [''/s/state.json'' \<mapsto> ''2'']"
proof -
  have saved: "toy_saved toy_states (toy_session (toy_state 2) toy_files) =
      (toy_session (toy_state 3) [''/s/state.json'' \<mapsto> ''2''])\<lparr>sn_turn := 1\<rparr>"
    by (simp add: toy_saved_def toy_session_def Let_def toy_state_def toy_text_def toy_states_def toy_files_def)
  have ready: "toy_ready (toy_session (toy_state 2) toy_files)"
    by (simp add: toy_ready_def toy_session_def toy_state_def)
  have "open_snapshot toy_env1 0 toy_files STORE toy_clock True = Ok (toy_session (toy_state 2) toy_files)"
    unfolding toy_env1_def by (rule toy_open [OF toy_states_plain, where b = "''1''"])
      (simp_all add: toy_files_def toy_states_def toy_states_checked)
  moreover have "session_recover toy_env1 (toy_session (toy_state 2) toy_files)
      = (toy_session (toy_state 2) toy_files, Ok ())"
    unfolding toy_env1_def by (rule toy_recover_nothing) (simp_all add: toy_session_def toy_state_def)
  moreover note toy_import [OF toy_states_plain ready, of "\<lambda>_. Some ''x''", folded toy_env1_def]
  ultimately show ?thesis
    by (simp add: run_commands_def toy_commands_def session_open_def run_calls_def saved)
      (simp add: toy_session_def)
qed

lemma toy_reads: "read_state toy_env1 ''1'' = Ok (toy_state 2)" "read_state toy_env1 ''2'' = Ok (toy_state 3)"
  unfolding toy_env1_def
  by (rule toy_read_state [OF toy_states_plain], simp add: toy_states_def, rule toy_states_checked)+

lemma toy_stored:
  "stored toy_env1 STORE toy_files (toy_state 2)"
  "stored toy_env1 STORE (run_commands toy_env1 STORE toy_commands toy_files) (toy_state 3)"
  unfolding stored_def toy_run
  by (simp_all add: toy_files_def toy_reads)

lemma toy_codec1: "state_codec toy_env1"
  unfolding toy_env1_def by (rule toy_codec [OF toy_states_plain])

theorem trust_state_never_goes_back_witness:
  "stored toy_env1 STORE (run_commands toy_env1 STORE toy_commands toy_files) (toy_state 3) \<and>
   prefix (st_roots (toy_state 2)) (st_roots (toy_state 3)) \<and>
   st_policy (toy_state 3) = st_policy (toy_state 2)"
  using trust_state_never_goes_back [OF toy_codec1 toy_stored] toy_stored(2) by simp

section \<open>A completed receipt\<close>

definition toy_receipt_text :: "trust_receipt \<Rightarrow> string option" where
  "toy_receipt_text r = (if r = journaled toy_receipt then Some ''x'' else if r = toy_receipt then Some ''y'' else None)"

definition toy_completed :: trust_state where
  "toy_completed = (toy_state 2)\<lparr>st_completed := [(toy_digest CHR ''x'', toy_receipt)]\<rparr>"

definition toy_env2 :: "unit session_env" where
  "toy_env2 = toy_env [(''1'', toy_completed)] toy_receipt_text"

lemma journaled_toy_receipt: "journaled toy_receipt \<noteq> toy_receipt"
  by (simp add: journaled_def toy_receipt_def)

lemma toy_completed_read: "read_state toy_env2 ''1'' = Ok toy_completed"
  unfolding toy_env2_def
  by (rule toy_read_state) (simp_all add: plain_table_def toy_completed_def toy_checked_def toy_state_def)

lemma toy_env2_codec: "state_codec toy_env2"
  unfolding toy_env2_def by (rule toy_codec) (simp add: plain_table_def)

lemma toy_distinguished: "receipts_distinguished toy_env2"
  using journaled_toy_receipt
  by (auto simp: receipts_distinguished_def toy_env2_def toy_receipt_text_def toy_sha_def split: if_splits)

lemma toy_all_keyed: "all_keyed toy_env2 toy_completed"
  by (simp add: all_keyed_def toy_completed_def toy_state_def receipt_keyed_def toy_env2_def toy_receipt_text_def)
     (simp add: toy_receipt_def)

theorem completed_receipts_final_witness:
  "\<exists>t. stored toy_env2 STORE (run_commands toy_env2 STORE [OutsideChange (\<lambda>_. None)] toy_files) t \<and>
     map_of (st_completed t) (toy_digest CHR ''x'') = Some toy_receipt"
proof -
  have "stored toy_env2 STORE toy_files toy_completed"
    by (simp add: stored_def toy_files_def toy_completed_read)
  moreover from this have "stored toy_env2 STORE
      (run_commands toy_env2 STORE [OutsideChange (\<lambda>_. None)] toy_files) toy_completed"
    using state_path_inside [of STORE] by (simp add: run_commands_def stored_def)
  moreover have "map_of (st_completed toy_completed) (toy_digest CHR ''x'') = Some toy_receipt"
    by (simp add: toy_completed_def)
  ultimately show ?thesis
    using completed_receipts_final [OF toy_env2_codec toy_distinguished _ toy_all_keyed] by blast
qed

section \<open>Enrollment\<close>

definition toy_new_files :: file_map where
  "toy_new_files = [''/m/root.json'' \<mapsto> ''r'']"

definition toy_enrolled_files :: file_map where
  "toy_enrolled_files = toy_new_files(''/s/lock'' \<mapsto> [], ''/s/state.json'' \<mapsto> ''1'')"

definition toy_enrolled :: trust_state where
  "toy_enrolled = toy_state 1"

definition toy_env3 :: "unit session_env" where
  "toy_env3 = toy_env [(''1'', toy_enrolled)] (\<lambda>_. None)"

lemma toy_initialize:
  "trust_initialize toy_env3 toy_system toy_new_files STORE ''/m/root.json'' toy_policy
    = (toy_enrolled_files, Ok toy_enrolled)"
proof -
  have "initial_state toy_env3 ''r'' toy_policy = Ok toy_enrolled"
  proof -
    have policy: "tp_enrolled_at toy_policy = toy_clock" "tp_profiles toy_policy = [''core'']"
      "tp_minimum_sequence toy_policy = 1" "tp_minimum_root_version toy_policy = 1"
      "tp_initial_root_sha256 toy_policy = toy_digest CHR ''r''" by (simp_all add: toy_policy_def)
    have "expires_at (toy_env table receipts) (vindex toy_root ''signed'') = Ok 86400" for table receipts
      by (simp add: toy_root_def toy_signed_def vindex_def expires_at_def wire_string_def)
    then show ?thesis
      by (simp add: initial_state_def toy_env3_def policy wire_canonical_def toy_policy_canonical Let_def
          bt_collect_def toy_enrolled_def toy_state_def)
  qed
  moreover have "write_store toy_system toy_new_files STORE (Some ''1'') = (toy_enrolled_files, Ok ())"
    by (simp add: write_store_def create_dir_def write_new_def sync_parent_def path_parent_def Let_def
        starts_with_def is_absolute_def toy_new_files_def toy_enrolled_files_def)
      (simp add: STORE_def)
  moreover have "se_state_bytes toy_env3 toy_enrolled = Some ''1''"
    by (simp add: toy_env3_def toy_text_def)
  moreover have "validate_trust_policy toy_env3 toy_policy = Ok ()" by (simp add: toy_env3_def)
  moreover have "storage_read toy_system toy_new_files ''/m/root.json'' (LIMITS ! 0) = Ok ''r''"
    by (simp add: toy_new_files_def LIMITS_def)
  ultimately show ?thesis
    by (simp add: trust_initialize_def)
qed

theorem root_lineage_witness:
  "\<exists>t. stored toy_env3 STORE (run_commands toy_env3 STORE [OutsideChange (\<lambda>_. None)] toy_enrolled_files) t \<and>
     st_roots t \<noteq> [] \<and> wire_digest toy_env3 (hd (st_roots t)) = tp_initial_root_sha256 toy_policy"
proof -
  have plain: "plain_table [(''1'', toy_enrolled)]" by (simp add: plain_table_def)
  then have codec: "state_codec toy_env3" unfolding toy_env3_def by (rule toy_codec)
  have "read_state toy_env3 ''1'' = Ok toy_enrolled"
    unfolding toy_env3_def
    by (rule toy_read_state [OF plain]) (simp_all add: toy_enrolled_def toy_checked_def toy_state_def)
  then have "stored toy_env3 STORE
      (run_commands toy_env3 STORE [OutsideChange (\<lambda>_. None)] toy_enrolled_files) toy_enrolled"
    using state_path_inside [of STORE] by (simp add: run_commands_def stored_def toy_enrolled_files_def)
  with root_lineage [OF codec toy_initialize] show ?thesis by blast
qed

section \<open>A bundle\<close>

lemma toy_bundle_simps [simp]:
  "bn_sha toy_bundle = toy_sha" "bn_rfc3339 toy_bundle t" "bn_manifest_of toy_bundle v = Some toy_manifest"
  "bn_json toy_bundle b = Some (JObject [(''payload'', toy_descriptor_json), (''origin'', toy_descriptor_json)])"
  by (simp_all add: toy_bundle_def)

lemma toy_parse_manifest: "parse_manifest toy_bundle ''m'' = Ok toy_parsed"
  by (simp add: parse_manifest_def MAX_BUNDLE_MANIFEST_BYTES_def toy_parsed_def toy_bd_digest run_simps
      stats_named_def toy_descriptor_json_def)

lemma toy_policy_ok: "validate_policy toy_bundle toy_parsed toy_bundle_policy = Ok ManifestSha256Pinned"
  by (simp add: validate_policy_def toy_parsed_def toy_bundle_policy_def default_policy_def)
     (simp add: toy_manifest_def toy_database_def MAX_BUNDLE_COMPRESSED_BYTES_def MAX_BUNDLE_DATABASE_BYTES_def)

lemma toy_described: "describe_database_with_digest (ob_database toy_opened) (toy_digest CHR ''d'') 1 = Ok toy_database"
proof -
  have "\<lparr>cd_database_sha256 = toy_digest CHR ''d'', cd_database_bytes = 1,
             cd_application_id = CATALOG_APPLICATION_ID, cd_schema_version = 3, cd_stats = toy_stats,
             cd_integrity = cd_integrity toy_database, cd_provenance = cd_provenance toy_database,
             cd_composition = cd_composition toy_database\<rparr> = toy_database"
    by (simp add: toy_database_def)
  moreover have "toy_stats\<lparr>cs_database_bytes := 1\<rparr> = toy_stats" "cs_schema_version toy_stats = 3"
    by (simp_all add: toy_stats_def)
  moreover have "\<not> MAX_BUNDLE_DATABASE_BYTES < 1" by (simp add: MAX_BUNDLE_DATABASE_BYTES_def)
  ultimately show ?thesis
    by (simp add: describe_database_with_digest_def toy_opened_def Let_def)
qed

lemma toy_header: "verify_zstd_header toy_opened 1 = Ok ()"
  by (simp add: verify_zstd_header_def toy_opened_def ZSTD_MAGIC_def Let_def byte_def)

lemma toy_decompressed: "\<exists>v. decompress_opened toy_bundle toy_opened toy_parsed toy_bundle_policy = Ok (v, ''d'')"
proof -
  have sizes: "bm_compressed_bytes toy_manifest = 1" "cd_database_bytes (bm_payload toy_manifest) = 1"
    "bm_compressed_sha256 toy_manifest = toy_digest CHR ''c''" "bm_payload toy_manifest = toy_database"
    "cd_database_sha256 toy_database = toy_digest CHR ''d''" "cd_database_bytes toy_database = 1"
    "unat (vp_max_database_bytes toy_bundle_policy) = 17179869184"
    by (simp_all add: toy_manifest_def toy_database_def toy_bundle_policy_def default_policy_def
        MAX_BUNDLE_DATABASE_BYTES_def)
  show ?thesis
    using toy_policy_ok toy_header toy_described
    by (simp add: decompress_opened_def Let_def toy_parsed_def sizes toy_bd_digest hash_open_file_bounded_def)
       (simp add: toy_opened_def hash_open_file_bounded_def toy_bd_digest sizes)
qed

theorem decompress_verified_witness:
  "bd_sha256_bytes toy_sha ''d'' = cd_database_sha256 (bm_payload (pm_manifest toy_parsed)) \<and>
   length ''d'' \<le> unat (vp_max_database_bytes toy_bundle_policy) \<and>
   (\<exists>compressed. bounded_reads (unat (bm_compressed_bytes (pm_manifest toy_parsed))) [] (ob_reads toy_opened) = Ok compressed \<and>
      length ''d'' \<le> ratio_bound (length compressed))"
proof -
  obtain v where "decompress_opened toy_bundle toy_opened toy_parsed toy_bundle_policy = Ok (v, ''d'')"
    using toy_decompressed by blast
  from decompress_verified [OF this] show ?thesis by auto
qed

theorem bundle_id_commits_witness:
  "validate_bundle_manifest toy_bundle (toy_manifest\<lparr>bm_created_at := LATER\<rparr>) = Ok () \<and>
   bm_profile toy_manifest = bm_profile (toy_manifest\<lparr>bm_created_at := LATER\<rparr>) \<and>
   cd_database_sha256 (bm_payload toy_manifest) = cd_database_sha256 (bm_payload (toy_manifest\<lparr>bm_created_at := LATER\<rparr>))"
proof -
  let ?m = "toy_manifest\<lparr>bm_created_at := LATER\<rparr>"
  have "manifest_refused toy_bundle ?m = manifest_refused toy_bundle toy_manifest"
    "bn_to_vec toy_bundle ?m = bn_to_vec toy_bundle toy_manifest"
    by (simp_all add: manifest_refused_def toy_bundle_def)
  then have valid: "validate_bundle_manifest toy_bundle ?m = Ok ()"
    using toy_manifest_valid by (simp add: validate_bundle_manifest_def)
  have "id_material ?m = id_material toy_manifest" by (simp add: id_material_def)
  then have "inj_on (bn_sha toy_bundle) {id_material toy_manifest, id_material ?m}" by simp
  from bundle_id_commits [OF toy_manifest_valid valid this] valid show ?thesis by simp
qed

theorem projected_bundle_profile_witness:
  "cc_sources (cd_composition (bm_payload toy_manifest)) = [toy_source] \<and>
   profile_sources (bm_profile toy_manifest) (cc_sources (cd_composition (bm_payload toy_manifest))) \<and>
   source_is_consistent toy_source"
proof -
  have "bm_profile toy_manifest \<noteq> ProfileFull" "cc_sources (cd_composition (bm_payload toy_manifest)) = [toy_source]"
    "cc_sources (cd_composition (bm_origin toy_manifest)) = [toy_source]"
    by (simp_all add: toy_manifest_def toy_database_def toy_sources_def)
  note facts = this and result = projected_bundle_profile [OF toy_manifest_valid this(1)]
  from result facts(3) have "source_is_consistent toy_source" by simp
  with facts(2) result show ?thesis by blast
qed

theorem root_profile_separates_roles_witness:
  "\<exists>(kss :: string list list) keys. distinct (concat kss) \<and> vpath toy_root [''signed'', ''keys''] = VObj keys \<and>
     length (concat kss) = length keys \<and> length keys \<le> 32"
proof -
  have "root_profile (toy_env [] (\<lambda>_. None)) toy_root = Ok ()" by simp
  from root_profile_separates_roles [OF this] show ?thesis
    by blast
qed

section \<open>A full import\<close>

definition toy_metadata :: "file_map \<Rightarrow> bool" where
  "toy_metadata files \<longleftrightarrow>
     files ''/m/timestamp.json'' = Some ''t'' \<and> files ''/m/1.snapshot.json'' = Some ''s'' \<and>
     files ''/m/1.targets.json'' = Some ''g''"

lemma digit_one: "digit_char (Suc 0) = CHR ''1''"
  by (rule byte_inj [THEN iffD1]) (simp add: digit_char_def byte_def)

lemma show_one [simp]: "show_nat (Suc 0) = ''1''"
  by (subst show_nat.simps) (simp add: digit_one)

lemma toy_meta_paths [simp]:
  "path_join ''/m'' ''timestamp.json'' = ''/m/timestamp.json''"
  "path_join ''/m'' ''1.snapshot.json'' = ''/m/1.snapshot.json''"
  "path_join ''/m'' ''1.targets.json'' = ''/m/1.targets.json''"
  by (simp_all add: path_join_def ends_with_def starts_with_def)

definition toy_counted :: "session \<Rightarrow> session" where
  "toy_counted s = s\<lparr>sn_total := sn_total s + 1\<rparr>"

lemma toy_read_metadata:
  "is_absolute p \<Longrightarrow> sn_files s p = Some [c] \<Longrightarrow> 0 < limit \<Longrightarrow> sn_total s \<le> 99 \<Longrightarrow>
     read_metadata (toy_env table receipts) p limit s = (toy_counted s, Ok [c])"
  by (simp add: read_metadata_def op_bind_def toy_counted_def METADATA_BUDGET_def)

definition toy_evidence :: "char \<Rightarrow> string \<Rightarrow> string \<Rightarrow> role_evidence" where
  "toy_evidence c role signers =
     \<lparr>re_version = 1, re_raw_sha256 = toy_digest c, re_signed_sha256 = toy_digest (last role),
      re_expires = LATER, re_accepted_signer_ids = map toy_digest signers, re_threshold = length signers\<rparr>"

lemma toy_evidences [simp]:
  "evidence (toy_env table receipts) toy_root toy_timestamp ''t'' ''timestamp'' = Ok (toy_evidence CHR ''t'' ''timestamp'' ''8'')"
  "evidence (toy_env table receipts) toy_root toy_snapshot ''s'' ''snapshot'' = Ok (toy_evidence CHR ''s'' ''snapshot'' ''6'')"
  "evidence (toy_env table receipts) toy_root toy_targets ''g'' ''targets'' = Ok (toy_evidence CHR ''g'' ''targets'' ''34'')"
  "evidence (toy_env table receipts) toy_root toy_root ''r'' ''root'' = Ok (toy_evidence CHR ''r'' ''root'' ''01'')"
proof -
  have thresholds: "wire_number (vpath toy_root [''signed'', ''roles'', ''timestamp'']) ''threshold'' 32 = Ok 1"
    "wire_number (vpath toy_root [''signed'', ''roles'', ''snapshot'']) ''threshold'' 32 = Ok 1"
    "wire_number (vpath toy_root [''signed'', ''roles'', ''targets'']) ''threshold'' 32 = Ok 2"
    "wire_number (vpath toy_root [''signed'', ''roles'', ''root'']) ''threshold'' 32 = Ok 2"
    by (simp_all add: vpath_def) (simp_all add: toy_roles_def toy_role_def vindex_def wire_number_def)
  have forms: "toy_canonical (vindex toy_timestamp ''signed'') = Some ''timestamp''"
    "toy_canonical (vindex toy_snapshot ''signed'') = Some ''snapshot''"
    "toy_canonical (vindex toy_targets ''signed'') = Some ''targets''"
    "toy_canonical (vindex toy_root ''signed'') = Some ''root''"
    by (simp_all add: toy_timestamp_def toy_snapshot_def toy_targets_def toy_root_def toy_meta_def toy_canonical_signed)
  have members: "wire_number (vindex v ''signed'') ''version'' U32_MAX = Ok 1 \<and>
      wire_string (vindex v ''signed'') ''expires'' = Ok LATER"
    if "v \<in> {toy_timestamp, toy_snapshot, toy_targets, toy_root}" for v
    using that by (auto simp: toy_timestamp_def toy_snapshot_def toy_targets_def toy_root_def toy_meta_def
        toy_signed_def vindex_def wire_number_def wire_string_def U32_MAX_def)
  show "evidence (toy_env table receipts) toy_root toy_timestamp ''t'' ''timestamp'' = Ok (toy_evidence CHR ''t'' ''timestamp'' ''8'')"
    "evidence (toy_env table receipts) toy_root toy_snapshot ''s'' ''snapshot'' = Ok (toy_evidence CHR ''s'' ''snapshot'' ''6'')"
    "evidence (toy_env table receipts) toy_root toy_targets ''g'' ''targets'' = Ok (toy_evidence CHR ''g'' ''targets'' ''34'')"
    "evidence (toy_env table receipts) toy_root toy_root ''r'' ''root'' = Ok (toy_evidence CHR ''r'' ''root'' ''01'')"
    by (simp_all add: evidence_def members forms thresholds wire_canonical_def toy_evidence_def)
qed

text \<open>The links and the scope of the sample metadata.\<close>

lemma toy_link_shape:
  "target_link (VObj (toy_link c)) = Ok ()" "target_link (VObj (toy_link c @ [(''version'', VNum 1)])) = Ok ()"
  "target_link (VObj ((''custom'', w) # toy_link c)) = Ok ()"
  by (simp_all add: target_link_def toy_link_def wire_number_def closed_def vindex_def bt_contains_def
      wire_hex_at_def wire_string_def)

lemma toy_metadata_links:
  "metadata_link toy_timestamp ''snapshot.json'' = Ok (VObj (toy_link CHR ''s'' @ [(''version'', VNum 1)]))"
  "metadata_link toy_snapshot ''targets.json'' = Ok (VObj (toy_link CHR ''g'' @ [(''version'', VNum 1)]))"
proof -
  have "vpath (toy_meta role name c signers) [''signed'', ''meta''] = VObj [(name, VObj (toy_link c @ [(''version'', VNum 1)]))]"
    for role name c signers
    by (simp add: toy_meta_def toy_signed_def vpath_def vindex_def)
  moreover have "vpath v [''signed'', ''meta'', name] = vindex (vpath v [''signed'', ''meta'']) name" for v name
    by (simp add: vpath_def)
  ultimately show
    "metadata_link toy_timestamp ''snapshot.json'' = Ok (VObj (toy_link CHR ''s'' @ [(''version'', VNum 1)]))"
    "metadata_link toy_snapshot ''targets.json'' = Ok (VObj (toy_link CHR ''g'' @ [(''version'', VNum 1)]))"
    by (simp_all add: metadata_link_def toy_timestamp_def toy_snapshot_def closed_def bt_contains_def Let_def
        toy_link_shape vindex_def) (simp_all add: toy_link_def wire_number_def U32_MAX_def)
qed

lemma toy_check_links:
  "check_link (toy_env table receipts) (VObj (toy_link CHR ''s'' @ [(''version'', VNum 1)])) ''s'' = Ok ()"
  "check_link (toy_env table receipts) (VObj (toy_link CHR ''g'' @ [(''version'', VNum 1)])) ''g'' = Ok ()"
proof -
  have "wire_number (vindex toy_snapshot ''signed'') ''version'' U32_MAX = Ok 1"
    "wire_number (vindex toy_targets ''signed'') ''version'' U32_MAX = Ok 1"
    by (simp_all add: toy_snapshot_def toy_targets_def toy_meta_def toy_signed_def vindex_def wire_number_def U32_MAX_def)
  then show "check_link (toy_env table receipts) (VObj (toy_link CHR ''s'' @ [(''version'', VNum 1)])) ''s'' = Ok ()"
    "check_link (toy_env table receipts) (VObj (toy_link CHR ''g'' @ [(''version'', VNum 1)])) ''g'' = Ok ()"
    by (simp_all add: check_link_def toy_link_shape)
      (simp_all add: toy_link_def wire_number_def U32_MAX_def vindex_def wire_string_def)
qed

definition toy_scope :: trust_scope where
  "toy_scope = \<lparr>ts_publisher_id = ''pub'', ts_catalog_id = ''cat'', ts_channel = ''stable'', ts_profile = ''core''\<rparr>"

lemma toy_target_scope [simp]: "target_scope toy_target = toy_scope" "scope_target toy_scope = toy_target_name"
  "tt_profile toy_target = ''core''" "tt_release_sequence toy_target = 5" "tt_bundle_id toy_target = toy_bundle_id"
  by (simp_all add: target_scope_def toy_target_def toy_scope_def scope_target_def toy_target_name_def)

lemma toy_allows [simp]: "policy_allows toy_policy toy_scope = Ok ()" "validate_trust_scope toy_scope = Ok ()"
proof -
  show "validate_trust_scope toy_scope = Ok ()"
    by (simp add: validate_trust_scope_def toy_scope_def wire_identifier_def is_alnum_def is_lower_def
        is_upper_def is_digit_def byte_def)
  then show "policy_allows toy_policy toy_scope = Ok ()"
    by (simp add: policy_allows_def toy_policy_def policy_scope_def) (simp add: toy_scope_def)
qed

lemma toy_target_read: "target_from_value toy_custom = Some toy_target"
  by (simp add: toy_custom_def target_from_value.simps closed_def TARGET_FIELDS_def bt_contains_def
      target_of_fields_def vindex_def toy_target_def)

lemma toy_target_valid: "validate_target (toy_env table receipts) toy_target = Ok ()"
  by (simp add: validate_target_def validate_schema_def)
     (simp add: toy_target_def toy_bundle_id_def MAX_SEQUENCE_def starts_with_def)

lemma toy_accept:
  assumes "st_policy st = toy_policy" and "st_floors st = [(''core'', \<lparr>fl_sequence = 1, fl_manifest_sha256 = None\<rparr>)]"
  shows "accept_target (toy_env table receipts) st toy_target_name toy_entry = Ok toy_target"
proof -
  have entry: "vindex (vindex toy_entry ''hashes'') ''sha256'' = VStr (toy_digest CHR ''m'')"
    "vindex toy_entry ''custom'' = VObj [(''secureflow'', toy_custom)]"
    "wire_string (vindex toy_entry ''hashes'') ''sha256'' = Ok (toy_digest CHR ''m'')"
    by (simp_all add: toy_entry_def toy_link_def vindex_def wire_string_def)
  have "vpath toy_entry [''custom'', ''secureflow''] = toy_custom"
    by (simp add: vpath_def entry) (simp add: vindex_def)
  moreover have "target_link toy_entry = Ok ()" by (simp add: toy_entry_def toy_link_shape)
  moreover have "tp_bootstrap_manifest_sha256 toy_policy = None" by (simp add: toy_policy_def)
  ultimately show ?thesis
    by (simp add: accept_target_def entry assms closed_def bt_contains_def toy_target_read toy_target_valid)
qed

text \<open>The state after the import of every role: three roles, and the floor of the target.\<close>

definition toy_retained :: "char \<Rightarrow> string \<Rightarrow> string \<Rightarrow> role_record" where
  "toy_retained c role signers = \<lparr>rr_raw = [c], rr_evidence = toy_evidence c role signers\<rparr>"

definition toy_roled :: "string \<Rightarrow> role_record \<Rightarrow> session \<Rightarrow> session" where
  "toy_roled role rec s = s\<lparr>sn_state := (sn_state s)\<lparr>st_roles := bt_insert role rec (st_roles (sn_state s))\<rparr>\<rparr>"

lemma toy_retain:
  assumes "plain_table table" and "toy_ready s"
    and "evidence (toy_env table receipts) toy_root v [c] role = Ok (toy_evidence c role signers)"
  shows "retain_role (toy_env table receipts) toy_root v [c] role s
    = (toy_saved table (toy_roled role (toy_retained c role signers) s), Ok ())"
proof -
  have "toy_ready (toy_roled role (toy_retained c role signers) s)"
    using assms(2) by (simp add: toy_ready_def toy_roled_def)
  from toy_save [OF assms(1) this, of receipts] assms(3) show ?thesis
    by (simp add: retain_role_def op_bind_def put_state_def toy_roled_def toy_retained_def)
qed

lemma toy_import_timestamp:
  assumes "plain_table table" and "toy_ready s" and "toy_metadata (sn_files s)" and "sn_total s \<le> 99"
    and "st_roles (sn_state s) = []"
  shows "import_timestamp (toy_env table receipts) ''/m'' toy_root now () s =
    (toy_saved table (toy_roled ''timestamp'' (toy_retained CHR ''t'' ''timestamp'' ''8'') (toy_counted s)),
     Ok (VObj (toy_link CHR ''s'' @ [(''version'', VNum 1)]), ()))"
proof -
  have ready: "toy_ready (toy_counted s)" using assms(2) by (simp add: toy_ready_def toy_counted_def)
  have read: "read_metadata (toy_env table receipts) ''/m/timestamp.json'' (LIMITS ! 3) s = (toy_counted s, Ok ''t'')"
    using assms by (intro toy_read_metadata) (simp_all add: toy_metadata_def LIMITS_def)
  have "session_expiry (toy_env table receipts) toy_timestamp ''timestamp'' (toy_counted s) = Ok ()"
    using ready by (simp add: session_expiry_def toy_ready_def toy_timestamp_def toy_meta_def ROLES_def)
  moreover have "role_floor (toy_env table receipts) (sn_state (toy_counted s)) ''timestamp'' toy_timestamp = Ok ()"
    using assms(5) by (simp add: role_floor_def toy_counted_def)
  ultimately show ?thesis
    using toy_retain [OF assms(1) ready toy_evidences(1), of receipts]
    by (simp add: import_timestamp_def op_bind_def read toy_metadata_links)
qed

lemma toy_import_snapshot:
  assumes "plain_table table" and "toy_ready s" and "toy_metadata (sn_files s)" and "sn_total s \<le> 99"
    and "map_of (st_roles (sn_state s)) ''snapshot'' = None"
  shows "import_snapshot (toy_env table receipts) ''/m'' toy_root now (VObj (toy_link CHR ''s'' @ [(''version'', VNum 1)])) () s =
    (toy_saved table (toy_roled ''snapshot'' (toy_retained CHR ''s'' ''snapshot'' ''6'') (toy_counted s)),
     Ok (VObj (toy_link CHR ''g'' @ [(''version'', VNum 1)]), ()))"
proof -
  have ready: "toy_ready (toy_counted s)" using assms(2) by (simp add: toy_ready_def toy_counted_def)
  have version: "wire_number (VObj (toy_link CHR ''s'' @ [(''version'', VNum 1)])) ''version'' U32_MAX = Ok 1"
    by (simp add: toy_link_def wire_number_def U32_MAX_def)
  have read: "read_metadata (toy_env table receipts) ''/m/1.snapshot.json'' (LIMITS ! 2) s = (toy_counted s, Ok ''s'')"
    using assms by (intro toy_read_metadata) (simp_all add: toy_metadata_def LIMITS_def)
  have "session_expiry (toy_env table receipts) toy_snapshot ''snapshot'' (toy_counted s) = Ok ()"
    using ready by (simp add: session_expiry_def toy_ready_def toy_snapshot_def toy_meta_def ROLES_def)
  moreover have "role_floor (toy_env table receipts) (sn_state (toy_counted s)) ''snapshot'' toy_snapshot = Ok ()"
    using assms(5) by (simp add: role_floor_def toy_counted_def)
  ultimately show ?thesis
    using toy_retain [OF assms(1) ready toy_evidences(2), of receipts]
    by (simp add: import_snapshot_def op_bind_def version read toy_metadata_links toy_check_links)
qed

definition toy_floored :: "session \<Rightarrow> session" where
  "toy_floored s = s\<lparr>sn_state := (sn_state s)\<lparr>st_floors :=
     [(''core'', \<lparr>fl_sequence = 5, fl_manifest_sha256 = Some (toy_digest CHR ''m'')\<rparr>)]\<rparr>\<rparr>"

lemma toy_import_targets:
  assumes "plain_table table" and "toy_ready s" and "toy_metadata (sn_files s)" and "sn_total s \<le> 99"
    and "map_of (st_roles (sn_state s)) ''targets'' = None"
    and "st_floors (sn_state s) = [(''core'', \<lparr>fl_sequence = 1, fl_manifest_sha256 = None\<rparr>)]"
  shows "import_targets (toy_env table receipts) ''/m'' toy_root now (VObj (toy_link CHR ''g'' @ [(''version'', VNum 1)])) () s =
    (toy_saved table (toy_roled ''targets'' (toy_retained CHR ''g'' ''targets'' ''34'') (toy_floored (toy_counted s))),
     Ok [(''core'', toy_target)])"
proof -
  have ready: "toy_ready (toy_counted s)" "toy_ready (toy_floored (toy_counted s))"
    using assms(2) by (simp_all add: toy_ready_def toy_counted_def toy_floored_def)
  have version: "wire_number (VObj (toy_link CHR ''g'' @ [(''version'', VNum 1)])) ''version'' U32_MAX = Ok 1"
    by (simp add: toy_link_def wire_number_def U32_MAX_def)
  have read: "read_metadata (toy_env table receipts) ''/m/1.targets.json'' (LIMITS ! 1) s = (toy_counted s, Ok ''g'')"
    using assms by (intro toy_read_metadata) (simp_all add: toy_metadata_def LIMITS_def)
  have items: "vpath toy_targets [''signed'', ''targets''] = VObj [(toy_target_name, toy_entry)]"
    by (simp add: toy_targets_def toy_signed_def vpath_def vindex_def)
  have "session_expiry (toy_env table receipts) toy_targets ''targets'' (toy_counted s) = Ok ()"
    using ready(1) by (simp add: session_expiry_def toy_ready_def toy_targets_def ROLES_def)
  moreover have "role_floor (toy_env table receipts) (sn_state (toy_counted s)) ''targets'' toy_targets = Ok ()"
    using assms(5) by (simp add: role_floor_def toy_counted_def)
  moreover have "accept_target (toy_env table receipts) (sn_state (toy_counted s)) toy_target_name toy_entry = Ok toy_target"
    using assms(2,6) by (intro toy_accept) (simp_all add: toy_counted_def toy_ready_def)
  moreover have "wire_string (vpath (VObj [(toy_target_name, toy_entry)]) [toy_target_name, ''hashes'']) ''sha256''
      = Ok (toy_digest CHR ''m'')"
    by (simp add: vpath_def vindex_def toy_entry_def toy_link_def wire_string_def)
  moreover have "(toy_counted s)\<lparr>sn_state := (sn_state (toy_counted s))\<lparr>st_floors := bt_insert ''core''
       \<lparr>fl_sequence = 5, fl_manifest_sha256 = Some (toy_digest CHR ''m'')\<rparr> (st_floors (sn_state (toy_counted s)))\<rparr>\<rparr>
      = toy_floored (toy_counted s)"
    using assms(6) by (simp add: toy_floored_def toy_counted_def)
  ultimately show ?thesis
    using toy_retain [OF assms(1) ready(2) toy_evidences(3), of receipts]
    by (simp add: import_targets_def op_bind_def version read [unfolded One_nat_def] items toy_check_links put_state_def)
qed

text \<open>The whole import, from a session with the sample metadata at hand.\<close>

definition toy_imported :: "toy_table \<Rightarrow> session \<Rightarrow> session" where
  "toy_imported table s =
     toy_saved table (toy_roled ''targets'' (toy_retained CHR ''g'' ''targets'' ''34'') (toy_floored (toy_counted
       (toy_saved table (toy_roled ''snapshot'' (toy_retained CHR ''s'' ''snapshot'' ''6'') (toy_counted
       (toy_saved table (toy_roled ''timestamp'' (toy_retained CHR ''t'' ''timestamp'' ''8'') (toy_counted s)))))))))"

definition toy_fresh :: "session \<Rightarrow> bool" where
  "toy_fresh s \<longleftrightarrow> toy_ready s \<and> toy_metadata (sn_files s) \<and> sn_total s = 0 \<and> st_generation (sn_state s) \<le> 3 \<and>
     st_roles (sn_state s) = [] \<and> st_floors (sn_state s) = [(''core'', \<lparr>fl_sequence = 1, fl_manifest_sha256 = None\<rparr>)]"

lemmas toy_steps = toy_saved_def toy_roled_def toy_floored_def toy_counted_def Let_def

lemma toy_import_metadata:
  assumes plain: "plain_table table" and fresh: "toy_fresh s"
  shows "import_metadata (toy_env table receipts) ''/m'' False s = (toy_imported table s, Ok [(''core'', toy_target)])"
proof -
  define a where "a = toy_saved table (toy_roled ''timestamp'' (toy_retained CHR ''t'' ''timestamp'' ''8'') (toy_counted s))"
  define b where "b = toy_saved table (toy_roled ''snapshot'' (toy_retained CHR ''s'' ''snapshot'' ''6'') (toy_counted a))"
  have s: "toy_ready s" "toy_metadata (sn_files s)" "sn_total s \<le> 99" "st_roles (sn_state s) = []"
    using fresh by (simp_all add: toy_fresh_def)
  have a: "toy_ready a" "toy_metadata (sn_files a)" "sn_total a \<le> 99" "map_of (st_roles (sn_state a)) ''snapshot'' = None"
    using fresh by (simp_all add: a_def toy_steps toy_fresh_def toy_ready_def toy_metadata_def)
  have b: "toy_ready b" "toy_metadata (sn_files b)" "sn_total b \<le> 99" "map_of (st_roles (sn_state b)) ''targets'' = None"
    "st_floors (sn_state b) = [(''core'', \<lparr>fl_sequence = 1, fl_manifest_sha256 = None\<rparr>)]"
    using fresh by (simp_all add: b_def a_def toy_steps toy_fresh_def toy_ready_def toy_metadata_def)
  have "current_root (toy_env table receipts) (sn_state s) = Ok (toy_root, ())"
    and "st_maximum_verification_time (sn_state s) = NOW" and "sn_clock s = toy_clock"
    using s(1) by (simp_all add: toy_ready_def)
  then show ?thesis
    using toy_import_roots [OF s(1), of table receipts] toy_import_timestamp [OF plain s, of receipts 0]
      toy_import_snapshot [OF plain a, of receipts 0] toy_import_targets [OF plain b, of receipts 0]
    by (simp add: import_metadata_def op_bind_def toy_imported_def flip: a_def b_def)
qed

theorem accepted_metadata_has_quorum_witness:
  "\<exists>t. import_metadata toy_env1 ''/m'' False (toy_session (toy_state 2)
        [''/m/timestamp.json'' \<mapsto> ''t'', ''/m/1.snapshot.json'' \<mapsto> ''s'', ''/m/1.targets.json'' \<mapsto> ''g''])
        = (t, Ok [(''core'', toy_target)]) \<and>
     metadata_accepted toy_env1 toy_clock (sn_state t) \<and> targets_floored toy_env1 (sn_state t) [(''core'', toy_target)]"
proof -
  let ?s = "toy_session (toy_state 2)
        [''/m/timestamp.json'' \<mapsto> ''t'', ''/m/1.snapshot.json'' \<mapsto> ''s'', ''/m/1.targets.json'' \<mapsto> ''g'']"
  have "toy_fresh ?s" "sn_clock ?s = toy_clock"
    by (simp_all add: toy_fresh_def toy_ready_def toy_session_def toy_state_def toy_metadata_def)
  with toy_import_metadata [OF toy_states_plain this(1), of "\<lambda>_. Some ''x''"]
  have "import_metadata toy_env1 ''/m'' False ?s = (toy_imported toy_states ?s, Ok [(''core'', toy_target)])"
    and clock: "sn_clock ?s = toy_clock" by (simp_all add: toy_env1_def)
  with accepted_metadata_has_quorum [OF this(1)] show ?thesis by auto
qed

section \<open>An installation\<close>

definition toy_install_files :: file_map where
  "toy_install_files =
     [''/m/timestamp.json'' \<mapsto> ''t'', ''/m/1.snapshot.json'' \<mapsto> ''s'', ''/m/1.targets.json'' \<mapsto> ''g'',
      ''/m/c.json'' \<mapsto> ''m'']"

definition toy_start :: session where
  "toy_start = toy_session (toy_state 2) toy_install_files"

definition toy_after :: session where
  "toy_after = toy_imported toy_states toy_start"

lemma toy_after_parts:
  "toy_ready toy_after" "map_of (st_roles (sn_state toy_after)) ''targets'' = Some (toy_retained CHR ''g'' ''targets'' ''34'')"
  "st_generation (sn_state toy_after) = 5" "st_completed (sn_state toy_after) = []"
  "map fst (st_roles (sn_state toy_after)) = [''snapshot'', ''targets'', ''timestamp'']"
  "sn_files toy_after ''/m/c.json'' = Some ''m''"
  "\<And>p. p \<noteq> ''/s/state.json'' \<Longrightarrow> sn_files toy_after p = toy_install_files p"
  by (simp_all add: toy_after_def toy_imported_def toy_start_def toy_session_def toy_state_def toy_steps toy_ready_def
      toy_install_files_def)

lemma toy_after_import:
  "import_metadata toy_env1 ''/m'' False toy_start = (toy_after, Ok [(''core'', toy_target)])"
proof -
  have "toy_fresh toy_start"
    by (simp add: toy_start_def toy_fresh_def toy_ready_def toy_session_def toy_state_def toy_metadata_def
        toy_install_files_def)
  then show ?thesis unfolding toy_env1_def toy_after_def by (rule toy_import_metadata [OF toy_states_plain])
qed

lemma toy_entry_path: "vpath toy_targets [''signed'', ''targets'', toy_target_name] = toy_entry"
  by (simp add: toy_targets_def toy_signed_def vpath_def vindex_def)

lemma toy_entry_link: "check_link (toy_env table receipts) toy_entry ''m'' = Ok ()"
  by (simp add: check_link_def toy_entry_def toy_link_shape)
     (simp add: toy_link_def wire_number_def vindex_def wire_string_def)

lemma bundle_result_value [simp]: "bundle_result (Ok x) = Ok x"
  by simp

lemma toy_authenticate:
  "authenticate toy_env1 toy_scope ''/m/c.json'' [(''core'', toy_target)] toy_after = Ok (toy_parsed, toy_target, toy_bundle_policy)"
proof -
  have policy: "st_policy (sn_state toy_after) = toy_policy" using toy_after_parts(1) by (simp add: toy_ready_def)
  have read: "storage_read toy_system (sn_files toy_after) ''/m/c.json'' MAX_BUNDLE_MANIFEST_BYTES = Ok ''m''"
    using toy_after_parts(6) by (simp add: MAX_BUNDLE_MANIFEST_BYTES_def)
  have parse: "wire_parse (toy_env table receipts) ''m'' MAX_BUNDLE_MANIFEST_BYTES = Ok (VStr ''m'')" for table receipts
    by (simp add: wire_parse_def toy_json_def strict_cases MAX_BUNDLE_MANIFEST_BYTES_def)
  have same: "bm_bundle_id toy_manifest = toy_bundle_id" "bm_profile toy_manifest = ProfileCore"
    "bm_profile_policy_version toy_manifest = tt_profile_policy_version toy_target"
    "bm_contract_version toy_manifest = tt_manifest_contract_version toy_target"
    "bm_validation_authority toy_manifest = tt_validation_authority toy_target"
    by (simp_all add: toy_manifest_def toy_target_def CATALOG_PROFILE_POLICY_VERSION_def BUNDLE_VERSION_def
        VALIDATION_AUTHORITY_def)
  have profile: "ts_profile toy_scope = ''core''" by (simp add: toy_scope_def)
  show ?thesis
    by (simp add: authenticate_def toy_env1_def policy read parse profile toy_after_parts(2) toy_retained_def
        toy_entry_path toy_entry_link toy_parse_manifest)
      (simp add: toy_parsed_def same toy_bundle_policy_def)
qed

lemma toy_prepare:
  "prepare_trusted_install toy_bundle toy_io (sn_files toy_after) True toy_opened toy_parsed ''/out/db'' toy_bundle_policy
    = Ok \<lparr>pr_content = ''d'', pr_descriptor = toy_database\<rparr>"
proof -
  have "ensure_new_catalog_output toy_io (sn_files toy_after) ''/out/db'' = Ok ()"
    by (simp add: ensure_new_catalog_output_def ensure_new_output_def sqlite_sidecar_paths_def sidecar_missing_def
        symlink_metadata_def toy_io_def toy_after_parts(7) toy_install_files_def has_file_name_def
        path_components_def run_simps)
  moreover obtain v where "decompress_opened toy_bundle toy_opened toy_parsed toy_bundle_policy = Ok (v, ''d'')"
    using toy_decompressed by blast
  moreover have "bm_payload (pm_manifest toy_parsed) = toy_database" by (simp add: toy_parsed_def toy_manifest_def)
  ultimately show ?thesis by (simp add: prepare_trusted_install_def toy_policy_ok)
qed

lemma toy_make_receipt: "\<exists>r. make_receipt toy_env1 toy_target toy_parsed toy_after = Ok r"
proof -
  have root: "current_root toy_env1 (sn_state toy_after) = Ok (toy_root, ())" "st_roots (sn_state toy_after) = [''r'']"
    using toy_after_parts(1) by (simp_all add: toy_env1_def toy_ready_def)
  have length: "wire_number toy_entry ''length'' MAX_BUNDLE_MANIFEST_BYTES = Ok 1"
    by (simp add: toy_entry_def toy_link_def wire_number_def MAX_BUNDLE_MANIFEST_BYTES_def)
  have raw: "rr_raw (toy_retained CHR ''g'' ''targets'' ''34'') = ''g''" by (simp add: toy_retained_def)
  have ev: "evidence toy_env1 toy_root toy_root ''r'' ''root'' = Ok (toy_evidence CHR ''r'' ''root'' ''01'')"
    "envelope toy_env1 ''g'' ''targets'' = Ok toy_targets"
    by (simp_all add: toy_env1_def)
  have some: "minimum (map f (bt_insert k v m)) \<noteq> None" for f :: "string \<times> role_evidence \<Rightarrow> string" and k v m
  proof -
    have "map f (bt_insert k v m) \<noteq> []" by (cases "(k, v, m)" rule: bt_insert.cases) simp_all
    then show ?thesis by (simp add: minimum_def split: list.split)
  qed
  then obtain first where "minimum (map (\<lambda>(k, r). re_expires r) (bt_insert ''root'' (toy_evidence CHR ''r'' ''root'' ''01'')
      (map (\<lambda>(k, v). (k, rr_evidence v)) (st_roles (sn_state toy_after))))) = Some first" by fastforce
  then show ?thesis
    by (simp add: make_receipt_def Let_def toy_after_parts(2) raw ev root toy_entry_path length root_evidence_def)
qed

text \<open>The receipt file of a digest is a new file of the directory of receipts.\<close>

lemma toy_receipt_path: "receipt_path STORE key = ''/s/receipts/'' @ key @ ''.json''"
  by (simp add: STORE_def receipt_path_def path_join_def ends_with_def starts_with_def)

lemma toy_receipt_parent: "path_parent (receipt_path STORE (toy_digest c)) = Some ''/s/receipts''"
proof -
  have "\<not> (\<exists>x \<in> set (toy_digest c). x = CHR ''/'')"
    using toy_digest_hex(2) [of c] by (auto simp: list_all_iff is_lower_hex_def is_digit_def byte_def)
  then have "dropWhile (\<lambda>c. c \<noteq> CHR ''/'') (rev (toy_digest c) @ ''/stpiecer/s/'') = ''/stpiecer/s/''"
    by (subst dropWhile_append2) auto
  then show ?thesis
    by (simp add: path_parent_def toy_receipt_path Let_def starts_with_def)
qed

lemma toy_export_one:
  assumes "sn_store s = STORE" and "sn_files s (receipt_path STORE (toy_digest c)) = None"
    and "st_completed (sn_state s) = [(toy_digest c, r)]"
  shows "\<exists>t. export_receipts (toy_env table (\<lambda>_. Some ''x'')) s = (t, Ok ())"
  using assms
  by (simp add: export_receipts_def op_bind_def export_receipt_def Let_def symlink_metadata_def toy_io_def
      write_new_def toy_receipt_parent sync_parent_def)

lemma toy_publish:
  assumes "\<forall>p. p \<noteq> ''/s/state.json'' \<longrightarrow> sn_files s p = toy_install_files p"
  shows "publish_file (toy_env table receipts) \<lparr>pr_content = ''d'', pr_descriptor = toy_database\<rparr> ''/out/db'' s
    = (s\<lparr>sn_files := (sn_files s)(''/out/db'' \<mapsto> ''d'')\<rparr>, Ok ())"
proof -
  have new: "ensure_new_catalog_output toy_io (sn_files s) ''/out/db'' = Ok ()"
    using assms by (simp add: ensure_new_catalog_output_def ensure_new_output_def sqlite_sidecar_paths_def
        sidecar_missing_def symlink_metadata_def toy_io_def toy_install_files_def has_file_name_def
        path_components_def run_simps)
  have database: "cd_database_bytes toy_database = 1" "cd_database_sha256 toy_database = toy_digest CHR ''d''"
    by (simp_all add: toy_database_def)
  have "verify_installed_descriptor toy_sha toy_io ((sn_files s)(''/out/db'' \<mapsto> ''d'')) ''/out/db'' toy_database = Ok ()"
    using assms by (simp add: verify_installed_descriptor_def ensure_new_output_def sqlite_sidecar_paths_def
        symlink_metadata_def toy_io_def toy_install_files_def has_file_name_def path_components_def run_simps
        hash_open_file_bounded_def database toy_bd_digest)
  then show ?thesis
    using new by (simp add: publish_file_def publish_def Let_def toy_io_def)
qed

theorem install_authorized_witness:
  "\<exists>t receipt. session_install toy_env1 (\<lambda>_. Ok ()) ''/m'' toy_scope ''/m/c.json'' ''/b'' ''/out/db'' toy_start = (t, Ok receipt) \<and>
     (\<exists>content. sn_files t ''/out/db'' = Some content \<and>
        content_matches toy_sha content (rc_database_sha256 receipt) (unat (rc_database_bytes receipt))) \<and>
     receipt_authorized toy_env1 (sn_state t) receipt \<and> durable toy_env1 t"
proof -
  have check: "check_output toy_env1 ''/out/db'' toy_start = Ok ()"
    by (simp add: check_output_def toy_env1_def toy_start_def toy_session_def path_parent_def Let_def
        has_file_name_def path_components_def run_simps inside_store_def STORE_def)
  have payload: "bm_payload (pm_manifest toy_parsed) = toy_database"
    by (simp add: toy_parsed_def toy_manifest_def)
  obtain r0 where r0: "make_receipt toy_env1 toy_target toy_parsed toy_after = Ok r0"
    using toy_make_receipt by blast
  define r where "r = r0\<lparr>rc_operation := ''install'', rc_installation := ''pending'',
      rc_output := Some ''/out/db'', rc_reserves_acceptance := True, rc_state_generation := 6,
      rc_transaction_id := Some (toy_digest CHR ''x'')\<rparr>"
  have pending: "pending_receipt toy_env1 toy_target toy_parsed ''/out/db'' toy_after = Ok r"
    using r0 toy_after_parts(3)
    by (simp add: pending_receipt_def next_generation_def MAX_SEQUENCE_def toy_env1_def r_def Let_def)
  have reserved: "reserve_completion toy_env1 r toy_after = Ok (toy_digest CHR ''x'')"
    by (simp add: reserve_completion_def r_def next_generation_def MAX_SEQUENCE_def toy_env1_def
        plain_lengths [OF toy_states_plain])
  define c where "c = toy_saved toy_states (toy_after\<lparr>sn_state := (sn_state toy_after)\<lparr>st_pending :=
      Some \<lparr>pn_receipt = r, pn_descriptor = toy_database\<rparr>\<rparr>\<rparr>)"
  have save1: "session_save toy_env1 (toy_after\<lparr>sn_state := (sn_state toy_after)\<lparr>st_pending :=
      Some \<lparr>pn_receipt = r, pn_descriptor = toy_database\<rparr>\<rparr>\<rparr>) = (c, Ok ())"
    unfolding c_def toy_env1_def using toy_after_parts(1)
    by (intro toy_save [OF toy_states_plain]) (simp add: toy_ready_def)
  have c_files: "\<forall>p. p \<noteq> ''/s/state.json'' \<longrightarrow> sn_files c p = toy_install_files p"
    using toy_after_parts(7) by (simp add: c_def toy_saved_def Let_def)
  define d where "d = c\<lparr>sn_files := (sn_files c)(''/out/db'' \<mapsto> ''d''),
      sn_state := finish_pending (Some (toy_digest CHR ''x'', r\<lparr>rc_installation := ''complete''\<rparr>)) (sn_state c)\<rparr>"
  have d: "toy_ready d" "st_completed (sn_state d) = [(toy_digest CHR ''x'', r\<lparr>rc_installation := ''complete''\<rparr>)]"
    "\<forall>p. p \<noteq> ''/s/state.json'' \<and> p \<noteq> ''/out/db'' \<longrightarrow> sn_files d p = toy_install_files p"
    using toy_after_parts(1,3,4) c_files
    by (simp_all add: d_def c_def toy_ready_def toy_saved_def Let_def finish_pending_def)
  from toy_save [OF toy_states_plain d(1)] have save2: "session_save toy_env1 d = (toy_saved toy_states d, Ok ())"
    by (simp add: toy_env1_def)
  have "sn_files d (receipt_path STORE (toy_digest CHR ''x'')) = None"
    using d(3) by (simp add: toy_receipt_path toy_install_files_def)
  then have "\<exists>t. export_receipts toy_env1 (toy_saved toy_states d) = (t, Ok ())"
    unfolding toy_env1_def using d(1,2)
    by (intro toy_export_one) (simp_all add: toy_saved_def Let_def toy_ready_def toy_receipt_path)
  then obtain t where export: "export_receipts toy_env1 (toy_saved toy_states d) = (t, Ok ())" by blast
  have "sn_store c = STORE" using toy_after_parts(1) by (simp add: c_def toy_saved_def Let_def toy_ready_def)
  then have commit: "commit_install toy_env1 (\<lambda>_. Ok ()) \<lparr>pr_content = ''d'', pr_descriptor = toy_database\<rparr> toy_database
      ''/out/db'' r (toy_digest CHR ''x'') toy_after = (t, Ok (r\<lparr>rc_installation := ''complete''\<rparr>))"
    using save1 save2 export toy_publish [OF c_files, of toy_states "\<lambda>_. Some ''x''"]
    by (simp add: commit_install_def op_bind_def put_state_def d_def toy_env1_def)
  have start: "sn_mutating toy_start" "policy_allows (st_policy (sn_state toy_start)) toy_scope = Ok ()"
    "se_system toy_env1 n = toy_system" "se_bundle toy_env1 = toy_bundle" "se_publish_io toy_env1 n = toy_io"
    "se_private_temp toy_env1 n" "se_opened toy_env1 n p = toy_opened" for n p
    by (simp_all add: toy_start_def toy_session_def toy_state_def toy_env1_def)
  have "session_install toy_env1 (\<lambda>_. Ok ()) ''/m'' toy_scope ''/m/c.json'' ''/b'' ''/out/db'' toy_start
      = (t, Ok (r\<lparr>rc_installation := ''complete''\<rparr>))"
    using toy_after_import check toy_authenticate toy_prepare pending reserved commit
    by (simp add: session_install_def op_bind_def start payload)
  from install_authorized [OF this] this show ?thesis by (simp add: toy_env1_def)
qed

theorem files_outside_kept_witness:
  "run_commands toy_env1 STORE toy_commands (toy_files(''/m/note'' \<mapsto> ''n'')) ''/m/note'' = Some ''n''"
proof -
  have "\<not> inside_store STORE ''/m/note''"
    by (simp add: inside_store_def STORE_def path_components_def)
  from files_outside_kept [OF this, of toy_commands "toy_files(''/m/note'' \<mapsto> ''n'')"] show ?thesis
    by (simp add: toy_commands_def)
qed

section \<open>A recovery\<close>

definition toy_interrupted :: trust_state where
  "toy_interrupted = (toy_state 2)\<lparr>st_pending := Some
     \<lparr>pn_receipt = toy_receipt\<lparr>rc_installation := ''pending''\<rparr>, pn_descriptor = toy_database\<rparr>\<rparr>"

definition toy_env4 :: "unit session_env" where
  "toy_env4 = toy_env [(''1'', toy_interrupted)] (\<lambda>_. Some ''x'')"

definition toy_crashed :: file_map where
  "toy_crashed = [''/s/state.json'' \<mapsto> ''1'', ''/out/db'' \<mapsto> ''d'']"

lemma toy_plain4: "plain_table [(''1'', toy_interrupted)]"
  by (simp add: plain_table_def)

lemma toy_recovering:
  "recover_pending toy_env4 (toy_session toy_interrupted toy_crashed)
     \<lparr>pn_receipt = toy_receipt\<lparr>rc_installation := ''pending''\<rparr>, pn_descriptor = toy_database\<rparr>
   = Ok (Some (toy_digest CHR ''x'', toy_receipt))"
proof -
  have database: "cd_database_bytes toy_database = 1" "cd_database_sha256 toy_database = toy_digest CHR ''d''"
    by (simp_all add: toy_database_def)
  have verified: "verify_installed_descriptor toy_sha toy_io toy_crashed ''/out/db'' toy_database = Ok ()"
    by (simp add: verify_installed_descriptor_def ensure_new_output_def sqlite_sidecar_paths_def symlink_metadata_def
        toy_io_def toy_crashed_def has_file_name_def path_components_def run_simps hash_open_file_bounded_def
        database toy_bd_digest)
  have parent: "path_parent ''/out/db'' = Some ''/out''"
    by (simp add: path_parent_def Let_def)
  have found: "symlink_metadata toy_io toy_crashed ''/out/db'' = ProbeFound" "pb_synced toy_io"
    by (simp_all add: symlink_metadata_def toy_io_def toy_crashed_def)
  have receipt: "rc_output toy_receipt = Some ''/out/db''" "rc_transaction_id toy_receipt = Some (toy_digest CHR ''x'')"
    "rc_database_sha256 toy_receipt = toy_digest CHR ''d''" "rc_database_bytes toy_receipt = 1"
    "toy_receipt\<lparr>rc_installation := ''complete''\<rparr> = toy_receipt"
    by (simp_all add: toy_receipt_def)
  show ?thesis
    by (simp add: recover_pending_def Let_def toy_session_def toy_env4_def receipt database parent found
        verified map_err_def sync_parent_def)
qed

lemma toy_reopened: "\<exists>files s. session_open toy_env4 0 toy_crashed STORE toy_clock True = (files, Ok s)"
proof -
  let ?s = "toy_session toy_interrupted toy_crashed"
  define a where "a = ?s\<lparr>sn_state := finish_pending (Some (toy_digest CHR ''x'', toy_receipt)) (sn_state ?s)\<rparr>"
  have opened: "open_snapshot toy_env4 0 toy_crashed STORE toy_clock True = Ok ?s"
    unfolding toy_env4_def by (rule toy_open [OF toy_plain4, where b = "''1''"])
      (simp_all add: toy_crashed_def toy_interrupted_def toy_checked_def toy_state_def)
  have a: "toy_ready a" "st_completed (sn_state a) = [(toy_digest CHR ''x'', toy_receipt)]" "sn_files a = toy_crashed"
    by (simp_all add: a_def toy_ready_def toy_session_def toy_interrupted_def toy_state_def finish_pending_def)
  have save: "session_save toy_env4 a = (toy_saved [(''1'', toy_interrupted)] a, Ok ())"
    unfolding toy_env4_def by (rule toy_save [OF toy_plain4 a(1)])
  have "\<exists>t. export_receipts toy_env4 (toy_saved [(''1'', toy_interrupted)] a) = (t, Ok ())"
    unfolding toy_env4_def using a
    by (intro toy_export_one) (simp_all add: toy_saved_def Let_def toy_ready_def toy_receipt_path toy_crashed_def)
  then obtain t where export: "export_receipts toy_env4 (toy_saved [(''1'', toy_interrupted)] a) = (t, Ok ())" by blast
  have pending: "st_pending (sn_state ?s) = Some
     \<lparr>pn_receipt = toy_receipt\<lparr>rc_installation := ''pending''\<rparr>, pn_descriptor = toy_database\<rparr>"
    by (simp add: toy_session_def toy_interrupted_def)
  have "session_recover toy_env4 ?s = (t, Ok ())"
    using save export by (simp add: session_recover_def op_bind_def pending toy_recovering put_state_def a_def)
  with opened show ?thesis by (simp add: session_open_def)
qed

theorem recovery_settles_pending_witness:
  "\<exists>files s. session_open toy_env4 0 toy_crashed STORE toy_clock True = (files, Ok s) \<and>
     st_pending (sn_state s) = None \<and> durable toy_env4 s \<and>
     map_of (st_completed (sn_state s)) (toy_digest CHR ''x'') = Some toy_receipt"
proof -
  obtain files s where run: "session_open toy_env4 0 toy_crashed STORE toy_clock True = (files, Ok s)"
    using toy_reopened by blast
  have read: "read_state toy_env4 ''1'' = Ok toy_interrupted"
    unfolding toy_env4_def
    by (rule toy_read_state [OF toy_plain4]) (simp_all add: toy_interrupted_def toy_checked_def toy_state_def)
  have loaded: "load_state toy_env4 0 toy_crashed STORE = Ok toy_interrupted"
    using read by (simp add: load_state_def toy_env4_def map_err_def toy_crashed_def MAX_STATE_BYTES_def)
  have pending: "st_pending toy_interrupted = Some
     \<lparr>pn_receipt = toy_receipt\<lparr>rc_installation := ''pending''\<rparr>, pn_descriptor = toy_database\<rparr>"
    by (simp add: toy_interrupted_def)
  have receipt: "rc_output toy_receipt = Some ''/out/db''" "rc_transaction_id toy_receipt = Some (toy_digest CHR ''x'')"
    "toy_receipt\<lparr>rc_installation := ''complete''\<rparr> = toy_receipt"
    by (simp_all add: toy_receipt_def)
  from recovery_settles_pending [OF run loaded pending] run show ?thesis
    by (auto simp: receipt toy_crashed_def)
qed

section \<open>A status\<close>

definition toy_installed :: trust_state where
  "toy_installed = (toy_state 2)\<lparr>
     st_roles := [(''snapshot'', toy_retained CHR ''s'' ''snapshot'' ''6''),
       (''targets'', toy_retained CHR ''g'' ''targets'' ''34''), (''timestamp'', toy_retained CHR ''t'' ''timestamp'' ''8'')],
     st_floors := [(''core'', \<lparr>fl_sequence = 5, fl_manifest_sha256 = Some (toy_digest CHR ''m'')\<rparr>)],
     st_completed := [(toy_digest CHR ''x'', toy_receipt)]\<rparr>"

definition toy_asked :: session where
  "toy_asked = toy_session toy_installed [''/s/r.json'' \<mapsto> ''y'']"

lemma toy_installed_roles:
  "map_of (st_roles toy_installed) ''timestamp'' = Some (toy_retained CHR ''t'' ''timestamp'' ''8'')"
  "map_of (st_roles toy_installed) ''snapshot'' = Some (toy_retained CHR ''s'' ''snapshot'' ''6'')"
  "map_of (st_roles toy_installed) ''targets'' = Some (toy_retained CHR ''g'' ''targets'' ''34'')"
  by (simp_all add: toy_installed_def)

lemma toy_receipt_matches: "receipt_target_matches toy_env1 toy_receipt toy_targets"
proof -
  have "rc_scope toy_receipt = toy_scope" "rc_release_sequence toy_receipt = 5"
    "rc_manifest_sha256 toy_receipt = toy_digest CHR ''m''" "rc_manifest_bytes toy_receipt = 1"
    by (simp_all add: toy_receipt_def)
  moreover have "vpath toy_entry [''custom'', ''secureflow''] = toy_custom"
    "vpath toy_entry [''hashes'', ''sha256''] = VStr (toy_digest CHR ''m'')" "vindex toy_entry ''length'' = VNum 1"
    by (simp_all add: toy_entry_def toy_link_def vpath_def vindex_def)
  ultimately show ?thesis
    by (simp add: receipt_target_matches_def toy_entry_path Let_def toy_target_read toy_env1_def toy_target_valid is_ok_def)
qed

lemma toy_fresh_roles:
  "expiry (toy_env table receipts) toy_policy toy_clock toy_timestamp ''timestamp'' = Ok ()"
  "expiry (toy_env table receipts) toy_policy toy_clock toy_snapshot ''snapshot'' = Ok ()"
  "expiry (toy_env table receipts) toy_policy toy_clock toy_targets ''targets'' = Ok ()"
  by (simp_all add: toy_timestamp_def toy_snapshot_def toy_targets_def toy_meta_def ROLES_def)

lemma toy_status: "session_status toy_env1 ''/s/r.json'' toy_asked = Ok ([], toy_receipt)"
proof -
  have state: "sn_state toy_asked = toy_installed" "sn_clock toy_asked = toy_clock"
    "st_policy toy_installed = toy_policy" "st_roots toy_installed = [''r'']" "st_pending toy_installed = None"
    "st_completed toy_installed = [(toy_digest CHR ''x'', toy_receipt)]"
    "st_floors toy_installed = [(''core'', \<lparr>fl_sequence = 5, fl_manifest_sha256 = Some (toy_digest CHR ''m'')\<rparr>)]"
    by (simp_all add: toy_asked_def toy_session_def toy_installed_def toy_state_def)
  have receipt: "rc_transaction_id toy_receipt = Some (toy_digest CHR ''x'')" "rc_scope toy_receipt = toy_scope"
    "rc_release_sequence toy_receipt = 5" "rc_manifest_sha256 toy_receipt = toy_digest CHR ''m''"
    "ts_profile toy_scope = ''core''"
    by (simp_all add: toy_receipt_def toy_scope_def)
  have raws: "rr_raw (toy_retained c role signers) = [c]" for c role signers
    by (simp add: toy_retained_def)
  have read: "storage_read toy_system (sn_files toy_asked) ''/s/r.json'' MAX_RECEIPT_BYTES = Ok ''y''"
    "wire_parse (toy_env table receipts) ''y'' MAX_RECEIPT_BYTES = Ok (VStr ''y'')" for table receipts
    by (simp_all add: toy_asked_def toy_session_def MAX_RECEIPT_BYTES_def wire_parse_def toy_json_def strict_cases)
  have links: "status_links toy_env1 toy_installed = Ok []"
  proof -
    have "vpath toy_timestamp [''signed'', ''meta'', ''snapshot.json''] = VObj (toy_link CHR ''s'' @ [(''version'', VNum 1)])"
      "vpath toy_snapshot [''signed'', ''meta'', ''targets.json''] = VObj (toy_link CHR ''g'' @ [(''version'', VNum 1)])"
      by (simp_all add: toy_timestamp_def toy_snapshot_def toy_meta_def toy_signed_def vpath_def vindex_def)
    then show ?thesis
      by (simp add: status_links_def toy_installed_roles raws toy_env1_def toy_check_links code_of_def)
  qed
  have roles: "status_roles toy_env1 toy_asked toy_receipt toy_root 0 () [''timestamp'', ''snapshot'', ''targets''] = Ok []"
    using toy_receipt_matches
    by (simp add: state toy_installed_roles raws toy_env1_def update_role_def code_of_def session_expiry_def
        toy_fresh_roles Let_def)
  show ?thesis
    using links roles
    by (simp add: session_status_def Let_def state receipt read toy_env1_def code_of_def session_expiry_def)
qed

theorem status_accepts_current_witness:
  "session_status toy_env1 ''/s/r.json'' toy_asked = Ok ([], toy_receipt) \<and>
   role_current toy_env1 toy_root toy_asked ''targets'' \<and>
   map_of (st_floors (sn_state toy_asked)) (ts_profile (rc_scope toy_receipt)) =
     Some \<lparr>fl_sequence = rc_release_sequence toy_receipt, fl_manifest_sha256 = Some (rc_manifest_sha256 toy_receipt)\<rparr>"
proof -
  have "current_root toy_env1 (sn_state toy_asked) = Ok (toy_root, ())"
    by (simp add: toy_env1_def toy_asked_def toy_session_def toy_installed_def toy_state_def)
  with status_accepts_current [OF toy_status] toy_status show ?thesis
    by (auto simp: status_accepts_def)
qed

end
