(* ===== verification/VersionEvaluation.thy ===== *)
theory VersionEvaluation
  imports Json MachineInts
begin

text \<open>
  The evaluation of a package version against the affected data of an advisory: \<open>catalog.rs\<close> of
  \<open>crates/secureflow-knowledge\<close>, from \<open>OsvVersionRange\<close> to \<open>evaluate_semver_range\<close>. Versions
  are values of the crate \<open>semver\<close>: its parser and \<open>cmp_precedence\<close> are parameters, and so is the
  reading of the stored JSON texts.
\<close>

section \<open>Data\<close>

datatype version_ordering = OrdLess | OrdEqual | OrdGreater

record osv_version_event =
  oe_introduced :: "string option"
  oe_fixed :: "string option"
  oe_last_affected :: "string option"
  oe_limit :: "string option"

record osv_version_range =
  og_kind :: string
  og_events :: "osv_version_event list"

datatype version_evaluation_status = VersionNotEvaluated | VersionAffected | VersionNotAffected | VersionUnknown

datatype version_evaluation_basis =
  NotRequested
| ExactEnumeratedVersion
| OsvSemverRange
| SupportedDataExcludesVersion
| UnsupportedOrInvalidData

datatype version_evaluation_issue =
  InvalidQuerySemver
| InvalidStoredJson
| InvalidSemverEvents
| MissingVersionData
| UnsupportedRangeType

fun issue_rank :: "version_evaluation_issue \<Rightarrow> nat" where
  "issue_rank InvalidQuerySemver = 0" | "issue_rank InvalidStoredJson = 1"
| "issue_rank InvalidSemverEvents = 2" | "issue_rank MissingVersionData = 3"
| "issue_rank UnsupportedRangeType = 4"

lemma issue_rank_inj: "issue_rank a = issue_rank b \<longleftrightarrow> a = b"
  by (cases a; cases b) simp_all

instantiation version_evaluation_issue :: linorder
begin

definition less_eq_version_evaluation_issue ::
  "version_evaluation_issue \<Rightarrow> version_evaluation_issue \<Rightarrow> bool" where
  "less_eq_version_evaluation_issue a b \<longleftrightarrow> issue_rank a \<le> issue_rank b"

definition less_version_evaluation_issue ::
  "version_evaluation_issue \<Rightarrow> version_evaluation_issue \<Rightarrow> bool" where
  "less_version_evaluation_issue a b \<longleftrightarrow> issue_rank a < issue_rank b"

instance
  by standard
     (auto simp: less_eq_version_evaluation_issue_def less_version_evaluation_issue_def
        issue_rank_inj [symmetric])

end

record version_assessment =
  va_status :: version_evaluation_status
  va_basis :: version_evaluation_basis
  va_evaluated_version :: "string option"
  va_matched_value :: "string option"
  va_affected_data_sha256 :: "string list"
  va_issues :: "version_evaluation_issue list"

text \<open>The parameters; \<open>ve_to_vec\<close> is the serialization of a parsed value, which cannot fail.\<close>

record 'v version_env =
  ve_parse :: "string \<Rightarrow> 'v option"
  ve_cmp :: "'v \<Rightarrow> 'v \<Rightarrow> version_ordering"
  ve_versions :: "string \<Rightarrow> string list option"
  ve_ranges :: "string \<Rightarrow> json list option"
  ve_range_of :: "json \<Rightarrow> osv_version_range option"
  ve_to_vec :: "json \<Rightarrow> string"
  ve_sha :: digest_fun

section \<open>One range\<close>

text \<open>The mutable variables of \<open>evaluate_semver_range\<close>.\<close>

record 'v range_scan =
  rs_introduced :: bool
  rs_open :: bool
  rs_affected :: bool
  rs_last :: "'v option"
  rs_limit :: bool
  rs_fixed :: bool
  rs_last_affected :: bool

definition empty_scan :: "'v range_scan" where
  "empty_scan = \<lparr>rs_introduced = False, rs_open = False, rs_affected = False, rs_last = None,
     rs_limit = False, rs_fixed = False, rs_last_affected = False\<rparr>"

datatype boundary_kind = BoundIntroduced | BoundFixed | BoundLastAffected

definition field_count :: "osv_version_event \<Rightarrow> nat" where
  "field_count e = length (filter (\<lambda>x. x \<noteq> None)
     [oe_introduced e, oe_fixed e, oe_last_affected e, oe_limit e])"

definition not_increasing ::
  "('v \<Rightarrow> 'v \<Rightarrow> version_ordering) \<Rightarrow> 'v option \<Rightarrow> 'v \<Rightarrow> bool" where
  "not_increasing cmp previous v = (case previous of None \<Rightarrow> False | Some l \<Rightarrow> cmp l v \<noteq> OrdLess)"

definition scan_limit ::
  "'v version_env \<Rightarrow> 'v \<Rightarrow> bool \<Rightarrow> string \<Rightarrow> 'v range_scan \<Rightarrow>
     version_evaluation_issue + 'v range_scan" where
  "scan_limit env query at_end value st =
     and_then (fail_if (rs_limit st \<or> \<not> at_end) InvalidSemverEvents) (\<lambda>_.
     (let seen = st\<lparr>rs_limit := True\<rparr> in
      if value \<noteq> ''*'' then
        and_then (ok_or (ve_parse env value) InvalidSemverEvents) (\<lambda>limit.
        and_then (fail_if (not_increasing (ve_cmp env) (rs_last seen) limit) InvalidSemverEvents) (\<lambda>_.
          Ok (if ve_cmp env query limit \<noteq> OrdLess then seen\<lparr>rs_affected := False\<rparr> else seen)))
      else Ok seen))"

definition event_boundary ::
  "osv_version_event \<Rightarrow> 'v range_scan \<Rightarrow>
     version_evaluation_issue + string \<times> boundary_kind \<times> 'v range_scan" where
  "event_boundary event st =
     (case oe_introduced event of
        Some value \<Rightarrow> Ok (value, BoundIntroduced, st\<lparr>rs_introduced := True\<rparr>)
      | None \<Rightarrow>
          (case oe_fixed event of
             Some value \<Rightarrow>
               if rs_last_affected st then Err InvalidSemverEvents
               else Ok (value, BoundFixed, st\<lparr>rs_fixed := True\<rparr>)
           | None \<Rightarrow>
               (case oe_last_affected event of
                  Some value \<Rightarrow>
                    if rs_fixed st then Err InvalidSemverEvents
                    else Ok (value, BoundLastAffected, st\<lparr>rs_last_affected := True\<rparr>)
                | None \<Rightarrow> Err InvalidSemverEvents)))"

definition boundary_version ::
  "'v version_env \<Rightarrow> nat \<Rightarrow> boundary_kind \<Rightarrow> string \<Rightarrow> version_evaluation_issue + 'v option" where
  "boundary_version env index kind value =
     (if kind = BoundIntroduced \<and> value = ''0''
      then (if index \<noteq> 0 then Err InvalidSemverEvents else Ok None)
      else and_then (ok_or (ve_parse env value) InvalidSemverEvents) (\<lambda>v. Ok (Some v)))"

definition advance_boundary ::
  "'v version_env \<Rightarrow> 'v option \<Rightarrow> 'v range_scan \<Rightarrow> version_evaluation_issue + 'v range_scan" where
  "advance_boundary env version st =
     (case version of
        None \<Rightarrow> Ok st
      | Some v \<Rightarrow>
          and_then (fail_if (not_increasing (ve_cmp env) (rs_last st) v) InvalidSemverEvents)
            (\<lambda>_. Ok (st\<lparr>rs_last := Some v\<rparr>)))"

text \<open>The last \<open>match\<close> of the loop; \<open>comparison\<close> is that of the query with the boundary.\<close>

definition apply_boundary ::
  "boundary_kind \<Rightarrow> version_ordering option \<Rightarrow> 'v range_scan \<Rightarrow>
     version_evaluation_issue + 'v range_scan" where
  "apply_boundary kind comparison st =
     (case kind of
        BoundIntroduced \<Rightarrow>
          if \<not> rs_open st
          then Ok (let opened = st\<lparr>rs_open := True\<rparr> in
                   if comparison \<noteq> Some OrdLess then opened\<lparr>rs_affected := True\<rparr> else opened)
          else Err InvalidSemverEvents
      | BoundFixed \<Rightarrow>
          if rs_open st
          then Ok (let closed = st\<lparr>rs_open := False\<rparr> in
                   if comparison \<noteq> None \<and> comparison \<noteq> Some OrdLess
                   then closed\<lparr>rs_affected := False\<rparr> else closed)
          else Err InvalidSemverEvents
      | BoundLastAffected \<Rightarrow>
          if rs_open st
          then Ok (let closed = st\<lparr>rs_open := False\<rparr> in
                   if comparison = Some OrdGreater then closed\<lparr>rs_affected := False\<rparr> else closed)
          else Err InvalidSemverEvents)"

definition scan_event ::
  "'v version_env \<Rightarrow> 'v \<Rightarrow> nat \<Rightarrow> nat \<Rightarrow> osv_version_event \<Rightarrow> 'v range_scan \<Rightarrow>
     version_evaluation_issue + 'v range_scan" where
  "scan_event env query len index event st =
     and_then (fail_if (field_count event \<noteq> 1) InvalidSemverEvents) (\<lambda>_.
     (case oe_limit event of
        Some value \<Rightarrow> scan_limit env query (index + 1 = len) value st
      | None \<Rightarrow>
          and_then (event_boundary event st) (\<lambda>(value, kind, st1).
          and_then (boundary_version env index kind value) (\<lambda>version.
          and_then (advance_boundary env version st1) (\<lambda>st2.
            apply_boundary kind (map_option (ve_cmp env query) version) st2)))))"

fun scan_events ::
  "'v version_env \<Rightarrow> 'v \<Rightarrow> nat \<Rightarrow> nat \<Rightarrow> osv_version_event list \<Rightarrow> 'v range_scan \<Rightarrow>
     version_evaluation_issue + 'v range_scan" where
  "scan_events env query len index [] st = Ok st"
| "scan_events env query len index (event # events) st =
     and_then (scan_event env query len index event st) (\<lambda>st'.
       scan_events env query len (index + 1) events st')"

definition evaluate_semver_range ::
  "'v version_env \<Rightarrow> 'v \<Rightarrow> osv_version_range \<Rightarrow> version_evaluation_issue + bool" where
  "evaluate_semver_range env query rg =
     and_then (fail_if (og_events rg = []) InvalidSemverEvents) (\<lambda>_.
     and_then (scan_events env query (length (og_events rg)) 0 (og_events rg) empty_scan) (\<lambda>st.
     and_then (fail_if (\<not> rs_introduced st) InvalidSemverEvents) (\<lambda>_. Ok (rs_affected st))))"

section \<open>All rows of a package\<close>

text \<open>
  The rows are pairs of the stored ranges and versions. A loop either goes on with the issues and
  the flag \<open>supported_data_observed\<close>, or returns the assessment at once, which is the error here.
\<close>

record version_scan =
  vs_issues :: "version_evaluation_issue list"
  vs_supported :: bool

definition note_issue :: "version_evaluation_issue \<Rightarrow> version_scan \<Rightarrow> version_scan" where
  "note_issue issue st = st\<lparr>vs_issues := insort_insert issue (vs_issues st)\<rparr>"

definition affected_data_digests :: "'v version_env \<Rightarrow> (string \<times> string) list \<Rightarrow> string list" where
  "affected_data_digests env rows =
     remdups_adj (sort (map (\<lambda>(ranges, versions).
       encode_hex (ve_sha env (hashed_fields [''secureflow-affected-data-v1'', ranges, versions]))) rows))"

definition affected_assessment ::
  "version_evaluation_basis \<Rightarrow> string \<Rightarrow> string \<Rightarrow> string list \<Rightarrow> version_assessment" where
  "affected_assessment basis requested matched digests =
     \<lparr>va_status = VersionAffected, va_basis = basis, va_evaluated_version = Some requested,
      va_matched_value = Some matched, va_affected_data_sha256 = digests, va_issues = []\<rparr>"

definition evaluate_range_value ::
  "'v version_env \<Rightarrow> string \<Rightarrow> string list \<Rightarrow> json \<Rightarrow> version_scan \<Rightarrow>
     version_assessment + version_scan" where
  "evaluate_range_value env requested digests value st =
     (case ve_range_of env value of
        None \<Rightarrow> Ok (note_issue InvalidStoredJson st)
      | Some rg \<Rightarrow>
          if og_kind rg \<noteq> ''SEMVER'' then Ok (note_issue UnsupportedRangeType st)
          else
            (let seen = st\<lparr>vs_supported := True\<rparr> in
             case ve_parse env requested of
               None \<Rightarrow> Ok (note_issue InvalidQuerySemver seen)
             | Some query \<Rightarrow>
                 (case evaluate_semver_range env query rg of
                    Inr True \<Rightarrow> Err (affected_assessment OsvSemverRange requested
                      (encode_hex (ve_sha env (ve_to_vec env value))) digests)
                  | Inr False \<Rightarrow> Ok seen
                  | Inl issue \<Rightarrow> Ok (note_issue issue seen))))"

fun evaluate_range_values ::
  "'v version_env \<Rightarrow> string \<Rightarrow> string list \<Rightarrow> json list \<Rightarrow> version_scan \<Rightarrow>
     version_assessment + version_scan" where
  "evaluate_range_values env requested digests [] st = Ok st"
| "evaluate_range_values env requested digests (value # values) st =
     and_then (evaluate_range_value env requested digests value st)
       (evaluate_range_values env requested digests values)"

definition evaluate_row ::
  "'v version_env \<Rightarrow> string \<Rightarrow> string list \<Rightarrow> string \<times> string \<Rightarrow> version_scan \<Rightarrow>
     version_assessment + version_scan" where
  "evaluate_row env requested digests row st0 =
     (case row of (ranges_json, versions_json) \<Rightarrow>
        (let (versions, st1) =
               (case ve_versions env versions_json of
                  Some versions \<Rightarrow> (versions, st0)
                | None \<Rightarrow> ([], note_issue InvalidStoredJson st0));
             st2 = (if versions \<noteq> [] then st1\<lparr>vs_supported := True\<rparr> else st1)
         in if requested \<in> set versions
            then Err (affected_assessment ExactEnumeratedVersion requested requested digests)
            else
              (case ve_ranges env ranges_json of
                 None \<Rightarrow> Ok (note_issue InvalidStoredJson st2)
               | Some ranges \<Rightarrow>
                   evaluate_range_values env requested digests ranges
                     (if versions = [] \<and> ranges = [] then note_issue MissingVersionData st2 else st2))))"

fun evaluate_rows ::
  "'v version_env \<Rightarrow> string \<Rightarrow> string list \<Rightarrow> (string \<times> string) list \<Rightarrow> version_scan \<Rightarrow>
     version_assessment + version_scan" where
  "evaluate_rows env requested digests [] st = Ok st"
| "evaluate_rows env requested digests (row # rows) st =
     and_then (evaluate_row env requested digests row st) (evaluate_rows env requested digests rows)"

definition evaluate_package_version ::
  "'v version_env \<Rightarrow> string option \<Rightarrow> (string \<times> string) list \<Rightarrow> version_assessment" where
  "evaluate_package_version env requested_version rows =
     (let digests = affected_data_digests env rows in
      case requested_version of
        None \<Rightarrow>
          \<lparr>va_status = VersionNotEvaluated, va_basis = NotRequested, va_evaluated_version = None,
           va_matched_value = None, va_affected_data_sha256 = digests, va_issues = []\<rparr>
      | Some requested \<Rightarrow>
          (case evaluate_rows env requested digests rows \<lparr>vs_issues = [], vs_supported = False\<rparr> of
             Inl assessment \<Rightarrow> assessment
           | Inr st \<Rightarrow>
               if vs_supported st \<and> vs_issues st = []
               then \<lparr>va_status = VersionNotAffected, va_basis = SupportedDataExcludesVersion,
                     va_evaluated_version = Some requested, va_matched_value = None,
                     va_affected_data_sha256 = digests, va_issues = vs_issues st\<rparr>
               else \<lparr>va_status = VersionUnknown, va_basis = UnsupportedOrInvalidData,
                     va_evaluated_version = Some requested, va_matched_value = None,
                     va_affected_data_sha256 = digests,
                     va_issues = (if vs_issues st = [] then [MissingVersionData] else vs_issues st)\<rparr>))"

end
