(* ===== verification/CatalogQuery.thy ===== *)
theory CatalogQuery
  imports CatalogBundle VersionEvaluation
begin

text \<open>
  The package queries of \<open>catalog.rs\<close> (\<open>search_package\<close>, \<open>search_package_version\<close>) and
  \<open>provenance\<close>: what they check, in which order, and what they make of the rows. The database is
  a parameter: a record with one function per SQL statement, whose \<open>Inl\<close> is the error of SQLite.
\<close>

definition MAX_QUERY_RESULTS :: nat where
  "MAX_QUERY_RESULTS = 1000"

record catalog_hit =
  ch_canonical_id :: string
  ch_source_name :: string
  ch_source_record_id :: string
  ch_title :: string
  ch_modified_at :: string
  ch_withdrawn :: bool

text \<open>A package hit has no score: the code sets \<open>score: None\<close> for it.\<close>

record catalog_version_hit =
  cv_advisory :: catalog_hit
  cv_version_assessment :: version_assessment

datatype catalog_error =
  CatalogInvalidPath string
| CatalogFilesystem string
| CatalogSqlite string
| CatalogSchemaMismatch u32 int
| CatalogApplicationIdMismatch int
| CatalogRecordTooLarge nat nat
| CatalogInvalidJson
| CatalogInvalidRecord string
| SourceConflict string
| ImportTooLarge nat
| CatalogInvalidQuery string
| CheckpointBusy int
| SnapshotConflict string
| SnapshotNotRegistered string
| SnapshotRollback string string string
| SnapshotIncomplete string
| DeltaConflict string
| DeltaNotRegistered string
| DeltaRollback string string string
| DeltaIncomplete string
| DeltaPreparing u64
| DeltaHasQuarantine u64
| DeltaRecordRollback string string string string
| CanonicalRebuildTooLarge string nat
| UnclassifiedDistributionRecords u64
| EmptyDistributionProfile catalog_profile

record catalog_db =
  db_user_version :: "catalog_error + int"
  db_preparing_deltas :: "catalog_error + int"
  db_package_hits :: "string \<Rightarrow> string \<Rightarrow> nat \<Rightarrow> catalog_error + catalog_hit list"
  db_affected_rows ::
    "string \<Rightarrow> string \<Rightarrow> string \<Rightarrow> string \<Rightarrow> catalog_error + (string \<times> string) list"
  db_complete_snapshots :: "catalog_error + string list"
  db_complete_deltas :: "catalog_error + string list"
  db_canonicalization :: "catalog_error + string"
  db_last_rebuild :: "catalog_error + string option"

section \<open>Checks\<close>

text \<open>Row counts and the schema version are \<open>i64\<close>: the model keeps them as integers.\<close>

definition nonnegative_count :: "int \<Rightarrow> catalog_error + u64" where
  "nonnegative_count value =
     (if value < 0 then Err (CatalogInvalidPath ''negative SQLite count'') else Ok (of_int value))"

definition ensure_no_preparing_delta :: "catalog_db \<Rightarrow> catalog_error + unit" where
  "ensure_no_preparing_delta db =
     and_then (db_user_version db) (\<lambda>version.
     if version < 3 then Ok ()
     else
       and_then (db_preparing_deltas db) (\<lambda>rows.
       and_then (nonnegative_count rows) (\<lambda>preparing.
         fail_if (preparing \<noteq> 0) (DeltaPreparing preparing))))"

definition validate_query :: "string \<Rightarrow> nat \<Rightarrow> catalog_error + unit" where
  "validate_query value limit =
     checks
       [fail_if (trim_is_empty value \<or> 500 < chars_count value)
          (CatalogInvalidQuery ''query must contain 1 to 500 characters''),
        fail_if (limit = 0 \<or> MAX_QUERY_RESULTS < limit)
          (CatalogInvalidQuery ''limit must be between 1 and 1000'')]"

section \<open>Queries\<close>

definition search_package ::
  "catalog_db \<Rightarrow> string \<Rightarrow> string \<Rightarrow> nat \<Rightarrow> catalog_error + catalog_hit list" where
  "search_package db ecosystem name limit =
     and_then (ensure_no_preparing_delta db) (\<lambda>_.
     and_then (validate_query ecosystem limit) (\<lambda>_.
     and_then (validate_query name limit) (\<lambda>_. db_package_hits db ecosystem name limit)))"

fun assess_hits ::
  "'v version_env \<Rightarrow> catalog_db \<Rightarrow> string \<Rightarrow> string \<Rightarrow> string option \<Rightarrow> catalog_hit list \<Rightarrow>
     catalog_error + catalog_version_hit list" where
  "assess_hits env db ecosystem name version [] = Ok []"
| "assess_hits env db ecosystem name version (hit # hits) =
     and_then (db_affected_rows db (ch_source_name hit) (ch_source_record_id hit) ecosystem name) (\<lambda>rows.
     and_then (assess_hits env db ecosystem name version hits) (\<lambda>rest.
       Ok (\<lparr>cv_advisory = hit, cv_version_assessment = evaluate_package_version env version rows\<rparr> # rest)))"

definition search_package_version ::
  "'v version_env \<Rightarrow> catalog_db \<Rightarrow> string \<Rightarrow> string \<Rightarrow> string option \<Rightarrow> nat \<Rightarrow>
     catalog_error + catalog_version_hit list" where
  "search_package_version env db ecosystem name version limit =
     and_then (validate_query ecosystem limit) (\<lambda>_.
     and_then (validate_query name limit) (\<lambda>_.
     and_then (check_opt (\<lambda>v. validate_query v limit) version) (\<lambda>_.
     and_then (search_package db ecosystem name limit) (\<lambda>hits.
       assess_hits env db ecosystem name version hits))))"

definition catalog_provenance_of :: "catalog_db \<Rightarrow> catalog_error + catalog_provenance" where
  "catalog_provenance_of db =
     and_then (ensure_no_preparing_delta db) (\<lambda>_.
     and_then (db_user_version db) (\<lambda>observed.
     and_then (db_complete_snapshots db) (\<lambda>snapshots.
     and_then (if 3 \<le> observed then db_complete_deltas db else Ok []) (\<lambda>deltas.
     and_then (db_canonicalization db) (\<lambda>canonicalization.
     and_then (db_last_rebuild db) (\<lambda>rebuild.
     and_then (if 0 \<le> observed \<and> observed < 2 ^ 32 then Ok (of_int observed)
               else Err (CatalogInvalidPath ''negative catalog schema version'')) (\<lambda>schema.
       Ok \<lparr>cp_schema_version = schema, cp_complete_snapshot_ids = snapshots,
           cp_complete_delta_ids = deltas, cp_canonicalization = canonicalization,
           cp_last_canonical_rebuild_id = rebuild\<rparr>)))))))"

end
