(* ===== verification/Correlation.thy ===== *)
theory Correlation
  imports RunModel CatalogQuery
begin

text \<open>
  \<open>crates/secureflow-knowledge/src/correlation.rs\<close>: a candidate of a run is linked with the
  advisories of a package. The documents of both versions, how they are built from a run and the
  hits of a catalog query, how they validate themselves and how they are read. JSON encoding and
  reading, RFC 3339 and SHA-256 are parameters; the clock's reading is \<open>now\<close>, \<open>None\<close> when it
  cannot be formatted.
\<close>

section \<open>Documents\<close>

definition CORRELATION_VERSION :: string where
  "CORRELATION_VERSION = ''secureflow-correlation-v1''"

definition CORRELATION_VERSION_V2 :: string where
  "CORRELATION_VERSION_V2 = ''secureflow-correlation-v2''"

definition MAX_CORRELATION_BYTES :: nat where
  "MAX_CORRELATION_BYTES = 4 * 1024 * 1024"

definition MAX_CORRELATION_MATCHES :: nat where
  "MAX_CORRELATION_MATCHES = 100"

definition PACKAGE_ASSERTION :: string where
  "PACKAGE_ASSERTION = ''operator-supplied-exact-package-context''"

definition MATCH_KIND :: string where
  "MATCH_KIND = ''exact-ecosystem-and-package-name''"

definition MATCH_KIND_V2 :: string where
  "MATCH_KIND_V2 = ''exact-ecosystem-package-with-osv-version-evaluation''"

definition VERSION_EVALUATOR :: string where
  "VERSION_EVALUATOR = ''osv-semver-and-enumerated-v1''"

definition HUMAN_ONLY :: string where
  "HUMAN_ONLY = ''human-only''"

record linked_run =
  lr_run_id :: string
  lr_manifest_sha256 :: string
  lr_finding_id :: string
  lr_human_decision :: human_decision

record package_context =
  pc_assertion :: string
  pc_ecosystem :: string
  pc_name :: string
  pc_version :: "string option"

record correlation_semantics =
  cn_advisory_match_kind :: string
  cn_affected_version_evaluated :: bool
  cn_causal_relationship_asserted :: bool
  cn_changes_human_decision :: bool
  cn_validation_authority :: string

record advisory_context =
  ac_canonical_id :: string
  ac_source_name :: string
  ac_source_record_id :: string
  ac_title :: string
  ac_modified_at :: string
  ac_withdrawn :: bool

record correlation_envelope =
  co_contract_version :: string
  co_correlation_id :: string
  co_created_at :: string
  co_linked_run :: linked_run
  co_package_context :: package_context
  co_catalog :: catalog_provenance
  co_semantics :: correlation_semantics
  co_advisories :: "advisory_context list"

record correlation_semantics_v2 =
  c2_advisory_match_kind :: string
  c2_version_evaluator :: string
  c2_affected_version_evaluated :: bool
  c2_version_result_validates_vulnerability :: bool
  c2_causal_relationship_asserted :: bool
  c2_changes_human_decision :: bool
  c2_validation_authority :: string

record version_summary =
  vy_affected :: u64
  vy_not_affected :: u64
  vy_unknown :: u64
  vy_not_evaluated :: u64

text \<open>\<open>AdvisoryContextV2\<close> has the fields of \<open>AdvisoryContext\<close> and the assessment.\<close>

record advisory_context_v2 = advisory_context +
  ac_version_assessment :: version_assessment

record correlation_envelope_v2 =
  e2_contract_version :: string
  e2_correlation_id :: string
  e2_created_at :: string
  e2_linked_run :: linked_run
  e2_package_context :: package_context
  e2_catalog :: catalog_provenance
  e2_semantics :: correlation_semantics_v2
  e2_version_summary :: version_summary
  e2_advisories :: "advisory_context_v2 list"

datatype correlation_document =
  CorrelationV1 correlation_envelope
| CorrelationV2 correlation_envelope_v2

datatype correlation_error =
  CorrelationFindingNotFound string
| CorrelationInvalidField string
| TooManyMatches nat nat
| CorrelationTimestamp
| CorrelationJson

type_synonym correlation_identity =
  "linked_run \<times> package_context \<times> catalog_provenance \<times> correlation_semantics \<times> advisory_context list"

type_synonym correlation_identity_v2 =
  "linked_run \<times> package_context \<times> catalog_provenance \<times> correlation_semantics_v2 \<times>
   version_summary \<times> advisory_context_v2 list"

record correlation_env =
  ce_sha :: digest_fun
  ce_rfc3339 :: "string \<Rightarrow> bool"
  ce_identity :: "correlation_identity \<Rightarrow> string"
  ce_identity_v2 :: "correlation_identity_v2 \<Rightarrow> string"
  ce_json :: "string \<Rightarrow> json option"
  ce_from_slice :: "string \<Rightarrow> correlation_envelope option"
  ce_of_json :: "json \<Rightarrow> correlation_envelope option"
  ce_of_json_v2 :: "json \<Rightarrow> correlation_envelope_v2 option"

fun document_linked_run :: "correlation_document \<Rightarrow> linked_run" where
  "document_linked_run (CorrelationV1 e) = co_linked_run e"
| "document_linked_run (CorrelationV2 e) = e2_linked_run e"

fun document_advisories_len :: "correlation_document \<Rightarrow> nat" where
  "document_advisories_len (CorrelationV1 e) = length (co_advisories e)"
| "document_advisories_len (CorrelationV2 e) = length (e2_advisories e)"

fun document_contract_version :: "correlation_document \<Rightarrow> string" where
  "document_contract_version (CorrelationV1 e) = CORRELATION_VERSION"
| "document_contract_version (CorrelationV2 e) = CORRELATION_VERSION_V2"

fun affected_version_evaluated :: "correlation_document \<Rightarrow> bool" where
  "affected_version_evaluated (CorrelationV1 e) = False"
| "affected_version_evaluated (CorrelationV2 e) = c2_affected_version_evaluated (e2_semantics e)"

section \<open>Validation\<close>

definition co_valid_sha256 :: "string \<Rightarrow> bool" where
  "co_valid_sha256 value \<longleftrightarrow> length value = 64 \<and> list_all is_lower_hex value"

definition valid_hash_identifier :: "string \<Rightarrow> string \<Rightarrow> bool" where
  "valid_hash_identifier value pfx =
     (case strip_prefix pfx value of
        None \<Rightarrow> False
      | Some tail \<Rightarrow> length tail = 64 \<and> co_valid_sha256 tail)"

definition co_valid_run_id :: "string \<Rightarrow> bool" where
  "co_valid_run_id value =
     (case strip_prefix ''sf_run_'' value of
        None \<Rightarrow> False
      | Some tail \<Rightarrow>
          16 \<le> length tail \<and> length tail \<le> 80 \<and>
          list_all (\<lambda>c. is_alnum c \<or> c = CHR ''_'' \<or> c = CHR ''-'') tail)"

definition valid_short :: "string \<Rightarrow> nat \<Rightarrow> bool" where
  "valid_short value maximum =
     (let trimmed = trim value in
      trimmed \<noteq> [] \<and> length trimmed \<le> maximum \<and> \<not> has_control trimmed)"

definition package_context_refused :: "package_context \<Rightarrow> bool" where
  "package_context_refused p =
     (pc_assertion p \<noteq> PACKAGE_ASSERTION \<or> \<not> valid_short (pc_ecosystem p) 100 \<or>
      \<not> valid_short (pc_name p) 512 \<or>
      (case pc_version p of None \<Rightarrow> False | Some version \<Rightarrow> \<not> valid_short version 256))"

definition catalog_refused :: "catalog_provenance \<Rightarrow> bool" where
  "catalog_refused c =
     (cp_schema_version c = 0 \<or> cp_complete_snapshot_ids c = [] \<or>
      list_ex (\<lambda>v. \<not> valid_hash_identifier v ''sf_snapshot_'') (cp_complete_snapshot_ids c) \<or>
      \<not> strictly_increasing (cp_complete_snapshot_ids c) \<or>
      list_ex (\<lambda>v. \<not> valid_hash_identifier v ''sf_delta_'') (cp_complete_delta_ids c) \<or>
      \<not> strictly_increasing (cp_complete_delta_ids c) \<or>
      trim_is_empty (cp_canonicalization c) \<or>
      (case cp_last_canonical_rebuild_id c of
         None \<Rightarrow> False | Some v \<Rightarrow> \<not> valid_hash_identifier v ''sf_canonical_''))"

definition advisory_refused :: "correlation_env \<Rightarrow> ('z) advisory_context_scheme \<Rightarrow> bool" where
  "advisory_refused env a =
     (\<not> valid_short (ac_canonical_id a) 256 \<or> \<not> valid_short (ac_source_name a) 128 \<or>
      \<not> valid_short (ac_source_record_id a) 256 \<or> 16384 < length (ac_title a) \<or>
      \<not> ce_rfc3339 env (ac_modified_at a))"

definition advisory_key :: "('z) advisory_context_scheme \<Rightarrow> string \<times> string \<times> string" where
  "advisory_key a = (ac_canonical_id a, ac_source_name a, ac_source_record_id a)"

definition expected_correlation_id :: "correlation_env \<Rightarrow> correlation_envelope \<Rightarrow> string" where
  "expected_correlation_id env e =
     ''sf_correlation_'' @ encode_hex (ce_sha env (ce_identity env
       (co_linked_run e, co_package_context e, co_catalog e, co_semantics e, co_advisories e)))"

definition expected_correlation_id_v2 :: "correlation_env \<Rightarrow> correlation_envelope_v2 \<Rightarrow> string" where
  "expected_correlation_id_v2 env e =
     ''sf_correlation_'' @ encode_hex (ce_sha env (ce_identity_v2 env
       (e2_linked_run e, e2_package_context e, e2_catalog e, e2_semantics e,
        e2_version_summary e, e2_advisories e)))"

definition validate_correlation ::
  "correlation_env \<Rightarrow> correlation_envelope \<Rightarrow> correlation_error + unit" where
  "validate_correlation env e =
     checks
       [fail_if (co_contract_version e \<noteq> CORRELATION_VERSION) (CorrelationInvalidField ''contract_version''),
        fail_if (\<not> ce_rfc3339 env (co_created_at e)) (CorrelationInvalidField ''created_at''),
        fail_if (\<not> co_valid_run_id (lr_run_id (co_linked_run e)))
          (CorrelationInvalidField ''linked_run.run_id''),
        fail_if (\<not> co_valid_sha256 (lr_manifest_sha256 (co_linked_run e)))
          (CorrelationInvalidField ''linked_run.manifest_sha256''),
        fail_if (trim_is_empty (lr_finding_id (co_linked_run e)) \<or> 256 < length (lr_finding_id (co_linked_run e)))
          (CorrelationInvalidField ''linked_run.finding_id''),
        fail_if (package_context_refused (co_package_context e)) (CorrelationInvalidField ''package_context''),
        fail_if (catalog_refused (co_catalog e)) (CorrelationInvalidField ''catalog''),
        fail_if (cn_advisory_match_kind (co_semantics e) \<noteq> MATCH_KIND \<or>
                 cn_affected_version_evaluated (co_semantics e) \<or>
                 cn_causal_relationship_asserted (co_semantics e) \<or>
                 cn_changes_human_decision (co_semantics e) \<or>
                 cn_validation_authority (co_semantics e) \<noteq> HUMAN_ONLY)
          (CorrelationInvalidField ''semantics''),
        fail_if (MAX_CORRELATION_MATCHES < length (co_advisories e))
          (TooManyMatches (length (co_advisories e)) MAX_CORRELATION_MATCHES),
        fail_if (list_ex (advisory_refused env) (co_advisories e)) (CorrelationInvalidField ''advisories''),
        fail_if (\<not> strictly_increasing (map advisory_key (co_advisories e)))
          (CorrelationInvalidField ''advisories order or uniqueness''),
        fail_if (co_correlation_id e \<noteq> expected_correlation_id env e)
          (CorrelationInvalidField ''correlation_id'')]"

definition valid_version_assessment :: "version_assessment \<Rightarrow> string option \<Rightarrow> bool" where
  "valid_version_assessment a requested =
     (if va_affected_data_sha256 a = [] \<or>
         list_ex (\<lambda>v. \<not> co_valid_sha256 v) (va_affected_data_sha256 a) \<or>
         \<not> strictly_increasing (va_affected_data_sha256 a) \<or> \<not> strictly_increasing (va_issues a)
      then False
      else (case va_status a of
        VersionNotEvaluated \<Rightarrow>
          requested = None \<and> va_basis a = NotRequested \<and> va_evaluated_version a = None \<and>
          va_matched_value a = None \<and> va_issues a = []
      | VersionAffected \<Rightarrow>
          (case requested of
             None \<Rightarrow> False
           | Some r \<Rightarrow>
               va_evaluated_version a = Some r \<and> va_issues a = [] \<and>
               (case va_basis a of
                  ExactEnumeratedVersion \<Rightarrow> va_matched_value a = Some r
                | OsvSemverRange \<Rightarrow>
                    (case va_matched_value a of None \<Rightarrow> False | Some v \<Rightarrow> co_valid_sha256 v)
                | _ \<Rightarrow> False))
      | VersionNotAffected \<Rightarrow>
          requested \<noteq> None \<and> va_evaluated_version a = requested \<and>
          va_basis a = SupportedDataExcludesVersion \<and> va_matched_value a = None \<and> va_issues a = []
      | VersionUnknown \<Rightarrow>
          requested \<noteq> None \<and> va_evaluated_version a = requested \<and>
          va_basis a = UnsupportedOrInvalidData \<and> va_matched_value a = None \<and> va_issues a \<noteq> []))"

fun summarize_from :: "version_summary \<Rightarrow> advisory_context_v2 list \<Rightarrow> version_summary" where
  "summarize_from s [] = s"
| "summarize_from s (a # as) =
     summarize_from
       (case va_status (ac_version_assessment a) of
          VersionAffected \<Rightarrow> s\<lparr>vy_affected := vy_affected s + 1\<rparr>
        | VersionNotAffected \<Rightarrow> s\<lparr>vy_not_affected := vy_not_affected s + 1\<rparr>
        | VersionUnknown \<Rightarrow> s\<lparr>vy_unknown := vy_unknown s + 1\<rparr>
        | VersionNotEvaluated \<Rightarrow> s\<lparr>vy_not_evaluated := vy_not_evaluated s + 1\<rparr>) as"

definition summarize_versions :: "advisory_context_v2 list \<Rightarrow> version_summary" where
  "summarize_versions as =
     summarize_from \<lparr>vy_affected = 0, vy_not_affected = 0, vy_unknown = 0, vy_not_evaluated = 0\<rparr> as"

definition validate_correlation_v2 ::
  "correlation_env \<Rightarrow> correlation_envelope_v2 \<Rightarrow> correlation_error + unit" where
  "validate_correlation_v2 env e =
     checks
       [fail_if (e2_contract_version e \<noteq> CORRELATION_VERSION_V2) (CorrelationInvalidField ''contract_version''),
        fail_if (\<not> ce_rfc3339 env (e2_created_at e) \<or> \<not> co_valid_run_id (lr_run_id (e2_linked_run e)) \<or>
                 \<not> co_valid_sha256 (lr_manifest_sha256 (e2_linked_run e)) \<or>
                 trim_is_empty (lr_finding_id (e2_linked_run e)) \<or>
                 256 < length (lr_finding_id (e2_linked_run e)))
          (CorrelationInvalidField ''linked_run or created_at''),
        fail_if (package_context_refused (e2_package_context e)) (CorrelationInvalidField ''package_context''),
        fail_if (catalog_refused (e2_catalog e)) (CorrelationInvalidField ''catalog''),
        fail_if (c2_advisory_match_kind (e2_semantics e) \<noteq> MATCH_KIND_V2 \<or>
                 c2_version_evaluator (e2_semantics e) \<noteq> VERSION_EVALUATOR \<or>
                 c2_affected_version_evaluated (e2_semantics e) \<noteq>
                   (pc_version (e2_package_context e) \<noteq> None) \<or>
                 c2_version_result_validates_vulnerability (e2_semantics e) \<or>
                 c2_causal_relationship_asserted (e2_semantics e) \<or>
                 c2_changes_human_decision (e2_semantics e) \<or>
                 c2_validation_authority (e2_semantics e) \<noteq> HUMAN_ONLY)
          (CorrelationInvalidField ''semantics''),
        fail_if (MAX_CORRELATION_MATCHES < length (e2_advisories e))
          (TooManyMatches (length (e2_advisories e)) MAX_CORRELATION_MATCHES),
        fail_if (list_ex (\<lambda>a. advisory_refused env a \<or>
                   \<not> valid_version_assessment (ac_version_assessment a) (pc_version (e2_package_context e)))
                   (e2_advisories e))
          (CorrelationInvalidField ''advisories''),
        fail_if (\<not> strictly_increasing (map advisory_key (e2_advisories e)))
          (CorrelationInvalidField ''advisories order or uniqueness''),
        fail_if (e2_version_summary e \<noteq> summarize_versions (e2_advisories e))
          (CorrelationInvalidField ''version_summary''),
        fail_if (e2_correlation_id e \<noteq> expected_correlation_id_v2 env e)
          (CorrelationInvalidField ''correlation_id'')]"

section \<open>Building and reading\<close>

definition linked_finding :: "run_manifest \<Rightarrow> string \<Rightarrow> correlation_error + finding" where
  "linked_finding m finding_id =
     ok_or (find (\<lambda>f. fd_finding_id f = finding_id) (rm_findings m)) (CorrelationFindingNotFound finding_id)"

definition context_of_hit :: "catalog_hit \<Rightarrow> advisory_context" where
  "context_of_hit h =
     \<lparr>ac_canonical_id = ch_canonical_id h, ac_source_name = ch_source_name h,
      ac_source_record_id = ch_source_record_id h, ac_title = ch_title h,
      ac_modified_at = ch_modified_at h, ac_withdrawn = ch_withdrawn h\<rparr>"

definition context_of_version_hit :: "catalog_version_hit \<Rightarrow> advisory_context_v2" where
  "context_of_version_hit hit =
     (let h = cv_advisory hit in
      \<lparr>ac_canonical_id = ch_canonical_id h, ac_source_name = ch_source_name h,
       ac_source_record_id = ch_source_record_id h, ac_title = ch_title h,
       ac_modified_at = ch_modified_at h, ac_withdrawn = ch_withdrawn h,
       ac_version_assessment = cv_version_assessment hit\<rparr>)"

definition build_correlation ::
  "correlation_env \<Rightarrow> string option \<Rightarrow> run_manifest \<Rightarrow> string \<Rightarrow> string \<Rightarrow> string \<Rightarrow> string \<Rightarrow>
     string option \<Rightarrow> catalog_provenance \<Rightarrow> catalog_hit list \<Rightarrow> correlation_error + correlation_envelope" where
  "build_correlation env now m manifest_sha256 finding_id ecosystem package version catalog hits =
     and_then (linked_finding m finding_id) (\<lambda>finding.
     and_then (fail_if (MAX_CORRELATION_MATCHES < length hits)
                 (TooManyMatches (length hits) MAX_CORRELATION_MATCHES)) (\<lambda>_.
     and_then (ok_or now CorrelationTimestamp) (\<lambda>created_at.
     (let advisories = sort_key advisory_key (map context_of_hit hits);
          e0 = \<lparr>co_contract_version = CORRELATION_VERSION, co_correlation_id = [],
                co_created_at = created_at,
                co_linked_run = \<lparr>lr_run_id = rm_run_id m, lr_manifest_sha256 = manifest_sha256,
                  lr_finding_id = finding_id, lr_human_decision = hr_decision (fd_human_review finding)\<rparr>,
                co_package_context = \<lparr>pc_assertion = PACKAGE_ASSERTION, pc_ecosystem = ecosystem,
                  pc_name = package, pc_version = version\<rparr>,
                co_catalog = catalog,
                co_semantics = \<lparr>cn_advisory_match_kind = MATCH_KIND,
                  cn_affected_version_evaluated = False, cn_causal_relationship_asserted = False,
                  cn_changes_human_decision = False, cn_validation_authority = HUMAN_ONLY\<rparr>,
                co_advisories = advisories\<rparr>;
          e = e0\<lparr>co_correlation_id := expected_correlation_id env e0\<rparr>
      in and_then (validate_correlation env e) (\<lambda>_. Ok e)))))"

definition build_correlation_v2 ::
  "correlation_env \<Rightarrow> string option \<Rightarrow> run_manifest \<Rightarrow> string \<Rightarrow> string \<Rightarrow> string \<Rightarrow> string \<Rightarrow>
     string option \<Rightarrow> catalog_provenance \<Rightarrow> catalog_version_hit list \<Rightarrow>
     correlation_error + correlation_envelope_v2" where
  "build_correlation_v2 env now m manifest_sha256 finding_id ecosystem package version catalog hits =
     and_then (linked_finding m finding_id) (\<lambda>finding.
     and_then (fail_if (MAX_CORRELATION_MATCHES < length hits)
                 (TooManyMatches (length hits) MAX_CORRELATION_MATCHES)) (\<lambda>_.
     and_then (ok_or now CorrelationTimestamp) (\<lambda>created_at.
     (let advisories = sort_key advisory_key (map context_of_version_hit hits);
          e0 = \<lparr>e2_contract_version = CORRELATION_VERSION_V2, e2_correlation_id = [],
                e2_created_at = created_at,
                e2_linked_run = \<lparr>lr_run_id = rm_run_id m, lr_manifest_sha256 = manifest_sha256,
                  lr_finding_id = finding_id, lr_human_decision = hr_decision (fd_human_review finding)\<rparr>,
                e2_package_context = \<lparr>pc_assertion = PACKAGE_ASSERTION, pc_ecosystem = ecosystem,
                  pc_name = package, pc_version = version\<rparr>,
                e2_catalog = catalog,
                e2_semantics = \<lparr>c2_advisory_match_kind = MATCH_KIND_V2,
                  c2_version_evaluator = VERSION_EVALUATOR,
                  c2_affected_version_evaluated = (version \<noteq> None),
                  c2_version_result_validates_vulnerability = False,
                  c2_causal_relationship_asserted = False, c2_changes_human_decision = False,
                  c2_validation_authority = HUMAN_ONLY\<rparr>,
                e2_version_summary = summarize_versions advisories,
                e2_advisories = advisories\<rparr>;
          e = e0\<lparr>e2_correlation_id := expected_correlation_id_v2 env e0\<rparr>
      in and_then (validate_correlation_v2 env e) (\<lambda>_. Ok e)))))"

definition parse_correlation ::
  "correlation_env \<Rightarrow> string \<Rightarrow> correlation_error + correlation_envelope" where
  "parse_correlation env bytes =
     and_then (fail_if (bytes = [] \<or> MAX_CORRELATION_BYTES < length bytes)
                 (CorrelationInvalidField ''document size'')) (\<lambda>_.
     and_then (ok_or (ce_from_slice env bytes) CorrelationJson) (\<lambda>e.
     and_then (validate_correlation env e) (\<lambda>_. Ok e)))"

definition parse_correlation_document ::
  "correlation_env \<Rightarrow> string \<Rightarrow> correlation_error + correlation_document" where
  "parse_correlation_document env bytes =
     and_then (fail_if (bytes = [] \<or> MAX_CORRELATION_BYTES < length bytes)
                 (CorrelationInvalidField ''document size'')) (\<lambda>_.
     and_then (ok_or (ce_json env bytes) CorrelationJson) (\<lambda>v.
     (let version = json_get_str ''contract_version'' v in
      if version = Some CORRELATION_VERSION then
        and_then (ok_or (ce_of_json env v) CorrelationJson) (\<lambda>e.
        and_then (validate_correlation env e) (\<lambda>_. Ok (CorrelationV1 e)))
      else if version = Some CORRELATION_VERSION_V2 then
        and_then (ok_or (ce_of_json_v2 env v) CorrelationJson) (\<lambda>e.
        and_then (validate_correlation_v2 env e) (\<lambda>_. Ok (CorrelationV2 e)))
      else Err (CorrelationInvalidField ''contract_version''))))"

end
