(* ===== verification/VersionFacts.thy ===== *)
theory VersionFacts
  imports VersionEvaluation
begin

text \<open>
  What the version evaluation decides: a range is read as a list of intervals, and the loop over
  its events computes membership in their union; a package version is affected, not affected or
  unknown by the data of all rows together, whatever their order.
\<close>

section \<open>Orders of versions\<close>

text \<open>The documented contract of \<open>cmp_precedence\<close>: a total preorder.\<close>

definition precedence :: "('v \<Rightarrow> 'v \<Rightarrow> version_ordering) \<Rightarrow> bool" where
  "precedence cmp \<longleftrightarrow>
     (\<forall>a b. cmp a b = OrdLess \<longleftrightarrow> cmp b a = OrdGreater) \<and>
     (\<forall>a b c. cmp a b \<noteq> OrdGreater \<longrightarrow> cmp b c \<noteq> OrdGreater \<longrightarrow> cmp a c \<noteq> OrdGreater)"

lemma precedence_less:
  assumes "precedence cmp"
  shows "cmp a b = OrdLess \<longleftrightarrow> cmp b a = OrdGreater"
    and "cmp a b \<noteq> OrdGreater \<Longrightarrow> cmp b c = OrdLess \<Longrightarrow> cmp a c = OrdLess"
proof -
  have sym: "cmp x y = OrdLess \<longleftrightarrow> cmp y x = OrdGreater" for x y
    using assms unfolding precedence_def by blast
  then show "cmp a b = OrdLess \<longleftrightarrow> cmp b a = OrdGreater" .
  assume ab: "cmp a b \<noteq> OrdGreater" and bc: "cmp b c = OrdLess"
  show "cmp a c = OrdLess"
  proof (rule ccontr)
    assume "cmp a c \<noteq> OrdLess"
    then have "cmp c a \<noteq> OrdGreater" using sym by simp
    with ab have "cmp c b \<noteq> OrdGreater" using assms unfolding precedence_def by blast
    with bc sym show False by simp
  qed
qed

section \<open>Ranges as intervals\<close>

datatype 'v upper_bound = FixedAt 'v | LastAt 'v | NoUpper

text \<open>A lower bound \<open>None\<close> is the version \<open>0\<close>; a limit \<open>None\<close> is the literal star.\<close>

type_synonym 'v interval = "'v option \<times> 'v upper_bound"

datatype event_shape =
  ShapeIntroduced string
| ShapeFixed string
| ShapeLastAffected string
| ShapeLimit string
| ShapeInvalid

definition event_shape :: "osv_version_event \<Rightarrow> event_shape" where
  "event_shape e =
     (case (oe_introduced e, oe_fixed e, oe_last_affected e, oe_limit e) of
        (Some v, None, None, None) \<Rightarrow> ShapeIntroduced v
      | (None, Some v, None, None) \<Rightarrow> ShapeFixed v
      | (None, None, Some v, None) \<Rightarrow> ShapeLastAffected v
      | (None, None, None, Some v) \<Rightarrow> ShapeLimit v
      | _ \<Rightarrow> ShapeInvalid)"

definition read_lower :: "(string \<Rightarrow> 'v option) \<Rightarrow> bool \<Rightarrow> string \<Rightarrow> 'v option option" where
  "read_lower parse first v =
     (if v = ''0'' then (if first then Some None else None) else map_option Some (parse v))"

definition read_limit ::
  "(string \<Rightarrow> 'v option) \<Rightarrow> string \<Rightarrow> event_shape list \<Rightarrow> 'v option option" where
  "read_limit parse v rest =
     (if rest \<noteq> [] then None else if v = ''*'' then Some None else map_option Some (parse v))"

text \<open>
  The grammar of the events: intervals, each an introduction and possibly its end, then possibly
  a limit. \<open>read_open\<close> reads from an introduction on: the upper bound, the other intervals and
  the limit.
\<close>

fun read_closed ::
  "(string \<Rightarrow> 'v option) \<Rightarrow> bool \<Rightarrow> event_shape list \<Rightarrow> ('v interval list \<times> 'v option) option"
and read_open ::
  "(string \<Rightarrow> 'v option) \<Rightarrow> event_shape list \<Rightarrow>
     ('v upper_bound \<times> 'v interval list \<times> 'v option) option" where
  "read_closed parse first [] = Some ([], None)"
| "read_closed parse first (e # es) =
     (case e of
        ShapeIntroduced v \<Rightarrow>
          Option.bind (read_lower parse first v) (\<lambda>lower.
            map_option (\<lambda>(upper, ivs, limit). ((lower, upper) # ivs, limit)) (read_open parse es))
      | ShapeLimit v \<Rightarrow> map_option (Pair []) (read_limit parse v es)
      | _ \<Rightarrow> None)"
| "read_open parse [] = Some (NoUpper, [], None)"
| "read_open parse (e # es) =
     (case e of
        ShapeFixed v \<Rightarrow>
          Option.bind (parse v) (\<lambda>u. map_option (Pair (FixedAt u)) (read_closed parse False es))
      | ShapeLastAffected v \<Rightarrow>
          Option.bind (parse v) (\<lambda>u. map_option (Pair (LastAt u)) (read_closed parse False es))
      | ShapeLimit v \<Rightarrow> map_option (\<lambda>limit. (NoUpper, [], limit)) (read_limit parse v es)
      | _ \<Rightarrow> None)"

fun upper_versions :: "'v upper_bound \<Rightarrow> 'v list" where
  "upper_versions (FixedAt v) = [v]"
| "upper_versions (LastAt v) = [v]"
| "upper_versions NoUpper = []"

definition interval_versions :: "'v interval \<Rightarrow> 'v list" where
  "interval_versions iv = (case fst iv of None \<Rightarrow> [] | Some v \<Rightarrow> [v]) @ upper_versions (snd iv)"

definition range_versions :: "'v interval list \<Rightarrow> 'v option \<Rightarrow> 'v list" where
  "range_versions ivs limit =
     concat (map interval_versions ivs) @ (case limit of None \<Rightarrow> [] | Some v \<Rightarrow> [v])"

definition is_fixed_at :: "'v upper_bound \<Rightarrow> bool" where
  "is_fixed_at u = (case u of FixedAt _ \<Rightarrow> True | _ \<Rightarrow> False)"

definition is_last_at :: "'v upper_bound \<Rightarrow> bool" where
  "is_last_at u = (case u of LastAt _ \<Rightarrow> True | _ \<Rightarrow> False)"

definition below_upper :: "('v \<Rightarrow> 'v \<Rightarrow> version_ordering) \<Rightarrow> 'v \<Rightarrow> 'v upper_bound \<Rightarrow> bool" where
  "below_upper cmp q u =
     (case u of FixedAt v \<Rightarrow> cmp q v = OrdLess | LastAt v \<Rightarrow> cmp q v \<noteq> OrdGreater | NoUpper \<Rightarrow> True)"

definition in_interval :: "('v \<Rightarrow> 'v \<Rightarrow> version_ordering) \<Rightarrow> 'v \<Rightarrow> 'v interval \<Rightarrow> bool" where
  "in_interval cmp q iv =
     ((case fst iv of None \<Rightarrow> True | Some v \<Rightarrow> cmp q v \<noteq> OrdLess) \<and> below_upper cmp q (snd iv))"

definition below_limit :: "('v \<Rightarrow> 'v \<Rightarrow> version_ordering) \<Rightarrow> 'v \<Rightarrow> 'v option \<Rightarrow> bool" where
  "below_limit cmp q limit = (case limit of None \<Rightarrow> True | Some v \<Rightarrow> cmp q v = OrdLess)"

text \<open>
  The intervals of a well-formed range: at least one, all bounds strictly increasing, and not
  both kinds of upper bounds.
\<close>

definition range_intervals ::
  "'v version_env \<Rightarrow> osv_version_range \<Rightarrow> ('v interval list \<times> 'v option) option" where
  "range_intervals env rg =
     (case read_closed (ve_parse env) True (map event_shape (og_events rg)) of
        None \<Rightarrow> None
      | Some (ivs, limit) \<Rightarrow>
          if ivs \<noteq> [] \<and>
             sorted_wrt (\<lambda>a b. ve_cmp env a b = OrdLess) (range_versions ivs limit) \<and>
             \<not> (list_ex (is_fixed_at \<circ> snd) ivs \<and> list_ex (is_last_at \<circ> snd) ivs)
          then Some (ivs, limit) else None)"

definition in_range :: "('v \<Rightarrow> 'v \<Rightarrow> version_ordering) \<Rightarrow> 'v \<Rightarrow> 'v interval list \<times> 'v option \<Rightarrow> bool" where
  "in_range cmp q r = (list_ex (in_interval cmp q) (fst r) \<and> below_limit cmp q (snd r))"

section \<open>The loop computes membership\<close>

fun chained :: "('v \<Rightarrow> 'v \<Rightarrow> version_ordering) \<Rightarrow> 'v option \<Rightarrow> 'v list \<Rightarrow> bool" where
  "chained cmp previous [] = True"
| "chained cmp previous (v # vs) = (\<not> not_increasing cmp previous v \<and> chained cmp (Some v) vs)"

lemma chained_successively:
  "chained cmp (Some l) vs \<longleftrightarrow> successively (\<lambda>a b. cmp a b = OrdLess) (l # vs)"
  by (induction vs arbitrary: l) (auto simp: not_increasing_def)

lemma chained_sorted:
  assumes "precedence cmp"
  shows "chained cmp None vs \<longleftrightarrow> sorted_wrt (\<lambda>a b. cmp a b = OrdLess) vs"
proof -
  have "transp (\<lambda>a b. cmp a b = OrdLess)"
    using precedence_less [OF assms] by (intro transpI) (metis version_ordering.distinct(3))
  then show ?thesis
    by (cases vs) (simp_all add: chained_successively not_increasing_def successively_conv_sorted_wrt
        del: successively.simps)
qed

lemma shape_cases:
  "event_shape e = ShapeIntroduced v \<longleftrightarrow>
     e = \<lparr>oe_introduced = Some v, oe_fixed = None, oe_last_affected = None, oe_limit = None\<rparr>"
  "event_shape e = ShapeFixed v \<longleftrightarrow>
     e = \<lparr>oe_introduced = None, oe_fixed = Some v, oe_last_affected = None, oe_limit = None\<rparr>"
  "event_shape e = ShapeLastAffected v \<longleftrightarrow>
     e = \<lparr>oe_introduced = None, oe_fixed = None, oe_last_affected = Some v, oe_limit = None\<rparr>"
  "event_shape e = ShapeLimit v \<longleftrightarrow>
     e = \<lparr>oe_introduced = None, oe_fixed = None, oe_last_affected = None, oe_limit = Some v\<rparr>"
  "event_shape e = ShapeInvalid \<longleftrightarrow> field_count e \<noteq> 1"
  by (cases e; simp add: event_shape_def field_count_def split: option.splits)+

lemma event_shapes:
  "event_shape \<lparr>oe_introduced = Some v, oe_fixed = None, oe_last_affected = None, oe_limit = None\<rparr> =
     ShapeIntroduced v"
  "event_shape \<lparr>oe_introduced = None, oe_fixed = Some v, oe_last_affected = None, oe_limit = None\<rparr> =
     ShapeFixed v"
  "event_shape \<lparr>oe_introduced = None, oe_fixed = None, oe_last_affected = Some v, oe_limit = None\<rparr> =
     ShapeLastAffected v"
  "event_shape \<lparr>oe_introduced = None, oe_fixed = None, oe_last_affected = None, oe_limit = Some v\<rparr> =
     ShapeLimit v"
  by (simp_all add: event_shape_def)

text \<open>One event, by its shape.\<close>

lemma scan_event_shape:
  "scan_event env q len i e st =
     (case event_shape e of
        ShapeIntroduced v \<Rightarrow>
          and_then (boundary_version env i BoundIntroduced v) (\<lambda>version.
          and_then (advance_boundary env version (st\<lparr>rs_introduced := True\<rparr>)) (\<lambda>st2.
            apply_boundary BoundIntroduced (map_option (ve_cmp env q) version) st2))
      | ShapeFixed v \<Rightarrow>
          if rs_last_affected st then Err InvalidSemverEvents
          else and_then (boundary_version env i BoundFixed v) (\<lambda>version.
          and_then (advance_boundary env version (st\<lparr>rs_fixed := True\<rparr>)) (\<lambda>st2.
            apply_boundary BoundFixed (map_option (ve_cmp env q) version) st2))
      | ShapeLastAffected v \<Rightarrow>
          if rs_fixed st then Err InvalidSemverEvents
          else and_then (boundary_version env i BoundLastAffected v) (\<lambda>version.
          and_then (advance_boundary env version (st\<lparr>rs_last_affected := True\<rparr>)) (\<lambda>st2.
            apply_boundary BoundLastAffected (map_option (ve_cmp env q) version) st2))
      | ShapeLimit v \<Rightarrow> scan_limit env q (i + 1 = len) v st
      | ShapeInvalid \<Rightarrow> Err InvalidSemverEvents)"
proof (cases "event_shape e")
  case ShapeInvalid
  moreover from this have "field_count e \<noteq> 1" unfolding shape_cases .
  ultimately show ?thesis by (simp add: scan_event_def)
qed (simp_all add: shape_cases scan_event_def field_count_def event_boundary_def event_shapes)

text \<open>What is left of a scan: the flags that the function looks at.\<close>

definition scan_result ::
  "version_evaluation_issue + 'v range_scan \<Rightarrow> version_evaluation_issue + bool \<times> bool" where
  "scan_result r = and_then r (\<lambda>st. Ok (rs_introduced st, rs_affected st))"

lemma scan_result_simps [simp]:
  "scan_result (Inl e) = Inl e"
  "scan_result (Inr st) = Inr (rs_introduced st, rs_affected st)"
  by (simp_all add: scan_result_def)

definition below_last :: "('v \<Rightarrow> 'v \<Rightarrow> version_ordering) \<Rightarrow> 'v \<Rightarrow> 'v range_scan \<Rightarrow> bool" where
  "below_last cmp q st = (\<exists>l. rs_last st = Some l \<and> cmp q l = OrdLess)"

text \<open>The scan of the remaining events, when the last interval is closed and when it is open.\<close>

definition closed_goal ::
  "'v version_env \<Rightarrow> 'v \<Rightarrow> nat \<Rightarrow> osv_version_event list \<Rightarrow> 'v range_scan \<Rightarrow> bool" where
  "closed_goal env q i es st \<longleftrightarrow>
     scan_result (scan_events env q (i + length es) i es st) =
     (case read_closed (ve_parse env) (i = 0) (map event_shape es) of
        None \<Rightarrow> Err InvalidSemverEvents
      | Some (ivs, limit) \<Rightarrow>
          if chained (ve_cmp env) (rs_last st) (range_versions ivs limit) \<and>
             \<not> ((rs_fixed st \<or> list_ex (is_fixed_at \<circ> snd) ivs) \<and>
                (rs_last_affected st \<or> list_ex (is_last_at \<circ> snd) ivs))
          then Ok (rs_introduced st \<or> ivs \<noteq> [],
                   (rs_affected st \<or> list_ex (in_interval (ve_cmp env) q) ivs) \<and>
                   below_limit (ve_cmp env) q limit)
          else Err InvalidSemverEvents)"

definition open_goal ::
  "'v version_env \<Rightarrow> 'v \<Rightarrow> nat \<Rightarrow> osv_version_event list \<Rightarrow> 'v range_scan \<Rightarrow> bool" where
  "open_goal env q i es st \<longleftrightarrow>
     scan_result (scan_events env q (i + length es) i es st) =
     (case read_open (ve_parse env) (map event_shape es) of
        None \<Rightarrow> Err InvalidSemverEvents
      | Some (upper, ivs, limit) \<Rightarrow>
          if chained (ve_cmp env) (rs_last st) (upper_versions upper @ range_versions ivs limit) \<and>
             \<not> ((rs_fixed st \<or> is_fixed_at upper \<or> list_ex (is_fixed_at \<circ> snd) ivs) \<and>
                (rs_last_affected st \<or> is_last_at upper \<or> list_ex (is_last_at \<circ> snd) ivs))
          then Ok (rs_introduced st \<or> ivs \<noteq> [],
                   ((if below_last (ve_cmp env) q st then rs_affected st
                     else below_upper (ve_cmp env) q upper) \<or>
                    list_ex (in_interval (ve_cmp env) q) ivs) \<and>
                   below_limit (ve_cmp env) q limit)
          else Err InvalidSemverEvents)"

definition closed_state ::
  "('v \<Rightarrow> 'v \<Rightarrow> version_ordering) \<Rightarrow> 'v \<Rightarrow> nat \<Rightarrow> 'v range_scan \<Rightarrow> bool" where
  "closed_state cmp q i st \<longleftrightarrow>
     \<not> rs_open st \<and> \<not> rs_limit st \<and> \<not> (rs_fixed st \<and> rs_last_affected st) \<and>
     (rs_affected st \<longrightarrow> (\<exists>l. rs_last st = Some l \<and> cmp q l \<noteq> OrdGreater)) \<and>
     (i = 0 \<longrightarrow> rs_last st = None)"

definition open_state ::
  "('v \<Rightarrow> 'v \<Rightarrow> version_ordering) \<Rightarrow> 'v \<Rightarrow> nat \<Rightarrow> 'v range_scan \<Rightarrow> bool" where
  "open_state cmp q i st \<longleftrightarrow>
     rs_open st \<and> \<not> rs_limit st \<and> \<not> (rs_fixed st \<and> rs_last_affected st) \<and> i \<noteq> 0 \<and>
     (\<not> below_last cmp q st \<longrightarrow> rs_affected st)"

lemmas boundary_defs = boundary_version_def advance_boundary_def apply_boundary_def Let_def

text \<open>What each event does in a closed and in an open state.\<close>

lemma misplaced_event:
  "event_shape e = ShapeIntroduced v \<Longrightarrow> rs_open st \<Longrightarrow> scan_event env q len i e st = Err InvalidSemverEvents"
  "event_shape e = ShapeFixed v \<Longrightarrow> \<not> rs_open st \<Longrightarrow> scan_event env q len i e st = Err InvalidSemverEvents"
  "event_shape e = ShapeLastAffected v \<Longrightarrow> \<not> rs_open st \<Longrightarrow> scan_event env q len i e st = Err InvalidSemverEvents"
  "event_shape e = ShapeInvalid \<Longrightarrow> scan_event env q len i e st = Err InvalidSemverEvents"
  by (cases "ve_parse env v"; simp add: scan_event_shape boundary_defs fail_if_def)+

lemma introduced_event:
  assumes "event_shape e = ShapeIntroduced v" and "\<not> rs_open st"
  shows "scan_event env q len i e st =
    (case read_lower (ve_parse env) (i = 0) v of
       None \<Rightarrow> Err InvalidSemverEvents
     | Some None \<Rightarrow> Ok (st\<lparr>rs_introduced := True, rs_open := True, rs_affected := True\<rparr>)
     | Some (Some l) \<Rightarrow>
         if not_increasing (ve_cmp env) (rs_last st) l then Err InvalidSemverEvents
         else Ok (st\<lparr>rs_introduced := True, rs_last := Some l, rs_open := True,
                     rs_affected := (rs_affected st \<or> ve_cmp env q l \<noteq> OrdLess)\<rparr>))"
  using assms by (cases "ve_parse env v") (auto simp: scan_event_shape boundary_defs fail_if_def read_lower_def)

lemma fixed_event:
  assumes "event_shape e = ShapeFixed v" and "rs_open st"
  shows "scan_event env q len i e st =
    (case ve_parse env v of
       None \<Rightarrow> Err InvalidSemverEvents
     | Some f \<Rightarrow>
         if rs_last_affected st \<or> not_increasing (ve_cmp env) (rs_last st) f then Err InvalidSemverEvents
         else Ok (st\<lparr>rs_fixed := True, rs_last := Some f, rs_open := False,
                     rs_affected := (rs_affected st \<and> ve_cmp env q f = OrdLess)\<rparr>))"
  using assms by (cases "ve_parse env v") (auto simp: scan_event_shape boundary_defs fail_if_def)

lemma last_affected_event:
  assumes "event_shape e = ShapeLastAffected v" and "rs_open st"
  shows "scan_event env q len i e st =
    (case ve_parse env v of
       None \<Rightarrow> Err InvalidSemverEvents
     | Some l \<Rightarrow>
         if rs_fixed st \<or> not_increasing (ve_cmp env) (rs_last st) l then Err InvalidSemverEvents
         else Ok (st\<lparr>rs_last_affected := True, rs_last := Some l, rs_open := False,
                     rs_affected := (rs_affected st \<and> ve_cmp env q l \<noteq> OrdGreater)\<rparr>))"
  using assms by (cases "ve_parse env v") (auto simp: scan_event_shape boundary_defs fail_if_def)

text \<open>A limit ends the events.\<close>

lemma limit_event:
  assumes "event_shape e = ShapeLimit v" and "\<not> rs_limit st"
  shows "scan_result (scan_events env q (i + length (e # es)) i (e # es) st) =
    (case read_limit (ve_parse env) v (map event_shape es) of
       None \<Rightarrow> Err InvalidSemverEvents
     | Some limit \<Rightarrow>
         if chained (ve_cmp env) (rs_last st) (case limit of None \<Rightarrow> [] | Some l \<Rightarrow> [l])
         then Ok (rs_introduced st, rs_affected st \<and> below_limit (ve_cmp env) q limit)
         else Err InvalidSemverEvents)"
  using assms
  by (cases "ve_parse env v"; cases es)
     (auto simp: scan_event_shape scan_limit_def read_limit_def below_limit_def Let_def fail_if_def)

lemma below_last_boundary:
  assumes "precedence (ve_cmp env)" and "\<not> not_increasing (ve_cmp env) (rs_last st) v"
  shows "below_last (ve_cmp env) q st \<Longrightarrow> ve_cmp env q v = OrdLess"
    and "rs_last st = Some l \<Longrightarrow> ve_cmp env q l \<noteq> OrdGreater \<Longrightarrow> ve_cmp env q v = OrdLess"
  using assms(2) precedence_less(2) [OF assms(1), of q _ v]
  by (auto simp: below_last_def not_increasing_def split: option.splits)
     (metis version_ordering.distinct(3))

lemma open_fixed:
  assumes "precedence (ve_cmp env)" and st: "open_state (ve_cmp env) q i st"
    and closed: "\<And>st'. closed_state (ve_cmp env) q (Suc i) st' \<Longrightarrow> closed_goal env q (Suc i) es st'"
    and e: "event_shape e = ShapeFixed v"
  shows "open_goal env q i (e # es) st"
proof (cases "\<exists>f. ve_parse env v = Some f \<and> \<not> rs_last_affected st \<and>
    \<not> not_increasing (ve_cmp env) (rs_last st) f")
  case False
  with st e show ?thesis
    by (auto simp: open_goal_def fixed_event open_state_def is_fixed_at_def split: option.splits)
next
  case True
  then obtain f where f: "ve_parse env v = Some f" "\<not> rs_last_affected st"
    "\<not> not_increasing (ve_cmp env) (rs_last st) f" by blast
  let ?st = "st\<lparr>rs_fixed := True, rs_last := Some f, rs_open := False,
    rs_affected := (rs_affected st \<and> ve_cmp env q f = OrdLess)\<rparr>"
  have "closed_state (ve_cmp env) q (Suc i) ?st"
    using st f by (auto simp: closed_state_def open_state_def)
  from closed [OF this] have "closed_goal env q (Suc i) es ?st" .
  moreover have "(if below_last (ve_cmp env) q st then rs_affected st
      else below_upper (ve_cmp env) q (FixedAt f)) = (rs_affected st \<and> ve_cmp env q f = OrdLess)"
    using st below_last_boundary(1) [OF assms(1) f(3)] by (auto simp: open_state_def below_upper_def)
  moreover have "scan_result (scan_events env q (i + length (e # es)) i (e # es) st) =
      scan_result (scan_events env q (Suc i + length es) (Suc i) es ?st)"
    using st e f by (simp add: fixed_event open_state_def)
  ultimately show ?thesis
    using f e unfolding open_goal_def closed_goal_def
    by (cases "read_closed (ve_parse env) False (map event_shape es)")
       (auto simp: is_fixed_at_def is_last_at_def)
qed

lemma open_last_affected:
  assumes "precedence (ve_cmp env)" and st: "open_state (ve_cmp env) q i st"
    and closed: "\<And>st'. closed_state (ve_cmp env) q (Suc i) st' \<Longrightarrow> closed_goal env q (Suc i) es st'"
    and e: "event_shape e = ShapeLastAffected v"
  shows "open_goal env q i (e # es) st"
proof (cases "\<exists>l. ve_parse env v = Some l \<and> \<not> rs_fixed st \<and>
    \<not> not_increasing (ve_cmp env) (rs_last st) l")
  case False
  with st e show ?thesis
    by (auto simp: open_goal_def last_affected_event open_state_def is_last_at_def split: option.splits)
next
  case True
  then obtain l where l: "ve_parse env v = Some l" "\<not> rs_fixed st"
    "\<not> not_increasing (ve_cmp env) (rs_last st) l" by blast
  let ?st = "st\<lparr>rs_last_affected := True, rs_last := Some l, rs_open := False,
    rs_affected := (rs_affected st \<and> ve_cmp env q l \<noteq> OrdGreater)\<rparr>"
  have "closed_state (ve_cmp env) q (Suc i) ?st"
    using st l by (auto simp: closed_state_def open_state_def)
  from closed [OF this] have "closed_goal env q (Suc i) es ?st" .
  moreover have "(if below_last (ve_cmp env) q st then rs_affected st
      else below_upper (ve_cmp env) q (LastAt l)) = (rs_affected st \<and> ve_cmp env q l \<noteq> OrdGreater)"
    using st below_last_boundary(1) [OF assms(1) l(3)] by (auto simp: open_state_def below_upper_def)
  moreover have "scan_result (scan_events env q (i + length (e # es)) i (e # es) st) =
      scan_result (scan_events env q (Suc i + length es) (Suc i) es ?st)"
    using st e l by (simp add: last_affected_event open_state_def)
  ultimately show ?thesis
    using l e unfolding open_goal_def closed_goal_def
    by (cases "read_closed (ve_parse env) False (map event_shape es)")
       (auto simp: is_fixed_at_def is_last_at_def)
qed

lemma open_limit:
  assumes "open_state (ve_cmp env) q i st" and "event_shape e = ShapeLimit v"
  shows "open_goal env q i (e # es) st"
  using assms limit_event [of e v st env q i es] unfolding open_goal_def
  by (cases "read_limit (ve_parse env) v (map event_shape es)")
     (auto simp: open_state_def range_versions_def is_fixed_at_def is_last_at_def below_upper_def
       simp del: scan_events.simps)

lemma closed_limit:
  assumes "closed_state (ve_cmp env) q i st" and "event_shape e = ShapeLimit v"
  shows "closed_goal env q i (e # es) st"
  using assms limit_event [of e v st env q i es] unfolding closed_goal_def
  by (cases "read_limit (ve_parse env) v (map event_shape es)")
     (auto simp: closed_state_def range_versions_def simp del: scan_events.simps)

lemma range_versions_Cons [simp]:
  "range_versions ((lower, upper) # ivs) limit =
     (case lower of None \<Rightarrow> [] | Some l \<Rightarrow> [l]) @ upper_versions upper @ range_versions ivs limit"
  by (simp add: range_versions_def interval_versions_def)

lemma closed_introduced:
  assumes "precedence (ve_cmp env)" and st: "closed_state (ve_cmp env) q i st"
    and step: "\<And>st'. open_state (ve_cmp env) q (Suc i) st' \<Longrightarrow> open_goal env q (Suc i) es st'"
    and e: "event_shape e = ShapeIntroduced v"
  shows "closed_goal env q i (e # es) st"
proof (cases "read_lower (ve_parse env) (i = 0) v")
  case None
  with st e show ?thesis by (simp add: closed_goal_def introduced_event closed_state_def)
next
  case (Some lower)
  show ?thesis
  proof (cases lower)
    case None
    with Some have first: "i = 0" by (auto simp: read_lower_def split: if_splits)
    with st have fresh: "rs_last st = None" "\<not> rs_affected st" by (auto simp: closed_state_def)
    let ?st = "st\<lparr>rs_introduced := True, rs_open := True, rs_affected := True\<rparr>"
    have "open_state (ve_cmp env) q (Suc i) ?st"
      using st by (auto simp: closed_state_def open_state_def)
    from step [OF this] have "open_goal env q (Suc i) es ?st" .
    moreover have "scan_result (scan_events env q (i + length (e # es)) i (e # es) st) =
        scan_result (scan_events env q (Suc i + length es) (Suc i) es ?st)"
      using st e Some None by (simp add: introduced_event closed_state_def)
    ultimately show ?thesis
      using Some None e fresh first unfolding open_goal_def closed_goal_def
      by (cases "read_open (ve_parse env) (map event_shape es)")
         (auto simp: in_interval_def below_last_def)
  next
    case (Some l)
    note lower = \<open>read_lower (ve_parse env) (i = 0) v = Some lower\<close> [unfolded Some]
    show ?thesis
    proof (cases "not_increasing (ve_cmp env) (rs_last st) l")
      case True
      with st e lower show ?thesis
        by (auto simp: closed_goal_def introduced_event closed_state_def
            split: option.splits simp del: read_open.simps)
    next
      case False
      let ?st = "st\<lparr>rs_introduced := True, rs_last := Some l, rs_open := True,
        rs_affected := (rs_affected st \<or> ve_cmp env q l \<noteq> OrdLess)\<rparr>"
      have "open_state (ve_cmp env) q (Suc i) ?st"
        using st by (auto simp: closed_state_def open_state_def below_last_def)
      from step [OF this] have "open_goal env q (Suc i) es ?st" .
      moreover have "scan_result (scan_events env q (i + length (e # es)) i (e # es) st) =
          scan_result (scan_events env q (Suc i + length es) (Suc i) es ?st)"
        using st e lower False by (simp add: introduced_event closed_state_def)
      moreover have "rs_affected st \<Longrightarrow> ve_cmp env q l = OrdLess"
        using st below_last_boundary(2) [OF assms(1) False] by (auto simp: closed_state_def)
      ultimately show ?thesis
        using lower e False unfolding open_goal_def closed_goal_def
        by (cases "read_open (ve_parse env) (map event_shape es)")
           (auto simp: in_interval_def below_last_def)
    qed
  qed
qed

lemma scan_goals:
  assumes "precedence (ve_cmp env)"
  shows "(closed_state (ve_cmp env) q i st \<longrightarrow> closed_goal env q i es st) \<and>
    (open_state (ve_cmp env) q i st \<longrightarrow> open_goal env q i es st)"
proof (induction es arbitrary: i st)
  case Nil
  show ?case
    by (auto simp: closed_goal_def open_goal_def range_versions_def is_fixed_at_def is_last_at_def
        below_limit_def below_upper_def closed_state_def open_state_def)
next
  case (Cons e es)
  then have step: "\<And>st'. closed_state (ve_cmp env) q (Suc i) st' \<Longrightarrow> closed_goal env q (Suc i) es st'"
    "\<And>st'. open_state (ve_cmp env) q (Suc i) st' \<Longrightarrow> open_goal env q (Suc i) es st'" by blast+
  show ?case
  proof (cases "event_shape e")
    case (ShapeIntroduced v)
    with closed_introduced [OF assms _ step(2) this] show ?thesis
      by (auto simp: open_goal_def open_state_def misplaced_event)
  next
    case (ShapeFixed v)
    with open_fixed [OF assms _ step(1) this] show ?thesis
      by (auto simp: closed_goal_def closed_state_def misplaced_event)
  next
    case (ShapeLastAffected v)
    with open_last_affected [OF assms _ step(1) this] show ?thesis
      by (auto simp: closed_goal_def closed_state_def misplaced_event)
  next
    case (ShapeLimit v)
    then show ?thesis by (auto intro: open_limit closed_limit)
  next
    case ShapeInvalid
    then show ?thesis by (auto simp: closed_goal_def open_goal_def misplaced_event)
  qed
qed

text \<open>
  C9. A range of events is evaluated exactly when its events form intervals with strictly
  increasing bounds, of one kind of upper bound, and at most a limit at the end; then a version is
  affected when it lies in one of the intervals and below the limit. Every other range is refused
  with the same error.
\<close>

theorem semver_range_exact:
  assumes "precedence (ve_cmp env)"
  shows "evaluate_semver_range env q rg =
    (case range_intervals env rg of
       None \<Rightarrow> Err InvalidSemverEvents
     | Some r \<Rightarrow> Ok (in_range (ve_cmp env) q r))"
proof (cases "og_events rg = []")
  case True
  then show ?thesis by (simp add: evaluate_semver_range_def range_intervals_def fail_if_def)
next
  case False
  let ?scan = "scan_events env q (length (og_events rg)) 0 (og_events rg) empty_scan"
  have "closed_state (ve_cmp env) q 0 empty_scan"
    by (simp add: closed_state_def empty_scan_def)
  with scan_goals [OF assms] have "closed_goal env q 0 (og_events rg) empty_scan" by blast
  moreover have "evaluate_semver_range env q rg =
      and_then (scan_result ?scan) (\<lambda>(introduced, affected).
        if introduced then Ok affected else Err InvalidSemverEvents)"
    using False by (cases ?scan) (auto simp: evaluate_semver_range_def fail_if_def)
  ultimately show ?thesis
    by (cases "read_closed (ve_parse env) True (map event_shape (og_events rg))")
       (auto simp: closed_goal_def range_intervals_def in_range_def empty_scan_def
         chained_sorted [OF assms] simp del: scan_events.simps)
qed

section \<open>All rows together\<close>

definition semver_value :: "'v version_env \<Rightarrow> json \<Rightarrow> osv_version_range option" where
  "semver_value env value =
     (case ve_range_of env value of
        Some rg \<Rightarrow> if og_kind rg = ''SEMVER'' then Some rg else None
      | None \<Rightarrow> None)"

text \<open>The range is understood, for a query that is a version.\<close>

definition value_complete :: "'v version_env \<Rightarrow> string \<Rightarrow> json \<Rightarrow> bool" where
  "value_complete env requested value \<longleftrightarrow>
     ve_parse env requested \<noteq> None \<and>
     (case semver_value env value of None \<Rightarrow> False | Some rg \<Rightarrow> range_intervals env rg \<noteq> None)"

definition value_covers :: "'v version_env \<Rightarrow> string \<Rightarrow> json \<Rightarrow> bool" where
  "value_covers env requested value \<longleftrightarrow>
     (case (ve_parse env requested, Option.bind (semver_value env value) (range_intervals env)) of
        (Some q, Some r) \<Rightarrow> in_range (ve_cmp env) q r
      | _ \<Rightarrow> False)"

definition row_affects :: "'v version_env \<Rightarrow> string \<Rightarrow> string \<times> string \<Rightarrow> bool" where
  "row_affects env requested row \<longleftrightarrow>
     (case ve_versions env (snd row) of None \<Rightarrow> False | Some versions \<Rightarrow> requested \<in> set versions) \<or>
     (case ve_ranges env (fst row) of None \<Rightarrow> False | Some ranges \<Rightarrow> list_ex (value_covers env requested) ranges)"

definition row_complete :: "'v version_env \<Rightarrow> string \<Rightarrow> string \<times> string \<Rightarrow> bool" where
  "row_complete env requested row \<longleftrightarrow>
     (case (ve_versions env (snd row), ve_ranges env (fst row)) of
        (Some versions, Some ranges) \<Rightarrow>
          (versions \<noteq> [] \<or> ranges \<noteq> []) \<and> list_all (value_complete env requested) ranges
      | _ \<Rightarrow> False)"

lemma note_issue_simps [simp]:
  "vs_issues (note_issue issue st) \<noteq> []" "vs_issues (note_issue issue st) = [] \<longleftrightarrow> False"
  "vs_supported (note_issue issue st) = vs_supported st"
proof -
  have "set (insort_insert issue (vs_issues st)) \<noteq> {}" by (simp add: set_insort_insert)
  then show "vs_issues (note_issue issue st) \<noteq> []" "vs_issues (note_issue issue st) = [] \<longleftrightarrow> False"
    by (auto simp: note_issue_def)
qed (simp add: note_issue_def)

text \<open>
  What the loops say: an early return is an affected assessment, and comes exactly when the data
  covers the version; otherwise no issue is left exactly when all data is understood.
\<close>

definition scan_says ::
  "bool \<Rightarrow> bool \<Rightarrow> bool \<Rightarrow> version_scan \<Rightarrow> version_assessment + version_scan \<Rightarrow> bool" where
  "scan_says affects complete supported st r \<longleftrightarrow>
     (if affects then (\<exists>a. r = Inl a \<and> va_status a = VersionAffected)
      else (\<exists>st'. r = Inr st' \<and> (vs_issues st' = [] \<longleftrightarrow> vs_issues st = [] \<and> complete) \<and>
              (complete \<longrightarrow> (vs_supported st' \<longleftrightarrow> vs_supported st \<or> supported))))"

lemma scan_says_then:
  assumes "scan_says affects complete supported st r"
    and "\<And>st'. scan_says affects' complete' supported' st' (f st')"
  shows "scan_says (affects \<or> affects') (complete \<and> complete') (supported \<or> supported') st (and_then r f)"
proof (cases affects)
  case True
  with assms(1) show ?thesis by (auto simp: scan_says_def)
next
  case False
  with assms(1) obtain st' where st': "r = Inr st'"
    "vs_issues st' = [] \<longleftrightarrow> vs_issues st = [] \<and> complete"
    "complete \<longrightarrow> (vs_supported st' \<longleftrightarrow> vs_supported st \<or> supported)" by (auto simp: scan_says_def)
  with assms(2) [of st'] False show ?thesis by (auto simp: scan_says_def split: if_splits)
qed

lemma range_value_says:
  assumes "precedence (ve_cmp env)"
  shows "scan_says (value_covers env requested value) (value_complete env requested value) True st
    (evaluate_range_value env requested digests value st)"
  using semver_range_exact [OF assms]
  by (auto simp: scan_says_def evaluate_range_value_def value_covers_def value_complete_def
      semver_value_def affected_assessment_def Let_def split: option.splits)

lemma range_values_say:
  assumes "precedence (ve_cmp env)"
  shows "scan_says (list_ex (value_covers env requested) ranges)
    (list_all (value_complete env requested) ranges) (ranges \<noteq> []) st
    (evaluate_range_values env requested digests ranges st)"
proof (induction ranges arbitrary: st)
  case Nil
  show ?case by (simp add: scan_says_def)
next
  case (Cons v ranges)
  from scan_says_then [OF range_value_says [OF assms] Cons.IH, of requested v st digests]
  show ?case by simp
qed

lemma row_says:
  assumes "precedence (ve_cmp env)"
  shows "scan_says (row_affects env requested row) (row_complete env requested row) True st
    (evaluate_row env requested digests row st)"
proof -
  obtain ranges_json versions_json where row: "row = (ranges_json, versions_json)" by (cases row)
  show ?thesis
  proof (cases "ve_ranges env ranges_json")
    case None
    then show ?thesis
      by (cases "ve_versions env versions_json")
         (auto simp: row scan_says_def evaluate_row_def row_affects_def row_complete_def
           affected_assessment_def)
  next
    case (Some ranges)
    note says = range_values_say [OF assms, of requested ranges _ digests]
    show ?thesis
    proof (cases "ve_versions env versions_json")
      case None
      with Some says [of "if ranges = [] then note_issue MissingVersionData (note_issue InvalidStoredJson st)
          else note_issue InvalidStoredJson st"]
      show ?thesis
        by (auto simp: row scan_says_def evaluate_row_def row_affects_def row_complete_def split: if_splits)
    next
      case (Some versions)
      with \<open>ve_ranges env ranges_json = Some ranges\<close>
        says [of "let st1 = if versions = [] then st else st\<lparr>vs_supported := True\<rparr> in
          if versions = [] \<and> ranges = [] then note_issue MissingVersionData st1 else st1"]
      show ?thesis
        by (cases "versions = []")
           (auto simp: row scan_says_def evaluate_row_def row_affects_def row_complete_def
             affected_assessment_def Let_def split: if_splits)
    qed
  qed
qed

lemma rows_say:
  assumes "precedence (ve_cmp env)"
  shows "scan_says (list_ex (row_affects env requested) rows) (list_all (row_complete env requested) rows)
    (rows \<noteq> []) st (evaluate_rows env requested digests rows st)"
proof (induction rows arbitrary: st)
  case Nil
  show ?case by (simp add: scan_says_def)
next
  case (Cons row rows)
  from scan_says_then [OF row_says [OF assms] Cons.IH, of requested row st digests]
  show ?case by simp
qed

text \<open>
  C18. A requested version is reported affected exactly when some row enumerates it or has an
  understood range that contains it; it is reported not affected only when there is data and
  every list, every range and the version itself were understood, and unknown in every other
  case. The order of the rows and of the ranges does not matter.
\<close>

theorem version_status_exact:
  assumes "precedence (ve_cmp env)"
  shows "va_status (evaluate_package_version env (Some requested) rows) =
    (if \<exists>row \<in> set rows. row_affects env requested row then VersionAffected
     else if rows \<noteq> [] \<and> (\<forall>row \<in> set rows. row_complete env requested row) then VersionNotAffected
     else VersionUnknown)"
proof -
  let ?st = "\<lparr>vs_issues = [], vs_supported = False\<rparr>"
  let ?scan = "evaluate_rows env requested (affected_data_digests env rows) rows ?st"
  have "scan_says (\<exists>row \<in> set rows. row_affects env requested row)
      (\<forall>row \<in> set rows. row_complete env requested row) (rows \<noteq> []) ?st ?scan"
    using rows_say [OF assms] by (simp add: list_ex_iff list_all_iff)
  then show ?thesis
    by (cases ?scan) (auto simp: evaluate_package_version_def scan_says_def Let_def split: if_splits)
qed

section \<open>Examples\<close>

definition nat_order :: "nat \<Rightarrow> nat \<Rightarrow> version_ordering" where
  "nat_order a b = (if a < b then OrdLess else if a = b then OrdEqual else OrdGreater)"

lemma nat_order_precedence: "precedence nat_order"
  by (auto simp: precedence_def nat_order_def split: if_splits)

text \<open>Versions \<open>0\<close> to \<open>9\<close>; the versions before \<open>5\<close> are affected, and \<open>8\<close> is enumerated.\<close>

definition sample_semver_range :: osv_version_range where
  "sample_semver_range =
     \<lparr>og_kind = ''SEMVER'', og_events =
        [\<lparr>oe_introduced = Some ''0'', oe_fixed = None, oe_last_affected = None, oe_limit = None\<rparr>,
         \<lparr>oe_introduced = None, oe_fixed = Some ''5'', oe_last_affected = None, oe_limit = None\<rparr>]\<rparr>"

definition sample_version_env :: "nat version_env" where
  "sample_version_env =
     \<lparr>ve_parse = (\<lambda>s. case s of [c] \<Rightarrow> if is_digit c then Some (byte c - 48) else None | _ \<Rightarrow> None),
      ve_cmp = nat_order, ve_versions = (\<lambda>s. if s = ''v'' then Some [''8''] else None),
      ve_ranges = (\<lambda>s. if s = ''r'' then Some [JNull] else None),
      ve_range_of = (\<lambda>_. Some sample_semver_range), ve_to_vec = (\<lambda>_. ''null''), ve_sha = (\<lambda>s. s)\<rparr>"

lemma sample_version_simps:
  "ve_cmp sample_version_env = nat_order"
  "ve_parse sample_version_env ''3'' = Some 3" "ve_parse sample_version_env ''5'' = Some 5"
  "ve_parse sample_version_env ''7'' = Some 7"
  "ve_versions sample_version_env ''v'' = Some [''8'']"
  "ve_ranges sample_version_env ''r'' = Some [JNull]"
  "semver_value sample_version_env JNull = Some sample_semver_range"
  by (simp_all add: sample_version_env_def is_digit_def byte_def semver_value_def sample_semver_range_def)

lemma sample_range_intervals:
  "range_intervals sample_version_env sample_semver_range = Some ([(None, FixedAt 5)], None)"
  by (simp add: range_intervals_def sample_semver_range_def event_shapes read_lower_def sample_version_simps
      range_versions_def interval_versions_def is_fixed_at_def is_last_at_def)

theorem semver_range_exact_witness:
  "evaluate_semver_range sample_version_env 3 sample_semver_range = Ok True \<and>
   evaluate_semver_range sample_version_env 7 sample_semver_range = Ok False"
  using semver_range_exact [of sample_version_env, unfolded sample_version_simps(1), OF nat_order_precedence]
  by (simp add: sample_range_intervals in_range_def in_interval_def below_upper_def below_limit_def nat_order_def)

theorem version_status_exact_witness:
  "va_status (evaluate_package_version sample_version_env (Some ''3'') [(''r'', ''v'')]) = VersionAffected \<and>
   va_status (evaluate_package_version sample_version_env (Some ''7'') [(''r'', ''v'')]) = VersionNotAffected"
  using version_status_exact [of sample_version_env, unfolded sample_version_simps(1), OF nat_order_precedence]
  by (simp add: row_affects_def row_complete_def value_covers_def value_complete_def sample_version_simps
      sample_range_intervals in_range_def in_interval_def below_upper_def below_limit_def nat_order_def)

end
