(* ===== verification/CorrelationFacts.thy ===== *)
theory CorrelationFacts
  imports Correlation VersionFacts Samples
begin

text \<open>
  What a correlation document promises: a catalog query and the document built from it fit
  together (every assessment of the query is one the document accepts), the document repeats the
  human decision and asserts nothing else, and its summary counts its advisories.
\<close>

section \<open>Assessments\<close>

lemma digest_valid: "digest_length sha \<Longrightarrow> co_valid_sha256 (encode_hex (sha x))"
  by (simp add: co_valid_sha256_def hex.digest_id)

lemma remdups_adj_sorted: "sorted xs \<Longrightarrow> strictly_increasing (remdups_adj xs)"
  by (induction xs rule: remdups_adj.induct) (auto simp: strictly_increasing_iff)

lemma sort_eq_Nil [simp]: "sort xs = [] \<longleftrightarrow> xs = []"
  by (metis length_0_conv length_sort)

lemma affected_digests:
  assumes "digest_length (ve_sha env)"
  shows "strictly_increasing (affected_data_digests env rows)"
    and "list_all co_valid_sha256 (affected_data_digests env rows)"
    and "affected_data_digests env rows = [] \<longleftrightarrow> rows = []"
  by (auto simp: affected_data_digests_def remdups_adj_sorted list_all_iff digest_valid assms)

text \<open>The issues stay in the order of a \<open>BTreeSet\<close>, and an early return is an affected assessment.\<close>

definition scan_fits :: "string \<Rightarrow> string list \<Rightarrow> version_assessment + version_scan \<Rightarrow> bool" where
  "scan_fits requested digests r \<longleftrightarrow>
     (case r of
        Inr st \<Rightarrow> strictly_increasing (vs_issues st)
      | Inl a \<Rightarrow> a = affected_assessment ExactEnumeratedVersion requested requested digests \<or>
          (\<exists>matched. co_valid_sha256 matched \<and>
             a = affected_assessment OsvSemverRange requested matched digests))"

lemma note_issue_fits [simp]:
  "strictly_increasing (vs_issues st) \<Longrightarrow> strictly_increasing (vs_issues (note_issue issue st))"
  by (simp add: note_issue_def strictly_increasing_iff sorted_insort_insert distinct_insort_insert)

lemma scan_fits_then:
  assumes "scan_fits requested digests r"
    and "\<And>st. strictly_increasing (vs_issues st) \<Longrightarrow> scan_fits requested digests (f st)"
  shows "scan_fits requested digests (and_then r f)"
  using assms by (cases r) (auto simp: scan_fits_def)

lemma range_value_fits:
  assumes "digest_length (ve_sha env)" and "strictly_increasing (vs_issues st)"
  shows "scan_fits requested digests (evaluate_range_value env requested digests value st)"
proof -
  have "scan_fits requested digests (Inl (affected_assessment OsvSemverRange requested
      (encode_hex (ve_sha env (ve_to_vec env value))) digests))"
    using digest_valid [OF assms(1)] by (auto simp: scan_fits_def)
  with assms(2) show ?thesis
    by (auto simp: scan_fits_def [of _ _ "Inr _"] evaluate_range_value_def Let_def
        split: option.splits sum.splits bool.splits)
qed

lemma range_values_fit:
  assumes "digest_length (ve_sha env)"
  shows "strictly_increasing (vs_issues st) \<Longrightarrow>
    scan_fits requested digests (evaluate_range_values env requested digests values st)"
proof (induction "values" arbitrary: st)
  case Nil
  then show ?case by (simp add: scan_fits_def)
next
  case (Cons v vs)
  then show ?case by (auto intro: scan_fits_then range_value_fits [OF assms])
qed

lemma row_fits:
  assumes "digest_length (ve_sha env)" and "strictly_increasing (vs_issues st)"
  shows "scan_fits requested digests (evaluate_row env requested digests row st)"
proof -
  note fits = range_values_fit [OF assms(1), of _ requested digests]
  show ?thesis
    using assms(2)
    by (auto simp: evaluate_row_def Let_def scan_fits_def [of _ _ "Inl _"] scan_fits_def [of _ _ "Inr _"]
        intro!: fits split: prod.splits option.splits)
qed

lemma rows_fit:
  assumes "digest_length (ve_sha env)"
  shows "strictly_increasing (vs_issues st) \<Longrightarrow>
    scan_fits requested digests (evaluate_rows env requested digests rows st)"
proof (induction rows arbitrary: st)
  case Nil
  then show ?case by (simp add: scan_fits_def)
next
  case (Cons r rs)
  then show ?case by (auto intro: scan_fits_then row_fits [OF assms])
qed

lemma assessment_valid:
  assumes "digest_length (ve_sha env)"
  shows "valid_version_assessment (evaluate_package_version env requested rows) requested \<longleftrightarrow> rows \<noteq> []"
proof (cases requested)
  case None
  then show ?thesis
    using affected_digests [OF assms, of rows]
    by (auto simp: evaluate_package_version_def valid_version_assessment_def Let_def list_ex_iff list_all_iff)
next
  case (Some r)
  let ?scan = "evaluate_rows env r (affected_data_digests env rows) rows \<lparr>vs_issues = [], vs_supported = False\<rparr>"
  have "scan_fits r (affected_data_digests env rows) ?scan" by (simp add: rows_fit assms)
  then show ?thesis
    using affected_digests [OF assms, of rows] Some
    by (cases ?scan)
       (auto simp: scan_fits_def evaluate_package_version_def valid_version_assessment_def Let_def
          list_ex_iff list_all_iff affected_assessment_def)
qed

section \<open>Documents\<close>

definition linked_run_wf :: "linked_run \<Rightarrow> bool" where
  "linked_run_wf r \<longleftrightarrow>
     co_valid_run_id (lr_run_id r) \<and> co_valid_sha256 (lr_manifest_sha256 r) \<and>
     \<not> trim_is_empty (lr_finding_id r) \<and> length (lr_finding_id r) \<le> 256"

definition correlation_wf :: "correlation_env \<Rightarrow> correlation_envelope \<Rightarrow> bool" where
  "correlation_wf env e \<longleftrightarrow>
     co_contract_version e = CORRELATION_VERSION
   \<and> ce_rfc3339 env (co_created_at e) \<and> linked_run_wf (co_linked_run e)
   \<and> \<not> package_context_refused (co_package_context e) \<and> \<not> catalog_refused (co_catalog e)
   \<and> co_semantics e = \<lparr>cn_advisory_match_kind = MATCH_KIND,
       cn_affected_version_evaluated = False, cn_causal_relationship_asserted = False,
       cn_changes_human_decision = False, cn_validation_authority = HUMAN_ONLY\<rparr>
   \<and> length (co_advisories e) \<le> MAX_CORRELATION_MATCHES
   \<and> (\<forall>a \<in> set (co_advisories e). \<not> advisory_refused env a)
   \<and> strictly_increasing (map advisory_key (co_advisories e))
   \<and> co_correlation_id e = expected_correlation_id env e"

lemma validate_correlation_iff [ok_iff]: "validate_correlation env e = Ok u \<longleftrightarrow> correlation_wf env e"
  unfolding validate_correlation_def correlation_wf_def linked_run_wf_def
  by (cases "co_semantics e") (auto simp: ok_iff list_ex_iff)

interpretation correlation: contract "validate_correlation env" "correlation_wf env" for env
  by unfold_locales (rule validate_correlation_iff)

text \<open>What the second version says about its own authority: it only depends on the version given.\<close>

definition inert_semantics :: "string option \<Rightarrow> correlation_semantics_v2" where
  "inert_semantics version =
     \<lparr>c2_advisory_match_kind = MATCH_KIND_V2, c2_version_evaluator = VERSION_EVALUATOR,
      c2_affected_version_evaluated = (version \<noteq> None),
      c2_version_result_validates_vulnerability = False, c2_causal_relationship_asserted = False,
      c2_changes_human_decision = False, c2_validation_authority = HUMAN_ONLY\<rparr>"

definition correlation_wf_v2 :: "correlation_env \<Rightarrow> correlation_envelope_v2 \<Rightarrow> bool" where
  "correlation_wf_v2 env e \<longleftrightarrow>
     e2_contract_version e = CORRELATION_VERSION_V2
   \<and> ce_rfc3339 env (e2_created_at e) \<and> linked_run_wf (e2_linked_run e)
   \<and> \<not> package_context_refused (e2_package_context e) \<and> \<not> catalog_refused (e2_catalog e)
   \<and> e2_semantics e = inert_semantics (pc_version (e2_package_context e))
   \<and> length (e2_advisories e) \<le> MAX_CORRELATION_MATCHES
   \<and> (\<forall>a \<in> set (e2_advisories e). \<not> advisory_refused env a \<and>
        valid_version_assessment (ac_version_assessment a) (pc_version (e2_package_context e)))
   \<and> strictly_increasing (map advisory_key (e2_advisories e))
   \<and> e2_version_summary e = summarize_versions (e2_advisories e)
   \<and> e2_correlation_id e = expected_correlation_id_v2 env e"

lemma validate_correlation_v2_iff [ok_iff]:
  "validate_correlation_v2 env e = Ok u \<longleftrightarrow> correlation_wf_v2 env e"
  unfolding validate_correlation_v2_def correlation_wf_v2_def linked_run_wf_def inert_semantics_def
  by (cases "e2_semantics e") (auto simp: ok_iff list_ex_iff)

interpretation correlation_v2: contract "validate_correlation_v2 env" "correlation_wf_v2 env" for env
  by unfold_locales (rule validate_correlation_v2_iff)

section \<open>Building\<close>

lemma sorted_keys:
  "strictly_increasing (map advisory_key (sort_key advisory_key xs)) \<longleftrightarrow> distinct (map advisory_key xs)"
proof -
  have "mset (map advisory_key (sort_key advisory_key xs)) = mset (map advisory_key xs)" by simp
  then have "distinct (map advisory_key (sort_key advisory_key xs)) \<longleftrightarrow> distinct (map advisory_key xs)"
    by (rule mset_eq_imp_distinct_iff)
  then show ?thesis by (simp add: strictly_increasing_iff)
qed

definition advisory_of :: "catalog_version_hit \<Rightarrow> advisory_context" where
  "advisory_of h = context_of_hit (cv_advisory h)"

lemma context_of_version_hit_simps [simp]:
  "advisory_key (context_of_version_hit h) = advisory_key (advisory_of h)"
  "advisory_refused env (context_of_version_hit h) = advisory_refused env (advisory_of h)"
  "ac_version_assessment (context_of_version_hit h) = cv_version_assessment h"
  by (simp_all add: advisory_of_def context_of_hit_def context_of_version_hit_def advisory_key_def
      advisory_refused_def Let_def)

text \<open>The query assesses every hit with the rows of that hit.\<close>

lemma assess_hits_Ok:
  "assess_hits env db eco pkg version hits = Ok vs \<Longrightarrow> v \<in> set vs \<Longrightarrow>
   \<exists>rows. db_affected_rows db (ch_source_name (cv_advisory v)) (ch_source_record_id (cv_advisory v)) eco pkg
       = Ok rows \<and> cv_version_assessment v = evaluate_package_version env version rows"
  by (induction hits arbitrary: vs) (auto simp: ok_iff)

lemma query_assessments:
  assumes "search_package_version venv db eco pkg version lim = Ok hits" and "h \<in> set hits"
  shows "\<exists>rows. db_affected_rows db (ch_source_name (cv_advisory h)) (ch_source_record_id (cv_advisory h))
      eco pkg = Ok rows \<and> cv_version_assessment h = evaluate_package_version venv version rows"
  using assms assess_hits_Ok by (fastforce simp: search_package_version_def ok_iff)

definition correlatable ::
  "correlation_env \<Rightarrow> string option \<Rightarrow> run_manifest \<Rightarrow> string \<Rightarrow> string \<Rightarrow> string \<Rightarrow> string \<Rightarrow>
     string option \<Rightarrow> catalog_provenance \<Rightarrow> catalog_version_hit list \<Rightarrow> bool" where
  "correlatable env now m manifest_sha256 finding_id eco pkg version catalog hits \<longleftrightarrow>
     finding_id \<in> fd_finding_id ` set (rm_findings m)
   \<and> (\<exists>t. now = Some t \<and> ce_rfc3339 env t)
   \<and> co_valid_run_id (rm_run_id m) \<and> co_valid_sha256 manifest_sha256
   \<and> \<not> trim_is_empty finding_id \<and> length finding_id \<le> 256
   \<and> valid_short eco 100 \<and> valid_short pkg 512 \<and> (\<forall>v. version = Some v \<longrightarrow> valid_short v 256)
   \<and> \<not> catalog_refused catalog
   \<and> length hits \<le> 100 \<and> (\<forall>h \<in> set hits. \<not> advisory_refused env (advisory_of h))
   \<and> distinct (map (advisory_key \<circ> advisory_of) hits)"

lemma linked_finding_Ok:
  "linked_finding m fid = Ok f \<Longrightarrow> f \<in> set (rm_findings m) \<and> fd_finding_id f = fid"
  by (auto simp: linked_finding_def ok_iff find_Some_iff)

lemma linked_finding_iff:
  "(\<exists>f. linked_finding m fid = Ok f) \<longleftrightarrow> fid \<in> fd_finding_id ` set (rm_findings m)"
proof -
  have "find (\<lambda>f. fd_finding_id f = fid) (rm_findings m) = None \<longleftrightarrow>
      fid \<notin> fd_finding_id ` set (rm_findings m)"
    by (auto simp: find_None_iff)
  then show ?thesis by (auto simp: linked_finding_def ok_iff)
qed

text \<open>The document of version two, before its identifier is known.\<close>

definition correlated ::
  "correlation_env \<Rightarrow> string \<Rightarrow> string \<Rightarrow> finding \<Rightarrow> string \<Rightarrow> string \<Rightarrow> string \<Rightarrow> string \<Rightarrow>
     string option \<Rightarrow> catalog_provenance \<Rightarrow> catalog_version_hit list \<Rightarrow> correlation_envelope_v2" where
  "correlated env t run_id f manifest_sha256 finding_id eco pkg version catalog hits =
     (let advisories = sort_key advisory_key (map context_of_version_hit hits);
          e = \<lparr>e2_contract_version = CORRELATION_VERSION_V2, e2_correlation_id = [],
               e2_created_at = t,
               e2_linked_run = \<lparr>lr_run_id = run_id, lr_manifest_sha256 = manifest_sha256,
                 lr_finding_id = finding_id, lr_human_decision = hr_decision (fd_human_review f)\<rparr>,
               e2_package_context = \<lparr>pc_assertion = PACKAGE_ASSERTION, pc_ecosystem = eco,
                 pc_name = pkg, pc_version = version\<rparr>,
               e2_catalog = catalog, e2_semantics = inert_semantics version,
               e2_version_summary = summarize_versions advisories, e2_advisories = advisories\<rparr>
      in e\<lparr>e2_correlation_id := expected_correlation_id_v2 env e\<rparr>)"

lemma build_correlation_v2_Ok:
  "build_correlation_v2 env now m sha fid eco pkg version cat hits = Ok e \<longleftrightarrow>
     (\<exists>f t. linked_finding m fid = Ok f \<and> length hits \<le> 100 \<and> now = Some t \<and>
        e = correlated env t (rm_run_id m) f sha fid eco pkg version cat hits \<and> correlation_wf_v2 env e)"
  by (auto simp: build_correlation_v2_def correlated_def inert_semantics_def ok_iff Let_def
      MAX_CORRELATION_MATCHES_def not_less)

lemma correlated_simps:
  "e2_created_at (correlated env t r f sha fid eco pkg version cat hits) = t"
  "e2_linked_run (correlated env t r f sha fid eco pkg version cat hits) =
     \<lparr>lr_run_id = r, lr_manifest_sha256 = sha, lr_finding_id = fid,
      lr_human_decision = hr_decision (fd_human_review f)\<rparr>"
  "e2_package_context (correlated env t r f sha fid eco pkg version cat hits) =
     \<lparr>pc_assertion = PACKAGE_ASSERTION, pc_ecosystem = eco, pc_name = pkg, pc_version = version\<rparr>"
  "e2_semantics (correlated env t r f sha fid eco pkg version cat hits) = inert_semantics version"
  "e2_advisories (correlated env t r f sha fid eco pkg version cat hits) =
     sort_key advisory_key (map context_of_version_hit hits)"
  "e2_version_summary (correlated env t r f sha fid eco pkg version cat hits) =
     summarize_versions (sort_key advisory_key (map context_of_version_hit hits))"
  by (simp_all add: correlated_def Let_def)

lemma correlated_wf:
  "correlation_wf_v2 env (correlated env t r f sha fid eco pkg version cat hits) \<longleftrightarrow>
     ce_rfc3339 env t \<and> co_valid_run_id r \<and> co_valid_sha256 sha \<and> \<not> trim_is_empty fid \<and> length fid \<le> 256
   \<and> valid_short eco 100 \<and> valid_short pkg 512 \<and> (\<forall>v. version = Some v \<longrightarrow> valid_short v 256)
   \<and> \<not> catalog_refused cat \<and> length hits \<le> 100
   \<and> (\<forall>h \<in> set hits. \<not> advisory_refused env (advisory_of h) \<and>
        valid_version_assessment (cv_version_assessment h) version)
   \<and> distinct (map (advisory_key \<circ> advisory_of) hits)"
proof -
  have keys: "map advisory_key (map context_of_version_hit hits) = map (advisory_key \<circ> advisory_of) hits"
    by simp
  show ?thesis
    unfolding correlation_wf_v2_def correlated_def Let_def linked_run_wf_def
    by (auto simp: sorted_keys keys package_context_refused_def expected_correlation_id_v2_def
        MAX_CORRELATION_MATCHES_def split: option.splits simp del: map_map)
qed

text \<open>
  C19. A package query and the document of its hits fit together. The digests have 32 bytes and
  the database has rows for each hit it returned; then a correlation is built exactly when the
  finding is in the run, the clock, the identifiers, the package and the catalog are acceptable,
  there are at most 100 hits, each with acceptable texts, and no two share an advisory: no
  assessment the evaluator makes is ever the reason of a refusal.
\<close>

theorem correlation_succeeds_iff:
  assumes "digest_length (ve_sha venv)"
    and "search_package_version venv db eco pkg version lim = Ok hits"
    and "\<And>h. h \<in> set hits \<Longrightarrow>
      db_affected_rows db (ch_source_name (cv_advisory h)) (ch_source_record_id (cv_advisory h)) eco pkg \<noteq> Ok []"
  shows "(\<exists>e. build_correlation_v2 env now m sha fid eco pkg version cat hits = Ok e) \<longleftrightarrow>
    correlatable env now m sha fid eco pkg version cat hits"
proof -
  have "valid_version_assessment (cv_version_assessment h) version" if h: "h \<in> set hits" for h
    using query_assessments [OF assms(2) h] assms(3) [OF h] assessment_valid [OF assms(1)] by auto
  then show ?thesis
    unfolding build_correlation_v2_Ok correlatable_def linked_finding_iff [symmetric]
    by (auto simp: correlated_wf)
qed

section \<open>Reports\<close>

definition with_status :: "version_evaluation_status \<Rightarrow> advisory_context_v2 list \<Rightarrow> nat" where
  "with_status s as = length (filter (\<lambda>a. va_status (ac_version_assessment a) = s) as)"

lemma summarize_from_counts:
  "vy_affected (summarize_from s as) = vy_affected s + of_nat (with_status VersionAffected as)"
  "vy_not_affected (summarize_from s as) = vy_not_affected s + of_nat (with_status VersionNotAffected as)"
  "vy_unknown (summarize_from s as) = vy_unknown s + of_nat (with_status VersionUnknown as)"
  "vy_not_evaluated (summarize_from s as) = vy_not_evaluated s + of_nat (with_status VersionNotEvaluated as)"
  by (induction as arbitrary: s)
     (simp_all add: with_status_def split: version_evaluation_status.split)

lemma with_status_total:
  "with_status VersionAffected as + with_status VersionNotAffected as + with_status VersionUnknown as +
     with_status VersionNotEvaluated as = length as"
  by (induction as) (auto simp: with_status_def intro: version_evaluation_status.exhaust)

lemma summary_counts:
  assumes "length as \<le> 100"
  shows "unat (vy_affected (summarize_versions as)) = with_status VersionAffected as"
    and "unat (vy_not_affected (summarize_versions as)) = with_status VersionNotAffected as"
    and "unat (vy_unknown (summarize_versions as)) = with_status VersionUnknown as"
    and "unat (vy_not_evaluated (summarize_versions as)) = with_status VersionNotEvaluated as"
proof -
  have "with_status s as < 2 ^ 64" for s
  proof -
    have "with_status s as \<le> length as" by (simp add: with_status_def)
    also have "length as < 2 ^ 64" using assms by simp
    finally show ?thesis .
  qed
  then show "unat (vy_affected (summarize_versions as)) = with_status VersionAffected as"
    and "unat (vy_not_affected (summarize_versions as)) = with_status VersionNotAffected as"
    and "unat (vy_unknown (summarize_versions as)) = with_status VersionUnknown as"
    and "unat (vy_not_evaluated (summarize_versions as)) = with_status VersionNotEvaluated as"
    by (simp_all add: summarize_versions_def summarize_from_counts unat_of_nat_u64)
qed

text \<open>
  C33. A correlation that is built repeats the decision of the finding it links and claims nothing
  beyond it: it asserts no cause, changes no decision, validates nothing, and says that versions
  were evaluated exactly when one was asked for. Its advisories are those of the hits, and the
  four counts of its summary are the numbers of advisories with each status and add up to the
  number of hits.
\<close>

theorem correlation_reports_hits:
  assumes "build_correlation_v2 env now m sha fid eco pkg version cat hits = Ok e"
  shows "(\<exists>f \<in> set (rm_findings m). fd_finding_id f = fid \<and>
      lr_human_decision (e2_linked_run e) = hr_decision (fd_human_review f))
    \<and> e2_semantics e = inert_semantics version
    \<and> mset (e2_advisories e) = mset (map context_of_version_hit hits)
    \<and> unat (vy_affected (e2_version_summary e)) = with_status VersionAffected (e2_advisories e)
    \<and> unat (vy_not_affected (e2_version_summary e)) = with_status VersionNotAffected (e2_advisories e)
    \<and> unat (vy_unknown (e2_version_summary e)) = with_status VersionUnknown (e2_advisories e)
    \<and> unat (vy_not_evaluated (e2_version_summary e)) = with_status VersionNotEvaluated (e2_advisories e)
    \<and> unat (vy_affected (e2_version_summary e)) + unat (vy_not_affected (e2_version_summary e)) +
      unat (vy_unknown (e2_version_summary e)) + unat (vy_not_evaluated (e2_version_summary e)) =
      length hits"
proof -
  from assms obtain f t where f: "linked_finding m fid = Ok f" and "length hits \<le> 100"
    and e: "e = correlated env t (rm_run_id m) f sha fid eco pkg version cat hits"
    by (auto simp: build_correlation_v2_Ok)
  let ?as = "sort_key advisory_key (map context_of_version_hit hits)"
  have "length ?as \<le> 100" using \<open>length hits \<le> 100\<close> by simp
  note counts = summary_counts [OF this]
  have "length ?as = length hits" by simp
  with linked_finding_Ok [OF f] with_status_total [of ?as] show ?thesis
    by (auto simp: e correlated_simps counts)
qed

section \<open>Example\<close>

text \<open>One advisory of one package; versions before \<open>5\<close> and version \<open>8\<close> are affected.\<close>

definition sample_hit :: catalog_hit where
  "sample_hit = \<lparr>ch_canonical_id = ''sf_vuln_1'', ch_source_name = ''osv'', ch_source_record_id = ''GHSA-1'',
     ch_title = ''title'', ch_modified_at = ''now'', ch_withdrawn = False\<rparr>"

definition sample_db :: catalog_db where
  "sample_db = \<lparr>db_user_version = Ok 3, db_preparing_deltas = Ok 0,
     db_package_hits = (\<lambda>_ _ _. Ok [sample_hit]), db_affected_rows = (\<lambda>_ _ _ _. Ok [(''r'', ''v'')]),
     db_complete_snapshots = Ok [], db_complete_deltas = Ok [], db_canonicalization = Ok ''exact'',
     db_last_rebuild = Ok None\<rparr>"

definition sample_query_env :: "nat version_env" where
  "sample_query_env = sample_version_env\<lparr>ve_sha := zero_sha\<rparr>"

definition sample_correlation_env :: correlation_env where
  "sample_correlation_env = \<lparr>ce_sha = zero_sha, ce_rfc3339 = (\<lambda>t. t = ''now''),
     ce_identity = (\<lambda>_. []), ce_identity_v2 = (\<lambda>_. []), ce_json = (\<lambda>_. None),
     ce_from_slice = (\<lambda>_. None), ce_of_json = (\<lambda>_. None), ce_of_json_v2 = (\<lambda>_. None)\<rparr>"

definition sample_provenance :: catalog_provenance where
  "sample_provenance = \<lparr>cp_schema_version = 3,
     cp_complete_snapshot_ids = [''sf_snapshot_'' @ encode_hex (zero_sha [])],
     cp_complete_delta_ids = [], cp_canonicalization = ''exact'', cp_last_canonical_rebuild_id = None\<rparr>"

abbreviation sample_correlation_build :: "catalog_version_hit list \<Rightarrow> correlation_error + correlation_envelope_v2" where
  "sample_correlation_build \<equiv> build_correlation_v2 sample_correlation_env (Some ''now'') one_manifest zero_hash
     (fd_finding_id one_finding) ''npm'' ''left-pad'' (Some ''3'') sample_provenance"

definition sample_version_hit :: catalog_version_hit where
  "sample_version_hit = \<lparr>cv_advisory = sample_hit, cv_version_assessment =
     evaluate_package_version sample_query_env (Some ''3'') [(''r'', ''v'')]\<rparr>"

lemma sample_query:
  "search_package_version sample_query_env sample_db ''npm'' ''left-pad'' (Some ''3'') 100 =
     Ok [sample_version_hit]"
  by (simp add: search_package_version_def search_package_def ensure_no_preparing_delta_def sample_db_def
      nonnegative_count_def validate_query_def chars_count_def white1_def white2_def white3_def byte_def
      MAX_QUERY_RESULTS_def sample_version_hit_def)

lemma sample_correlatable:
  "correlatable sample_correlation_env (Some ''now'') one_manifest zero_hash (fd_finding_id one_finding)
     ''npm'' ''left-pad'' (Some ''3'') sample_provenance [sample_version_hit]"
proof -
  have "co_valid_sha256 zero_hash"
    using zero_hash_wf by (simp add: co_valid_sha256_def zero_hash_def byte_class_defs)
  moreover have "\<not> catalog_refused sample_provenance"
    using digest_valid [OF zero_sha_length]
    by (simp add: catalog_refused_def sample_provenance_def valid_hash_identifier_def strip_prefix_def
        starts_with_def co_valid_sha256_def white1_def white2_def white3_def byte_def)
  moreover have "co_valid_run_id (rm_run_id one_manifest)"
    by (simp add: co_valid_run_id_def one_manifest_def sample_manifest_def strip_prefix_def starts_with_def
        byte_class_defs)
  moreover have "\<not> trim_is_empty (fd_finding_id one_finding) \<and> length (fd_finding_id one_finding) \<le> 256"
    by (simp add: one_finding_def sample_finding_def white1_def white2_def white3_def byte_def)
  moreover have "\<not> advisory_refused sample_correlation_env (advisory_of sample_version_hit)"
    by (simp add: advisory_refused_def advisory_of_def context_of_hit_def sample_version_hit_def sample_hit_def
        sample_correlation_env_def valid_short_def trim_def white1_def white2_def white3_def byte_def
        control1_def)
  ultimately show ?thesis
    by (simp add: correlatable_def sample_correlation_env_def valid_short_def trim_def white1_def white2_def
        white3_def byte_def control1_def)
qed

theorem correlation_succeeds_iff_witness:
  "\<exists>e. sample_correlation_build [sample_version_hit] = Ok e"
proof (subst correlation_succeeds_iff [OF _ sample_query])
  show "digest_length (ve_sha sample_query_env)" by (simp add: sample_query_env_def)
qed (simp_all add: sample_correlatable sample_db_def)

definition sample_correlation :: correlation_envelope_v2 where
  "sample_correlation = correlated sample_correlation_env ''now'' (rm_run_id one_manifest) one_finding zero_hash
     (fd_finding_id one_finding) ''npm'' ''left-pad'' (Some ''3'') sample_provenance [sample_version_hit]"

lemma sample_correlation_built: "sample_correlation_build [sample_version_hit] = Ok sample_correlation"
proof -
  have "valid_version_assessment (cv_version_assessment sample_version_hit) (Some ''3'')"
    using assessment_valid [of sample_query_env "Some ''3''" "[(''r'', ''v'')]"]
    by (simp add: sample_version_hit_def sample_query_env_def)
  moreover have "linked_finding one_manifest (fd_finding_id one_finding) = Ok one_finding"
    by (simp add: linked_finding_def)
  ultimately show ?thesis
    using sample_correlatable unfolding build_correlation_v2_Ok sample_correlation_def
    by (simp add: correlated_wf correlatable_def)
qed

theorem correlation_reports_hits_witness:
  "lr_human_decision (e2_linked_run sample_correlation) = DecisionPending \<and>
   unat (vy_affected (e2_version_summary sample_correlation)) =
     with_status VersionAffected (e2_advisories sample_correlation)"
  using correlation_reports_hits [OF sample_correlation_built]
  by (simp add: one_finding_def sample_finding_defs)

end
