(* ===== verification/OsvRecords.thy ===== *)
theory OsvRecords
  imports RunModel CatalogQuery
begin

text \<open>
  OSV advisories of \<open>catalog.rs\<close>: the record a source publishes, the descriptors of sources,
  snapshots and deltas, and their validation.
\<close>

section \<open>Data\<close>

definition MAX_OSV_RECORD_BYTES :: nat where
  "MAX_OSV_RECORD_BYTES = 4 * 1024 * 1024"

definition MAX_IMPORT_RECORDS :: nat where
  "MAX_IMPORT_RECORDS = 1100000"

definition MAX_IDENTIFIERS_PER_RECORD :: nat where
  "MAX_IDENTIFIERS_PER_RECORD = 1024"

definition MAX_AFFECTED_PER_RECORD :: nat where
  "MAX_AFFECTED_PER_RECORD = 4096"

definition MAX_REFERENCES_PER_RECORD :: nat where
  "MAX_REFERENCES_PER_RECORD = 4096"

definition MAX_VERSIONS_PER_AFFECTED :: nat where
  "MAX_VERSIONS_PER_AFFECTED = 100000"

record osv_package =
  op_ecosystem :: string
  op_name :: string
  op_purl :: "string option"

record osv_affected =
  od_package :: "osv_package option"
  od_ranges :: "json list"
  od_versions :: "string list"

record osv_reference =
  of_kind :: "string option"
  of_url :: string

record osv_record =
  or_schema_version :: "string option"
  or_id :: string
  or_modified :: string
  or_published :: "string option"
  or_withdrawn :: "string option"
  or_aliases :: "string list"
  or_upstream :: "string list"
  or_related :: "string list"
  or_summary :: "string option"
  or_details :: "string option"
  or_affected :: "osv_affected list"
  or_references :: "osv_reference list"

record catalog_source =
  ks_name :: string
  ks_license_expression :: string
  ks_license_evidence_sha256 :: string
  ks_locator :: string

record catalog_snapshot =
  kn_snapshot_id :: string
  kn_manifest_sha256 :: string
  kn_artifact_sha256 :: string
  kn_artifact_revision :: string
  kn_expected_ecosystem :: string
  kn_acquired_at :: string
  kn_accepted_records :: u64
  kn_quarantined_records :: u64

record catalog_delta =
  kd_delta_id :: string
  kd_manifest_sha256 :: string
  kd_index_sha256 :: string
  kd_index_revision :: string
  kd_expected_ecosystem :: string
  kd_acquired_at :: string
  kd_after_modified :: string
  kd_through_modified :: string
  kd_base_snapshot_id :: string
  kd_previous_delta_id :: "string option"
  kd_accepted_records :: u64
  kd_quarantined_records :: u64
  kd_withdrawn_records :: u64

section \<open>Texts\<close>

text \<open>\<open>matches!(character, '\n' | '\r' | '\t')\<close> is white space the catalog keeps.\<close>

definition kept_control :: "char \<Rightarrow> bool" where
  "kept_control c \<longleftrightarrow> byte c = 10 \<or> byte c = 13 \<or> byte c = 9"

fun has_refused_control :: "string \<Rightarrow> bool" where
  "has_refused_control [] = False"
| "has_refused_control [a] = (control1 a \<and> \<not> kept_control a)"
| "has_refused_control (a # b # s) =
     ((control1 a \<and> \<not> kept_control a) \<or> (byte a = 194 \<and> 128 \<le> byte b \<and> byte b < 160) \<or>
      has_refused_control (b # s))"

definition catalog_validate_text :: "string \<Rightarrow> nat \<Rightarrow> string \<Rightarrow> catalog_error + unit" where
  "catalog_validate_text value max_chars field =
     fail_if (trim_is_empty value \<or> max_chars < chars_count value \<or> has_refused_control value)
       (CatalogInvalidRecord field)"

definition catalog_validate_optional_text ::
  "string option \<Rightarrow> nat \<Rightarrow> string \<Rightarrow> catalog_error + unit" where
  "catalog_validate_optional_text value max_chars field =
     check_opt (\<lambda>v. if v = [] then Ok () else catalog_validate_text v max_chars field) value"

definition catalog_validate_optional_content ::
  "string option \<Rightarrow> nat \<Rightarrow> string \<Rightarrow> catalog_error + unit" where
  "catalog_validate_optional_content value max_chars field =
     check_opt (\<lambda>v. if v = [] then Ok ()
       else fail_if (trim_is_empty v \<or> max_chars < chars_count v) (CatalogInvalidRecord field)) value"

definition catalog_validate_timestamp :: "ts_parser \<Rightarrow> string \<Rightarrow> string \<Rightarrow> catalog_error + unit" where
  "catalog_validate_timestamp ts value field = fail_if (ts value = None) (CatalogInvalidRecord field)"

text \<open>\<open>is_ascii_graphic\<close>: from \<open>!\<close> to \<open>~\<close>.\<close>

definition is_ascii_graphic :: "char \<Rightarrow> bool" where
  "is_ascii_graphic c \<longleftrightarrow> 33 \<le> byte c \<and> byte c \<le> 126"

definition catalog_validate_identifier :: "string \<Rightarrow> string \<Rightarrow> catalog_error + unit" where
  "catalog_validate_identifier value field =
     checks
       [catalog_validate_text value 200 field,
        fail_if (\<not> list_all is_ascii_graphic value) (CatalogInvalidRecord field)]"

fun normalize_catalog_text :: "string \<Rightarrow> string" where
  "normalize_catalog_text [] = []"
| "normalize_catalog_text [a] = (if control1 a \<and> \<not> kept_control a then '' '' else [a])"
| "normalize_catalog_text (a # b # s) =
     (if control1 a \<and> \<not> kept_control a then CHR '' '' # normalize_catalog_text (b # s)
      else if byte a = 194 \<and> 128 \<le> byte b \<and> byte b < 160 then CHR '' '' # normalize_catalog_text s
      else a # normalize_catalog_text (b # s))"

section \<open>Validation\<close>

definition validate_record_size :: "string \<Rightarrow> catalog_error + unit" where
  "validate_record_size bytes =
     checks
       [fail_if (bytes = []) (CatalogInvalidRecord ''empty record''),
        fail_if (MAX_OSV_RECORD_BYTES < length bytes)
          (CatalogRecordTooLarge (length bytes) MAX_OSV_RECORD_BYTES)]"

definition validate_osv_package :: "osv_package \<Rightarrow> catalog_error + unit" where
  "validate_osv_package p =
     checks
       [catalog_validate_text (op_ecosystem p) 100 ''affected.package.ecosystem'',
        catalog_validate_text (op_name p) 500 ''affected.package.name'',
        catalog_validate_optional_text (op_purl p) 2048 ''affected.package.purl'']"

definition validate_osv_affected :: "osv_affected \<Rightarrow> catalog_error + unit" where
  "validate_osv_affected a =
     checks
       [fail_if (MAX_VERSIONS_PER_AFFECTED < length (od_versions a)) (CatalogInvalidRecord ''affected.versions''),
        each (\<lambda>v. catalog_validate_text v 500 ''affected.versions[]'') (od_versions a),
        check_opt validate_osv_package (od_package a)]"

definition validate_osv_reference :: "osv_reference \<Rightarrow> catalog_error + unit" where
  "validate_osv_reference r =
     checks
       [catalog_validate_optional_text (of_kind r) 50 ''references.type'',
        catalog_validate_text (of_url r) 4096 ''references.url'']"

definition validate_osv_record_public :: "ts_parser \<Rightarrow> osv_record \<Rightarrow> catalog_error + unit" where
  "validate_osv_record_public ts r =
     checks
       [catalog_validate_identifier (or_id r) ''id'',
        catalog_validate_timestamp ts (or_modified r) ''modified'',
        check_opt (\<lambda>v. catalog_validate_timestamp ts v ''published'') (or_published r),
        check_opt (\<lambda>v. catalog_validate_timestamp ts v ''withdrawn'') (or_withdrawn r),
        check_opt (\<lambda>v. catalog_validate_text v 50 ''schema_version'') (or_schema_version r),
        catalog_validate_optional_content (or_summary r) 1000 ''summary'',
        catalog_validate_optional_content (or_details r) 262144 ''details'',
        fail_if (MAX_IDENTIFIERS_PER_RECORD <
                 length (or_aliases r) + length (or_upstream r) + length (or_related r))
          (CatalogInvalidRecord ''identifiers''),
        each (\<lambda>v. catalog_validate_identifier v ''identifier'')
          (or_aliases r @ or_upstream r @ or_related r),
        fail_if (MAX_AFFECTED_PER_RECORD < length (or_affected r)) (CatalogInvalidRecord ''affected''),
        each validate_osv_affected (or_affected r),
        fail_if (MAX_REFERENCES_PER_RECORD < length (or_references r)) (CatalogInvalidRecord ''references''),
        each validate_osv_reference (or_references r)]"

definition catalog_validate_source :: "catalog_source \<Rightarrow> catalog_error + unit" where
  "catalog_validate_source s =
     checks
       [catalog_validate_text (ks_name s) 100 ''source.name'',
        catalog_validate_text (ks_license_expression s) 200 ''source.license_expression'',
        fail_if (\<not> bd_valid_sha256 (ks_license_evidence_sha256 s))
          (CatalogInvalidRecord ''source.license_evidence_sha256''),
        catalog_validate_text (ks_locator s) 4096 ''source.locator'']"

text \<open>\<open>saturating_add\<close> of two \<open>u64\<close> values.\<close>

definition saturating_add64 :: "u64 \<Rightarrow> u64 \<Rightarrow> u64" where
  "saturating_add64 a b = (if unat a + unat b < 2 ^ 64 then a + b else 2 ^ 64 - 1)"

definition valid_prefixed_sha256 :: "string \<Rightarrow> string \<Rightarrow> bool" where
  "valid_prefixed_sha256 value pfx =
     (case strip_prefix pfx value of None \<Rightarrow> False | Some tail \<Rightarrow> bd_valid_sha256 tail)"

definition record_counts_refused :: "u64 \<Rightarrow> u64 \<Rightarrow> bool" where
  "record_counts_refused accepted quarantined =
     (accepted = 0 \<or> of_nat MAX_IMPORT_RECORDS < accepted \<or>
      of_nat MAX_IMPORT_RECORDS < saturating_add64 accepted quarantined)"

definition validate_snapshot_descriptor :: "ts_parser \<Rightarrow> catalog_snapshot \<Rightarrow> catalog_error + unit" where
  "validate_snapshot_descriptor ts s =
     checks
       [catalog_validate_text (kn_snapshot_id s) 100 ''snapshot.snapshot_id'',
        fail_if (\<not> starts_with ''sf_snapshot_'' (kn_snapshot_id s))
          (CatalogInvalidRecord ''snapshot.snapshot_id''),
        fail_if (\<not> bd_valid_sha256 (kn_manifest_sha256 s) \<or> \<not> bd_valid_sha256 (kn_artifact_sha256 s))
          (CatalogInvalidRecord ''snapshot.sha256''),
        catalog_validate_text (kn_artifact_revision s) 500 ''snapshot.artifact_revision'',
        catalog_validate_text (kn_expected_ecosystem s) 100 ''snapshot.expected_ecosystem'',
        catalog_validate_timestamp ts (kn_acquired_at s) ''snapshot.acquired_at'',
        fail_if (record_counts_refused (kn_accepted_records s) (kn_quarantined_records s))
          (CatalogInvalidRecord ''snapshot.record_counts'')]"

definition parse_time :: "ts_parser \<Rightarrow> string \<Rightarrow> string \<Rightarrow> catalog_error + int" where
  "parse_time ts value field = ok_or (ts value) (CatalogInvalidRecord field)"

definition validate_delta_descriptor :: "ts_parser \<Rightarrow> catalog_delta \<Rightarrow> catalog_error + unit" where
  "validate_delta_descriptor ts d =
     and_then (checks
       [fail_if (\<not> valid_prefixed_sha256 (kd_delta_id d) ''sf_delta_'' \<or>
                 \<not> bd_valid_sha256 (kd_manifest_sha256 d) \<or> \<not> bd_valid_sha256 (kd_index_sha256 d) \<or>
                 \<not> valid_prefixed_sha256 (kd_base_snapshot_id d) ''sf_snapshot_'' \<or>
                 (case kd_previous_delta_id d of
                    None \<Rightarrow> False | Some v \<Rightarrow> \<not> valid_prefixed_sha256 v ''sf_delta_''))
          (CatalogInvalidRecord ''delta.identity''),
        catalog_validate_text (kd_index_revision d) 500 ''delta.index_revision'',
        catalog_validate_text (kd_expected_ecosystem d) 100 ''delta.expected_ecosystem'',
        catalog_validate_timestamp ts (kd_acquired_at d) ''delta.acquired_at'',
        catalog_validate_timestamp ts (kd_after_modified d) ''delta.after_modified'',
        catalog_validate_timestamp ts (kd_through_modified d) ''delta.through_modified'']) (\<lambda>_.
     and_then (parse_time ts (kd_acquired_at d) ''delta.acquired_at'') (\<lambda>acquired.
     and_then (parse_time ts (kd_after_modified d) ''delta.after_modified'') (\<lambda>after.
     and_then (parse_time ts (kd_through_modified d) ''delta.through_modified'') (\<lambda>through.
       fail_if (record_counts_refused (kd_accepted_records d) (kd_quarantined_records d) \<or>
                kd_accepted_records d < kd_withdrawn_records d \<or> through \<le> after \<or> acquired < through)
         (CatalogInvalidRecord ''delta.accounting'')))))"

end
