(* ===== verification/CatalogTables.thy ===== *)
theory CatalogTables
  imports OsvRecords SortedMap
begin

text \<open>
  The tables of the catalog database (\<open>initialize_schema\<close> of \<open>catalog.rs\<close>) and the SQL statements
  its functions execute on them: a table with a \<open>TEXT PRIMARY KEY\<close> and one value column is a
  \<open>btree_map\<close>, the others are lists of rows. A transaction that returns an error is rolled back,
  so an operation returns the new tables or the error.
\<close>

section \<open>Rows\<close>

record source_row =
  tz_source_id :: int
  tz_name :: string
  tz_license_expression :: string
  tz_license_evidence_sha256 :: string
  tz_locator :: string
  tz_first_imported_at :: string
  tz_last_imported_at :: string

record canonical_row =
  tv_canonical_id :: string
  tv_created_at :: string
  tv_updated_at :: string

record revision_row =
  ti_revision_id :: int
  ti_source_id :: int
  ti_source_record_id :: string
  ti_modified_at :: string
  ti_raw_sha256 :: string
  ti_raw_json :: string
  ti_imported_at :: string

record record_row =
  tr_rowid :: int
  tr_source_id :: int
  tr_source_record_id :: string
  tr_canonical_id :: string
  tr_modified_at :: string
  tr_published_at :: "string option"
  tr_withdrawn_at :: "string option"
  tr_title :: string
  tr_details :: string
  tr_raw_sha256 :: string
  tr_revision_id :: int
  tr_active :: bool

record relationship_row =
  tl_rowid :: int
  tl_kind :: string
  tl_identifier :: string

record affected_row =
  ta_affected_id :: int
  ta_rowid :: int
  ta_ecosystem :: string
  ta_package_name :: string
  ta_purl :: "string option"
  ta_ranges_json :: string
  ta_versions_json :: string

record reference_row =
  tf_reference_id :: int
  tf_rowid :: int
  tf_kind :: "string option"
  tf_url :: string

record fts_row =
  tx_rowid :: int
  tx_title :: string
  tx_details :: string

record catalog_tables =
  tb_sources :: "source_row list"
  tb_canonicals :: "canonical_row list"
  tb_redirects :: "(string, string) btree_map"
  tb_revisions :: "revision_row list"
  tb_records :: "record_row list"
  tb_identifiers :: "(string, string) btree_map"
  tb_relationships :: "relationship_row list"
  tb_affected :: "affected_row list"
  tb_references :: "reference_row list"
  tb_fts :: "fts_row list"
  tb_metadata :: "(string, string) btree_map"

section \<open>Statements\<close>

text \<open>
  A new \<open>INTEGER PRIMARY KEY\<close> is one more than the largest in the table, 1 in an empty table.
\<close>

definition next_rowid :: "int list \<Rightarrow> int" where
  "next_rowid ids = (if ids = [] then 1 else Max (set ids) + 1)"

text \<open>The violation of a \<open>PRIMARY KEY\<close> or \<open>UNIQUE\<close> constraint by a plain \<open>INSERT\<close>.\<close>

definition constraint_error :: catalog_error where
  "constraint_error = CatalogSqlite ''UNIQUE constraint failed''"

definition insert_canonical_or_ignore :: "string \<Rightarrow> string \<Rightarrow> catalog_tables \<Rightarrow> catalog_tables" where
  "insert_canonical_or_ignore cid now tb =
     (if cid \<in> tv_canonical_id ` set (tb_canonicals tb) then tb
      else tb\<lparr>tb_canonicals := tb_canonicals tb @
        [\<lparr>tv_canonical_id = cid, tv_created_at = now, tv_updated_at = now\<rparr>]\<rparr>)"

definition touch_canonical :: "string \<Rightarrow> string \<Rightarrow> catalog_tables \<Rightarrow> catalog_tables" where
  "touch_canonical cid now tb =
     tb\<lparr>tb_canonicals := map (\<lambda>c. if tv_canonical_id c = cid then c\<lparr>tv_updated_at := now\<rparr> else c)
       (tb_canonicals tb)\<rparr>"

definition upsert_identifier :: "string \<Rightarrow> string \<Rightarrow> catalog_tables \<Rightarrow> catalog_tables" where
  "upsert_identifier identifier cid tb = tb\<lparr>tb_identifiers := bt_insert identifier cid (tb_identifiers tb)\<rparr>"

text \<open>\<open>UPDATE \<dots> SET canonical_id = ?1 WHERE canonical_id = ?2\<close>.\<close>

definition redirect_value :: "string \<Rightarrow> string \<Rightarrow> string \<Rightarrow> string" where
  "redirect_value old new cid = (if cid = old then new else cid)"

definition set_metadata :: "string \<Rightarrow> string \<Rightarrow> catalog_tables \<Rightarrow> catalog_tables" where
  "set_metadata key value tb = tb\<lparr>tb_metadata := bt_insert key value (tb_metadata tb)\<rparr>"

definition find_record :: "int \<Rightarrow> string \<Rightarrow> catalog_tables \<Rightarrow> record_row option" where
  "find_record source_id record_id tb =
     find (\<lambda>r. tr_source_id r = source_id \<and> tr_source_record_id r = record_id) (tb_records tb)"

section \<open>Sources\<close>

definition source_conflicts :: "catalog_source \<Rightarrow> source_row \<Rightarrow> bool" where
  "source_conflicts s row \<longleftrightarrow>
     tz_license_expression row \<noteq> ks_license_expression s \<or>
     tz_license_evidence_sha256 row \<noteq> ks_license_evidence_sha256 s \<or> tz_locator row \<noteq> ks_locator s"

definition register_source ::
  "catalog_source \<Rightarrow> string \<Rightarrow> catalog_tables \<Rightarrow> catalog_error + int \<times> catalog_tables" where
  "register_source s imported_at tb =
     (case find (\<lambda>row. tz_name row = ks_name s) (tb_sources tb) of
        Some row \<Rightarrow>
          if source_conflicts s row then Err (SourceConflict (ks_name s))
          else Ok (tz_source_id row, tb\<lparr>tb_sources := map (\<lambda>r.
            if tz_source_id r = tz_source_id row then r\<lparr>tz_last_imported_at := imported_at\<rparr> else r)
            (tb_sources tb)\<rparr>)
      | None \<Rightarrow>
          (let source_id = next_rowid (map tz_source_id (tb_sources tb)) in
           Ok (source_id, tb\<lparr>tb_sources := tb_sources tb @
             [\<lparr>tz_source_id = source_id, tz_name = ks_name s,
               tz_license_expression = ks_license_expression s,
               tz_license_evidence_sha256 = ks_license_evidence_sha256 s, tz_locator = ks_locator s,
               tz_first_imported_at = imported_at, tz_last_imported_at = imported_at\<rparr>]\<rparr>)))"

definition registered_source_id :: "catalog_source \<Rightarrow> catalog_tables \<Rightarrow> catalog_error + int" where
  "registered_source_id s tb =
     (case find (\<lambda>row. tz_name row = ks_name s) (tb_sources tb) of
        None \<Rightarrow> Err (DeltaIncomplete (ks_name s))
      | Some row \<Rightarrow>
          if source_conflicts s row then Err (SourceConflict (ks_name s)) else Ok (tz_source_id row))"

definition source_name_of :: "catalog_tables \<Rightarrow> int \<Rightarrow> string option" where
  "source_name_of tb source_id =
     map_option tz_name (find (\<lambda>row. tz_source_id row = source_id) (tb_sources tb))"

end
