(* ===== verification/CatalogImport.thy ===== *)
theory CatalogImport
  imports CatalogTables
begin

text \<open>
  \<open>import_osv_record_tx\<close> and \<open>merge_canonical\<close> of \<open>catalog.rs\<close>, and \<open>lookup_identifier\<close>: how a
  record enters the tables and how records that share an exact identifier come to one canonical id.
\<close>

record catalog_import_env =
  km_sha :: digest_fun
  km_time :: ts_parser
  km_record :: "string \<Rightarrow> osv_record option"
  km_ranges_json :: "json list \<Rightarrow> string option"
  km_versions_json :: "string list \<Rightarrow> string option"

definition canonical_id :: "digest_fun \<Rightarrow> string \<Rightarrow> string \<Rightarrow> string" where
  "canonical_id sha source_name source_record_id =
     ''sf_vuln_'' @ encode_hex (sha (hashed_fields
       [''secureflow-canonical-v1'', source_name, source_record_id]))"

definition catalog_sha256 :: "digest_fun \<Rightarrow> string \<Rightarrow> string" where
  "catalog_sha256 sha bytes = encode_hex (sha bytes)"

record import_result =
  in_records_seen :: nat
  in_records_inserted :: nat
  in_records_updated :: nat
  in_records_unchanged :: nat
  in_duplicate_records_linked :: nat
  in_canonical_groups_merged :: nat
  in_records_deactivated :: nat

definition empty_result :: import_result where
  "empty_result = \<lparr>in_records_seen = 0, in_records_inserted = 0, in_records_updated = 0,
     in_records_unchanged = 0, in_duplicate_records_linked = 0, in_canonical_groups_merged = 0,
     in_records_deactivated = 0\<rparr>"

definition merge_result :: "import_result \<Rightarrow> import_result \<Rightarrow> import_result" where
  "merge_result a b =
     \<lparr>in_records_seen = in_records_seen a + in_records_seen b,
      in_records_inserted = in_records_inserted a + in_records_inserted b,
      in_records_updated = in_records_updated a + in_records_updated b,
      in_records_unchanged = in_records_unchanged a + in_records_unchanged b,
      in_duplicate_records_linked = in_duplicate_records_linked a + in_duplicate_records_linked b,
      in_canonical_groups_merged = in_canonical_groups_merged a + in_canonical_groups_merged b,
      in_records_deactivated = in_records_deactivated a + in_records_deactivated b\<rparr>"

section \<open>Merging\<close>

definition merge_canonical :: "string \<Rightarrow> string \<Rightarrow> catalog_tables \<Rightarrow> catalog_tables" where
  "merge_canonical old into tb =
     (let to = redirect_value old into in
      tb\<lparr>tb_records := map (\<lambda>r. r\<lparr>tr_canonical_id := to (tr_canonical_id r)\<rparr>) (tb_records tb),
         tb_identifiers := map (apsnd to) (tb_identifiers tb),
         tb_redirects := bt_insert old into (map (apsnd to) (tb_redirects tb)),
         tb_canonicals := filter (\<lambda>c. tv_canonical_id c \<noteq> old) (tb_canonicals tb)\<rparr>)"

definition exact_identifiers :: "osv_record \<Rightarrow> string list" where
  "exact_identifiers r = remdups_adj (sort (or_id r # or_aliases r))"

text \<open>The \<open>BTreeSet\<close> of canonical ids a record touches; the first is the one selected.\<close>

definition touched_canonicals ::
  "string \<Rightarrow> record_row option \<Rightarrow> string list \<Rightarrow> catalog_tables \<Rightarrow> string list" where
  "touched_canonicals candidate existing identifiers tb =
     remdups_adj (sort (candidate #
       (case existing of None \<Rightarrow> [] | Some row \<Rightarrow> [tr_canonical_id row]) @
       List.map_filter (map_of (tb_identifiers tb)) identifiers))"

section \<open>Rows of a record\<close>

definition insert_revision ::
  "int \<Rightarrow> osv_record \<Rightarrow> string \<Rightarrow> string \<Rightarrow> string \<Rightarrow> catalog_tables \<Rightarrow> int \<times> catalog_tables" where
  "insert_revision source_id r raw_sha256 raw imported_at tb =
     (case find (\<lambda>v. ti_source_id v = source_id \<and> ti_source_record_id v = or_id r \<and>
                     ti_raw_sha256 v = raw_sha256) (tb_revisions tb) of
        Some v \<Rightarrow> (ti_revision_id v, tb)
      | None \<Rightarrow>
          (let revision_id = next_rowid (map ti_revision_id (tb_revisions tb)) in
           (revision_id, tb\<lparr>tb_revisions := tb_revisions tb @
              [\<lparr>ti_revision_id = revision_id, ti_source_id = source_id, ti_source_record_id = or_id r,
                ti_modified_at = or_modified r, ti_raw_sha256 = raw_sha256, ti_raw_json = raw,
                ti_imported_at = imported_at\<rparr>]\<rparr>)))"

definition record_title :: "osv_record \<Rightarrow> string" where
  "record_title r =
     normalize_catalog_text
       (case or_summary r of
          Some s \<Rightarrow> if trim_is_empty s then or_id r else s
        | None \<Rightarrow> or_id r)"

definition record_details :: "osv_record \<Rightarrow> string" where
  "record_details r = normalize_catalog_text (case or_details r of Some d \<Rightarrow> d | None \<Rightarrow> [])"

definition delete_record_rows :: "int \<Rightarrow> bool \<Rightarrow> catalog_tables \<Rightarrow> catalog_tables" where
  "delete_record_rows rowid update_search_index tb =
     tb\<lparr>tb_relationships := filter (\<lambda>l. tl_rowid l \<noteq> rowid) (tb_relationships tb),
        tb_affected := filter (\<lambda>a. ta_rowid a \<noteq> rowid) (tb_affected tb),
        tb_references := filter (\<lambda>f. tf_rowid f \<noteq> rowid) (tb_references tb),
        tb_fts := (if update_search_index then filter (\<lambda>x. tx_rowid x \<noteq> rowid) (tb_fts tb) else tb_fts tb)\<rparr>"

definition store_record ::
  "record_row option \<Rightarrow> int \<Rightarrow> osv_record \<Rightarrow> string \<Rightarrow> string \<Rightarrow> int \<Rightarrow> bool \<Rightarrow>
     import_result \<Rightarrow> catalog_tables \<Rightarrow> int \<times> import_result \<times> catalog_tables" where
  "store_record existing source_id r selected raw_sha256 revision_id update_search_index res tb =
     (case existing of
        Some old \<Rightarrow>
          (tr_rowid old, res\<lparr>in_records_updated := in_records_updated res + 1\<rparr>,
           delete_record_rows (tr_rowid old) update_search_index
             (tb\<lparr>tb_records := map (\<lambda>row. if tr_rowid row = tr_rowid old
                then row\<lparr>tr_canonical_id := selected, tr_modified_at := or_modified r,
                  tr_published_at := or_published r, tr_withdrawn_at := or_withdrawn r,
                  tr_title := record_title r, tr_details := record_details r,
                  tr_raw_sha256 := raw_sha256, tr_revision_id := revision_id, tr_active := True\<rparr>
                else row) (tb_records tb)\<rparr>))
      | None \<Rightarrow>
          (let rowid = next_rowid (map tr_rowid (tb_records tb)) in
           (rowid, res\<lparr>in_records_inserted := in_records_inserted res + 1\<rparr>,
            tb\<lparr>tb_records := tb_records tb @
              [\<lparr>tr_rowid = rowid, tr_source_id = source_id, tr_source_record_id = or_id r,
                tr_canonical_id = selected, tr_modified_at = or_modified r,
                tr_published_at = or_published r, tr_withdrawn_at = or_withdrawn r,
                tr_title = record_title r, tr_details = record_details r,
                tr_raw_sha256 = raw_sha256, tr_revision_id = revision_id, tr_active = True\<rparr>]\<rparr>)))"

definition insert_relationship ::
  "int \<Rightarrow> string \<Rightarrow> string \<Rightarrow> catalog_tables \<Rightarrow> catalog_error + catalog_tables" where
  "insert_relationship rowid kind identifier tb =
     (let row = \<lparr>tl_rowid = rowid, tl_kind = kind, tl_identifier = identifier\<rparr> in
      if row \<in> set (tb_relationships tb) then Err constraint_error
      else Ok (tb\<lparr>tb_relationships := tb_relationships tb @ [row]\<rparr>))"

fun insert_relationships ::
  "int \<Rightarrow> string \<Rightarrow> string list \<Rightarrow> catalog_tables \<Rightarrow> catalog_error + catalog_tables" where
  "insert_relationships rowid kind [] tb = Ok tb"
| "insert_relationships rowid kind (v # vs) tb =
     and_then (insert_relationship rowid kind v tb) (insert_relationships rowid kind vs)"

fun insert_affected ::
  "catalog_import_env \<Rightarrow> int \<Rightarrow> osv_affected list \<Rightarrow> catalog_tables \<Rightarrow> catalog_error + catalog_tables" where
  "insert_affected env rowid [] tb = Ok tb"
| "insert_affected env rowid (a # as) tb =
     (case od_package a of
        None \<Rightarrow> insert_affected env rowid as tb
      | Some p \<Rightarrow>
          and_then (ok_or (km_ranges_json env (od_ranges a)) CatalogInvalidJson) (\<lambda>ranges.
          and_then (ok_or (km_versions_json env (od_versions a)) CatalogInvalidJson) (\<lambda>versions.
            insert_affected env rowid as (tb\<lparr>tb_affected := tb_affected tb @
              [\<lparr>ta_affected_id = next_rowid (map ta_affected_id (tb_affected tb)), ta_rowid = rowid,
                ta_ecosystem = op_ecosystem p, ta_package_name = op_name p, ta_purl = op_purl p,
                ta_ranges_json = ranges, ta_versions_json = versions\<rparr>]\<rparr>))))"

text \<open>\<open>INSERT OR IGNORE\<close> with \<open>UNIQUE(source_record_rowid, kind, url)\<close>; \<open>NULL\<close> kinds are distinct.\<close>

definition insert_reference :: "int \<Rightarrow> osv_reference \<Rightarrow> catalog_tables \<Rightarrow> catalog_tables" where
  "insert_reference rowid f tb =
     (if of_kind f \<noteq> None \<and>
         list_ex (\<lambda>x. tf_rowid x = rowid \<and> tf_kind x = of_kind f \<and> tf_url x = of_url f) (tb_references tb)
      then tb
      else tb\<lparr>tb_references := tb_references tb @
        [\<lparr>tf_reference_id = next_rowid (map tf_reference_id (tb_references tb)), tf_rowid = rowid,
          tf_kind = of_kind f, tf_url = of_url f\<rparr>]\<rparr>)"

definition insert_fts :: "int \<Rightarrow> string \<Rightarrow> string \<Rightarrow> catalog_tables \<Rightarrow> catalog_tables" where
  "insert_fts rowid title details tb =
     tb\<lparr>tb_fts := tb_fts tb @ [\<lparr>tx_rowid = rowid, tx_title = title, tx_details = details\<rparr>]\<rparr>"

section \<open>Import of a record\<close>

text \<open>The branch for a record whose bytes are the stored ones: it is only made active again.\<close>

definition reactivate ::
  "int \<Rightarrow> osv_record \<Rightarrow> record_row \<Rightarrow> bool \<Rightarrow> catalog_tables \<Rightarrow> catalog_tables" where
  "reactivate source_id r old update_search_index tb =
     (let active = tb\<lparr>tb_records := map (\<lambda>row.
            if tr_source_id row = source_id \<and> tr_source_record_id row = or_id r
            then row\<lparr>tr_active := True\<rparr> else row) (tb_records tb)\<rparr>
      in if update_search_index \<and> \<not> tr_active old
         then insert_fts (tr_rowid old) (tr_title old) (tr_details old) active else active)"

definition link_identifiers ::
  "string \<Rightarrow> string list \<Rightarrow> string list \<Rightarrow> catalog_tables \<Rightarrow> catalog_tables" where
  "link_identifiers selected touched identifiers tb =
     fold (\<lambda>identifier. upsert_identifier identifier selected) identifiers
       (fold (\<lambda>merged. merge_canonical merged selected) (filter (\<lambda>c. c \<noteq> selected) touched) tb)"

definition import_changed ::
  "catalog_import_env \<Rightarrow> catalog_source \<Rightarrow> int \<Rightarrow> osv_record \<Rightarrow> string \<Rightarrow> string \<Rightarrow> bool \<Rightarrow>
     record_row option \<Rightarrow> import_result \<Rightarrow> catalog_tables \<Rightarrow> catalog_error + import_result \<times> catalog_tables" where
  "import_changed env s source_id r raw imported_at update_search_index existing res tb =
     (let raw_sha256 = catalog_sha256 (km_sha env) raw;
          identifiers = exact_identifiers r;
          candidate = canonical_id (km_sha env) (ks_name s) (or_id r);
          tb1 = insert_canonical_or_ignore candidate imported_at tb;
          touched = touched_canonicals candidate existing identifiers tb1
      in case touched of
           [] \<Rightarrow> Err (CatalogInvalidRecord ''canonical_id'')
         | selected # _ \<Rightarrow>
             (let res1 = res\<lparr>in_canonical_groups_merged :=
                    in_canonical_groups_merged res + length (filter (\<lambda>c. c \<noteq> selected) touched)\<rparr>;
                  tb2 = link_identifiers selected touched identifiers tb1;
                  (revision_id, tb3) = insert_revision source_id r raw_sha256 raw imported_at tb2;
                  (rowid, res2, tb4) = store_record existing source_id r selected raw_sha256 revision_id
                    update_search_index res1 tb3;
                  tb5 = (if update_search_index
                         then insert_fts rowid (record_title r) (record_details r) tb4 else tb4)
              in and_then (insert_relationship rowid ''primary'' (or_id r) tb5) (\<lambda>tb6.
                 and_then (insert_relationships rowid ''alias'' (or_aliases r) tb6) (\<lambda>tb7.
                 and_then (insert_relationships rowid ''upstream'' (or_upstream r) tb7) (\<lambda>tb8.
                 and_then (insert_relationships rowid ''related'' (or_related r) tb8) (\<lambda>tb9.
                 and_then (insert_affected env rowid (or_affected r) tb9) (\<lambda>tb10.
                   Ok (if existing = None \<and> 1 < length touched
                       then res2\<lparr>in_duplicate_records_linked := in_duplicate_records_linked res2 + 1\<rparr>
                       else res2,
                       touch_canonical selected imported_at
                         (fold (insert_reference rowid) (or_references r) tb10)))))))))"

definition import_osv_record_tx ::
  "catalog_import_env \<Rightarrow> catalog_source \<Rightarrow> int \<Rightarrow> osv_record \<Rightarrow> string \<Rightarrow> string \<Rightarrow> bool \<Rightarrow>
     import_result \<Rightarrow> catalog_tables \<Rightarrow> catalog_error + import_result \<times> catalog_tables" where
  "import_osv_record_tx env s source_id r raw imported_at update_search_index res tb =
     (let existing = find_record source_id (or_id r) tb in
      case existing of
        Some old \<Rightarrow>
          if tr_raw_sha256 old = catalog_sha256 (km_sha env) raw
          then Ok (res\<lparr>in_records_unchanged := in_records_unchanged res + 1\<rparr>,
                   reactivate source_id r old update_search_index tb)
          else import_changed env s source_id r raw imported_at update_search_index existing res tb
      | None \<Rightarrow> import_changed env s source_id r raw imported_at update_search_index existing res tb)"

text \<open>The loop of \<open>import_osv_batch_internal\<close> without a snapshot or a delta.\<close>

fun import_records ::
  "catalog_import_env \<Rightarrow> catalog_source \<Rightarrow> int \<Rightarrow> string \<Rightarrow> bool \<Rightarrow> string list \<Rightarrow>
     import_result \<Rightarrow> catalog_tables \<Rightarrow> catalog_error + import_result \<times> catalog_tables" where
  "import_records env s source_id imported_at update_search_index [] res tb = Ok (res, tb)"
| "import_records env s source_id imported_at update_search_index (bytes # rest) res tb =
     and_then (fail_if (MAX_IMPORT_RECORDS \<le> in_records_seen res) (ImportTooLarge MAX_IMPORT_RECORDS)) (\<lambda>_.
     and_then (validate_record_size bytes) (\<lambda>_.
     and_then (ok_or (km_record env bytes) CatalogInvalidJson) (\<lambda>r.
     and_then (validate_osv_record_public (km_time env) r) (\<lambda>_.
     and_then (import_osv_record_tx env s source_id r bytes imported_at update_search_index
                 (res\<lparr>in_records_seen := in_records_seen res + 1\<rparr>) tb) (\<lambda>(res', tb').
       import_records env s source_id imported_at update_search_index rest res' tb')))))"

text \<open>
  \<open>import_osv_batch\<close> and \<open>import_osv_batch_deferred_search\<close>: \<open>update_search_index\<close> tells them
  apart. The clock's reading is \<open>now\<close>.
\<close>

definition import_osv_batch ::
  "catalog_import_env \<Rightarrow> string option \<Rightarrow> catalog_source \<Rightarrow> bool \<Rightarrow> string list \<Rightarrow>
     catalog_error + unit \<Rightarrow> catalog_tables \<Rightarrow> catalog_error + import_result \<times> catalog_tables" where
  "import_osv_batch env now s update_search_index records no_preparing_delta tb =
     and_then (catalog_validate_source s) (\<lambda>_.
     and_then no_preparing_delta (\<lambda>_.
     and_then (fail_if (update_search_index \<and> map_of (tb_metadata tb) ''search_index_status'' \<noteq> Some ''ready'')
       (CatalogInvalidQuery ''full-text index is dirty; rebuild it before searching'')) (\<lambda>_.
     and_then (ok_or now (CatalogInvalidRecord ''imported_at'')) (\<lambda>imported_at.
     and_then (register_source s imported_at tb) (\<lambda>(source_id, tb1).
       import_records env s source_id imported_at update_search_index records empty_result
         (if update_search_index then tb1 else set_metadata ''search_index_status'' ''dirty'' tb1))))))"

section \<open>Lookup\<close>

text \<open>
  \<open>lookup_identifier\<close>, up to the order of the rows and the limit: the active records with the
  canonical id of an identifier.
\<close>

definition records_of_identifier :: "string \<Rightarrow> catalog_tables \<Rightarrow> record_row list" where
  "records_of_identifier identifier tb =
     (case map_of (tb_identifiers tb) identifier of
        None \<Rightarrow> []
      | Some cid \<Rightarrow> filter (\<lambda>r. tr_canonical_id r = cid \<and> tr_active r) (tb_records tb))"

end
