(* ===== verification/DisjointSets.thy ===== *)
theory DisjointSets
  imports Prelude
begin

text \<open>
  \<open>DisjointSet\<close> of \<open>crates/secureflow-knowledge/src/catalog.rs\<close>: union by rank with path
  compression over indices. \<open>None\<close> is a call that does not return: an index out of bounds, or a
  parent chain without a root.
\<close>

record disjoint_set =
  ds_parent :: "nat list"
  ds_rank :: "u8 list"

definition ds_new :: "nat \<Rightarrow> disjoint_set" where
  "ds_new len = \<lparr>ds_parent = [0..<len], ds_rank = replicate len 0\<rparr>"

partial_function (option) ds_find :: "nat \<Rightarrow> disjoint_set \<Rightarrow> (nat \<times> disjoint_set) option" where
  "ds_find value d =
     (if value < length (ds_parent d) then
        (let parent = ds_parent d ! value in
         if parent \<noteq> value then
           Option.bind (ds_find parent d) (\<lambda>(root, d').
             Some (root, d'\<lparr>ds_parent := (ds_parent d')[value := root]\<rparr>))
         else Some (parent, d))
      else None)"

definition saturating_succ :: "u8 \<Rightarrow> u8" where
  "saturating_succ r = (if r = 255 then 255 else r + 1)"

text \<open>The end of \<open>union\<close>, for two different roots.\<close>

definition ds_link :: "nat \<Rightarrow> nat \<Rightarrow> disjoint_set \<Rightarrow> disjoint_set" where
  "ds_link left_root right_root d =
     (let (l, r) = (if ds_rank d ! left_root < ds_rank d ! right_root
                    then (right_root, left_root) else (left_root, right_root));
          linked = d\<lparr>ds_parent := (ds_parent d)[r := l]\<rparr>
      in if ds_rank linked ! l = ds_rank linked ! r
         then linked\<lparr>ds_rank := (ds_rank linked)[l := saturating_succ (ds_rank linked ! l)]\<rparr>
         else linked)"

definition ds_union :: "nat \<Rightarrow> nat \<Rightarrow> disjoint_set \<Rightarrow> disjoint_set option" where
  "ds_union left right d =
     Option.bind (ds_find left d) (\<lambda>(left_root, d1).
     Option.bind (ds_find right d1) (\<lambda>(right_root, d2).
       Some (if left_root = right_root then d2 else ds_link left_root right_root d2)))"

fun ds_unions :: "(nat \<times> nat) list \<Rightarrow> disjoint_set \<Rightarrow> disjoint_set option" where
  "ds_unions [] d = Some d"
| "ds_unions ((a, b) # es) d = Option.bind (ds_union a b d) (ds_unions es)"

section \<open>Roots\<close>

inductive rooted :: "nat list \<Rightarrow> nat \<Rightarrow> nat \<Rightarrow> bool" for p where
  rooted_here: "i < length p \<Longrightarrow> p ! i = i \<Longrightarrow> rooted p i i"
| rooted_step: "i < length p \<Longrightarrow> p ! i \<noteq> i \<Longrightarrow> rooted p (p ! i) r \<Longrightarrow> rooted p i r"

inductive_cases rootedE: "rooted p i r"

text \<open>Every index has a root: then \<open>find\<close> returns, and \<open>partition_wf\<close> is what the operations keep.\<close>

definition partition_wf :: "disjoint_set \<Rightarrow> bool" where
  "partition_wf d \<longleftrightarrow> length (ds_rank d) = length (ds_parent d) \<and>
     (\<forall>i < length (ds_parent d). \<exists>r. rooted (ds_parent d) i r)"

text \<open>The partition: two indices are in the same set when they have the same root.\<close>

definition same_set :: "disjoint_set \<Rightarrow> nat \<Rightarrow> nat \<Rightarrow> bool" where
  "same_set d i j \<longleftrightarrow> (\<exists>r. rooted (ds_parent d) i r \<and> rooted (ds_parent d) j r)"

lemma rooted_bound: "rooted p i r \<Longrightarrow> i < length p \<and> r < length p \<and> p ! r = r"
  by (induction rule: rooted.induct) auto

lemma rooted_unique: "rooted p i r \<Longrightarrow> rooted p i s \<Longrightarrow> r = s"
  by (induction rule: rooted.induct) (auto elim: rootedE)

lemma rooted_root: "rooted p i r \<Longrightarrow> rooted p r r"
  using rooted_bound rooted_here by blast

text \<open>Pointing an index at its root changes no root.\<close>

lemma rooted_compress:
  assumes "rooted p k r" and "k < length p"
  shows "rooted (p[k := r]) i s \<longleftrightarrow> rooted p i s"
proof
  assume "rooted p i s"
  then show "rooted (p[k := r]) i s"
  proof (induction rule: rooted.induct)
    case (rooted_here i)
    have "i = k \<longrightarrow> r = i" using assms(1) rooted.rooted_here [OF rooted_here] rooted_unique by blast
    then have "p[k := r] ! i = i" using rooted_here by (cases "i = k") simp_all
    then show ?case using rooted.rooted_here [of i "p[k := r]"] rooted_here(1) by simp
  next
    case (rooted_step i s)
    show ?case
    proof (cases "i = k")
      case True
      with assms(1) rooted_step have "r = s" using rooted.rooted_step rooted_unique by blast
      have root: "r < length p" "p ! r = r" using rooted_bound [OF assms(1)] by simp_all
      with True rooted_step.hyps have "r \<noteq> k" by auto
      have "rooted (p[k := r]) r r" by (rule rooted.rooted_here) (use root \<open>r \<noteq> k\<close> in simp_all)
      then show ?thesis using rooted.rooted_step [of k "p[k := r]" r] True \<open>r = s\<close> \<open>r \<noteq> k\<close> assms(2) by simp
    next
      case False
      show ?thesis by (rule rooted.rooted_step) (use rooted_step False in simp_all)
    qed
  qed
next
  assume "rooted (p[k := r]) i s"
  then show "rooted p i s"
  proof (induction rule: rooted.induct)
    case (rooted_here i)
    show ?case
    proof (cases "i = k")
      case True
      with rooted_here assms show ?thesis by simp
    next
      case False
      show ?thesis by (rule rooted.rooted_here) (use rooted_here False in simp_all)
    qed
  next
    case (rooted_step i s)
    show ?case
    proof (cases "i = k")
      case True
      with rooted_step assms have "rooted p r s" by simp
      with rooted_root [OF assms(1)] have "r = s" using rooted_unique by blast
      with True assms(1) show ?thesis by simp
    next
      case False
      show ?thesis by (rule rooted.rooted_step) (use rooted_step False in simp_all)
    qed
  qed
qed

lemma same_set_root:
  "rooted (ds_parent d) a r \<Longrightarrow> same_set d x a \<longleftrightarrow> rooted (ds_parent d) x r"
  "rooted (ds_parent d) a r \<Longrightarrow> same_set d a x \<longleftrightarrow> rooted (ds_parent d) x r"
  using rooted_unique unfolding same_set_def by blast+

section \<open>Find\<close>

text \<open>
  \<open>find\<close> returns the root; its path compression changes no root and no rank, and leaves every
  index at its parent or points it at its root.
\<close>

definition compressed :: "nat list \<Rightarrow> nat list \<Rightarrow> bool" where
  "compressed p q \<longleftrightarrow> (\<forall>j < length p. q ! j = p ! j \<or> rooted p j (q ! j))"

lemma find_rooted:
  assumes "rooted (ds_parent d) i r"
  shows "\<exists>d'. ds_find i d = Some (r, d') \<and> ds_rank d' = ds_rank d \<and>
    length (ds_parent d') = length (ds_parent d) \<and> compressed (ds_parent d) (ds_parent d') \<and>
    (\<forall>j s. rooted (ds_parent d') j s \<longleftrightarrow> rooted (ds_parent d) j s)"
  using assms
proof (induction rule: rooted.induct)
  case (rooted_here i)
  then show ?case by (subst ds_find.simps) (simp add: Let_def compressed_def)
next
  case (rooted_step i r)
  then obtain d' where d': "ds_find (ds_parent d ! i) d = Some (r, d')" "ds_rank d' = ds_rank d"
    "length (ds_parent d') = length (ds_parent d)"
    "\<forall>j s. rooted (ds_parent d') j s \<longleftrightarrow> rooted (ds_parent d) j s"
    "compressed (ds_parent d) (ds_parent d')" by blast
  have "rooted (ds_parent d) i r" using rooted_step.hyps by (rule rooted.rooted_step)
  then have "rooted (ds_parent d') i r" using d'(4) by simp
  with d'(3,4) rooted_step.hyps(1)
  have "\<forall>j s. rooted ((ds_parent d')[i := r]) j s \<longleftrightarrow> rooted (ds_parent d) j s"
    by (simp add: rooted_compress)
  moreover have "compressed (ds_parent d) ((ds_parent d')[i := r])"
    using d'(3,5) \<open>rooted (ds_parent d) i r\<close> rooted_step.hyps(1)
    by (auto simp: compressed_def nth_list_update)
  ultimately show ?case using d' rooted_step.hyps(1,2) by (subst ds_find.simps) (simp add: Let_def)
qed

lemma find_same:
  assumes "partition_wf d" and "i < length (ds_parent d)"
  obtains r d' where "ds_find i d = Some (r, d')" "rooted (ds_parent d) i r" "partition_wf d'"
    "same_set d' = same_set d" "length (ds_parent d') = length (ds_parent d)"
    "\<And>j s. rooted (ds_parent d') j s \<longleftrightarrow> rooted (ds_parent d) j s"
    "ds_rank d' = ds_rank d" "compressed (ds_parent d) (ds_parent d')"
proof -
  from assms obtain r where r: "rooted (ds_parent d) i r" by (auto simp: partition_wf_def)
  from find_rooted [OF r] obtain d' where d': "ds_find i d = Some (r, d')" "ds_rank d' = ds_rank d"
    "length (ds_parent d') = length (ds_parent d)"
    "\<forall>j s. rooted (ds_parent d') j s \<longleftrightarrow> rooted (ds_parent d) j s"
    "compressed (ds_parent d) (ds_parent d')" by blast
  with assms(1) have wf: "partition_wf d'" by (simp add: partition_wf_def)
  from d'(4) have same: "same_set d' = same_set d" by (simp add: same_set_def fun_eq_iff)
  show thesis by (rule that [OF d'(1) r wf same d'(3)]) (simp_all add: d')
qed

section \<open>Union\<close>

lemma rooted_link:
  assumes "rooted p r r" and "rooted p l l" and "l \<noteq> r"
  shows "rooted (p[r := l]) i s \<longleftrightarrow> (if rooted p i r then s = l else rooted p i s)"
proof -
  have bounds: "r < length p" "l < length p" "p ! r = r" "p ! l = l"
    using rooted_bound [OF assms(1)] rooted_bound [OF assms(2)] by simp_all
  have l: "rooted (p[r := l]) l l" by (rule rooted_here) (use bounds assms(3) in simp_all)
  have r: "rooted (p[r := l]) r l" by (rule rooted_step) (use bounds assms(3) l in simp_all)
  have keep: "rooted (p[r := l]) i (if s = r then l else s)" if "rooted p i s" for i s
    using that
  proof (induction rule: rooted.induct)
    case (rooted_here i)
    with r show ?case by (cases "i = r") (auto intro: rooted.rooted_here)
  next
    case (rooted_step i s)
    with bounds have "i \<noteq> r" by auto
    then have "p[r := l] ! i = p ! i" by simp
    with rooted_step show ?case using rooted.rooted_step [of i "p[r := l]"] by simp
  qed
  have pre: "\<exists>t. rooted p i t" if "rooted (p[r := l]) i s" for i s
    using that
  proof (induction rule: rooted.induct)
    case (rooted_here i)
    with assms(3) have "i \<noteq> r" by auto
    have "rooted p i i" by (rule rooted.rooted_here) (use rooted_here \<open>i \<noteq> r\<close> in simp_all)
    then show ?case ..
  next
    case (rooted_step i s)
    then show ?case
    proof (cases "i = r")
      case True
      with assms(1) show ?thesis by blast
    next
      case False
      with rooted_step show ?thesis by (auto intro: rooted.rooted_step)
    qed
  qed
  show ?thesis
  proof (cases "rooted p i r")
    case True
    with keep [OF True] show ?thesis by (auto dest: rooted_unique)
  next
    case False
    have "s = t" if "rooted (p[r := l]) i s" "rooted p i t" for t
      using keep [OF that(2)] that False rooted_unique by (metis (full_types))
    moreover have "rooted (p[r := l]) i s" if "rooted p i s"
      using keep [OF that] that False by (metis (full_types))
    ultimately show ?thesis using pre False by auto
  qed
qed

lemma ds_link_parent:
  "\<exists>l r. {l, r} = {a, b} \<and> (a \<noteq> b \<longrightarrow> l \<noteq> r) \<and> ds_parent (ds_link a b d) = (ds_parent d)[r := l] \<and>
     length (ds_rank (ds_link a b d)) = length (ds_rank d)"
  by (auto simp: ds_link_def Let_def split: if_splits)

lemma ds_link_same:
  assumes "rooted (ds_parent d) a a" and "rooted (ds_parent d) b b" and "a \<noteq> b"
    and "partition_wf d"
  shows "partition_wf (ds_link a b d)"
    and "length (ds_parent (ds_link a b d)) = length (ds_parent d)"
    and "i < length (ds_parent d) \<Longrightarrow> j < length (ds_parent d) \<Longrightarrow>
      same_set (ds_link a b d) i j \<longleftrightarrow>
        same_set d i j \<or> (same_set d i a \<and> same_set d b j) \<or> (same_set d i b \<and> same_set d a j)"
proof -
  obtain l r where lr: "{l, r} = {a, b}" "l \<noteq> r"
    and link: "ds_parent (ds_link a b d) = (ds_parent d)[r := l]"
      "length (ds_rank (ds_link a b d)) = length (ds_rank d)"
    using ds_link_parent [of a b d] assms(3) by auto
  have roots: "rooted (ds_parent d) r r" "rooted (ds_parent d) l l"
    using lr(1) assms(1,2) by (auto simp: doubleton_eq_iff)
  note linked = rooted_link [OF roots lr(2)]
  show len: "length (ds_parent (ds_link a b d)) = length (ds_parent d)" by (simp add: link)
  show "partition_wf (ds_link a b d)"
    using assms(4) by (auto simp: partition_wf_def link linked)
  assume ij: "i < length (ds_parent d)" "j < length (ds_parent d)"
  then obtain s t where st: "rooted (ds_parent d) i s" "rooted (ds_parent d) j t"
    using assms(4) unfolding partition_wf_def by blast
  have same: "same_set d x y \<longleftrightarrow> u = v" if "rooted (ds_parent d) x u" "rooted (ds_parent d) y v" for x y u v
    unfolding same_set_root(1) [OF that(2)] using that(1) rooted_unique by fastforce
  have "rooted (ds_parent (ds_link a b d)) x (if u = r then l else u)" if "rooted (ds_parent d) x u" for x u
    using that rooted_unique by (auto simp: link linked)
  note roots_after = this [OF st(1)] this [OF st(2)]
  have "same_set (ds_link a b d) i j \<longleftrightarrow> (if s = r then l else s) = (if t = r then l else t)"
    unfolding same_set_root(1) [OF roots_after(2)] using roots_after(1) rooted_unique by fastforce
  moreover have "(l = a \<and> r = b) \<or> (l = b \<and> r = a)" using lr(1) by (auto simp: doubleton_eq_iff)
  ultimately show "same_set (ds_link a b d) i j \<longleftrightarrow>
        same_set d i j \<or> (same_set d i a \<and> same_set d b j) \<or> (same_set d i b \<and> same_set d a j)"
    unfolding same [OF st] same [OF st(1) assms(1)] same [OF assms(2) st(2)]
      same [OF st(1) assms(2)] same [OF assms(1) st(2)]
    using assms(3) by auto
qed

lemma union_same:
  assumes "partition_wf d" and "a < length (ds_parent d)" and "b < length (ds_parent d)"
  obtains d' where "ds_union a b d = Some d'" "partition_wf d'"
    "length (ds_parent d') = length (ds_parent d)"
    "\<And>i j. i < length (ds_parent d) \<Longrightarrow> j < length (ds_parent d) \<Longrightarrow>
       same_set d' i j \<longleftrightarrow>
         same_set d i j \<or> (same_set d i a \<and> same_set d b j) \<or> (same_set d i b \<and> same_set d a j)"
proof -
  from find_same [OF assms(1,2)] obtain ra d1 where 1: "ds_find a d = Some (ra, d1)"
    "rooted (ds_parent d) a ra" "partition_wf d1" "same_set d1 = same_set d"
    "length (ds_parent d1) = length (ds_parent d)"
    "\<And>j s. rooted (ds_parent d1) j s \<longleftrightarrow> rooted (ds_parent d) j s" by metis
  from find_same [OF 1(3)] assms(3) 1(5) obtain rb d2 where 2: "ds_find b d1 = Some (rb, d2)"
    "rooted (ds_parent d1) b rb" "partition_wf d2" "same_set d2 = same_set d1"
    "length (ds_parent d2) = length (ds_parent d1)"
    "\<And>j s. rooted (ds_parent d2) j s \<longleftrightarrow> rooted (ds_parent d1) j s" by metis
  have roots: "rooted (ds_parent d2) a ra" "rooted (ds_parent d2) b rb"
    using 1 2 by simp_all
  have ra: "rooted (ds_parent d) a ra" "rooted (ds_parent d) ra ra" using 1(2) rooted_root by blast+
  have rb: "rooted (ds_parent d) b rb" "rooted (ds_parent d) rb rb" using 2(2) rooted_root 1(6) by blast+
  have sides: "same_set d x a \<longleftrightarrow> same_set d x ra" "same_set d x b \<longleftrightarrow> same_set d x rb"
    "same_set d a x \<longleftrightarrow> same_set d ra x" "same_set d b x \<longleftrightarrow> same_set d rb x" for x
    using ra rb by (simp_all add: same_set_root)
  show thesis
  proof (cases "ra = rb")
    case True
    then have "ds_union a b d = Some d2" by (simp add: ds_union_def 1 2)
    moreover have "same_set d i j \<longleftrightarrow>
        same_set d i j \<or> (same_set d i a \<and> same_set d b j) \<or> (same_set d i b \<and> same_set d a j)" for i j
      using True sides ra by (auto simp: same_set_def dest: rooted_unique)
    ultimately show thesis using that 1 2 by metis
  next
    case False
    then have "ds_union a b d = Some (ds_link ra rb d2)" by (simp add: ds_union_def 1 2)
    moreover note ds_link_same [OF rooted_root [OF roots(1)] rooted_root [OF roots(2)] False 2(3)]
    ultimately show thesis using that 1 2 sides by metis
  qed
qed

section \<open>Connected components\<close>

definition connected :: "(nat \<times> nat) set \<Rightarrow> nat \<Rightarrow> nat \<Rightarrow> bool" where
  "connected E i j \<longleftrightarrow> (i, j) \<in> (E \<union> E\<inverse>)\<^sup>*"

lemma connected_sym: "connected E i j \<Longrightarrow> connected E j i"
  unfolding connected_def by (metis converse_Un converse_converse rtrancl_converseI sup_commute)

lemma connected_trans: "connected E i j \<Longrightarrow> connected E j k \<Longrightarrow> connected E i k"
  unfolding connected_def by (rule rtrancl_trans)

lemma connected_insert:
  "connected (insert (a, b) E) i j \<longleftrightarrow>
     connected E i j \<or> (connected E i a \<and> connected E b j) \<or> (connected E i b \<and> connected E a j)"
proof -
  have "insert (a, b) E \<union> (insert (a, b) E)\<inverse> = insert (a, b) (insert (b, a) (E \<union> E\<inverse>))" by auto
  then show ?thesis
    unfolding connected_def by (auto simp: rtrancl_insert intro: rtrancl_trans)
qed

text \<open>\<open>represents d n E\<close>: the partition of the \<open>n\<close> indices into the components of the graph \<open>E\<close>.\<close>

definition represents :: "disjoint_set \<Rightarrow> nat \<Rightarrow> (nat \<times> nat) set \<Rightarrow> bool" where
  "represents d n E \<longleftrightarrow>
     partition_wf d \<and> length (ds_parent d) = n \<and>
     (\<forall>i < n. \<forall>j < n. same_set d i j \<longleftrightarrow> connected E i j)"

lemma rooted_new: "rooted [0..<n] i r \<longleftrightarrow> i = r \<and> r < n"
  by (auto intro: rooted_here elim: rootedE)

lemma represents_new: "represents (ds_new n) n {}"
  by (auto simp: represents_def ds_new_def partition_wf_def same_set_def rooted_new connected_def)

lemma represents_union:
  assumes "represents d n E" and "a < n" and "b < n"
  shows "\<exists>d'. ds_union a b d = Some d' \<and> represents d' n (insert (a, b) E)"
proof -
  from assms have d: "partition_wf d" "a < length (ds_parent d)" "b < length (ds_parent d)"
    by (simp_all add: represents_def)
  obtain d' where "ds_union a b d = Some d'" "partition_wf d'"
    "length (ds_parent d') = length (ds_parent d)"
    "\<And>i j. i < length (ds_parent d) \<Longrightarrow> j < length (ds_parent d) \<Longrightarrow>
       same_set d' i j \<longleftrightarrow>
         same_set d i j \<or> (same_set d i a \<and> same_set d b j) \<or> (same_set d i b \<and> same_set d a j)"
    using union_same [OF d] by metis
  with assms show ?thesis by (simp add: represents_def connected_insert)
qed

lemma represents_find:
  assumes "represents d n E" and "i < n"
  shows "\<exists>r d'. ds_find i d = Some (r, d') \<and> rooted (ds_parent d) i r \<and> represents d' n E \<and>
    (\<forall>j s. rooted (ds_parent d') j s \<longleftrightarrow> rooted (ds_parent d) j s)"
proof -
  from assms have "partition_wf d" "i < length (ds_parent d)" by (simp_all add: represents_def)
  from find_same [OF this] assms(1) show ?thesis unfolding represents_def by metis
qed

lemma unions_represent:
  assumes "represents d n E" and "set es \<subseteq> {..<n} \<times> {..<n}"
  shows "\<exists>d'. ds_unions es d = Some d' \<and> represents d' n (E \<union> set es)"
  using assms
proof (induction es arbitrary: d E)
  case Nil
  then show ?case by simp
next
  case (Cons e es)
  obtain a b where e: "e = (a, b)" by (cases e)
  with Cons.prems have "a < n" "b < n" by simp_all
  with represents_union [OF Cons.prems(1)] obtain d' where d': "ds_union a b d = Some d'"
    "represents d' n (insert (a, b) E)" by blast
  with Cons.IH [OF d'(2)] Cons.prems(2) e show ?case by auto
qed

section \<open>Ranks\<close>

definition ranked :: "disjoint_set \<Rightarrow> bool" where
  "ranked d \<longleftrightarrow> partition_wf d
   \<and> (\<forall>i < length (ds_parent d). ds_parent d ! i \<noteq> i \<longrightarrow> ds_rank d ! i < ds_rank d ! (ds_parent d ! i))
   \<and> (\<forall>r. rooted (ds_parent d) r r \<longrightarrow> 2 ^ unat (ds_rank d ! r) \<le> card {j. rooted (ds_parent d) j r})"

lemma ranked_root:
  assumes "rooted p i r"
    and "\<And>i. i < length p \<Longrightarrow> p ! i \<noteq> i \<Longrightarrow> f i < (f (p ! i) :: u8)" and "i \<noteq> r"
  shows "f i < f r"
  using assms(1,3)
proof (induction rule: rooted.induct)
  case (rooted_step i r)
  then show ?case using assms(2) [of i] by (cases "p ! i = r") (auto intro: less_trans)
qed simp

lemma component_finite: "finite {j. rooted p j r}" "card {j. rooted p j r} \<le> length p"
proof -
  have sub: "{j. rooted p j r} \<subseteq> {..<length p}" using rooted_bound by blast
  then show "finite {j. rooted p j r}" by (rule finite_subset) simp
  show "card {j. rooted p j r} \<le> length p" using card_mono [OF _ sub] by simp
qed

lemma ranked_new: "ranked (ds_new n)"
  using represents_new [of n] by (auto simp: ranked_def represents_def ds_new_def rooted_new)

lemma ranked_find:
  assumes "ranked d" and "ds_find i d = Some (r, d')" and "i < length (ds_parent d)"
  shows "ranked d'"
proof -
  from assms(1) have "partition_wf d" by (simp add: ranked_def)
  from find_same [OF this assms(3)] assms(2) have d': "partition_wf d'"
    "length (ds_parent d') = length (ds_parent d)" "ds_rank d' = ds_rank d"
    "\<And>j s. rooted (ds_parent d') j s \<longleftrightarrow> rooted (ds_parent d) j s"
    "compressed (ds_parent d) (ds_parent d')" by auto
  have "ds_rank d ! j < ds_rank d ! (ds_parent d' ! j)"
    if j: "j < length (ds_parent d)" "ds_parent d' ! j \<noteq> j" for j
  proof (cases "rooted (ds_parent d) j (ds_parent d' ! j)")
    case True
    then show ?thesis
      by (rule ranked_root) (use assms(1) j in \<open>auto simp: ranked_def\<close>)
  next
    case False
    with d'(5) j have "ds_parent d' ! j = ds_parent d ! j" by (auto simp: compressed_def)
    with assms(1) j show ?thesis by (simp add: ranked_def)
  qed
  with d' assms(1) show ?thesis by (simp add: ranked_def)
qed

lemma rank_small:
  assumes "ranked d" and "rooted (ds_parent d) r r" and "length (ds_parent d) < 2 ^ 64"
  shows "unat (ds_rank d ! r) < 64"
proof -
  have "2 ^ unat (ds_rank d ! r) \<le> card {j. rooted (ds_parent d) j r}"
    using assms(1,2) by (simp add: ranked_def)
  also have "\<dots> < 2 ^ 64" using component_finite(2) [of "ds_parent d" r] assms(3) by simp
  finally show ?thesis by (rule power_less_imp_less_exp [rotated]) simp
qed

lemma saturating_succ_small:
  "unat r < 64 \<Longrightarrow> unat (saturating_succ r) = unat r + 1"
proof -
  assume small: "unat r < 64"
  then have "r \<noteq> 255" by auto
  moreover have "unat (r + 1) = unat r + 1" using small by (simp add: unat_word_ariths)
  ultimately show ?thesis by (simp add: saturating_succ_def)
qed

lemma ranked_link:
  assumes "ranked d" and roots: "rooted (ds_parent d) r r" "rooted (ds_parent d) l l" and "l \<noteq> r"
    and small: "length (ds_parent d) < 2 ^ 64" and le: "ds_rank d ! r \<le> ds_rank d ! l"
    and e: "partition_wf e" "ds_parent e = (ds_parent d)[r := l]"
      "ds_rank e = (if ds_rank d ! l = ds_rank d ! r
        then (ds_rank d)[l := saturating_succ (ds_rank d ! l)] else ds_rank d)"
  shows "ranked e"
proof -
  let ?p = "ds_parent d" and ?k = "ds_rank d"
  have bounds: "r < length ?p" "l < length ?p" "?p ! l = l" "length ?k = length ?p"
    using rooted_bound [OF roots(1)] rooted_bound [OF roots(2)] assms(1)
    by (simp_all add: ranked_def partition_wf_def)
  have succ: "unat (saturating_succ (?k ! l)) = unat (?k ! l) + 1"
    using rank_small [OF assms(1) roots(2) small] by (rule saturating_succ_small)
  then have up: "?k ! l < saturating_succ (?k ! l)" by (simp add: word_less_nat_alt)
  have rank: "ds_rank e ! i = (if i = l \<and> ?k ! l = ?k ! r then saturating_succ (?k ! l) else ?k ! i)"
    if "i < length ?p" for i using that bounds by (auto simp: e(3) nth_list_update)
  note linked = rooted_link [OF roots(1,2) assms(4)]
  have "ds_rank e ! i < ds_rank e ! (ds_parent e ! i)" if i: "i < length ?p" "ds_parent e ! i \<noteq> i" for i
  proof (cases "i = r")
    case True
    have "ds_rank e ! r = ?k ! r" using rank [OF bounds(1)] assms(4) by simp
    moreover have "ds_rank e ! l = (if ?k ! l = ?k ! r then saturating_succ (?k ! l) else ?k ! l)"
      using rank [OF bounds(2)] by simp
    moreover have "ds_parent e ! r = l" using bounds(1) by (simp add: e(2))
    ultimately show ?thesis using True up le by (auto simp: le_less split: if_splits)
  next
    case False
    with i bounds have "?p ! i \<noteq> i" "i \<noteq> l" by (auto simp: e(2))
    with assms(1) i have less: "?k ! i < ?k ! (?p ! i)" by (simp add: ranked_def)
    obtain t where "rooted ?p i t" using assms(1) i by (auto simp: ranked_def partition_wf_def)
    then have "?p ! i < length ?p" using \<open>?p ! i \<noteq> i\<close> rooted_bound by (blast elim: rootedE)
    with less up have "ds_rank e ! i < ds_rank e ! (?p ! i)"
      using i \<open>i \<noteq> l\<close> by (cases "?p ! i = l") (auto simp: rank intro: less_trans)
    with False show ?thesis by (simp add: e(2))
  qed
  moreover have "2 ^ unat (ds_rank e ! s) \<le> card {j. rooted (ds_parent e) j s}"
    if s: "rooted (ds_parent e) s s" for s
  proof -
    have s': "rooted ?p s s" "s \<noteq> r"
      using s linked [of s s] roots assms(4) rooted_unique by (auto simp: e(2) split: if_splits)
    then have old: "2 ^ unat (?k ! s) \<le> card {j. rooted ?p j s}" and "s < length ?p"
      using assms(1) rooted_bound by (auto simp: ranked_def)
    show ?thesis
    proof (cases "s = l")
      case False
      then have "{j. rooted (ds_parent e) j s} = {j. rooted ?p j s}"
        using s' rooted_unique by (auto simp: e(2) linked)
      with old False \<open>s < length ?p\<close> show ?thesis by (simp add: rank)
    next
      case True
      have split: "{j. rooted (ds_parent e) j l} = {j. rooted ?p j r} \<union> {j. rooted ?p j l}"
        by (auto simp: e(2) linked)
      have "{j. rooted ?p j r} \<inter> {j. rooted ?p j l} = {}" using assms(4) rooted_unique by auto
      then have "card {j. rooted (ds_parent e) j l} = card {j. rooted ?p j r} + card {j. rooted ?p j l}"
        unfolding split by (intro card_Un_disjoint component_finite)
      moreover have "2 ^ unat (?k ! r) \<le> card {j. rooted ?p j r}" using assms(1) roots(1) by (simp add: ranked_def)
      ultimately show ?thesis using True old bounds succ
        by (cases "?k ! l = ?k ! r") (simp_all add: rank)
    qed
  qed
  ultimately show ?thesis using e(1,2) by (simp add: ranked_def)
qed

lemma ranked_union:
  assumes "ranked d" and "a < length (ds_parent d)" and "b < length (ds_parent d)"
    and "length (ds_parent d) < 2 ^ 64"
  shows "\<exists>d'. ds_union a b d = Some d' \<and> ranked d' \<and> length (ds_parent d') = length (ds_parent d)"
proof -
  from assms(1) have wf: "partition_wf d" by (simp add: ranked_def)
  from find_same [OF wf assms(2)] obtain ra d1 where 1: "ds_find a d = Some (ra, d1)" "partition_wf d1"
    "length (ds_parent d1) = length (ds_parent d)" "rooted (ds_parent d1) a ra" by metis
  from find_same [OF 1(2)] assms(3) 1(3) obtain rb d2 where 2: "ds_find b d1 = Some (rb, d2)" "partition_wf d2"
    "length (ds_parent d2) = length (ds_parent d1)" "rooted (ds_parent d2) b rb"
    "rooted (ds_parent d2) a ra" using 1(4) by metis
  have "ranked d1" by (rule ranked_find [OF assms(1) 1(1) assms(2)])
  then have ranked: "ranked d2" by (rule ranked_find [OF _ 2(1)]) (simp add: 1 assms)
  show ?thesis
  proof (cases "ra = rb")
    case True
    with 1 2 ranked show ?thesis by (simp add: ds_union_def)
  next
    case False
    note roots = rooted_root [OF 2(5)] rooted_root [OF 2(4)]
    have small: "length (ds_parent d2) < 2 ^ 64" using 1 2 assms(4) by simp
    have wf': "partition_wf (ds_link ra rb d2)" by (rule ds_link_same(1) [OF roots False 2(2)])
    have "ranked (ds_link ra rb d2)"
    proof (cases "ds_rank d2 ! ra < ds_rank d2 ! rb")
      case True
      then show ?thesis
        by (intro ranked_link [OF ranked roots(1,2) _ small _ wf']) (use True False in \<open>auto simp: ds_link_def Let_def\<close>)
    next
      case Flip: False
      then show ?thesis
        by (intro ranked_link [OF ranked roots(2,1) _ small _ wf']) (use Flip False in \<open>auto simp: ds_link_def Let_def\<close>)
    qed
    with 1 2 False ds_link_same(2) [OF roots False 2(2)] show ?thesis by (simp add: ds_union_def)
  qed
qed

lemma ranked_unions:
  assumes "ranked d" and "length (ds_parent d) = n" and "n < 2 ^ 64" and "set es \<subseteq> {..<n} \<times> {..<n}"
  shows "\<exists>d'. ds_unions es d = Some d' \<and> ranked d' \<and> length (ds_parent d') = n"
  using assms
proof (induction es arbitrary: d)
  case (Cons e es)
  obtain a b where e: "e = (a, b)" by (cases e)
  with Cons.prems have "a < length (ds_parent d)" "b < length (ds_parent d)" "length (ds_parent d) < 2 ^ 64"
    by simp_all
  from ranked_union [OF Cons.prems(1) this] obtain d' where d': "ds_union a b d = Some d'" "ranked d'"
    "length (ds_parent d') = length (ds_parent d)" by blast
  with Cons.IH [OF d'(2)] Cons.prems e show ?case by auto
qed simp

text \<open>The number of nested calls a \<open>find\<close> makes.\<close>

inductive find_depth :: "nat list \<Rightarrow> nat \<Rightarrow> nat \<Rightarrow> bool" for p where
  depth_root: "i < length p \<Longrightarrow> p ! i = i \<Longrightarrow> find_depth p i 0"
| depth_step: "i < length p \<Longrightarrow> p ! i \<noteq> i \<Longrightarrow> find_depth p (p ! i) k \<Longrightarrow> find_depth p i (Suc k)"

lemma rooted_depth: "rooted p i r \<Longrightarrow> \<exists>k. find_depth p i k"
  by (induction rule: rooted.induct) (blast intro: find_depth.intros)+

lemma depth_rank:
  assumes "find_depth (ds_parent d) i k" and "ranked d" and "rooted (ds_parent d) i r"
  shows "unat (ds_rank d ! i) + k \<le> unat (ds_rank d ! r)"
  using assms
proof (induction rule: find_depth.induct)
  case (depth_root i)
  then show ?case by (auto elim: rootedE)
next
  case (depth_step i k)
  then have "rooted (ds_parent d) (ds_parent d ! i) r" by (auto elim: rootedE)
  moreover have "unat (ds_rank d ! i) < unat (ds_rank d ! (ds_parent d ! i))"
    using depth_step by (simp add: ranked_def word_less_nat_alt)
  ultimately show ?case using depth_step by fastforce
qed

lemma depth_log:
  assumes "ranked d" and "find_depth (ds_parent d) i k" and "i < length (ds_parent d)"
  shows "2 ^ k \<le> length (ds_parent d)"
proof -
  obtain r where r: "rooted (ds_parent d) i r"
    using assms(1,3) by (auto simp: ranked_def partition_wf_def)
  have "k \<le> unat (ds_rank d ! r)" using depth_rank [OF assms(2,1) r] by simp
  then have "(2::nat) ^ k \<le> 2 ^ unat (ds_rank d ! r)" by simp
  also have "\<dots> \<le> length (ds_parent d)"
    using assms(1) rooted_root [OF r] component_finite(2) [of "ds_parent d" r]
    unfolding ranked_def by (meson le_trans)
  finally show ?thesis .
qed

section \<open>Properties\<close>

text \<open>
  C30. The disjoint sets of the canonical rebuild are total and exact. From \<open>n\<close> single indices and
  any unions of indices below \<open>n\<close>, no call runs out of bounds and no parent chain is cyclic: the
  unions return, \<open>find\<close> then returns for every index, and two indices have the same root exactly
  when the united pairs connect them.
\<close>

theorem disjoint_sets_total:
  assumes "set es \<subseteq> {..<n} \<times> {..<n}"
  shows "\<exists>d. ds_unions es (ds_new n) = Some d
    \<and> (\<forall>i < n. ds_find i d \<noteq> None)
    \<and> (\<forall>i < n. \<forall>j < n. map_option fst (ds_find i d) = map_option fst (ds_find j d) \<longleftrightarrow>
        connected (set es) i j)"
proof -
  from unions_represent [OF represents_new assms] obtain d where
    d: "ds_unions es (ds_new n) = Some d" "represents d n (set es)" by auto
  have finds: "\<exists>r d'. ds_find i d = Some (r, d') \<and> rooted (ds_parent d) i r" if "i < n" for i
    using represents_find [OF d(2) that] by blast
  have "map_option fst (ds_find i d) = map_option fst (ds_find j d) \<longleftrightarrow> connected (set es) i j"
    if ij: "i < n" "j < n" for i j
  proof -
    obtain r s where rs: "rooted (ds_parent d) i r" "rooted (ds_parent d) j s"
      "map_option fst (ds_find i d) = Some r" "map_option fst (ds_find j d) = Some s"
      using finds [OF ij(1)] finds [OF ij(2)] by auto
    have "connected (set es) i j \<longleftrightarrow> same_set d i j" using d(2) ij by (simp add: represents_def)
    with rs show ?thesis using rooted_unique by (auto simp: same_set_root)
  qed
  with d(1) finds show ?thesis by fastforce
qed

text \<open>
  C31. The recursion of \<open>find\<close> is shallow and the \<open>u8\<close> ranks never saturate: however the unions
  are ordered, the number of nested calls for an index is at most the binary logarithm of the
  number of indices, which is 20 for the 1,100,000 records a rebuild accepts.
\<close>

theorem find_depth_logarithmic:
  assumes "set es \<subseteq> {..<n} \<times> {..<n}" and "n < 2 ^ 64"
  shows "\<exists>d. ds_unions es (ds_new n) = Some d
    \<and> (\<forall>i < n. \<exists>k. find_depth (ds_parent d) i k \<and> 2 ^ k \<le> n \<and> ds_rank d ! i < 64)"
proof -
  from ranked_unions [OF ranked_new _ assms(2,1)] obtain d where d: "ds_unions es (ds_new n) = Some d"
    "ranked d" "length (ds_parent d) = n" by (auto simp: ds_new_def)
  have "\<exists>k. find_depth (ds_parent d) i k \<and> 2 ^ k \<le> n \<and> ds_rank d ! i < 64" if i: "i < n" for i
  proof -
    obtain r where r: "rooted (ds_parent d) i r" using d i by (auto simp: ranked_def partition_wf_def)
    then obtain k where k: "find_depth (ds_parent d) i k" using rooted_depth by blast
    have "unat (ds_rank d ! i) \<le> unat (ds_rank d ! r)" using depth_rank [OF k d(2) r] by simp
    moreover have "unat (ds_rank d ! r) < 64" using rank_small [OF d(2) rooted_root [OF r]] d assms(2) by simp
    ultimately have "ds_rank d ! i < 64" by (simp add: word_less_nat_alt)
    with k depth_log [OF d(2) k] d(3) i show ?thesis by auto
  qed
  with d(1) show ?thesis by blast
qed

theorem disjoint_sets_total_witness:
  "\<exists>d. ds_unions [(0, 2), (2, 3)] (ds_new 4) = Some d \<and> ds_find 3 d \<noteq> None"
  using disjoint_sets_total [of "[(0, 2), (2, 3)]" 4] by auto

theorem find_depth_logarithmic_witness:
  "\<exists>d k. ds_unions [(0, 1), (2, 3), (1, 3)] (ds_new 4) = Some d \<and> find_depth (ds_parent d) 3 k \<and> 2 ^ k \<le> (4::nat)"
proof -
  have "set [(0::nat, 1::nat), (2, 3), (1, 3)] \<subseteq> {..<4} \<times> {..<4}" and "(4::nat) < 2 ^ 64" by simp_all
  from find_depth_logarithmic [OF this] obtain d where
    "ds_unions [(0, 1), (2, 3), (1, 3)] (ds_new 4) = Some d"
    and depth: "\<forall>i < 4. \<exists>k. find_depth (ds_parent d) i k \<and> 2 ^ k \<le> (4::nat) \<and> ds_rank d ! i < 64" by blast
  moreover have "(3::nat) < 4" by simp
  with depth have "\<exists>k. find_depth (ds_parent d) 3 k \<and> 2 ^ k \<le> (4::nat)" by blast
  ultimately show ?thesis by blast
qed

end
