(* ===== verification/Canonicalization.thy ===== *)
theory Canonicalization
  imports CatalogImport DisjointSets
begin

text \<open>
  \<open>rebuild_canonicalization\<close> of \<open>catalog.rs\<close>: the canonical ids of all active records computed
  again from their exact identifiers, with the redirects from the ids that were replaced.
  \<open>None\<close> is a run that does not return; an error leaves the tables as they were.
\<close>

definition MAX_CANONICAL_REBUILD_RECORDS :: nat where
  "MAX_CANONICAL_REBUILD_RECORDS = 1100000"

definition MAX_CANONICAL_REBUILD_RELATIONSHIPS :: nat where
  "MAX_CANONICAL_REBUILD_RELATIONSHIPS = 5000000"

record record_state =
  rb_rowid :: int
  rb_source_name :: string
  rb_source_record_id :: string
  rb_raw_sha256 :: string
  rb_old_canonical_id :: string
  rb_candidate_id :: string

record canonical_rebuild_result =
  rq_rebuild_id :: string
  rq_active_records :: nat
  rq_exact_relationships :: nat
  rq_old_components :: nat
  rq_new_components :: nat
  rq_split_components :: nat
  rq_merged_components :: nat
  rq_unambiguous_redirects :: nat

text \<open>The \<open>?\<close> operator for a computation that may also not return.\<close>

definition run_then :: "('e + 'a) option \<Rightarrow> ('a \<Rightarrow> ('e + 'b) option) \<Rightarrow> ('e + 'b) option" where
  "run_then m f = (case m of None \<Rightarrow> None | Some (Inl e) \<Rightarrow> Some (Inl e) | Some (Inr x) \<Rightarrow> f x)"

definition returns :: "'a option \<Rightarrow> ('e + 'a) option" where
  "returns m = map_option Inr m"

section \<open>Queries\<close>

definition record_state_of :: "digest_fun \<Rightarrow> string \<Rightarrow> record_row \<Rightarrow> record_state" where
  "record_state_of sha source_name r =
     \<lparr>rb_rowid = tr_rowid r, rb_source_name = source_name, rb_source_record_id = tr_source_record_id r,
      rb_raw_sha256 = tr_raw_sha256 r, rb_old_canonical_id = tr_canonical_id r,
      rb_candidate_id = canonical_id sha source_name (tr_source_record_id r)\<rparr>"

definition active_states :: "digest_fun \<Rightarrow> catalog_tables \<Rightarrow> record_state list" where
  "active_states sha tb =
     sort_key (\<lambda>s. (rb_source_name s, rb_source_record_id s))
       (List.map_filter (\<lambda>r. map_option (\<lambda>name. record_state_of sha name r)
          (source_name_of tb (tr_source_id r))) (filter tr_active (tb_records tb)))"

definition alias_rows :: "catalog_tables \<Rightarrow> (int \<times> string) list" where
  "alias_rows tb =
     sort_key (\<lambda>(rowid, identifier). (identifier, rowid))
       (map (\<lambda>l. (tl_rowid l, tl_identifier l))
         (filter (\<lambda>l. tl_kind l = ''alias'' \<and>
            tl_rowid l \<in> tr_rowid ` set (filter tr_active (tb_records tb))) (tb_relationships tb)))"

section \<open>Components\<close>

text \<open>\<open>identifier_owners.insert(identifier, index)\<close> and the union with the previous owner.\<close>

type_synonym owners = "(string, nat) btree_map \<times> disjoint_set"

definition own_identifier :: "string \<Rightarrow> nat \<Rightarrow> owners \<Rightarrow> owners option" where
  "own_identifier identifier index st =
     (case st of (own, d) \<Rightarrow>
        (case map_of own identifier of
           None \<Rightarrow> Some (bt_insert identifier index own, d)
         | Some previous \<Rightarrow>
             map_option (\<lambda>d'. (bt_insert identifier index own, d')) (ds_union previous index d)))"

fun own_records :: "nat \<Rightarrow> record_state list \<Rightarrow> owners \<Rightarrow> owners option" where
  "own_records index [] st = Some st"
| "own_records index (s # ss) st =
     Option.bind (own_identifier (rb_source_record_id s) index st) (own_records (index + 1) ss)"

definition row_index :: "record_state list \<Rightarrow> int \<Rightarrow> nat option" where
  "row_index ss rowid = map_of (rev (zip (map rb_rowid ss) [0..<length ss])) rowid"

fun own_aliases ::
  "record_state list \<Rightarrow> (int \<times> string) list \<Rightarrow> nat \<Rightarrow> owners \<Rightarrow> (catalog_error + nat \<times> owners) option" where
  "own_aliases ss [] links st = Some (Ok (links, st))"
| "own_aliases ss ((rowid, identifier) # rows) links st =
     (if MAX_CANONICAL_REBUILD_RELATIONSHIPS < links + 1
      then Some (Err (CanonicalRebuildTooLarge ''exact relationship'' MAX_CANONICAL_REBUILD_RELATIONSHIPS))
      else
        (case row_index ss rowid of
           None \<Rightarrow> Some (Err (CatalogInvalidRecord ''canonical.record_rowid''))
         | Some index \<Rightarrow>
             Option.bind (own_identifier identifier index st) (own_aliases ss rows (links + 1))))"

section \<open>Selection\<close>

type_synonym selection = "(nat, string) btree_map \<times> disjoint_set"

definition select_candidate :: "nat \<Rightarrow> string \<Rightarrow> (nat, string) btree_map \<Rightarrow> (nat, string) btree_map" where
  "select_candidate root candidate roots =
     (case map_of roots root of
        None \<Rightarrow> bt_insert root candidate roots
      | Some selected \<Rightarrow> if candidate < selected then bt_insert root candidate roots else roots)"

fun select_by_root :: "nat \<Rightarrow> record_state list \<Rightarrow> selection \<Rightarrow> selection option" where
  "select_by_root index [] st = Some st"
| "select_by_root index (s # ss) (roots, d) =
     Option.bind (ds_find index d) (\<lambda>(root, d').
       select_by_root (index + 1) ss (select_candidate root (rb_candidate_id s) roots, d'))"

fun selected_of ::
  "catalog_error \<Rightarrow> (nat, string) btree_map \<Rightarrow> nat list \<Rightarrow> disjoint_set \<Rightarrow>
     (catalog_error + string list \<times> disjoint_set) option" where
  "selected_of err roots [] d = Some (Ok ([], d))"
| "selected_of err roots (index # rest) d =
     (case ds_find index d of
        None \<Rightarrow> None
      | Some (root, d') \<Rightarrow>
          (case map_of roots root of
             None \<Rightarrow> Some (Err err)
           | Some selected \<Rightarrow>
               run_then (selected_of err roots rest d') (\<lambda>(ids, d''). Some (Ok (selected # ids, d'')))))"

section \<open>Redirects\<close>

definition add_target ::
  "string \<Rightarrow> string \<Rightarrow> (string, string list) btree_map \<Rightarrow> (string, string list) btree_map" where
  "add_target key target m =
     bt_insert key (insort_insert target (case map_of m key of None \<Rightarrow> [] | Some ts \<Rightarrow> ts)) m"

definition targets_of :: "(string \<times> string) list \<Rightarrow> (string, string list) btree_map" where
  "targets_of pairs = fold (\<lambda>(key, target). add_target key target) pairs []"

definition add_redirect ::
  "(string, string list) btree_map \<Rightarrow> string \<Rightarrow> string \<Rightarrow> (string \<times> string) list \<Rightarrow> (string \<times> string) list" where
  "add_redirect old_to_new old through redirects =
     (case map_of old_to_new through of
        Some [target] \<Rightarrow> if old \<noteq> target then insort_insert (old, target) redirects else redirects
      | _ \<Rightarrow> redirects)"

definition redirects_of ::
  "(string, string list) btree_map \<Rightarrow> (string \<times> string) list \<Rightarrow> (string \<times> string) list" where
  "redirects_of old_to_new historical =
     fold (\<lambda>(old, through). add_redirect old_to_new old through) historical
       (fold (\<lambda>(old, _). add_redirect old_to_new old old) old_to_new [])"

text \<open>\<open>canonical_redirects\<close> has \<open>old_canonical_id\<close> as its primary key.\<close>

fun insert_redirects ::
  "(string \<times> string) list \<Rightarrow> (string, string) btree_map \<Rightarrow> catalog_error + (string, string) btree_map" where
  "insert_redirects [] m = Ok m"
| "insert_redirects ((old, target) # es) m =
     (if bt_contains old m then Err constraint_error else insert_redirects es (bt_insert old target m))"

definition rebuild_identity :: "digest_fun \<Rightarrow> (record_state \<times> string) list \<Rightarrow> string" where
  "rebuild_identity sha pairs =
     ''sf_canonical_'' @ encode_hex (sha (hashed_fields (''secureflow-canonical-rebuild-v2'' #
       concat (map (\<lambda>(s, selected).
         [rb_source_name s, rb_source_record_id s, rb_raw_sha256 s, selected]) pairs))))"

section \<open>The rebuild\<close>

definition assign_canonicals :: "(record_state \<times> string) list \<Rightarrow> record_row list \<Rightarrow> record_row list" where
  "assign_canonicals pairs rows =
     fold (\<lambda>(s, selected). map (\<lambda>r. if tr_rowid r = rb_rowid s then r\<lparr>tr_canonical_id := selected\<rparr> else r))
       pairs rows"

definition drop_unused_canonicals :: "catalog_tables \<Rightarrow> catalog_tables" where
  "drop_unused_canonicals tb =
     tb\<lparr>tb_canonicals := filter (\<lambda>c. tv_canonical_id c \<in> tr_canonical_id ` set (tb_records tb) \<or>
       tv_canonical_id c \<in> snd ` set (tb_identifiers tb)) (tb_canonicals tb)\<rparr>"

definition write_rebuild ::
  "digest_fun \<Rightarrow> string \<Rightarrow> (nat, string) btree_map \<Rightarrow> (record_state \<times> string) list \<Rightarrow>
     (string \<times> string) list \<Rightarrow> (string \<times> string) list \<Rightarrow> catalog_tables \<Rightarrow> catalog_error + catalog_tables" where
  "write_rebuild sha rebuilt_at roots pairs identifiers redirects tb =
     (let tb1 = fold (\<lambda>(_, selected). insert_canonical_or_ignore selected rebuilt_at) roots
            (tb\<lparr>tb_identifiers := [], tb_redirects := []\<rparr>);
          tb2 = tb1\<lparr>tb_records := assign_canonicals pairs (tb_records tb1),
                    tb_identifiers := bt_collect identifiers\<rparr>
      in and_then (insert_redirects redirects (tb_redirects tb2)) (\<lambda>written.
           Ok (set_metadata ''last_canonical_rebuild_id'' (rebuild_identity sha pairs)
             (set_metadata ''canonicalization'' ''exact-osv-alias-rebuild-v2''
               (drop_unused_canonicals (tb2\<lparr>tb_redirects := written\<rparr>))))))"

definition rebuild_canonicalization ::
  "digest_fun \<Rightarrow> string option \<Rightarrow> catalog_error + unit \<Rightarrow> catalog_tables \<Rightarrow>
     (catalog_error + canonical_rebuild_result \<times> catalog_tables) option" where
  "rebuild_canonicalization sha now no_preparing_delta tb =
     run_then (Some no_preparing_delta) (\<lambda>_.
     run_then (Some (ok_or now (CatalogInvalidRecord ''canonical.rebuilt_at''))) (\<lambda>rebuilt_at.
     (let records = active_states sha tb in
      run_then (Some (fail_if (MAX_CANONICAL_REBUILD_RECORDS < length records)
        (CanonicalRebuildTooLarge ''record'' MAX_CANONICAL_REBUILD_RECORDS))) (\<lambda>_.
      run_then (returns (own_records 0 records ([], ds_new (length records)))) (\<lambda>st1.
      run_then (own_aliases records (alias_rows tb) (length records) st1) (\<lambda>(links, own, d).
      run_then (returns (select_by_root 0 records ([], d))) (\<lambda>(roots, d1).
      run_then (selected_of (CatalogInvalidRecord ''canonical.component'') roots [0..<length records] d1)
        (\<lambda>(selected, d2).
      run_then (selected_of (CatalogInvalidRecord ''canonical.identifier'') roots (map snd own) d2)
        (\<lambda>(owner_ids, _).
      (let pairs = zip records selected;
           old_to_new = targets_of (map (\<lambda>(s, new). (rb_old_canonical_id s, new)) pairs);
           new_to_old = targets_of (map (\<lambda>(s, new). (new, rb_old_canonical_id s)) pairs);
           redirects = redirects_of old_to_new (tb_redirects tb)
       in run_then (Some (write_rebuild sha rebuilt_at roots pairs (zip (map fst own) owner_ids) redirects tb))
            (\<lambda>tb'. Some (Ok
              (\<lparr>rq_rebuild_id = rebuild_identity sha pairs, rq_active_records = length records,
                rq_exact_relationships = links, rq_old_components = length old_to_new,
                rq_new_components = length roots,
                rq_split_components = length (filter (\<lambda>(_, ts). 1 < length ts) old_to_new),
                rq_merged_components = length (filter (\<lambda>(_, ts). 1 < length ts) new_to_old),
                rq_unambiguous_redirects = length redirects\<rparr>, tb')))))))))))))"

end
