(* ===== verification/CatalogFacts.thy ===== *)
theory CatalogFacts
  imports CatalogImport
begin

text \<open>
  What the import keeps: every identifier of a record, its own and its aliases, leads to the
  canonical id of that record. So two records that share an exact identifier are one
  vulnerability, and a lookup by any of its identifiers finds a record that is active. And what one
  import does to the links: everything that had one of the touched ids moves to the least of them.
\<close>

section \<open>The invariant\<close>

definition exact_identifiers_of :: "catalog_tables \<Rightarrow> record_row \<Rightarrow> string set" where
  "exact_identifiers_of tb r =
     insert (tr_source_record_id r)
       {tl_identifier l | l. l \<in> set (tb_relationships tb) \<and> tl_rowid l = tr_rowid r \<and> tl_kind l = ''alias''}"

definition tables_wf :: "catalog_tables \<Rightarrow> bool" where
  "tables_wf tb \<longleftrightarrow>
     distinct (map tr_rowid (tb_records tb))
   \<and> distinct (map (\<lambda>r. (tr_source_id r, tr_source_record_id r)) (tb_records tb))
   \<and> (\<forall>l \<in> set (tb_relationships tb). tl_rowid l \<in> tr_rowid ` set (tb_records tb))"

definition catalog_linked :: "catalog_tables \<Rightarrow> bool" where
  "catalog_linked tb \<longleftrightarrow> tables_wf tb \<and>
     (\<forall>r \<in> set (tb_records tb). \<forall>i \<in> exact_identifiers_of tb r.
        map_of (tb_identifiers tb) i = Some (tr_canonical_id r))"

lemma next_rowid_fresh: "next_rowid ids \<notin> set ids"
proof
  assume "next_rowid ids \<in> set ids"
  moreover from this have "ids \<noteq> []" by auto
  ultimately have "next_rowid ids \<le> Max (set ids)" by simp
  with \<open>ids \<noteq> []\<close> show False by (simp add: next_rowid_def)
qed

section \<open>Merging\<close>

text \<open>All touched canonical ids become the selected one.\<close>

definition merged_value :: "string list \<Rightarrow> string \<Rightarrow> string \<Rightarrow> string" where
  "merged_value merged selected cid = (if cid \<in> set merged then selected else cid)"

lemma merged_value_Cons:
  "selected \<notin> set merged \<Longrightarrow>
     merged_value merged selected (redirect_value c selected cid) = merged_value (c # merged) selected cid"
  by (auto simp: merged_value_def redirect_value_def)

lemma map_of_apsnd [simp]: "map_of (map (apsnd f) m) k = map_option f (map_of m k)"
  by (induction m) auto

lemma merge_canonical_simps [simp]:
  "tb_records (merge_canonical c selected tb) =
     map (\<lambda>r. r\<lparr>tr_canonical_id := redirect_value c selected (tr_canonical_id r)\<rparr>) (tb_records tb)"
  "map_of (tb_identifiers (merge_canonical c selected tb)) i =
     map_option (redirect_value c selected) (map_of (tb_identifiers tb) i)"
  "tb_relationships (merge_canonical c selected tb) = tb_relationships tb"
  by (simp_all add: merge_canonical_def Let_def)

lemma merge_all:
  assumes "selected \<notin> set merged"
  shows "tb_records (fold (\<lambda>c. merge_canonical c selected) merged tb) =
      map (\<lambda>r. r\<lparr>tr_canonical_id := merged_value merged selected (tr_canonical_id r)\<rparr>) (tb_records tb)
    \<and> (\<forall>i. map_of (tb_identifiers (fold (\<lambda>c. merge_canonical c selected) merged tb)) i =
        map_option (merged_value merged selected) (map_of (tb_identifiers tb) i))
    \<and> tb_relationships (fold (\<lambda>c. merge_canonical c selected) merged tb) = tb_relationships tb"
  using assms
proof (induction merged arbitrary: tb)
  case Nil
  have "merged_value [] selected = id" by (simp add: fun_eq_iff merged_value_def)
  then show ?case by (simp add: option.map_ident)
next
  case (Cons c merged)
  then have "selected \<notin> set merged" by simp
  with Cons.IH [of "merge_canonical c selected tb"] merged_value_Cons show ?case
    by (simp add: option.map_comp comp_def)
qed

lemma upsert_all:
  "tb_records (fold (\<lambda>i. upsert_identifier i selected) ids tb) = tb_records tb"
  "tb_relationships (fold (\<lambda>i. upsert_identifier i selected) ids tb) = tb_relationships tb"
  "map_of (tb_identifiers (fold (\<lambda>i. upsert_identifier i selected) ids tb)) j =
     (if j \<in> set ids then Some selected else map_of (tb_identifiers tb) j)"
  by (induction ids arbitrary: tb) (auto simp: upsert_identifier_def)

lemma link_identifiers_simps:
  "tb_records (link_identifiers selected touched ids tb) =
     map (\<lambda>r. r\<lparr>tr_canonical_id := merged_value touched selected (tr_canonical_id r)\<rparr>) (tb_records tb)"
  "map_of (tb_identifiers (link_identifiers selected touched ids tb)) j =
     (if j \<in> set ids then Some selected
      else map_option (merged_value touched selected) (map_of (tb_identifiers tb) j))"
  "tb_relationships (link_identifiers selected touched ids tb) = tb_relationships tb"
proof -
  have eq: "merged_value (filter (\<lambda>c. c \<noteq> selected) touched) selected = merged_value touched selected"
    by (auto simp: fun_eq_iff merged_value_def)
  have "selected \<notin> set (filter (\<lambda>c. c \<noteq> selected) touched)" by simp
  from merge_all [OF this, of tb] show
    "tb_records (link_identifiers selected touched ids tb) =
       map (\<lambda>r. r\<lparr>tr_canonical_id := merged_value touched selected (tr_canonical_id r)\<rparr>) (tb_records tb)"
    "map_of (tb_identifiers (link_identifiers selected touched ids tb)) j =
       (if j \<in> set ids then Some selected
        else map_option (merged_value touched selected) (map_of (tb_identifiers tb) j))"
    "tb_relationships (link_identifiers selected touched ids tb) = tb_relationships tb"
    by (simp_all add: link_identifiers_def upsert_all eq)
qed

section \<open>Statements that leave the links alone\<close>

definition same_links :: "catalog_tables \<Rightarrow> catalog_tables \<Rightarrow> bool" where
  "same_links tb tb' \<longleftrightarrow> tb_records tb' = tb_records tb \<and> tb_identifiers tb' = tb_identifiers tb \<and>
     tb_relationships tb' = tb_relationships tb"

lemma same_links_trans: "same_links a b \<Longrightarrow> same_links b c \<Longrightarrow> same_links a c"
  by (simp add: same_links_def)

lemma same_links_simps [simp]:
  "same_links tb tb"
  "same_links tb (insert_canonical_or_ignore cid now tb)"
  "same_links tb (insert_fts rowid title details tb)"
  "same_links tb (touch_canonical cid now tb)"
  "same_links tb (set_metadata key v tb)"
  "same_links tb (insert_reference rowid f tb)"
  "same_links tb (snd (insert_revision sid r raw_sha256 raw now tb))"
  by (simp_all add: same_links_def insert_canonical_or_ignore_def insert_fts_def touch_canonical_def
      set_metadata_def insert_reference_def insert_revision_def Let_def split: option.split)

lemma references_same_links: "same_links tb (fold (insert_reference rowid) fs tb)"
proof (induction fs arbitrary: tb)
  case (Cons f fs)
  then show ?case by (auto intro: same_links_trans [of _ "insert_reference rowid f tb"])
qed simp

lemma affected_same_links: "insert_affected env rowid as tb = Ok tb' \<Longrightarrow> same_links tb tb'"
  by (induction as arbitrary: tb) (auto simp: ok_iff same_links_def split: option.splits)

lemma relationships_added:
  "insert_relationships rowid kind vs tb = Ok tb' \<Longrightarrow>
     tb_records tb' = tb_records tb \<and> tb_identifiers tb' = tb_identifiers tb \<and>
     tb_relationships tb' =
       tb_relationships tb @ map (\<lambda>v. \<lparr>tl_rowid = rowid, tl_kind = kind, tl_identifier = v\<rparr>) vs"
  by (induction vs arbitrary: tb)
     (auto simp: ok_iff insert_relationship_def Let_def split: if_splits)

lemma linked_same: "same_links tb tb' \<Longrightarrow> catalog_linked tb' \<longleftrightarrow> catalog_linked tb"
  by (simp add: same_links_def catalog_linked_def tables_wf_def exact_identifiers_of_def)

section \<open>Import of one record\<close>

lemma find_record_Some:
  "find_record sid rid tb = Some old \<Longrightarrow>
     old \<in> set (tb_records tb) \<and> tr_source_id old = sid \<and> tr_source_record_id old = rid"
  unfolding find_record_def by (auto simp: find_Some_iff)

lemma find_record_None:
  "find_record sid rid tb = None \<Longrightarrow> row \<in> set (tb_records tb) \<Longrightarrow>
     (tr_source_id row, tr_source_record_id row) \<noteq> (sid, rid)"
  unfolding find_record_def by (auto simp: find_None_iff)

lemma touched_contains:
  assumes "i \<in> set ids" and "map_of (tb_identifiers tb) i = Some c"
  shows "c \<in> set (touched_canonicals candidate existing ids tb)"
  using assms
  by (force simp: touched_canonicals_def List.map_filter_def set_insort_key simp del: sort_key_simps)

lemma linked_after_link:
  assumes "catalog_linked tb" and "selected \<in> set touched"
    and "\<And>i c. i \<in> set ids \<Longrightarrow> map_of (tb_identifiers tb) i = Some c \<Longrightarrow> c \<in> set touched"
  shows "catalog_linked (link_identifiers selected touched ids tb)"
    and "i \<in> set ids \<Longrightarrow> map_of (tb_identifiers (link_identifiers selected touched ids tb)) i = Some selected"
proof -
  let ?tb = "link_identifiers selected touched ids tb"
  have "tables_wf ?tb"
    using assms(1) by (simp add: catalog_linked_def tables_wf_def link_identifiers_simps comp_def image_image)
  moreover have "map_of (tb_identifiers ?tb) i = Some (tr_canonical_id row)"
    if "row \<in> set (tb_records ?tb)" "i \<in> exact_identifiers_of ?tb row" for row i
  proof -
    from that(1) obtain old where old: "old \<in> set (tb_records tb)"
      "row = old\<lparr>tr_canonical_id := merged_value touched selected (tr_canonical_id old)\<rparr>"
      by (auto simp: link_identifiers_simps)
    with that(2) have "i \<in> exact_identifiers_of tb old"
      by (simp add: exact_identifiers_of_def link_identifiers_simps)
    with assms(1) old(1) have i: "map_of (tb_identifiers tb) i = Some (tr_canonical_id old)"
      by (simp add: catalog_linked_def)
    with assms(3) old(2) show ?thesis by (auto simp: link_identifiers_simps merged_value_def)
  qed
  ultimately show "catalog_linked ?tb" by (simp add: catalog_linked_def)
  show "i \<in> set ids \<Longrightarrow> map_of (tb_identifiers ?tb) i = Some selected"
    by (simp add: link_identifiers_simps)
qed

text \<open>A row with the selected canonical id: the record that is being imported.\<close>

definition imported_row :: "catalog_tables \<Rightarrow> int \<Rightarrow> int \<Rightarrow> string \<Rightarrow> string \<Rightarrow> bool" where
  "imported_row tb rowid sid rid selected \<longleftrightarrow>
     (\<exists>row \<in> set (tb_records tb). tr_rowid row = rowid \<and> tr_source_id row = sid \<and>
        tr_source_record_id row = rid \<and> tr_canonical_id row = selected \<and> tr_active row)"

lemma rowid_unique:
  "tables_wf tb \<Longrightarrow> a \<in> set (tb_records tb) \<Longrightarrow> b \<in> set (tb_records tb) \<Longrightarrow> tr_rowid a = tr_rowid b \<Longrightarrow> a = b"
  by (simp add: tables_wf_def distinct_map inj_on_def)

lemma stored_linked:
  assumes linked: "catalog_linked tb" and ids: "map_of (tb_identifiers tb) (or_id r) = Some selected"
    and new: "existing = None \<Longrightarrow> \<forall>row \<in> set (tb_records tb). (tr_source_id row, tr_source_record_id row) \<noteq> (sid, or_id r)"
    and old: "\<And>o'. existing = Some o' \<Longrightarrow> \<exists>row \<in> set (tb_records tb). tr_rowid row = tr_rowid o' \<and>
      tr_source_id row = sid \<and> tr_source_record_id row = or_id r"
    and store: "store_record existing sid r selected hash rid u res tb = (rowid, res', tb')"
  shows "catalog_linked tb' \<and> imported_row tb' rowid sid (or_id r) selected \<and>
    tb_identifiers tb' = tb_identifiers tb"
proof (cases existing)
  case None
  let ?row = "\<lparr>tr_rowid = rowid, tr_source_id = sid, tr_source_record_id = or_id r,
    tr_canonical_id = selected, tr_modified_at = or_modified r, tr_published_at = or_published r,
    tr_withdrawn_at = or_withdrawn r, tr_title = record_title r, tr_details = record_details r,
    tr_raw_sha256 = hash, tr_revision_id = rid, tr_active = True\<rparr>"
  from store None have tb': "tb' = tb\<lparr>tb_records := tb_records tb @ [?row]\<rparr>"
    and rowid: "rowid = next_rowid (map tr_rowid (tb_records tb))"
    by (auto simp: store_record_def Let_def)
  have fresh: "rowid \<notin> tr_rowid ` set (tb_records tb)"
    using next_rowid_fresh [of "map tr_rowid (tb_records tb)"] by (simp add: rowid)
  have "tables_wf tb'"
    using linked fresh new None by (auto simp: tb' catalog_linked_def tables_wf_def)
  moreover have "exact_identifiers_of tb' ?row = {or_id r}"
    using linked fresh by (auto simp: tb' exact_identifiers_of_def catalog_linked_def tables_wf_def)
  moreover have "exact_identifiers_of tb' row = exact_identifiers_of tb row" for row
    by (simp add: tb' exact_identifiers_of_def)
  ultimately have "catalog_linked tb'" using linked ids by (auto simp: tb' catalog_linked_def)
  then show ?thesis by (simp add: tb' imported_row_def)
next
  case (Some o')
  define upd :: "record_row \<Rightarrow> record_row" where "upd row = (if tr_rowid row = rowid then row\<lparr>tr_canonical_id := selected,
    tr_modified_at := or_modified r, tr_published_at := or_published r, tr_withdrawn_at := or_withdrawn r,
    tr_title := record_title r, tr_details := record_details r, tr_raw_sha256 := hash,
    tr_revision_id := rid, tr_active := True\<rparr> else row)" for row
  from store Some have rowid: "rowid = tr_rowid o'"
    and tb': "tb_records tb' = map upd (tb_records tb)" "tb_identifiers tb' = tb_identifiers tb"
      "tb_relationships tb' = filter (\<lambda>l. tl_rowid l \<noteq> rowid) (tb_relationships tb)"
    by (auto simp: store_record_def delete_record_rows_def upd_def fun_eq_iff)
  have upd [simp]: "tr_rowid (upd row) = tr_rowid row" "tr_source_id (upd row) = tr_source_id row"
    "tr_source_record_id (upd row) = tr_source_record_id row" for row by (simp_all add: upd_def)
  from old [OF Some] obtain old_row where old_row: "old_row \<in> set (tb_records tb)" "tr_rowid old_row = rowid"
    "tr_source_id old_row = sid" "tr_source_record_id old_row = or_id r" by (auto simp: rowid)
  have "tables_wf tb'"
    using linked by (auto simp: tb' catalog_linked_def tables_wf_def comp_def image_image)
  moreover have "map_of (tb_identifiers tb') i = Some (tr_canonical_id row)"
    if "row \<in> set (tb_records tb')" "i \<in> exact_identifiers_of tb' row" for row i
  proof -
    from that(1) obtain row0 where row0: "row0 \<in> set (tb_records tb)" "row = upd row0" by (auto simp: tb')
    show ?thesis
    proof (cases "tr_rowid row0 = rowid")
      case True
      with row0 old_row linked have "row0 = old_row" by (auto simp: catalog_linked_def intro: rowid_unique)
      with that(2) True row0 old_row(4) have "i = or_id r" by (auto simp: exact_identifiers_of_def tb')
      with ids True row0 show ?thesis by (simp add: tb' upd_def)
    next
      case False
      then have "i \<in> exact_identifiers_of tb row0"
        using that(2) row0 by (auto simp: exact_identifiers_of_def tb')
      with linked row0 False show ?thesis by (simp add: catalog_linked_def tb' upd_def)
    qed
  qed
  ultimately have "catalog_linked tb'" by (simp add: catalog_linked_def)
  moreover have "imported_row tb' rowid sid (or_id r) selected"
    using old_row by (auto simp: imported_row_def tb' upd_def intro!: bexI [of _ "upd old_row"])
  ultimately show ?thesis by (simp add: tb')
qed

lemma relationships_linked:
  assumes "catalog_linked tb" and row: "imported_row tb rowid sid rid selected"
    and "kind = ''alias'' \<Longrightarrow> \<forall>v \<in> set vs. map_of (tb_identifiers tb) v = Some selected"
    and "insert_relationships rowid kind vs tb = Ok tb'"
  shows "catalog_linked tb' \<and> imported_row tb' rowid sid rid selected \<and> tb_identifiers tb' = tb_identifiers tb"
proof -
  note tb' = relationships_added [OF assms(4)]
  from row obtain r0 where r0: "r0 \<in> set (tb_records tb)" "tr_rowid r0 = rowid" "tr_canonical_id r0 = selected"
    by (auto simp: imported_row_def)
  have "tables_wf tb'" using assms(1) r0 tb' by (auto simp: catalog_linked_def tables_wf_def)
  moreover have "map_of (tb_identifiers tb') i = Some (tr_canonical_id row)"
    if row: "row \<in> set (tb_records tb')" "i \<in> exact_identifiers_of tb' row" for row i
  proof (cases "i \<in> exact_identifiers_of tb row")
    case True
    with assms(1) row tb' show ?thesis by (simp add: catalog_linked_def)
  next
    case False
    with row tb' have "tr_rowid row = rowid" "kind = ''alias''" "i \<in> set vs"
      by (auto simp: exact_identifiers_of_def)
    moreover from this have "row = r0"
      using assms(1) r0 row tb' by (auto simp: catalog_linked_def intro: rowid_unique)
    ultimately show ?thesis using assms(3) r0 tb' by simp
  qed
  ultimately show ?thesis using row tb' by (simp add: catalog_linked_def imported_row_def)
qed

lemma touched_Cons:
  "touched_canonicals candidate existing ids tb = selected # rest \<Longrightarrow>
     selected \<in> set (touched_canonicals candidate existing ids tb)"
  by simp

lemma exact_identifiers_set: "set (exact_identifiers r) = insert (or_id r) (set (or_aliases r))"
  by (simp add: exact_identifiers_def set_insort_key)

text \<open>The states that \<open>import_changed\<close> goes through when it succeeds.\<close>

lemma import_changed_steps:
  assumes "import_changed env s sid r raw now u existing res tb = Ok (res', tb')"
  obtains tb1 selected rest rev_id tb3 rowid res2 tb4 tb5 tb6 tb7 tb8 tb9 where
    "tb1 = insert_canonical_or_ignore (canonical_id (km_sha env) (ks_name s) (or_id r)) now tb"
    "touched_canonicals (canonical_id (km_sha env) (ks_name s) (or_id r)) existing (exact_identifiers r) tb1 =
       selected # rest"
    "insert_revision sid r (catalog_sha256 (km_sha env) raw) raw now
       (link_identifiers selected (selected # rest) (exact_identifiers r) tb1) = (rev_id, tb3)"
    "store_record existing sid r selected (catalog_sha256 (km_sha env) raw) rev_id u
       (res\<lparr>in_canonical_groups_merged := in_canonical_groups_merged res + length (filter (\<lambda>c. c \<noteq> selected) rest)\<rparr>)
       tb3 = (rowid, res2, tb4)"
    "same_links tb4 tb5"
    "insert_relationships rowid ''primary'' [or_id r] tb5 = Ok tb6"
    "insert_relationships rowid ''alias'' (or_aliases r) tb6 = Ok tb7"
    "insert_relationships rowid ''upstream'' (or_upstream r) tb7 = Ok tb8"
    "insert_relationships rowid ''related'' (or_related r) tb8 = Ok tb9"
    "same_links tb9 tb'"
    "in_canonical_groups_merged res' = in_canonical_groups_merged res2"
proof -
  define candidate where "candidate = canonical_id (km_sha env) (ks_name s) (or_id r)"
  define tb1 where "tb1 = insert_canonical_or_ignore candidate now tb"
  define touched where "touched = touched_canonicals candidate existing (exact_identifiers r) tb1"
  note defs = candidate_def [symmetric] tb1_def [symmetric] touched_def [symmetric]
  from assms obtain selected rest where sel: "touched = selected # rest"
    by (cases touched) (auto simp: import_changed_def Let_def defs)
  obtain rev_id tb3 where rev: "insert_revision sid r (catalog_sha256 (km_sha env) raw) raw now
      (link_identifiers selected (selected # rest) (exact_identifiers r) tb1) = (rev_id, tb3)" by fastforce
  define res1 where "res1 = res\<lparr>in_canonical_groups_merged :=
    in_canonical_groups_merged res + length (filter (\<lambda>c. c \<noteq> selected) rest)\<rparr>"
  obtain rowid res2 tb4 where store: "store_record existing sid r selected (catalog_sha256 (km_sha env) raw)
      rev_id u res1 tb3 = (rowid, res2, tb4)"
    by (cases "store_record existing sid r selected (catalog_sha256 (km_sha env) raw) rev_id u res1 tb3")
  define tb5 where "tb5 = (if u then insert_fts rowid (record_title r) (record_details r) tb4 else tb4)"
  have one: "insert_relationship rowid ''primary'' (or_id r) tb5 = insert_relationships rowid ''primary'' [or_id r] tb5"
    by (simp add: and_then_def split: sum.split)
  from assms obtain tb6 tb7 tb8 tb9 tb10 where steps:
      "insert_relationships rowid ''primary'' [or_id r] tb5 = Ok tb6"
      "insert_relationships rowid ''alias'' (or_aliases r) tb6 = Ok tb7"
      "insert_relationships rowid ''upstream'' (or_upstream r) tb7 = Ok tb8"
      "insert_relationships rowid ''related'' (or_related r) tb8 = Ok tb9"
      "insert_affected env rowid (or_affected r) tb9 = Ok tb10"
      "tb' = touch_canonical selected now (fold (insert_reference rowid) (or_references r) tb10)"
      "in_canonical_groups_merged res' = in_canonical_groups_merged res2"
    unfolding import_changed_def Let_def defs sel list.case
    by (auto simp: ok_iff rev store [unfolded res1_def] one [simplified] tb5_def)
  have last: "same_links tb9 tb'"
    unfolding steps(6) by (meson affected_same_links [OF steps(5)] references_same_links same_links_simps(4) same_links_trans)
  have "same_links tb4 tb5" by (simp add: tb5_def)
  from that [OF tb1_def [unfolded candidate_def] _ rev store [unfolded res1_def] this steps(1-4) last steps(7)]
  show thesis using sel by (simp add: touched_def candidate_def)
qed

lemma import_changed_linked:
  assumes linked: "catalog_linked tb" and existing: "existing = find_record sid (or_id r) tb"
    and ok: "import_changed env s sid r raw now u existing res tb = Ok (res', tb')"
  shows "catalog_linked tb'"
proof -
  let ?ids = "exact_identifiers r"
  from import_changed_steps [OF ok] obtain tb1 selected rest rev_id tb3 rowid res2 tb4 tb5 tb6 tb7 tb8 tb9 where
    tb1: "tb1 = insert_canonical_or_ignore (canonical_id (km_sha env) (ks_name s) (or_id r)) now tb" and
    sel: "touched_canonicals (canonical_id (km_sha env) (ks_name s) (or_id r)) existing ?ids tb1 = selected # rest" and
    rev: "insert_revision sid r (catalog_sha256 (km_sha env) raw) raw now
      (link_identifiers selected (selected # rest) ?ids tb1) = (rev_id, tb3)" and
    store: "store_record existing sid r selected (catalog_sha256 (km_sha env) raw) rev_id u
      (res\<lparr>in_canonical_groups_merged := in_canonical_groups_merged res + length (filter (\<lambda>c. c \<noteq> selected) rest)\<rparr>)
      tb3 = (rowid, res2, tb4)" and
    same5: "same_links tb4 tb5" and
    steps: "insert_relationships rowid ''primary'' [or_id r] tb5 = Ok tb6"
      "insert_relationships rowid ''alias'' (or_aliases r) tb6 = Ok tb7"
      "insert_relationships rowid ''upstream'' (or_upstream r) tb7 = Ok tb8"
      "insert_relationships rowid ''related'' (or_related r) tb8 = Ok tb9" and
    last: "same_links tb9 tb'" .
  define tb2 where "tb2 = link_identifiers selected (selected # rest) ?ids tb1"
  have same1: "same_links tb tb1" by (simp add: tb1)
  have touch: "c \<in> set (selected # rest)" if "i \<in> set ?ids" "map_of (tb_identifiers tb1) i = Some c" for i c
    using touched_contains [OF that] by (simp only: sel [symmetric])
  have "catalog_linked tb1" "selected \<in> set (selected # rest)" using linked linked_same [OF same1] by simp_all
  note linked2 = linked_after_link [where ids = ?ids and touched = "selected # rest", OF this touch, folded tb2_def]
  have same3: "same_links tb2 tb3"
    using same_links_simps(7) [of tb2 sid r "catalog_sha256 (km_sha env) raw" raw now] rev by (simp add: tb2_def)
  have recs3: "tb_records tb3 = map (\<lambda>row. row\<lparr>tr_canonical_id :=
      merged_value (selected # rest) selected (tr_canonical_id row)\<rparr>) (tb_records tb)"
    using same1 same3 by (simp add: same_links_def tb2_def link_identifiers_simps)
  have mem: "or_id r \<in> set ?ids" by (simp add: exact_identifiers_set)
  have "catalog_linked tb4 \<and> imported_row tb4 rowid sid (or_id r) selected \<and>
      tb_identifiers tb4 = tb_identifiers tb3"
  proof (rule stored_linked [OF _ _ _ _ store])
    show "catalog_linked tb3" using linked2(1) linked_same [OF same3] by simp
    show "map_of (tb_identifiers tb3) (or_id r) = Some selected"
      using linked2(2) mem same3 by (simp add: same_links_def)
    show "\<forall>row \<in> set (tb_records tb3). (tr_source_id row, tr_source_record_id row) \<noteq> (sid, or_id r)"
      if "existing = None" using find_record_None that existing by (auto simp: recs3)
    show "\<exists>row \<in> set (tb_records tb3). tr_rowid row = tr_rowid o' \<and> tr_source_id row = sid \<and>
        tr_source_record_id row = or_id r" if "existing = Some o'" for o'
      using find_record_Some [of sid "or_id r" tb o'] that existing by (force simp: recs3)
  qed
  then have 5: "catalog_linked tb5 \<and> imported_row tb5 rowid sid (or_id r) selected"
      "tb_identifiers tb5 = tb_identifiers tb2"
    using linked_same [OF same5] same3 same5 by (auto simp: same_links_def imported_row_def)
  have 6: "catalog_linked tb6 \<and> imported_row tb6 rowid sid (or_id r) selected \<and> tb_identifiers tb6 = tb_identifiers tb5"
    using relationships_linked [OF _ _ _ steps(1)] 5 by auto
  have 7: "catalog_linked tb7 \<and> imported_row tb7 rowid sid (or_id r) selected \<and> tb_identifiers tb7 = tb_identifiers tb6"
    using relationships_linked [OF _ _ _ steps(2)] 5 6 linked2(2) by (auto simp: exact_identifiers_set)
  have 8: "catalog_linked tb8 \<and> imported_row tb8 rowid sid (or_id r) selected \<and> tb_identifiers tb8 = tb_identifiers tb7"
    using relationships_linked [OF _ _ _ steps(3)] 7 by auto
  have "catalog_linked tb9" using relationships_linked [OF _ _ _ steps(4)] 8 by auto
  with linked_same [OF last] show ?thesis by simp
qed

text \<open>
  What an import does to the links: \<open>T\<close> are the canonical ids it touches, the candidate id of the
  record, the id it had, and the ids its exact identifiers lead to.
\<close>

definition touched_ids :: "catalog_import_env \<Rightarrow> catalog_source \<Rightarrow> int \<Rightarrow> osv_record \<Rightarrow> catalog_tables \<Rightarrow> string set" where
  "touched_ids env s sid r tb =
     insert (canonical_id (km_sha env) (ks_name s) (or_id r))
       ({tr_canonical_id old | old. find_record sid (or_id r) tb = Some old} \<union>
        {cid. \<exists>i \<in> insert (or_id r) (set (or_aliases r)). map_of (tb_identifiers tb) i = Some cid})"

definition moved_to :: "string set \<Rightarrow> string \<Rightarrow> string" where
  "moved_to T cid = (if cid \<in> T then Min T else cid)"

lemma distinct_remdups_adj_sorted:
  fixes xs :: "'a :: linorder list"
  shows "sorted xs \<Longrightarrow> distinct (remdups_adj xs)"
proof (induction xs rule: remdups_adj.induct)
  case (3 x y xs)
  show ?case
  proof (cases "x = y")
    case False
    with "3.prems" have "x \<notin> set (y # xs)" by auto
    with 3 False show ?thesis by (simp add: remdups_adj_set)
  qed (use 3 in simp)
qed simp_all

lemma touched_canonicals_ids:
  assumes "touched_canonicals (canonical_id (km_sha env) (ks_name s) (or_id r)) (find_record sid (or_id r) tb)
      (exact_identifiers r) tb1 = selected # rest"
    and "tb_identifiers tb1 = tb_identifiers tb"
  shows "set (selected # rest) = touched_ids env s sid r tb" and "selected = Min (touched_ids env s sid r tb)"
    and "length (filter (\<lambda>c. c \<noteq> selected) rest) = card (touched_ids env s sid r tb) - 1"
proof -
  let ?xs = "canonical_id (km_sha env) (ks_name s) (or_id r) #
      (case find_record sid (or_id r) tb of None \<Rightarrow> [] | Some row \<Rightarrow> [tr_canonical_id row]) @
      List.map_filter (map_of (tb_identifiers tb)) (exact_identifiers r)"
  have xs: "selected # rest = remdups_adj (sort ?xs)"
    using assms unfolding touched_canonicals_def by simp
  have "set ?xs = touched_ids env s sid r tb"
    by (auto simp: touched_ids_def List.map_filter_def exact_identifiers_set split: option.splits) force+
  then show set: "set (selected # rest) = touched_ids env s sid r tb" by (simp only: xs remdups_adj_set set_sort)
  have "sorted (selected # rest)" unfolding xs by (simp only: sorted_remdups_adj sorted_sort)
  then have least: "\<forall>c \<in> set rest. selected \<le> c" by simp
  have "Min (set (selected # rest)) = selected" using least by (intro Min_eqI) auto
  then show "selected = Min (touched_ids env s sid r tb)" by (simp only: set)
  have "distinct (selected # rest)" unfolding xs by (intro distinct_remdups_adj_sorted sorted_sort)
  moreover from this have "filter (\<lambda>c. c \<noteq> selected) rest = rest" by (auto simp: filter_id_conv)
  ultimately show "length (filter (\<lambda>c. c \<noteq> selected) rest) = card (touched_ids env s sid r tb) - 1"
    unfolding set [symmetric] by (simp add: distinct_card)
qed

lemma stored_rows:
  assumes "store_record existing sid r selected hash rid u res tb = (rowid, res', tb')"
  shows "filter (\<lambda>x. tr_rowid x \<noteq> rowid) (tb_records tb') = filter (\<lambda>x. tr_rowid x \<noteq> rowid) (tb_records tb)"
    and "tb_identifiers tb' = tb_identifiers tb"
    and "in_canonical_groups_merged res' = in_canonical_groups_merged res"
proof -
  have upd: "filter (\<lambda>x. tr_rowid x \<noteq> k) (map (\<lambda>row. if tr_rowid row = k then f row else row) rows) =
      filter (\<lambda>x. tr_rowid x \<noteq> k) rows" if "\<And>row. tr_rowid (f row) = tr_rowid row" for k f and rows :: "record_row list"
    by (induction rows) (auto simp: that)
  show "filter (\<lambda>x. tr_rowid x \<noteq> rowid) (tb_records tb') = filter (\<lambda>x. tr_rowid x \<noteq> rowid) (tb_records tb)"
    "tb_identifiers tb' = tb_identifiers tb" "in_canonical_groups_merged res' = in_canonical_groups_merged res"
    using assms by (auto simp: store_record_def delete_record_rows_def Let_def upd split: option.splits)
qed

lemma stored_row:
  assumes "store_record existing sid r selected hash rid u res tb = (rowid, res', tb')"
    and "\<And>o'. existing = Some o' \<Longrightarrow> \<exists>row \<in> set (tb_records tb). tr_rowid row = tr_rowid o' \<and>
      tr_source_id row = sid \<and> tr_source_record_id row = or_id r"
  shows "imported_row tb' rowid sid (or_id r) selected"
proof (cases existing)
  case None
  with assms(1) show ?thesis by (auto simp: store_record_def Let_def imported_row_def)
next
  case (Some o')
  with assms(2) obtain row where row: "row \<in> set (tb_records tb)" "tr_rowid row = tr_rowid o'"
    "tr_source_id row = sid" "tr_source_record_id row = or_id r" by blast
  define upd :: "record_row \<Rightarrow> record_row" where "upd x = (if tr_rowid x = rowid then x\<lparr>tr_canonical_id := selected,
    tr_modified_at := or_modified r, tr_published_at := or_published r, tr_withdrawn_at := or_withdrawn r,
    tr_title := record_title r, tr_details := record_details r, tr_raw_sha256 := hash,
    tr_revision_id := rid, tr_active := True\<rparr> else x)" for x
  from assms(1) Some have rowid: "rowid = tr_rowid o'" and rows: "tb_records tb' = map upd (tb_records tb)"
    by (auto simp: store_record_def delete_record_rows_def upd_def fun_eq_iff)
  have "upd row \<in> set (tb_records tb')" using row(1) by (simp add: rows)
  with row(2-4) show ?thesis unfolding imported_row_def by (intro bexI [of _ "upd row"]) (simp_all add: upd_def rowid)
qed

lemma import_changed_effect:
  assumes ok: "import_changed env s sid r raw now u (find_record sid (or_id r) tb) res tb = Ok (res', tb')"
    and T: "T = touched_ids env s sid r tb"
  obtains rowid where "imported_row tb' rowid sid (or_id r) (Min T)"
    "filter (\<lambda>x. tr_rowid x \<noteq> rowid) (tb_records tb') =
       map (\<lambda>x. x\<lparr>tr_canonical_id := moved_to T (tr_canonical_id x)\<rparr>)
         (filter (\<lambda>x. tr_rowid x \<noteq> rowid) (tb_records tb))"
    "map_of (tb_identifiers tb') =
       (\<lambda>i. if i \<in> insert (or_id r) (set (or_aliases r)) then Some (Min T)
            else map_option (moved_to T) (map_of (tb_identifiers tb) i))"
    "in_canonical_groups_merged res' = in_canonical_groups_merged res + (card T - 1)"
proof -
  let ?ids = "exact_identifiers r"
  from import_changed_steps [OF ok] obtain tb1 selected rest rev_id tb3 rowid res2 tb4 tb5 tb6 tb7 tb8 tb9 where
    tb1: "tb1 = insert_canonical_or_ignore (canonical_id (km_sha env) (ks_name s) (or_id r)) now tb" and
    sel: "touched_canonicals (canonical_id (km_sha env) (ks_name s) (or_id r)) (find_record sid (or_id r) tb) ?ids tb1 =
      selected # rest" and
    rev: "insert_revision sid r (catalog_sha256 (km_sha env) raw) raw now
      (link_identifiers selected (selected # rest) ?ids tb1) = (rev_id, tb3)" and
    store: "store_record (find_record sid (or_id r) tb) sid r selected (catalog_sha256 (km_sha env) raw) rev_id u
      (res\<lparr>in_canonical_groups_merged := in_canonical_groups_merged res + length (filter (\<lambda>c. c \<noteq> selected) rest)\<rparr>)
      tb3 = (rowid, res2, tb4)" and
    same5: "same_links tb4 tb5" and
    steps: "insert_relationships rowid ''primary'' [or_id r] tb5 = Ok tb6"
      "insert_relationships rowid ''alias'' (or_aliases r) tb6 = Ok tb7"
      "insert_relationships rowid ''upstream'' (or_upstream r) tb7 = Ok tb8"
      "insert_relationships rowid ''related'' (or_related r) tb8 = Ok tb9" and
    last: "same_links tb9 tb'" and
    counts: "in_canonical_groups_merged res' = in_canonical_groups_merged res2" .
  have same1: "same_links tb tb1" by (simp add: tb1)
  then have "tb_identifiers tb1 = tb_identifiers tb" by (simp add: same_links_def)
  note touched = touched_canonicals_ids [OF sel this, folded T]
  have merged: "merged_value (selected # rest) selected = moved_to T"
    by (simp only: fun_eq_iff merged_value_def moved_to_def touched(1) touched(2) [symmetric]) simp
  have same3: "same_links (link_identifiers selected (selected # rest) ?ids tb1) tb3"
    using same_links_simps(7) [of "link_identifiers selected (selected # rest) ?ids tb1" sid r
        "catalog_sha256 (km_sha env) raw" raw now] by (simp add: rev)
  have recs3: "tb_records tb3 = map (\<lambda>x. x\<lparr>tr_canonical_id := moved_to T (tr_canonical_id x)\<rparr>) (tb_records tb)"
    using same1 same3 by (simp add: same_links_def link_identifiers_simps merged)
  have end_recs: "tb_records tb' = tb_records tb4" and end_ids: "tb_identifiers tb' = tb_identifiers tb3"
    using stored_rows(2) [OF store] steps [THEN relationships_added] same5 last by (simp_all add: same_links_def)
  show thesis
  proof (rule that)
    have "\<exists>row \<in> set (tb_records tb3). tr_rowid row = tr_rowid o' \<and> tr_source_id row = sid \<and>
        tr_source_record_id row = or_id r" if "find_record sid (or_id r) tb = Some o'" for o'
      using find_record_Some [OF that] by (force simp: recs3)
    from stored_row [OF store this] show "imported_row tb' rowid sid (or_id r) (Min T)"
      by (simp add: imported_row_def end_recs touched(2))
    show "filter (\<lambda>x. tr_rowid x \<noteq> rowid) (tb_records tb') =
       map (\<lambda>x. x\<lparr>tr_canonical_id := moved_to T (tr_canonical_id x)\<rparr>)
         (filter (\<lambda>x. tr_rowid x \<noteq> rowid) (tb_records tb))"
      by (simp add: end_recs stored_rows(1) [OF store] recs3 filter_map comp_def)
    show "map_of (tb_identifiers tb') =
       (\<lambda>i. if i \<in> insert (or_id r) (set (or_aliases r)) then Some (Min T)
            else map_option (moved_to T) (map_of (tb_identifiers tb) i))"
    proof
      fix i
      have "map_of (tb_identifiers tb') i =
         (if i \<in> insert (or_id r) (set (or_aliases r)) then Some selected
          else map_option (moved_to T) (map_of (tb_identifiers tb) i))"
        using same1 same3 by (simp add: end_ids same_links_def link_identifiers_simps merged exact_identifiers_set)
      with touched(2) show "map_of (tb_identifiers tb') i =
         (if i \<in> insert (or_id r) (set (or_aliases r)) then Some (Min T)
          else map_option (moved_to T) (map_of (tb_identifiers tb) i))" by simp
    qed
    show "in_canonical_groups_merged res' = in_canonical_groups_merged res + (card T - 1)"
      by (simp add: counts stored_rows(3) [OF store] touched(3))
  qed
qed

text \<open>Rows may change in every column that does not identify or link them.\<close>

lemma linked_map:
  assumes "catalog_linked tb" and "tb_records tb' = map f (tb_records tb)"
    and "tb_identifiers tb' = tb_identifiers tb" and "tb_relationships tb' = tb_relationships tb"
    and "\<And>row. tr_rowid (f row) = tr_rowid row \<and> tr_source_id (f row) = tr_source_id row \<and>
      tr_source_record_id (f row) = tr_source_record_id row \<and> tr_canonical_id (f row) = tr_canonical_id row"
  shows "catalog_linked tb'"
proof -
  have "map tr_rowid (tb_records tb') = map tr_rowid (tb_records tb)"
    and "map (\<lambda>r. (tr_source_id r, tr_source_record_id r)) (tb_records tb') =
      map (\<lambda>r. (tr_source_id r, tr_source_record_id r)) (tb_records tb)"
    and "tr_rowid ` set (tb_records tb') = tr_rowid ` set (tb_records tb)"
    using assms(5) by (simp_all add: assms(2) image_image)
  moreover have "exact_identifiers_of tb' (f row) = exact_identifiers_of tb row" for row
    using assms(4,5) by (simp add: exact_identifiers_of_def)
  ultimately show ?thesis
    using assms by (simp add: catalog_linked_def tables_wf_def del: map_map)
qed

lemma reactivate_linked:
  assumes "catalog_linked tb"
  shows "catalog_linked (reactivate sid r old u tb)"
  by (rule linked_map [OF assms, where f = "\<lambda>row. if tr_source_id row = sid \<and>
        tr_source_record_id row = or_id r then row\<lparr>tr_active := True\<rparr> else row"])
     (simp_all add: reactivate_def insert_fts_def Let_def)

lemma import_record_linked:
  assumes "catalog_linked tb" and "import_osv_record_tx env s sid r raw now u res tb = Ok (res', tb')"
  shows "catalog_linked tb'"
proof (cases "find_record sid (or_id r) tb")
  case None
  with assms(2) have "import_changed env s sid r raw now u (find_record sid (or_id r) tb) res tb = Ok (res', tb')"
    by (simp add: import_osv_record_tx_def)
  then show ?thesis by (rule import_changed_linked [OF assms(1) refl])
next
  case (Some old)
  show ?thesis
  proof (cases "tr_raw_sha256 old = catalog_sha256 (km_sha env) raw")
    case True
    with assms(2) Some have "tb' = reactivate sid r old u tb" by (simp add: import_osv_record_tx_def)
    with reactivate_linked [OF assms(1)] show ?thesis by simp
  next
    case False
    with assms(2) Some
    have "import_changed env s sid r raw now u (find_record sid (or_id r) tb) res tb = Ok (res', tb')"
      by (simp add: import_osv_record_tx_def)
    then show ?thesis by (rule import_changed_linked [OF assms(1) refl])
  qed
qed

lemma import_records_linked:
  assumes "catalog_linked tb" and "import_records env s sid now u records res tb = Ok (res', tb')"
  shows "catalog_linked tb'"
  using assms
proof (induction records arbitrary: res tb)
  case (Cons bytes records)
  from Cons.prems(2) obtain r res1 tb1 where
    "import_osv_record_tx env s sid r bytes now u (res\<lparr>in_records_seen := in_records_seen res + 1\<rparr>) tb = Ok (res1, tb1)"
    and rest: "import_records env s sid now u records res1 tb1 = Ok (res', tb')"
    by (auto simp: ok_iff)
  from import_record_linked [OF Cons.prems(1) this(1)] have "catalog_linked tb1" .
  from Cons.IH [OF this rest] show ?case .
qed simp

lemma register_source_links: "register_source s now tb = Ok (sid, tb') \<Longrightarrow> same_links tb tb'"
  by (auto simp: register_source_def same_links_def Let_def split: option.splits if_splits)

text \<open>
  C10. An import keeps the catalog linked: whatever a batch contains, when it is committed any two
  records that share an exact identifier (their own or an alias, never an upstream or related
  one) have the same canonical id, and a lookup by an exact identifier of an active record finds
  that record.
\<close>

theorem import_keeps_links:
  assumes "catalog_linked tb" and "import_osv_batch env now s u records ready tb = Ok (res, tb')"
  shows "catalog_linked tb'
    \<and> (\<forall>a \<in> set (tb_records tb'). \<forall>b \<in> set (tb_records tb').
         exact_identifiers_of tb' a \<inter> exact_identifiers_of tb' b \<noteq> {} \<longrightarrow>
           tr_canonical_id a = tr_canonical_id b)
    \<and> (\<forall>a \<in> set (tb_records tb'). \<forall>i \<in> exact_identifiers_of tb' a.
         tr_active a \<longrightarrow> a \<in> set (records_of_identifier i tb'))"
proof -
  from assms(2) obtain imported_at sid tb1 where
    "register_source s imported_at tb = Ok (sid, tb1)"
    and recs: "import_records env s sid imported_at u records empty_result
      (if u then tb1 else set_metadata ''search_index_status'' ''dirty'' tb1) = Ok (res, tb')"
    by (auto simp: import_osv_batch_def ok_iff)
  then have "catalog_linked tb1" using assms(1) register_source_links linked_same by blast
  then have "catalog_linked (if u then tb1 else set_metadata ''search_index_status'' ''dirty'' tb1)"
    using linked_same [OF same_links_simps(5)] by simp
  from import_records_linked [OF this recs] have linked: "catalog_linked tb'" .
  then have key: "map_of (tb_identifiers tb') i = Some (tr_canonical_id a)"
    if "a \<in> set (tb_records tb')" "i \<in> exact_identifiers_of tb' a" for a i
    using that by (simp add: catalog_linked_def)
  have "tr_canonical_id a = tr_canonical_id b"
    if "a \<in> set (tb_records tb')" "b \<in> set (tb_records tb')" "i \<in> exact_identifiers_of tb' a"
      "i \<in> exact_identifiers_of tb' b" for a b i
    using key [OF that(1,3)] key [OF that(2,4)] by simp
  moreover have "a \<in> set (records_of_identifier i tb')"
    if "a \<in> set (tb_records tb')" "i \<in> exact_identifiers_of tb' a" "tr_active a" for a i
    using key [OF that(1,2)] that by (simp add: records_of_identifier_def)
  ultimately show ?thesis using linked by blast
qed

text \<open>
  C29. What an import does with one record: a record whose bytes differ from the stored ones ends
  as one active row of its source, and it touches the canonical ids \<open>T\<close> (its candidate id, the one
  it had, and those its exact identifiers led to). Its row and its exact identifiers get the least
  id of \<open>T\<close>; so does every other record and identifier that had an id of \<open>T\<close>, and all others keep
  theirs. The count of merged groups grows by the ids of \<open>T\<close> that disappear.
\<close>

theorem import_links_record:
  assumes "import_changed env s sid r raw now u (find_record sid (or_id r) tb) res tb = Ok (res', tb')"
    and "T = touched_ids env s sid r tb"
  shows "(\<exists>row \<in> set (tb_records tb').
      tr_source_id row = sid \<and> tr_source_record_id row = or_id r \<and> tr_active row \<and> tr_canonical_id row = Min T
    \<and> filter (\<lambda>x. tr_rowid x \<noteq> tr_rowid row) (tb_records tb') =
        map (\<lambda>x. x\<lparr>tr_canonical_id := moved_to T (tr_canonical_id x)\<rparr>)
          (filter (\<lambda>x. tr_rowid x \<noteq> tr_rowid row) (tb_records tb)))
  \<and> map_of (tb_identifiers tb') =
      (\<lambda>i. if i \<in> insert (or_id r) (set (or_aliases r)) then Some (Min T)
           else map_option (moved_to T) (map_of (tb_identifiers tb) i))
  \<and> in_canonical_groups_merged res' = in_canonical_groups_merged res + (card T - 1)"
proof -
  from import_changed_effect [OF assms] obtain rowid where effect:
    "imported_row tb' rowid sid (or_id r) (Min T)"
    "filter (\<lambda>x. tr_rowid x \<noteq> rowid) (tb_records tb') =
       map (\<lambda>x. x\<lparr>tr_canonical_id := moved_to T (tr_canonical_id x)\<rparr>)
         (filter (\<lambda>x. tr_rowid x \<noteq> rowid) (tb_records tb))"
    "map_of (tb_identifiers tb') =
       (\<lambda>i. if i \<in> insert (or_id r) (set (or_aliases r)) then Some (Min T)
            else map_option (moved_to T) (map_of (tb_identifiers tb) i))"
    "in_canonical_groups_merged res' = in_canonical_groups_merged res + (card T - 1)" .
  from effect(1) obtain row where "row \<in> set (tb_records tb')" "tr_rowid row = rowid"
    "tr_source_id row = sid \<and> tr_source_record_id row = or_id r \<and> tr_active row \<and> tr_canonical_id row = Min T"
    unfolding imported_row_def by blast
  with effect(2) have "\<exists>row \<in> set (tb_records tb').
      tr_source_id row = sid \<and> tr_source_record_id row = or_id r \<and> tr_active row \<and> tr_canonical_id row = Min T
    \<and> filter (\<lambda>x. tr_rowid x \<noteq> tr_rowid row) (tb_records tb') =
        map (\<lambda>x. x\<lparr>tr_canonical_id := moved_to T (tr_canonical_id x)\<rparr>)
          (filter (\<lambda>x. tr_rowid x \<noteq> tr_rowid row) (tb_records tb))" by blast
  moreover note effect(3,4)
  ultimately show ?thesis by (intro conjI)
qed

section \<open>Example\<close>

text \<open>A catalog without records, and two advisories of which the first names the second.\<close>

definition empty_tables :: catalog_tables where
  "empty_tables = \<lparr>tb_sources = [], tb_canonicals = [], tb_redirects = [], tb_revisions = [], tb_records = [],
     tb_identifiers = [], tb_relationships = [], tb_affected = [], tb_references = [], tb_fts = [],
     tb_metadata = [(''search_index_status'', ''ready'')]\<rparr>"

definition sample_osv :: "string \<Rightarrow> string list \<Rightarrow> osv_record" where
  "sample_osv rid aliases = \<lparr>or_schema_version = None, or_id = rid, or_modified = ''t'', or_published = None,
     or_withdrawn = None, or_aliases = aliases, or_upstream = [], or_related = [], or_summary = None,
     or_details = None, or_affected = [], or_references = []\<rparr>"

definition last_sha :: digest_fun where
  "last_sha x = [last x]"

definition sample_import_env :: catalog_import_env where
  "sample_import_env = \<lparr>km_sha = last_sha, km_time = (\<lambda>_. Some 0),
     km_record = (\<lambda>b. if b = ''a'' then Some (sample_osv ''A'' [''B'']) else Some (sample_osv ''B'' [])),
     km_ranges_json = (\<lambda>_. Some []), km_versions_json = (\<lambda>_. Some [])\<rparr>"

definition sample_catalog_source :: catalog_source where
  "sample_catalog_source = \<lparr>ks_name = ''s'', ks_license_expression = ''l'',
     ks_license_evidence_sha256 = replicate 64 CHR ''0'', ks_locator = ''u''\<rparr>"

lemma empty_tables_linked [simp]: "catalog_linked empty_tables"
  by (simp add: catalog_linked_def tables_wf_def empty_tables_def)

lemma canonical_id_last:
  "rid \<noteq> [] \<Longrightarrow> canonical_id last_sha name rid = ''sf_vuln_'' @ hex_byte (last rid)"
  by (simp add: canonical_id_def last_sha_def hashed_fields_def field_bytes_def encode_hex_def)

lemmas import_eval =
  import_osv_batch_def catalog_validate_source_def catalog_validate_text_def sample_catalog_source_def
  white1_def white2_def white3_def byte_class_defs byte_def chars_count_def control1_def kept_control_def
  bd_valid_sha256_def empty_tables_def register_source_def next_rowid_def MAX_IMPORT_RECORDS_def
  validate_record_size_def MAX_OSV_RECORD_BYTES_def sample_import_env_def validate_osv_record_public_def
  sample_osv_def catalog_validate_identifier_def is_ascii_graphic_def catalog_validate_timestamp_def
  catalog_validate_optional_content_def MAX_IDENTIFIERS_PER_RECORD_def MAX_AFFECTED_PER_RECORD_def
  MAX_REFERENCES_PER_RECORD_def import_osv_record_tx_def find_record_def import_changed_def
  exact_identifiers_def canonical_id_last insert_canonical_or_ignore_def touched_canonicals_def
  List.map_filter_def link_identifiers_def upsert_identifier_def insert_revision_def catalog_sha256_def
  last_sha_def encode_hex_def hex_byte_def hex_digit_def store_record_def record_title_def record_details_def
  insert_fts_def insert_relationship_def touch_canonical_def empty_result_def Let_def
  merge_canonical_def redirect_value_def delete_record_rows_def

lemma sample_import_ok:
  "is_ok (import_osv_batch sample_import_env (Some ''now'') sample_catalog_source True [''b'', ''a''] (Ok ()) empty_tables)"
  by (simp add: import_eval run_simps less_char_def is_ok_def)

theorem import_keeps_links_witness:
  "\<exists>res tb. import_osv_batch sample_import_env (Some ''now'') sample_catalog_source True [''b'', ''a''] (Ok ())
     empty_tables = Ok (res, tb) \<and> catalog_linked tb"
proof -
  obtain res tb where ok: "import_osv_batch sample_import_env (Some ''now'') sample_catalog_source True
      [''b'', ''a''] (Ok ()) empty_tables = Ok (res, tb)"
    using sample_import_ok by (auto simp: is_ok_iff)
  with import_keeps_links [OF empty_tables_linked ok] show ?thesis by blast
qed

lemma sample_record_ok:
  "is_ok (import_changed sample_import_env sample_catalog_source 1 (sample_osv ''A'' [''B'']) ''a'' ''now'' True
     (find_record 1 (or_id (sample_osv ''A'' [''B''])) empty_tables) empty_result empty_tables)"
  by (simp add: import_eval run_simps less_char_def is_ok_def)

lemma hex_byte_A: "hex_byte (CHR ''A'') = ''41''"
  by code_simp

lemma sample_touched:
  "touched_ids sample_import_env sample_catalog_source 1 (sample_osv ''A'' [''B'']) empty_tables = {''sf_vuln_41''}"
  by (auto simp: touched_ids_def find_record_def empty_tables_def sample_import_env_def sample_osv_def
      canonical_id_last hex_byte_A)

theorem import_links_record_witness:
  "\<exists>res tb. import_changed sample_import_env sample_catalog_source 1 (sample_osv ''A'' [''B'']) ''a'' ''now'' True
     (find_record 1 (or_id (sample_osv ''A'' [''B''])) empty_tables) empty_result empty_tables = Ok (res, tb) \<and>
     map_of (tb_identifiers tb) ''A'' = Some ''sf_vuln_41'' \<and> map_of (tb_identifiers tb) ''B'' = Some ''sf_vuln_41''"
proof -
  obtain res tb where ok: "import_changed sample_import_env sample_catalog_source 1 (sample_osv ''A'' [''B''])
      ''a'' ''now'' True (find_record 1 (or_id (sample_osv ''A'' [''B''])) empty_tables) empty_result empty_tables =
      Ok (res, tb)"
    using sample_record_ok by (auto simp: is_ok_iff)
  from import_links_record [OF ok refl, unfolded sample_touched] have
    "map_of (tb_identifiers tb) ''A'' = Some ''sf_vuln_41'' \<and> map_of (tb_identifiers tb) ''B'' = Some ''sf_vuln_41''"
    by (simp add: sample_osv_def)
  with ok show ?thesis by blast
qed

end
