(* ===== verification/CanonicalFacts.thy ===== *)
theory CanonicalFacts
  imports Canonicalization CatalogFacts
begin

text \<open>
  What the canonical rebuild computes: the components of the graph in which two active records
  are joined when they share an exact identifier, each with the least candidate id of its records.
\<close>

section \<open>Claims\<close>

text \<open>The loops over the records and the alias rows claim identifiers for indices, one by one.\<close>

fun own_all :: "(string \<times> nat) list \<Rightarrow> owners \<Rightarrow> owners option" where
  "own_all [] st = Some st"
| "own_all ((x, k) # cs) st = Option.bind (own_identifier x k st) (own_all cs)"

definition claim_graph :: "(string \<times> nat) set \<Rightarrow> (nat \<times> nat) set" where
  "claim_graph C = {(i, j). \<exists>x. (x, i) \<in> C \<and> (x, j) \<in> C}"

definition owners_inv :: "nat \<Rightarrow> (string \<times> nat) set \<Rightarrow> owners \<Rightarrow> bool" where
  "owners_inv n C st \<longleftrightarrow>
     represents (snd st) n (claim_graph C) \<and> bt_wf (fst st) \<and>
     (\<forall>x k. map_of (fst st) x = Some k \<longrightarrow> (x, k) \<in> C) \<and> dom (map_of (fst st)) = fst ` C"

lemma connected_refl [simp]: "connected E i i"
  by (simp add: connected_def)

lemma connected_edge: "(i, j) \<in> E \<Longrightarrow> connected E i j"
  unfolding connected_def by blast

lemma connected_le:
  assumes "\<And>a b. (a, b) \<in> E' \<Longrightarrow> connected E a b" and "connected E' i j"
  shows "connected E i j"
  using assms(2) unfolding connected_def [of E']
proof (induction rule: rtrancl_induct)
  case (step y z)
  then show ?case using assms(1) connected_sym connected_trans by blast
qed simp

lemma claim_connected:
  assumes "(x, p) \<in> C"
  shows "connected (claim_graph (insert (x, k) C)) i j \<longleftrightarrow> connected (insert (p, k) (claim_graph C)) i j"
proof
  show "connected (insert (p, k) (claim_graph C)) i j" if "connected (claim_graph (insert (x, k) C)) i j"
    using _ that
  proof (rule connected_le)
    fix a b assume "(a, b) \<in> claim_graph (insert (x, k) C)"
    then consider "(a, b) \<in> claim_graph C" | "a = k" "b = k" | "a = k" "(x, b) \<in> C" | "b = k" "(x, a) \<in> C"
      by (auto simp: claim_graph_def)
    moreover have "connected (insert (p, k) (claim_graph C)) c k" if "(x, c) \<in> C" for c
    proof -
      have "(c, p) \<in> claim_graph C" using that assms by (auto simp: claim_graph_def)
      then show ?thesis by (meson connected_edge connected_trans insertCI)
    qed
    ultimately show "connected (insert (p, k) (claim_graph C)) a b"
      by cases (auto intro: connected_edge connected_sym)
  qed
next
  show "connected (claim_graph (insert (x, k) C)) i j" if "connected (insert (p, k) (claim_graph C)) i j"
    using _ that
    by (rule connected_le) (use assms in \<open>auto simp: claim_graph_def intro!: connected_edge\<close>)
qed

lemma fresh_claim_connected:
  assumes "x \<notin> fst ` C"
  shows "connected (claim_graph (insert (x, k) C)) i j \<longleftrightarrow> connected (claim_graph C) i j"
proof -
  have "(x, a) \<notin> C" for a using assms by force
  then have "claim_graph (insert (x, k) C) = insert (k, k) (claim_graph C)"
    by (auto simp: claim_graph_def)
  then show ?thesis using connected_trans [of "claim_graph C" i k j] by (auto simp: connected_insert)
qed

lemma represents_cong:
  "(\<And>i j. connected E i j \<longleftrightarrow> connected E' i j) \<Longrightarrow> represents d n E \<longleftrightarrow> represents d n E'"
  by (simp add: represents_def)

lemma own_identifier_inv:
  assumes "owners_inv n C st" and "k < n" and "\<forall>(x, j) \<in> C. j < n"
  shows "\<exists>st'. own_identifier x k st = Some st' \<and> owners_inv n (insert (x, k) C) st'"
proof -
  obtain own d where st: "st = (own, d)" by (cases st)
  show ?thesis
  proof (cases "map_of own x")
    case None
    then have "x \<notin> dom (map_of own)" by (simp add: domIff)
    with assms(1) have fresh: "x \<notin> fst ` C" by (simp add: owners_inv_def st)
    have "owners_inv n (insert (x, k) C) (bt_insert x k own, d)"
      using assms(1) unfolding owners_inv_def st
      by (simp add: represents_cong [OF fresh_claim_connected [OF fresh]])
    with None show ?thesis by (simp add: own_identifier_def st)
  next
    case (Some p)
    with assms(1) have p: "(x, p) \<in> C" by (auto simp: owners_inv_def st)
    with assms(3) have "p < n" by auto
    from assms(1) have "represents d n (claim_graph C)" by (simp add: owners_inv_def st)
    from represents_union [OF this \<open>p < n\<close> assms(2)] obtain d' where
      d': "ds_union p k d = Some d'" "represents d' n (insert (p, k) (claim_graph C))" by blast
    then have "owners_inv n (insert (x, k) C) (bt_insert x k own, d')"
      using assms(1) unfolding owners_inv_def st
      by (simp add: represents_cong [OF claim_connected [OF p]])
    with Some d'(1) show ?thesis by (simp add: own_identifier_def st)
  qed
qed

lemma own_all_inv:
  assumes "owners_inv n C st" and "\<forall>(x, j) \<in> C. j < n" and "\<forall>(x, j) \<in> set cs. j < n"
  shows "\<exists>st'. own_all cs st = Some st' \<and> owners_inv n (C \<union> set cs) st'"
  using assms
proof (induction cs arbitrary: C st)
  case (Cons c cs)
  obtain x k where c: "c = (x, k)" by (cases c)
  with Cons.prems have "k < n" by simp
  from own_identifier_inv [OF Cons.prems(1) this Cons.prems(2)] obtain st' where
    st': "own_identifier x k st = Some st'" "owners_inv n (insert (x, k) C) st'" by blast
  from Cons.IH [OF st'(2)] Cons.prems(2,3) c st'(1) show ?case by auto
qed simp

lemma owners_inv_start: "owners_inv n {} ([], ds_new n)"
  using represents_new by (simp add: owners_inv_def claim_graph_def)

section \<open>The two loops\<close>

definition record_claims :: "nat \<Rightarrow> record_state list \<Rightarrow> (string \<times> nat) list" where
  "record_claims k ss = zip (map rb_source_record_id ss) [k..<k + length ss]"

lemma own_records_all: "own_records k ss st = own_all (record_claims k ss) st"
proof (induction ss arbitrary: k st)
  case (Cons s ss)
  have "[k..<k + length (s # ss)] = k # [k + 1..<(k + 1) + length ss]"
    by (simp add: upt_conv_Cons del: upt_Suc)
  then have "record_claims k (s # ss) = (rb_source_record_id s, k) # record_claims (k + 1) ss"
    by (simp add: record_claims_def del: upt_Suc)
  moreover have "own_records (k + 1) ss = own_all (record_claims (k + 1) ss)" using Cons.IH by (simp add: fun_eq_iff)
  ultimately show ?case by simp
qed (simp add: record_claims_def)

definition alias_claims :: "record_state list \<Rightarrow> (int \<times> string) list \<Rightarrow> (string \<times> nat) list" where
  "alias_claims ss rows = map (\<lambda>(rowid, x). (x, the (row_index ss rowid))) rows"

lemma own_aliases_all:
  assumes "own_aliases ss rows links st = Some (Ok (links', st'))"
  shows "own_all (alias_claims ss rows) st = Some st' \<and> (\<forall>row \<in> set rows. row_index ss (fst row) \<noteq> None)"
  using assms
proof (induction rows arbitrary: links st)
  case (Cons row rows)
  obtain rowid x where row: "row = (rowid, x)" by (cases row)
  with Cons.prems obtain k st1 where k: "row_index ss rowid = Some k" "own_identifier x k st = Some st1"
    and rest: "own_aliases ss rows (links + 1) st1 = Some (Ok (links', st'))"
    by (auto simp: bind_eq_Some_conv split: if_splits option.splits)
  from Cons.IH [OF rest] k row show ?case by (simp add: alias_claims_def)
qed (simp add: alias_claims_def)

lemma row_index_bound: "row_index ss rowid = Some k \<Longrightarrow> k < length ss \<and> rb_rowid (ss ! k) = rowid"
  unfolding row_index_def by (auto dest!: map_of_SomeD simp: in_set_zip)

lemma own_aliases_returns:
  assumes "owners_inv n C st" and "\<forall>(x, j) \<in> C. j < n" and "n = length ss"
  shows "own_aliases ss rows links st \<noteq> None"
  using assms
proof (induction rows arbitrary: links st C)
  case (Cons row rows)
  obtain rowid x where row: "row = (rowid, x)" by (cases row)
  show ?case
  proof (cases "row_index ss rowid")
    case (Some k)
    then have "k < n" using row_index_bound Cons.prems(3) by blast
    from own_identifier_inv [OF Cons.prems(1) this Cons.prems(2)] obtain st' where
      st': "own_identifier x k st = Some st'" "owners_inv n (insert (x, k) C) st'" by blast
    have "\<forall>(x, j) \<in> insert (x, k) C. j < n" using Cons.prems(2) \<open>k < n\<close> by auto
    from Cons.IH [OF st'(2) this Cons.prems(3)] Some st'(1) row show ?thesis by simp
  qed (simp add: row)
qed simp

section \<open>Selection\<close>

definition least_of :: "string set \<Rightarrow> string option" where
  "least_of S = (if S = {} then None else Some (Min S))"

lemma select_candidate_least:
  assumes "map_of roots root = least_of S" and "finite S"
  shows "map_of (select_candidate root c roots) r =
    (if r = root then least_of (insert c S) else map_of roots r)"
proof (cases "S = {}")
  case True
  with assms(1) show ?thesis by (simp add: select_candidate_def least_of_def)
next
  case False
  define m where "m = Min S"
  have "Min (insert c S) = min c m" using False assms(2) by (simp add: m_def)
  moreover have "map_of roots root = Some m" using False assms(1) by (simp add: least_of_def m_def)
  ultimately show ?thesis by (auto simp: select_candidate_def least_of_def min_def)
qed

definition same_roots :: "disjoint_set \<Rightarrow> disjoint_set \<Rightarrow> bool" where
  "same_roots d d' \<longleftrightarrow> (\<forall>j s. rooted (ds_parent d') j s \<longleftrightarrow> rooted (ds_parent d) j s)"

lemma same_roots_refl [simp]: "same_roots d d"
  by (simp add: same_roots_def)

lemma same_roots_trans: "same_roots a b \<Longrightarrow> same_roots b c \<Longrightarrow> same_roots a c"
  by (simp add: same_roots_def)

text \<open>The candidates of the records at and after an index, by root.\<close>

definition candidates_at :: "disjoint_set \<Rightarrow> nat \<Rightarrow> record_state list \<Rightarrow> nat \<Rightarrow> string set" where
  "candidates_at d k ss r = {rb_candidate_id (ss ! i) | i. i < length ss \<and> rooted (ds_parent d) (k + i) r}"

lemma candidates_at_Nil [simp]: "candidates_at d k [] r = {}"
  by (simp add: candidates_at_def)

lemma candidates_at_Cons:
  "candidates_at d k (s # ss) r =
     (if rooted (ds_parent d) k r then insert (rb_candidate_id s) (candidates_at d (k + 1) ss r)
      else candidates_at d (k + 1) ss r)"
proof -
  have mem: "c \<in> candidates_at d k ss r \<longleftrightarrow>
      (\<exists>i < length ss. c = rb_candidate_id (ss ! i) \<and> rooted (ds_parent d) (k + i) r)" for c k ss
    by (auto simp: candidates_at_def)
  have "c \<in> candidates_at d k (s # ss) r \<longleftrightarrow>
      rooted (ds_parent d) k r \<and> c = rb_candidate_id s \<or> c \<in> candidates_at d (k + 1) ss r" for c
    unfolding mem length_Cons Ex_less_Suc2 by auto
  then show ?thesis by auto
qed

lemma candidates_at_same: "same_roots d d' \<Longrightarrow> candidates_at d' k ss r = candidates_at d k ss r"
  by (simp add: candidates_at_def same_roots_def)

lemma finite_candidates [simp]: "finite (candidates_at d k ss r)"
  by (simp add: candidates_at_def)

lemma select_by_root_least:
  assumes "represents d n E" and "k + length ss \<le> n" and "bt_wf roots"
    and "\<And>r. map_of roots r = least_of (S r)" and "\<And>r. finite (S r)"
  shows "\<exists>roots' d'. select_by_root k ss (roots, d) = Some (roots', d') \<and> represents d' n E \<and>
    same_roots d d' \<and> bt_wf roots' \<and> (\<forall>r. map_of roots' r = least_of (S r \<union> candidates_at d k ss r))"
  using assms
proof (induction ss arbitrary: k roots d S)
  case Nil
  then show ?case by simp
next
  case (Cons s ss)
  then have "k < n" by simp
  from represents_find [OF Cons.prems(1) this] obtain root d1 where
    find: "ds_find k d = Some (root, d1)" "rooted (ds_parent d) k root" "represents d1 n E" "same_roots d d1"
    by (auto simp: same_roots_def)
  define S1 where "S1 r = (if r = root then insert (rb_candidate_id s) (S r) else S r)" for r
  have "map_of (select_candidate root (rb_candidate_id s) roots) r = least_of (S1 r)" for r
    using select_candidate_least [OF Cons.prems(4,5)] Cons.prems(4) by (simp add: S1_def)
  moreover have "finite (S1 r)" for r using Cons.prems(5) by (simp add: S1_def)
  moreover have "bt_wf (select_candidate root (rb_candidate_id s) roots)"
    using Cons.prems(3) by (simp add: select_candidate_def split: option.split)
  moreover have "k + 1 + length ss \<le> n" using Cons.prems(2) by simp
  ultimately obtain roots' d' where
    rest: "select_by_root (k + 1) ss (select_candidate root (rb_candidate_id s) roots, d1) = Some (roots', d')"
    "represents d' n E" "same_roots d1 d'" "bt_wf roots'"
    "\<forall>r. map_of roots' r = least_of (S1 r \<union> candidates_at d1 (k + 1) ss r)"
    using Cons.IH [OF find(3)] by blast
  have "S1 r \<union> candidates_at d1 (k + 1) ss r = S r \<union> candidates_at d k (s # ss) r" for r
    using find(2) rooted_unique by (auto simp: S1_def candidates_at_Cons candidates_at_same [OF find(4)])
  with rest find(1) same_roots_trans [OF find(4) rest(3)] show ?case by simp
qed

lemma selected_of_all:
  assumes "represents d n E" and "\<forall>k \<in> set ks. k < n"
    and "\<And>k r. k \<in> set ks \<Longrightarrow> rooted (ds_parent d) k r \<Longrightarrow> map_of roots r = Some (sel k)"
  shows "\<exists>d'. selected_of err roots ks d = Some (Ok (map sel ks, d')) \<and> represents d' n E \<and> same_roots d d'"
  using assms
proof (induction ks arbitrary: d)
  case (Cons k ks)
  then have "k < n" by simp
  from represents_find [OF Cons.prems(1) this] obtain root d1 where
    find: "ds_find k d = Some (root, d1)" "rooted (ds_parent d) k root" "represents d1 n E" "same_roots d d1"
    by (auto simp: same_roots_def)
  have root: "map_of roots root = Some (sel k)" using Cons.prems(3) find(2) by simp
  have "map_of roots r = Some (sel j)" if "j \<in> set ks" "rooted (ds_parent d1) j r" for j r
    using Cons.prems(3) that find(4) by (simp add: same_roots_def)
  with Cons.IH [OF find(3)] Cons.prems(2) obtain d' where
    "selected_of err roots ks d1 = Some (Ok (map sel ks, d'))" "represents d' n E" "same_roots d1 d'" by auto
  with find(1,4) root show ?case by (auto simp: run_then_def intro: same_roots_trans)
qed simp

text \<open>The canonical id of an index: the least candidate of its component.\<close>

definition component_id :: "record_state list \<Rightarrow> (nat \<times> nat) set \<Rightarrow> nat \<Rightarrow> string" where
  "component_id ss E k = Min {rb_candidate_id (ss ! j) | j. j < length ss \<and> connected E k j}"

lemma component_candidates:
  assumes "represents d (length ss) E" and "k < length ss" and "rooted (ds_parent d) k r"
  shows "candidates_at d 0 ss r = {rb_candidate_id (ss ! j) | j. j < length ss \<and> connected E k j}"
proof -
  have "rooted (ds_parent d) j r \<longleftrightarrow> connected E k j" if "j < length ss" for j
  proof -
    have "rooted (ds_parent d) j r \<longleftrightarrow> same_set d k j"
      using same_set_root(2) [OF assms(3)] .. 
    then show ?thesis using assms(1,2) that by (simp add: represents_def)
  qed
  then show ?thesis by (auto simp: candidates_at_def)
qed

lemma component_id_least:
  assumes "represents d (length ss) E" and "k < length ss" and "rooted (ds_parent d) k r"
  shows "least_of (candidates_at d 0 ss r) = Some (component_id ss E k)"
  using component_candidates [OF assms] assms(2)
  by (auto simp: least_of_def component_id_def)

lemma component_id_in:
  assumes "k < length ss"
  shows "\<exists>j. j < length ss \<and> connected E k j \<and> component_id ss E k = rb_candidate_id (ss ! j)"
proof -
  let ?C = "{rb_candidate_id (ss ! j) | j. j < length ss \<and> connected E k j}"
  have "finite ?C" by simp
  moreover have "?C \<noteq> {}" using assms by auto
  ultimately have "Min ?C \<in> ?C" by (rule Min_in)
  then show ?thesis by (auto simp: component_id_def)
qed

text \<open>Two indices have the same canonical id exactly when they are in one component.\<close>

lemma component_id_eq:
  assumes "i < length ss" and "j < length ss" and "distinct (map rb_candidate_id ss)"
  shows "component_id ss E i = component_id ss E j \<longleftrightarrow> connected E i j"
proof
  assume "connected E i j"
  then have "connected E i k \<longleftrightarrow> connected E j k" for k using connected_sym connected_trans by blast
  then show "component_id ss E i = component_id ss E j" by (simp add: component_id_def)
next
  assume eq: "component_id ss E i = component_id ss E j"
  from component_id_in [OF assms(1)] obtain a where
    a: "a < length ss" "connected E i a" "component_id ss E i = rb_candidate_id (ss ! a)" by blast
  from component_id_in [OF assms(2)] obtain b where
    b: "b < length ss" "connected E j b" "component_id ss E j = rb_candidate_id (ss ! b)" by blast
  from a b eq have "rb_candidate_id (ss ! a) = rb_candidate_id (ss ! b)" by simp
  with assms(3) a(1) b(1) have "a = b" by (simp add: distinct_conv_nth) metis
  with a b show "connected E i j" using connected_sym connected_trans by blast
qed

section \<open>The run\<close>

definition claims_of :: "record_state list \<Rightarrow> (int \<times> string) list \<Rightarrow> (string \<times> nat) set" where
  "claims_of ss rows = set (record_claims 0 ss) \<union> set (alias_claims ss rows)"

lemma record_claims_set: "set (record_claims 0 ss) = {(rb_source_record_id (ss ! k), k) | k. k < length ss}"
  by (auto simp: record_claims_def in_set_zip) (metis nth_map nth_upt add_0 length_map length_upt diff_zero)

lemma record_claims_bound: "\<forall>(x, j) \<in> set (record_claims 0 ss). j < length ss"
  by (auto simp: record_claims_set)

text \<open>The writes of a rebuild, for the components of a graph and the owners of the identifiers.\<close>

definition rebuild_writes ::
  "digest_fun \<Rightarrow> string \<Rightarrow> catalog_tables \<Rightarrow> (nat \<times> nat) set \<Rightarrow> (nat, string) btree_map \<Rightarrow>
     (string, nat) btree_map \<Rightarrow> catalog_error + catalog_tables" where
  "rebuild_writes sha t tb E roots own =
     (let ss = active_states sha tb;
          pairs = zip ss (map (component_id ss E) [0..<length ss])
      in write_rebuild sha t roots pairs (zip (map fst own) (map (component_id ss E) (map snd own)))
           (redirects_of (targets_of (map (\<lambda>(s, new). (rb_old_canonical_id s, new)) pairs)) (tb_redirects tb)) tb)"

lemma rebuild_run:
  fixes sha tb
  defines "ss \<equiv> active_states sha tb"
  defines "E \<equiv> claim_graph (claims_of ss (alias_rows tb))"
  assumes "length ss \<le> MAX_CANONICAL_REBUILD_RECORDS"
  shows "(\<exists>e. rebuild_canonicalization sha (Some t) (Ok ()) tb = Some (Err e) \<and>
      (\<exists>st1. own_aliases ss (alias_rows tb) (length ss) st1 = Some (Err e)))
    \<or> (\<exists>roots own res. bt_wf own \<and> dom (map_of own) = fst ` claims_of ss (alias_rows tb) \<and>
        (\<forall>x k. map_of own x = Some k \<longrightarrow> (x, k) \<in> claims_of ss (alias_rows tb)) \<and>
        (\<forall>row \<in> set (alias_rows tb). row_index ss (fst row) \<noteq> None) \<and>
        rebuild_canonicalization sha (Some t) (Ok ()) tb =
          Some (and_then (rebuild_writes sha t tb E roots own) (\<lambda>tb'. Ok (res, tb'))))"
proof -
  let ?n = "length ss" and ?rows = "alias_rows tb" and ?C = "claims_of ss (alias_rows tb)"
  from own_all_inv [OF owners_inv_start, where n = ?n and cs = "record_claims 0 ss"] record_claims_bound
  obtain st1 where st1: "own_records 0 ss ([], ds_new ?n) = Some st1"
    "owners_inv ?n (set (record_claims 0 ss)) st1" by (auto simp: own_records_all)
  have run: "rebuild_canonicalization sha (Some t) (Ok ()) tb =
      run_then (own_aliases ss ?rows ?n st1) (\<lambda>(links, own, d).
      run_then (returns (select_by_root 0 ss ([], d))) (\<lambda>(roots, d1).
      run_then (selected_of (CatalogInvalidRecord ''canonical.component'') roots [0..<?n] d1) (\<lambda>(selected, d2).
      run_then (selected_of (CatalogInvalidRecord ''canonical.identifier'') roots (map snd own) d2) (\<lambda>(owner_ids, _).
      (let pairs = zip ss selected;
           old_to_new = targets_of (map (\<lambda>(s, new). (rb_old_canonical_id s, new)) pairs);
           new_to_old = targets_of (map (\<lambda>(s, new). (new, rb_old_canonical_id s)) pairs);
           redirects = redirects_of old_to_new (tb_redirects tb)
       in run_then (Some (write_rebuild sha t roots pairs (zip (map fst own) owner_ids) redirects tb))
            (\<lambda>tb'. Some (Ok
              (\<lparr>rq_rebuild_id = rebuild_identity sha pairs, rq_active_records = ?n,
                rq_exact_relationships = links, rq_old_components = length old_to_new,
                rq_new_components = length roots,
                rq_split_components = length (filter (\<lambda>(_, ts). 1 < length ts) old_to_new),
                rq_merged_components = length (filter (\<lambda>(_, ts). 1 < length ts) new_to_old),
                rq_unambiguous_redirects = length redirects\<rparr>, tb'))))))))"
    using assms(3) st1(1)
    by (simp add: rebuild_canonicalization_def ss_def run_then_def returns_def Let_def)
  have returns: "own_aliases ss ?rows ?n st1 \<noteq> None"
    by (rule own_aliases_returns [OF st1(2) record_claims_bound refl])
  show ?thesis
  proof (cases "own_aliases ss ?rows ?n st1")
    case None
    with returns show ?thesis by simp
  next
    case (Some r)
    show ?thesis
    proof (cases r)
      case (Inl e)
      with Some run have "rebuild_canonicalization sha (Some t) (Ok ()) tb = Some (Err e)"
        by (simp add: run_then_def)
      with Some Inl show ?thesis by blast
    next
      case (Inr x)
      obtain links own d where x: "x = (links, own, d)" by (cases x)
      with Some Inr have ok: "own_aliases ss ?rows ?n st1 = Some (Ok (links, (own, d)))" by simp
      from own_aliases_all [OF ok] have all: "own_all (alias_claims ss ?rows) st1 = Some (own, d)"
        and rows: "\<forall>row \<in> set ?rows. row_index ss (fst row) \<noteq> None" by simp_all
      have "\<forall>(y, j) \<in> set (alias_claims ss ?rows). j < ?n"
      proof safe
        fix y j assume "(y, j) \<in> set (alias_claims ss ?rows)"
        then obtain rowid where row: "(rowid, y) \<in> set ?rows" "j = the (row_index ss rowid)"
          by (auto simp: alias_claims_def)
        with rows obtain k where "row_index ss rowid = Some k" by force
        with row(2) row_index_bound show "j < ?n" by simp
      qed
      from own_all_inv [OF st1(2) record_claims_bound this] all
      have inv: "owners_inv ?n ?C (own, d)" by (simp add: claims_of_def)
      then have rep: "represents d ?n E" by (simp add: owners_inv_def E_def)
      have least_Nil: "map_of [] r = least_of {}" for r :: nat by (simp add: least_of_def)
      from select_by_root_least [OF rep, of 0 ss "[]" "\<lambda>_. {}"] obtain roots d1 where
        sel: "select_by_root 0 ss ([], d) = Some (roots, d1)" "represents d1 ?n E" "same_roots d d1"
          "\<forall>r. map_of roots r = least_of (candidates_at d 0 ss r)" by (auto simp: least_of_def)
      have sel_of: "map_of roots r = Some (component_id ss E k)"
        if "k < ?n" "rooted (ds_parent d) k r" for k r
        using sel(4) component_id_least [OF rep that] by simp
      have sel1: "map_of roots r = Some (component_id ss E k)"
        if "k < ?n" "rooted (ds_parent d1) k r" for k r
        using sel_of that sel(3) by (simp add: same_roots_def)
      have "\<exists>d'. selected_of (CatalogInvalidRecord ''canonical.component'') roots [0..<?n] d1 =
          Some (Ok (map (component_id ss E) [0..<?n], d')) \<and> represents d' ?n E \<and> same_roots d1 d'"
        by (rule selected_of_all [OF sel(2)]) (use sel1 in auto)
      then obtain d2 where
        one: "selected_of (CatalogInvalidRecord ''canonical.component'') roots [0..<?n] d1 =
          Some (Ok (map (component_id ss E) [0..<?n], d2))" "represents d2 ?n E" "same_roots d1 d2" by blast
      have bound: "\<forall>k \<in> set (map snd own). k < ?n"
      proof
        fix k assume "k \<in> set (map snd own)"
        then obtain y where "(y, k) \<in> set own" by auto
        then have "map_of own y = Some k" using inv by (simp add: owners_inv_def bt_get_iff)
        then have "(y, k) \<in> ?C" using inv by (simp add: owners_inv_def)
        then show "k < ?n"
          using record_claims_bound [of ss] \<open>\<forall>(y, j) \<in> set (alias_claims ss ?rows). j < ?n\<close>
          by (auto simp: claims_of_def)
      qed
      have "\<exists>d'. selected_of (CatalogInvalidRecord ''canonical.identifier'') roots (map snd own) d2 =
          Some (Ok (map (component_id ss E) (map snd own), d')) \<and> represents d' ?n E \<and> same_roots d2 d'"
        by (rule selected_of_all [OF one(2) bound]) (use sel1 one(3) bound in \<open>auto simp: same_roots_def\<close>)
      then obtain d3 where
        two: "selected_of (CatalogInvalidRecord ''canonical.identifier'') roots (map snd own) d2 =
          Some (Ok (map (component_id ss E) (map snd own), d3))" by blast
      have "\<exists>res. rebuild_canonicalization sha (Some t) (Ok ()) tb =
          Some (and_then (rebuild_writes sha t tb E roots own) (\<lambda>tb'. Ok (res, tb')))"
        unfolding run ok rebuild_writes_def ss_def [symmetric]
        by (simp add: run_then_def returns_def sel(1) one(1) two [simplified] Let_def and_then_def
            split: sum.split)
      then obtain res where "rebuild_canonicalization sha (Some t) (Ok ()) tb =
          Some (and_then (rebuild_writes sha t tb E roots own) (\<lambda>tb'. Ok (res, tb')))" ..
      moreover have "bt_wf own" "dom (map_of own) = fst ` ?C" "\<forall>x k. map_of own x = Some k \<longrightarrow> (x, k) \<in> ?C"
        using inv by (simp_all add: owners_inv_def)
      ultimately show ?thesis using rows by blast
    qed
  qed
qed

end
