(* ===== verification/RebuildFacts.thy ===== *)
theory RebuildFacts
  imports CanonicalFacts
begin

text \<open>
  The canonical rebuild on the tables: it always returns, and what it leaves are the components of
  the active records, for the records and for every identifier.
\<close>

section \<open>Rows and indices\<close>

definition active_rows :: "catalog_tables \<Rightarrow> record_row set" where
  "active_rows tb = {r \<in> set (tb_records tb). tr_active r}"

text \<open>The foreign key of \<open>source_records.source_id\<close>.\<close>

definition sources_known :: "catalog_tables \<Rightarrow> bool" where
  "sources_known tb \<longleftrightarrow> (\<forall>r \<in> set (tb_records tb). source_name_of tb (tr_source_id r) \<noteq> None)"

definition state_of_row :: "digest_fun \<Rightarrow> catalog_tables \<Rightarrow> record_row \<Rightarrow> record_state" where
  "state_of_row sha tb r = record_state_of sha (the (source_name_of tb (tr_source_id r))) r"

definition candidate_of_row :: "digest_fun \<Rightarrow> catalog_tables \<Rightarrow> record_row \<Rightarrow> string" where
  "candidate_of_row sha tb r = canonical_id sha (the (source_name_of tb (tr_source_id r))) (tr_source_record_id r)"

lemma state_of_row_simps [simp]:
  "rb_rowid (state_of_row sha tb r) = tr_rowid r"
  "rb_source_record_id (state_of_row sha tb r) = tr_source_record_id r"
  "rb_candidate_id (state_of_row sha tb r) = candidate_of_row sha tb r"
  "rb_old_canonical_id (state_of_row sha tb r) = tr_canonical_id r"
  by (simp_all add: state_of_row_def record_state_of_def candidate_of_row_def)

lemma map_filter_some:
  "(\<And>x. x \<in> set xs \<Longrightarrow> f x = Some (g x)) \<Longrightarrow> List.map_filter f xs = map g xs"
  by (induction xs) (simp_all add: List.map_filter_simps)

lemma active_states_mset:
  assumes "sources_known tb"
  shows "mset (active_states sha tb) = mset (map (state_of_row sha tb) (filter tr_active (tb_records tb)))"
proof -
  have "List.map_filter (\<lambda>r. map_option (\<lambda>name. record_state_of sha name r)
      (source_name_of tb (tr_source_id r))) (filter tr_active (tb_records tb)) =
      map (state_of_row sha tb) (filter tr_active (tb_records tb))"
    by (rule map_filter_some) (use assms in \<open>auto simp: sources_known_def state_of_row_def\<close>)
  then show ?thesis by (simp add: active_states_def)
qed

lemma active_states_set:
  "sources_known tb \<Longrightarrow> set (active_states sha tb) = state_of_row sha tb ` active_rows tb"
  using mset_eq_setD [OF active_states_mset] by (auto simp: active_rows_def)

lemma active_states_distinct:
  assumes "sources_known tb" and "tables_wf tb"
  shows "distinct (map rb_rowid (active_states sha tb))"
proof -
  have "mset (map rb_rowid (active_states sha tb)) = mset (map tr_rowid (filter tr_active (tb_records tb)))"
    using arg_cong [OF active_states_mset [OF assms(1), of sha], of "image_mset rb_rowid"]
    by (simp add: multiset.map_comp comp_def)
  moreover have "distinct (map tr_rowid (filter tr_active (tb_records tb)))"
    using assms(2) by (simp add: tables_wf_def distinct_map_filter)
  ultimately show ?thesis by (metis mset_eq_imp_distinct_iff)
qed

lemma candidates_distinct:
  assumes "sources_known tb" and "tables_wf tb" and "inj_on (candidate_of_row sha tb) (active_rows tb)"
  shows "distinct (map rb_candidate_id (active_states sha tb))"
proof -
  let ?act = "filter tr_active (tb_records tb)"
  have "mset (map rb_candidate_id (active_states sha tb)) = mset (map (candidate_of_row sha tb) ?act)"
    using arg_cong [OF active_states_mset [OF assms(1), of sha], of "image_mset rb_candidate_id"]
    by (simp add: multiset.map_comp comp_def)
  moreover have "distinct ?act" using assms(2) by (simp add: tables_wf_def distinct_map)
  then have "distinct (map (candidate_of_row sha tb) ?act)"
    using assms(3) by (simp add: distinct_map active_rows_def)
  ultimately show ?thesis by (metis mset_eq_imp_distinct_iff)
qed

lemma row_index_iff:
  assumes "distinct (map rb_rowid ss)"
  shows "row_index ss rowid = Some k \<longleftrightarrow> k < length ss \<and> rb_rowid (ss ! k) = rowid"
proof -
  have "distinct (map fst (rev (zip (map rb_rowid ss) [0..<length ss])))"
    using assms by (simp add: rev_map [symmetric])
  then have "row_index ss rowid = Some k \<longleftrightarrow> (rowid, k) \<in> set (zip (map rb_rowid ss) [0..<length ss])"
    by (simp add: row_index_def map_of_eq_Some_iff)
  also have "\<dots> \<longleftrightarrow> k < length ss \<and> rb_rowid (ss ! k) = rowid"
    by (auto simp: in_set_zip intro!: exI [of _ k])
  finally show ?thesis .
qed

lemma alias_rows_iff:
  "(rowid, x) \<in> set (alias_rows tb) \<longleftrightarrow>
     (\<exists>r \<in> active_rows tb. tr_rowid r = rowid) \<and>
     (\<exists>l \<in> set (tb_relationships tb). tl_kind l = ''alias'' \<and> tl_rowid l = rowid \<and> tl_identifier l = x)"
proof -
  have "(rowid, x) \<in> set (alias_rows tb) \<longleftrightarrow> (\<exists>l \<in> set (tb_relationships tb). tl_kind l = ''alias'' \<and>
      tl_rowid l \<in> tr_rowid ` active_rows tb \<and> tl_rowid l = rowid \<and> tl_identifier l = x)"
    by (auto simp: alias_rows_def active_rows_def)
  then show ?thesis by (auto simp: image_iff)
qed

text \<open>The claims of an index are the exact identifiers of its row.\<close>

lemma claims_iff:
  assumes "sources_known tb" and "tables_wf tb" and "r \<in> active_rows tb"
    and "k < length (active_states sha tb)" and "active_states sha tb ! k = state_of_row sha tb r"
  shows "(x, k) \<in> claims_of (active_states sha tb) (alias_rows tb) \<longleftrightarrow> x \<in> exact_identifiers_of tb r"
proof -
  let ?ss = "active_states sha tb"
  note dist = active_states_distinct [OF assms(1,2), of sha]
  have at: "rb_rowid (?ss ! k) = tr_rowid r" "rb_source_record_id (?ss ! k) = tr_source_record_id r"
    by (simp_all add: assms(5))
  have "(x, k) \<in> set (record_claims 0 ?ss) \<longleftrightarrow> x = tr_source_record_id r"
    using assms(4) at(2) by (auto simp: record_claims_set)
  moreover have "(x, k) \<in> set (alias_claims ?ss (alias_rows tb)) \<longleftrightarrow> (tr_rowid r, x) \<in> set (alias_rows tb)"
  proof
    assume "(x, k) \<in> set (alias_claims ?ss (alias_rows tb))"
    then obtain rowid where row: "(rowid, x) \<in> set (alias_rows tb)" "k = the (row_index ?ss rowid)"
      by (auto simp: alias_claims_def)
    then obtain a where "a \<in> active_rows tb" "tr_rowid a = rowid" by (auto simp: alias_rows_iff)
    then have "state_of_row sha tb a \<in> set ?ss" by (simp add: active_states_set [OF assms(1)])
    then obtain j where "j < length ?ss" "?ss ! j = state_of_row sha tb a" by (auto simp: in_set_conv_nth)
    with \<open>tr_rowid a = rowid\<close> have "row_index ?ss rowid = Some j" by (simp add: row_index_iff [OF dist])
    with row(2) \<open>?ss ! j = state_of_row sha tb a\<close> at(1) \<open>tr_rowid a = rowid\<close> have "tr_rowid r = rowid" by simp
    with row(1) show "(tr_rowid r, x) \<in> set (alias_rows tb)" by simp
  next
    assume row: "(tr_rowid r, x) \<in> set (alias_rows tb)"
    have "row_index ?ss (tr_rowid r) = Some k" using assms(4) at(1) by (simp add: row_index_iff [OF dist])
    with row show "(x, k) \<in> set (alias_claims ?ss (alias_rows tb))" by (force simp: alias_claims_def)
  qed
  moreover have "(tr_rowid r, x) \<in> set (alias_rows tb) \<longleftrightarrow> x \<in> {tl_identifier l | l.
      l \<in> set (tb_relationships tb) \<and> tl_rowid l = tr_rowid r \<and> tl_kind l = ''alias''}"
    using assms(3) by (auto simp: alias_rows_iff)
  ultimately show ?thesis by (simp add: claims_of_def exact_identifiers_of_def)
qed

section \<open>Components of rows\<close>

inductive same_advisory :: "catalog_tables \<Rightarrow> record_row \<Rightarrow> record_row \<Rightarrow> bool" for tb where
  same_here: "r \<in> active_rows tb \<Longrightarrow> same_advisory tb r r"
| same_step: "same_advisory tb a b \<Longrightarrow> c \<in> active_rows tb \<Longrightarrow>
    exact_identifiers_of tb b \<inter> exact_identifiers_of tb c \<noteq> {} \<Longrightarrow> same_advisory tb a c"

lemma same_advisory_active: "same_advisory tb a b \<Longrightarrow> a \<in> active_rows tb \<and> b \<in> active_rows tb"
  by (induction rule: same_advisory.induct) auto

definition row_at :: "digest_fun \<Rightarrow> catalog_tables \<Rightarrow> nat \<Rightarrow> record_row \<Rightarrow> bool" where
  "row_at sha tb k r \<longleftrightarrow> r \<in> active_rows tb \<and> k < length (active_states sha tb) \<and>
     active_states sha tb ! k = state_of_row sha tb r"

lemma row_at_exists:
  assumes "sources_known tb"
  shows "r \<in> active_rows tb \<Longrightarrow> \<exists>k. row_at sha tb k r"
    and "k < length (active_states sha tb) \<Longrightarrow> \<exists>r. row_at sha tb k r"
proof -
  note eq = active_states_set [OF assms, of sha]
  show "\<exists>k. row_at sha tb k r" if "r \<in> active_rows tb"
  proof -
    have "state_of_row sha tb r \<in> set (active_states sha tb)" using that by (simp add: eq)
    then show ?thesis using that by (auto simp: row_at_def in_set_conv_nth)
  qed
  show "\<exists>r. row_at sha tb k r" if "k < length (active_states sha tb)"
    using nth_mem [OF that] that by (auto simp: row_at_def eq)
qed

lemma row_at_unique:
  assumes "tables_wf tb" and "row_at sha tb k a" and "row_at sha tb k b"
  shows "a = b"
proof -
  from assms(2,3) have "tr_rowid a = tr_rowid b" by (metis row_at_def state_of_row_simps(1))
  with assms show ?thesis by (auto simp: row_at_def active_rows_def intro: rowid_unique)
qed

lemma row_claims:
  assumes "sources_known tb" and "tables_wf tb" and "row_at sha tb k r"
  shows "(x, k) \<in> claims_of (active_states sha tb) (alias_rows tb) \<longleftrightarrow> x \<in> exact_identifiers_of tb r"
  using assms by (intro claims_iff) (auto simp: row_at_def)

lemma claim_bound:
  assumes "\<forall>row \<in> set rows. row_index ss (fst row) \<noteq> None" and "(x, k) \<in> claims_of ss rows"
  shows "k < length ss"
proof -
  have "k < length ss" if "(x, k) \<in> set (alias_claims ss rows)"
  proof -
    from that obtain rowid where row: "(rowid, x) \<in> set rows" "k = the (row_index ss rowid)"
      by (auto simp: alias_claims_def)
    with assms(1) obtain j where "row_index ss rowid = Some j" by force
    with row(2) row_index_bound show ?thesis by simp
  qed
  with assms(2) record_claims_bound [of ss] show ?thesis by (auto simp: claims_of_def)
qed

lemma connected_same_advisory:
  assumes "sources_known tb" and "tables_wf tb" and "row_at sha tb i a" and "row_at sha tb j b"
  shows "connected (claim_graph (claims_of (active_states sha tb) (alias_rows tb))) i j \<longleftrightarrow> same_advisory tb a b"
proof
  let ?C = "claims_of (active_states sha tb) (alias_rows tb)"
  note claims = row_claims [OF assms(1,2)]
  have rows: "\<forall>row \<in> set (alias_rows tb). row_index (active_states sha tb) (fst row) \<noteq> None"
  proof
    fix row assume "row \<in> set (alias_rows tb)"
    then have "(fst row, snd row) \<in> set (alias_rows tb)" by simp
    then obtain c where "c \<in> active_rows tb" "tr_rowid c = fst row" unfolding alias_rows_iff by blast
    then obtain k where "row_at sha tb k c" using row_at_exists(1) [OF assms(1)] by blast
    with \<open>tr_rowid c = fst row\<close> show "row_index (active_states sha tb) (fst row) \<noteq> None"
      using row_index_iff [OF active_states_distinct [OF assms(1,2), of sha], of "fst row" k]
      by (simp add: row_at_def)
  qed
  assume "connected (claim_graph ?C) i j"
  then have "(i, j) \<in> (claim_graph ?C \<union> (claim_graph ?C)\<inverse>)\<^sup>*" by (simp add: connected_def)
  then have "\<forall>b. row_at sha tb j b \<longrightarrow> same_advisory tb a b"
  proof (induction rule: rtrancl_induct)
    case base
    have "same_advisory tb a b" if "row_at sha tb i b" for b
    proof -
      have "b = a" by (rule row_at_unique [OF assms(2) that assms(3)])
      with assms(3) show ?thesis by (simp add: row_at_def same_here)
    qed
    then show ?case by blast
  next
    case (step y z)
    then obtain x where x: "(x, y) \<in> ?C" "(x, z) \<in> ?C" by (auto simp: claim_graph_def)
    with claim_bound [OF rows] row_at_exists(2) [OF assms(1)] obtain c where c: "row_at sha tb y c" by blast
    with step.IH have "same_advisory tb a c" by blast
    have xc: "x \<in> exact_identifiers_of tb c" using x(1) claims [OF c] by simp
    have "same_advisory tb a d" if d: "row_at sha tb z d" for d
    proof (rule same_step [OF \<open>same_advisory tb a c\<close>])
      show "d \<in> active_rows tb" using d by (simp add: row_at_def)
      have "x \<in> exact_identifiers_of tb d" using x(2) claims [OF d] by simp
      with xc show "exact_identifiers_of tb c \<inter> exact_identifiers_of tb d \<noteq> {}" by blast
    qed
    then show ?case by blast
  qed
  with assms(4) show "same_advisory tb a b" by blast
next
  let ?C = "claims_of (active_states sha tb) (alias_rows tb)"
  note claims = row_claims [OF assms(1,2)]
  assume "same_advisory tb a b"
  then have "\<forall>i j. row_at sha tb i a \<longrightarrow> row_at sha tb j b \<longrightarrow> connected (claim_graph ?C) i j"
  proof (induction rule: same_advisory.induct)
    case (same_here r)
    have "i = j" if "row_at sha tb i r" "row_at sha tb j r" for i j
    proof -
      have "map rb_rowid (active_states sha tb) ! i = map rb_rowid (active_states sha tb) ! j"
        using that by (simp add: row_at_def)
      then show ?thesis
        using that active_states_distinct [OF assms(1,2), of sha] by (simp add: row_at_def distinct_conv_nth) metis
    qed
    then show ?case by (metis connected_refl)
  next
    case (same_step a b c)
    then obtain x where x: "x \<in> exact_identifiers_of tb b" "x \<in> exact_identifiers_of tb c" by blast
    from same_step(1) have "b \<in> active_rows tb" using same_advisory_active by blast
    then obtain m where m: "row_at sha tb m b" using row_at_exists(1) [OF assms(1)] by blast
    have "connected (claim_graph ?C) m j" if "row_at sha tb j c" for j
      using x claims [OF m] claims [OF that] by (auto simp: claim_graph_def intro!: connected_edge)
    with same_step.IH m connected_trans show ?case by blast
  qed
  with assms(3,4) show "connected (claim_graph ?C) i j" by blast
qed

section \<open>The writes\<close>

lemma fold_insert_canonical:
  "tb_records (fold (\<lambda>(_, selected). insert_canonical_or_ignore selected t) roots tb) = tb_records tb"
  "tb_redirects (fold (\<lambda>(_, selected). insert_canonical_or_ignore selected t) roots tb) = tb_redirects tb"
  by (induction roots arbitrary: tb) (auto simp: insert_canonical_or_ignore_def)

lemma assign_canonicals_map:
  assumes "distinct (map (rb_rowid \<circ> fst) pairs)"
  shows "assign_canonicals pairs rows =
    map (\<lambda>r. case map_of (map (\<lambda>(s, c). (rb_rowid s, c)) pairs) (tr_rowid r) of
      None \<Rightarrow> r | Some c \<Rightarrow> r\<lparr>tr_canonical_id := c\<rparr>) rows"
  using assms
proof (induction pairs arbitrary: rows)
  case Nil
  then show ?case by (simp add: assign_canonicals_def)
next
  case (Cons p pairs)
  obtain s c where p: "p = (s, c)" by (cases p)
  with Cons.prems have fresh: "map_of (map (\<lambda>(s, c). (rb_rowid s, c)) pairs) (rb_rowid s) = None"
    by (force simp: map_of_eq_None_iff)
  have "assign_canonicals (p # pairs) rows =
      assign_canonicals pairs (map (\<lambda>r. if tr_rowid r = rb_rowid s then r\<lparr>tr_canonical_id := c\<rparr> else r) rows)"
    by (simp add: assign_canonicals_def p)
  also have "\<dots> = map (\<lambda>r. case map_of (map (\<lambda>(s, c). (rb_rowid s, c)) (p # pairs)) (tr_rowid r) of
      None \<Rightarrow> r | Some c \<Rightarrow> r\<lparr>tr_canonical_id := c\<rparr>) rows"
    using Cons.prems by (simp add: Cons.IH p fresh cong: option.case_cong)
  finally show ?case .
qed

lemma write_rebuild_Ok:
  assumes "write_rebuild sha t roots pairs ids redirects tb = Ok tb'"
  shows "tb_records tb' = assign_canonicals pairs (tb_records tb)
    \<and> tb_identifiers tb' = bt_collect ids \<and> tb_relationships tb' = tb_relationships tb"
proof -
  have "tb_relationships (fold (\<lambda>(_, selected). insert_canonical_or_ignore selected t) roots tb0) =
      tb_relationships tb0" for tb0
    by (induction roots arbitrary: tb0) (auto simp: insert_canonical_or_ignore_def)
  with assms show ?thesis
    by (auto simp: write_rebuild_def ok_iff Let_def set_metadata_def drop_unused_canonicals_def
        fold_insert_canonical)
qed

lemma map_of_bt_collect: "distinct (map fst es) \<Longrightarrow> map_of (bt_collect es) = map_of es"
proof -
  assume dist: "distinct (map fst es)"
  have "map_of (foldl (\<lambda>m (k, v). bt_insert k v m) m0 es) = map_of m0 ++ map_of es" for m0
    using dist
  proof (induction es arbitrary: m0)
    case (Cons e es)
    obtain k v where e: "e = (k, v)" by (cases e)
    with Cons.prems have fresh: "map_of es k = None" by (simp add: map_of_eq_None_iff)
    have "map_of (foldl (\<lambda>m (k, v). bt_insert k v m) m0 (e # es)) = (map_of m0)(k \<mapsto> v) ++ map_of es"
      using Cons.IH [of "bt_insert k v m0"] Cons.prems by (simp add: e fun_upd_def)
    also have "\<dots> = map_of m0 ++ map_of (e # es)"
      using fresh by (auto simp: e fun_eq_iff map_add_def split: option.split)
    finally show ?case .
  qed simp
  from this [of "[]"] show ?thesis by (simp add: bt_collect_def)
qed

section \<open>Properties\<close>

text \<open>
  C32. A rebuild of the canonical ids always returns: whatever the tables hold, its loops over the
  disjoint sets end and stay in bounds, so it commits or reports an error.
\<close>

theorem rebuild_returns: "rebuild_canonicalization sha now ready tb \<noteq> None"
proof (cases ready)
  case (Inl e)
  then show ?thesis by (simp add: rebuild_canonicalization_def run_then_def)
next
  case (Inr u)
  show ?thesis
  proof (cases now)
    case None
    then show ?thesis using Inr by (simp add: rebuild_canonicalization_def run_then_def)
  next
    case (Some t)
    show ?thesis
    proof (cases "length (active_states sha tb) \<le> MAX_CANONICAL_REBUILD_RECORDS")
      case True
      from rebuild_run [OF this, of t] show ?thesis using Inr Some by auto
    next
      case False
      then show ?thesis using Inr Some by (simp add: rebuild_canonicalization_def run_then_def Let_def)
    qed
  qed
qed

text \<open>The canonical id a rebuild gives to a row.\<close>

definition rebuilt_canonical :: "digest_fun \<Rightarrow> catalog_tables \<Rightarrow> record_row \<Rightarrow> string" where
  "rebuilt_canonical sha tb r = Min (candidate_of_row sha tb ` {b. same_advisory tb r b})"

lemma component_id_row:
  assumes "sources_known tb" and "tables_wf tb" and "row_at sha tb k r"
  shows "component_id (active_states sha tb)
    (claim_graph (claims_of (active_states sha tb) (alias_rows tb))) k = rebuilt_canonical sha tb r"
proof -
  let ?ss = "active_states sha tb" and ?E = "claim_graph (claims_of (active_states sha tb) (alias_rows tb))"
  have "{rb_candidate_id (?ss ! j) | j. j < length ?ss \<and> connected ?E k j} =
      candidate_of_row sha tb ` {b. same_advisory tb r b}" (is "?L = ?R")
  proof
    show "?L \<subseteq> ?R"
    proof safe
      fix j assume j: "j < length ?ss" "connected ?E k j"
      then obtain b where b: "row_at sha tb j b" using row_at_exists(2) [OF assms(1)] by blast
      then have "same_advisory tb r b" using connected_same_advisory [OF assms b] j(2) by simp
      moreover have "rb_candidate_id (?ss ! j) = candidate_of_row sha tb b" using b by (simp add: row_at_def)
      ultimately show "rb_candidate_id (?ss ! j) \<in> ?R" by blast
    qed
    show "?R \<subseteq> ?L"
    proof safe
      fix b assume b: "same_advisory tb r b"
      then obtain j where j: "row_at sha tb j b"
        using same_advisory_active row_at_exists(1) [OF assms(1)] by blast
      then have "connected ?E k j" using connected_same_advisory [OF assms j] b by simp
      with j show "\<exists>j. candidate_of_row sha tb b = rb_candidate_id (?ss ! j) \<and> j < length ?ss \<and> connected ?E k j"
        by (auto simp: row_at_def intro!: exI [of _ j])
    qed
  qed
  then show ?thesis by (simp add: component_id_def rebuilt_canonical_def)
qed

lemma map_zip_fst: "length xs = length ys \<Longrightarrow> map (\<lambda>p. g (fst p)) (zip xs ys) = map g xs"
  by (induction rule: list_induct2) simp_all

lemma Ok_and_then: "Ok y = and_then r f \<longleftrightarrow> (\<exists>x. r = Ok x \<and> f x = Ok y)"
  by (metis and_then_Inr_iff)

lemma map_of_zip_states:
  assumes "distinct (map rb_rowid ss)"
  shows "map_of (map (\<lambda>(s, c). (rb_rowid s, c)) (zip ss (map f [0..<length ss]))) rowid = Some c \<longleftrightarrow>
    (\<exists>k < length ss. rb_rowid (ss ! k) = rowid \<and> f k = c)"
proof -
  have "map fst (map (\<lambda>(s, c). (rb_rowid s, c)) (zip ss (map f [0..<length ss]))) = map rb_rowid ss"
    by (simp add: comp_def case_prod_beta' map_zip_fst)
  then have "distinct (map fst (map (\<lambda>(s, c). (rb_rowid s, c)) (zip ss (map f [0..<length ss]))))"
    using assms by simp
  then have "map_of (map (\<lambda>(s, c). (rb_rowid s, c)) (zip ss (map f [0..<length ss]))) rowid = Some c \<longleftrightarrow>
      (rowid, c) \<in> (\<lambda>(s, c). (rb_rowid s, c)) ` set (zip ss (map f [0..<length ss]))"
    by (simp add: map_of_eq_Some_iff del: map_map)
  also have "\<dots> \<longleftrightarrow> (\<exists>k < length ss. rb_rowid (ss ! k) = rowid \<and> f k = c)"
    by (auto simp: set_zip intro!: image_eqI)
  finally show ?thesis .
qed

section \<open>What a rebuild writes\<close>

lemma rebuild_committed:
  assumes "rebuild_canonicalization sha now ready tb = Some (Ok (res, tb'))"
  obtains own where "bt_wf own"
    "dom (map_of own) = fst ` claims_of (active_states sha tb) (alias_rows tb)"
    "\<forall>x k. map_of own x = Some k \<longrightarrow> (x, k) \<in> claims_of (active_states sha tb) (alias_rows tb)"
    "\<forall>row \<in> set (alias_rows tb). row_index (active_states sha tb) (fst row) \<noteq> None"
    "tb_records tb' = assign_canonicals (zip (active_states sha tb) (map (component_id (active_states sha tb)
       (claim_graph (claims_of (active_states sha tb) (alias_rows tb)))) [0..<length (active_states sha tb)]))
       (tb_records tb)"
    "tb_identifiers tb' = bt_collect (zip (map fst own) (map (component_id (active_states sha tb)
       (claim_graph (claims_of (active_states sha tb) (alias_rows tb)))) (map snd own)))"
proof -
  let ?ss = "active_states sha tb" and ?C = "claims_of (active_states sha tb) (alias_rows tb)"
  obtain t where "ready = Ok ()" "now = Some t" "length ?ss \<le> MAX_CANONICAL_REBUILD_RECORDS"
    using assms by (cases ready; cases now)
      (auto simp: rebuild_canonicalization_def run_then_def Let_def fail_if_def split: if_splits)
  with rebuild_run [of sha tb t] assms obtain roots own where own: "bt_wf own"
    "dom (map_of own) = fst ` ?C" "\<forall>x k. map_of own x = Some k \<longrightarrow> (x, k) \<in> ?C"
    "\<forall>row \<in> set (alias_rows tb). row_index ?ss (fst row) \<noteq> None"
    and writes: "rebuild_writes sha t tb (claim_graph ?C) roots own = Ok tb'"
    by (auto simp: Ok_and_then)
  from write_rebuild_Ok [OF writes [unfolded rebuild_writes_def Let_def]] own show thesis
    by (intro that [of own]) simp_all
qed

lemma rebuild_records:
  assumes "tables_wf tb" and "sources_known tb"
    and "rebuild_canonicalization sha now ready tb = Some (Ok (res, tb'))"
  shows "tb_records tb' =
    map (\<lambda>r. if tr_active r then r\<lparr>tr_canonical_id := rebuilt_canonical sha tb r\<rparr> else r) (tb_records tb)"
proof -
  let ?ss = "active_states sha tb" and ?C = "claims_of (active_states sha tb) (alias_rows tb)"
  let ?f = "component_id ?ss (claim_graph ?C)"
  let ?pairs = "zip ?ss (map ?f [0..<length ?ss])"
  note dist = active_states_distinct [OF assms(2,1), of sha] and comp = component_id_row [OF assms(2,1)]
  have recs: "tb_records tb' = assign_canonicals ?pairs (tb_records tb)"
    using rebuild_committed [OF assms(3)] by blast
  have "map (rb_rowid \<circ> fst) ?pairs = map rb_rowid ?ss" by (simp add: comp_def map_zip_fst)
  then have pairs: "distinct (map (rb_rowid \<circ> fst) ?pairs)" using dist by simp
  have assigned: "(case map_of (map (\<lambda>(s, c). (rb_rowid s, c)) ?pairs) (tr_rowid r) of
      None \<Rightarrow> r | Some c \<Rightarrow> r\<lparr>tr_canonical_id := c\<rparr>) =
      (if tr_active r then r\<lparr>tr_canonical_id := rebuilt_canonical sha tb r\<rparr> else r)"
    if r: "r \<in> set (tb_records tb)" for r
  proof (cases "tr_active r")
    case True
    with r obtain k where k: "row_at sha tb k r" using row_at_exists(1) [OF assms(2)] by (auto simp: active_rows_def)
    then have "map_of (map (\<lambda>(s, c). (rb_rowid s, c)) ?pairs) (tr_rowid r) = Some (?f k)"
      by (subst map_of_zip_states [OF dist]) (auto simp: row_at_def)
    with True comp [OF k] show ?thesis by simp
  next
    case False
    have "map_of (map (\<lambda>(s, c). (rb_rowid s, c)) ?pairs) (tr_rowid r) = None"
    proof (rule ccontr)
      assume "map_of (map (\<lambda>(s, c). (rb_rowid s, c)) ?pairs) (tr_rowid r) \<noteq> None"
      then obtain c where "map_of (map (\<lambda>(s, c). (rb_rowid s, c)) ?pairs) (tr_rowid r) = Some c" by blast
      then obtain k where k: "k < length ?ss" "rb_rowid (?ss ! k) = tr_rowid r"
        by (auto simp: map_of_zip_states [OF dist])
      then obtain a where a: "row_at sha tb k a" using row_at_exists(2) [OF assms(2)] by blast
      with k have "tr_rowid a = tr_rowid r" by (simp add: row_at_def)
      with a r have "a = r" using rowid_unique [OF assms(1)] by (simp add: row_at_def active_rows_def)
      with a False show False by (simp add: row_at_def active_rows_def)
    qed
    with False show ?thesis by simp
  qed
  show ?thesis unfolding recs assign_canonicals_map [OF pairs] by (rule map_cong [OF refl assigned])
qed

lemma rebuild_identifiers:
  assumes "tables_wf tb" and "sources_known tb"
    and "rebuild_canonicalization sha now ready tb = Some (Ok (res, tb'))"
  shows "map_of (tb_identifiers tb') i = Some cid \<longleftrightarrow>
    (\<exists>r \<in> active_rows tb. i \<in> exact_identifiers_of tb r \<and> cid = rebuilt_canonical sha tb r)"
proof -
  let ?ss = "active_states sha tb" and ?C = "claims_of (active_states sha tb) (alias_rows tb)"
  let ?f = "component_id ?ss (claim_graph ?C)"
  note comp = component_id_row [OF assms(2,1)] and claims = row_claims [OF assms(2,1)]
  from rebuild_committed [OF assms(3)] obtain own where own: "bt_wf own"
    "dom (map_of own) = fst ` ?C" "\<forall>x k. map_of own x = Some k \<longrightarrow> (x, k) \<in> ?C"
    and rows: "\<forall>row \<in> set (alias_rows tb). row_index ?ss (fst row) \<noteq> None"
    and ids: "tb_identifiers tb' = bt_collect (zip (map fst own) (map ?f (map snd own)))" .
  have zip: "zip (map fst own) (map ?f (map snd own)) = map (apsnd ?f) own"
    by (simp add: zip_map_map zip_same_conv_map apsnd_def map_prod_def comp_def case_prod_beta')
  have "distinct (map fst (map (apsnd ?f) own))" using bt_wf_distinct [OF own(1)] by simp
  then have lookup: "map_of (tb_identifiers tb') i = map_option ?f (map_of own i)"
    by (simp only: ids zip map_of_bt_collect map_of_apsnd)
  have claim: "\<exists>r. row_at sha tb k r \<and> i \<in> exact_identifiers_of tb r" if "(i, k) \<in> ?C" for k
    using claim_bound [OF rows that] row_at_exists(2) [OF assms(2)] claims that by blast
  have same: "?f k = ?f j" if "(i, k) \<in> ?C" "(i, j) \<in> ?C" for k j
  proof -
    have "connected (claim_graph ?C) k j" using that by (auto simp: claim_graph_def intro: connected_edge)
    then show ?thesis using connected_sym connected_trans unfolding component_id_def by metis
  qed
  show ?thesis
  proof
    assume "map_of (tb_identifiers tb') i = Some cid"
    then obtain k where k: "map_of own i = Some k" "cid = ?f k" by (auto simp: lookup)
    with own(3) have "(i, k) \<in> ?C" by blast
    with claim obtain r where r: "row_at sha tb k r" "i \<in> exact_identifiers_of tb r" by blast
    then have "r \<in> active_rows tb" by (simp add: row_at_def)
    moreover have "cid = rebuilt_canonical sha tb r" using k(2) comp [OF r(1)] by simp
    ultimately show "\<exists>r \<in> active_rows tb. i \<in> exact_identifiers_of tb r \<and> cid = rebuilt_canonical sha tb r"
      using r(2) by blast
  next
    assume "\<exists>r \<in> active_rows tb. i \<in> exact_identifiers_of tb r \<and> cid = rebuilt_canonical sha tb r"
    then obtain r where r: "r \<in> active_rows tb" "i \<in> exact_identifiers_of tb r" "cid = rebuilt_canonical sha tb r"
      by blast
    then obtain j where j: "row_at sha tb j r" using row_at_exists(1) [OF assms(2)] by blast
    with r(2) claims have ij: "(i, j) \<in> ?C" by blast
    then have "i \<in> dom (map_of own)" using own(2) by force
    then obtain k where k: "map_of own i = Some k" by blast
    with own(3) have "(i, k) \<in> ?C" by blast
    from same [OF this ij] comp [OF j] r(3) k show "map_of (tb_identifiers tb') i = Some cid"
      by (simp add: lookup)
  qed
qed

lemma rebuilt_same:
  assumes "tables_wf tb" and "sources_known tb" and inj: "inj_on (candidate_of_row sha tb) (active_rows tb)"
    and ab: "a \<in> active_rows tb" "b \<in> active_rows tb"
  shows "rebuilt_canonical sha tb a = rebuilt_canonical sha tb b \<longleftrightarrow> same_advisory tb a b"
proof -
  note comp = component_id_row [OF assms(2,1)]
  from row_at_exists(1) [OF assms(2)] ab obtain i j where ij: "row_at sha tb i a" "row_at sha tb j b" by blast
  then have "i < length (active_states sha tb)" "j < length (active_states sha tb)" by (simp_all add: row_at_def)
  from component_id_eq [OF this candidates_distinct [OF assms(2,1) inj],
      of "claim_graph (claims_of (active_states sha tb) (alias_rows tb))"]
  show ?thesis using comp [OF ij(1)] comp [OF ij(2)] connected_same_advisory [OF assms(2,1) ij] by simp
qed

text \<open>
  C8. A committed rebuild gives every active record the least candidate id of its component, where
  two active records are in one component when a chain of shared exact identifiers connects them;
  when the candidate ids differ, two active records get the same canonical id exactly when they
  are in one component. Inactive records keep their id, and afterwards an identifier is known
  exactly when an active record has it, with the canonical id of that record.
\<close>

theorem rebuild_components:
  assumes "tables_wf tb" and "sources_known tb"
    and "rebuild_canonicalization sha now ready tb = Some (Ok (res, tb'))"
  shows "tb_records tb' = map (\<lambda>r. if tr_active r then r\<lparr>tr_canonical_id := rebuilt_canonical sha tb r\<rparr> else r)
      (tb_records tb)
    \<and> (\<forall>i cid. map_of (tb_identifiers tb') i = Some cid \<longleftrightarrow>
        (\<exists>r \<in> active_rows tb. i \<in> exact_identifiers_of tb r \<and> cid = rebuilt_canonical sha tb r))
    \<and> (inj_on (candidate_of_row sha tb) (active_rows tb) \<longrightarrow>
        (\<forall>a \<in> active_rows tb. \<forall>b \<in> active_rows tb.
          rebuilt_canonical sha tb a = rebuilt_canonical sha tb b \<longleftrightarrow> same_advisory tb a b))"
  using rebuild_records [OF assms] rebuild_identifiers [OF assms] rebuilt_same [OF assms(1,2)] by blast

end
