(* ===== verification/RedirectFacts.thy ===== *)
theory RedirectFacts
  imports RebuildFacts
begin

text \<open>
  When a canonical rebuild commits: the redirects it writes must not contradict each other. Also
  what a rebuild and a later reactivation of an unchanged record leave behind.
\<close>

section \<open>Redirects\<close>

lemma targets_keys: "fst ` set (targets_of pairs) = fst ` set pairs"
proof -
  have "fst ` set (fold (\<lambda>(key, target). add_target key target) pairs m) = fst ` set m \<union> fst ` set pairs" for m
  proof (induction pairs arbitrary: m)
    case (Cons p pairs)
    then show ?case by (cases p) (auto simp: add_target_def fst_bt_insert)
  qed simp
  then show ?thesis by (simp add: targets_of_def)
qed

lemma add_redirects_set:
  "set (fold (\<lambda>(old, through). add_redirect m old through) ps R) =
     set R \<union> {(old, t) | old t through. (old, through) \<in> set ps \<and> map_of m through = Some [t] \<and> old \<noteq> t}"
proof (induction ps arbitrary: R)
  case (Cons p ps)
  obtain old through where p: "p = (old, through)" by (cases p)
  have "set (add_redirect m old through R) = set R \<union> {(old, t) | t. map_of m through = Some [t] \<and> old \<noteq> t}"
    by (auto simp: add_redirect_def set_insort_insert split: option.splits list.splits)
  then show ?case unfolding p fold_simps Cons.IH case_prod_conv comp_def by auto
qed simp

lemma redirects_distinct: "distinct (redirects_of m hist)"
proof -
  have "distinct (fold (\<lambda>(old, through). add_redirect m old through) ps R)" if "distinct R" for ps R
    using that
  proof (induction ps arbitrary: R)
    case (Cons p ps)
    obtain old through where p: "p = (old, through)" by (cases p)
    have "distinct (add_redirect m old through R)"
      using Cons.prems by (simp add: add_redirect_def distinct_insort_insert split: option.split list.split)
    then show ?case by (simp add: p Cons.IH)
  qed simp
  note keep = this
  have own: "fold (\<lambda>(old, _). add_redirect m old old) m [] =
      fold (\<lambda>(old, through). add_redirect m old through) (map (\<lambda>(old, _). (old, old)) m) []"
    by (simp add: fold_map comp_def case_prod_beta')
  show ?thesis unfolding redirects_of_def own by (intro keep) simp
qed

lemma redirects_set:
  "set (redirects_of m hist) = {(old, t) | old t through.
     ((old, through) \<in> set hist \<or> (old = through \<and> old \<in> fst ` set m)) \<and> map_of m through = Some [t] \<and> old \<noteq> t}"
proof -
  have own: "fold (\<lambda>(old, _). add_redirect m old old) m [] =
      fold (\<lambda>(old, through). add_redirect m old through) (map (\<lambda>(old, _). (old, old)) m) []"
    by (simp add: fold_map comp_def case_prod_beta')
  show ?thesis unfolding redirects_of_def own add_redirects_set by force
qed

lemma redirects_from:
  "p \<in> set (redirects_of m hist) \<Longrightarrow> \<exists>through. map_of m through = Some [snd p] \<and>
     ((fst p, through) \<in> set hist \<or> (through = fst p \<and> fst p \<in> fst ` set m))"
  unfolding redirects_set mem_Collect_eq by (elim exE conjE disjE) auto

lemma insert_redirects_iff:
  "(\<exists>m'. insert_redirects es m = Ok m') \<longleftrightarrow> distinct (map fst es) \<and> fst ` set es \<inter> dom (map_of m) = {}"
proof (induction es arbitrary: m)
  case (Cons e es)
  obtain a b where e: "e = (a, b)" by (cases e)
  have "dom (map_of (bt_insert a b m)) = insert a (dom (map_of m))" by simp
  show ?case
  proof (cases "bt_contains a m")
    case True
    then show ?thesis by (auto simp: e bt_contains_def)
  next
    case False
    then have "(\<exists>m'. insert_redirects (e # es) m = Ok m') \<longleftrightarrow> (\<exists>m'. insert_redirects es (bt_insert a b m) = Ok m')"
      by (simp add: e)
    also have "\<dots> \<longleftrightarrow> distinct (map fst es) \<and> fst ` set es \<inter> insert a (dom (map_of m)) = {}"
      unfolding Cons.IH \<open>dom (map_of (bt_insert a b m)) = insert a (dom (map_of m))\<close> ..
    finally show ?thesis using False by (auto simp: e bt_contains_def)
  qed
qed simp

lemma insert_redirects_error: "insert_redirects es m = Err e \<Longrightarrow> e = constraint_error"
  by (induction es arbitrary: m) (auto split: if_splits)

text \<open>The redirects of a rebuild, and the condition under which no two of them contradict.\<close>

definition rebuild_redirects :: "digest_fun \<Rightarrow> catalog_tables \<Rightarrow> (string \<times> string) list" where
  "rebuild_redirects sha tb =
     (let ss = active_states sha tb; E = claim_graph (claims_of ss (alias_rows tb));
          pairs = zip ss (map (component_id ss E) [0..<length ss])
      in redirects_of (targets_of (map (\<lambda>(s, new). (rb_old_canonical_id s, new)) pairs)) (tb_redirects tb))"

lemma redirects_single:
  assumes "bt_wf (tb_redirects tb)" and "sources_known tb"
    and "fst ` set (tb_redirects tb) \<inter> tr_canonical_id ` active_rows tb = {}"
  shows "distinct (map fst (rebuild_redirects sha tb))"
proof -
  let ?ss = "active_states sha tb"
  let ?pairs = "zip ?ss (map (component_id ?ss (claim_graph (claims_of ?ss (alias_rows tb)))) [0..<length ?ss])"
  let ?m = "targets_of (map (\<lambda>(s, new). (rb_old_canonical_id s, new)) ?pairs)"
  have "fst ` set ?m = rb_old_canonical_id ` set (map fst ?pairs)"
    unfolding targets_keys by (simp only: set_map image_image case_prod_beta' fst_conv)
  also have "map fst ?pairs = ?ss" by simp
  also have "rb_old_canonical_id ` set ?ss = tr_canonical_id ` active_rows tb"
    by (simp add: active_states_set [OF assms(2)] image_image)
  finally have keys: "fst ` set ?m = tr_canonical_id ` active_rows tb" .
  have "inj_on fst (set (redirects_of ?m (tb_redirects tb)))"
  proof (rule inj_onI)
    fix p q assume p: "p \<in> set (redirects_of ?m (tb_redirects tb))"
      and q: "q \<in> set (redirects_of ?m (tb_redirects tb))" and eq: "fst p = fst q"
    from redirects_from [OF p] obtain a where a: "map_of ?m a = Some [snd p]"
      "(fst p, a) \<in> set (tb_redirects tb) \<or> (a = fst p \<and> fst p \<in> tr_canonical_id ` active_rows tb)"
      unfolding keys by blast
    from redirects_from [OF q] obtain b where b: "map_of ?m b = Some [snd q]"
      "(fst p, b) \<in> set (tb_redirects tb) \<or> (b = fst p \<and> fst p \<in> tr_canonical_id ` active_rows tb)"
      unfolding keys eq by blast
    have "fst p \<notin> tr_canonical_id ` active_rows tb" if "(fst p, c) \<in> set (tb_redirects tb)" for c
      using assms(3) that by force
    with a(2) b(2) bt_get_iff [OF assms(1), of "fst p"] have "a = b" by (metis option.inject)
    with a(1) b(1) eq show "p = q" by (simp add: prod_eq_iff)
  qed
  with redirects_distinct show ?thesis by (simp add: rebuild_redirects_def Let_def distinct_map)
qed

section \<open>Commits\<close>

lemma own_aliases_error:
  "own_aliases ss rows links st = Some (Err e) \<Longrightarrow>
     MAX_CANONICAL_REBUILD_RELATIONSHIPS < links + length rows \<or> (\<exists>row \<in> set rows. row_index ss (fst row) = None)"
proof (induction rows arbitrary: links st)
  case (Cons row rows)
  obtain rowid x where row: "row = (rowid, x)" by (cases row)
  show ?case
  proof (cases "MAX_CANONICAL_REBUILD_RELATIONSHIPS < links + 1 \<or> row_index ss rowid = None")
    case True
    with row show ?thesis by auto
  next
    case False
    then obtain k where "row_index ss rowid = Some k" by blast
    with Cons.prems row False obtain st' where "own_aliases ss rows (links + 1) st' = Some (Err e)"
      by (auto simp: bind_eq_Some_conv)
    from Cons.IH [OF this] show ?thesis by auto
  qed
qed simp

lemma alias_rows_indexed:
  assumes "sources_known tb" and "tables_wf tb" and "row \<in> set (alias_rows tb)"
  shows "row_index (active_states sha tb) (fst row) \<noteq> None"
proof -
  have "(fst row, snd row) \<in> set (alias_rows tb)" using assms(3) by simp
  then obtain c where "c \<in> active_rows tb" "tr_rowid c = fst row" unfolding alias_rows_iff by blast
  then obtain k where "row_at sha tb k c" using row_at_exists(1) [OF assms(1)] by blast
  with \<open>tr_rowid c = fst row\<close> show ?thesis
    using row_index_iff [OF active_states_distinct [OF assms(1,2), of sha], of "fst row" k]
    by (simp add: row_at_def)
qed

lemma write_rebuild_iff:
  "(\<exists>tb'. write_rebuild sha t roots pairs ids redirects tb = Ok tb') \<longleftrightarrow> distinct (map fst redirects)"
  using insert_redirects_iff [of redirects "[]"]
  by (simp add: write_rebuild_def ok_iff Let_def fold_insert_canonical)

lemma rebuild_writes_commit:
  assumes "tables_wf tb" and "sources_known tb" and "bt_wf (tb_redirects tb)"
    and "fst ` set (tb_redirects tb) \<inter> tr_canonical_id ` active_rows tb = {}"
    and "length (active_states sha tb) \<le> MAX_CANONICAL_REBUILD_RECORDS"
    and "length (active_states sha tb) + length (alias_rows tb) \<le> MAX_CANONICAL_REBUILD_RELATIONSHIPS"
  shows "\<exists>res tb'. rebuild_canonicalization sha (Some t) (Ok ()) tb = Some (Ok (res, tb'))"
  using rebuild_run [OF assms(5), of t]
proof (elim disjE exE conjE)
  fix e st1
  assume "own_aliases (active_states sha tb) (alias_rows tb) (length (active_states sha tb)) st1 = Some (Err e)"
  from own_aliases_error [OF this] assms(6)
  obtain row where "row \<in> set (alias_rows tb)" "row_index (active_states sha tb) (fst row) = None" by auto
  with alias_rows_indexed [OF assms(2,1)] show ?thesis by blast
next
  fix roots own res
  let ?E = "claim_graph (claims_of (active_states sha tb) (alias_rows tb))"
  assume run: "rebuild_canonicalization sha (Some t) (Ok ()) tb =
    Some (and_then (rebuild_writes sha t tb ?E roots own) (\<lambda>tb'. Ok (res, tb')))"
  have "distinct (map fst (rebuild_redirects sha tb))" by (rule redirects_single [OF assms(3,2,4)])
  then obtain tb' where "rebuild_writes sha t tb ?E roots own = Ok tb'"
    unfolding rebuild_writes_def rebuild_redirects_def Let_def using write_rebuild_iff by blast
  with run show ?thesis by simp
qed

text \<open>
  C20. Within its limits of 1,100,000 active records and 5,000,000 exact relationships a rebuild
  commits when no redirect leads away from a canonical id that an active record still has. Then
  no two redirects it writes start at the same id, the only thing that could make it fail.
\<close>

theorem rebuild_commits:
  assumes "tables_wf tb" and "sources_known tb" and "bt_wf (tb_redirects tb)"
    and "fst ` set (tb_redirects tb) \<inter> tr_canonical_id ` active_rows tb = {}"
    and "length (active_states sha tb) \<le> MAX_CANONICAL_REBUILD_RECORDS"
    and "length (active_states sha tb) + length (alias_rows tb) \<le> MAX_CANONICAL_REBUILD_RELATIONSHIPS"
  shows "\<exists>res tb'. rebuild_canonicalization sha (Some t) (Ok ()) tb = Some (Ok (res, tb'))"
  using rebuild_writes_commit [OF assms] .

section \<open>Reactivation\<close>

text \<open>
  A rebuild forgets the identifiers of inactive records, and the import of an unchanged record only
  makes it active again: such a record is active and no lookup by that identifier finds it.
\<close>

lemma reactivation_loses_identifier:
  assumes "tables_wf tb" and "sources_known tb" and r: "r \<in> set (tb_records tb)" "\<not> tr_active r"
    and i: "i \<in> exact_identifiers_of tb r" "\<forall>a \<in> active_rows tb. i \<notin> exact_identifiers_of tb a"
    and rebuild: "rebuild_canonicalization sha now ready tb = Some (Ok (res, tb1))"
    and unchanged: "tr_source_record_id r = or_id osv" "tr_raw_sha256 r = catalog_sha256 (km_sha env) raw"
  shows "\<exists>res2 tb2. import_osv_record_tx env s (tr_source_id r) osv raw t u res1 tb1 = Ok (res2, tb2) \<and>
    (\<exists>a \<in> active_rows tb2. tr_rowid a = tr_rowid r) \<and> records_of_identifier i tb2 = []"
proof -
  note recs = rebuild_records [OF assms(1,2) rebuild]
  have ids: "map_of (tb_identifiers tb1) i = None"
    using rebuild_identifiers [OF assms(1,2) rebuild] i(2) by (metis option.exhaust)
  have mem: "r \<in> set (tb_records tb1)" using r by (force simp: recs)
  have dist: "distinct (map (\<lambda>r. (tr_source_id r, tr_source_record_id r)) (tb_records tb1))"
  proof -
    have "map (\<lambda>r. (tr_source_id r, tr_source_record_id r)) (tb_records tb1) =
        map (\<lambda>r. (tr_source_id r, tr_source_record_id r)) (tb_records tb)" by (simp add: recs)
    with assms(1) show ?thesis by (simp add: tables_wf_def)
  qed
  obtain old where old: "find_record (tr_source_id r) (or_id osv) tb1 = Some old"
    using find_record_None [of "tr_source_id r" "or_id osv" tb1 r] mem unchanged(1) by (cases "find_record (tr_source_id r) (or_id osv) tb1") auto
  from find_record_Some [OF this] have "old \<in> set (tb_records tb1)"
    "(tr_source_id old, tr_source_record_id old) = (tr_source_id r, tr_source_record_id r)"
    using unchanged(1) by simp_all
  with mem dist have "old = r" unfolding distinct_map by (blast dest: inj_onD)
  with old unchanged(2) have run: "import_osv_record_tx env s (tr_source_id r) osv raw t u res1 tb1 =
      Ok (res1\<lparr>in_records_unchanged := in_records_unchanged res1 + 1\<rparr>, reactivate (tr_source_id r) osv r u tb1)"
    by (simp add: import_osv_record_tx_def)
  have "\<exists>a \<in> active_rows (reactivate (tr_source_id r) osv r u tb1). tr_rowid a = tr_rowid r"
  proof
    let ?tb = "reactivate (tr_source_id r) osv r u tb1"
    have "tb_records ?tb = map (\<lambda>row. if tr_source_id row = tr_source_id r \<and>
        tr_source_record_id row = or_id osv then row\<lparr>tr_active := True\<rparr> else row) (tb_records tb1)"
      by (simp add: reactivate_def insert_fts_def Let_def)
    then have "r\<lparr>tr_active := True\<rparr> \<in> set (tb_records ?tb)"
      using mem unchanged(1) by (auto intro!: image_eqI [of _ _ r])
    then show "r\<lparr>tr_active := True\<rparr> \<in> active_rows ?tb" by (simp add: active_rows_def)
  qed simp
  moreover have "records_of_identifier i (reactivate (tr_source_id r) osv r u tb1) = []"
    using ids by (simp add: records_of_identifier_def reactivate_def insert_fts_def Let_def)
  ultimately show ?thesis using run by blast
qed

text \<open>Two redirects from one id: a redirect whose start is in use again blocks the rebuild.\<close>

lemma live_redirect_conflicts:
  "insert_redirects (redirects_of [(''c'', [''e'']), (''d'', [''d''])] [(''c'', ''d'')]) [] = Err constraint_error"
  by (simp add: redirects_of_def add_redirect_def insort_insert_key_def bt_contains_def less_char_def)

section \<open>Example\<close>

text \<open>Three active records: the first names the second, the third stands alone.\<close>

definition sample_row :: "int \<Rightarrow> string \<Rightarrow> string \<Rightarrow> record_row" where
  "sample_row rowid rid cid = \<lparr>tr_rowid = rowid, tr_source_id = 1, tr_source_record_id = rid,
     tr_canonical_id = cid, tr_modified_at = ''t'', tr_published_at = None, tr_withdrawn_at = None,
     tr_title = rid, tr_details = [], tr_raw_sha256 = rid, tr_revision_id = rowid, tr_active = True\<rparr>"

definition sample_catalog :: catalog_tables where
  "sample_catalog = empty_tables\<lparr>
     tb_sources := [\<lparr>tz_source_id = 1, tz_name = ''s'', tz_license_expression = ''l'',
       tz_license_evidence_sha256 = [], tz_locator = ''u'', tz_first_imported_at = ''t'',
       tz_last_imported_at = ''t''\<rparr>],
     tb_records := [sample_row 1 ''A'' ''x'', sample_row 2 ''B'' ''y'', sample_row 3 ''C'' ''z''],
     tb_relationships := [\<lparr>tl_rowid = 1, tl_kind = ''alias'', tl_identifier = ''B''\<rparr>]\<rparr>"

lemmas sample_catalog_defs = sample_catalog_def empty_tables_def sample_row_def

lemma sample_catalog_wf [simp]: "tables_wf sample_catalog" "sources_known sample_catalog"
  by (simp_all add: tables_wf_def sources_known_def source_name_of_def sample_catalog_defs)

lemma sample_catalog_rows:
  "active_rows sample_catalog = {sample_row 1 ''A'' ''x'', sample_row 2 ''B'' ''y'', sample_row 3 ''C'' ''z''}"
  by (auto simp: active_rows_def sample_catalog_defs)

lemma sample_catalog_small:
  "length (active_states last_sha sample_catalog) \<le> MAX_CANONICAL_REBUILD_RECORDS"
  "length (active_states last_sha sample_catalog) + length (alias_rows sample_catalog)
     \<le> MAX_CANONICAL_REBUILD_RELATIONSHIPS"
  by (simp_all add: active_states_def alias_rows_def List.map_filter_def sample_catalog_defs source_name_of_def
      MAX_CANONICAL_REBUILD_RECORDS_def MAX_CANONICAL_REBUILD_RELATIONSHIPS_def)

lemma sample_catalog_redirects:
  "bt_wf (tb_redirects sample_catalog)"
  "fst ` set (tb_redirects sample_catalog) \<inter> tr_canonical_id ` active_rows sample_catalog = {}"
  by (simp_all add: sample_catalog_defs)

theorem rebuild_commits_witness:
  "\<exists>res tb. rebuild_canonicalization last_sha (Some ''now'') (Ok ()) sample_catalog = Some (Ok (res, tb))"
  using rebuild_commits [OF sample_catalog_wf sample_catalog_redirects sample_catalog_small] .

theorem rebuild_components_witness:
  "\<exists>res tb cid. rebuild_canonicalization last_sha (Some ''now'') (Ok ()) sample_catalog = Some (Ok (res, tb)) \<and>
     map_of (tb_identifiers tb) ''A'' = Some cid \<and> map_of (tb_identifiers tb) ''B'' = Some cid"
proof -
  let ?a = "sample_row 1 ''A'' ''x''" and ?b = "sample_row 2 ''B'' ''y''"
  obtain res tb where run:
      "rebuild_canonicalization last_sha (Some ''now'') (Ok ()) sample_catalog = Some (Ok (res, tb))"
    using rebuild_writes_commit [OF sample_catalog_wf sample_catalog_redirects sample_catalog_small] by blast
  note components = rebuild_components [OF sample_catalog_wf run]
  have rows: "?a \<in> active_rows sample_catalog" "?b \<in> active_rows sample_catalog"
    by (simp_all add: sample_catalog_rows)
  have "inj_on (candidate_of_row last_sha sample_catalog) (active_rows sample_catalog)"
    unfolding sample_catalog_rows
    by (simp add: candidate_of_row_def sample_row_def canonical_id_last hex_byte_def hex_digit_def byte_def)
  moreover have "same_advisory sample_catalog ?a ?b"
  proof (rule same_step [OF same_here [OF rows(1)] rows(2)])
    have "''B'' \<in> exact_identifiers_of sample_catalog ?a \<inter> exact_identifiers_of sample_catalog ?b"
      by (auto simp: exact_identifiers_of_def sample_catalog_defs)
    then show "exact_identifiers_of sample_catalog ?a \<inter> exact_identifiers_of sample_catalog ?b \<noteq> {}" by blast
  qed
  ultimately have "rebuilt_canonical last_sha sample_catalog ?a = rebuilt_canonical last_sha sample_catalog ?b"
    using components rows by blast
  moreover have "''A'' \<in> exact_identifiers_of sample_catalog ?a" "''B'' \<in> exact_identifiers_of sample_catalog ?b"
    by (simp_all add: exact_identifiers_of_def sample_row_def)
  ultimately have "map_of (tb_identifiers tb) ''A'' = Some (rebuilt_canonical last_sha sample_catalog ?a)"
    "map_of (tb_identifiers tb) ''B'' = Some (rebuilt_canonical last_sha sample_catalog ?a)"
    using components rows by metis+
  with run show ?thesis by blast
qed

end
