(* ===== verification/Spec2Isabelle.thy ===== *)
theory Spec2Isabelle
  imports Orchestrator SecurityCase RunAuthority WebFindings WebPilot LedgerHistory TrustWitnesses
    CorrelationFacts RedirectFacts
begin

text \<open>
  SecureFlow turns the report of a static security engine into a run manifest, lets people review
  its findings, lets an AI provider comment on them within strict limits, and carries the result
  into orchestration plans, security cases, web assessments and a knowledge ledger. A catalog of
  advisories gives its context: it imports records, brings those that name one vulnerability under
  one canonical id, and answers package queries, from which a correlation document is built; it is
  distributed in bundles that a trust store authenticates. The rule that
  the whole program is built around is that only people decide: every artifact that records a
  decision validates itself whenever it is read, and every operation reads, derives and writes a
  complete artifact or fails. This development models the crates that make these artifacts and
  proves that the rule holds through every sequence of their operations.

  \<^bold>\<open>Theories and code.\<close>
  \<^item> \<open>Prelude\<close>: Rust results and the validation loops, UTF-8 strings, digests and hexadecimal
    identifiers, orders, keyed lists, and the interfaces as locales: \<open>contract\<close> (what a validation
    method accepts), \<open>hex_encoder\<close>, \<open>decision_machine\<close> and \<open>human_authority\<close> (commands that keep
    an artifact valid and its decisions final, and where decisions come from),
    \<open>machine_refinement\<close>. \<open>Json\<close> is \<open>serde_json::Value\<close>; \<open>NetAddress\<close> is the textual parser of
    \<open>std::net::IpAddr\<close>. \<open>Samples\<close> holds the concrete inputs of the witnesses.
  \<^item> \<open>RunModel\<close>, \<open>RunValidate\<close>, \<open>FindingOrder\<close>, \<open>RunReview\<close>: \<open>secureflow-model\<close>, that is
    the run manifest with every \<open>validate\<close> method, \<open>prioritize_findings\<close>, \<open>deduplicate_findings\<close>,
    \<open>refresh_summary\<close>, and the command \<open>review-run\<close> of \<open>secureflow-cli\<close>.
  \<^item> \<open>Orchestrator\<close>: \<open>secureflow-orchestrator\<close>, \<open>derive_plan\<close> and the validation of plans.
  \<^item> \<open>SecureReview\<close>: the contracts of \<open>secureflow-secure-adapter\<close> and \<open>import_review\<close>.
  \<^item> \<open>SecurityCase\<close>: \<open>secureflow-case\<close>, its commands and the tools of its agent server.
  \<^item> \<open>AiAdvisory\<close>, \<open>RunAuthority\<close>: \<open>secureflow-ai\<close>, the redaction filter, requests,
    responses and \<open>apply_response\<close>; then runs under any interleaving of reviews and answers.
  \<^item> \<open>WebScope\<close>, \<open>WebAssessment\<close>, \<open>WebFindings\<close>, \<open>WebPilot\<close>: \<open>scope.rs\<close>, \<open>assessment.rs\<close> and
    \<open>pilot.rs\<close> of \<open>secureflow-web\<close>; \<open>WebFindings\<close> holds the statements about assessments.
  \<^item> \<open>KnowledgeLedger\<close>, \<open>LedgerFacts\<close>, \<open>LedgerHistory\<close>: \<open>lib.rs\<close> of
    \<open>secureflow-knowledge\<close>; the first is the model, the others its proofs. \<open>MachineInts\<close> holds the
    byte framing of hashed fields and saturating arithmetic, \<open>SortedMap\<close> the maps of the
    standard library in key order.
  \<^item> \<open>CatalogBundle\<close>, \<open>BundleInstall\<close>, \<open>BundleFacts\<close>: \<open>catalog_bundle.rs\<close>, that is the manifest
    of a bundle and its validation, then reading, decompressing and publishing it, and the proofs.
  \<^item> \<open>VersionEvaluation\<close>, \<open>CatalogQuery\<close>, \<open>Correlation\<close>: the evaluation of a version against the
    ranges and enumerations of an advisory and the package queries of \<open>catalog.rs\<close>, and
    \<open>correlation.rs\<close>. \<open>VersionFacts\<close> reads a list of events as intervals and \<open>CorrelationFacts\<close>
    follows a query into the document made of it.
  \<^item> \<open>OsvRecords\<close>, \<open>CatalogTables\<close>, \<open>CatalogImport\<close>, \<open>DisjointSets\<close>, \<open>Canonicalization\<close>: the
    records and their validation, the tables with the statements executed on them,
    \<open>import_osv_batch\<close>, and \<open>rebuild_canonicalization\<close> with its union-find structure, all of
    \<open>catalog.rs\<close>. \<open>CatalogFacts\<close> holds the invariant of imports; \<open>CanonicalFacts\<close>,
    \<open>RebuildFacts\<close> and \<open>RedirectFacts\<close> what a rebuild computes, that it returns, when it commits.
  \<^item> The catalog trust, \<open>catalog_trust/\<close>: \<open>TrustWire\<close> (\<open>wire.rs\<close>, proofs in \<open>WireFacts\<close>),
    \<open>TrustTypes\<close> (\<open>types.rs\<close>), \<open>TrustStorage\<close> (\<open>storage.rs\<close>), \<open>TrustConsumer\<close> (\<open>consumer.rs\<close>),
    \<open>TrustInstall\<close> (\<open>install.rs\<close>) and \<open>TrustCommands\<close> (the commands of \<open>mod.rs\<close>). A session's
    methods change the session and the files, and an error keeps what was changed before it:
    \<open>FallibleOps\<close> has the monad and the locale \<open>step_preorder\<close>, with which a relation between the
    session before and after is proved method by method; \<open>goes\<close> (\<open>TrustOrder\<close>: nothing is rolled
    back) and \<open>spared\<close> (\<open>TrustOutcome\<close>: other files stay) are its interpretations.
    \<open>TrustOrder\<close>, \<open>TrustHistory\<close>, \<open>TrustAcceptance\<close> and \<open>TrustInstallation\<close> hold the statements
    about any sequence of sessions, about one import and about one installation;
    \<open>TrustSamples\<close> and \<open>TrustWitnesses\<close> evaluate them on a small publisher.

  A Rust struct is a record with prefixed fields, an enum a datatype, a fallible function returns
  the sum of its error type and its value, an unsigned integer is a word of its width, and a
  string is its bytes. A validation method is a sequence of checks in the order of the code, so
  its first error is the code's. For each method \<open>validate_x\<close> a predicate \<open>x_wf\<close> says what it
  accepts; the facts \<open>ok_iff\<close> connect them, and the later proofs speak of the predicates.

  \<^bold>\<open>What the lemmas show.\<close> For each artifact: which inputs are accepted (the
  \<open>succeeds_iff\<close> theorems give the exact conditions, errors included), what an operation changes
  and leaves, and that it yields a valid artifact. Over time: \<open>run_decisions_final\<close>,
  \<open>case_decisions_final\<close>, \<open>web_confirmations_final\<close> and \<open>ledger_append_only\<close> hold for every
  sequence of operations, failing ones included; \<open>run_refines_board\<close> is a refinement of an
  abstract review board. \<open>trust_state_never_goes_back\<close>, \<open>root_lineage\<close> and
  \<open>completed_receipts_final\<close> do the same for a trust store, whatever fails or changes outside it;
  \<open>install_authorized\<close> ties an installed file to the signatures. Reference definitions: stable sorting, duplicates of findings, a table of the
  assessment's rules, the reserved blocks of addresses, the observation that a fingerprint stands for, the intervals of a version
  range, the components of records that share exact identifiers (\<open>rebuild_components\<close>). Bounds:
  request budgets of a pilot's session, token sums, the depth of the disjoint sets. Where the code falls short of its documents, a theorem says how,
  and the manifest lists it as a finding.

  \<^bold>\<open>Parameters.\<close> SHA-256 is a function \<open>sha\<close>; that a digest has 32 bytes is a named hypothesis,
  and absence of collisions is assumed for the inputs at hand only where a theorem needs it.
  RFC 3339 parsing is a function \<open>ts\<close> to instants. JSON serialization and parsing are functions;
  a theorem about a document that is written and read back assumes just that it reads back. The
  clock, and the outcomes of file system calls, are arguments: \<open>trust_system\<close> and \<open>publish_io\<close> hold
  the answers of the system, which may change with every replacement of the state, and
  \<open>opened_bundle\<close> what reading and decompressing a bundle gives. \<open>bundle_env\<close>, \<open>wire_env\<close>,
  \<open>trust_env\<close> and \<open>session_env\<close> collect the crates behind the catalog: JSON, canonical JSON, JSON
  schemas, Ed25519, the TUF client (a type \<open>'db\<close> with its updates, of which nothing is assumed).
  \<open>version_env\<close> has the parser and the order of the crate \<open>semver\<close>, \<open>catalog_db\<close> the rows of the
  package queries, \<open>catalog_import_env\<close> the JSON of records. The database as such is not a
  parameter of import and rebuild: their SQL statements are operations on the tables, with the
  keys, conflict clauses and row ids of the schema. No loop of the modelled code needs
  fuel: all recursion is structural or has a measure, but for \<open>find\<close> of the disjoint sets, whose
  parent chain could be cyclic; it is a partial function, \<open>None\<close> is a run that does not return, and
  \<open>disjoint_sets_total\<close> and \<open>rebuild_returns\<close> prove that this never happens.

  \<^bold>\<open>Not modelled.\<close> Argument parsing, printing and the file access of the command line; the
  display texts of errors; of the advisory catalog the opening and migration of the database, the
  registration and completion of snapshots and deltas, text search and its ranking, the
  distribution of profiles and backups; the creation of bundles and the producer of
  \<open>secureflow-knowledge\<close>; the
  process control of the engine adapter and the benchmark adapters; the route inventory,
  inference, laboratory and corpora of \<open>secureflow-web\<close>; the Git and file system reads of the
  Secure Skill adapter; the TypeScript review room. File modes and the names of temporary files
  are left out of the ledger's atomic write; every other outcome of its calls, the failing removal
  of a temporary file included, is an argument.
\<close>

end
